(* ===== verification/Prelude.thy ===== *)
theory Prelude
  imports Main
begin

text \<open>
  What every component shares: how a C function that may not return normally is
  modelled (\<open>result\<close>), sequencing of such functions (\<open>rbind\<close>, \<open>rmap\<close>, \<open>rfold\<close>),
  arrays with uninitialised cells (\<open>cell\<close>), C strings (\<open>strrchr\<close>), and the generic
  lemmas on them.
\<close>

section \<open>Results of C functions\<close>

text \<open>
  A C function fails to return in four ways that matter here: a failed \<open>assert\<close>, a call of
  \<open>exit (n)\<close>, waiting for ever, and undefined behaviour (a null or indeterminate pointer, an access out of
  bounds, a buffer overflow), which is a value of its own so that no theorem can hide it.
\<close>

datatype failure = Assertion | Exit int | Undefined | Blocked

type_synonym 'a result = "failure + 'a"

named_theorems result_simps \<open>evaluation of results\<close>

definition rbind :: "'a result \<Rightarrow> ('a \<Rightarrow> 'b result) \<Rightarrow> 'b result" where
  "rbind m k = (case m of Inl e \<Rightarrow> Inl e | Inr x \<Rightarrow> k x)"

lemma rbind_simps [simp, result_simps]:
  "rbind (Inl e) k = Inl e"
  "rbind (Inr x) k = k x"
  by (simp_all add: rbind_def)

lemma rbind_Inr_iff [result_simps]:
  "rbind m k = Inr y \<longleftrightarrow> (\<exists>x. m = Inr x \<and> k x = Inr y)"
  by (cases m) auto

lemma rbind_InrE [elim]:
  assumes "rbind m k = Inr y"
  obtains x where "m = Inr x" and "k x = Inr y"
  using assms by (auto simp: result_simps)

lemma rbind_Inl_iff [result_simps]:
  "rbind m k = Inl e \<longleftrightarrow> m = Inl e \<or> (\<exists>x. m = Inr x \<and> k x = Inl e)"
  by (cases m) auto

lemma rbind_assoc [result_simps]:
  "rbind (rbind m k) h = rbind m (\<lambda>x. rbind (k x) h)"
  by (cases m) simp_all

lemma rbind_cong [fundef_cong]:
  "m = m' \<Longrightarrow> (\<And>x. m' = Inr x \<Longrightarrow> k x = k' x) \<Longrightarrow> rbind m k = rbind m' k'"
  by (cases m') auto

definition rmap :: "('a \<Rightarrow> 'b) \<Rightarrow> 'a result \<Rightarrow> 'b result" where
  "rmap f m = rbind m (\<lambda>x. Inr (f x))"

lemma rmap_simps [simp, result_simps]:
  "rmap f (Inl e) = Inl e"
  "rmap f (Inr x) = Inr (f x)"
  by (simp_all add: rmap_def)

lemma rmap_Inr_iff [result_simps]: "rmap f m = Inr y \<longleftrightarrow> (\<exists>x. m = Inr x \<and> y = f x)"
  by (cases m) auto

text \<open>A loop over a list whose body may stop the program.\<close>

fun rfold :: "('a \<Rightarrow> 's \<Rightarrow> 's result) \<Rightarrow> 'a list \<Rightarrow> 's \<Rightarrow> 's result" where
  "rfold f [] s = Inr s"
| "rfold f (x # xs) s = rbind (f x s) (rfold f xs)"

lemma rfold_append [simp]: "rfold f (xs @ ys) s = rbind (rfold f xs s) (rfold f ys)"
  by (induction xs arbitrary: s) (simp_all add: rbind_def split: sum.splits)

text \<open>An invariant kept by every body that returns is kept by the loop.\<close>

lemma rfold_invariant:
  assumes "\<And>x s s'. x \<in> set xs \<Longrightarrow> P s \<Longrightarrow> f x s = Inr s' \<Longrightarrow> P s'"
    and "P s" and "rfold f xs s = Inr s'"
  shows "P s'"
  using assms
proof (induction xs arbitrary: s)
  case (Cons x xs)
  from Cons.prems(3) obtain t where "f x s = Inr t" and "rfold f xs t = Inr s'"
    by auto
  then show ?case using Cons.IH [of t] Cons.prems(1,2) by (meson list.set_intros)
qed simp

text \<open>A relation kept by every body that returns, if reflexive and transitive, relates the ends.\<close>

lemma rfold_relation:
  assumes "\<And>x s s'. f x s = Inr s' \<Longrightarrow> R s s'"
    and "\<And>s. R s s" and "\<And>s t u. R s t \<Longrightarrow> R t u \<Longrightarrow> R s u"
    and "rfold f xs s = Inr s'"
  shows "R s s'"
  using assms(4)
proof (induction xs arbitrary: s)
  case Nil
  then show ?case using assms(2) by simp
next
  case (Cons x xs)
  then obtain t where "f x s = Inr t" and "rfold f xs t = Inr s'"
    by auto
  then show ?case using Cons.IH assms(1,3) by blast
qed

text \<open>Steps of a state one after the other.\<close>

definition in_order :: "('s \<Rightarrow> 's result) list \<Rightarrow> 's \<Rightarrow> 's result" where
  "in_order fs = rfold (\<lambda>f. f) fs"

lemma in_order_simps [simp]: "in_order [] s = Inr s" "in_order (f # fs) s = rbind (f s) (in_order fs)"
  by (simp_all add: in_order_def)

lemma in_order_append: "in_order (fs @ gs) s = rbind (in_order fs s) (in_order gs)"
  by (simp add: in_order_def)

text \<open>A loop that collects one value per element.\<close>

fun rcollect :: "('a \<Rightarrow> 'b result) \<Rightarrow> 'a list \<Rightarrow> 'b list result" where
  "rcollect f [] = Inr []"
| "rcollect f (x # xs) = rbind (f x) (\<lambda>y. rmap (\<lambda>ys. y # ys) (rcollect f xs))"

lemma rcollect_Inr: "(\<And>x. x \<in> set xs \<Longrightarrow> f x = Inr (g x)) \<Longrightarrow> rcollect f xs = Inr (map g xs)"
  by (induction xs) simp_all

section \<open>Arrays\<close>

text \<open>
  A heap array is a list of cells; \<open>None\<close> is a cell that was never written. Reading such a
  cell, or an index outside the array, is undefined behaviour.
\<close>

definition cell :: "'a option list \<Rightarrow> nat \<Rightarrow> 'a result" where
  "cell xs i = (if i < length xs then (case xs ! i of None \<Rightarrow> Inl Undefined | Some x \<Rightarrow> Inr x)
     else Inl Undefined)"

definition cell_set :: "'a option list \<Rightarrow> nat \<Rightarrow> 'a \<Rightarrow> 'a option list result" where
  "cell_set xs i v = (if i < length xs then Inr (xs[i := Some v]) else Inl Undefined)"

lemma cell_Inr_iff [result_simps]: "cell xs i = Inr v \<longleftrightarrow> i < length xs \<and> xs ! i = Some v"
  by (auto simp: cell_def split: option.splits)

lemma cell_map_Some [simp]: "i < length xs \<Longrightarrow> cell (map Some xs @ ys) i = Inr (xs ! i)"
  by (simp add: cell_def nth_append)

lemma cell_set_Inr_iff [result_simps]:
  "cell_set xs i v = Inr ys \<longleftrightarrow> i < length xs \<and> ys = xs[i := Some v]"
  by (auto simp: cell_set_def)

section \<open>C strings\<close>

text \<open>\<open>strrchr\<close>: the index of the last occurrence, \<open>None\<close> for the null pointer.\<close>

fun strrchr :: "string \<Rightarrow> char \<Rightarrow> nat option" where
  "strrchr [] c = None"
| "strrchr (x # xs) c =
     (case strrchr xs c of Some i \<Rightarrow> Some (Suc i) | None \<Rightarrow> if x = c then Some 0 else None)"

lemma strrchr_None_iff: "strrchr xs c = None \<longleftrightarrow> c \<notin> set xs"
  by (induction xs) (auto split: option.splits)

lemma strrchr_Some_iff:
  "strrchr xs c = Some i \<longleftrightarrow>
     i < length xs \<and> xs ! i = c \<and> c \<notin> set (drop (Suc i) xs)"
proof (induction xs arbitrary: i)
  case (Cons x xs)
  show ?case
  proof (cases "strrchr xs c")
    case None
    then have "c \<notin> set xs" by (simp add: strrchr_None_iff)
    then show ?thesis by (cases i) (auto simp: None dest: nth_mem)
  next
    case (Some j)
    then have "c \<in> set xs" by (metis option.distinct(1) strrchr_None_iff)
    then show ?thesis by (cases i) (simp_all add: Some flip: Cons.IH)
  qed
qed simp

lemma strrchr_append_Cons: "c \<notin> set ys \<Longrightarrow> strrchr (xs @ c # ys) c = Some (length xs)"
  by (simp add: strrchr_Some_iff)

section \<open>Lists\<close>

lemma filter_empty_iff_all: "filter P xs = [] \<longleftrightarrow> (\<forall>x \<in> set xs. \<not> P x)"
  by (simp add: filter_empty_conv)

lemma list_all_update [intro]: "list_all P xs \<Longrightarrow> P y \<Longrightarrow> list_all P (xs[i := y])"
  by (auto simp: list_all_iff dest: set_update_subset_insert [THEN subsetD])

lemma take_Suc_last: "xs \<noteq> [] \<Longrightarrow> take (Suc (length xs - 1)) xs = xs"
  by simp

text \<open>The first position of a value in a list.\<close>

fun first_index :: "'a \<Rightarrow> 'a list \<Rightarrow> nat option" where
  "first_index x [] = None"
| "first_index x (y # ys) = (if y = x then Some 0 else map_option Suc (first_index x ys))"

lemma first_index_nth: "distinct ys \<Longrightarrow> k < length ys \<Longrightarrow> first_index (ys ! k) ys = Some k"
  by (induction ys arbitrary: k) (auto simp: nth_Cons split: nat.splits)

lemma first_index_None_iff: "first_index x ys = None \<longleftrightarrow> x \<notin> set ys"
  by (induction ys) auto

lemma first_index_SomeD:
  "first_index x ys = Some k \<Longrightarrow> k < length ys \<and> ys ! k = x \<and> x \<notin> set (take k ys)"
  by (induction ys arbitrary: k) (auto split: if_splits)

lemma first_index_append_in: "x \<in> set ys \<Longrightarrow> first_index x (ys @ zs) = first_index x ys"
  by (induction ys) auto

lemma first_index_in_set: "x \<in> set ys \<Longrightarrow> \<exists>k. first_index x ys = Some k"
  by (metis first_index_None_iff not_None_eq)

text \<open>The number a search loop of the sources returns: the index, or -1.\<close>

definition index_or_minus1 :: "'a \<Rightarrow> 'a list \<Rightarrow> int" where
  "index_or_minus1 x ys = (case first_index x ys of None \<Rightarrow> -1 | Some k \<Rightarrow> int k)"

lemma index_or_minus1_neg_iff [simp]: "index_or_minus1 x ys < 0 \<longleftrightarrow> x \<notin> set ys"
  by (auto simp: index_or_minus1_def simp flip: first_index_None_iff split: option.splits)

lemma index_or_minus1_append: "x \<in> set ys \<Longrightarrow> index_or_minus1 x (ys @ zs) = index_or_minus1 x ys"
  by (simp add: index_or_minus1_def first_index_append_in)

text \<open>The first position whose element passes a test, and a list without a position.\<close>

fun find_index :: "('a \<Rightarrow> bool) \<Rightarrow> 'a list \<Rightarrow> nat option" where
  "find_index P [] = None"
| "find_index P (x # xs) = (if P x then Some 0 else map_option Suc (find_index P xs))"

lemma find_index_None: "find_index P xs = None \<longleftrightarrow> (\<forall>x \<in> set xs. \<not> P x)"
  by (induction xs) auto

lemma find_index_Some:
  "find_index P xs = Some k \<longleftrightarrow> k < length xs \<and> P (xs ! k) \<and> (\<forall>j < k. \<not> P (xs ! j))"
proof (induction xs arbitrary: k)
  case (Cons x xs)
  show ?case by (cases k) (auto simp: Cons.IH All_less_Suc2)
qed simp

definition without_nth :: "nat \<Rightarrow> 'a list \<Rightarrow> 'a list" where
  "without_nth k xs = take k xs @ drop (Suc k) xs"

section \<open>Numbers in texts\<close>

definition is_digit :: "char \<Rightarrow> bool" where
  "is_digit c \<longleftrightarrow> 48 \<le> (of_char c :: nat) \<and> (of_char c :: nat) \<le> 57"

definition digit_value :: "char \<Rightarrow> nat" where
  "digit_value c = of_char c - 48"

fun digits_value :: "nat \<Rightarrow> string \<Rightarrow> nat" where
  "digits_value n [] = n"
| "digits_value n (c # s) = (if is_digit c then digits_value (10 * n + digit_value c) s else n)"

definition is_space :: "char \<Rightarrow> bool" where
  "is_space c \<longleftrightarrow> (of_char c :: nat) \<in> {9, 10, 11, 12, 13, 32}"

text \<open>\<open>atoi\<close>, \<open>atol\<close>, \<open>atoll\<close> with a result of \<open>w\<close> bits: undefined out of their range.\<close>

definition text_int :: "string \<Rightarrow> int" where
  "text_int s = (case dropWhile is_space s of
       [] \<Rightarrow> 0
     | c # t \<Rightarrow> if c = CHR ''-'' then - int (digits_value 0 t)
         else if c = CHR ''+'' then int (digits_value 0 t) else int (digits_value 0 (c # t)))"

definition ato :: "nat \<Rightarrow> string \<Rightarrow> int result" where
  "ato w s = (if - (2 ^ (w - 1)) \<le> text_int s \<and> text_int s < 2 ^ (w - 1) then Inr (text_int s)
     else Inl Undefined)"

end
