(* ===== verification/Param_Metadata.thy ===== *)
theory Param_Metadata
  imports Prelude
begin

text \<open>
  The enumerations of \<open>bindings-common/src/param_metadata.h\<close>: data types, directions and
  streams of task parameters, with the integers the C compiler gives their enumerators.
  The generated code prints these integers and the runtime binding reads them back.
\<close>

section \<open>enum datatype\<close>

datatype dtype =
    boolean_dt | char_dt | byte_dt | short_dt | int_dt | long_dt | float_dt | double_dt
  | string_dt | file_dt | object_dt | psco_dt | external_psco_dt
  | wchar_dt | wstring_dt | longlong_dt | void_dt | any_dt | null_dt

fun dt_code :: "dtype \<Rightarrow> int" where
  "dt_code boolean_dt = 0"
| "dt_code char_dt = 1"
| "dt_code byte_dt = 2"
| "dt_code short_dt = 3"
| "dt_code int_dt = 4"
| "dt_code long_dt = 5"
| "dt_code float_dt = 6"
| "dt_code double_dt = 7"
| "dt_code string_dt = 8"
| "dt_code file_dt = 9"
| "dt_code object_dt = 10"
| "dt_code psco_dt = 11"
| "dt_code external_psco_dt = 12"
| "dt_code wchar_dt = 13"
| "dt_code wstring_dt = 14"
| "dt_code longlong_dt = 15"
| "dt_code void_dt = 16"
| "dt_code any_dt = 17"
| "dt_code null_dt = 18"

text \<open>The enumerators in order: also the index into the tables of type names of the back end.\<close>

definition dtypes :: "dtype list" where
  "dtypes = [boolean_dt, char_dt, byte_dt, short_dt, int_dt, long_dt, float_dt, double_dt,
     string_dt, file_dt, object_dt, psco_dt, external_psco_dt,
     wchar_dt, wstring_dt, longlong_dt, void_dt, any_dt, null_dt]"

lemma set_dtypes: "set dtypes = UNIV"
proof -
  have "t \<in> set dtypes" for t by (cases t) (simp_all add: dtypes_def)
  then show ?thesis by blast
qed

lemma distinct_dtypes: "distinct dtypes"
  by (simp add: dtypes_def)

instantiation dtype :: enum
begin

definition enum_dtype :: "dtype list" where
  "enum_dtype = dtypes"

definition enum_all_dtype :: "(dtype \<Rightarrow> bool) \<Rightarrow> bool" where
  "enum_all_dtype P = list_all P dtypes"

definition enum_ex_dtype :: "(dtype \<Rightarrow> bool) \<Rightarrow> bool" where
  "enum_ex_dtype P = list_ex P dtypes"

instance
  by standard
    (simp_all add: enum_dtype_def enum_all_dtype_def enum_ex_dtype_def set_dtypes
      distinct_dtypes list_all_iff list_ex_iff)

end

text \<open>The cast \<open>(enum datatype) n\<close>: \<open>None\<close> where \<open>n\<close> is no enumerator.\<close>

definition dt_of_code :: "int \<Rightarrow> dtype option" where
  "dt_of_code n = (if 0 \<le> n \<and> n < int (length dtypes) then Some (dtypes ! nat n) else None)"

lemma dt_of_code [simp]: "dt_of_code (dt_code t) = Some t"
  by (cases t) (simp_all add: dt_of_code_def dtypes_def)

lemma dt_code_eq_iff [simp]: "dt_code s = dt_code t \<longleftrightarrow> s = t"
  by (metis dt_of_code option.inject)

lemma dt_code_range: "0 \<le> dt_code t" "dt_code t < 19"
  by (cases t, simp_all)+

section \<open>enum direction\<close>

datatype direction = in_dir | out_dir | inout_dir | null_dir

fun dir_code :: "direction \<Rightarrow> int" where
  "dir_code in_dir = 0"
| "dir_code out_dir = 1"
| "dir_code inout_dir = 2"
| "dir_code null_dir = 3"

definition dir_of_code :: "int \<Rightarrow> direction option" where
  "dir_of_code n = (if n = 0 then Some in_dir else if n = 1 then Some out_dir
     else if n = 2 then Some inout_dir else if n = 3 then Some null_dir else None)"

lemma dir_of_code [simp]: "dir_of_code (dir_code d) = Some d"
  by (cases d) (simp_all add: dir_of_code_def)

section \<open>enum stream\<close>

datatype stream = STD_IN | STD_OUT | STD_ERR | UNSPECIFIED

fun stream_code :: "stream \<Rightarrow> int" where
  "stream_code STD_IN = 0"
| "stream_code STD_OUT = 1"
| "stream_code STD_ERR = 2"
| "stream_code UNSPECIFIED = 3"

end
