(* ===== verification/Semantic.thy ===== *)
theory Semantic
  imports Param_Metadata
begin

text \<open>
  The semantic actions of the interface compiler, \<open>compssgen/semantic.c\<close>: the static variables
  of the file as one record, one definition per function, the well-formedness invariant that
  every action keeps, and the meaning of the error flag. The linked lists of functions and
  arguments are lists in the order of the links; a pointer to the current element is its
  position. What \<open>malloc\<close> returns is an argument: the fields an action does not write keep
  whatever contents the block had.
\<close>

section \<open>The data model of semantic.h\<close>

record argument =
  arg_name :: string
  arg_classname :: "string option"
  arg_type :: dtype
  arg_dir :: direction
  arg_stream :: stream
  passing_in_order :: int
  passing_out_order :: int

record func =
  fn_name :: string
  access_static :: int
  fn_methodname :: string
  fn_classname :: "string option"
  return_typename :: string
  return_type :: dtype
  first_argument :: "argument list"
  argument_count :: int
  exec_arg_count :: int
  first_constraint :: "string list"

record intrface =
  if_name :: string
  first_function :: "func list"

text \<open>The messages the actions print on \<open>stderr\<close>, without their file and line prefix.\<close>

datatype diagnostic =
    Only_one_interface
  | Duplicated_function string
  | Duplicated_argument string "string option"
  | Invalid_parameter_type int "string option"

record sem =
  main_interface :: "intrface option"
  current_function :: "nat option"
  current_argument :: "nat option"
  current_constraint :: "nat option"
  has_errors :: bool
  function_count :: int
  current_function_name :: "string option"
  parsing_args :: int
  filename :: "string option"
  stderr :: "diagnostic list"

definition init_sem :: sem where
  "init_sem = \<lparr>main_interface = None, current_function = None, current_argument = None,
     current_constraint = None, has_errors = False, function_count = 0,
     current_function_name = None, parsing_args = 0, filename = None, stderr = []\<rparr>"

section \<open>Access to the current function\<close>

definition fun_list :: "sem \<Rightarrow> func list" where
  "fun_list s = (case main_interface s of None \<Rightarrow> [] | Some i \<Rightarrow> first_function i)"

text \<open>Dereferencing \<open>current_function\<close>: undefined for the null pointer.\<close>

definition the_function :: "sem \<Rightarrow> func result" where
  "the_function s = (case current_function s of None \<Rightarrow> Inl Undefined
     | Some i \<Rightarrow> if i < length (fun_list s) then Inr (fun_list s ! i) else Inl Undefined)"

definition set_fun_list :: "func list \<Rightarrow> sem \<Rightarrow> sem" where
  "set_fun_list fs s =
     s\<lparr>main_interface := map_option (\<lambda>i. i\<lparr>first_function := fs\<rparr>) (main_interface s)\<rparr>"

definition upd_function :: "(func \<Rightarrow> func) \<Rightarrow> sem \<Rightarrow> sem result" where
  "upd_function g s = (case current_function s of None \<Rightarrow> Inl Undefined
     | Some i \<Rightarrow> if i < length (fun_list s)
         then Inr (set_fun_list ((fun_list s)[i := g (fun_list s ! i)]) s) else Inl Undefined)"

text \<open>A message on \<open>stderr\<close> together with \<open>has_errors = 1\<close>.\<close>

definition report :: "diagnostic \<Rightarrow> sem \<Rightarrow> sem" where
  "report d s = s\<lparr>stderr := stderr s @ [d], has_errors := True\<rparr>"

section \<open>Interfaces and functions\<close>

definition get_current_function_name :: "sem \<Rightarrow> string option" where
  "get_current_function_name s = current_function_name s"

fun exists_function_in :: "func list \<Rightarrow> string \<Rightarrow> bool" where
  "exists_function_in [] name = False"
| "exists_function_in (f # fs) name = (if fn_name f = name then True else exists_function_in fs name)"

definition exists_function :: "string \<Rightarrow> sem \<Rightarrow> bool result" where
  "exists_function name s =
     (case main_interface s of None \<Rightarrow> Inl Assertion
      | Some i \<Rightarrow> Inr (exists_function_in (first_function i) name))"

definition begin_interface :: "string \<Rightarrow> sem \<Rightarrow> sem" where
  "begin_interface interface_name s =
     (let s1 = (if main_interface s \<noteq> None then report Only_one_interface s else s)
      in s1\<lparr>main_interface := Some \<lparr>if_name = interface_name, first_function = []\<rparr>,
            current_function := None, current_argument := None\<rparr>)"

definition end_interface :: "sem \<Rightarrow> sem" where
  "end_interface s = s"

text \<open>
  Splitting \<open>Class::method\<close> at the last colon: the method name is what follows it, and the
  class name is cut by a zero written one character before it.
\<close>

definition split_name :: "string \<Rightarrow> (string option \<times> string) result" where
  "split_name fn =
     (case strrchr fn CHR '':'' of
        None \<Rightarrow> Inr (None, fn)
      | Some p \<Rightarrow> if p = 0 then Inl Undefined
          else Inr (Some (take (p - 1) fn), drop (p + 1) fn))"

definition begin_function :: "func \<Rightarrow> string \<Rightarrow> sem \<Rightarrow> sem result" where
  "begin_function blk fn s =
     (if main_interface s = None then Inl Assertion
      else rbind (exists_function fn s) (\<lambda>dup.
        let s1 = (if dup then report (Duplicated_function fn) s else s)
        in rbind (split_name fn) (\<lambda>(cls, meth).
          let new = blk\<lparr>fn_name := fn, fn_methodname := meth, fn_classname := cls,
                      return_type := null_dt, first_argument := [], argument_count := 0,
                      exec_arg_count := 0\<rparr>;
              i = (case current_function s1 of Some k \<Rightarrow> Suc k | None \<Rightarrow> 0)
          in Inr ((set_fun_list (take i (fun_list s1) @ [new]) s1)
               \<lparr>current_function := Some i, current_argument := None, current_constraint := None,
                function_count := function_count s1 + 1, current_function_name := Some fn\<rparr>))))"

definition add_static :: "int \<Rightarrow> sem \<Rightarrow> sem result" where
  "add_static val s = upd_function (\<lambda>f. f\<lparr>access_static := val\<rparr>) s"

definition add_return_type :: "dtype \<Rightarrow> string \<Rightarrow> sem \<Rightarrow> sem result" where
  "add_return_type rt rtn s =
     (if current_function s = None then Inl Assertion
      else rbind (the_function s) (\<lambda>f.
        if return_type f \<noteq> null_dt then Inl Assertion
        else upd_function (\<lambda>f. f\<lparr>return_type := rt, return_typename := rtn\<rparr>) s))"

definition end_function :: "sem \<Rightarrow> sem result" where
  "end_function s =
     (if current_function s = None then Inl Assertion
      else Inr (s\<lparr>current_function_name := None\<rparr>))"

section \<open>Arguments and constraints\<close>

fun exists_argument_in :: "argument list \<Rightarrow> string \<Rightarrow> bool" where
  "exists_argument_in [] name = False"
| "exists_argument_in (a # as) name = (if arg_name a = name then True else exists_argument_in as name)"

definition exists_argument :: "string \<Rightarrow> sem \<Rightarrow> bool result" where
  "exists_argument name s =
     (if current_function s = None then Inl Assertion
      else rmap (\<lambda>f. exists_argument_in (first_argument f) name) (the_function s))"

definition get_next_argnum :: "sem \<Rightarrow> int result" where
  "get_next_argnum s = rmap (\<lambda>f. argument_count f + 1) (the_function s)"

text \<open>
  The \<open>switch\<close> that sets the class name of a new argument: the types it does not name leave
  the field of the allocated block as it was.
\<close>

fun argument_classname :: "dtype \<Rightarrow> string \<Rightarrow> string option \<Rightarrow> string option" where
  "argument_classname char_dt c old = Some ''char''"
| "argument_classname wchar_dt c old = Some ''char''"
| "argument_classname boolean_dt c old = Some ''int''"
| "argument_classname short_dt c old = Some ''short''"
| "argument_classname long_dt c old = Some ''long''"
| "argument_classname longlong_dt c old = Some ''long long''"
| "argument_classname int_dt c old = Some ''int''"
| "argument_classname float_dt c old = Some ''float''"
| "argument_classname double_dt c old = Some ''double''"
| "argument_classname object_dt c old = Some c"
| "argument_classname string_dt c old = Some ''string''"
| "argument_classname wstring_dt c old = Some ''string''"
| "argument_classname file_dt c old = Some ''File''"
| "argument_classname _ c old = old"

fun exec_arg_weight :: "direction \<Rightarrow> int" where
  "exec_arg_weight in_dir = 1"
| "exec_arg_weight out_dir = 1"
| "exec_arg_weight inout_dir = 2"
| "exec_arg_weight null_dir = 0"

definition new_argument :: "argument \<Rightarrow> direction \<Rightarrow> dtype \<Rightarrow> string \<Rightarrow> string \<Rightarrow> argument" where
  "new_argument blk d dt cls name = blk\<lparr>arg_name := name,
     arg_classname := argument_classname dt cls (arg_classname blk), arg_type := dt,
     arg_dir := d, passing_in_order := 0, passing_out_order := 0\<rparr>"

definition add_argument ::
  "argument \<Rightarrow> direction \<Rightarrow> dtype \<Rightarrow> string \<Rightarrow> string \<Rightarrow> sem \<Rightarrow> sem result" where
  "add_argument blk d dt cls name s =
     (if current_function s = None then Inl Assertion
      else rbind (exists_argument name s) (\<lambda>dup.
        if dup then Inr (report (Duplicated_argument name (get_current_function_name s)) s)
        else if dt = void_dt
        then rmap (\<lambda>n. report (Invalid_parameter_type n (get_current_function_name s)) s)
               (get_next_argnum s)
        else
          let new = new_argument blk d dt cls name;
              j = (case current_argument s of Some k \<Rightarrow> Suc k | None \<Rightarrow> 0)
          in rmap (\<lambda>s1. s1\<lparr>current_argument := Some j\<rparr>)
               (upd_function (\<lambda>f. f\<lparr>first_argument := take j (first_argument f) @ [new],
                  argument_count := argument_count f + 1,
                  exec_arg_count := exec_arg_count f + exec_arg_weight d\<rparr>) s)))"

definition begin_arguments :: "sem \<Rightarrow> sem" where
  "begin_arguments s = s\<lparr>parsing_args := 1\<rparr>"

definition end_arguments :: "sem \<Rightarrow> sem" where
  "end_arguments s = s\<lparr>parsing_args := 0\<rparr>"

definition began_arguments :: "sem \<Rightarrow> int" where
  "began_arguments s = parsing_args s"

text \<open>\<open>add_constraint\<close> dereferences the current function before it asserts it.\<close>

definition add_constraint :: "string \<Rightarrow> sem \<Rightarrow> sem result" where
  "add_constraint constr s =
     rbind (the_function s) (\<lambda>f.
       let k = (case current_constraint s of Some j \<Rightarrow> Suc j | None \<Rightarrow> 0)
       in rmap (\<lambda>s1. s1\<lparr>current_constraint := Some k\<rparr>)
            (upd_function (\<lambda>f. f\<lparr>first_constraint := take k (first_constraint f) @ [constr]\<rparr>) s))"

section \<open>Queries and flags\<close>

definition can_generate :: "sem \<Rightarrow> bool" where
  "can_generate s = (\<not> has_errors s)"

definition get_first_function :: "sem \<Rightarrow> func list result" where
  "get_first_function s = (case main_interface s of None \<Rightarrow> Inl Assertion
     | Some i \<Rightarrow> Inr (first_function i))"

definition get_main_interface :: "sem \<Rightarrow> intrface option" where
  "get_main_interface s = main_interface s"

definition get_function_count :: "sem \<Rightarrow> int" where
  "get_function_count s = function_count s"

definition set_serious_error :: "sem \<Rightarrow> sem" where
  "set_serious_error s = s\<lparr>has_errors := True\<rparr>"

definition set_filename :: "string \<Rightarrow> sem \<Rightarrow> sem" where
  "set_filename fn s = s\<lparr>filename := Some fn\<rparr>"

definition get_filename :: "sem \<Rightarrow> string option" where
  "get_filename s = filename s"

section \<open>Runs of actions\<close>

text \<open>The calls the parser makes, with the contents of the blocks the allocations return.\<close>

datatype sem_action =
    Begin_interface string | End_interface
  | Begin_function func string | Add_static int | Add_return_type dtype string | End_function
  | Begin_arguments | End_arguments
  | Add_argument argument direction dtype string string
  | Add_constraint string
  | Set_serious_error | Set_filename string

fun do_action :: "sem_action \<Rightarrow> sem \<Rightarrow> sem result" where
  "do_action (Begin_interface n) s = Inr (begin_interface n s)"
| "do_action End_interface s = Inr (end_interface s)"
| "do_action (Begin_function blk n) s = begin_function blk n s"
| "do_action (Add_static v) s = add_static v s"
| "do_action (Add_return_type t n) s = add_return_type t n s"
| "do_action End_function s = end_function s"
| "do_action Begin_arguments s = Inr (begin_arguments s)"
| "do_action End_arguments s = Inr (end_arguments s)"
| "do_action (Add_argument blk d t c n) s = add_argument blk d t c n s"
| "do_action (Add_constraint c) s = add_constraint c s"
| "do_action Set_serious_error s = Inr (set_serious_error s)"
| "do_action (Set_filename n) s = Inr (set_filename n s)"

definition run_actions :: "sem_action list \<Rightarrow> sem \<Rightarrow> sem result" where
  "run_actions = rfold do_action"

section \<open>The invariant\<close>

text \<open>A function is well formed: its counters agree with its argument list.\<close>

definition func_ok :: "func \<Rightarrow> bool" where
  "func_ok f \<longleftrightarrow>
     argument_count f = int (length (first_argument f)) \<and>
     exec_arg_count f = sum_list (map (exec_arg_weight \<circ> arg_dir) (first_argument f)) \<and>
     distinct (map arg_name (first_argument f)) \<and>
     void_dt \<notin> set (map arg_type (first_argument f))"

text \<open>The current pointers are null or point to the last element of their lists.\<close>

definition pointers_ok :: "sem \<Rightarrow> bool" where
  "pointers_ok s \<longleftrightarrow>
     (case current_function s of
        None \<Rightarrow> fun_list s = [] \<and> current_argument s = None
      | Some i \<Rightarrow> length (fun_list s) = Suc i \<and>
          (case current_argument s of
             None \<Rightarrow> first_argument (fun_list s ! i) = []
           | Some j \<Rightarrow> length (first_argument (fun_list s ! i)) = Suc j))"

definition sem_inv :: "sem \<Rightarrow> bool" where
  "sem_inv s \<longleftrightarrow> pointers_ok s \<and> list_all func_ok (fun_list s) \<and>
     (\<not> has_errors s \<longrightarrow>
        distinct (map fn_name (fun_list s)) \<and> function_count s = int (length (fun_list s)))"

lemma fun_list_simps [simp]:
  "fun_list (report d s) = fun_list s"
  "fun_list (s\<lparr>has_errors := b\<rparr>) = fun_list s"
  "fun_list (s\<lparr>current_function := cf\<rparr>) = fun_list s"
  "fun_list (s\<lparr>current_argument := ca\<rparr>) = fun_list s"
  "fun_list (s\<lparr>current_constraint := cc\<rparr>) = fun_list s"
  "fun_list (s\<lparr>function_count := n\<rparr>) = fun_list s"
  "fun_list (s\<lparr>current_function_name := fnm\<rparr>) = fun_list s"
  "fun_list (s\<lparr>parsing_args := pa\<rparr>) = fun_list s"
  "fun_list (s\<lparr>filename := fl\<rparr>) = fun_list s"
  by (simp_all add: fun_list_def report_def)

lemma fun_list_set [simp]: "main_interface s \<noteq> None \<Longrightarrow> fun_list (set_fun_list fs s) = fs"
  by (auto simp: fun_list_def set_fun_list_def)

lemma set_fun_list_simps [simp]:
  "current_function (set_fun_list fs s) = current_function s"
  "current_argument (set_fun_list fs s) = current_argument s"
  "current_constraint (set_fun_list fs s) = current_constraint s"
  "has_errors (set_fun_list fs s) = has_errors s"
  "function_count (set_fun_list fs s) = function_count s"
  "current_function_name (set_fun_list fs s) = current_function_name s"
  "stderr (set_fun_list fs s) = stderr s"
  "filename (set_fun_list fs s) = filename s"
  "main_interface (set_fun_list fs s) =
     map_option (\<lambda>i. i\<lparr>first_function := fs\<rparr>) (main_interface s)"
  by (simp_all add: set_fun_list_def)

lemma report_simps [simp]:
  "main_interface (report d s) = main_interface s"
  "current_function (report d s) = current_function s"
  "current_argument (report d s) = current_argument s"
  "current_constraint (report d s) = current_constraint s"
  "function_count (report d s) = function_count s"
  "has_errors (report d s)"
  "stderr (report d s) = stderr s @ [d]"
  by (simp_all add: report_def)

lemma exists_function_in_iff: "exists_function_in fs n \<longleftrightarrow> n \<in> set (map fn_name fs)"
  by (induction fs) auto

lemma exists_argument_in_iff: "exists_argument_in as n \<longleftrightarrow> n \<in> set (map arg_name as)"
  by (induction as) auto

lemma init_sem_inv: "sem_inv init_sem"
  by (simp add: sem_inv_def init_sem_def pointers_ok_def fun_list_def)

text \<open>The actions that only touch flags and names keep the invariant by evaluation.\<close>

lemma sem_inv_cong:
  assumes "sem_inv s" and "fun_list s' = fun_list s"
    and "current_function s' = current_function s" and "current_argument s' = current_argument s"
    and "\<not> has_errors s' \<Longrightarrow> \<not> has_errors s \<and> function_count s' = function_count s"
  shows "sem_inv s'"
proof -
  have "pointers_ok s' = pointers_ok s"
    unfolding pointers_ok_def assms(2-4) by (rule refl)
  then show ?thesis using assms(1,2,5) by (auto simp: sem_inv_def)
qed

text \<open>Changing a field of the current function outside its name and arguments.\<close>

lemma upd_function_Inr_iff [result_simps]:
  "upd_function g s = Inr s' \<longleftrightarrow>
     (\<exists>i. current_function s = Some i \<and> i < length (fun_list s) \<and>
        s' = set_fun_list ((fun_list s)[i := g (fun_list s ! i)]) s)"
  by (auto simp: upd_function_def split: option.splits)

lemma fun_list_nonempty_main: "i < length (fun_list s) \<Longrightarrow> main_interface s \<noteq> None"
  by (cases "main_interface s") (auto simp: fun_list_def)

lemma upd_function_inv:
  assumes "sem_inv s" and "upd_function g s = Inr s'"
    and "\<And>f. fn_name (g f) = fn_name f" and "\<And>f. first_argument (g f) = first_argument f"
    and "\<And>f. func_ok f \<Longrightarrow> func_ok (g f)"
  shows "sem_inv s'"
proof -
  obtain i where i: "current_function s = Some i" "i < length (fun_list s)"
    and s': "s' = set_fun_list ((fun_list s)[i := g (fun_list s ! i)]) s"
    using assms(2) by (auto simp: result_simps)
  note main = fun_list_nonempty_main [OF i(2)]
  have fns: "map fn_name (fun_list s') = map fn_name (fun_list s)"
    using main s' i(2) assms(3) by (simp add: map_update list_update_same_conv)
  have fl: "fun_list s' = (fun_list s)[i := g (fun_list s ! i)]"
    using main s' by simp
  have "list_all func_ok (fun_list s')"
    using assms(1,5) i(2) fl by (auto simp: sem_inv_def list_all_length nth_list_update)
  moreover have "pointers_ok s'"
    using assms(1,4) i s' fl by (auto simp: sem_inv_def pointers_ok_def split: option.splits)
  ultimately show ?thesis
    using assms(1) fns s' fl by (simp add: sem_inv_def)
qed

lemma begin_interface_inv: "sem_inv (begin_interface n s)" if "sem_inv s"
proof (cases "main_interface s")
  case None
  then have "fun_list s = []" by (simp add: fun_list_def)
  then show ?thesis
    using that None by (auto simp: begin_interface_def sem_inv_def pointers_ok_def fun_list_def)
next
  case Some
  then show ?thesis
    using that by (auto simp: begin_interface_def sem_inv_def pointers_ok_def fun_list_def report_def)
qed

text \<open>
  With the pointers in order, \<open>take\<close> up to the current element is the whole list: a new
  function or argument is linked at the end.
\<close>

lemma begin_function_Inr_iff:
  assumes "pointers_ok s"
  shows "begin_function blk n s = Inr s' \<longleftrightarrow>
    main_interface s \<noteq> None \<and> (\<exists>cls meth. split_name n = Inr (cls, meth) \<and>
     (let s1 = (if n \<in> set (map fn_name (fun_list s)) then report (Duplicated_function n) s else s);
          new = blk\<lparr>fn_name := n, fn_methodname := meth, fn_classname := cls,
                  return_type := null_dt, first_argument := [], argument_count := 0,
                  exec_arg_count := 0\<rparr>
      in s' = (set_fun_list (fun_list s @ [new]) s1)
           \<lparr>current_function := Some (length (fun_list s)), current_argument := None,
            current_constraint := None, function_count := function_count s + 1,
            current_function_name := Some n\<rparr>))"
proof -
  have pos: "(case current_function s of Some k \<Rightarrow> Suc k | None \<Rightarrow> 0) = length (fun_list s)"
    using assms by (auto simp: pointers_ok_def split: option.splits)
  have ex: "exists_function n s = Inr (n \<in> set (map fn_name (fun_list s)))"
    if "main_interface s \<noteq> None"
    using that by (auto simp: exists_function_def exists_function_in_iff fun_list_def)
  show ?thesis
    using pos ex by (auto simp: begin_function_def result_simps Let_def split: prod.splits)
qed

lemma begin_function_inv:
  assumes "sem_inv s" and "begin_function blk n s = Inr s'"
  shows "sem_inv s'"
proof -
  from assms(1) have p: "pointers_ok s" by (simp add: sem_inv_def)
  show ?thesis
    using assms
    by (auto simp: begin_function_Inr_iff [OF p] sem_inv_def pointers_ok_def func_ok_def Let_def
        nth_append split: if_splits)
qed

lemma add_return_type_inv:
  assumes "sem_inv s" and "add_return_type t n s = Inr s'"
  shows "sem_inv s'"
proof -
  have "upd_function (\<lambda>f. f\<lparr>return_type := t, return_typename := n\<rparr>) s = Inr s'"
    using assms(2) by (auto simp: add_return_type_def result_simps split: if_splits)
  with assms(1) show ?thesis
    by (rule upd_function_inv) (simp_all add: func_ok_def)
qed

text \<open>What \<open>add_argument\<close> does in a well-formed state, on each of its branches.\<close>

lemma the_function_inv:
  "pointers_ok s \<Longrightarrow> current_function s = Some i \<Longrightarrow> the_function s = Inr (fun_list s ! i)"
  by (simp add: the_function_def pointers_ok_def)

lemma add_argument_dup:
  assumes "pointers_ok s" and "current_function s = Some i"
    and "n \<in> set (map arg_name (first_argument (fun_list s ! i)))"
  shows "add_argument blk d t c n s = Inr (report (Duplicated_argument n (current_function_name s)) s)"
  using assms by (simp add: add_argument_def exists_argument_def the_function_inv
      exists_argument_in_iff get_current_function_name_def)

lemma add_argument_void:
  assumes "pointers_ok s" and "current_function s = Some i"
    and "n \<notin> set (map arg_name (first_argument (fun_list s ! i)))"
  shows "add_argument blk d void_dt c n s = Inr (report (Invalid_parameter_type
     (argument_count (fun_list s ! i) + 1) (current_function_name s)) s)"
  using assms by (simp add: add_argument_def exists_argument_def the_function_inv
      exists_argument_in_iff get_current_function_name_def get_next_argnum_def)

lemma add_argument_new:
  assumes "pointers_ok s" and "current_function s = Some i" and "t \<noteq> void_dt"
    and "n \<notin> set (map arg_name (first_argument (fun_list s ! i)))"
  shows "add_argument blk d t c n s = Inr
     ((set_fun_list ((fun_list s)[i := (fun_list s ! i)
        \<lparr>first_argument := first_argument (fun_list s ! i) @ [new_argument blk d t c n],
         argument_count := argument_count (fun_list s ! i) + 1,
         exec_arg_count := exec_arg_count (fun_list s ! i) + exec_arg_weight d\<rparr>]) s)
      \<lparr>current_argument := Some (length (first_argument (fun_list s ! i)))\<rparr>)"
proof -
  have pos: "(case current_argument s of Some k \<Rightarrow> Suc k | None \<Rightarrow> 0) =
      length (first_argument (fun_list s ! i))" and i: "i < length (fun_list s)"
    using assms(1,2) by (auto simp: pointers_ok_def split: option.splits)
  show ?thesis
    using assms i by (simp add: add_argument_def exists_argument_def the_function_inv
        exists_argument_in_iff Let_def pos upd_function_def)
qed

lemma add_argument_inv:
  assumes inv: "sem_inv s" and "add_argument blk d t c n s = Inr s'"
  shows "sem_inv s'"
proof -
  from inv have p: "pointers_ok s" by (simp add: sem_inv_def)
  obtain i where i: "current_function s = Some i"
    using assms(2) by (auto simp: add_argument_def split: if_splits)
  let ?f = "fun_list s ! i"
  have len: "length (fun_list s) = Suc i" using p i by (simp add: pointers_ok_def)
  then have f: "func_ok ?f" using inv by (simp add: sem_inv_def list_all_length)
  show ?thesis
  proof (cases "n \<in> set (map arg_name (first_argument ?f)) \<or> t = void_dt")
    case True
    then obtain dg where "s' = report dg s"
      using assms(2) add_argument_dup [OF p i] add_argument_void [OF p i]
      by (cases "n \<in> set (map arg_name (first_argument ?f))") auto
    then show ?thesis using inv by (simp add: sem_inv_def pointers_ok_def cong: option.case_cong)
  next
    case False
    let ?g = "?f\<lparr>first_argument := first_argument ?f @ [new_argument blk d t c n],
      argument_count := argument_count ?f + 1, exec_arg_count := exec_arg_count ?f + exec_arg_weight d\<rparr>"
    have s': "s' = (set_fun_list ((fun_list s)[i := ?g]) s)
        \<lparr>current_argument := Some (length (first_argument ?f))\<rparr>"
      using assms(2) add_argument_new [OF p i] False by simp
    have fl: "fun_list s' = (fun_list s)[i := ?g]"
      using s' len fun_list_nonempty_main [of i s] by simp
    have "func_ok ?g" using f False by (auto simp: func_ok_def new_argument_def)
    then have "list_all func_ok (fun_list s')"
      unfolding fl using inv by (intro list_all_update) (simp_all add: sem_inv_def)
    moreover have "map fn_name (fun_list s') = map fn_name (fun_list s)"
      using fl len by (simp add: map_update list_update_same_conv)
    moreover have "pointers_ok s'"
      using s' fl i len by (simp add: pointers_ok_def)
    ultimately show ?thesis using inv s' fl by (simp add: sem_inv_def)
  qed
qed

lemma add_constraint_inv:
  assumes "sem_inv s" and "add_constraint c s = Inr s'"
  shows "sem_inv s'"
proof -
  let ?k = "case current_constraint s of Some j \<Rightarrow> Suc j | None \<Rightarrow> 0"
  obtain s1 where "upd_function (\<lambda>f. f\<lparr>first_constraint := take ?k (first_constraint f) @ [c]\<rparr>) s
      = Inr s1" and s': "s' = s1\<lparr>current_constraint := Some ?k\<rparr>"
    using assms(2) by (auto simp: add_constraint_def result_simps Let_def)
  from assms(1) this(1) have "sem_inv s1"
    by (rule upd_function_inv) (simp_all add: func_ok_def)
  then show ?thesis by (rule sem_inv_cong) (simp_all add: s')
qed

lemma add_static_inv: "sem_inv s \<Longrightarrow> add_static v s = Inr s' \<Longrightarrow> sem_inv s'"
  unfolding add_static_def by (erule (1) upd_function_inv) (simp_all add: func_ok_def)

lemma end_function_inv: "sem_inv s \<Longrightarrow> end_function s = Inr s' \<Longrightarrow> sem_inv s'"
  by (auto simp: end_function_def split: if_splits intro: sem_inv_cong)

lemma flag_actions_inv:
  assumes "sem_inv s"
  shows "sem_inv (end_interface s)" "sem_inv (begin_arguments s)" "sem_inv (end_arguments s)"
    "sem_inv (set_serious_error s)" "sem_inv (set_filename n s)"
  using assms by (auto simp: end_interface_def begin_arguments_def end_arguments_def
      set_serious_error_def set_filename_def intro: sem_inv_cong)

lemmas action_invs = begin_interface_inv begin_function_inv add_static_inv add_return_type_inv
  end_function_inv add_argument_inv add_constraint_inv flag_actions_inv

lemma do_action_inv: "sem_inv s \<Longrightarrow> do_action a s = Inr s' \<Longrightarrow> sem_inv s'"
  by (cases a) (auto intro: action_invs)

lemma run_actions_inv: "run_actions as s = Inr s' \<Longrightarrow> sem_inv s \<Longrightarrow> sem_inv s'"
  unfolding run_actions_def by (erule rfold_invariant [rotated 2]) (auto intro: do_action_inv)

section \<open>The error flag\<close>

text \<open>
  Once set, the flag stays set; and it is set exactly when a message was printed or the parser
  raised \<open>set_serious_error\<close>.
\<close>

lemma upd_function_flags:
  "upd_function g s = Inr s' \<Longrightarrow> has_errors s' = has_errors s \<and> stderr s' = stderr s"
  by (auto simp: result_simps)

definition flag_step :: "sem_action \<Rightarrow> sem \<Rightarrow> sem \<Rightarrow> bool" where
  "flag_step a s s' \<longleftrightarrow> (\<exists>ds. stderr s' = stderr s @ ds \<and>
     (has_errors s' \<longleftrightarrow> has_errors s \<or> ds \<noteq> [] \<or> a = Set_serious_error))"

lemma flag_step_same:
  "stderr s' = stderr s \<Longrightarrow> has_errors s' = has_errors s \<Longrightarrow> a \<noteq> Set_serious_error \<Longrightarrow> flag_step a s s'"
  by (simp add: flag_step_def)

lemma flag_step_report:
  "stderr s' = stderr s @ [d] \<Longrightarrow> has_errors s' \<Longrightarrow> flag_step a s s'"
  by (auto simp: flag_step_def)

lemma begin_function_flags:
  "begin_function blk n s = Inr s' \<Longrightarrow> flag_step (Begin_function b m) s s'"
  by (auto simp: begin_function_def result_simps Let_def split: prod.splits if_splits
      intro: flag_step_same flag_step_report)

lemma add_argument_flags:
  "add_argument blk d t c n s = Inr s' \<Longrightarrow> flag_step (Add_argument b d' t' c' n') s s'"
  by (auto simp: add_argument_def result_simps Let_def split: if_splits
      intro: flag_step_same flag_step_report)

lemma do_action_flags: "do_action a s = Inr s' \<Longrightarrow> flag_step a s s'"
  by (cases a) (auto simp: begin_interface_def end_interface_def add_static_def Let_def
      add_return_type_def end_function_def begin_arguments_def end_arguments_def report_def
      add_constraint_def set_serious_error_def set_filename_def result_simps flag_step_def
      dest: begin_function_flags add_argument_flags split: if_splits)

lemma run_actions_flags:
  "run_actions as s = Inr s' \<Longrightarrow> \<exists>ds. stderr s' = stderr s @ ds \<and>
     (has_errors s' \<longleftrightarrow> has_errors s \<or> ds \<noteq> [] \<or> Set_serious_error \<in> set as)"
proof (induction as arbitrary: s)
  case (Cons a as)
  then obtain t where "do_action a s = Inr t" and "run_actions as t = Inr s'"
    by (auto simp: run_actions_def)
  with Cons.IH do_action_flags [of a s t] show ?case
    by (fastforce simp: flag_step_def)
qed (simp add: run_actions_def)

section \<open>The error flag\<close>

text \<open>
  The error flag is sticky and says exactly whether anything went wrong: after any run of
  actions it is set iff it was set before, a message was printed on the way, or the parser
  reported a serious error; the messages printed before stay.
\<close>

theorem errors_are_sticky:
  assumes "run_actions as s = Inr s'"
  shows "\<exists>ds. stderr s' = stderr s @ ds \<and>
    (can_generate s' \<longleftrightarrow> can_generate s \<and> ds = [] \<and> Set_serious_error \<notin> set as)"
  using run_actions_flags [OF assms] by (auto simp: can_generate_def)

theorem errors_are_sticky_witness:
  "\<exists>ds. stderr (report Only_one_interface (begin_interface ''I'' init_sem)\<lparr>main_interface :=
       Some \<lparr>if_name = ''J'', first_function = []\<rparr>\<rparr>) = stderr init_sem @ ds \<and> ds \<noteq> []"
proof -
  have "run_actions [Begin_interface ''I'', Begin_interface ''J''] init_sem =
      Inr ((report Only_one_interface (begin_interface ''I'' init_sem))\<lparr>main_interface :=
       Some \<lparr>if_name = ''J'', first_function = []\<rparr>\<rparr>)"
    by (simp add: run_actions_def begin_interface_def init_sem_def Let_def report_def)
  from errors_are_sticky [OF this] show ?thesis
    by (auto simp: can_generate_def report_def init_sem_def begin_interface_def Let_def)
qed

end
