(* ===== verification/Emit.thy ===== *)
theory Emit
  imports Prelude
begin

text \<open>
  The text the code generator prints. A call \<open>fprintf (file, format, args)\<close> of
  \<open>compssgen/c-backend.c\<close> is one \<open>emit\<close> item; \<open>render\<close> gives the characters it writes,
  with the conversions of \<open>fprintf\<close> the generator uses (\<open>%s\<close>, \<open>%d\<close>, \<open>%c\<close>, \<open>%%\<close>).
  The calls that print the parameter-passing statements of a generated function have
  constructors of their own, named after the statement they print, so that the generated code
  can be executed (theories \<open>Stub_Exec\<close> and \<open>Worker_Exec\<close>); every other call is \<open>Ln\<close> (a
  format that starts with tabs and ends with a newline) or \<open>Tx\<close> (no newline).
\<close>

section \<open>fprintf\<close>

datatype farg = FS string | FP "string option" | FD int | FC char

definition tab :: string where
  "tab = [CHR 0x09]"

definition nl :: string where
  "nl = [CHR 0x0A]"

definition bsl :: string where
  "bsl = [CHR 0x5C]"

definition digit_char :: "nat \<Rightarrow> char" where
  "digit_char d = char_of (48 + d)"

fun dec_nat :: "nat \<Rightarrow> string" where
  "dec_nat n = (if n < 10 then [digit_char n] else dec_nat (n div 10) @ [digit_char (n mod 10)])"

declare dec_nat.simps [simp del]

definition dec :: "int \<Rightarrow> string" where
  "dec n = (if n < 0 then CHR ''-'' # dec_nat (nat (- n)) else dec_nat (nat n))"

text \<open>A null pointer printed with \<open>%s\<close> is what the C library of the platform prints for it.\<close>

fun conv :: "char \<Rightarrow> farg \<Rightarrow> string" where
  "conv c (FS s) = (if c = CHR ''s'' then s else '''')"
| "conv c (FP p) = (if c = CHR ''s'' then (case p of None \<Rightarrow> ''(null)'' | Some s \<Rightarrow> s) else '''')"
| "conv c (FD n) = (if c = CHR ''d'' then dec n else '''')"
| "conv c (FC x) = (if c = CHR ''c'' then [x] else '''')"

fun fmt :: "string \<Rightarrow> farg list \<Rightarrow> string" where
  "fmt [] as = []"
| "fmt (x # xs) as =
     (if x = CHR ''%''
      then (case xs of [] \<Rightarrow> []
            | c # cs \<Rightarrow>
                if c = CHR ''%'' then x # fmt cs as
                else (case as of [] \<Rightarrow> fmt cs [] | a # as' \<Rightarrow> conv c a @ fmt cs as'))
      else x # fmt xs as)"

text \<open>
  A format and its arguments agree: every conversion has an argument of its kind (further
  arguments are evaluated and ignored, as the standard says). Without it the call is undefined.
\<close>

fun conv_ok :: "char \<Rightarrow> farg \<Rightarrow> bool" where
  "conv_ok c (FS s) \<longleftrightarrow> c = CHR ''s''"
| "conv_ok c (FP p) \<longleftrightarrow> c = CHR ''s'' \<and> p \<noteq> None"
| "conv_ok c (FD n) \<longleftrightarrow> c = CHR ''d''"
| "conv_ok c (FC x) \<longleftrightarrow> c = CHR ''c''"

fun fmt_ok :: "string \<Rightarrow> farg list \<Rightarrow> bool" where
  "fmt_ok [] as \<longleftrightarrow> True"
| "fmt_ok (x # xs) as \<longleftrightarrow>
     (if x = CHR ''%''
      then (case xs of [] \<Rightarrow> False
            | c # cs \<Rightarrow>
                if c = CHR ''%'' then fmt_ok cs as
                else (case as of [] \<Rightarrow> False | a # as' \<Rightarrow> conv_ok c a \<and> fmt_ok cs as'))
      else fmt_ok xs as)"

section \<open>Printed statements\<close>

text \<open>The C conversion of an input argument of the worker, from the text \<open>argv[arg_offset]\<close>.\<close>

datatype conversion = FirstChar | NonNull | Atoi | Atol | Atoll | Strtof | Strtod

fun conversion_text :: "conversion \<Rightarrow> string" where
  "conversion_text FirstChar = ''argv[arg_offset][0]''"
| "conversion_text NonNull = ''argv[arg_offset]? 1 : 0''"
| "conversion_text Atoi = ''atoi(argv[arg_offset])''"
| "conversion_text Atol = ''atol(argv[arg_offset])''"
| "conversion_text Atoll = ''atoll(argv[arg_offset])''"
| "conversion_text Strtof = ''strtof(argv[arg_offset], NULL)''"
| "conversion_text Strtod = ''strtod(argv[arg_offset], NULL)''"

text \<open>The types of the variables the worker reads the scalar inputs into.\<close>

datatype ctype = CChar | CInt | CShort | CLong | CLongLong | CFloat | CDouble

fun ctype_text :: "ctype \<Rightarrow> string" where
  "ctype_text CChar = ''char''"
| "ctype_text CInt = ''int''"
| "ctype_text CShort = ''short''"
| "ctype_text CLong = ''long''"
| "ctype_text CLongLong = ''long long''"
| "ctype_text CFloat = ''float''"
| "ctype_text CDouble = ''double''"

datatype emit =
    Ln nat string "farg list"
  | Tx string "farg list"
  \<comment> \<open>master side\<close>
  | ArrayObjs int
  | SlotArg int string
  | SlotFilename int string
  | SlotParam int int
  | ParamInt int int
  | ParamNull int
  | FilenameDecl string
  | GSRegister string int int "string option" string
  | ExecuteTask string string int
  \<comment> \<open>worker side\<close>
  | DeclVar ctype string
  | OffAdd int
  | OffNext nat
  | ReadOg string
  | ReadFile string
  | ReadVal conversion string
  | ReadWords string

definition line :: "nat \<Rightarrow> string \<Rightarrow> farg list \<Rightarrow> string" where
  "line t f as = concat (replicate t tab) @ fmt f as @ nl"

fun render :: "emit \<Rightarrow> string" where
  \<open>render (Ln t f as) = line t f as\<close>
| \<open>render (Tx f as) = fmt f as\<close>
| \<open>render (ArrayObjs n) = line 1 '' void *arrayObjs[%d];'' [FD n]\<close>
| \<open>render (SlotArg i n) = line 1 '' arrayObjs[%d] = &%s;'' [FD i, FS n]\<close>
| \<open>render (SlotFilename i n) = line 1 '' arrayObjs[%d] = &%s_filename;'' [FD i, FS n]\<close>
| \<open>render (SlotParam i k) = line 1 '' arrayObjs[%d] = &param%d;'' [FD i, FD k]\<close>
| \<open>render (ParamInt k v) = line 1 '' int param%d = %d;'' [FD k, FD v]\<close>
| \<open>render (ParamNull k) = line 1 '' char *param%d = "null";'' [FD k]\<close>
| \<open>render (FilenameDecl n) = line 1 '' char *%s_filename;'' [FS n]\<close>
| \<open>render (GSRegister obj t d c n) =
     line 1 '' found = GS_register(%s, (datatype)%d, (direction)%d, "%s", %s_filename);''
       [FS obj, FD t, FD d, FP c, FS n]\<close>
| \<open>render (ExecuteTask c tgt n) =
     line 1 '' GS_ExecuteTask(0L, "%s", method_name, 0, %s, %d, (void**)arrayObjs);''
       [FS c, FS tgt, FD n]\<close>
| \<open>render (DeclVar ty n) = line 3 '' %s %s;'' [FS (ctype_text ty), FS n]\<close>
| \<open>render (OffAdd n) = line 3 '' arg_offset += %d;'' [FD n]\<close>
| \<open>render (OffNext t) = line t '' arg_offset += 1;'' [] @ nl\<close>
| \<open>render (ReadOg n) = line 3 '' char* %s_filename_og = strdup(argv[arg_offset]);'' [FS n]\<close>
| \<open>render (ReadFile n) = line 3 '' %s_og = strdup(argv[arg_offset]);'' [FS n]\<close>
| \<open>render (ReadVal c n) = line 3 '' %s = %s;'' [FS n, FS (conversion_text c)]\<close>
| \<open>render (ReadWords n) =
     line 3 '' int %s_nwords = atoi(argv[arg_offset]);'' [FS n] @
     line 3 '' int word_i;'' [] @
     line 3 '' int %s_size = 0;'' [FS n] @
     line 3 '' for (word_i=1; word_i<=%s_nwords; word_i++) {'' [FS n] @
     line 4 '' %s_size += strlen(argv[arg_offset + word_i]);'' [FS n] @
     line 3 '' }'' [] @
     line 3 '' %s = (char *) malloc(%s_size + %s_nwords);'' [FS n, FS n, FS n] @
     line 3 '' for (word_i=1; word_i<=%s_nwords; word_i++) {'' [FS n] @
     line 4 '' arg_offset += 1;'' [] @
     line 4 '' if (word_i == 1)'' [] @
     line 5 '' strcpy(%s, argv[arg_offset]);'' [FS n] @
     line 4 '' else {'' [] @
     line 5 '' strcat(%s, " ");'' [FS n] @
     line 5 '' strcat(%s, argv[arg_offset]);'' [FS n] @
     line 4 '' }'' [] @
     line 3 '' }'' []\<close>

definition render_all :: "emit list \<Rightarrow> string" where
  "render_all es = concat (map render es)"

lemma render_all_simps [simp]:
  "render_all [] = ''''"
  "render_all (e # es) = render e @ render_all es"
  "render_all (es @ fs) = render_all es @ render_all fs"
  by (simp_all add: render_all_def)

text \<open>Items that print neither a parameter-passing statement nor a read of \<open>argv\<close>.\<close>

fun plain :: "emit \<Rightarrow> bool" where
  "plain (Ln t f as) = True"
| "plain (Tx f as) = True"
| "plain _ = False"

end
