(* ===== verification/Stub_Gen.thy ===== *)
theory Stub_Gen
  imports Semantic Emit
begin

text \<open>
  The master side of the code generator (\<open>compssgen/c-backend.c\<close>): the prototype of a stub, the
  declaration of its parameter array, the code that fills the array with five entries per
  parameter (value, type, direction, stream, prefix), and the call of \<open>GS_ExecuteTask\<close>. Every
  definition is the list of items its C function prints, in order.
\<close>

section \<open>Type names\<close>

text \<open>The tables \<open>c_types\<close> and \<open>c_out_types\<close>, indexed by \<open>enum datatype\<close>.\<close>

definition c_types_table :: "string list" where
  "c_types_table =
     [''int'', ''char'', ''unsigned char'', ''short'', ''int'', ''long'', ''float'', ''double'',
      ''char *'', ''file'', ''void *'', ''void *'', ''void *'',
      ''char'', ''char *'', ''long long'', ''void'', ''void'', ''error'']"

definition c_out_types_table :: "string list" where
  "c_out_types_table =
     [''int'', ''char'', ''unsigned char'', ''short'', ''int'', ''long'', ''float'', ''double'',
      ''char *'', ''file'', ''void *'', ''void *'', ''void *'',
      ''char'', ''char *'', ''long long'', ''void'', ''void'', ''error'']"

definition c_types :: "dtype \<Rightarrow> string" where
  "c_types t = c_types_table ! nat (dt_code t)"

definition c_out_types :: "dtype \<Rightarrow> string" where
  "c_out_types t = c_out_types_table ! nat (dt_code t)"

text \<open>The labels most of the \<open>switch\<close> statements group together.\<close>

definition scalar_types :: "dtype list" where
  "scalar_types = [char_dt, wchar_dt, boolean_dt, short_dt, long_dt, longlong_dt, int_dt,
     float_dt, double_dt]"

definition scalar :: "dtype \<Rightarrow> bool" where
  "scalar t \<longleftrightarrow> t \<in> set scalar_types"

definition stringish :: "dtype \<Rightarrow> bool" where
  "stringish t \<longleftrightarrow> t = string_dt \<or> t = wstring_dt"

text \<open>A method called on an object: it has a class and is not static.\<close>

definition has_target :: "func \<Rightarrow> bool" where
  "has_target f \<longleftrightarrow> fn_classname f \<noteq> None \<and> access_static f = 0"

section \<open>generate_prototype\<close>

definition prototype_argument :: "argument \<Rightarrow> emit list" where
  \<open>prototype_argument arg =
     (if arg_dir arg = in_dir then
        (if scalar (arg_type arg)
         then [Tx ''%s %s'' [FS (c_out_types (arg_type arg)), FS (arg_name arg)]]
         else if arg_type arg = object_dt
         then [Tx ''%s *%s'' [FP (arg_classname arg), FS (arg_name arg)]]
         else if stringish (arg_type arg)
         then [Tx ''%s %s'' [FS (c_out_types (arg_type arg)), FS (arg_name arg)]]
         else if arg_type arg = file_dt
         then [Tx ''%s %s'' [FS (c_out_types (arg_type arg)), FS (arg_name arg)]]
         else [])
      else
        (if scalar (arg_type arg)
         then [Tx ''%s *%s'' [FS (c_out_types (arg_type arg)), FS (arg_name arg)]]
         else if arg_type arg = object_dt
         then [Tx ''%s *%s'' [FP (arg_classname arg), FS (arg_name arg)]]
         else if stringish (arg_type arg)
         then [Tx ''%s *%s'' [FS (c_out_types (arg_type arg)), FS (arg_name arg)]]
         else if arg_type arg = file_dt
         then [Tx ''%s %s'' [FS (c_out_types (arg_type arg)), FS (arg_name arg)]]
         else []))\<close>

fun prototype_arguments :: "argument list \<Rightarrow> emit list" where
  \<open>prototype_arguments [] = []\<close>
| \<open>prototype_arguments (arg # rest) =
     prototype_argument arg @ (if rest \<noteq> [] then [Tx '', '' []] else []) @ prototype_arguments rest\<close>

definition generate_prototype :: "func \<Rightarrow> emit list" where
  \<open>generate_prototype f =
     (if return_type f \<noteq> void_dt
      then [Tx ''%s %s('' [FS (return_typename f), FS (fn_name f)]]
      else [Tx ''%s %s('' [FS (c_types (return_type f)), FS (fn_name f)]]) @
     prototype_arguments (first_argument f) @
     [Tx '')'' []]\<close>

section \<open>generate_parameter_buffers\<close>

definition generate_parameter_buffers :: "func \<Rightarrow> emit list" where
  \<open>generate_parameter_buffers f =
     (let k = 0 :: int;
          k = (if has_target f then k + 5 else k);
          k = (if return_type f \<noteq> void_dt then k + 5 else k)
      in ArrayObjs (k + argument_count f * 5) #
         [Ln 1 '' int found;'' [],
       Ln 0 '''' []])\<close>

section \<open>generate_parameter_marshalling\<close>

text \<open>Entries one to four of a parameter: its type, direction, stream and prefix.\<close>

definition add_object_arg_master_treatment :: "argument \<Rightarrow> int \<Rightarrow> emit list" where
  \<open>add_object_arg_master_treatment arg i =
     [FilenameDecl (arg_name arg),
       GSRegister (arg_name arg) (dt_code (arg_type arg)) (dir_code (arg_dir arg)) ((arg_classname arg)) (arg_name arg)] @
     (if arg_dir arg = in_dir \<or> arg_dir arg = inout_dir then
        [Ln 1 '' if (!found) {'' [],
       Ln 2 ('' debug_printf("Object not found in registry. Serializing to %%s '' @ bsl @ ''n", %s_filename);'') [FS (arg_name arg)],
       Ln 2 '' ofstream %s_ofs(%s_filename, std::ofstream::trunc | std::ios::binary);'' [FS (arg_name arg), FS (arg_name arg)],
       Ln 2 '' archive::binary_oarchive %s_oa(%s_ofs);'' [FS (arg_name arg), FS (arg_name arg)]] @
        (if stringish (arg_type arg)
         then [Ln 2 '' string %s_out_string (*%s);'' [FS (arg_name arg), FS (arg_name arg)],
       Ln 2 '' %s_oa << %s_out_string;'' [FS (arg_name arg), FS (arg_name arg)]]
         else [Ln 2 '' %s_oa << *%s;'' [FS (arg_name arg), FS (arg_name arg)]]) @
        [Ln 2 '' %s_ofs.flush();'' [FS (arg_name arg)],
       Ln 2 '' %s_ofs.close();'' [FS (arg_name arg)],
       Ln 1 '' }'' []]
      else []) @
     [SlotFilename i (arg_name arg),
       ParamInt (i + 1) (dt_code file_dt),
       SlotParam (i + 1) (i + 1),
       ParamInt (i + 2) (dir_code (arg_dir arg)),
       SlotParam (i + 2) (i + 2),
       ParamInt (i + 3) 3,
       SlotParam (i + 3) (i + 3),
       ParamNull (i + 4),
       SlotParam (i + 4) (i + 4)]\<close>

definition add_other_arg_master_treatment :: "argument \<Rightarrow> int \<Rightarrow> emit list" where
  \<open>add_other_arg_master_treatment arg i =
     (if arg_dir arg = in_dir then
        [SlotArg i (arg_name arg),
       ParamInt (i + 1) (dt_code (arg_type arg)),
       SlotParam (i + 1) (i + 1),
       ParamInt (i + 2) (dir_code (arg_dir arg)),
       SlotParam (i + 2) (i + 2),
       ParamInt (i + 3) 3,
       SlotParam (i + 3) (i + 3),
       ParamNull (i + 4),
       SlotParam (i + 4) (i + 4)]
      else if scalar (arg_type arg) \<or> arg_type arg = object_dt \<or> stringish (arg_type arg)
      then add_object_arg_master_treatment arg i
      else if arg_type arg = file_dt
      then
        [SlotArg i (arg_name arg),
       ParamInt (i + 1) (dt_code (arg_type arg)),
       SlotParam (i + 1) (i + 1),
       ParamInt (i + 2) (dir_code (arg_dir arg)),
       SlotParam (i + 2) (i + 2),
       ParamInt (i + 3) 3,
       SlotParam (i + 3) (i + 3),
       ParamNull (i + 4),
       SlotParam (i + 4) (i + 4)]
      else [])\<close>

definition target_marshalling :: "func \<Rightarrow> int \<Rightarrow> emit list" where
  \<open>target_marshalling f i =
     [FilenameDecl ''this'',
       GSRegister ''this'' (dt_code object_dt) (dir_code inout_dir) ((fn_classname f)) ''this'',
       Ln 1 '' if (!found) {'' [],
       Ln 2 '' cout << "Target object not found in registry. Serializing to " << this_filename << endl << flush;'' [],
       Ln 2 '' ofstream this_ofs(this_filename, std::ofstream::trunc | std::ios::binary);'' [],
       Ln 2 '' archive::binary_oarchive this_oa(this_ofs);'' [],
       Ln 2 '' this_oa << *this;'' [],
       Ln 2 '' this_ofs.flush();'' [],
       Ln 2 '' this_ofs.close();'' [],
       Ln 1 '' }'' [],
       SlotFilename i ''this'',
       ParamInt (i + 1) (dt_code file_dt),
       SlotParam (i + 1) (i + 1),
       ParamInt (i + 2) (dir_code inout_dir),
       SlotParam (i + 2) (i + 2),
       ParamInt (i + 3) 3,
       SlotParam (i + 3) (i + 3),
       ParamNull (i + 4),
       SlotParam (i + 4) (i + 4),
       Ln 0 '''' []]\<close>

definition return_marshalling :: "func \<Rightarrow> int \<Rightarrow> emit list" where
  \<open>return_marshalling f i =
     [Ln 1 '' %s return_object;'' [FS (return_typename f)],
       FilenameDecl ''return'',
       GSRegister ''&return_object'' (dt_code object_dt) (dir_code out_dir) (Some ((return_typename f))) ''return'',
       Ln 1 '' if (!found) {'' [],
       Ln 2 '' cout << "Return object not found in registry. Serializing to " << return_filename << endl << flush;'' [],
       Ln 2 '' ofstream return_ofs(return_filename, std::ofstream::trunc | std::ios::binary);'' [],
       Ln 2 '' archive::binary_oarchive return_oa(return_ofs);'' [],
       Ln 2 '' return_oa << return_object;'' [],
       Ln 2 '' return_ofs.flush();'' [],
       Ln 2 '' return_ofs.close();'' [],
       Ln 1 '' }'' [],
       SlotFilename i ''return'',
       ParamInt (i + 1) (dt_code file_dt),
       SlotParam (i + 1) (i + 1),
       ParamInt (i + 2) (dir_code out_dir),
       SlotParam (i + 2) (i + 2),
       ParamInt (i + 3) 3,
       SlotParam (i + 3) (i + 3),
       ParamNull (i + 4),
       SlotParam (i + 4) (i + 4),
       Ln 0 '''' []]\<close>

definition argument_marshalling :: "argument \<Rightarrow> int \<Rightarrow> emit list" where
  \<open>argument_marshalling arg i =
     (if scalar (arg_type arg) \<or> stringish (arg_type arg) \<or> arg_type arg = file_dt
      then add_other_arg_master_treatment arg i
      else if arg_type arg = object_dt
      then add_object_arg_master_treatment arg i
      else []) @
     [Ln 0 '''' []]\<close>

text \<open>The loop over the arguments, with the counter \<open>j\<close> of parameters before them.\<close>

fun arguments_marshalling :: "argument list \<Rightarrow> int \<Rightarrow> emit list" where
  \<open>arguments_marshalling [] j = []\<close>
| \<open>arguments_marshalling (arg # rest) j =
     argument_marshalling arg (j * 5) @ arguments_marshalling rest (j + 1)\<close>

definition generate_parameter_marshalling :: "func \<Rightarrow> emit list" where
  \<open>generate_parameter_marshalling f =
     (let j0 = 0 :: int;
          j1 = (if has_target f then j0 + 1 else j0);
          j2 = (if return_type f \<noteq> void_dt then j1 + 1 else j1)
      in (if has_target f then target_marshalling f (j0 * 5) else []) @
         (if return_type f \<noteq> void_dt then return_marshalling f (j1 * 5) else []) @
         arguments_marshalling (first_argument f) j2 @
         [Ln 0 '''' []])\<close>

section \<open>generate_execute_call\<close>

definition execute_arg_count :: "func \<Rightarrow> int" where
  "execute_arg_count f =
     (let c = argument_count f;
          c = (if fn_classname f \<noteq> None \<and> access_static f = 0 then c + 1 else c)
      in if return_type f \<noteq> void_dt then c + 1 else c)"

definition generate_execute_call :: "func \<Rightarrow> emit list" where
  \<open>generate_execute_call f =
     (let class_name = (case fn_classname f of None \<Rightarrow> ''NULL'' | Some c \<Rightarrow> c);
          hasTarget = (if has_target f then ''true'' else ''false'');
          arg_count = execute_arg_count f
      in [Ln 1 '' char *method_name = strdup("%s");'' [FS (fn_name f)],
       ExecuteTask class_name hasTarget arg_count,
       Ln 1 ('' debug_printf("[   BINDING]  -  @%%s  -  Task submited in the runtime'' @ bsl @ ''n", method_name);'') [],
       Ln 0 '''' []] @
         (if return_type f \<noteq> void_dt then
            (if return_type f \<noteq> object_dt
             then [Ln 1 ('' debug_printf("[   BINDING]  -  @%%s  -  Implicit synchronization of return value'' @ bsl @ ''n", method_name);'') [],
       Ln 1 '' compss_wait_on(return_object);'' []]
             else []) @
            [Ln 0 '''' [],
       Ln 1 '' return return_object;'' [],
       Ln 0 '''' []]
          else []) @
         [Ln 1 ('' debug_printf("[   BINDING]  -  @%%s  -  Free method name'' @ bsl @ ''n", method_name);'') [],
       Ln 1 '' free(method_name);'' [],
       Ln 1 ('' debug_printf("[   BINDING]  -  End of task submission.'' @ bsl @ ''n");'') []])\<close>

section \<open>A stub\<close>

text \<open>What the body of \<open>generate_body\<close>'s loop prints in the stubs file for one function.\<close>

definition generate_stub :: "func \<Rightarrow> emit list" where
  \<open>generate_stub f =
     generate_prototype f @ [Ln 0 '''' [],
       Ln 0 ''{'' []] @
     generate_parameter_buffers f @
     generate_parameter_marshalling f @
     generate_execute_call f @
     [Ln 0 ''}'' [],
       Ln 0 '''' []]\<close>

end
