(* ===== verification/Type_Registry.thy ===== *)
theory Type_Registry
  imports Prelude
begin

text \<open>
  The growable array of class names of \<open>compssgen/types.c\<close> (\<open>Types\<close>): its state, its four
  operations, the representation invariant, and the interface \<open>type_table\<close> that the code
  generator relies on. The position of a name in the array is the type code that the
  generated worker stores beside each cached object.
\<close>

section \<open>State and operations\<close>

text \<open>
  \<open>types\<close> is the heap array of \<open>max\<close> cells; \<open>initTypes\<close> leaves them uninitialised.
  The counters are C \<open>int\<close>s that only grow, by one per class name: their overflow is out of
  reach of any input file and they are modelled as naturals.
\<close>

record Types =
  types_max :: nat
  types_cells :: "string option list"
  types_num :: nat

definition initTypes :: Types where
  "initTypes = \<lparr>types_max = 10, types_cells = replicate 10 None, types_num = 0\<rparr>"

text \<open>\<open>memcpy\<close> of the old \<open>max\<close> cells into a fresh array of \<open>max + 10\<close> cells.\<close>

definition increaseTypesCapacity :: "Types \<Rightarrow> Types" where
  "increaseTypesCapacity T =
     (let oldMax = types_max T;
          tmp1 = take oldMax (types_cells T) @ replicate (oldMax + 10 - oldMax) None
      in T\<lparr>types_max := oldMax + 10, types_cells := tmp1\<rparr>)"

text \<open>The \<open>for\<close> loops over \<open>0 \<le> i < num\<close>, from index \<open>i\<close>.\<close>

function containsType_from :: "string \<Rightarrow> Types \<Rightarrow> nat \<Rightarrow> bool result" where
  "containsType_from t T i =
     (if i < types_num T
      then rbind (cell (types_cells T) i)
             (\<lambda>s. if s = t then Inr True else containsType_from t T (Suc i))
      else Inr False)"
  by pat_completeness auto
termination
  by (relation "measure (\<lambda>(t, T, i). types_num T - i)") auto

definition containsType :: "string \<Rightarrow> Types \<Rightarrow> bool result" where
  "containsType t T = containsType_from t T 0"

function getTypeNumber_from :: "string \<Rightarrow> Types \<Rightarrow> nat \<Rightarrow> int result" where
  "getTypeNumber_from t T i =
     (if i < types_num T
      then rbind (cell (types_cells T) i)
             (\<lambda>s. if s = t then Inr (int i) else getTypeNumber_from t T (Suc i))
      else Inr (-1))"
  by pat_completeness auto
termination
  by (relation "measure (\<lambda>(t, T, i). types_num T - i)") auto

definition getTypeNumber :: "string \<Rightarrow> Types \<Rightarrow> int result" where
  "getTypeNumber t T = getTypeNumber_from t T 0"

declare containsType_from.simps [simp del] getTypeNumber_from.simps [simp del]

text \<open>
  \<open>addType\<close> allocates \<open>sizeof(char*)\<close> bytes for the name, whatever its length, and copies the
  name with its terminating zero into them: a name of eight characters or more overflows
  the block.
\<close>

definition sizeof_charp :: nat where
  "sizeof_charp = 8"

definition name_fits :: "string \<Rightarrow> bool" where
  "name_fits t \<longleftrightarrow> length t + 1 \<le> sizeof_charp"

definition addType :: "string \<Rightarrow> Types \<Rightarrow> Types result" where
  "addType t T =
     (let T1 = T\<lparr>types_num := types_num T + 1\<rparr>;
          T2 = (if types_num T1 > types_max T1 then increaseTypesCapacity T1 else T1)
      in if name_fits t
         then rmap (\<lambda>cs. T2\<lparr>types_cells := cs\<rparr>) (cell_set (types_cells T2) (types_num T2 - 1) t)
         else Inl Undefined)"

section \<open>Representation invariant and abstraction\<close>

text \<open>The first \<open>num\<close> cells hold names, the array has \<open>max\<close> cells.\<close>

definition types_inv :: "Types \<Rightarrow> bool" where
  "types_inv T \<longleftrightarrow>
     length (types_cells T) = types_max T \<and> types_num T \<le> types_max T \<and>
     None \<notin> set (take (types_num T) (types_cells T))"

definition type_names :: "Types \<Rightarrow> string list" where
  "type_names T = map the (take (types_num T) (types_cells T))"

lemma types_inv_cell:
  assumes "types_inv T" and "i < types_num T"
  shows "cell (types_cells T) i = Inr (type_names T ! i)"
proof -
  have "i < length (types_cells T)" and "types_cells T ! i \<noteq> None"
    using assms by (auto simp: types_inv_def in_set_conv_nth)
  then show ?thesis using assms(2) by (auto simp: cell_def type_names_def)
qed

lemma length_type_names: "types_inv T \<Longrightarrow> length (type_names T) = types_num T"
  by (simp add: types_inv_def type_names_def)

lemma initTypes_inv [simp]: "types_inv initTypes" "type_names initTypes = []"
  by (simp_all add: types_inv_def initTypes_def type_names_def)

lemma increaseTypesCapacity_simps [simp]:
  "types_num (increaseTypesCapacity T) = types_num T"
  "types_max (increaseTypesCapacity T) = types_max T + 10"
  "types_cells (increaseTypesCapacity T) = take (types_max T) (types_cells T) @ replicate 10 None"
  by (simp_all add: increaseTypesCapacity_def Let_def)

lemma containsType_from_correct:
  "types_inv T \<Longrightarrow> i \<le> types_num T \<Longrightarrow>
     containsType_from t T i = Inr (t \<in> set (drop i (type_names T)))"
proof (induction t T i rule: containsType_from.induct)
  case (1 t T i)
  show ?case
  proof (cases "i < types_num T")
    case True
    then have "drop i (type_names T) = type_names T ! i # drop (Suc i) (type_names T)"
      by (simp add: Cons_nth_drop_Suc length_type_names "1.prems"(1))
    then show ?thesis
      using True 1 by (subst containsType_from.simps) (auto simp: types_inv_cell)
  next
    case False
    then show ?thesis using "1.prems"
      by (subst containsType_from.simps) (simp add: length_type_names)
  qed
qed

lemma getTypeNumber_from_correct:
  "types_inv T \<Longrightarrow> i \<le> types_num T \<Longrightarrow>
     getTypeNumber_from t T i =
       Inr (case first_index t (drop i (type_names T)) of None \<Rightarrow> -1 | Some k \<Rightarrow> int (i + k))"
proof (induction t T i rule: getTypeNumber_from.induct)
  case (1 t T i)
  show ?case
  proof (cases "i < types_num T")
    case True
    then have "drop i (type_names T) = type_names T ! i # drop (Suc i) (type_names T)"
      by (simp add: Cons_nth_drop_Suc length_type_names "1.prems"(1))
    then show ?thesis
      using True 1
      by (subst getTypeNumber_from.simps) (auto simp: types_inv_cell split: option.splits)
  next
    case False
    then show ?thesis using "1.prems"
      by (subst getTypeNumber_from.simps) (simp add: length_type_names)
  qed
qed

lemma addType_correct:
  assumes "types_inv T" and "name_fits t"
  shows "\<exists>T'. addType t T = Inr T' \<and> types_inv T' \<and> type_names T' = type_names T @ [t]"
proof -
  let ?n = "types_num T"
  let ?T2 = "if ?n + 1 > types_max T then increaseTypesCapacity (T\<lparr>types_num := ?n + 1\<rparr>)
     else T\<lparr>types_num := ?n + 1\<rparr>"
  let ?T' = "?T2\<lparr>types_cells := (types_cells ?T2)[?n := Some t]\<rparr>"
  have len: "?n < length (types_cells ?T2)" "length (types_cells ?T2) = types_max ?T2"
    "types_num ?T2 = ?n + 1" "?n + 1 \<le> types_max ?T2"
    and pre: "take ?n (types_cells ?T2) = take ?n (types_cells T)"
    using assms(1) by (auto simp: types_inv_def)
  have take: "take (?n + 1) ((types_cells ?T2)[?n := Some t]) = take ?n (types_cells T) @ [Some t]"
    using len(1) pre by (simp add: take_Suc_conv_app_nth)
  have "addType t T = Inr ?T'"
    using assms(2) len(1,3) by (simp add: addType_def Let_def cell_set_def split: if_splits)
  moreover have "types_inv ?T'"
    using len take assms(1) by (simp add: types_inv_def)
  moreover have "type_names ?T' = type_names T @ [t]"
    using len(3) take by (simp add: type_names_def)
  ultimately show ?thesis by blast
qed

section \<open>The interface the code generator uses\<close>

text \<open>
  \<open>names\<close> is the abstract content: a list of names in the order of registration. The client
  looks a name up, adds it if it is absent, and asks for its number.
\<close>

locale type_table =
  fixes inv :: "'t \<Rightarrow> bool"
    and names :: "'t \<Rightarrow> string list"
    and fits :: "string \<Rightarrow> bool"
    and contains :: "string \<Rightarrow> 't \<Rightarrow> bool result"
    and number :: "string \<Rightarrow> 't \<Rightarrow> int result"
    and add :: "string \<Rightarrow> 't \<Rightarrow> 't result"
  assumes contains_law: "inv T \<Longrightarrow> contains t T = Inr (t \<in> set (names T))"
    and number_law: "inv T \<Longrightarrow> number t T = Inr (index_or_minus1 t (names T))"
    and add_law: "inv T \<Longrightarrow> fits t \<Longrightarrow>
      \<exists>T'. add t T = Inr T' \<and> inv T' \<and> names T' = names T @ [t]"
begin

text \<open>The client's idiom: add the name unless the table has it.\<close>

lemma register:
  assumes "inv T" and "fits t"
  shows "\<exists>T'. rbind (contains t T) (\<lambda>b. if b then Inr T else add t T) = Inr T' \<and> inv T' \<and>
    names T' = (if t \<in> set (names T) then names T else names T @ [t])"
  using assms contains_law add_law by auto

lemma register_distinct:
  assumes "inv T" and "fits t" and "distinct (names T)"
    and "rbind (contains t T) (\<lambda>b. if b then Inr T else add t T) = Inr T'"
  shows "distinct (names T')" and "t \<in> set (names T')"
  using register [OF assms(1,2)] assms(3,4) by (auto split: if_splits)

text \<open>A number is found exactly for the registered names, and it is the name's position.\<close>

lemma number_registered:
  assumes "inv T" and "t \<in> set (names T)"
  shows "\<exists>k < length (names T). number t T = Inr (int k) \<and> names T ! k = t"
proof -
  obtain k where "first_index t (names T) = Some k"
    using assms(2) first_index_in_set by metis
  then show ?thesis
    using number_law [OF assms(1)] first_index_SomeD by (fastforce simp: index_or_minus1_def)
qed

lemma number_unregistered: "inv T \<Longrightarrow> t \<notin> set (names T) \<Longrightarrow> number t T = Inr (-1)"
  by (simp add: number_law index_or_minus1_def first_index_None_iff [THEN iffD2])

text \<open>Numbers given out are never changed by later registrations.\<close>

lemma number_stable:
  assumes "inv T" and "inv T'" and "names T' = names T @ ns" and "t \<in> set (names T)"
  shows "number t T' = number t T"
  using assms by (simp add: number_law index_or_minus1_append)

end

interpretation tt: type_table types_inv type_names name_fits containsType getTypeNumber addType
proof unfold_locales
  fix t T
  assume inv: "types_inv T"
  show "containsType t T = Inr (t \<in> set (type_names T))"
    using inv by (simp add: containsType_def containsType_from_correct)
  show "getTypeNumber t T = Inr (index_or_minus1 t (type_names T))"
    using inv by (simp add: getTypeNumber_def getTypeNumber_from_correct index_or_minus1_def
        cong: option.case_cong)
  show "\<exists>T'. addType t T = Inr T' \<and> types_inv T' \<and> type_names T' = type_names T @ [t]"
    if "name_fits t" using addType_correct inv that .
qed

text \<open>A name too long for the allocated block: the copy overflows it, whatever the table.\<close>

lemma addType_overflow: "\<not> name_fits t \<Longrightarrow> addType t T = Inl Undefined"
  by (simp add: addType_def Let_def)

lemma addType_keeps_prefix:
  assumes "types_inv T" and "addType t T = Inr T'"
  shows "types_inv T' \<and> type_names T' = type_names T @ [t]"
proof -
  have "name_fits t" using assms(2) addType_overflow by fastforce
  then show ?thesis using tt.add_law assms by fastforce
qed

section \<open>Properties of the table\<close>

text \<open>Registering a list of names the way the code generator does, one after the other.\<close>

definition register_all :: "string list \<Rightarrow> Types \<Rightarrow> Types result" where
  "register_all = rfold (\<lambda>t T. rbind (containsType t T) (\<lambda>b. if b then Inr T else addType t T))"

lemma register_all_names:
  "types_inv T \<Longrightarrow> \<forall>t \<in> set ts. name_fits t \<Longrightarrow>
     \<exists>T'. register_all ts T = Inr T' \<and> types_inv T' \<and>
       (\<exists>ns. type_names T' = type_names T @ ns) \<and>
       set (type_names T') = set (type_names T) \<union> set ts \<and>
       (distinct (type_names T) \<longrightarrow> distinct (type_names T'))"
proof (induction ts arbitrary: T)
  case Nil
  then show ?case by (simp add: register_all_def)
next
  case (Cons t ts)
  obtain T1 where T1: "rbind (containsType t T) (\<lambda>b. if b then Inr T else addType t T) = Inr T1"
    "types_inv T1" "type_names T1 = (if t \<in> set (type_names T) then type_names T else type_names T @ [t])"
    using tt.register [of T t] Cons.prems by auto
  obtain T' where T': "register_all ts T1 = Inr T'" "types_inv T'"
    "\<exists>ns. type_names T' = type_names T1 @ ns"
    "set (type_names T') = set (type_names T1) \<union> set ts"
    "distinct (type_names T1) \<longrightarrow> distinct (type_names T')"
    using Cons.IH [OF T1(2)] Cons.prems(2) by auto
  then show ?case using T1 by (auto simp: register_all_def split: if_splits)
qed

text \<open>
  After the class names of an interface have been registered in an empty table, growing it
  as often as needed, every one of them has a number below the size of the table, different names
  have different numbers, and any other name has the number -1.
\<close>

theorem type_numbers:
  assumes "\<forall>t \<in> set ts. name_fits t"
  shows "\<exists>T. register_all ts initTypes = Inr T \<and> types_num T = card (set ts) \<and>
    (\<forall>t. getTypeNumber t T = Inr (index_or_minus1 t (type_names T))) \<and>
    (\<forall>t \<in> set ts. \<exists>k < types_num T. getTypeNumber t T = Inr (int k) \<and> type_names T ! k = t) \<and>
    (\<forall>t. t \<notin> set ts \<longrightarrow> getTypeNumber t T = Inr (-1))"
proof -
  obtain T where T: "register_all ts initTypes = Inr T" "types_inv T"
    "set (type_names T) = set ts" "distinct (type_names T)"
    using register_all_names [of initTypes ts] assms by auto
  have len: "length (type_names T) = types_num T"
    by (rule length_type_names [OF T(2)])
  then have "types_num T = card (set ts)" using T(3,4) distinct_card by metis
  moreover have "\<exists>k < types_num T. getTypeNumber t T = Inr (int k) \<and> type_names T ! k = t"
    if "t \<in> set ts" for t
    using tt.number_registered [OF T(2), of t] that T(3) len by simp
  ultimately show ?thesis
    using T tt.number_law [OF T(2)] tt.number_unregistered [OF T(2)] by blast
qed

theorem type_numbers_witness:
  "\<exists>T. register_all [''Block'', ''string'', ''Block'', ''Matrix''] initTypes = Inr T \<and> types_num T = 3"
proof -
  have c: "card (set [''Block'', ''string'', ''Block'', ''Matrix'']) = 3" by code_simp
  have f: "\<forall>t \<in> set [''Block'', ''string'', ''Block'', ''Matrix'']. name_fits t" by code_simp
  show ?thesis using type_numbers [OF f] unfolding c by blast
qed

text \<open>
  A class name of eight or more characters does not fit the block that \<open>addType\<close> allocates
  for it: the copy overflows the heap block, whatever the state of the table.
\<close>

theorem long_class_name_overflows:
  assumes "8 \<le> length t"
  shows "addType t T = Inl Undefined"
  using assms by (intro addType_overflow) (simp add: name_fits_def sizeof_charp_def)

theorem long_class_name_overflows_witness: "addType ''MatrixBlock'' initTypes = Inl Undefined"
  by (rule long_class_name_overflows) simp

end
