(* ===== verification/Backend_Lib.thy ===== *)
theory Backend_Lib
  imports Semantic "HOL-Library.Word"
begin

text \<open>
  The helpers of the code generator, \<open>compssgen/backendlib.c\<close>: character replacement, the
  renaming and creation of output files, the base name of the input file, and the string hash.
\<close>

section \<open>replace_char\<close>

fun replace_char :: "string \<Rightarrow> char \<Rightarrow> char \<Rightarrow> string" where
  "replace_char [] f r = []"
| "replace_char (c # s) f r = (if c = f then r else c) # replace_char s f r"

lemma replace_char_map: "replace_char s f r = map (\<lambda>c. if c = f then r else c) s"
  by (induction s) simp_all

section \<open>Output files\<close>

text \<open>
  The file system is a map from names to contents; \<open>may_write n\<close> says whether \<open>fopen (n, "w")\<close>
  succeeds, \<open>may_rename n\<close> whether \<open>rename\<close> does (its result is ignored by the code). File
  names live in buffers of \<open>PATH_MAX\<close> bytes; \<open>strncat (dest, s, PATH_MAX)\<close> bounds the number
  of characters appended, not the size of the buffer, so a name that does not fit with its
  terminating zero overflows it.
\<close>

definition PATH_MAX :: nat where
  "PATH_MAX = 4096"

record fs =
  files :: "string \<Rightarrow> string option"
  may_write :: "string \<Rightarrow> bool"
  may_rename :: "string \<Rightarrow> bool"
  do_backups :: bool

text \<open>\<open>strncpy (buf, s, PATH_MAX)\<close> without room for the zero leaves no string in the buffer.\<close>

definition copy_name :: "string \<Rightarrow> string result" where
  "copy_name s = (if length s < PATH_MAX then Inr s else Inl Undefined)"

definition append_name :: "string \<Rightarrow> string \<Rightarrow> string result" where
  "append_name s e = (if length s + length e < PATH_MAX then Inr (s @ e) else Inl Undefined)"

definition rename_if_clash :: "string \<Rightarrow> fs \<Rightarrow> fs result" where
  "rename_if_clash origin F =
     (if do_backups F \<and> files F origin \<noteq> None
      then rbind (copy_name origin) (\<lambda>d. rmap (\<lambda>dest.
             if may_rename F origin
             then F\<lparr>files := (files F)(dest := files F origin, origin := None)\<rparr>
             else F) (append_name d ''~''))
      else Inr F)"

text \<open>\<open>fopen (n, "w")\<close>: the file is created empty, or \<open>None\<close>.\<close>

definition fopen_w :: "string \<Rightarrow> fs \<Rightarrow> fs option" where
  "fopen_w n F = (if may_write F n then Some (F\<lparr>files := (files F)(n \<mapsto> '''')\<rparr>) else None)"

text \<open>The name of the file the stream is opened on, with the file system afterwards.\<close>

definition create_without_overwrite :: "string \<Rightarrow> fs \<Rightarrow> (string \<times> fs option)" where
  "create_without_overwrite origin F =
     (if do_backups F \<and> files F origin \<noteq> None
      then (''/dev/null'', if may_write F ''/dev/null'' then Some F else None)
      else (origin, fopen_w origin F))"

definition set_no_backups :: "fs \<Rightarrow> fs" where
  "set_no_backups F = F\<lparr>do_backups := False\<rparr>"

section \<open>get_filename_base\<close>

text \<open>Without a dot \<open>strrchr\<close> returns the null pointer, and the difference of pointers is
  meaningless.\<close>

definition get_filename_base :: "string \<Rightarrow> string result" where
  "get_filename_base fname =
     (case strrchr fname CHR ''.'' of
        None \<Rightarrow> Inl Undefined
      | Some ext \<Rightarrow> if ext < PATH_MAX then Inr (take ext fname) else Inl Undefined)"

section \<open>hash\<close>

text \<open>\<open>char\<close> is signed: it is sign-extended to \<open>int\<close> and then to 64 bits. The addition wraps.\<close>

definition char_word :: "char \<Rightarrow> 8 word" where
  "char_word c = of_nat (of_char c)"

definition hash_step :: "64 word \<Rightarrow> char \<Rightarrow> 64 word" where
  "hash_step h c = (push_bit 5 h + h) + signed (char_word c)"

definition hash :: "string \<Rightarrow> 64 word" where
  "hash str = fold (\<lambda>c h. hash_step h c) str 5381"

end
