(* ===== verification/Worker_Gen.thy ===== *)
theory Worker_Gen
  imports Stub_Gen Type_Registry Backend_Lib
begin

text \<open>
  The worker side of the code generator (\<open>compssgen/c-backend.c\<close>): for every function the
  \<open>case\<close> of the executor's \<open>switch\<close> that reads the parameters from \<open>argv\<close>, looks objects up in
  the object cache or deserialises them, calls the user function and serialises its outputs; the
  class includes with the registration of the class names; and the functions that remove and
  serialise cached objects. Calls of \<open>exit\<close> and reads of the type table make the definitions
  return a \<open>result\<close>; what was printed before a failure is not part of it.
\<close>

section \<open>add_object_arg_worker_treatment\<close>

definition object_arg_head :: "argument \<Rightarrow> int \<Rightarrow> emit list" where
  \<open>object_arg_head arg initOffset =
     [Ln 3 '' cout << "[C Binding] Treating object %s ..." << endl << flush;'' [FS (arg_name arg)],
       OffAdd initOffset,
       ReadOg (arg_name arg),
       Ln 3 '' char* %s_filename, *%s_orig_id, *%s_dest_id, *%s_pres_data, *%s_write_data;'' [FS (arg_name arg), FS (arg_name arg), FS (arg_name arg), FS (arg_name arg), FS (arg_name arg)],
       Ln 3 '' %s_filename = %s_filename_og ;'' [FS (arg_name arg), FS (arg_name arg)],
       Ln 3 '' %s_orig_id = strsep(&%s_filename,":");'' [FS (arg_name arg), FS (arg_name arg)],
       Ln 3 '' cout << "[C Binding] Checking object data id for %s ..." << endl << flush;'' [FS (arg_name arg)],
       Ln 3 '' if (%s_orig_id != NULL && %s_filename != NULL){ '' [FS (arg_name arg), FS (arg_name arg)],
       Ln 4 '' cout << "[C Binding] Managing object data id for %s ..." << endl << flush;'' [FS (arg_name arg)],
       Ln 4 '' %s_dest_id = strsep(&%s_filename,":");'' [FS (arg_name arg), FS (arg_name arg)],
       Ln 4 '' %s_pres_data = strsep(&%s_filename,":");'' [FS (arg_name arg), FS (arg_name arg)],
       Ln 4 '' %s_write_data = strsep(&%s_filename,":");'' [FS (arg_name arg), FS (arg_name arg)],
       Ln 4 '' string %s_orig_id_str(%s_orig_id);'' [FS (arg_name arg), FS (arg_name arg)],
       Ln 4 '' string %s_dest_id_str(%s_dest_id);'' [FS (arg_name arg), FS (arg_name arg)]]\<close>

definition string_input :: "argument \<Rightarrow> bool" where
  "string_input arg \<longleftrightarrow> arg_type arg = string_dt \<or> arg_type arg = wstring_dt"

definition object_in_cached :: "argument \<Rightarrow> int \<Rightarrow> emit list" where
  \<open>object_in_cached arg position =
     [Ln 4 '' cout << "[C Binding] Checking if object %s with id "<< %s_orig_id_str << " is in cache." << endl << flush;'' [FS (arg_name arg), FS (arg_name arg)],
       Ln 4 '' bool found;'' [],
       Ln 4 '' get_compss_worker_lock();'' [],
       Ln 4 '' found = (cache.find(%s_orig_id_str) != cache.end());'' [FS (arg_name arg)],
       Ln 4 '' release_compss_worker_lock();'' [],
       Ln 4 '' if (!found){'' [],
       Ln 5 '' cout << "[C Binding] Deserializing object %s." << endl << flush;'' [FS (arg_name arg)],
       Ln 5 '' ifstream %s_ifs(%s_filename, std::ios::binary);'' [FS (arg_name arg), FS (arg_name arg)],
       Ln 5 '' archive::binary_iarchive %s_ia(%s_ifs);'' [FS (arg_name arg), FS (arg_name arg)]] @
     (if string_input arg
      then [Ln 5 '' string %s_in_string;'' [FS (arg_name arg)],
       Ln 5 '' %s_ia >> %s_in_string;'' [FS (arg_name arg), FS (arg_name arg)],
       Ln 5 '' %s_ifs.close();'' [FS (arg_name arg)],
       Ln 5 '' %s = strdup(%s_in_string.c_str());'' [FS (arg_name arg), FS (arg_name arg)]]
      else [Ln 5 '' %s_ia >> *%s;'' [FS (arg_name arg), FS (arg_name arg)],
       Ln 5 '' %s_ifs.close();'' [FS (arg_name arg)]]) @
     [Ln 5 '' get_compss_worker_lock();'' [],
       Ln 5 '' cache[%s_dest_id_str] = (void*)%s;'' [FS (arg_name arg), FS (arg_name arg)],
       Ln 5 '' types[%s_dest_id_str] = %d;'' [FS (arg_name arg), FD position],
       Ln 5 '' release_compss_worker_lock();'' [],
       Ln 5 '' cout << "[C Binding] Object " << %s_dest_id_str << " has been added to the cache with type %d." << endl << flush;'' [FS (arg_name arg), FD position],
       Ln 4 '' } else {'' [],
       Ln 5 '' get_compss_worker_lock();'' [],
       Ln 5 '' %s = (%s*)cache[%s_orig_id_str];'' [FS (arg_name arg), FP (arg_classname arg), FS (arg_name arg)],
       Ln 5 '' release_compss_worker_lock();'' [],
       Ln 5 '' cout << "[C Binding] Object " << %s_orig_id_str << " has been read from the cache." << endl << flush;'' [FS (arg_name arg)],
       Ln 4 '' }'' []]\<close>

definition object_inout_missing :: "argument \<Rightarrow> int \<Rightarrow> emit list" where
  \<open>object_inout_missing arg position =
     [Ln 5 '' cout << "[C Binding] Checking object %s with id "<< %s_orig_id_str << " and preserve_data " << %s_pres_data << " is in cache." << endl << flush;'' [FS (arg_name arg), FS (arg_name arg), FS (arg_name arg)],
       Ln 4 '' bool found;'' [],
       Ln 4 '' get_compss_worker_lock();'' [],
       Ln 4 '' found = (cache.find(%s_orig_id_str) != cache.end());'' [FS (arg_name arg)],
       Ln 4 '' release_compss_worker_lock();'' [],
       Ln 4 '' if (!found){'' [],
       Ln 5 '' cout << "[C Binding] Deserializing object %s." << endl << flush;'' [FS (arg_name arg)],
       Ln 5 '' ifstream %s_ifs(%s_filename, std::ios::binary);'' [FS (arg_name arg), FS (arg_name arg)],
       Ln 5 '' archive::binary_iarchive %s_ia(%s_ifs);'' [FS (arg_name arg), FS (arg_name arg)]] @
     (if string_input arg
      then [Ln 5 '' string %s_in_string;'' [FS (arg_name arg)],
       Ln 3 '' cout << "[C Binding] Object " << id << " about to be serialized as input." << endl << flush;'' [],
       Ln 5 '' %s_ia >> %s_in_string;'' [FS (arg_name arg), FS (arg_name arg)],
       Ln 5 '' %s_ifs.close();'' [FS (arg_name arg)],
       Ln 3 '' cout << "[C Binding] Object has been serialized as input." << endl << flush;'' [],
       Ln 5 '' %s = strdup(%s_in_string.c_str());'' [FS (arg_name arg), FS (arg_name arg)]]
      else [Ln 5 '' %s_ia >> *%s;'' [FS (arg_name arg), FS (arg_name arg)],
       Ln 5 '' %s_ifs.close();'' [FS (arg_name arg)]]) @
     [Ln 5 '' get_compss_worker_lock();'' [],
       Ln 5 '' cache[%s_dest_id_str] = (void*)%s;'' [FS (arg_name arg), FS (arg_name arg)],
       Ln 5 '' types[%s_dest_id_str] = %d;'' [FS (arg_name arg), FD position],
       Ln 5 '' release_compss_worker_lock();'' [],
       Ln 5 '' cout << "[C Binding] Object " << %s_dest_id_str << " has been added to the cache with type %d." << endl << flush;'' [FS (arg_name arg), FD position]]\<close>

definition object_inout_preserved :: "argument \<Rightarrow> int \<Rightarrow> emit list" where
  \<open>object_inout_preserved arg position =
     [Ln 4 '' } else if (string(%s_pres_data) == "true"){'' [FS (arg_name arg), FS (arg_name arg), FS (arg_name arg)],
       Ln 5 '' cout << "[C Binding] Deserializing object %s." << endl << flush;'' [FS (arg_name arg)],
       Ln 5 '' if (found){'' [],
       Ln 6 '' ofstream %s_ofs(%s_orig_id, std::ios::binary);'' [FS (arg_name arg), FS (arg_name arg)],
       Ln 6 '' archive::binary_oarchive %s_oa(%s_ofs);'' [FS (arg_name arg), FS (arg_name arg)],
       Ln 4 '' %s *o_data;'' [FP (arg_classname arg)],
       Ln 4 '' get_compss_worker_lock();'' [],
       Ln 4 '' o_data = (%s*)cache[%s_orig_id];'' [FP (arg_classname arg), FS (arg_name arg)],
       Ln 4 '' release_compss_worker_lock();'' [],
       Ln 4 '' %s_oa << *o_data;'' [FS (arg_name arg)],
       Ln 6 '' %s_ofs.flush();'' [FS (arg_name arg)],
       Ln 6 '' %s_ofs.close();'' [FS (arg_name arg)],
       Ln 5 '' }'' [],
       Ln 5 '' ifstream %s_ifs(%s_orig_id, std::ios::binary);'' [FS (arg_name arg), FS (arg_name arg)],
       Ln 5 '' archive::binary_iarchive %s_ia(%s_ifs);'' [FS (arg_name arg), FS (arg_name arg)]] @
     (if string_input arg
      then [Ln 5 '' string %s_in_string;'' [FS (arg_name arg)],
       Ln 5 '' cout << "[C Binding] Object " << id << " about to be serialized as input." << endl << flush;'' [],
       Ln 5 '' %s_ia >> %s_in_string;'' [FS (arg_name arg), FS (arg_name arg)],
       Ln 5 '' %s_ifs.close();'' [FS (arg_name arg)],
       Ln 5 '' cout << "[C Binding] Object has been serialized as input." << endl << flush;'' [],
       Ln 5 '' %s = strdup(%s_in_string.c_str());'' [FS (arg_name arg), FS (arg_name arg)]]
      else [Ln 5 '' %s_ia >> *%s;'' [FS (arg_name arg), FS (arg_name arg)],
       Ln 5 '' %s_ifs.close();'' [FS (arg_name arg)]]) @
     [Ln 5 '' get_compss_worker_lock();'' [],
       Ln 5 '' cache[%s_dest_id_str] = (void*)%s;'' [FS (arg_name arg), FS (arg_name arg)],
       Ln 5 '' types[%s_dest_id_str] = %d;'' [FS (arg_name arg), FD position],
       Ln 5 '' release_compss_worker_lock();'' [],
       Ln 5 '' cout << "[C Binding] Object " << %s_dest_id_str << " has been added to the cache with type %d." << endl << flush;'' [FS (arg_name arg), FD position]]\<close>

definition object_inout_cached :: "argument \<Rightarrow> int \<Rightarrow> emit list" where
  \<open>object_inout_cached arg position =
     object_inout_missing arg position @
     object_inout_preserved arg position @
     [Ln 4 '' } else {'' [],
       Ln 5 '' %s = (%s*)cache[%s_orig_id_str];'' [FS (arg_name arg), FP (arg_classname arg), FS (arg_name arg)],
       Ln 5 '' cout << "[C Binding] Object " << %s_orig_id_str << " has been read from the cache." << endl << flush;'' [FS (arg_name arg)],
       Ln 5 '' get_compss_worker_lock();'' [],
       Ln 5 '' if (string(%s_pres_data) == "false"){'' [FS (arg_name arg)],
       Ln 6 '' cache.erase(%s_orig_id_str);'' [FS (arg_name arg)],
       Ln 6 '' types.erase(%s_orig_id_str);'' [FS (arg_name arg)],
       Ln 6 '' cout << "[C Binding] Object " << %s_orig_id_str << " has been removed from the cache." << endl << flush;'' [FS (arg_name arg)],
       Ln 5 '' }'' [],
       Ln 5 '' cache[%s_dest_id_str] = (void*)%s;'' [FS (arg_name arg), FS (arg_name arg)],
       Ln 5 '' types[%s_dest_id_str] = %d;'' [FS (arg_name arg), FD position],
       Ln 5 '' cout << "[C Binding] Object " << %s_dest_id_str << " has been added to the cache with type %d." << endl << flush;'' [FS (arg_name arg), FD position],
       Ln 5 '' release_compss_worker_lock();'' [],
       Ln 4 '' }'' [],
       Ln 4 '' if (serializeOuts < 1){'' [],
       Ln 5 '' remove(%s_dest_id);'' [FS (arg_name arg)],
       Ln 5 '' cout << "[C Binding] Removed file " << %s_dest_id << endl;'' [FS (arg_name arg)],
       Ln 4 '' }'' []]\<close>

definition object_out_cached :: "argument \<Rightarrow> int \<Rightarrow> emit list" where
  \<open>object_out_cached arg position =
     [Ln 5 '' get_compss_worker_lock();'' [],
       Ln 4 '' cache[%s_dest_id_str] = (void*)%s;'' [FS (arg_name arg), FS (arg_name arg)],
       Ln 4 '' types[%s_dest_id_str] = %d;'' [FS (arg_name arg), FD position],
       Ln 5 '' release_compss_worker_lock();'' [],
       Ln 4 '' cout << "[C Binding] Object " << %s_dest_id_str << " has been added to the cache with type %d." << endl << flush;'' [FS (arg_name arg), FD position],
       Ln 4 '' if (serializeOuts < 1){'' [],
       Ln 5 '' remove(%s_dest_id);'' [FS (arg_name arg)],
       Ln 5 '' cout << "[C Binding] Removed file " << %s_dest_id << endl;'' [FS (arg_name arg)],
       Ln 4 '' }'' []]\<close>

text \<open>The branch without data information, and the step to the next parameter.\<close>

definition object_arg_tail :: "argument \<Rightarrow> emit list" where
  \<open>object_arg_tail arg =
     [Ln 3 '' } else {'' [],
       Ln 4 '' cout << "[C Binding] Data ID not found in argument value. Reseting filename " << endl << flush;'' [FS (arg_name arg)],
       Ln 4 '' %s_filename = %s_filename_og ;'' [FS (arg_name arg), FS (arg_name arg)]] @
     (if arg_dir arg = in_dir \<or> arg_dir arg = inout_dir
      then [Ln 5 '' ifstream %s_ifs(%s_filename, std::ios::binary);'' [FS (arg_name arg), FS (arg_name arg)],
       Ln 5 '' archive::binary_iarchive %s_ia(%s_ifs);'' [FS (arg_name arg), FS (arg_name arg)]] @
        (if string_input arg
         then [Ln 5 '' string %s_in_string;'' [FS (arg_name arg)],
       Ln 5 '' %s_ia >> %s_in_string;'' [FS (arg_name arg), FS (arg_name arg)],
       Ln 5 '' %s_ifs.close();'' [FS (arg_name arg)],
       Ln 5 '' %s = strdup(%s_in_string.c_str());'' [FS (arg_name arg), FS (arg_name arg)]]
         else [Ln 5 '' %s_ia >> *%s;'' [FS (arg_name arg), FS (arg_name arg)],
       Ln 5 '' %s_ifs.close();'' [FS (arg_name arg)]])
      else []) @
     [Ln 3 '' }'' [],
       OffNext 4]\<close>

definition object_arg_cached :: "argument \<Rightarrow> int \<Rightarrow> emit list" where
  \<open>object_arg_cached arg position =
     (case arg_dir arg of
        in_dir \<Rightarrow> object_in_cached arg position
      | inout_dir \<Rightarrow> object_inout_cached arg position
      | out_dir \<Rightarrow> object_out_cached arg position
      | null_dir \<Rightarrow> [])\<close>

text \<open>\<open>getTypeNumber\<close> compares with \<open>strcmp\<close>: a null class name is undefined behaviour.\<close>

definition add_object_arg_worker_treatment :: "argument \<Rightarrow> int \<Rightarrow> Types \<Rightarrow> emit list result" where
  \<open>add_object_arg_worker_treatment arg initOffset current_types =
     (case arg_classname arg of
        None \<Rightarrow> Inl Undefined
      | Some c \<Rightarrow> rbind (getTypeNumber c current_types) (\<lambda>position.
          if position < 0 then Inl (Exit 1)
          else Inr (object_arg_head arg initOffset @ object_arg_cached arg position @
            object_arg_tail arg)))\<close>

section \<open>add_file_arg_worker_treatment and add_other_arg_worker_treatment\<close>

definition add_file_arg_worker_treatment :: "argument \<Rightarrow> emit list" where
  \<open>add_file_arg_worker_treatment arg =
     [OffAdd 3,
       ReadFile (arg_name arg),
       Ln 3 '' char *%s, *%s_orig_id, *%s_dest_id, *%s_pres_data, *%s_write_data;'' [FS (arg_name arg), FS (arg_name arg), FS (arg_name arg), FS (arg_name arg), FS (arg_name arg)],
       Ln 3 '' %s = %s_og;'' [FS (arg_name arg), FS (arg_name arg)],
       Ln 3 '' %s_orig_id = strsep(&%s,":");'' [FS (arg_name arg), FS (arg_name arg)],
       Ln 3 '' if (%s_orig_id != NULL && %s != NULL){ '' [FS (arg_name arg), FS (arg_name arg)],
       Ln 4 '' %s_dest_id = strsep(&%s,":");'' [FS (arg_name arg), FS (arg_name arg)],
       Ln 4 '' %s_pres_data = strsep(&%s,":");'' [FS (arg_name arg), FS (arg_name arg)],
       Ln 4 '' %s_write_data = strsep(&%s,":");'' [FS (arg_name arg), FS (arg_name arg)],
       Ln 3 '' } else {'' [],
       Ln 4 '' %s = %s_og;'' [FS (arg_name arg), FS (arg_name arg)],
       Ln 3 '' }'' [],
       OffNext 3]\<close>

definition other_arg_value :: "argument \<Rightarrow> emit list" where
  \<open>other_arg_value arg =
     (case arg_type arg of
        char_dt \<Rightarrow> [ReadVal FirstChar (arg_name arg)]
      | wchar_dt \<Rightarrow> [ReadVal FirstChar (arg_name arg)]
      | boolean_dt \<Rightarrow> [ReadVal NonNull (arg_name arg)]
      | int_dt \<Rightarrow> [ReadVal Atoi (arg_name arg)]
      | short_dt \<Rightarrow> [ReadVal Atoi (arg_name arg)]
      | long_dt \<Rightarrow> [ReadVal Atol (arg_name arg)]
      | longlong_dt \<Rightarrow> [ReadVal Atoll (arg_name arg)]
      | float_dt \<Rightarrow> [ReadVal Strtof (arg_name arg)]
      | double_dt \<Rightarrow> [ReadVal Strtod (arg_name arg)]
      | string_dt \<Rightarrow> [ReadWords (arg_name arg)]
      | wstring_dt \<Rightarrow> [ReadWords (arg_name arg)]
      | _ \<Rightarrow> [])\<close>

definition add_other_arg_worker_treatment :: "argument \<Rightarrow> Types \<Rightarrow> emit list result" where
  \<open>add_other_arg_worker_treatment arg current_types =
     (if arg_dir arg = in_dir
      then Inr ([OffAdd 3] @ other_arg_value arg @ [OffNext 3])
      else add_object_arg_worker_treatment arg 3 current_types)\<close>

section \<open>generate_worker_case\<close>

text \<open>
  The descriptors allocated for the target and for the return value. The fields that are not
  set are never read.
\<close>

definition target_arg :: "func \<Rightarrow> argument" where
  "target_arg f = \<lparr>arg_name = ''target_obj'', arg_classname = fn_classname f, arg_type = object_dt,
     arg_dir = inout_dir, arg_stream = UNSPECIFIED, passing_in_order = 0, passing_out_order = 0\<rparr>"

definition return_arg :: "func \<Rightarrow> argument" where
  "return_arg f = \<lparr>arg_name = ''return_object'', arg_classname = Some (return_typename f),
     arg_type = object_dt, arg_dir = out_dir, arg_stream = UNSPECIFIED, passing_in_order = 0,
     passing_out_order = 0\<rparr>"

definition worker_object_variable :: "argument \<Rightarrow> emit list" where
  \<open>worker_object_variable arg =
     [Ln 3 '' %s* %s = new %s();'' [FP (arg_classname arg), FS (arg_name arg), FP (arg_classname arg)]]\<close>

definition worker_implicit :: "func \<Rightarrow> Types \<Rightarrow> emit list result" where
  \<open>worker_implicit f current_types =
     rbind (if has_target f
            then rmap (\<lambda>es. worker_object_variable (target_arg f) @ es)
                   (add_object_arg_worker_treatment (target_arg f) 3 current_types)
            else Inr []) (\<lambda>ts.
     rbind (if return_type f \<noteq> void_dt
            then rmap (\<lambda>es. worker_object_variable (return_arg f) @ es)
                   (add_object_arg_worker_treatment (return_arg f) 3 current_types)
            else Inr []) (\<lambda>rs. Inr (ts @ rs)))\<close>

definition worker_declaration :: "argument \<Rightarrow> emit list" where
  \<open>worker_declaration arg =
     (case arg_type arg of
        char_dt \<Rightarrow> [DeclVar CChar (arg_name arg)]
      | wchar_dt \<Rightarrow> [DeclVar CChar (arg_name arg)]
      | boolean_dt \<Rightarrow> [DeclVar CInt (arg_name arg)]
      | short_dt \<Rightarrow> [DeclVar CShort (arg_name arg)]
      | long_dt \<Rightarrow> [DeclVar CLong (arg_name arg)]
      | longlong_dt \<Rightarrow> [DeclVar CLongLong (arg_name arg)]
      | int_dt \<Rightarrow> [DeclVar CInt (arg_name arg)]
      | float_dt \<Rightarrow> [DeclVar CFloat (arg_name arg)]
      | double_dt \<Rightarrow> [DeclVar CDouble (arg_name arg)]
      | file_dt \<Rightarrow> [Ln 3 '' char *%s_og;'' [FS (arg_name arg)]]
      | string_dt \<Rightarrow> [Ln 3 '' char *%s = NULL;'' [FS (arg_name arg)]]
      | wstring_dt \<Rightarrow> [Ln 3 '' char *%s = NULL;'' [FS (arg_name arg)]]
      | object_dt \<Rightarrow> worker_object_variable arg
      | _ \<Rightarrow> [])\<close>

definition worker_argument :: "Types \<Rightarrow> argument \<Rightarrow> emit list result" where
  \<open>worker_argument current_types arg =
     (if scalar (arg_type arg) \<or> stringish (arg_type arg)
      then add_other_arg_worker_treatment arg current_types
      else if arg_type arg = file_dt then Inr (add_file_arg_worker_treatment arg)
      else if arg_type arg = object_dt then add_object_arg_worker_treatment arg 3 current_types
      else Inr [])\<close>

text \<open>The loops over the arguments stop at the first failure.\<close>

definition worker_arguments :: "Types \<Rightarrow> argument list \<Rightarrow> emit list result" where
  "worker_arguments current_types as = rmap concat (rcollect (worker_argument current_types) as)"

definition worker_call_head :: "func \<Rightarrow> emit list" where
  \<open>worker_call_head f =
     [Ln 3 '' cout << "[C Binding] Calling function %s.%s" << endl << flush;'' [FP (fn_classname f), FP (Some (fn_methodname f))]] @
     (if has_target f \<and> return_type f = void_dt
      then [Tx (tab @ tab @ tab @ '' target_obj->%s('') [FP (Some (fn_methodname f))]]
      else if has_target f \<and> return_type f = void_dt
      then [Tx (tab @ tab @ tab @ '' *return_object = target_obj->%s('') [FP (Some (fn_methodname f))]]
      else if return_type f \<noteq> void_dt
      then [Tx (tab @ tab @ tab @ '' *return_object = %s('') [FS (fn_name f)]]
      else [Tx (tab @ tab @ tab @ '' %s('') [FS (fn_name f)]])\<close>

definition worker_call_argument :: "argument \<Rightarrow> emit list" where
  \<open>worker_call_argument arg =
     (if arg_dir arg = in_dir
      then (if scalar (arg_type arg) \<or> arg_type arg = object_dt \<or> stringish (arg_type arg) \<or>
               arg_type arg = file_dt
            then [Tx ''%s'' [FS (arg_name arg)]] else [])
      else (if scalar (arg_type arg) then [Tx ''&%s'' [FS (arg_name arg)]]
            else if arg_type arg = object_dt then [Tx ''%s'' [FS (arg_name arg)]]
            else if stringish (arg_type arg) then [Tx ''&%s'' [FS (arg_name arg)]]
            else if arg_type arg = file_dt then [Tx ''%s'' [FS (arg_name arg)]]
            else []))\<close>

fun worker_call_arguments :: "bool \<Rightarrow> argument list \<Rightarrow> emit list" where
  \<open>worker_call_arguments is_first_arg [] = []\<close>
| \<open>worker_call_arguments is_first_arg (arg # rest) =
     (if is_first_arg then [] else [Tx '', '' []]) @ worker_call_argument arg @
     worker_call_arguments False rest\<close>

definition worker_target_output :: "func \<Rightarrow> emit list" where
  \<open>worker_target_output f =
     [Ln 4 '' cout << "[C Binding] Treating target object" << endl << flush;'' [],
       Ln 4 '' ofstream this_ofs(target_obj_filename, std::ofstream::trunc | std::ios::binary);'' [],
       Ln 4 '' archive::binary_oarchive this_oa(this_ofs);'' [],
       Ln 4 '' cout << "[C Binding] Deserializing target object" << endl << flush;'' [],
       Ln 4 '' this_oa << *target_obj;'' [],
       Ln 4 '' this_ofs.flush();'' [],
       Ln 4 '' this_ofs.close();'' []]\<close>

definition worker_return_output :: "func \<Rightarrow> emit list" where
  \<open>worker_return_output f =
     [Ln 4 '' cout << "[C Binding] Treating return object" << endl << flush;'' [],
       Ln 4 '' ofstream return_ofs(return_object_filename, std::ofstream::trunc | std::ios::binary);'' [],
       Ln 4 '' archive::binary_oarchive return_oa(return_ofs);'' [],
       Ln 4 '' cout << "[C Binding] Deserializing return object" << endl << flush;'' [],
       Ln 4 '' return_oa << *return_object;'' [],
       Ln 4 '' return_ofs.flush();'' [],
       Ln 4 '' return_ofs.close();'' []]\<close>

definition worker_output :: "argument \<Rightarrow> emit list" where
  \<open>worker_output arg =
     (if arg_dir arg = out_dir \<or> arg_dir arg = inout_dir
      then (if scalar (arg_type arg) \<or> arg_type arg = object_dt
            then [Ln 4 '' ofstream %s_ofs(%s_filename, std::ofstream::trunc | std::ios::binary);'' [FS (arg_name arg), FS (arg_name arg)],
       Ln 4 '' archive::binary_oarchive %s_oa(%s_ofs);'' [FS (arg_name arg), FS (arg_name arg)],
       Ln 4 '' %s_oa << *%s;'' [FS (arg_name arg), FS (arg_name arg)],
       Ln 4 '' %s_ofs.flush();'' [FS (arg_name arg)],
       Ln 4 '' %s_ofs.close();'' [FS (arg_name arg)]]
            else if stringish (arg_type arg)
            then [Ln 4 '' ofstream %s_ofs(%s_filename, std::ofstream::trunc | std::ios::binary);'' [FS (arg_name arg), FS (arg_name arg)],
       Ln 4 '' archive::binary_oarchive %s_oa(%s_ofs);'' [FS (arg_name arg), FS (arg_name arg)],
       Ln 4 '' string %s_out_string (%s);'' [FS (arg_name arg), FS (arg_name arg)],
       Ln 4 '' %s_oa << %s_out_string;'' [FS (arg_name arg), FS (arg_name arg)],
       Ln 4 '' %s_ofs.flush();'' [FS (arg_name arg)],
       Ln 4 '' %s_ofs.close();'' [FS (arg_name arg)]]
            else [])
      else []) @
     [Ln 0 '''' []]\<close>

definition worker_free :: "argument \<Rightarrow> emit list" where
  \<open>worker_free arg =
     (if scalar (arg_type arg)
      then (if arg_dir arg \<noteq> in_dir then [Ln 3 '' free(%s_filename_og);'' [FS (arg_name arg)]] else [])
      else if arg_type arg = object_dt then [Ln 3 '' free(%s_filename_og);'' [FS (arg_name arg)]]
      else if arg_type arg = file_dt then [Ln 3 '' free(%s_og);'' [FS (arg_name arg)]]
      else if stringish (arg_type arg)
      then (if arg_dir arg \<noteq> in_dir then [Ln 3 '' free(%s_filename_og);'' [FS (arg_name arg)]] else []) @
        [Ln 3 '' free(%s);'' [FS (arg_name arg)]]
      else [])\<close>

definition worker_call :: "func \<Rightarrow> emit list" where
  \<open>worker_call f =
     worker_call_head f @ worker_call_arguments True (first_argument f) @
     [Ln 0 '');'' [],
       Ln 0 '''' []]\<close>

definition worker_epilogue :: "func \<Rightarrow> emit list" where
  \<open>worker_epilogue f =
     [Ln 3 '' if (serializeOuts){'' [],
       Ln 3 '' cout << "[C Binding] Object will be serialized as output." << endl << flush;'' []] @
     (if has_target f then worker_target_output f else []) @
     (if return_type f \<noteq> void_dt then worker_return_output f else []) @
     concat (map worker_output (first_argument f)) @
     [Ln 3 '' cout << "[C Binding] Object has been serialized as output." << endl << flush;'' [],
       Ln 3 '' }'' []] @
     (if has_target f then [Ln 3 '' free(target_obj_filename_og);'' [FP (fn_classname f)]] else []) @
     (if return_type f \<noteq> void_dt then [Ln 3 '' free(return_object_filename_og);'' []] else []) @
     concat (map worker_free (first_argument f)) @
     [Ln 3 '' return 0;'' [],
       Ln 2 '' }'' [],
       Ln 2 '' break;'' []]\<close>

definition generate_worker_case :: "Types \<Rightarrow> func \<Rightarrow> emit list result" where
  \<open>generate_worker_case current_types f =
     (let func_name = replace_char (fn_name f) CHR '':'' CHR ''_'' in
      rbind (worker_implicit f current_types) (\<lambda>is.
      rbind (worker_arguments current_types (first_argument f)) (\<lambda>as.
      Inr ([Ln 1 '' case %sOp:'' [FS func_name],
       Ln 2 '' {'' []] @ is @
        concat (map worker_declaration (first_argument f)) @
        [Ln 3 '' '' []] @ as @ worker_call f @ worker_epilogue f))))\<close>

section \<open>generate_class_includes_and_check_types\<close>

text \<open>The includes printed, and the type table afterwards.\<close>

definition check_type :: "string \<Rightarrow> Types \<Rightarrow> (emit list \<times> Types) result" where
  \<open>check_type c current_types =
     rbind (containsType c current_types) (\<lambda>b.
       if \<not> b
       then rmap (\<lambda>T. ([Ln 0 ''#include "%s.h";'' [FS c]], T)) (addType c current_types)
       else Inr ([], current_types))\<close>

fun check_types :: "string list \<Rightarrow> Types \<Rightarrow> (emit list \<times> Types) result" where
  "check_types [] T = Inr ([], T)"
| "check_types (c # cs) T =
     rbind (check_type c T) (\<lambda>(es, T1). rmap (\<lambda>(fs, T2). (es @ fs, T2)) (check_types cs T1))"

text \<open>The class names of a function, in the order they are checked.\<close>

definition function_classes :: "func \<Rightarrow> string option list" where
  "function_classes f =
     (if fn_classname f \<noteq> None then [fn_classname f] else []) @
     (if return_type f = object_dt then [Some (return_typename f)] else []) @
     map arg_classname (filter (\<lambda>a. arg_type a = object_dt) (first_argument f))"

definition generate_class_includes_and_check_types ::
  "Types \<Rightarrow> func \<Rightarrow> (emit list \<times> Types) result" where
  "generate_class_includes_and_check_types current_types f =
     (if None \<in> set (function_classes f) then Inl Undefined
      else check_types (map the (function_classes f)) current_types)"

section \<open>generate_remove_and_serialize_case\<close>

definition remove_case :: "int \<Rightarrow> string \<Rightarrow> emit list" where
  \<open>remove_case i dataType =
     [Ln 3 '' case %d:'' [FD i],
       Ln 4 '' %s *data_%d;'' [FS dataType, FD i],
       Ln 4 '' get_compss_worker_lock();'' [],
       Ln 4 '' data_%d = (%s*)cache[id];'' [FD i, FS dataType],
       Ln 4 '' cout << "[C Binding] Erasing from cache data structures..." << endl;'' [],
       Ln 4 '' cache.erase(id);'' [],
       Ln 4 '' types.erase(id);'' [],
       Ln 4 '' release_compss_worker_lock();'' [],
       Ln 4 '' cout << "[C Binding] Deleting object from memory..." << endl;'' [],
       Ln 4 '' delete(data_%d);'' [FD i],
       Ln 4 '' cout << "[C Binding] Object " << id << " has been removed from the cache." << endl << flush;'' [],
       Ln 4 '' break;'' []]\<close>

definition serialize_case :: "int \<Rightarrow> string \<Rightarrow> emit list" where
  \<open>serialize_case i dataType =
     [Ln 3 '' case %d:'' [FD i],
       Ln 4 '' cout << "[C Binding] Object " << id << " is about to be serialized." << endl << flush;'' [],
       Ln 4 '' %s *data_%d;'' [FS dataType, FD i],
       Ln 4 '' get_compss_worker_lock();'' [],
       Ln 4 '' data_%d = (%s*)cache[id];'' [FD i, FS dataType],
       Ln 4 '' release_compss_worker_lock();'' [],
       Ln 4 '' oa << *data_%d;'' [FD i],
       Ln 4 '' cout << "[C Binding] Object " << id << " has been serialized." << endl << flush;'' [],
       Ln 4 '' break;'' []]\<close>

definition type_cases :: "(int \<Rightarrow> string \<Rightarrow> emit list) \<Rightarrow> Types \<Rightarrow> emit list result" where
  "type_cases body current_types =
     rmap concat (rcollect (\<lambda>i. rmap (body (int i)) (cell (types_cells current_types) i))
       [0..<types_num current_types])"

definition generate_remove_and_serialize_case :: "Types \<Rightarrow> emit list result" where
  \<open>generate_remove_and_serialize_case current_types =
     rbind (type_cases remove_case current_types) (\<lambda>rs.
     rmap (\<lambda>ss. [Ln 0 ''void removeData(string id, std::map<std::string, void*>& cache, std::map<std::string, int>& types)'' [],
       Ln 0 ''{'' [],
       Ln 0 '''' [],
       Ln 1 '' cout << "[C Binding] Removing from cache data " << id  << endl;'' [],
       Ln 1 '' bool found;'' [],
       Ln 1 '' get_compss_worker_lock();'' [],
       Ln 1 '' found = (cache.find(id) != cache.end());'' [],
       Ln 1 '' release_compss_worker_lock();'' [],
       Ln 1 '' if (found){'' [],
       Ln 2 '' cout << "[C Binding] Data found in cache " << endl;'' [],
       Ln 2 '' int typeCode = types[id];'' [],
       Ln 2 '' switch(typeCode)'' [],
       Ln 2 '' {'' []] @ rs @
       [Ln 2 '' }'' [],
       Ln 1 '' }'' [],
       Ln 0 ''}'' [],
       Ln 0 '''' [],
       Ln 0 ''int serializeData(string id, const char* filename, std::map<std::string, void*>& cache, std::map<std::string, int>& types)'' [],
       Ln 0 ''{'' [],
       Ln 0 '''' [],
       Ln 1 '' cout << "[C Binding] serializing from cache data " << id  << endl;'' [],
       Ln 1 '' ofstream ofs(filename, std::ofstream::trunc | std::ios::binary);'' [],
       Ln 1 '' archive::binary_oarchive oa(ofs);'' [],
       Ln 1 '' bool found;'' [],
       Ln 1 '' get_compss_worker_lock();'' [],
       Ln 1 '' found = (cache.find(id) != cache.end());'' [],
       Ln 1 '' release_compss_worker_lock();'' [],
       Ln 1 '' if (found){'' [],
       Ln 2 '' get_compss_worker_lock();'' [],
       Ln 2 '' int typeCode = types[id];'' [],
       Ln 2 '' release_compss_worker_lock();'' [],
       Ln 2 '' switch(typeCode)'' [],
       Ln 2 '' {'' []] @ ss @
       [Ln 2 '' }'' [],
       Ln 1 '' }'' [],
       Ln 1 '' ofs.flush();'' [],
       Ln 1 '' ofs.close();'' [],
       Ln 0 ''}'' [],
       Ln 0 '''' []]) (type_cases serialize_case current_types))\<close>

end
