(* ===== verification/Idl_Grammar.thy ===== *)
theory Idl_Grammar
  imports Semantic
begin

text \<open>
  The grammar of interface files, \<open>compssgen/corba-gram.y\<close>: its abstract syntax, and for every
  production the semantic actions it runs, in the order the bison parser reduces them
  (\<open>corba-gram.c\<close>, \<open>yyreduce\<close>). The LALR tables themselves are generated code and are not
  modelled: an input file enters here as its syntax tree. The main results say that no
  interface file makes an action fail, and what table of functions the actions build.
\<close>

section \<open>Tokens and their values\<close>

datatype numeric_token = TOK_SHORT | TOK_LONG | TOK_LONGLONG | TOK_INT | TOK_FLOAT | TOK_DOUBLE

datatype type_token =
    TOK_UNSIGNED numeric_token | Numeric numeric_token
  | TOK_CHAR | TOK_WCHAR | TOK_BOOLEAN | TOK_STRING | TOK_WSTRING | TOK_ANY | TOK_VOID | TOK_FILE

datatype direction_token = TOK_IN | TOK_OUT | TOK_INOUT

fun numeric_type :: "numeric_token \<Rightarrow> dtype" where
  "numeric_type TOK_SHORT = short_dt"
| "numeric_type TOK_LONG = long_dt"
| "numeric_type TOK_LONGLONG = longlong_dt"
| "numeric_type TOK_INT = int_dt"
| "numeric_type TOK_FLOAT = float_dt"
| "numeric_type TOK_DOUBLE = double_dt"

fun data_type :: "type_token \<Rightarrow> dtype" where
  "data_type (TOK_UNSIGNED n) = numeric_type n"
| "data_type (Numeric n) = numeric_type n"
| "data_type TOK_CHAR = char_dt"
| "data_type TOK_WCHAR = wchar_dt"
| "data_type TOK_BOOLEAN = boolean_dt"
| "data_type TOK_STRING = string_dt"
| "data_type TOK_WSTRING = wstring_dt"
| "data_type TOK_ANY = any_dt"
| "data_type TOK_VOID = void_dt"
| "data_type TOK_FILE = file_dt"

fun direction_of :: "direction_token \<Rightarrow> direction" where
  "direction_of TOK_IN = in_dir"
| "direction_of TOK_OUT = out_dir"
| "direction_of TOK_INOUT = inout_dir"

section \<open>Syntax trees\<close>

text \<open>
  A type in a prototype is a \<open>data_type\<close> or the identifier of a class. The first component of
  an argument and of a prototype stands for the contents of the block that its action
  allocates. \<open>Arg_error\<close> is the production \<open>error\<close> in an argument list; \<open>Cut p n\<close> is a
  prototype abandoned by error recovery (\<open>error TOK_SEMICOLON\<close>) after \<open>n\<close> of its actions.
\<close>

datatype type_spec = Data type_token | Class string

datatype arg_item = Arg argument direction_token type_spec string | Arg_error

record prototype =
  p_block :: func
  p_static :: bool
  p_return :: type_spec
  p_name :: string
  p_args :: "arg_item list"

datatype prototype_item = Proto prototype | Cut prototype nat

record interface_decl =
  i_name :: string
  i_prototypes :: "prototype_item list"

fun spec_type :: "type_spec \<Rightarrow> dtype" where
  "spec_type (Data t) = data_type t"
| "spec_type (Class c) = object_dt"

fun spec_name :: "type_spec \<Rightarrow> string" where
  "spec_name (Data t) = ''''"
| "spec_name (Class c) = c"

section \<open>The actions of the productions\<close>

fun argument_actions :: "arg_item \<Rightarrow> sem_action list" where
  "argument_actions (Arg blk d t n) =
     [Add_argument blk (direction_of d) (spec_type t) (spec_name t) n]"
| "argument_actions Arg_error = [Set_serious_error]"

definition prototype_actions :: "prototype \<Rightarrow> sem_action list" where
  "prototype_actions p =
     [Begin_function (p_block p) (p_name p), Add_static (if p_static p then 1 else 0),
      Add_return_type (spec_type (p_return p)) (spec_name (p_return p)), Begin_arguments]
     @ concat (map argument_actions (p_args p)) @ [End_arguments, End_function]"

fun item_actions :: "prototype_item \<Rightarrow> sem_action list" where
  "item_actions (Proto p) = prototype_actions p"
| "item_actions (Cut p n) = take n (prototype_actions p) @ [Set_serious_error]"

definition interface_actions :: "interface_decl \<Rightarrow> sem_action list" where
  "interface_actions i = Begin_interface (i_name i) #
     concat (map item_actions (i_prototypes i)) @ [End_interface]"

definition file_actions :: "interface_decl list \<Rightarrow> sem_action list" where
  "file_actions is = concat (map interface_actions is)"

definition parse_file :: "interface_decl list \<Rightarrow> sem \<Rightarrow> sem result" where
  "parse_file is s = run_actions (file_actions is) s"

section \<open>What the actions should build\<close>

text \<open>
  The lexer's identifiers start with a letter, so the colon that splits a method name is never
  the first character: the only fact about tokens the actions rely on.
\<close>

definition ident :: "string \<Rightarrow> bool" where
  "ident n \<longleftrightarrow> n \<noteq> [] \<and> hd n \<noteq> CHR '':''"

fun item_proto :: "prototype_item \<Rightarrow> prototype" where
  "item_proto (Proto p) = p"
| "item_proto (Cut p n) = p"


text \<open>The arguments kept: the first of each name, none of type void.\<close>

fun keep_args :: "arg_item list \<Rightarrow> argument list \<Rightarrow> argument list" where
  "keep_args [] as = as"
| "keep_args (Arg_error # xs) as = keep_args xs as"
| "keep_args (Arg blk d t n # xs) as =
     keep_args xs (if n \<in> set (map arg_name as) \<or> spec_type t = void_dt then as
       else as @ [new_argument blk (direction_of d) (spec_type t) (spec_name t) n])"

fun args_wf :: "arg_item list \<Rightarrow> argument list \<Rightarrow> bool" where
  "args_wf [] as = True"
| "args_wf (Arg_error # xs) as = False"
| "args_wf (Arg blk d t n # xs) as =
     (n \<notin> set (map arg_name as) \<and> spec_type t \<noteq> void_dt \<and>
      args_wf xs (as @ [new_argument blk (direction_of d) (spec_type t) (spec_name t) n]))"

definition with_args :: "argument list \<Rightarrow> func \<Rightarrow> func" where
  "with_args as f = f\<lparr>first_argument := as, argument_count := int (length as),
     exec_arg_count := sum_list (map (exec_arg_weight \<circ> arg_dir) as)\<rparr>"

definition class_part :: "string \<Rightarrow> string option" where
  "class_part n = (case strrchr n CHR '':'' of None \<Rightarrow> None | Some p \<Rightarrow> Some (take (p - 1) n))"

definition method_part :: "string \<Rightarrow> string" where
  "method_part n = (case strrchr n CHR '':'' of None \<Rightarrow> n | Some p \<Rightarrow> drop (p + 1) n)"

definition func_of :: "prototype \<Rightarrow> func" where
  "func_of p = with_args (keep_args (p_args p) [])
     ((p_block p)\<lparr>fn_name := p_name p, access_static := (if p_static p then 1 else 0),
        fn_methodname := method_part (p_name p), fn_classname := class_part (p_name p),
        return_typename := spec_name (p_return p), return_type := spec_type (p_return p)\<rparr>)"

section \<open>Running the actions\<close>

lemma run_actions_simps [simp]:
  "run_actions [] s = Inr s"
  "run_actions (a # as) s = rbind (do_action a s) (run_actions as)"
  "run_actions (as @ bs) s = rbind (run_actions as s) (run_actions bs)"
  by (simp_all add: run_actions_def)


lemma with_args_same: "func_ok f \<Longrightarrow> with_args (first_argument f) f = f"
  by (simp add: with_args_def func_ok_def)

lemma with_args_simps [simp]:
  "first_argument (with_args as f) = as"
  "with_args as (with_args bs f) = with_args as f"
  "fn_name (with_args as f) = fn_name f"
  by (simp_all add: with_args_def)

text \<open>The states reached inside a prototype.\<close>

definition in_function :: "nat \<Rightarrow> sem \<Rightarrow> bool" where
  "in_function i s \<longleftrightarrow> sem_inv s \<and> current_function s = Some i"

lemma in_functionD:
  assumes "in_function i s"
  shows "pointers_ok s" "current_function s = Some i" "length (fun_list s) = Suc i"
    "func_ok (fun_list s ! i)" "main_interface s \<noteq> None" "sem_inv s"
proof -
  show "pointers_ok s" "current_function s = Some i" "sem_inv s"
    using assms by (simp_all add: in_function_def sem_inv_def)
  then show len: "length (fun_list s) = Suc i" by (simp add: pointers_ok_def)
  then show "func_ok (fun_list s ! i)"
    using \<open>sem_inv s\<close> by (simp add: sem_inv_def list_all_length)
  show "main_interface s \<noteq> None" using len fun_list_nonempty_main [of i s] by simp
qed

lemma add_argument_step:
  assumes "in_function i s"
  shows "\<exists>s'. add_argument blk d t c n s = Inr s' \<and> in_function i s' \<and>
    (let as = first_argument (fun_list s ! i); bad = (n \<in> set (map arg_name as) \<or> t = void_dt)
     in fun_list s' = (fun_list s)[i := with_args
          (if bad then as else as @ [new_argument blk d t c n]) (fun_list s ! i)] \<and>
        (has_errors s' \<longleftrightarrow> has_errors s \<or> bad))"
proof -
  note s = in_functionD [OF assms]
  let ?as = "first_argument (fun_list s ! i)"
  have same: "(fun_list s)[i := with_args ?as (fun_list s ! i)] = fun_list s"
    using s(4) by (simp add: with_args_same)
  show ?thesis
  proof (cases "n \<in> set (map arg_name ?as) \<or> t = void_dt")
    case True
    then obtain dg where r: "add_argument blk d t c n s = Inr (report dg s)"
      using add_argument_dup [OF s(1,2)] add_argument_void [OF s(1,2)]
      by (cases "n \<in> set (map arg_name ?as)") auto
    then have "in_function i (report dg s)"
      using add_argument_inv [OF s(6) r] s(2) by (simp add: in_function_def)
    with r True same show ?thesis by (auto simp: Let_def)
  next
    case False
    let ?s' = "(set_fun_list ((fun_list s)[i := with_args (?as @ [new_argument blk d t c n])
      (fun_list s ! i)]) s)\<lparr>current_argument := Some (length ?as)\<rparr>"
    have "(fun_list s ! i)\<lparr>first_argument := ?as @ [new_argument blk d t c n],
        argument_count := argument_count (fun_list s ! i) + 1,
        exec_arg_count := exec_arg_count (fun_list s ! i) + exec_arg_weight d\<rparr> =
        with_args (?as @ [new_argument blk d t c n]) (fun_list s ! i)"
      using s(4) by (simp add: with_args_def func_ok_def new_argument_def)
    then have r: "add_argument blk d t c n s = Inr ?s'"
      using add_argument_new [OF s(1,2)] False by simp
    then have "in_function i ?s'"
      using add_argument_inv [OF s(6) r] s(2) by (simp add: in_function_def)
    with r False s(5) show ?thesis by (simp add: Let_def)
  qed
qed

lemma argument_actions_run:
  assumes "in_function i s"
  shows "\<exists>s'. run_actions (concat (map argument_actions xs)) s = Inr s' \<and> in_function i s' \<and>
    fun_list s' = (fun_list s)[i := with_args (keep_args xs (first_argument (fun_list s ! i)))
       (fun_list s ! i)] \<and>
    (has_errors s' \<longleftrightarrow> has_errors s \<or> \<not> args_wf xs (first_argument (fun_list s ! i)))"
  using assms
proof (induction xs arbitrary: s)
  case Nil
  then show ?case using in_functionD(4) [OF Nil] by (auto simp: with_args_same)
next
  case (Cons x xs)
  note s = in_functionD [OF Cons.prems]
  show ?case
  proof (cases x)
    case Arg_error
    let ?t = "set_serious_error s"
    have t: "in_function i ?t" "fun_list ?t = fun_list s" "has_errors ?t"
      using s(2,6) by (simp_all add: in_function_def flag_actions_inv)
         (simp_all add: set_serious_error_def)
    show ?thesis using Cons.IH [OF t(1)] Arg_error t(2,3) by simp
  next
    case (Arg blk d t n)
    let ?as = "first_argument (fun_list s ! i)"
    let ?new = "new_argument blk (direction_of d) (spec_type t) (spec_name t) n"
    obtain s1 where s1: "do_action (Add_argument blk (direction_of d) (spec_type t) (spec_name t) n) s
        = Inr s1" "in_function i s1"
      "fun_list s1 = (fun_list s)[i := with_args (if n \<in> set (map arg_name ?as) \<or>
         spec_type t = void_dt then ?as else ?as @ [?new]) (fun_list s ! i)]"
      "has_errors s1 \<longleftrightarrow> has_errors s \<or> n \<in> set (map arg_name ?as) \<or> spec_type t = void_dt"
      using add_argument_step [OF Cons.prems] by (fastforce simp: Let_def)
    show ?thesis using Cons.IH [OF s1(2)] s1 s(3) Arg by (auto split: if_splits)
  qed
qed

lemma strrchr_ident: "ident n \<Longrightarrow> strrchr n CHR '':'' \<noteq> Some 0"
  by (auto simp: ident_def strrchr_Some_iff hd_conv_nth)

lemma split_name_ident: "ident n \<Longrightarrow> split_name n = Inr (class_part n, method_part n)"
  using strrchr_ident [of n]
  by (auto simp: split_name_def class_part_def method_part_def split: option.splits)

lemma begin_function_step:
  assumes "sem_inv s" and "main_interface s \<noteq> None" and "ident n"
  shows "\<exists>s'. begin_function blk n s = Inr s' \<and> in_function (length (fun_list s)) s' \<and>
    fun_list s' = fun_list s @ [blk\<lparr>fn_name := n, fn_methodname := method_part n,
      fn_classname := class_part n, return_type := null_dt, first_argument := [],
      argument_count := 0, exec_arg_count := 0\<rparr>] \<and>
    (has_errors s' \<longleftrightarrow> has_errors s \<or> n \<in> set (map fn_name (fun_list s)))"
proof -
  have p: "pointers_ok s" using assms(1) by (simp add: sem_inv_def)
  obtain s' where s': "begin_function blk n s = Inr s'"
    using assms(2) by (simp add: begin_function_Inr_iff [OF p] split_name_ident [OF assms(3)] Let_def)
  have "sem_inv s'" using begin_function_inv [OF assms(1) s'] .
  with s' assms(2) show ?thesis
    by (auto simp: begin_function_Inr_iff [OF p] split_name_ident [OF assms(3)] Let_def
        in_function_def)
qed

text \<open>Running one prototype appends one function, whatever the state and the errors.\<close>

lemma prototype_run:
  assumes "sem_inv s" and "main_interface s \<noteq> None" and "ident (p_name p)"
  shows "\<exists>s'. run_actions (prototype_actions p) s = Inr s' \<and> sem_inv s' \<and>
    main_interface s' \<noteq> None \<and> fun_list s' = fun_list s @ [func_of p] \<and>
    (has_errors s' \<longleftrightarrow> has_errors s \<or> p_name p \<in> set (map fn_name (fun_list s)) \<or>
       \<not> args_wf (p_args p) [])"
proof -
  let ?i = "length (fun_list s)"
  let ?f0 = "(p_block p)\<lparr>fn_name := p_name p, fn_methodname := method_part (p_name p),
    fn_classname := class_part (p_name p), return_type := null_dt, first_argument := [],
    argument_count := 0, exec_arg_count := 0\<rparr>"
  let ?st = "if p_static p then 1 else 0 :: int"
  let ?f1 = "?f0\<lparr>access_static := ?st, return_type := spec_type (p_return p),
    return_typename := spec_name (p_return p)\<rparr>"
  obtain s1 where s1: "begin_function (p_block p) (p_name p) s = Inr s1" "in_function ?i s1"
    "fun_list s1 = fun_list s @ [?f0]"
    "has_errors s1 \<longleftrightarrow> has_errors s \<or> p_name p \<in> set (map fn_name (fun_list s))"
    using begin_function_step [OF assms] by blast
  note i1 = in_functionD [OF s1(2)]
  let ?s2 = "set_fun_list (fun_list s @ [?f0\<lparr>access_static := ?st\<rparr>]) s1"
  let ?s3 = "begin_arguments (set_fun_list (fun_list s @ [?f1]) ?s2)"
  have r2: "add_static ?st s1 = Inr ?s2"
    using i1 s1(3) by (simp add: add_static_def upd_function_def)
  have r3: "add_return_type (spec_type (p_return p)) (spec_name (p_return p)) ?s2
      = Inr (set_fun_list (fun_list s @ [?f1]) ?s2)"
    using i1 s1(3) by (simp add: add_return_type_def upd_function_def the_function_def)
  have "sem_inv ?s3"
    using i1(6) r2 r3 by (meson action_invs)
  then have in3: "in_function ?i ?s3" using i1(2) by (simp add: in_function_def begin_arguments_def)
  have fl3: "fun_list ?s3 = fun_list s @ [?f1]" and e3: "has_errors ?s3 = has_errors s1"
    using i1(5) by (simp_all add: begin_arguments_def)
  obtain s4 where s4: "run_actions (concat (map argument_actions (p_args p))) ?s3 = Inr s4"
    "in_function ?i s4" "fun_list s4 = fun_list s @ [with_args (keep_args (p_args p) []) ?f1]"
    "has_errors s4 \<longleftrightarrow> has_errors s1 \<or> \<not> args_wf (p_args p) []"
    using argument_actions_run [OF in3, of "p_args p"] unfolding fl3 e3 by (auto simp: fl3)
  let ?s5 = "(end_arguments s4)\<lparr>current_function_name := None\<rparr>"
  note i4 = in_functionD [OF s4(2)]
  have "run_actions (prototype_actions p) s = Inr ?s5"
    using s1(1) r2 r3 s4(1) i4(2)
    by (simp add: prototype_actions_def end_function_def end_arguments_def)
  moreover have "sem_inv ?s5"
    using i4(6) by (rule sem_inv_cong) (simp_all add: end_arguments_def)
  moreover have "with_args (keep_args (p_args p) []) ?f1 = func_of p"
    by (simp add: func_of_def with_args_def)
  ultimately show ?thesis using s4(3,4) s1(4) i4(5) by (simp add: end_arguments_def)
qed

section \<open>Running a file\<close>

lemma do_action_main: "do_action a s = Inr s' \<Longrightarrow> main_interface s \<noteq> None \<Longrightarrow> main_interface s' \<noteq> None"
  by (cases a) (auto simp: begin_interface_def end_interface_def begin_function_def add_static_def
      add_return_type_def end_function_def begin_arguments_def end_arguments_def add_argument_def
      add_constraint_def set_serious_error_def set_filename_def result_simps Let_def
      split: if_splits prod.splits)

lemma run_actions_main:
  "run_actions as s = Inr s' \<Longrightarrow> main_interface s \<noteq> None \<Longrightarrow> main_interface s' \<noteq> None"
  unfolding run_actions_def by (erule rfold_invariant [rotated 2]) (auto dest: do_action_main)





text \<open>Prototypes that are parsed to their end: the table they build, and the error flag.\<close>

fun dup_or_bad :: "prototype list \<Rightarrow> string list \<Rightarrow> bool" where
  "dup_or_bad [] ns = False"
| "dup_or_bad (p # ps) ns =
     (p_name p \<in> set ns \<or> \<not> args_wf (p_args p) [] \<or> dup_or_bad ps (ns @ [p_name p]))"

lemma dup_or_bad_iff:
  "distinct ns \<Longrightarrow> dup_or_bad ps ns \<longleftrightarrow>
     \<not> (distinct (ns @ map p_name ps) \<and> (\<forall>p \<in> set ps. args_wf (p_args p) []))"
proof (induction ps arbitrary: ns)
  case (Cons p ps)
  show ?case
    using Cons.IH [of "ns @ [p_name p]"] Cons.prems by (cases "p_name p \<in> set ns") auto
qed simp

lemma fn_name_func_of [simp]: "fn_name (func_of p) = p_name p"
  by (simp add: func_of_def)

lemma prototypes_run:
  assumes "sem_inv s" and "main_interface s \<noteq> None" and "\<forall>p \<in> set ps. ident (p_name p)"
  shows "\<exists>s'. run_actions (concat (map item_actions (map Proto ps))) s = Inr s' \<and>
    main_interface s' \<noteq> None \<and> fun_list s' = fun_list s @ map func_of ps \<and>
    (has_errors s' \<longleftrightarrow> has_errors s \<or> dup_or_bad ps (map fn_name (fun_list s)))"
  using assms
proof (induction ps arbitrary: s)
  case (Cons p ps)
  then obtain s1 where s1: "run_actions (prototype_actions p) s = Inr s1" "sem_inv s1"
    "main_interface s1 \<noteq> None" "fun_list s1 = fun_list s @ [func_of p]"
    "has_errors s1 \<longleftrightarrow> has_errors s \<or> p_name p \<in> set (map fn_name (fun_list s)) \<or>
       \<not> args_wf (p_args p) []"
    using prototype_run [of s p] by (meson list.set_intros(1))
  with Cons.IH [OF s1(2,3)] Cons.prems(3) show ?case by auto
qed simp

definition complete :: "interface_decl \<Rightarrow> prototype list \<Rightarrow> bool" where
  "complete i ps \<longleftrightarrow> i_prototypes i = map Proto ps"

text \<open>A file the compiler accepts: at most one interface, complete, without duplicates.\<close>

definition wf_prototypes :: "prototype list \<Rightarrow> bool" where
  "wf_prototypes ps \<longleftrightarrow> distinct (map p_name ps) \<and> (\<forall>p \<in> set ps. args_wf (p_args p) [])"

text \<open>The state before the file is read: no interface yet, no error.\<close>

definition fresh :: "sem \<Rightarrow> bool" where
  "fresh s \<longleftrightarrow> sem_inv s \<and> main_interface s = None \<and> \<not> has_errors s"

lemma fresh_init: "fresh init_sem" "fresh (set_filename n init_sem)"
  using init_sem_inv flag_actions_inv(5) [OF init_sem_inv]
  by (simp_all add: fresh_def) (simp_all add: init_sem_def set_filename_def)

lemma interface_run_complete:
  assumes "fresh s0" and "complete i ps" and "\<forall>p \<in> set ps. ident (p_name p)"
  shows "\<exists>s'. parse_file [i] s0 = Inr s' \<and> main_interface s' \<noteq> None \<and>
    fun_list s' = map func_of ps \<and> (can_generate s' \<longleftrightarrow> wf_prototypes ps)"
proof -
  let ?s = "begin_interface (i_name i) s0"
  have s: "sem_inv ?s" "main_interface ?s \<noteq> None" "fun_list ?s = []" "\<not> has_errors ?s"
    using assms(1) by (simp_all add: fresh_def begin_interface_inv)
      (simp_all add: begin_interface_def fun_list_def)
  show ?thesis
    using prototypes_run [OF s(1,2) assms(3)] s(3,4) assms(2)
    by (fastforce simp: parse_file_def file_actions_def interface_actions_def complete_def
        end_interface_def can_generate_def dup_or_bad_iff wf_prototypes_def)
qed

lemma incomplete_has_cut:
  assumes "\<nexists>ps. complete i ps"
  shows "Set_serious_error \<in> set (interface_actions i)"
proof -
  have "\<exists>p n. Cut p n \<in> set (i_prototypes i)"
  proof (rule ccontr)
    assume "\<not> ?thesis"
    then have "map (Proto \<circ> item_proto) (i_prototypes i) = i_prototypes i"
      by (intro map_idI) (metis comp_apply item_proto.elims)
    then show False using assms by (metis complete_def map_map)
  qed
  then show ?thesis by (force simp: interface_actions_def)
qed

lemma cut_interface_errors:
  assumes "\<nexists>ps. complete i ps" and "parse_file (i # is) s = Inr s'"
  shows "\<not> can_generate s'"
  using run_actions_flags [of "file_actions (i # is)" s s'] assms incomplete_has_cut [OF assms(1)]
  by (auto simp: parse_file_def can_generate_def file_actions_def)

lemma second_interface_errors:
  assumes "parse_file (i # j # is) s = Inr s'"
  shows "\<not> can_generate s'"
proof -
  let ?rest = "concat (map item_actions (i_prototypes j)) @ [End_interface] @ file_actions is"
  obtain s1 where s1: "run_actions (interface_actions i) s = Inr s1"
    and r: "run_actions ?rest (begin_interface (i_name j) s1) = Inr s'"
    using assms by (auto simp: parse_file_def file_actions_def interface_actions_def result_simps)
  have "run_actions (concat (map item_actions (i_prototypes i)) @ [End_interface])
      (begin_interface (i_name i) s) = Inr s1"
    using s1 by (simp add: interface_actions_def)
  then have "main_interface s1 \<noteq> None"
    by (rule run_actions_main) (simp add: begin_interface_def Let_def)
  then have "has_errors (begin_interface (i_name j) s1)"
    by (simp add: begin_interface_def Let_def report_def)
  then show ?thesis using run_actions_flags [OF r] by (auto simp: can_generate_def)
qed

section \<open>Properties of the compiler's front end\<close>

definition ex_proto :: "string \<Rightarrow> arg_item list \<Rightarrow> prototype" where
  "ex_proto n xs = \<lparr>p_block = \<lparr>fn_name = '''', access_static = 0, fn_methodname = '''',
     fn_classname = None, return_typename = '''', return_type = null_dt, first_argument = [],
     argument_count = 0, exec_arg_count = 0, first_constraint = []\<rparr>,
     p_static = False, p_return = Data TOK_VOID, p_name = n, p_args = xs\<rparr>"

definition ex_block :: argument where
  "ex_block = \<lparr>arg_name = '''', arg_classname = None, arg_type = null_dt, arg_dir = null_dir,
     arg_stream = UNSPECIFIED, passing_in_order = 0, passing_out_order = 0\<rparr>"



text \<open>
  C4. The compiler generates code for a file with one interface whose prototypes were parsed to
  their end exactly when no function is declared twice, no argument name is used twice in a
  prototype, no argument is void, and none had a syntax error; the table of functions handed to
  the back end then holds one entry per prototype, in order.
\<close>

theorem parse_accepts:
  assumes "complete i ps" and "\<forall>p \<in> set ps. ident (p_name p)"
  shows "\<exists>s. parse_file [i] init_sem = Inr s \<and> (can_generate s \<longleftrightarrow> wf_prototypes ps) \<and>
    get_first_function s = Inr (map func_of ps)"
proof -
  obtain s where s: "parse_file [i] init_sem = Inr s" "main_interface s \<noteq> None"
    "fun_list s = map func_of ps" "can_generate s \<longleftrightarrow> wf_prototypes ps"
    using interface_run_complete [OF fresh_init(1) assms] by blast
  then have "get_first_function s = Inr (map func_of ps)"
    by (auto simp: get_first_function_def fun_list_def)
  with s show ?thesis by blast
qed

theorem parse_accepts_witness:
  "\<exists>s. parse_file [\<lparr>i_name = ''I'', i_prototypes = [Proto (ex_proto ''A::f''
       [Arg ex_block TOK_IN (Data (Numeric TOK_INT)) ''n'', Arg ex_block TOK_INOUT (Class ''B'') ''b''])]\<rparr>]
     init_sem = Inr s \<and> can_generate s"
  using parse_accepts [of "\<lparr>i_name = ''I'', i_prototypes = [Proto (ex_proto ''A::f''
       [Arg ex_block TOK_IN (Data (Numeric TOK_INT)) ''n'', Arg ex_block TOK_INOUT (Class ''B'') ''b''])]\<rparr>"
       "[ex_proto ''A::f''
       [Arg ex_block TOK_IN (Data (Numeric TOK_INT)) ''n'', Arg ex_block TOK_INOUT (Class ''B'') ''b'']]"]
  by (auto simp: complete_def ident_def ex_proto_def wf_prototypes_def new_argument_def)

text \<open>
  C29. If the compiler agrees to generate code for a file with at least one interface, the file is one complete interface:
  a second interface, or a prototype abandoned by error recovery, leaves the error flag set. (For a file without an
  interface the flag stays clear.)
\<close>

theorem parse_rejects:
  assumes "parse_file is init_sem = Inr s" and "can_generate s" and "is \<noteq> []"
  shows "\<exists>i ps. is = [i] \<and> complete i ps"
proof -
  obtain i js where i: "is = i # js" using assms(3) by (cases "is") auto
  have "js = []"
    using second_interface_errors [of i _ _ init_sem s] assms(1,2) i by (cases js) auto
  moreover have "\<exists>ps. complete i ps"
    using cut_interface_errors [of i js init_sem s] assms(1,2) i by blast
  ultimately show ?thesis using i by blast
qed

theorem parse_rejects_witness:
  "\<exists>i ps. [\<lparr>i_name = ''I'', i_prototypes = []\<rparr>] = [i] \<and> complete i ps"
proof -
  have "parse_file [\<lparr>i_name = ''I'', i_prototypes = []\<rparr>] init_sem =
      Inr (begin_interface ''I'' init_sem)"
    by (simp add: parse_file_def file_actions_def interface_actions_def end_interface_def)
  then show ?thesis
    by (rule parse_rejects) (simp_all add: can_generate_def begin_interface_def init_sem_def Let_def)
qed

end
