(* ===== verification/C_Backend.thy ===== *)
theory C_Backend
  imports Worker_Gen Idl_Grammar
begin

text \<open>
  The code generator as a whole (\<open>compssgen/c-backend.c\<close>) and the driver of the interface
  compiler (\<open>compssgen/main.c\<close>): the prologues of the three output files, the tables of
  operations, the loop over the functions, the files written, and the exit status.
\<close>

section \<open>Prologues and epilogues\<close>

definition generate_stubs_prolog :: "string \<Rightarrow> string \<Rightarrow> emit list" where
  \<open>generate_stubs_prolog fname includeName =
     [Ln 0 ''/* This file has been autogenerated from '%s'. */'' [FS fname],
       Ln 0 ''/* CHANGES TO THIS FILE WILL BE LOST */'' [],
       Ln 0 '''' [],
       Ln 0 ''#include <stdio.h>'' [],
       Ln 0 ''#include <stdlib.h>'' [],
       Ln 0 ''#include <limits.h>'' [],
       Ln 0 ''#include <string.h>'' [],
       Ln 0 ''#include <fstream>'' [],
       Ln 0 ''#include <boost/archive/binary_iarchive.hpp>'' [],
       Ln 0 ''#include <boost/archive/binary_oarchive.hpp>'' [],
       Ln 0 ''#include <GS_compss.h>'' [],
       Ln 0 ''#include <param_metadata.h>'' [],
       Ln 0 ''#include "%s"'' [FS includeName],
       Ln 0 '''' [],
       Ln 0 ''using namespace std;'' [],
       Ln 0 ''using namespace boost;'' [],
       Ln 0 '''' []]\<close>

definition generate_worker_prolog :: "string \<Rightarrow> string \<Rightarrow> emit list" where
  \<open>generate_worker_prolog fname includeName =
     [Ln 0 ''/* This file has been autogenerated from '%s'. */'' [FS fname],
       Ln 0 ''/* CHANGES TO THIS FILE WILL BE LOST */'' [],
       Ln 0 '''' [],
       Ln 0 ''#include <stdio.h>'' [],
       Ln 0 ''#include <stdlib.h>'' [],
       Ln 0 ''#include <limits.h>'' [],
       Ln 0 ''#include <string.h>'' [],
       Ln 0 ''#include <fstream>'' [],
       Ln 0 ''#include <compss_worker_lock.h>'' [],
       Ln 0 ''#include <boost/archive/binary_iarchive.hpp>'' [],
       Ln 0 ''#include <boost/archive/binary_oarchive.hpp>'' [],
       Ln 0 ''#include "%s"'' [FS includeName],
       Ln 0 '''' [],
       Ln 0 ''using namespace std;'' [],
       Ln 0 '''' []]\<close>

definition generate_executor_prototype :: "emit list" where
  \<open>generate_executor_prototype =
     [Ln 0 ''int execute(int argc, char **argv, std::map<std::string, void*>& cache, std::map<std::string, int>& types, int serializeOuts) {'' [],
       Ln 0 '''' [],
       Ln 1 '' cout << endl;'' [],
       Ln 1 '' cout << "----------------- C WORKER -----------------" << endl;'' [],
       Ln 1 '' cout << "Total number of parameters: " << argc << endl;'' [],
       Ln 1 '' if (argc < MIN_NUM_INTERNAL_ARGS) {'' [],
       Ln 2 '' cout << "ERROR: Incorrect number of COMPSs internal parameters"<< endl;'' [],
       Ln 2 '' cout << "Aborting..." << endl;'' [],
       Ln 2 '' return -1; '' [],
       Ln 1 '' }'' [],
       Ln 0 '''' [],
       Ln 1 '' cout << "Executable: " << argv[0] << endl;'' [],
       Ln 1 '' cout << "Tracing: " <<  argv[1] << endl;'' [],
       Ln 1 '' cout << "Task Id: " << argv[2] << endl;'' [],
       Ln 1 '' cout << "Worker Debug: " << argv[3] << endl;'' [],
       Ln 1 '' cout << "StorageConf: " << argv[4] << endl;'' [],
       Ln 1 '' cout << "MethodType: " << argv[5] << endl;'' [],
       Ln 1 '' cout << "ClassName: " << argv[6] << endl;'' [],
       Ln 1 '' cout << "MethodName: " << argv[7] << endl;'' [],
       Ln 1 '' cout << "NumSlaves: " << argv[8] << endl;'' [],
       Ln 1 '' int numSlaves=atoi(argv[8]);'' [],
       Ln 1 '' for (int i = 0; i < numSlaves; ++i) {'' [],
       Ln 2 '' cout <<"Slave " << i << " has name " << argv[NUM_BASE_ARGS + i] << endl;'' [],
       Ln 1 '' }'' [],
       Ln 1 '' int NUM_INTERNAL_ARGS=NUM_BASE_ARGS + numSlaves;'' [],
       Ln 1 '' cout << "NumComputingUnits: " << argv[NUM_INTERNAL_ARGS++] << endl;'' [],
       Ln 1 '' cout << "HasTarget: " << argv[NUM_INTERNAL_ARGS++] << endl;'' [],
       Ln 1 '' cout << "ReturnType: " << argv[NUM_INTERNAL_ARGS++] << endl;'' [],
       Ln 1 '' cout << "Num App Params: " << argv[NUM_INTERNAL_ARGS++] << endl;'' [],
       Ln 1 '' cout << "Application Arguments:" << endl;'' [],
       Ln 1 '' for(int i = NUM_INTERNAL_ARGS; i < argc; i++) { '' [],
       Ln 2 ('' cout << "'' @ tab @ ''" << argv[i] << endl;'') [],
       Ln 1 '' }'' [],
       Ln 1 '' cout << flush;'' [],
       Ln 0 '''' [],
       Ln 1 '' enum operationCode opCod;'' [],
       Ln 1 '' char *opName;'' [],
       Ln 1 '' opName = strdup(argv[METHOD_NAME_POS]);'' [],
       Ln 1 '' cout << "OpName: " << opName << endl;'' [],
       Ln 0 '''' [],
       Ln 1 ''for(int i=0; i < N_OPS; i++) {'' [],
       Ln 2 ''if(strcmp(operationName[i], opName) == 0) {'' [],
       Ln 3 ''opCod=(enum operationCode)i;'' [],
       Ln 3 ''break;'' [],
       Ln 2 ''}'' [],
       Ln 1 ''}'' [],
       Ln 1 '' cout << "OpCode: " << (int)opCod << endl;'' [],
       Ln 0 '''' [],
       Ln 1 '' cout << "--------------------------------------------"<< endl << endl << flush;'' [],
       Ln 1 '' cout << "data in cache after removal" << endl;'' [],
       Ln 1 '' for(std::map<std::string, void*>::iterator it = cache.begin(); it != cache.end(); it++){'' [],
       Ln 2 '' cout << it->first << endl;'' [],
       Ln 1 '' }'' [],
       Ln 1 '' int arg_offset = NUM_INTERNAL_ARGS;'' [],
       Ln 1 '' switch(opCod)'' [],
       Ln 1 '' {'' []]\<close>

text \<open>\<open>isalnum\<close> and \<open>toupper\<close> of the C locale.\<close>

definition isalnum :: "char \<Rightarrow> bool" where
  "isalnum c \<longleftrightarrow> (let n = (of_char c :: nat) in
     (48 \<le> n \<and> n \<le> 57) \<or> (65 \<le> n \<and> n \<le> 90) \<or> (97 \<le> n \<and> n \<le> 122))"

definition toupper :: "char \<Rightarrow> char" where
  "toupper c = (let n = (of_char c :: nat) in if 97 \<le> n \<and> n \<le> 122 then char_of (n - 32) else c)"

definition guard_name :: "string \<Rightarrow> emit list" where
  "guard_name includeName =
     map (\<lambda>c. if isalnum c then Tx ''%c'' [FC (toupper c)] else Tx ''_'' []) includeName"

definition generate_includes_prolog :: "string \<Rightarrow> string \<Rightarrow> emit list" where
  \<open>generate_includes_prolog fname includeName =
     [Ln 0 ''/* This file must be #included in the actual implementation file. */'' [],
       Ln 0 ''/* This file has been autogenerated from '%s'. */'' [FS fname],
       Ln 0 ''/* CHANGES TO THIS FILE WILL BE LOST */'' [],
       Ln 0 '''' [],
       Tx ''#ifndef _GSS_'' []] @
     guard_name includeName @
     [Ln 0 '''' [],
       Tx ''#define _GSS_'' []] @
     guard_name includeName @
     [Ln 0 '''' [],
       Ln 0 ''#include <GS_compss.h>'' [],
       Ln 0 ''#include <GS_templates.h>'' [],
       Ln 0 ''#include <param_metadata.h>'' [],
       Ln 0 '''' [],
       Ln 0 ''typedef char* file;'' [],
       Ln 0 '''' []]\<close>

definition generate_executor_end :: "emit list" where
  \<open>generate_executor_end =
     [Ln 1 '' }'' [],
       Ln 0 '''' [],
       Ln 1 '' cout << "Incorrect Operation Code. Aborting..."<< endl << flush;'' [],
       Ln 1 '' return -1;'' [],
       Ln 0 ''}'' []]\<close>

definition generate_epilogue :: "string \<Rightarrow> emit list" where
  \<open>generate_epilogue includeName =
     [Ln 0 '''' [],
       Tx ''#endif /* _GSS_'' []] @
     guard_name includeName @
     [Ln 0 '' */'' []]\<close>

section \<open>generate_enum\<close>

text \<open>The two tables: the enumerators, and the operation names with the same indices.\<close>

definition op_label :: "func \<Rightarrow> string" where
  "op_label f = replace_char (fn_name f) CHR '':'' CHR ''_'' @ ''Op''"

fun enum_items :: "bool \<Rightarrow> func list \<Rightarrow> emit list" where
  \<open>enum_items is_first [] = []\<close>
| \<open>enum_items is_first (f # fs) =
     (if is_first then [] else [Tx '', '' []]) @
     [Tx ''%sOp'' [FS (replace_char (fn_name f) CHR '':'' CHR ''_'')]] @ enum_items False fs\<close>

fun name_items :: "bool \<Rightarrow> func list \<Rightarrow> emit list" where
  \<open>name_items is_first [] = []\<close>
| \<open>name_items is_first (f # fs) =
     (if is_first then [] else [Tx '', '' []]) @
     [Tx ''"%s"'' [FS (fn_name f)]] @ name_items False fs\<close>

definition generate_enum :: "func list \<Rightarrow> emit list" where
  \<open>generate_enum fs =
     (let n = int (length fs) in
      [Tx ''enum operationCode {'' []] @ enum_items True fs @
      [Ln 0 ''};'' []] @
      [Tx ''static const char *operationName[] = {'' []] @ name_items True fs @
      [Ln 0 ''};'' [],
       Ln 0 ''static const int N_OPS=%d;'' [FD n],
       Ln 0 ''static const int NUM_BASE_ARGS = 9;'' [],
       Ln 0 ''static const int MIN_NUM_INTERNAL_ARGS = 13;'' [],
       Ln 0 ''static const int METHOD_NAME_POS = 7;'' [],
       Ln 0 '''' []])\<close>

text \<open>
  What the two tables are for: the loop of the generated executor that looks the operation name
  up (\<open>opCod\<close> is not initialised, and keeps whatever it held when no name matches), and its
  \<open>switch\<close>. Enumerators and \<open>case\<close> labels with the same name are not C++.
\<close>

fun op_code_from :: "nat \<Rightarrow> func list \<Rightarrow> string \<Rightarrow> nat result" where
  "op_code_from i [] opName = Inl Undefined"
| "op_code_from i (f # fs) opName =
     (if fn_name f = opName then Inr i else op_code_from (Suc i) fs opName)"

definition executor_case :: "func list \<Rightarrow> string \<Rightarrow> func result" where
  "executor_case fs opName =
     (if \<not> distinct (map op_label fs) then Inl Undefined
      else rbind (op_code_from 0 fs opName) (\<lambda>opCod.
        case find (\<lambda>f. op_label f = op_label (fs ! opCod)) fs of
          None \<Rightarrow> Inl Undefined | Some f \<Rightarrow> Inr f))"

section \<open>generate_body\<close>

record outputs =
  stubs_out :: "emit list"
  worker_out :: "emit list"
  include_out :: "emit list"

fun contains_colons :: "string \<Rightarrow> bool" where
  "contains_colons (a # b # s) = ((a = CHR '':'' \<and> b = CHR '':'') \<or> contains_colons (b # s))"
| "contains_colons _ = False"

text \<open>One turn of the loop over the functions.\<close>

definition generate_function :: "func \<Rightarrow> Types \<times> outputs \<Rightarrow> (Types \<times> outputs) result" where
  \<open>generate_function f = (\<lambda>(T, out).
     let out1 = out\<lparr>stubs_out := stubs_out out @ generate_stub f\<rparr> in
     rbind (generate_class_includes_and_check_types T f) (\<lambda>(incs, T').
     let out2 = out1\<lparr>include_out := include_out out1 @ incs @
       (if \<not> contains_colons (fn_name f)
        then generate_prototype f @ [Ln 0 '';'' []] else [])\<rparr> in
     rmap (\<lambda>es. (T', out2\<lparr>worker_out := worker_out out2 @ es\<rparr>)) (generate_worker_case T' f)))\<close>

definition generate_body :: "string \<Rightarrow> func list \<Rightarrow> outputs \<Rightarrow> outputs result" where
  \<open>generate_body base fs out =
     (let out1 = out\<lparr>worker_out := worker_out out @ generate_executor_prototype,
            include_out := include_out out @ generate_enum fs @
              [Ln 0 ''/* Functions to be implemented. We sugest that you create a file */'' [],
       Ln 0 ''/* with name '%s-functions.cc' and implement them there. */'' [FS base]],
            stubs_out := stubs_out out @ [Ln 0 '''' []]\<rparr> in
      rbind (rfold generate_function fs (initTypes, out1)) (\<lambda>(T, out2).
      rmap (\<lambda>es. out2\<lparr>worker_out := worker_out out2 @ generate_executor_end @ es\<rparr>)
        (generate_remove_and_serialize_case T)))\<close>

section \<open>generate_prolog\<close>

text \<open>Opening one output file: the old file is renamed, a new one created.\<close>

definition open_output :: "string \<Rightarrow> string \<Rightarrow> fs \<Rightarrow> (string \<times> fs) result" where
  "open_output base ext F =
     rbind (rbind (copy_name base) (\<lambda>b. append_name b ext)) (\<lambda>name.
     rbind (rename_if_clash name F) (\<lambda>F1.
     case fopen_w name F1 of None \<Rightarrow> Inl (Exit 1) | Some F2 \<Rightarrow> Inr (name, F2)))"

definition generate_prolog :: "string \<Rightarrow> fs \<Rightarrow> (string list \<times> outputs \<times> fs) result" where
  "generate_prolog fname F =
     rbind (get_filename_base fname) (\<lambda>base.
     rbind (open_output base ''-stubs.cc'' F) (\<lambda>(stubsName, F1).
     rbind (open_output base ''-executor.cc'' F1) (\<lambda>(workerName, F2).
     rbind (open_output base ''.h'' F2) (\<lambda>(includeName, F3).
       Inr ([stubsName, workerName, includeName],
            \<lparr>stubs_out = generate_stubs_prolog fname includeName,
             worker_out = generate_worker_prolog fname includeName,
             include_out = generate_includes_prolog fname includeName\<rparr>, F3)))))"

section \<open>main\<close>

text \<open>Closing the streams: the text printed is the contents of the files.\<close>

definition write_outputs :: "string list \<Rightarrow> outputs \<Rightarrow> fs \<Rightarrow> fs" where
  "write_outputs names out F = F\<lparr>files := (files F)
     (names ! 0 \<mapsto> render_all (stubs_out out), names ! 1 \<mapsto> render_all (worker_out out),
      names ! 2 \<mapsto> render_all (include_out out))\<rparr>"

text \<open>The functions are asked for after the prologue: there the missing interface is noticed.\<close>

definition generate :: "string \<Rightarrow> func list result \<Rightarrow> fs \<Rightarrow> fs result" where
  "generate fname first F =
     rbind (generate_prolog fname F) (\<lambda>(names, out, F1).
     rbind (get_filename_base fname) (\<lambda>base.
     rbind first (\<lambda>fs.
     rmap (\<lambda>out1. write_outputs names (out1\<lparr>include_out := include_out out1 @
              generate_epilogue (names ! 2)\<rparr>) F1)
       (generate_body base fs out))))"

text \<open>
  The driver. The options \<open>getopt\<close> finds are given as a list (only \<open>n\<close> is accepted), the
  input file as the first operand; \<open>parse_text\<close> is the parser applied to the contents of the
  file, from the characters to the syntax tree. The result is the exit status and the file system.
\<close>

definition compile ::
  "(string \<Rightarrow> interface_decl list) \<Rightarrow> char list \<Rightarrow> string option \<Rightarrow> fs \<Rightarrow> (int \<times> fs) result" where
  "compile parse_text opts operand F =
     (let correct_args = (\<forall>c \<in> set opts. c = CHR ''n'');
          F1 = (if CHR ''n'' \<in> set opts then set_no_backups F else F)
      in case operand of
           None \<Rightarrow> Inl (Exit 1)
         | Some fname \<Rightarrow>
             if \<not> correct_args then Inl (Exit 1)
             else case files F1 fname of
                 None \<Rightarrow> Inl (Exit 2)
               | Some contents \<Rightarrow>
                   rbind (parse_file (parse_text contents) (set_filename fname init_sem)) (\<lambda>s.
                   if can_generate s
                   then rmap (\<lambda>F2. (0, F2)) (generate fname (get_first_function s) F1)
                   else Inr (1, F1)))"

end
