(* ===== verification/Worker_Exec.thy ===== *)
theory Worker_Exec
  imports Worker_Gen
begin

text \<open>
  Running a generated worker case: the statements that walk over \<open>argv\<close> with \<open>arg_offset\<close> and
  read the values of the parameters, as the C++ they are. The layout of a parameter in \<open>argv\<close>
  is the one the generator's comments document: type, stream, prefix, value, where the value of
  a string is its number of words followed by the words. A scalar is converted to the type its variable is declared with.
\<close>

section \<open>State\<close>

text \<open>
  The variables a case reads parameters into: \<open>x\<close>, \<open>x_og\<close> and \<open>x_filename_og\<close>. Numbers read
  with \<open>strtof\<close> and \<open>strtod\<close> stay as text. \<open>WNothing\<close> is a block that holds no string yet.
\<close>

datatype wvar = Var string | Og string | FilenameOg string

datatype wvalue = WChar char | WInt int | WReal string | WText string | WNothing

record wstate =
  w_argv :: "string list"
  w_offset :: nat
  w_types :: "string \<Rightarrow> ctype option"
  w_vars :: "wvar \<Rightarrow> wvalue option"
  w_word_i :: bool

definition init_wstate :: "string list \<Rightarrow> nat \<Rightarrow> wstate" where
  "init_wstate argv off = \<lparr>w_argv = argv, w_offset = off, w_types = (\<lambda>_. None), w_vars = (\<lambda>_. None), w_word_i = False\<rparr>"

definition arg_at :: "wstate \<Rightarrow> nat \<Rightarrow> string result" where
  "arg_at s i = (if i < length (w_argv s) then Inr (w_argv s ! i) else Inl Undefined)"

definition bind_var :: "wvar \<Rightarrow> wvalue \<Rightarrow> wstate \<Rightarrow> wstate" where
  "bind_var x v s = s\<lparr>w_vars := (w_vars s)(x \<mapsto> v)\<rparr>"

text \<open>\<open>argv[i] ? 1 : 0\<close> tests the pointer, not the text.\<close>

fun conversion_value :: "conversion \<Rightarrow> string \<Rightarrow> wvalue result" where
  "conversion_value FirstChar t = Inr (WChar (case t of [] \<Rightarrow> CHR 0x00 | c # _ \<Rightarrow> c))"
| "conversion_value NonNull t = Inr (WInt 1)"
| "conversion_value Atoi t = rmap WInt (ato 32 t)"
| "conversion_value Atol t = rmap WInt (ato 64 t)"
| "conversion_value Atoll t = rmap WInt (ato 64 t)"
| "conversion_value Strtof t = Inr (WReal t)"
| "conversion_value Strtod t = Inr (WReal t)"

text \<open>What a variable of the declared type holds after the assignment: a \<open>short\<close> keeps the low 16 bits.\<close>

fun converted :: "ctype \<Rightarrow> wvalue \<Rightarrow> wvalue" where
  "converted CShort (WInt n) = WInt (sint (word_of_int n :: 16 word))"
| "converted CInt (WInt n) = WInt (sint (word_of_int n :: 32 word))"
| "converted CLong (WInt n) = WInt (sint (word_of_int n :: 64 word))"
| "converted CLongLong (WInt n) = WInt (sint (word_of_int n :: 64 word))"
| "converted _ v = v"

section \<open>Reading a string\<close>

text \<open>\<open>strcpy\<close> and \<open>strcat\<close> into a block of \<open>sz\<close> bytes: with the zero the text must fit.\<close>

definition fits_block :: "nat \<Rightarrow> string \<Rightarrow> string result" where
  "fits_block sz t = (if length t + 1 \<le> sz then Inr t else Inl Undefined)"

definition word_step :: "wstate \<Rightarrow> nat \<Rightarrow> nat \<Rightarrow> nat \<times> string option \<Rightarrow> (nat \<times> string option) result" where
  "word_step s sz word_i = (\<lambda>(off, buf).
     let off' = off + 1 in
     rbind (arg_at s off') (\<lambda>w.
       if word_i = 1 then rmap (\<lambda>t. (off', Some t)) (fits_block sz w)
       else case buf of None \<Rightarrow> Inl Undefined
         | Some b \<Rightarrow> rbind (fits_block sz (b @ '' '')) (\<lambda>b1.
             rmap (\<lambda>t. (off', Some t)) (fits_block sz (b1 @ w)))))"

definition read_words :: "string \<Rightarrow> wstate \<Rightarrow> wstate result" where
  "read_words n s =
     (if w_word_i s then Inl Undefined
      else rbind (rbind (arg_at s (w_offset s)) (ato 32)) (\<lambda>nwords.
        rbind (rmap sum_list (rcollect (\<lambda>word_i. rmap length (arg_at s (w_offset s + word_i)))
                 [1..<nat nwords + 1])) (\<lambda>sz.
        rmap (\<lambda>(off, buf). bind_var (Var n) (case buf of None \<Rightarrow> WNothing | Some t \<Rightarrow> WText t)
                 (s\<lparr>w_offset := off, w_word_i := True\<rparr>))
          (rfold (word_step s (sz + nat nwords)) [1..<nat nwords + 1] (w_offset s, None)))))"

section \<open>The statements\<close>

text \<open>
  \<open>read_words\<close> declares \<open>word_i\<close> in the block of the case: a second declaration is not C++, and
  counts as a failure, as a second declaration of a variable or the use of one that is not declared does.
\<close>

fun exec_read :: "emit \<Rightarrow> wstate \<Rightarrow> wstate result" where
  "exec_read (DeclVar ty n) s =
     (if w_types s n = None then Inr (s\<lparr>w_types := (w_types s)(n \<mapsto> ty)\<rparr>) else Inl Undefined)"
| "exec_read (OffAdd n) s = Inr (s\<lparr>w_offset := w_offset s + nat n\<rparr>)"
| "exec_read (OffNext t) s = Inr (s\<lparr>w_offset := w_offset s + 1\<rparr>)"
| "exec_read (ReadOg n) s =
     rmap (\<lambda>v. bind_var (FilenameOg n) (WText v) s) (arg_at s (w_offset s))"
| "exec_read (ReadFile n) s = rmap (\<lambda>v. bind_var (Og n) (WText v) s) (arg_at s (w_offset s))"
| "exec_read (ReadVal c n) s =
     (case w_types s n of None \<Rightarrow> Inl Undefined
      | Some ty \<Rightarrow> rmap (\<lambda>v. bind_var (Var n) (converted ty v) s) (rbind (arg_at s (w_offset s)) (conversion_value c)))"
| "exec_read (ReadWords n) s = read_words n s"
| "exec_read _ s = Inr s"

definition exec_worker :: "emit list \<Rightarrow> wstate \<Rightarrow> wstate result" where
  "exec_worker = rfold exec_read"

lemma exec_worker_simps [simp]:
  "exec_worker [] s = Inr s"
  "exec_worker (e # es) s = rbind (exec_read e s) (exec_worker es)"
  "exec_worker (es @ fs) s = rbind (exec_worker es s) (exec_worker fs)"
  by (simp_all add: exec_worker_def)

lemma plain_read [simp]: "plain e \<Longrightarrow> exec_read e s = Inr s"
  by (cases e) simp_all

lemma plain_read_all: "list_all plain es \<Longrightarrow> exec_worker es s = Inr s"
  by (induction es) simp_all

section \<open>What a case should read\<close>

text \<open>A parameter on the command line of the worker.\<close>

datatype wire = One string | Words "string list"

fun wire_args :: "string list \<Rightarrow> wire \<Rightarrow> string list" where
  "wire_args pre (One v) = pre @ [v]"
| "wire_args pre (Words ws) = pre @ dec (int (length ws)) # ws"

text \<open>The words of a string, joined by single spaces.\<close>

fun join_words :: "string list \<Rightarrow> string" where
  "join_words [] = ''''"
| "join_words [w] = w"
| "join_words (w # ws) = w @ '' '' @ join_words ws"

text \<open>
  The value of an input scalar on the wire: its first character, its number in the range of \<open>int\<close> (of which a \<open>short\<close>
  keeps 16 bits), \<open>long\<close> or \<open>long long\<close>, its text for the real types; and 1 for every boolean.
\<close>

fun scalar_value :: "dtype \<Rightarrow> string \<Rightarrow> wvalue result" where
  "scalar_value char_dt t = Inr (WChar (case t of [] \<Rightarrow> CHR 0x00 | c # _ \<Rightarrow> c))"
| "scalar_value wchar_dt t = Inr (WChar (case t of [] \<Rightarrow> CHR 0x00 | c # _ \<Rightarrow> c))"
| "scalar_value boolean_dt t = Inr (WInt 1)"
| "scalar_value int_dt t = rmap WInt (ato 32 t)"
| "scalar_value short_dt t = rmap (\<lambda>n. WInt (signed_take_bit 15 n)) (ato 32 t)"
| "scalar_value long_dt t = rmap WInt (ato 64 t)"
| "scalar_value longlong_dt t = rmap WInt (ato 64 t)"
| "scalar_value float_dt t = Inr (WReal t)"
| "scalar_value double_dt t = Inr (WReal t)"
| "scalar_value _ t = Inl Undefined"

text \<open>\<open>reads arg w x v\<close>: from the wire value \<open>w\<close> the argument's variable \<open>x\<close> gets \<open>v\<close>.\<close>

definition reads :: "argument \<Rightarrow> wire \<Rightarrow> wvar \<Rightarrow> wvalue \<Rightarrow> bool" where
  "reads arg w x v \<longleftrightarrow>
     (if arg_type arg = file_dt then (\<exists>t. w = One t \<and> x = Og (arg_name arg) \<and> v = WText t)
      else if arg_type arg = object_dt \<or>
        arg_dir arg \<noteq> in_dir \<and> (scalar (arg_type arg) \<or> stringish (arg_type arg))
      then (\<exists>t. w = One t \<and> x = FilenameOg (arg_name arg) \<and> v = WText t)
      else if stringish (arg_type arg)
      then (\<exists>ws. w = Words ws \<and> ws \<noteq> [] \<and> int (length ws) < 2 ^ 31 \<and> x = Var (arg_name arg) \<and>
        v = WText (join_words ws))
      else (\<exists>t. w = One t \<and> x = Var (arg_name arg) \<and> scalar_value (arg_type arg) t = Inr v))"

text \<open>The parameters of a case in order: the target, the place of the result, the arguments.\<close>

definition case_args :: "func \<Rightarrow> argument list" where
  "case_args f = (if has_target f then [target_arg f] else []) @
     (if return_type f \<noteq> void_dt then [return_arg f] else []) @ first_argument f"

end
