(* ===== verification/Stub_Exec.thy ===== *)
theory Stub_Exec
  imports Stub_Gen
begin

text \<open>
  Running a generated stub. The parameter-passing statements that \<open>Stub_Gen\<close> prints are given
  the meaning of the C++ statements they are: local variables, the array \<open>arrayObjs\<close>, and the
  call of \<open>GS_ExecuteTask\<close>, whose loop over \<open>process_param\<close> is that of
  \<open>bindings-common/src/GS_compss.cc\<close>. The result is the list of parameters that reaches the Java
  runtime. The correctness theorem of the generator is that it is the list the prototype
  describes, with no uninitialised entry read and no index outside the array.
\<close>

section \<open>State of a running stub\<close>

text \<open>
  A cell of \<open>arrayObjs\<close> holds the address of a parameter of the stub, of a local
  \<open>x_filename\<close>, or of a local \<open>paramK\<close>. \<open>m_ints\<close> and \<open>m_strs\<close> are the locals \<open>paramK\<close>
  (integers, and the strings that all hold "null"); \<open>m_files\<close> the locals \<open>x_filename\<close>
  (\<open>Some None\<close>: declared, not yet set). \<open>GS_register\<close> sets the latter by reference; which file
  name it chooses is a parameter, \<open>file_of\<close>.
\<close>

datatype slot = Addr_arg string | Addr_filename string | Addr_param int

text \<open>
  A Java value built by \<open>process_param\<close>: nothing; an object of a boxing class made from the
  value of a C type read through an address (\<open>JBox class ctype address\<close>); or the string an
  address leads to.
\<close>

datatype jvalue = JNull | JBox string string slot | JString slot | JFile string

record jparam =
  j_value :: jvalue
  j_type :: "string option"
  j_direction :: "string option"
  j_stream :: string
  j_prefix :: string

record task_call =
  tc_class :: string
  tc_has_target :: string
  tc_params :: "jparam list"

record mstate =
  m_array :: "slot option list option"
  m_ints :: "int \<Rightarrow> int option"
  m_strs :: "int set"
  m_files :: "string \<Rightarrow> string option option"
  m_calls :: "task_call list"

definition init_mstate :: mstate where
  "init_mstate = \<lparr>m_array = None, m_ints = (\<lambda>_. None), m_strs = {}, m_files = (\<lambda>_. None),
     m_calls = []\<rparr>"

section \<open>process_param and GS_ExecuteTask\<close>

definition read_int :: "mstate \<Rightarrow> slot \<Rightarrow> int result" where
  "read_int s a = (case a of Addr_param k \<Rightarrow>
       (case m_ints s k of Some v \<Rightarrow> Inr v | None \<Rightarrow> Inl Undefined)
     | _ \<Rightarrow> Inl Undefined)"

definition read_prefix :: "mstate \<Rightarrow> slot \<Rightarrow> string result" where
  "read_prefix s a = (case a of Addr_param k \<Rightarrow>
       if k \<in> m_strs s then Inr ''null'' else Inl Undefined
     | _ \<Rightarrow> Inl Undefined)"

definition read_text :: "mstate \<Rightarrow> slot \<Rightarrow> jvalue result" where
  "read_text s a = (case a of
       Addr_filename n \<Rightarrow> (case m_files s n of Some (Some f) \<Rightarrow> Inr (JFile f) | _ \<Rightarrow> Inl Undefined)
     | Addr_arg n \<Rightarrow> Inr (JString (Addr_arg n))
     | Addr_param k \<Rightarrow> Inl Undefined)"

text \<open>The \<open>switch\<close> on the type: the value and the name of the Java enumerator.\<close>

definition param_value :: "mstate \<Rightarrow> dtype \<Rightarrow> slot \<Rightarrow> (jvalue \<times> string option) result" where
  "param_value s t a = (case t of
       char_dt \<Rightarrow> Inr (JBox ''Character'' ''char'' a, Some ''CHAR_T'')
     | wchar_dt \<Rightarrow> Inr (JBox ''Character'' ''char'' a, Some ''CHAR_T'')
     | boolean_dt \<Rightarrow> Inr (JBox ''Boolean'' ''int'' a, Some ''BOOLEAN_T'')
     | short_dt \<Rightarrow> Inr (JBox ''Short'' ''short'' a, Some ''SHORT_T'')
     | int_dt \<Rightarrow> Inr (JBox ''Integer'' ''int'' a, Some ''INT_T'')
     | long_dt \<Rightarrow> Inr (JBox ''Long'' ''long'' a, Some ''LONG_T'')
     | longlong_dt \<Rightarrow> Inr (JBox ''Float'' ''float'' a, Some ''FLOAT_T'')
     | float_dt \<Rightarrow> Inr (JBox ''Float'' ''float'' a, Some ''FLOAT_T'')
     | double_dt \<Rightarrow> Inr (JBox ''Double'' ''double'' a, Some ''DOUBLE_T'')
     | file_dt \<Rightarrow> rmap (\<lambda>v. (v, Some ''FILE_T'')) (read_text s a)
     | external_psco_dt \<Rightarrow> rmap (\<lambda>v. (v, Some ''EXTERNAL_OBJECT_T'')) (read_text s a)
     | string_dt \<Rightarrow> rmap (\<lambda>v. (v, Some ''STRING_T'')) (read_text s a)
     | _ \<Rightarrow> Inr (JNull, None))"

definition j_direction_of :: "int \<Rightarrow> string option" where
  "j_direction_of n = (case dir_of_code n of
       Some in_dir \<Rightarrow> Some ''IN'' | Some out_dir \<Rightarrow> Some ''OUT'' | Some inout_dir \<Rightarrow> Some ''INOUT''
     | _ \<Rightarrow> None)"

definition j_stream_of :: "int \<Rightarrow> string" where
  "j_stream_of n = (if n = stream_code STD_IN then ''STDIN''
     else if n = stream_code STD_OUT then ''STDOUT''
     else if n = stream_code STD_ERR then ''STDERR'' else ''UNSPECIFIED'')"

definition process_param :: "mstate \<Rightarrow> nat \<Rightarrow> jparam result" where
  "process_param s i = (case m_array s of None \<Rightarrow> Inl Undefined | Some params \<Rightarrow>
     rbind (cell params (5 * i)) (\<lambda>parVal.
     rbind (rbind (cell params (5 * i + 1)) (read_int s)) (\<lambda>parType.
     rbind (rbind (cell params (5 * i + 2)) (read_int s)) (\<lambda>parDirect.
     rbind (rbind (cell params (5 * i + 3)) (read_int s)) (\<lambda>parStream.
     rbind (cell params (5 * i + 4)) (\<lambda>parPrefix.
     rbind (case dt_of_code parType of None \<Rightarrow> Inr (JNull, None) | Some t \<Rightarrow> param_value s t parVal)
       (\<lambda>(v, ty).
     rmap (\<lambda>pre. \<lparr>j_value = v, j_type = ty, j_direction = j_direction_of parDirect,
         j_stream = j_stream_of parStream, j_prefix = pre\<rparr>) (read_prefix s parPrefix))))))))"

definition gs_execute_task :: "mstate \<Rightarrow> nat \<Rightarrow> jparam list result" where
  "gs_execute_task s num_params = rcollect (process_param s) [0..<num_params]"

section \<open>Running the statements\<close>

text \<open>A second declaration of the same local is not C++: it is a failure as well.\<close>

definition store :: "int \<Rightarrow> slot \<Rightarrow> mstate \<Rightarrow> mstate result" where
  "store i a s = (case m_array s of None \<Rightarrow> Inl Undefined | Some cs \<Rightarrow>
     if i < 0 then Inl Undefined
     else rmap (\<lambda>cs'. s\<lparr>m_array := Some cs'\<rparr>) (cell_set cs (nat i) a))"

definition declared :: "mstate \<Rightarrow> int \<Rightarrow> bool" where
  "declared s k \<longleftrightarrow> m_ints s k \<noteq> None \<or> k \<in> m_strs s"

fun exec_emit :: "(string \<Rightarrow> string) \<Rightarrow> emit \<Rightarrow> mstate \<Rightarrow> mstate result" where
  "exec_emit file_of (ArrayObjs n) s =
     (if m_array s \<noteq> None \<or> n < 0 then Inl Undefined
      else Inr (s\<lparr>m_array := Some (replicate (nat n) None)\<rparr>))"
| "exec_emit file_of (SlotArg i n) s = store i (Addr_arg n) s"
| "exec_emit file_of (SlotFilename i n) s =
     (if m_files s n = None then Inl Undefined else store i (Addr_filename n) s)"
| "exec_emit file_of (SlotParam i k) s =
     (if declared s k then store i (Addr_param k) s else Inl Undefined)"
| "exec_emit file_of (ParamInt k v) s =
     (if declared s k then Inl Undefined else Inr (s\<lparr>m_ints := (m_ints s)(k \<mapsto> v)\<rparr>))"
| "exec_emit file_of (ParamNull k) s =
     (if declared s k then Inl Undefined else Inr (s\<lparr>m_strs := insert k (m_strs s)\<rparr>))"
| "exec_emit file_of (FilenameDecl n) s =
     (if m_files s n \<noteq> None then Inl Undefined else Inr (s\<lparr>m_files := (m_files s)(n \<mapsto> None)\<rparr>))"
| "exec_emit file_of (GSRegister obj t d c n) s =
     (if m_files s n = None then Inl Undefined
      else Inr (s\<lparr>m_files := (m_files s)(n \<mapsto> Some (file_of obj))\<rparr>))"
| "exec_emit file_of (ExecuteTask c tgt n) s =
     rmap (\<lambda>ps. s\<lparr>m_calls := m_calls s @ [\<lparr>tc_class = c, tc_has_target = tgt, tc_params = ps\<rparr>]\<rparr>)
       (gs_execute_task s (nat n))"
| "exec_emit file_of _ s = Inr s"

definition exec_stub :: "(string \<Rightarrow> string) \<Rightarrow> emit list \<Rightarrow> mstate \<Rightarrow> mstate result" where
  "exec_stub file_of = rfold (exec_emit file_of)"

lemma exec_stub_simps [simp]:
  "exec_stub file_of [] s = Inr s"
  "exec_stub file_of (e # es) s = rbind (exec_emit file_of e s) (exec_stub file_of es)"
  "exec_stub file_of (es @ fs) s = rbind (exec_stub file_of es s) (exec_stub file_of fs)"
  by (simp_all add: exec_stub_def)

section \<open>What a stub should pass\<close>

definition by_file :: "string \<Rightarrow> direction \<Rightarrow> jparam" where
  "by_file file d = \<lparr>j_value = JFile file, j_type = Some ''FILE_T'',
     j_direction = j_direction_of (dir_code d), j_stream = ''UNSPECIFIED'', j_prefix = ''null''\<rparr>"

text \<open>Input scalars, strings and files go by value, everything else through a file.\<close>

definition direct :: "argument \<Rightarrow> bool" where
  "direct arg \<longleftrightarrow> arg_type arg \<noteq> object_dt \<and> (arg_dir arg = in_dir \<or> arg_type arg = file_dt)"

text \<open>The Java class and the enumerator of a type that goes by value.\<close>

definition java_types :: "(dtype \<times> string \<times> string) list" where
  "java_types =
     [(char_dt, ''Character'', ''CHAR_T''), (wchar_dt, ''Character'', ''CHAR_T''),
      (boolean_dt, ''Boolean'', ''BOOLEAN_T''), (short_dt, ''Short'', ''SHORT_T''),
      (int_dt, ''Integer'', ''INT_T''), (long_dt, ''Long'', ''LONG_T''),
      (float_dt, ''Float'', ''FLOAT_T''), (double_dt, ''Double'', ''DOUBLE_T'')]"

text \<open>A scalar is read through its address at the C type it is declared with in the prototype.\<close>

definition direct_value :: "argument \<Rightarrow> jvalue \<times> string option" where
  "direct_value arg =
     (let a = Addr_arg (arg_name arg) in
      if arg_type arg = file_dt then (JString a, Some ''FILE_T'')
      else if arg_type arg = string_dt then (JString a, Some ''STRING_T'')
      else (case map_of java_types (arg_type arg) of
          Some (c, e) \<Rightarrow> (JBox c (c_out_types (arg_type arg)) a, Some e)
        | None \<Rightarrow> (JNull, None)))"

definition passed :: "(string \<Rightarrow> string) \<Rightarrow> argument \<Rightarrow> jparam" where
  "passed file_of arg =
     (if direct arg
      then \<lparr>j_value = fst (direct_value arg), j_type = snd (direct_value arg),
            j_direction = j_direction_of (dir_code (arg_dir arg)),
            j_stream = ''UNSPECIFIED'', j_prefix = ''null''\<rparr>
      else by_file (file_of (arg_name arg)) (arg_dir arg))"

definition passed_params :: "(string \<Rightarrow> string) \<Rightarrow> func \<Rightarrow> jparam list" where
  "passed_params file_of f =
     (if has_target f then [by_file (file_of ''this'') inout_dir] else []) @
     (if return_type f \<noteq> void_dt then [by_file (file_of ''&return_object'') out_dir] else []) @
     map (passed file_of) (first_argument f)"

text \<open>The arguments the generator and the binding agree on.\<close>

definition passable :: "argument \<Rightarrow> bool" where
  "passable arg \<longleftrightarrow>
     (if direct arg
      then arg_type arg = file_dt \<or> arg_type arg = string_dt \<or> arg_type arg \<in> fst ` set java_types
      else arg_type arg = object_dt \<or> scalar (arg_type arg) \<or> stringish (arg_type arg))"

end
