(* ===== verification/Stub_Correct.thy ===== *)
theory Stub_Correct
  imports Stub_Exec Idl_Grammar
begin

text \<open>
  Correctness of the generated stubs: running the statements of \<open>generate_stub\<close> with the
  semantics of \<open>Stub_Exec\<close> submits the task the prototype describes. The proof moves a
  frontier over the parameter array: below it the entries are final (\<open>grows\<close>), above it they
  are untouched. The last section shows what happens to the two argument types the marshalling
  code and the binding do not agree on.
\<close>

section \<open>Growth of the state\<close>

text \<open>What is written is never overwritten: cells, locals and file names only get added.\<close>

definition grows :: "mstate \<Rightarrow> mstate \<Rightarrow> bool" where
  "grows s s' \<longleftrightarrow>
     (\<forall>cs i a. m_array s = Some cs \<longrightarrow> cell cs i = Inr a \<longrightarrow>
        (\<exists>cs'. m_array s' = Some cs' \<and> cell cs' i = Inr a)) \<and>
     (\<forall>k v. m_ints s k = Some v \<longrightarrow> m_ints s' k = Some v) \<and>
     m_strs s \<subseteq> m_strs s' \<and>
     (\<forall>n f. m_files s n = Some (Some f) \<longrightarrow> m_files s' n = Some (Some f))"

lemma grows_refl [simp]: "grows s s"
  by (simp add: grows_def)


lemma grows_reads:
  assumes "grows s s'"
  shows "read_int s a = Inr v \<Longrightarrow> read_int s' a = Inr v"
    and "read_prefix s a = Inr p \<Longrightarrow> read_prefix s' a = Inr p"
    and "read_text s a = Inr j \<Longrightarrow> read_text s' a = Inr j"
  using assms
  by (auto simp: grows_def read_int_def read_prefix_def read_text_def
      split: slot.splits option.splits if_splits)

lemma grows_param_value:
  "grows s s' \<Longrightarrow> param_value s t a = Inr r \<Longrightarrow> param_value s' t a = Inr r"
  by (cases t) (auto simp: param_value_def result_simps dest: grows_reads(3))

lemma process_param_Inr:
  assumes "m_array s = Some cs" and "cell cs (5 * i) = Inr v" and "cell cs (5 * i + 1) = Inr t"
    and "cell cs (5 * i + 2) = Inr d" and "cell cs (5 * i + 3) = Inr st"
    and "cell cs (5 * i + 4) = Inr pr"
    and "read_int s t = Inr (dt_code ty)" and "read_int s d = Inr dn" and "read_int s st = Inr sn"
    and "read_prefix s pr = Inr pre" and "param_value s ty v = Inr (jv, jt)"
  shows "process_param s i = Inr \<lparr>j_value = jv, j_type = jt, j_direction = j_direction_of dn,
    j_stream = j_stream_of sn, j_prefix = pre\<rparr>"
  using assms by (simp add: process_param_def)

lemma grows_process_param:
  assumes g: "grows s s'" and p: "process_param s i = Inr p"
  shows "process_param s' i = Inr p"
proof -
  obtain cs where cs: "m_array s = Some cs"
    using p by (auto simp: process_param_def split: option.splits)
  obtain v t d st pr tn dn sn pre where
    c: "cell cs (5 * i) = Inr v" "cell cs (5 * i + 1) = Inr t" "cell cs (5 * i + 2) = Inr d"
      "cell cs (5 * i + 3) = Inr st" "cell cs (5 * i + 4) = Inr pr"
    and r: "read_int s t = Inr tn" "read_int s d = Inr dn" "read_int s st = Inr sn"
      "read_prefix s pr = Inr pre"
    using p cs by (fastforce simp: process_param_def result_simps split: prod.splits)
  obtain cs' where cs': "m_array s' = Some cs'"
    using g cs c(1) unfolding grows_def by blast
  have c': "cell cs' (5 * i) = Inr v" "cell cs' (5 * i + 1) = Inr t" "cell cs' (5 * i + 2) = Inr d"
      "cell cs' (5 * i + 3) = Inr st" "cell cs' (5 * i + 4) = Inr pr"
    using g cs c cs' unfolding grows_def by (metis option.inject)+
  show ?thesis
    using p cs cs' c c' r grows_reads(1) [OF g r(1)] grows_reads(1) [OF g r(2)]
      grows_reads(1) [OF g r(3)] grows_reads(2) [OF g r(4)]
    by (auto simp: process_param_def result_simps grows_param_value [OF g]
        split: option.splits prod.splits)
qed

section \<open>One parameter\<close>

text \<open>\<open>k\<close> parameters are in place: the array is long enough, the rest of it untouched.\<close>

definition frontier :: "nat \<Rightarrow> nat \<Rightarrow> mstate \<Rightarrow> bool" where
  "frontier N k s \<longleftrightarrow> (\<exists>cs. m_array s = Some cs \<and> length cs = 5 * N \<and>
     (\<forall>i. 5 * k \<le> i \<and> i < 5 * N \<longrightarrow> cs ! i = None)) \<and> (\<forall>K \<ge> int (5 * k). \<not> declared s K)"

definition put_param :: "nat \<Rightarrow> slot \<Rightarrow> int \<Rightarrow> int \<Rightarrow> mstate \<Rightarrow> mstate" where
  "put_param k a t d s =
     s\<lparr>m_array := map_option (\<lambda>cs. cs[5 * k := Some a,
         5 * k + 1 := Some (Addr_param ((5 * int k + 1))),
         5 * k + 2 := Some (Addr_param ((5 * int k + 2))),
         5 * k + 3 := Some (Addr_param ((5 * int k + 3))),
         5 * k + 4 := Some (Addr_param ((5 * int k + 4)))]) (m_array s),
       m_ints := (m_ints s)((5 * int k + 1) \<mapsto> t, (5 * int k + 2) \<mapsto> d, (5 * int k + 3) \<mapsto> 3),
       m_strs := insert ((5 * int k + 4)) (m_strs s)\<rparr>"

definition entries :: "int \<Rightarrow> int \<Rightarrow> int \<Rightarrow> emit list" where
  "entries i t d = [ParamInt (i + 1) t, SlotParam (i + 1) (i + 1), ParamInt (i + 2) d,
     SlotParam (i + 2) (i + 2), ParamInt (i + 3) 3, SlotParam (i + 3) (i + 3),
     ParamNull (i + 4), SlotParam (i + 4) (i + 4)]"

lemma nat_plus_numeral: "nat (5 * int k + 1) = 5 * k + 1" "nat (5 * int k + 2) = 5 * k + 2"
   "nat (5 * int k + 3) = 5 * k + 3" "nat (5 * int k + 4) = 5 * k + 4" "nat (5 * int k) = 5 * k"
  by simp_all

lemma entries_exec:
  assumes "frontier N k s" and "k < N" and v: "exec_emit fo e s = store (5 * int k) a s"
  shows "exec_stub fo (e # entries (5 * int k) t d) s = Inr (put_param k a t d s)"
proof -
  obtain cs where cs: "m_array s = Some cs" "length cs = 5 * N"
    using assms(1) by (auto simp: frontier_def)
  have u: "m_ints s (5 * int k + 1) = None" "m_ints s (5 * int k + 2) = None"
    "m_ints s (5 * int k + 3) = None" "m_ints s (5 * int k + 4) = None"
    "5 * int k + 1 \<notin> m_strs s" "5 * int k + 2 \<notin> m_strs s"
    "5 * int k + 3 \<notin> m_strs s" "5 * int k + 4 \<notin> m_strs s"
    using assms(1) by (simp_all add: frontier_def declared_def)
  show ?thesis
    using cs u assms(2)
    by (simp add: v entries_def store_def cell_set_def declared_def put_param_def nat_plus_numeral)
qed

lemma put_param_simps [simp]:
  "m_files (put_param k a t d s) = m_files s"
  "m_calls (put_param k a t d s) = m_calls s"
  by (simp_all add: put_param_def)

lemma put_param_frontier:
  assumes "frontier N k s" and "k < N"
  shows "frontier N (Suc k) (put_param k a t d s)"
  using assms by (auto simp: frontier_def put_param_def declared_def)

lemma put_param_grows:
  assumes "frontier N k s" and "k < N"
  shows "grows s (put_param k a t d s)"
proof -
  obtain cs where cs: "m_array s = Some cs" "length cs = 5 * N"
    "\<And>i. 5 * k \<le> i \<Longrightarrow> i < 5 * N \<Longrightarrow> cs ! i = None"
    using assms(1) by (auto simp: frontier_def)
  have "i < 5 * k" if "cell cs i = Inr x" for i x
    using that cs(2) cs(3) [of i] by (force simp: result_simps)
  then have *: "cell (cs[5 * k := Some a,
         5 * k + 1 := Some (Addr_param ((5 * int k + 1))),
         5 * k + 2 := Some (Addr_param ((5 * int k + 2))),
         5 * k + 3 := Some (Addr_param ((5 * int k + 3))),
         5 * k + 4 := Some (Addr_param ((5 * int k + 4)))]) i = Inr x" if "cell cs i = Inr x" for i x
    using that by (fastforce simp: result_simps)
  have u: "m_ints s (5 * int k + j) = None" if "0 \<le> j" for j
    using assms(1) that by (simp add: frontier_def declared_def)
  show ?thesis
    using cs(1) * u [of 1] u [of 2] u [of 3] by (auto simp: grows_def put_param_def)
qed

lemma put_param_value:
  assumes "frontier N k s" and "k < N" and "param_value (put_param k a (dt_code ty) d s) ty a = Inr (v, t)"
  shows "process_param (put_param k a (dt_code ty) d s) k = Inr \<lparr>j_value = v, j_type = t,
    j_direction = j_direction_of d, j_stream = ''UNSPECIFIED'', j_prefix = ''null''\<rparr>"
proof -
  obtain cs where cs: "m_array s = Some cs" "length cs = 5 * N"
    using assms(1) by (auto simp: frontier_def)
  have st: "''UNSPECIFIED'' = j_stream_of 3" by (simp add: j_stream_of_def)
  show ?thesis unfolding st
    by (rule process_param_Inr [where t = "Addr_param ((5 * int k + 1))" and v = a
          and d = "Addr_param ((5 * int k + 2))" and st = "Addr_param ((5 * int k + 3))"
          and pr = "Addr_param ((5 * int k + 4))"], simp add: put_param_def cs)
       (use cs assms(2,3) in \<open>simp_all add: cell_def put_param_def read_int_def read_prefix_def\<close>)
qed

section \<open>The statements of one parameter\<close>

lemma plain_exec [simp]: "plain e \<Longrightarrow> exec_emit fo e s = Inr s"
  by (cases e) simp_all

lemma plain_exec_all: "list_all plain es \<Longrightarrow> exec_stub fo es s = Inr s"
  by (induction es) simp_all

text \<open>
  \<open>passes fo es N k p ns s\<close>: from \<open>s\<close> the statements \<open>es\<close> put parameter \<open>p\<close> in place \<open>k\<close>, and
  declare no file name but those of \<open>ns\<close>.
\<close>

definition passes ::
  "(string \<Rightarrow> string) \<Rightarrow> emit list \<Rightarrow> nat \<Rightarrow> nat \<Rightarrow> jparam \<Rightarrow> string set \<Rightarrow> mstate \<Rightarrow> bool" where
  "passes fo es N k p ns s \<longleftrightarrow> (\<exists>s'. exec_stub fo es s = Inr s' \<and> frontier N (Suc k) s' \<and>
     grows s s' \<and> process_param s' k = Inr p \<and> m_calls s' = m_calls s \<and>
     (\<forall>n. n \<notin> ns \<longrightarrow> m_files s' n = m_files s n))"

lemma passes_plain:
  assumes "passes fo es N k p ns s" and "list_all plain ps"
  shows "passes fo (ps @ es) N k p ns s" and "passes fo (es @ ps) N k p ns s"
  using assms by (auto simp: passes_def plain_exec_all)


lemma passes_direct:
  assumes "frontier N k s" and "k < N" and "param_value (put_param k (Addr_arg n) (dt_code ty) d s) ty (Addr_arg n) = Inr (v, t)"
  shows "passes fo (SlotArg (5 * int k) n # entries (5 * int k) (dt_code ty) d) N k
    \<lparr>j_value = v, j_type = t, j_direction = j_direction_of d, j_stream = ''UNSPECIFIED'',
     j_prefix = ''null''\<rparr> {} s"
proof -
  have r: "exec_stub fo (SlotArg (5 * int k) n # entries (5 * int k) (dt_code ty) d) s
      = Inr (put_param k (Addr_arg n) (dt_code ty) d s)"
    by (rule entries_exec [OF assms(1,2)]) simp
  show ?thesis
    unfolding passes_def r
    using put_param_frontier [OF assms(1,2)] put_param_grows [OF assms(1,2)]
      put_param_value [OF assms] by (auto simp: put_param_def)
qed


section \<open>The arguments\<close>





text \<open>
  \<open>ready\<close>: a state with the parameters \<open>ps\<close> in place and no file name declared but those of
  \<open>ns\<close>.
\<close>

definition ready :: "nat \<Rightarrow> jparam list \<Rightarrow> string set \<Rightarrow> mstate \<Rightarrow> bool" where
  "ready N ps ns s \<longleftrightarrow> frontier N (length ps) s \<and> m_calls s = [] \<and>
     (\<forall>i < length ps. process_param s i = Inr (ps ! i)) \<and>
     (\<forall>n. n \<notin> ns \<longrightarrow> m_files s n = None)"

lemma ready_step:
  assumes r: "ready N ps ns s" and p: "passes fo es N (length ps) p ms s"
  shows "\<exists>s'. exec_stub fo es s = Inr s' \<and> ready N (ps @ [p]) (ns \<union> ms) s'"
proof -
  obtain s' where s': "exec_stub fo es s = Inr s'" "frontier N (Suc (length ps)) s'" "grows s s'"
    "process_param s' (length ps) = Inr p" "m_calls s' = m_calls s"
    "\<forall>n. n \<notin> ms \<longrightarrow> m_files s' n = m_files s n"
    using p by (auto simp: passes_def)
  have "process_param s' i = Inr ((ps @ [p]) ! i)" if "i < length (ps @ [p])" for i
    using that s'(4) r grows_process_param [OF s'(3)]
    by (cases "i = length ps") (auto simp: ready_def nth_append)
  then show ?thesis using s' r by (auto simp: ready_def)
qed


section \<open>The whole stub\<close>



lemma start_ready: "ready N [] {} (init_mstate\<lparr>m_array := Some (replicate (5 * N) None)\<rparr>)"
  by (simp add: ready_def frontier_def declared_def init_mstate_def)





lemma prototype_plain: "list_all plain (generate_prototype f)"
proof -
  have "list_all plain (prototype_argument a)" for a
    by (simp add: prototype_argument_def)
  then have "list_all plain (prototype_arguments as)" for as
    by (induction as) simp_all
  then show ?thesis by (simp add: generate_prototype_def)
qed

lemma ready_execute:
  assumes "ready N ps ns s"
  shows "gs_execute_task s (length ps) = Inr ps"
proof -
  have "rcollect (process_param s) [0..<length ps] = Inr (map (\<lambda>i. ps ! i) [0..<length ps])"
    using assms by (intro rcollect_Inr) (simp add: ready_def)
  then show ?thesis by (simp add: gs_execute_task_def map_nth)
qed

section \<open>The property of the generated stubs\<close>


definition ex_arg :: "string \<Rightarrow> dtype \<Rightarrow> direction \<Rightarrow> argument" where
  "ex_arg n t d = \<lparr>arg_name = n, arg_classname = argument_classname t ''Block'' None, arg_type = t,
     arg_dir = d, arg_stream = UNSPECIFIED, passing_in_order = 0, passing_out_order = 0\<rparr>"

definition ex_func :: "argument list \<Rightarrow> func" where
  "ex_func as = with_args as \<lparr>fn_name = ''Block::mult'', access_static = 0, fn_methodname = ''mult'',
     fn_classname = Some ''Block'', return_typename = '''', return_type = void_dt,
     first_argument = [], argument_count = 0, exec_arg_count = 0, first_constraint = []\<rparr>"


section \<open>Arguments outside the property\<close>

lemma single_argument_exec:
  assumes "func_ok f" and "first_argument f = [a]" and "\<not> has_target f" and "return_type f = void_dt"
  shows "exec_stub fo (generate_stub f) init_mstate =
    rbind (exec_stub fo (argument_marshalling a 0) (init_mstate\<lparr>m_array := Some (replicate 5 None)\<rparr>))
      (\<lambda>s. rmap (\<lambda>ps. s\<lparr>m_calls := m_calls s @ [\<lparr>tc_class = (case fn_classname f of None \<Rightarrow> ''NULL'' | Some c \<Rightarrow> c),
          tc_has_target = ''false'', tc_params = ps\<rparr>]\<rparr>) (gs_execute_task s 1))"
proof -
  have "argument_count f = 1" using assms(1,2) by (simp add: func_ok_def)
  then have "execute_arg_count f = 1" "generate_parameter_buffers f =
      [ArrayObjs 5, Ln 1 '' int found;'' [], Ln 0 '''' []]"
    using assms(3,4) by (auto simp: execute_arg_count_def generate_parameter_buffers_def has_target_def Let_def)
  then show ?thesis
    using assms(2-4)
    by (auto simp: generate_stub_def plain_exec_all prototype_plain generate_execute_call_def Let_def
        generate_parameter_marshalling_def init_mstate_def rbind_def rmap_def split: sum.splits)
qed

lemma single_direct_call:
  assumes "func_ok f" and "first_argument f = [a]" and "\<not> has_target f" and "return_type f = void_dt"
    and "arg_dir a = in_dir" and "scalar (arg_type a) \<or> stringish (arg_type a)"
    and "\<And>s. param_value s (arg_type a) (Addr_arg (arg_name a)) = Inr (v, t)"
  shows "\<exists>s p. exec_stub fo (generate_stub f) init_mstate = Inr s \<and>
    m_calls s = [\<lparr>tc_class = (case fn_classname f of None \<Rightarrow> ''NULL'' | Some c \<Rightarrow> c),
      tc_has_target = ''false'', tc_params = [p]\<rparr>] \<and> j_value p = v \<and> j_type p = t"
proof -
  let ?s0 = "init_mstate\<lparr>m_array := Some (replicate 5 None)\<rparr>"
  have r: "ready 1 [] {} ?s0" using start_ready [of 1] by simp
  have "argument_marshalling a (5 * int 0) = (SlotArg (5 * int 0) (arg_name a) #
      entries (5 * int 0) (dt_code (arg_type a)) (dir_code in_dir)) @ [Ln 0 '''' []]"
    using assms(5,6) by (auto simp: argument_marshalling_def add_other_arg_master_treatment_def
        entries_def)
  then have "passes fo (argument_marshalling a (5 * int 0)) 1 0 \<lparr>j_value = v, j_type = t,
      j_direction = j_direction_of (dir_code in_dir), j_stream = ''UNSPECIFIED'',
      j_prefix = ''null''\<rparr> {} ?s0"
    using passes_plain(2) [OF passes_direct [of 1 0 ?s0 "arg_name a" "arg_type a" "dir_code in_dir" v t fo],
        where ps = "[Ln 0 '''' []]"] r assms(7) by (simp add: ready_def)
  then obtain s1 where s1: "exec_stub fo (argument_marshalling a 0) ?s0 = Inr s1"
    "ready 1 [\<lparr>j_value = v, j_type = t, j_direction = j_direction_of (dir_code in_dir),
      j_stream = ''UNSPECIFIED'', j_prefix = ''null''\<rparr>] {} s1"
    using ready_step [OF r, of fo "argument_marshalling a 0"] by auto
  then show ?thesis
    using single_argument_exec [OF assms(1-4), of fo] ready_execute [OF s1(2)]
    by (simp add: ready_def)
qed

text \<open>
  An input argument of type \<open>long long\<close> reaches the runtime as a \<open>Float\<close> read from the
  address of the eight-byte integer: \<open>process_param\<close> has no case of its own for it.
\<close>

theorem longlong_passed_as_float:
  assumes "func_ok f" and "first_argument f = [a]" and "\<not> has_target f" and "return_type f = void_dt"
    and "arg_dir a = in_dir" and "arg_type a = longlong_dt"
  shows "c_out_types (arg_type a) = ''long long'' \<and>
    (\<exists>s p. exec_stub fo (generate_stub f) init_mstate = Inr s \<and>
      m_calls s = [\<lparr>tc_class = (case fn_classname f of None \<Rightarrow> ''NULL'' | Some c \<Rightarrow> c),
        tc_has_target = ''false'', tc_params = [p]\<rparr>] \<and>
      j_value p = JBox ''Float'' ''float'' (Addr_arg (arg_name a)) \<and> j_type p = Some ''FLOAT_T'')"
  using single_direct_call [OF assms(1-5), of "JBox ''Float'' ''float'' (Addr_arg (arg_name a))"
      "Some ''FLOAT_T''" fo] assms(6)
  by (simp add: param_value_def scalar_def scalar_types_def c_out_types_def c_out_types_table_def)

theorem longlong_passed_as_float_witness:
  "\<exists>s p. exec_stub (\<lambda>n. n) (generate_stub ((ex_func [ex_arg ''n'' longlong_dt in_dir])\<lparr>access_static := 1\<rparr>))
      init_mstate = Inr s \<and>
    m_calls s = [\<lparr>tc_class = ''Block'', tc_has_target = ''false'', tc_params = [p]\<rparr>] \<and>
    j_value p = JBox ''Float'' ''float'' (Addr_arg ''n'') \<and> j_type p = Some ''FLOAT_T''"
  using longlong_passed_as_float [of "(ex_func [ex_arg ''n'' longlong_dt in_dir])\<lparr>access_static := 1\<rparr>"
      "ex_arg ''n'' longlong_dt in_dir" "\<lambda>n. n"]
  by (simp add: ex_func_def ex_arg_def with_args_def func_ok_def has_target_def)

text \<open>
  An argument of type \<open>any\<close> is counted, but the marshalling code has no case for it: the
  submission reads entries of the parameter array that were never written.
\<close>

theorem any_argument_undefined:
  assumes "func_ok f" and "first_argument f = [a]" and "\<not> has_target f" and "return_type f = void_dt"
    and "arg_type a = any_dt"
  shows "exec_stub fo (generate_stub f) init_mstate = Inl Undefined"
proof -
  have "argument_marshalling a 0 = [Ln 0 '''' []]"
    using assms(5) by (simp add: argument_marshalling_def scalar_def scalar_types_def stringish_def)
  moreover have "process_param (init_mstate\<lparr>m_array := Some (replicate 5 None)\<rparr>) 0 = Inl Undefined"
    by (simp add: process_param_def cell_def)
  ultimately show ?thesis
    by (simp add: single_argument_exec [OF assms(1-4)] gs_execute_task_def)
qed

theorem any_argument_undefined_witness:
  "exec_stub (\<lambda>n. n) (generate_stub ((ex_func [ex_arg ''x'' any_dt in_dir])\<lparr>access_static := 1\<rparr>))
     init_mstate = Inl Undefined"
  by (rule any_argument_undefined [of _ "ex_arg ''x'' any_dt in_dir"])
    (simp_all add: ex_func_def ex_arg_def with_args_def func_ok_def has_target_def)

end
