(* ===== verification/Worker_Correct.thy ===== *)
theory Worker_Correct
  imports Worker_Exec Stub_Correct
begin

text \<open>
  Correctness of the generated worker cases: running the statements of \<open>generate_worker_case\<close>
  with the semantics of \<open>Worker_Exec\<close> reads every parameter of the command line into its
  variable; when a case can be generated at all; and what goes wrong with booleans and with two
  strings. A parameter is one segment of statements (\<open>consumes\<close>), a case a sequence of segments
  between statements that do not touch \<open>argv\<close>.
\<close>

section \<open>Decimal numbers\<close>

lemma digit_char_facts:
  assumes "d < 10"
  shows "is_digit (digit_char d)" "digit_value (digit_char d) = d" "\<not> is_space (digit_char d)"
    "digit_char d \<noteq> CHR ''-''" "digit_char d \<noteq> CHR ''+''"
proof -
  have d: "(of_char (digit_char d) :: nat) = 48 + d"
    using assms by (simp add: digit_char_def)
  then show "is_digit (digit_char d)" "digit_value (digit_char d) = d" "\<not> is_space (digit_char d)"
    using assms by (simp_all add: is_digit_def digit_value_def is_space_def)
  have "(of_char CHR ''-'' :: nat) = 45" "(of_char CHR ''+'' :: nat) = 43" by code_simp+
  with d show "digit_char d \<noteq> CHR ''-''" "digit_char d \<noteq> CHR ''+''" by auto
qed

lemma digits_value_append:
  "list_all is_digit s \<Longrightarrow> is_digit c \<Longrightarrow> digits_value n (s @ [c]) = 10 * digits_value n s + digit_value c"
  by (induction s arbitrary: n) simp_all

lemma dec_nat_digits: "list_all is_digit (dec_nat n) \<and> dec_nat n \<noteq> []"
proof (induction n rule: dec_nat.induct)
  case (1 n)
  then show ?case by (simp add: digit_char_facts dec_nat.simps [of n])
qed

lemma digits_value_dec: "digits_value 0 (dec_nat n) = n"
proof (induction n rule: dec_nat.induct)
  case (1 n)
  then show ?case
    using dec_nat_digits [of "n div 10"]
    by (subst dec_nat.simps) (simp add: digit_char_facts digits_value_append)
qed

lemma dec_nat_head: "\<exists>d s. d < 10 \<and> dec_nat n = digit_char d # s"
proof (induction n rule: dec_nat.induct)
  case (1 n)
  then show ?case
    by (cases "n < 10") (auto simp: not_less dec_nat.simps [of n])
qed

lemma text_int_dec: "text_int (dec n) = n"
proof (cases "n < 0")
  case True
  then show ?thesis by (simp add: dec_def text_int_def is_space_def digits_value_dec)
next
  case False
  obtain d s where d: "d < 10" "dec_nat (nat n) = digit_char d # s"
    using dec_nat_head by blast
  show ?thesis
    using False d digits_value_dec [of "nat n"]
    by (simp add: dec_def text_int_def digit_char_facts)
qed

lemma ato_dec: "- (2 ^ (w - 1)) \<le> n \<Longrightarrow> n < 2 ^ (w - 1) \<Longrightarrow> ato w (dec n) = Inr n"
  by (simp add: ato_def text_int_dec)

section \<open>Reading a string\<close>

lemma join_words_snoc: "join_words (ws @ [w]) = (if ws = [] then w else join_words ws @ '' '' @ w)"
  by (induction ws rule: join_words.induct) simp_all

lemma join_words_length:
  "ws \<noteq> [] \<Longrightarrow> length (join_words ws) + 1 = sum_list (map length ws) + length ws"
  by (induction ws rule: join_words.induct) simp_all

lemma join_words_take_length:
  assumes "0 < i" and "i \<le> length ws"
  shows "length (join_words (take i ws)) + 1 \<le> sum_list (map length ws) + length ws"
proof -
  have "length (join_words (take i ws)) + 1 = sum_list (map length (take i ws)) + i"
    using join_words_length [of "take i ws"] assms by (cases ws) auto
  moreover have "sum_list (map length (take i ws)) + sum_list (map length (drop i ws)) =
      sum_list (map length ws)"
    by (simp flip: sum_list_append map_append)
  ultimately show ?thesis using assms(2) by linarith
qed

lemma words_loop:
  assumes argv: "w_argv s = pre @ k # ws @ post" and i: "i \<le> length ws"
  shows "rfold (word_step s (sum_list (map length ws) + length ws)) [1..<i + 1] (length pre, None) =
    Inr (length pre + i, if i = 0 then None else Some (join_words (take i ws)))"
  using i
proof (induction i)
  case (Suc i)
  let ?sz = "sum_list (map length ws) + length ws"
  have w: "arg_at s (length pre + i + 1) = Inr (ws ! i)"
    using Suc.prems by (simp add: arg_at_def argv nth_append)
  have t: "take (Suc i) ws = take i ws @ [ws ! i]"
    using Suc.prems by (simp add: take_Suc_conv_app_nth)
  have len: "length (join_words (take (Suc i) ws)) + 1 \<le> ?sz"
    by (rule join_words_take_length) (use Suc.prems in simp_all)
  have "word_step s ?sz (Suc i) (length pre + i, if i = 0 then None else Some (join_words (take i ws))) =
      Inr (length pre + Suc i, Some (join_words (take (Suc i) ws)))"
  proof (cases "i = 0")
    case True
    then show ?thesis using w len t by (simp add: word_step_def Let_def fits_block_def)
  next
    case False
    then have "take i ws \<noteq> []" using Suc.prems by auto
    then show ?thesis
      using False w len t by (simp add: word_step_def Let_def fits_block_def join_words_snoc)
  qed
  then show ?case using Suc by simp
qed simp

lemma read_words_exec:
  assumes argv: "w_argv s = pre @ dec (int (length ws)) # ws @ post" and off: "w_offset s = length pre"
    and "ws \<noteq> []" and "int (length ws) < 2 ^ 31" and "\<not> w_word_i s"
  shows "read_words n s =
    Inr (bind_var (Var n) (WText (join_words ws)) (s\<lparr>w_offset := length pre + length ws, w_word_i := True\<rparr>))"
proof -
  have k: "rbind (arg_at s (w_offset s)) (ato 32) = Inr (int (length ws))"
    using assms(4) by (simp add: arg_at_def argv off ato_dec)
  have "rcollect (\<lambda>word_i. rmap length (arg_at s (w_offset s + word_i))) [1..<length ws + 1] =
      Inr (map (\<lambda>word_i. length (ws ! (word_i - 1))) [1..<length ws + 1])"
    by (rule rcollect_Inr) (auto simp: arg_at_def argv off nth_append nth_Cons')
  also have "map (\<lambda>word_i. length (ws ! (word_i - 1))) [1..<length ws + 1] = map length ws"
    by (rule nth_equalityI) (simp_all del: upt_Suc)
  finally show ?thesis
    using k words_loop [OF argv, of "length ws"] assms(3,5) off
    by (simp add: read_words_def del: upt_Suc rfold_append)
qed

section \<open>One parameter\<close>

definition words_arg :: "argument \<Rightarrow> bool" where
  "words_arg arg \<longleftrightarrow> stringish (arg_type arg) \<and> arg_dir arg = in_dir"

text \<open>The variables of scalars are declared, with the type of the argument.\<close>

fun type_of :: "dtype \<Rightarrow> ctype option" where
  "type_of char_dt = Some CChar"
| "type_of wchar_dt = Some CChar"
| "type_of boolean_dt = Some CInt"
| "type_of int_dt = Some CInt"
| "type_of short_dt = Some CShort"
| "type_of long_dt = Some CLong"
| "type_of longlong_dt = Some CLongLong"
| "type_of float_dt = Some CFloat"
| "type_of double_dt = Some CDouble"
| "type_of _ = None"

definition declared_for :: "wstate \<Rightarrow> argument \<Rightarrow> bool" where
  "declared_for s arg \<longleftrightarrow> (\<forall>ty. type_of (arg_type arg) = Some ty \<longrightarrow> w_types s (arg_name arg) = Some ty)"

lemma declared_for_simps [simp]:
  "declared_for (s\<lparr>w_offset := n\<rparr>) arg = declared_for s arg" "declared_for (s\<lparr>w_word_i := b\<rparr>) arg = declared_for s arg"
  "declared_for (s\<lparr>w_vars := vs\<rparr>) arg = declared_for s arg"
  by (simp_all add: declared_for_def)

lemma ato_range:
  assumes "ato w t = Inr n"
  shows "- (2 ^ (w - 1)) \<le> n" "n < 2 ^ (w - 1)"
  using assms by (auto simp: ato_def split: if_splits)

lemma converted_numbers:
  "sint (word_of_int n :: 16 word) = signed_take_bit 15 n"
  "ato 32 t = Inr n \<Longrightarrow> sint (word_of_int n :: 32 word) = n" "ato 64 t = Inr n \<Longrightarrow> sint (word_of_int n :: 64 word) = n"
  using ato_range [of 32 t n] ato_range [of 64 t n]
  by (simp_all add: sint_sbintrunc' signed_take_bit_int_eq_self)

lemma scalar_read:
  assumes "scalar ty" and "arg_type arg = ty"
  shows "\<exists>c cty. other_arg_value arg = [ReadVal c (arg_name arg)] \<and> type_of ty = Some cty \<and>
    (\<forall>t. scalar_value ty t = rmap (converted cty) (conversion_value c t))"
  using assms by (cases ty)
    (auto simp: scalar_def scalar_types_def other_arg_value_def rmap_def rbind_def converted_numbers split: sum.split)

text \<open>
  \<open>consumes es arg\<close>: wherever the wire form of a value of \<open>arg\<close> stands at the offset, the
  statements \<open>es\<close> read it and leave the offset behind it.
\<close>

definition consumes :: "emit list \<Rightarrow> argument \<Rightarrow> bool" where
  "consumes es arg \<longleftrightarrow> (\<forall>(s :: wstate) pre p w post x v. reads arg w x v \<longrightarrow> length p = 3 \<longrightarrow>
     w_argv s = pre @ wire_args p w @ post \<longrightarrow> w_offset s = length pre \<longrightarrow>
     (words_arg arg \<longrightarrow> \<not> w_word_i s) \<longrightarrow> declared_for s arg \<longrightarrow>
     exec_worker es s = Inr (bind_var x v (s\<lparr>w_offset := length (pre @ wire_args p w),
       w_word_i := w_word_i s \<or> words_arg arg\<rparr>)))"


lemma arg_at_wire [simp]:
  "w_argv s = pre @ p @ t # post \<Longrightarrow> length p = 3 \<Longrightarrow> arg_at s (length pre + 3) = Inr t"
  by (simp add: arg_at_def nth_append)

lemma bind_var_simps [simp]:
  "w_argv (bind_var x v s) = w_argv s" "w_offset (bind_var x v s) = w_offset s"
  "w_word_i (bind_var x v s) = w_word_i s" "w_vars (bind_var x v s) = (w_vars s)(x \<mapsto> v)"
  "w_types (bind_var x v s) = w_types s" "declared_for (bind_var x v s) arg = declared_for s arg"
  by (simp_all add: bind_var_def)

lemma arg_at_offset [simp]: "arg_at (s\<lparr>w_offset := off\<rparr>) i = arg_at s i"
  by (simp add: arg_at_def)

lemma object_consumes:
  assumes r: "add_object_arg_worker_treatment arg 3 T = Inr es"
    and a: "arg_type arg \<noteq> file_dt" "arg_type arg = object_dt \<or>
      arg_dir arg \<noteq> in_dir \<and> (scalar (arg_type arg) \<or> stringish (arg_type arg))"
  shows "consumes es arg"
proof -
  obtain position where es: "es = object_arg_head arg 3 @ object_arg_cached arg position @ object_arg_tail arg"
    using r by (auto simp: add_object_arg_worker_treatment_def result_simps split: option.splits if_splits)
  have c: "list_all plain (object_arg_cached arg position)"
    by (cases "arg_dir arg") (simp_all add: object_arg_cached_def object_in_cached_def
        object_inout_cached_def object_inout_missing_def object_inout_preserved_def
        object_out_cached_def)
  obtain h where h: "object_arg_head arg 3 = [Ln 3 h [FS (arg_name arg)], OffAdd 3, ReadOg (arg_name arg)] @
      drop 3 (object_arg_head arg 3)" "list_all plain (drop 3 (object_arg_head arg 3))"
    by (simp add: object_arg_head_def)
  obtain ps where t: "object_arg_tail arg = ps @ [OffNext 4]" "list_all plain ps"
    by (rule that [of "butlast (object_arg_tail arg)"]) (auto simp: object_arg_tail_def)
  have w: "\<not> words_arg arg" if "reads arg w x v" for w x v
    using a by (auto simp: words_arg_def stringish_def)
  show ?thesis
    unfolding consumes_def
  proof (intro allI impI)
    fix s :: wstate and pre p w post x v
    assume "reads arg w x v" and "length p = 3" and "w_argv s = pre @ wire_args p w @ post"
      and "w_offset s = length pre"
    moreover obtain v' where "w = One v'" "x = FilenameOg (arg_name arg)" "v = WText v'"
      using \<open>reads arg w x v\<close> a by (auto simp: reads_def)
    moreover have "\<not> words_arg arg" using w \<open>reads arg w x v\<close> .
    ultimately show "exec_worker es s = Inr (bind_var x v (s\<lparr>w_offset := length (pre @ wire_args p w),
       w_word_i := w_word_i s \<or> words_arg arg\<rparr>))"
      unfolding es t(1) by (subst h(1)) (simp add: plain_read_all c t(2) h(2) bind_var_def)
  qed
qed

lemma file_consumes:
  assumes "arg_type arg = file_dt"
  shows "consumes (add_file_arg_worker_treatment arg) arg"
proof -
  have es: "add_file_arg_worker_treatment arg = [OffAdd 3, ReadFile (arg_name arg)] @
      drop 2 (butlast (add_file_arg_worker_treatment arg)) @ [OffNext 3]"
    "list_all plain (drop 2 (butlast (add_file_arg_worker_treatment arg)))"
    by (simp_all add: add_file_arg_worker_treatment_def)
  have "\<not> words_arg arg" using assms by (simp add: words_arg_def stringish_def)
  then show ?thesis
    using assms unfolding consumes_def
    by (subst es(1)) (auto simp: reads_def plain_read_all es(2) bind_var_def)
qed

lemma value_consumes:
  assumes "arg_dir arg = in_dir" and "scalar (arg_type arg)"
  shows "consumes ([OffAdd 3] @ other_arg_value arg @ [OffNext 3]) arg"
proof -
  have nw: "\<not> words_arg arg" "arg_type arg \<noteq> file_dt" "arg_type arg \<noteq> object_dt" "\<not> stringish (arg_type arg)"
    using assms by (auto simp: words_arg_def stringish_def scalar_def scalar_types_def)
  from scalar_read [OF assms(2) refl] obtain c cty where c: "other_arg_value arg = [ReadVal c (arg_name arg)]"
    "type_of (arg_type arg) = Some cty" "\<forall>t. scalar_value (arg_type arg) t = rmap (converted cty) (conversion_value c t)" by auto
  show ?thesis
    unfolding consumes_def c(1)
    using nw assms(1) c(2,3) by (auto simp: reads_def bind_var_def declared_for_def result_simps)
qed

lemma words_consumes:
  assumes "words_arg arg"
  shows "consumes ([OffAdd 3] @ other_arg_value arg @ [OffNext 3]) arg"
  unfolding consumes_def
proof (intro allI impI)
  fix s :: wstate and pre p w post x v
  assume a: "reads arg w x v" "length p = 3" "w_argv s = pre @ wire_args p w @ post"
    "w_offset s = length pre" "words_arg arg \<longrightarrow> \<not> w_word_i s"
  have ty: "arg_type arg \<noteq> file_dt" "arg_type arg \<noteq> object_dt" "arg_dir arg = in_dir" "stringish (arg_type arg)"
    using assms by (auto simp: words_arg_def stringish_def)
  obtain ws where w: "w = Words ws" "ws \<noteq> []" "int (length ws) < 2 ^ 31" "x = Var (arg_name arg)"
    "v = WText (join_words ws)"
    using a(1) ty by (auto simp: reads_def)
  have v: "other_arg_value arg = [ReadWords (arg_name arg)]"
    using ty by (auto simp: other_arg_value_def stringish_def)
  have r: "read_words (arg_name arg) (s\<lparr>w_offset := length pre + 3\<rparr>) =
      Inr (bind_var (Var (arg_name arg)) (WText (join_words ws))
        (s\<lparr>w_offset := length (pre @ p) + length ws, w_word_i := True\<rparr>))"
    using read_words_exec [of "s\<lparr>w_offset := length pre + 3\<rparr>" "pre @ p" ws post "arg_name arg"] a w assms
    by simp
  show "exec_worker ([OffAdd 3] @ other_arg_value arg @ [OffNext 3]) s =
      Inr (bind_var x v (s\<lparr>w_offset := length (pre @ wire_args p w), w_word_i := w_word_i s \<or> words_arg arg\<rparr>))"
    using a(2,4) w assms by (simp add: v r bind_var_def)
qed

section \<open>All parameters\<close>

text \<open>A parameter's prefix, its wire value, the variable it is read into and the value it gets.\<close>

type_synonym param_in = "string list \<times> wire \<times> wvar \<times> wvalue"

fun wired :: "argument \<Rightarrow> param_in \<Rightarrow> bool" where
  "wired arg (p, w, x, v) \<longleftrightarrow> length p = 3 \<and> reads arg w x v"

fun param_args :: "param_in \<Rightarrow> string list" where
  "param_args (p, w, x, v) = wire_args p w"







lemma argument_consumes:
  assumes "worker_argument T arg = Inr es" and "wired arg q"
  shows "consumes es arg"
proof -
  obtain p w x v where "q = (p, w, x, v)" by (cases q)
  then have r: "reads arg w x v" using assms(2) by simp
  consider (c_file) "arg_type arg = file_dt"
    | (c_object) "arg_type arg \<noteq> file_dt" "arg_type arg = object_dt \<or>
        arg_dir arg \<noteq> in_dir \<and> (scalar (arg_type arg) \<or> stringish (arg_type arg))"
    | (c_words) "words_arg arg" "arg_type arg \<noteq> object_dt"
    | (scl) "arg_dir arg = in_dir" "scalar (arg_type arg)"
    using r unfolding reads_def words_arg_def
    by (cases "arg_type arg") (auto simp: scalar_def scalar_types_def stringish_def split: if_splits)
  then show ?thesis
  proof cases
    case c_file
    then have "es = add_file_arg_worker_treatment arg"
      using assms(1) by (auto simp: worker_argument_def scalar_def scalar_types_def stringish_def)
    then show ?thesis using file_consumes [OF c_file] by simp
  next
    case c_object
    then have "add_object_arg_worker_treatment arg 3 T = Inr es"
      using assms(1) by (auto simp: worker_argument_def scalar_def scalar_types_def stringish_def
          add_other_arg_worker_treatment_def)
    then show ?thesis using object_consumes c_object by blast
  next
    case c_words
    then have "es = [OffAdd 3] @ other_arg_value arg @ [OffNext 3]"
      using assms(1) by (auto simp: worker_argument_def words_arg_def add_other_arg_worker_treatment_def)
    then show ?thesis using words_consumes [OF c_words(1)] by simp
  next
    case scl
    then have "es = [OffAdd 3] @ other_arg_value arg @ [OffNext 3]"
      using assms(1) by (auto simp: worker_argument_def add_other_arg_worker_treatment_def)
    then show ?thesis using value_consumes [OF scl] by simp
  qed
qed




section \<open>When a case is generated\<close>

text \<open>The class names a worker case asks the type table for.\<close>

definition looked_up :: "argument \<Rightarrow> bool" where
  "looked_up arg \<longleftrightarrow> arg_type arg = object_dt \<or>
     arg_dir arg \<noteq> in_dir \<and> (scalar (arg_type arg) \<or> stringish (arg_type arg))"

definition lookups :: "func \<Rightarrow> string option list" where
  "lookups f = map arg_classname (filter looked_up (case_args f))"

lemma object_treatment_result:
  assumes "types_inv T" and "arg_classname arg = Some c"
  shows "c \<in> set (type_names T) \<Longrightarrow> \<exists>es. add_object_arg_worker_treatment arg k T = Inr es"
    and "c \<notin> set (type_names T) \<Longrightarrow> add_object_arg_worker_treatment arg k T = Inl (Exit 1)"
  using tt.number_registered [OF assms(1), of c] tt.number_unregistered [OF assms(1), of c] assms(2)
  by (auto simp: add_object_arg_worker_treatment_def)

lemma worker_argument_result:
  assumes "types_inv T" and "looked_up arg \<Longrightarrow> arg_classname arg = Some c"
  shows "(looked_up arg \<Longrightarrow> c \<in> set (type_names T)) \<Longrightarrow> \<exists>es. worker_argument T arg = Inr es"
    and "looked_up arg \<Longrightarrow> c \<notin> set (type_names T) \<Longrightarrow> worker_argument T arg = Inl (Exit 1)"
  using object_treatment_result [OF assms(1), of arg c 3] assms(2)
  by (auto simp: worker_argument_def looked_up_def add_other_arg_worker_treatment_def
      scalar_def scalar_types_def stringish_def)

lemma rcollect_Exit:
  assumes "\<And>x. x \<in> set xs \<Longrightarrow> (\<exists>y. f x = Inr y) \<or> f x = Inl e"
  shows "rcollect f xs = Inl e \<longleftrightarrow> (\<exists>x \<in> set xs. f x = Inl e)"
    and "(\<exists>ys. rcollect f xs = Inr ys) \<longleftrightarrow> (\<forall>x \<in> set xs. \<exists>y. f x = Inr y)"
  using assms by (induction xs) (auto simp: result_simps, (metis sum.distinct(1))+)

definition registered :: "Types \<Rightarrow> func \<Rightarrow> bool" where
  "registered T f \<longleftrightarrow> (\<forall>c \<in> set (lookups f). the c \<in> set (type_names T))"

lemma worker_arguments_result:
  assumes "types_inv T" and "\<forall>a \<in> set as. looked_up a \<longrightarrow> arg_classname a \<noteq> None"
  shows "(\<forall>a \<in> set as. looked_up a \<longrightarrow> the (arg_classname a) \<in> set (type_names T)) \<Longrightarrow>
      \<exists>es. worker_arguments T as = Inr es"
    and "\<exists>a \<in> set as. looked_up a \<and> the (arg_classname a) \<notin> set (type_names T) \<Longrightarrow>
      worker_arguments T as = Inl (Exit 1)"
proof -
  have c: "(looked_up a \<longrightarrow> the (arg_classname a) \<in> set (type_names T)) \<longrightarrow> (\<exists>es. worker_argument T a = Inr es)"
    "looked_up a \<and> the (arg_classname a) \<notin> set (type_names T) \<longrightarrow> worker_argument T a = Inl (Exit 1)"
    if "a \<in> set as" for a
    using worker_argument_result [OF assms(1), of a "the (arg_classname a)"] assms(2) that by auto
  have d: "(\<exists>y. worker_argument T a = Inr y) \<or> worker_argument T a = Inl (Exit 1)" if "a \<in> set as" for a
    using c [OF that] by blast
  show "\<exists>es. worker_arguments T as = Inr es"
    if "\<forall>a \<in> set as. looked_up a \<longrightarrow> the (arg_classname a) \<in> set (type_names T)"
    using rcollect_Exit(2) [of as "worker_argument T" "Exit 1"] d c(1) that
    by (auto simp: worker_arguments_def)
  show "worker_arguments T as = Inl (Exit 1)"
    if "\<exists>a \<in> set as. looked_up a \<and> the (arg_classname a) \<notin> set (type_names T)"
    using rcollect_Exit(1) [of as "worker_argument T" "Exit 1"] d c(2) that
    by (auto simp: worker_arguments_def)
qed

lemma worker_implicit_result:
  assumes "types_inv T" and "has_target f \<Longrightarrow> fn_classname f = Some c"
  shows "(has_target f \<longrightarrow> c \<in> set (type_names T)) \<and>
      (return_type f \<noteq> void_dt \<longrightarrow> return_typename f \<in> set (type_names T)) \<Longrightarrow>
      \<exists>es. worker_implicit f T = Inr es"
    and "(has_target f \<and> c \<notin> set (type_names T)) \<or>
      (return_type f \<noteq> void_dt \<and> return_typename f \<notin> set (type_names T)) \<Longrightarrow>
      worker_implicit f T = Inl (Exit 1)"
proof -
  have t: "if c \<in> set (type_names T) then \<exists>es. add_object_arg_worker_treatment (target_arg f) 3 T = Inr es
      else add_object_arg_worker_treatment (target_arg f) 3 T = Inl (Exit 1)" if "has_target f"
    using object_treatment_result [OF assms(1), of "target_arg f" c 3] assms(2) that
    by (simp add: target_arg_def)
  have r: "if return_typename f \<in> set (type_names T)
      then \<exists>es. add_object_arg_worker_treatment (return_arg f) 3 T = Inr es
      else add_object_arg_worker_treatment (return_arg f) 3 T = Inl (Exit 1)"
    using object_treatment_result [OF assms(1), of "return_arg f" "return_typename f" 3]
    by (simp add: return_arg_def)
  show "\<exists>es. worker_implicit f T = Inr es"
    if "(has_target f \<longrightarrow> c \<in> set (type_names T)) \<and>
      (return_type f \<noteq> void_dt \<longrightarrow> return_typename f \<in> set (type_names T))"
    using t r that by (auto simp: worker_implicit_def)
  show "worker_implicit f T = Inl (Exit 1)"
    if "(has_target f \<and> c \<notin> set (type_names T)) \<or>
      (return_type f \<noteq> void_dt \<and> return_typename f \<notin> set (type_names T))"
    using t r that by (cases "has_target f"; cases "c \<in> set (type_names T)")
      (auto simp: worker_implicit_def split: if_splits)
qed

lemma case_args_lookups:
  "set (lookups f) = (if has_target f then {fn_classname f} else {}) \<union>
     (if return_type f \<noteq> void_dt then {Some (return_typename f)} else {}) \<union>
     arg_classname ` {a \<in> set (first_argument f). looked_up a}"
  by (auto simp: lookups_def case_args_def looked_up_def target_arg_def return_arg_def)

lemma worker_case_result:
  assumes "types_inv T" and "None \<notin> set (lookups f)"
  shows "registered T f \<Longrightarrow> \<exists>es. generate_worker_case T f = Inr es"
    and "\<not> registered T f \<Longrightarrow> generate_worker_case T f = Inl (Exit 1)"
proof -
  let ?as = "first_argument f"
  have ha: "has_target f \<Longrightarrow> fn_classname f = Some (the (fn_classname f))"
    by (simp add: has_target_def)
  have as: "\<forall>a \<in> set ?as. looked_up a \<longrightarrow> arg_classname a \<noteq> None"
    using assms(2) by (force simp: case_args_lookups)
  note i = worker_implicit_result [OF assms(1) ha] and a = worker_arguments_result [OF assms(1) as]
  let ?I = "(has_target f \<longrightarrow> the (fn_classname f) \<in> set (type_names T)) \<and>
      (return_type f \<noteq> void_dt \<longrightarrow> return_typename f \<in> set (type_names T))"
  let ?A = "\<forall>a \<in> set ?as. looked_up a \<longrightarrow> the (arg_classname a) \<in> set (type_names T)"
  have reg: "registered T f \<longleftrightarrow> ?I \<and> ?A"
    by (auto simp: registered_def case_args_lookups)
  show "\<exists>es. generate_worker_case T f = Inr es" if "registered T f"
    using i(1) a(1) that reg by (auto simp: generate_worker_case_def Let_def)
  show "generate_worker_case T f = Inl (Exit 1)" if "\<not> registered T f"
  proof (cases ?I)
    case True
    then obtain es where "worker_implicit f T = Inr es" using i(1) by blast
    moreover have "worker_arguments T ?as = Inl (Exit 1)" using a(2) that reg True by blast
    ultimately show ?thesis by (simp add: generate_worker_case_def Let_def)
  next
    case False
    then have "worker_implicit f T = Inl (Exit 1)" using i(2) by blast
    then show ?thesis by (simp add: generate_worker_case_def Let_def)
  qed
qed

section \<open>Registration of the classes of a function\<close>

lemma check_type_result:
  assumes "types_inv T" and "check_type c T = Inr (es, T')"
  shows "types_inv T'" "set (type_names T') = insert c (set (type_names T))"
  using assms tt.contains_law [OF assms(1), of c] addType_keeps_prefix [OF assms(1), of c]
  by (auto simp: check_type_def result_simps split: if_splits)

lemma check_types_result:
  "types_inv T \<Longrightarrow> check_types cs T = Inr (es, T') \<Longrightarrow>
     types_inv T' \<and> set (type_names T') = set (type_names T) \<union> set cs"
proof (induction cs arbitrary: T es)
  case (Cons c cs)
  obtain e1 T1 where c1: "check_type c T = Inr (e1, T1)"
    using Cons.prems(2) by (auto simp: result_simps)
  then obtain e2 where "check_types cs T1 = Inr (e2, T')"
    using Cons.prems(2) by (auto simp: result_simps)
  then show ?case
    using Cons.IH [of T1 e2] check_type_result [OF Cons.prems(1) c1] by auto
qed simp

lemma class_check_result:
  assumes "types_inv T" and "generate_class_includes_and_check_types T f = Inr (incs, T')"
  shows "types_inv T'" "None \<notin> set (function_classes f)"
    "set (type_names T') = set (type_names T) \<union> the ` set (function_classes f)"
  using check_types_result [OF assms(1)] assms(2)
  by (auto simp: generate_class_includes_and_check_types_def split: if_splits)

definition ex_types :: Types where
  "ex_types = \<lparr>types_max = 10, types_cells = (replicate 10 None)[0 := Some ''Block''], types_num = 1\<rparr>"

definition ex_method :: func where
  "ex_method = ex_func [ex_arg ''n'' int_dt in_dir, ex_arg ''s'' string_dt in_dir, ex_arg ''b'' object_dt inout_dir]"

lemma ex_types_inv: "types_inv ex_types" "type_names ex_types = [''Block'']"
  by code_simp+

lemma ex_method_classes: "generate_class_includes_and_check_types ex_types ex_method = Inr ([], ex_types)"
proof -
  have "check_type ''Block'' ex_types = Inr ([], ex_types)"
    using tt.contains_law [OF ex_types_inv(1), of "''Block''"] by (simp add: check_type_def ex_types_inv(2))
  then show ?thesis
    by (simp add: generate_class_includes_and_check_types_def function_classes_def ex_method_def
        ex_func_def ex_arg_def with_args_def)
qed

section \<open>Properties of the worker side\<close>




text \<open>
  C30. Generating the worker case of a function right after its classes have been registered
  succeeds when the function returns nothing or an object and every argument that is not an
  input is an object or a file.
\<close>

theorem worker_case_generated:
  assumes "types_inv T" and "generate_class_includes_and_check_types T f = Inr (incs, T')"
    and "return_type f = void_dt \<or> return_type f = object_dt"
    and "\<forall>a \<in> set (first_argument f). arg_dir a \<noteq> in_dir \<longrightarrow> \<not> scalar (arg_type a) \<and> \<not> stringish (arg_type a)"
  shows "\<exists>es. generate_worker_case T' f = Inr es"
proof -
  note c = class_check_result [OF assms(1,2)]
  have sub: "set (lookups f) \<subseteq> set (function_classes f)"
    using assms(3,4) by (auto simp: case_args_lookups function_classes_def looked_up_def has_target_def)
  have "None \<notin> set (lookups f)" using sub c(2) by blast
  moreover have "registered T' f" using sub c(3) by (auto simp: registered_def)
  ultimately show ?thesis using worker_case_result(1) [OF c(1)] by blast
qed

theorem worker_case_generated_witness: "\<exists>es. generate_worker_case ex_types ex_method = Inr es"
  by (rule worker_case_generated [OF ex_types_inv(1) ex_method_classes])
    (simp_all add: ex_method_def ex_func_def ex_arg_def with_args_def scalar_def scalar_types_def stringish_def)


text \<open>
  The generator gives up with exit status 1 on every other function: if the type of a
  returned scalar or string, or of a scalar or string argument that is not an input, is not also
  the name of a registered class, its number is not found.
\<close>

theorem primitive_output_aborts:
  assumes "types_inv T" and "generate_class_includes_and_check_types T f = Inr (incs, T')"
    and "None \<notin> set (lookups f)"
    and "(return_type f \<notin> {void_dt, object_dt} \<and> c = return_typename f) \<or>
      (\<exists>a \<in> set (first_argument f). arg_dir a \<noteq> in_dir \<and> (scalar (arg_type a) \<or> stringish (arg_type a)) \<and>
        arg_classname a = Some c)"
    and "c \<notin> set (type_names T)" and "Some c \<notin> set (function_classes f)"
  shows "generate_worker_case T' f = Inl (Exit 1)"
proof -
  note cl = class_check_result [OF assms(1,2)]
  have "Some c \<in> set (lookups f)"
    using assms(4)
  proof
    assume "\<exists>a \<in> set (first_argument f). arg_dir a \<noteq> in_dir \<and>
        (scalar (arg_type a) \<or> stringish (arg_type a)) \<and> arg_classname a = Some c"
    then show ?thesis by (force simp: case_args_lookups looked_up_def)
  qed (simp add: case_args_lookups)
  moreover have "c \<notin> set (type_names T')"
    using cl(2,3) assms(5,6) by (auto, metis option.collapse)
  ultimately have "\<not> registered T' f" by (force simp: registered_def)
  then show ?thesis by (rule worker_case_result(2) [OF cl(1) assms(3)])
qed

theorem primitive_output_aborts_witness:
  "generate_worker_case ex_types (ex_func [ex_arg ''n'' int_dt out_dir]) = Inl (Exit 1)"
proof -
  have "generate_class_includes_and_check_types ex_types (ex_func [ex_arg ''n'' int_dt out_dir]) = Inr ([], ex_types)"
    using tt.contains_law [OF ex_types_inv(1), of "''Block''"]
    by (simp add: generate_class_includes_and_check_types_def function_classes_def check_type_def
        ex_types_inv(2) ex_func_def ex_arg_def with_args_def)
  then show ?thesis
    by (rule primitive_output_aborts [where c = "''int''", OF ex_types_inv(1)])
      (auto simp: ex_types_inv(2) ex_func_def ex_arg_def with_args_def function_classes_def
        case_args_lookups scalar_def scalar_types_def)
qed


text \<open>
  A boolean input is always true on the worker: the generated code tests the pointer
  \<open>argv[arg_offset]\<close>, so that every text, also ''false'' and ''0'', gives the value 1.
\<close>

theorem boolean_input_always_true:
  assumes "arg_type a = boolean_dt" and "arg_dir a = in_dir" and "worker_argument T a = Inr es"
    and "length p = 3"
  shows "\<exists>s. exec_worker (worker_declaration a @ es) (init_wstate (pre @ p @ t # post) (length pre)) = Inr s \<and>
    w_vars s (Var (arg_name a)) = Some (WInt 1)"
proof -
  let ?s = "init_wstate (pre @ p @ t # post) (length pre)"
  have d: "exec_worker (worker_declaration a) ?s = Inr (?s\<lparr>w_types := [arg_name a \<mapsto> CInt]\<rparr>)"
    using assms(1) by (simp add: worker_declaration_def init_wstate_def)
  have "wired a (p, One t, Var (arg_name a), WInt 1)"
    using assms(1,2,4) by (simp add: reads_def stringish_def)
  then have "consumes es a" by (rule argument_consumes [OF assms(3)])
  moreover have "reads a (One t) (Var (arg_name a)) (WInt 1)" "\<not> words_arg a"
    using assms(1,2) by (simp_all add: reads_def stringish_def words_arg_def)
  ultimately have "exec_worker es (?s\<lparr>w_types := [arg_name a \<mapsto> CInt]\<rparr>) = Inr (bind_var (Var (arg_name a)) (WInt 1)
      (?s\<lparr>w_types := [arg_name a \<mapsto> CInt], w_offset := length (pre @ wire_args p (One t)), w_word_i := False\<rparr>))"
    using assms(1,4) unfolding consumes_def by (auto simp: init_wstate_def declared_for_def)
  then show ?thesis by (simp add: d)
qed

theorem boolean_input_always_true_witness:
  "\<exists>s. exec_worker [DeclVar CInt ''flag'', OffAdd 3, ReadVal NonNull ''flag'', OffNext 3]
     (init_wstate ([''exe''] @ [''0'', ''3'', ''null''] @ ''false'' # []) 1) = Inr s \<and>
    w_vars s (Var ''flag'') = Some (WInt 1)"
  using boolean_input_always_true [of "ex_arg ''flag'' boolean_dt in_dir" initTypes
      "[OffAdd 3, ReadVal NonNull ''flag'', OffNext 3]" "[''0'', ''3'', ''null'']" "[''exe'']" "''false''" "[]"]
  by (simp add: ex_arg_def worker_argument_def scalar_def scalar_types_def
      add_other_arg_worker_treatment_def other_arg_value_def worker_declaration_def)


text \<open>
  A case with two string inputs cannot be run: the code that reads a string declares the
  variable \<open>word_i\<close> in the block of the case, and the second declaration in the same block is
  not C++.
\<close>

theorem two_strings_redeclare:
  assumes "worker_arguments T [a, b] = Inr es" and "words_arg a" and "words_arg b"
    and "wired a qa" and "wired b qb"
  shows "exec_worker es (init_wstate (pre @ param_args qa @ param_args qb) (length pre)) = Inl Undefined"
proof -
  obtain ea eb where e: "worker_argument T a = Inr ea" "worker_argument T b = Inr eb" "es = ea @ eb"
    using assms(1) by (auto simp: worker_arguments_def result_simps)
  obtain p w x v where q: "qa = (p, w, x, v)" by (cases qa)
  have d: "declared_for s a" for s
    using assms(2) by (cases "arg_type a") (simp_all add: declared_for_def words_arg_def stringish_def)
  let ?s = "init_wstate (pre @ param_args qa @ param_args qb) (length pre)"
  have "exec_worker ea ?s = Inr (bind_var x v (?s\<lparr>w_offset := length (pre @ wire_args p w), w_word_i := True\<rparr>))"
    using argument_consumes [OF e(1) assms(4)] assms(2,4) q d unfolding consumes_def
    by (elim allE [of _ ?s] allE [of _ pre] allE [of _ p] allE [of _ w] allE [of _ "param_args qb"] allE [of _ x] allE [of _ v])
      (simp add: init_wstate_def)
  moreover have "eb = [OffAdd 3, ReadWords (arg_name b), OffNext 3]"
    using e(2) assms(3) by (auto simp: worker_argument_def words_arg_def add_other_arg_worker_treatment_def
        other_arg_value_def stringish_def)
  ultimately show ?thesis by (simp add: e(3) read_words_def)
qed


theorem two_strings_redeclare_witness:
  "exec_worker [OffAdd 3, ReadWords ''s'', OffNext 3, OffAdd 3, ReadWords ''t'', OffNext 3]
     (init_wstate ([] @ param_args ([''8'', ''3'', ''null''], Words [''a''], Var ''s'', WText ''a'') @
        param_args ([''8'', ''3'', ''null''], Words [''b''], Var ''t'', WText ''b'')) 0) = Inl Undefined"
  using two_strings_redeclare [of initTypes "ex_arg ''s'' string_dt in_dir" "ex_arg ''t'' string_dt in_dir"
      "[OffAdd 3, ReadWords ''s'', OffNext 3, OffAdd 3, ReadWords ''t'', OffNext 3]"
      "([''8'', ''3'', ''null''], Words [''a''], Var ''s'', WText ''a'')"
      "([''8'', ''3'', ''null''], Words [''b''], Var ''t'', WText ''b'')" "[]"]
  by (simp add: ex_arg_def worker_arguments_def worker_argument_def scalar_def scalar_types_def stringish_def
      words_arg_def reads_def add_other_arg_worker_treatment_def other_arg_value_def)

end
