(* ===== verification/C_Backend_Correct.thy ===== *)
theory C_Backend_Correct
  imports C_Backend Worker_Correct
begin

text \<open>
  Correctness of the interface compiler as a whole: what the three generated files contain, the
  exit status of the driver in every case, and the dispatch of operations in the generated
  executor.
\<close>

section \<open>Functions the generator handles\<close>

definition generatable :: "func \<Rightarrow> bool" where
  "generatable f \<longleftrightarrow> None \<notin> set (function_classes f) \<and>
     (\<forall>c \<in> set (function_classes f). name_fits (the c)) \<and>
     (return_type f = void_dt \<or> return_type f = object_dt) \<and>
     (\<forall>a \<in> set (first_argument f). arg_dir a \<noteq> in_dir \<longrightarrow>
        \<not> scalar (arg_type a) \<and> \<not> stringish (arg_type a))"

lemma check_types_total:
  "types_inv T \<Longrightarrow> \<forall>c \<in> set cs. name_fits c \<Longrightarrow> \<exists>es T'. check_types cs T = Inr (es, T')"
proof (induction cs arbitrary: T)
  case (Cons c cs)
  have "\<exists>es T'. check_type c T = Inr (es, T')"
    using tt.contains_law [OF Cons.prems(1), of c] tt.add_law [OF Cons.prems(1), of c] Cons.prems(2)
    by (auto simp: check_type_def)
  then obtain es T1 where c1: "check_type c T = Inr (es, T1)" by blast
  then obtain es' T' where "check_types cs T1 = Inr (es', T')"
    using Cons.IH [OF check_type_result(1) [OF Cons.prems(1) c1]] Cons.prems(2) by auto
  with c1 show ?case by simp
qed simp

text \<open>One function: its stub is appended, and a worker case for it.\<close>

lemma generate_function_step:
  assumes "types_inv T" and "generatable f"
  shows "\<exists>T' out' es. generate_function f (T, out) = Inr (T', out') \<and> types_inv T' \<and>
    stubs_out out' = stubs_out out @ generate_stub f \<and>
    worker_out out' = worker_out out @ es \<and> generate_worker_case T' f = Inr es"
proof -
  obtain incs T' where c: "generate_class_includes_and_check_types T f = Inr (incs, T')"
    using check_types_total [OF assms(1), of "map the (function_classes f)"] assms(2)
    by (auto simp: generate_class_includes_and_check_types_def generatable_def)
  obtain es where "generate_worker_case T' f = Inr es"
    using worker_case_generated [OF assms(1) c] assms(2) by (auto simp: generatable_def)
  then show ?thesis
    using c class_check_result(1) [OF assms(1) c] by (simp add: generate_function_def Let_def)
qed

lemma generate_functions:
  "types_inv T \<Longrightarrow> \<forall>f \<in> set fs. generatable f \<Longrightarrow>
     \<exists>T' out' ess. rfold generate_function fs (T, out) = Inr (T', out') \<and> types_inv T' \<and>
       stubs_out out' = stubs_out out @ concat (map generate_stub fs) \<and>
       worker_out out' = worker_out out @ concat ess \<and>
       list_all2 (\<lambda>f es. \<exists>T. generate_worker_case T f = Inr es) fs ess"
proof (induction fs arbitrary: T out)
  case Nil
  then show ?case by (intro exI [of _ T] exI [of _ out] exI [of _ "[]"]) simp
next
  case (Cons f fs)
  obtain T1 out1 es where s: "generate_function f (T, out) = Inr (T1, out1)" "types_inv T1"
    "stubs_out out1 = stubs_out out @ generate_stub f" "worker_out out1 = worker_out out @ es"
    "generate_worker_case T1 f = Inr es"
    using generate_function_step [OF Cons.prems(1), of f out] Cons.prems(2) by auto
  obtain T' out' ess where r: "rfold generate_function fs (T1, out1) = Inr (T', out')" "types_inv T'"
    "stubs_out out' = stubs_out out1 @ concat (map generate_stub fs)"
    "worker_out out' = worker_out out1 @ concat ess"
    "list_all2 (\<lambda>f es. \<exists>T. generate_worker_case T f = Inr es) fs ess"
    using Cons.IH [OF s(2), of out1] Cons.prems(2) by auto
  then show ?case
    using s by (intro exI [of _ T'] exI [of _ out'] exI [of _ "es # ess"]) auto
qed

lemma type_cases_total: "types_inv T \<Longrightarrow> \<exists>es. type_cases body T = Inr es"
  using rcollect_Inr [of "[0..<types_num T]" "\<lambda>i. rmap (body (int i)) (cell (types_cells T) i)"
      "\<lambda>i. body (int i) (type_names T ! i)"]
  by (auto simp: type_cases_def types_inv_cell)

text \<open>The three texts, as a relation: stubs in order, and worker cases between fixed parts.\<close>

definition body_of :: "func list \<Rightarrow> outputs \<Rightarrow> outputs \<Rightarrow> bool" where
  "body_of fs out out' \<longleftrightarrow>
     stubs_out out' = stubs_out out @ [Ln 0 '''' []] @ concat (map generate_stub fs) \<and>
     (\<exists>ess rest. worker_out out' = worker_out out @ generate_executor_prototype @ concat ess @
         generate_executor_end @ rest \<and>
       list_all2 (\<lambda>f es. \<exists>T. generate_worker_case T f = Inr es) fs ess)"

lemma generate_body_total:
  assumes "\<forall>f \<in> set fs. generatable f"
  shows "\<exists>out'. generate_body base fs out = Inr out' \<and> body_of fs out out'"
proof -
  let ?out1 = "out\<lparr>worker_out := worker_out out @ generate_executor_prototype,
    include_out := include_out out @ generate_enum fs @
      [Ln 0 ''/* Functions to be implemented. We sugest that you create a file */'' [],
       Ln 0 ''/* with name '%s-functions.cc' and implement them there. */'' [FS base]],
    stubs_out := stubs_out out @ [Ln 0 '''' []]\<rparr>"
  obtain T' out' ess where r: "rfold generate_function fs (initTypes, ?out1) = Inr (T', out')" "types_inv T'"
    "stubs_out out' = stubs_out ?out1 @ concat (map generate_stub fs)"
    "worker_out out' = worker_out ?out1 @ concat ess"
    "list_all2 (\<lambda>f es. \<exists>T. generate_worker_case T f = Inr es) fs ess"
    using generate_functions [OF _ assms, of initTypes ?out1] by auto
  obtain es where "generate_remove_and_serialize_case T' = Inr es"
    using type_cases_total [OF r(2), of remove_case] type_cases_total [OF r(2), of serialize_case]
    by (auto simp: generate_remove_and_serialize_case_def)
  then show ?thesis
    using r by (auto simp: generate_body_def body_of_def Let_def)
qed

section \<open>The output files\<close>

lemma open_output_total:
  assumes "length base + length ext + 1 < PATH_MAX" and "\<forall>n. may_write F n"
  shows "\<exists>F'. open_output base ext F = Inr (base @ ext, F') \<and> may_write F' = may_write F \<and>
    (\<forall>n. n \<notin> {base @ ext, base @ ext @ ''~''} \<longrightarrow> files F' n = files F n) \<and>
    files F' (base @ ext) = Some '''' \<and>
    (do_backups F \<longrightarrow> may_rename F (base @ ext) \<longrightarrow> files F (base @ ext) \<noteq> None \<longrightarrow>
       files F' (base @ ext @ ''~'') = files F (base @ ext)) \<and>
    do_backups F' = do_backups F \<and> may_rename F' = may_rename F"
  using assms
  by (auto simp: open_output_def copy_name_def append_name_def rename_if_clash_def fopen_w_def)

definition output_names :: "string \<Rightarrow> string list" where
  "output_names base = [base @ ''-stubs.cc'', base @ ''-executor.cc'', base @ ''.h'']"

lemma output_names_distinct:
  "distinct (output_names base @ map (\<lambda>n. n @ ''~'') (output_names base))"
  by (simp add: output_names_def)

lemma generate_prolog_total:
  assumes "get_filename_base fname = Inr base" and "length base + 13 < PATH_MAX" and "\<forall>n. may_write F n"
  shows "\<exists>F'. generate_prolog fname F = Inr (output_names base,
      \<lparr>stubs_out = generate_stubs_prolog fname (base @ ''.h''),
       worker_out = generate_worker_prolog fname (base @ ''.h''),
       include_out = generate_includes_prolog fname (base @ ''.h'')\<rparr>, F') \<and>
    (\<forall>n. n \<notin> set (output_names base @ map (\<lambda>n. n @ ''~'') (output_names base)) \<longrightarrow> files F' n = files F n) \<and>
    (\<forall>n \<in> set (output_names base). do_backups F \<longrightarrow> may_rename F n \<longrightarrow> files F n \<noteq> None \<longrightarrow>
       files F' (n @ ''~'') = files F n)"
proof -
  obtain F1 where F1: "open_output base ''-stubs.cc'' F = Inr (base @ ''-stubs.cc'', F1)"
    "may_write F1 = may_write F" "do_backups F1 = do_backups F" "may_rename F1 = may_rename F"
    "\<forall>n. n \<notin> {base @ ''-stubs.cc'', base @ ''-stubs.cc~''} \<longrightarrow> files F1 n = files F n"
    "do_backups F \<longrightarrow> may_rename F (base @ ''-stubs.cc'') \<longrightarrow> files F (base @ ''-stubs.cc'') \<noteq> None \<longrightarrow>
       files F1 (base @ ''-stubs.cc~'') = files F (base @ ''-stubs.cc'')"
    using open_output_total [of base "''-stubs.cc''" F] assms(2,3) by fastforce
  obtain F2 where F2: "open_output base ''-executor.cc'' F1 = Inr (base @ ''-executor.cc'', F2)"
    "may_write F2 = may_write F" "do_backups F2 = do_backups F" "may_rename F2 = may_rename F"
    "\<forall>n. n \<notin> {base @ ''-executor.cc'', base @ ''-executor.cc~''} \<longrightarrow> files F2 n = files F1 n"
    "do_backups F \<longrightarrow> may_rename F (base @ ''-executor.cc'') \<longrightarrow> files F1 (base @ ''-executor.cc'') \<noteq> None \<longrightarrow>
       files F2 (base @ ''-executor.cc~'') = files F1 (base @ ''-executor.cc'')"
    using open_output_total [of base "''-executor.cc''" F1] assms(2,3) F1(2-4) by fastforce
  obtain F3 where F3: "open_output base ''.h'' F2 = Inr (base @ ''.h'', F3)"
    "\<forall>n. n \<notin> {base @ ''.h'', base @ ''.h~''} \<longrightarrow> files F3 n = files F2 n"
    "do_backups F \<longrightarrow> may_rename F (base @ ''.h'') \<longrightarrow> files F2 (base @ ''.h'') \<noteq> None \<longrightarrow>
       files F3 (base @ ''.h~'') = files F2 (base @ ''.h'')"
    using open_output_total [of base "''.h''" F2] assms(2,3) F2(2-4) by fastforce
  show ?thesis
    using assms(1) F1 F2 F3 by (auto simp: generate_prolog_def output_names_def)
qed

section \<open>The driver\<close>

lemma generate_total:
  assumes "get_filename_base fname = Inr base" and "length base + 13 < PATH_MAX" and "\<forall>n. may_write F n"
    and "\<forall>f \<in> set fs. generatable f"
  shows "\<exists>F'. generate fname (Inr fs) F = Inr F' \<and>
    files F' (base @ ''-stubs.cc'') = Some (render_all (generate_stubs_prolog fname (base @ ''.h'') @
      [Ln 0 '''' []] @ concat (map generate_stub fs))) \<and>
    (\<exists>ess rest. files F' (base @ ''-executor.cc'') = Some (render_all
        (generate_worker_prolog fname (base @ ''.h'') @ generate_executor_prototype @ concat ess @
         generate_executor_end @ rest)) \<and>
      list_all2 (\<lambda>f es. \<exists>T. generate_worker_case T f = Inr es) fs ess) \<and>
    (\<forall>n. n \<notin> set (output_names base @ map (\<lambda>n. n @ ''~'') (output_names base)) \<longrightarrow> files F' n = files F n) \<and>
    (\<forall>n \<in> set (output_names base). do_backups F \<longrightarrow> may_rename F n \<longrightarrow> files F n \<noteq> None \<longrightarrow>
       files F' (n @ ''~'') = files F n)"
proof -
  let ?out = "\<lparr>stubs_out = generate_stubs_prolog fname (base @ ''.h''),
       worker_out = generate_worker_prolog fname (base @ ''.h''),
       include_out = generate_includes_prolog fname (base @ ''.h'')\<rparr>"
  obtain F1 where F1: "generate_prolog fname F = Inr (output_names base, ?out, F1)"
    "\<forall>n. n \<notin> set (output_names base @ map (\<lambda>n. n @ ''~'') (output_names base)) \<longrightarrow> files F1 n = files F n"
    "\<forall>n \<in> set (output_names base). do_backups F \<longrightarrow> may_rename F n \<longrightarrow> files F n \<noteq> None \<longrightarrow>
       files F1 (n @ ''~'') = files F n"
    using generate_prolog_total [OF assms(1-3)] by blast
  obtain out' where out': "generate_body base fs ?out = Inr out'" "body_of fs ?out out'"
    using generate_body_total [OF assms(4)] by blast
  let ?F' = "write_outputs (output_names base) (out'\<lparr>include_out := include_out out' @
              generate_epilogue (output_names base ! 2)\<rparr>) F1"
  have g: "generate fname (Inr fs) F = Inr ?F'"
    using F1(1) out'(1) assms(1) by (simp add: generate_def)
  have "files ?F' (base @ ''-stubs.cc'') = Some (render_all (stubs_out out'))"
    "files ?F' (base @ ''-executor.cc'') = Some (render_all (worker_out out'))"
    "n \<notin> set (output_names base) \<Longrightarrow> files ?F' n = files F1 n" for n
    by (simp_all add: write_outputs_def output_names_def)
  moreover have "n @ ''~'' \<notin> set (output_names base)" if "n \<in> set (output_names base)" for n
    using that by (auto simp: output_names_def)
  moreover obtain ess rest where "worker_out out' = worker_out ?out @ generate_executor_prototype @
      concat ess @ generate_executor_end @ rest"
    "list_all2 (\<lambda>f es. \<exists>T. generate_worker_case T f = Inr es) fs ess"
    using out'(2) by (auto simp: body_of_def)
  moreover have "stubs_out out' = stubs_out ?out @ [Ln 0 '''' []] @ concat (map generate_stub fs)"
    using out'(2) by (simp add: body_of_def)
  ultimately show ?thesis
    using g F1(2,3)
    by (intro exI [of _ ?F'] conjI exI [of _ ess] exI [of _ rest]) auto
qed

definition ex_interface :: "arg_item list \<Rightarrow> interface_decl" where
  "ex_interface xs = \<lparr>i_name = ''I'', i_prototypes = [Proto (ex_proto ''A::f'' xs)]\<rparr>"

definition ex_fs :: fs where
  "ex_fs = \<lparr>files = [''f.idl'' \<mapsto> ''interface I { void A::f(in int n); };'', ''f.h'' \<mapsto> ''old''],
     may_write = (\<lambda>_. True), may_rename = (\<lambda>_. True), do_backups = True\<rparr>"

lemma ex_base: "get_filename_base ''f.idl'' = Inr ''f''"
  by code_simp

section \<open>Properties of the compiler\<close>

text \<open>
  C3. The interface compiler on a file with one complete, well-formed interface exits with status 0 if it can handle the
  functions (\<open>generatable\<close>: every class is named and its name fits the table, the result is void or an object, and no output is a scalar
  or a string), the names of the functions are identifiers, the name of the file leaves room for the suffixes and the output files can be written; it writes the stub of every function, in order, to the
  stubs file and a worker case for every function, in order, to the executor file; no other file
  changes but the backups, which hold the old contents of the output files.
\<close>

theorem compile_accepts:
  assumes "files F fname = Some contents" and "parse_text contents = [i]" and "complete i ps"
    and "\<forall>p \<in> set ps. ident (p_name p)" and "wf_prototypes ps"
    and "\<forall>p \<in> set ps. generatable (func_of p)"
    and "get_filename_base fname = Inr base" and "length base + 13 < PATH_MAX" and "\<forall>n. may_write F n"
  shows "\<exists>F'. compile parse_text [] (Some fname) F = Inr (0, F') \<and>
    files F' (base @ ''-stubs.cc'') = Some (render_all (generate_stubs_prolog fname (base @ ''.h'') @
      [Ln 0 '''' []] @ concat (map (\<lambda>p. generate_stub (func_of p)) ps))) \<and>
    (\<exists>ess rest. files F' (base @ ''-executor.cc'') = Some (render_all
        (generate_worker_prolog fname (base @ ''.h'') @ generate_executor_prototype @ concat ess @
         generate_executor_end @ rest)) \<and>
      list_all2 (\<lambda>p es. \<exists>T. generate_worker_case T (func_of p) = Inr es) ps ess) \<and>
    (\<forall>n. n \<notin> set (output_names base @ map (\<lambda>n. n @ ''~'') (output_names base)) \<longrightarrow> files F' n = files F n) \<and>
    (\<forall>n \<in> set (output_names base). do_backups F \<longrightarrow> may_rename F n \<longrightarrow> files F n \<noteq> None \<longrightarrow>
       files F' (n @ ''~'') = files F n)"
proof -
  obtain s where s: "parse_file [i] (set_filename fname init_sem) = Inr s" "main_interface s \<noteq> None"
    "fun_list s = map func_of ps" "can_generate s"
    using interface_run_complete [OF fresh_init(2) assms(3,4)] assms(5) by blast
  then have fs: "get_first_function s = Inr (map func_of ps)"
    by (auto simp: get_first_function_def fun_list_def)
  have g: "\<forall>f \<in> set (map func_of ps). generatable f" using assms(6) by simp
  have c: "compile parse_text [] (Some fname) F = rmap (\<lambda>F2. (0, F2)) (generate fname (Inr (map func_of ps)) F)"
    using assms(1,2) s(1,4) fs by (simp add: compile_def)
  show ?thesis
    using generate_total [OF assms(7-9) g] unfolding c
    by (fastforce simp: list.rel_map comp_def)
qed

theorem compile_accepts_witness:
  "\<exists>F'. compile (\<lambda>_. [ex_interface [Arg ex_block TOK_IN (Data (Numeric TOK_INT)) ''n'']]) [] (Some ''f.idl'') ex_fs
      = Inr (0, F') \<and> files F' ''f.h~'' = Some ''old''"
proof -
  let ?p = "ex_proto ''A::f'' [Arg ex_block TOK_IN (Data (Numeric TOK_INT)) ''n'']"
  have c: "class_part ''A::f'' = Some ''A''" "name_fits ''A''" by code_simp+
  have g: "generatable (func_of ?p)"
    using c by (simp add: generatable_def function_classes_def func_of_def with_args_def ex_proto_def new_argument_def)
  show ?thesis
    using compile_accepts [of ex_fs "''f.idl''" "''interface I { void A::f(in int n); };''"
        "\<lambda>_. [ex_interface [Arg ex_block TOK_IN (Data (Numeric TOK_INT)) ''n'']]"
        "ex_interface [Arg ex_block TOK_IN (Data (Numeric TOK_INT)) ''n'']" "[?p]" "''f''"] g ex_base
    by (fastforce simp: ex_fs_def ex_interface_def complete_def wf_prototypes_def ident_def ex_proto_def
        PATH_MAX_def output_names_def)
qed


text \<open>
  C28. On any other complete interface the compiler exits with status 1 and touches no file.
\<close>

theorem compile_rejects:
  assumes "files F fname = Some contents" and "parse_text contents = [i]" and "complete i ps"
    and "\<forall>p \<in> set ps. ident (p_name p)" and "\<not> wf_prototypes ps"
  shows "compile parse_text [] (Some fname) F = Inr (1, F)"
proof -
  obtain s where "parse_file [i] (set_filename fname init_sem) = Inr s" "\<not> can_generate s"
    using interface_run_complete [OF fresh_init(2) assms(3,4)] assms(5) by blast
  then show ?thesis using assms(1,2) by (simp add: compile_def)
qed

theorem compile_rejects_witness:
  "compile (\<lambda>_. [ex_interface [Arg ex_block TOK_IN (Data TOK_VOID) ''n'']]) [] (Some ''f.idl'') ex_fs
     = Inr (1, ex_fs)"
  by (rule compile_rejects [where i = "ex_interface [Arg ex_block TOK_IN (Data TOK_VOID) ''n'']" and ps = "[ex_proto ''A::f'' [Arg ex_block TOK_IN (Data TOK_VOID) ''n'']]"])
    (simp_all add: ex_fs_def ex_interface_def complete_def wf_prototypes_def ident_def ex_proto_def)


text \<open>
  A file without an interface is not an error for the parser: the compiler goes on to
  generate code and stops in a failed assertion of \<open>get_first_function\<close>.
\<close>

theorem empty_file_assertion:
  assumes "files F fname = Some contents" and "parse_text contents = []"
    and "get_filename_base fname = Inr base" and "length base + 13 < PATH_MAX" and "\<forall>n. may_write F n"
  shows "compile parse_text [] (Some fname) F = Inl Assertion"
  using generate_prolog_total [OF assms(3-5)] assms(1-3)
  by (auto simp: compile_def parse_file_def file_actions_def can_generate_def generate_def
      set_filename_def init_sem_def get_first_function_def)

theorem empty_file_assertion_witness:
  "compile (\<lambda>_. []) [] (Some ''f.idl'') ex_fs = Inl Assertion"
  by (rule empty_file_assertion [OF _ _ ex_base]) (simp_all add: ex_fs_def PATH_MAX_def)

text \<open>
  In the generated executor every operation name leads to the worker case of the function of
  that name, provided the labels the names are turned into are distinct.
\<close>

theorem operation_dispatch:
  assumes "distinct (map fn_name fs)" and "distinct (map op_label fs)" and "f \<in> set fs"
  shows "executor_case fs (fn_name f) = Inr f"
proof -
  obtain k where k: "k < length fs" "fs ! k = f" using assms(3) by (auto simp: in_set_conv_nth)
  have "op_code_from i gs (fn_name f) = Inr (i + j)"
    if "distinct (map fn_name gs)" "j < length gs" "gs ! j = f" for i j gs
    using that by (induction gs arbitrary: i j) (auto simp: nth_Cons split: nat.splits)
  then have o: "op_code_from 0 fs (fn_name f) = Inr k" using k assms(1) by simp
  have "find (\<lambda>g. op_label g = op_label f) gs = Some f"
    if "distinct (map op_label gs)" "f \<in> set gs" for gs
    using that by (induction gs) auto
  then have "find (\<lambda>g. op_label g = op_label f) fs = Some f" using assms(2,3) .
  then show ?thesis using o k assms(2) by (simp add: executor_case_def)
qed

theorem operation_dispatch_witness:
  "executor_case [func_of (ex_proto ''A::f'' []), func_of (ex_proto ''A::g'' [])] ''A::g'' =
     Inr (func_of (ex_proto ''A::g'' []))"
  using operation_dispatch [of "[func_of (ex_proto ''A::f'' []), func_of (ex_proto ''A::g'' [])]"
      "func_of (ex_proto ''A::g'' [])"]
  by (simp add: ex_proto_def op_label_def)

text \<open>
  Distinct function names do not make distinct labels: the compiler accepts two functions
  whose names differ only in colons against underscores, and the executor it generates for them
  is not C++, whatever operation is asked for.
\<close>

theorem clashing_labels:
  assumes "distinct (map p_name ps)" and "\<forall>p \<in> set ps. args_wf (p_args p) []"
    and "p \<in> set ps" and "q \<in> set ps" and "p_name p \<noteq> p_name q"
    and "map (\<lambda>c. if c = CHR '':'' then CHR ''_'' else c) (p_name p) =
      map (\<lambda>c. if c = CHR '':'' then CHR ''_'' else c) (p_name q)"
  shows "wf_prototypes ps \<and> executor_case (map func_of ps) opName = Inl Undefined"
proof -
  have "op_label (func_of p) = op_label (func_of q)"
    using assms(6) by (simp add: op_label_def replace_char_map)
  moreover have "p \<noteq> q" using assms(5) by blast
  ultimately have "\<not> inj_on (\<lambda>p. op_label (func_of p)) (set ps)"
    using assms(3,4) by (auto simp: inj_on_def)
  then have "\<not> distinct (map op_label (map func_of ps))"
    by (simp add: distinct_map comp_def)
  then show ?thesis using assms(1,2) by (simp add: executor_case_def wf_prototypes_def)
qed

theorem clashing_labels_witness:
  "executor_case (map func_of [ex_proto ''A::f'' [], ex_proto ''A__f'' []]) ''A::f'' = Inl Undefined"
  using clashing_labels [of "[ex_proto ''A::f'' [], ex_proto ''A__f'' []]" "ex_proto ''A::f'' []"
      "ex_proto ''A__f'' []" "''A::f''"]
  by (simp add: ex_proto_def)

end
