(* ===== verification/Base64.thy ===== *)
theory Base64
  imports Prelude "HOL-Library.Word"
begin

unbundle bit_operations_syntax

text \<open>
  The base-64 coder of the binding library (\<open>bindinglib/base64.c\<close>). A \<open>char\<close> is a signed
  byte: it is a value of type \<open>8 word\<close> that the integer promotions read with \<open>sint\<close>. The main
  results are the exact output and the size bounds of the encoder on seven-bit input, the
  round trip through the decoder, and the bytes for which the encoder leaves its table.
\<close>

section \<open>Tables\<close>

definition bytes_of :: "string \<Rightarrow> 8 word list" where
  "bytes_of = map of_char"

definition Base64 :: "8 word list" where
  "Base64 = bytes_of
     ''ABCDEFGHIJKLMNOPQRSTUVWXYZabcdefghijklmnopqrstuvwxyz0123456789+/''"

definition Pad64 :: "8 word" where
  "Pad64 = 45"

definition b64_isspace :: "8 word \<Rightarrow> bool" where
  "b64_isspace c \<longleftrightarrow> c \<in> {9, 10, 11, 12, 13, 32}"

section \<open>gs_b64_ntop\<close>

text \<open>\<open>Base64[output[i]]\<close>, with the assertion on the index before it.\<close>

definition b64_digit :: "int \<Rightarrow> 8 word result" where
  "b64_digit i = (if i < 0 then Inl Undefined else Inr (Base64 ! nat i))"

definition output0 :: "8 word \<Rightarrow> int" where
  "output0 a = sint a div 4"

definition output1 :: "8 word \<Rightarrow> 8 word \<Rightarrow> int" where
  "output1 a b = (sint a mod 4) * 16 + sint b div 16"

definition output2 :: "8 word \<Rightarrow> 8 word \<Rightarrow> int" where
  "output2 b c = (sint b mod 16) * 4 + sint c div 64"

definition output3 :: "8 word \<Rightarrow> int" where
  "output3 c = sint c mod 64"

text \<open>The end of the function: the terminating zero must fit, and is not counted.\<close>

definition ntop_end :: "nat \<Rightarrow> 8 word list \<Rightarrow> (int \<times> 8 word list) result" where
  "ntop_end targsize target =
     (if length target \<ge> targsize then Inr (-1, target)
      else Inr (int (length target), target @ [0]))"

text \<open>
  The loop over groups of three, then the padding. \<open>target\<close> is what has been written,
  \<open>datalength\<close> is its length.
\<close>

fun ntop_from :: "8 word list \<Rightarrow> nat \<Rightarrow> 8 word list \<Rightarrow> (int \<times> 8 word list) result" where
  "ntop_from (a # b # c # src) targsize target =
     (if \<not> (output0 a < 64 \<and> output1 a b < 64 \<and> output2 b c < 64 \<and> output3 c < 64)
      then Inl Assertion
      else if length target + 4 > targsize then Inr (-1, target)
      else rbind (b64_digit (output0 a)) (\<lambda>d0. rbind (b64_digit (output1 a b)) (\<lambda>d1.
           rbind (b64_digit (output2 b c)) (\<lambda>d2. rbind (b64_digit (output3 c)) (\<lambda>d3.
             ntop_from src targsize (target @ [d0, d1, d2, d3]))))))"
| "ntop_from [] targsize target = ntop_end targsize target"
| "ntop_from [a] targsize target =
     (if \<not> (output0 a < 64 \<and> output1 a 0 < 64 \<and> output2 0 0 < 64) then Inl Assertion
      else if length target + 4 > targsize then Inr (-1, target)
      else rbind (b64_digit (output0 a)) (\<lambda>d0. rbind (b64_digit (output1 a 0)) (\<lambda>d1.
             ntop_end targsize (target @ [d0, d1, Pad64, Pad64]))))"
| "ntop_from [a, b] targsize target =
     (if \<not> (output0 a < 64 \<and> output1 a b < 64 \<and> output2 b 0 < 64) then Inl Assertion
      else if length target + 4 > targsize then Inr (-1, target)
      else rbind (b64_digit (output0 a)) (\<lambda>d0. rbind (b64_digit (output1 a b)) (\<lambda>d1.
           rbind (b64_digit (output2 b 0)) (\<lambda>d2.
             ntop_end targsize (target @ [d0, d1, d2, Pad64])))))"

definition gs_b64_ntop :: "8 word list \<Rightarrow> nat \<Rightarrow> (int \<times> 8 word list) result" where
  "gs_b64_ntop src targsize = ntop_from src targsize []"

section \<open>gs_b64_pton\<close>

text \<open>
  \<open>b_target\<close> is the array the caller passes, \<open>None\<close> for the null pointer (then the function
  only counts). \<open>Ret n s\<close> is an early \<open>return\<close> of \<open>n\<close> in state \<open>s\<close>.
\<close>

record b64 =
  b_state :: nat
  b_index :: nat
  b_target :: "8 word option list option"

datatype 'a flow = Go 'a | Ret int b64

definition put :: "nat \<Rightarrow> 8 word \<Rightarrow> b64 \<Rightarrow> b64 result" where
  "put i v s = (case b_target s of None \<Rightarrow> Inr s
     | Some t \<Rightarrow> rmap (\<lambda>t'. s\<lparr>b_target := Some t'\<rparr>) (cell_set t i v))"

definition put_or :: "nat \<Rightarrow> 8 word \<Rightarrow> b64 \<Rightarrow> b64 result" where
  "put_or i v s = (case b_target s of None \<Rightarrow> Inr s
     | Some t \<Rightarrow> rbind (cell t i) (\<lambda>x. rmap (\<lambda>t'. s\<lparr>b_target := Some t'\<rparr>) (cell_set t i (x OR v))))"

definition too_small :: "nat \<Rightarrow> nat \<Rightarrow> b64 \<Rightarrow> bool" where
  "too_small i targsize s \<longleftrightarrow> b_target s \<noteq> None \<and> i \<ge> targsize"

text \<open>One base-64 digit \<open>p\<close> (the offset \<open>pos - Base64\<close>), by state.\<close>

definition pton_digit :: "nat \<Rightarrow> nat \<Rightarrow> b64 \<Rightarrow> b64 flow result" where
  "pton_digit targsize p s =
     (let i = b_index s in
      if b_state s = 0 then
        (if too_small i targsize s then Inr (Ret (-1) s)
         else rmap (\<lambda>s1. Go (s1\<lparr>b_state := 1\<rparr>)) (put i (of_nat (p * 4)) s))
      else if b_state s = 1 then
        (if too_small (i + 1) targsize s then Inr (Ret (-1) s)
         else rbind (put_or i (of_nat (p div 16)) s) (\<lambda>s1.
              rmap (\<lambda>s2. Go (s2\<lparr>b_index := i + 1, b_state := 2\<rparr>)) (put (i + 1) (of_nat (p mod 16 * 16)) s1)))
      else if b_state s = 2 then
        (if too_small (i + 1) targsize s then Inr (Ret (-1) s)
         else rbind (put_or i (of_nat (p div 4)) s) (\<lambda>s1.
              rmap (\<lambda>s2. Go (s2\<lparr>b_index := i + 1, b_state := 3\<rparr>)) (put (i + 1) (of_nat (p mod 4 * 64)) s1)))
      else
        (if too_small i targsize s then Inr (Ret (-1) s)
         else rmap (\<lambda>s1. Go (s1\<lparr>b_index := i + 1, b_state := 0\<rparr>)) (put_or i (of_nat p) s)))"

text \<open>
  The loop: it ends at the zero (no rest) or behind a pad character. \<open>isspace\<close> of a negative
  character is undefined.
\<close>

fun pton_loop :: "nat \<Rightarrow> 8 word list \<Rightarrow> b64 \<Rightarrow> (b64 \<times> 8 word list option) flow result" where
  "pton_loop targsize [] s = Inr (Go (s, None))"
| "pton_loop targsize (ch # src) s =
     (if sint ch < 0 then Inl Undefined
      else if b64_isspace ch then pton_loop targsize src s
      else if ch = Pad64 then Inr (Go (s, Some src))
      else case first_index ch Base64 of
          None \<Rightarrow> Inr (Ret (-1) s)
        | Some p \<Rightarrow> rbind (pton_digit targsize p s) (\<lambda>r. case r of
              Ret n s1 \<Rightarrow> Inr (Ret n s1) | Go s1 \<Rightarrow> pton_loop targsize src s1))"

fun skip_spaces :: "8 word list \<Rightarrow> 8 word list result" where
  "skip_spaces [] = Inr []"
| "skip_spaces (ch # src) = (if sint ch < 0 then Inl Undefined
     else if b64_isspace ch then skip_spaces src else Inr (ch # src))"

text \<open>After the last pad: nothing but white space, and no bits left over.\<close>

definition pton_trailing :: "8 word list \<Rightarrow> b64 \<Rightarrow> int result" where
  "pton_trailing src s = rbind (skip_spaces src) (\<lambda>rest.
     if rest \<noteq> [] then Inr (-1)
     else case b_target s of None \<Rightarrow> Inr (int (b_index s))
       | Some t \<Rightarrow> rmap (\<lambda>x. if x \<noteq> 0 then -1 else int (b_index s)) (cell t (b_index s)))"

definition pton_pad :: "8 word list \<Rightarrow> b64 \<Rightarrow> int result" where
  "pton_pad src s =
     (if b_state s = 0 \<or> b_state s = 1 then Inr (-1)
      else if b_state s = 2
      then rbind (skip_spaces src) (\<lambda>rest. case rest of
             [] \<Rightarrow> Inr (-1)
           | ch # src' \<Rightarrow> if ch \<noteq> Pad64 then Inr (-1) else pton_trailing src' s)
      else pton_trailing src s)"

text \<open>The value returned, with the array afterwards.\<close>

definition pton_finish ::
  "(b64 \<times> 8 word list option) flow \<Rightarrow> (int \<times> 8 word option list option) result" where
  "pton_finish r = (case r of
       Ret n s \<Rightarrow> Inr (n, b_target s)
     | Go (s, Some rest) \<Rightarrow> rmap (\<lambda>n. (n, b_target s)) (pton_pad rest s)
     | Go (s, None) \<Rightarrow> Inr (if b_state s \<noteq> 0 then -1 else int (b_index s), b_target s))"

definition gs_b64_pton ::
  "8 word list \<Rightarrow> 8 word option list option \<Rightarrow> nat \<Rightarrow> (int \<times> 8 word option list option) result" where
  "gs_b64_pton src target targsize =
     rbind (pton_loop targsize src \<lparr>b_state = 0, b_index = 0, b_target = target\<rparr>) pton_finish"

section \<open>The reference encoding\<close>

text \<open>A group of three bytes is a number of 24 bits; its base-64 digits are the output.\<close>

definition group :: "8 word \<Rightarrow> 8 word \<Rightarrow> 8 word \<Rightarrow> nat" where
  "group a b c = unat a * 65536 + unat b * 256 + unat c"

definition digit :: "nat \<Rightarrow> nat \<Rightarrow> nat" where
  "digit n k = n div 64 ^ k mod 64"

fun encoding :: "8 word list \<Rightarrow> 8 word list" where
  "encoding (a # b # c # src) =
     map (\<lambda>k. Base64 ! digit (group a b c) k) [3, 2, 1, 0] @ encoding src"
| "encoding [] = []"
| "encoding [a] = map (\<lambda>k. Base64 ! digit (group a 0 0) k) [3, 2] @ [Pad64, Pad64]"
| "encoding [a, b] = map (\<lambda>k. Base64 ! digit (group a b 0) k) [3, 2, 1] @ [Pad64]"

lemma encoding_length: "length (encoding src) = 4 * ((length src + 2) div 3)"
proof (induction src rule: encoding.induct)
  case (1 a b c src)
  have "(length src + 5) div 3 = (length src + 2) div 3 + 1" by presburger
  with 1 show ?case by (simp add: add.commute)
qed simp_all

definition seven_bit :: "8 word \<Rightarrow> bool" where
  "seven_bit c \<longleftrightarrow> c < 128"


lemma seven_bit_sint: "seven_bit c \<Longrightarrow> sint c = uint c"
  using signed_take_bit_int_eq_self [of 7 "uint c"] unsigned_greater_eq [of c, where ?'a = int]
  by (simp add: seven_bit_def word_less_alt sint_uint)

lemma digits_of_bytes:
  fixes x y z :: nat
  assumes "y < 256" and "z < 256"
  defines "n \<equiv> x * 65536 + y * 256 + z"
  shows "x < 256 \<Longrightarrow> digit n 3 = x div 4" "digit n 2 = x mod 4 * 16 + y div 16"
    "digit n 1 = y mod 16 * 4 + z div 64" "digit n 0 = z mod 64"
proof -
  define x1 x0 y1 y0 z1 z0 where
    "x1 = x div 4" "x0 = x mod 4" "y1 = y div 16" "y0 = y mod 16" "z1 = z div 64" "z0 = z mod 64"
  note defs = this
  have b: "x0 \<le> 3" "y0 \<le> 15" "z0 \<le> 63" "y1 \<le> 15" "z1 \<le> 3"
    using assms(1,2) by (auto simp: defs less_mult_imp_div_less less_Suc_eq_le [symmetric])
  have e: "x = 4 * x1 + x0" "y = 16 * y1 + y0" "z = 64 * z1 + z0"
    by (simp_all add: defs)
  have n: "n = 262144 * x1 + 65536 * x0 + 4096 * y1 + 256 * y0 + 64 * z1 + z0"
    by (simp add: n_def e)
  have "n div 262144 = x1" using b n by (intro div_nat_eqI, unfold mult_Suc_right) linarith+
  moreover have "x1 < 64" if "x < 256" using that by (simp add: defs less_mult_imp_div_less)
  ultimately show "x < 256 \<Longrightarrow> digit n 3 = x div 4" by (simp add: digit_def defs)
  have "n div 4096 = 16 * x0 + y1 + 64 * x1"
    using b by (intro div_nat_eqI) (simp_all add: n)
  then show "digit n 2 = x mod 4 * 16 + y div 16" using b by (simp add: digit_def flip: defs)
  have "n div 64 = 4 * y0 + z1 + 64 * (64 * x1 + 16 * x0 + y1)"
    using b by (intro div_nat_eqI) (simp_all add: n)
  then have "n div 64 mod 64 = (4 * y0 + z1) mod 64" by (simp only: mod_mult_self2)
  then show "digit n 1 = y mod 16 * 4 + z div 64" using b by (simp add: digit_def flip: defs)
  have "n = z0 + 64 * (4096 * x1 + 1024 * x0 + 64 * y1 + 4 * y0 + z1)" using n by simp
  then have "n mod 64 = z0 mod 64" by (simp only: mod_mult_self2)
  then show "digit n 0 = z mod 64" using b by (simp add: digit_def flip: defs)
qed

lemma byte_bound: "unat (c :: 8 word) < 256"
  using unsigned_less [where ?'a = nat and w = c] by simp

lemma group_digits:
  "digit (group a b c) 3 = unat a div 4"
  "digit (group a b c) 2 = unat a mod 4 * 16 + unat b div 16"
  "digit (group a b c) 1 = unat b mod 16 * 4 + unat c div 64"
  "digit (group a b c) 0 = unat c mod 64"
  using digits_of_bytes [of "unat b" "unat c" "unat a"] byte_bound [of a] byte_bound [of b] byte_bound [of c]
  by (simp_all add: group_def)

lemma outputs_reference:
  assumes "seven_bit a" "seven_bit b" "seven_bit c"
  shows "output0 a = int (digit (group a b c) 3)" "output1 a b = int (digit (group a b c) 2)"
    "output2 b c = int (digit (group a b c) 1)" "output3 c = int (digit (group a b c) 0)"
  using assms [THEN seven_bit_sint]
  by (simp_all add: output0_def output1_def output2_def output3_def group_digits
      zdiv_int zmod_int del: One_nat_def)

section \<open>The encoder on seven-bit input\<close>

lemma digit_bound [simp]: "digit n k < 64"
  by (simp add: digit_def)

lemma b64_digit_int [simp]: "b64_digit (int n) = Inr (Base64 ! n)"
  by (simp add: b64_digit_def)

lemma seven_bit_0: "seven_bit 0"
  by (simp add: seven_bit_def)

lemma ntop_from_correct:
  "list_all seven_bit src \<Longrightarrow> length target \<le> targsize \<Longrightarrow>
     (length target + length (encoding src) < targsize \<longrightarrow>
        ntop_from src targsize target = Inr (int (length target + length (encoding src)), target @ encoding src @ [0])) \<and>
     (\<not> length target + length (encoding src) < targsize \<longrightarrow>
        (\<exists>w. ntop_from src targsize target = Inr (-1, w) \<and> length w \<le> targsize))"
proof (induction src targsize target rule: ntop_from.induct)
  case (1 a b c src targsize target)
  have o: "output0 a = int (digit (group a b c) 3)" "output1 a b = int (digit (group a b c) 2)"
    "output2 b c = int (digit (group a b c) 1)" "output3 c = int (digit (group a b c) 0)"
    using outputs_reference [of a b c] "1.prems"(1) by simp_all
  let ?w = "target @ [Base64 ! digit (group a b c) 3, Base64 ! digit (group a b c) 2,
    Base64 ! digit (group a b c) 1, Base64 ! digit (group a b c) 0]"
  show ?case
  proof (cases "length target + 4 > targsize")
    case True
    then show ?thesis using "1.prems"(2) by (simp add: o)
  next
    case False
    have r: "ntop_from (a # b # c # src) targsize target = ntop_from src targsize ?w"
      using False by (simp add: o)
    have ih: "(length ?w + length (encoding src) < targsize \<longrightarrow>
        ntop_from src targsize ?w = Inr (int (length ?w + length (encoding src)), ?w @ encoding src @ [0])) \<and>
      (\<not> length ?w + length (encoding src) < targsize \<longrightarrow>
        (\<exists>w. ntop_from src targsize ?w = Inr (-1, w) \<and> length w \<le> targsize))"
      using False "1.prems"(1) by (intro "1.IH") (simp_all add: o)
    show ?thesis unfolding r using ih by (simp add: add.commute)
  qed
next
  case (2 targsize target)
  then show ?case by (simp add: ntop_end_def)
next
  case (3 a targsize target)
  have o: "output0 a = int (digit (group a 0 0) 3)" "output1 a 0 = int (digit (group a 0 0) 2)"
    "output2 0 0 = int (digit (group a 0 0) 1)"
    using outputs_reference [of a 0 0] "3.prems"(1) seven_bit_0 by simp_all
  show ?case using "3.prems"(2) by (simp add: o ntop_end_def)
next
  case (4 a b targsize target)
  have o: "output0 a = int (digit (group a b 0) 3)" "output1 a b = int (digit (group a b 0) 2)"
    "output2 b 0 = int (digit (group a b 0) 1)"
    using outputs_reference [of a b 0] "4.prems"(1) seven_bit_0 by simp_all
  show ?case using "4.prems"(2) by (simp add: o ntop_end_def)
qed

section \<open>The decoder on an encoding\<close>

lemma base64_table:
  "Base64 = [65, 66, 67, 68, 69, 70, 71, 72, 73, 74, 75, 76, 77, 78, 79, 80, 81, 82, 83, 84, 85, 86,
     87, 88, 89, 90, 97, 98, 99, 100, 101, 102, 103, 104, 105, 106, 107, 108, 109, 110, 111, 112,
     113, 114, 115, 116, 117, 118, 119, 120, 121, 122, 48, 49, 50, 51, 52, 53, 54, 55, 56, 57, 43, 47]"
  by code_simp

lemma base64_distinct: "distinct Base64" "length Base64 = 64"
  by (simp_all add: base64_table)

lemma base64_char:
  assumes "p < 64"
  shows "first_index (Base64 ! p) Base64 = Some p" "\<not> b64_isspace (Base64 ! p)"
    "Base64 ! p \<noteq> Pad64" "\<not> sint (Base64 ! p) < 0"
proof -
  have "list_all (\<lambda>c. \<not> b64_isspace c \<and> c \<noteq> Pad64 \<and> \<not> sint c < 0) Base64"
    by code_simp
  then show "\<not> b64_isspace (Base64 ! p)" "Base64 ! p \<noteq> Pad64" "\<not> sint (Base64 ! p) < 0"
    using assms base64_distinct(2) by (simp_all add: list_all_length)
  show "first_index (Base64 ! p) Base64 = Some p"
    using assms base64_distinct by (intro first_index_nth) simp_all
qed

lemma pton_loop_digit:
  "p < 64 \<Longrightarrow> pton_loop targsize (Base64 ! p # src) s =
     rbind (pton_digit targsize p s) (\<lambda>r. case r of Ret n s1 \<Rightarrow> Inr (Ret n s1) | Go s1 \<Rightarrow> pton_loop targsize src s1)"
  by (simp add: base64_char)

lemma or_of_parts:
  assumes "r < 2 ^ k"
  shows "(of_nat (m * 2 ^ k) :: 8 word) OR of_nat r = of_nat (m * 2 ^ k + r)"
proof -
  have "(of_nat (m * 2 ^ k) :: 8 word) = push_bit k (of_nat m)"
    by (simp add: push_bit_eq_mult)
  moreover have "(of_nat r :: 8 word) = take_bit k (of_nat r)"
    using assms by (simp add: take_bit_of_nat take_bit_nat_eq_self flip: of_nat_take_bit)
  moreover have "push_bit k x OR take_bit k y = push_bit k x + take_bit k y" for x y :: "8 word"
    by (rule disjunctive_add [symmetric]) (auto simp: bit_simps)
  ultimately show ?thesis by (metis of_nat_add)
qed

lemma byte_parts:
  fixes a b c :: "8 word"
  defines "n \<equiv> group a b c"
  shows "(of_nat (digit n 3 * 4) :: 8 word) OR of_nat (digit n 2 div 16) = a"
    "(of_nat (digit n 2 mod 16 * 16) :: 8 word) OR of_nat (digit n 1 div 4) = b"
    "(of_nat (digit n 1 mod 4 * 64) :: 8 word) OR of_nat (digit n 0) = c"
proof -
  have b: "unat b div 16 < 16" "unat c div 64 < 4"
    using byte_bound [of b] byte_bound [of c] by (simp_all add: less_mult_imp_div_less)
  have e: "digit n 2 div 16 = unat a mod 4" "digit n 2 mod 16 = unat b div 16"
    "digit n 1 div 4 = unat b mod 16" "digit n 1 mod 4 = unat c div 64"
    using b by (simp_all add: n_def group_digits del: One_nat_def)
  have *: "(of_nat (unat x div 2 ^ k * 2 ^ k) :: 8 word) OR of_nat (unat x mod 2 ^ k) = x" for x :: "8 word" and k
  proof -
    have "(of_nat (unat x div 2 ^ k * 2 ^ k) :: 8 word) OR of_nat (unat x mod 2 ^ k) =
        of_nat (unat x div 2 ^ k * 2 ^ k + unat x mod 2 ^ k)"
      by (rule or_of_parts) simp
    also have "\<dots> = x" by (simp only: div_mult_mod_eq) simp
    finally show ?thesis .
  qed
  show "(of_nat (digit n 3 * 4) :: 8 word) OR of_nat (digit n 2 div 16) = a"
    using * [of a 2] unfolding e by (simp only: n_def group_digits power2_eq_square) simp
  show "(of_nat (digit n 2 mod 16 * 16) :: 8 word) OR of_nat (digit n 1 div 4) = b"
    using * [of b 4] unfolding e by simp
  show "(of_nat (digit n 1 mod 4 * 64) :: 8 word) OR of_nat (digit n 0) = c"
    using * [of c 6] unfolding e by (simp add: n_def group_digits)
qed

lemma pton_digit_steps:
  defines "st k i t \<equiv> \<lparr>b_state = k, b_index = i, b_target = Some t\<rparr>"
  shows "i < length t \<Longrightarrow> pton_digit (length t) p (st 0 i t) =
      Inr (Go (st 1 i (t[i := Some (of_nat (p * 4))])))"
    and "i + 1 < length t \<Longrightarrow> t ! i = Some x \<Longrightarrow> pton_digit (length t) p (st 1 i t) =
      Inr (Go (st 2 (i + 1) (t[i := Some (x OR of_nat (p div 16)), i + 1 := Some (of_nat (p mod 16 * 16))])))"
    and "i + 1 < length t \<Longrightarrow> t ! i = Some x \<Longrightarrow> pton_digit (length t) p (st 2 i t) =
      Inr (Go (st 3 (i + 1) (t[i := Some (x OR of_nat (p div 4)), i + 1 := Some (of_nat (p mod 4 * 64))])))"
    and "i < length t \<Longrightarrow> t ! i = Some x \<Longrightarrow> pton_digit (length t) p (st 3 i t) =
      Inr (Go (st 0 (i + 1) (t[i := Some (x OR of_nat p)])))"
  by (simp_all add: st_def pton_digit_def too_small_def put_def put_or_def cell_def cell_set_def Let_def)

text \<open>The digits of a group, one by one.\<close>

lemma pton_two:
  assumes "i + 1 < length t"
  shows "pton_loop (length t) (Base64 ! digit (group a b c) 3 # Base64 ! digit (group a b c) 2 # src)
      \<lparr>b_state = 0, b_index = i, b_target = Some t\<rparr> =
    pton_loop (length t) src \<lparr>b_state = 2, b_index = i + 1,
      b_target = Some (t[i := Some a, i + 1 := Some (of_nat (digit (group a b c) 2 mod 16 * 16))])\<rparr>"
  using assms byte_parts(1) [of a b c] pton_digit_steps(1) [of i t "digit (group a b c) 3"]
    pton_digit_steps(2) [of i "t[i := Some (of_nat (digit (group a b c) 3 * 4))]" _ "digit (group a b c) 2"]
  by (simp add: pton_loop_digit del: of_nat_mult of_nat_add pton_loop.simps)

lemma pton_third:
  assumes "i + 1 < length t" and "t ! i = Some (of_nat (digit (group a b c) 2 mod 16 * 16))"
  shows "pton_loop (length t) (Base64 ! digit (group a b c) 1 # src)
      \<lparr>b_state = 2, b_index = i, b_target = Some t\<rparr> =
    pton_loop (length t) src \<lparr>b_state = 3, b_index = i + 1,
      b_target = Some (t[i := Some b, i + 1 := Some (of_nat (digit (group a b c) 1 mod 4 * 64))])\<rparr>"
  using pton_digit_steps(3) [OF assms, of "digit (group a b c) 1"] byte_parts(2) [of a b c]
  by (simp add: pton_loop_digit del: of_nat_mult of_nat_add pton_loop.simps One_nat_def)

lemma pton_fourth:
  assumes "i < length t" and "t ! i = Some (of_nat (digit (group a b c) 1 mod 4 * 64))"
  shows "pton_loop (length t) (Base64 ! digit (group a b c) 0 # src)
      \<lparr>b_state = 3, b_index = i, b_target = Some t\<rparr> =
    pton_loop (length t) src \<lparr>b_state = 0, b_index = i + 1, b_target = Some (t[i := Some c])\<rparr>"
  using pton_digit_steps(4) [OF assms, of "digit (group a b c) 0"] byte_parts(3) [of a b c]
  by (simp add: pton_loop_digit del: of_nat_mult of_nat_add pton_loop.simps One_nat_def)

section \<open>Round trip\<close>

text \<open>The room the decoder needs: one byte more when the last group is partial.\<close>

definition room :: "8 word list \<Rightarrow> nat" where
  "room bs = length bs + (if length bs mod 3 = 0 then 0 else 1)"

lemma pad_facts: "\<not> sint Pad64 < 0" "\<not> b64_isspace Pad64"
  by code_simp+

lemma pad_loop:
  "pton_loop n (Pad64 # src) s = Inr (Go (s, Some src))"
  by (simp add: pad_facts)

lemma pton_encoding:
  "i + room bs \<le> length t \<Longrightarrow>
     \<exists>t'. rbind (pton_loop (length t) (encoding bs) \<lparr>b_state = 0, b_index = i, b_target = Some t\<rparr>) pton_finish =
         Inr (int (i + length bs), Some t') \<and>
       length t' = length t \<and> take (i + length bs) t' = take i t @ map Some bs"
proof (induction bs arbitrary: i t rule: encoding.induct)
  case (1 a b c bs)
  let ?t = "t[i := Some a, i + 1 := Some b, i + 2 := Some c]"
  have len: "i + 2 < length t" and room: "i + 3 + room bs \<le> length ?t"
    using "1.prems" by (auto simp: room_def mod_Suc split: if_splits)
  let ?n = "group a b c"
  let ?t1 = "t[i := Some a, i + 1 := Some (of_nat (digit ?n 2 mod 16 * 16))]"
  let ?t2 = "?t1[i + 1 := Some b, i + 1 + 1 := Some (of_nat (digit ?n 1 mod 4 * 64))]"
  have "pton_loop (length t) (encoding (a # b # c # bs)) \<lparr>b_state = 0, b_index = i, b_target = Some t\<rparr> =
      pton_loop (length ?t1) (Base64 ! digit ?n 1 # Base64 ! digit ?n 0 # encoding bs)
        \<lparr>b_state = 2, b_index = i + 1, b_target = Some ?t1\<rparr>"
    using pton_two [of i t a b c] len
    by (simp only: encoding.simps list.map append.simps length_list_update)
  also have "\<dots> = pton_loop (length ?t2) (Base64 ! digit ?n 0 # encoding bs)
        \<lparr>b_state = 3, b_index = i + 1 + 1, b_target = Some ?t2\<rparr>"
    using pton_third [of "i + 1" ?t1 a b c "Base64 ! digit ?n 0 # encoding bs"] len by simp
  also have "\<dots> = pton_loop (length ?t) (encoding bs) \<lparr>b_state = 0, b_index = i + 3, b_target = Some ?t\<rparr>"
    using pton_fourth [of "i + 1 + 1" ?t2 a b c "encoding bs"] len by (simp add: numeral_3_eq_3)
  finally have "pton_loop (length t) (encoding (a # b # c # bs)) \<lparr>b_state = 0, b_index = i, b_target = Some t\<rparr> =
      pton_loop (length ?t) (encoding bs) \<lparr>b_state = 0, b_index = i + 3, b_target = Some ?t\<rparr>" .
  then obtain t' where t': "rbind (pton_loop (length t) (encoding (a # b # c # bs))
      \<lparr>b_state = 0, b_index = i, b_target = Some t\<rparr>) pton_finish = Inr (int (i + 3 + length bs), Some t')"
    "length t' = length t" "take (i + 3 + length bs) t' = take (i + 3) ?t @ map Some bs"
    using "1.IH" [OF room] by auto
  have "take (i + 3) ?t = take i t @ [Some a, Some b, Some c]"
    using len by (simp add: numeral_3_eq_3 take_Suc_conv_app_nth nth_list_update)
  then have tk: "take (i + 3) ?t @ map Some bs = take i t @ map Some (a # b # c # bs)" by simp
  have eq: "i + 3 + length bs = i + length (a # b # c # bs)" by simp
  show ?case using t' unfolding eq tk by blast
next
  case (2 i t)
  then show ?case by (simp add: pton_finish_def)
next
  case (3 a i t)
  then have len: "i + 1 < length t" by (simp add: room_def)
  have z: "digit (group a 0 0) 2 mod 16 = 0" by (simp add: group_digits)
  have "pton_loop (length t) (encoding [a]) \<lparr>b_state = 0, b_index = i, b_target = Some t\<rparr> =
      Inr (Go (\<lparr>b_state = 2, b_index = i + 1, b_target = Some (t[i := Some a, i + 1 := Some 0])\<rparr>, Some [Pad64]))"
    using pton_two [OF len, of a 0 0 "[Pad64, Pad64]"] z
    by (simp only: encoding.simps list.map append.simps pad_loop) simp
  then show ?case
    using len by (simp add: pton_finish_def pton_pad_def pton_trailing_def pad_facts cell_def
        take_Suc_conv_app_nth)
next
  case (4 a b i t)
  then have len: "i + 2 < length t" by (simp add: room_def)
  have z: "digit (group a b 0) 1 mod 4 = 0" by (simp add: group_digits del: One_nat_def)
  let ?t = "t[i := Some a, i + 1 := Some (of_nat (digit (group a b 0) 2 mod 16 * 16))]"
  have "pton_loop (length t) (encoding [a, b]) \<lparr>b_state = 0, b_index = i, b_target = Some t\<rparr> =
      pton_loop (length ?t) [Base64 ! digit (group a b 0) 1, Pad64]
        \<lparr>b_state = 2, b_index = i + 1, b_target = Some ?t\<rparr>"
    using pton_two [of i t a b 0] len
    by (simp only: encoding.simps list.map append.simps length_list_update)
  also have "\<dots> = Inr (Go (\<lparr>b_state = 3, b_index = i + 2,
      b_target = Some (?t[i + 1 := Some b, i + 2 := Some 0])\<rparr>, Some []))"
    using pton_third [of "i + 1" ?t a b 0 "[Pad64]"] len z by (simp add: pad_facts)
  finally show ?case
    using len by (simp add: pton_finish_def pton_pad_def pton_trailing_def cell_def
        take_Suc_conv_app_nth)
qed

section \<open>Properties of the coder\<close>

text \<open>
  On seven-bit input the encoder is the base-64 encoding by groups of 24 bits: it returns the
  length of the encoding and writes it with a terminating zero exactly when the target has room
  for both, and otherwise returns -1 without leaving the target.
\<close>

theorem b64_encode:
  assumes "list_all seven_bit src"
  shows "if length (encoding src) < targsize
    then gs_b64_ntop src targsize = Inr (int (4 * ((length src + 2) div 3)), encoding src @ [0])
    else \<exists>w. gs_b64_ntop src targsize = Inr (-1, w) \<and> length w \<le> targsize"
  using ntop_from_correct [OF assms, of "[]" targsize] by (simp add: gs_b64_ntop_def encoding_length)

theorem b64_encode_witness:
  "gs_b64_ntop (bytes_of ''Hi!?'') 9 = Inr (8, bytes_of ''SGkhPw--'' @ [0])"
proof -
  have s: "list_all seven_bit (bytes_of ''Hi!?'')" by code_simp
  have b: "bytes_of ''Hi!?'' = [72, 105, 33, 63]" "bytes_of ''SGkhPw--'' = [83, 71, 107, 104, 80, 119, 45, 45]"
    by code_simp+
  have e: "encoding [72, 105, 33, 63] = [83, 71, 107, 104, 80, 119, 45, 45]"
    by (simp add: group_def digit_def base64_table Pad64_def)
  show ?thesis using b64_encode [OF s, of 9] unfolding b e by simp
qed

text \<open>
  The decoder inverts the encoding of every message, eight-bit bytes included, given a target with
  room (one spare byte when the last group is partial).
\<close>

lemma b64_decode:
  assumes "room bs \<le> targsize"
  shows "\<exists>t. gs_b64_pton (encoding bs) (Some (replicate targsize None)) targsize = Inr (int (length bs), Some t) \<and>
    length t = targsize \<and> take (length bs) t = map Some bs"
  using pton_encoding [of 0 bs "replicate targsize None"] assms by (simp add: gs_b64_pton_def)

text \<open>
  C21. A message of bytes below 128 survives the round trip through the two functions of the coder: with
  room for the encoding and its zero, \<open>gs_b64_ntop\<close> returns the length of a zero-terminated text, and
  \<open>gs_b64_pton\<close>, given that text and a target with room (one spare byte when the last group is partial),
  returns the length of the message and leaves the message at the start of the target.
\<close>

theorem b64_round_trip:
  assumes "list_all seven_bit bs" and "4 * ((length bs + 2) div 3) < n" and "room bs \<le> targsize"
  shows "\<exists>code t. gs_b64_ntop bs n = Inr (int (length code), code @ [0]) \<and>
    gs_b64_pton code (Some (replicate targsize None)) targsize = Inr (int (length bs), Some t) \<and>
    length t = targsize \<and> take (length bs) t = map Some bs"
  using b64_encode [OF assms(1), of n] b64_decode [OF assms(3)] assms(2) by (auto simp: encoding_length)

theorem b64_round_trip_witness:
  "\<exists>code t. gs_b64_ntop [72, 105, 33, 63] 9 = Inr (int (length code), code @ [0]) \<and>
    gs_b64_pton code (Some (replicate 5 None)) 5 = Inr (4, Some t) \<and>
    length t = 5 \<and> take (length [72, 105, 33, 63 :: 8 word]) t = [Some 72, Some 105, Some 33, Some 63]"
  using b64_round_trip [of "[72, 105, 33, 63]" 9 5]
  by (simp add: room_def seven_bit_def del: ntop_from.simps)

text \<open>
  The encoder does not work on eight-bit input: a byte of 128 or more is a negative \<open>char\<close>,
  its upper six bits are a negative index, and the table is read before its start.
\<close>

theorem b64_high_byte_undefined:
  assumes "sint a < 0" and "4 \<le> targsize"
  shows "gs_b64_ntop (a # src) targsize = Inl Undefined"
proof -
  have r: "sint a div 4 < 0" "sint a div 4 < 64" using assms(1) by simp_all
  have b: "- 128 \<le> sint x \<and> sint x \<le> 127" for x :: "8 word"
    using sint_ge [of x] sint_lt [of x] by simp
  have o: "output1 x y < 64" "output2 x y < 64" "output3 x < 64" for x y :: "8 word"
  proof -
    have *: "u * 16 + v < 64" if "u < 4" "v \<le> 7" for u v :: int using that by simp
    have **: "u * 4 + v < 64" if "u < 16" "v \<le> 1" for u v :: int using that by simp
    have "sint y div 16 \<le> 127 div 16" "sint y div 64 \<le> 127 div 64"
      by (rule zdiv_mono1; use b [of y] in simp)+
    then have y: "sint y div 16 \<le> 7" "sint y div 64 \<le> 1" by simp_all
    show "output1 x y < 64" unfolding output1_def by (rule * [OF _ y(1)]) simp
    show "output2 x y < 64" unfolding output2_def by (rule ** [OF _ y(2)]) simp
    show "output3 x < 64" by (simp add: output3_def)
  qed
  have d: "output0 a < 64" "b64_digit (output0 a) = Inl Undefined"
    using r by (simp_all add: output0_def b64_digit_def)
  consider "src = []" | b where "src = [b]" | b c cs where "src = b # c # cs"
    by (cases src; cases "tl src") auto
  then show ?thesis
    by cases (use assms(2) o d in \<open>simp_all add: gs_b64_ntop_def\<close>)
qed

theorem b64_high_byte_undefined_witness: "gs_b64_ntop [0xC3, 0xA9] 100 = Inl Undefined"
  by (rule b64_high_byte_undefined) code_simp+

end
