(* ===== verification/Event_Record.thy ===== *)
theory Event_Record
  imports Prelude "HOL-Library.Word"
begin

unbundle bit_operations_syntax

text \<open>
  The event record shared by the tracer and the merger (\<open>common/record.h\<close>). The union of parameters
  is its 24 bytes as three little-endian words; the accessors read the fields of \<open>mpi_param_t\<close> and
  \<open>omp_param_t\<close> out of them. A pointer to an event is an option: \<open>None\<close> is the null pointer.
\<close>

record event_t =
  ev_param :: "64 word \<times> 64 word \<times> 64 word"
  ev_value :: "64 word"
  ev_time :: "64 word"
  ev_hwc :: "64 word list"
  ev_event :: "32 word"
  ev_hwcset :: "32 word"

type_synonym event_ptr = "event_t option"

text \<open>The values of an event that begins and of one that ends.\<close>

definition EVT_BEGIN :: "'a::len word" where "EVT_BEGIN = 1"
definition EVT_END :: "'a::len word" where "EVT_END = 0"

definition mpi_params :: "32 word \<Rightarrow> 32 word \<Rightarrow> 32 word \<Rightarrow> 32 word \<Rightarrow> 64 word \<Rightarrow> 64 word \<times> 64 word \<times> 64 word" where
  "mpi_params tgt sz tg com ax =
     (ucast tgt OR push_bit 32 (ucast sz), ucast tg OR push_bit 32 (ucast com), ax)"

definition Get_EvTime :: "event_ptr \<Rightarrow> 64 word" where
  "Get_EvTime p = (case p of None \<Rightarrow> 0 | Some e \<Rightarrow> ev_time e)"

definition Get_EvTarget :: "event_t \<Rightarrow> 32 word" where
  "Get_EvTarget e = ucast (fst (ev_param e))"

definition Get_EvSize :: "event_t \<Rightarrow> 32 word" where
  "Get_EvSize e = ucast (drop_bit 32 (fst (ev_param e)))"

definition Get_EvTag :: "event_t \<Rightarrow> 32 word" where
  "Get_EvTag e = ucast (fst (snd (ev_param e)))"

definition Get_EvComm :: "event_t \<Rightarrow> 32 word" where
  "Get_EvComm e = ucast (drop_bit 32 (fst (snd (ev_param e))))"

definition Get_EvAux :: "event_t \<Rightarrow> 64 word" where
  "Get_EvAux e = snd (snd (ev_param e))"

text \<open>The other views of the parameters share the first words with the fields above.\<close>

definition Get_EvParam :: "event_t \<Rightarrow> 64 word" where
  "Get_EvParam e = fst (ev_param e)"

definition Get_EvNParam :: "event_t \<Rightarrow> bool \<Rightarrow> 64 word" where
  "Get_EvNParam e second = (if second then fst (snd (ev_param e)) else fst (ev_param e))"

definition Get_EvMiscParam :: "event_t \<Rightarrow> 64 word" where
  "Get_EvMiscParam e = fst (ev_param e)"

lemmas event_accessors = Get_EvTarget_def Get_EvSize_def Get_EvTag_def Get_EvComm_def Get_EvAux_def Get_EvTime_def

lemma mpi_params_fields:
  assumes "ev_param e = mpi_params tgt sz tg com ax"
  shows "Get_EvTarget e = tgt" "Get_EvSize e = sz" "Get_EvTag e = tg" "Get_EvComm e = com" "Get_EvAux e = ax"
proof -
  have low: "ucast (ucast x OR push_bit 32 (ucast y) :: 64 word) = x"
    and high: "ucast (drop_bit 32 (ucast x OR push_bit 32 (ucast y) :: 64 word)) = y" for x y :: "32 word"
    by (rule bit_word_eqI; auto simp: bit_simps dest: bit_imp_le_length)+
  show "Get_EvTarget e = tgt" "Get_EvSize e = sz" "Get_EvTag e = tg" "Get_EvComm e = com" "Get_EvAux e = ax"
    using assms low high by (simp_all add: event_accessors mpi_params_def)
qed

end
