(* ===== verification/Event_Buffer.thy ===== *)
theory Event_Buffer
  imports Event_Record
begin

unbundle bit_operations_syntax

text \<open>
  The event buffer of the Extrae tracer (\<open>tracer/wrappers/API/buffers.c\<close>): a ring of events
  with a mask per cell, a callback for when it is full (flush to disk, overwrite the oldest,
  discard), a victim cache for events of chosen types, the list of memory blocks handed to the
  writer, and iterators. Pointers into the ring are indices from \<open>FirstEvt\<close>, so that
  \<open>LastEvt\<close> is \<open>MaxEvents\<close>. The compile-time choice \<open>HAVE_ONLINE\<close> (a mutex per buffer, masks
  respected by the flush) is the parameter \<open>online\<close>.
\<close>

section \<open>State\<close>

record ring =
  MaxEvents :: nat
  FillCount :: int
  cells :: "event_t option list"
  HeadEvt :: nat
  CurEvt :: nat
  fd_open :: bool
  Masks :: "32 word list"
  lock_held :: bool

datatype callback = Cb_Flush | Cb_DiscardOldest | Cb_Discard10Pct | Cb_DiscardAll

text \<open>
  \<open>EVT_SIZE\<close> is \<open>sizeof (event_t)\<close> with its eight counters. A byte of the ring or of the file is the event it
  belongs to and its place in that event. The file holds bytes, as a write may end within an event. \<open>answers\<close>
  are the values the next calls of \<open>write\<close> return: a number of bytes, perhaps fewer than asked for, or a
  negative number; when they are used up every call writes all it is asked for.
\<close>

definition EVT_SIZE :: nat where
  "EVT_SIZE = 112"

type_synonym event_byte = "event_t \<times> nat"

definition event_data :: "event_t list \<Rightarrow> event_byte list" where
  "event_data es = concat (map (\<lambda>e. map (Pair e) [0..<EVT_SIZE]) es)"

record event_file =
  file_data :: "event_byte list"
  answers :: "int list"

text \<open>
  The two file descriptors of a buffer and of its victim cache are open on the same file; every
  flush first moves to its end, so there is one file for both.
\<close>

record buffer =
  main :: ring
  FlushCallback :: "callback option"
  CachedEvents :: "32 word list"
  VictimCache :: "ring option"
  trace_file :: event_file

definition MASK_NOFLUSH :: "32 word" where
  "MASK_NOFLUSH = 1"

definition MASK_CLUSTERED :: "32 word" where
  "MASK_CLUSTERED = 2"

definition BUFFER_CACHE_SIZE :: nat where
  "BUFFER_CACHE_SIZE = 1000"

definition new_ring :: "nat \<Rightarrow> bool \<Rightarrow> ring" where
  "new_ring n_events has_file = \<lparr>MaxEvents = n_events, FillCount = 0, cells = replicate n_events None,
     HeadEvt = 0, CurEvt = 0, fd_open = has_file, Masks = replicate n_events 0, lock_held = False\<rparr>"

text \<open>
  \<open>open_ok\<close>, \<open>reopen_ok\<close>: whether \<open>open\<close> succeeds for the buffer and for its cache; only asked when a
  file name is given. \<open>ws\<close>: what the calls of \<open>write\<close> will answer.
\<close>

definition new_Buffer :: "nat \<Rightarrow> bool \<Rightarrow> bool \<Rightarrow> bool \<Rightarrow> bool \<Rightarrow> int list \<Rightarrow> buffer result" where
  "new_Buffer n_events has_file open_ok reopen_ok enable_cache ws =
     (if has_file \<and> \<not> open_ok then Inl (Exit 1)
      else if enable_cache \<and> has_file \<and> \<not> reopen_ok then Inl (Exit 1)
      else Inr \<lparr>main = new_ring n_events has_file, FlushCallback = Some Cb_Flush, CachedEvents = [],
        VictimCache = (if enable_cache then Some (new_ring BUFFER_CACHE_SIZE has_file) else None),
        trace_file = \<lparr>file_data = [], answers = ws\<rparr>\<rparr>)"

section \<open>Queries\<close>

definition Buffer_IsClosed :: "ring \<Rightarrow> bool" where
  "Buffer_IsClosed r = (\<not> fd_open r)"

definition Buffer_IsEmpty :: "ring \<Rightarrow> bool" where
  "Buffer_IsEmpty r = (FillCount r = 0)"

definition Buffer_IsFull :: "ring \<Rightarrow> bool" where
  "Buffer_IsFull r = (FillCount r = int (MaxEvents r))"

definition Buffer_GetFirstEvent :: "ring \<Rightarrow> int option" where
  "Buffer_GetFirstEvent r = (if FillCount r > 0 then Some (int (HeadEvt r)) else None)"

definition Buffer_GetLastEvent :: "ring \<Rightarrow> int option" where
  "Buffer_GetLastEvent r = (if FillCount r > 0 then Some (int (CurEvt r) - 1) else None)"

definition Buffer_RemainingEvents :: "ring \<Rightarrow> int" where
  "Buffer_RemainingEvents r = int (MaxEvents r) - FillCount r"

definition Buffer_EnoughSpace :: "ring \<Rightarrow> int \<Rightarrow> bool" where
  "Buffer_EnoughSpace r num_events = (Buffer_RemainingEvents r \<ge> num_events)"

definition Buffer_GetNext :: "ring \<Rightarrow> nat \<Rightarrow> nat" where
  "Buffer_GetNext r current = (if current + 1 = MaxEvents r then 0 else current + 1)"

text \<open>The macro \<open>CIRCULAR_STEP\<close>, with \<open>first\<close> at 0.\<close>

definition circular_step :: "nat \<Rightarrow> int \<Rightarrow> nat \<Rightarrow> int" where
  "circular_step current step last_ev =
     (let c = int current + step in
      if c \<ge> int last_ev then c - int last_ev
      else if c < 0 then int last_ev - (0 - c)
      else c)"

section \<open>Locks\<close>

definition Buffer_Lock :: "bool \<Rightarrow> ring \<Rightarrow> ring result" where
  "Buffer_Lock online r =
     (if online then (if lock_held r then Inl Blocked else Inr (r\<lparr>lock_held := True\<rparr>)) else Inr r)"

definition Buffer_Unlock :: "bool \<Rightarrow> ring \<Rightarrow> ring" where
  "Buffer_Unlock online r = (if online then r\<lparr>lock_held := False\<rparr> else r)"

section \<open>Masks\<close>

definition mask_upd :: "(32 word \<Rightarrow> 32 word) \<Rightarrow> nat \<Rightarrow> ring \<Rightarrow> ring result" where
  "mask_upd g i r = (if i < length (Masks r)
     then Inr (r\<lparr>Masks := (Masks r)[i := g (Masks r ! i)]\<rparr>) else Inl Undefined)"

definition Mask_Wipe :: "ring \<Rightarrow> ring" where
  "Mask_Wipe r = r\<lparr>Masks := replicate (MaxEvents r) 0\<rparr>"

definition Mask_Set :: "nat \<Rightarrow> 32 word \<Rightarrow> ring \<Rightarrow> ring result" where
  "Mask_Set event mask_id r = mask_upd (\<lambda>m. m OR mask_id) event r"

definition Mask_SetAll :: "nat \<Rightarrow> ring \<Rightarrow> ring result" where
  "Mask_SetAll event r = mask_upd (\<lambda>_. 0xFFFFFFFF) event r"

definition Mask_Unset :: "nat \<Rightarrow> 32 word \<Rightarrow> ring \<Rightarrow> ring result" where
  "Mask_Unset event mask_id r = mask_upd (\<lambda>m. m AND NOT mask_id) event r"

definition Mask_UnsetAll :: "nat \<Rightarrow> ring \<Rightarrow> ring result" where
  "Mask_UnsetAll event r = mask_upd (\<lambda>_. 0) event r"

definition Mask_Flip :: "nat \<Rightarrow> 32 word \<Rightarrow> ring \<Rightarrow> ring result" where
  "Mask_Flip event mask_id r = mask_upd (\<lambda>m. m XOR mask_id) event r"

definition Mask_Get :: "ring \<Rightarrow> nat \<Rightarrow> 32 word \<Rightarrow> bool result" where
  "Mask_Get r event mask_id = (if event < length (Masks r)
     then Inr (Masks r ! event AND mask_id = mask_id) else Inl Undefined)"

definition Mask_IsSet :: "ring \<Rightarrow> nat \<Rightarrow> 32 word \<Rightarrow> bool result" where
  "Mask_IsSet r event mask_id = Mask_Get r event mask_id"

definition Mask_IsUnset :: "ring \<Rightarrow> nat \<Rightarrow> 32 word \<Rightarrow> bool result" where
  "Mask_IsUnset r event mask_id = rmap Not (Mask_Get r event mask_id)"

text \<open>
  The loops along the ring from one pointer to another. After \<open>MaxEvents\<close> steps a pointer is
  back where it was, so a loop that has not met its end by then never does: the fuel is the
  number of cells, and running out of it is waiting for ever.
\<close>

fun change_region_loop ::
  "nat \<Rightarrow> (nat \<Rightarrow> ring \<Rightarrow> ring result) \<Rightarrow> nat \<Rightarrow> nat \<Rightarrow> ring \<Rightarrow> ring result" where
  "change_region_loop 0 body last_ev current r = Inl Blocked"
| "change_region_loop (Suc fuel) body last_ev current r =
     rbind (body current r) (\<lambda>r1.
       let next = Buffer_GetNext r1 current in
       if next \<noteq> last_ev then change_region_loop fuel body last_ev next r1 else body next r1)"

definition Mask_ChangeRegion :: "nat \<Rightarrow> nat \<Rightarrow> 32 word \<Rightarrow> bool \<Rightarrow> ring \<Rightarrow> ring result" where
  "Mask_ChangeRegion start last_ev mask_id do_set r =
     change_region_loop (MaxEvents r)
       (if do_set then (\<lambda>i. Mask_Set i mask_id) else (\<lambda>i. Mask_Unset i mask_id)) last_ev start r"

definition Mask_SetRegion :: "nat \<Rightarrow> nat \<Rightarrow> 32 word \<Rightarrow> ring \<Rightarrow> ring result" where
  "Mask_SetRegion start last_ev mask_id r = Mask_ChangeRegion start last_ev mask_id True r"

definition Mask_UnsetRegion :: "nat \<Rightarrow> nat \<Rightarrow> 32 word \<Rightarrow> ring \<Rightarrow> ring result" where
  "Mask_UnsetRegion start last_ev mask_id r = Mask_ChangeRegion start last_ev mask_id False r"

section \<open>Data blocks\<close>

text \<open>A block is a base and a length, here counted in events.\<close>

definition BLOCKS_CHUNK :: nat where
  "BLOCKS_CHUNK = 50"

record data_blocks =
  FirstAddr :: nat
  LastAddr :: nat
  MaxBlocks :: nat
  NumBlocks :: nat
  BlocksList :: "(nat \<times> int) option list"

definition new_DataBlocks :: "ring \<Rightarrow> data_blocks" where
  "new_DataBlocks r = \<lparr>FirstAddr = 0, LastAddr = MaxEvents r, MaxBlocks = BLOCKS_CHUNK, NumBlocks = 0,
     BlocksList = replicate BLOCKS_CHUNK None\<rparr>"

definition DataBlocks_AddSorted :: "nat \<Rightarrow> nat \<Rightarrow> data_blocks \<Rightarrow> data_blocks result" where
  "DataBlocks_AddSorted ini_address end_address db =
     (let db1 = db\<lparr>NumBlocks := NumBlocks db + 1\<rparr>;
          db2 = (if NumBlocks db1 \<ge> MaxBlocks db1
                 then db1\<lparr>MaxBlocks := MaxBlocks db1 + BLOCKS_CHUNK,
                          BlocksList := BlocksList db1 @ replicate BLOCKS_CHUNK None\<rparr>
                 else db1)
      in rmap (\<lambda>bs. db2\<lparr>BlocksList := bs\<rparr>)
           (cell_set (BlocksList db2) (NumBlocks db2 - 1) (ini_address, int end_address - int ini_address)))"

definition DataBlocks_Add :: "nat \<Rightarrow> nat \<Rightarrow> data_blocks \<Rightarrow> data_blocks result" where
  "DataBlocks_Add ini_address end_address db =
     (if ini_address < end_address then DataBlocks_AddSorted ini_address end_address db
      else rbind (DataBlocks_AddSorted ini_address (LastAddr db) db)
             (DataBlocks_AddSorted (FirstAddr db) end_address))"

text \<open>The block whose start is pending is closed at a cell that must not be flushed.\<close>

fun filter_loop ::
  "nat \<Rightarrow> (32 word \<Rightarrow> bool) \<Rightarrow> ring \<Rightarrow> nat \<Rightarrow> nat \<Rightarrow> nat option \<Rightarrow> data_blocks \<Rightarrow> data_blocks result" where
  "filter_loop 0 cached r last_event current ini_addr db = Inl Blocked"
| "filter_loop (Suc fuel) cached r last_event current ini_addr db =
     rbind (Mask_IsSet r current MASK_NOFLUSH) (\<lambda>noflush.
     rbind (if noflush then rmap (\<lambda>e. \<not> cached (ev_event e)) (cell (cells r) current) else Inr False) (\<lambda>skip.
     rbind (if skip
            then (case ini_addr of None \<Rightarrow> Inr (None, db)
                  | Some ini \<Rightarrow> rmap (\<lambda>db1. (None, db1)) (DataBlocks_Add ini current db))
            else Inr (case ini_addr of None \<Rightarrow> Some current | Some ini \<Rightarrow> Some ini, db)) (\<lambda>(ini1, db1).
     let next = Buffer_GetNext r current in
     if next \<noteq> last_event then filter_loop fuel cached r last_event next ini1 db1
     else case ini1 of None \<Rightarrow> Inr db1 | Some ini \<Rightarrow> DataBlocks_Add ini next db1)))"

definition Filter_Buffer ::
  "(32 word \<Rightarrow> bool) \<Rightarrow> ring \<Rightarrow> nat \<Rightarrow> nat \<Rightarrow> data_blocks \<Rightarrow> data_blocks result" where
  "Filter_Buffer cached r first_event last_event io_db =
     filter_loop (MaxEvents r) cached r last_event first_event None io_db"

text \<open>
  \<open>writev_wrapper\<close> and its loop over one block, in bytes from the start of the ring. The address of a call is
  computed on an \<open>int\<close> pointer, so it moves by four bytes for each byte already written. The result holds the
  answers left, the contents of the file and the value returned.
\<close>

definition ring_byte :: "ring \<Rightarrow> nat \<Rightarrow> event_byte result" where
  "ring_byte r a = rmap (\<lambda>e. (e, a mod EVT_SIZE)) (cell (cells r) (a div EVT_SIZE))"

definition ring_bytes :: "ring \<Rightarrow> nat \<Rightarrow> nat \<Rightarrow> event_byte list result" where
  "ring_bytes r addr n = rcollect (ring_byte r) [addr..<addr + n]"

fun write_block ::
  "int list \<Rightarrow> ring \<Rightarrow> nat \<Rightarrow> nat \<Rightarrow> nat \<Rightarrow> event_byte list \<Rightarrow> (int list \<times> event_byte list \<times> int) result" where
  "write_block [] r base len tmp out =
     (if tmp < len then rmap (\<lambda>bs. ([], out @ bs, int len)) (ring_bytes r (base + 4 * tmp) (len - tmp))
      else Inr ([], out, int tmp))"
| "write_block (w # ws) r base len tmp out =
     (if tmp < len then
        if w < 0 then Inr (ws, out, w)
        else let n = min (nat w) (len - tmp) in
          rbind (ring_bytes r (base + 4 * tmp) n) (\<lambda>bs. write_block ws r base len (tmp + n) (out @ bs))
      else Inr (w # ws, out, int tmp))"

fun writev_wrapper ::
  "int list \<Rightarrow> ring \<Rightarrow> (nat \<times> int) list \<Rightarrow> int \<Rightarrow> event_byte list \<Rightarrow> (int list \<times> event_byte list \<times> int) result" where
  "writev_wrapper ws r [] so_far out = Inr (ws, out, so_far)"
| "writev_wrapper ws r ((base, len) # iov) so_far out =
     rbind (write_block ws r (base * EVT_SIZE) (nat len * EVT_SIZE) 0 out) (\<lambda>(ws1, out1, n).
       if n < 0 then Inr (ws1, out1, n) else writev_wrapper ws1 r iov (so_far + n) out1)"

text \<open>
  \<open>dump_buffer\<close>: the blocks are written in chunks of at most \<open>IOV_MAX\<close>; an error ends the program, a chunk
  written in part is not noticed.
\<close>

definition IOV_MAX :: nat where
  "IOV_MAX = 512"

function dump_blocks :: "ring \<Rightarrow> (nat \<times> int) list \<Rightarrow> event_file \<Rightarrow> event_file result" where
  "dump_blocks r bs f =
     (if bs = [] then Inr f
      else rbind (writev_wrapper (answers f) r (take IOV_MAX bs) 0 (file_data f)) (\<lambda>(ws, out, nbytes).
        if nbytes = -1 then Inl (Exit 1)
        else dump_blocks r (drop IOV_MAX bs) \<lparr>file_data = out, answers = ws\<rparr>))"
  by pat_completeness auto
termination
  by (relation "measure (\<lambda>(r, bs, f). length bs)") (auto simp: IOV_MAX_def)

declare dump_blocks.simps [simp del]

definition dump_buffer :: "ring \<Rightarrow> data_blocks \<Rightarrow> event_file \<Rightarrow> event_file result" where
  "dump_buffer r db f =
     rbind (rcollect (cell (BlocksList db)) [0..<NumBlocks db]) (\<lambda>bs. dump_blocks r bs f)"

section \<open>Flush, discard, insert\<close>

definition flush_ring ::
  "bool \<Rightarrow> (32 word \<Rightarrow> bool) \<Rightarrow> ring \<Rightarrow> event_file \<Rightarrow> (ring \<times> event_file \<times> int) result" where
  "flush_ring online cached r f =
     (if Buffer_IsEmpty r \<or> Buffer_IsClosed r then Inr (r, f, 0)
      else
        let head = HeadEvt r;
            num_flushed = FillCount r;
            tail = nat (circular_step head num_flushed (MaxEvents r));
            db = new_DataBlocks r
        in rbind (if online then Filter_Buffer cached r head tail db else DataBlocks_Add head tail db) (\<lambda>db1.
           rmap (\<lambda>f1. (r\<lparr>FillCount := FillCount r - num_flushed, HeadEvt := tail\<rparr>, f1, 1))
             (dump_buffer r db1 f)))"

text \<open>Lines that store an event in the ring.\<close>

definition put_event :: "event_t \<Rightarrow> ring \<Rightarrow> ring result" where
  "put_event e r =
     rbind (cell_set (cells r) (CurEvt r) e) (\<lambda>cs.
     rmap (\<lambda>r1. r1\<lparr>CurEvt := Buffer_GetNext r1 (CurEvt r1), FillCount := FillCount r1 + 1\<rparr>)
       (Mask_UnsetAll (CurEvt r) (r\<lparr>cells := cs\<rparr>)))"

text \<open>\<open>Buffer_InsertSingle\<close> on a victim cache: its callback is \<open>Buffer_Flush\<close>.\<close>

definition victim_insert ::
  "bool \<Rightarrow> event_t \<Rightarrow> ring \<times> event_file \<Rightarrow> (ring \<times> event_file) result" where
  "victim_insert online e = (\<lambda>(r, f).
     rbind (Buffer_Lock online r) (\<lambda>r1.
     rbind (if Buffer_IsFull r1 then flush_ring online (\<lambda>_. False) r1 f else Inr (r1, f, 1)) (\<lambda>(r2, f2, rc).
       if rc = 0 then Inr (r2, f2)
       else rmap (\<lambda>r3. (Buffer_Unlock online r3, f2)) (put_event e r2))))"

definition Buffer_AddCachedEvent :: "32 word \<Rightarrow> buffer \<Rightarrow> buffer" where
  "Buffer_AddCachedEvent event_type b =
     (if VictimCache b \<noteq> None then b\<lparr>CachedEvents := CachedEvents b @ [event_type]\<rparr> else b)"

definition Buffer_IsEventCached :: "buffer \<Rightarrow> 32 word \<Rightarrow> bool" where
  "Buffer_IsEventCached b event_type \<longleftrightarrow> VictimCache b \<noteq> None \<and> event_type \<in> set (CachedEvents b)"

definition Buffer_CacheEvent :: "bool \<Rightarrow> event_t \<Rightarrow> buffer \<Rightarrow> buffer result" where
  "Buffer_CacheEvent online e b =
     (case VictimCache b of
        Some v \<Rightarrow> if Buffer_IsEventCached b (ev_event e)
          then rmap (\<lambda>(v1, f1). b\<lparr>VictimCache := Some v1, trace_file := f1\<rparr>) (victim_insert online e (v, trace_file b))
          else Inr b
      | None \<Rightarrow> Inr b)"

definition Buffer_Flush :: "bool \<Rightarrow> buffer \<Rightarrow> (buffer \<times> int) result" where
  "Buffer_Flush online b =
     rmap (\<lambda>(r, f, rc). (b\<lparr>main := r, trace_file := f\<rparr>, rc))
       (flush_ring online (Buffer_IsEventCached b) (main b) (trace_file b))"

definition Buffer_FlushCache :: "bool \<Rightarrow> buffer \<Rightarrow> (buffer \<times> int) result" where
  "Buffer_FlushCache online b =
     (case VictimCache b of
        None \<Rightarrow> Inr (b, 0)
      | Some v \<Rightarrow> rmap (\<lambda>(r, f, rc). (b\<lparr>VictimCache := Some r, trace_file := f\<rparr>, rc))
          (flush_ring online (\<lambda>_. False) v (trace_file b)))"

definition Buffer_DiscardOldest :: "bool \<Rightarrow> buffer \<Rightarrow> (buffer \<times> int) result" where
  "Buffer_DiscardOldest online b =
     rbind (cell (cells (main b)) (HeadEvt (main b))) (\<lambda>old_head.
     rmap (\<lambda>b1. let r = main b1 in
         (b1\<lparr>main := r\<lparr>FillCount := FillCount r - 1, HeadEvt := Buffer_GetNext r (HeadEvt r)\<rparr>\<rparr>, 1))
       (Buffer_CacheEvent online old_head b))"

text \<open>\<open>MaxEvents * 0.1\<close> converted to \<open>int\<close> is the quotient by ten.\<close>

definition Buffer_Discard10Pct :: "buffer \<Rightarrow> buffer \<times> int" where
  "Buffer_Discard10Pct b =
     (let r = main b;
          pct10 = MaxEvents r div 10;
          head = HeadEvt r + pct10;
          head1 = (if head \<ge> MaxEvents r then head - MaxEvents r else head)
      in (b\<lparr>main := r\<lparr>FillCount := FillCount r - int pct10, HeadEvt := head1\<rparr>\<rparr>, 1))"

definition Buffer_DiscardAll :: "buffer \<Rightarrow> buffer \<times> int" where
  "Buffer_DiscardAll b =
     (let r = main b in (b\<lparr>main := r\<lparr>FillCount := 0, HeadEvt := CurEvt r\<rparr>\<rparr>, 1))"

definition Buffer_SetFlushCallback :: "callback option \<Rightarrow> buffer \<Rightarrow> buffer" where
  "Buffer_SetFlushCallback cb b = b\<lparr>FlushCallback := cb\<rparr>"

definition Buffer_ExecuteFlushCallback :: "bool \<Rightarrow> buffer \<Rightarrow> (buffer \<times> int) result" where
  "Buffer_ExecuteFlushCallback online b =
     (case FlushCallback b of
        None \<Rightarrow> Inr (b, 0)
      | Some Cb_Flush \<Rightarrow> Buffer_Flush online b
      | Some Cb_DiscardOldest \<Rightarrow> Buffer_DiscardOldest online b
      | Some Cb_Discard10Pct \<Rightarrow> Inr (Buffer_Discard10Pct b)
      | Some Cb_DiscardAll \<Rightarrow> Inr (Buffer_DiscardAll b))"

definition Buffer_InsertSingle :: "bool \<Rightarrow> event_t \<Rightarrow> buffer \<Rightarrow> buffer result" where
  "Buffer_InsertSingle online new_event b =
     rbind (Buffer_Lock online (main b)) (\<lambda>r1.
     rbind (if Buffer_IsFull r1 then Buffer_ExecuteFlushCallback online (b\<lparr>main := r1\<rparr>)
            else Inr (b\<lparr>main := r1\<rparr>, 1)) (\<lambda>(b2, rc).
       if rc = 0 then Inr b2
       else rmap (\<lambda>r3. b2\<lparr>main := Buffer_Unlock online r3\<rparr>) (put_event new_event (main b2))))"

fun insert_retry :: "nat \<Rightarrow> bool \<Rightarrow> int \<Rightarrow> buffer \<Rightarrow> (buffer \<times> bool) result" where
  "insert_retry 0 online num_events b = Inr (b, True)"
| "insert_retry (Suc retry) online num_events b =
     (if \<not> Buffer_EnoughSpace (main b) num_events
      then rbind (Buffer_ExecuteFlushCallback online b) (\<lambda>(b1, rc).
             if rc = 0 then Inr (b1, False) else insert_retry retry online num_events b1)
      else Inr (b, True))"

definition Buffer_InsertMultiple :: "bool \<Rightarrow> event_t list \<Rightarrow> buffer \<Rightarrow> buffer result" where
  "Buffer_InsertMultiple online events_list b =
     (let num_events = int (length events_list) in
      rbind (insert_retry (length events_list) online num_events b) (\<lambda>(b1, go).
        if \<not> go then Inr b1
        else if \<not> Buffer_EnoughSpace (main b1) num_events then Inl (Exit 1)
        else rfold (Buffer_InsertSingle online) events_list b1))"

definition Buffer_Close :: "bool \<Rightarrow> buffer \<Rightarrow> buffer result" where
  "Buffer_Close online b =
     (if fd_open (main b)
      then rmap (\<lambda>(b1, rc). b1\<lparr>main := (main b1)\<lparr>fd_open := False\<rparr>\<rparr>) (Buffer_FlushCache online b)
      else Inr (b\<lparr>main := (main b)\<lparr>fd_open := False\<rparr>\<rparr>))"

definition Buffer_GetFileSize :: "buffer \<Rightarrow> nat" where
  "Buffer_GetFileSize b = (if fd_open (main b) then length (file_data (trace_file b)) else 0)"

section \<open>Iterators\<close>

record iterator =
  OutOfBounds :: bool
  CurrentElement :: nat
  StartBound :: nat
  EndBound :: nat

definition new_Iterator :: "ring \<Rightarrow> nat \<Rightarrow> iterator" where
  "new_Iterator r current = \<lparr>OutOfBounds = Buffer_IsEmpty r, CurrentElement = current,
     StartBound = HeadEvt r, EndBound = CurEvt r\<rparr>"

definition BufferIterator_NewForward :: "ring \<Rightarrow> iterator" where
  "BufferIterator_NewForward r = new_Iterator r (HeadEvt r)"

definition BufferIterator_NewBackward :: "ring \<Rightarrow> iterator" where
  "BufferIterator_NewBackward r =
     new_Iterator r (nat (circular_step (CurEvt r) (-1) (MaxEvents r)))"

definition BufferIterator_Next :: "ring \<Rightarrow> iterator \<Rightarrow> iterator result" where
  "BufferIterator_Next r it =
     (if OutOfBounds it then Inl Assertion
      else let c = Buffer_GetNext r (CurrentElement it)
           in Inr (it\<lparr>CurrentElement := c, OutOfBounds := (c = EndBound it)\<rparr>))"

definition BufferIterator_Previous :: "ring \<Rightarrow> iterator \<Rightarrow> iterator result" where
  "BufferIterator_Previous r it =
     (if OutOfBounds it then Inl Assertion
      else if CurrentElement it = StartBound it then Inr (it\<lparr>OutOfBounds := True\<rparr>)
      else Inr (it\<lparr>OutOfBounds := False,
             CurrentElement := nat (circular_step (CurrentElement it) (-1) (MaxEvents r))\<rparr>))"

definition BufferIterator_GetEvent :: "ring \<Rightarrow> iterator \<Rightarrow> event_t result" where
  "BufferIterator_GetEvent r it =
     (if OutOfBounds it then Inl Assertion else cell (cells r) (CurrentElement it))"

text \<open>
  The client's loop \<open>while (!BIT_OutOfBounds(it)) { BIT_GetEvent(it); step (it); }\<close>; the fuel
  bounds the number of turns.
\<close>

fun iterate ::
  "(ring \<Rightarrow> iterator \<Rightarrow> iterator result) \<Rightarrow> nat \<Rightarrow> ring \<Rightarrow> iterator \<Rightarrow> event_t list result" where
  "iterate step 0 r it = (if OutOfBounds it then Inr [] else Inl Blocked)"
| "iterate step (Suc fuel) r it =
     (if OutOfBounds it then Inr []
      else rbind (BufferIterator_GetEvent r it) (\<lambda>e.
           rbind (step r it) (\<lambda>it1. rmap (\<lambda>es. e # es) (iterate step fuel r it1))))"

text \<open>The two searches of \<open>BufferIterator_NewRange\<close>: the first event that satisfies a test.\<close>

fun search ::
  "(ring \<Rightarrow> iterator \<Rightarrow> iterator result) \<Rightarrow> (event_t \<Rightarrow> bool) \<Rightarrow> nat \<Rightarrow> ring \<Rightarrow> iterator \<Rightarrow> nat option result" where
  "search step P 0 r it = (if OutOfBounds it then Inr None else Inl Blocked)"
| "search step P (Suc fuel) r it =
     (if OutOfBounds it then Inr None
      else rbind (BufferIterator_GetEvent r it) (\<lambda>e.
           if P e then Inr (Some (CurrentElement it))
           else rbind (step r it) (search step P fuel r)))"

definition BufferIterator_NewRange :: "ring \<Rightarrow> 64 word \<Rightarrow> 64 word \<Rightarrow> iterator result" where
  "BufferIterator_NewRange r start_time end_time =
     rbind (search BufferIterator_Next (\<lambda>e. ev_time e \<ge> start_time) (MaxEvents r) r
              (BufferIterator_NewForward r)) (\<lambda>s.
     rbind (search BufferIterator_Previous (\<lambda>e. ev_time e \<le> end_time) (MaxEvents r) r
              (BufferIterator_NewBackward r)) (\<lambda>t.
       let st = (case s of Some i \<Rightarrow> i | None \<Rightarrow> HeadEvt r) in
       Inr \<lparr>OutOfBounds = \<not> (s \<noteq> None \<and> t \<noteq> None), CurrentElement = st, StartBound = st,
            EndBound = (case t of Some i \<Rightarrow> i | None \<Rightarrow> CurEvt r)\<rparr>))"

definition BufferIterator_MaskSet :: "iterator \<Rightarrow> 32 word \<Rightarrow> ring \<Rightarrow> ring result" where
  "BufferIterator_MaskSet it mask_id r =
     (if OutOfBounds it then Inl Assertion else Mask_Set (CurrentElement it) mask_id r)"

definition BufferIterator_MaskSetAll :: "iterator \<Rightarrow> ring \<Rightarrow> ring result" where
  "BufferIterator_MaskSetAll it r =
     (if OutOfBounds it then Inl Assertion else Mask_SetAll (CurrentElement it) r)"

definition BufferIterator_MaskUnset :: "iterator \<Rightarrow> 32 word \<Rightarrow> ring \<Rightarrow> ring result" where
  "BufferIterator_MaskUnset it mask_id r =
     (if OutOfBounds it then Inl Assertion else Mask_Unset (CurrentElement it) mask_id r)"

definition BufferIterator_MaskUnsetAll :: "iterator \<Rightarrow> ring \<Rightarrow> ring result" where
  "BufferIterator_MaskUnsetAll it r =
     (if OutOfBounds it then Inl Assertion else Mask_UnsetAll (CurrentElement it) r)"

definition BufferIterator_IsMaskSet :: "iterator \<Rightarrow> 32 word \<Rightarrow> ring \<Rightarrow> bool result" where
  "BufferIterator_IsMaskSet it mask_id r =
     (if OutOfBounds it then Inl Assertion else Mask_IsSet r (CurrentElement it) mask_id)"

definition BufferIterator_IsMaskUnset :: "iterator \<Rightarrow> 32 word \<Rightarrow> ring \<Rightarrow> bool result" where
  "BufferIterator_IsMaskUnset it mask_id r =
     (if OutOfBounds it then Inl Assertion else Mask_IsUnset r (CurrentElement it) mask_id)"

end
