(* ===== verification/Event_Buffer_Correct.thy ===== *)
theory Event_Buffer_Correct
  imports Event_Buffer
begin

text \<open>
  Correctness of the event buffer: the invariant of the ring and the events it holds in their
  order (\<open>contents\<close>), what a flush writes, what each full-buffer policy keeps and loses, and what
  the iterators visit.
\<close>

named_theorems ring_simps \<open>reading the fields of an updated ring\<close>

section \<open>The ring and its contents\<close>

definition fill :: "ring \<Rightarrow> nat" where
  "fill r = nat (FillCount r)"

definition slot :: "ring \<Rightarrow> nat \<Rightarrow> nat" where
  "slot r k = (HeadEvt r + k) mod MaxEvents r"

definition ring_inv :: "ring \<Rightarrow> bool" where
  "ring_inv r \<longleftrightarrow> 0 < MaxEvents r \<and> length (cells r) = MaxEvents r \<and> length (Masks r) = MaxEvents r
     \<and> HeadEvt r < MaxEvents r \<and> 0 \<le> FillCount r \<and> FillCount r \<le> int (MaxEvents r)
     \<and> CurEvt r = slot r (fill r) \<and> (\<forall>k < fill r. cells r ! slot r k \<noteq> None)"

definition event_at :: "ring \<Rightarrow> nat \<Rightarrow> event_t" where
  "event_at r i = the (cells r ! i)"

definition contents :: "ring \<Rightarrow> event_t list" where
  "contents r = map (\<lambda>k. event_at r (slot r k)) [0..<fill r]"

lemma ring_invD:
  assumes "ring_inv r"
  shows "0 < MaxEvents r" "length (cells r) = MaxEvents r" "length (Masks r) = MaxEvents r"
    "HeadEvt r < MaxEvents r" "0 \<le> FillCount r" "FillCount r \<le> int (MaxEvents r)"
    "CurEvt r = slot r (fill r)" "\<And>k. k < fill r \<Longrightarrow> cells r ! slot r k \<noteq> None"
    "FillCount r = int (fill r)" "fill r \<le> MaxEvents r" "CurEvt r < MaxEvents r"
  using assms by (auto simp: ring_inv_def fill_def slot_def)

lemma slot_less [simp]: "0 < MaxEvents r \<Longrightarrow> slot r k < MaxEvents r"
  by (simp add: slot_def)

lemma slot_0: "HeadEvt r < MaxEvents r \<Longrightarrow> slot r 0 = HeadEvt r"
  by (simp add: slot_def)

lemma slot_inj:
  assumes "slot r j = slot r k" and "j \<le> k" and "k - j < MaxEvents r"
  shows "j = k"
proof -
  have "(HeadEvt r + k) mod MaxEvents r = (HeadEvt r + j) mod MaxEvents r"
    using assms(1) by (simp add: slot_def)
  then have "MaxEvents r dvd (HeadEvt r + k) - (HeadEvt r + j)"
    using assms(2) by (simp add: mod_eq_dvd_iff_nat)
  then have "MaxEvents r dvd k - j" by simp
  then have "k - j = 0" using assms(3) by (meson dvd_imp_le leD not_gr_zero)
  then show ?thesis using assms(2) by simp
qed

lemma length_contents [simp]: "length (contents r) = fill r"
  by (simp add: contents_def)

lemma nth_contents: "k < fill r \<Longrightarrow> contents r ! k = event_at r (slot r k)"
  by (simp add: contents_def)

lemma cell_slot: "ring_inv r \<Longrightarrow> k < fill r \<Longrightarrow> cell (cells r) (slot r k) = Inr (event_at r (slot r k))"
  by (auto simp: result_simps event_at_def ring_invD)

lemma GetNext_mod: "i < MaxEvents r \<Longrightarrow> Buffer_GetNext r i = (i + 1) mod MaxEvents r"
  by (auto simp: Buffer_GetNext_def)

lemma GetNext_slot: "0 < MaxEvents r \<Longrightarrow> Buffer_GetNext r (slot r k) = slot r (Suc k)"
  by (simp add: GetNext_mod slot_def mod_simps)

lemma circular_step_forward:
  assumes "h < m" and "0 \<le> n" and "n \<le> int m"
  shows "circular_step h n m = int ((h + nat n) mod m)"
proof (cases "h + nat n < m")
  case True
  then show ?thesis using assms by (auto simp: circular_step_def Let_def)
next
  case False
  then have "(h + nat n) mod m = h + nat n - m"
    using assms by (simp add: le_mod_geq)
  then show ?thesis using assms False by (auto simp: circular_step_def Let_def)
qed

lemma circular_step_back:
  assumes "h < m"
  shows "circular_step h (-1) m = (if h = 0 then int m - 1 else int h - 1)"
  using assms by (auto simp: circular_step_def)

lemma slot_back:
  assumes "0 < MaxEvents r"
  shows "nat (circular_step (slot r (Suc k)) (-1) (MaxEvents r)) = slot r k"
proof (cases "slot r k + 1 = MaxEvents r")
  case True
  then show ?thesis using GetNext_slot [OF assms, of k] assms
    by (simp add: Buffer_GetNext_def circular_step_back)
next
  case False
  then have "slot r (Suc k) = Suc (slot r k)"
    using GetNext_slot [OF assms, of k] by (simp add: Buffer_GetNext_def)
  moreover have "Suc (slot r k) < MaxEvents r"
    using False slot_less [OF assms, of k] by linarith
  ultimately show ?thesis by (simp add: circular_step_back)
qed

lemma new_ring_inv: "0 < n \<Longrightarrow> ring_inv (new_ring n hf) \<and> contents (new_ring n hf) = []"
  by (simp add: ring_inv_def new_ring_def fill_def slot_def contents_def)

lemma full_iff: "ring_inv r \<Longrightarrow> Buffer_IsFull r \<longleftrightarrow> fill r = MaxEvents r"
  by (simp add: Buffer_IsFull_def ring_invD(9))

lemma empty_iff: "ring_inv r \<Longrightarrow> Buffer_IsEmpty r \<longleftrightarrow> fill r = 0"
  by (simp add: Buffer_IsEmpty_def ring_invD(9))

section \<open>Storing an event\<close>

definition stored :: "event_t \<Rightarrow> ring \<Rightarrow> ring" where
  "stored e r = r\<lparr>cells := (cells r)[CurEvt r := Some e], Masks := (Masks r)[CurEvt r := 0],
     CurEvt := Buffer_GetNext r (CurEvt r), FillCount := FillCount r + 1\<rparr>"

lemma put_event_stored:
  assumes "length (cells r) = MaxEvents r" "length (Masks r) = MaxEvents r" "CurEvt r < MaxEvents r"
  shows "put_event e r = Inr (stored e r)"
  using assms
  by (simp add: put_event_def stored_def cell_set_def Mask_UnsetAll_def mask_upd_def Buffer_GetNext_def)

lemma stored_simps [ring_simps]:
  "MaxEvents (stored e r) = MaxEvents r" "HeadEvt (stored e r) = HeadEvt r"
  "fd_open (stored e r) = fd_open r" "lock_held (stored e r) = lock_held r"
  "slot (stored e r) k = slot r k" "CurEvt (stored e r) = Buffer_GetNext r (CurEvt r)"
  "0 \<le> FillCount r \<Longrightarrow> fill (stored e r) = Suc (fill r)"
  by (simp_all add: stored_def slot_def fill_def)

lemma slot_not_tail:
  assumes "ring_inv r" and "fill r < MaxEvents r" and "k < fill r"
  shows "slot r k \<noteq> CurEvt r"
proof
  assume "slot r k = CurEvt r"
  then have "slot r k = slot r (fill r)" using ring_invD(7) [OF assms(1)] by simp
  then have "k = fill r" by (rule slot_inj) (use assms(2,3) in linarith)+
  then show False using assms(3) by simp
qed

lemma stored_inv:
  assumes inv: "ring_inv r" and room: "fill r < MaxEvents r"
  shows "ring_inv (stored e r)" and "contents (stored e r) = contents r @ [e]"
proof -
  note d = ring_invD [OF inv]
  have other: "slot r k \<noteq> CurEvt r" if "k < fill r" for k
    using slot_not_tail [OF inv room that] .
  have cells: "cells (stored e r) ! slot r k =
      (if k = fill r then Some e else cells r ! slot r k)" if "k \<le> fill r" for k
    using that other [of k] d by (auto simp: stored_def)
  show "ring_inv (stored e r)"
    unfolding ring_inv_def
  proof (intro conjI allI impI)
    show "CurEvt (stored e r) = slot (stored e r) (fill (stored e r))"
      using d(1,5,7) by (simp add: ring_simps GetNext_slot)
    show "cells (stored e r) ! slot (stored e r) k \<noteq> None" if "k < fill (stored e r)" for k
      using that cells [of k] d(5,8) by (auto simp: ring_simps less_Suc_eq_le le_less)
    show "FillCount (stored e r) \<le> int (MaxEvents (stored e r))"
      using room d(9) by (simp add: stored_def)
  qed (use d(1-5) in \<open>simp_all add: stored_def\<close>)
  show "contents (stored e r) = contents r @ [e]"
    using d(5) cells by (simp add: contents_def ring_simps event_at_def)
qed

lemma stored_mask:
  assumes inv: "ring_inv r" and room: "fill r < MaxEvents r" and k: "k \<le> fill r"
  shows "Masks (stored e r) ! slot r k = (if k = fill r then 0 else Masks r ! slot r k)"
proof -
  note d = ring_invD [OF inv]
  have "slot r k \<noteq> CurEvt r" if "k < fill r"
    using slot_not_tail [OF inv room that] .
  then show ?thesis using k d by (auto simp: stored_def)
qed

section \<open>Blocks and what a flush writes\<close>

text \<open>The blocks listed so far, and the cells they cover in the order they are written.\<close>

definition db_rep :: "data_blocks \<Rightarrow> nat \<Rightarrow> (nat \<times> int) list \<Rightarrow> bool" where
  "db_rep db n bs \<longleftrightarrow> FirstAddr db = 0 \<and> LastAddr db = n \<and> NumBlocks db = length bs \<and>
     MaxBlocks db = length (BlocksList db) \<and> length bs < MaxBlocks db \<and>
     (\<forall>i < length bs. BlocksList db ! i = Some (bs ! i))"

definition covered :: "(nat \<times> int) list \<Rightarrow> nat list" where
  "covered bs = concat (map (\<lambda>b. [fst b..<fst b + nat (snd b)]) bs)"

lemma covered_simps [simp]:
  "covered [] = []" "covered (bs @ cs) = covered bs @ covered cs"
  "covered ((a, n) # bs) = [a..<a + nat n] @ covered bs"
  by (simp_all add: covered_def)

lemma new_DataBlocks_rep: "db_rep (new_DataBlocks r) (MaxEvents r) []"
  by (simp add: db_rep_def new_DataBlocks_def BLOCKS_CHUNK_def)

lemma AddSorted_rep:
  assumes "db_rep db n bs"
  shows "\<exists>db1. DataBlocks_AddSorted a b db = Inr db1 \<and> db_rep db1 n (bs @ [(a, int b - int a)])"
  using assms
  by (auto simp: DataBlocks_AddSorted_def Let_def db_rep_def cell_set_def BLOCKS_CHUNK_def nth_append
      nth_list_update less_Suc_eq)

lemma mod_once: "m \<le> i \<Longrightarrow> i < 2 * m \<Longrightarrow> i mod m = i - (m :: nat)"
  by (simp add: le_mod_geq)

lemma mod_run:
  assumes a: "a < m" and n: "n \<le> m" "m \<le> a + n"
  shows "map (\<lambda>i. (a + i) mod m) [0..<n] = [a..<m] @ [0..<a + n - m]"
proof (rule nth_equalityI)
  fix i
  assume "i < length (map (\<lambda>i. (a + i) mod m) [0..<n])"
  then have i: "i < n" by simp
  show "map (\<lambda>i. (a + i) mod m) [0..<n] ! i = ([a..<m] @ [0..<a + n - m]) ! i"
  proof (cases "a + i < m")
    case True
    then have "i < m - a" by linarith
    then show ?thesis using i True by (simp add: nth_append)
  next
    case False
    then have "(a + i) mod m = a + i - m" using i a n by (intro mod_once) linarith+
    moreover have "\<not> i < m - a" and "i - (m - a) = a + i - m" and "a + i - m < a + n - m"
      using False i a by linarith+
    ultimately show ?thesis using i by (simp add: nth_append)
  qed
qed (use a n in simp)

text \<open>Consecutive slots are one run of cells, or two when they go round the end.\<close>

lemma slots_run:
  assumes r: "0 < MaxEvents r" and jk: "j < k" "k - j \<le> MaxEvents r"
  shows "map (slot r) [j..<k] =
    (if slot r j < slot r k then [slot r j..<slot r k]
     else [slot r j..<MaxEvents r] @ [0..<slot r k])"
proof -
  let ?m = "MaxEvents r" and ?a = "slot r j" and ?n = "k - j"
  have a: "?a < ?m" using r by simp
  have step: "slot r (j + i) = (?a + i) mod ?m" for i
    by (simp add: slot_def mod_simps add.assoc)
  have k: "slot r k = (?a + ?n) mod ?m" using step [of ?n] jk by simp
  have map: "map (slot r) [j..<k] = map (\<lambda>i. (?a + i) mod ?m) [0..<?n]"
    using jk step by (intro nth_equalityI) auto
  show ?thesis
  proof (cases "?a + ?n < ?m")
    case True
    then have "map (\<lambda>i. (?a + i) mod ?m) [0..<?n] = [?a..<?a + ?n]"
      by (intro nth_equalityI) auto
    then show ?thesis using True k jk map by simp
  next
    case False
    then have e: "(?a + ?n) mod ?m = ?a + ?n - ?m"
      using a jk by (intro mod_once) linarith+
    have "map (\<lambda>i. (?a + i) mod ?m) [0..<?n] = [?a..<?m] @ [0..<?a + ?n - ?m]"
      using False a jk by (intro mod_run) linarith+
    moreover have "\<not> ?a < ?a + ?n - ?m" using a jk by linarith
    ultimately show ?thesis using k map e by simp
  qed
qed

lemma DataBlocks_Add_rep:
  assumes rep: "db_rep db (MaxEvents r) bs" and "0 < MaxEvents r" "j < k" "k - j \<le> MaxEvents r"
  shows "\<exists>db1 cs. DataBlocks_Add (slot r j) (slot r k) db = Inr db1 \<and>
    db_rep db1 (MaxEvents r) cs \<and> covered cs = covered bs @ map (slot r) [j..<k]"
proof (cases "slot r j < slot r k")
  case True
  from AddSorted_rep [OF rep, of "slot r j" "slot r k"] obtain d1 where
    "DataBlocks_AddSorted (slot r j) (slot r k) db = Inr d1"
    "db_rep d1 (MaxEvents r) (bs @ [(slot r j, int (slot r k) - int (slot r j))])"
    by auto
  moreover have "covered (bs @ [(slot r j, int (slot r k) - int (slot r j))]) =
      covered bs @ map (slot r) [j..<k]"
    using True slots_run [OF assms(2-4)] by (simp add: nat_diff_distrib)
  ultimately show ?thesis using True by (auto simp: DataBlocks_Add_def)
next
  case False
  from AddSorted_rep [OF rep, of "slot r j" "LastAddr db"] rep obtain d1 where
    d1: "DataBlocks_AddSorted (slot r j) (LastAddr db) db = Inr d1"
      "db_rep d1 (MaxEvents r) (bs @ [(slot r j, int (MaxEvents r) - int (slot r j))])"
    by (auto simp: db_rep_def)
  from AddSorted_rep [OF d1(2), of "FirstAddr db" "slot r k"] rep obtain d2 where
    d2: "DataBlocks_AddSorted (FirstAddr db) (slot r k) d1 = Inr d2"
      "db_rep d2 (MaxEvents r)
        ((bs @ [(slot r j, int (MaxEvents r) - int (slot r j))]) @ [(0, int (slot r k))])"
    by (auto simp: db_rep_def)
  have "slot r j \<le> MaxEvents r" using assms(2) by (simp add: less_imp_le)
  then have "slot r j + nat (int (MaxEvents r) - int (slot r j)) = MaxEvents r" by simp
  then have "covered ((bs @ [(slot r j, int (MaxEvents r) - int (slot r j))]) @ [(0, int (slot r k))]) =
      covered bs @ map (slot r) [j..<k]"
    using False slots_run [OF assms(2-4)] by simp
  then show ?thesis using d1(1) d2 False by (auto simp: DataBlocks_Add_def)
qed

text \<open>
  The events of a file, and a file that holds whole events and on which every write is complete.
\<close>

definition file_events :: "event_file \<Rightarrow> event_t list" where
  "file_events f = map fst (filter (\<lambda>b. snd b = 0) (file_data f))"

definition steady :: "event_file \<Rightarrow> bool" where
  "steady f \<longleftrightarrow> answers f = [] \<and> file_data f = event_data (file_events f)"

definition appended :: "event_file \<Rightarrow> event_t list \<Rightarrow> event_file" where
  "appended f es = f\<lparr>file_data := file_data f @ event_data es\<rparr>"

lemma event_data_simps [simp]:
  "event_data [] = []" "event_data (e # es) = map (Pair e) [0..<EVT_SIZE] @ event_data es"
  "event_data (es @ fs) = event_data es @ event_data fs"
  by (simp_all add: event_data_def)

lemma filter_event_data: "map fst (filter (\<lambda>b. snd b = 0) (event_data es)) = es"
proof -
  have "filter (\<lambda>k. k = 0) [0..<EVT_SIZE] = [0]" by (simp add: EVT_SIZE_def upt_conv_Cons)
  then show ?thesis by (induction es) (simp_all add: filter_map comp_def)
qed

lemma appended_simps [simp]:
  "appended f [] = f" "appended (appended f es) fs = appended f (es @ fs)"
  "file_events (appended f es) = file_events f @ es" "steady f \<Longrightarrow> steady (appended f es)"
  by (simp_all add: appended_def file_events_def steady_def filter_event_data)

lemma segment_data:
  "map (\<lambda>x. (g (x div EVT_SIZE), x mod EVT_SIZE)) [a * EVT_SIZE..<a * EVT_SIZE + n * EVT_SIZE] = event_data (map g [a..<a + n])"
proof (induction n)
  case (Suc n)
  have "[a * EVT_SIZE..<a * EVT_SIZE + Suc n * EVT_SIZE] = [a * EVT_SIZE..<a * EVT_SIZE + n * EVT_SIZE] @
      map (\<lambda>k. k + (a + n) * EVT_SIZE) [0..<EVT_SIZE]"
    using upt_add_eq_append [of "a * EVT_SIZE" "a * EVT_SIZE + n * EVT_SIZE" EVT_SIZE]
    by (simp add: map_add_upt algebra_simps)
  moreover have "0 < EVT_SIZE" by (simp add: EVT_SIZE_def)
  ultimately show ?case using Suc by simp
qed simp

lemma ring_bytes_events:
  assumes "\<And>i. a \<le> i \<Longrightarrow> i < a + n \<Longrightarrow> cell (cells r) i = Inr (event_at r i)"
  shows "ring_bytes r (a * EVT_SIZE) (n * EVT_SIZE) = Inr (event_data (map (event_at r) [a..<a + n]))"
proof -
  have "ring_byte r x = Inr (event_at r (x div EVT_SIZE), x mod EVT_SIZE)"
    if "x \<in> set [a * EVT_SIZE..<a * EVT_SIZE + n * EVT_SIZE]" for x
  proof -
    have "0 < EVT_SIZE" by (simp add: EVT_SIZE_def)
    moreover have "a * EVT_SIZE \<le> x" "x < (a + n) * EVT_SIZE" using that by (simp_all add: algebra_simps)
    ultimately have "a \<le> x div EVT_SIZE" "x div EVT_SIZE < a + n"
      by (simp_all add: less_eq_div_iff_mult_less_eq div_less_iff_less_mult)
    then show ?thesis using assms by (simp add: ring_byte_def)
  qed
  then have "ring_bytes r (a * EVT_SIZE) (n * EVT_SIZE) =
      Inr (map (\<lambda>x. (event_at r (x div EVT_SIZE), x mod EVT_SIZE)) [a * EVT_SIZE..<a * EVT_SIZE + n * EVT_SIZE])"
    unfolding ring_bytes_def by (rule rcollect_Inr)
  then show ?thesis by (simp only: segment_data)
qed

lemma write_block_events:
  assumes "\<And>i. a \<le> i \<Longrightarrow> i < a + n \<Longrightarrow> cell (cells r) i = Inr (event_at r i)"
  shows "write_block [] r (a * EVT_SIZE) (n * EVT_SIZE) 0 out =
    Inr ([], out @ event_data (map (event_at r) [a..<a + n]), int (n * EVT_SIZE))"
  using ring_bytes_events [OF assms] by (cases "n = 0") (auto simp: EVT_SIZE_def)

lemma writev_covered:
  assumes "\<And>i. i \<in> set (covered bs) \<Longrightarrow> cell (cells r) i = Inr (event_at r i)" and "0 \<le> t"
  shows "\<exists>n \<ge> 0. writev_wrapper [] r bs t out = Inr ([], out @ event_data (map (event_at r) (covered bs)), n)"
  using assms
proof (induction bs arbitrary: t out)
  case (Cons b bs)
  obtain base len where b: "b = (base, len)" by (cases b)
  have c: "covered (b # bs) = [base..<base + nat len] @ covered bs" by (simp add: covered_def b)
  have "write_block [] r (base * EVT_SIZE) (nat len * EVT_SIZE) 0 out =
      Inr ([], out @ event_data (map (event_at r) [base..<base + nat len]), int (nat len * EVT_SIZE))"
    using Cons.prems(1) c by (intro write_block_events) simp
  moreover from Cons.IH [of "t + int (nat len * EVT_SIZE)" "out @ event_data (map (event_at r) [base..<base + nat len])"]
  obtain n where "0 \<le> n" "writev_wrapper [] r bs (t + int (nat len * EVT_SIZE)) (out @ event_data (map (event_at r) [base..<base + nat len])) =
      Inr ([], (out @ event_data (map (event_at r) [base..<base + nat len])) @ event_data (map (event_at r) (covered bs)), n)"
    using Cons.prems c by auto
  ultimately show ?case using c b by (auto simp del: of_nat_mult)
qed simp

lemma dump_blocks_covered:
  assumes "answers f = []" and "\<And>i. i \<in> set (covered bs) \<Longrightarrow> cell (cells r) i = Inr (event_at r i)"
  shows "dump_blocks r bs f = Inr (appended f (map (event_at r) (covered bs)))"
  using assms
proof (induction r bs f rule: dump_blocks.induct)
  case (1 r bs f)
  have split: "covered bs = covered (take IOV_MAX bs) @ covered (drop IOV_MAX bs)"
    by (metis append_take_drop_id covered_simps(2))
  show ?case
  proof (cases "bs = []")
    case True
    then show ?thesis by (simp add: dump_blocks.simps)
  next
    case False
    let ?out = "file_data f @ event_data (map (event_at r) (covered (take IOV_MAX bs)))"
    from writev_covered [of "take IOV_MAX bs" r 0 "file_data f"] "1.prems"(2) split obtain n where
      n: "0 \<le> n" "writev_wrapper [] r (take IOV_MAX bs) 0 (file_data f) = Inr ([], ?out, n)" by auto
    have "dump_blocks r (drop IOV_MAX bs) \<lparr>file_data = ?out, answers = []\<rparr> =
        Inr (appended \<lparr>file_data = ?out, answers = []\<rparr> (map (event_at r) (covered (drop IOV_MAX bs))))"
      using "1.prems" split n False by (intro "1.IH" [OF False, of "([], ?out, n)" "[]" "(?out, n)" ?out n]) auto
    then show ?thesis using False n split "1.prems"(1)
      by (subst dump_blocks.simps) (simp add: appended_def)
  qed
qed

lemma dump_buffer_covered:
  assumes rep: "db_rep db n bs" and "answers f = []"
    and live: "\<And>i. i \<in> set (covered bs) \<Longrightarrow> cell (cells r) i = Inr (event_at r i)"
  shows "dump_buffer r db f = Inr (appended f (map (event_at r) (covered bs)))"
proof -
  have "rcollect (cell (BlocksList db)) [0..<NumBlocks db] = Inr (map ((!) bs) [0..<length bs])"
    using rep by (subst rcollect_Inr [of _ _ "(!) bs"]) (auto simp: db_rep_def cell_def)
  then show ?thesis using dump_blocks_covered [OF assms(2) live] by (simp add: dump_buffer_def map_nth)
qed

definition kept :: "(32 word \<Rightarrow> bool) \<Rightarrow> ring \<Rightarrow> nat \<Rightarrow> bool" where
  "kept cached r i \<longleftrightarrow>
     \<not> (Masks r ! i AND MASK_NOFLUSH = MASK_NOFLUSH \<and> \<not> cached (ev_event (event_at r i)))"

definition flushed :: "bool \<Rightarrow> (32 word \<Rightarrow> bool) \<Rightarrow> ring \<Rightarrow> event_t list" where
  "flushed online cached r =
     map (event_at r) (filter (\<lambda>i. online \<longrightarrow> kept cached r i) (map (slot r) [0..<fill r]))"

lemma flushed_offline: "flushed False cached r = contents r"
  by (simp add: flushed_def contents_def)

text \<open>
  The loop of \<open>Filter_Buffer\<close> at slot \<open>k\<close>, with the kept events from slot \<open>j\<close> on pending:
  what is listed and pending is what the masks keep of the slots before \<open>k\<close>.
\<close>

definition filter_inv ::
  "(32 word \<Rightarrow> bool) \<Rightarrow> ring \<Rightarrow> nat \<Rightarrow> nat \<Rightarrow> nat option \<Rightarrow> data_blocks \<Rightarrow> bool" where
  "filter_inv cached r j k ini db \<longleftrightarrow> j \<le> k \<and> ini = (if j < k then Some (slot r j) else None) \<and>
     (\<exists>bs. db_rep db (MaxEvents r) bs \<and>
       covered bs @ map (slot r) [j..<k] = filter (kept cached r) (map (slot r) [0..<k]))"

lemma filter_inv_keep:
  assumes "filter_inv cached r j k ini db" and "kept cached r (slot r k)"
  shows "filter_inv cached r j (Suc k) (Some (case ini of None \<Rightarrow> slot r k | Some a \<Rightarrow> a)) db"
  using assms by (auto simp: filter_inv_def less_Suc_eq_le split: if_splits)

lemma filter_inv_close:
  assumes "filter_inv cached r j k ini db" and "0 < MaxEvents r" "k \<le> MaxEvents r"
  shows "\<exists>db1 cs. (case ini of None \<Rightarrow> Inr db | Some a \<Rightarrow> DataBlocks_Add a (slot r k) db) = Inr db1 \<and>
    db_rep db1 (MaxEvents r) cs \<and> covered cs = filter (kept cached r) (map (slot r) [0..<k])"
proof (cases "j < k")
  case True
  then show ?thesis using assms DataBlocks_Add_rep [of db r _ j k] by (fastforce simp: filter_inv_def)
next
  case False
  then show ?thesis using assms(1) by (auto simp: filter_inv_def)
qed

lemma filter_inv_skip:
  assumes "filter_inv cached r j k ini db" and "\<not> kept cached r (slot r k)"
    and "0 < MaxEvents r" "k \<le> MaxEvents r"
  shows "\<exists>db1. (case ini of None \<Rightarrow> Inr (None, db)
      | Some a \<Rightarrow> rmap (\<lambda>db1. (None, db1)) (DataBlocks_Add a (slot r k) db)) = Inr (None :: nat option, db1) \<and>
    filter_inv cached r (Suc k) (Suc k) None db1"
proof -
  from filter_inv_close [OF assms(1,3,4)] obtain db1 cs where
    "(case ini of None \<Rightarrow> Inr db | Some a \<Rightarrow> DataBlocks_Add a (slot r k) db) = Inr db1"
    "db_rep db1 (MaxEvents r) cs" "covered cs = filter (kept cached r) (map (slot r) [0..<k])"
    by auto
  then show ?thesis using assms(2) by (auto simp: filter_inv_def split: option.splits)
qed

text \<open>One turn of the loop, and what follows it.\<close>

definition filter_next ::
  "nat \<Rightarrow> (32 word \<Rightarrow> bool) \<Rightarrow> ring \<Rightarrow> nat \<Rightarrow> nat option \<Rightarrow> data_blocks \<Rightarrow> data_blocks result" where
  "filter_next fuel cached r k ini db = (if slot r (Suc k) \<noteq> slot r (fill r)
      then filter_loop fuel cached r (slot r (fill r)) (slot r (Suc k)) ini db
      else case ini of None \<Rightarrow> Inr db | Some a \<Rightarrow> DataBlocks_Add a (slot r (Suc k)) db)"

lemma filter_loop_step:
  assumes inv: "ring_inv r" and k: "k < fill r"
  shows "filter_loop (Suc fuel) cached r (slot r (fill r)) (slot r k) ini db =
    (if kept cached r (slot r k)
     then filter_next fuel cached r k (Some (case ini of None \<Rightarrow> slot r k | Some a \<Rightarrow> a)) db
     else rbind (case ini of None \<Rightarrow> Inr (None, db)
        | Some a \<Rightarrow> rmap (\<lambda>db1. (None, db1)) (DataBlocks_Add a (slot r k) db))
       (\<lambda>(ini1, db1). filter_next fuel cached r k ini1 db1))"
proof -
  note d = ring_invD [OF inv]
  have "Mask_IsSet r (slot r k) MASK_NOFLUSH = Inr (Masks r ! slot r k AND MASK_NOFLUSH = MASK_NOFLUSH)"
    "cell (cells r) (slot r k) = Inr (event_at r (slot r k))"
    using d(1,3) k by (simp_all add: Mask_IsSet_def Mask_Get_def cell_slot [OF inv])
  moreover have "Some (case ini of None \<Rightarrow> slot r k | Some a \<Rightarrow> a) =
      (case ini of None \<Rightarrow> Some (slot r k) | Some a \<Rightarrow> Some a)"
    by (simp split: option.split)
  ultimately show ?thesis
    by (cases "Masks r ! slot r k AND MASK_NOFLUSH = MASK_NOFLUSH")
      (simp_all add: kept_def GetNext_slot [OF d(1)] Let_def filter_next_def)
qed

lemma filter_loop_blocks:
  assumes inv: "ring_inv r" and "k < fill r" and "fill r - k \<le> fuel"
    and "filter_inv cached r j k ini db"
  shows "\<exists>db1 cs. filter_loop fuel cached r (slot r (fill r)) (slot r k) ini db = Inr db1 \<and>
    db_rep db1 (MaxEvents r) cs \<and> covered cs = filter (kept cached r) (map (slot r) [0..<fill r])"
  using assms(2-)
proof (induction fuel arbitrary: j k ini db)
  case 0
  then show ?case by simp
next
  case (Suc fuel)
  note d = ring_invD [OF inv]
  have k: "k \<le> MaxEvents r" "Suc k \<le> MaxEvents r" using Suc.prems(1) d(10) by simp_all
  let ?go = "filter_next fuel cached r k"
  note step = filter_loop_step [OF inv Suc.prems(1)]
  have go: "\<exists>db2 cs. ?go ini1 db1 = Inr db2 \<and> db_rep db2 (MaxEvents r) cs \<and>
      covered cs = filter (kept cached r) (map (slot r) [0..<fill r])"
    if "filter_inv cached r j1 (Suc k) ini1 db1" for j1 ini1 db1
  proof (cases "Suc k = fill r")
    case True
    then show ?thesis using filter_inv_close [OF that d(1) k(2)] by (simp add: filter_next_def)
  next
    case False
    then have "slot r (Suc k) \<noteq> slot r (fill r)"
      using slot_inj [of r "Suc k" "fill r"] Suc.prems(1) d(10) by fastforce
    then show ?thesis using Suc.IH [OF _ _ that] False Suc.prems(1,2) by (simp add: filter_next_def)
  qed
  show ?case
  proof (cases "kept cached r (slot r k)")
    case True
    from go [OF filter_inv_keep [OF Suc.prems(3) True]] show ?thesis
      using True by (simp add: step del: filter_loop.simps)
  next
    case False
    from filter_inv_skip [OF Suc.prems(3) False d(1) k(1)] obtain db1 where
      "(case ini of None \<Rightarrow> Inr (None, db)
        | Some a \<Rightarrow> rmap (\<lambda>db1. (None, db1)) (DataBlocks_Add a (slot r k) db)) = Inr (None :: nat option, db1)"
      "filter_inv cached r (Suc k) (Suc k) None db1" by auto
    then show ?thesis using go [of "Suc k" None db1] False
      by (simp add: step del: filter_loop.simps)
  qed
qed

text \<open>The blocks a flush hands to the writer.\<close>

lemma flush_blocks:
  assumes inv: "ring_inv r" and "fill r \<noteq> 0"
  shows "nat (circular_step (HeadEvt r) (FillCount r) (MaxEvents r)) = slot r (fill r)"
    and "\<exists>db1 cs. (if online then Filter_Buffer cached r (HeadEvt r) (slot r (fill r)) (new_DataBlocks r)
        else DataBlocks_Add (HeadEvt r) (slot r (fill r)) (new_DataBlocks r)) = Inr db1 \<and>
      db_rep db1 (MaxEvents r) cs \<and>
      covered cs = filter (\<lambda>i. online \<longrightarrow> kept cached r i) (map (slot r) [0..<fill r])"
proof -
  note d = ring_invD [OF inv]
  show "nat (circular_step (HeadEvt r) (FillCount r) (MaxEvents r)) = slot r (fill r)"
    using d(4-6) by (simp add: circular_step_forward slot_def fill_def)
  have head: "HeadEvt r = slot r 0" using d(4) by (simp add: slot_0)
  note new = new_DataBlocks_rep [of r]
  show "\<exists>db1 cs. (if online then Filter_Buffer cached r (HeadEvt r) (slot r (fill r)) (new_DataBlocks r)
        else DataBlocks_Add (HeadEvt r) (slot r (fill r)) (new_DataBlocks r)) = Inr db1 \<and>
      db_rep db1 (MaxEvents r) cs \<and>
      covered cs = filter (\<lambda>i. online \<longrightarrow> kept cached r i) (map (slot r) [0..<fill r])"
  proof (cases online)
    case True
    have "filter_inv cached r 0 0 None (new_DataBlocks r)"
      using new by (auto simp: filter_inv_def intro: exI [of _ "[]"])
    from filter_loop_blocks [OF inv _ _ this, of "MaxEvents r"] show ?thesis
      using True assms(2) d(10) head by (simp add: Filter_Buffer_def)
  next
    case False
    then show ?thesis using DataBlocks_Add_rep [OF new, of 0 "fill r"] assms(2) d head by auto
  qed
qed

lemma flush_ring_writes:
  assumes inv: "ring_inv r" and "fill r \<noteq> 0" and "fd_open r" and f: "steady f"
  shows "flush_ring online cached r f =
    Inr (r\<lparr>FillCount := 0, HeadEvt := CurEvt r\<rparr>, appended f (flushed online cached r), 1)"
proof -
  note d = ring_invD [OF inv] and b = flush_blocks [OF assms(1,2)]
  from b(2) [of online cached] obtain db1 cs where db1: "(if online then Filter_Buffer cached r (HeadEvt r) (slot r (fill r)) (new_DataBlocks r)
        else DataBlocks_Add (HeadEvt r) (slot r (fill r)) (new_DataBlocks r)) = Inr db1"
    and cs: "db_rep db1 (MaxEvents r) cs"
      "covered cs = filter (\<lambda>i. online \<longrightarrow> kept cached r i) (map (slot r) [0..<fill r])"
    by auto
  have "dump_buffer r db1 f = Inr (appended f (flushed online cached r))"
    unfolding flushed_def cs(2) [symmetric] using f
    by (intro dump_buffer_covered [OF cs(1)]) (auto simp: cs(2) cell_slot [OF inv] steady_def)
  then show ?thesis using assms db1 b(1) d(7)
    by (cases online) (simp_all add: flush_ring_def Buffer_IsClosed_def empty_iff Let_def)
qed

text \<open>A write that fails ends the program, if there is anything to write.\<close>

lemma writev_fails:
  "writev_wrapper (-1 # ws) r bs 0 out = (if covered bs = [] then Inr (-1 # ws, out, 0) else Inr (ws, out, -1))"
  by (induction bs) (auto simp: EVT_SIZE_def split: if_splits)

lemma dump_blocks_fails:
  assumes "answers f = -1 # ws" and "covered bs \<noteq> []"
  shows "dump_blocks r bs f = Inl (Exit 1)"
  using assms
proof (induction r bs f rule: dump_blocks.induct)
  case (1 r bs f)
  have bs: "bs \<noteq> []" using "1.prems"(2) by auto
  have split: "covered bs = covered (take IOV_MAX bs) @ covered (drop IOV_MAX bs)"
    by (metis append_take_drop_id covered_simps(2))
  show ?case
  proof (cases "covered (take IOV_MAX bs) = []")
    case True
    then have "dump_blocks r (drop IOV_MAX bs) \<lparr>file_data = file_data f, answers = -1 # ws\<rparr> = Inl (Exit 1)"
      using "1.prems" split by (intro "1.IH" [OF bs, of "(-1 # ws, file_data f, 0)" "-1 # ws" "(file_data f, 0)" "file_data f" 0]) (auto simp: writev_fails)
    then show ?thesis using True bs "1.prems"(1) by (subst dump_blocks.simps) (simp add: writev_fails)
  next
    case False
    then show ?thesis using bs "1.prems"(1) by (subst dump_blocks.simps) (simp add: writev_fails)
  qed
qed

lemma flush_ring_fails:
  assumes inv: "ring_inv r" and "fd_open r" and "flushed online cached r \<noteq> []" and "answers f = -1 # ws"
  shows "flush_ring online cached r f = Inl (Exit 1)"
proof -
  have ne: "fill r \<noteq> 0"
  proof
    assume "fill r = 0"
    with assms(3) show False by (simp add: flushed_def)
  qed
  note b = flush_blocks [OF inv ne]
  from b(2) [of online cached] obtain db1 cs where db1: "(if online then Filter_Buffer cached r (HeadEvt r) (slot r (fill r)) (new_DataBlocks r)
        else DataBlocks_Add (HeadEvt r) (slot r (fill r)) (new_DataBlocks r)) = Inr db1"
    and cs: "db_rep db1 (MaxEvents r) cs"
      "covered cs = filter (\<lambda>i. online \<longrightarrow> kept cached r i) (map (slot r) [0..<fill r])"
    by auto
  have "rcollect (cell (BlocksList db1)) [0..<NumBlocks db1] = Inr (map ((!) cs) [0..<length cs])"
    using cs(1) by (subst rcollect_Inr [of _ _ "(!) cs"]) (auto simp: db_rep_def cell_def)
  moreover have "covered cs \<noteq> []" using assms(3) cs(2) by (simp add: flushed_def)
  ultimately have "dump_buffer r db1 f = Inl (Exit 1)"
    using dump_blocks_fails [of f ws cs r] assms(4) by (simp add: dump_buffer_def map_nth)
  then show ?thesis using assms(2) ne db1 b(1) inv
    by (cases online) (simp_all add: flush_ring_def Buffer_IsClosed_def empty_iff Let_def)
qed

section \<open>Inserting under each full-buffer policy\<close>

lemma lock_irrelevant [simp]:
  "ring_inv (r\<lparr>lock_held := l\<rparr>) = ring_inv r" "contents (r\<lparr>lock_held := l\<rparr>) = contents r"
  "flushed online cached (r\<lparr>lock_held := l\<rparr>) = flushed online cached r"
  "fill (r\<lparr>lock_held := l\<rparr>) = fill r" "slot (r\<lparr>lock_held := l\<rparr>) k = slot r k"
  "event_at (r\<lparr>lock_held := l\<rparr>) i = event_at r i" "Buffer_IsFull (r\<lparr>lock_held := l\<rparr>) = Buffer_IsFull r"
  by (simp_all add: ring_inv_def contents_def flushed_def fill_def slot_def event_at_def kept_def
      Buffer_IsFull_def cong: map_cong filter_cong)

lemma Buffer_Unlock_simps [simp]:
  "ring_inv (Buffer_Unlock online r) = ring_inv r" "contents (Buffer_Unlock online r) = contents r"
  "flushed online' cached (Buffer_Unlock online r) = flushed online' cached r"
  "fd_open (Buffer_Unlock online r) = fd_open r" "MaxEvents (Buffer_Unlock online r) = MaxEvents r"
  "fill (Buffer_Unlock online r) = fill r"
  by (simp_all add: Buffer_Unlock_def)

definition emptied :: "ring \<Rightarrow> ring" where
  "emptied r = r\<lparr>FillCount := 0, HeadEvt := CurEvt r\<rparr>"

lemma emptied_simps [simp]:
  "fill (emptied r) = 0" "contents (emptied r) = []" "flushed online cached (emptied r) = []"
  "MaxEvents (emptied r) = MaxEvents r" "fd_open (emptied r) = fd_open r"
  "lock_held (emptied r) = lock_held r"
  by (simp_all add: emptied_def fill_def contents_def flushed_def)

lemma emptied_inv: "ring_inv r \<Longrightarrow> ring_inv (emptied r)"
  using ring_invD(11) [of r] by (simp add: ring_inv_def emptied_def fill_def slot_def)

lemma flushed_stored:
  assumes inv: "ring_inv r" and room: "fill r < MaxEvents r"
  shows "flushed online cached (stored e r) = flushed online cached r @ [e]"
proof -
  note d = ring_invD [OF inv]
  have c: "contents (stored e r) = contents r @ [e]" by (rule stored_inv [OF inv room])
  have ev: "event_at (stored e r) (slot r k) = (if k = fill r then e else event_at r (slot r k))"
    if "k \<le> fill r" for k
    using arg_cong [OF c, of "\<lambda>es. es ! k"] that d(5)
    by (auto simp: nth_append nth_contents ring_simps split: if_splits)
  have "kept cached (stored e r) (slot r k) = (k = fill r \<or> kept cached r (slot r k))" if "k \<le> fill r" for k
    using stored_mask [OF inv room that] ev [OF that] that by (auto simp: kept_def MASK_NOFLUSH_def)
  then show ?thesis
    using ev d(5) by (auto simp: flushed_def ring_simps filter_map comp_def intro!: map_cong filter_cong)
qed

text \<open>What \<open>Buffer_InsertSingle\<close> does before it stores, when its callback is the flush.\<close>

lemma flush_makes_room:
  assumes inv: "ring_inv r" and "fd_open r" and f: "steady f"
  shows "\<exists>r1 f1. (if Buffer_IsFull r then flush_ring online cached r f else Inr (r, f, 1)) = Inr (r1, f1, 1) \<and>
    ring_inv r1 \<and> fill r1 < MaxEvents r1 \<and> MaxEvents r1 = MaxEvents r \<and> fd_open r1 \<and>
    lock_held r1 = lock_held r \<and> steady f1 \<and>
    file_events f1 @ flushed online cached r1 = file_events f @ flushed online cached r"
proof (cases "Buffer_IsFull r")
  case True
  then have "flush_ring online cached r f = Inr (emptied r, appended f (flushed online cached r), 1)"
    using assms flush_ring_writes [OF inv] ring_invD(1) [OF inv] by (simp add: full_iff emptied_def)
  then show ?thesis using True assms emptied_inv [OF inv] ring_invD(1) [OF inv] by simp
next
  case False
  then show ?thesis using assms ring_invD(10) [OF inv] by (simp add: full_iff)
qed

lemma put_event_law:
  assumes "ring_inv r" and "fill r < MaxEvents r"
  shows "put_event e r = Inr (stored e r)" and "ring_inv (stored e r)"
    and "contents (stored e r) = contents r @ [e]"
    and "flushed online cached (stored e r) = flushed online cached r @ [e]"
  using assms stored_inv [OF assms] flushed_stored [OF assms] ring_invD [OF assms(1)]
  by (simp_all add: put_event_stored)

definition usable :: "ring \<Rightarrow> bool" where
  "usable r \<longleftrightarrow> ring_inv r \<and> fd_open r \<and> \<not> lock_held r"

lemma Buffer_Lock_free: "\<not> lock_held r \<Longrightarrow> Buffer_Lock online r = Inr (r\<lparr>lock_held := online\<rparr>)"
  by (simp add: Buffer_Lock_def)

lemma Buffer_Unlock_held: "lock_held r = online \<Longrightarrow> \<not> lock_held (Buffer_Unlock online r)"
  by (simp add: Buffer_Unlock_def)

lemma victim_insert_law:
  assumes "usable v" and "steady f"
  shows "\<exists>v1 f1. victim_insert online e (v, f) = Inr (v1, f1) \<and> usable v1 \<and> steady f1 \<and>
    file_events f1 @ flushed online (\<lambda>_. False) v1 = file_events f @ flushed online (\<lambda>_. False) v @ [e]"
proof -
  let ?v = "v\<lparr>lock_held := online\<rparr>"
  from assms have "ring_inv ?v" "fd_open ?v" by (simp_all add: usable_def)
  from flush_makes_room [OF this assms(2), of online "\<lambda>_. False"] obtain r1 f1 where
    r1: "(if Buffer_IsFull ?v then flush_ring online (\<lambda>_. False) ?v f else Inr (?v, f, 1)) = Inr (r1, f1, 1)"
      "ring_inv r1" "fill r1 < MaxEvents r1" "fd_open r1" "lock_held r1 = online"
      "steady f1" "file_events f1 @ flushed online (\<lambda>_. False) r1 = file_events f @ flushed online (\<lambda>_. False) v"
    by auto
  have "victim_insert online e (v, f) = Inr (Buffer_Unlock online (stored e r1), f1)"
    using assms r1(1) put_event_law(1) [OF r1(2,3)]
    by (simp add: victim_insert_def usable_def Buffer_Lock_free del: lock_irrelevant)
  then show ?thesis using r1 put_event_law [OF r1(2,3)]
    by (simp add: usable_def Buffer_Unlock_held ring_simps)
qed

text \<open>
  The contract every policy meets: inserting into a buffer that is in order succeeds, leaves it in
  order, and does to what is observed of it the abstract insertion of the policy.
\<close>

locale event_store =
  fixes ok :: "buffer \<Rightarrow> bool"
    and put :: "event_t \<Rightarrow> buffer \<Rightarrow> buffer result"
    and view :: "buffer \<Rightarrow> 'v"
    and add :: "event_t \<Rightarrow> 'v \<Rightarrow> 'v"
  assumes put_law: "ok b \<Longrightarrow> \<exists>b1. put e b = Inr b1 \<and> ok b1 \<and> view b1 = add e (view b)"
begin

lemma put_all:
  assumes "ok b"
  shows "\<exists>b1. rfold put es b = Inr b1 \<and> ok b1 \<and> view b1 = fold add es (view b)"
  using assms
proof (induction es arbitrary: b)
  case (Cons e es)
  from put_law [OF Cons.prems] obtain b2 where "put e b = Inr b2" "ok b2" "view b2 = add e (view b)"
    by auto
  then show ?case using Cons.IH [of b2] by auto
qed simp

end

subsection \<open>Flush to disk\<close>

definition flush_store :: "buffer \<Rightarrow> bool" where
  "flush_store b \<longleftrightarrow> usable (main b) \<and> FlushCallback b = Some Cb_Flush \<and> steady (trace_file b)"

definition recorded :: "bool \<Rightarrow> buffer \<Rightarrow> event_t list" where
  "recorded online b = file_events (trace_file b) @ flushed online (Buffer_IsEventCached b) (main b)"

definition flushed_file :: "bool \<Rightarrow> buffer \<Rightarrow> event_file" where
  "flushed_file online b = appended (trace_file b) (flushed online (Buffer_IsEventCached b) (main b))"

lemma flushed_file_simps [simp]:
  "file_events (flushed_file online b) = recorded online b"
  "steady (trace_file b) \<Longrightarrow> steady (flushed_file online b)"
  by (simp_all add: flushed_file_def recorded_def)

lemma IsEventCached_update [simp]:
  "Buffer_IsEventCached (b\<lparr>main := r\<rparr>) = Buffer_IsEventCached b"
  "Buffer_IsEventCached (b\<lparr>trace_file := f\<rparr>) = Buffer_IsEventCached b"
  by (auto simp: Buffer_IsEventCached_def fun_eq_iff)

lemma flush_insert_law:
  assumes "flush_store b"
  shows "\<exists>b1. Buffer_InsertSingle online e b = Inr b1 \<and> flush_store b1 \<and>
    recorded online b1 = recorded online b @ [e]"
proof -
  let ?r = "(main b)\<lparr>lock_held := online\<rparr>" and ?c = "Buffer_IsEventCached b"
  from assms have "ring_inv ?r" "fd_open ?r" "steady (trace_file b)" by (simp_all add: flush_store_def usable_def)
  from flush_makes_room [OF this, of online ?c] obtain r1 f1 where
    r1: "(if Buffer_IsFull ?r then flush_ring online ?c ?r (trace_file b) else Inr (?r, trace_file b, 1)) = Inr (r1, f1, 1)"
      "ring_inv r1" "fill r1 < MaxEvents r1" "fd_open r1" "lock_held r1 = online"
      "steady f1" "file_events f1 @ flushed online ?c r1 = recorded online b"
    by (auto simp: recorded_def)
  have "(if Buffer_IsFull ?r then Buffer_ExecuteFlushCallback online (b\<lparr>main := ?r\<rparr>)
      else Inr (b\<lparr>main := ?r\<rparr>, 1)) = Inr (b\<lparr>main := r1, trace_file := f1\<rparr>, 1)"
    using r1(1) assms
    by (auto simp: Buffer_ExecuteFlushCallback_def flush_store_def Buffer_Flush_def simp del: lock_irrelevant)
  then have "Buffer_InsertSingle online e b =
      Inr (b\<lparr>main := Buffer_Unlock online (stored e r1), trace_file := f1\<rparr>)"
    using assms put_event_law(1) [OF r1(2,3)]
    by (simp add: Buffer_InsertSingle_def flush_store_def usable_def Buffer_Lock_free del: lock_irrelevant)
  then show ?thesis using r1 assms put_event_law [OF r1(2,3)]
    by (simp add: flush_store_def usable_def Buffer_Unlock_held ring_simps recorded_def)
qed

interpretation flushing: event_store flush_store "Buffer_InsertSingle online" "recorded online"
    "\<lambda>e es. es @ [e]" for online
  by unfold_locales (rule flush_insert_law)

lemma fold_snoc: "fold (\<lambda>e es. es @ [e]) xs ys = ys @ xs"
  by (induction xs arbitrary: ys) simp_all

lemma Buffer_Flush_records:
  assumes "flush_store b"
  shows "\<exists>b1 rc. Buffer_Flush online b = Inr (b1, rc) \<and> flush_store b1 \<and>
    file_events (trace_file b1) = recorded online b \<and> contents (main b1) = []"
proof (cases "fill (main b) = 0")
  case True
  then have "Buffer_IsEmpty (main b)"
    using assms by (simp add: flush_store_def usable_def empty_iff)
  then show ?thesis using assms True
    by (simp add: Buffer_Flush_def flush_ring_def recorded_def contents_def flushed_def)
next
  case False
  let ?b1 = "b\<lparr>main := emptied (main b), trace_file := flushed_file online b\<rparr>"
  have "Buffer_Flush online b = Inr (?b1, 1)"
    using assms False
    by (simp add: Buffer_Flush_def flush_ring_writes flush_store_def usable_def flushed_file_def emptied_def)
  moreover have "flush_store ?b1"
    using assms by (simp add: flush_store_def usable_def emptied_inv)
  ultimately show ?thesis by (intro exI [of _ ?b1] exI [of _ 1]) simp
qed

subsection \<open>Overwrite the oldest\<close>

definition cache_view :: "bool \<Rightarrow> buffer \<Rightarrow> event_t list" where
  "cache_view online b = file_events (trace_file b) @
     (case VictimCache b of None \<Rightarrow> [] | Some v \<Rightarrow> flushed online (\<lambda>_. False) v)"

definition cache_usable :: "buffer \<Rightarrow> bool" where
  "cache_usable b \<longleftrightarrow> (\<forall>v. VictimCache b = Some v \<longrightarrow> usable v \<and> steady (trace_file b))"

lemma cache_main_update [simp]:
  "cache_view online (b\<lparr>main := r\<rparr>) = cache_view online b"
  "cache_usable (b\<lparr>main := r\<rparr>) = cache_usable b"
  by (simp_all add: cache_view_def cache_usable_def)

lemma Buffer_CacheEvent_law:
  assumes "cache_usable b"
  shows "\<exists>b1. Buffer_CacheEvent online e b = Inr b1 \<and> main b1 = main b \<and> cache_usable b1 \<and>
    FlushCallback b1 = FlushCallback b \<and> Buffer_IsEventCached b1 = Buffer_IsEventCached b \<and>
    cache_view online b1 =
      cache_view online b @ (if Buffer_IsEventCached b (ev_event e) then [e] else [])"
proof (cases "Buffer_IsEventCached b (ev_event e)")
  case True
  then obtain v where v: "VictimCache b = Some v" "ev_event e \<in> set (CachedEvents b)"
    by (auto simp: Buffer_IsEventCached_def)
  then have "usable v" "steady (trace_file b)" using assms by (simp_all add: cache_usable_def)
  from victim_insert_law [OF this, of online e] v show ?thesis
    by (auto simp: Buffer_CacheEvent_def cache_usable_def cache_view_def Buffer_IsEventCached_def fun_eq_iff)
next
  case False
  then show ?thesis using assms by (simp add: Buffer_CacheEvent_def split: option.split)
qed

definition dropped :: "ring \<Rightarrow> ring" where
  "dropped r = r\<lparr>FillCount := FillCount r - 1, HeadEvt := Buffer_GetNext r (HeadEvt r)\<rparr>"

lemma dropped_law:
  assumes inv: "ring_inv r" and "fill r \<noteq> 0"
  shows "ring_inv (dropped r)" "contents (dropped r) = tl (contents r)" "fill (dropped r) = fill r - 1"
    "MaxEvents (dropped r) = MaxEvents r" "lock_held (dropped r) = lock_held r"
    "fill (dropped r) < MaxEvents (dropped r)"
proof -
  note d = ring_invD [OF inv]
  have head: "HeadEvt (dropped r) = slot r 1"
    using GetNext_slot [OF d(1), of 0] d(4) by (simp add: dropped_def slot_0)
  then have slot: "slot (dropped r) k = slot r (Suc k)" for k
    by (simp add: dropped_def slot_def mod_simps)
  show fill: "fill (dropped r) = fill r - 1" using d(9) by (simp add: dropped_def fill_def)
  show "MaxEvents (dropped r) = MaxEvents r" "lock_held (dropped r) = lock_held r"
    by (simp_all add: dropped_def)
  show "fill (dropped r) < MaxEvents (dropped r)"
    using fill d(1,10) assms(2) by (simp add: dropped_def)
  show "contents (dropped r) = tl (contents r)"
    using slot fill assms(2) by (intro nth_equalityI) (simp_all add: nth_contents nth_tl event_at_def dropped_def)
  show "ring_inv (dropped r)"
    unfolding ring_inv_def
  proof (intro conjI allI impI)
    show "cells (dropped r) ! slot (dropped r) k \<noteq> None" if "k < fill (dropped r)" for k
      using that fill slot d(8) [of "Suc k"] by (simp add: dropped_def)
    show "CurEvt (dropped r) = slot (dropped r) (fill (dropped r))"
      using slot fill d(7) assms(2) by (simp add: dropped_def)
    show "HeadEvt (dropped r) < MaxEvents (dropped r)" using head d(1) by (simp add: dropped_def)
  qed (use d assms(2) in \<open>auto simp: dropped_def\<close>)
qed

lemma contents_head:
  assumes "ring_inv r" and "fill r \<noteq> 0"
  shows "cell (cells r) (HeadEvt r) = Inr (hd (contents r))"
  using cell_slot [OF assms(1), of 0] assms ring_invD(4) [OF assms(1)]
  by (simp add: hd_conv_nth slot_0 nth_contents flip: length_0_conv)

lemma Buffer_DiscardOldest_law:
  assumes "ring_inv (main b)" "fill (main b) \<noteq> 0" "cache_usable b"
  shows "\<exists>b1. Buffer_DiscardOldest online b = Inr (b1, 1) \<and> main b1 = dropped (main b) \<and>
    FlushCallback b1 = FlushCallback b \<and> cache_usable b1 \<and>
    Buffer_IsEventCached b1 = Buffer_IsEventCached b \<and>
    cache_view online b1 = cache_view online b @
      filter (Buffer_IsEventCached b \<circ> ev_event) [hd (contents (main b))]"
proof -
  from Buffer_CacheEvent_law [OF assms(3), of online "hd (contents (main b))"] obtain b1 where
    b1: "Buffer_CacheEvent online (hd (contents (main b))) b = Inr b1" "main b1 = main b"
      "cache_usable b1" "FlushCallback b1 = FlushCallback b"
      "Buffer_IsEventCached b1 = Buffer_IsEventCached b" "cache_view online b1 = cache_view online b @
        (if Buffer_IsEventCached b (ev_event (hd (contents (main b)))) then [hd (contents (main b))] else [])"
    by auto
  then have "Buffer_DiscardOldest online b = Inr (b1\<lparr>main := dropped (main b)\<rparr>, 1)"
    using contents_head [OF assms(1,2)] by (simp add: Buffer_DiscardOldest_def dropped_def Let_def)
  then show ?thesis using b1 by simp
qed

definition overwrite_store :: "nat \<Rightarrow> (32 word \<Rightarrow> bool) \<Rightarrow> buffer \<Rightarrow> bool" where
  "overwrite_store cap cached b \<longleftrightarrow> ring_inv (main b) \<and> \<not> lock_held (main b) \<and>
     FlushCallback b = Some Cb_DiscardOldest \<and> MaxEvents (main b) = cap \<and>
     Buffer_IsEventCached b = cached \<and> cache_usable b"

definition overwrite_add ::
  "nat \<Rightarrow> (32 word \<Rightarrow> bool) \<Rightarrow> event_t \<Rightarrow> event_t list \<times> event_t list \<Rightarrow> event_t list \<times> event_t list" where
  "overwrite_add cap cached e = (\<lambda>(c, es). if length es = cap
     then (c @ filter (cached \<circ> ev_event) [hd es], tl es @ [e]) else (c, es @ [e]))"

lemma overwrite_insert_law:
  assumes "overwrite_store cap cached b"
  shows "\<exists>b1. Buffer_InsertSingle online e b = Inr b1 \<and> overwrite_store cap cached b1 \<and>
    (cache_view online b1, contents (main b1)) =
      overwrite_add cap cached e (cache_view online b, contents (main b))"
proof -
  let ?r = "(main b)\<lparr>lock_held := online\<rparr>" and ?b = "b\<lparr>main := (main b)\<lparr>lock_held := online\<rparr>\<rparr>"
  from assms have inv: "ring_inv ?r" and ok: "cache_usable ?b" and cap: "0 < cap" "MaxEvents ?r = cap"
    using ring_invD(1) [of ?r] by (simp_all add: overwrite_store_def)
  have "\<exists>b2. (if Buffer_IsFull ?r then Buffer_ExecuteFlushCallback online ?b else Inr (?b, 1)) = Inr (b2, 1) \<and>
      ring_inv (main b2) \<and> fill (main b2) < cap \<and> MaxEvents (main b2) = cap \<and>
      lock_held (main b2) = online \<and> FlushCallback b2 = Some Cb_DiscardOldest \<and> cache_usable b2 \<and>
      Buffer_IsEventCached b2 = cached \<and>
      overwrite_add cap cached e (cache_view online b, contents (main b)) =
        (cache_view online b2, contents (main b2) @ [e])"
  proof (cases "Buffer_IsFull ?r")
    case True
    then have full: "fill ?r = cap" using inv cap(2) full_iff by blast
    from Buffer_DiscardOldest_law [of ?b online] obtain b2 where
      "Buffer_DiscardOldest online ?b = Inr (b2, 1)" "main b2 = dropped ?r"
      "FlushCallback b2 = FlushCallback b" "cache_usable b2" "Buffer_IsEventCached b2 = Buffer_IsEventCached b"
      "cache_view online b2 = cache_view online b @
        filter (Buffer_IsEventCached b \<circ> ev_event) [hd (contents (main b))]"
      using inv full cap(1) ok by auto
    moreover have "overwrite_add cap cached e (cache_view online b, contents (main b)) =
        (cache_view online b @ filter (cached \<circ> ev_event) [hd (contents (main b))], tl (contents (main b)) @ [e])"
      using full by (simp add: overwrite_add_def)
    moreover have "fill ?r \<noteq> 0" using full cap(1) by simp
    ultimately show ?thesis using True assms dropped_law [OF inv \<open>fill ?r \<noteq> 0\<close>] cap(2)
      by (auto simp: Buffer_ExecuteFlushCallback_def overwrite_store_def simp del: filter.simps)
  next
    case False
    then show ?thesis using assms inv cap(2) ring_invD(10) [OF inv]
      by (auto simp: full_iff overwrite_store_def overwrite_add_def)
  qed
  then obtain b2 where
    b2: "(if Buffer_IsFull ?r then Buffer_ExecuteFlushCallback online ?b else Inr (?b, 1)) = Inr (b2, 1)"
      "ring_inv (main b2)" "fill (main b2) < MaxEvents (main b2)" "MaxEvents (main b2) = cap"
      "lock_held (main b2) = online" "FlushCallback b2 = Some Cb_DiscardOldest" "cache_usable b2"
      "Buffer_IsEventCached b2 = cached"
      "overwrite_add cap cached e (cache_view online b, contents (main b)) =
        (cache_view online b2, contents (main b2) @ [e])"
    by blast
  have "Buffer_InsertSingle online e b = Inr (b2\<lparr>main := Buffer_Unlock online (stored e (main b2))\<rparr>)"
    using assms b2(1) put_event_law(1) [OF b2(2,3)]
    by (simp add: Buffer_InsertSingle_def overwrite_store_def Buffer_Lock_free del: lock_irrelevant)
  then show ?thesis using b2 put_event_law [OF b2(2,3)]
    by (simp add: overwrite_store_def Buffer_Unlock_held ring_simps)
qed

interpretation overwriting: event_store "overwrite_store cap cached" "Buffer_InsertSingle online"
    "\<lambda>b. (cache_view online b, contents (main b))" "overwrite_add cap cached" for cap cached online
  by unfold_locales (rule overwrite_insert_law)

lemma fold_overwrite:
  assumes "length es \<le> cap" and "0 < cap"
  shows "fold (overwrite_add cap cached) xs (c, es) =
    (c @ filter (cached \<circ> ev_event) (take (length es + length xs - cap) (es @ xs)),
     drop (length es + length xs - cap) (es @ xs))"
  using assms
proof (induction xs arbitrary: c es)
  case (Cons x xs)
  show ?case
  proof (cases "length es = cap")
    case True
    then obtain y ys where "es = y # ys" using Cons.prems by (cases es) auto
    then show ?thesis using True Cons.IH [of "ys @ [x]"] Cons.prems by (simp add: overwrite_add_def)
  next
    case False
    then show ?thesis using Cons.IH [of "es @ [x]"] Cons.prems by (simp add: overwrite_add_def)
  qed
qed simp

subsection \<open>Inserting several events at once\<close>

lemma fill_int: "ring_inv r \<Longrightarrow> Buffer_EnoughSpace r (int n) \<longleftrightarrow> fill r + n \<le> MaxEvents r"
  using ring_invD(9) [of r] by (auto simp: Buffer_EnoughSpace_def Buffer_RemainingEvents_def)

lemma Buffer_Flush_rc:
  assumes "flush_store b"
  shows "fill (main b) = 0 \<Longrightarrow> Buffer_Flush online b = Inr (b, 0)"
    and "fill (main b) \<noteq> 0 \<Longrightarrow> Buffer_Flush online b =
      Inr (b\<lparr>main := emptied (main b), trace_file := flushed_file online b\<rparr>, 1)"
proof -
  have u: "ring_inv (main b)" "fd_open (main b)"
    using assms by (simp_all add: flush_store_def usable_def)
  show "fill (main b) = 0 \<Longrightarrow> Buffer_Flush online b = Inr (b, 0)"
    using u by (simp add: Buffer_Flush_def flush_ring_def empty_iff)
  show "fill (main b) \<noteq> 0 \<Longrightarrow> Buffer_Flush online b =
      Inr (b\<lparr>main := emptied (main b), trace_file := flushed_file online b\<rparr>, 1)"
    using u assms by (simp add: Buffer_Flush_def flush_ring_writes flushed_file_def emptied_def flush_store_def)
qed

lemma flush_callback [simp]:
  "flush_store b \<Longrightarrow> Buffer_ExecuteFlushCallback online b = Buffer_Flush online b"
  by (simp add: Buffer_ExecuteFlushCallback_def flush_store_def)

lemma flush_store_emptied:
  "flush_store b \<Longrightarrow> flush_store (b\<lparr>main := emptied (main b), trace_file := flushed_file online b\<rparr>)"
  by (simp add: flush_store_def usable_def emptied_inv)

lemma flush_store_inv: "flush_store b \<Longrightarrow> ring_inv (main b)"
  by (simp add: flush_store_def usable_def)

lemma insert_retry_enough:
  "ring_inv (main b) \<Longrightarrow> fill (main b) + n \<le> MaxEvents (main b) \<Longrightarrow>
    insert_retry k online (int n) b = Inr (b, True)"
  by (cases k) (simp_all add: fill_int)

lemma insert_retry_flush:
  assumes "flush_store b" and "n \<le> MaxEvents (main b)"
  shows "\<exists>b1. insert_retry n online (int n) b = Inr (b1, True) \<and> flush_store b1 \<and>
    Buffer_EnoughSpace (main b1) (int n) \<and> recorded online b1 = recorded online b"
proof (cases "fill (main b) + n \<le> MaxEvents (main b)")
  case True
  then show ?thesis using assms by (simp add: insert_retry_enough fill_int flush_store_inv)
next
  case False
  let ?b = "b\<lparr>main := emptied (main b), trace_file := flushed_file online b\<rparr>"
  have "fill (main b) \<le> MaxEvents (main b)"
    using ring_invD(10) [OF flush_store_inv [OF assms(1)]] .
  with False assms(2) obtain k where k: "n = Suc k" "fill (main b) \<noteq> 0" by (cases n) auto
  have inv: "ring_inv (main ?b)" using flush_store_emptied [OF assms(1)] flush_store_inv by blast
  have "\<not> Buffer_EnoughSpace (main b) (int n)"
    using False assms(1) by (simp add: fill_int flush_store_inv)
  then have "insert_retry (Suc k) online (int n) b = insert_retry k online (int n) ?b"
    using assms(1) Buffer_Flush_rc(2) [OF assms(1) k(2)] by simp
  then have "insert_retry n online (int n) b = insert_retry k online (int n) ?b"
    using k(1) by metis
  also have "\<dots> = Inr (?b, True)"
    using inv assms(2) by (intro insert_retry_enough) simp_all
  finally show ?thesis using flush_store_emptied [OF assms(1)] inv assms(2)
    by (intro exI [of _ ?b]) (simp add: fill_int, simp add: recorded_def)
qed

lemma insert_retry_too_many:
  assumes "flush_store b" and "MaxEvents (main b) < n"
  shows "\<exists>b1. insert_retry n online (int n) b = Inr (b1, False) \<and> flush_store b1 \<and>
    recorded online b1 = recorded online b"
proof -
  have "0 < MaxEvents (main b)" using assms(1) by (auto dest: flush_store_inv ring_invD(1))
  then obtain k where k: "n = Suc (Suc k)" using assms(2)
    by (metis Suc_less_eq2 less_nat_zero_code not0_implies_Suc)
  let ?b = "b\<lparr>main := emptied (main b), trace_file := flushed_file online b\<rparr>"
  have no: "\<not> Buffer_EnoughSpace (main b) (int n)" "\<not> Buffer_EnoughSpace (main ?b) (int n)"
    using assms flush_store_inv [OF assms(1)] flush_store_inv [OF flush_store_emptied [OF assms(1)]]
    by (simp_all add: fill_int)
  show ?thesis
  proof (cases "fill (main b) = 0")
    case True
    then show ?thesis using no assms(1) Buffer_Flush_rc(1) [OF assms(1)] k by simp
  next
    case False
    have "Buffer_Flush online ?b = Inr (?b, 0)"
      by (rule Buffer_Flush_rc(1)) (simp_all add: flush_store_emptied assms(1))
    then have "insert_retry n online (int n) b = Inr (?b, False)"
      using no assms(1) Buffer_Flush_rc(2) [OF assms(1) False] k flush_store_emptied [OF assms(1)]
      by simp
    then show ?thesis using flush_store_emptied [OF assms(1)] by (simp add: recorded_def)
  qed
qed

end
