(* ===== verification/Event_Iterators.thy ===== *)
theory Event_Iterators
  imports Event_Buffer_Correct
begin

text \<open>
  What the iterators of the event buffer visit: a traversal is a sequence of iterators, one per
  step, with the cell each points to. The forward, backward and range iterators are three of them.
\<close>

section \<open>Traversals\<close>

locale traversal =
  fixes valid :: "ring \<Rightarrow> bool"
    and step :: "ring \<Rightarrow> iterator \<Rightarrow> iterator result"
    and at :: "ring \<Rightarrow> nat \<Rightarrow> iterator"
    and pos :: "ring \<Rightarrow> nat \<Rightarrow> nat"
    and count :: "ring \<Rightarrow> nat"
  assumes bounds: "valid r \<Longrightarrow> k \<le> count r \<Longrightarrow> OutOfBounds (at r k) = (k = count r)"
    and current: "valid r \<Longrightarrow> k < count r \<Longrightarrow> CurrentElement (at r k) = pos r k"
    and event: "valid r \<Longrightarrow> k < count r \<Longrightarrow> cell (cells r) (pos r k) = Inr (event_at r (pos r k))"
    and step_at: "valid r \<Longrightarrow> k < count r \<Longrightarrow> step r (at r k) = Inr (at r (Suc k))"
begin

lemma iterate_from:
  assumes "valid r" and "k \<le> count r" and "count r - k \<le> fuel"
  shows "iterate step fuel r (at r k) = Inr (map (\<lambda>j. event_at r (pos r j)) [k..<count r])"
  using assms(2,3)
proof (induction fuel arbitrary: k)
  case 0
  then show ?case using assms(1) by (simp add: bounds)
next
  case (Suc fuel)
  show ?case
  proof (cases "k = count r")
    case True
    then show ?thesis using assms(1) by (simp add: bounds)
  next
    case False
    then have k: "k < count r" using Suc.prems(1) by simp
    then show ?thesis using assms(1) Suc.IH [of "Suc k"] Suc.prems(2)
      by (simp add: bounds current event step_at BufferIterator_GetEvent_def upt_conv_Cons del: upt_Suc)
  qed
qed

lemma search_from:
  assumes "valid r" and "k \<le> count r" and "count r - k \<le> fuel"
  shows "search step P fuel r (at r k) =
    Inr (map_option (pos r) (find (\<lambda>j. P (event_at r (pos r j))) [k..<count r]))"
  using assms(2,3)
proof (induction fuel arbitrary: k)
  case 0
  then show ?case using assms(1) by (simp add: bounds)
next
  case (Suc fuel)
  show ?case
  proof (cases "k = count r")
    case True
    then show ?thesis using assms(1) by (simp add: bounds)
  next
    case False
    then have k: "k < count r" using Suc.prems(1) by simp
    then show ?thesis using assms(1) Suc.IH [of "Suc k"] Suc.prems(2)
      by (simp add: bounds current event step_at BufferIterator_GetEvent_def upt_conv_Cons del: upt_Suc)
  qed
qed

end

lemma slot_eq_iff:
  assumes "ring_inv r" and "j \<le> k" and "k - j < MaxEvents r"
  shows "slot r j = slot r k \<longleftrightarrow> j = k"
  using slot_inj [of r j k] assms(2,3) by auto

definition at_forward :: "nat \<Rightarrow> nat \<Rightarrow> ring \<Rightarrow> nat \<Rightarrow> iterator" where
  "at_forward i j r k = \<lparr>OutOfBounds = (i + k = j), CurrentElement = slot r (i + k),
     StartBound = slot r i, EndBound = slot r j\<rparr>"

definition at_backward :: "ring \<Rightarrow> nat \<Rightarrow> iterator" where
  "at_backward r k = \<lparr>OutOfBounds = (k = fill r),
     CurrentElement = (if fill r = 0 then nat (circular_step (CurEvt r) (-1) (MaxEvents r))
       else slot r (fill r - 1 - min k (fill r - 1))),
     StartBound = slot r 0, EndBound = slot r (fill r)\<rparr>"

text \<open>From slot \<open>i\<close> forward, up to slot \<open>j\<close> and without it.\<close>

interpretation forward: traversal "\<lambda>r. ring_inv r \<and> i \<le> j \<and> j \<le> fill r" BufferIterator_Next
    "at_forward i j" "\<lambda>r k. slot r (i + k)" "\<lambda>r. j - i" for i j
proof (unfold_locales, goal_cases)
  case (4 r k)
  then have inv: "ring_inv r" and k: "i + k < j" "j \<le> MaxEvents r"
    using ring_invD(10) [of r] by auto
  then have "slot r (Suc (i + k)) = slot r j \<longleftrightarrow> Suc (i + k) = j" by (intro slot_eq_iff) auto
  then show ?case using k ring_invD(1) [OF inv]
    by (simp add: BufferIterator_Next_def at_forward_def GetNext_slot)
qed (auto simp: at_forward_def cell_slot)

interpretation backward: traversal ring_inv BufferIterator_Previous at_backward
    "\<lambda>r k. slot r (fill r - 1 - k)" fill
proof (unfold_locales, goal_cases)
  case (2 r k)
  then have "min k (fill r - 1) = k" and "fill r \<noteq> 0" by simp_all
  then show ?case by (simp add: at_backward_def)
next
  case (4 r k)
  note d = ring_invD [OF 4(1)]
  have cur: "min k (fill r - 1) = k" "fill r \<noteq> 0" using 4(2) by simp_all
  show ?case
  proof (cases "Suc k = fill r")
    case True
    then show ?thesis using cur
      by (simp add: BufferIterator_Previous_def at_backward_def flip: True)
  next
    case False
    then have k: "Suc k < fill r" and m: "min (Suc k) (fill r - 1) = Suc k" using 4(2) by simp_all
    let ?p = "fill r - 1 - Suc k"
    have p: "fill r - 1 - k = Suc ?p" using k by simp
    have "slot r 0 \<noteq> slot r (Suc ?p)" using slot_eq_iff [OF 4(1), of 0 "Suc ?p"] k d(10) by simp
    then show ?thesis using False cur m p slot_back [OF d(1), of ?p] 4(2)
      by (simp add: BufferIterator_Previous_def at_backward_def)
  qed
qed (auto simp: at_backward_def cell_slot)

lemma NewForward_at: "ring_inv r \<Longrightarrow> BufferIterator_NewForward r = at_forward 0 (fill r) r 0"
  using ring_invD(4,7) [of r]
  by (auto simp: BufferIterator_NewForward_def new_Iterator_def at_forward_def slot_0 empty_iff)

lemma NewBackward_at:
  assumes "ring_inv r"
  shows "BufferIterator_NewBackward r = at_backward r 0"
proof (cases "fill r")
  case 0
  then show ?thesis using assms ring_invD(4,7) [OF assms]
    by (simp add: BufferIterator_NewBackward_def new_Iterator_def at_backward_def slot_0 empty_iff)
next
  case (Suc n)
  then show ?thesis using assms ring_invD(1,4,7) [OF assms] slot_back [of r n]
    by (simp add: BufferIterator_NewBackward_def new_Iterator_def at_backward_def slot_0 empty_iff)
qed

section \<open>Whole traversals\<close>

lemma iterate_forward_contents:
  assumes "ring_inv r"
  shows "iterate BufferIterator_Next (MaxEvents r) r (BufferIterator_NewForward r) = Inr (contents r)"
  using forward.iterate_from [of r 0 "fill r" 0 "MaxEvents r"] assms ring_invD(10) [OF assms]
  by (simp add: NewForward_at contents_def)

lemma iterate_backward_contents:
  assumes "ring_inv r"
  shows "iterate BufferIterator_Previous (MaxEvents r) r (BufferIterator_NewBackward r) =
    Inr (rev (contents r))"
  using backward.iterate_from [of r 0 "MaxEvents r"] assms ring_invD(10) [OF assms]
  by (auto simp: NewBackward_at rev_nth nth_contents intro!: nth_equalityI)

lemma find_first:
  assumes "i < n" and "P i" and "\<And>k. k < i \<Longrightarrow> \<not> P k"
  shows "find P [0..<n] = Some i"
  using assms by (auto simp: find_Some_iff intro!: exI [of _ i])

lemma range_iterator:
  assumes inv: "ring_inv r" and ij: "i < fill r" "j < fill r"
    and first: "ev_time (contents r ! i) \<ge> s" "\<And>k. k < i \<Longrightarrow> ev_time (contents r ! k) < s"
    and final: "ev_time (contents r ! j) \<le> t"
      "\<And>k. j < k \<Longrightarrow> k < fill r \<Longrightarrow> t < ev_time (contents r ! k)"
  shows "BufferIterator_NewRange r s t = Inr \<lparr>OutOfBounds = False, CurrentElement = slot r i,
    StartBound = slot r i, EndBound = slot r j\<rparr>"
proof -
  note d = ring_invD [OF inv]
  have "search BufferIterator_Next (\<lambda>e. s \<le> ev_time e) (MaxEvents r) r (BufferIterator_NewForward r) =
      Inr (map_option (slot r) (find (\<lambda>k. s \<le> ev_time (event_at r (slot r k))) [0..<fill r]))"
    using forward.search_from [of r 0 "fill r" 0 "MaxEvents r"] inv d(10) by (simp add: NewForward_at)
  also have "find (\<lambda>k. s \<le> ev_time (event_at r (slot r k))) [0..<fill r] = Some i"
    using ij(1) first by (intro find_first) (simp_all add: nth_contents not_le)
  finally have s: "search BufferIterator_Next (\<lambda>e. s \<le> ev_time e) (MaxEvents r) r
      (BufferIterator_NewForward r) = Inr (Some (slot r i))" by simp
  have "search BufferIterator_Previous (\<lambda>e. ev_time e \<le> t) (MaxEvents r) r (BufferIterator_NewBackward r) =
      Inr (map_option (\<lambda>k. slot r (fill r - 1 - k))
        (find (\<lambda>k. ev_time (event_at r (slot r (fill r - 1 - k))) \<le> t) [0..<fill r]))"
    using backward.search_from [of r 0 "MaxEvents r"] inv d(10) by (simp add: NewBackward_at)
  also have "find (\<lambda>k. ev_time (event_at r (slot r (fill r - 1 - k))) \<le> t) [0..<fill r] =
      Some (fill r - 1 - j)"
  proof (rule find_first)
    show "\<not> ev_time (event_at r (slot r (fill r - 1 - k))) \<le> t" if "k < fill r - 1 - j" for k
      using final(2) [of "fill r - 1 - k"] that by (simp add: nth_contents not_le)
  qed (use ij(2) final(1) in \<open>simp_all add: nth_contents\<close>)
  finally have t: "search BufferIterator_Previous (\<lambda>e. ev_time e \<le> t) (MaxEvents r) r
      (BufferIterator_NewBackward r) = Inr (Some (slot r j))" using ij(2) by simp
  show ?thesis using s t by (simp add: BufferIterator_NewRange_def Let_def)
qed

lemma contents_segment:
  assumes "i \<le> j" and "j \<le> fill r"
  shows "map (\<lambda>k. event_at r (slot r (i + k))) [0..<j - i] = take (j - i) (drop i (contents r))"
  using assms by (intro nth_equalityI) (simp_all add: nth_contents)

section \<open>Masks over a region\<close>

lemma mask_upd_Inr: "i < length (Masks r) \<Longrightarrow> mask_upd g i r = Inr (r\<lparr>Masks := (Masks r)[i := g (Masks r ! i)]\<rparr>)"
  by (simp add: mask_upd_def)

definition region_upd :: "(32 word \<Rightarrow> 32 word) \<Rightarrow> nat list \<Rightarrow> ring \<Rightarrow> ring" where
  "region_upd g ps r = r\<lparr>Masks := fold (\<lambda>i ms. ms[i := g (ms ! i)]) ps (Masks r)\<rparr>"

lemma region_upd_simps [simp]:
  "region_upd g [] r = r"
  "region_upd g (i # ps) r = region_upd g ps (r\<lparr>Masks := (Masks r)[i := g (Masks r ! i)]\<rparr>)"
  "MaxEvents (region_upd g ps r) = MaxEvents r" "HeadEvt (region_upd g ps r) = HeadEvt r"
  by (simp_all add: region_upd_def)

lemma fold_upd_nth:
  assumes "distinct ps" and "i < length ms"
  shows "fold (\<lambda>i ms. ms[i := g (ms ! i)]) ps ms ! i = (if i \<in> set ps then g (ms ! i) else ms ! i)"
  using assms
proof (induction ps arbitrary: ms)
  case (Cons a ps)
  then show ?case by (cases "i = a") simp_all
qed simp

lemma region_upd_Masks:
  "distinct ps \<Longrightarrow> i < length (Masks r) \<Longrightarrow>
    Masks (region_upd g ps r) ! i = (if i \<in> set ps then g (Masks r ! i) else Masks r ! i)"
  by (simp add: region_upd_def fold_upd_nth)

lemma region_upd_only_Masks: "r\<lparr>Masks := Masks (region_upd g ps r)\<rparr> = region_upd g ps r"
  by (simp add: region_upd_def)

lemma slot_inj_on:
  assumes "k - j < MaxEvents r"
  shows "inj_on (slot r) {j..k}"
proof (rule linorder_inj_onI)
  fix x y
  assume xy: "x < y" "x \<in> {j..k}" "y \<in> {j..k}"
  show "slot r x \<noteq> slot r y"
  proof
    assume "slot r x = slot r y"
    then have "x = y" by (rule slot_inj) (use xy assms in auto)
    then show False using xy(1) by simp
  qed
qed auto

lemma change_region_run:
  assumes "0 < MaxEvents r" and "length (Masks r) = MaxEvents r" and "j < k" and "k - j < MaxEvents r"
    and "k - j \<le> fuel"
  shows "change_region_loop fuel (mask_upd g) (slot r k) (slot r j) r =
    Inr (region_upd g (map (slot r) [j..<Suc k]) r)"
  using assms
proof (induction fuel arbitrary: j r)
  case 0
  then show ?case by simp
next
  case (Suc fuel)
  let ?r = "r\<lparr>Masks := (Masks r)[slot r j := g (Masks r ! slot r j)]\<rparr>"
  have s: "slot ?r = slot r" "MaxEvents ?r = MaxEvents r" "Buffer_GetNext ?r = Buffer_GetNext r"
    by (simp_all add: slot_def Buffer_GetNext_def fun_eq_iff)
  have body: "mask_upd g (slot r j) r = Inr ?r" using Suc.prems(1,2) by (simp add: mask_upd_Inr)
  have upt: "[j..<Suc k] = j # [Suc j..<Suc k]" using Suc.prems(3) by (simp add: upt_conv_Cons)
  show ?case
  proof (cases "Suc j = k")
    case True
    have "mask_upd g (slot r k) ?r = Inr (region_upd g [slot r k] ?r)"
      using Suc.prems(1,2) by (simp add: mask_upd_Inr)
    then show ?thesis using True Suc.prems(1) body s upt by (simp add: GetNext_slot Let_def)
  next
    case False
    then have "slot r (Suc j) \<noteq> slot r k"
      using slot_inj [of r "Suc j" k] Suc.prems(3,4) by fastforce
    moreover have "change_region_loop fuel (mask_upd g) (slot ?r k) (slot ?r (Suc j)) ?r =
        Inr (region_upd g (map (slot ?r) [Suc j..<Suc k]) ?r)"
      using Suc.prems False by (intro Suc.IH) simp_all
    ultimately show ?thesis using Suc.prems(1) body s upt by (simp add: GetNext_slot Let_def del: upt_Suc)
  qed
qed

end
