(* ===== verification/Event_Properties.thy ===== *)
theory Event_Properties
  imports Event_Iterators
begin

text \<open>The properties of the event buffer, each with its witness, over the buffer of \<open>new_Buffer\<close>.\<close>

section \<open>Concrete buffers\<close>

definition ex_event :: "64 word \<Rightarrow> event_t" where
  "ex_event t = \<lparr>ev_param = (0, 0, 0), ev_value = t, ev_time = t, ev_hwc = [], ev_event = 7, ev_hwcset = 0\<rparr>"

definition ex_buffer :: "nat \<Rightarrow> callback \<Rightarrow> buffer" where
  "ex_buffer n cb = \<lparr>main = new_ring n True, FlushCallback = Some cb, CachedEvents = [7],
     VictimCache = Some (new_ring 1 True), trace_file = \<lparr>file_data = [], answers = []\<rparr>\<rparr>"

lemma ex_buffer_stores:
  "0 < n \<Longrightarrow> flush_store (ex_buffer n Cb_Flush)"
  "0 < n \<Longrightarrow> overwrite_store n (\<lambda>t. t = 7) (ex_buffer n Cb_DiscardOldest)"
  using new_ring_inv [of n True] new_ring_inv [of 1 True]
  by (auto simp: flush_store_def usable_def ex_buffer_def new_ring_def overwrite_store_def
      cache_usable_def Buffer_IsEventCached_def fun_eq_iff steady_def file_events_def)

lemma ex_buffer_empty [simp]:
  "recorded online (ex_buffer n cb) = []" "contents (main (ex_buffer n cb)) = []"
  "cache_view online (ex_buffer n cb) = []" "MaxEvents (main (ex_buffer n cb)) = n"
  by (simp_all add: recorded_def flushed_def ex_buffer_def new_ring_def fill_def contents_def cache_view_def
      file_events_def)

section \<open>Policies\<close>

text \<open>
  C15. Nothing is lost while the buffer flushes when full: on a file that holds whole events and on which every
  write is complete, after any sequence of insertions and a final flush the file holds the bytes of what was
  recorded before followed by those of all the events, in order, and the ring is empty. (In the online build
  \<open>recorded\<close> leaves out old events masked against flushing; new ones never are.)
\<close>

theorem flush_loses_nothing:
  assumes "flush_store b"
  shows "\<exists>b1 b2 rc. rfold (Buffer_InsertSingle online) es b = Inr b1 \<and> flush_store b1 \<and>
    Buffer_Flush online b1 = Inr (b2, rc) \<and> file_data (trace_file b2) = event_data (recorded online b @ es) \<and>
    contents (main b2) = []"
proof -
  from flushing.put_all [OF assms] obtain b1 where b1:
    "rfold (Buffer_InsertSingle online) es b = Inr b1" "flush_store b1" "recorded online b1 = recorded online b @ es"
    by (auto simp: fold_snoc)
  from Buffer_Flush_records [OF b1(2), of online] obtain b2 rc where
    "Buffer_Flush online b1 = Inr (b2, rc)" "flush_store b2" "file_events (trace_file b2) = recorded online b1"
    "contents (main b2) = []" by blast
  then show ?thesis using b1 by (auto simp: flush_store_def steady_def)
qed

theorem flush_loses_nothing_witness:
  "\<exists>b1 b2 rc. rfold (Buffer_InsertSingle True) (map ex_event [1, 2, 3]) (ex_buffer 2 Cb_Flush) = Inr b1 \<and>
    flush_store b1 \<and> Buffer_Flush True b1 = Inr (b2, rc) \<and>
    file_data (trace_file b2) = event_data (map ex_event [1, 2, 3]) \<and> contents (main b2) = []"
  using flush_loses_nothing [OF ex_buffer_stores(1), of 2 True "map ex_event [1, 2, 3]"]
  by (simp del: event_data_simps)

text \<open>
  C18. A buffer that overwrites keeps exactly the newest events: with capacity \<open>cap\<close>, after inserting
  \<open>es\<close> the ring holds the last \<open>cap\<close> of all events, and those it dropped whose type is cached
  have been added to the victim cache and its file, in order.
\<close>

theorem overwrite_keeps_newest:
  assumes "overwrite_store cap cached b"
  shows "\<exists>b1. rfold (Buffer_InsertSingle online) es b = Inr b1 \<and> overwrite_store cap cached b1 \<and>
    (let all = contents (main b) @ es; lost = length all - cap in
      contents (main b1) = drop lost all \<and>
      cache_view online b1 = cache_view online b @ filter (cached \<circ> ev_event) (take lost all))"
proof -
  have "ring_inv (main b)" "MaxEvents (main b) = cap" using assms by (simp_all add: overwrite_store_def)
  then have "length (contents (main b)) \<le> cap" "0 < cap" using ring_invD(1,10) [of "main b"] by auto
  from fold_overwrite [OF this, of cached es "cache_view online b"] overwriting.put_all [OF assms, of online es]
  show ?thesis by (auto simp: Let_def)
qed

theorem overwrite_keeps_newest_witness:
  "\<exists>b1. rfold (Buffer_InsertSingle False) (map ex_event [1, 2, 3]) (ex_buffer 2 Cb_DiscardOldest) = Inr b1 \<and>
    contents (main b1) = map ex_event [2, 3] \<and> cache_view False b1 = [ex_event 1]"
  using overwrite_keeps_newest [OF ex_buffer_stores(2), of 2 False "map ex_event [1, 2, 3]"]
  by (auto simp: Let_def ex_event_def)

text \<open>
  C33. Inserting several events at once into a buffer that flushes: if they fit in the ring all are
  recorded in order; if they are more than the ring can hold, none is, and nothing reports it: the
  message and the exit meant for this case are never reached.
\<close>

theorem insert_multiple_flush:
  assumes "flush_store b"
  shows "\<exists>b1. Buffer_InsertMultiple online es b = Inr b1 \<and> flush_store b1 \<and>
    recorded online b1 = recorded online b @ (if length es \<le> MaxEvents (main b) then es else [])"
proof (cases "length es \<le> MaxEvents (main b)")
  case True
  from insert_retry_flush [OF assms this, of online] obtain b1 where
    b1: "insert_retry (length es) online (int (length es)) b = Inr (b1, True)" "flush_store b1"
      "Buffer_EnoughSpace (main b1) (int (length es))" "recorded online b1 = recorded online b"
    by auto
  from flushing.put_all [OF b1(2), of online es] b1 True show ?thesis
    by (auto simp: Buffer_InsertMultiple_def fold_snoc)
next
  case False
  then show ?thesis using insert_retry_too_many [OF assms, of "length es" online]
    by (auto simp: Buffer_InsertMultiple_def)
qed

theorem insert_multiple_flush_witness:
  "(\<exists>b1. Buffer_InsertMultiple True (map ex_event [1, 2]) (ex_buffer 2 Cb_Flush) = Inr b1 \<and>
     recorded True b1 = map ex_event [1, 2]) \<and>
   (\<exists>b1. Buffer_InsertMultiple True (map ex_event [1, 2, 3]) (ex_buffer 2 Cb_Flush) = Inr b1 \<and>
     recorded True b1 = [])"
  using insert_multiple_flush [OF ex_buffer_stores(1), of 2 True "map ex_event [1, 2]"]
    insert_multiple_flush [OF ex_buffer_stores(1), of 2 True "map ex_event [1, 2, 3]"]
  by auto

text \<open>
  Discarding ten percent breaks a small ring: with fewer than ten cells a tenth is no event, so
  inserting into a full ring leaves more events counted than there are cells, and the ring no
  longer passes the test for being full.
\<close>

theorem discard10pct_overfills:
  assumes "ring_inv (main b)" "Buffer_IsFull (main b)" "MaxEvents (main b) < 10" "\<not> lock_held (main b)"
    and "FlushCallback b = Some Cb_Discard10Pct"
  shows "\<exists>b1. Buffer_InsertSingle online e b = Inr b1 \<and>
    FillCount (main b1) = int (MaxEvents (main b1)) + 1 \<and> \<not> Buffer_IsFull (main b1) \<and> \<not> ring_inv (main b1)"
proof -
  note d = ring_invD [OF assms(1)]
  let ?r = "(main b)\<lparr>lock_held := online\<rparr>"
  have "Buffer_Discard10Pct (b\<lparr>main := ?r\<rparr>) = (b\<lparr>main := ?r\<rparr>, 1)"
    using assms(3) d(4) by (simp add: Buffer_Discard10Pct_def Let_def)
  moreover have "put_event e ?r = Inr (stored e ?r)" using d by (intro put_event_stored) simp_all
  ultimately have "Buffer_InsertSingle online e b = Inr (b\<lparr>main := Buffer_Unlock online (stored e ?r)\<rparr>)"
    using assms by (simp add: Buffer_InsertSingle_def Buffer_Lock_free Buffer_ExecuteFlushCallback_def)
  moreover have "FillCount (stored e ?r) = int (MaxEvents (stored e ?r)) + 1"
    using assms(2) by (simp add: stored_def Buffer_IsFull_def)
  ultimately show ?thesis by (auto simp: Buffer_IsFull_def ring_inv_def Buffer_Unlock_def)
qed

definition ex_full :: "callback \<Rightarrow> bool \<Rightarrow> buffer" where
  "ex_full cb opened = (ex_buffer 1 cb)\<lparr>main := (stored (ex_event 1) (new_ring 1 True))\<lparr>fd_open := opened\<rparr>\<rparr>"

lemma ex_full_simps:
  "ring_inv (main (ex_full cb opened))" "Buffer_IsFull (main (ex_full cb opened))"
  "MaxEvents (main (ex_full cb opened)) = 1" "\<not> lock_held (main (ex_full cb opened))"
  "FlushCallback (ex_full cb opened) = Some cb" "fd_open (main (ex_full cb opened)) = opened"
  by (simp_all add: ex_full_def ex_buffer_def new_ring_def stored_def ring_inv_def slot_def fill_def
      Buffer_IsFull_def Buffer_GetNext_def)

theorem discard10pct_overfills_witness:
  "\<exists>b1. Buffer_InsertSingle True (ex_event 2) (ex_full Cb_Discard10Pct True) = Inr b1 \<and>
    FillCount (main b1) = int (MaxEvents (main b1)) + 1 \<and> \<not> Buffer_IsFull (main b1) \<and> \<not> ring_inv (main b1)"
  by (rule discard10pct_overfills) (simp_all add: ex_full_simps)

text \<open>
  C38. In the online build an insertion into a full buffer whose file is closed returns with the
  mutex held (the event is not stored), and the next insertion waits for ever.
\<close>

theorem closed_buffer_blocks:
  assumes "Buffer_IsFull (main b)" "Buffer_IsClosed (main b)" "\<not> lock_held (main b)"
    and "FlushCallback b = Some Cb_Flush"
  shows "\<exists>b1. Buffer_InsertSingle True e b = Inr b1 \<and> main b1 = (main b)\<lparr>lock_held := True\<rparr> \<and>
    trace_file b1 = trace_file b \<and> Buffer_InsertSingle True e' b1 = Inl Blocked"
  using assms
  by (simp add: Buffer_InsertSingle_def Buffer_Lock_def Buffer_ExecuteFlushCallback_def Buffer_Flush_def
      flush_ring_def Buffer_IsClosed_def)

theorem closed_buffer_blocks_witness:
  "\<exists>b1. Buffer_InsertSingle True (ex_event 2) (ex_full Cb_Flush False) = Inr b1 \<and>
    Buffer_InsertSingle True (ex_event 3) b1 = Inl Blocked"
  using closed_buffer_blocks [of "ex_full Cb_Flush False" "ex_event 2" "ex_event 3"]
  by (auto simp: ex_full_simps Buffer_IsClosed_def)

section \<open>Traversals\<close>

text \<open>
  C32. Iterating forward visits every event of the buffer once, oldest first; iterating backward
  visits them newest first.
\<close>

theorem iterators_visit_contents:
  assumes "ring_inv r"
  shows "iterate BufferIterator_Next (MaxEvents r) r (BufferIterator_NewForward r) = Inr (contents r) \<and>
    iterate BufferIterator_Previous (MaxEvents r) r (BufferIterator_NewBackward r) = Inr (rev (contents r))"
  using iterate_forward_contents [OF assms] iterate_backward_contents [OF assms] by simp

definition ex_ring :: ring where
  "ex_ring = stored (ex_event 30) (dropped (stored (ex_event 20) (stored (ex_event 10) (new_ring 2 True))))"

definition ex_ring3 :: ring where
  "ex_ring3 = stored (ex_event 30) (stored (ex_event 20) (stored (ex_event 10) (new_ring 3 True)))"

lemma new_ring_simps [ring_simps]:
  "MaxEvents (new_ring n b) = n" "fill (new_ring n b) = 0" "FillCount (new_ring n b) = 0"
  "HeadEvt (new_ring n b) = 0" "CurEvt (new_ring n b) = 0" "Masks (new_ring n b) = replicate n 0"
  by (simp_all add: new_ring_def fill_def)

lemma ex_ring_inv: "ring_inv ex_ring" "contents ex_ring = [ex_event 20, ex_event 30]" "fill ex_ring = 2"
  using new_ring_inv [of 2 True] unfolding ex_ring_def
  by (simp_all add: stored_inv ring_simps ring_invD(5) dropped_law)

lemma ex_ring3_inv: "ring_inv ex_ring3"
  "contents ex_ring3 = [ex_event 10, ex_event 20, ex_event 30]" "fill ex_ring3 = 3"
  using new_ring_inv [of 3 True] unfolding ex_ring3_def
  by (simp_all add: stored_inv ring_simps ring_invD(5))

lemma ex_ring_fields:
  "CurEvt ex_ring = 1" "MaxEvents ex_ring = 2" "CurEvt ex_ring3 = 0" "MaxEvents ex_ring3 = 3"
  "HeadEvt ex_ring = 1" "HeadEvt ex_ring3 = 0" "Masks ex_ring3 = [0, 0, 0]"
  by (simp_all add: ex_ring_def ex_ring3_def stored_def dropped_def new_ring_simps Buffer_GetNext_def
      numeral_3_eq_3)

theorem iterators_visit_contents_witness:
  "iterate BufferIterator_Next (MaxEvents ex_ring) ex_ring (BufferIterator_NewForward ex_ring) =
     Inr [ex_event 20, ex_event 30] \<and>
   iterate BufferIterator_Previous (MaxEvents ex_ring) ex_ring (BufferIterator_NewBackward ex_ring) =
     Inr [ex_event 30, ex_event 20]"
  using iterators_visit_contents [OF ex_ring_inv(1)] by (simp add: ex_ring_inv)

text \<open>
  A range of times misses its last event: with event \<open>i\<close> the first not before \<open>start_time\<close> and
  a later event \<open>j\<close> the last not after \<open>end_time\<close>, iterating over the range visits \<open>i\<close> to \<open>j - 1\<close>
  (\<open>EndBound\<close> is the event itself, where the other iterators have the cell after it).
\<close>

theorem range_misses_last:
  assumes "ring_inv r" and "i < j" and "j < fill r"
    and "ev_time (contents r ! i) \<ge> s" and "\<forall>k < i. ev_time (contents r ! k) < s"
    and "ev_time (contents r ! j) \<le> t" and "\<forall>k. j < k \<and> k < fill r \<longrightarrow> t < ev_time (contents r ! k)"
  shows "\<exists>it. BufferIterator_NewRange r s t = Inr it \<and>
    iterate BufferIterator_Next (MaxEvents r) r it = Inr (take (j - i) (drop i (contents r)))"
proof -
  have "BufferIterator_NewRange r s t = Inr (at_forward i j r 0)"
    using range_iterator [OF assms(1), of i j s t] assms(2-7) by (simp add: at_forward_def)
  moreover have "iterate BufferIterator_Next (MaxEvents r) r (at_forward i j r 0) =
      Inr (map (\<lambda>k. event_at r (slot r (i + k))) [0..<j - i])"
    using assms(1-3) ring_invD(10) [OF assms(1)] by (intro forward.iterate_from) simp_all
  ultimately show ?thesis using assms(2,3) by (simp add: contents_segment)
qed

theorem range_misses_last_witness:
  "\<exists>it. BufferIterator_NewRange ex_ring3 20 30 = Inr it \<and>
    iterate BufferIterator_Next (MaxEvents ex_ring3) ex_ring3 it = Inr [ex_event 20]"
proof -
  have "\<forall>k < 1. ev_time (contents ex_ring3 ! k) < 20"
    and "\<forall>k. 2 < k \<and> k < fill ex_ring3 \<longrightarrow> 30 < ev_time (contents ex_ring3 ! k)"
    by (simp_all add: ex_ring3_inv ex_event_def)
  moreover have "2 < fill ex_ring3" "ev_time (contents ex_ring3 ! 1) \<ge> 20" "ev_time (contents ex_ring3 ! 2) \<le> 30"
    by (simp_all add: ex_ring3_inv ex_event_def)
  ultimately show ?thesis using range_misses_last [OF ex_ring3_inv(1), of 1 2 20 30]
    by (simp add: ex_ring3_inv)
qed

text \<open>
  The pointer to the last event is right unless the next cell to write is the first of the
  array: then it points before the array.
\<close>

theorem last_event_pointer:
  assumes "ring_inv r" and "fill r \<noteq> 0"
  shows "Buffer_GetLastEvent r = Some (if CurEvt r = 0 then -1 else int (slot r (fill r - 1)))"
proof -
  note d = ring_invD [OF assms(1)]
  from slot_back [OF d(1), of "fill r - 1"] have "nat (circular_step (CurEvt r) (-1) (MaxEvents r)) = slot r (fill r - 1)"
    using d(7) assms(2) by simp
  then show ?thesis using d(9,11) assms(2) by (auto simp: Buffer_GetLastEvent_def circular_step_back)
qed

theorem last_event_pointer_witness:
  "Buffer_GetLastEvent ex_ring = Some 0 \<and> Buffer_GetLastEvent ex_ring3 = Some (-1)"
  using last_event_pointer [OF ex_ring_inv(1)] last_event_pointer [OF ex_ring3_inv(1)]
  by (simp add: ex_ring_inv ex_ring3_inv ex_ring_fields slot_def)

text \<open>
  Setting or unsetting a mask over a region changes the masks of the events from the start to
  the end, both included and round the end of the array, and no other.
\<close>

theorem mask_region_exact:
  assumes "ring_inv r" and "j < k" and "k - j < MaxEvents r"
  shows "\<exists>r1. Mask_ChangeRegion (slot r j) (slot r k) mask_id do_set r = Inr r1 \<and> r1 = r\<lparr>Masks := Masks r1\<rparr> \<and>
    (\<forall>i < MaxEvents r. Masks r1 ! i =
      (if i \<in> slot r ` {j..k} then (if do_set then Masks r ! i OR mask_id else Masks r ! i AND NOT mask_id)
       else Masks r ! i))"
proof -
  note d = ring_invD [OF assms(1)]
  let ?g = "\<lambda>m. if do_set then m OR mask_id else m AND NOT mask_id"
  have "Mask_ChangeRegion (slot r j) (slot r k) mask_id do_set r = Inr (region_upd ?g (map (slot r) [j..<Suc k]) r)"
    using change_region_run [of r j k "MaxEvents r" ?g] d assms(2,3)
    by (cases do_set)
      (simp_all add: Mask_ChangeRegion_def Mask_Set_def [abs_def] Mask_Unset_def [abs_def] del: upt_Suc)
  moreover have "distinct (map (slot r) [j..<Suc k])"
    using slot_inj_on [OF assms(3)] by (simp add: distinct_map atLeastLessThanSuc_atLeastAtMost del: upt_Suc)
  moreover have "set (map (slot r) [j..<Suc k]) = slot r ` {j..k}" by (auto simp del: upt_Suc)
  ultimately show ?thesis using d(3)
    by (simp add: region_upd_Masks region_upd_only_Masks del: upt_Suc set_map set_upt)
qed

theorem mask_region_exact_witness:
  "\<exists>r1. Mask_ChangeRegion 1 0 MASK_CLUSTERED True ex_ring3 = Inr r1 \<and> Masks r1 ! 0 = 2 \<and> Masks r1 ! 1 = 2"
proof -
  have "{1..3 :: nat} = {1, 2, 3}" by auto
  then have "slot ex_ring3 1 = 1" "slot ex_ring3 3 = 0" "slot ex_ring3 ` {1..3} = {1, 2, 0}"
    by (simp_all add: slot_def ex_ring_fields)
  then show ?thesis using mask_region_exact [OF ex_ring3_inv(1), of 1 3 MASK_CLUSTERED True]
    by (auto simp: MASK_CLUSTERED_def ex_ring_fields)
qed

section \<open>Writing\<close>

text \<open>
  C23. When the disk refuses a write, the flush ends the program with status 1, whatever is to be written: nothing is
  dropped while the program goes on.
\<close>

theorem write_error_exits:
  assumes "ring_inv (main b)" and "fd_open (main b)" and "answers (trace_file b) = -1 # ws"
    and "flushed online (Buffer_IsEventCached b) (main b) \<noteq> []"
  shows "Buffer_Flush online b = Inl (Exit 1)"
  using flush_ring_fails [OF assms(1,2,4,3)] by (simp add: Buffer_Flush_def)

theorem write_error_exits_witness:
  "Buffer_Flush False ((ex_full Cb_Flush True)\<lparr>trace_file := \<lparr>file_data = [], answers = [-1]\<rparr>\<rparr>) = Inl (Exit 1)"
proof -
  have "fill (main (ex_full Cb_Flush True)) = 1"
    using ex_full_simps(1-3) [of Cb_Flush True] full_iff by metis
  then have "contents (main (ex_full Cb_Flush True)) \<noteq> []" by (simp add: contents_def)
  then show ?thesis
    by (intro write_error_exits [where ws = "[]"]) (simp_all add: ex_full_simps flushed_offline)
qed

text \<open>
  When a call of \<open>write\<close> is cut short after \<open>k\<close> bytes, the wrapper goes on from \<open>4 * k\<close> bytes into the
  block instead of \<open>k\<close>: it reports success, but what it writes is not the block.
\<close>

theorem writev_short_write:
  assumes "0 < k" "k < len" and "ring_bytes r base k = Inr xs" and "ring_bytes r (base + 4 * k) (len - k) = Inr ys"
  shows "write_block [int k] r base len 0 out = Inr ([], out @ xs @ ys, int len)"
  using assms by (simp add: min_def)

theorem writev_short_write_witness:
  "write_block [28] ex_ring 0 56 0 [] =
     Inr ([], map (Pair (ex_event 30)) [0..<28] @ map (Pair (ex_event 20)) [0..<28], 56)"
proof -
  have c: "cell (cells ex_ring) 0 = Inr (ex_event 30)" "cell (cells ex_ring) 1 = Inr (ex_event 20)"
    by (simp_all add: ex_ring_def stored_def dropped_def new_ring_def cell_def Buffer_GetNext_def numeral_2_eq_2)
  have "ring_byte ex_ring x = Inr (ex_event 30, x)" if "x < 28" for x
    using that c(1) by (simp add: ring_byte_def EVT_SIZE_def)
  then have a: "ring_bytes ex_ring 0 28 = Inr (map (Pair (ex_event 30)) [0..<28])"
    unfolding ring_bytes_def add_0 by (intro rcollect_Inr) simp
  have k: "ring_byte ex_ring x = Inr (ex_event 20, x - 112)" if "x \<in> set [112..<112 + 28]" for x
  proof -
    have x: "112 \<le> x" "x < 140" using that unfolding set_upt by simp_all
    then have "x div 112 = 1" "x mod 112 = x - 112"
      by (simp_all add: div_if le_mod_geq)
    then show ?thesis using c(2) by (simp add: ring_byte_def EVT_SIZE_def)
  qed
  have "ring_bytes ex_ring 112 28 = Inr (map (\<lambda>x. (ex_event 20, x - 112)) [112..<112 + 28])"
    unfolding ring_bytes_def by (rule rcollect_Inr [OF k])
  also have "map (\<lambda>x. (ex_event 20, x - 112)) [112..<112 + 28] = map (Pair (ex_event 20)) [0..<28 :: nat]"
    by (rule nth_equalityI) (simp_all del: upt_rec_numeral)
  finally have b: "ring_bytes ex_ring 112 28 = Inr (map (Pair (ex_event 20)) [0..<28])" .
  show ?thesis using writev_short_write [of 28 56 ex_ring 0 _ _ "[]"] a b by (simp del: upt_rec_numeral write_block.simps)
qed

end
