(* ===== verification/Hash_Table.thy ===== *)
theory Hash_Table
  imports Prelude "HOL-Library.Word" "HOL-Library.Multiset"
begin

text \<open>
  The table of pending MPI requests of the tracer (\<open>tracer/wrappers/MPI/hash_table.c\<close>): one entry
  per cell, and for the collisions a shared array of overflow cells, linked into one list per cell
  and one list of free cells. Links are C integers with the two marks \<open>HASH_NULL\<close> and \<open>HASH_FREE\<close>. The
  sizes of the two arrays are compile-time constants; the operations take them from the arrays.
  The mutex around each update is left out: an operation is one step.
\<close>

section \<open>State\<close>

type_synonym key = "64 word"

record hash_data =
  key_of :: key
  group :: "64 word"
  commid :: "64 word"
  partner :: int
  tag :: int
  msg_size :: int

record hash_tbl =
  ovf_link :: int
  tbl_data :: "hash_data option"

record hash_ovf =
  ovf_next :: int
  ovf_data :: "hash_data option"

record hash_t =
  table :: "hash_tbl list"
  overflow :: "hash_ovf list"
  ovf_free :: int

definition HASH_NULL :: int where
  "HASH_NULL = -1"

definition HASH_FREE :: int where
  "HASH_FREE = -2"

definition HASH_TABLE_SIZE :: nat where
  "HASH_TABLE_SIZE = 458879"

definition HASH_OVERFLOW_SIZE :: nat where
  "HASH_OVERFLOW_SIZE = HASH_TABLE_SIZE * 15 div 100"

definition HASH_FUNCTION :: "hash_t \<Rightarrow> key \<Rightarrow> nat" where
  "HASH_FUNCTION h x = unat x mod length (table h)"

section \<open>Operations\<close>

text \<open>The contents of the two arrays before the loops are arguments: the table is not cleared first.\<close>

definition hash_init :: "hash_t \<Rightarrow> hash_t result" where
  "hash_init h =
     (if overflow h = [] then Inl Undefined
      else Inr (h\<lparr>table := map (\<lambda>c. c\<lparr>ovf_link := HASH_FREE\<rparr>) (table h),
        overflow := map (\<lambda>i. (overflow h ! i)
          \<lparr>ovf_next := (if i < length (overflow h) - 1 then int (i + 1) else HASH_NULL)\<rparr>)
          [0..<length (overflow h)],
        ovf_free := 0\<rparr>))"

definition arr_at :: "'a list \<Rightarrow> int \<Rightarrow> 'a result" where
  "arr_at xs i = (if 0 \<le> i \<and> nat i < length xs then Inr (xs ! nat i) else Inl Undefined)"

definition data_key :: "hash_data option \<Rightarrow> key result" where
  "data_key d = (case d of None \<Rightarrow> Inl Undefined | Some x \<Rightarrow> Inr (key_of x))"

text \<open>The second component is what the function returns: whether there was no space left.\<close>

definition hash_add :: "hash_t \<Rightarrow> hash_data \<Rightarrow> (hash_t \<times> bool) result" where
  "hash_add h d =
     (let c = HASH_FUNCTION h (key_of d) in
      rbind (arr_at (table h) (int c)) (\<lambda>cell.
        if ovf_link cell = HASH_FREE
        then Inr (h\<lparr>table := (table h)[c := \<lparr>ovf_link = HASH_NULL, tbl_data = Some d\<rparr>]\<rparr>, False)
        else if ovf_free h = HASH_NULL then Inr (h, True)
        else rmap (\<lambda>o1. (h\<lparr>ovf_free := ovf_next o1,
                overflow := (overflow h)[nat (ovf_free h) := \<lparr>ovf_next = ovf_link cell, ovf_data = Some d\<rparr>],
                table := (table h)[c := cell\<lparr>ovf_link := ovf_free h\<rparr>]\<rparr>, False))
          (arr_at (overflow h) (ovf_free h))))"

text \<open>The loops along an overflow list: a list has at most as many cells as the array.\<close>

fun search_loop :: "nat \<Rightarrow> hash_ovf list \<Rightarrow> key \<Rightarrow> int \<Rightarrow> hash_data option result" where
  "search_loop 0 ov key ovf = (if ovf = HASH_NULL then Inr None else Inl Blocked)"
| "search_loop (Suc fuel) ov key ovf =
     (if ovf = HASH_NULL then Inr None
      else rbind (arr_at ov ovf) (\<lambda>o1. rbind (data_key (ovf_data o1)) (\<lambda>k.
        if k = key then Inr (ovf_data o1) else search_loop fuel ov key (ovf_next o1))))"

definition hash_search :: "hash_t \<Rightarrow> key \<Rightarrow> hash_data option result" where
  "hash_search h key =
     rbind (arr_at (table h) (int (HASH_FUNCTION h key))) (\<lambda>cell.
       if ovf_link cell = HASH_FREE then Inr None
       else rbind (data_key (tbl_data cell)) (\<lambda>k.
         if k = key then Inr (tbl_data cell)
         else search_loop (length (overflow h)) (overflow h) key (ovf_link cell)))"

text \<open>The loop of \<open>hash_remove\<close> returns \<open>prev\<close> and \<open>ovf\<close>.\<close>

fun find_prev :: "nat \<Rightarrow> hash_ovf list \<Rightarrow> key \<Rightarrow> int \<Rightarrow> int \<Rightarrow> (int \<times> int) result" where
  "find_prev 0 ov key prev ovf = (if ovf = HASH_NULL then Inr (prev, ovf) else Inl Blocked)"
| "find_prev (Suc fuel) ov key prev ovf =
     (if ovf = HASH_NULL then Inr (prev, ovf)
      else rbind (arr_at ov ovf) (\<lambda>o1. rbind (data_key (ovf_data o1)) (\<lambda>k.
        if k = key then Inr (prev, ovf) else find_prev fuel ov key ovf (ovf_next o1))))"

definition set_next :: "int \<Rightarrow> int \<Rightarrow> hash_t \<Rightarrow> hash_t" where
  "set_next i n h = h\<lparr>overflow := (overflow h)[nat i := (overflow h ! nat i)\<lparr>ovf_next := n\<rparr>]\<rparr>"

text \<open>The two lines that put a cell in the free list.\<close>

definition free_cell :: "int \<Rightarrow> hash_t \<Rightarrow> hash_t" where
  "free_cell i h = (set_next i (ovf_free h) h)\<lparr>ovf_free := i\<rparr>"

definition set_cell :: "nat \<Rightarrow> hash_tbl \<Rightarrow> hash_t \<Rightarrow> hash_t" where
  "set_cell c x h = h\<lparr>table := (table h)[c := x]\<rparr>"

definition hash_remove :: "hash_t \<Rightarrow> key \<Rightarrow> (hash_t \<times> bool) result" where
  "hash_remove h key =
     (let c = HASH_FUNCTION h key in
      rbind (arr_at (table h) (int c)) (\<lambda>cell.
        if ovf_link cell = HASH_FREE then Inr (h, True)
        else rbind (data_key (tbl_data cell)) (\<lambda>k.
          if k = key then
            if ovf_link cell \<noteq> HASH_NULL
            then rmap (\<lambda>o1. (free_cell (ovf_link cell)
                (set_cell c \<lparr>ovf_link = ovf_next o1, tbl_data = ovf_data o1\<rparr> h), False))
              (arr_at (overflow h) (ovf_link cell))
            else Inr (set_cell c (cell\<lparr>ovf_link := HASH_FREE\<rparr>) h, False)
          else rbind (find_prev (length (overflow h)) (overflow h) key HASH_NULL (ovf_link cell)) (\<lambda>(prev, ovf).
            if ovf = HASH_NULL then Inr (h, True)
            else rmap (\<lambda>o1. (free_cell ovf
                (if prev = HASH_NULL then set_cell c (cell\<lparr>ovf_link := ovf_next o1\<rparr>) h
                 else set_next prev (ovf_next o1) h), False))
              (arr_at (overflow h) ovf)))))"

end
