(* ===== verification/Hash_Table_Correct.thy ===== *)
theory Hash_Table_Correct
  imports Hash_Table
begin

text \<open>
  The request table implements a map from keys to entries. The overflow array is described by the
  list of cells of each chain and of the free list; together they are every cell exactly once.
\<close>

section \<open>Chains\<close>

fun linked :: "hash_ovf list \<Rightarrow> int \<Rightarrow> nat list \<Rightarrow> bool" where
  "linked ov i [] = (i = HASH_NULL)"
| "linked ov i (j # js) = (i = int j \<and> j < length ov \<and> linked ov (ovf_next (ov ! j)) js)"

fun chain_of :: "nat \<Rightarrow> hash_ovf list \<Rightarrow> int \<Rightarrow> nat list" where
  "chain_of 0 ov i = []"
| "chain_of (Suc fuel) ov i = (if i < 0 then [] else nat i # chain_of fuel ov (ovf_next (ov ! nat i)))"

lemma linked_chain_of: "linked ov i js \<Longrightarrow> length js \<le> fuel \<Longrightarrow> chain_of fuel ov i = js"
  by (induction fuel arbitrary: i js; case_tac js) (auto simp: HASH_NULL_def)

lemma linked_frame:
  assumes "\<And>j. j \<in> set js \<Longrightarrow> ov' ! j = ov ! j" and "length ov' = length ov"
  shows "linked ov' i js = linked ov i js"
  using assms by (induction js arbitrary: i) auto

lemma linked_update: "a \<notin> set js \<Longrightarrow> linked (ov[a := x]) i js = linked ov i js"
  by (rule linked_frame) (metis nth_list_update_neq, simp)

lemma linked_bounds: "linked ov i js \<Longrightarrow> j \<in> set js \<Longrightarrow> j < length ov"
  by (induction js arbitrary: i) auto

lemma linked_neg: "linked ov i js \<Longrightarrow> i < 0 \<longleftrightarrow> js = []"
  by (cases js) (auto simp: HASH_NULL_def)

lemma linked_not_null: "linked ov i (j # js) \<Longrightarrow> i \<noteq> HASH_NULL \<and> i \<noteq> HASH_FREE"
  by (auto simp: HASH_NULL_def HASH_FREE_def)

text \<open>Taking a cell out of the middle of a chain.\<close>

lemma linked_skip:
  assumes "linked ov i (us @ v # ws)" and "distinct (us @ v # ws)" and "us \<noteq> []"
    and "ov' ! last us = (ov ! last us)\<lparr>ovf_next := ovf_next (ov ! v)\<rparr>"
    and "\<And>j. j \<in> set (us @ ws) \<Longrightarrow> j \<noteq> last us \<Longrightarrow> ov' ! j = ov ! j"
    and "length ov' = length ov"
  shows "linked ov' i (us @ ws)"
  using assms(1-5)
proof (induction us arbitrary: i)
  case (Cons u us)
  show ?case
  proof (cases "us = []")
    case True
    have "linked ov' (ovf_next (ov ! v)) ws = linked ov (ovf_next (ov ! v)) ws"
      using Cons.prems(2,5) True assms(6) by (intro linked_frame) auto
    then show ?thesis using Cons.prems(1,4) True assms(6) by simp
  next
    case False
    then have "u \<noteq> last us" using Cons.prems(2) last_in_set [of us] by auto
    then have "ov' ! u = ov ! u" using Cons.prems(5) [of u] False by simp
    moreover have "linked ov' (ovf_next (ov ! u)) (us @ ws)"
      using Cons.prems False by (intro Cons.IH) auto
    ultimately show ?thesis using Cons.prems(1) assms(6) by simp
  qed
qed simp

section \<open>Invariant\<close>

definition entry :: "hash_ovf list \<Rightarrow> nat \<Rightarrow> hash_data" where
  "entry ov j = the (ovf_data (ov ! j))"

definition is_free :: "hash_t \<Rightarrow> nat \<Rightarrow> bool" where
  "is_free h c = (ovf_link (table h ! c) = HASH_FREE)"

definition cell_ok :: "hash_t \<Rightarrow> nat \<Rightarrow> nat list \<Rightarrow> bool" where
  "cell_ok h c js = (if is_free h c then js = []
     else tbl_data (table h ! c) \<noteq> None \<and> linked (overflow h) (ovf_link (table h ! c)) js \<and>
       (\<forall>j \<in> set js. ovf_data (overflow h ! j) \<noteq> None))"

definition rep :: "hash_t \<Rightarrow> (nat \<Rightarrow> nat list) \<Rightarrow> nat list \<Rightarrow> bool" where
  "rep h ch fr \<longleftrightarrow> table h \<noteq> [] \<and> linked (overflow h) (ovf_free h) fr \<and>
     (\<forall>c < length (table h). cell_ok h c (ch c)) \<and>
     mset fr + (\<Sum>c < length (table h). mset (ch c)) = mset [0..<length (overflow h)]"

definition entries :: "hash_t \<Rightarrow> nat \<Rightarrow> nat list \<Rightarrow> hash_data list" where
  "entries h c js = (if is_free h c then []
     else the (tbl_data (table h ! c)) # map (entry (overflow h)) js)"

text \<open>The chains are functions of the table.\<close>

definition chain :: "hash_t \<Rightarrow> nat \<Rightarrow> nat list" where
  "chain h c = (if is_free h c then [] else chain_of (length (overflow h)) (overflow h) (ovf_link (table h ! c)))"

definition free_list :: "hash_t \<Rightarrow> nat list" where
  "free_list h = chain_of (length (overflow h)) (overflow h) (ovf_free h)"

definition bucket :: "hash_t \<Rightarrow> nat \<Rightarrow> hash_data list" where
  "bucket h c = entries h c (chain h c)"

lemma distinct_part:
  assumes "mset xs + m = mset [0..<n]"
  shows "distinct xs" and "length xs \<le> n"
proof -
  have total: "count (mset [0..<n]) x \<le> 1" for x
    using distinct_upt [of 0 n] distinct_count_atmost_1 [of "[0..<n]"] by simp
  have "count (mset xs) x \<le> 1" for x
    using arg_cong [OF assms, of "\<lambda>m. count m x"] total [of x] by simp
  moreover have "x \<in> set xs \<longleftrightarrow> 0 < count (mset xs) x" for x by simp
  ultimately show "distinct xs"
    unfolding distinct_count_atmost_1 by (metis One_nat_def Suc_leI le_antisym not_gr_zero)
  show "length xs \<le> n" using arg_cong [OF assms, of size] by simp
qed


text \<open>A part of the cells: the free list, a chain, or two of them together.\<close>

lemma rep_parts:
  assumes "rep h ch fr" and c: "c < length (table h)"
  shows "mset (fr @ ch c) + (\<Sum>c' \<in> {..<length (table h)} - {c}. mset (ch c')) = mset [0..<length (overflow h)]"
  using assms by (simp add: rep_def sum.remove [of "{..<length (table h)}" c] add.assoc)

lemma rep_distinct:
  assumes "rep h ch fr" and "c < length (table h)"
  shows "distinct (fr @ ch c)" and "length (fr @ ch c) \<le> length (overflow h)"
  using distinct_part [OF rep_parts [OF assms]] .

lemma rep_disjoint:
  assumes rep: "rep h ch fr" and c: "c < length (table h)" "c' < length (table h)" "c \<noteq> c'"
  shows "set (ch c) \<inter> set (ch c') = {}"
proof -
  have "(\<Sum>x \<in> {..<length (table h)} - {c}. mset (ch x)) =
      mset (ch c') + (\<Sum>x \<in> {..<length (table h)} - {c} - {c'}. mset (ch x))"
    using c by (intro sum.remove) auto
  then have "mset (ch c @ ch c') + (mset fr + (\<Sum>x \<in> {..<length (table h)} - {c} - {c'}. mset (ch x))) =
      mset [0..<length (overflow h)]"
    using rep_parts [OF rep c(1)] by (simp add: ac_simps)
  from distinct_part(1) [OF this] show ?thesis by simp
qed

lemma cell_ok_frame:
  assumes "table h' ! c = table h ! c" and "\<And>j. j \<in> set js \<Longrightarrow> overflow h' ! j = overflow h ! j"
    and "length (overflow h') = length (overflow h)"
  shows "cell_ok h' c js = cell_ok h c js" and "entries h' c js = entries h c js"
  using assms linked_frame [of js "overflow h'" "overflow h"]
  by (auto simp: cell_ok_def entries_def is_free_def entry_def)

text \<open>An operation changes one cell of the table, its chain and the free list.\<close>

lemma rep_step:
  assumes rep: "rep h ch fr" and c: "c < length (table h)"
    and len: "length (table h') = length (table h)" "length (overflow h') = length (overflow h)"
    and tbl: "\<And>c'. c' \<noteq> c \<Longrightarrow> table h' ! c' = table h ! c'"
    and ovf: "\<And>j. j \<notin> set (ch c) \<Longrightarrow> j \<notin> set fr \<Longrightarrow> overflow h' ! j = overflow h ! j"
    and new: "cell_ok h' c js" "linked (overflow h') (ovf_free h') fr'"
    and cells: "mset js + mset fr' = mset (ch c) + mset fr"
  shows "rep h' (ch(c := js)) fr'"
    and "\<And>c'. c' < length (table h) \<Longrightarrow> c' \<noteq> c \<Longrightarrow> entries h' c' (ch c') = entries h c' (ch c')"
proof -
  have keep: "overflow h' ! j = overflow h ! j" if "c' < length (table h)" "c' \<noteq> c" "j \<in> set (ch c')" for c' j
    using that rep_disjoint [OF rep c, of c'] rep_distinct(1) [OF rep that(1)] by (intro ovf) auto
  have "mset fr' + (mset js + (\<Sum>c' \<in> {..<length (table h)} - {c}. mset (ch c'))) =
      mset [0..<length (overflow h)]"
    using rep_parts [OF rep c] cells by (metis add.assoc add.commute mset_append)
  moreover have "(\<Sum>c' < length (table h). mset ((ch(c := js)) c')) =
      mset js + (\<Sum>c' \<in> {..<length (table h)} - {c}. mset (ch c'))"
    using c by (subst sum.remove [of _ c]) auto
  moreover have "cell_ok h' c' ((ch(c := js)) c')" if "c' < length (table h)" for c'
    using rep that new(1) keep [OF that] cell_ok_frame(1) [OF tbl _ len(2), of c' "ch c'"]
    by (cases "c' = c") (auto simp: rep_def)
  ultimately show "rep h' (ch(c := js)) fr'"
    using rep new(2) len by (auto simp: rep_def)
  show "entries h' c' (ch c') = entries h c' (ch c')" if "c' < length (table h)" "c' \<noteq> c" for c'
    using keep [OF that] by (intro cell_ok_frame(2) [OF tbl [OF that(2)] _ len(2)])
qed

lemma rep_chain:
  assumes "rep h ch fr" and "c < length (table h)"
  shows "chain h c = ch c" and "free_list h = fr"
proof -
  have ok: "cell_ok h c (ch c)" and fr: "linked (overflow h) (ovf_free h) fr"
    using assms by (auto simp: rep_def)
  have "length (ch c) \<le> length (overflow h)" "length fr \<le> length (overflow h)"
    using rep_distinct(2) [OF assms] by simp_all
  then show "chain h c = ch c" "free_list h = fr"
    using ok fr linked_chain_of by (auto simp: chain_def free_list_def cell_ok_def)
qed

definition hash_inv :: "hash_t \<Rightarrow> bool" where
  "hash_inv h = rep h (chain h) (free_list h)"

lemma hash_inv_rep:
  assumes "rep h ch fr"
  shows "hash_inv h" and "free_list h = fr"
    and "\<And>c. c < length (table h) \<Longrightarrow> bucket h c = entries h c (ch c)"
proof -
  have "0 < length (table h)" using assms by (simp add: rep_def)
  then show fr: "free_list h = fr" using rep_chain(2) [OF assms] by blast
  show "hash_inv h" using assms rep_chain(1) [OF assms] fr
    by (simp add: hash_inv_def rep_def)
  show "bucket h c = entries h c (ch c)" if "c < length (table h)" for c
    using rep_chain(1) [OF assms that] by (simp add: bucket_def)
qed

section \<open>Operations on buckets\<close>

definition add_entry :: "hash_data \<Rightarrow> hash_data list \<Rightarrow> hash_data list" where
  "add_entry d b = (case b of [] \<Rightarrow> [d] | m # ms \<Rightarrow> m # d # ms)"

fun remove_key :: "key \<Rightarrow> hash_data list \<Rightarrow> hash_data list" where
  "remove_key k [] = []"
| "remove_key k (d # ds) = (if key_of d = k then ds else d # remove_key k ds)"

lemma remove_key_split:
  "\<forall>d \<in> set us. key_of d \<noteq> k \<Longrightarrow> key_of v = k \<Longrightarrow> remove_key k (us @ v # ws) = us @ ws"
  by (induction us) auto

lemma remove_key_absent: "k \<notin> key_of ` set b \<Longrightarrow> remove_key k b = b"
  by (induction b) auto

lemma HASH_FUNCTION_less: "table h \<noteq> [] \<Longrightarrow> HASH_FUNCTION h k < length (table h)"
  by (simp add: HASH_FUNCTION_def)

lemma arr_at_nat: "c < length xs \<Longrightarrow> arr_at xs (int c) = Inr (xs ! c)"
  by (simp add: arr_at_def)

lemma hash_invD:
  assumes "hash_inv h"
  shows "table h \<noteq> []" and "HASH_FUNCTION h k < length (table h)"
    and "\<And>c. c < length (table h) \<Longrightarrow> cell_ok h c (chain h c)"
    and "linked (overflow h) (ovf_free h) (free_list h)"
    and "\<And>c. c < length (table h) \<Longrightarrow> length (chain h c) \<le> length (overflow h)"
    and "\<And>c. c < length (table h) \<Longrightarrow> distinct (free_list h @ chain h c)"
  using assms rep_distinct [of h "chain h" "free_list h"] HASH_FUNCTION_less [of h k]
  by (force simp: hash_inv_def rep_def)+

lemma search_loop_chain:
  assumes "linked ov i js" and "\<forall>j \<in> set js. ovf_data (ov ! j) \<noteq> None" and "length js \<le> fuel"
  shows "search_loop fuel ov k i = Inr (find (\<lambda>d. key_of d = k) (map (entry ov) js))"
  using assms
proof (induction js arbitrary: fuel i)
  case Nil
  then show ?case by (cases fuel) simp_all
next
  case (Cons j js)
  then obtain f where f: "fuel = Suc f" by (cases fuel) auto
  from Cons.prems(2) obtain d where "ovf_data (ov ! j) = Some d" by auto
  then show ?case using Cons.prems Cons.IH [of "ovf_next (ov ! j)" f] f linked_not_null [OF Cons.prems(1)]
    by (simp add: arr_at_nat data_key_def entry_def)
qed

lemma find_prev_found:
  assumes "linked ov i (us @ v # ws)" and "\<forall>j \<in> set (us @ [v]). ovf_data (ov ! j) \<noteq> None"
    and "length us < fuel" and "\<forall>u \<in> set us. key_of (entry ov u) \<noteq> k" and "key_of (entry ov v) = k"
  shows "find_prev fuel ov k p i = Inr (if us = [] then p else int (last us), int v)"
  using assms
proof (induction us arbitrary: fuel i p)
  case Nil
  then obtain f where f: "fuel = Suc f" by (cases fuel) auto
  then show ?case using Nil.prems linked_not_null [of ov i v ws]
    by (auto simp: arr_at_nat data_key_def entry_def)
next
  case (Cons u us)
  then obtain f where f: "fuel = Suc f" by (cases fuel) auto
  have at: "linked ov i (u # (us @ v # ws))" using Cons.prems(1) by simp
  from Cons.prems(2) obtain d where "ovf_data (ov ! u) = Some d" by auto
  then show ?case
    using Cons.prems f linked_not_null [OF at] Cons.IH [of "ovf_next (ov ! u)" f i]
    by (auto simp: arr_at_nat data_key_def entry_def)
qed

lemma find_prev_absent:
  assumes "linked ov i js" and "\<forall>j \<in> set js. ovf_data (ov ! j) \<noteq> None"
    and "length js \<le> fuel" and "\<forall>u \<in> set js. key_of (entry ov u) \<noteq> k"
  shows "\<exists>q. find_prev fuel ov k p i = Inr (q, HASH_NULL)"
  using assms
proof (induction js arbitrary: fuel i p)
  case Nil
  then show ?case by (cases fuel) auto
next
  case (Cons u us)
  then obtain f where f: "fuel = Suc f" by (cases fuel) auto
  from Cons.prems(2) obtain d where "ovf_data (ov ! u) = Some d" by auto
  then show ?case
    using Cons.prems f linked_not_null [OF Cons.prems(1)] Cons.IH [of "ovf_next (ov ! u)" f i]
    by (auto simp: arr_at_nat data_key_def entry_def)
qed

lemma hash_search_bucket:
  assumes "hash_inv h"
  shows "hash_search h k = Inr (find (\<lambda>d. key_of d = k) (bucket h (HASH_FUNCTION h k)))"
proof -
  let ?c = "HASH_FUNCTION h k"
  note d = hash_invD [OF assms]
  have c: "?c < length (table h)" by (rule d(2))
  show ?thesis
  proof (cases "is_free h ?c")
    case True
    then show ?thesis using c by (simp add: hash_search_def arr_at_nat is_free_def bucket_def entries_def)
  next
    case False
    then obtain m where m: "tbl_data (table h ! ?c) = Some m"
        "linked (overflow h) (ovf_link (table h ! ?c)) (chain h ?c)"
        "\<forall>j \<in> set (chain h ?c). ovf_data (overflow h ! j) \<noteq> None"
      using d(3) [OF c] by (auto simp: cell_ok_def)
    then show ?thesis using False c search_loop_chain [OF m(2,3) d(5) [OF c], of k]
      by (simp add: hash_search_def arr_at_nat is_free_def bucket_def entries_def data_key_def)
  qed
qed

text \<open>What an operation on cell \<open>c\<close> leaves of the table.\<close>

definition updates :: "hash_t \<Rightarrow> nat \<Rightarrow> hash_data list \<Rightarrow> hash_t \<Rightarrow> bool" where
  "updates h c b h' \<longleftrightarrow> hash_inv h' \<and> length (table h') = length (table h) \<and>
     length (overflow h') = length (overflow h) \<and>
     (\<forall>c' < length (table h). bucket h' c' = (if c' = c then b else bucket h c'))"

lemma updates_step:
  assumes inv: "hash_inv h" and c: "c < length (table h)"
    and len: "length (table h') = length (table h)" "length (overflow h') = length (overflow h)"
    and tbl: "\<And>c'. c' \<noteq> c \<Longrightarrow> table h' ! c' = table h ! c'"
    and ovf: "\<And>j. j \<notin> set (chain h c) \<Longrightarrow> j \<notin> set (free_list h) \<Longrightarrow> overflow h' ! j = overflow h ! j"
    and new: "cell_ok h' c js" "linked (overflow h') (ovf_free h') fr'"
    and cells: "mset js + mset fr' = mset (chain h c) + mset (free_list h)"
  shows "updates h c (entries h' c js) h'" and "free_list h' = fr'"
proof -
  note rep = inv [unfolded hash_inv_def]
  note step = rep_step [OF rep c len tbl ovf new cells]
  note rep' = hash_inv_rep [OF step(1)]
  show "free_list h' = fr'" by (rule rep'(2))
  show "updates h c (entries h' c js) h'"
    using rep'(1,3) len step(2) hash_inv_rep(3) [OF rep] by (auto simp: updates_def)
qed

lemma updates_same: "hash_inv h \<Longrightarrow> updates h c (bucket h c) h"
  by (simp add: updates_def)

lemma bucket_free: "is_free h c \<Longrightarrow> bucket h c = []"
  by (simp add: bucket_def entries_def)

lemma hash_add_free:
  assumes inv: "hash_inv h" and free: "is_free h (HASH_FUNCTION h (key_of d))"
  shows "\<exists>h1. hash_add h d = Inr (h1, False) \<and> updates h (HASH_FUNCTION h (key_of d)) [d] h1"
proof -
  let ?c = "HASH_FUNCTION h (key_of d)"
  let ?h = "h\<lparr>table := (table h)[?c := \<lparr>ovf_link = HASH_NULL, tbl_data = Some d\<rparr>]\<rparr>"
  note i = hash_invD [OF inv]
  have c: "?c < length (table h)" by (rule i(2))
  have add: "hash_add h d = Inr (?h, False)"
    using free c by (simp add: hash_add_def Let_def arr_at_nat is_free_def)
  have used: "\<not> is_free ?h ?c" using c by (simp add: is_free_def HASH_NULL_def HASH_FREE_def)
  have "updates h ?c (entries ?h ?c []) ?h"
  proof (rule updates_step(1) [OF inv c])
    show "cell_ok ?h ?c []" using used c by (simp add: cell_ok_def)
    show "linked (overflow ?h) (ovf_free ?h) (free_list h)" using i(4) by simp
    show "mset [] + mset (free_list h) = mset (chain h ?c) + mset (free_list h)"
      using free by (simp add: chain_def)
  qed auto
  then show ?thesis using add used c by (simp add: entries_def)
qed

lemma hash_add_used:
  assumes inv: "hash_inv h" and used: "\<not> is_free h (HASH_FUNCTION h (key_of d))"
  shows "\<exists>h1. hash_add h d = Inr (h1, free_list h = []) \<and> updates h (HASH_FUNCTION h (key_of d))
    (if free_list h = [] then bucket h (HASH_FUNCTION h (key_of d))
     else add_entry d (bucket h (HASH_FUNCTION h (key_of d)))) h1"
proof (cases "free_list h")
  case Nil
  note i = hash_invD [OF inv]
  have "ovf_free h = HASH_NULL" using i(4) Nil by simp
  then show ?thesis using used Nil i(2) [of "key_of d"] updates_same [OF inv]
    by (simp add: hash_add_def Let_def arr_at_nat is_free_def)
next
  case (Cons f fr)
  let ?c = "HASH_FUNCTION h (key_of d)"
  let ?cell = "table h ! ?c"
  let ?ov = "(overflow h)[f := \<lparr>ovf_next = ovf_link ?cell, ovf_data = Some d\<rparr>]"
  let ?h = "h\<lparr>ovf_free := ovf_next (overflow h ! f), overflow := ?ov, table := (table h)[?c := ?cell\<lparr>ovf_link := int f\<rparr>]\<rparr>"
  note i = hash_invD [OF inv]
  have c: "?c < length (table h)" by (rule i(2))
  have f: "ovf_free h = int f" "f < length (overflow h)" "linked (overflow h) (ovf_next (overflow h ! f)) fr"
    using i(4) Cons by simp_all
  have not_in: "f \<notin> set fr" "f \<notin> set (chain h ?c)" using i(6) [OF c] Cons by auto
  have old: "tbl_data ?cell \<noteq> None" "linked (overflow h) (ovf_link ?cell) (chain h ?c)"
      "\<forall>j \<in> set (chain h ?c). ovf_data (overflow h ! j) \<noteq> None"
    using i(3) [OF c] used by (auto simp: cell_ok_def)
  have same: "?ov ! j = overflow h ! j" if "j \<in> set (chain h ?c)" for j
    using that not_in(2) by (metis nth_list_update_neq)
  have add: "hash_add h d = Inr (?h, False)"
    using used c f by (simp add: hash_add_def Let_def arr_at_nat is_free_def HASH_NULL_def)
  have used': "\<not> is_free ?h ?c" using c by (simp add: is_free_def HASH_FREE_def)
  have "updates h ?c (entries ?h ?c (f # chain h ?c)) ?h"
  proof (rule updates_step(1) [OF inv c])
    have "linked ?ov (ovf_link ?cell) (chain h ?c)"
      using old(2) not_in(2) by (simp add: linked_update)
    then show "cell_ok ?h ?c (f # chain h ?c)"
      using used' c f(2) old not_in(2) same by (auto simp: cell_ok_def nth_list_update)
    show "linked (overflow ?h) (ovf_free ?h) fr"
      using f(3) not_in(1) f(2) by (simp add: linked_update)
    show "mset (f # chain h ?c) + mset fr = mset (chain h ?c) + mset (free_list h)" using Cons by simp
    show "overflow ?h ! j = overflow h ! j" if "j \<notin> set (free_list h)" for j using that Cons by auto
  qed auto
  moreover have "map (entry ?ov) (chain h ?c) = map (entry (overflow h)) (chain h ?c)"
    using same by (intro map_cong) (simp_all add: entry_def)
  then have "entries ?h ?c (f # chain h ?c) = add_entry d (bucket h ?c)"
    using used used' c f(2) by (simp add: entries_def bucket_def add_entry_def entry_def)
  ultimately show ?thesis using add Cons by auto
qed

lemma hash_add_law:
  assumes inv: "hash_inv h" and c_def: "c = HASH_FUNCTION h (key_of d)"
  shows "\<exists>h1 full. hash_add h d = Inr (h1, full) \<and>
    updates h c (if full then bucket h c else add_entry d (bucket h c)) h1 \<and>
    full = (bucket h c \<noteq> [] \<and> free_list h = [])"
proof (cases "is_free h c")
  case True
  then show ?thesis using hash_add_free [OF inv, of d] c_def bucket_free [OF True]
    by (auto simp: add_entry_def)
next
  case False
  then have "bucket h c \<noteq> []" by (simp add: bucket_def entries_def)
  then show ?thesis using hash_add_used [OF inv, of d] False c_def by auto
qed

text \<open>Unlinking cell \<open>v\<close> from the chain of \<open>c\<close>, in whatever way, and putting it in the free list.\<close>

lemma free_cell_fields:
  "table (free_cell (int v) h) = table h" "ovf_free (free_cell (int v) h) = int v"
  "overflow (free_cell (int v) h) = (overflow h)[v := (overflow h ! v)\<lparr>ovf_next := ovf_free h\<rparr>]"
  by (simp_all add: free_cell_def set_next_def)

lemma set_fields:
  "table (set_cell c x h) = (table h)[c := x]" "overflow (set_cell c x h) = overflow h"
  "ovf_free (set_cell c x h) = ovf_free h" "table (set_next i n h) = table h"
  "overflow (set_next (int j) n h) = (overflow h)[j := (overflow h ! j)\<lparr>ovf_next := n\<rparr>]"
  "ovf_free (set_next i n h) = ovf_free h"
  by (simp_all add: set_cell_def set_next_def)

lemma unlink_updates:
  assumes inv: "hash_inv h" and c: "c < length (table h)" and ch: "chain h c = us @ v # ws"
    and len: "length (table h0) = length (table h)" "length (overflow h0) = length (overflow h)"
    and tbl: "\<And>c'. c' \<noteq> c \<Longrightarrow> table h0 ! c' = table h ! c'"
    and data: "\<And>j. ovf_data (overflow h0 ! j) = ovf_data (overflow h ! j)"
    and ovf: "\<And>j. j \<notin> set us \<Longrightarrow> overflow h0 ! j = overflow h ! j"
    and free: "ovf_free h0 = ovf_free h"
    and cell: "tbl_data (table h0 ! c) = Some m" "\<not> is_free h0 c"
    and link: "linked (overflow h0) (ovf_link (table h0 ! c)) (us @ ws)"
  shows "updates h c (m # map (entry (overflow h)) (us @ ws)) (free_cell (int v) h0)"
proof -
  let ?h = "free_cell (int v) h0"
  note i = hash_invD [OF inv]
  have used: "\<not> is_free h c" using ch by (auto simp: chain_def)
  have dist: "distinct (free_list h @ us @ v # ws)" using i(6) [OF c] ch by simp
  have old: "linked (overflow h) (ovf_link (table h ! c)) (us @ v # ws)"
      "\<forall>j \<in> set (us @ v # ws). ovf_data (overflow h ! j) \<noteq> None"
    using i(3) [OF c] used ch by (auto simp: cell_ok_def)
  have v: "v < length (overflow h0)" using linked_bounds [OF old(1), of v] len by simp
  have d: "ovf_data (overflow ?h ! j) = ovf_data (overflow h ! j)" for j
    using v data [of j] by (cases "j = v") (simp_all add: free_cell_fields)
  have "overflow h0 ! j = overflow h ! j" if "j \<in> set (free_list h)" for j
    using that dist by (intro ovf) auto
  from linked_frame [OF this len(2)] have fr: "linked (overflow h0) (ovf_free h0) (free_list h)"
    using i(4) free by simp
  have "updates h c (entries ?h c (us @ ws)) ?h"
  proof (rule updates_step(1) [OF inv c])
    have "v \<notin> set (us @ ws)" using dist by auto
    then have "linked (overflow ?h) (ovf_link (table h0 ! c)) (us @ ws)"
      using link by (simp add: free_cell_fields linked_update)
    moreover have "\<forall>j \<in> set (us @ ws). ovf_data (overflow ?h ! j) \<noteq> None"
      unfolding d using old(2) by auto
    moreover have "table ?h ! c = table h0 ! c" by (simp add: free_cell_fields)
    ultimately show "cell_ok ?h c (us @ ws)" using cell by (simp add: cell_ok_def is_free_def)
    show "linked (overflow ?h) (ovf_free ?h) (v # free_list h)"
      using v fr dist by (simp add: free_cell_fields linked_update)
    show "mset (us @ ws) + mset (v # free_list h) = mset (chain h c) + mset (free_list h)"
      using ch by simp
    show "overflow ?h ! j = overflow h ! j" if "j \<notin> set (chain h c)" for j
      using that ch ovf [of j] by (auto simp: free_cell_fields)
    show "table ?h ! c' = table h ! c'" if "c' \<noteq> c" for c' using tbl [OF that] by (simp add: free_cell_fields)
  qed (use len in \<open>simp_all add: free_cell_fields\<close>)
  moreover have "entries ?h c (us @ ws) = m # map (entry (overflow h)) (us @ ws)"
    using cell d by (simp add: entries_def is_free_def free_cell_fields entry_def)
  ultimately show ?thesis by simp
qed

lemma hash_remove_main:
  assumes inv: "hash_inv h" and c: "c = HASH_FUNCTION h k"
    and m: "\<not> is_free h c" "tbl_data (table h ! c) = Some m" "key_of m = k"
  shows "\<exists>h1. hash_remove h k = Inr (h1, False) \<and> updates h c (map (entry (overflow h)) (chain h c)) h1"
proof (cases "chain h c")
  case Nil
  let ?h = "set_cell c ((table h ! c)\<lparr>ovf_link := HASH_FREE\<rparr>) h"
  note i = hash_invD [OF inv]
  have len: "c < length (table h)" unfolding c by (rule i(2))
  have null: "ovf_link (table h ! c) = HASH_NULL" using i(3) [OF len] m(1) Nil by (simp add: cell_ok_def)
  have rem: "hash_remove h k = Inr (?h, False)"
    using m null len by (simp add: hash_remove_def Let_def arr_at_nat is_free_def data_key_def flip: c)
  have free: "is_free ?h c" using len by (simp add: is_free_def set_fields)
  have "updates h c (entries ?h c []) ?h"
  proof (rule updates_step(1) [OF inv len])
    show "cell_ok ?h c []" using free by (simp add: cell_ok_def)
    show "linked (overflow ?h) (ovf_free ?h) (free_list h)" using i(4) by (simp add: set_fields)
  qed (use Nil in \<open>auto simp: set_fields\<close>)
  then show ?thesis using rem free Nil by (simp add: entries_def)
next
  case (Cons v ws)
  note i = hash_invD [OF inv]
  have len: "c < length (table h)" unfolding c by (rule i(2))
  have old: "linked (overflow h) (ovf_link (table h ! c)) (v # ws)" "\<exists>d. ovf_data (overflow h ! v) = Some d"
    using i(3) [OF len] m(1) Cons by (auto simp: cell_ok_def)
  then obtain d where d: "ovf_data (overflow h ! v) = Some d" by auto
  let ?h0 = "set_cell c \<lparr>ovf_link = ovf_next (overflow h ! v), tbl_data = ovf_data (overflow h ! v)\<rparr> h"
  have "hash_remove h k = Inr (free_cell (int v) ?h0, False)"
    using m old len linked_not_null [OF old(1)]
    by (auto simp: hash_remove_def Let_def arr_at_nat is_free_def data_key_def simp flip: c)
  moreover have "updates h c (d # map (entry (overflow h)) ([] @ ws)) (free_cell (int v) ?h0)"
  proof (rule unlink_updates [OF inv len])
    have "linked (overflow h) (ovf_next (overflow h ! v)) ws" using old(1) by simp
    then show "linked (overflow ?h0) (ovf_link (table ?h0 ! c)) ([] @ ws)" and "\<not> is_free ?h0 c"
      using len linked_neg by (auto simp: set_fields is_free_def HASH_FREE_def HASH_NULL_def dest: linked_neg elim: linked.elims)
  qed (use Cons len d in \<open>auto simp: set_fields\<close>)
  ultimately show ?thesis using Cons d by (simp add: entry_def)
qed

lemma hash_remove_overflow:
  assumes inv: "hash_inv h" and c: "c = HASH_FUNCTION h k"
    and m: "\<not> is_free h c" "tbl_data (table h ! c) = Some m" "key_of m \<noteq> k"
    and ch: "chain h c = us @ v # ws" and us: "\<forall>u \<in> set us. key_of (entry (overflow h) u) \<noteq> k"
    and v: "key_of (entry (overflow h) v) = k"
  shows "\<exists>h1. hash_remove h k = Inr (h1, False) \<and>
    updates h c (m # map (entry (overflow h)) (us @ ws)) h1"
proof -
  note i = hash_invD [OF inv]
  have len: "c < length (table h)" unfolding c by (rule i(2))
  have old: "linked (overflow h) (ovf_link (table h ! c)) (us @ v # ws)"
      "\<forall>j \<in> set (us @ [v]). ovf_data (overflow h ! j) \<noteq> None"
    using i(3) [OF len] m(1) ch by (auto simp: cell_ok_def)
  have dist: "distinct (us @ v # ws)" using i(6) [OF len] ch by simp
  have vlen: "v < length (overflow h)" using linked_bounds [OF old(1)] by simp
  have find: "find_prev (length (overflow h)) (overflow h) k HASH_NULL (ovf_link (table h ! c)) =
      Inr (if us = [] then HASH_NULL else int (last us), int v)"
    using i(5) [OF len] ch by (intro find_prev_found [OF old _ us v]) simp
  let ?h0 = "if us = [] then set_cell c ((table h ! c)\<lparr>ovf_link := ovf_next (overflow h ! v)\<rparr>) h
      else set_next (int (last us)) (ovf_next (overflow h ! v)) h"
  have rem: "hash_remove h k = Inr (free_cell (int v) ?h0, False)"
    using m len find vlen
    by (simp add: hash_remove_def Let_def arr_at_nat is_free_def data_key_def HASH_NULL_def flip: c)
  have "updates h c (m # map (entry (overflow h)) (us @ ws)) (free_cell (int v) ?h0)"
  proof (rule unlink_updates [OF inv len ch])
    show link: "linked (overflow ?h0) (ovf_link (table ?h0 ! c)) (us @ ws)"
    proof (cases "us = []")
      case True
      then show ?thesis using old(1) len by (simp add: set_fields)
    next
      case False
      have "last us < length (overflow h)" using linked_bounds [OF old(1)] False by simp
      then show ?thesis using False linked_skip [OF old(1) dist False] by (simp add: set_fields)
    qed
    show "\<not> is_free ?h0 c"
      using linked_neg [OF link] m(1) link
      by (cases "us @ ws") (auto simp: is_free_def HASH_FREE_def HASH_NULL_def)
    show "ovf_data (overflow ?h0 ! j) = ovf_data (overflow h ! j)" for j
      by (cases "j = last us"; cases "j < length (overflow h)") (simp_all add: set_fields not_less list_update_beyond)
    show "overflow ?h0 ! j = overflow h ! j" if "j \<notin> set us" for j
      using that last_in_set [of us] by (cases "j = last us") (auto simp: set_fields)
  qed (use len m(2) in \<open>auto simp: set_fields\<close>)
  then show ?thesis using rem by blast
qed


lemma find_None_key: "find (\<lambda>d. key_of d = k) b = None \<longleftrightarrow> k \<notin> key_of ` set b"
  by (auto simp: find_None_iff)

lemma hash_remove_absent:
  assumes inv: "hash_inv h" and "k \<notin> key_of ` set (bucket h (HASH_FUNCTION h k))"
  shows "hash_remove h k = Inr (h, True)"
proof -
  let ?c = "HASH_FUNCTION h k"
  note i = hash_invD [OF inv]
  have c: "?c < length (table h)" by (rule i(2))
  show ?thesis
  proof (cases "is_free h ?c")
    case True
    then show ?thesis using c by (simp add: hash_remove_def Let_def arr_at_nat is_free_def)
  next
    case False
    then obtain m where m: "tbl_data (table h ! ?c) = Some m"
        "linked (overflow h) (ovf_link (table h ! ?c)) (chain h ?c)"
        "\<forall>j \<in> set (chain h ?c). ovf_data (overflow h ! j) \<noteq> None"
      using i(3) [OF c] by (auto simp: cell_ok_def)
    then have no: "key_of m \<noteq> k" "\<forall>u \<in> set (chain h ?c). key_of (entry (overflow h) u) \<noteq> k"
      using assms(2) False by (auto simp: bucket_def entries_def)
    from find_prev_absent [OF m(2,3) i(5) [OF c] no(2), of HASH_NULL] obtain q where
      "find_prev (length (overflow h)) (overflow h) k HASH_NULL (ovf_link (table h ! ?c)) = Inr (q, HASH_NULL)"
      by auto
    then show ?thesis using False m(1) no(1) c
      by (simp add: hash_remove_def Let_def arr_at_nat is_free_def data_key_def)
  qed
qed

lemma hash_remove_law:
  assumes inv: "hash_inv h" and c: "c = HASH_FUNCTION h k"
  shows "\<exists>h1. hash_remove h k = Inr (h1, k \<notin> key_of ` set (bucket h c)) \<and>
    updates h c (remove_key k (bucket h c)) h1"
proof (cases "k \<in> key_of ` set (bucket h c)")
  case False
  then show ?thesis using hash_remove_absent [OF inv, of k] c updates_same [OF inv, of c]
    by (simp add: remove_key_absent)
next
  case True
  then have used: "\<not> is_free h c" by (auto simp: bucket_free)
  then obtain m where m: "tbl_data (table h ! c) = Some m"
    using hash_invD(3) [OF inv hash_invD(2) [OF inv], of k] c by (auto simp: cell_ok_def)
  then have b: "bucket h c = m # map (entry (overflow h)) (chain h c)"
    using used by (simp add: bucket_def entries_def)
  show ?thesis
  proof (cases "key_of m = k")
    case True
    then show ?thesis using hash_remove_main [OF inv c used m] b by auto
  next
    case False
    then have "\<exists>v \<in> set (chain h c). key_of (entry (overflow h) v) = k" using True b by auto
    from split_list_first_propE [OF this] obtain us v ws where s: "chain h c = us @ v # ws"
        "key_of (entry (overflow h) v) = k" "\<forall>u \<in> set us. key_of (entry (overflow h) u) \<noteq> k"
      by metis
    have "remove_key k (bucket h c) = m # map (entry (overflow h)) (us @ ws)"
      using b False s by (simp add: remove_key_split)
    then show ?thesis using hash_remove_overflow [OF inv c used m False s(1,3,2)] True by auto
  qed
qed

end
