(* ===== verification/Request_Map.thy ===== *)
theory Request_Map
  imports Hash_Table_Correct
begin

text \<open>
  The request table as the map the MPI wrappers use: a request is added when it starts, looked up and
  removed when it completes. The contract is a locale; the table implements it as long as the keys
  pending at one time differ and are at most as many as the overflow cells.
\<close>

section \<open>The contract and its client\<close>

datatype request_op = Start hash_data | Finish key

text \<open>
  What the wrappers do with the table: \<open>MPI_Irecv\<close> adds and does not look at what \<open>hash_add\<close> returns;
  a completion searches, and removes what it found.
\<close>

fun fits :: "nat \<Rightarrow> request_op list \<Rightarrow> (key \<rightharpoonup> hash_data) \<Rightarrow> bool" where
  "fits cap [] m = True"
| "fits cap (Start d # ops) m =
     (m (key_of d) = None \<and> card (dom m) \<le> cap \<and> fits cap ops (m(key_of d \<mapsto> d)))"
| "fits cap (Finish k # ops) m = fits cap ops (m(k := None))"

fun spec_run :: "request_op list \<Rightarrow> (key \<rightharpoonup> hash_data) \<Rightarrow> (key \<rightharpoonup> hash_data) \<times> hash_data option list" where
  "spec_run [] m = (m, [])"
| "spec_run (Start d # ops) m = spec_run ops (m(key_of d \<mapsto> d))"
| "spec_run (Finish k # ops) m = (let (m1, out) = spec_run ops (m(k := None)) in (m1, m k # out))"

locale request_map =
  fixes ok :: "'h \<Rightarrow> bool"
    and lookup :: "'h \<Rightarrow> key \<rightharpoonup> hash_data"
    and cap :: nat
    and search :: "'h \<Rightarrow> key \<Rightarrow> hash_data option result"
    and add :: "'h \<Rightarrow> hash_data \<Rightarrow> ('h \<times> bool) result"
    and remove :: "'h \<Rightarrow> key \<Rightarrow> ('h \<times> bool) result"
  assumes search_law: "ok h \<Longrightarrow> search h k = Inr (lookup h k)"
    and add_law: "ok h \<Longrightarrow> lookup h (key_of d) = None \<Longrightarrow> card (dom (lookup h)) \<le> cap \<Longrightarrow>
      \<exists>h1. add h d = Inr (h1, False) \<and> ok h1 \<and> lookup h1 = (lookup h)(key_of d \<mapsto> d)"
    and remove_law: "ok h \<Longrightarrow>
      \<exists>h1. remove h k = Inr (h1, lookup h k = None) \<and> ok h1 \<and> lookup h1 = (lookup h)(k := None)"

fun run_requests ::
  "('h \<Rightarrow> key \<Rightarrow> hash_data option result) \<Rightarrow> ('h \<Rightarrow> hash_data \<Rightarrow> ('h \<times> bool) result) \<Rightarrow>
   ('h \<Rightarrow> key \<Rightarrow> ('h \<times> bool) result) \<Rightarrow> request_op list \<Rightarrow> 'h \<Rightarrow> ('h \<times> hash_data option list) result" where
  "run_requests search add remove [] h = Inr (h, [])"
| "run_requests search add remove (Start d # ops) h =
     rbind (add h d) (\<lambda>(h1, full). run_requests search add remove ops h1)"
| "run_requests search add remove (Finish k # ops) h =
     rbind (search h k) (\<lambda>found.
     rbind (if found = None then Inr h else rmap fst (remove h k)) (\<lambda>h1.
     rmap (\<lambda>(h2, out). (h2, found # out)) (run_requests search add remove ops h1)))"

context request_map
begin

lemma run_meets_spec:
  assumes "ok h" and "fits cap ops (lookup h)"
  shows "\<exists>h1. run_requests search add remove ops h = Inr (h1, snd (spec_run ops (lookup h))) \<and>
    ok h1 \<and> lookup h1 = fst (spec_run ops (lookup h))"
  using assms
proof (induction ops arbitrary: h)
  case Nil
  then show ?case by simp
next
  case (Cons x ops)
  show ?case
  proof (cases x)
    case (Start d)
    then obtain h1 where h1: "add h d = Inr (h1, False)" "ok h1" "lookup h1 = (lookup h)(key_of d \<mapsto> d)"
      using add_law [of h d] Cons.prems by auto
    have "fits cap ops (lookup h1)" using Cons.prems(2) Start unfolding h1(3) by simp
    from Cons.IH [OF h1(2) this, unfolded h1(3)] h1(1) show ?thesis using Start
      by (simp add: fun_upd_def)
  next
    case (Finish k)
    from remove_law [OF Cons.prems(1), of k] obtain h1 where
      h1: "remove h k = Inr (h1, lookup h k = None)" "ok h1" "lookup h1 = (lookup h)(k := None)"
      by auto
    show ?thesis
    proof (cases "lookup h k = None")
      case True
      then have same: "(lookup h)(k := None) = lookup h" by auto
      have "fits cap ops (lookup h)" using Cons.prems(2) Finish same by simp
      from Cons.IH [OF Cons.prems(1) this] show ?thesis
        using True Cons.prems(1) Finish search_law [of h k] same by (auto split: prod.split)
    next
      case False
      have "fits cap ops (lookup h1)" using Cons.prems(2) Finish unfolding h1(3) by simp
      from Cons.IH [OF h1(2) this, unfolded h1(3)] show ?thesis
        using False h1(1) Cons.prems(1) Finish search_law [of h k]
        by (auto simp: fun_upd_def split: prod.split)
    qed
  qed
qed

end

section \<open>The table as a map\<close>

definition lookup :: "hash_t \<Rightarrow> key \<rightharpoonup> hash_data" where
  "lookup h k = find (\<lambda>d. key_of d = k) (bucket h (HASH_FUNCTION h k))"

definition table_ok :: "nat \<Rightarrow> hash_t \<Rightarrow> bool" where
  "table_ok cap h \<longleftrightarrow> hash_inv h \<and> length (overflow h) = cap \<and>
     (\<forall>c < length (table h). distinct (map key_of (bucket h c)) \<and>
       (\<forall>d \<in> set (bucket h c). HASH_FUNCTION h (key_of d) = c))"

lemma find_add_entry:
  "k \<notin> key_of ` set b \<Longrightarrow> key_of d = k \<Longrightarrow>
    find (\<lambda>x. key_of x = k') (add_entry d b) =
      (if k' = k then Some d else find (\<lambda>x. key_of x = k') b)"
  by (cases b) (auto simp: add_entry_def)

lemma set_add_entry: "set (add_entry d b) = insert d (set b)"
  by (cases b) (auto simp: add_entry_def)

lemma distinct_add_entry:
  "distinct (map key_of (add_entry d b)) \<longleftrightarrow> distinct (map key_of b) \<and> key_of d \<notin> key_of ` set b"
  by (cases b) (auto simp: add_entry_def)

lemma find_remove_key:
  "distinct (map key_of b) \<Longrightarrow> find (\<lambda>x. key_of x = k') (remove_key k b) =
    (if k' = k then None else find (\<lambda>x. key_of x = k') b)"
  by (induction b) (auto simp: find_None_key)

lemma set_remove_key: "set (remove_key k b) \<subseteq> set b"
  by (induction b) auto

lemma distinct_remove_key: "distinct (map key_of b) \<Longrightarrow> distinct (map key_of (remove_key k b))"
proof (induction b)
  case (Cons a b)
  then show ?case using set_remove_key [of k b] by auto
qed simp

lemma updates_lookup:
  assumes ok: "table_ok cap h" and u: "updates h (HASH_FUNCTION h k) b h1"
    and b: "distinct (map key_of b)" "\<forall>d \<in> set b. HASH_FUNCTION h (key_of d) = HASH_FUNCTION h k"
    and found: "\<And>k'. HASH_FUNCTION h k' = HASH_FUNCTION h k \<Longrightarrow>
      find (\<lambda>x. key_of x = k') b = (if k' = k then v else lookup h k')"
  shows "table_ok cap h1" and "lookup h1 = (lookup h)(k := v)"
proof -
  have fn: "HASH_FUNCTION h1 = HASH_FUNCTION h"
    using u by (simp add: HASH_FUNCTION_def updates_def fun_eq_iff)
  show "table_ok cap h1" using ok u b by (auto simp: table_ok_def updates_def fn)
  have less: "HASH_FUNCTION h k' < length (table h)" for k'
    using ok by (auto simp: table_ok_def intro: hash_invD(2))
  have "lookup h1 k' = ((lookup h)(k := v)) k'" for k'
    using u found [of k'] less [of k'] by (auto simp: lookup_def fn updates_def)
  then show "lookup h1 = (lookup h)(k := v)" by (rule ext)
qed

text \<open>If the free list is empty and the cell in use, more keys are pending than there are overflow cells.\<close>

lemma bucket_hash:
  "table_ok cap h \<Longrightarrow> c < length (table h) \<Longrightarrow> d \<in> set (bucket h c) \<Longrightarrow> HASH_FUNCTION h (key_of d) = c"
  by (simp add: table_ok_def)

lemma lookup_dom:
  assumes "table_ok cap h"
  shows "dom (lookup h) = (\<Union>c < length (table h). key_of ` set (bucket h c))"
proof -
  have less: "HASH_FUNCTION h k < length (table h)" for k
    using assms by (auto simp: table_ok_def intro: hash_invD(2))
  show ?thesis
  proof (rule set_eqI)
    fix k
    have "k \<in> dom (lookup h) \<longleftrightarrow> k \<in> key_of ` set (bucket h (HASH_FUNCTION h k))"
      using find_None_key [of k "bucket h (HASH_FUNCTION h k)"] by (auto simp: lookup_def dom_def)
    also have "\<dots> \<longleftrightarrow> k \<in> (\<Union>c < length (table h). key_of ` set (bucket h c))"
    proof
      assume "k \<in> (\<Union>c < length (table h). key_of ` set (bucket h c))"
      then obtain c d where "c < length (table h)" "d \<in> set (bucket h c)" "k = key_of d" by auto
      then show "k \<in> key_of ` set (bucket h (HASH_FUNCTION h k))" using bucket_hash [OF assms] by auto
    qed (use less in blast)
    finally show "k \<in> dom (lookup h) \<longleftrightarrow> k \<in> (\<Union>c < length (table h). key_of ` set (bucket h c))" .
  qed
qed

lemma card_lookup:
  assumes "table_ok cap h"
  shows "card (dom (lookup h)) = (\<Sum>c < length (table h). length (bucket h c))"
proof -
  have "card (\<Union>c \<in> {..<length (table h)}. key_of ` set (bucket h c)) =
      (\<Sum>c < length (table h). card (key_of ` set (bucket h c)))"
    using bucket_hash [OF assms] by (intro card_UN_disjoint) (auto, metis)
  also have "\<dots> = (\<Sum>c < length (table h). length (bucket h c))"
  proof (rule sum.cong [OF refl])
    fix c
    assume "c \<in> {..<length (table h)}"
    then have "distinct (map key_of (bucket h c))" using assms by (simp add: table_ok_def)
    from distinct_card [OF this] show "card (key_of ` set (bucket h c)) = length (bucket h c)" by simp
  qed
  finally show ?thesis by (simp add: lookup_dom [OF assms])
qed

lemma size_sum_mset_list: "size (\<Sum>c < n. mset (f c)) = (\<Sum>c < n. length (f c))"
  for n :: nat
  by (induction n) simp_all

lemma chains_total:
  assumes "hash_inv h"
  shows "length (free_list h) + (\<Sum>c < length (table h). length (chain h c)) = length (overflow h)"
proof -
  have "size (mset (free_list h) + (\<Sum>c < length (table h). mset (chain h c))) = length (overflow h)"
    using assms by (simp add: hash_inv_def rep_def)
  then show ?thesis by (simp add: size_sum_mset_list)
qed

lemma full_means_more:
  assumes ok: "table_ok cap h" and c: "c < length (table h)" and used: "bucket h c \<noteq> []" and "free_list h = []"
  shows "cap < card (dom (lookup h))"
proof -
  have le: "length (chain h c') \<le> length (bucket h c')" for c'
    by (simp add: bucket_def entries_def chain_def)
  have "length (chain h c) < length (bucket h c)"
    using used by (auto simp: bucket_def entries_def split: if_splits)
  then have "(\<Sum>c < length (table h). length (chain h c)) < (\<Sum>c < length (table h). length (bucket h c))"
    using c le by (intro sum_strict_mono_ex1) auto
  moreover have "(\<Sum>c < length (table h). length (chain h c)) = cap"
    using chains_total [of h] ok assms(4) by (simp add: table_ok_def)
  ultimately show ?thesis using card_lookup [OF ok] by simp
qed

lemma table_search_law: "table_ok cap h \<Longrightarrow> hash_search h k = Inr (lookup h k)"
  by (simp add: table_ok_def hash_search_bucket lookup_def)

lemma table_bucket:
  assumes "table_ok cap h"
  shows "distinct (map key_of (bucket h (HASH_FUNCTION h k)))"
    and "\<forall>d \<in> set (bucket h (HASH_FUNCTION h k)). HASH_FUNCTION h (key_of d) = HASH_FUNCTION h k"
  using assms hash_invD(2) [of h k] by (auto simp: table_ok_def)

lemma table_add_law:
  assumes ok: "table_ok cap h" and new: "lookup h (key_of d) = None" and "card (dom (lookup h)) \<le> cap"
  shows "\<exists>h1. hash_add h d = Inr (h1, False) \<and> table_ok cap h1 \<and> lookup h1 = (lookup h)(key_of d \<mapsto> d)"
proof -
  let ?c = "HASH_FUNCTION h (key_of d)" and ?b = "bucket h (HASH_FUNCTION h (key_of d))"
  have inv: "hash_inv h" using ok by (simp add: table_ok_def)
  have "\<not> (?b \<noteq> [] \<and> free_list h = [])"
    using full_means_more [OF ok hash_invD(2) [OF inv], of "key_of d"] assms(3) by auto
  with hash_add_law [OF inv refl, of d] obtain h1 where
    h1: "hash_add h d = Inr (h1, False)" "updates h ?c (add_entry d ?b) h1" by auto
  have k: "key_of d \<notin> key_of ` set ?b" using new find_None_key by (auto simp: lookup_def)
  have "find (\<lambda>x. key_of x = k') (add_entry d ?b) = (if k' = key_of d then Some d else lookup h k')"
    if "HASH_FUNCTION h k' = ?c" for k'
    using find_add_entry [OF k refl] that by (simp add: lookup_def)
  moreover have "distinct (map key_of (add_entry d ?b))" "\<forall>x \<in> set (add_entry d ?b). HASH_FUNCTION h (key_of x) = ?c"
    using table_bucket [OF ok, of "key_of d"] k by (auto simp: distinct_add_entry set_add_entry)
  ultimately show ?thesis using updates_lookup [OF ok h1(2), of "Some d"] h1(1) by blast
qed

lemma table_remove_law:
  assumes ok: "table_ok cap h"
  shows "\<exists>h1. hash_remove h k = Inr (h1, lookup h k = None) \<and> table_ok cap h1 \<and> lookup h1 = (lookup h)(k := None)"
proof -
  let ?c = "HASH_FUNCTION h k" and ?b = "bucket h (HASH_FUNCTION h k)"
  have inv: "hash_inv h" using ok by (simp add: table_ok_def)
  from hash_remove_law [OF inv refl, of k] obtain h1 where
    h1: "hash_remove h k = Inr (h1, k \<notin> key_of ` set ?b)" "updates h ?c (remove_key k ?b) h1" by auto
  have "find (\<lambda>x. key_of x = k') (remove_key k ?b) = (if k' = k then None else lookup h k')"
    if "HASH_FUNCTION h k' = ?c" for k'
    using find_remove_key [OF table_bucket(1) [OF ok]] that by (simp add: lookup_def)
  moreover have "distinct (map key_of (remove_key k ?b))"
    "\<forall>x \<in> set (remove_key k ?b). HASH_FUNCTION h (key_of x) = ?c"
    using table_bucket [OF ok, of k] set_remove_key [of k ?b] by (auto intro: distinct_remove_key)
  moreover have "lookup h k = None \<longleftrightarrow> k \<notin> key_of ` set ?b" by (simp add: lookup_def find_None_key)
  ultimately show ?thesis using updates_lookup [OF ok h1(2), of None] h1(1) by auto
qed

interpretation requests: request_map "table_ok cap" lookup cap hash_search hash_add hash_remove for cap
  by unfold_locales (rule table_search_law table_add_law table_remove_law; assumption)+

section \<open>The empty table\<close>

lemma linked_upt:
  assumes "k \<le> length ov" and "ov \<noteq> []"
    and "\<And>i. i < length ov \<Longrightarrow> ovf_next (ov ! i) = (if i < length ov - 1 then int (i + 1) else HASH_NULL)"
  shows "linked ov (if k < length ov then int k else HASH_NULL) [k..<length ov]"
  using assms(1)
proof (induction "length ov - k" arbitrary: k)
  case 0
  then show ?case by simp
next
  case (Suc n)
  then have k: "k < length ov" by simp
  have "linked ov (if Suc k < length ov then int (Suc k) else HASH_NULL) [Suc k..<length ov]"
    using Suc k by (intro Suc.hyps(1)) simp_all
  moreover have "ovf_next (ov ! k) = (if Suc k < length ov then int (Suc k) else HASH_NULL)"
    using assms(3) [OF k] by (auto simp: less_diff_conv)
  ultimately show ?case using k by (simp add: upt_conv_Cons del: upt_Suc)
qed

lemma hash_init_law:
  assumes "table h \<noteq> []" and "overflow h \<noteq> []"
  shows "\<exists>h1. hash_init h = Inr h1 \<and> table_ok (length (overflow h)) h1 \<and> lookup h1 = Map.empty \<and>
    length (table h1) = length (table h)"
proof -
  let ?ov = "map (\<lambda>i. (overflow h ! i)
      \<lparr>ovf_next := (if i < length (overflow h) - 1 then int (i + 1) else HASH_NULL)\<rparr>) [0..<length (overflow h)]"
  let ?h = "h\<lparr>table := map (\<lambda>c. c\<lparr>ovf_link := HASH_FREE\<rparr>) (table h), overflow := ?ov, ovf_free := 0\<rparr>"
  have "linked ?ov (if 0 < length ?ov then int 0 else HASH_NULL) [0..<length ?ov]"
    using assms(2) by (intro linked_upt) (simp_all del: upt_Suc)
  then have free: "linked ?ov 0 [0..<length (overflow h)]" using assms(2) by simp
  have empty: "is_free ?h c" if "c < length (table h)" for c using that by (simp add: is_free_def)
  have "rep ?h (\<lambda>c. []) [0..<length (overflow h)]"
    using assms(1) free empty by (simp add: rep_def cell_ok_def)
  note inv = hash_inv_rep [OF this]
  have b: "bucket ?h c = []" if "c < length (table h)" for c using empty [OF that] by (rule bucket_free)
  have "table_ok (length (overflow h)) ?h" using inv(1) b by (simp add: table_ok_def)
  moreover have "lookup ?h = Map.empty"
    using b hash_invD(2) [OF inv(1)] by (simp add: lookup_def fun_eq_iff)
  ultimately show ?thesis using assms(2) by (intro exI [of _ ?h]) (simp add: hash_init_def)
qed


section \<open>Properties\<close>

definition raw_table :: "nat \<Rightarrow> nat \<Rightarrow> hash_t" where
  "raw_table n m = \<lparr>table = replicate n \<lparr>ovf_link = 0, tbl_data = None\<rparr>,
     overflow = replicate m \<lparr>ovf_next = 0, ovf_data = None\<rparr>, ovf_free = 0\<rparr>"

definition request :: "key \<Rightarrow> int \<Rightarrow> hash_data" where
  "request k p = \<lparr>key_of = k, group = 0, commid = 1, partner = p, tag = 0, msg_size = 8\<rparr>"

text \<open>
  C16. The request table is a map: after \<open>hash_init\<close>, for any sequence of requests started and finished in
  which the keys pending at one time differ and are at most one more than the overflow cells, every
  finished request gets the entry of its own start, an unknown key gets none, no start finds the
  table full, and nothing is left undefined.
\<close>

theorem requests_found:
  assumes "table h \<noteq> []" and "overflow h \<noteq> []" and "fits (length (overflow h)) ops Map.empty"
  shows "\<exists>h0 h1. hash_init h = Inr h0 \<and>
    run_requests hash_search hash_add hash_remove ops h0 = Inr (h1, snd (spec_run ops Map.empty)) \<and>
    (\<forall>k. hash_search h1 k = Inr (fst (spec_run ops Map.empty) k))"
proof -
  from hash_init_law [OF assms(1,2)] obtain h0 where
    h0: "hash_init h = Inr h0" "table_ok (length (overflow h)) h0" "lookup h0 = Map.empty" by auto
  from requests.run_meets_spec [OF h0(2)] assms(3) obtain h1 where
    "run_requests hash_search hash_add hash_remove ops h0 = Inr (h1, snd (spec_run ops Map.empty))"
    "table_ok (length (overflow h)) h1" "lookup h1 = fst (spec_run ops Map.empty)"
    by (auto simp: h0(3))
  then show ?thesis using h0(1) table_search_law by metis
qed

theorem requests_found_witness:
  "\<exists>h0 h1. hash_init (raw_table 2 2) = Inr h0 \<and>
    run_requests hash_search hash_add hash_remove
      [Start (request 5 1), Start (request 7 2), Start (request 9 3), Finish 7, Finish 8, Finish 5, Finish 9] h0 =
    Inr (h1, [Some (request 7 2), None, Some (request 5 1), Some (request 9 3)])"
proof -
  let ?ops = "[Start (request 5 1), Start (request 7 2), Start (request 9 3), Finish 7, Finish 8, Finish 5, Finish 9]"
  have "fits 2 ?ops Map.empty"
    by (simp add: request_def card_insert_if)
  moreover have "snd (spec_run ?ops Map.empty) = [Some (request 7 2), None, Some (request 5 1), Some (request 9 3)]"
    by (simp add: request_def)
  moreover have "table (raw_table 2 2) \<noteq> []" "length (overflow (raw_table 2 2)) = 2"
    by (simp_all add: raw_table_def)
  ultimately show ?thesis using requests_found [of "raw_table 2 2" ?ops] by fastforce
qed

text \<open>
  Adding fails only when the cell of the key is in use and no overflow cell is left, and then
  changes nothing; otherwise the new entry comes right after the first one of its cell and every
  other cell keeps its entries. The invariant on chains and free list is kept.
\<close>

theorem hash_add_bucket:
  assumes "hash_inv h" and "c = HASH_FUNCTION h (key_of d)"
  shows "\<exists>h1 full. hash_add h d = Inr (h1, full) \<and> hash_inv h1 \<and>
    full = (bucket h c \<noteq> [] \<and> free_list h = []) \<and>
    (\<forall>c' < length (table h). bucket h1 c' =
      (if c' = c \<and> \<not> full then add_entry d (bucket h c) else bucket h c'))"
  using hash_add_law [OF assms] by (auto simp: updates_def)

lemma ex_empty:
  obtains h where "hash_init (raw_table 2 2) = Inr h" "hash_inv h" "length (table h) = 2"
    "\<And>c. c < 2 \<Longrightarrow> bucket h c = []"
proof -
  have "table (raw_table 2 2) \<noteq> []" "overflow (raw_table 2 2) \<noteq> []" "length (table (raw_table 2 2)) = 2"
    by (simp_all add: raw_table_def)
  from hash_init_law [OF this(1,2)] this(3) obtain h where
    h: "hash_init (raw_table 2 2) = Inr h" "table_ok (length (overflow (raw_table 2 2))) h"
      "lookup h = Map.empty" "length (table h) = 2" by auto
  moreover have "bucket h c = []" if "c < 2" for c
    using that lookup_dom [OF h(2)] h(3,4) by auto
  ultimately show thesis using that by (simp add: table_ok_def)
qed

lemma ex_added:
  obtains h where "hash_inv h" "length (table h) = 2" "bucket h 1 = [request 5 1]" "bucket h 0 = []"
proof -
  from ex_empty obtain h where h: "hash_inv h" "length (table h) = 2" "\<And>c. c < 2 \<Longrightarrow> bucket h c = []"
    by metis
  then have "1 = HASH_FUNCTION h (key_of (request 5 1))" by (simp add: HASH_FUNCTION_def request_def)
  from hash_add_law [OF h(1) this] obtain h1 where "updates h 1 [request 5 1] h1"
    by (auto simp: h(3) add_entry_def)
  then show thesis using that [of h1] h by (simp add: updates_def)
qed

theorem hash_add_bucket_witness:
  "\<exists>h h1. hash_init (raw_table 2 2) = Inr h \<and> hash_add h (request 5 1) = Inr (h1, False) \<and>
    bucket h1 1 = [request 5 1] \<and> bucket h1 0 = []"
proof -
  from ex_empty obtain h where
    h: "hash_init (raw_table 2 2) = Inr h" "hash_inv h" "length (table h) = 2" "\<And>c. c < 2 \<Longrightarrow> bucket h c = []"
    by metis
  then have "1 = HASH_FUNCTION h (key_of (request 5 1))" by (simp add: HASH_FUNCTION_def request_def)
  from hash_add_bucket [OF h(2) this] show ?thesis using h by (auto simp: add_entry_def)
qed

text \<open>
  Removing returns whether the key was missing and takes out its first entry only; the invariant
  on chains and free list is kept.
\<close>

theorem hash_remove_bucket:
  assumes "hash_inv h" and "c = HASH_FUNCTION h k"
  shows "\<exists>h1. hash_remove h k = Inr (h1, k \<notin> key_of ` set (bucket h c)) \<and> hash_inv h1 \<and>
    (\<forall>c' < length (table h). bucket h1 c' = (if c' = c then remove_key k (bucket h c) else bucket h c'))"
  using hash_remove_law [OF assms] by (auto simp: updates_def)

theorem hash_remove_bucket_witness:
  "\<exists>h h1. bucket h 1 = [request 5 1] \<and> hash_remove h 5 = Inr (h1, False) \<and> bucket h1 1 = []"
proof -
  from ex_added obtain h where h: "hash_inv h" "length (table h) = 2" "bucket h 1 = [request 5 1]" by metis
  then have "1 = HASH_FUNCTION h 5" by (simp add: HASH_FUNCTION_def)
  from hash_remove_bucket [OF h(1) this] show ?thesis using h by (auto simp: request_def)
qed

text \<open>
  An entry added with a key that is still in the table: if the old one is the first of its cell a
  search still returns the old one, which the new request then gets at its completion.
\<close>

theorem duplicate_key_stale:
  assumes "hash_inv h" and "bucket h (HASH_FUNCTION h (key_of d)) = old # rest" and "key_of old = key_of d"
  shows "\<exists>h1 full. hash_add h d = Inr (h1, full) \<and> hash_search h1 (key_of d) = Inr (Some old)"
proof -
  from hash_add_law [OF assms(1) refl, of d] obtain h1 full where
    h1: "hash_add h d = Inr (h1, full)" "updates h (HASH_FUNCTION h (key_of d))
      (if full then bucket h (HASH_FUNCTION h (key_of d))
       else add_entry d (bucket h (HASH_FUNCTION h (key_of d)))) h1"
    by blast
  then have "HASH_FUNCTION h1 = HASH_FUNCTION h"
    by (simp add: HASH_FUNCTION_def updates_def fun_eq_iff)
  then show ?thesis using h1 assms hash_search_bucket [of h1 "key_of d"] hash_invD(2) [OF assms(1)]
    by (auto simp: updates_def add_entry_def)
qed

theorem duplicate_key_stale_witness:
  "\<exists>h h1 full. hash_add h (request 5 2) = Inr (h1, full) \<and> hash_search h1 5 = Inr (Some (request 5 1))"
proof -
  from ex_added obtain h where h: "hash_inv h" "length (table h) = 2" "bucket h 1 = [request 5 1]" by metis
  then have "bucket h (HASH_FUNCTION h (key_of (request 5 2))) = request 5 1 # []"
    by (simp add: HASH_FUNCTION_def request_def)
  from duplicate_key_stale [OF h(1) this] show ?thesis by (auto simp: request_def)
qed

end
