(* ===== verification/Time_Sync.thy ===== *)
theory Time_Sync
  imports Prelude "HOL-Library.Word"
begin

text \<open>
  The clock synchronisation of the merger (\<open>common/timesync.c\<close>): each task of each application tells
  its first time, the time of a synchronisation point and its node; one pass computes what to
  add to the times of each task. The static variables of the module are one record. All times are 64-bit
  words: the signed latencies and the unsigned times are added and subtracted modulo 2^64.
\<close>

section \<open>State\<close>

record sync_info =
  si_init :: bool
  init_time :: "64 word"
  sync_time :: "64 word"
  node_id :: nat

record ts_state =
  LatencyTable :: "64 word list list"
  SyncInfo :: "sync_info list list"
  TotalTasksToSync :: "nat list"
  NodeList :: "string list"
  TimeSync_Initialized :: bool

datatype strategy = TS_NODE | TS_TASK | TS_DEFAULT | TS_NOSYNC

definition ts_start :: ts_state where
  "ts_start = \<lparr>LatencyTable = [], SyncInfo = [], TotalTasksToSync = [], NodeList = [], TimeSync_Initialized = False\<rparr>"

text \<open>\<open>TotalAppsToSync\<close> is the length of the three tables, \<open>TotalNodes\<close> that of the node list.\<close>

section \<open>Operations\<close>

definition Get_NodeId :: "string \<Rightarrow> ts_state \<Rightarrow> nat \<times> ts_state" where
  "Get_NodeId node s = (case first_index node (NodeList s) of
      Some i \<Rightarrow> (i, s)
    | None \<Rightarrow> (length (NodeList s), s\<lparr>NodeList := NodeList s @ [node]\<rparr>))"

definition blank_info :: sync_info where
  "blank_info = \<lparr>si_init = False, init_time = 0, sync_time = 0, node_id = 0\<rparr>"

definition TimeSync_Initialize :: "int \<Rightarrow> nat list option \<Rightarrow> ts_state \<Rightarrow> ts_state result" where
  "TimeSync_Initialize num_appls num_tasks s =
     (if num_appls \<le> 0 then Inl Assertion
      else case num_tasks of
        None \<Rightarrow> Inl Assertion
      | Some ns \<Rightarrow>
          if length ns < nat num_appls then Inl Undefined
          else let ns1 = take (nat num_appls) ns in
            Inr (s\<lparr>TotalTasksToSync := ns1, LatencyTable := map (\<lambda>n. replicate n 0) ns1,
              SyncInfo := map (\<lambda>n. replicate n blank_info) ns1, TimeSync_Initialized := True\<rparr>))"

definition TimeSync_CleanUp :: "ts_state \<Rightarrow> ts_state" where
  "TimeSync_CleanUp s = s\<lparr>SyncInfo := [], LatencyTable := [], NodeList := [], TotalTasksToSync := []\<rparr>"

definition TimeSync_SetInitialTime ::
  "int \<Rightarrow> int \<Rightarrow> 64 word \<Rightarrow> 64 word \<Rightarrow> string \<Rightarrow> ts_state \<Rightarrow> ts_state result" where
  "TimeSync_SetInitialTime app task t_init t_sync node s =
     (if TimeSync_Initialized s \<and> 0 \<le> app \<and> app < int (length (TotalTasksToSync s)) \<and>
         0 \<le> task \<and> task < int (TotalTasksToSync s ! nat app)
      then let (i, s1) = Get_NodeId node s in
        Inr (s1\<lparr>SyncInfo := (SyncInfo s1)[nat app := (SyncInfo s1 ! nat app)
          [nat task := \<lparr>si_init = True, init_time = t_init, sync_time = t_sync, node_id = i\<rparr>]]\<rparr>)
      else Inl Assertion)"

text \<open>The macros \<open>MAX\<close> and \<open>MIN\<close> on unsigned times.\<close>

definition MAX_u :: "64 word \<Rightarrow> 64 word \<Rightarrow> 64 word" where
  "MAX_u a b = (if a > b then a else b)"

definition MIN_u :: "64 word \<Rightarrow> 64 word \<Rightarrow> 64 word" where
  "MIN_u a b = (if a < b then a else b)"

text \<open>A nested loop over all tasks that updates the latency table.\<close>

definition each_latency :: "(sync_info \<Rightarrow> 64 word \<Rightarrow> 64 word) \<Rightarrow> ts_state \<Rightarrow> ts_state" where
  "each_latency f s = s\<lparr>LatencyTable := map2 (map2 f) (SyncInfo s) (LatencyTable s)\<rparr>"

definition node_max :: "sync_info \<Rightarrow> 64 word list \<Rightarrow> 64 word list result" where
  "node_max i ms = (if node_id i < length ms
     then Inr (ms[node_id i := MAX_u (ms ! node_id i) (sync_time i)]) else Inl Undefined)"

definition apply_strategy :: "strategy \<Rightarrow> ts_state \<Rightarrow> ts_state result" where
  "apply_strategy strat s =
     (if strat = TS_TASK then
        let max_sync = fold (\<lambda>i m. MAX_u m (sync_time i)) (concat (SyncInfo s)) 0
        in Inr (each_latency (\<lambda>i l. max_sync - sync_time i) s)
      else if strat = TS_NODE \<or> strat = TS_DEFAULT then
        rmap (\<lambda>per_node.
          let max_sync = fold (\<lambda>m mx. MAX_u mx m) per_node 0
          in each_latency (\<lambda>i l. max_sync - per_node ! node_id i) s)
          (rfold node_max (concat (SyncInfo s)) (replicate (length (NodeList s)) 0))
      else Inr s)"

text \<open>All tasks as pairs of their information and their latency, in the order of the loops.\<close>

definition all_tasks :: "ts_state \<Rightarrow> (sync_info \<times> 64 word) list" where
  "all_tasks s = concat (map2 zip (SyncInfo s) (LatencyTable s))"

definition start_at_zero :: "ts_state \<Rightarrow> ts_state result" where
  "start_at_zero s =
     (case SyncInfo s of
        (i0 # is) # iss \<Rightarrow>
          let first = init_time i0 + LatencyTable s ! 0 ! 0;
              min_init = fold (\<lambda>(i, l) m. MIN_u m (init_time i + l)) (all_tasks s) first
          in Inr (each_latency (\<lambda>i l. l - min_init) s)
      | _ \<Rightarrow> Inl Undefined)"

text \<open>The number is what the function returns; 0 when a task was not initialised.\<close>

definition TimeSync_CalculateLatencies :: "strategy \<Rightarrow> ts_state \<Rightarrow> (ts_state \<times> int) result" where
  "TimeSync_CalculateLatencies strat s =
     (if \<exists>i \<in> set (concat (SyncInfo s)). \<not> si_init i then Inr (s, 0)
      else rbind (apply_strategy strat s) (\<lambda>s1. rmap (\<lambda>s2. (s2, 1)) (start_at_zero s1)))"

definition latency :: "ts_state \<Rightarrow> nat \<Rightarrow> nat \<Rightarrow> 64 word result" where
  "latency s app task = (if app < length (LatencyTable s) \<and> task < length (LatencyTable s ! app)
     then Inr (LatencyTable s ! app ! task) else Inl Undefined)"

definition TimeSync :: "ts_state \<Rightarrow> nat \<Rightarrow> nat \<Rightarrow> 64 word \<Rightarrow> 64 word result" where
  "TimeSync s app task t = rmap (\<lambda>l. t + l) (latency s app task)"

definition TimeDesync :: "ts_state \<Rightarrow> nat \<Rightarrow> nat \<Rightarrow> 64 word \<Rightarrow> 64 word result" where
  "TimeDesync s app task t = rmap (\<lambda>l. t - l) (latency s app task)"

end
