(* ===== verification/Time_Sync_Correct.thy ===== *)
theory Time_Sync_Correct
  imports Time_Sync
begin

text \<open>
  What the synchronisation achieves: the shape invariant of the tables, the reference points of the
  two strategies meet, and the earliest start becomes time zero.
\<close>

section \<open>Shape\<close>

definition is_task :: "ts_state \<Rightarrow> nat \<Rightarrow> nat \<Rightarrow> bool" where
  "is_task s a t \<longleftrightarrow> a < length (SyncInfo s) \<and> t < length (SyncInfo s ! a)"

definition ts_ok :: "ts_state \<Rightarrow> bool" where
  "ts_ok s \<longleftrightarrow> map length (SyncInfo s) = TotalTasksToSync s \<and>
     map length (LatencyTable s) = TotalTasksToSync s \<and>
     (\<forall>i \<in> set (concat (SyncInfo s)). si_init i \<longrightarrow> node_id i < length (NodeList s))"

abbreviation info :: "ts_state \<Rightarrow> nat \<Rightarrow> nat \<Rightarrow> sync_info" where
  "info s a t \<equiv> SyncInfo s ! a ! t"

abbreviation lat :: "ts_state \<Rightarrow> nat \<Rightarrow> nat \<Rightarrow> 64 word" where
  "lat s a t \<equiv> LatencyTable s ! a ! t"

lemma ts_ok_lengths:
  assumes "ts_ok s"
  shows "length (LatencyTable s) = length (SyncInfo s)"
    and "a < length (SyncInfo s) \<Longrightarrow> length (LatencyTable s ! a) = length (SyncInfo s ! a)"
proof -
  have e: "map length (LatencyTable s) = map length (SyncInfo s)" using assms by (simp add: ts_ok_def)
  then show l: "length (LatencyTable s) = length (SyncInfo s)" using map_eq_imp_length_eq by blast
  show "length (LatencyTable s ! a) = length (SyncInfo s ! a)" if "a < length (SyncInfo s)"
    using arg_cong [OF e, of "\<lambda>xs. xs ! a"] that l by simp
qed

lemma concat_tasks: "i \<in> set (concat (SyncInfo s)) \<longleftrightarrow> (\<exists>a t. is_task s a t \<and> i = info s a t)"
  by (force simp: is_task_def in_set_conv_nth)

lemma ts_ok_latency:
  "ts_ok s \<Longrightarrow> is_task s a t \<Longrightarrow> latency s a t = Inr (lat s a t)"
  by (simp add: latency_def is_task_def ts_ok_lengths)

lemma each_latency_ok:
  assumes "ts_ok s"
  shows "ts_ok (each_latency f s)" "SyncInfo (each_latency f s) = SyncInfo s"
    "is_task s a t \<Longrightarrow> lat (each_latency f s) a t = f (info s a t) (lat s a t)"
proof -
  note l = ts_ok_lengths [OF assms]
  show "SyncInfo (each_latency f s) = SyncInfo s" by (simp add: each_latency_def)
  have "map length (LatencyTable (each_latency f s)) = map length (LatencyTable s)"
    using l by (intro nth_equalityI) (simp_all add: each_latency_def)
  then show "ts_ok (each_latency f s)" using assms by (simp add: ts_ok_def each_latency_def)
  show "lat (each_latency f s) a t = f (info s a t) (lat s a t)" if "is_task s a t"
    using that l by (simp add: each_latency_def is_task_def)
qed

section \<open>Maxima and minima\<close>

lemma MAX_u_max: "MAX_u m x = max x m" and MIN_u_min: "MIN_u m x = min x m"
  by (auto simp: MAX_u_def MIN_u_def max_def min_def)

lemma fold_MAX: "fold (\<lambda>x m. MAX_u m (g x)) xs m = Max (insert m (g ` set xs))"
  using Max.set_eq_fold [of m "map g xs"] by (simp add: MAX_u_max fold_map comp_def)

lemma fold_MIN: "fold (\<lambda>x m. MIN_u m (g x)) xs m = Min (insert m (g ` set xs))"
  using Min.set_eq_fold [of m "map g xs"] by (simp add: MIN_u_min fold_map comp_def)

text \<open>The maxima per node, one fold over the tasks of the node.\<close>

lemma rfold_node_max:
  assumes "\<forall>i \<in> set is. node_id i < length ms"
  shows "\<exists>ms1. rfold node_max is ms = Inr ms1 \<and> length ms1 = length ms \<and>
    (\<forall>n < length ms. ms1 ! n = fold (\<lambda>i m. MAX_u m (sync_time i)) (filter (\<lambda>i. node_id i = n) is) (ms ! n))"
  using assms
proof (induction "is" arbitrary: ms)
  case (Cons i "is")
  let ?ms = "ms[node_id i := MAX_u (ms ! node_id i) (sync_time i)]"
  from Cons.prems have i: "node_id i < length ms" by simp
  from Cons.IH [of ?ms] Cons.prems obtain ms1 where
    "rfold node_max is ?ms = Inr ms1" "length ms1 = length ms"
    "\<forall>n < length ms. ms1 ! n = fold (\<lambda>i m. MAX_u m (sync_time i)) (filter (\<lambda>i. node_id i = n) is) (?ms ! n)"
    by auto
  moreover have "node_max i ms = Inr ?ms" using i by (simp add: node_max_def)
  ultimately show ?case using i by (auto simp: nth_list_update)
qed simp

lemma all_tasks_iff:
  assumes "ts_ok s"
  shows "x \<in> set (all_tasks s) \<longleftrightarrow> (\<exists>a t. is_task s a t \<and> x = (info s a t, lat s a t))"
proof
  assume "x \<in> set (all_tasks s)"
  then obtain ps where "ps \<in> set (map2 zip (SyncInfo s) (LatencyTable s))" "x \<in> set ps"
    by (auto simp: all_tasks_def)
  then obtain a t where "a < length (SyncInfo s)" "ps = zip (SyncInfo s ! a) (LatencyTable s ! a)"
      "t < length ps" "x = ps ! t"
    using ts_ok_lengths(1) [OF assms] by (auto simp: in_set_conv_nth)
  then show "\<exists>a t. is_task s a t \<and> x = (info s a t, lat s a t)"
    by (intro exI [of _ a] exI [of _ t]) (simp add: is_task_def)
next
  assume "\<exists>a t. is_task s a t \<and> x = (info s a t, lat s a t)"
  then obtain a t where at: "is_task s a t" "x = (info s a t, lat s a t)" by auto
  then have "x = map2 zip (SyncInfo s) (LatencyTable s) ! a ! t"
      "a < length (map2 zip (SyncInfo s) (LatencyTable s))"
      "t < length (map2 zip (SyncInfo s) (LatencyTable s) ! a)"
    using ts_ok_lengths [OF assms] by (simp_all add: is_task_def)
  then show "x \<in> set (all_tasks s)" unfolding all_tasks_def set_concat
    by (metis UN_I nth_mem)
qed

section \<open>The two passes\<close>

lemma start_at_zero_law:
  assumes ok: "ts_ok s" and first: "is_task s 0 0"
  shows "\<exists>m s1. start_at_zero s = Inr s1 \<and> ts_ok s1 \<and> SyncInfo s1 = SyncInfo s \<and>
    (\<forall>a t. is_task s a t \<longrightarrow> lat s1 a t = lat s a t - m \<and> m \<le> init_time (info s a t) + lat s a t) \<and>
    (\<exists>a t. is_task s a t \<and> m = init_time (info s a t) + lat s a t)"
proof -
  from first obtain i0 "is" iss where s: "SyncInfo s = (i0 # is) # iss"
    by (cases "SyncInfo s"; cases "hd (SyncInfo s)") (auto simp: is_task_def)
  let ?g = "\<lambda>(i, l). init_time i + l"
  let ?S = "insert (init_time i0 + lat s 0 0) (?g ` set (all_tasks s))"
  let ?m = "Min ?S"
  have start: "start_at_zero s = Inr (each_latency (\<lambda>i l. l - ?m) s)"
    using fold_MIN [of ?g "all_tasks s"] by (simp add: start_at_zero_def s Let_def case_prod_unfold)
  have "?m \<in> ?S" by (intro Min_in) auto
  moreover have "(i0, lat s 0 0) \<in> set (all_tasks s)"
    using all_tasks_iff [OF ok] first s by force
  ultimately have "\<exists>x \<in> set (all_tasks s). ?m = ?g x" by force
  then have "\<exists>a t. is_task s a t \<and> ?m = init_time (info s a t) + lat s a t"
    using all_tasks_iff [OF ok] by fastforce
  moreover have "?m \<le> init_time (info s a t) + lat s a t" if "is_task s a t" for a t
  proof (rule Min_le)
    have "(info s a t, lat s a t) \<in> set (all_tasks s)" using all_tasks_iff [OF ok] that by auto
    then show "init_time (info s a t) + lat s a t \<in> ?S" by force
  qed simp
  ultimately show ?thesis using start each_latency_ok [OF ok] by auto
qed

text \<open>The latest synchronisation point, of all tasks or of those of a node.\<close>

definition latest :: "ts_state \<Rightarrow> 64 word" where
  "latest s = Max (insert 0 (sync_time ` set (concat (SyncInfo s))))"

definition latest_on :: "ts_state \<Rightarrow> nat \<Rightarrow> 64 word" where
  "latest_on s n = Max (insert 0 (sync_time ` {i \<in> set (concat (SyncInfo s)). node_id i = n}))"

definition reference :: "strategy \<Rightarrow> ts_state \<Rightarrow> sync_info \<Rightarrow> 64 word" where
  "reference strat s i = (if strat = TS_TASK then sync_time i else latest_on s (node_id i))"

lemma latest_on_le: "latest_on s n \<le> latest s"
  unfolding latest_on_def latest_def by (intro Max_mono) auto

lemma latest_nodes:
  assumes "\<forall>i \<in> set (concat (SyncInfo s)). node_id i < length ms" and "\<forall>n < length ms. ms ! n = latest_on s n"
  shows "Max (insert 0 (set ms)) = latest s"
proof (rule antisym)
  show "Max (insert 0 (set ms)) \<le> latest s"
    using assms(2) latest_on_le by (auto simp: in_set_conv_nth)
  have "sync_time i \<le> Max (insert 0 (set ms))" if i: "i \<in> set (concat (SyncInfo s))" for i
  proof -
    have "sync_time i \<le> latest_on s (node_id i)" unfolding latest_on_def using i by (intro Max_ge) auto
    also have "\<dots> \<in> set ms" using assms i by (metis nth_mem)
    then have "latest_on s (node_id i) \<le> Max (insert 0 (set ms))" by (intro Max_ge) auto
    finally show ?thesis .
  qed
  then show "latest s \<le> Max (insert 0 (set ms))" unfolding latest_def by auto
qed

lemma apply_strategy_law:
  assumes ok: "ts_ok s" and init: "\<forall>i \<in> set (concat (SyncInfo s)). si_init i" and strat: "strat \<noteq> TS_NOSYNC"
  shows "\<exists>s1. apply_strategy strat s = Inr s1 \<and> ts_ok s1 \<and> SyncInfo s1 = SyncInfo s \<and>
    (\<forall>a t. is_task s a t \<longrightarrow> lat s1 a t = latest s - reference strat s (info s a t))"
proof (cases "strat = TS_TASK")
  case True
  let ?f = "\<lambda>i (l :: 64 word). latest s - sync_time i"
  have "apply_strategy strat s = Inr (each_latency ?f s)"
    using True by (simp add: apply_strategy_def latest_def fold_MAX Let_def)
  then show ?thesis using each_latency_ok [OF ok, where f = ?f] True
    by (simp add: reference_def)
next
  case False
  let ?z = "replicate (length (NodeList s)) (0 :: 64 word)"
  have bound: "\<forall>i \<in> set (concat (SyncInfo s)). node_id i < length ?z"
    using ok init by (simp add: ts_ok_def)
  from rfold_node_max [OF this] obtain ms where
    ms: "rfold node_max (concat (SyncInfo s)) ?z = Inr ms" "length ms = length (NodeList s)"
      "\<forall>n < length (NodeList s). ms ! n = latest_on s n"
    by (auto simp: fold_MAX latest_on_def)
  let ?c = "fold (\<lambda>m mx. MAX_u mx m) ms 0"
  let ?f = "\<lambda>i (l :: 64 word). ?c - ms ! node_id i"
  have "strat = TS_NODE \<or> strat = TS_DEFAULT" using False strat by (cases strat) simp_all
  then have app: "apply_strategy strat s = Inr (each_latency ?f s)"
    using False ms(1) by (auto simp: apply_strategy_def Let_def)
  have ref: "ms ! node_id (info s a t) = reference strat s (info s a t)" if "is_task s a t" for a t
    using that ms(3) bound False concat_tasks [of "info s a t" s] by (auto simp: reference_def)
  have "?c = latest s" using fold_MAX [of "\<lambda>m. m" ms 0] latest_nodes [of s ms] bound ms(2,3) by simp
  then show ?thesis using app each_latency_ok [OF ok, where f = ?f] ref by simp
qed

text \<open>
  The start of a task on the common clock: its first time moved as its reference point has to be for all of these to
  fall on the latest synchronisation point.
\<close>

definition start_on_clock :: "strategy \<Rightarrow> ts_state \<Rightarrow> nat \<Rightarrow> nat \<Rightarrow> 64 word" where
  "start_on_clock strat s a t = init_time (info s a t) + (latest s - reference strat s (info s a t))"

lemma calculate_law:
  assumes ok: "ts_ok s" and init: "\<forall>i \<in> set (concat (SyncInfo s)). si_init i"
    and strat: "strat \<noteq> TS_NOSYNC" and first: "is_task s 0 0"
  shows "\<exists>s1 a0 t0. TimeSync_CalculateLatencies strat s = Inr (s1, 1) \<and> ts_ok s1 \<and> SyncInfo s1 = SyncInfo s \<and>
    is_task s a0 t0 \<and>
    (\<forall>a t. is_task s a t \<longrightarrow> start_on_clock strat s a0 t0 \<le> start_on_clock strat s a t \<and>
      lat s1 a t = latest s - reference strat s (info s a t) - start_on_clock strat s a0 t0)"
proof -
  from apply_strategy_law [OF ok init strat] obtain s1 where
    s1: "apply_strategy strat s = Inr s1" "ts_ok s1" "SyncInfo s1 = SyncInfo s"
      "\<forall>a t. is_task s a t \<longrightarrow> lat s1 a t = latest s - reference strat s (info s a t)" by auto
  have task: "is_task s1 = is_task s" by (simp add: is_task_def fun_eq_iff s1(3))
  have clock: "init_time (info s a t) + lat s1 a t = start_on_clock strat s a t" if "is_task s a t" for a t
    using that s1(4) by (simp add: start_on_clock_def)
  from start_at_zero_law [OF s1(2)] first obtain m s2 a0 t0 where
    s2: "start_at_zero s1 = Inr s2" "ts_ok s2" "SyncInfo s2 = SyncInfo s"
      "\<forall>a t. is_task s a t \<longrightarrow> lat s2 a t = lat s1 a t - m \<and> m \<le> init_time (info s a t) + lat s1 a t"
      "is_task s a0 t0" "m = init_time (info s a0 t0) + lat s1 a0 t0"
    by (auto simp: task s1(3))
  have "TimeSync_CalculateLatencies strat s = Inr (s2, 1)"
    using init s1(1) s2(1) by (auto simp: TimeSync_CalculateLatencies_def)
  moreover have "m = start_on_clock strat s a0 t0" using s2(5,6) clock by simp
  ultimately show ?thesis using s2(2-5) s1(4) clock by (intro exI [of _ s2] exI [of _ a0] exI [of _ t0]) auto
qed

section \<open>Setting up\<close>

lemma Initialize_ok:
  assumes "TimeSync_Initialize n ns s = Inr s1"
  shows "ts_ok s1" and "NodeList s1 = NodeList s"
  using assms
  by (auto simp: TimeSync_Initialize_def Let_def ts_ok_def blank_info_def comp_def
      split: if_splits option.splits)

lemma Get_NodeId_law:
  assumes "Get_NodeId node s = (i, s1)" and "distinct (NodeList s)"
  shows "i < length (NodeList s1)" "NodeList s1 ! i = node" "distinct (NodeList s1)"
    "\<exists>ns. NodeList s1 = NodeList s @ ns" "SyncInfo s1 = SyncInfo s" "LatencyTable s1 = LatencyTable s"
    "TotalTasksToSync s1 = TotalTasksToSync s"
  using assms
  by (auto simp: Get_NodeId_def nth_append first_index_None_iff dest: first_index_SomeD split: option.splits)

text \<open>The node of a task that was set is the one last given for it.\<close>

definition named :: "ts_state \<Rightarrow> bool" where
  "named s \<longleftrightarrow> ts_ok s \<and> distinct (NodeList s)"

lemma SetInitialTime_law:
  assumes set: "TimeSync_SetInitialTime app task t_init t_sync node s = Inr s1" and inv: "named s"
  shows "named s1" and "is_task s1 = is_task s"
    and "info s1 (nat app) (nat task) =
      \<lparr>si_init = True, init_time = t_init, sync_time = t_sync, node_id = node_id (info s1 (nat app) (nat task))\<rparr>"
    and "NodeList s1 ! node_id (info s1 (nat app) (nat task)) = node"
    and "is_task s (nat app) (nat task)"
    and "is_task s a t \<Longrightarrow> (a, t) \<noteq> (nat app, nat task) \<Longrightarrow> info s1 a t = info s a t"
proof -
  obtain i s2 where get: "Get_NodeId node s = (i, s2)" by force
  note g = Get_NodeId_law [OF get conjunct2 [OF inv [unfolded named_def]]]
  have ok: "ts_ok s" using inv by (simp add: named_def)
  let ?new = "\<lparr>si_init = True, init_time = t_init, sync_time = t_sync, node_id = i\<rparr>"
  from set have guard: "nat app < length (TotalTasksToSync s)" "nat task < TotalTasksToSync s ! nat app"
    and s1: "s1 = s2\<lparr>SyncInfo := (SyncInfo s)[nat app := (SyncInfo s ! nat app)[nat task := ?new]]\<rparr>"
    by (auto simp: TimeSync_SetInitialTime_def get g(5) nat_less_iff split: if_splits)
  have len: "map length (SyncInfo s) = TotalTasksToSync s" using ok by (simp add: ts_ok_def)
  then have task: "nat app < length (SyncInfo s)" "nat task < length (SyncInfo s ! nat app)"
    using guard by (metis length_map, metis guard(1) length_map nth_map)
  show "is_task s (nat app) (nat task)" using task by (simp add: is_task_def)
  show "is_task s1 = is_task s"
    using task by (auto simp: is_task_def s1 nth_list_update fun_eq_iff)
  have here: "info s1 (nat app) (nat task) = ?new" using task by (simp add: s1)
  show "info s1 (nat app) (nat task) =
      \<lparr>si_init = True, init_time = t_init, sync_time = t_sync, node_id = node_id (info s1 (nat app) (nat task))\<rparr>"
    by (simp add: here)
  show "NodeList s1 ! node_id (info s1 (nat app) (nat task)) = node"
    unfolding here using g(2) by (simp add: s1)
  show other: "info s1 a t = info s a t" if "is_task s a t" "(a, t) \<noteq> (nat app, nat task)" for a t
    using that task by (auto simp: s1 nth_list_update is_task_def)
  have "map length (SyncInfo s1) = map length (SyncInfo s)"
    using task by (intro nth_equalityI) (auto simp: s1 nth_list_update)
  moreover have "\<forall>x \<in> set (concat (SyncInfo s1)). si_init x \<longrightarrow> node_id x < length (NodeList s1)"
  proof (intro ballI impI)
    fix x
    assume "x \<in> set (concat (SyncInfo s1))" "si_init x"
    then obtain a t where at: "is_task s a t" "x = info s1 a t"
      unfolding concat_tasks \<open>is_task s1 = is_task s\<close> by auto
    show "node_id x < length (NodeList s1)"
    proof (cases "(a, t) = (nat app, nat task)")
      case True
      then show ?thesis using at here g(1) by (simp add: s1)
    next
      case False
      then have "x \<in> set (concat (SyncInfo s))" using at other concat_tasks by blast
      then have "node_id x < length (NodeList s)" using ok \<open>si_init x\<close> unfolding ts_ok_def by blast
      then show ?thesis using g(4) by (auto simp: s1)
    qed
  qed
  ultimately show "named s1" using ok g(3,6,7) by (simp add: named_def ts_ok_def s1)
qed

type_synonym set_call = "int \<times> int \<times> 64 word \<times> 64 word \<times> string"

fun set_time :: "set_call \<Rightarrow> ts_state \<Rightarrow> ts_state result" where
  "set_time (app, task, t_init, t_sync, node) s = TimeSync_SetInitialTime app task t_init t_sync node s"

lemma set_times_named: "named s \<Longrightarrow> rfold set_time calls s = Inr s1 \<Longrightarrow> named s1 \<and> is_task s1 = is_task s"
proof (induction calls arbitrary: s)
  case (Cons call calls)
  from Cons.prems(2) obtain s2 where s2: "set_time call s = Inr s2" "rfold set_time calls s2 = Inr s1"
    by auto
  then have "named s2 \<and> is_task s2 = is_task s"
    using Cons.prems(1) SetInitialTime_law(1,2) by (cases call) auto
  then show ?case using Cons.IH [OF _ s2(2)] by simp
qed simp

section \<open>Properties\<close>

text \<open>
  C37. Whatever is set after the initialisation, the tables keep their shape, no node is named twice
  and the node of every task that was set is in the list; the operations never index outside it.
\<close>

theorem time_sync_invariant:
  assumes "TimeSync_Initialize n ns ts_start = Inr s0" and "rfold set_time calls s0 = Inr s"
  shows "ts_ok s \<and> distinct (NodeList s) \<and> is_task s = is_task s0"
proof -
  have "named s0" using Initialize_ok [OF assms(1)] by (simp add: named_def ts_start_def)
  then show ?thesis using set_times_named [OF _ assms(2)] by (simp add: named_def)
qed

text \<open>The example of the sources.\<close>

definition ex_calls :: "set_call list" where
  "ex_calls = [(0, 0, 20, 80, ''node1''), (0, 1, 10, 30, ''node1''), (0, 2, 5, 75, ''node2''),
     (0, 3, 15, 60, ''node2'')]"

definition ex_synced :: ts_state where
  "ex_synced = \<lparr>LatencyTable = [[0, 0, 0, 0]],
     SyncInfo = [[\<lparr>si_init = True, init_time = 20, sync_time = 80, node_id = 0\<rparr>,
       \<lparr>si_init = True, init_time = 10, sync_time = 30, node_id = 0\<rparr>,
       \<lparr>si_init = True, init_time = 5, sync_time = 75, node_id = 1\<rparr>,
       \<lparr>si_init = True, init_time = 15, sync_time = 60, node_id = 1\<rparr>]],
     TotalTasksToSync = [4], NodeList = [''node1'', ''node2''], TimeSync_Initialized = True\<rparr>"

lemma ex_synced_eval:
  "rbind (TimeSync_Initialize 1 (Some [4]) ts_start) (rfold set_time ex_calls) = Inr ex_synced"
  by (simp add: TimeSync_Initialize_def ts_start_def Let_def ex_calls_def TimeSync_SetInitialTime_def
      Get_NodeId_def ex_synced_def blank_info_def numeral_eq_Suc)

theorem time_sync_invariant_witness:
  "ts_ok ex_synced \<and> distinct (NodeList ex_synced)"
  using ex_synced_eval time_sync_invariant [of 1 "Some [4]" _ ex_calls ex_synced]
  by (auto simp: result_simps)

text \<open>
  C24. When every task was set, the calculation succeeds and the corrected times agree: by task, the
  synchronisation points of all tasks get one common time; by node, the latest synchronisation
  point of every node does, all tasks of a node being moved alike. The task that starts earliest on the common clock
  starts at time zero and every other one as much later as it does on that clock, and desynchronising a
  synchronised time gives it back. Times are 64-bit words, compared unsigned as the code does; no hypothesis on
  overflow is needed.
\<close>

theorem sync_points_meet:
  assumes "ts_ok s" and "\<forall>i \<in> set (concat (SyncInfo s)). si_init i" and "strat \<noteq> TS_NOSYNC" and "is_task s 0 0"
  shows "\<exists>s1 c a0 t0. TimeSync_CalculateLatencies strat s = Inr (s1, 1) \<and>
    (\<forall>a t. is_task s a t \<longrightarrow> TimeSync s1 a t (reference strat s (info s a t)) = Inr c) \<and>
    is_task s a0 t0 \<and>
    (\<forall>a t. is_task s a t \<longrightarrow> start_on_clock strat s a0 t0 \<le> start_on_clock strat s a t \<and>
      TimeSync s1 a t (init_time (info s a t)) = Inr (start_on_clock strat s a t - start_on_clock strat s a0 t0)) \<and>
    (\<forall>a t x. is_task s a t \<longrightarrow> rbind (TimeSync s1 a t x) (TimeDesync s1 a t) = Inr x)"
proof -
  from calculate_law [OF assms] obtain s1 a0 t0 where
    s1: "TimeSync_CalculateLatencies strat s = Inr (s1, 1)" "ts_ok s1" "SyncInfo s1 = SyncInfo s" "is_task s a0 t0"
      "\<forall>a t. is_task s a t \<longrightarrow> start_on_clock strat s a0 t0 \<le> start_on_clock strat s a t \<and>
        lat s1 a t = latest s - reference strat s (info s a t) - start_on_clock strat s a0 t0" by auto
  let ?m = "start_on_clock strat s a0 t0"
  have l: "latency s1 a t = Inr (latest s - reference strat s (info s a t) - ?m)" if "is_task s a t" for a t
    using that s1(5) ts_ok_latency [OF s1(2)] by (simp add: is_task_def s1(3))
  have "TimeSync s1 a t (reference strat s (info s a t)) = Inr (latest s - ?m)" if "is_task s a t" for a t
    using l [OF that] by (simp add: TimeSync_def)
  moreover have "TimeSync s1 a t (init_time (info s a t)) = Inr (start_on_clock strat s a t - ?m)" if "is_task s a t" for a t
    unfolding TimeSync_def l [OF that] rmap_simps
    by (simp only: start_on_clock_def [of strat s a t] sum.inject add_diff_eq)
  moreover have "rbind (TimeSync s1 a t x) (TimeDesync s1 a t) = Inr x" if "is_task s a t" for a t x
    using l [OF that] by (simp add: TimeSync_def TimeDesync_def)
  ultimately show ?thesis using s1(1,4,5)
    by (intro exI [of _ s1] exI [of _ "latest s - ?m"] exI [of _ a0] exI [of _ t0]) blast
qed

theorem sync_points_meet_witness:
  "\<exists>s1 c. TimeSync_CalculateLatencies TS_NODE ex_synced = Inr (s1, 1) \<and>
    TimeSync s1 0 0 80 = Inr c \<and> TimeSync s1 0 2 75 = Inr c"
proof -
  have t: "is_task ex_synced a t \<longleftrightarrow> a = 0 \<and> t < 4" for a t
    by (auto simp: is_task_def ex_synced_def)
  have "ts_ok ex_synced" and "\<forall>i \<in> set (concat (SyncInfo ex_synced)). si_init i"
    by (simp_all add: ts_ok_def ex_synced_def)
  from sync_points_meet [OF this, of TS_NODE] obtain s1 c where
    s1: "TimeSync_CalculateLatencies TS_NODE ex_synced = Inr (s1, 1)"
      "\<forall>a t. is_task ex_synced a t \<longrightarrow> TimeSync s1 a t (reference TS_NODE ex_synced (info ex_synced a t)) = Inr c"
    by (auto simp: t)
  have "reference TS_NODE ex_synced (info ex_synced 0 0) = 80" "reference TS_NODE ex_synced (info ex_synced 0 2) = 75"
    by (simp_all add: reference_def latest_on_def ex_synced_def Collect_conv_if Collect_disj_eq conj_disj_distribR)
  moreover have "is_task ex_synced 0 0" "is_task ex_synced 0 2" by (simp_all add: t)
  ultimately show ?thesis using s1 by (intro exI [of _ s1] exI [of _ c]) metis
qed

end
