(* ===== verification/New_Queue.thy ===== *)
theory New_Queue
  imports Prelude
begin

text \<open>
  The growable queue of the merger (\<open>common/new-queue.c\<close>): an array of equal elements that grows by
  a fixed number of cells, and is searched and shortened in the middle. A cell is one element, so
  \<open>SizeOfElement\<close> is left out; a pointer to an element is its index. The interface the clients
  use is the locale \<open>element_queue\<close>.
\<close>

section \<open>The queue of the sources\<close>

record 'a new_queue =
  q_data :: "'a option list"
  NumOfElements :: int
  ElementsPerAllocation :: nat

text \<open>\<open>ElementsAllocated\<close> is the length of \<open>q_data\<close>.\<close>

abbreviation ElementsAllocated :: "'a new_queue \<Rightarrow> nat" where
  "ElementsAllocated q \<equiv> length (q_data q)"

definition NewQueue_create :: "nat \<Rightarrow> 'a new_queue" where
  "NewQueue_create n = \<lparr>q_data = [], NumOfElements = 0, ElementsPerAllocation = n\<rparr>"

definition NewQueue_clear :: "'a new_queue \<Rightarrow> 'a new_queue" where
  "NewQueue_clear q = q\<lparr>NumOfElements := 0\<rparr>"

definition grow :: "'a new_queue \<Rightarrow> 'a new_queue" where
  "grow q = (if NumOfElements q = int (ElementsAllocated q)
     then q\<lparr>q_data := q_data q @ replicate (ElementsPerAllocation q) None\<rparr> else q)"

text \<open>A negative number of elements gives an offset far outside the array.\<close>

definition NewQueue_add :: "'a \<Rightarrow> 'a new_queue \<Rightarrow> 'a new_queue result" where
  "NewQueue_add x q =
     (let q1 = grow q in
      if NumOfElements q1 < 0 then Inl Undefined
      else rmap (\<lambda>d. q1\<lparr>q_data := d, NumOfElements := NumOfElements q1 + 1\<rparr>)
             (cell_set (q_data q1) (nat (NumOfElements q1)) x))"

fun search_from :: "('a \<Rightarrow> bool) \<Rightarrow> nat \<Rightarrow> nat \<Rightarrow> 'a option list \<Rightarrow> nat option result" where
  "search_from match i 0 d = Inr None"
| "search_from match i (Suc n) d =
     rbind (cell d i) (\<lambda>x. if match x then Inr (Some i) else search_from match (Suc i) n d)"

definition NewQueue_search :: "('a \<Rightarrow> bool) \<Rightarrow> 'a new_queue \<Rightarrow> nat option result" where
  "NewQueue_search match q = search_from match 0 (nat (NumOfElements q)) (q_data q)"

text \<open>Copying the next cell over a cell; the next cell may never have been written.\<close>

definition copy_next :: "nat \<Rightarrow> 'a option list \<Rightarrow> 'a option list result" where
  "copy_next i d = (if Suc i < length d then Inr (d[i := d ! Suc i]) else Inl Undefined)"

text \<open>The loop after the first copy, for a queue of \<open>n\<close> elements.\<close>

function shift_loop :: "nat \<Rightarrow> nat \<Rightarrow> 'a option list \<Rightarrow> 'a option list result" where
  "shift_loop i n d =
     (if int i < int n - 1 then rbind (copy_next (Suc i) d) (shift_loop (Suc i) n) else Inr d)"
  by pat_completeness auto
termination by (relation "measure (\<lambda>(i, n, d). n - i)") auto

declare shift_loop.simps [simp del]

definition NewQueue_delete :: "nat \<Rightarrow> 'a new_queue \<Rightarrow> 'a new_queue result" where
  "NewQueue_delete p q =
     (let n = nat (NumOfElements q) in
      rmap (\<lambda>d. q\<lparr>q_data := d, NumOfElements := NumOfElements q - 1\<rparr>)
        (if p < n \<and> int p < int n - 1
         then rbind (copy_next p (q_data q)) (shift_loop p n) else Inr (q_data q)))"

section \<open>Contents\<close>

definition queue_ok :: "'a new_queue \<Rightarrow> bool" where
  "queue_ok q \<longleftrightarrow> 0 \<le> NumOfElements q \<and> NumOfElements q \<le> int (ElementsAllocated q) \<and>
     0 < ElementsPerAllocation q \<and> (\<forall>i < nat (NumOfElements q). q_data q ! i \<noteq> None)"

definition queue_contents :: "'a new_queue \<Rightarrow> 'a list" where
  "queue_contents q = map the (take (nat (NumOfElements q)) (q_data q))"

lemma queue_length: "queue_ok q \<Longrightarrow> length (queue_contents q) = nat (NumOfElements q)"
  by (auto simp: queue_ok_def queue_contents_def)

lemma queue_nth: "queue_ok q \<Longrightarrow> i < nat (NumOfElements q) \<Longrightarrow> q_data q ! i = Some (queue_contents q ! i)"
  by (auto simp: queue_ok_def queue_contents_def)

lemma create_ok: "0 < n \<Longrightarrow> queue_ok (NewQueue_create n) \<and> queue_contents (NewQueue_create n) = []"
  by (simp add: queue_ok_def queue_contents_def NewQueue_create_def)

lemma clear_ok: "queue_ok q \<Longrightarrow> queue_ok (NewQueue_clear q) \<and> queue_contents (NewQueue_clear q) = []"
  by (simp add: queue_ok_def queue_contents_def NewQueue_clear_def)

lemma grow_ok:
  assumes "queue_ok q"
  shows "queue_ok (grow q)" "queue_contents (grow q) = queue_contents q"
    "NumOfElements (grow q) < int (ElementsAllocated (grow q))" "NumOfElements (grow q) = NumOfElements q"
    "ElementsPerAllocation (grow q) = ElementsPerAllocation q"
  using assms by (auto simp: grow_def queue_ok_def queue_contents_def nth_append)

text \<open>Adding never fails and appends.\<close>

lemma add_law:
  assumes "queue_ok q"
  shows "\<exists>q1. NewQueue_add x q = Inr q1 \<and> queue_ok q1 \<and> queue_contents q1 = queue_contents q @ [x]"
proof -
  note g = grow_ok [OF assms]
  let ?n = "nat (NumOfElements (grow q))"
  let ?q = "(grow q)\<lparr>q_data := (q_data (grow q))[?n := Some x], NumOfElements := NumOfElements (grow q) + 1\<rparr>"
  have n: "0 \<le> NumOfElements (grow q)" "?n < ElementsAllocated (grow q)"
    using g(1,3) by (auto simp: queue_ok_def)
  then have "NewQueue_add x q = Inr ?q" by (simp add: NewQueue_add_def cell_set_def Let_def)
  moreover have "queue_ok ?q"
    using g(1) n by (auto simp: queue_ok_def nth_list_update less_Suc_eq nat_add_distrib)
  moreover have "nat (NumOfElements (grow q) + 1) = Suc ?n" using n(1) by simp
  then have "queue_contents ?q = queue_contents (grow q) @ [x]"
    using n by (simp add: queue_contents_def take_Suc_conv_app_nth)
  ultimately show ?thesis using g(2) by auto
qed

lemma search_from_law:
  assumes "\<And>j. j < n \<Longrightarrow> i + j < length d \<and> d ! (i + j) = Some (xs ! j)" and "length xs = n"
  shows "search_from match i n d = Inr (map_option (\<lambda>k. i + k) (find_index match xs))"
  using assms
proof (induction n arbitrary: i xs)
  case (Suc n)
  then obtain x ys where xs: "xs = x # ys" "length ys = n" by (cases xs) auto
  have "cell d i = Inr x" using Suc.prems(1) [of 0] xs(1) by (simp add: cell_def)
  moreover have "search_from match (Suc i) n d = Inr (map_option (\<lambda>k. Suc i + k) (find_index match ys))"
  proof (rule Suc.IH)
    show "Suc i + j < length d \<and> d ! (Suc i + j) = Some (ys ! j)" if "j < n" for j
      using Suc.prems(1) [of "Suc j"] that xs(1) by simp
  qed (fact xs(2))
  ultimately show ?case by (simp add: xs(1) option.map_comp comp_def)
qed simp

lemma search_law:
  assumes "queue_ok q"
  shows "NewQueue_search match q = Inr (find_index match (queue_contents q))"
proof -
  let ?n = "nat (NumOfElements q)"
  have "0 + j < length (q_data q) \<and> q_data q ! (0 + j) = Some (queue_contents q ! j)" if "j < ?n" for j
    using that assms queue_nth [OF assms that] by (auto simp: queue_ok_def)
  from search_from_law [OF this queue_length [OF assms]] show ?thesis
    by (simp add: NewQueue_search_def option.map_ident)
qed

text \<open>
  The loop copies every cell down to the one of index \<open>n\<close>, one past the last element: it needs that
  cell to exist.
\<close>

lemma shift_loop_law:
  assumes "n < length d" and "i < n"
  shows "\<exists>d1. shift_loop i n d = Inr d1 \<and> length d1 = length d \<and>
    (\<forall>j < length d. d1 ! j = (if i < j \<and> j < n then d ! Suc j else d ! j))"
  using assms
proof (induction i n d rule: shift_loop.induct)
  case (1 i n d)
  show ?case
  proof (cases "Suc i < n")
    case True
    let ?d = "d[Suc i := d ! Suc (Suc i)]"
    have c: "copy_next (Suc i) d = Inr ?d" using True 1(2) by (simp add: copy_next_def)
    from True 1(1) [of ?d] 1(2) c obtain d1 where
      "shift_loop (Suc i) n ?d = Inr d1" "length d1 = length d"
      "\<forall>j < length d. d1 ! j = (if Suc i < j \<and> j < n then ?d ! Suc j else ?d ! j)"
      by auto
    moreover have "?d ! j = d ! Suc j" if "i < j" "\<not> Suc i < j" for j
    proof -
      have "j = Suc i" using that by simp
      then show ?thesis using True 1(2) by simp
    qed
    moreover have "shift_loop i n d = shift_loop (Suc i) n ?d"
      using True c by (subst shift_loop.simps) simp
    moreover have "?d ! Suc j = d ! Suc j" if "Suc i < j" for j using that by simp
    moreover have "?d ! j = d ! j" if "\<not> i < j" for j using that by simp
    ultimately show ?thesis using True by (intro exI [of _ d1]) simp
  next
    case False
    then show ?thesis using 1(3) by (subst shift_loop.simps) auto
  qed
qed

lemma shift_loop_full:
  assumes "n = length d" and "Suc i < n"
  shows "shift_loop i n d = Inl Undefined"
  using assms
proof (induction i n d rule: shift_loop.induct)
  case (1 i n d)
  have step: "shift_loop i n d = rbind (copy_next (Suc i) d) (shift_loop (Suc i) n)"
    using 1(3) by (subst shift_loop.simps) simp
  show ?case
  proof (cases "Suc (Suc i) < n")
    case True
    then have "shift_loop (Suc i) n (d[Suc i := d ! Suc (Suc i)]) = Inl Undefined"
      using 1(1) [of "d[Suc i := d ! Suc (Suc i)]"] 1(2) by (simp add: copy_next_def)
    then show ?thesis unfolding step using True 1(2) by (simp add: copy_next_def)
  next
    case False
    then show ?thesis unfolding step using 1(2) by (simp add: copy_next_def)
  qed
qed

text \<open>
  Deleting takes the element out, except from a full array, where deleting any element but the last
  reads past the end of the array.
\<close>

definition room_to_delete :: "nat \<Rightarrow> 'a new_queue \<Rightarrow> bool" where
  "room_to_delete p q \<longleftrightarrow> NumOfElements q < int (ElementsAllocated q) \<or> int p = NumOfElements q - 1"

lemma delete_law:
  assumes ok: "queue_ok q" and p: "p < length (queue_contents q)" and room: "room_to_delete p q"
  shows "\<exists>q1. NewQueue_delete p q = Inr q1 \<and> queue_ok q1 \<and> queue_contents q1 = without_nth p (queue_contents q)"
proof -
  let ?n = "nat (NumOfElements q)"
  let ?d = "q_data q"
  have len: "length (queue_contents q) = ?n" by (rule queue_length [OF ok])
  have n: "p < ?n" "0 \<le> NumOfElements q" "?n \<le> length ?d"
    using p ok by (simp_all add: len queue_ok_def nat_le_iff)
  have "\<exists>d1. NewQueue_delete p q = Inr (q\<lparr>q_data := d1, NumOfElements := NumOfElements q - 1\<rparr>) \<and>
    length d1 = length ?d \<and> (\<forall>j < ?n - 1. d1 ! j = ?d ! (if p \<le> j then Suc j else j))"
  proof (cases "int p = NumOfElements q - 1")
    case True
    then have "j < p" if "j < ?n - 1" for j using that n by linarith
    then show ?thesis using True n
      by (intro exI [of _ ?d]) (auto simp: NewQueue_delete_def Let_def leD)
  next
    case False
    then have m: "Suc p < ?n" "?n < length ?d" using n room by (auto simp: room_to_delete_def)
    let ?d1 = "?d[p := ?d ! Suc p]"
    have c: "copy_next p ?d = Inr ?d1" using m by (simp add: copy_next_def)
    from shift_loop_law [of ?n ?d1 p] m obtain d2 where
      "shift_loop p ?n ?d1 = Inr d2" "length d2 = length ?d"
      "\<forall>j < length ?d. d2 ! j = (if p < j \<and> j < ?n then ?d1 ! Suc j else ?d1 ! j)" by auto
    then show ?thesis using m c n
      by (intro exI [of _ d2]) (auto simp: NewQueue_delete_def Let_def nth_list_update le_less)
  qed
  then obtain d1 where d1: "NewQueue_delete p q = Inr (q\<lparr>q_data := d1, NumOfElements := NumOfElements q - 1\<rparr>)"
    "length d1 = length ?d" "\<forall>j < ?n - 1. d1 ! j = ?d ! (if p \<le> j then Suc j else j)" by auto
  let ?q = "q\<lparr>q_data := d1, NumOfElements := NumOfElements q - 1\<rparr>"
  have k: "nat (NumOfElements q - 1) = ?n - 1" by simp
  have cell: "d1 ! j = Some (queue_contents q ! (if p \<le> j then Suc j else j))" if "j < ?n - 1" for j
    using d1(3) that queue_nth [OF ok] by auto
  have "queue_ok ?q" using ok n d1(2) cell by (auto simp: queue_ok_def k)
  moreover have "queue_contents ?q = without_nth p (queue_contents q)"
  proof (rule nth_equalityI)
    show "length (queue_contents ?q) = length (without_nth p (queue_contents q))"
      using queue_length [OF \<open>queue_ok ?q\<close>] n by (simp add: len k without_nth_def)
  next
    fix j
    assume "j < length (queue_contents ?q)"
    then have j: "j < ?n - 1" using queue_length [OF \<open>queue_ok ?q\<close>] by (simp add: k)
    then have "queue_contents ?q ! j = queue_contents q ! (if p \<le> j then Suc j else j)"
      using cell [OF j] queue_nth [OF \<open>queue_ok ?q\<close>, of j] by (simp add: k)
    then show "queue_contents ?q ! j = without_nth p (queue_contents q) ! j"
      using j n by (auto simp: without_nth_def nth_append len)
  qed
  ultimately show ?thesis using d1(1) by blast
qed

lemma delete_full:
  assumes "queue_ok q" and "p < length (queue_contents q)" and "\<not> room_to_delete p q"
  shows "NewQueue_delete p q = Inl Undefined"
proof -
  let ?n = "nat (NumOfElements q)"
  have m: "Suc p < ?n" "?n = length (q_data q)"
    using assms by (auto simp: queue_length room_to_delete_def queue_ok_def)
  then have "copy_next p (q_data q) = Inr ((q_data q)[p := q_data q ! Suc p])" by (simp add: copy_next_def)
  moreover have "shift_loop p ?n ((q_data q)[p := q_data q ! Suc p]) = Inl Undefined"
    using m by (intro shift_loop_full) simp_all
  ultimately show ?thesis using m by (simp add: NewQueue_delete_def Let_def)
qed

section \<open>The interface\<close>

text \<open>
  What the clients rely on: an abstraction to a list, of which adding appends, searching gives the first
  match and deleting at a position that was found removes it, as long as there is room.
\<close>

locale element_queue =
  fixes ok :: "'q \<Rightarrow> bool" and elems :: "'q \<Rightarrow> 'a list" and roomy :: "nat \<Rightarrow> 'q \<Rightarrow> bool"
    and add :: "'a \<Rightarrow> 'q \<Rightarrow> 'q result" and find :: "('a \<Rightarrow> bool) \<Rightarrow> 'q \<Rightarrow> nat option result"
    and delete :: "nat \<Rightarrow> 'q \<Rightarrow> 'q result"
  assumes add_appends: "ok q \<Longrightarrow> \<exists>q1. add x q = Inr q1 \<and> ok q1 \<and> elems q1 = elems q @ [x]"
    and find_first: "ok q \<Longrightarrow> find P q = Inr (find_index P (elems q))"
    and delete_removes: "ok q \<Longrightarrow> p < length (elems q) \<Longrightarrow> roomy p q \<Longrightarrow>
      \<exists>q1. delete p q = Inr q1 \<and> ok q1 \<and> elems q1 = without_nth p (elems q)"
begin

text \<open>Taking out the first match.\<close>

definition take_out :: "('a \<Rightarrow> bool) \<Rightarrow> 'q \<Rightarrow> 'q result" where
  "take_out P q = rbind (find P q) (\<lambda>p. case p of None \<Rightarrow> Inr q | Some k \<Rightarrow> delete k q)"

lemma take_out_none: "ok q \<Longrightarrow> \<forall>x \<in> set (elems q). \<not> P x \<Longrightarrow> take_out P q = Inr q"
  using find_index_None [of P "elems q"] by (simp add: take_out_def find_first)

lemma take_out_first:
  assumes "ok q" and "elems q = xs @ x # ys" and "P x" and "\<forall>y \<in> set xs. \<not> P y" and "roomy (length xs) q"
  shows "\<exists>q1. take_out P q = Inr q1 \<and> ok q1 \<and> elems q1 = xs @ ys"
proof -
  have "find_index P (elems q) = Some (length xs)"
    using assms(2-4) by (auto simp: find_index_Some nth_append)
  then show ?thesis
    using delete_removes [OF assms(1) _ assms(5)] assms(1,2)
    by (auto simp: take_out_def find_first without_nth_def)
qed

end

interpretation new_queue: element_queue queue_ok queue_contents room_to_delete NewQueue_add NewQueue_search NewQueue_delete
  by (rule element_queue.intro; (rule add_law search_law delete_law; assumption)?)

end
