(* ===== verification/Comm_Queues.thy ===== *)
theory Comm_Queues
  imports New_Queue Event_Record
begin

text \<open>
  The queues of sends and receives that wait for their partner (\<open>merger/paraver/communication_queues.c\<close>).
  The end event of an entry is never null in the calls of the merger; the begin event may be.
  \<open>MPI_ANY_TAG\<close> has the value the file gives it when there is no \<open>mpi.h\<close>.
\<close>

section \<open>Entries\<close>

record send_data =
  send_begin :: event_ptr
  send_end :: event_t
  send_position :: int
  send_key :: "64 word"
  send_partner :: "32 word"
  send_thread :: "32 word"
  send_vthread :: "32 word"
  send_tag :: "32 word"

record recv_data =
  recv_begin :: event_ptr
  recv_end :: event_t
  recv_key :: "64 word"
  recv_partner :: "32 word"
  recv_thread :: "32 word"
  recv_vthread :: "32 word"
  recv_tag :: "32 word"

definition MPI_ANY_TAG :: "32 word" where
  "MPI_ANY_TAG = -1"

text \<open>The references the queues are searched with.\<close>

record comm_reference =
  ref_key :: "64 word"
  ref_tag :: "32 word"
  ref_target :: "32 word"

definition CompareSend_cbk :: "comm_reference \<Rightarrow> send_data \<Rightarrow> bool" where
  "CompareSend_cbk ref d \<longleftrightarrow>
     (ref_tag ref = send_tag d \<or> ref_tag ref = MPI_ANY_TAG) \<and>
     ref_target ref = send_partner d \<and> ref_key ref = send_key d"

definition CompareRecv_cbk :: "comm_reference \<Rightarrow> recv_data \<Rightarrow> bool" where
  "CompareRecv_cbk ref d \<longleftrightarrow>
     (ref_tag ref = recv_tag d \<or> MPI_ANY_TAG = Get_EvTag (recv_end d)) \<and>
     ref_target ref = recv_partner d \<and> ref_key ref = recv_key d"

section \<open>Operations\<close>

definition QueueSend ::
  "event_ptr \<Rightarrow> event_t \<Rightarrow> int \<Rightarrow> 32 word \<Rightarrow> 32 word \<Rightarrow> 32 word \<Rightarrow> 32 word \<Rightarrow> 64 word \<Rightarrow>
   send_data new_queue \<Rightarrow> send_data new_queue result" where
  "QueueSend b e pos thread vthread partner tag key q =
     NewQueue_add \<lparr>send_begin = b, send_end = e, send_position = pos, send_key = key,
       send_partner = partner, send_thread = thread, send_vthread = vthread, send_tag = tag\<rparr> q"

text \<open>The entry that was found, if any, and the queue without it.\<close>

definition take_entry :: "('a \<Rightarrow> bool) \<Rightarrow> 'a new_queue \<Rightarrow> ('a option \<times> 'a new_queue) result" where
  "take_entry match q =
     rbind (NewQueue_search match q) (\<lambda>res. case res of
         None \<Rightarrow> Inr (None, q)
       | Some p \<Rightarrow> rbind (cell (q_data q) p) (\<lambda>x. rmap (\<lambda>q1. (Some x, q1)) (NewQueue_delete p q)))"

definition ExtractSend ::
  "32 word \<Rightarrow> 32 word \<Rightarrow> 64 word \<Rightarrow> send_data new_queue \<Rightarrow> (send_data option \<times> send_data new_queue) result" where
  "ExtractSend receiver tag key =
     take_entry (CompareSend_cbk \<lparr>ref_key = key, ref_tag = tag, ref_target = receiver\<rparr>)"

definition QueueRecv ::
  "event_ptr \<Rightarrow> event_t \<Rightarrow> 32 word \<Rightarrow> 32 word \<Rightarrow> 32 word \<Rightarrow> 32 word \<Rightarrow> 64 word \<Rightarrow>
   recv_data new_queue \<Rightarrow> recv_data new_queue result" where
  "QueueRecv b e thread vthread partner tag key q =
     NewQueue_add \<lparr>recv_begin = b, recv_end = e, recv_key = key,
       recv_partner = partner, recv_thread = thread, recv_vthread = vthread, recv_tag = tag\<rparr> q"

definition ExtractRecv ::
  "32 word \<Rightarrow> 32 word \<Rightarrow> 64 word \<Rightarrow> recv_data new_queue \<Rightarrow> (recv_data option \<times> recv_data new_queue) result" where
  "ExtractRecv sender tag key =
     take_entry (CompareRecv_cbk \<lparr>ref_key = key, ref_tag = tag, ref_target = sender\<rparr>)"

definition CommunicationQueues_Init :: "send_data new_queue \<times> recv_data new_queue" where
  "CommunicationQueues_Init = (NewQueue_create 1024, NewQueue_create 1024)"

definition CommunicationQueues_Clear :: "'a new_queue option \<Rightarrow> 'a new_queue option" where
  "CommunicationQueues_Clear q = map_option NewQueue_clear q"

section \<open>Laws\<close>

lemma QueueSend_law:
  "queue_ok q \<Longrightarrow> \<exists>q1. QueueSend b e pos thread vthread partner tag key q = Inr q1 \<and> queue_ok q1 \<and>
     queue_contents q1 = queue_contents q @ [\<lparr>send_begin = b, send_end = e, send_position = pos, send_key = key,
       send_partner = partner, send_thread = thread, send_vthread = vthread, send_tag = tag\<rparr>]"
  unfolding QueueSend_def by (rule new_queue.add_appends)

lemma QueueRecv_law:
  "queue_ok q \<Longrightarrow> \<exists>q1. QueueRecv b e thread vthread partner tag key q = Inr q1 \<and> queue_ok q1 \<and>
     queue_contents q1 = queue_contents q @ [\<lparr>recv_begin = b, recv_end = e, recv_key = key,
       recv_partner = partner, recv_thread = thread, recv_vthread = vthread, recv_tag = tag\<rparr>]"
  unfolding QueueRecv_def by (rule new_queue.add_appends)

lemma take_entry_none:
  assumes "queue_ok q" and "\<forall>x \<in> set (queue_contents q). \<not> match x"
  shows "take_entry match q = Inr (None, q)"
  using assms find_index_None [of match "queue_contents q"]
  by (simp add: take_entry_def new_queue.find_first)

lemma take_entry_first:
  assumes ok: "queue_ok q" and q: "queue_contents q = xs @ x # ys" and x: "match x" "\<forall>y \<in> set xs. \<not> match y"
    and room: "room_to_delete (length xs) q"
  shows "\<exists>q1. take_entry match q = Inr (Some x, q1) \<and> queue_ok q1 \<and> queue_contents q1 = xs @ ys"
proof -
  have "find_index match (queue_contents q) = Some (length xs)"
    using q x by (auto simp: find_index_Some nth_append)
  then have found: "NewQueue_search match q = Inr (Some (length xs))"
    using new_queue.find_first [OF ok] by simp
  have "length xs < nat (NumOfElements q)" using queue_length [OF ok] q by simp
  then have "cell (q_data q) (length xs) = Inr x"
    using queue_nth [OF ok] ok q by (auto simp: cell_def queue_ok_def nth_append)
  moreover from new_queue.take_out_first [OF ok q x room] obtain q1 where
    "NewQueue_delete (length xs) q = Inr q1" "queue_ok q1" "queue_contents q1 = xs @ ys"
    by (auto simp: new_queue.take_out_def found)
  ultimately show ?thesis using found by (simp add: take_entry_def)
qed

text \<open>From a full array of several entries only the last can be taken out.\<close>

lemma take_entry_full:
  assumes ok: "queue_ok q" and q: "queue_contents q = xs @ x # y # ys" and x: "match x" "\<forall>z \<in> set xs. \<not> match z"
    and full: "NumOfElements q = int (ElementsAllocated q)"
  shows "take_entry match q = Inl Undefined"
proof -
  have "find_index match (queue_contents q) = Some (length xs)"
    using q x by (auto simp: find_index_Some nth_append)
  then have found: "NewQueue_search match q = Inr (Some (length xs))"
    using new_queue.find_first [OF ok] by simp
  have l: "Suc (length xs) < nat (NumOfElements q)" using queue_length [OF ok] q by simp
  then have "cell (q_data q) (length xs) = Inr x"
    using queue_nth [OF ok] ok q by (auto simp: cell_def queue_ok_def nth_append)
  moreover have "NewQueue_delete (length xs) q = Inl Undefined"
    using delete_full [OF ok, of "length xs"] l full q by (auto simp: room_to_delete_def)
  ultimately show ?thesis using found by (simp add: take_entry_def)
qed

end
