(* ===== verification/State_Stack.thy ===== *)
theory State_Stack
  imports Prelude "HOL-Library.Word"
begin

text \<open>
  The stack of Paraver states of a thread (\<open>merger/paraver/paraver_state.c\<close>), kept in \<open>thread_t\<close>.
  The number of states is an \<open>int\<close> that is only decremented when it is positive; here it is a natural number.
  The operations are given on the stack of one thread, without the lookup of the thread.
\<close>

section \<open>States\<close>

type_synonym state_id = "32 word"

definition STATE_ANY :: state_id where "STATE_ANY = -1"
definition STATE_IDLE :: state_id where "STATE_IDLE = 0"
definition STATE_RUNNING :: state_id where "STATE_RUNNING = 1"
definition STATE_STOPPED :: state_id where "STATE_STOPPED = 2"
definition STATE_NOT_TRACING :: state_id where "STATE_NOT_TRACING = 14"
definition STATE_PROFILING :: state_id where "STATE_PROFILING = 18"

lemmas state_ids = STATE_ANY_def STATE_IDLE_def STATE_RUNNING_def STATE_STOPPED_def STATE_NOT_TRACING_def
  STATE_PROFILING_def

definition MAX_STATES_ALLOCATION :: nat where "MAX_STATES_ALLOCATION = 128"

record state_stack =
  State_Stack :: "state_id option list"
  nStates :: nat

text \<open>\<open>nStates_Allocated\<close> is the length of the array; a thread starts with no array.\<close>

definition no_states :: state_stack where
  "no_states = \<lparr>State_Stack = [], nStates = 0\<rparr>"

section \<open>Operations\<close>

definition Top_State :: "state_stack \<Rightarrow> state_id result" where
  "Top_State s = (if 0 < nStates s then cell (State_Stack s) (nStates s - 1) else Inr STATE_IDLE)"

text \<open>The first event removes \<open>STATE_NOT_TRACING\<close>: the start of both pushing and popping.\<close>

definition leave_not_tracing :: "state_stack \<Rightarrow> (state_id \<times> state_stack) result" where
  "leave_not_tracing s =
     rbind (Top_State s) (\<lambda>cur.
       if cur = STATE_NOT_TRACING then
         if 1 \<le> nStates s then
           let s1 = s\<lparr>nStates := nStates s - 1\<rparr> in rmap (\<lambda>t. (t, s1)) (Top_State s1)
         else Inr (STATE_IDLE, s)
       else Inr (cur, s))"

definition Push_State :: "state_id \<Rightarrow> state_stack \<Rightarrow> (state_id \<times> state_stack) result" where
  "Push_State new s =
     rbind (leave_not_tracing s) (\<lambda>(cur, s1).
       let s2 = (if nStates s1 = length (State_Stack s1)
                 then s1\<lparr>State_Stack := State_Stack s1 @ replicate MAX_STATES_ALLOCATION None\<rparr> else s1) in
       rmap (\<lambda>st. (new, s2\<lparr>State_Stack := st, nStates := nStates s2 + 1\<rparr>))
         (cell_set (State_Stack s2) (nStates s2) new))"

definition Pop_State :: "state_id \<Rightarrow> state_stack \<Rightarrow> (state_id \<times> state_stack) result" where
  "Pop_State old s =
     rbind (leave_not_tracing s) (\<lambda>(cur, s1).
       if old \<noteq> STATE_ANY \<and> cur \<noteq> old then Inr (cur, s1)
       else if 1 \<le> nStates s1
       then rmap (\<lambda>t. (t, s1\<lparr>nStates := nStates s1 - 1\<rparr>)) (cell (State_Stack s1) (nStates s1 - 1))
       else Inr (STATE_IDLE, s1))"

definition Pop_State_On_Top :: "state_stack \<Rightarrow> (state_id \<times> state_stack) result" where
  "Pop_State_On_Top s =
     (if 1 \<le> nStates s
      then let s1 = s\<lparr>nStates := nStates s - 1\<rparr> in rmap (\<lambda>t. (t, s1)) (Top_State s1)
      else Inr (STATE_IDLE, s))"

function pop_loop :: "state_id \<Rightarrow> state_id \<Rightarrow> state_stack \<Rightarrow> (state_id \<times> state_stack) result" where
  "pop_loop until cur s =
     (if cur \<noteq> until \<and> 0 < nStates s
      then rbind (Pop_State_On_Top s) (\<lambda>(t, s1). pop_loop until t s1)
      else Inr (cur, s))"
  by pat_completeness auto
termination
  by (relation "measure (\<lambda>(u, t, s). nStates s)")
    (auto simp: Pop_State_On_Top_def Let_def result_simps split: if_splits)

declare pop_loop.simps [simp del]

definition Pop_Until :: "state_id \<Rightarrow> state_stack \<Rightarrow> (state_id \<times> state_stack) result" where
  "Pop_Until until s = rbind (Top_State s) (\<lambda>cur. pop_loop until cur s)"

definition Switch_State :: "state_id \<Rightarrow> bool \<Rightarrow> state_stack \<Rightarrow> (state_id \<times> state_stack) result" where
  "Switch_State st condition s = (if condition then Push_State st s else Pop_State st s)"

text \<open>\<open>Initialize_States\<close> excludes the idle state, and no other.\<close>

definition excluded_states :: "state_id list" where
  "excluded_states = [STATE_IDLE]"

definition State_Excluded :: "state_id \<Rightarrow> bool" where
  "State_Excluded st \<longleftrightarrow> st \<in> set excluded_states"

datatype trace_mode = TRACE_MODE_DETAIL | TRACE_MODE_BURSTS | TRACE_MODE_PHASE_PROFILE | TRACE_MODE_DISABLED

definition Initialize_Trace_Mode_States :: "32 word \<Rightarrow> trace_mode \<Rightarrow> state_stack \<Rightarrow> state_stack result" where
  "Initialize_Trace_Mode_States thread mode s =
     rmap snd (Push_State
       (if mode = TRACE_MODE_BURSTS then STATE_IDLE
        else if mode = TRACE_MODE_PHASE_PROFILE then STATE_PROFILING
        else if mode = TRACE_MODE_DISABLED then STATE_NOT_TRACING
        else if 1 < thread then STATE_IDLE else STATE_RUNNING)
       (s\<lparr>nStates := 0\<rparr>))"

text \<open>
  The states \<open>Initialize_States\<close> pushes for a thread; \<open>skip_events\<close> is a circular buffer whose events
  before the first common operation are skipped.
\<close>

definition initial_states :: "bool \<Rightarrow> state_stack \<Rightarrow> state_stack result" where
  "initial_states skip_events s =
     rbind (rmap snd (Push_State STATE_STOPPED s)) (\<lambda>s1.
       if skip_events
       then rbind (rmap snd (Push_State STATE_RUNNING s1)) (\<lambda>s2. rmap snd (Push_State STATE_NOT_TRACING s2))
       else Inr s1)"

end
