(* ===== verification/State_Stack_Correct.thy ===== *)
theory State_Stack_Correct
  imports State_Stack
begin

text \<open>
  The stack of states as a list, from the bottom to the top: every operation of the array
  implements one on the list and never reads outside the array; nested states are restored.
\<close>

section \<open>The abstract stack\<close>

definition stack_ok :: "state_stack \<Rightarrow> bool" where
  "stack_ok s \<longleftrightarrow> nStates s \<le> length (State_Stack s) \<and> (\<forall>i < nStates s. State_Stack s ! i \<noteq> None)"

definition states :: "state_stack \<Rightarrow> state_id list" where
  "states s = map the (take (nStates s) (State_Stack s))"

definition top_of :: "state_id list \<Rightarrow> state_id" where
  "top_of xs = (if xs = [] then STATE_IDLE else List.last xs)"

definition without_not_tracing :: "state_id list \<Rightarrow> state_id list" where
  "without_not_tracing xs = (if top_of xs = STATE_NOT_TRACING then butlast xs else xs)"

definition popped :: "state_id \<Rightarrow> state_id list \<Rightarrow> state_id list" where
  "popped old xs = (if old \<noteq> STATE_ANY \<and> top_of xs \<noteq> old then xs else butlast xs)"

definition popped_until :: "state_id \<Rightarrow> state_id list \<Rightarrow> state_id list" where
  "popped_until u xs = rev (dropWhile (\<lambda>x. x \<noteq> u) (rev xs))"

lemma top_of_simps [simp]: "top_of [] = STATE_IDLE" "top_of (xs @ [x]) = x"
  by (simp_all add: top_of_def)

lemma not_tracing_nonempty: "top_of xs = STATE_NOT_TRACING \<Longrightarrow> xs \<noteq> []"
  by (auto simp: state_ids)

lemma states_length: "stack_ok s \<Longrightarrow> length (states s) = nStates s"
  by (simp add: stack_ok_def states_def)

lemma states_cell: "stack_ok s \<Longrightarrow> i < nStates s \<Longrightarrow> State_Stack s ! i = Some (states s ! i)"
  by (auto simp: stack_ok_def states_def)

lemma no_states_ok [simp]: "stack_ok no_states" "states no_states = []"
  by (simp_all add: stack_ok_def states_def no_states_def)

lemma cell_law: "stack_ok s \<Longrightarrow> i < nStates s \<Longrightarrow> cell (State_Stack s) i = Inr (states s ! i)"
  using states_cell [of s i] by (auto simp: cell_def stack_ok_def)

lemma Top_State_law: "stack_ok s \<Longrightarrow> Top_State s = Inr (top_of (states s))"
  using states_length [of s] by (auto simp: Top_State_def top_of_def cell_law last_conv_nth)

lemma shrink_law:
  assumes "stack_ok s"
  shows "stack_ok (s\<lparr>nStates := nStates s - 1\<rparr>)" "states (s\<lparr>nStates := nStates s - 1\<rparr>) = butlast (states s)"
  using assms by (auto simp: stack_ok_def states_def butlast_take map_butlast [symmetric])

lemma leave_not_tracing_law:
  assumes "stack_ok s"
  shows "\<exists>s1. leave_not_tracing s = Inr (top_of (states s1), s1) \<and> stack_ok s1 \<and>
    states s1 = without_not_tracing (states s)"
proof (cases "top_of (states s) = STATE_NOT_TRACING")
  case True
  then have "1 \<le> nStates s" using states_length [OF assms] not_tracing_nonempty [OF True] by (cases "nStates s") auto
  then show ?thesis using True shrink_law [OF assms] Top_State_law [OF assms] Top_State_law [OF shrink_law(1) [OF assms]]
    by (simp add: leave_not_tracing_def Let_def without_not_tracing_def)
next
  case False
  then show ?thesis using assms Top_State_law [OF assms] by (simp add: leave_not_tracing_def without_not_tracing_def)
qed

section \<open>The operations\<close>

lemma Push_State_law:
  assumes "stack_ok s"
  shows "\<exists>s1. Push_State new s = Inr (new, s1) \<and> stack_ok s1 \<and> states s1 = without_not_tracing (states s) @ [new]"
proof -
  from leave_not_tracing_law [OF assms] obtain s1 where
    s1: "leave_not_tracing s = Inr (top_of (states s1), s1)" "stack_ok s1" "states s1 = without_not_tracing (states s)"
    by auto
  let ?s2 = "if nStates s1 = length (State_Stack s1)
     then s1\<lparr>State_Stack := State_Stack s1 @ replicate MAX_STATES_ALLOCATION None\<rparr> else s1"
  have s2: "stack_ok ?s2" "states ?s2 = states s1" "nStates ?s2 = nStates s1" "nStates s1 < length (State_Stack ?s2)"
    using s1(2) by (auto simp: stack_ok_def states_def nth_append MAX_STATES_ALLOCATION_def)
  let ?s3 = "?s2\<lparr>State_Stack := (State_Stack ?s2)[nStates s1 := Some new], nStates := nStates ?s2 + 1\<rparr>"
  have "Push_State new s = Inr (new, ?s3)"
    using s2(3,4) by (simp add: Push_State_def s1(1) Let_def cell_set_def)
  moreover have "stack_ok ?s3" using s2(1,3,4) by (auto simp: stack_ok_def nth_list_update less_Suc_eq)
  moreover have "states ?s3 = states ?s2 @ [new]" using s2(3,4) by (simp add: states_def take_Suc_conv_app_nth)
  ultimately show ?thesis using s1(3) s2(2) by auto
qed

lemma Pop_State_law:
  assumes "stack_ok s"
  shows "\<exists>s1. Pop_State old s = Inr (top_of (without_not_tracing (states s)), s1) \<and> stack_ok s1 \<and>
    states s1 = popped old (without_not_tracing (states s))"
proof -
  from leave_not_tracing_law [OF assms] obtain s1 where
    s1: "leave_not_tracing s = Inr (top_of (states s1), s1)" "stack_ok s1" "states s1 = without_not_tracing (states s)"
    by auto
  note c = cell_law [OF s1(2), of "nStates s1 - 1"] states_length [OF s1(2)] shrink_law [OF s1(2)]
  show ?thesis
  proof (cases "old \<noteq> STATE_ANY \<and> top_of (states s1) \<noteq> old")
    case True
    then show ?thesis using s1(1,2) by (simp add: Pop_State_def popped_def flip: s1(3))
  next
    case keep: False
    show ?thesis
    proof (cases "1 \<le> nStates s1")
      case True
      then have "states s1 \<noteq> []" using c(2) by auto
      then have "cell (State_Stack s1) (nStates s1 - 1) = Inr (top_of (states s1))"
        using c(1,2) True by (simp add: top_of_def last_conv_nth)
      then show ?thesis using True keep s1(1) c(3,4)
        by (auto simp: Pop_State_def popped_def simp flip: s1(3))
    next
      case False
      then have "states s1 = []" using c(2) by (cases "nStates s1") auto
      then show ?thesis using False keep s1(1,2)
        by (auto simp: Pop_State_def popped_def simp flip: s1(3))
    qed
  qed
qed

lemma Pop_State_On_Top_law:
  assumes "stack_ok s"
  shows "\<exists>s1. Pop_State_On_Top s = Inr (top_of (states s1), s1) \<and> stack_ok s1 \<and> states s1 = butlast (states s)"
  using shrink_law [OF assms] Top_State_law [OF shrink_law(1) [OF assms]] states_length [OF assms] assms
  by (cases "nStates s") (auto simp: Pop_State_On_Top_def Let_def)

lemma pop_loop_law:
  "stack_ok s \<Longrightarrow> \<exists>s1. pop_loop u (top_of (states s)) s = Inr (top_of (states s1), s1) \<and> stack_ok s1 \<and>
    states s1 = popped_until u (states s)"
proof (induction "states s" arbitrary: s rule: rev_induct)
  case Nil
  then have "nStates s = 0" using states_length by force
  then show ?case using Nil by (subst pop_loop.simps) (auto simp: popped_until_def)
next
  case (snoc x xs)
  note st = snoc.hyps(2) [symmetric]
  have n: "0 < nStates s" using states_length [OF snoc.prems] st by simp
  show ?case
  proof (cases "x = u")
    case True
    then show ?thesis using snoc.prems by (subst pop_loop.simps) (simp add: st popped_until_def)
  next
    case False
    from Pop_State_On_Top_law [OF snoc.prems] obtain s1 where
      s1: "Pop_State_On_Top s = Inr (top_of (states s1), s1)" "stack_ok s1" "states s1 = xs"
      by (auto simp: st)
    have "pop_loop u (top_of (states s)) s = pop_loop u (top_of (states s1)) s1"
      using False n by (subst pop_loop.simps) (simp add: st s1(1))
    moreover have "popped_until u (states s) = popped_until u (states s1)"
      using False by (simp add: st s1(3) popped_until_def)
    ultimately show ?thesis using snoc.hyps(1) [OF s1(3) [symmetric] s1(2)] by simp
  qed
qed

lemma Pop_Until_law:
  "stack_ok s \<Longrightarrow> \<exists>s1. Pop_Until u s = Inr (top_of (states s1), s1) \<and> stack_ok s1 \<and>
    states s1 = popped_until u (states s)"
  using pop_loop_law [of s u] by (simp add: Pop_Until_def Top_State_law)

lemma clear_states: "stack_ok s \<Longrightarrow> stack_ok (s\<lparr>nStates := 0\<rparr>) \<and> states (s\<lparr>nStates := 0\<rparr>) = []"
  by (simp add: stack_ok_def states_def)

section \<open>Nested calls\<close>

text \<open>A tree of calls: every call pushes its state at its begin event and pops it at its end event.\<close>

datatype traced_call = Traced_Call state_id "traced_call list"

fun run_call :: "traced_call \<Rightarrow> state_stack \<Rightarrow> state_stack result"
  and run_calls :: "traced_call list \<Rightarrow> state_stack \<Rightarrow> state_stack result" where
  "run_call (Traced_Call st cs) s =
     rbind (Switch_State st True s) (\<lambda>(u, s1).
       rbind (run_calls cs s1) (\<lambda>s2. rmap snd (Switch_State st False s2)))"
| "run_calls [] s = Inr s"
| "run_calls (c # cs) s = rbind (run_call c s) (run_calls cs)"

fun call_ok :: "traced_call \<Rightarrow> bool" where
  "call_ok (Traced_Call st cs) \<longleftrightarrow> st \<noteq> STATE_NOT_TRACING \<and> list_all call_ok cs"

lemma run_calls_law:
  "call_ok c \<Longrightarrow> stack_ok s \<Longrightarrow> \<exists>s1. run_call c s = Inr s1 \<and> stack_ok s1 \<and> states s1 = without_not_tracing (states s)"
  "list_all call_ok cs \<Longrightarrow> stack_ok s \<Longrightarrow> top_of (states s) \<noteq> STATE_NOT_TRACING \<Longrightarrow>
     \<exists>s1. run_calls cs s = Inr s1 \<and> stack_ok s1 \<and> states s1 = states s"
proof (induction c s and cs s rule: run_call_run_calls.induct)
  case (1 st cs s)
  from Push_State_law [OF 1(3), of st] obtain s1 where
    s1: "Switch_State st True s = Inr (st, s1)" "stack_ok s1" "states s1 = without_not_tracing (states s) @ [st]"
    by (auto simp: Switch_State_def)
  have st: "st \<noteq> STATE_NOT_TRACING" "list_all call_ok cs" using 1(2) by simp_all
  from 1(1) [OF s1(1) refl st(2) s1(2)] st(1) s1(3) obtain s2 where
    s2: "run_calls cs s1 = Inr s2" "stack_ok s2" "states s2 = states s1" by auto
  have "without_not_tracing (without_not_tracing (states s) @ [st]) = without_not_tracing (states s) @ [st]"
    using st(1) unfolding without_not_tracing_def [of "_ @ [st]"] by simp
  with Pop_State_law [OF s2(2), of st] obtain s3 where
    "Switch_State st False s2 = Inr (st, s3)" "stack_ok s3" "states s3 = without_not_tracing (states s)"
    by (auto simp: Switch_State_def s2(3) s1(3) popped_def)
  then show ?case using s1(1) s2(1) by simp
next
  case (3 c cs s)
  then obtain s1 where s1: "run_call c s = Inr s1" "stack_ok s1" "states s1 = states s"
    by (auto simp: without_not_tracing_def)
  then show ?case using 3 by simp
qed simp

section \<open>Properties\<close>

text \<open>
  C26. The operations on the array of states are the ones on the list of states: pushing and popping
  first drop a "not tracing" state, popping takes the top away only if it is the expected
  one, popping until a state ends with it on the top or with the empty stack; none of them
  leaves the array, whose size grows when needed.
\<close>

theorem state_stack_refines:
  assumes "stack_ok s"
  shows "(\<exists>s1. Push_State st s = Inr (st, s1) \<and> stack_ok s1 \<and> states s1 = without_not_tracing (states s) @ [st]) \<and>
    (\<exists>s1. Pop_State st s = Inr (top_of (without_not_tracing (states s)), s1) \<and> stack_ok s1 \<and>
       states s1 = popped st (without_not_tracing (states s))) \<and>
    (\<exists>s1. Pop_Until st s = Inr (top_of (states s1), s1) \<and> stack_ok s1 \<and> states s1 = popped_until st (states s))"
  using Push_State_law [OF assms] Pop_State_law [OF assms] Pop_Until_law [OF assms] by blast

definition ex_stack :: state_stack where
  "ex_stack = \<lparr>State_Stack = [Some STATE_STOPPED, Some STATE_RUNNING, Some STATE_NOT_TRACING], nStates = 3\<rparr>"

theorem state_stack_refines_witness:
  "\<exists>s1. Push_State 5 ex_stack = Inr (5, s1) \<and> states s1 = [STATE_STOPPED, STATE_RUNNING, 5]"
proof -
  have "stack_ok ex_stack" by (simp add: stack_ok_def ex_stack_def less_Suc_eq numeral_3_eq_3)
  moreover have "states ex_stack = [STATE_STOPPED, STATE_RUNNING, STATE_NOT_TRACING]"
    by (simp add: states_def ex_stack_def numeral_3_eq_3)
  ultimately show ?thesis
    using state_stack_refines [of ex_stack 5] by (auto simp: without_not_tracing_def top_of_def)
qed

text \<open>
  C36. Properly nested calls, however deep and many, give the stack back as it was, and no pop of
  them is ignored: a state shown in the trace ends where its call ends. No state of the calls is
  \<open>STATE_NOT_TRACING\<close>, and that state is not on top before (the first push removes it).
\<close>

theorem nested_states_restored:
  assumes "list_all call_ok cs" and "stack_ok s" and "top_of (states s) \<noteq> STATE_NOT_TRACING"
  shows "\<exists>s1. run_calls cs s = Inr s1 \<and> stack_ok s1 \<and> states s1 = states s"
  using run_calls_law(2) [OF assms] .

theorem nested_states_restored_witness:
  "\<exists>s1. run_calls [Traced_Call 4 [Traced_Call 8 [], Traced_Call 4 []], Traced_Call 13 []] no_states = Inr s1 \<and> states s1 = []"
  using nested_states_restored [of "[Traced_Call 4 [Traced_Call 8 [], Traced_Call 4 []], Traced_Call 13 []]" no_states]
  by (auto simp: state_ids)

end
