(* ===== verification/Write_File_Buffer.thy ===== *)
theory Write_File_Buffer
  imports Prelude "HOL-Library.Word"
begin

text \<open>
  The buffered file of equal elements of the merger (\<open>merger/paraver/write_file_buffer.c\<close>), byte by
  byte: a memory buffer of \<open>maxElements\<close> elements in front of an open file, which can be
  written at its end, at an earlier position, or shortened by its last element. The file is its
  bytes, the offset of its descriptor and the size the file system lets it have. The numbers of
  elements are small constants and counts at the calls, and are natural numbers here.
\<close>

type_synonym byte = "8 word"

section \<open>Open files\<close>

record open_file =
  f_bytes :: "byte list"
  f_offset :: nat
  f_limit :: nat

text \<open>
  \<open>write\<close> stores what fits under the limit at the offset, after a hole of zero bytes if the offset is
  beyond the end, and reports the number of bytes; it reports \<open>-1\<close> if nothing of something fits.
\<close>

definition sys_write :: "byte list \<Rightarrow> open_file \<Rightarrow> int \<times> open_file" where
  "sys_write bs f =
     (let k = min (length bs) (f_limit f - f_offset f);
          old = f_bytes f @ replicate (f_offset f - length (f_bytes f)) 0 in
      if bs = [] then (0, f)
      else if k = 0 then (-1, f)
      else (int k, f\<lparr>f_bytes := take (f_offset f) old @ take k bs @ drop (f_offset f + k) old,
              f_offset := f_offset f + k\<rparr>))"

definition lseek_end :: "open_file \<Rightarrow> int \<times> open_file" where
  "lseek_end f = (int (length (f_bytes f)), f\<lparr>f_offset := length (f_bytes f)\<rparr>)"

definition lseek_set :: "int \<Rightarrow> open_file \<Rightarrow> int \<times> open_file" where
  "lseek_set pos f = (if pos < 0 then (-1, f) else (pos, f\<lparr>f_offset := nat pos\<rparr>))"

definition sys_ftruncate :: "nat \<Rightarrow> open_file \<Rightarrow> open_file" where
  "sys_ftruncate n f = f\<lparr>f_bytes := take n (f_bytes f @ replicate (n - length (f_bytes f)) 0)\<rparr>"

section \<open>The buffer\<close>

record wfb =
  Buffer :: "byte option list"
  lastWrittenLocation :: nat
  sizeElement :: nat
  maxElements :: nat
  numElements :: nat
  FD :: open_file

definition WriteFileBuffer_new :: "open_file \<Rightarrow> nat \<Rightarrow> nat \<Rightarrow> wfb" where
  "WriteFileBuffer_new fd elems esize =
     \<lparr>Buffer = replicate (elems * esize) None, lastWrittenLocation = 0, sizeElement = esize,
      maxElements = elems, numElements = 0, FD = fd\<rparr>"

text \<open>The first bytes of the buffer, and copying an element into it.\<close>

definition get_bytes :: "nat \<Rightarrow> byte option list \<Rightarrow> byte list result" where
  "get_bytes n b = (if n \<le> length b \<and> None \<notin> set (take n b) then Inr (map the (take n b)) else Inl Undefined)"

definition put_bytes :: "nat \<Rightarrow> byte list \<Rightarrow> byte option list \<Rightarrow> byte option list result" where
  "put_bytes off bs b = (if off + length bs \<le> length b
     then Inr (take off b @ map Some bs @ drop (off + length bs) b) else Inl Undefined)"

definition WriteFileBuffer_flush :: "wfb \<Rightarrow> wfb result" where
  "WriteFileBuffer_flush w =
     rbind (get_bytes (numElements w * sizeElement w) (Buffer w)) (\<lambda>bs.
       let (res_write, fd1) = sys_write bs (FD w) in
       if res_write = -1 then Inl (Exit (-1))
       else if int (numElements w * sizeElement w) \<noteq> res_write then Inl (Exit (-1))
       else let (loc, fd2) = lseek_end fd1 in
         if loc = -1 then Inl (Exit (-1))
         else Inr (w\<lparr>FD := fd2, lastWrittenLocation := nat loc, numElements := 0\<rparr>))"

definition WriteFileBuffer_getPosition :: "wfb \<Rightarrow> nat" where
  "WriteFileBuffer_getPosition w = lastWrittenLocation w + numElements w * sizeElement w"

text \<open>The data is an object of \<open>sizeElement\<close> bytes; a smaller one would be read out of bounds.\<close>

definition WriteFileBuffer_write :: "byte list \<Rightarrow> wfb \<Rightarrow> wfb result" where
  "WriteFileBuffer_write data w =
     (if length data \<noteq> sizeElement w then Inl Undefined
      else rbind (put_bytes (numElements w * sizeElement w) data (Buffer w)) (\<lambda>b.
        let w1 = w\<lparr>Buffer := b, numElements := numElements w + 1\<rparr> in
        if numElements w1 = maxElements w1 then WriteFileBuffer_flush w1 else Inr w1))"

definition WriteFileBuffer_writeAt :: "byte list \<Rightarrow> int \<Rightarrow> wfb \<Rightarrow> wfb result" where
  "WriteFileBuffer_writeAt data pos w =
     (if length data \<noteq> sizeElement w then Inl Undefined
      else if pos < int (lastWrittenLocation w) then
        (let (r1, fd1) = lseek_set pos (FD w) in
         if r1 = -1 then Inl (Exit (-1))
         else let (r2, fd2) = sys_write data fd1 in
           if r2 = -1 then Inl (Exit (-1))
           else let (r3, fd3) = lseek_set (int (lastWrittenLocation w)) fd2 in
             if r3 = -1 then Inl (Exit (-1)) else Inr (w\<lparr>FD := fd3\<rparr>))
      else if pos + int (sizeElement w) >
              int (lastWrittenLocation w) + int (sizeElement w * numElements w) then Inl (Exit (-1))
      else rmap (\<lambda>b. w\<lparr>Buffer := b\<rparr>) (put_bytes (nat pos - lastWrittenLocation w) data (Buffer w)))"

definition WriteFileBuffer_removeLast :: "wfb \<Rightarrow> wfb" where
  "WriteFileBuffer_removeLast w =
     (if 0 < numElements w then w\<lparr>numElements := numElements w - 1\<rparr>
      else if sizeElement w \<le> lastWrittenLocation w
      then w\<lparr>FD := sys_ftruncate (lastWrittenLocation w - sizeElement w) (FD w)\<rparr>
      else w)"

text \<open>\<open>Flush_FS\<close> of \<open>file_set.c\<close>, for the buffer of one file.\<close>

definition Flush_one :: "bool \<Rightarrow> wfb \<Rightarrow> wfb result" where
  "Flush_one remove_last w = WriteFileBuffer_flush (if remove_last then WriteFileBuffer_removeLast w else w)"

end
