(* ===== verification/Write_File_Buffer_Correct.thy ===== *)
theory Write_File_Buffer_Correct
  imports Write_File_Buffer
begin

text \<open>
  The buffered file as a list of elements: writing appends, the position tells where the next
  element goes, writing at a position replaces that element wherever it is, flushing puts
  everything in the file. The clients use it through the locale \<open>element_file\<close>.
\<close>

section \<open>Lists of equal pieces\<close>

lemma length_concat_equal: "\<forall>e \<in> set es. length e = n \<Longrightarrow> length (concat es) = length es * n"
  by (induction es) auto

lemma concat_update:
  assumes "\<forall>e \<in> set es. length e = n" and "k < length es" and "length d = n"
  shows "concat (es[k := d]) = take (k * n) (concat es) @ d @ drop (k * n + n) (concat es)"
proof -
  have es: "es = take k es @ es ! k # drop (Suc k) es" using assms(2) by (rule id_take_nth_drop)
  have l: "length (concat (take k es)) = k * n"
    using assms by (subst length_concat_equal [of _ n]) (auto dest: in_set_takeD)
  have m: "length (es ! k) = n" using assms by simp
  have "concat es = concat (take k es) @ es ! k @ concat (drop (Suc k) es)"
    by (subst es) simp
  then show ?thesis using l m assms(2) by (simp add: upd_conv_take_nth_drop)
qed

lemma concat_butlast:
  assumes "\<forall>e \<in> set es. length e = n" and "es \<noteq> []"
  shows "concat (butlast es) = take (length (concat es) - n) (concat es)"
  using assms by (induction es rule: rev_induct) auto

lemma concat_inject:
  assumes "concat es = concat ds" and "\<forall>e \<in> set es. length e = n" and "\<forall>d \<in> set ds. length d = n" and "0 < n"
  shows "es = ds"
  using assms
proof (induction es arbitrary: ds)
  case Nil
  then show ?case by (cases ds) auto
next
  case (Cons e es)
  then obtain d ds' where ds: "ds = d # ds'" by (cases ds) auto
  with Cons.prems have "e = d" "concat es = concat ds'" by (simp_all add: append_eq_append_conv)
  with Cons.IH [of ds'] Cons.prems ds show ?case by simp
qed

lemma take_patch:
  assumes "k + length bs \<le> n" and "n \<le> length b"
  shows "take n (take k b @ bs @ drop (k + length bs) b) =
    take k (take n b) @ bs @ drop (k + length bs) (take n b)"
  using assms by (intro nth_equalityI) (auto simp: nth_append)

lemma length_patch:
  "k + length bs \<le> length b \<Longrightarrow> length (take k b @ bs @ drop (k + length bs) b) = length b"
  by simp

section \<open>The representation\<close>

definition buffered :: "wfb \<Rightarrow> byte option list" where
  "buffered w = take (numElements w * sizeElement w) (Buffer w)"

definition wfb_ok :: "wfb \<Rightarrow> bool" where
  "wfb_ok w \<longleftrightarrow> 0 < sizeElement w \<and> numElements w < maxElements w \<and>
     length (Buffer w) = maxElements w * sizeElement w \<and> None \<notin> set (buffered w) \<and>
     lastWrittenLocation w = length (f_bytes (FD w)) \<and> f_offset (FD w) = length (f_bytes (FD w)) \<and>
     sizeElement w dvd lastWrittenLocation w"

definition file_contents :: "wfb \<Rightarrow> byte list" where
  "file_contents w = f_bytes (FD w) @ map the (buffered w)"

definition holds :: "wfb \<Rightarrow> byte list list \<Rightarrow> bool" where
  "holds w es \<longleftrightarrow> wfb_ok w \<and> file_contents w = concat es \<and> (\<forall>e \<in> set es. length e = sizeElement w)"

text \<open>There is room on the disk for so many elements.\<close>

definition disk_room :: "wfb \<Rightarrow> nat \<Rightarrow> bool" where
  "disk_room w n \<longleftrightarrow> n * sizeElement w \<le> f_limit (FD w)"

text \<open>What is in the file fits on the disk.\<close>

definition on_disk :: "wfb \<Rightarrow> bool" where
  "on_disk w \<longleftrightarrow> length (f_bytes (FD w)) \<le> f_limit (FD w)"

lemma holds_length: "holds w es \<Longrightarrow> length (file_contents w) = length es * sizeElement w"
  using length_concat_equal [of es "sizeElement w"] by (simp add: holds_def)

lemma buffered_length: "wfb_ok w \<Longrightarrow> length (buffered w) = numElements w * sizeElement w"
  by (simp add: wfb_ok_def buffered_def)

lemma room_on_disk:
  assumes "holds w es" and "disk_room w (length es)"
  shows "on_disk w"
  using holds_length [OF assms(1)] assms(2) by (simp add: file_contents_def disk_room_def on_disk_def)

lemma getPosition_law:
  assumes "holds w es"
  shows "WriteFileBuffer_getPosition w = length es * sizeElement w"
proof -
  have "wfb_ok w" using assms by (simp add: holds_def)
  then show ?thesis using holds_length [OF assms] buffered_length [OF \<open>wfb_ok w\<close>]
    by (auto simp: WriteFileBuffer_getPosition_def file_contents_def wfb_ok_def)
qed

lemma new_law:
  assumes "0 < n" and "0 < m" and "f_bytes fd = []" and "f_offset fd = 0"
  shows "holds (WriteFileBuffer_new fd n m) []"
  using assms by (simp add: holds_def wfb_ok_def file_contents_def buffered_def WriteFileBuffer_new_def)

section \<open>The operations\<close>

lemma sys_write_at_end:
  assumes "f_offset f = length (f_bytes f)" and "length (f_bytes f) + length bs \<le> f_limit f"
  shows "sys_write bs f = (int (length bs), f\<lparr>f_bytes := f_bytes f @ bs, f_offset := length (f_bytes f) + length bs\<rparr>)"
  using assms by (auto simp: sys_write_def Let_def)

text \<open>
  Flushing, also when the buffer is full, puts the elements in the file if they fit on the
  disk; the file offset and the last written location are in step afterwards.
\<close>

lemma flush_law:
  assumes size: "0 < sizeElement w" "0 < maxElements w" and num: "numElements w \<le> maxElements w"
    and buf: "length (Buffer w) = maxElements w * sizeElement w" "None \<notin> set (buffered w)"
    and off: "f_offset (FD w) = length (f_bytes (FD w))" and dvd: "sizeElement w dvd length (f_bytes (FD w))"
    and fits: "length (file_contents w) \<le> f_limit (FD w)"
  shows "\<exists>w1. WriteFileBuffer_flush w = Inr w1 \<and> wfb_ok w1 \<and> f_bytes (FD w1) = file_contents w \<and>
    numElements w1 = 0 \<and> sizeElement w1 = sizeElement w \<and> f_limit (FD w1) = f_limit (FD w) \<and>
    maxElements w1 = maxElements w"
proof -
  let ?n = "numElements w * sizeElement w"
  have len: "length (buffered w) = ?n" using num buf(1) by (simp add: buffered_def)
  then have "?n \<le> length (Buffer w)" by (simp add: buffered_def)
  then have get: "get_bytes ?n (Buffer w) = Inr (map the (buffered w))"
    using buf(2) by (simp add: get_bytes_def buffered_def)
  note wr = sys_write_at_end [OF off, of "map the (buffered w)"]
  have "length (f_bytes (FD w)) + length (map the (buffered w)) \<le> f_limit (FD w)"
    using fits by (simp add: file_contents_def)
  from wr [OF this] show ?thesis
    using size dvd buf(1) len get
    by (simp add: WriteFileBuffer_flush_def Let_def lseek_end_def wfb_ok_def file_contents_def buffered_def
        flip: of_nat_mult of_nat_add)
qed

lemma flush_holds:
  assumes w: "holds w es" and room: "disk_room w (length es)"
  shows "\<exists>w1. WriteFileBuffer_flush w = Inr w1 \<and> holds w1 es \<and> f_bytes (FD w1) = concat es \<and>
    (\<forall>n. disk_room w1 n = disk_room w n) \<and> sizeElement w1 = sizeElement w"
proof -
  have "length (file_contents w) \<le> f_limit (FD w)"
    using holds_length [OF w] room by (simp add: disk_room_def)
  from flush_law [OF _ _ _ _ _ _ _ this] w obtain w1 where
    "WriteFileBuffer_flush w = Inr w1" "wfb_ok w1" "f_bytes (FD w1) = file_contents w" "numElements w1 = 0"
    "sizeElement w1 = sizeElement w" "f_limit (FD w1) = f_limit (FD w)"
    by (auto simp: holds_def wfb_ok_def)
  then show ?thesis using w by (simp add: holds_def disk_room_def file_contents_def [of w1] buffered_def [of w1])
qed

lemma write_law:
  assumes w: "holds w es" and e: "length e = sizeElement w"
    and room: "numElements w + 1 = maxElements w \<Longrightarrow> disk_room w (length es + 1)"
  shows "\<exists>w1. WriteFileBuffer_write e w = Inr w1 \<and> holds w1 (es @ [e]) \<and>
    (\<forall>n. disk_room w1 n = disk_room w n) \<and> sizeElement w1 = sizeElement w"
proof -
  let ?s = "sizeElement w" and ?n = "numElements w * sizeElement w"
  let ?b = "take ?n (Buffer w) @ map Some e @ drop (?n + ?s) (Buffer w)"
  let ?w = "w\<lparr>Buffer := ?b, numElements := numElements w + 1\<rparr>"
  have ok: "0 < ?s" "numElements w < maxElements w" "length (Buffer w) = maxElements w * ?s"
    "None \<notin> set (buffered w)" "f_offset (FD w) = length (f_bytes (FD w))" "?s dvd length (f_bytes (FD w))"
    "lastWrittenLocation w = length (f_bytes (FD w))"
    using w by (auto simp: holds_def wfb_ok_def)
  have fit: "?n + ?s \<le> length (Buffer w)"
    using ok(2,3) mult_le_mono1 [of "Suc (numElements w)" "maxElements w" ?s] by simp
  have put: "put_bytes ?n e (Buffer w) = Inr ?b" using fit e by (simp add: put_bytes_def)
  have buf: "buffered ?w = buffered w @ map Some e"
    using fit e by (simp add: buffered_def add.commute)
  have cont: "file_contents ?w = concat (es @ [e])"
    using w unfolding holds_def file_contents_def buf by (simp add: comp_def)
  have all: "\<forall>x \<in> set (es @ [e]). length x = ?s" using w e by (auto simp: holds_def)
  show ?thesis
  proof (cases "numElements w + 1 = maxElements w")
    case True
    have "length (file_contents ?w) \<le> f_limit (FD ?w)"
      using length_concat_equal [OF all] cont room [OF True] by (simp add: disk_room_def)
    moreover have "length ?b = length (Buffer w)" using fit e by simp
    ultimately obtain w1 where w1: "WriteFileBuffer_flush ?w = Inr w1" "wfb_ok w1" "f_bytes (FD w1) = file_contents ?w"
      "numElements w1 = 0" "sizeElement w1 = ?s" "f_limit (FD w1) = f_limit (FD w)"
      using flush_law [of ?w] ok True buf by auto
    then have "holds w1 (es @ [e])"
      using cont all by (simp add: holds_def file_contents_def [of w1] buffered_def [of w1])
    then show ?thesis using w1 True e put by (simp add: WriteFileBuffer_write_def disk_room_def Let_def)
  next
    case False
    have "wfb_ok ?w" using ok False fit e buf by (simp add: wfb_ok_def)
    then have "holds ?w (es @ [e])" using cont all by (simp add: holds_def)
    then show ?thesis using False e put by (simp add: WriteFileBuffer_write_def disk_room_def Let_def)
  qed
qed

text \<open>Writing at the position of an element, in the file or in the buffer, replaces it.\<close>

lemma writeAt_law:
  assumes w: "holds w es" and e: "length e = sizeElement w" and k: "k < length es" and room: "on_disk w"
  shows "\<exists>w1. WriteFileBuffer_writeAt e (int (k * sizeElement w)) w = Inr w1 \<and> holds w1 (es[k := e]) \<and> on_disk w1 \<and>
    (\<forall>n. disk_room w1 n = disk_room w n) \<and> sizeElement w1 = sizeElement w"
proof -
  let ?s = "sizeElement w" and ?n = "numElements w * sizeElement w"
  let ?f = "f_bytes (FD w)" and ?b = "Buffer w" and ?p = "k * sizeElement w"
  have okw: "wfb_ok w" and ok: "0 < ?s" "numElements w < maxElements w" "length ?b = maxElements w * ?s"
    "None \<notin> set (buffered w)" "f_offset (FD w) = length ?f" "?s dvd length ?f" "lastWrittenLocation w = length ?f"
    using w by (auto simp: holds_def wfb_ok_def)
  have all: "\<forall>x \<in> set es. length x = ?s" using w by (simp add: holds_def)
  have all1: "\<forall>x \<in> set (es[k := e]). length x = ?s"
    using all e set_update_subset_insert [of es k e] by auto
  have len: "length ?f + ?n = length es * ?s"
    using holds_length [OF w] buffered_length [OF okw] by (simp add: file_contents_def)
  have end_p: "?p + ?s \<le> length es * ?s"
    using k mult_le_mono1 [of "Suc k" "length es" ?s] by simp
  have target: "concat (es[k := e]) = take ?p (file_contents w) @ e @ drop (?p + ?s) (file_contents w)"
    using concat_update [OF all k e] w by (simp add: holds_def)
  have get: "length (buffered w) = ?n" by (rule buffered_length [OF okw])
  show ?thesis
  proof (cases "?p < length ?f")
    case True
    have "?p + ?s \<le> length ?f"
    proof -
      from ok(6) obtain m where "length ?f = ?s * m" by (rule dvdE)
      then have m: "length ?f = m * ?s" by (simp add: mult.commute)
      have "Suc k \<le> m" using True unfolding m by (simp add: Suc_le_eq)
      then have "Suc k * ?s \<le> m * ?s" by (rule mult_le_mono1)
      then show ?thesis by (simp add: m)
    qed
    moreover have "length ?f \<le> f_limit (FD w)" using room by (simp add: on_disk_def)
    ultimately have wr: "sys_write e (FD w\<lparr>f_offset := ?p\<rparr>) =
      (int ?s, FD w\<lparr>f_bytes := take ?p ?f @ e @ drop (?p + ?s) ?f, f_offset := ?p + ?s\<rparr>)"
      using e ok(1) by (auto simp: sys_write_def Let_def min_def)
    let ?w = "w\<lparr>FD := FD w\<lparr>f_bytes := take ?p ?f @ e @ drop (?p + ?s) ?f, f_offset := length ?f\<rparr>\<rparr>"
    have "WriteFileBuffer_writeAt e (int ?p) w = Inr ?w"
      using True ok(7) e wr by (simp add: WriteFileBuffer_writeAt_def lseek_set_def Let_def flip: of_nat_mult)
    moreover have "wfb_ok ?w"
      using ok \<open>?p + ?s \<le> length ?f\<close> e by (simp add: wfb_ok_def buffered_def)
    moreover have "file_contents ?w = concat (es[k := e])"
      using \<open>?p + ?s \<le> length ?f\<close> unfolding target by (simp add: file_contents_def buffered_def)
    moreover have "on_disk ?w" using room \<open>?p + ?s \<le> length ?f\<close> e by (simp add: on_disk_def)
    ultimately show ?thesis using all1 by (simp add: holds_def disk_room_def)
  next
    case False
    let ?o = "?p - length ?f"
    have o: "?o + ?s \<le> ?n" "length ?f + ?o = ?p" using False end_p len by simp_all
    have fit: "?n \<le> length ?b" using ok(2,3) by simp
    let ?b1 = "take ?o ?b @ map Some e @ drop (?o + ?s) ?b"
    let ?w = "w\<lparr>Buffer := ?b1\<rparr>"
    have "put_bytes ?o e ?b = Inr ?b1" using o fit e by (simp add: put_bytes_def)
    moreover have "int ?p + int ?s \<le> int (length ?f) + int (?s * numElements w)"
      using o by (simp add: mult.commute flip: of_nat_mult of_nat_add)
    ultimately have "WriteFileBuffer_writeAt e (int ?p) w = Inr ?w"
      using False ok(7) e by (simp add: WriteFileBuffer_writeAt_def not_less flip: of_nat_mult of_nat_add)
    moreover have buf: "buffered ?w = take ?o (buffered w) @ map Some e @ drop (?o + ?s) (buffered w)"
      using take_patch [of ?o "map Some e" ?n ?b] o fit e by (simp add: buffered_def)
    moreover have "wfb_ok ?w"
    proof -
      have "length ?b1 = length ?b" using length_patch [of ?o "map Some e" ?b] o fit e by simp
      then show ?thesis using ok unfolding wfb_ok_def buf by (auto dest: in_set_takeD in_set_dropD)
    qed
    moreover have "file_contents ?w = concat (es[k := e])"
      using o False unfolding target file_contents_def buf
      by (simp add: take_map drop_map comp_def)
    ultimately show ?thesis using all1 room by (simp add: holds_def disk_room_def on_disk_def)
  qed
qed

text \<open>A position beyond the last element stops the program.\<close>

lemma writeAt_beyond:
  assumes "holds w es" and "length e = sizeElement w" and "length es \<le> k"
  shows "WriteFileBuffer_writeAt e (int (k * sizeElement w)) w = Inl (Exit (-1))"
proof -
  let ?s = "sizeElement w"
  have okw: "wfb_ok w" using assms by (simp add: holds_def)
  have "length (f_bytes (FD w)) + numElements w * ?s = length es * ?s"
    using holds_length [OF assms(1)] buffered_length [OF okw] by (simp add: file_contents_def)
  moreover have "length es * ?s \<le> k * ?s" using assms(3) by (rule mult_le_mono1)
  moreover have "lastWrittenLocation w = length (f_bytes (FD w))" "0 < ?s" using okw by (auto simp: wfb_ok_def)
  ultimately have "\<not> k * ?s < lastWrittenLocation w" "lastWrittenLocation w + numElements w * ?s < k * ?s + ?s"
    by linarith+
  then have "\<not> int (k * ?s) < int (lastWrittenLocation w)"
    "int (lastWrittenLocation w) + int (?s * numElements w) < int (k * ?s) + int ?s"
    by (simp_all add: mult.commute flip: of_nat_mult of_nat_add)
  then show ?thesis using assms(2) by (simp add: WriteFileBuffer_writeAt_def)
qed

text \<open>
  Removing the last element and flushing, as \<open>Flush_FS\<close> does, leaves the other elements in the file,
  whether the last one was still in memory or had just been flushed.
\<close>

lemma remove_last_law:
  assumes w: "holds w es" and ne: "es \<noteq> []" and room: "disk_room w (length es)"
  shows "\<exists>w1. Flush_one True w = Inr w1 \<and> holds w1 (butlast es) \<and> f_bytes (FD w1) = concat (butlast es)"
proof -
  let ?s = "sizeElement w" and ?f = "f_bytes (FD w)"
  have okw: "wfb_ok w" and ok: "0 < ?s" "numElements w < maxElements w" "length (Buffer w) = maxElements w * ?s"
    "None \<notin> set (buffered w)" "f_offset (FD w) = length ?f" "?s dvd length ?f" "lastWrittenLocation w = length ?f"
    using w by (auto simp: holds_def wfb_ok_def)
  have all: "\<forall>x \<in> set es. length x = ?s" using w by (simp add: holds_def)
  then have all1: "\<forall>x \<in> set (butlast es). length x = ?s" by (auto dest: in_set_butlastD)
  have len: "length ?f + numElements w * ?s = length es * ?s"
    using holds_length [OF w] buffered_length [OF okw] by (simp add: file_contents_def)
  have target: "concat (butlast es) = take (length (file_contents w) - ?s) (file_contents w)"
    using concat_butlast [OF all ne] w by (simp add: holds_def)
  show ?thesis
  proof (cases "numElements w")
    case (Suc n)
    let ?w = "w\<lparr>numElements := n\<rparr>"
    have "n * ?s \<le> length (Buffer w)" using ok(2,3) Suc by simp
    moreover have buf: "buffered ?w = take (n * ?s) (buffered w)" by (simp add: buffered_def Suc min_def)
    ultimately have "wfb_ok ?w" using ok Suc by (auto simp: wfb_ok_def dest: in_set_takeD)
    moreover have "file_contents ?w = concat (butlast es)"
      unfolding target file_contents_def buf using buffered_length [OF okw] Suc by (simp add: take_map)
    ultimately have "holds ?w (butlast es)" using all1 by (simp add: holds_def)
    moreover have "disk_room ?w (length (butlast es))"
      using room diff_le_mono [of "length es * ?s" "f_limit (FD w)" 0]
      by (simp add: disk_room_def diff_mult_distrib le_diff_conv trans_le_add1)
    ultimately show ?thesis
      using flush_holds [of ?w "butlast es"] Suc by (auto simp: Flush_one_def WriteFileBuffer_removeLast_def)
  next
    case 0
    let ?w1 = "w\<lparr>FD := FD w\<lparr>f_bytes := concat (butlast es), f_offset := length (concat (butlast es))\<rparr>,
      lastWrittenLocation := length (concat (butlast es)), numElements := 0\<rparr>"
    have f: "?f = concat es" using w 0 by (simp add: holds_def file_contents_def buffered_def)
    have "?s \<le> length ?f" using len 0 ne by (cases es) auto
    then have "WriteFileBuffer_removeLast w = w\<lparr>FD := FD w\<lparr>f_bytes := concat (butlast es)\<rparr>\<rparr>"
      using 0 ok(7) target f by (simp add: WriteFileBuffer_removeLast_def sys_ftruncate_def file_contents_def buffered_def)
    moreover have "get_bytes 0 (Buffer w) = Inr []" by (simp add: get_bytes_def)
    ultimately have "Flush_one True w = Inr ?w1"
      using 0 by (simp add: Flush_one_def WriteFileBuffer_flush_def sys_write_def lseek_end_def Let_def)
    moreover have "wfb_ok ?w1" using ok length_concat_equal [OF all1] by (simp add: wfb_ok_def buffered_def)
    ultimately show ?thesis using all1 by (simp add: holds_def file_contents_def buffered_def)
  qed
qed

text \<open>
  Without knowing the room on the disk: a write, a correction or a flush that returns did what it should.
\<close>

lemma sys_write_all:
  assumes "sys_write bs f = (int (length bs), f1)" and "bs \<noteq> []" and "f_offset f = length (f_bytes f)"
  shows "length (f_bytes f) + length bs \<le> f_limit f"
proof -
  have "length bs \<le> f_limit f - length (f_bytes f)"
    using assms by (auto simp: sys_write_def Let_def min_def split: if_splits)
  moreover have "0 < length bs" using assms(2) by simp
  ultimately show ?thesis by linarith
qed

lemma flush_room:
  assumes w: "WriteFileBuffer_flush w = Inr w1" and off: "f_offset (FD w) = length (f_bytes (FD w))" and disk: "on_disk w"
  shows "length (file_contents w) \<le> f_limit (FD w)"
proof -
  obtain bs where get: "get_bytes (numElements w * sizeElement w) (Buffer w) = Inr bs"
    using w by (auto simp: WriteFileBuffer_flush_def rbind_Inr_iff)
  obtain r fd1 where wr: "sys_write bs (FD w) = (r, fd1)" by force
  have "r = int (numElements w * sizeElement w)"
    using w by (simp add: WriteFileBuffer_flush_def get wr Let_def split: prod.splits if_splits)
  note bs = get wr [unfolded this]
  then have len: "length bs = numElements w * sizeElement w" "bs = map the (buffered w)"
    by (auto simp: get_bytes_def buffered_def split: if_splits)
  then show ?thesis
    using sys_write_all [of bs "FD w" fd1] bs(2) off disk
    by (cases "bs = []") (simp_all add: file_contents_def on_disk_def)
qed

lemma flush_back:
  assumes w: "holds w es" and "on_disk w" and "WriteFileBuffer_flush w = Inr w1"
  shows "holds w1 es" and "f_bytes (FD w1) = concat es"
proof -
  have "length (file_contents w) \<le> f_limit (FD w)"
    using flush_room [OF assms(3)] w assms(2) by (simp add: holds_def wfb_ok_def)
  then have "disk_room w (length es)" using holds_length [OF w] by (simp add: disk_room_def)
  with flush_holds [OF w] assms(3) show "holds w1 es" "f_bytes (FD w1) = concat es" by auto
qed

lemma write_back:
  assumes w: "holds w es" and disk: "on_disk w" and e: "length e = sizeElement w"
    and wr: "WriteFileBuffer_write e w = Inr w1"
  shows "holds w1 (es @ [e])" and "on_disk w1" and "sizeElement w1 = sizeElement w"
proof -
  obtain b where b: "put_bytes (numElements w * sizeElement w) e (Buffer w) = Inr b"
    using wr e by (auto simp: WriteFileBuffer_write_def rbind_Inr_iff)
  let ?w = "w\<lparr>Buffer := b, numElements := numElements w + 1\<rparr>"
  have "buffered ?w = buffered w @ map Some e"
    using b e by (auto simp: put_bytes_def buffered_def add.commute split: if_splits)
  then have len: "length (file_contents ?w) = (length es + 1) * sizeElement w"
    using holds_length [OF w] e by (simp add: file_contents_def)
  have room: "disk_room w (length es + 1)" and on1: "on_disk w1" if full: "numElements w + 1 = maxElements w"
  proof -
    have fl: "WriteFileBuffer_flush ?w = Inr w1" using wr b e full by (simp add: WriteFileBuffer_write_def)
    have "on_disk ?w" "f_offset (FD ?w) = length (f_bytes (FD ?w))" using disk w by (simp_all add: on_disk_def holds_def wfb_ok_def)
    from flush_room [OF fl this(2,1)] show room: "disk_room w (length es + 1)" unfolding len by (simp add: disk_room_def)
    from write_law [OF w e this] wr have w1: "holds w1 (es @ [e])" "\<forall>n. disk_room w1 n = disk_room w n" by auto
    show "on_disk w1" by (rule room_on_disk [OF w1(1)]) (use w1(2) room in simp)
  qed
  from write_law [OF w e room] wr show "holds w1 (es @ [e])" "sizeElement w1 = sizeElement w" by auto
  show "on_disk w1"
  proof (cases "numElements w + 1 = maxElements w")
    case False
    then show ?thesis using wr b e disk by (auto simp: WriteFileBuffer_write_def on_disk_def)
  qed (rule on1)
qed

lemma writeAt_back:
  assumes w: "holds w es" and disk: "on_disk w" and e: "length e = sizeElement w" and k: "k < length es"
    and wr: "WriteFileBuffer_writeAt e (int (k * sizeElement w)) w = Inr w1"
  shows "holds w1 (es[k := e])" and "on_disk w1" and "sizeElement w1 = sizeElement w"
proof -
  from writeAt_law [OF w e k disk] wr show "holds w1 (es[k := e])" "sizeElement w1 = sizeElement w"
    and *: "on_disk w1" by auto
qed

section \<open>The interface\<close>

text \<open>What the merger does with such a file: add an element, or fill in an earlier one.\<close>

datatype 'e file_op = Append 'e | Fill nat 'e

text \<open>On the list of elements; \<open>ops_ok ok n\<close> says that only existing elements are filled in.\<close>

fun list_op :: "'e file_op \<Rightarrow> 'e list \<Rightarrow> 'e list" where
  "list_op (Append e) es = es @ [e]"
| "list_op (Fill k e) es = es[k := e]"

fun ops_ok :: "('e \<Rightarrow> bool) \<Rightarrow> nat \<Rightarrow> 'e file_op list \<Rightarrow> bool" where
  "ops_ok ok n [] \<longleftrightarrow> True"
| "ops_ok ok n (Append e # ops) \<longleftrightarrow> ok e \<and> ops_ok ok (Suc n) ops"
| "ops_ok ok n (Fill k e # ops) \<longleftrightarrow> ok e \<and> k < n \<and> ops_ok ok n ops"

text \<open>On the file, where an element is filled in at its position in bytes.\<close>

fun do_file_op :: "('e \<Rightarrow> 'w \<Rightarrow> 'w result) \<Rightarrow> ('e \<Rightarrow> int \<Rightarrow> 'w \<Rightarrow> 'w result) \<Rightarrow> nat \<Rightarrow> 'e file_op \<Rightarrow> 'w \<Rightarrow> 'w result" where
  "do_file_op add put n (Append e) w = add e w"
| "do_file_op add put n (Fill k e) w = put e (int (k * n)) w"

lemma list_ops_grow: "length es \<le> length (fold list_op ops es)"
proof (induction ops arbitrary: es)
  case (Cons p ops)
  show ?case using Cons.IH [of "list_op p es"] by (cases p) auto
qed simp

text \<open>
  A file of elements for the clients: \<open>rep w es\<close> says that \<open>w\<close> holds the elements \<open>es\<close>, \<open>room w n\<close> that
  there is room for \<open>n\<close> of them.
\<close>

locale element_file =
  fixes rep :: "'w \<Rightarrow> 'e list \<Rightarrow> bool" and room :: "'w \<Rightarrow> nat \<Rightarrow> bool" and elem :: "'w \<Rightarrow> 'e \<Rightarrow> bool"
    and width :: "'w \<Rightarrow> nat" and next_at :: "'w \<Rightarrow> nat"
    and append_elem :: "'e \<Rightarrow> 'w \<Rightarrow> 'w result" and put_at :: "'e \<Rightarrow> int \<Rightarrow> 'w \<Rightarrow> 'w result"
  assumes next_at: "rep w es \<Longrightarrow> next_at w = length es * width w"
    and append_elem: "rep w es \<Longrightarrow> elem w e \<Longrightarrow> room w (length es + 1) \<Longrightarrow>
      \<exists>w1. append_elem e w = Inr w1 \<and> rep w1 (es @ [e]) \<and> room w1 = room w \<and> elem w1 = elem w \<and> width w1 = width w"
    and put_at: "rep w es \<Longrightarrow> elem w e \<Longrightarrow> k < length es \<Longrightarrow> room w (length es) \<Longrightarrow>
      \<exists>w1. put_at e (int (k * width w)) w = Inr w1 \<and> rep w1 (es[k := e]) \<and> room w1 = room w \<and>
        elem w1 = elem w \<and> width w1 = width w"
begin

text \<open>A slot reserved now can be filled later, whatever was written in between.\<close>

lemma reserve_and_fill:
  assumes "rep w es" and "elem w e" and "elem w d" and "room w (length es + 1 + length ds)"
    and "\<forall>x \<in> set ds. elem w x" and mono: "\<And>m n. m \<le> n \<Longrightarrow> room w n \<Longrightarrow> room w m"
  shows "\<exists>w1 w2. append_elem e w = Inr w1 \<and> rfold append_elem ds w1 = Inr w2 \<and>
    (\<exists>w3. put_at d (int (next_at w)) w2 = Inr w3 \<and> rep w3 (es @ d # ds))"
proof -
  have many: "\<exists>w2. rfold append_elem ds w1 = Inr w2 \<and> rep w2 (es1 @ ds) \<and> room w2 = room w \<and> elem w2 = elem w \<and> width w2 = width w"
    if "rep w1 es1" "room w1 = room w" "elem w1 = elem w" "width w1 = width w" "room w (length es1 + length ds)"
      "\<forall>x \<in> set ds. elem w x" for w1 es1 ds
    using that
  proof (induction ds arbitrary: w1 es1)
    case (Cons x ds)
    have "room w (length es1 + 1)"
      using mono [of "length es1 + 1" "length es1 + length (x # ds)"] Cons.prems(5) by simp
    with append_elem [OF Cons.prems(1), of x] Cons.prems obtain w2 where
      "append_elem x w1 = Inr w2" "rep w2 (es1 @ [x])" "room w2 = room w" "elem w2 = elem w" "width w2 = width w" by auto
    then show ?case using Cons.IH [of w2 "es1 @ [x]"] Cons.prems(5,6) by simp
  qed simp
  from append_elem [OF assms(1,2)] mono [of "length es + 1" "length es + 1 + length ds"] assms(4) obtain w1 where
    w1: "append_elem e w = Inr w1" "rep w1 (es @ [e])" "room w1 = room w" "elem w1 = elem w" "width w1 = width w" by auto
  from many [OF w1(2-5)] assms(4,5) obtain w2 where
    w2: "rfold append_elem ds w1 = Inr w2" "rep w2 ((es @ [e]) @ ds)" "room w2 = room w" "elem w2 = elem w" "width w2 = width w"
    by auto
  from put_at [OF w2(2), of d "length es"] w2 assms(3,4) obtain w3 where
    "put_at d (int (length es * width w)) w2 = Inr w3" "rep w3 (es @ d # ds)"
    by (auto simp: list_update_append)
  then show ?thesis using w1(1) w2(1) next_at [OF assms(1)] by auto
qed

text \<open>Any sequence of operations acts as on the list.\<close>

lemma ops_refine:
  assumes "rep w es" and "ops_ok (elem w) (length es) ops" and "room w (length (fold list_op ops es))"
    and mono: "\<And>m n. m \<le> n \<Longrightarrow> room w n \<Longrightarrow> room w m"
  shows "\<exists>w1. rfold (do_file_op append_elem put_at (width w)) ops w = Inr w1 \<and> rep w1 (fold list_op ops es) \<and> room w1 = room w"
  using assms
proof (induction ops arbitrary: w es)
  case (Cons p ops)
  have room: "room w n" if "n \<le> length (fold list_op (p # ops) es)" for n
    using Cons.prems(4) [OF that Cons.prems(3)] .
  have "\<exists>w1. do_file_op append_elem put_at (width w) p w = Inr w1 \<and> rep w1 (list_op p es) \<and> room w1 = room w \<and>
      elem w1 = elem w \<and> width w1 = width w"
  proof (cases p)
    case (Append e)
    then show ?thesis
      using append_elem [OF Cons.prems(1), of e] Cons.prems(2) room [of "length es + 1"] list_ops_grow [of "es @ [e]" ops] by simp
  next
    case (Fill k e)
    then show ?thesis
      using put_at [OF Cons.prems(1), of e k] Cons.prems(2) room [of "length es"] list_ops_grow [of "es[k := e]" ops] by simp
  qed
  then obtain w1 where w1: "do_file_op append_elem put_at (width w) p w = Inr w1" "rep w1 (list_op p es)"
    "room w1 = room w" "elem w1 = elem w" "width w1 = width w" by blast
  have "ops_ok (elem w1) (length (list_op p es)) ops" using Cons.prems(2) w1(4) by (cases p) auto
  from Cons.IH [OF w1(2) this] Cons.prems(3,4) w1 show ?case by auto
qed simp

end

interpretation wfb: element_file holds disk_room "\<lambda>w e. length e = sizeElement w" sizeElement
  WriteFileBuffer_getPosition WriteFileBuffer_write WriteFileBuffer_writeAt
proof unfold_locales
  fix w :: wfb and es :: "byte list list" and e :: "byte list" and k :: nat
  assume "holds w es" "length e = sizeElement w" "k < length es" "disk_room w (length es)"
  then show "\<exists>w1. WriteFileBuffer_writeAt e (int (k * sizeElement w)) w = Inr w1 \<and> holds w1 (es[k := e]) \<and>
      disk_room w1 = disk_room w \<and> (\<lambda>e. length e = sizeElement w1) = (\<lambda>e. length e = sizeElement w) \<and> sizeElement w1 = sizeElement w"
    using writeAt_law room_on_disk by (fastforce simp: fun_eq_iff)
qed (use getPosition_law write_law in \<open>fastforce simp: fun_eq_iff\<close>)+

section \<open>Properties\<close>

lemma disk_room_mono: "m \<le> n \<Longrightarrow> disk_room w n \<Longrightarrow> disk_room w m"
  by (meson disk_room_def le_trans mult_le_mono1)

text \<open>
  C17. However writes and later corrections of earlier elements are mixed, and wherever the corrected
  element is by then, the file ends up with exactly the elements of the list, in order, after a
  flush; with the request to drop it, without the last one.
\<close>

theorem buffered_file_refines:
  assumes "holds w es" and "ops_ok (\<lambda>e. length e = sizeElement w) (length es) ops"
    and "disk_room w (length (fold list_op ops es))"
  shows "\<exists>w1. rfold (do_file_op WriteFileBuffer_write WriteFileBuffer_writeAt (sizeElement w)) ops w = Inr w1 \<and>
    holds w1 (fold list_op ops es) \<and>
    (\<exists>w2. Flush_one False w1 = Inr w2 \<and> f_bytes (FD w2) = concat (fold list_op ops es)) \<and>
    (fold list_op ops es \<noteq> [] \<longrightarrow>
      (\<exists>w2. Flush_one True w1 = Inr w2 \<and> f_bytes (FD w2) = concat (butlast (fold list_op ops es))))"
proof -
  have "\<exists>w1. rfold (do_file_op WriteFileBuffer_write WriteFileBuffer_writeAt (sizeElement w)) ops w = Inr w1 \<and>
      holds w1 (fold list_op ops es) \<and> disk_room w1 = disk_room w"
    by (rule wfb.ops_refine [OF assms]) (rule disk_room_mono)
  then obtain w1 where
    w1: "rfold (do_file_op WriteFileBuffer_write WriteFileBuffer_writeAt (sizeElement w)) ops w = Inr w1"
    "holds w1 (fold list_op ops es)" "disk_room w1 = disk_room w" by blast
  then have room: "disk_room w1 (length (fold list_op ops es))" using assms(3) by simp
  have "\<exists>w2. Flush_one False w1 = Inr w2 \<and> f_bytes (FD w2) = concat (fold list_op ops es)"
    using flush_holds [OF w1(2) room] by (auto simp: Flush_one_def)
  with w1(1,2) remove_last_law [OF w1(2) _ room] show ?thesis by blast
qed

theorem buffered_file_refines_witness:
  "\<exists>w1 w2. rfold (do_file_op WriteFileBuffer_write WriteFileBuffer_writeAt 2)
     [Append [1, 2], Append [3, 4], Append [5, 6], Fill 0 [7, 8], Fill 2 [9, 10]]
     (WriteFileBuffer_new \<lparr>f_bytes = [], f_offset = 0, f_limit = 100\<rparr> 2 2) = Inr w1 \<and>
   Flush_one False w1 = Inr w2 \<and> f_bytes (FD w2) = [7, 8, 3, 4, 9, 10]"
proof -
  let ?w = "WriteFileBuffer_new \<lparr>f_bytes = [], f_offset = 0, f_limit = 100\<rparr> 2 2"
  have "holds ?w []" by (rule new_law) simp_all
  moreover have "sizeElement ?w = 2" "f_limit (FD ?w) = 100" by (simp_all add: WriteFileBuffer_new_def)
  ultimately show ?thesis
    using buffered_file_refines [of ?w "[]" "[Append [1, 2], Append [3, 4], Append [5, 6], Fill 0 [7, 8], Fill 2 [9, 10]]"]
    by (auto simp: disk_room_def)
qed

end
