(* ===== verification/Prv_Printf.thy ===== *)
theory Prv_Printf
  imports Prelude "HOL-Library.Word"
begin

text \<open>
  Writing the lines of a Paraver trace without \<open>sprintf\<close> (\<open>merger/paraver/paraver_nprintf.c\<close>). Every
  number is 64 bits wide. The buffer is the text written so far, whose length is \<open>start\<close>; the null
  character at the end is left out. The generic code for one number appears some thirty times in
  the file and is one definition here.
\<close>

section \<open>Numbers\<close>

definition digit_char :: "nat \<Rightarrow> char" where
  "digit_char d = char_of (d + 48)"

text \<open>\<open>lbuffer\<close>: the decimal digits, the least significant first.\<close>

fun lbuffer :: "nat \<Rightarrow> string" where
  "lbuffer n = (if 10 \<le> n then digit_char (n mod 10) # lbuffer (n div 10) else [digit_char n])"

declare lbuffer.simps [simp del]

text \<open>The digits are copied in reverse order, and a separator follows.\<close>

definition put_number :: "64 word \<Rightarrow> char \<Rightarrow> string \<Rightarrow> string" where
  "put_number v sep buffer = buffer @ rev (lbuffer (unat v)) @ [sep]"

definition put_last :: "64 word \<Rightarrow> string \<Rightarrow> string" where
  "put_last v buffer = buffer @ rev (lbuffer (unat v))"

section \<open>Lines\<close>

definition nprintf_paraver_comm ::
  "64 word \<Rightarrow> 64 word \<Rightarrow> 64 word \<Rightarrow> 64 word \<Rightarrow> 64 word \<Rightarrow> 64 word \<Rightarrow> 64 word \<Rightarrow> 64 word \<Rightarrow> 64 word \<Rightarrow> 64 word \<Rightarrow>
   64 word \<Rightarrow> 64 word \<Rightarrow> 64 word \<Rightarrow> 64 word \<Rightarrow> string" where
  "nprintf_paraver_comm cpu_s ptask_s task_s thread_s log_s phy_s cpu_r ptask_r task_r thread_r log_r phy_r
     sz tag =
   (let b0 = ''3:'';
        b1 = put_number cpu_s CHR '':'' b0;
        b2 = put_number ptask_s CHR '':'' b1;
        b3 = put_number task_s CHR '':'' b2;
        b4 = put_number thread_s CHR '':'' b3;
        b5 = put_number log_s CHR '':'' b4;
        b6 = put_number phy_s CHR '':'' b5;
        b7 = put_number cpu_r CHR '':'' b6;
        b8 = put_number ptask_r CHR '':'' b7;
        b9 = put_number task_r CHR '':'' b8;
        b10 = put_number thread_r CHR '':'' b9;
        b11 = put_number log_r CHR '':'' b10;
        b12 = put_number phy_r CHR '':'' b11;
        b13 = put_number sz CHR '':'' b12
    in put_number tag (CHR 0x0A) b13)"

definition nprintf_paraver_event_type_value :: "64 word \<Rightarrow> 64 word \<Rightarrow> string" where
  "nprintf_paraver_event_type_value type v =
   (let b0 = '':'';
        b1 = put_number type CHR '':'' b0
    in put_last v b1)"

definition nprintf_paraver_event_head ::
  "64 word \<Rightarrow> 64 word \<Rightarrow> 64 word \<Rightarrow> 64 word \<Rightarrow> 64 word \<Rightarrow> string" where
  "nprintf_paraver_event_head cpu ptask task thread time =
   (let b0 = ''2:'';
        b1 = put_number cpu CHR '':'' b0;
        b2 = put_number ptask CHR '':'' b1;
        b3 = put_number task CHR '':'' b2;
        b4 = put_number thread CHR '':'' b3
    in put_last time b4)"

definition nprintf_paraver_state ::
  "64 word \<Rightarrow> 64 word \<Rightarrow> 64 word \<Rightarrow> 64 word \<Rightarrow> 64 word \<Rightarrow> 64 word \<Rightarrow> 64 word \<Rightarrow> string" where
  "nprintf_paraver_state cpu ptask task thread ini_time end_time state =
   (let b0 = ''1:'';
        b1 = put_number cpu CHR '':'' b0;
        b2 = put_number ptask CHR '':'' b1;
        b3 = put_number task CHR '':'' b2;
        b4 = put_number thread CHR '':'' b3;
        b5 = put_number ini_time CHR '':'' b4;
        b6 = put_number end_time CHR '':'' b5
    in put_number state (CHR 0x0A) b6)"

section \<open>Reading the numbers back\<close>

fun decimal :: "nat \<Rightarrow> string \<Rightarrow> nat" where
  "decimal acc [] = acc"
| "decimal acc (c # cs) = decimal (10 * acc + digit_value c) cs"

text \<open>The numbers of a line: maximal runs of digits, separated by anything else.\<close>

fun numbers :: "string \<Rightarrow> string \<Rightarrow> nat list" where
  "numbers cur [] = (if cur = [] then [] else [decimal 0 cur])"
| "numbers cur (c # cs) =
     (if is_digit c then numbers (cur @ [c]) cs
      else (if cur = [] then [] else [decimal 0 cur]) @ numbers [] cs)"

lemma digit_char_value [simp]: "d < 10 \<Longrightarrow> digit_value (digit_char d) = d"
  by (simp add: digit_value_def digit_char_def)

lemma digit_char_digit [simp]: "d < 10 \<Longrightarrow> is_digit (digit_char d)"
  by (simp add: is_digit_def digit_char_def)

lemma decimal_append: "decimal acc (xs @ [c]) = 10 * decimal acc xs + digit_value c"
  by (induction xs arbitrary: acc) simp_all

lemma lbuffer_digits: "\<forall>c \<in> set (lbuffer n). is_digit c"
  by (induction n rule: lbuffer.induct) (subst lbuffer.simps, auto)

lemma lbuffer_nonempty [simp]: "lbuffer n \<noteq> []"
  by (subst lbuffer.simps) simp

lemma decimal_lbuffer: "decimal 0 (rev (lbuffer n)) = n"
  by (induction n rule: lbuffer.induct) (subst lbuffer.simps, auto simp: decimal_append)

lemma lbuffer_length: "n < 10 ^ Suc k \<Longrightarrow> length (lbuffer n) \<le> Suc k"
proof (induction n arbitrary: k rule: lbuffer.induct)
  case (1 n)
  show ?case
  proof (cases "10 \<le> n")
    case True
    then obtain j where k: "k = Suc j" using 1(2) by (cases k) auto
    then have "n div 10 < 10 ^ Suc j" using 1(2) by (simp add: less_mult_imp_div_less mult.commute)
    from 1(1) [OF True this] show ?thesis using True k by (subst lbuffer.simps) simp
  qed (subst lbuffer.simps, simp)
qed

lemma lbuffer_word: "length (lbuffer (unat (v :: 64 word))) \<le> 20"
proof -
  have "unat v < 2 ^ 64" using unsigned_less [of v] by simp
  then have "unat v < 10 ^ Suc 19" by simp
  from lbuffer_length [OF this] show ?thesis by simp
qed

lemma numbers_digits: "\<forall>c \<in> set ds. is_digit c \<Longrightarrow> numbers cur (ds @ rest) = numbers (cur @ ds) rest"
  by (induction ds arbitrary: cur) auto

lemma numbers_put:
  assumes "\<not> is_digit sep"
  shows "numbers [] (rev (lbuffer n) @ sep # rest) = n # numbers [] rest"
  using assms by (simp add: numbers_digits lbuffer_digits decimal_lbuffer)

lemma numbers_last: "numbers [] (rev (lbuffer n)) = [n]"
  using numbers_digits [of "rev (lbuffer n)" "[]" "[]"] by (simp add: lbuffer_digits decimal_lbuffer)

lemma separators [simp]: "\<not> is_digit CHR '':''" "\<not> is_digit (CHR 0x0A)"
  by (simp_all add: is_digit_def)

lemma put_number_length: "length (put_number v sep b) \<le> length b + 21"
  using lbuffer_word [of v] by (simp add: put_number_def)

lemma put_last_length: "length (put_last v b) \<le> length b + 20"
  using lbuffer_word [of v] by (simp add: put_last_def)

lemma line_lengths:
  "length (nprintf_paraver_state cpu ptask task thread t1 t2 st) \<le> 149"
  "length (nprintf_paraver_event_head cpu ptask task thread t1) \<le> 106"
  "length (nprintf_paraver_event_type_value ty v) \<le> 42"
  "length (nprintf_paraver_comm cpu ptask task thread t1 t2 cpu' ptask' task' thread' t3 t4 sz tag) \<le> 296"
proof -
  have n: "length (put_number v sep b) = length b + length (lbuffer (unat v)) + 1"
    and l: "length (put_last v b) = length b + length (lbuffer (unat v))" for v sep b
    by (simp_all add: put_number_def put_last_def)
  note d = lbuffer_word
  show "length (nprintf_paraver_state cpu ptask task thread t1 t2 st) \<le> 149"
    using d [of cpu] d [of ptask] d [of task] d [of thread] d [of t1] d [of t2] d [of st]
    by (simp add: nprintf_paraver_state_def Let_def n)
  show "length (nprintf_paraver_event_head cpu ptask task thread t1) \<le> 106"
    using d [of cpu] d [of ptask] d [of task] d [of thread] d [of t1]
    by (simp add: nprintf_paraver_event_head_def Let_def n l)
  show "length (nprintf_paraver_event_type_value ty v) \<le> 42"
    using d [of ty] d [of v] by (simp add: nprintf_paraver_event_type_value_def Let_def n l)
  show "length (nprintf_paraver_comm cpu ptask task thread t1 t2 cpu' ptask' task' thread' t3 t4 sz tag) \<le> 296"
    using d [of cpu] d [of ptask] d [of task] d [of thread] d [of t1] d [of t2] d [of cpu'] d [of ptask']
      d [of task'] d [of thread'] d [of t3] d [of t4] d [of sz] d [of tag]
    by (simp add: nprintf_paraver_comm_def Let_def n)
qed

section \<open>Properties\<close>

text \<open>
  C31. Reading a written line gives back the kind of the record and every number that was written,
  for all values of 64 bits: nothing is truncated, and different records give different lines.
\<close>

theorem prv_lines_read_back:
  "numbers [] (nprintf_paraver_state cpu ptask task thread t1 t2 st) =
     1 # map unat [cpu, ptask, task, thread, t1, t2, st] \<and>
   numbers [] (nprintf_paraver_event_head cpu ptask task thread t1 @ nprintf_paraver_event_type_value ty v) =
     2 # map unat [cpu, ptask, task, thread, t1, ty, v] \<and>
   numbers [] (nprintf_paraver_comm cpu ptask task thread t1 t2 cpu' ptask' task' thread' t3 t4 sz tag) =
     3 # map unat [cpu, ptask, task, thread, t1, t2, cpu', ptask', task', thread', t3, t4, sz, tag]"
proof -
  have digits: "is_digit CHR ''1''" "is_digit CHR ''2''" "is_digit CHR ''3''"
    "digit_value CHR ''1'' = 1" "digit_value CHR ''2'' = 2" "digit_value CHR ''3'' = 3"
    by (simp_all add: is_digit_def digit_value_def)
  show ?thesis
    by (simp add: nprintf_paraver_state_def nprintf_paraver_event_head_def nprintf_paraver_event_type_value_def
        nprintf_paraver_comm_def Let_def put_number_def put_last_def numbers_put numbers_last digits)
qed

text \<open>
  C40. No line overruns the buffer of 1024 characters of the callers, and no number the 32 characters
  of its own, whatever the numbers are.
\<close>

theorem prv_lines_fit:
  "length (nprintf_paraver_state cpu ptask task thread t1 t2 st) < 1024 \<and>
   length (nprintf_paraver_event_head cpu ptask task thread t1) < 1024 \<and>
   length (nprintf_paraver_event_type_value ty v) < 1024 \<and>
   length (nprintf_paraver_comm cpu ptask task thread t1 t2 cpu' ptask' task' thread' t3 t4 sz tag) < 1024 \<and>
   length (lbuffer (unat (v :: 64 word))) < 32"
  using lbuffer_word [of v] line_lengths(1) [of cpu ptask task thread t1 t2 st]
    line_lengths(2) [of cpu ptask task thread t1] line_lengths(3) [of ty v]
    line_lengths(4) [of cpu ptask task thread t1 t2 cpu' ptask' task' thread' t3 t4 sz tag]
  by linarith

end
