(* ===== verification/Mpi_Events.thy ===== *)
theory Mpi_Events
  imports State_Stack Prv_Printf
begin

text \<open>
  The tables of MPI events of the merger: which events are MPI events (\<open>common/events.c\<close>), the handler and the
  state of each (\<open>merger/paraver/mpi_prv_semantics.c\<close>), and their translation to the groups and values of a
  Paraver trace with the labels of the values (\<open>merger/paraver/mpi_prv_events.c\<close>). The codes are the
  constants of \<open>common/events.h\<close> and \<open>MPI_EventEncoding.h\<close>; an \<open>int\<close> or \<open>unsigned\<close> event type is an
  integer, all codes being far below \<open>2^31\<close>.
\<close>

section \<open>Codes\<close>

text \<open>Event types.\<close>

abbreviation MPI_MAX_EV :: int where "MPI_MAX_EV \<equiv> 50999999"
abbreviation MPI_INIT_EV :: int where "MPI_INIT_EV \<equiv> 50000001"
abbreviation MPI_BSEND_EV :: int where "MPI_BSEND_EV \<equiv> 50000002"
abbreviation MPI_SSEND_EV :: int where "MPI_SSEND_EV \<equiv> 50000003"
abbreviation MPI_BARRIER_EV :: int where "MPI_BARRIER_EV \<equiv> 50000004"
abbreviation MPI_BCAST_EV :: int where "MPI_BCAST_EV \<equiv> 50000005"
abbreviation MPI_SEND_EV :: int where "MPI_SEND_EV \<equiv> 50000018"
abbreviation MPI_SENDRECV_EV :: int where "MPI_SENDRECV_EV \<equiv> 50000017"
abbreviation MPI_SENDRECV_REPLACE_EV :: int where "MPI_SENDRECV_REPLACE_EV \<equiv> 50000081"
abbreviation MPI_RECV_EV :: int where "MPI_RECV_EV \<equiv> 50000019"
abbreviation MPI_IBSEND_EV :: int where "MPI_IBSEND_EV \<equiv> 50000020"
abbreviation MPI_ISSEND_EV :: int where "MPI_ISSEND_EV \<equiv> 50000021"
abbreviation MPI_ISEND_EV :: int where "MPI_ISEND_EV \<equiv> 50000022"
abbreviation MPI_IRECV_EV :: int where "MPI_IRECV_EV \<equiv> 50000023"
abbreviation MPI_IRCV_EV :: int where "MPI_IRCV_EV \<equiv> 50000025"
abbreviation MPI_TEST_EV :: int where "MPI_TEST_EV \<equiv> 50000026"
abbreviation MPI_TESTALL_EV :: int where "MPI_TESTALL_EV \<equiv> 50000082"
abbreviation MPI_TESTANY_EV :: int where "MPI_TESTANY_EV \<equiv> 50000083"
abbreviation MPI_TESTSOME_EV :: int where "MPI_TESTSOME_EV \<equiv> 50000084"
abbreviation MPI_TEST_COUNTER_EV :: int where "MPI_TEST_COUNTER_EV \<equiv> 50000080"
abbreviation MPI_WAIT_EV :: int where "MPI_WAIT_EV \<equiv> 50000027"
abbreviation MPI_CANCEL_EV :: int where "MPI_CANCEL_EV \<equiv> 50000030"
abbreviation MPI_RSEND_EV :: int where "MPI_RSEND_EV \<equiv> 50000031"
abbreviation MPI_IRSEND_EV :: int where "MPI_IRSEND_EV \<equiv> 50000032"
abbreviation MPI_ALLTOALL_EV :: int where "MPI_ALLTOALL_EV \<equiv> 50000033"
abbreviation MPI_ALLTOALLV_EV :: int where "MPI_ALLTOALLV_EV \<equiv> 50000034"
abbreviation MPI_ALLREDUCE_EV :: int where "MPI_ALLREDUCE_EV \<equiv> 50000035"
abbreviation MPI_REDUCE_EV :: int where "MPI_REDUCE_EV \<equiv> 50000038"
abbreviation MPI_WAITALL_EV :: int where "MPI_WAITALL_EV \<equiv> 50000039"
abbreviation MPI_WAITANY_EV :: int where "MPI_WAITANY_EV \<equiv> 50000068"
abbreviation MPI_WAITSOME_EV :: int where "MPI_WAITSOME_EV \<equiv> 50000069"
abbreviation MPI_IRECVED_EV :: int where "MPI_IRECVED_EV \<equiv> 50000040"
abbreviation MPI_GATHER_EV :: int where "MPI_GATHER_EV \<equiv> 50000041"
abbreviation MPI_GATHERV_EV :: int where "MPI_GATHERV_EV \<equiv> 50000042"
abbreviation MPI_SCATTER_EV :: int where "MPI_SCATTER_EV \<equiv> 50000043"
abbreviation MPI_SCATTERV_EV :: int where "MPI_SCATTERV_EV \<equiv> 50000044"
abbreviation MPI_FINALIZE_EV :: int where "MPI_FINALIZE_EV \<equiv> 50000045"
abbreviation MPI_COMM_RANK_EV :: int where "MPI_COMM_RANK_EV \<equiv> 50000046"
abbreviation MPI_COMM_SIZE_EV :: int where "MPI_COMM_SIZE_EV \<equiv> 50000047"
abbreviation MPI_COMM_CREATE_EV :: int where "MPI_COMM_CREATE_EV \<equiv> 50000048"
abbreviation MPI_COMM_DUP_EV :: int where "MPI_COMM_DUP_EV \<equiv> 50000049"
abbreviation MPI_COMM_SPLIT_EV :: int where "MPI_COMM_SPLIT_EV \<equiv> 50000050"
abbreviation MPI_COMM_SPAWN_EV :: int where "MPI_COMM_SPAWN_EV \<equiv> 50000054"
abbreviation MPI_COMM_SPAWN_MULTIPLE_EV :: int where "MPI_COMM_SPAWN_MULTIPLE_EV \<equiv> 50000055"
abbreviation MPI_RANK_CREACIO_COMM_EV :: int where "MPI_RANK_CREACIO_COMM_EV \<equiv> 50000051"
abbreviation MPI_ALIAS_COMM_CREATE_EV :: int where "MPI_ALIAS_COMM_CREATE_EV \<equiv> 50000061"
abbreviation MPI_ALLGATHER_EV :: int where "MPI_ALLGATHER_EV \<equiv> 50000052"
abbreviation MPI_ALLGATHERV_EV :: int where "MPI_ALLGATHERV_EV \<equiv> 50000053"
abbreviation MPI_CART_CREATE_EV :: int where "MPI_CART_CREATE_EV \<equiv> 50000058"
abbreviation MPI_CART_SUB_EV :: int where "MPI_CART_SUB_EV \<equiv> 50000059"
abbreviation MPI_CART_COORDS_EV :: int where "MPI_CART_COORDS_EV \<equiv> 50000060"
abbreviation MPI_REDUCESCAT_EV :: int where "MPI_REDUCESCAT_EV \<equiv> 50000062"
abbreviation MPI_SCAN_EV :: int where "MPI_SCAN_EV \<equiv> 50000063"
abbreviation MPI_PROBE_EV :: int where "MPI_PROBE_EV \<equiv> 50000065"
abbreviation MPI_IPROBE_EV :: int where "MPI_IPROBE_EV \<equiv> 50000066"
abbreviation MPI_COMM_FREE_EV :: int where "MPI_COMM_FREE_EV \<equiv> 50000067"
abbreviation MPI_PERSIST_REQ_EV :: int where "MPI_PERSIST_REQ_EV \<equiv> 50000070"
abbreviation MPI_START_EV :: int where "MPI_START_EV \<equiv> 50000071"
abbreviation MPI_STARTALL_EV :: int where "MPI_STARTALL_EV \<equiv> 50000072"
abbreviation MPI_REQUEST_FREE_EV :: int where "MPI_REQUEST_FREE_EV \<equiv> 50000073"
abbreviation MPI_RECV_INIT_EV :: int where "MPI_RECV_INIT_EV \<equiv> 50000074"
abbreviation MPI_SEND_INIT_EV :: int where "MPI_SEND_INIT_EV \<equiv> 50000075"
abbreviation MPI_BSEND_INIT_EV :: int where "MPI_BSEND_INIT_EV \<equiv> 50000076"
abbreviation MPI_RSEND_INIT_EV :: int where "MPI_RSEND_INIT_EV \<equiv> 50000077"
abbreviation MPI_SSEND_INIT_EV :: int where "MPI_SSEND_INIT_EV \<equiv> 50000078"
abbreviation MPI_REQUEST_GET_STATUS_EV :: int where "MPI_REQUEST_GET_STATUS_EV \<equiv> 50000079"
abbreviation MPI_INTERCOMM_CREATE_EV :: int where "MPI_INTERCOMM_CREATE_EV \<equiv> 50000085"
abbreviation MPI_INTERCOMM_MERGE_EV :: int where "MPI_INTERCOMM_MERGE_EV \<equiv> 50000086"
abbreviation MPI_GLOBAL_OP_SENDSIZE :: int where "MPI_GLOBAL_OP_SENDSIZE \<equiv> MPI_INIT_EV + 100000"
abbreviation MPI_GLOBAL_OP_RECVSIZE :: int where "MPI_GLOBAL_OP_RECVSIZE \<equiv> MPI_INIT_EV + 100001"
abbreviation MPI_GLOBAL_OP_ROOT :: int where "MPI_GLOBAL_OP_ROOT \<equiv> MPI_INIT_EV + 100002"
abbreviation MPI_GLOBAL_OP_COMM :: int where "MPI_GLOBAL_OP_COMM \<equiv> MPI_INIT_EV + 100003"
abbreviation MPI_FILE_OPEN_EV :: int where "MPI_FILE_OPEN_EV \<equiv> 50000100"
abbreviation MPI_FILE_CLOSE_EV :: int where "MPI_FILE_CLOSE_EV \<equiv> 50000101"
abbreviation MPI_FILE_READ_EV :: int where "MPI_FILE_READ_EV \<equiv> 50000102"
abbreviation MPI_FILE_READ_ALL_EV :: int where "MPI_FILE_READ_ALL_EV \<equiv> 50000103"
abbreviation MPI_FILE_WRITE_EV :: int where "MPI_FILE_WRITE_EV \<equiv> 50000104"
abbreviation MPI_FILE_WRITE_ALL_EV :: int where "MPI_FILE_WRITE_ALL_EV \<equiv> 50000105"
abbreviation MPI_FILE_READ_AT_EV :: int where "MPI_FILE_READ_AT_EV \<equiv> 50000106"
abbreviation MPI_FILE_READ_AT_ALL_EV :: int where "MPI_FILE_READ_AT_ALL_EV \<equiv> 50000107"
abbreviation MPI_FILE_WRITE_AT_EV :: int where "MPI_FILE_WRITE_AT_EV \<equiv> 50000108"
abbreviation MPI_FILE_WRITE_AT_ALL_EV :: int where "MPI_FILE_WRITE_AT_ALL_EV \<equiv> 50000109"
abbreviation MPI_IO_SIZE_EV :: int where "MPI_IO_SIZE_EV \<equiv> 50000110"
abbreviation MPI_GET_EV :: int where "MPI_GET_EV \<equiv> 50000200"
abbreviation MPI_PUT_EV :: int where "MPI_PUT_EV \<equiv> 50000201"
abbreviation MPI_WIN_CREATE_EV :: int where "MPI_WIN_CREATE_EV \<equiv> 50000202"
abbreviation MPI_WIN_FENCE_EV :: int where "MPI_WIN_FENCE_EV \<equiv> 50000203"
abbreviation MPI_WIN_START_EV :: int where "MPI_WIN_START_EV \<equiv> 50000204"
abbreviation MPI_WIN_FREE_EV :: int where "MPI_WIN_FREE_EV \<equiv> 50000205"
abbreviation MPI_WIN_POST_EV :: int where "MPI_WIN_POST_EV \<equiv> 50000206"
abbreviation MPI_WIN_COMPLETE_EV :: int where "MPI_WIN_COMPLETE_EV \<equiv> 50000207"
abbreviation MPI_WIN_WAIT_EV :: int where "MPI_WIN_WAIT_EV \<equiv> 50000208"
abbreviation MPI_RMA_SIZE :: int where "MPI_RMA_SIZE \<equiv> 50001000"
abbreviation MPI_RMA_TARGET_RANK :: int where "MPI_RMA_TARGET_RANK \<equiv> 50001001"
abbreviation MPI_RMA_ORIGIN_ADDR :: int where "MPI_RMA_ORIGIN_ADDR \<equiv> 50001002"
abbreviation MPI_RMA_TARGET_DISP :: int where "MPI_RMA_TARGET_DISP \<equiv> 50001003"
abbreviation MPI_IREDUCE_EV :: int where "MPI_IREDUCE_EV \<equiv> 50000210"
abbreviation MPI_IALLREDUCE_EV :: int where "MPI_IALLREDUCE_EV \<equiv> 50000211"
abbreviation MPI_IBARRIER_EV :: int where "MPI_IBARRIER_EV \<equiv> 50000212"
abbreviation MPI_IBCAST_EV :: int where "MPI_IBCAST_EV \<equiv> 50000213"
abbreviation MPI_IALLTOALL_EV :: int where "MPI_IALLTOALL_EV \<equiv> 50000214"
abbreviation MPI_IALLTOALLV_EV :: int where "MPI_IALLTOALLV_EV \<equiv> 50000215"
abbreviation MPI_IALLGATHER_EV :: int where "MPI_IALLGATHER_EV \<equiv> 50000216"
abbreviation MPI_IALLGATHERV_EV :: int where "MPI_IALLGATHERV_EV \<equiv> 50000217"
abbreviation MPI_IGATHER_EV :: int where "MPI_IGATHER_EV \<equiv> 50000218"
abbreviation MPI_IGATHERV_EV :: int where "MPI_IGATHERV_EV \<equiv> 50000219"
abbreviation MPI_ISCATTER_EV :: int where "MPI_ISCATTER_EV \<equiv> 50000220"
abbreviation MPI_ISCATTERV_EV :: int where "MPI_ISCATTERV_EV \<equiv> 50000221"
abbreviation MPI_IREDUCESCAT_EV :: int where "MPI_IREDUCESCAT_EV \<equiv> 50000222"
abbreviation MPI_ISCAN_EV :: int where "MPI_ISCAN_EV \<equiv> 50000223"
abbreviation MPI_REDUCE_SCATTER_BLOCK_EV :: int where "MPI_REDUCE_SCATTER_BLOCK_EV \<equiv> 50000224"
abbreviation MPI_IREDUCE_SCATTER_BLOCK_EV :: int where "MPI_IREDUCE_SCATTER_BLOCK_EV \<equiv> 50000225"
abbreviation MPI_ALLTOALLW_EV :: int where "MPI_ALLTOALLW_EV \<equiv> 50000226"
abbreviation MPI_IALLTOALLW_EV :: int where "MPI_IALLTOALLW_EV \<equiv> 50000227"
abbreviation MPI_WIN_LOCK_EV :: int where "MPI_WIN_LOCK_EV \<equiv> 50000228"
abbreviation MPI_WIN_UNLOCK_EV :: int where "MPI_WIN_UNLOCK_EV \<equiv> 50000229"
abbreviation MPI_GET_ACCUMULATE_EV :: int where "MPI_GET_ACCUMULATE_EV \<equiv> 50000230"
abbreviation MPI_IPROBE_COUNTER_EV :: int where "MPI_IPROBE_COUNTER_EV \<equiv> 50000300"
abbreviation MPI_TIME_OUTSIDE_IPROBES_EV :: int where "MPI_TIME_OUTSIDE_IPROBES_EV \<equiv> 50000301"
abbreviation MPI_REQUEST_GET_STATUS_COUNTER_EV :: int where "MPI_REQUEST_GET_STATUS_COUNTER_EV \<equiv> 50000302"
abbreviation MPI_TIME_OUTSIDE_MPI_REQUEST_GET_STATUS_EV :: int where "MPI_TIME_OUTSIDE_MPI_REQUEST_GET_STATUS_EV \<equiv> 50000303"
abbreviation MPI_TIME_OUTSIDE_TESTS_EV :: int where "MPI_TIME_OUTSIDE_TESTS_EV \<equiv> 50000304"

text \<open>Groups of events in the trace.\<close>

abbreviation MPITYPE_PTOP :: int where "MPITYPE_PTOP \<equiv> 50000001"
abbreviation MPITYPE_COLLECTIVE :: int where "MPITYPE_COLLECTIVE \<equiv> 50000002"
abbreviation MPITYPE_OTHER :: int where "MPITYPE_OTHER \<equiv> 50000003"
abbreviation MPITYPE_RMA :: int where "MPITYPE_RMA \<equiv> 50000004"
abbreviation MPITYPE_RMA_SIZE :: int where "MPITYPE_RMA_SIZE \<equiv> 50001000"
abbreviation MPITYPE_RMA_TARGET_RANK :: int where "MPITYPE_RMA_TARGET_RANK \<equiv> 50001001"
abbreviation MPITYPE_RMA_ORIGIN_ADDR :: int where "MPITYPE_RMA_ORIGIN_ADDR \<equiv> 50001002"
abbreviation MPITYPE_RMA_TARGET_DISP :: int where "MPITYPE_RMA_TARGET_DISP \<equiv> 50001003"
abbreviation MPITYPE_COMM :: int where "MPITYPE_COMM \<equiv> MPITYPE_OTHER"
abbreviation MPITYPE_GROUP :: int where "MPITYPE_GROUP \<equiv> MPITYPE_OTHER"
abbreviation MPITYPE_TOPOLOGIES :: int where "MPITYPE_TOPOLOGIES \<equiv> MPITYPE_OTHER"
abbreviation MPITYPE_TYPE :: int where "MPITYPE_TYPE \<equiv> MPITYPE_OTHER"
abbreviation MPITYPE_IO :: int where "MPITYPE_IO \<equiv> 50000005"

text \<open>Values of the enumeration \<open>MPIVal\<close>.\<close>

abbreviation MPI_END_VAL :: int where "MPI_END_VAL \<equiv> 0"
abbreviation MPI_SEND_VAL :: int where "MPI_SEND_VAL \<equiv> 1"
abbreviation MPI_RECV_VAL :: int where "MPI_RECV_VAL \<equiv> 2"
abbreviation MPI_ISEND_VAL :: int where "MPI_ISEND_VAL \<equiv> 3"
abbreviation MPI_IRECV_VAL :: int where "MPI_IRECV_VAL \<equiv> 4"
abbreviation MPI_WAIT_VAL :: int where "MPI_WAIT_VAL \<equiv> 5"
abbreviation MPI_WAITALL_VAL :: int where "MPI_WAITALL_VAL \<equiv> 6"
abbreviation MPI_BCAST_VAL :: int where "MPI_BCAST_VAL \<equiv> 7"
abbreviation MPI_BARRIER_VAL :: int where "MPI_BARRIER_VAL \<equiv> 8"
abbreviation MPI_REDUCE_VAL :: int where "MPI_REDUCE_VAL \<equiv> 9"
abbreviation MPI_ALLREDUCE_VAL :: int where "MPI_ALLREDUCE_VAL \<equiv> 10"
abbreviation MPI_ALLTOALL_VAL :: int where "MPI_ALLTOALL_VAL \<equiv> 11"
abbreviation MPI_ALLTOALLV_VAL :: int where "MPI_ALLTOALLV_VAL \<equiv> 12"
abbreviation MPI_GATHER_VAL :: int where "MPI_GATHER_VAL \<equiv> 13"
abbreviation MPI_GATHERV_VAL :: int where "MPI_GATHERV_VAL \<equiv> 14"
abbreviation MPI_SCATTER_VAL :: int where "MPI_SCATTER_VAL \<equiv> 15"
abbreviation MPI_SCATTERV_VAL :: int where "MPI_SCATTERV_VAL \<equiv> 16"
abbreviation MPI_ALLGATHER_VAL :: int where "MPI_ALLGATHER_VAL \<equiv> 17"
abbreviation MPI_ALLGATHERV_VAL :: int where "MPI_ALLGATHERV_VAL \<equiv> 18"
abbreviation MPI_COMM_RANK_VAL :: int where "MPI_COMM_RANK_VAL \<equiv> 19"
abbreviation MPI_COMM_SIZE_VAL :: int where "MPI_COMM_SIZE_VAL \<equiv> 20"
abbreviation MPI_COMM_CREATE_VAL :: int where "MPI_COMM_CREATE_VAL \<equiv> 21"
abbreviation MPI_COMM_DUP_VAL :: int where "MPI_COMM_DUP_VAL \<equiv> 22"
abbreviation MPI_COMM_SPLIT_VAL :: int where "MPI_COMM_SPLIT_VAL \<equiv> 23"
abbreviation MPI_COMM_GROUP_VAL :: int where "MPI_COMM_GROUP_VAL \<equiv> 24"
abbreviation MPI_COMM_FREE_VAL :: int where "MPI_COMM_FREE_VAL \<equiv> 25"
abbreviation MPI_COMM_REMOTE_GROUP_VAL :: int where "MPI_COMM_REMOTE_GROUP_VAL \<equiv> 26"
abbreviation MPI_COMM_REMOTE_SIZE_VAL :: int where "MPI_COMM_REMOTE_SIZE_VAL \<equiv> 27"
abbreviation MPI_COMM_TEST_INTER_VAL :: int where "MPI_COMM_TEST_INTER_VAL \<equiv> 28"
abbreviation MPI_COMM_COMPARE_VAL :: int where "MPI_COMM_COMPARE_VAL \<equiv> 29"
abbreviation MPI_SCAN_VAL :: int where "MPI_SCAN_VAL \<equiv> 30"
abbreviation MPI_INIT_VAL :: int where "MPI_INIT_VAL \<equiv> 31"
abbreviation MPI_FINALIZE_VAL :: int where "MPI_FINALIZE_VAL \<equiv> 32"
abbreviation MPI_BSEND_VAL :: int where "MPI_BSEND_VAL \<equiv> 33"
abbreviation MPI_SSEND_VAL :: int where "MPI_SSEND_VAL \<equiv> 34"
abbreviation MPI_RSEND_VAL :: int where "MPI_RSEND_VAL \<equiv> 35"
abbreviation MPI_IBSEND_VAL :: int where "MPI_IBSEND_VAL \<equiv> 36"
abbreviation MPI_ISSEND_VAL :: int where "MPI_ISSEND_VAL \<equiv> 37"
abbreviation MPI_IRSEND_VAL :: int where "MPI_IRSEND_VAL \<equiv> 38"
abbreviation MPI_TEST_VAL :: int where "MPI_TEST_VAL \<equiv> 39"
abbreviation MPI_CANCEL_VAL :: int where "MPI_CANCEL_VAL \<equiv> 40"
abbreviation MPI_SENDRECV_VAL :: int where "MPI_SENDRECV_VAL \<equiv> 41"
abbreviation MPI_SENDRECV_REPLACE_VAL :: int where "MPI_SENDRECV_REPLACE_VAL \<equiv> 42"
abbreviation MPI_CART_CREATE_VAL :: int where "MPI_CART_CREATE_VAL \<equiv> 43"
abbreviation MPI_CART_SHIFT_VAL :: int where "MPI_CART_SHIFT_VAL \<equiv> 44"
abbreviation MPI_CART_COORDS_VAL :: int where "MPI_CART_COORDS_VAL \<equiv> 45"
abbreviation MPI_CART_GET_VAL :: int where "MPI_CART_GET_VAL \<equiv> 46"
abbreviation MPI_CART_MAP_VAL :: int where "MPI_CART_MAP_VAL \<equiv> 47"
abbreviation MPI_CART_RANK_VAL :: int where "MPI_CART_RANK_VAL \<equiv> 48"
abbreviation MPI_CART_SUB_VAL :: int where "MPI_CART_SUB_VAL \<equiv> 49"
abbreviation MPI_CARTDIM_GET_VAL :: int where "MPI_CARTDIM_GET_VAL \<equiv> 50"
abbreviation MPI_DIMS_CREATE_VAL :: int where "MPI_DIMS_CREATE_VAL \<equiv> 51"
abbreviation MPI_GRAPH_GET_VAL :: int where "MPI_GRAPH_GET_VAL \<equiv> 52"
abbreviation MPI_GRAPH_MAP_VAL :: int where "MPI_GRAPH_MAP_VAL \<equiv> 53"
abbreviation MPI_GRAPH_CREATE_VAL :: int where "MPI_GRAPH_CREATE_VAL \<equiv> 54"
abbreviation MPI_GRAPH_NEIGHBORS_VAL :: int where "MPI_GRAPH_NEIGHBORS_VAL \<equiv> 55"
abbreviation MPI_GRAPHDIMS_GET_VAL :: int where "MPI_GRAPHDIMS_GET_VAL \<equiv> 56"
abbreviation MPI_GRAPH_NEIGHBORS_COUNT_VAL :: int where "MPI_GRAPH_NEIGHBORS_COUNT_VAL \<equiv> 57"
abbreviation MPI_TOPO_TEST_VAL :: int where "MPI_TOPO_TEST_VAL \<equiv> 58"
abbreviation MPI_WAITANY_VAL :: int where "MPI_WAITANY_VAL \<equiv> 59"
abbreviation MPI_WAITSOME_VAL :: int where "MPI_WAITSOME_VAL \<equiv> 60"
abbreviation MPI_PROBE_VAL :: int where "MPI_PROBE_VAL \<equiv> 61"
abbreviation MPI_IPROBE_VAL :: int where "MPI_IPROBE_VAL \<equiv> 62"
abbreviation MPI_WIN_CREATE_VAL :: int where "MPI_WIN_CREATE_VAL \<equiv> 63"
abbreviation MPI_WIN_FREE_VAL :: int where "MPI_WIN_FREE_VAL \<equiv> 64"
abbreviation MPI_PUT_VAL :: int where "MPI_PUT_VAL \<equiv> 65"
abbreviation MPI_GET_VAL :: int where "MPI_GET_VAL \<equiv> 66"
abbreviation MPI_ACCUMULATE_VAL :: int where "MPI_ACCUMULATE_VAL \<equiv> 67"
abbreviation MPI_WIN_FENCE_VAL :: int where "MPI_WIN_FENCE_VAL \<equiv> 68"
abbreviation MPI_WIN_START_VAL :: int where "MPI_WIN_START_VAL \<equiv> 69"
abbreviation MPI_WIN_COMPLETE_VAL :: int where "MPI_WIN_COMPLETE_VAL \<equiv> 70"
abbreviation MPI_WIN_POST_VAL :: int where "MPI_WIN_POST_VAL \<equiv> 71"
abbreviation MPI_WIN_WAIT_VAL :: int where "MPI_WIN_WAIT_VAL \<equiv> 72"
abbreviation MPI_WIN_TEST_VAL :: int where "MPI_WIN_TEST_VAL \<equiv> 73"
abbreviation MPI_WIN_LOCK_VAL :: int where "MPI_WIN_LOCK_VAL \<equiv> 74"
abbreviation MPI_WIN_UNLOCK_VAL :: int where "MPI_WIN_UNLOCK_VAL \<equiv> 75"
abbreviation MPI_PACK_VAL :: int where "MPI_PACK_VAL \<equiv> 76"
abbreviation MPI_UNPACK_VAL :: int where "MPI_UNPACK_VAL \<equiv> 77"
abbreviation MPI_OP_CREATE_VAL :: int where "MPI_OP_CREATE_VAL \<equiv> 78"
abbreviation MPI_OP_FREE_VAL :: int where "MPI_OP_FREE_VAL \<equiv> 79"
abbreviation MPI_REDUCE_SCATTER_VAL :: int where "MPI_REDUCE_SCATTER_VAL \<equiv> 80"
abbreviation MPI_ATTR_DELETE_VAL :: int where "MPI_ATTR_DELETE_VAL \<equiv> 81"
abbreviation MPI_ATTR_GET_VAL :: int where "MPI_ATTR_GET_VAL \<equiv> 82"
abbreviation MPI_ATTR_PUT_VAL :: int where "MPI_ATTR_PUT_VAL \<equiv> 83"
abbreviation MPI_GROUP_DIFFERENCE_VAL :: int where "MPI_GROUP_DIFFERENCE_VAL \<equiv> 84"
abbreviation MPI_GROUP_EXCL_VAL :: int where "MPI_GROUP_EXCL_VAL \<equiv> 85"
abbreviation MPI_GROUP_FREE_VAL :: int where "MPI_GROUP_FREE_VAL \<equiv> 86"
abbreviation MPI_GROUP_INCL_VAL :: int where "MPI_GROUP_INCL_VAL \<equiv> 87"
abbreviation MPI_GROUP_INTERSECTION_VAL :: int where "MPI_GROUP_INTERSECTION_VAL \<equiv> 88"
abbreviation MPI_GROUP_RANK_VAL :: int where "MPI_GROUP_RANK_VAL \<equiv> 89"
abbreviation MPI_GROUP_RANGE_EXCL_VAL :: int where "MPI_GROUP_RANGE_EXCL_VAL \<equiv> 90"
abbreviation MPI_GROUP_RANGE_INCL_VAL :: int where "MPI_GROUP_RANGE_INCL_VAL \<equiv> 91"
abbreviation MPI_GROUP_SIZE_VAL :: int where "MPI_GROUP_SIZE_VAL \<equiv> 92"
abbreviation MPI_GROUP_TRANSLATE_RANKS_VAL :: int where "MPI_GROUP_TRANSLATE_RANKS_VAL \<equiv> 93"
abbreviation MPI_GROUP_UNION_VAL :: int where "MPI_GROUP_UNION_VAL \<equiv> 94"
abbreviation MPI_GROUP_COMPARE_VAL :: int where "MPI_GROUP_COMPARE_VAL \<equiv> 95"
abbreviation MPI_INTERCOMM_CREATE_VAL :: int where "MPI_INTERCOMM_CREATE_VAL \<equiv> 96"
abbreviation MPI_INTERCOMM_MERGE_VAL :: int where "MPI_INTERCOMM_MERGE_VAL \<equiv> 97"
abbreviation MPI_KEYVAL_FREE_VAL :: int where "MPI_KEYVAL_FREE_VAL \<equiv> 98"
abbreviation MPI_KEYVAL_CREATE_VAL :: int where "MPI_KEYVAL_CREATE_VAL \<equiv> 99"
abbreviation MPI_ABORT_VAL :: int where "MPI_ABORT_VAL \<equiv> 100"
abbreviation MPI_ERROR_CLASS_VAL :: int where "MPI_ERROR_CLASS_VAL \<equiv> 101"
abbreviation MPI_ERRHANDLER_CREATE_VAL :: int where "MPI_ERRHANDLER_CREATE_VAL \<equiv> 102"
abbreviation MPI_ERRHANDLER_FREE_VAL :: int where "MPI_ERRHANDLER_FREE_VAL \<equiv> 103"
abbreviation MPI_ERRHANDLER_GET_VAL :: int where "MPI_ERRHANDLER_GET_VAL \<equiv> 104"
abbreviation MPI_ERROR_STRING_VAL :: int where "MPI_ERROR_STRING_VAL \<equiv> 105"
abbreviation MPI_ERRHANDLER_SET_VAL :: int where "MPI_ERRHANDLER_SET_VAL \<equiv> 106"
abbreviation MPI_GET_PROCESSOR_NAME_VAL :: int where "MPI_GET_PROCESSOR_NAME_VAL \<equiv> 107"
abbreviation MPI_INITIALIZED_VAL :: int where "MPI_INITIALIZED_VAL \<equiv> 108"
abbreviation MPI_WTICK_VAL :: int where "MPI_WTICK_VAL \<equiv> 109"
abbreviation MPI_WTIME_VAL :: int where "MPI_WTIME_VAL \<equiv> 110"
abbreviation MPI_ADDRESS_VAL :: int where "MPI_ADDRESS_VAL \<equiv> 111"
abbreviation MPI_BSEND_INIT_VAL :: int where "MPI_BSEND_INIT_VAL \<equiv> 112"
abbreviation MPI_BUFFER_ATTACH_VAL :: int where "MPI_BUFFER_ATTACH_VAL \<equiv> 113"
abbreviation MPI_BUFFER_DETACH_VAL :: int where "MPI_BUFFER_DETACH_VAL \<equiv> 114"
abbreviation MPI_REQUEST_FREE_VAL :: int where "MPI_REQUEST_FREE_VAL \<equiv> 115"
abbreviation MPI_RECV_INIT_VAL :: int where "MPI_RECV_INIT_VAL \<equiv> 116"
abbreviation MPI_SEND_INIT_VAL :: int where "MPI_SEND_INIT_VAL \<equiv> 117"
abbreviation MPI_GET_COUNT_VAL :: int where "MPI_GET_COUNT_VAL \<equiv> 118"
abbreviation MPI_GET_ELEMENTS_VAL :: int where "MPI_GET_ELEMENTS_VAL \<equiv> 119"
abbreviation MPI_PACK_SIZE_VAL :: int where "MPI_PACK_SIZE_VAL \<equiv> 120"
abbreviation MPI_RSEND_INIT_VAL :: int where "MPI_RSEND_INIT_VAL \<equiv> 121"
abbreviation MPI_SSEND_INIT_VAL :: int where "MPI_SSEND_INIT_VAL \<equiv> 122"
abbreviation MPI_START_VAL :: int where "MPI_START_VAL \<equiv> 123"
abbreviation MPI_STARTALL_VAL :: int where "MPI_STARTALL_VAL \<equiv> 124"
abbreviation MPI_TESTALL_VAL :: int where "MPI_TESTALL_VAL \<equiv> 125"
abbreviation MPI_TESTANY_VAL :: int where "MPI_TESTANY_VAL \<equiv> 126"
abbreviation MPI_TEST_CANCELLED_VAL :: int where "MPI_TEST_CANCELLED_VAL \<equiv> 127"
abbreviation MPI_TESTSOME_VAL :: int where "MPI_TESTSOME_VAL \<equiv> 128"
abbreviation MPI_TYPE_COMMIT_VAL :: int where "MPI_TYPE_COMMIT_VAL \<equiv> 129"
abbreviation MPI_TYPE_CONTIGUOUS_VAL :: int where "MPI_TYPE_CONTIGUOUS_VAL \<equiv> 130"
abbreviation MPI_TYPE_EXTENT_VAL :: int where "MPI_TYPE_EXTENT_VAL \<equiv> 131"
abbreviation MPI_TYPE_FREE_VAL :: int where "MPI_TYPE_FREE_VAL \<equiv> 132"
abbreviation MPI_TYPE_HINDEXED_VAL :: int where "MPI_TYPE_HINDEXED_VAL \<equiv> 133"
abbreviation MPI_TYPE_HVECTOR_VAL :: int where "MPI_TYPE_HVECTOR_VAL \<equiv> 134"
abbreviation MPI_TYPE_INDEXED_VAL :: int where "MPI_TYPE_INDEXED_VAL \<equiv> 135"
abbreviation MPI_TYPE_LB_VAL :: int where "MPI_TYPE_LB_VAL \<equiv> 136"
abbreviation MPI_TYPE_SIZE_VAL :: int where "MPI_TYPE_SIZE_VAL \<equiv> 137"
abbreviation MPI_TYPE_STRUCT_VAL :: int where "MPI_TYPE_STRUCT_VAL \<equiv> 138"
abbreviation MPI_TYPE_UB_VAL :: int where "MPI_TYPE_UB_VAL \<equiv> 139"
abbreviation MPI_TYPE_VECTOR_VAL :: int where "MPI_TYPE_VECTOR_VAL \<equiv> 140"
abbreviation MPI_FILE_OPEN_VAL :: int where "MPI_FILE_OPEN_VAL \<equiv> 141"
abbreviation MPI_FILE_CLOSE_VAL :: int where "MPI_FILE_CLOSE_VAL \<equiv> 142"
abbreviation MPI_FILE_READ_VAL :: int where "MPI_FILE_READ_VAL \<equiv> 143"
abbreviation MPI_FILE_READ_ALL_VAL :: int where "MPI_FILE_READ_ALL_VAL \<equiv> 144"
abbreviation MPI_FILE_WRITE_VAL :: int where "MPI_FILE_WRITE_VAL \<equiv> 145"
abbreviation MPI_FILE_WRITE_ALL_VAL :: int where "MPI_FILE_WRITE_ALL_VAL \<equiv> 146"
abbreviation MPI_FILE_READ_AT_VAL :: int where "MPI_FILE_READ_AT_VAL \<equiv> 147"
abbreviation MPI_FILE_READ_AT_ALL_VAL :: int where "MPI_FILE_READ_AT_ALL_VAL \<equiv> 148"
abbreviation MPI_FILE_WRITE_AT_VAL :: int where "MPI_FILE_WRITE_AT_VAL \<equiv> 149"
abbreviation MPI_FILE_WRITE_AT_ALL_VAL :: int where "MPI_FILE_WRITE_AT_ALL_VAL \<equiv> 150"
abbreviation MPI_COMM_SPAWN_VAL :: int where "MPI_COMM_SPAWN_VAL \<equiv> 151"
abbreviation MPI_COMM_SPAWN_MULTIPLE_VAL :: int where "MPI_COMM_SPAWN_MULTIPLE_VAL \<equiv> 152"
abbreviation MPI_REQUEST_GET_STATUS_VAL :: int where "MPI_REQUEST_GET_STATUS_VAL \<equiv> 153"
abbreviation MPI_IREDUCE_VAL :: int where "MPI_IREDUCE_VAL \<equiv> 154"
abbreviation MPI_IALLREDUCE_VAL :: int where "MPI_IALLREDUCE_VAL \<equiv> 155"
abbreviation MPI_IBARRIER_VAL :: int where "MPI_IBARRIER_VAL \<equiv> 156"
abbreviation MPI_IBCAST_VAL :: int where "MPI_IBCAST_VAL \<equiv> 157"
abbreviation MPI_IALLTOALL_VAL :: int where "MPI_IALLTOALL_VAL \<equiv> 158"
abbreviation MPI_IALLTOALLV_VAL :: int where "MPI_IALLTOALLV_VAL \<equiv> 159"
abbreviation MPI_IALLGATHER_VAL :: int where "MPI_IALLGATHER_VAL \<equiv> 160"
abbreviation MPI_IALLGATHERV_VAL :: int where "MPI_IALLGATHERV_VAL \<equiv> 161"
abbreviation MPI_IGATHER_VAL :: int where "MPI_IGATHER_VAL \<equiv> 162"
abbreviation MPI_IGATHERV_VAL :: int where "MPI_IGATHERV_VAL \<equiv> 163"
abbreviation MPI_ISCATTER_VAL :: int where "MPI_ISCATTER_VAL \<equiv> 164"
abbreviation MPI_ISCATTERV_VAL :: int where "MPI_ISCATTERV_VAL \<equiv> 165"
abbreviation MPI_IREDUCESCAT_VAL :: int where "MPI_IREDUCESCAT_VAL \<equiv> 166"
abbreviation MPI_ISCAN_VAL :: int where "MPI_ISCAN_VAL \<equiv> 167"
abbreviation MPI_REDUCE_SCATTER_BLOCK_VAL :: int where "MPI_REDUCE_SCATTER_BLOCK_VAL \<equiv> 168"
abbreviation MPI_IREDUCE_SCATTER_BLOCK_VAL :: int where "MPI_IREDUCE_SCATTER_BLOCK_VAL \<equiv> 169"
abbreviation MPI_ALLTOALLW_VAL :: int where "MPI_ALLTOALLW_VAL \<equiv> 170"
abbreviation MPI_IALLTOALLW_VAL :: int where "MPI_IALLTOALLW_VAL \<equiv> 171"
abbreviation MPI_GET_ACCUMULATE_VAL :: int where "MPI_GET_ACCUMULATE_VAL \<equiv> 172"

section \<open>Translation to the trace\<close>

text \<open>Event type, group and value; \<open>-1\<close> is for operations that are not traced.\<close>

definition event_mpit2prv :: "(int \<times> int \<times> int) list" where
  "event_mpit2prv = [
    (MPI_ALLGATHER_EV, MPITYPE_COLLECTIVE, MPI_ALLGATHER_VAL),
    (MPI_ALLGATHERV_EV, MPITYPE_COLLECTIVE, MPI_ALLGATHERV_VAL),
    (MPI_ALLREDUCE_EV, MPITYPE_COLLECTIVE, MPI_ALLREDUCE_VAL),
    (MPI_ALLTOALL_EV, MPITYPE_COLLECTIVE, MPI_ALLTOALL_VAL),
    (MPI_ALLTOALLV_EV, MPITYPE_COLLECTIVE, MPI_ALLTOALLV_VAL), (MPI_BARRIER_EV, MPITYPE_COLLECTIVE, MPI_BARRIER_VAL),
    (MPI_BCAST_EV, MPITYPE_COLLECTIVE, MPI_BCAST_VAL), (MPI_GATHER_EV, MPITYPE_COLLECTIVE, MPI_GATHER_VAL),
    (MPI_GATHERV_EV, MPITYPE_COLLECTIVE, MPI_GATHERV_VAL), (-1, MPITYPE_OTHER, MPI_OP_CREATE_VAL),
    (-1, MPITYPE_OTHER, MPI_OP_FREE_VAL), (MPI_REDUCESCAT_EV, MPITYPE_COLLECTIVE, MPI_REDUCE_SCATTER_VAL),
    (MPI_REDUCE_EV, MPITYPE_COLLECTIVE, MPI_REDUCE_VAL), (MPI_SCAN_EV, MPITYPE_COLLECTIVE, MPI_SCAN_VAL),
    (MPI_SCATTER_EV, MPITYPE_COLLECTIVE, MPI_SCATTER_VAL), (MPI_SCATTERV_EV, MPITYPE_COLLECTIVE, MPI_SCATTERV_VAL),
    (-1, MPITYPE_OTHER, MPI_ATTR_DELETE_VAL), (-1, MPITYPE_OTHER, MPI_ATTR_GET_VAL),
    (-1, MPITYPE_OTHER, MPI_ATTR_PUT_VAL), (MPI_COMM_CREATE_EV, MPITYPE_COMM, MPI_COMM_CREATE_VAL),
    (MPI_COMM_DUP_EV, MPITYPE_COMM, MPI_COMM_DUP_VAL), (MPI_COMM_FREE_EV, MPITYPE_COMM, MPI_COMM_FREE_VAL),
    (-1, MPITYPE_COMM, MPI_COMM_GROUP_VAL), (MPI_COMM_RANK_EV, MPITYPE_COMM, MPI_COMM_RANK_VAL),
    (-1, MPITYPE_COMM, MPI_COMM_REMOTE_GROUP_VAL), (-1, MPITYPE_COMM, MPI_COMM_REMOTE_SIZE_VAL),
    (MPI_COMM_SIZE_EV, MPITYPE_COMM, MPI_COMM_SIZE_VAL), (MPI_COMM_SPLIT_EV, MPITYPE_COMM, MPI_COMM_SPLIT_VAL),
    (-1, MPITYPE_COMM, MPI_COMM_TEST_INTER_VAL), (-1, MPITYPE_COMM, MPI_COMM_COMPARE_VAL),
    (-1, MPITYPE_GROUP, MPI_GROUP_DIFFERENCE_VAL), (-1, MPITYPE_GROUP, MPI_GROUP_EXCL_VAL),
    (-1, MPITYPE_GROUP, MPI_GROUP_FREE_VAL), (-1, MPITYPE_GROUP, MPI_GROUP_INCL_VAL),
    (-1, MPITYPE_GROUP, MPI_GROUP_INTERSECTION_VAL), (-1, MPITYPE_GROUP, MPI_GROUP_RANK_VAL),
    (-1, MPITYPE_GROUP, MPI_GROUP_RANGE_EXCL_VAL), (-1, MPITYPE_GROUP, MPI_GROUP_RANGE_INCL_VAL),
    (-1, MPITYPE_GROUP, MPI_GROUP_SIZE_VAL), (-1, MPITYPE_GROUP, MPI_GROUP_TRANSLATE_RANKS_VAL),
    (-1, MPITYPE_GROUP, MPI_GROUP_UNION_VAL), (-1, MPITYPE_GROUP, MPI_GROUP_COMPARE_VAL),
    (MPI_INTERCOMM_CREATE_EV, MPITYPE_COMM, MPI_INTERCOMM_CREATE_VAL),
    (MPI_INTERCOMM_CREATE_VAL, MPITYPE_COMM, MPI_INTERCOMM_MERGE_VAL), (-1, MPITYPE_OTHER, MPI_KEYVAL_FREE_VAL),
    (-1, MPITYPE_OTHER, MPI_KEYVAL_CREATE_VAL), (-1, MPITYPE_OTHER, MPI_ABORT_VAL),
    (-1, MPITYPE_OTHER, MPI_ERROR_CLASS_VAL), (-1, MPITYPE_OTHER, MPI_ERRHANDLER_CREATE_VAL),
    (-1, MPITYPE_OTHER, MPI_ERRHANDLER_FREE_VAL), (-1, MPITYPE_OTHER, MPI_ERRHANDLER_GET_VAL),
    (-1, MPITYPE_OTHER, MPI_ERROR_STRING_VAL), (-1, MPITYPE_OTHER, MPI_ERRHANDLER_SET_VAL),
    (MPI_FINALIZE_EV, MPITYPE_OTHER, MPI_FINALIZE_VAL), (-1, MPITYPE_OTHER, MPI_GET_PROCESSOR_NAME_VAL),
    (MPI_INIT_EV, MPITYPE_OTHER, MPI_INIT_VAL), (-1, MPITYPE_OTHER, MPI_INITIALIZED_VAL),
    (-1, MPITYPE_OTHER, MPI_WTICK_VAL), (-1, MPITYPE_OTHER, MPI_WTIME_VAL), (-1, MPITYPE_OTHER, MPI_ADDRESS_VAL),
    (MPI_BSEND_EV, MPITYPE_PTOP, MPI_BSEND_VAL), (MPI_BSEND_INIT_EV, MPITYPE_PTOP, MPI_BSEND_INIT_VAL),
    (-1, MPITYPE_OTHER, MPI_BUFFER_ATTACH_VAL), (-1, MPITYPE_OTHER, MPI_BUFFER_DETACH_VAL),
    (MPI_CANCEL_EV, MPITYPE_PTOP, MPI_CANCEL_VAL), (MPI_REQUEST_FREE_EV, MPITYPE_OTHER, MPI_REQUEST_FREE_VAL),
    (MPI_RECV_INIT_EV, MPITYPE_PTOP, MPI_RECV_INIT_VAL), (MPI_SEND_INIT_EV, MPITYPE_PTOP, MPI_SEND_INIT_VAL),
    (-1, MPITYPE_OTHER, MPI_GET_COUNT_VAL), (-1, MPITYPE_OTHER, MPI_GET_ELEMENTS_VAL),
    (MPI_IBSEND_EV, MPITYPE_PTOP, MPI_IBSEND_VAL), (MPI_IPROBE_EV, MPITYPE_PTOP, MPI_IPROBE_VAL),
    (MPI_IRECV_EV, MPITYPE_PTOP, MPI_IRECV_VAL), (MPI_IRSEND_EV, MPITYPE_PTOP, MPI_IRSEND_VAL),
    (MPI_ISEND_EV, MPITYPE_PTOP, MPI_ISEND_VAL), (MPI_ISSEND_EV, MPITYPE_PTOP, MPI_ISSEND_VAL),
    (-1, MPITYPE_OTHER, MPI_PACK_VAL), (-1, MPITYPE_OTHER, MPI_PACK_SIZE_VAL),
    (MPI_PROBE_EV, MPITYPE_PTOP, MPI_PROBE_VAL), (MPI_RECV_EV, MPITYPE_PTOP, MPI_RECV_VAL),
    (MPI_RSEND_EV, MPITYPE_PTOP, MPI_RSEND_VAL), (MPI_RSEND_INIT_EV, MPITYPE_PTOP, MPI_RSEND_INIT_VAL),
    (MPI_SEND_EV, MPITYPE_PTOP, MPI_SEND_VAL), (MPI_SENDRECV_EV, MPITYPE_PTOP, MPI_SENDRECV_VAL),
    (MPI_SENDRECV_REPLACE_EV, MPITYPE_PTOP, MPI_SENDRECV_REPLACE_VAL), (MPI_SSEND_EV, MPITYPE_PTOP, MPI_SSEND_VAL),
    (MPI_SSEND_INIT_EV, MPITYPE_PTOP, MPI_SSEND_INIT_VAL), (MPI_START_EV, MPITYPE_OTHER, MPI_START_VAL),
    (MPI_STARTALL_EV, MPITYPE_OTHER, MPI_STARTALL_VAL), (MPI_TEST_EV, MPITYPE_OTHER, MPI_TEST_VAL),
    (MPI_TESTALL_EV, MPITYPE_OTHER, MPI_TESTALL_VAL), (MPI_TESTANY_EV, MPITYPE_OTHER, MPI_TESTANY_VAL),
    (-1, MPITYPE_OTHER, MPI_TEST_CANCELLED_VAL), (MPI_TESTSOME_EV, MPITYPE_OTHER, MPI_TESTSOME_VAL),
    (-1, MPITYPE_TYPE, MPI_TYPE_COMMIT_VAL), (-1, MPITYPE_TYPE, MPI_TYPE_CONTIGUOUS_VAL),
    (-1, MPITYPE_TYPE, MPI_TYPE_EXTENT_VAL), (-1, MPITYPE_TYPE, MPI_TYPE_FREE_VAL),
    (-1, MPITYPE_TYPE, MPI_TYPE_HINDEXED_VAL), (-1, MPITYPE_TYPE, MPI_TYPE_HVECTOR_VAL),
    (-1, MPITYPE_TYPE, MPI_TYPE_INDEXED_VAL), (-1, MPITYPE_TYPE, MPI_TYPE_LB_VAL),
    (-1, MPITYPE_TYPE, MPI_TYPE_SIZE_VAL), (-1, MPITYPE_TYPE, MPI_TYPE_STRUCT_VAL),
    (-1, MPITYPE_TYPE, MPI_TYPE_UB_VAL), (-1, MPITYPE_TYPE, MPI_TYPE_VECTOR_VAL),
    (-1, MPITYPE_OTHER, MPI_UNPACK_VAL), (MPI_WAIT_EV, MPITYPE_PTOP, MPI_WAIT_VAL),
    (MPI_WAITALL_EV, MPITYPE_PTOP, MPI_WAITALL_VAL), (MPI_WAITANY_EV, MPITYPE_PTOP, MPI_WAITANY_VAL),
    (MPI_WAITSOME_EV, MPITYPE_PTOP, MPI_WAITSOME_VAL), (MPI_CART_COORDS_EV, MPITYPE_TOPOLOGIES, MPI_CART_COORDS_VAL),
    (MPI_CART_CREATE_EV, MPITYPE_TOPOLOGIES, MPI_CART_CREATE_VAL), (-1, MPITYPE_TOPOLOGIES, MPI_CART_GET_VAL),
    (-1, MPITYPE_TOPOLOGIES, MPI_CART_MAP_VAL), (-1, MPITYPE_TOPOLOGIES, MPI_CART_RANK_VAL),
    (-1, MPITYPE_TOPOLOGIES, MPI_CART_SHIFT_VAL), (MPI_CART_SUB_EV, MPITYPE_TOPOLOGIES, MPI_CART_SUB_VAL),
    (-1, MPITYPE_TOPOLOGIES, MPI_CARTDIM_GET_VAL), (-1, MPITYPE_TOPOLOGIES, MPI_DIMS_CREATE_VAL),
    (-1, MPITYPE_TOPOLOGIES, MPI_GRAPH_GET_VAL), (-1, MPITYPE_TOPOLOGIES, MPI_GRAPH_MAP_VAL),
    (-1, MPITYPE_TOPOLOGIES, MPI_GRAPH_NEIGHBORS_VAL), (-1, MPITYPE_TOPOLOGIES, MPI_GRAPH_CREATE_VAL),
    (-1, MPITYPE_TOPOLOGIES, MPI_GRAPHDIMS_GET_VAL), (-1, MPITYPE_TOPOLOGIES, MPI_GRAPH_NEIGHBORS_COUNT_VAL),
    (-1, MPITYPE_TOPOLOGIES, MPI_TOPO_TEST_VAL), (MPI_WIN_CREATE_EV, MPITYPE_RMA, MPI_WIN_CREATE_VAL),
    (MPI_WIN_FREE_EV, MPITYPE_RMA, MPI_WIN_FREE_VAL), (MPI_PUT_EV, MPITYPE_RMA, MPI_PUT_VAL),
    (MPI_GET_EV, MPITYPE_RMA, MPI_GET_VAL), (-1, MPITYPE_RMA, MPI_ACCUMULATE_VAL),
    (MPI_WIN_FENCE_EV, MPITYPE_RMA, MPI_WIN_FENCE_VAL), (MPI_WIN_START_EV, MPITYPE_RMA, MPI_WIN_START_VAL),
    (MPI_WIN_COMPLETE_EV, MPITYPE_RMA, MPI_WIN_COMPLETE_VAL), (MPI_WIN_POST_EV, MPITYPE_RMA, MPI_WIN_POST_VAL),
    (MPI_WIN_WAIT_EV, MPITYPE_RMA, MPI_WIN_WAIT_VAL), (-1, MPITYPE_RMA, MPI_WIN_TEST_VAL),
    (MPI_WIN_LOCK_EV, MPITYPE_RMA, MPI_WIN_LOCK_VAL), (MPI_WIN_UNLOCK_EV, MPITYPE_RMA, MPI_WIN_UNLOCK_VAL),
    (MPI_FILE_OPEN_EV, MPITYPE_IO, MPI_FILE_OPEN_VAL), (MPI_FILE_CLOSE_EV, MPITYPE_IO, MPI_FILE_CLOSE_VAL),
    (MPI_FILE_READ_EV, MPITYPE_IO, MPI_FILE_READ_VAL), (MPI_FILE_READ_ALL_EV, MPITYPE_IO, MPI_FILE_READ_ALL_VAL),
    (MPI_FILE_WRITE_EV, MPITYPE_IO, MPI_FILE_WRITE_VAL), (MPI_FILE_WRITE_ALL_EV, MPITYPE_IO, MPI_FILE_WRITE_ALL_VAL),
    (MPI_FILE_READ_AT_EV, MPITYPE_IO, MPI_FILE_READ_AT_VAL),
    (MPI_FILE_READ_AT_ALL_EV, MPITYPE_IO, MPI_FILE_READ_AT_ALL_VAL),
    (MPI_FILE_WRITE_AT_EV, MPITYPE_IO, MPI_FILE_WRITE_AT_VAL),
    (MPI_FILE_WRITE_AT_ALL_EV, MPITYPE_IO, MPI_FILE_WRITE_AT_ALL_VAL),
    (MPI_COMM_SPAWN_EV, MPITYPE_COMM, MPI_COMM_SPAWN_VAL),
    (MPI_COMM_SPAWN_MULTIPLE_EV, MPITYPE_COMM, MPI_COMM_SPAWN_MULTIPLE_VAL),
    (MPI_REQUEST_GET_STATUS_EV, MPITYPE_OTHER, MPI_REQUEST_GET_STATUS_VAL),
    (MPI_IREDUCE_EV, MPITYPE_COLLECTIVE, MPI_IREDUCE_VAL),
    (MPI_IALLREDUCE_EV, MPITYPE_COLLECTIVE, MPI_IALLREDUCE_VAL),
    (MPI_IBARRIER_EV, MPITYPE_COLLECTIVE, MPI_IBARRIER_VAL), (MPI_IBCAST_EV, MPITYPE_COLLECTIVE, MPI_IBCAST_VAL),
    (MPI_IALLTOALL_EV, MPITYPE_COLLECTIVE, MPI_IALLTOALL_VAL),
    (MPI_IALLTOALLV_EV, MPITYPE_COLLECTIVE, MPI_IALLTOALLV_VAL),
    (MPI_IALLGATHER_EV, MPITYPE_COLLECTIVE, MPI_IALLGATHER_VAL),
    (MPI_IALLGATHERV_EV, MPITYPE_COLLECTIVE, MPI_IALLGATHERV_VAL),
    (MPI_IGATHER_EV, MPITYPE_COLLECTIVE, MPI_IGATHER_VAL), (MPI_IGATHERV_EV, MPITYPE_COLLECTIVE, MPI_IGATHERV_VAL),
    (MPI_ISCATTER_EV, MPITYPE_COLLECTIVE, MPI_ISCATTER_VAL),
    (MPI_ISCATTERV_EV, MPITYPE_COLLECTIVE, MPI_ISCATTERV_VAL),
    (MPI_IREDUCESCAT_EV, MPITYPE_COLLECTIVE, MPI_IREDUCESCAT_VAL), (MPI_ISCAN_EV, MPITYPE_COLLECTIVE, MPI_ISCAN_VAL),
    (MPI_REDUCE_SCATTER_BLOCK_EV, MPITYPE_COLLECTIVE, MPI_REDUCE_SCATTER_BLOCK_VAL),
    (MPI_IREDUCE_SCATTER_BLOCK_EV, MPITYPE_COLLECTIVE, MPI_IREDUCE_SCATTER_BLOCK_VAL),
    (MPI_ALLTOALLW_EV, MPITYPE_COLLECTIVE, MPI_ALLTOALLW_VAL),
    (MPI_IALLTOALLW_EV, MPITYPE_COLLECTIVE, MPI_IALLTOALLW_VAL),
    (MPI_GET_ACCUMULATE_EV, MPITYPE_RMA, MPI_GET_ACCUMULATE_VAL)]"

definition mpi_prv_val_label :: "(int \<times> string) list" where
  "mpi_prv_val_label = [
    (MPI_SEND_VAL, ''MPI_Send''), (MPI_RECV_VAL, ''MPI_Recv''), (MPI_ISEND_VAL, ''MPI_Isend''),
    (MPI_IRECV_VAL, ''MPI_Irecv''), (MPI_WAIT_VAL, ''MPI_Wait''), (MPI_WAITALL_VAL, ''MPI_Waitall''),
    (MPI_BCAST_VAL, ''MPI_Bcast''), (MPI_BARRIER_VAL, ''MPI_Barrier''), (MPI_REDUCE_VAL, ''MPI_Reduce''),
    (MPI_ALLREDUCE_VAL, ''MPI_Allreduce''), (MPI_ALLTOALL_VAL, ''MPI_Alltoall''),
    (MPI_ALLTOALLV_VAL, ''MPI_Alltoallv''), (MPI_GATHER_VAL, ''MPI_Gather''), (MPI_GATHERV_VAL, ''MPI_Gatherv''),
    (MPI_SCATTER_VAL, ''MPI_Scatter''), (MPI_SCATTERV_VAL, ''MPI_Scatterv''), (MPI_ALLGATHER_VAL, ''MPI_Allgather''),
    (MPI_ALLGATHERV_VAL, ''MPI_Allgatherv''), (MPI_COMM_RANK_VAL, ''MPI_Comm_rank''),
    (MPI_COMM_SIZE_VAL, ''MPI_Comm_size''), (MPI_COMM_CREATE_VAL, ''MPI_Comm_create''),
    (MPI_COMM_DUP_VAL, ''MPI_Comm_dup''), (MPI_COMM_SPLIT_VAL, ''MPI_Comm_split''),
    (MPI_COMM_SPAWN_VAL, ''MPI_Comm_spawn''), (MPI_COMM_SPAWN_MULTIPLE_VAL, ''MPI_Comm_spawn_multiple''),
    (MPI_COMM_GROUP_VAL, ''MPI_Comm_group''), (MPI_COMM_FREE_VAL, ''MPI_Comm_free''),
    (MPI_COMM_REMOTE_GROUP_VAL, ''MPI_Comm_remote_group''), (MPI_COMM_REMOTE_SIZE_VAL, ''MPI_Comm_remote_size''),
    (MPI_COMM_TEST_INTER_VAL, ''MPI_Comm_test_inter''), (MPI_COMM_COMPARE_VAL, ''MPI_Comm_compare''),
    (MPI_SCAN_VAL, ''MPI_Scan''), (MPI_INIT_VAL, ''MPI_Init''), (MPI_FINALIZE_VAL, ''MPI_Finalize''),
    (MPI_BSEND_VAL, ''MPI_Bsend''), (MPI_SSEND_VAL, ''MPI_Ssend''), (MPI_RSEND_VAL, ''MPI_Rsend''),
    (MPI_IBSEND_VAL, ''MPI_Ibsend''), (MPI_ISSEND_VAL, ''MPI_Issend''), (MPI_IRSEND_VAL, ''MPI_Irsend''),
    (MPI_TEST_VAL, ''MPI_Test''), (MPI_CANCEL_VAL, ''MPI_Cancel''), (MPI_SENDRECV_VAL, ''MPI_Sendrecv''),
    (MPI_SENDRECV_REPLACE_VAL, ''MPI_Sendrecv_replace''), (MPI_CART_CREATE_VAL, ''MPI_Cart_create''),
    (MPI_CART_SHIFT_VAL, ''MPI_Cart_shift''), (MPI_CART_COORDS_VAL, ''MPI_Cart_coords''),
    (MPI_CART_GET_VAL, ''MPI_Cart_get''), (MPI_CART_MAP_VAL, ''MPI_Cart_map''),
    (MPI_CART_RANK_VAL, ''MPI_Cart_rank''), (MPI_CART_SUB_VAL, ''MPI_Cart_sub''),
    (MPI_CARTDIM_GET_VAL, ''MPI_Cartdim_get''), (MPI_DIMS_CREATE_VAL, ''MPI_Dims_create''),
    (MPI_GRAPH_GET_VAL, ''MPI_Graph_get''), (MPI_GRAPH_MAP_VAL, ''MPI_Graph_map''),
    (MPI_GRAPH_CREATE_VAL, ''MPI_Graph_create''), (MPI_GRAPH_NEIGHBORS_VAL, ''MPI_Graph_neighbors''),
    (MPI_GRAPHDIMS_GET_VAL, ''MPI_Graphdims_get''), (MPI_GRAPH_NEIGHBORS_COUNT_VAL, ''MPI_Graph_neighbors_count''),
    (MPI_TOPO_TEST_VAL, ''MPI_Topo_test''), (MPI_WAITANY_VAL, ''MPI_Waitany''), (MPI_WAITSOME_VAL, ''MPI_Waitsome''),
    (MPI_PROBE_VAL, ''MPI_Probe''), (MPI_REQUEST_GET_STATUS_VAL, ''MPI_Request_get_status''),
    (MPI_IPROBE_VAL, ''MPI_Iprobe''), (MPI_WIN_CREATE_VAL, ''MPI_Win_create''), (MPI_WIN_FREE_VAL, ''MPI_Win_free''),
    (MPI_PUT_VAL, ''MPI_Put''), (MPI_GET_VAL, ''MPI_Get''), (MPI_ACCUMULATE_VAL, ''MPI_Accumulate''),
    (MPI_WIN_FENCE_VAL, ''MPI_Win_fence''), (MPI_WIN_START_VAL, ''MPI_Win_complete''),
    (MPI_WIN_COMPLETE_VAL, ''MPI_Win_start''), (MPI_WIN_POST_VAL, ''MPI_Win_post''),
    (MPI_WIN_WAIT_VAL, ''MPI_Win_wait''), (MPI_WIN_TEST_VAL, ''MPI_Win_test''), (MPI_WIN_LOCK_VAL, ''MPI_Win_lock''),
    (MPI_WIN_UNLOCK_VAL, ''MPI_Win_unlock''), (MPI_PACK_VAL, ''MPI_Pack''), (MPI_UNPACK_VAL, ''MPI_Unpack''),
    (MPI_OP_CREATE_VAL, ''MPI_Op_create''), (MPI_OP_FREE_VAL, ''MPI_Op_free''),
    (MPI_REDUCE_SCATTER_VAL, ''MPI_Reduce_scatter''), (MPI_ATTR_DELETE_VAL, ''MPI_Attr_delete''),
    (MPI_ATTR_GET_VAL, ''MPI_Attr_get''), (MPI_ATTR_PUT_VAL, ''MPI_Attr_put''),
    (MPI_GROUP_DIFFERENCE_VAL, ''MPI_Group_difference''), (MPI_GROUP_EXCL_VAL, ''MPI_Group_excl''),
    (MPI_GROUP_FREE_VAL, ''MPI_Group_free''), (MPI_GROUP_INCL_VAL, ''MPI_Group_incl''),
    (MPI_GROUP_INTERSECTION_VAL, ''MPI_Group_intersection''), (MPI_GROUP_RANK_VAL, ''MPI_Group_rank''),
    (MPI_GROUP_RANGE_EXCL_VAL, ''MPI_Group_range_excl''), (MPI_GROUP_RANGE_INCL_VAL, ''MPI_Group_range_incl''),
    (MPI_GROUP_SIZE_VAL, ''MPI_Group_size''), (MPI_GROUP_TRANSLATE_RANKS_VAL, ''MPI_Group_translate_ranks''),
    (MPI_GROUP_UNION_VAL, ''MPI_Group_union''), (MPI_GROUP_COMPARE_VAL, ''MPI_Group_compare''),
    (MPI_INTERCOMM_CREATE_VAL, ''MPI_Intercomm_create''), (MPI_INTERCOMM_MERGE_VAL, ''MPI_Intercomm_merge''),
    (MPI_KEYVAL_FREE_VAL, ''MPI_Keyval_free''), (MPI_KEYVAL_CREATE_VAL, ''MPI_Keyval_create''),
    (MPI_ABORT_VAL, ''MPI_Abort''), (MPI_ERROR_CLASS_VAL, ''MPI_Error_class''),
    (MPI_ERRHANDLER_CREATE_VAL, ''MPI_Errhandler_create''), (MPI_ERRHANDLER_FREE_VAL, ''MPI_Errhandler_free''),
    (MPI_ERRHANDLER_GET_VAL, ''MPI_Errhandler_get''), (MPI_ERROR_STRING_VAL, ''MPI_Error_string''),
    (MPI_ERRHANDLER_SET_VAL, ''MPI_Errhandler_set''), (MPI_GET_PROCESSOR_NAME_VAL, ''MPI_Get_processor_name''),
    (MPI_INITIALIZED_VAL, ''MPI_Initialized''), (MPI_WTICK_VAL, ''MPI_Wtick''), (MPI_WTIME_VAL, ''MPI_Wtime''),
    (MPI_ADDRESS_VAL, ''MPI_Address''), (MPI_BSEND_INIT_VAL, ''MPI_Bsend_init''),
    (MPI_BUFFER_ATTACH_VAL, ''MPI_Buffer_attach''), (MPI_BUFFER_DETACH_VAL, ''MPI_Buffer_detach''),
    (MPI_REQUEST_FREE_VAL, ''MPI_Request_free''), (MPI_RECV_INIT_VAL, ''MPI_Recv_init''),
    (MPI_SEND_INIT_VAL, ''MPI_Send_init''), (MPI_GET_COUNT_VAL, ''MPI_Get_count''),
    (MPI_GET_ELEMENTS_VAL, ''MPI_Get_elements''), (MPI_PACK_SIZE_VAL, ''MPI_Pack_size''),
    (MPI_RSEND_INIT_VAL, ''MPI_Rsend_init''), (MPI_SSEND_INIT_VAL, ''MPI_Ssend_init''),
    (MPI_START_VAL, ''MPI_Start''), (MPI_STARTALL_VAL, ''MPI_Startall''), (MPI_TESTALL_VAL, ''MPI_Testall''),
    (MPI_TESTANY_VAL, ''MPI_Testany''), (MPI_TEST_CANCELLED_VAL, ''MPI_Test_cancelled''),
    (MPI_TESTSOME_VAL, ''MPI_Testsome''), (MPI_TYPE_COMMIT_VAL, ''MPI_Type_commit''),
    (MPI_TYPE_CONTIGUOUS_VAL, ''MPI_Type_contiguous''), (MPI_TYPE_EXTENT_VAL, ''MPI_Type_extent''),
    (MPI_TYPE_FREE_VAL, ''MPI_Type_free''), (MPI_TYPE_HINDEXED_VAL, ''MPI_Type_hindexed''),
    (MPI_TYPE_HVECTOR_VAL, ''MPI_Type_hvector''), (MPI_TYPE_INDEXED_VAL, ''MPI_Type_indexed''),
    (MPI_TYPE_LB_VAL, ''MPI_Type_lb''), (MPI_TYPE_SIZE_VAL, ''MPI_Type_size''),
    (MPI_TYPE_STRUCT_VAL, ''MPI_Type_struct''), (MPI_TYPE_UB_VAL, ''MPI_Type_ub''),
    (MPI_TYPE_VECTOR_VAL, ''MPI_Type_vector''), (MPI_FILE_OPEN_VAL, ''MPI_File_open''),
    (MPI_FILE_CLOSE_VAL, ''MPI_File_close''), (MPI_FILE_READ_VAL, ''MPI_File_read''),
    (MPI_FILE_READ_ALL_VAL, ''MPI_File_read_all''), (MPI_FILE_WRITE_VAL, ''MPI_File_write''),
    (MPI_FILE_WRITE_ALL_VAL, ''MPI_File_write_all''), (MPI_FILE_READ_AT_VAL, ''MPI_File_read_at''),
    (MPI_FILE_READ_AT_ALL_VAL, ''MPI_File_read_at_all''), (MPI_FILE_WRITE_AT_VAL, ''MPI_File_write_at''),
    (MPI_FILE_WRITE_AT_ALL_VAL, ''MPI_File_write_at_all''), (MPI_IREDUCE_VAL, ''MPI_Ireduce''),
    (MPI_IALLREDUCE_VAL, ''MPI_Iallreduce''), (MPI_IBARRIER_VAL, ''MPI_Ibarrier''), (MPI_IBCAST_VAL, ''MPI_Ibcast''),
    (MPI_IALLTOALL_VAL, ''MPI_Ialltoall''), (MPI_IALLTOALLV_VAL, ''MPI_Ialltoallv''),
    (MPI_IALLGATHER_VAL, ''MPI_Iallgather''), (MPI_IALLGATHER_VAL, ''MPI_Iallgatherv''),
    (MPI_IGATHER_VAL, ''MPI_Igather''), (MPI_IGATHERV_VAL, ''MPI_Igatherv''), (MPI_ISCATTER_VAL, ''MPI_Iscatter''),
    (MPI_ISCATTERV_VAL, ''MPI_Iscatterv''), (MPI_IREDUCESCAT_VAL, ''MPI_Ireduce_scatter''),
    (MPI_ISCAN_VAL, ''MPI_Iscan''), (MPI_REDUCE_SCATTER_BLOCK_VAL, ''MPI_Reduce_scatter_block''),
    (MPI_IREDUCE_SCATTER_BLOCK_VAL, ''MPI_Ireduce_scatter_block''), (MPI_ALLTOALLW_VAL, ''MPI_Alltoallw''),
    (MPI_IALLTOALLW_VAL, ''MPI_Ialltoallw''), (MPI_GET_ACCUMULATE_VAL, ''MPI_Get_accumulate'')]"

text \<open>The three further entries of the array are zero and name no group of the table.\<close>

definition prv_block_groups :: "(int \<times> string) list" where
  "prv_block_groups = [(MPITYPE_PTOP, ''MPI Point-to-point''), (MPITYPE_COLLECTIVE, ''MPI Collective Comm''),
    (MPITYPE_OTHER, ''MPI Other''), (MPITYPE_RMA, ''MPI One-sided''), (MPITYPE_IO, ''MPI I/O'')]"

definition busca_event_mpit :: "int \<Rightarrow> nat option" where
  "busca_event_mpit tmpit = find_index (\<lambda>(t, g, v). t = tmpit) event_mpit2prv"

text \<open>The value of an event is 0 at its end.\<close>

definition Translate_MPI_MPIT2PRV :: "int \<Rightarrow> 64 word \<Rightarrow> int \<times> 64 word" where
  "Translate_MPI_MPIT2PRV typempit valuempit = (case busca_event_mpit typempit of
      Some i \<Rightarrow> let (t, g, v) = event_mpit2prv ! i in (g, if valuempit \<noteq> 0 then word_of_int v else 0)
    | None \<Rightarrow> (typempit, valuempit))"

section \<open>Labels of the used operations\<close>

text \<open>The flags \<open>utilitzada\<close> of the table, and the flags of the software counters.\<close>

record mpi_usage =
  utilitzada :: "bool list"
  MPI_SoftCounters_used :: "bool list"

definition no_usage :: mpi_usage where
  "no_usage = \<lparr>utilitzada = replicate (length event_mpit2prv) False, MPI_SoftCounters_used = replicate 8 False\<rparr>"

definition Enable_MPI_Operation :: "int \<Rightarrow> mpi_usage \<Rightarrow> mpi_usage" where
  "Enable_MPI_Operation op u = (case busca_event_mpit op of
      Some i \<Rightarrow> u\<lparr>utilitzada := (utilitzada u)[i := True]\<rparr> | None \<Rightarrow> u)"

text \<open>The software counter an event type belongs to.\<close>

definition soft_counters :: "(int list \<times> nat) list" where
  "soft_counters = [
    ([MPI_IPROBE_COUNTER_EV], 0),
    ([MPI_TIME_OUTSIDE_IPROBES_EV], 1),
    ([MPI_TIME_OUTSIDE_TESTS_EV], 7),
    ([MPI_TEST_COUNTER_EV], 2),
    ([MPI_REQUEST_GET_STATUS_COUNTER_EV], 4),
    ([MPI_TIME_OUTSIDE_MPI_REQUEST_GET_STATUS_EV], 5),
    ([MPI_REDUCE_EV, MPI_ALLREDUCE_EV, MPI_BARRIER_EV, MPI_BCAST_EV, MPI_ALLTOALL_EV,
      MPI_ALLTOALLV_EV, MPI_ALLGATHER_EV, MPI_ALLGATHERV_EV, MPI_GATHER_EV, MPI_GATHERV_EV,
      MPI_SCATTER_EV, MPI_SCATTERV_EV, MPI_REDUCESCAT_EV, MPI_SCAN_EV, MPI_IREDUCE_EV,
      MPI_IALLREDUCE_EV, MPI_IBARRIER_EV, MPI_IBCAST_EV, MPI_IALLTOALL_EV, MPI_IALLTOALLV_EV,
      MPI_IALLGATHER_EV, MPI_IALLGATHERV_EV, MPI_IGATHER_EV, MPI_IGATHERV_EV, MPI_ISCATTER_EV,
      MPI_ISCATTERV_EV, MPI_IREDUCESCAT_EV, MPI_ISCAN_EV, MPI_REDUCE_SCATTER_BLOCK_EV, MPI_IREDUCE_SCATTER_BLOCK_EV,
      MPI_ALLTOALLW_EV, MPI_IALLTOALLW_EV], 3),
    ([MPI_FILE_READ_EV, MPI_FILE_READ_ALL_EV, MPI_FILE_WRITE_EV, MPI_FILE_WRITE_ALL_EV, MPI_FILE_READ_AT_EV,
      MPI_FILE_READ_AT_ALL_EV, MPI_FILE_WRITE_AT_EV, MPI_FILE_WRITE_AT_ALL_EV], 6)]"

definition Enable_MPI_Soft_Counter :: "int \<Rightarrow> mpi_usage \<Rightarrow> mpi_usage" where
  "Enable_MPI_Soft_Counter EvType u = (case find_index (\<lambda>(es, i). EvType \<in> set es) soft_counters of
      Some k \<Rightarrow> u\<lparr>MPI_SoftCounters_used := (MPI_SoftCounters_used u)[snd (soft_counters ! k) := True]\<rparr>
    | None \<Rightarrow> u)"

definition get_mpi_prv_val_label :: "int \<Rightarrow> string option" where
  "get_mpi_prv_val_label v = map_option (\<lambda>i. snd (mpi_prv_val_label ! i))
     (find_index (\<lambda>(w, l). w = v) mpi_prv_val_label)"

text \<open>\<open>fprintf\<close> with \<open>%d\<close> of a number that is not negative, and with \<open>%s\<close> of a pointer.\<close>

definition print_d :: "int \<Rightarrow> string" where
  "print_d n = rev (lbuffer (nat n))"

definition print_s :: "string option \<Rightarrow> string result" where
  "print_s s = (case s of Some t \<Rightarrow> Inr t | None \<Rightarrow> Inl Undefined)"

definition newline :: string where
  "newline = [CHR 0x0A]"

definition MPITYPE_FLAG_COLOR :: int where "MPITYPE_FLAG_COLOR = 9"

definition used_of_group :: "mpi_usage \<Rightarrow> int \<Rightarrow> int list" where
  "used_of_group u g = map (\<lambda>((t, g, v), used). v)
     (filter (\<lambda>((t, g1, v), used). g1 = g \<and> used) (zip event_mpit2prv (utilitzada u)))"

definition type_line :: "int \<Rightarrow> string \<Rightarrow> string" where
  "type_line t l = print_d MPITYPE_FLAG_COLOR @ ''   '' @ print_d t @ ''    '' @ l @ newline"

definition write_group :: "mpi_usage \<Rightarrow> int \<times> string \<Rightarrow> string result" where
  "write_group u gl = (case gl of (g, label) \<Rightarrow>
     if used_of_group u g = [] then Inr []
     else rmap (\<lambda>ls.
         ''EVENT_TYPE'' @ newline @ type_line g label @ ''VALUES'' @ newline @ concat ls @
         ''0   Outside MPI'' @ newline @ newline @ newline @
         (if g = MPITYPE_RMA
          then ''EVENT_TYPE'' @ newline @ type_line MPITYPE_RMA_SIZE ''MPI One-sided size'' @
               type_line MPITYPE_RMA_TARGET_RANK ''MPI One-sided target rank'' @
               type_line MPITYPE_RMA_ORIGIN_ADDR ''MPI One-sided origin address'' @
               type_line MPITYPE_RMA_TARGET_DISP ''MPI One-sided target displacement'' @ newline @ newline
          else []))
       (rcollect (\<lambda>v. rmap (\<lambda>l. print_d v @ ''   '' @ l @ newline) (print_s (get_mpi_prv_val_label v)))
         (used_of_group u g)))"

definition MPITEvent_WriteEnabled_MPI_Operations :: "mpi_usage \<Rightarrow> string result" where
  "MPITEvent_WriteEnabled_MPI_Operations u = rmap concat (rcollect (write_group u) prv_block_groups)"

section \<open>Classification\<close>

definition mpi_events :: "int list" where
  "mpi_events = [
    MPI_BSEND_EV, MPI_SSEND_EV, MPI_BARRIER_EV, MPI_BCAST_EV, MPI_SEND_EV, MPI_RECV_EV, MPI_SENDRECV_EV,
    MPI_SENDRECV_REPLACE_EV, MPI_IBSEND_EV, MPI_ISSEND_EV, MPI_ISEND_EV, MPI_IRECV_EV, MPI_TEST_EV, MPI_WAIT_EV,
    MPI_CANCEL_EV, MPI_RSEND_EV, MPI_IRSEND_EV, MPI_ALLTOALL_EV, MPI_ALLTOALLV_EV, MPI_ALLREDUCE_EV, MPI_REDUCE_EV,
    MPI_WAITALL_EV, MPI_TESTANY_EV, MPI_TESTALL_EV, MPI_TESTSOME_EV, MPI_PROBE_EV, MPI_IPROBE_EV, MPI_GATHER_EV,
    MPI_GATHERV_EV, MPI_SCATTER_EV, MPI_SCATTERV_EV, MPI_REDUCESCAT_EV, MPI_SCAN_EV, MPI_WAITANY_EV, MPI_WAITSOME_EV,
    MPI_FINALIZE_EV, MPI_INIT_EV, MPI_ALLGATHER_EV, MPI_ALLGATHERV_EV, MPI_PERSIST_REQ_EV, MPI_START_EV,
    MPI_STARTALL_EV, MPI_REQUEST_FREE_EV, MPI_RECV_INIT_EV, MPI_SEND_INIT_EV, MPI_BSEND_INIT_EV, MPI_RSEND_INIT_EV,
    MPI_SSEND_INIT_EV, MPI_COMM_RANK_EV, MPI_COMM_SIZE_EV, MPI_IPROBE_COUNTER_EV, MPI_TIME_OUTSIDE_IPROBES_EV,
    MPI_TEST_COUNTER_EV, MPI_FILE_OPEN_EV, MPI_FILE_CLOSE_EV, MPI_FILE_READ_EV, MPI_FILE_READ_ALL_EV,
    MPI_FILE_WRITE_EV, MPI_FILE_WRITE_ALL_EV, MPI_FILE_READ_AT_EV, MPI_FILE_READ_AT_ALL_EV, MPI_FILE_WRITE_AT_EV,
    MPI_FILE_WRITE_AT_ALL_EV, MPI_IRECVED_EV, MPI_GET_EV, MPI_PUT_EV, MPI_COMM_CREATE_EV, MPI_COMM_DUP_EV,
    MPI_COMM_SPLIT_EV, MPI_CART_CREATE_EV, MPI_CART_SUB_EV, MPI_COMM_FREE_EV, MPI_COMM_SPAWN_EV,
    MPI_COMM_SPAWN_MULTIPLE_EV, MPI_REQUEST_GET_STATUS_EV, MPI_REQUEST_GET_STATUS_COUNTER_EV,
    MPI_TIME_OUTSIDE_MPI_REQUEST_GET_STATUS_EV, MPI_WIN_CREATE_EV, MPI_WIN_FENCE_EV, MPI_WIN_START_EV,
    MPI_WIN_FREE_EV, MPI_WIN_POST_EV, MPI_WIN_COMPLETE_EV, MPI_WIN_WAIT_EV, MPI_INTERCOMM_CREATE_EV,
    MPI_INTERCOMM_MERGE_EV, MPI_IREDUCE_EV, MPI_IALLREDUCE_EV, MPI_IBARRIER_EV, MPI_IBCAST_EV, MPI_IALLTOALL_EV,
    MPI_IALLTOALLV_EV, MPI_IALLGATHER_EV, MPI_IALLGATHERV_EV, MPI_IGATHER_EV, MPI_IGATHERV_EV, MPI_ISCATTER_EV,
    MPI_ISCATTERV_EV, MPI_IREDUCESCAT_EV, MPI_ISCAN_EV, MPI_REDUCE_SCATTER_BLOCK_EV, MPI_IREDUCE_SCATTER_BLOCK_EV,
    MPI_ALLTOALLW_EV, MPI_IALLTOALLW_EV, MPI_WIN_LOCK_EV, MPI_WIN_UNLOCK_EV, MPI_GET_ACCUMULATE_EV,
    MPI_TIME_OUTSIDE_TESTS_EV]"

definition IsMPI :: "int \<Rightarrow> bool" where
  "IsMPI EvType \<longleftrightarrow> EvType \<in> set mpi_events"

definition IsMPICollective :: "int \<Rightarrow> bool" where
  "IsMPICollective EvType \<longleftrightarrow> EvType \<in> set [
    MPI_BARRIER_EV, MPI_BCAST_EV, MPI_ALLTOALL_EV, MPI_ALLTOALLV_EV, MPI_REDUCE_EV, MPI_ALLREDUCE_EV, MPI_GATHER_EV,
    MPI_GATHERV_EV, MPI_ALLGATHER_EV, MPI_ALLGATHERV_EV, MPI_SCATTER_EV, MPI_SCATTERV_EV, MPI_REDUCESCAT_EV,
    MPI_SCAN_EV, MPI_REDUCE_SCATTER_BLOCK_EV, MPI_IREDUCE_SCATTER_BLOCK_EV, MPI_ALLTOALLW_EV, MPI_IALLTOALLW_EV]"

section \<open>States and handlers\<close>

abbreviation STATE_INITFINI :: state_id where "STATE_INITFINI \<equiv> 15"
abbreviation STATE_IO :: state_id where "STATE_IO \<equiv> 12"
abbreviation STATE_MIXED :: state_id where "STATE_MIXED \<equiv> 15"
abbreviation STATE_PROBE :: state_id where "STATE_PROBE \<equiv> 6"
abbreviation STATE_TWRECV :: state_id where "STATE_TWRECV \<equiv> 8"
abbreviation STATE_SEND :: state_id where "STATE_SEND \<equiv> 4"
abbreviation STATE_ISEND :: state_id where "STATE_ISEND \<equiv> 10"
abbreviation STATE_BARRIER :: state_id where "STATE_BARRIER \<equiv> 5"
abbreviation STATE_BCAST :: state_id where "STATE_BCAST \<equiv> 13"
abbreviation STATE_MEMORY_XFER :: state_id where "STATE_MEMORY_XFER \<equiv> 17"
abbreviation STATE_WAITMESS :: state_id where "STATE_WAITMESS \<equiv> 3"
abbreviation STATE_IWAITMESS :: state_id where "STATE_IWAITMESS \<equiv> 11"
abbreviation STATE_SENDRECVOP :: state_id where "STATE_SENDRECVOP \<equiv> 16"
abbreviation STATE_IRECV :: state_id where "STATE_IRECV \<equiv> 11"

definition event_states :: "(int list \<times> state_id) list" where
  "event_states = [
    ([MPI_INIT_EV, MPI_FINALIZE_EV], STATE_INITFINI),
    ([MPI_FILE_OPEN_EV, MPI_FILE_CLOSE_EV, MPI_FILE_READ_EV, MPI_FILE_READ_ALL_EV, MPI_FILE_WRITE_EV,
      MPI_FILE_WRITE_ALL_EV, MPI_FILE_READ_AT_EV, MPI_FILE_READ_AT_ALL_EV, MPI_FILE_WRITE_AT_EV, MPI_FILE_WRITE_AT_ALL_EV], STATE_IO),
    ([MPI_WIN_FREE_EV, MPI_WIN_START_EV, MPI_REQUEST_FREE_EV, MPI_COMM_RANK_EV, MPI_COMM_SIZE_EV,
      MPI_COMM_CREATE_EV, MPI_COMM_FREE_EV, MPI_COMM_DUP_EV, MPI_COMM_SPLIT_EV, MPI_COMM_SPAWN_EV,
      MPI_COMM_SPAWN_MULTIPLE_EV, MPI_CART_CREATE_EV, MPI_CART_SUB_EV, MPI_CANCEL_EV, MPI_REQUEST_GET_STATUS_EV,
      MPI_INTERCOMM_CREATE_EV, MPI_INTERCOMM_MERGE_EV, MPI_WIN_POST_EV, MPI_WIN_COMPLETE_EV, MPI_WIN_CREATE_EV,
      MPI_WIN_LOCK_EV, MPI_WIN_UNLOCK_EV], STATE_MIXED),
    ([MPI_PROBE_EV, MPI_IPROBE_EV], STATE_PROBE),
    ([MPI_TEST_EV, MPI_TESTALL_EV, MPI_TESTSOME_EV, MPI_TESTANY_EV, MPI_WAIT_EV,
      MPI_WAITALL_EV, MPI_WAITSOME_EV, MPI_WAITANY_EV, MPI_WIN_WAIT_EV], STATE_TWRECV),
    ([MPI_SEND_EV, MPI_RSEND_EV, MPI_SSEND_EV, MPI_BSEND_EV], STATE_SEND),
    ([MPI_ISEND_EV, MPI_IRSEND_EV, MPI_ISSEND_EV, MPI_IBSEND_EV], STATE_ISEND),
    ([MPI_BARRIER_EV, MPI_IBARRIER_EV], STATE_BARRIER),
    ([MPI_REDUCE_EV, MPI_ALLREDUCE_EV, MPI_BCAST_EV, MPI_ALLTOALL_EV, MPI_ALLTOALLV_EV,
      MPI_ALLGATHER_EV, MPI_ALLGATHERV_EV, MPI_GATHER_EV, MPI_GATHERV_EV, MPI_SCATTER_EV,
      MPI_SCATTERV_EV, MPI_REDUCESCAT_EV, MPI_SCAN_EV, MPI_IREDUCE_EV, MPI_IALLREDUCE_EV,
      MPI_IBCAST_EV, MPI_IALLTOALL_EV, MPI_IALLTOALLV_EV, MPI_IALLGATHER_EV, MPI_IALLGATHERV_EV,
      MPI_IGATHER_EV, MPI_IGATHERV_EV, MPI_ISCATTER_EV, MPI_ISCATTERV_EV, MPI_IREDUCESCAT_EV,
      MPI_ISCAN_EV, MPI_IREDUCE_SCATTER_BLOCK_EV, MPI_REDUCE_SCATTER_BLOCK_EV, MPI_ALLTOALLW_EV, MPI_IALLTOALLW_EV], STATE_BCAST),
    ([MPI_WIN_FENCE_EV, MPI_GET_EV, MPI_PUT_EV, MPI_GET_ACCUMULATE_EV], STATE_MEMORY_XFER)]"

definition Get_State :: "int \<Rightarrow> state_id result" where
  "Get_State EvType = (case find_index (\<lambda>(es, st). EvType \<in> set es) event_states of
      Some k \<Rightarrow> Inr (snd (event_states ! k)) | None \<Rightarrow> Inl (Exit (-1)))"

text \<open>The handlers, by the names of their functions.\<close>

datatype mpi_handler =
    H_Any_Send_Event
  | H_SendRecv_Event
  | H_Recv_Event
  | H_IRecv_Event
  | H_GlobalOP_event
  | H_Other_MPI_Event
  | H_SkipHandler
  | H_MPI_PersistentRequest_Init_Event
  | H_MPI_PersistentRequest_Event
  | H_MPI_Start_Event
  | H_MPI_PersistentRequest_Free_Event
  | H_MPI_Request_get_status_SoftwareCounter_Event
  | H_MPI_ElapsedTimeOutsideRequest_get_status_Event
  | H_MPI_IProbeSoftwareCounter_Event
  | H_MPI_ElapsedTimeOutsideIProbes_Event
  | H_MPI_TestSoftwareCounter_Event
  | H_MPIIO_Event
  | H_MPI_RMA_Event
  | H_MPI_ElapsedTimeOutsideTests_Event

definition PRV_MPI_Event_Handlers :: "(int \<times> mpi_handler) list" where
  "PRV_MPI_Event_Handlers = [
    (MPI_SEND_EV, H_Any_Send_Event), (MPI_BSEND_EV, H_Any_Send_Event), (MPI_SSEND_EV, H_Any_Send_Event),
    (MPI_RSEND_EV, H_Any_Send_Event), (MPI_IBSEND_EV, H_Any_Send_Event), (MPI_ISSEND_EV, H_Any_Send_Event),
    (MPI_IRSEND_EV, H_Any_Send_Event), (MPI_ISEND_EV, H_Any_Send_Event), (MPI_SENDRECV_EV, H_SendRecv_Event),
    (MPI_SENDRECV_REPLACE_EV, H_SendRecv_Event), (MPI_RECV_EV, H_Recv_Event), (MPI_IRECV_EV, H_IRecv_Event),
    (MPI_REDUCE_EV, H_GlobalOP_event), (MPI_ALLREDUCE_EV, H_GlobalOP_event), (MPI_PROBE_EV, H_Other_MPI_Event),
    (MPI_REQUEST_GET_STATUS_EV, H_Other_MPI_Event), (MPI_IPROBE_EV, H_Other_MPI_Event),
    (MPI_BARRIER_EV, H_GlobalOP_event), (MPI_CANCEL_EV, H_Other_MPI_Event), (MPI_TEST_EV, H_Other_MPI_Event),
    (MPI_TESTALL_EV, H_Other_MPI_Event), (MPI_TESTANY_EV, H_Other_MPI_Event), (MPI_TESTSOME_EV, H_Other_MPI_Event),
    (MPI_WAIT_EV, H_Other_MPI_Event), (MPI_WAITALL_EV, H_Other_MPI_Event), (MPI_WAITANY_EV, H_Other_MPI_Event),
    (MPI_WAITSOME_EV, H_Other_MPI_Event), (MPI_IRECVED_EV, H_SkipHandler), (MPI_BCAST_EV, H_GlobalOP_event),
    (MPI_ALLTOALL_EV, H_GlobalOP_event), (MPI_ALLTOALLV_EV, H_GlobalOP_event), (MPI_ALLGATHER_EV, H_GlobalOP_event),
    (MPI_ALLGATHERV_EV, H_GlobalOP_event), (MPI_GATHER_EV, H_GlobalOP_event), (MPI_GATHERV_EV, H_GlobalOP_event),
    (MPI_SCATTER_EV, H_GlobalOP_event), (MPI_SCATTERV_EV, H_GlobalOP_event), (MPI_REDUCESCAT_EV, H_GlobalOP_event),
    (MPI_SCAN_EV, H_GlobalOP_event), (MPI_INIT_EV, H_Other_MPI_Event), (MPI_FINALIZE_EV, H_Other_MPI_Event),
    (MPI_RECV_INIT_EV, H_MPI_PersistentRequest_Init_Event), (MPI_SEND_INIT_EV, H_MPI_PersistentRequest_Init_Event),
    (MPI_BSEND_INIT_EV, H_MPI_PersistentRequest_Init_Event), (MPI_RSEND_INIT_EV, H_MPI_PersistentRequest_Init_Event),
    (MPI_SSEND_INIT_EV, H_MPI_PersistentRequest_Init_Event), (MPI_PERSIST_REQ_EV, H_MPI_PersistentRequest_Event),
    (MPI_START_EV, H_MPI_Start_Event), (MPI_STARTALL_EV, H_MPI_Start_Event),
    (MPI_REQUEST_FREE_EV, H_MPI_PersistentRequest_Free_Event), (MPI_COMM_RANK_EV, H_Other_MPI_Event),
    (MPI_COMM_SIZE_EV, H_Other_MPI_Event), (MPI_COMM_CREATE_EV, H_Other_MPI_Event),
    (MPI_COMM_FREE_EV, H_Other_MPI_Event), (MPI_COMM_SPLIT_EV, H_Other_MPI_Event),
    (MPI_COMM_SPAWN_EV, H_Other_MPI_Event), (MPI_COMM_SPAWN_MULTIPLE_EV, H_Other_MPI_Event),
    (MPI_COMM_DUP_EV, H_Other_MPI_Event), (MPI_CART_CREATE_EV, H_Other_MPI_Event),
    (MPI_CART_SUB_EV, H_Other_MPI_Event), (MPI_INTERCOMM_CREATE_EV, H_Other_MPI_Event),
    (MPI_INTERCOMM_MERGE_EV, H_Other_MPI_Event),
    (MPI_REQUEST_GET_STATUS_COUNTER_EV, H_MPI_Request_get_status_SoftwareCounter_Event),
    (MPI_TIME_OUTSIDE_MPI_REQUEST_GET_STATUS_EV, H_MPI_ElapsedTimeOutsideRequest_get_status_Event),
    (MPI_IPROBE_COUNTER_EV, H_MPI_IProbeSoftwareCounter_Event),
    (MPI_TIME_OUTSIDE_IPROBES_EV, H_MPI_ElapsedTimeOutsideIProbes_Event),
    (MPI_TEST_COUNTER_EV, H_MPI_TestSoftwareCounter_Event), (MPI_FILE_OPEN_EV, H_Other_MPI_Event),
    (MPI_FILE_CLOSE_EV, H_Other_MPI_Event), (MPI_FILE_READ_EV, H_MPIIO_Event), (MPI_FILE_READ_ALL_EV, H_MPIIO_Event),
    (MPI_FILE_WRITE_EV, H_MPIIO_Event), (MPI_FILE_WRITE_ALL_EV, H_MPIIO_Event), (MPI_FILE_READ_AT_EV, H_MPIIO_Event),
    (MPI_FILE_READ_AT_ALL_EV, H_MPIIO_Event), (MPI_FILE_WRITE_AT_EV, H_MPIIO_Event),
    (MPI_FILE_WRITE_AT_ALL_EV, H_MPIIO_Event), (MPI_PUT_EV, H_MPI_RMA_Event), (MPI_GET_EV, H_MPI_RMA_Event),
    (MPI_WIN_CREATE_EV, H_MPI_RMA_Event), (MPI_WIN_FENCE_EV, H_MPI_RMA_Event), (MPI_WIN_START_EV, H_MPI_RMA_Event),
    (MPI_WIN_FREE_EV, H_MPI_RMA_Event), (MPI_WIN_POST_EV, H_MPI_RMA_Event), (MPI_WIN_COMPLETE_EV, H_MPI_RMA_Event),
    (MPI_WIN_WAIT_EV, H_MPI_RMA_Event), (MPI_IREDUCE_EV, H_GlobalOP_event), (MPI_IALLREDUCE_EV, H_GlobalOP_event),
    (MPI_IBARRIER_EV, H_GlobalOP_event), (MPI_IBCAST_EV, H_GlobalOP_event), (MPI_IALLTOALL_EV, H_GlobalOP_event),
    (MPI_IALLTOALLV_EV, H_GlobalOP_event), (MPI_IALLGATHER_EV, H_GlobalOP_event),
    (MPI_IALLGATHERV_EV, H_GlobalOP_event), (MPI_IGATHER_EV, H_GlobalOP_event), (MPI_IGATHERV_EV, H_GlobalOP_event),
    (MPI_ISCATTER_EV, H_GlobalOP_event), (MPI_ISCATTERV_EV, H_GlobalOP_event),
    (MPI_IREDUCESCAT_EV, H_GlobalOP_event), (MPI_ISCAN_EV, H_GlobalOP_event),
    (MPI_REDUCE_SCATTER_BLOCK_EV, H_GlobalOP_event), (MPI_IREDUCE_SCATTER_BLOCK_EV, H_GlobalOP_event),
    (MPI_ALLTOALLW_EV, H_GlobalOP_event), (MPI_IALLTOALLW_EV, H_GlobalOP_event),
    (MPI_GET_ACCUMULATE_EV, H_MPI_RMA_Event), (MPI_WIN_LOCK_EV, H_MPI_RMA_Event),
    (MPI_WIN_UNLOCK_EV, H_MPI_RMA_Event), (MPI_TIME_OUTSIDE_TESTS_EV, H_MPI_ElapsedTimeOutsideTests_Event)]"

end
