(* ===== verification/Mpi_Events_Correct.thy ===== *)
theory Mpi_Events_Correct
  imports Mpi_Events
begin

text \<open>
  What the tables of MPI events promise each other: the classification and the handlers agree and no
  handler meets an event without a state, the translation keeps different events apart, and which
  operations have a label.
\<close>

section \<open>Facts on the tables, by evaluation\<close>

lemma handled_events: "set mpi_events = set (map fst PRV_MPI_Event_Handlers)"
  by code_simp

lemma handlers_distinct: "distinct (map fst PRV_MPI_Event_Handlers)"
  by code_simp

text \<open>The handlers that ask for the state of the event they are called with.\<close>

definition asks_state :: "mpi_handler \<Rightarrow> bool" where
  "asks_state h \<longleftrightarrow> h \<in> set [H_Any_Send_Event, H_GlobalOP_event, H_Other_MPI_Event, H_MPIIO_Event, H_MPI_RMA_Event]"

lemma handlers_have_states: "list_all (\<lambda>(e, h). asks_state h \<longrightarrow> \<not> isl (Get_State e)) PRV_MPI_Event_Handlers"
  by code_simp

lemma table_values:
  "list_all (\<lambda>(t, g, v). 0 < v \<and> v < 256) event_mpit2prv" "distinct (map (\<lambda>(t, g, v). v) event_mpit2prv)"
  by code_simp+

lemma table_groups: "list_all (\<lambda>(t, g, v). g \<in> set (map fst prv_block_groups)) event_mpit2prv"
  by code_simp

lemma group_codes_translated: "list_all (\<lambda>g. busca_event_mpit g \<noteq> None) (map fst prv_block_groups)"
  by code_simp

lemma labelled_iff: "get_mpi_prv_val_label v \<noteq> None \<longleftrightarrow> v \<in> set (map fst mpi_prv_val_label)"
  using find_index_None [of "\<lambda>(w, l). w = v" mpi_prv_val_label]
  by (force simp: get_mpi_prv_val_label_def)

lemma values_labelled:
  "set (map (\<lambda>(t, g, v). v) event_mpit2prv) - {MPI_IALLGATHERV_VAL} \<subseteq> set (map fst mpi_prv_val_label)"
  by code_simp

lemma iallgatherv:
  "get_mpi_prv_val_label MPI_IALLGATHERV_VAL = None"
  "busca_event_mpit MPI_IALLGATHERV_EV = Some 160"
  "event_mpit2prv ! 160 = (MPI_IALLGATHERV_EV, MPITYPE_COLLECTIVE, MPI_IALLGATHERV_VAL)"
  by code_simp+

lemma merge_event:
  "busca_event_mpit MPI_INTERCOMM_MERGE_EV = None" "IsMPI MPI_INTERCOMM_MERGE_EV"
  "busca_event_mpit MPI_INTERCOMM_CREATE_VAL = Some 43"
  by code_simp+

section \<open>Translation\<close>

lemma busca_Some:
  assumes "busca_event_mpit e = Some i"
  obtains g v where "i < length event_mpit2prv" "event_mpit2prv ! i = (e, g, v)"
  using assms that by (auto simp: busca_event_mpit_def find_index_Some split: prod.splits)

lemma entry:
  assumes "i < length event_mpit2prv" and "event_mpit2prv ! i = (e, g, v)"
  shows "0 < v" "v < 256" "g \<in> set (map fst prv_block_groups)" "v \<in> set (map (\<lambda>(t, g, v). v) event_mpit2prv)"
proof -
  have m: "(e, g, v) \<in> set event_mpit2prv" using assms nth_mem by metis
  show "0 < v" "v < 256" using table_values(1) m by (auto simp: list_all_iff)
  show "g \<in> set (map fst prv_block_groups)" using table_groups m by (auto simp: list_all_iff)
  show "v \<in> set (map (\<lambda>(t, g, v). v) event_mpit2prv)" using m by force
qed

lemma same_value:
  assumes "i < length event_mpit2prv" "event_mpit2prv ! i = (e, g, v)"
    and "j < length event_mpit2prv" "event_mpit2prv ! j = (e', g', v)"
  shows "i = j"
  using nth_eq_iff_index_eq [OF table_values(2), of i j] assms by simp

lemma translate_begin:
  assumes "x \<noteq> 0"
  shows "Translate_MPI_MPIT2PRV e x = (case busca_event_mpit e of
     Some i \<Rightarrow> (fst (snd (event_mpit2prv ! i)), word_of_int (snd (snd (event_mpit2prv ! i)))) | None \<Rightarrow> (e, x))"
  using assms by (auto simp: Translate_MPI_MPIT2PRV_def Let_def split: option.splits prod.splits)

section \<open>Labels\<close>

lemma enabled_length [simp]: "length (utilitzada (Enable_MPI_Operation op u)) = length (utilitzada u)"
  by (simp add: Enable_MPI_Operation_def split: option.splits)

lemma enabled_nth: "i < length (utilitzada u) \<Longrightarrow>
    utilitzada (Enable_MPI_Operation op u) ! i \<longleftrightarrow> utilitzada u ! i \<or> busca_event_mpit op = Some i"
proof (cases "busca_event_mpit op")
  case (Some j)
  then show "i < length (utilitzada u) \<Longrightarrow> ?thesis"
    by (cases "j = i") (auto simp: Enable_MPI_Operation_def)
qed (simp add: Enable_MPI_Operation_def)

lemma enabled_flags:
  "length (utilitzada (fold Enable_MPI_Operation ops u)) = length (utilitzada u)"
  "i < length (utilitzada u) \<Longrightarrow> utilitzada (fold Enable_MPI_Operation ops u) ! i \<longleftrightarrow>
     utilitzada u ! i \<or> (\<exists>op \<in> set ops. busca_event_mpit op = Some i)"
proof (induction ops arbitrary: u)
  case (Cons op ops)
  { case 1 show ?case by (simp add: Cons) }
  { case 2 then show ?case using Cons(2) [of "Enable_MPI_Operation op u"] by (auto simp: enabled_nth) }
qed simp_all

lemma rcollect_Inr_iff: "(\<exists>ys. rcollect f xs = Inr ys) \<longleftrightarrow> (\<forall>x \<in> set xs. \<exists>y. f x = Inr y)"
  by (induction xs) (auto simp: result_simps)

text \<open>Whether a group can be written, from the values of its used operations.\<close>

lemma write_group_Inr:
  "(\<exists>t. write_group u (g, l) = Inr t) \<longleftrightarrow> (\<forall>v \<in> set (used_of_group u g). get_mpi_prv_val_label v \<noteq> None)"
proof (cases "used_of_group u g = []")
  case False
  have "(\<exists>t. rmap f (rcollect h vs) = Inr t) \<longleftrightarrow> (\<exists>ys. rcollect h vs = Inr ys)"
    for f :: "string list \<Rightarrow> string" and h :: "int \<Rightarrow> string result" and vs
    by (cases "rcollect h vs") auto
  moreover have "(\<exists>y. rmap f (print_s s) = Inr y) \<longleftrightarrow> s \<noteq> None" for f :: "string \<Rightarrow> string" and s
    by (cases s) (simp_all add: print_s_def)
  ultimately show ?thesis using False by (simp add: write_group_def rcollect_Inr_iff)
qed (simp add: write_group_def)

lemma used_of_group_iff:
  assumes "length (utilitzada u) = length event_mpit2prv"
  shows "v \<in> set (used_of_group u g) \<longleftrightarrow>
    (\<exists>i < length event_mpit2prv. utilitzada u ! i \<and> snd (event_mpit2prv ! i) = (g, v))"
proof -
  have "v \<in> set (used_of_group u g) \<longleftrightarrow> (\<exists>t. ((t, g, v), True) \<in> set (zip event_mpit2prv (utilitzada u)))"
    by (force simp: used_of_group_def)
  also have "\<dots> \<longleftrightarrow> (\<exists>t. \<exists>i < length event_mpit2prv. event_mpit2prv ! i = (t, g, v) \<and> utilitzada u ! i)"
    using assms by (auto simp: in_set_zip)
  also have "\<dots> \<longleftrightarrow> (\<exists>i < length event_mpit2prv. utilitzada u ! i \<and> snd (event_mpit2prv ! i) = (g, v))"
    by (metis prod.collapse snd_conv)
  finally show ?thesis .
qed

section \<open>Properties\<close>

text \<open>
  The merger has exactly one handler for every event it classifies as an MPI event, and no handler
  is called with an event for which it would stop the merge because its state is unknown.
\<close>

theorem mpi_events_handled:
  "(IsMPI e \<longleftrightarrow> (\<exists>!h. (e, h) \<in> set PRV_MPI_Event_Handlers)) \<and>
   ((e, h) \<in> set PRV_MPI_Event_Handlers \<and> asks_state h \<longrightarrow> (\<exists>st. Get_State e = Inr st))"
proof -
  have "h1 = h2" if "(e, h1) \<in> set PRV_MPI_Event_Handlers" "(e, h2) \<in> set PRV_MPI_Event_Handlers" for h1 h2
    using handlers_distinct that by (rule eq_key_imp_eq_value)
  moreover have "IsMPI e \<longleftrightarrow> (\<exists>h. (e, h) \<in> set PRV_MPI_Event_Handlers)"
    using handled_events by (force simp: IsMPI_def)
  moreover have "\<exists>st. Get_State e = Inr st" if "(e, h) \<in> set PRV_MPI_Event_Handlers" "asks_state h"
    using handlers_have_states that by (cases "Get_State e") (auto simp: list_all_iff)
  ultimately show ?thesis by blast
qed

theorem mpi_events_handled_witness: "\<exists>st. Get_State MPI_ALLTOALLW_EV = Inr st"
proof -
  have "(MPI_ALLTOALLW_EV, H_GlobalOP_event) \<in> set PRV_MPI_Event_Handlers" by code_simp
  then show ?thesis using mpi_events_handled [of MPI_ALLTOALLW_EV H_GlobalOP_event] by (simp add: asks_state_def)
qed

text \<open>
  C34. The translation keeps the begins of different MPI events apart: whatever their values, two
  MPI events with the same translation are the same event. (The begin of \<open>MPI_Intercomm_merge\<close> is
  kept apart only because it is not translated at all.)
\<close>

theorem mpi_translation_injective:
  assumes "IsMPI e" and "IsMPI e'" and "x \<noteq> 0" and "y \<noteq> 0"
    and "Translate_MPI_MPIT2PRV e x = Translate_MPI_MPIT2PRV e' y"
  shows "e = e'"
proof -
  have group_not: "busca_event_mpit g \<noteq> None" if "g \<in> set (map fst prv_block_groups)" for g
    using group_codes_translated that by (auto simp: list_all_iff)
  show ?thesis
  proof (cases "busca_event_mpit e")
    case e: None
    show ?thesis
    proof (cases "busca_event_mpit e'")
      case (Some j)
      then obtain g v where j: "j < length event_mpit2prv" "event_mpit2prv ! j = (e', g, v)" by (rule busca_Some)
      have "e = g" using assms(3-5) e Some j by (simp add: translate_begin)
      then show ?thesis using e entry(3) [OF j] group_not by blast
    qed (use assms(3-5) e in \<open>simp add: translate_begin\<close>)
  next
    case (Some i)
    then obtain g v where i: "i < length event_mpit2prv" "event_mpit2prv ! i = (e, g, v)" by (rule busca_Some)
    show ?thesis
    proof (cases "busca_event_mpit e'")
      case None
      then have "g = e'" using assms(3-5) Some i by (simp add: translate_begin)
      then show ?thesis using None entry(3) [OF i] group_not by blast
    next
      case (Some j)
      then obtain g' v' where j: "j < length event_mpit2prv" "event_mpit2prv ! j = (e', g', v')" by (rule busca_Some)
      have "word_of_int v = (word_of_int v' :: 64 word)"
        using assms(3-5) Some \<open>busca_event_mpit e = Some i\<close> i j by (simp add: translate_begin)
      then have "v = v'" using entry(1,2) [OF i] entry(1,2) [OF j]
        by (simp add: word_of_int_eq_iff take_bit_int_eq_self)
      then show ?thesis using same_value [OF i] i j by fastforce
    qed
  qed
qed

theorem mpi_translation_injective_witness:
  "Translate_MPI_MPIT2PRV MPI_SEND_EV 1 \<noteq> Translate_MPI_MPIT2PRV MPI_ISEND_EV 1"
proof -
  have "IsMPI MPI_SEND_EV" "IsMPI MPI_ISEND_EV" by code_simp+
  then show ?thesis using mpi_translation_injective [of MPI_SEND_EV MPI_ISEND_EV 1 1] by auto
qed

text \<open>
  The labels of the operations that appear in the trace can be written unless \<open>MPI_Iallgatherv\<close> is
  among them: it has no label of its own in the table, and the null pointer is printed as a string.
\<close>

theorem labels_written_iff:
  "(\<exists>t. MPITEvent_WriteEnabled_MPI_Operations (fold Enable_MPI_Operation ops no_usage) = Inr t) \<longleftrightarrow>
     MPI_IALLGATHERV_EV \<notin> set ops"
proof -
  let ?u = "fold Enable_MPI_Operation ops no_usage"
  have len: "length (utilitzada ?u) = length event_mpit2prv" by (simp add: enabled_flags no_usage_def)
  have flag: "utilitzada ?u ! i \<longleftrightarrow> (\<exists>op \<in> set ops. busca_event_mpit op = Some i)" if "i < length event_mpit2prv" for i
    using enabled_flags(2) [of i no_usage ops] that by (simp add: no_usage_def)
  have "(\<exists>t. MPITEvent_WriteEnabled_MPI_Operations ?u = Inr t) \<longleftrightarrow>
      (\<forall>gl \<in> set prv_block_groups. \<exists>t. write_group ?u gl = Inr t)"
    using rcollect_Inr_iff [of "write_group ?u" prv_block_groups]
    by (cases "rcollect (write_group ?u) prv_block_groups") (auto simp: MPITEvent_WriteEnabled_MPI_Operations_def)
  also have "\<dots> \<longleftrightarrow> (\<forall>g \<in> set (map fst prv_block_groups). \<forall>v \<in> set (used_of_group ?u g). get_mpi_prv_val_label v \<noteq> None)"
    using write_group_Inr [of ?u] by force
  also have "\<dots> \<longleftrightarrow> (\<forall>i < length event_mpit2prv. utilitzada ?u ! i \<longrightarrow>
      get_mpi_prv_val_label (snd (snd (event_mpit2prv ! i))) \<noteq> None)"
    (is "?L \<longleftrightarrow> ?R")
  proof
    assume L: ?L
    show ?R
    proof (intro allI impI)
      fix i
      assume i: "i < length event_mpit2prv" "utilitzada ?u ! i"
      obtain e g v where e: "event_mpit2prv ! i = (e, g, v)" by (metis prod_cases3)
      then have "v \<in> set (used_of_group ?u g)" unfolding used_of_group_iff [OF len] using i by auto
      then show "get_mpi_prv_val_label (snd (snd (event_mpit2prv ! i))) \<noteq> None"
        unfolding e snd_conv using L entry(3) [OF i(1) e] by blast
    qed
  next
    assume R: ?R
    show ?L
    proof (intro ballI)
      fix g v
      assume "v \<in> set (used_of_group ?u g)"
      then obtain i where "i < length event_mpit2prv" "utilitzada ?u ! i" "snd (event_mpit2prv ! i) = (g, v)"
        unfolding used_of_group_iff [OF len] by blast
      then show "get_mpi_prv_val_label v \<noteq> None" using R by (metis snd_conv)
    qed
  qed
  also have "\<dots> \<longleftrightarrow> \<not> utilitzada ?u ! 160"
  proof -
    have l160: "160 < length event_mpit2prv" by (rule busca_Some [OF iallgatherv(2)])
    have "get_mpi_prv_val_label (snd (snd (event_mpit2prv ! i))) \<noteq> None \<longleftrightarrow> i \<noteq> 160"
      if i: "i < length event_mpit2prv" for i
    proof
      assume "i \<noteq> 160"
      obtain e g v where e: "event_mpit2prv ! i = (e, g, v)" by (metis prod_cases3)
      have "v \<noteq> MPI_IALLGATHERV_VAL" using same_value [OF i _ l160 iallgatherv(3)] e \<open>i \<noteq> 160\<close> by blast
      then show "get_mpi_prv_val_label (snd (snd (event_mpit2prv ! i))) \<noteq> None"
        using entry(4) [OF i e] values_labelled unfolding labelled_iff e by auto
    qed (use iallgatherv in auto)
    then show ?thesis using l160 by blast
  qed
  also have "\<dots> \<longleftrightarrow> MPI_IALLGATHERV_EV \<notin> set ops"
  proof -
    have l160: "160 < length event_mpit2prv" by (rule busca_Some [OF iallgatherv(2)])
    have "op = MPI_IALLGATHERV_EV" if "busca_event_mpit op = Some 160" for op
      using that iallgatherv(3) by (auto elim: busca_Some)
    then have "(\<exists>op \<in> set ops. busca_event_mpit op = Some 160) \<longleftrightarrow> MPI_IALLGATHERV_EV \<in> set ops"
      using iallgatherv(2) by blast
    then show ?thesis using flag [OF l160] by blast
  qed
  finally show ?thesis .
qed

end
