(* ===== verification/Prv_Records.thy ===== *)
theory Prv_Records
  imports State_Stack_Correct Write_File_Buffer_Correct Comm_Queues Mpi_Events
begin

text \<open>
  The records of the merger (\<open>paraver_rec_t\<close> of \<open>merger/paraver/file_set.h\<close>) and the functions of
  \<open>merger/paraver/paraver_generator.c\<close> that append them to the file of a thread, with the part of
  \<open>merger/paraver/paraver_state.c\<close> that opens and closes the states. A record is written as
  its 80 bytes on a little-endian machine with 64-bit words. Fields that the code leaves unset in a
  local record are taken from an argument \<open>junk\<close>. The functions are given on one thread.
\<close>

section \<open>Records and their bytes\<close>

record paraver_rec =
  p_receive_log :: "64 word"
  p_receive_phy :: "64 word"
  p_value :: "64 word"
  p_time :: "64 word"
  p_end_time :: "64 word"
  p_type :: "32 word"
  p_event :: "32 word"
  p_cpu :: "32 word"
  p_ptask :: "32 word"
  p_task :: "32 word"
  p_thread :: "32 word"
  p_cpu_r :: "32 word"
  p_ptask_r :: "32 word"
  p_task_r :: "32 word"
  p_thread_r :: "32 word"

definition UNFINISHED_STATE :: "32 word" where "UNFINISHED_STATE = -1"
definition STATE :: "32 word" where "STATE = 1"
definition EVENT :: "32 word" where "EVENT = 2"
definition UNMATCHED_COMMUNICATION :: "32 word" where "UNMATCHED_COMMUNICATION = -3"
definition COMMUNICATION :: "32 word" where "COMMUNICATION = 3"
definition PENDING_COMMUNICATION :: "32 word" where "PENDING_COMMUNICATION = -4"

lemmas record_types = UNFINISHED_STATE_def STATE_def EVENT_def UNMATCHED_COMMUNICATION_def COMMUNICATION_def
  PENDING_COMMUNICATION_def

definition bytes8 :: "64 word \<Rightarrow> byte list" where
  "bytes8 v = map (\<lambda>i. ucast (drop_bit (8 * i) v)) [0..<8]"

definition bytes4 :: "32 word \<Rightarrow> byte list" where
  "bytes4 v = map (\<lambda>i. ucast (drop_bit (8 * i) v)) [0..<4]"

definition rec_bytes :: "paraver_rec \<Rightarrow> byte list" where
  "rec_bytes r =
     concat (map bytes8 [p_receive_log r, p_receive_phy r, p_value r, p_time r, p_end_time r]) @
     concat (map bytes4 [p_type r, p_event r, p_cpu r, p_ptask r, p_task r, p_thread r,
       p_cpu_r r, p_ptask_r r, p_task_r r, p_thread_r r])"

text \<open>\<open>sizeof (paraver_rec_t)\<close>\<close>

definition REC_SIZE :: nat where "REC_SIZE = 80"

text \<open>Reading the words back.\<close>

fun join_bytes :: "byte list \<Rightarrow> 'a::len word" where
  "join_bytes [] = 0"
| "join_bytes (b # bs) = ucast b OR push_bit 8 (join_bytes bs)"

definition word8_at :: "nat \<Rightarrow> byte list \<Rightarrow> 64 word" where
  "word8_at off bs = join_bytes (take 8 (drop off bs))"

definition word4_at :: "nat \<Rightarrow> byte list \<Rightarrow> 32 word" where
  "word4_at off bs = join_bytes (take 4 (drop off bs))"

definition rec_of :: "byte list \<Rightarrow> paraver_rec" where
  "rec_of bs = \<lparr>p_receive_log = word8_at 0 bs, p_receive_phy = word8_at 8 bs, p_value = word8_at 16 bs,
     p_time = word8_at 24 bs, p_end_time = word8_at 32 bs, p_type = word4_at 40 bs, p_event = word4_at 44 bs,
     p_cpu = word4_at 48 bs, p_ptask = word4_at 52 bs, p_task = word4_at 56 bs, p_thread = word4_at 60 bs,
     p_cpu_r = word4_at 64 bs, p_ptask_r = word4_at 68 bs, p_task_r = word4_at 72 bs, p_thread_r = word4_at 76 bs\<rparr>"

lemma bytes_length [simp]: "length (bytes8 v) = 8" "length (bytes4 w) = 4"
  by (simp_all add: bytes8_def bytes4_def)

lemma rec_bytes_length [simp]: "length (rec_bytes r) = REC_SIZE"
  by (simp add: rec_bytes_def REC_SIZE_def)

lemma join_split: "join_bytes (map (\<lambda>i. ucast (drop_bit (8 * i) v)) [0..<k]) = take_bit (8 * k) (v :: 'a::len word)"
proof (induction k arbitrary: v)
  case (Suc k)
  have "map (\<lambda>i. ucast (drop_bit (8 * i) v) :: byte) [0..<Suc k] =
      ucast v # map (\<lambda>i. ucast (drop_bit (8 * i) (drop_bit 8 v))) [0..<k]"
    by (simp add: upt_conv_Cons map_Suc_upt [symmetric] add.commute del: upt_Suc)
  then have "join_bytes (map (\<lambda>i. ucast (drop_bit (8 * i) v)) [0..<Suc k]) =
      ucast (ucast v :: byte) OR push_bit 8 (take_bit (8 * k) (drop_bit 8 v))"
    using Suc.IH [of "drop_bit 8 v"] by (simp add: add.commute del: upt_Suc)
  also have "\<dots> = take_bit (8 * Suc k) v"
    by (rule bit_word_eqI) (auto simp: bit_simps)
  finally show ?case .
qed simp

lemma join_bytes_words [simp]: "join_bytes (bytes8 v) = v" "join_bytes (bytes4 w) = w"
  using join_split [of v 8] join_split [of w 4]
  by (simp_all add: bytes8_def bytes4_def take_bit_word_eq_self)

lemma rec_of_bytes [simp]: "rec_of (rec_bytes r) = r"
  by (cases r) (simp add: rec_of_def rec_bytes_def word8_at_def word4_at_def)

lemma rec_bytes_inject [simp]: "rec_bytes r = rec_bytes s \<longleftrightarrow> r = s"
  by (metis rec_of_bytes)

section \<open>The thread\<close>

text \<open>
  The fields of \<open>thread_t\<close>, without those of the hardware counters and of the Dimemas format;
  \<open>t_wfb\<close> is \<open>file->wfb\<close>, the buffer of the file of the thread.
\<close>

record thread_t =
  t_cpu :: "32 word"
  First_Event :: bool
  t_states :: state_stack
  Previous_Event_Time :: "64 word"
  incomplete_state_record :: paraver_rec
  incomplete_state_offset :: int
  Send_Rec :: event_ptr
  Recv_Rec :: event_ptr
  t_wfb :: wfb
  virtual_thread :: "32 word"
  active_task_thread :: "32 word"
  AddressSpace_size :: "64 word"
  AddressSpace_timeCreation :: "64 word"
  AddressSpace_calleraddresses :: "64 word list"
  AddressSpace_callertype :: "32 word"

definition trace_paraver_record :: "paraver_rec \<Rightarrow> thread_t \<Rightarrow> thread_t result" where
  "trace_paraver_record r t = rmap (\<lambda>w. t\<lparr>t_wfb := w\<rparr>) (WriteFileBuffer_write (rec_bytes r) (t_wfb t))"

definition trace_paraver_recordAt :: "paraver_rec \<Rightarrow> int \<Rightarrow> thread_t \<Rightarrow> thread_t result" where
  "trace_paraver_recordAt r pos t =
     rmap (\<lambda>w. t\<lparr>t_wfb := w\<rparr>) (WriteFileBuffer_writeAt (rec_bytes r) pos (t_wfb t))"

section \<open>States\<close>

text \<open>
  Completing the previous state: \<open>None\<close> is the early return for a state that goes on. \<open>joint\<close> is the
  option to join states, \<open>last\<close> is \<open>Last_State\<close>.
\<close>

definition complete_state :: "bool \<Rightarrow> bool \<Rightarrow> state_id \<Rightarrow> 64 word \<Rightarrow> thread_t \<Rightarrow> thread_t option result" where
  "complete_state joint lst cur now t =
     (if incomplete_state_offset t \<noteq> -1 then
        if joint \<and> \<not> lst \<and> p_value (incomplete_state_record t) = ucast cur then Inr None
        else if \<not> State_Excluded (ucast (p_value (incomplete_state_record t))) then
          let t1 = t\<lparr>incomplete_state_record := incomplete_state_record t\<lparr>p_end_time := now\<rparr>\<rparr> in
          rmap Some (trace_paraver_recordAt (incomplete_state_record t1) (incomplete_state_offset t1) t1)
        else Inr (Some t)
      else Inr (Some t))"

definition trace_paraver_state_noahead :: "bool \<Rightarrow> bool \<Rightarrow> 64 word \<Rightarrow> thread_t \<Rightarrow> thread_t result" where
  "trace_paraver_state_noahead joint lst now t =
     rbind (Top_State (t_states t)) (\<lambda>cur.
       rmap (\<lambda>r. case r of None \<Rightarrow> t | Some t1 \<Rightarrow> t1) (complete_state joint lst cur now t))"

definition start_state ::
  "paraver_rec \<Rightarrow> 32 word \<Rightarrow> 32 word \<Rightarrow> 32 word \<Rightarrow> 32 word \<Rightarrow> 64 word \<Rightarrow> state_id \<Rightarrow> thread_t \<Rightarrow> thread_t result" where
  "start_state junk cpu ptask task thread now cur t =
     (let t1 = t\<lparr>incomplete_state_record := incomplete_state_record t\<lparr>p_type := STATE, p_cpu := cpu,
            p_ptask := ptask, p_task := task, p_thread := virtual_thread t, p_time := now, p_value := ucast cur\<rparr>\<rparr> in
      if \<not> State_Excluded cur then
        trace_paraver_record
          (junk\<lparr>p_type := UNFINISHED_STATE, p_ptask := ptask, p_task := task, p_thread := thread, p_time := now\<rparr>)
          (t1\<lparr>incomplete_state_offset := int (WriteFileBuffer_getPosition (t_wfb t1))\<rparr>)
      else Inr t1)"

definition trace_paraver_state ::
  "bool \<Rightarrow> bool \<Rightarrow> paraver_rec \<Rightarrow> 32 word \<Rightarrow> 32 word \<Rightarrow> 32 word \<Rightarrow> 32 word \<Rightarrow> 64 word \<Rightarrow> thread_t \<Rightarrow> thread_t result" where
  "trace_paraver_state joint lst junk cpu ptask task thread now t =
     rbind (Top_State (t_states t)) (\<lambda>cur.
     rbind (complete_state joint lst cur now t) (\<lambda>r. case r of
         None \<Rightarrow> Inr t
       | Some t1 \<Rightarrow> start_state junk cpu ptask task thread now cur t1))"

text \<open>\<open>Initialize_States\<close> and \<open>Finalize_States\<close> for the thread of one file.\<close>

definition initialize_thread ::
  "bool \<Rightarrow> bool \<Rightarrow> paraver_rec \<Rightarrow> 32 word \<Rightarrow> 32 word \<Rightarrow> 32 word \<Rightarrow> 32 word \<Rightarrow> thread_t \<Rightarrow> thread_t result" where
  "initialize_thread joint skip_events junk cpu ptask task thread t =
     rbind (initial_states skip_events (t_states t)) (\<lambda>s.
       trace_paraver_state joint False junk cpu ptask task thread 0 (t\<lparr>incomplete_state_offset := -1, t_states := s\<rparr>))"

definition finalize_thread :: "bool \<Rightarrow> 64 word \<Rightarrow> thread_t \<Rightarrow> thread_t result" where
  "finalize_thread joint now t = trace_paraver_state_noahead joint True now t"

definition switch_thread :: "state_id \<Rightarrow> bool \<Rightarrow> thread_t \<Rightarrow> thread_t result" where
  "switch_thread st cond t = rmap (\<lambda>(_, s). t\<lparr>t_states := s\<rparr>) (Switch_State st cond (t_states t))"

section \<open>Events and communications\<close>

text \<open>The type is translated for the MPI range; \<open>enabled\<close> is the entry of \<open>EnabledTasks\<close> of the task.\<close>

definition event_record :: "paraver_rec \<Rightarrow> 32 word \<Rightarrow> 32 word \<Rightarrow> 32 word \<Rightarrow> 32 word \<Rightarrow> 64 word \<Rightarrow> 32 word \<Rightarrow> 64 word \<Rightarrow> paraver_rec" where
  "event_record junk cpu ptask task vthread time type v =
     (let (tipus, valor) = (if MPI_INIT_EV \<le> uint type \<and> uint type \<le> MPI_MAX_EV
            then Translate_MPI_MPIT2PRV (sint type) v else (sint type, v)) in
      junk\<lparr>p_type := EVENT, p_cpu := cpu, p_ptask := ptask, p_task := task, p_thread := vthread,
        p_time := time, p_event := word_of_int tipus, p_value := valor\<rparr>)"

definition trace_paraver_event ::
  "bool \<Rightarrow> paraver_rec \<Rightarrow> 32 word \<Rightarrow> 32 word \<Rightarrow> 32 word \<Rightarrow> 64 word \<Rightarrow> 32 word \<Rightarrow> 64 word \<Rightarrow> thread_t \<Rightarrow> thread_t result" where
  "trace_paraver_event enabled junk cpu ptask task time type v t =
     (if \<not> enabled then Inr t
      else trace_paraver_record (event_record junk cpu ptask task (virtual_thread t) time type v) t)"

definition trace_paraver_unmatched_communication ::
  "bool \<Rightarrow> paraver_rec \<Rightarrow> 32 word \<Rightarrow> 32 word \<Rightarrow> 32 word \<Rightarrow> 32 word \<Rightarrow> 64 word \<Rightarrow> 64 word \<Rightarrow>
   32 word \<Rightarrow> 32 word \<Rightarrow> 32 word \<Rightarrow> 32 word \<Rightarrow> 32 word \<Rightarrow> 32 word \<Rightarrow> thread_t \<Rightarrow> thread_t result" where
  "trace_paraver_unmatched_communication enabled junk cpu_s ptask_s task_s vthread_s log_s phy_s
       cpu_r ptask_r task_r thread_r sz tag t =
     (if \<not> enabled then Inr t
      else trace_paraver_record (junk\<lparr>p_type := UNMATCHED_COMMUNICATION, p_cpu := cpu_s, p_ptask := ptask_s,
        p_task := task_s, p_thread := vthread_s, p_time := log_s, p_end_time := phy_s, p_event := sz,
        p_value := ucast tag, p_cpu_r := cpu_r, p_ptask_r := ptask_r, p_task_r := task_r, p_thread_r := thread_r\<rparr>) t)"

definition comm_record ::
  "32 word \<Rightarrow> 32 word \<Rightarrow> 32 word \<Rightarrow> 32 word \<Rightarrow> 64 word \<Rightarrow> 64 word \<Rightarrow>
   32 word \<Rightarrow> 32 word \<Rightarrow> 32 word \<Rightarrow> 32 word \<Rightarrow> 64 word \<Rightarrow> 64 word \<Rightarrow> 32 word \<Rightarrow> 32 word \<Rightarrow> paraver_rec" where
  "comm_record cpu_s ptask_s task_s vthread_s log_s phy_s cpu_r ptask_r task_r vthread_r log_r phy_r sz tag =
     \<lparr>p_receive_log = log_r, p_receive_phy = phy_r, p_value = ucast tag, p_time = log_s, p_end_time = phy_s,
      p_type = COMMUNICATION, p_event = sz, p_cpu = cpu_s, p_ptask = ptask_s, p_task = task_s, p_thread = vthread_s,
      p_cpu_r = cpu_r, p_ptask_r = ptask_r, p_task_r = task_r, p_thread_r = vthread_r\<rparr>"

text \<open>On the thread of the sender; the position is given for a send that was written as unmatched.\<close>

definition trace_paraver_communication ::
  "bool \<Rightarrow> bool \<Rightarrow> paraver_rec \<Rightarrow> int option \<Rightarrow> thread_t \<Rightarrow> thread_t result" where
  "trace_paraver_communication enabled_s enabled_r r pos t =
     (if \<not> (enabled_s \<or> enabled_r) then Inr t
      else case pos of None \<Rightarrow> trace_paraver_record r t | Some p \<Rightarrow> trace_paraver_recordAt r p t)"

end
