(* ===== verification/Prv_Timeline.thy ===== *)
theory Prv_Timeline
  imports Prv_Records
begin

text \<open>
  The trace of a thread: whatever states its events push and pop, and whatever records are written in
  between, the file holds the states as consecutive intervals, each at the place where it
  started, and the other records in order. The specification is the function \<open>timeline\<close>; it rests on the
  stack of states (\<open>State_Stack_Correct\<close>) and on the buffered file through the locale \<open>element_file\<close>.
\<close>

section \<open>The file of a thread as a list of records\<close>

definition holds_recs :: "wfb \<Rightarrow> paraver_rec list \<Rightarrow> bool" where
  "holds_recs w rs \<longleftrightarrow> holds w (map rec_bytes rs) \<and> sizeElement w = REC_SIZE"

lemma holds_recs_room: "sizeElement w1 = sizeElement w \<Longrightarrow> \<forall>n. disk_room w1 n = disk_room w n \<Longrightarrow> disk_room w1 = disk_room w"
  by auto

interpretation prv: element_file holds_recs disk_room "\<lambda>_ _. True" "\<lambda>_. REC_SIZE"
  WriteFileBuffer_getPosition "\<lambda>r. WriteFileBuffer_write (rec_bytes r)" "\<lambda>r. WriteFileBuffer_writeAt (rec_bytes r)"
proof unfold_locales
  fix w es
  assume "holds_recs w es"
  then show "WriteFileBuffer_getPosition w = length es * REC_SIZE"
    using getPosition_law [of w "map rec_bytes es"] by (simp add: holds_recs_def)
next
  fix w es e
  assume "holds_recs w es" "disk_room w (length es + 1)"
  then show "\<exists>w1. WriteFileBuffer_write (rec_bytes e) w = Inr w1 \<and> holds_recs w1 (es @ [e]) \<and>
      disk_room w1 = disk_room w \<and> (\<lambda>_. True) = (\<lambda>_. True) \<and> REC_SIZE = REC_SIZE"
    using write_law [of w "map rec_bytes es" "rec_bytes e"] by (fastforce simp: holds_recs_def)
next
  fix w es e k
  assume "holds_recs w es" "k < length es" "disk_room w (length es)"
  then show "\<exists>w1. WriteFileBuffer_writeAt (rec_bytes e) (int (k * REC_SIZE)) w = Inr w1 \<and> holds_recs w1 (es[k := e]) \<and>
      disk_room w1 = disk_room w \<and> (\<lambda>_. True) = (\<lambda>_. True) \<and> REC_SIZE = REC_SIZE"
    using writeAt_law [of w "map rec_bytes es" "rec_bytes e" k] room_on_disk [of w "map rec_bytes es"] by (fastforce simp: holds_recs_def map_update)
qed

lemma record_law:
  assumes "holds_recs (t_wfb t) rs" and "disk_room (t_wfb t) n" and "length rs < n"
  shows "\<exists>w. trace_paraver_record r t = Inr (t\<lparr>t_wfb := w\<rparr>) \<and> holds_recs w (rs @ [r]) \<and> disk_room w n"
  using prv.append_elem [OF assms(1), of r] disk_room_mono [OF _ assms(2), of "length rs + 1"] assms(2,3)
  by (fastforce simp: trace_paraver_record_def)

lemma recordAt_law:
  assumes "holds_recs (t_wfb t) (pre @ x # post)" and "disk_room (t_wfb t) n" and "length pre + 1 + length post \<le> n"
  shows "\<exists>w. trace_paraver_recordAt r (int (length pre * REC_SIZE)) t = Inr (t\<lparr>t_wfb := w\<rparr>) \<and>
    holds_recs w (pre @ r # post) \<and> disk_room w n"
  using prv.put_at [OF assms(1), where e = r and k = "length pre"] disk_room_mono [OF _ assms(2), of "length (pre @ x # post)"] assms(2,3)
  by (fastforce simp: trace_paraver_recordAt_def)

section \<open>The specification\<close>

text \<open>What stays the same for a thread: the options, its identity, and the contents of unset fields.\<close>

record thread_run =
  joint :: bool
  task_enabled :: bool
  unset :: paraver_rec
  unset_state :: paraver_rec
  id_ptask :: "32 word"
  id_task :: "32 word"
  id_thread :: "32 word"
  id_vthread :: "32 word"

datatype step =
    Switch state_id bool
  | Wipe trace_mode
  | Show "32 word" "64 word"
  | Note "32 word" "64 word" "32 word" "64 word"

text \<open>What the handlers do: change the stack of states, show the state on top, or write an event.\<close>

fun do_step :: "thread_run \<Rightarrow> step \<Rightarrow> thread_t \<Rightarrow> thread_t result" where
  "do_step R (Switch st cond) t = switch_thread st cond t"
| "do_step R (Wipe mode) t = rmap (\<lambda>s. t\<lparr>t_states := s\<rparr>) (Initialize_Trace_Mode_States (id_thread R) mode (t_states t))"
| "do_step R (Show cpu now) t =
     trace_paraver_state (joint R) False (unset R) cpu (id_ptask R) (id_task R) (id_thread R) now t"
| "do_step R (Note cpu now type v) t =
     trace_paraver_event (task_enabled R) (unset R) cpu (id_ptask R) (id_task R) now type v t"

text \<open>The same as a list of observations: the state shown at a time, or a record.\<close>

datatype action = Mark "32 word" state_id "64 word" | Put paraver_rec

definition switched :: "state_id \<Rightarrow> bool \<Rightarrow> state_id list \<Rightarrow> state_id list" where
  "switched st cond ss = (if cond then without_not_tracing ss @ [st] else popped st (without_not_tracing ss))"

definition mode_states :: "thread_run \<Rightarrow> trace_mode \<Rightarrow> state_id list" where
  "mode_states R mode = [case mode of TRACE_MODE_BURSTS \<Rightarrow> STATE_IDLE | TRACE_MODE_PHASE_PROFILE \<Rightarrow> STATE_PROFILING
     | TRACE_MODE_DISABLED \<Rightarrow> STATE_NOT_TRACING
     | TRACE_MODE_DETAIL \<Rightarrow> if 1 < id_thread R then STATE_IDLE else STATE_RUNNING]"

fun observe :: "thread_run \<Rightarrow> state_id list \<Rightarrow> step list \<Rightarrow> action list" where
  "observe R ss [] = []"
| "observe R ss (Switch st cond # steps) = observe R (switched st cond ss) steps"
| "observe R ss (Wipe mode # steps) = observe R (mode_states R mode) steps"
| "observe R ss (Show cpu now # steps) = Mark cpu (top_of ss) now # observe R ss steps"
| "observe R ss (Note cpu now type v # steps) =
     (if task_enabled R then [Put (event_record (unset R) cpu (id_ptask R) (id_task R) (id_vthread R) now type v)] else []) @
     observe R ss steps"

text \<open>The end of a state: the next time a state is shown, if joined a different one.\<close>

fun ends_at :: "bool \<Rightarrow> state_id \<Rightarrow> 64 word \<Rightarrow> action list \<Rightarrow> 64 word" where
  "ends_at j st fin [] = fin"
| "ends_at j st fin (Put r # acts) = ends_at j st fin acts"
| "ends_at j st fin (Mark cpu st1 now # acts) = (if j \<and> st1 = st then ends_at j st fin acts else now)"

definition state_record :: "thread_run \<Rightarrow> 32 word \<Rightarrow> state_id \<Rightarrow> 64 word \<Rightarrow> 64 word \<Rightarrow> paraver_rec" where
  "state_record R cpu st t0 t1 = (unset_state R)\<lparr>p_type := STATE, p_cpu := cpu, p_ptask := id_ptask R,
     p_task := id_task R, p_thread := id_vthread R, p_time := t0, p_end_time := t1, p_value := ucast st\<rparr>"

text \<open>The idle state is not written.\<close>

definition interval :: "thread_run \<Rightarrow> 32 word \<Rightarrow> state_id \<Rightarrow> 64 word \<Rightarrow> 64 word \<Rightarrow> paraver_rec list" where
  "interval R cpu st t0 t1 = (if st = STATE_IDLE then [] else [state_record R cpu st t0 t1])"

fun timeline :: "thread_run \<Rightarrow> 64 word \<Rightarrow> state_id \<Rightarrow> action list \<Rightarrow> paraver_rec list" where
  "timeline R fin st [] = []"
| "timeline R fin st (Put r # acts) = r # timeline R fin st acts"
| "timeline R fin st (Mark cpu st1 now # acts) =
     (if joint R \<and> st1 = st then timeline R fin st acts
      else interval R cpu st1 now (ends_at (joint R) st1 fin acts) @ timeline R fin st1 acts)"

section \<open>The invariant\<close>

text \<open>The records before the slot of the open state, and the ones after it.\<close>

definition open_at :: "thread_run \<Rightarrow> 32 word \<Rightarrow> state_id \<Rightarrow> 64 word \<Rightarrow> paraver_rec list \<Rightarrow> paraver_rec list \<Rightarrow> thread_t \<Rightarrow> bool" where
  "open_at R cpu st t0 pre post t \<longleftrightarrow>
     (\<exists>e. incomplete_state_record t = state_record R cpu st t0 e) \<and> incomplete_state_offset t \<noteq> -1 \<and>
     virtual_thread t = id_vthread R \<and> stack_ok (t_states t) \<and>
     (if st = STATE_IDLE then holds_recs (t_wfb t) (pre @ post)
      else \<exists>x. holds_recs (t_wfb t) (pre @ x # post) \<and> incomplete_state_offset t = int (length pre * REC_SIZE))"

lemma excluded_iff [simp]: "State_Excluded st \<longleftrightarrow> st = STATE_IDLE"
  by (simp add: State_Excluded_def excluded_states_def)

lemma ucast_back [simp]: "(ucast (ucast st :: 64 word) :: 32 word) = st"
  by (rule bit_word_eqI) (simp add: bit_simps)

lemma ucast_inject [simp]: "(ucast st :: 64 word) = ucast (st1 :: 32 word) \<longleftrightarrow> st = st1"
  by (metis ucast_back)

lemma state_record_value [simp]: "p_value (state_record R cpu st t0 t1) = ucast st"
  by (simp add: state_record_def)

lemma slot_position [simp]: "int (length (rs :: paraver_rec list) * REC_SIZE) \<noteq> -1"
  by linarith

lemma complete_law:
  assumes "open_at R cpu st t0 pre post t" and "disk_room (t_wfb t) n" and "length pre + 1 + length post \<le> n"
    and "\<not> (joint R \<and> \<not> lst \<and> cur = st)"
  shows "\<exists>w e. complete_state (joint R) lst cur now t =
      Inr (Some (t\<lparr>t_wfb := w, incomplete_state_record := state_record R cpu st t0 e\<rparr>)) \<and>
    holds_recs w (pre @ interval R cpu st t0 now @ post) \<and> disk_room w n"
proof (cases "st = STATE_IDLE")
  case True
  from assms(1) True obtain e where t: "incomplete_state_record t = state_record R cpu st t0 e"
    "incomplete_state_offset t \<noteq> -1" "holds_recs (t_wfb t) (pre @ post)" by (auto simp: open_at_def)
  have "t = t\<lparr>t_wfb := t_wfb t, incomplete_state_record := state_record R cpu st t0 e\<rparr>" by (simp flip: t(1))
  moreover have "complete_state (joint R) lst cur now t = Inr (Some t)"
    using True assms(4) t(2) unfolding complete_state_def t(1) by auto
  ultimately show ?thesis using t(3) assms(2) True by (metis append_self_conv2 interval_def)
next
  case False
  from assms(1) False obtain e x where t: "incomplete_state_record t = state_record R cpu st t0 e"
    "incomplete_state_offset t \<noteq> -1" "incomplete_state_offset t = int (length pre * REC_SIZE)"
    "holds_recs (t_wfb t) (pre @ x # post)" by (auto simp: open_at_def)
  let ?r = "state_record R cpu st t0 now" 
  let ?t = "t\<lparr>incomplete_state_record := ?r\<rparr>"
  have r: "(incomplete_state_record t)\<lparr>p_end_time := now\<rparr> = ?r" by (simp add: t(1) state_record_def)
  have v: "p_value (incomplete_state_record t) = ucast st" by (simp add: t(1) state_record_def)
  from recordAt_law [of ?t pre x post n ?r] t(4) assms(2,3) obtain w where
    w: "trace_paraver_recordAt ?r (int (length pre * REC_SIZE)) ?t = Inr (?t\<lparr>t_wfb := w\<rparr>)"
    "holds_recs w (pre @ ?r # post)" "disk_room w n" by auto
  have "complete_state (joint R) lst cur now t = Inr (Some (?t\<lparr>t_wfb := w\<rparr>))"
    using False assms(4) t(2) w(1) unfolding complete_state_def v ucast_inject ucast_back excluded_iff r Let_def
    by (auto simp: t(3))
  with w(2,3) False show ?thesis
    by (intro exI [of _ w] exI [of _ now]) (simp add: interval_def)
qed

lemma start_law:
  assumes base: "incomplete_state_record t = state_record R cpu1 st1 t1 e \<or> incomplete_state_record t = unset_state R"
    and "st \<noteq> STATE_IDLE \<or> incomplete_state_offset t \<noteq> -1"
    and "virtual_thread t = id_vthread R" and "stack_ok (t_states t)"
    and "holds_recs (t_wfb t) rs" and "disk_room (t_wfb t) n" and "length rs < n"
  shows "\<exists>t2. start_state (unset R) cpu (id_ptask R) (id_task R) (id_thread R) now st t = Inr t2 \<and>
    open_at R cpu st now rs [] t2 \<and> disk_room (t_wfb t2) n \<and> t_states t2 = t_states t"
proof -
  let ?r = "state_record R cpu st now (p_end_time (incomplete_state_record t))"
  have r: "(incomplete_state_record t)\<lparr>p_type := STATE, p_cpu := cpu, p_ptask := id_ptask R, p_task := id_task R,
      p_thread := virtual_thread t, p_time := now, p_value := ucast st\<rparr> = ?r"
    using base assms(3) by (cases "unset_state R") (auto simp: state_record_def)
  show ?thesis
  proof (cases "st = STATE_IDLE")
    case True
    then show ?thesis using assms unfolding start_state_def r excluded_iff by (auto simp: open_at_def)
  next
    case False
    have pos: "WriteFileBuffer_getPosition (t_wfb t) = length rs * REC_SIZE" by (rule prv.next_at [OF assms(5)])
    let ?x = "(unset R)\<lparr>p_type := UNFINISHED_STATE, p_ptask := id_ptask R, p_task := id_task R,
      p_thread := id_thread R, p_time := now\<rparr>"
    let ?t = "t\<lparr>incomplete_state_record := ?r, incomplete_state_offset := int (length rs * REC_SIZE)\<rparr>"
    from record_law [of ?t rs n ?x] assms(5-7) obtain w where
      w: "trace_paraver_record ?x ?t = Inr (?t\<lparr>t_wfb := w\<rparr>)" "holds_recs w (rs @ [?x])" "disk_room w n" by auto
    have "start_state (unset R) cpu (id_ptask R) (id_task R) (id_thread R) now st t = Inr (?t\<lparr>t_wfb := w\<rparr>)"
      using False w(1) unfolding start_state_def r excluded_iff Let_def by (simp add: pos)
    then show ?thesis using False w(2,3) assms(3,4) slot_position [of rs]
      by (auto simp: open_at_def simp del: of_nat_mult)
  qed
qed

lemma switch_law:
  assumes "stack_ok (t_states t)"
  shows "\<exists>s. switch_thread st cond t = Inr (t\<lparr>t_states := s\<rparr>) \<and> stack_ok s \<and>
    states s = switched st cond (states (t_states t))"
  using Push_State_law [OF assms, of st] Pop_State_law [OF assms, of st]
  by (auto simp: switch_thread_def Switch_State_def switched_def)

lemma open_at_states: "open_at R cpu st t0 pre post t \<Longrightarrow> stack_ok s \<Longrightarrow> open_at R cpu st t0 pre post (t\<lparr>t_states := s\<rparr>)"
  by (auto simp: open_at_def)

text \<open>Changing the stack shows nothing yet.\<close>

fun stack_after :: "thread_run \<Rightarrow> step \<Rightarrow> state_id list \<Rightarrow> state_id list" where
  "stack_after R (Switch st cond) ss = switched st cond ss"
| "stack_after R (Wipe mode) ss = mode_states R mode"
| "stack_after R s ss = ss"

lemma stack_law:
  assumes "stack_ok (t_states t)" and "step = Switch st cond \<or> step = Wipe mode"
  shows "\<exists>s. do_step R step t = Inr (t\<lparr>t_states := s\<rparr>) \<and> stack_ok s \<and> states s = stack_after R step (states (t_states t))"
proof -
  have z: "stack_ok ((t_states t)\<lparr>nStates := 0\<rparr>)" "states ((t_states t)\<lparr>nStates := 0\<rparr>) = []"
    using assms(1) by (auto simp: stack_ok_def states_def)
  have "\<exists>s. Initialize_Trace_Mode_States (id_thread R) mode (t_states t) = Inr s \<and> stack_ok s \<and> states s = mode_states R mode"
    using Push_State_law [OF z(1), of "hd (mode_states R mode)"] z(2)
    by (cases mode) (auto simp: Initialize_Trace_Mode_States_def mode_states_def without_not_tracing_def top_of_def state_ids)
  then show ?thesis using assms(2) switch_law [OF assms(1), of st cond] by auto
qed

text \<open>Showing the state either goes on with the same state, or closes it and opens the next one at the end.\<close>

lemma show_law:
  assumes t: "open_at R cpu st t0 pre post t" "disk_room (t_wfb t) n" "length pre + 1 + length post < n"
    and ss: "ss = states (t_states t)"
  shows "\<exists>t1. do_step R (Show newcpu now) t = Inr t1 \<and> disk_room (t_wfb t1) n \<and> states (t_states t1) = ss \<and>
    (if joint R \<and> top_of ss = st then open_at R cpu st t0 pre post t1
     else open_at R newcpu (top_of ss) now (pre @ interval R cpu st t0 now @ post) [] t1)"
proof -
  have s: "stack_ok (t_states t)" using t(1) by (simp add: open_at_def)
  have topc: "Top_State (t_states t) = Inr (top_of ss)" using Top_State_law [OF s] ss by simp
  show ?thesis
  proof (cases "joint R \<and> top_of ss = st")
    case True
    then have "complete_state (joint R) False (top_of ss) now t = Inr None"
      using t(1) by (auto simp: complete_state_def open_at_def)
    then show ?thesis using True t ss topc by (auto simp: trace_paraver_state_def)
  next
    case False
    from complete_law [OF t(1,2), of False "top_of ss" now] t(3) False obtain w e where
      w: "complete_state (joint R) False (top_of ss) now t =
          Inr (Some (t\<lparr>t_wfb := w, incomplete_state_record := state_record R cpu st t0 e\<rparr>))"
      "holds_recs w (pre @ interval R cpu st t0 now @ post)" "disk_room w n" by auto
    let ?t1 = "t\<lparr>t_wfb := w, incomplete_state_record := state_record R cpu st t0 e\<rparr>"
    have "length (pre @ interval R cpu st t0 now @ post) < n" using t(3) by (simp add: interval_def)
    from start_law [of ?t1 R cpu st t0 e "top_of ss", OF _ _ _ _ _ _ this, of newcpu now] w(2,3) t(1) s obtain t2 where
      "start_state (unset R) newcpu (id_ptask R) (id_task R) (id_thread R) now (top_of ss) ?t1 = Inr t2"
      "open_at R newcpu (top_of ss) now (pre @ interval R cpu st t0 now @ post) [] t2" "disk_room (t_wfb t2) n"
      "t_states t2 = t_states t" by (auto simp: open_at_def)
    then show ?thesis using False ss topc w(1) by (auto simp: trace_paraver_state_def)
  qed
qed

lemma put_law:
  assumes t: "open_at R cpu st t0 pre post t" "disk_room (t_wfb t) n" "length pre + 1 + length post < n"
  shows "\<exists>t1. trace_paraver_record r t = Inr t1 \<and> disk_room (t_wfb t1) n \<and> t_states t1 = t_states t \<and>
    open_at R cpu st t0 pre (post @ [r]) t1"
proof (cases "st = STATE_IDLE")
  case True
  then have "holds_recs (t_wfb t) (pre @ post)" using t(1) by (simp add: open_at_def)
  from record_law [OF this t(2), of r] t True show ?thesis by (auto simp: open_at_def)
next
  case False
  then obtain x where "holds_recs (t_wfb t) (pre @ x # post)" using t(1) by (auto simp: open_at_def)
  from record_law [OF this t(2), of r] t False show ?thesis by (auto simp: open_at_def)
qed

lemma steps_law:
  assumes "open_at R cpu st t0 pre post t" and "disk_room (t_wfb t) n"
    and "length pre + 1 + length post + length steps \<le> n" and "ss = states (t_states t)"
  shows "\<exists>t1 t2. rfold (do_step R) steps t = Inr t1 \<and> finalize_thread (joint R) fin t1 = Inr t2 \<and>
    holds_recs (t_wfb t2) (pre @ interval R cpu st t0 (ends_at (joint R) st fin (observe R ss steps)) @ post @
      timeline R fin st (observe R ss steps)) \<and> disk_room (t_wfb t2) n"
  using assms
proof (induction steps arbitrary: cpu st t0 pre post t ss)
  case Nil
  let ?top = "top_of (states (t_states t))"
  have "Top_State (t_states t) = Inr ?top" using Nil.prems(1) Top_State_law by (auto simp: open_at_def)
  moreover from complete_law [OF Nil.prems(1,2), of True ?top fin] Nil.prems(3) obtain w e where
    "complete_state (joint R) True ?top fin t =
      Inr (Some (t\<lparr>t_wfb := w, incomplete_state_record := state_record R cpu st t0 e\<rparr>))"
    "holds_recs w (pre @ interval R cpu st t0 fin @ post)" "disk_room w n" by auto
  ultimately show ?case by (simp add: finalize_thread_def trace_paraver_state_noahead_def)
next
  case (Cons s steps)
  have stack: ?case if step: "(\<exists>st1 cond. s = Switch st1 cond) \<or> (\<exists>mode. s = Wipe mode)"
  proof -
    have ok: "stack_ok (t_states t)" using Cons.prems(1) by (simp add: open_at_def)
    obtain s1 where s1: "do_step R s t = Inr (t\<lparr>t_states := s1\<rparr>)" "stack_ok s1" "states s1 = stack_after R s ss"
      using stack_law [OF ok, of s] step Cons.prems(4) by blast
    have "observe R ss (s # steps) = observe R (stack_after R s ss) steps" using step by auto
    then show ?thesis
      using Cons.IH [of cpu st t0 pre post "t\<lparr>t_states := s1\<rparr>" "stack_after R s ss"] open_at_states [OF Cons.prems(1) s1(2)]
        Cons.prems(2,3) s1 by simp
  qed
  show ?case
  proof (cases s)
    case (Switch st1 cond)
    then show ?thesis by (intro stack) blast
  next
    case (Wipe mode)
    then show ?thesis by (intro stack) blast
  next
    case (Show cpu1 now)
    from show_law [OF Cons.prems(1,2) _ refl, where newcpu = cpu1 and now = now] Cons.prems(3,4) obtain t1 where
      t1: "do_step R s t = Inr t1" "disk_room (t_wfb t1) n" "states (t_states t1) = ss"
      and o: "if joint R \<and> top_of ss = st then open_at R cpu st t0 pre post t1
       else open_at R cpu1 (top_of ss) now (pre @ interval R cpu st t0 now @ post) [] t1"
      unfolding Show by auto
    have step: "rfold (do_step R) (s # steps) t = rfold (do_step R) steps t1" by (simp only: rfold.simps t1(1) rbind_simps)
    have obs: "observe R ss (s # steps) = Mark cpu1 (top_of ss) now # observe R ss steps" by (simp only: Show observe.simps)
    show ?thesis
    proof (cases "joint R \<and> top_of ss = st")
      case True
      then have "open_at R cpu st t0 pre post t1" using o by simp
      moreover have "length pre + 1 + length post + length steps \<le> n" using Cons.prems(3) by simp
      ultimately have "\<exists>t2 t3. rfold (do_step R) steps t1 = Inr t2 \<and> finalize_thread (joint R) fin t2 = Inr t3 \<and>
          holds_recs (t_wfb t3) (pre @ interval R cpu st t0 (ends_at (joint R) st fin (observe R ss steps)) @ post @
            timeline R fin st (observe R ss steps)) \<and> disk_room (t_wfb t3) n"
        by (rule Cons.IH [OF _ t1(2) _ t1(3) [symmetric]])
      then show ?thesis using True unfolding step obs by simp
    next
      case False
      let ?pre = "pre @ interval R cpu st t0 now @ post"
      have "open_at R cpu1 (top_of ss) now ?pre [] t1" using o False by auto
      moreover have "length ?pre + 1 + length [] + length steps \<le> n" using Cons.prems(3) by (simp add: interval_def)
      ultimately have "\<exists>t2 t3. rfold (do_step R) steps t1 = Inr t2 \<and> finalize_thread (joint R) fin t2 = Inr t3 \<and>
          holds_recs (t_wfb t3) (?pre @ interval R cpu1 (top_of ss) now (ends_at (joint R) (top_of ss) fin (observe R ss steps)) @ [] @
            timeline R fin (top_of ss) (observe R ss steps)) \<and> disk_room (t_wfb t3) n"
        by (rule Cons.IH [OF _ t1(2) _ t1(3) [symmetric]])
      moreover have "ends_at (joint R) st fin (observe R ss (s # steps)) = now"
        "timeline R fin st (observe R ss (s # steps)) =
         interval R cpu1 (top_of ss) now (ends_at (joint R) (top_of ss) fin (observe R ss steps)) @
         timeline R fin (top_of ss) (observe R ss steps)"
        using False unfolding obs by auto
      ultimately show ?thesis unfolding step by simp
    qed
  next
    case (Note cpu1 now type v)
    let ?r = "event_record (unset R) cpu1 (id_ptask R) (id_task R) (id_vthread R) now type v"
    have vt: "virtual_thread t = id_vthread R" using Cons.prems(1) by (simp add: open_at_def)
    show ?thesis
    proof (cases "task_enabled R")
      case True
      from put_law [OF Cons.prems(1,2), of ?r] Cons.prems(3) obtain t1 where
        "trace_paraver_record ?r t = Inr t1" "disk_room (t_wfb t1) n" "t_states t1 = t_states t"
        "open_at R cpu st t0 pre (post @ [?r]) t1" by auto
      then show ?thesis using Cons.IH [of cpu st t0 pre "post @ [?r]" t1 ss] Cons.prems(3,4) True Note vt
        by (simp add: trace_paraver_event_def)
    next
      case False
      then show ?thesis using Cons.IH [OF Cons.prems(1,2) _ Cons.prems(4)] Cons.prems(3) Note
        by (simp add: trace_paraver_event_def)
    qed
  qed
qed

section \<open>Properties\<close>

definition first_states :: "bool \<Rightarrow> state_id list" where
  "first_states skip_events =
     (if skip_events then [STATE_STOPPED, STATE_RUNNING, STATE_NOT_TRACING] else [STATE_STOPPED])"

lemma initial_states_law:
  "\<exists>s. initial_states skip_events no_states = Inr s \<and> stack_ok s \<and> states s = first_states skip_events"
proof -
  from Push_State_law [OF no_states_ok(1), of STATE_STOPPED] obtain s1 where
    s1: "Push_State STATE_STOPPED no_states = Inr (STATE_STOPPED, s1)" "stack_ok s1" "states s1 = [STATE_STOPPED]"
    by (auto simp: without_not_tracing_def state_ids)
  from Push_State_law [OF s1(2), of STATE_RUNNING] obtain s2 where
    s2: "Push_State STATE_RUNNING s1 = Inr (STATE_RUNNING, s2)" "stack_ok s2" "states s2 = [STATE_STOPPED, STATE_RUNNING]"
    by (auto simp: without_not_tracing_def state_ids s1(3) top_of_def)
  from Push_State_law [OF s2(2), of STATE_NOT_TRACING] obtain s3 where
    s3: "Push_State STATE_NOT_TRACING s2 = Inr (STATE_NOT_TRACING, s3)" "stack_ok s3"
    "states s3 = [STATE_STOPPED, STATE_RUNNING, STATE_NOT_TRACING]"
    by (auto simp: without_not_tracing_def state_ids s2(3) top_of_def)
  show ?thesis using s1 s2 s3 by (auto simp: initial_states_def first_states_def)
qed

lemma first_not_idle: "top_of (first_states skip_events) \<noteq> STATE_IDLE"
  by (simp add: first_states_def top_of_def state_ids)

text \<open>A thread before any of its events was read.\<close>

definition fresh_thread :: "thread_run \<Rightarrow> nat \<Rightarrow> thread_t \<Rightarrow> bool" where
  "fresh_thread R len t \<longleftrightarrow> t_states t = no_states \<and> incomplete_state_record t = unset_state R \<and>
     virtual_thread t = id_vthread R \<and> holds_recs (t_wfb t) [] \<and> disk_room (t_wfb t) (len + 1)"

lemma initialize_law:
  assumes t: "fresh_thread R len t"
  shows "\<exists>t1. initialize_thread (joint R) skip_events (unset R) cpu (id_ptask R) (id_task R) (id_thread R) t = Inr t1 \<and>
    open_at R cpu (top_of (first_states skip_events)) 0 [] [] t1 \<and> disk_room (t_wfb t1) (len + 1) \<and>
    states (t_states t1) = first_states skip_events"
proof -
  from initial_states_law [of skip_events] obtain s where
    s: "initial_states skip_events no_states = Inr s" "stack_ok s" "states s = first_states skip_events" by blast
  let ?top = "top_of (first_states skip_events)"
  let ?t = "t\<lparr>incomplete_state_offset := -1, t_states := s\<rparr>"
  have "complete_state (joint R) False ?top 0 ?t = Inr (Some ?t)" by (simp add: complete_state_def)
  moreover have "Top_State s = Inr ?top" using Top_State_law [OF s(2)] s(3) by simp
  moreover from start_law [where t = ?t and R = R and rs = "[]" and n = "len + 1" and st = ?top and cpu = cpu and now = 0]
    first_not_idle [of skip_events] t s(2)
  obtain t2 where "start_state (unset R) cpu (id_ptask R) (id_task R) (id_thread R) 0 ?top ?t = Inr t2"
    "open_at R cpu ?top 0 [] [] t2" "disk_room (t_wfb t2) (len + 1)" "t_states t2 = s"
    by (auto simp: fresh_thread_def)
  ultimately show ?thesis using t s(1,3) by (auto simp: initialize_thread_def trace_paraver_state_def fresh_thread_def)
qed

lemma timeline_types: "r \<in> set (timeline R fin st (observe R ss steps)) \<Longrightarrow> p_type r = STATE \<or> p_type r = EVENT"
proof (induction R ss steps arbitrary: st rule: observe.induct)
  case (5 R ss cpu now type v steps)
  then show ?case by (auto simp: event_record_def Let_def split: if_splits prod.splits)
qed (auto simp: interval_def state_record_def split: if_splits)

text \<open>
  C7. For every sequence of state changes, shown states and events of a fresh thread with room on the disk for the records
  (communications are not among the steps here), after the last flush its file consists of the first state from time zero, followed
  by the events in order and the states as intervals: every state ends where the next one
  starts, the last one at the end of the trace, equal ones in a row are joined if asked, the idle state
  is left out, and no unfinished state is left.
\<close>

theorem state_timeline:
  assumes "fresh_thread R (length steps) t"
  shows "\<exists>t1 t2 t3 w.
    initialize_thread (joint R) skip_events (unset R) cpu (id_ptask R) (id_task R) (id_thread R) t = Inr t1 \<and>
    rfold (do_step R) steps t1 = Inr t2 \<and> finalize_thread (joint R) fin t2 = Inr t3 \<and>
    Flush_one False (t_wfb t3) = Inr w \<and>
    (let st0 = top_of (first_states skip_events);
         acts = observe R (first_states skip_events) steps;
         rs = state_record R cpu st0 0 (ends_at (joint R) st0 fin acts) # timeline R fin st0 acts in
     f_bytes (FD w) = concat (map rec_bytes rs) \<and> (\<forall>r \<in> set rs. p_type r \<noteq> UNFINISHED_STATE))"
proof -
  let ?st = "top_of (first_states skip_events)"
  let ?acts = "observe R (first_states skip_events) steps"
  let ?rs = "state_record R cpu ?st 0 (ends_at (joint R) ?st fin ?acts) # timeline R fin ?st ?acts"
  from initialize_law [OF assms(1), of skip_events cpu] obtain t1 where
    t1: "initialize_thread (joint R) skip_events (unset R) cpu (id_ptask R) (id_task R) (id_thread R) t = Inr t1"
    "open_at R cpu ?st 0 [] [] t1" "disk_room (t_wfb t1) (length steps + 1)" "states (t_states t1) = first_states skip_events"
    by blast
  from steps_law [OF t1(2,3) _ t1(4) [symmetric], of steps fin] obtain t2 t3 where
    t2: "rfold (do_step R) steps t1 = Inr t2" "finalize_thread (joint R) fin t2 = Inr t3"
    "holds_recs (t_wfb t3) ?rs" "disk_room (t_wfb t3) (length steps + 1)"
    using first_not_idle [of skip_events] by (auto simp: interval_def)
  have len: "length (timeline R fin st (observe R ss sts)) \<le> length sts" for st ss sts
    by (induction R ss sts arbitrary: st rule: observe.induct) (auto simp: interval_def le_SucI)
  have "disk_room (t_wfb t3) (length (map rec_bytes ?rs))"
    using disk_room_mono [OF _ t2(4)] len [of ?st "first_states skip_events" steps] by simp
  with flush_holds [of "t_wfb t3" "map rec_bytes ?rs"] t2(3) obtain w where
    w: "Flush_one False (t_wfb t3) = Inr w" "f_bytes (FD w) = concat (map rec_bytes ?rs)"
    by (auto simp: holds_recs_def Flush_one_def)
  have "p_type r \<noteq> UNFINISHED_STATE" if "r \<in> set ?rs" for r
    using that timeline_types [of r R fin ?st "first_states skip_events" steps]
    by (auto simp: state_record_def record_types)
  with t1(1) t2(1,2) w show ?thesis unfolding Let_def by blast
qed

definition ex_record :: paraver_rec where
  "ex_record = \<lparr>p_receive_log = 0, p_receive_phy = 0, p_value = 0, p_time = 0, p_end_time = 0, p_type = 0, p_event = 0,
     p_cpu = 0, p_ptask = 0, p_task = 0, p_thread = 0, p_cpu_r = 0, p_ptask_r = 0, p_task_r = 0, p_thread_r = 0\<rparr>"

definition ex_run :: thread_run where
  "ex_run = \<lparr>joint = True, task_enabled = True, unset = ex_record, unset_state = ex_record,
     id_ptask = 1, id_task = 2, id_thread = 1, id_vthread = 1\<rparr>"

definition ex_thread :: thread_t where
  "ex_thread = \<lparr>t_cpu = 1, First_Event = True, t_states = no_states, Previous_Event_Time = 0,
     incomplete_state_record = ex_record, incomplete_state_offset = 0, Send_Rec = None, Recv_Rec = None,
     t_wfb = WriteFileBuffer_new \<lparr>f_bytes = [], f_offset = 0, f_limit = 4000\<rparr> 512 REC_SIZE, virtual_thread = 1,
     active_task_thread = 1, AddressSpace_size = 0, AddressSpace_timeCreation = 0,
     AddressSpace_calleraddresses = replicate 100 0, AddressSpace_callertype = 0\<rparr>"

definition ex_steps :: "step list" where
  "ex_steps = [Switch STATE_RUNNING True, Show 1 10, Note 1 12 40000010 1, Switch STATE_RUNNING True, Show 1 15,
     Switch 4 True, Show 1 20, Switch 4 False, Show 1 30]"

theorem state_timeline_witness:
  "\<exists>t1 t2 t3 w.
    initialize_thread True False ex_record 1 1 2 1 ex_thread = Inr t1 \<and>
    rfold (do_step ex_run) ex_steps t1 = Inr t2 \<and> finalize_thread True 50 t2 = Inr t3 \<and>
    Flush_one False (t_wfb t3) = Inr w \<and>
    f_bytes (FD w) = concat (map rec_bytes [state_record ex_run 1 STATE_STOPPED 0 10,
      state_record ex_run 1 STATE_RUNNING 10 20, event_record ex_record 1 1 2 1 12 40000010 1,
      state_record ex_run 1 4 20 30, state_record ex_run 1 STATE_RUNNING 30 50])"
proof -
  have "holds (t_wfb ex_thread) []" unfolding ex_thread_def by (simp, rule new_law) (simp_all add: REC_SIZE_def)
  then have "fresh_thread ex_run (length ex_steps) ex_thread"
    by (simp add: fresh_thread_def holds_recs_def ex_run_def ex_thread_def disk_room_def ex_steps_def
        WriteFileBuffer_new_def REC_SIZE_def)
  note r = state_timeline [OF this, of False 1 50]
  have "observe ex_run [STATE_STOPPED] ex_steps =
      [Mark 1 STATE_RUNNING 10, Put (event_record ex_record 1 1 2 1 12 40000010 1), Mark 1 STATE_RUNNING 15,
       Mark 1 4 20, Mark 1 STATE_RUNNING 30]"
    by (simp add: ex_steps_def ex_run_def switched_def without_not_tracing_def popped_def top_of_def state_ids)
  with r show ?thesis
    by (auto simp: first_states_def top_of_def ex_run_def [THEN arg_cong [where f = joint]]
        ex_run_def [THEN arg_cong [where f = unset]] ex_run_def [THEN arg_cong [where f = id_ptask]]
        ex_run_def [THEN arg_cong [where f = id_task]] ex_run_def [THEN arg_cong [where f = id_thread]] interval_def state_ids)
qed

end
