(* ===== verification/Intercommunicators.thy ===== *)
theory Intercommunicators
  imports Prelude
begin

text \<open>
  The intercommunicators between spawned applications (\<open>merger/common/intercommunicators.c\<close>): the table
  that maps applications to spawn groups, the links of every group, and the application a message
  goes to. The group of a spawn file is read from its name; the numbers in its lines are given as
  \<open>sscanf\<close> reads them, and a line that it cannot read is not modelled.
\<close>

record link_t =
  from_task :: int
  from_comm :: int
  to_spawn_group :: int

text \<open>Pairs of an application and its group; the links of the groups, once allocated.\<close>

record intercomm =
  AppToSpawnGroupTable :: "(int \<times> int) list"
  IntercommTable :: "link_t list list option"

definition no_spawns :: intercomm where
  "no_spawns = \<lparr>AppToSpawnGroupTable = [], IntercommTable = None\<rparr>"

definition intercommunicators_map_ptask_to_spawn_group :: "int \<Rightarrow> int \<Rightarrow> intercomm \<Rightarrow> intercomm" where
  "intercommunicators_map_ptask_to_spawn_group SpawnGroup ptask s =
     s\<lparr>AppToSpawnGroupTable := AppToSpawnGroupTable s @ [(ptask, SpawnGroup)]\<rparr>"

definition intercommunicators_allocate_links :: "int \<Rightarrow> intercomm \<Rightarrow> intercomm" where
  "intercommunicators_allocate_links SpawnGroup s =
     (let groups = (case IntercommTable s of None \<Rightarrow> [] | Some gs \<Rightarrow> gs) in
      s\<lparr>IntercommTable := Some
          (if int (length groups) < SpawnGroup then groups @ replicate (nat SpawnGroup - length groups) [] else groups)\<rparr>)"

definition intercommunicators_new_link :: "int \<Rightarrow> int \<Rightarrow> int \<Rightarrow> int \<Rightarrow> intercomm \<Rightarrow> intercomm result" where
  "intercommunicators_new_link from_group task comm to_group s =
     (case IntercommTable s of None \<Rightarrow> Inl Undefined
      | Some groups \<Rightarrow> let k = nat (from_group - 1) in
          if from_group < 1 \<or> length groups \<le> k then Inl Undefined
          else Inr (s\<lparr>IntercommTable := Some (groups[k := groups ! k @
                 [\<lparr>from_task = task, from_comm = comm, to_spawn_group = to_group\<rparr>]])\<rparr>))"

definition add_links :: "int \<Rightarrow> (int \<times> int \<times> int) list \<Rightarrow> intercomm \<Rightarrow> intercomm result" where
  "add_links SpawnGroup = rfold (\<lambda>(task, comm, to_group). intercommunicators_new_link SpawnGroup task comm to_group)"

text \<open>
  The group of a spawn file is the number behind the last dash of its name, 1 if there is no
  dash. A name shorter than the extension is cut in front of its first character.
\<close>

definition basename :: "string \<Rightarrow> string" where
  "basename path = (if path = [] then ''.'' else
     let p = dropWhile (\<lambda>c. c = CHR ''/'') (rev path) in
     if p = [] then ''/'' else rev (takeWhile (\<lambda>c. c \<noteq> CHR ''/'') p))"

definition EXT_SPAWN :: string where
  "EXT_SPAWN = ''.spawn''"

definition spawn_group_of :: "string \<Rightarrow> int result" where
  "spawn_group_of spawns_file_path =
     (let file = basename spawns_file_path in
      if length file < length EXT_SPAWN then Inl Undefined
      else let name = take (length file - length EXT_SPAWN) file in
        if CHR ''-'' \<notin> set name then Inr 1
        else ato 32 (rev (takeWhile (\<lambda>c. c \<noteq> CHR ''-'') (rev name))))"

text \<open>Loading a spawn file, given by its path and its lines after the first.\<close>

definition intercommunicators_load :: "string \<Rightarrow> (int \<times> int \<times> int) list \<Rightarrow> int \<Rightarrow> intercomm \<Rightarrow> intercomm result" where
  "intercommunicators_load spawns_file_path ls ptask s =
     rbind (spawn_group_of spawns_file_path) (\<lambda>SpawnGroup.
       add_links SpawnGroup ls (intercommunicators_allocate_links SpawnGroup
         (intercommunicators_map_ptask_to_spawn_group SpawnGroup ptask s)))"

definition get_spawn_group :: "int \<Rightarrow> intercomm \<Rightarrow> int" where
  "get_spawn_group ptask s = (case find_index (\<lambda>(p, g). p = ptask) (AppToSpawnGroupTable s) of
      Some i \<Rightarrow> snd (AppToSpawnGroupTable s ! i) | None \<Rightarrow> -1)"

definition get_ptask :: "int \<Rightarrow> intercomm \<Rightarrow> int" where
  "get_ptask spawn_group s = (case find_index (\<lambda>(p, g). g = spawn_group) (AppToSpawnGroupTable s) of
      Some i \<Rightarrow> fst (AppToSpawnGroupTable s ! i) | None \<Rightarrow> -1)"

definition find_link :: "int \<Rightarrow> int \<Rightarrow> int \<Rightarrow> intercomm \<Rightarrow> int result" where
  "find_link from_group task comm s =
     (case IntercommTable s of None \<Rightarrow> Inl Undefined
      | Some groups \<Rightarrow>
          if groups = [] then Inr (-1)
          else if from_group < 1 \<or> int (length groups) < from_group then Inl Undefined
          else let ls = groups ! nat (from_group - 1) in
            Inr (case find_index (\<lambda>l. from_task l = task - 1 \<and> from_comm l = comm) ls of
                Some i \<Rightarrow> to_spawn_group (ls ! i) | None \<Rightarrow> -1))"

definition intercommunicators_get_target_ptask :: "int \<Rightarrow> int \<Rightarrow> int \<Rightarrow> intercomm \<Rightarrow> int result" where
  "intercommunicators_get_target_ptask ptask task comm s =
     (let from_group = get_spawn_group ptask s in
      if from_group = -1 then Inr ptask
      else rbind (find_link from_group task comm s) (\<lambda>to_group.
        if to_group = -1 then Inr ptask
        else let to_ptask = get_ptask to_group s in Inr (if to_ptask = -1 then ptask else to_ptask)))"

section \<open>The specification\<close>

text \<open>
  The spawn files are loaded one after the other: the application, the path and the links (task,
  communicator, group of the other side) of each.
\<close>

definition load_all :: "(int \<times> string \<times> (int \<times> int \<times> int) list) list \<Rightarrow> intercomm \<Rightarrow> intercomm result" where
  "load_all = rfold (\<lambda>(ptask, path, ls). intercommunicators_load path ls ptask)"

text \<open>A spawn file with its group in place of its path, and the files that carry the numbers of such groups.\<close>

type_synonym spawn_file = "int \<times> int \<times> (int \<times> int \<times> int) list"

definition grouped :: "int \<times> string \<times> (int \<times> int \<times> int) list \<Rightarrow> spawn_file \<Rightarrow> bool" where
  "grouped file f \<longleftrightarrow> (case file of (ptask, path, ls) \<Rightarrow> case f of (p, g, ms) \<Rightarrow>
     p = ptask \<and> ms = ls \<and> spawn_group_of path = Inr g)"

text \<open>All links of a group, in the order of the files.\<close>

definition links_of :: "int \<Rightarrow> spawn_file list \<Rightarrow> (int \<times> int \<times> int) list" where
  "links_of g fs = concat (map (\<lambda>(p, h, ls). if h = g then ls else []) fs)"

text \<open>The target of a message: the first application of the group at the other end of the first link.\<close>

definition target_of :: "spawn_file list \<Rightarrow> int \<Rightarrow> int \<Rightarrow> int \<Rightarrow> int" where
  "target_of fs ptask task comm =
     (case find (\<lambda>(p, g, ls). p = ptask) fs of None \<Rightarrow> ptask
      | Some (p, g, ls) \<Rightarrow>
          (case find (\<lambda>(t, c, h). t = task - 1 \<and> c = comm) (links_of g fs) of None \<Rightarrow> ptask
           | Some (t, c, h) \<Rightarrow>
               (case find (\<lambda>(p, g, ls). g = h) fs of None \<Rightarrow> ptask | Some (q, h, ls) \<Rightarrow> q)))"

definition link_of :: "int \<times> int \<times> int \<Rightarrow> link_t" where
  "link_of l = (case l of (t, c, g) \<Rightarrow> \<lparr>from_task = t, from_comm = c, to_spawn_group = g\<rparr>)"

definition loaded :: "spawn_file list \<Rightarrow> intercomm \<Rightarrow> bool" where
  "loaded fs s \<longleftrightarrow> AppToSpawnGroupTable s = map (\<lambda>(p, g, ls). (p, g)) fs \<and>
     (case IntercommTable s of None \<Rightarrow> fs = []
      | Some groups \<Rightarrow> (\<forall>(p, g, ls) \<in> set fs. g \<le> int (length groups)) \<and>
          (\<forall>k < length groups. groups ! k = map link_of (links_of (int k + 1) fs)))"

lemma add_links_law:
  assumes "1 \<le> g" and "IntercommTable s = Some groups" and "g \<le> int (length groups)"
  shows "add_links g ls s = Inr (s\<lparr>IntercommTable := Some (groups[nat (g - 1) := groups ! nat (g - 1) @ map link_of ls])\<rparr>)"
  using assms(2,3)
proof (induction ls arbitrary: s groups)
  case Nil
  have "s = s\<lparr>IntercommTable := Some groups\<rparr>" using Nil(1) by (cases s) simp
  then show ?case by (simp add: add_links_def)
next
  case (Cons l ls)
  obtain t c h where l: "l = (t, c, h)" by (metis prod_cases3)
  have k: "nat (g - 1) < length groups" using assms(1) Cons.prems(2) by linarith
  let ?s = "s\<lparr>IntercommTable := Some (groups[nat (g - 1) := groups ! nat (g - 1) @ [link_of l]])\<rparr>"
  have "intercommunicators_new_link g t c h s = Inr ?s"
    using assms(1) Cons.prems k by (simp add: intercommunicators_new_link_def link_of_def l Let_def)
  moreover have "add_links g ls ?s = Inr (?s\<lparr>IntercommTable := Some (groups[nat (g - 1) :=
      groups ! nat (g - 1) @ map link_of (l # ls)])\<rparr>)"
    using Cons.IH [of ?s "groups[nat (g - 1) := groups ! nat (g - 1) @ [link_of l]]"] Cons.prems(2) k by simp
  ultimately show ?case by (simp add: add_links_def l)
qed

lemma load_law:
  assumes s: "loaded fs s" and g: "1 \<le> g" and path: "spawn_group_of path = Inr g"
  shows "\<exists>s1. intercommunicators_load path ls ptask s = Inr s1 \<and> loaded (fs @ [(ptask, g, ls)]) s1"
proof -
  define groups where "groups = (case IntercommTable s of None \<Rightarrow> [] | Some gs \<Rightarrow> gs)"
  let ?gs = "if int (length groups) < g then groups @ replicate (nat g - length groups) [] else groups"
  let ?s = "intercommunicators_allocate_links g (intercommunicators_map_ptask_to_spawn_group g ptask s)"
  let ?k = "nat (g - 1)"
  have old: "\<forall>(p, h, ls) \<in> set fs. h \<le> int (length groups)" "\<forall>k < length groups. groups ! k = map link_of (links_of (int k + 1) fs)"
    and app: "AppToSpawnGroupTable s = map (\<lambda>(p, g, ls). (p, g)) fs"
    using s by (auto simp: loaded_def groups_def split: option.splits)
  have links: "?gs ! k = map link_of (links_of (int k + 1) fs)" if "k < length ?gs" for k
  proof (cases "k < length groups")
    case True
    then show ?thesis using old(2) by (simp add: nth_append)
  next
    case False
    then have "links_of (int k + 1) fs = []" using old(1) by (fastforce simp: links_of_def split: prod.splits)
    then show ?thesis using False that by (auto simp: nth_append split: if_splits)
  qed
  have t: "IntercommTable ?s = Some ?gs" "AppToSpawnGroupTable ?s = map (\<lambda>(p, g, ls). (p, g)) (fs @ [(ptask, g, ls)])"
    by (simp_all add: intercommunicators_allocate_links_def intercommunicators_map_ptask_to_spawn_group_def Let_def groups_def app)
  have len: "g \<le> int (length ?gs)" by auto
  from add_links_law [OF g t(1) len, of ls]
  have "intercommunicators_load path ls ptask s = Inr (?s\<lparr>IntercommTable := Some (?gs[?k := ?gs ! ?k @ map link_of ls])\<rparr>)"
    by (simp only: intercommunicators_load_def path rbind_simps)
  moreover have "loaded (fs @ [(ptask, g, ls)]) (?s\<lparr>IntercommTable := Some (?gs[?k := ?gs ! ?k @ map link_of ls])\<rparr>)"
  proof -
    have "?gs[?k := ?gs ! ?k @ map link_of ls] ! k = map link_of (links_of (int k + 1) (fs @ [(ptask, g, ls)]))"
      if k: "k < length ?gs" for k
    proof (cases "int k + 1 = g")
      case True
      then have "?k = k" by simp
      then show ?thesis using True k links [OF k] by (simp add: links_of_def)
    next
      case False
      then have "?k \<noteq> k" using g by linarith
      then show ?thesis using False links [OF k] by (simp add: links_of_def)
    qed
    moreover have "\<forall>(p, h, ls) \<in> set fs. h \<le> int (length ?gs)" using old(1) by fastforce
    ultimately show ?thesis using t(2) len by (simp add: loaded_def)
  qed
  ultimately show ?thesis by blast
qed

lemma load_all_law:
  assumes "list_all2 grouped files fs" and "\<forall>(p, g, ls) \<in> set fs. 1 \<le> g"
  shows "\<exists>s. load_all files no_spawns = Inr s \<and> loaded fs s"
  using assms
proof (induction fs arbitrary: files rule: rev_induct)
  case Nil
  then show ?case by (simp add: load_all_def loaded_def no_spawns_def)
next
  case (snoc f fs)
  obtain p g ls where f: "f = (p, g, ls)" by (metis prod_cases3)
  from snoc.prems(1) obtain files0 path where files: "files = files0 @ [(p, path, ls)]" "list_all2 grouped files0 fs"
    "spawn_group_of path = Inr g"
    by (fastforce simp: list_all2_append2 list_all2_Cons2 f grouped_def [of _ "(p, g, ls)"])
  from snoc files(2) obtain s where "load_all files0 no_spawns = Inr s" "loaded fs s" by auto
  with load_law [of fs s g path ls p] snoc.prems files(3) show ?case by (auto simp: f files(1) load_all_def)
qed

lemma find_index_find: "(case find_index P xs of Some i \<Rightarrow> f (xs ! i) | None \<Rightarrow> d) = (case find P xs of Some x \<Rightarrow> f x | None \<Rightarrow> d)"
  by (induction xs) (auto split: option.splits)

lemma find_map_eq: "find P (map f xs) = map_option f (find (\<lambda>x. P (f x)) xs)"
  by (induction xs) auto

text \<open>
  C35. After loading any spawn files whose names carry a positive group (or no dash), a message goes to the application
  the links say: the first application of the group at the other end of the first link of the task and communicator, and
  to the own application when there is no such link. No lookup leaves its table. No application has the number -1.
\<close>

theorem intercomm_targets:
  assumes files: "list_all2 grouped files fs" and assms: "\<forall>(p, g, ls) \<in> set fs. 1 \<le> g \<and> p \<noteq> -1"
  shows "\<exists>s. load_all files no_spawns = Inr s \<and>
    (\<forall>ptask task comm. intercommunicators_get_target_ptask ptask task comm s = Inr (target_of fs ptask task comm))"
proof -
  from load_all_law [OF files] assms obtain s where s: "load_all files no_spawns = Inr s" "loaded fs s" by fastforce
  then have app: "AppToSpawnGroupTable s = map (\<lambda>(p, g, ls). (p, g)) fs" by (simp add: loaded_def)
  have group: "get_spawn_group p s = (case find (\<lambda>(q, g, ls). q = p) fs of Some (q, g, ls) \<Rightarrow> g | None \<Rightarrow> -1)" for p
    unfolding get_spawn_group_def app find_index_find find_map_eq
    by (auto simp: case_prod_beta' split: option.splits)
  have ptask: "get_ptask g s = (case find (\<lambda>(q, h, ls). h = g) fs of Some (q, h, ls) \<Rightarrow> q | None \<Rightarrow> -1)" for g
    unfolding get_ptask_def app find_index_find find_map_eq
    by (auto simp: case_prod_beta' split: option.splits)
  have "intercommunicators_get_target_ptask ptask task comm s = Inr (target_of fs ptask task comm)" for ptask task comm
  proof (cases "find (\<lambda>(q, g, ls). q = ptask) fs")
    case None
    then show ?thesis by (simp add: intercommunicators_get_target_ptask_def target_of_def group)
  next
    case (Some f)
    obtain p g ls where f: "f = (p, g, ls)" by (metis prod_cases3)
    then have "(p, g, ls) \<in> set fs" using Some by (auto simp: find_Some_iff dest: nth_mem)
    then have g: "1 \<le> g" "fs \<noteq> []" using assms by auto
    with s(2) obtain groups where gs: "IntercommTable s = Some groups" "g \<le> int (length groups)"
      "\<forall>k < length groups. groups ! k = map link_of (links_of (int k + 1) fs)"
      using \<open>(p, g, ls) \<in> set fs\<close> by (auto simp: loaded_def split: option.splits)
    have "groups ! nat (g - 1) = map link_of (links_of (int (nat (g - 1)) + 1) fs)" using gs(2,3) g(1) by auto
    then have ls: "groups ! nat (g - 1) = map link_of (links_of g fs)" using g(1) by simp
    have "groups \<noteq> []" using gs(2) g(1) by auto
    then have "find_link g task comm s = Inr (case find_index (\<lambda>l. from_task l = task - 1 \<and> from_comm l = comm) (groups ! nat (g - 1)) of
        Some i \<Rightarrow> to_spawn_group ((groups ! nat (g - 1)) ! i) | None \<Rightarrow> -1)"
      using g(1) gs(1,2) by (simp add: find_link_def Let_def)
    then have link: "find_link g task comm s = Inr (case find (\<lambda>(t, c, h). t = task - 1 \<and> c = comm) (links_of g fs) of
        Some (t, c, h) \<Rightarrow> h | None \<Rightarrow> -1)"
      unfolding ls find_index_find find_map_eq
      by (auto simp: link_of_def case_prod_beta' split: option.splits)
    have no: "find (\<lambda>(q, h, ls). h = -1) fs = None" using assms by (fastforce simp: find_None_iff)
    have app1: "q \<noteq> -1" if "find P fs = Some (q, h, ls)" for P q h ls
      using that assms by (fastforce simp: find_Some_iff dest: nth_mem)
    show ?thesis
      using g(1) no app1 Some f
      by (auto simp: intercommunicators_get_target_ptask_def target_of_def group link ptask Let_def
          split: option.splits prod.splits)
  qed
  with s(1) show ?thesis by blast
qed

theorem intercomm_targets_witness:
  "\<exists>s. load_all [(1, ''/tmp/app.spawn'', [(0, 5, 2)]), (2, ''/tmp/app-2.spawn'', [(0, 9, 1)])] no_spawns = Inr s \<and>
     intercommunicators_get_target_ptask 1 1 5 s = Inr 2 \<and> intercommunicators_get_target_ptask 1 1 6 s = Inr 1"
proof -
  have "list_all2 grouped [(1, ''/tmp/app.spawn'', [(0, 5, 2)]), (2, ''/tmp/app-2.spawn'', [(0, 9, 1)])]
      [(1, 1, [(0, 5, 2)]), (2, 2, [(0, 9, 1)])]"
    by (simp add: grouped_def spawn_group_of_def basename_def EXT_SPAWN_def Let_def ato_def text_int_def
        is_space_def is_digit_def digit_value_def)
  from intercomm_targets [OF this] show ?thesis
    by (auto simp: target_of_def links_of_def)
qed

section \<open>Names with a dash\<close>

text \<open>
  A dash in the name of an application is taken for the mark of the group: the first spawn file of
  such an application has the group 0, whatever stands behind the dash, and its links are stored in front of the table.
\<close>

lemma takeWhile_before: "c \<notin> set t \<Longrightarrow> takeWhile (\<lambda>x. x \<noteq> c) (rev t @ c # u) = rev t"
  by (subst takeWhile_append2) auto

theorem dash_in_name_undefined:
  assumes "CHR ''/'' \<notin> set (a @ t)" and "CHR ''-'' \<notin> set (c # t)" and "\<not> is_digit c" and "\<not> is_space c"
    and "c \<noteq> CHR ''+''" and "c \<noteq> CHR ''/''"
  shows "intercommunicators_load (dir @ ''/'' @ a @ ''-'' @ c # t @ EXT_SPAWN) (l # ls) ptask s = Inl Undefined"
proof -
  let ?path = "dir @ ''/'' @ a @ ''-'' @ c # t @ EXT_SPAWN"
  have "basename ?path = a @ ''-'' @ c # t @ EXT_SPAWN"
    using assms(1,6) takeWhile_before [of "CHR ''/''" "a @ ''-'' @ c # t @ EXT_SPAWN" "rev dir"]
    by (simp add: basename_def Let_def EXT_SPAWN_def)
  moreover have "takeWhile (\<lambda>x. x \<noteq> CHR ''-'') (rev t @ c # CHR ''-'' # rev a) = rev t @ [c]"
    using takeWhile_before [of "CHR ''-''" "c # t" "rev a"] assms(2) by simp
  moreover have "ato 32 (c # t) = Inr 0" using assms(2-5) by (auto simp: ato_def text_int_def)
  ultimately have "spawn_group_of ?path = Inr 0" by (simp add: spawn_group_of_def Let_def)
  then show ?thesis
    by (cases l) (simp add: intercommunicators_load_def add_links_def intercommunicators_new_link_def
        intercommunicators_allocate_links_def Let_def)
qed

theorem dash_in_name_undefined_witness:
  "intercommunicators_load ''/tmp/my-app.spawn'' [(0, 5, 2)] 1 no_spawns = Inl Undefined"
  using dash_in_name_undefined [of "''my''" "''pp''" "CHR ''a''" "''/tmp''" "(0, 5, 2)" "[]" 1 no_spawns]
  by (simp add: EXT_SPAWN_def is_digit_def is_space_def)

end
