(* ===== verification/Event_Types.thy ===== *)
theory Event_Types
  imports Mpi_Events
begin

text \<open>
  The codes of the events that are not MPI events, of their values and of the states they stand for
  (\<open>common/events.h\<close>, \<open>common/openshmem_events.h\<close>, \<open>tracer/online/online_events.h\<close>), and the groups of
  events (\<open>common/events.c\<close>).
\<close>

section \<open>Codes\<close>

text \<open>Events of the tracer and the merger.\<close>

abbreviation (input) MAX_CALLERS :: nat where "MAX_CALLERS \<equiv> 100"
abbreviation (input) SAMPLING_EV :: int where "SAMPLING_EV \<equiv> 30000000"
abbreviation (input) SAMPLING_LINE_EV :: int where "SAMPLING_LINE_EV \<equiv> 30000100"
abbreviation (input) HWC_SET_OVERFLOW_EV :: int where "HWC_SET_OVERFLOW_EV \<equiv> 31000000"
abbreviation (input) SAMPLING_ADDRESS_LD_EV :: int where "SAMPLING_ADDRESS_LD_EV \<equiv> 32000000"
abbreviation (input) SAMPLING_ADDRESS_ST_EV :: int where "SAMPLING_ADDRESS_ST_EV \<equiv> 32000001"
abbreviation (input) SAMPLING_ADDRESS_MEM_LEVEL_EV :: int where "SAMPLING_ADDRESS_MEM_LEVEL_EV \<equiv> 32000002"
abbreviation (input) SAMPLING_ADDRESS_MEM_HITORMISS_EV :: int where "SAMPLING_ADDRESS_MEM_HITORMISS_EV \<equiv> 32000003"
abbreviation (input) SAMPLING_ADDRESS_TLB_LEVEL_EV :: int where "SAMPLING_ADDRESS_TLB_LEVEL_EV \<equiv> 32000004"
abbreviation (input) SAMPLING_ADDRESS_TLB_HITORMISS_EV :: int where "SAMPLING_ADDRESS_TLB_HITORMISS_EV \<equiv> 32000005"
abbreviation (input) SAMPLING_ADDRESS_REFERENCE_COST_EV :: int where "SAMPLING_ADDRESS_REFERENCE_COST_EV \<equiv> 32000006"
abbreviation (input) SAMPLING_ADDRESS_ALLOCATED_OBJECT_EV :: int where "SAMPLING_ADDRESS_ALLOCATED_OBJECT_EV \<equiv> 32000007"
abbreviation (input) SAMPLING_ADDRESS_ALLOCATED_OBJECT_ALLOC_EV :: int where "SAMPLING_ADDRESS_ALLOCATED_OBJECT_ALLOC_EV \<equiv> 32000009"
abbreviation (input) SAMPLING_ADDRESS_STATIC_OBJECT_EV :: int where "SAMPLING_ADDRESS_STATIC_OBJECT_EV \<equiv> 32000008"
abbreviation (input) SAMPLING_ADDRESS_ALLOCATED_OBJECT_CALLER_EV :: int where "SAMPLING_ADDRESS_ALLOCATED_OBJECT_CALLER_EV \<equiv> 32000100"
abbreviation (input) SYSCALL_EV :: int where "SYSCALL_EV \<equiv> 40000000"
abbreviation (input) SYSCALL_EVENTS_COUNT :: nat where "SYSCALL_EVENTS_COUNT \<equiv> 1"
abbreviation (input) APPL_EV :: int where "APPL_EV \<equiv> 40000001"
abbreviation (input) TRACE_INIT_EV :: int where "TRACE_INIT_EV \<equiv> 40000002"
abbreviation (input) FLUSH_EV :: int where "FLUSH_EV \<equiv> 40000003"
abbreviation (input) READ_EV :: int where "READ_EV \<equiv> 40000004"
abbreviation (input) IO_EV :: int where "IO_EV \<equiv> 40000004"
abbreviation (input) WRITE_EV :: int where "WRITE_EV \<equiv> 40000005"
abbreviation (input) USER_EV :: int where "USER_EV \<equiv> 40000006"
abbreviation (input) HWC_DEF_EV :: int where "HWC_DEF_EV \<equiv> 40000007"
abbreviation (input) HWC_CHANGE_EV :: int where "HWC_CHANGE_EV \<equiv> 40000008"
abbreviation (input) HWC_EV :: int where "HWC_EV \<equiv> 40000009"
abbreviation (input) IO_DESCRIPTOR_EV :: int where "IO_DESCRIPTOR_EV \<equiv> 40000010"
abbreviation (input) IO_SIZE_EV :: int where "IO_SIZE_EV \<equiv> 40000011"
abbreviation (input) IO_DESCRIPTOR_TYPE_EV :: int where "IO_DESCRIPTOR_TYPE_EV \<equiv> 40000013"
abbreviation (input) TRACING_EV :: int where "TRACING_EV \<equiv> 40000012"
abbreviation (input) SET_TRACE_EV :: int where "SET_TRACE_EV \<equiv> 40000014"
abbreviation (input) CPU_BURST_EV :: int where "CPU_BURST_EV \<equiv> 40000015"
abbreviation (input) RUSAGE_EV :: int where "RUSAGE_EV \<equiv> 40000016"
abbreviation (input) MPI_STATS_EV :: int where "MPI_STATS_EV \<equiv> 40000017"
abbreviation (input) TRACING_MODE_EV :: int where "TRACING_MODE_EV \<equiv> 40000018"
abbreviation (input) MEMUSAGE_EV :: int where "MEMUSAGE_EV \<equiv> 40000020"
abbreviation (input) USER_SEND_EV :: int where "USER_SEND_EV \<equiv> 40000021"
abbreviation (input) USER_RECV_EV :: int where "USER_RECV_EV \<equiv> 40000022"
abbreviation (input) RESUME_VIRTUAL_THREAD_EV :: int where "RESUME_VIRTUAL_THREAD_EV \<equiv> 40000023"
abbreviation (input) SUSPEND_VIRTUAL_THREAD_EV :: int where "SUSPEND_VIRTUAL_THREAD_EV \<equiv> 40000024"
abbreviation (input) REGISTER_STACKED_TYPE_EV :: int where "REGISTER_STACKED_TYPE_EV \<equiv> 40000025"
abbreviation (input) REGISTER_CODELOCATION_TYPE_EV :: int where "REGISTER_CODELOCATION_TYPE_EV \<equiv> 40000026"
abbreviation (input) FORK_EV :: int where "FORK_EV \<equiv> 40000027"
abbreviation (input) FORK_SYSCALL_EV :: int where "FORK_SYSCALL_EV \<equiv> 40000027"
abbreviation (input) WAIT_EV :: int where "WAIT_EV \<equiv> 40000028"
abbreviation (input) WAITPID_EV :: int where "WAITPID_EV \<equiv> 40000029"
abbreviation (input) EXEC_EV :: int where "EXEC_EV \<equiv> 40000031"
abbreviation (input) GETCPU_EV :: int where "GETCPU_EV \<equiv> 40000033"
abbreviation (input) CPU_EVENT_INTERVAL_EV :: int where "CPU_EVENT_INTERVAL_EV \<equiv> 40000133"
abbreviation (input) SYSTEM_EV :: int where "SYSTEM_EV \<equiv> 40000034"
abbreviation (input) PID_EV :: int where "PID_EV \<equiv> 40000036"
abbreviation (input) PPID_EV :: int where "PPID_EV \<equiv> 40000037"
abbreviation (input) FORK_DEPTH_EV :: int where "FORK_DEPTH_EV \<equiv> 40000038"
abbreviation (input) MALLOC_EV :: int where "MALLOC_EV \<equiv> 40000040"
abbreviation (input) FREE_EV :: int where "FREE_EV \<equiv> 40000041"
abbreviation (input) CALLOC_EV :: int where "CALLOC_EV \<equiv> 40000042"
abbreviation (input) REALLOC_EV :: int where "REALLOC_EV \<equiv> 40000043"
abbreviation (input) POSIX_MEMALIGN_EV :: int where "POSIX_MEMALIGN_EV \<equiv> 40000044"
abbreviation (input) MEMKIND_MALLOC_EV :: int where "MEMKIND_MALLOC_EV \<equiv> 40000045"
abbreviation (input) MEMKIND_CALLOC_EV :: int where "MEMKIND_CALLOC_EV \<equiv> 40000046"
abbreviation (input) MEMKIND_REALLOC_EV :: int where "MEMKIND_REALLOC_EV \<equiv> 40000047"
abbreviation (input) MEMKIND_POSIX_MEMALIGN_EV :: int where "MEMKIND_POSIX_MEMALIGN_EV \<equiv> 40000048"
abbreviation (input) MEMKIND_FREE_EV :: int where "MEMKIND_FREE_EV \<equiv> 40000049"
abbreviation (input) MEMKIND_PARTITION_EV :: int where "MEMKIND_PARTITION_EV \<equiv> 40001000"
abbreviation (input) KMPC_MALLOC_EV :: int where "KMPC_MALLOC_EV \<equiv> 40000062"
abbreviation (input) KMPC_FREE_EV :: int where "KMPC_FREE_EV \<equiv> 40000063"
abbreviation (input) KMPC_CALLOC_EV :: int where "KMPC_CALLOC_EV \<equiv> 40000064"
abbreviation (input) KMPC_REALLOC_EV :: int where "KMPC_REALLOC_EV \<equiv> 40000065"
abbreviation (input) KMPC_ALIGNED_MALLOC_EV :: int where "KMPC_ALIGNED_MALLOC_EV \<equiv> 40000066"
abbreviation (input) DYNAMIC_MEM_EV :: int where "DYNAMIC_MEM_EV \<equiv> 40000040"
abbreviation (input) DYNAMIC_MEM_REQUESTED_SIZE_EV :: int where "DYNAMIC_MEM_REQUESTED_SIZE_EV \<equiv> 40000041"
abbreviation (input) DYNAMIC_MEM_POINTER_IN_EV :: int where "DYNAMIC_MEM_POINTER_IN_EV \<equiv> 40000042"
abbreviation (input) DYNAMIC_MEM_POINTER_OUT_EV :: int where "DYNAMIC_MEM_POINTER_OUT_EV \<equiv> 40000043"
abbreviation (input) CLOCK_FROM_SYSTEM_EV :: int where "CLOCK_FROM_SYSTEM_EV \<equiv> 40000050"
abbreviation (input) FREAD_EV :: int where "FREAD_EV \<equiv> 40000051"
abbreviation (input) FWRITE_EV :: int where "FWRITE_EV \<equiv> 40000052"
abbreviation (input) PREAD_EV :: int where "PREAD_EV \<equiv> 40000053"
abbreviation (input) PWRITE_EV :: int where "PWRITE_EV \<equiv> 40000054"
abbreviation (input) READV_EV :: int where "READV_EV \<equiv> 40000055"
abbreviation (input) WRITEV_EV :: int where "WRITEV_EV \<equiv> 40000056"
abbreviation (input) PREADV_EV :: int where "PREADV_EV \<equiv> 40000057"
abbreviation (input) PWRITEV_EV :: int where "PWRITEV_EV \<equiv> 40000058"
abbreviation (input) FILE_NAME_EV :: int where "FILE_NAME_EV \<equiv> 40000059"
abbreviation (input) OPEN_EV :: int where "OPEN_EV \<equiv> 40000060"
abbreviation (input) FOPEN_EV :: int where "FOPEN_EV \<equiv> 40000061"
abbreviation (input) RUSAGE_BASE :: int where "RUSAGE_BASE \<equiv> 45000000"
abbreviation (input) RUSAGE_EVENTS_COUNT :: nat where "RUSAGE_EVENTS_COUNT \<equiv> 16"
abbreviation (input) MEMUSAGE_BASE :: int where "MEMUSAGE_BASE \<equiv> 46000000"
abbreviation (input) MEMUSAGE_EVENTS_COUNT :: nat where "MEMUSAGE_EVENTS_COUNT \<equiv> 5"
abbreviation (input) JAVA_JVMTI_GARBAGECOLLECTOR_EV :: int where "JAVA_JVMTI_GARBAGECOLLECTOR_EV \<equiv> 48000001"
abbreviation (input) JAVA_JVMTI_EXCEPTION_EV :: int where "JAVA_JVMTI_EXCEPTION_EV \<equiv> 48000002"
abbreviation (input) JAVA_JVMTI_OBJECT_ALLOC_EV :: int where "JAVA_JVMTI_OBJECT_ALLOC_EV \<equiv> 48000003"
abbreviation (input) JAVA_JVMTI_OBJECT_FREE_EV :: int where "JAVA_JVMTI_OBJECT_FREE_EV \<equiv> 48000004"
abbreviation (input) OMP_STATS_BASE :: int where "OMP_STATS_BASE \<equiv> 65000000"
abbreviation (input) MPI_STATS_BASE :: int where "MPI_STATS_BASE \<equiv> 54000000"
abbreviation (input) MPI_STATS_P2P_COUNT_EV :: int where "MPI_STATS_P2P_COUNT_EV \<equiv> 0"
abbreviation (input) MPI_STATS_P2P_BYTES_SENT_EV :: int where "MPI_STATS_P2P_BYTES_SENT_EV \<equiv> 1"
abbreviation (input) MPI_STATS_P2P_BYTES_RECV_EV :: int where "MPI_STATS_P2P_BYTES_RECV_EV \<equiv> 2"
abbreviation (input) MPI_STATS_GLOBAL_COUNT_EV :: int where "MPI_STATS_GLOBAL_COUNT_EV \<equiv> 3"
abbreviation (input) MPI_STATS_GLOBAL_BYTES_SENT_EV :: int where "MPI_STATS_GLOBAL_BYTES_SENT_EV \<equiv> 4"
abbreviation (input) MPI_STATS_GLOBAL_BYTES_RECV_EV :: int where "MPI_STATS_GLOBAL_BYTES_RECV_EV \<equiv> 5"
abbreviation (input) MPI_STATS_TIME_IN_MPI_EV :: int where "MPI_STATS_TIME_IN_MPI_EV \<equiv> 6"
abbreviation (input) MPI_STATS_P2P_INCOMING_COUNT_EV :: int where "MPI_STATS_P2P_INCOMING_COUNT_EV \<equiv> 7"
abbreviation (input) MPI_STATS_P2P_OUTGOING_COUNT_EV :: int where "MPI_STATS_P2P_OUTGOING_COUNT_EV \<equiv> 8"
abbreviation (input) MPI_STATS_P2P_INCOMING_PARTNERS_COUNT_EV :: int where "MPI_STATS_P2P_INCOMING_PARTNERS_COUNT_EV \<equiv> 9"
abbreviation (input) MPI_STATS_P2P_OUTGOING_PARTNERS_COUNT_EV :: int where "MPI_STATS_P2P_OUTGOING_PARTNERS_COUNT_EV \<equiv> 10"
abbreviation (input) MPI_STATS_TIME_IN_OTHER_EV :: int where "MPI_STATS_TIME_IN_OTHER_EV \<equiv> 11"
abbreviation (input) MPI_STATS_TIME_IN_P2P_EV :: int where "MPI_STATS_TIME_IN_P2P_EV \<equiv> 12"
abbreviation (input) MPI_STATS_TIME_IN_GLOBAL_EV :: int where "MPI_STATS_TIME_IN_GLOBAL_EV \<equiv> 13"
abbreviation (input) MPI_STATS_OTHER_COUNT_EV :: int where "MPI_STATS_OTHER_COUNT_EV \<equiv> 14"
abbreviation (input) MPI_STATS_EVENTS_COUNT :: nat where "MPI_STATS_EVENTS_COUNT \<equiv> 15"
abbreviation (input) PAR_EV :: int where "PAR_EV \<equiv> 60000001"
abbreviation (input) WSH_EV :: int where "WSH_EV \<equiv> 60000002"
abbreviation (input) BARRIEROMP_EV :: int where "BARRIEROMP_EV \<equiv> 60000005"
abbreviation (input) NAMEDCRIT_EV :: int where "NAMEDCRIT_EV \<equiv> 60000006"
abbreviation (input) UNNAMEDCRIT_EV :: int where "UNNAMEDCRIT_EV \<equiv> 60000007"
abbreviation (input) WORK_EV :: int where "WORK_EV \<equiv> 60000011"
abbreviation (input) JOIN_EV :: int where "JOIN_EV \<equiv> 60000016"
abbreviation (input) OMPFUNC_EV :: int where "OMPFUNC_EV \<equiv> 60000018"
abbreviation (input) OMPFUNC_LINE_EV :: int where "OMPFUNC_LINE_EV \<equiv> 60000118"
abbreviation (input) USRFUNC_EV :: int where "USRFUNC_EV \<equiv> 60000019"
abbreviation (input) USRFUNC_LINE_EV :: int where "USRFUNC_LINE_EV \<equiv> 60000119"
abbreviation (input) TASK_EV :: int where "TASK_EV \<equiv> 60000021"
abbreviation (input) TASKWAIT_EV :: int where "TASKWAIT_EV \<equiv> 60000022"
abbreviation (input) TASKFUNC_EV :: int where "TASKFUNC_EV \<equiv> 60000023"
abbreviation (input) TASKFUNC_LINE_EV :: int where "TASKFUNC_LINE_EV \<equiv> 60000123"
abbreviation (input) TASKFUNC_INST_EV :: int where "TASKFUNC_INST_EV \<equiv> 60000024"
abbreviation (input) TASKFUNC_INST_LINE_EV :: int where "TASKFUNC_INST_LINE_EV \<equiv> 60000124"
abbreviation (input) TASKGROUP_START_EV :: int where "TASKGROUP_START_EV \<equiv> 60000025"
abbreviation (input) TASKGROUP_END_EV :: int where "TASKGROUP_END_EV \<equiv> 60000026"
abbreviation (input) TASKGROUP_INGROUP_DEEP_EV :: int where "TASKGROUP_INGROUP_DEEP_EV \<equiv> 60000027"
abbreviation (input) TASKID_EV :: int where "TASKID_EV \<equiv> 60000028"
abbreviation (input) TASKLOOP_EV :: int where "TASKLOOP_EV \<equiv> 60000029"
abbreviation (input) TASKLOOPID_EV :: int where "TASKLOOPID_EV \<equiv> 60010029"
abbreviation (input) OMPSETNUMTHREADS_EV :: int where "OMPSETNUMTHREADS_EV \<equiv> 60000030"
abbreviation (input) OMPGETNUMTHREADS_EV :: int where "OMPGETNUMTHREADS_EV \<equiv> 60000031"
abbreviation (input) NAMEDCRIT_NAME_EV :: int where "NAMEDCRIT_NAME_EV \<equiv> 60000032"
abbreviation (input) ORDERED_EV :: int where "ORDERED_EV \<equiv> 60000033"
abbreviation (input) OMPT_CRITICAL_EV :: int where "OMPT_CRITICAL_EV \<equiv> 60000050"
abbreviation (input) OMPT_ATOMIC_EV :: int where "OMPT_ATOMIC_EV \<equiv> 60000051"
abbreviation (input) OMPT_LOOP_EV :: int where "OMPT_LOOP_EV \<equiv> 60000052"
abbreviation (input) OMPT_WORKSHARE_EV :: int where "OMPT_WORKSHARE_EV \<equiv> 60000053"
abbreviation (input) OMPT_SECTIONS_EV :: int where "OMPT_SECTIONS_EV \<equiv> 60000054"
abbreviation (input) OMPT_SINGLE_EV :: int where "OMPT_SINGLE_EV \<equiv> 60000055"
abbreviation (input) OMPT_MASTER_EV :: int where "OMPT_MASTER_EV \<equiv> 60000056"
abbreviation (input) OMPT_TASKGROUP_IN_EV :: int where "OMPT_TASKGROUP_IN_EV \<equiv> 60000057"
abbreviation (input) OMPT_DEPENDENCE_EV :: int where "OMPT_DEPENDENCE_EV \<equiv> 60000058"
abbreviation (input) OMPT_TASKFUNC_EV :: int where "OMPT_TASKFUNC_EV \<equiv> 60000059"
abbreviation (input) OMP_STATS_EV :: int where "OMP_STATS_EV \<equiv> 60000060"
abbreviation (input) PTHREAD_BASE_EV :: int where "PTHREAD_BASE_EV \<equiv> 61000000"
abbreviation (input) PTHREAD_EXIT_EV :: int where "PTHREAD_EXIT_EV \<equiv> 61000001"
abbreviation (input) PTHREAD_CREATE_EV :: int where "PTHREAD_CREATE_EV \<equiv> 61000002"
abbreviation (input) PTHREAD_JOIN_EV :: int where "PTHREAD_JOIN_EV \<equiv> 61000003"
abbreviation (input) PTHREAD_DETACH_EV :: int where "PTHREAD_DETACH_EV \<equiv> 61000004"
abbreviation (input) PTHREAD_RWLOCK_WR_EV :: int where "PTHREAD_RWLOCK_WR_EV \<equiv> 61000005"
abbreviation (input) PTHREAD_RWLOCK_RD_EV :: int where "PTHREAD_RWLOCK_RD_EV \<equiv> 61000006"
abbreviation (input) PTHREAD_RWLOCK_UNLOCK_EV :: int where "PTHREAD_RWLOCK_UNLOCK_EV \<equiv> 61000007"
abbreviation (input) PTHREAD_MUTEX_LOCK_EV :: int where "PTHREAD_MUTEX_LOCK_EV \<equiv> 61000008"
abbreviation (input) PTHREAD_MUTEX_UNLOCK_EV :: int where "PTHREAD_MUTEX_UNLOCK_EV \<equiv> 61000009"
abbreviation (input) PTHREAD_COND_SIGNAL_EV :: int where "PTHREAD_COND_SIGNAL_EV \<equiv> 61000010"
abbreviation (input) PTHREAD_COND_BROADCAST_EV :: int where "PTHREAD_COND_BROADCAST_EV \<equiv> 61000011"
abbreviation (input) PTHREAD_COND_WAIT_EV :: int where "PTHREAD_COND_WAIT_EV \<equiv> 61000012"
abbreviation (input) PTHREAD_BARRIER_WAIT_EV :: int where "PTHREAD_BARRIER_WAIT_EV \<equiv> 61000013"
abbreviation (input) PTHREAD_FUNC_EV :: int where "PTHREAD_FUNC_EV \<equiv> 60000020"
abbreviation (input) PTHREAD_FUNC_LINE_EV :: int where "PTHREAD_FUNC_LINE_EV \<equiv> 60000120"
abbreviation (input) CUDACALL_EV :: int where "CUDACALL_EV \<equiv> 63000001"
abbreviation (input) CUDAMEMCPY_SIZE_EV :: int where "CUDAMEMCPY_SIZE_EV \<equiv> 63000002"
abbreviation (input) CUDAFUNC_EV :: int where "CUDAFUNC_EV \<equiv> 63000019"
abbreviation (input) CUDAFUNC_LINE_EV :: int where "CUDAFUNC_LINE_EV \<equiv> 63000119"
abbreviation (input) CUDABASE_EV :: int where "CUDABASE_EV \<equiv> 63100000"
abbreviation (input) CUDALAUNCH_EV :: int where "CUDALAUNCH_EV \<equiv> 63100001"
abbreviation (input) CUDACONFIGCALL_EV :: int where "CUDACONFIGCALL_EV \<equiv> 63100002"
abbreviation (input) CUDAMEMCPY_EV :: int where "CUDAMEMCPY_EV \<equiv> 63100003"
abbreviation (input) CUDATHREADBARRIER_EV :: int where "CUDATHREADBARRIER_EV \<equiv> 63100004"
abbreviation (input) CUDASTREAMBARRIER_EV :: int where "CUDASTREAMBARRIER_EV \<equiv> 63100005"
abbreviation (input) CUDASTREAMCREATE_EV :: int where "CUDASTREAMCREATE_EV \<equiv> 63100006"
abbreviation (input) CUDAMEMCPYASYNC_EV :: int where "CUDAMEMCPYASYNC_EV \<equiv> 63100007"
abbreviation (input) CUDADEVICERESET_EV :: int where "CUDADEVICERESET_EV \<equiv> 63100008"
abbreviation (input) CUDATHREADEXIT_EV :: int where "CUDATHREADEXIT_EV \<equiv> 63100009"
abbreviation (input) CUDABASE_GPU_EV :: int where "CUDABASE_GPU_EV \<equiv> 63200000"
abbreviation (input) CUDAKERNEL_GPU_EV :: int where "CUDAKERNEL_GPU_EV \<equiv> 63200001"
abbreviation (input) CUDACONFIGKERNEL_GPU_EV :: int where "CUDACONFIGKERNEL_GPU_EV \<equiv> 63200002"
abbreviation (input) CUDAMEMCPY_GPU_EV :: int where "CUDAMEMCPY_GPU_EV \<equiv> 63200003"
abbreviation (input) CUDATHREADBARRIER_GPU_EV :: int where "CUDATHREADBARRIER_GPU_EV \<equiv> 63200004"
abbreviation (input) CUDAMEMCPYASYNC_GPU_EV :: int where "CUDAMEMCPYASYNC_GPU_EV \<equiv> 63200007"
abbreviation (input) CUDASTREAMBARRIER_THID_EV :: int where "CUDASTREAMBARRIER_THID_EV \<equiv> 63300000"
abbreviation (input) OPENCL_KERNEL_NAME_EV :: int where "OPENCL_KERNEL_NAME_EV \<equiv> 64200000"
abbreviation (input) OPENCL_BASE_TYPE_EV :: int where "OPENCL_BASE_TYPE_EV \<equiv> 64000000"
abbreviation (input) OPENCL_BASE_TYPE_ACC_EV :: int where "OPENCL_BASE_TYPE_ACC_EV \<equiv> 64100000"
abbreviation (input) OPENCL_CLCREATEBUFFER_EV :: int where "OPENCL_CLCREATEBUFFER_EV \<equiv> 64000001"
abbreviation (input) OPENCL_CLCREATECOMMANDQUEUE_EV :: int where "OPENCL_CLCREATECOMMANDQUEUE_EV \<equiv> 64000002"
abbreviation (input) OPENCL_CLCREATECONTEXT_EV :: int where "OPENCL_CLCREATECONTEXT_EV \<equiv> 64000003"
abbreviation (input) OPENCL_CLCREATECONTEXTFROMTYPE_EV :: int where "OPENCL_CLCREATECONTEXTFROMTYPE_EV \<equiv> 64000004"
abbreviation (input) OPENCL_CLCREATESUBBUFFER_EV :: int where "OPENCL_CLCREATESUBBUFFER_EV \<equiv> 64000005"
abbreviation (input) OPENCL_CLCREATEKERNEL_EV :: int where "OPENCL_CLCREATEKERNEL_EV \<equiv> 64000006"
abbreviation (input) OPENCL_CLCREATEKERNELSINPROGRAM_EV :: int where "OPENCL_CLCREATEKERNELSINPROGRAM_EV \<equiv> 64000007"
abbreviation (input) OPENCL_CLSETKERNELARG_EV :: int where "OPENCL_CLSETKERNELARG_EV \<equiv> 64000008"
abbreviation (input) OPENCL_CLCREATEPROGRAMWITHSOURCE_EV :: int where "OPENCL_CLCREATEPROGRAMWITHSOURCE_EV \<equiv> 64000009"
abbreviation (input) OPENCL_CLCREATEPROGRAMWITHBINARY_EV :: int where "OPENCL_CLCREATEPROGRAMWITHBINARY_EV \<equiv> 64000010"
abbreviation (input) OPENCL_CLCREATEPROGRAMWITHBUILTINKERNELS_EV :: int where "OPENCL_CLCREATEPROGRAMWITHBUILTINKERNELS_EV \<equiv> 64000011"
abbreviation (input) OPENCL_CLENQUEUEFILLBUFFER_EV :: int where "OPENCL_CLENQUEUEFILLBUFFER_EV \<equiv> 64000012"
abbreviation (input) OPENCL_CLENQUEUECOPYBUFFER_EV :: int where "OPENCL_CLENQUEUECOPYBUFFER_EV \<equiv> 64000013"
abbreviation (input) OPENCL_CLENQUEUECOPYBUFFERRECT_EV :: int where "OPENCL_CLENQUEUECOPYBUFFERRECT_EV \<equiv> 64000014"
abbreviation (input) OPENCL_CLENQUEUENDRANGEKERNEL_EV :: int where "OPENCL_CLENQUEUENDRANGEKERNEL_EV \<equiv> 64000015"
abbreviation (input) OPENCL_CLENQUEUETASK_EV :: int where "OPENCL_CLENQUEUETASK_EV \<equiv> 64000016"
abbreviation (input) OPENCL_CLENQUEUENATIVEKERNEL_EV :: int where "OPENCL_CLENQUEUENATIVEKERNEL_EV \<equiv> 64000017"
abbreviation (input) OPENCL_CLENQUEUEREADBUFFER_EV :: int where "OPENCL_CLENQUEUEREADBUFFER_EV \<equiv> 64000018"
abbreviation (input) OPENCL_CLENQUEUEREADBUFFERRECT_EV :: int where "OPENCL_CLENQUEUEREADBUFFERRECT_EV \<equiv> 64000019"
abbreviation (input) OPENCL_CLENQUEUEWRITEBUFFER_EV :: int where "OPENCL_CLENQUEUEWRITEBUFFER_EV \<equiv> 64000020"
abbreviation (input) OPENCL_CLENQUEUEWRITEBUFFERRECT_EV :: int where "OPENCL_CLENQUEUEWRITEBUFFERRECT_EV \<equiv> 64000021"
abbreviation (input) OPENCL_CLBUILDPROGRAM_EV :: int where "OPENCL_CLBUILDPROGRAM_EV \<equiv> 64000022"
abbreviation (input) OPENCL_CLCOMPILEPROGRAM_EV :: int where "OPENCL_CLCOMPILEPROGRAM_EV \<equiv> 64000023"
abbreviation (input) OPENCL_CLLINKPROGRAM_EV :: int where "OPENCL_CLLINKPROGRAM_EV \<equiv> 64000024"
abbreviation (input) OPENCL_CLFINISH_EV :: int where "OPENCL_CLFINISH_EV \<equiv> 64000025"
abbreviation (input) OPENCL_CLFLUSH_EV :: int where "OPENCL_CLFLUSH_EV \<equiv> 64000026"
abbreviation (input) OPENCL_CLWAITFOREVENTS_EV :: int where "OPENCL_CLWAITFOREVENTS_EV \<equiv> 64000027"
abbreviation (input) OPENCL_CLENQUEUEMARKERWITHWAITLIST_EV :: int where "OPENCL_CLENQUEUEMARKERWITHWAITLIST_EV \<equiv> 64000028"
abbreviation (input) OPENCL_CLENQUEUEBARRIERWITHWAITLIST_EV :: int where "OPENCL_CLENQUEUEBARRIERWITHWAITLIST_EV \<equiv> 64000029"
abbreviation (input) OPENCL_CLENQUEUEMAPBUFFER_EV :: int where "OPENCL_CLENQUEUEMAPBUFFER_EV \<equiv> 64000030"
abbreviation (input) OPENCL_CLENQUEUEUNMAPMEMOBJECT_EV :: int where "OPENCL_CLENQUEUEUNMAPMEMOBJECT_EV \<equiv> 64000031"
abbreviation (input) OPENCL_CLENQUEUEMIGRATEMEMOBJECTS_EV :: int where "OPENCL_CLENQUEUEMIGRATEMEMOBJECTS_EV \<equiv> 64000032"
abbreviation (input) OPENCL_CLENQUEUEMARKER_EV :: int where "OPENCL_CLENQUEUEMARKER_EV \<equiv> 64000033"
abbreviation (input) OPENCL_CLENQUEUEBARRIER_EV :: int where "OPENCL_CLENQUEUEBARRIER_EV \<equiv> 64000034"
abbreviation (input) OPENCL_CLRETAINCOMMANDQUEUE_EV :: int where "OPENCL_CLRETAINCOMMANDQUEUE_EV \<equiv> 64000035"
abbreviation (input) OPENCL_CLRELEASECOMMANDQUEUE_EV :: int where "OPENCL_CLRELEASECOMMANDQUEUE_EV \<equiv> 64000036"
abbreviation (input) OPENCL_CLRETAINCONTEXT_EV :: int where "OPENCL_CLRETAINCONTEXT_EV \<equiv> 64000037"
abbreviation (input) OPENCL_CLRELEASECONTEXT_EV :: int where "OPENCL_CLRELEASECONTEXT_EV \<equiv> 64000038"
abbreviation (input) OPENCL_CLRETAINDEVICE_EV :: int where "OPENCL_CLRETAINDEVICE_EV \<equiv> 64000039"
abbreviation (input) OPENCL_CLRELEASEDEVICE_EV :: int where "OPENCL_CLRELEASEDEVICE_EV \<equiv> 64000040"
abbreviation (input) OPENCL_CLRETAINEVENT_EV :: int where "OPENCL_CLRETAINEVENT_EV \<equiv> 64000041"
abbreviation (input) OPENCL_CLRELEASEEVENT_EV :: int where "OPENCL_CLRELEASEEVENT_EV \<equiv> 64000042"
abbreviation (input) OPENCL_CLRETAINKERNEL_EV :: int where "OPENCL_CLRETAINKERNEL_EV \<equiv> 64000043"
abbreviation (input) OPENCL_CLRELEASEKERNEL_EV :: int where "OPENCL_CLRELEASEKERNEL_EV \<equiv> 64000044"
abbreviation (input) OPENCL_CLRETAINMEMOBJECT_EV :: int where "OPENCL_CLRETAINMEMOBJECT_EV \<equiv> 64000045"
abbreviation (input) OPENCL_CLRELEASEMEMOBJECT_EV :: int where "OPENCL_CLRELEASEMEMOBJECT_EV \<equiv> 64000046"
abbreviation (input) OPENCL_CLRETAINPROGRAM_EV :: int where "OPENCL_CLRETAINPROGRAM_EV \<equiv> 64000047"
abbreviation (input) OPENCL_CLRELEASEPROGRAM_EV :: int where "OPENCL_CLRELEASEPROGRAM_EV \<equiv> 64000048"
abbreviation (input) OPENCL_CLENQUEUEREADBUFFER_ASYNC_EV :: int where "OPENCL_CLENQUEUEREADBUFFER_ASYNC_EV \<equiv> 64000049"
abbreviation (input) OPENCL_CLENQUEUEREADBUFFERRECT_ASYNC_EV :: int where "OPENCL_CLENQUEUEREADBUFFERRECT_ASYNC_EV \<equiv> 64000050"
abbreviation (input) OPENCL_CLENQUEUEWRITEBUFFER_ASYNC_EV :: int where "OPENCL_CLENQUEUEWRITEBUFFER_ASYNC_EV \<equiv> 64000051"
abbreviation (input) OPENCL_CLENQUEUEWRITEBUFFERRECT_ASYNC_EV :: int where "OPENCL_CLENQUEUEWRITEBUFFERRECT_ASYNC_EV \<equiv> 64000052"
abbreviation (input) OPENCL_CLMEMOP_SIZE_EV :: int where "OPENCL_CLMEMOP_SIZE_EV \<equiv> 64099999"
abbreviation (input) OPENCL_CLENQUEUEFILLBUFFER_ACC_EV :: int where "OPENCL_CLENQUEUEFILLBUFFER_ACC_EV \<equiv> 64100012"
abbreviation (input) OPENCL_CLENQUEUECOPYBUFFER_ACC_EV :: int where "OPENCL_CLENQUEUECOPYBUFFER_ACC_EV \<equiv> 64100013"
abbreviation (input) OPENCL_CLENQUEUECOPYBUFFERRECT_ACC_EV :: int where "OPENCL_CLENQUEUECOPYBUFFERRECT_ACC_EV \<equiv> 64100014"
abbreviation (input) OPENCL_CLENQUEUENDRANGEKERNEL_ACC_EV :: int where "OPENCL_CLENQUEUENDRANGEKERNEL_ACC_EV \<equiv> 64100015"
abbreviation (input) OPENCL_CLENQUEUETASK_ACC_EV :: int where "OPENCL_CLENQUEUETASK_ACC_EV \<equiv> 64100016"
abbreviation (input) OPENCL_CLENQUEUENATIVEKERNEL_ACC_EV :: int where "OPENCL_CLENQUEUENATIVEKERNEL_ACC_EV \<equiv> 64100017"
abbreviation (input) OPENCL_CLENQUEUEREADBUFFER_ACC_EV :: int where "OPENCL_CLENQUEUEREADBUFFER_ACC_EV \<equiv> 64100018"
abbreviation (input) OPENCL_CLENQUEUEREADBUFFERRECT_ACC_EV :: int where "OPENCL_CLENQUEUEREADBUFFERRECT_ACC_EV \<equiv> 64100019"
abbreviation (input) OPENCL_CLENQUEUEWRITEBUFFER_ACC_EV :: int where "OPENCL_CLENQUEUEWRITEBUFFER_ACC_EV \<equiv> 64100020"
abbreviation (input) OPENCL_CLENQUEUEWRITEBUFFERRECT_ACC_EV :: int where "OPENCL_CLENQUEUEWRITEBUFFERRECT_ACC_EV \<equiv> 64100021"
abbreviation (input) OPENCL_CLENQUEUEMARKERWITHWAITLIST_ACC_EV :: int where "OPENCL_CLENQUEUEMARKERWITHWAITLIST_ACC_EV \<equiv> 64100028"
abbreviation (input) OPENCL_CLENQUEUEBARRIERWITHWAITLIST_ACC_EV :: int where "OPENCL_CLENQUEUEBARRIERWITHWAITLIST_ACC_EV \<equiv> 64100029"
abbreviation (input) OPENCL_CLENQUEUEMAPBUFFER_ACC_EV :: int where "OPENCL_CLENQUEUEMAPBUFFER_ACC_EV \<equiv> 64100030"
abbreviation (input) OPENCL_CLENQUEUEUNMAPMEMOBJECT_ACC_EV :: int where "OPENCL_CLENQUEUEUNMAPMEMOBJECT_ACC_EV \<equiv> 64100031"
abbreviation (input) OPENCL_CLENQUEUEMIGRATEMEMOBJECTS_ACC_EV :: int where "OPENCL_CLENQUEUEMIGRATEMEMOBJECTS_ACC_EV \<equiv> 64100032"
abbreviation (input) OPENCL_CLENQUEUEMARKER_ACC_EV :: int where "OPENCL_CLENQUEUEMARKER_ACC_EV \<equiv> 64100033"
abbreviation (input) OPENCL_CLENQUEUEBARRIER_ACC_EV :: int where "OPENCL_CLENQUEUEBARRIER_ACC_EV \<equiv> 64100034"
abbreviation (input) OPENCL_CLENQUEUEREADBUFFER_ASYNC_ACC_EV :: int where "OPENCL_CLENQUEUEREADBUFFER_ASYNC_ACC_EV \<equiv> 64100049"
abbreviation (input) OPENCL_CLENQUEUEREADBUFFERRECT_ASYNC_ACC_EV :: int where "OPENCL_CLENQUEUEREADBUFFERRECT_ASYNC_ACC_EV \<equiv> 64100050"
abbreviation (input) OPENCL_CLENQUEUEWRITEBUFFER_ASYNC_ACC_EV :: int where "OPENCL_CLENQUEUEWRITEBUFFER_ASYNC_ACC_EV \<equiv> 64100051"
abbreviation (input) OPENCL_CLENQUEUEWRITEBUFFERRECT_ASYNC_ACC_EV :: int where "OPENCL_CLENQUEUEWRITEBUFFERRECT_ASYNC_ACC_EV \<equiv> 64100052"
abbreviation (input) OPENCL_CLFINISH_THID_EV :: int where "OPENCL_CLFINISH_THID_EV \<equiv> 64300000"
abbreviation (input) CALLER_EV :: int where "CALLER_EV \<equiv> 70000000"
abbreviation (input) CALLER_LINE_EV :: int where "CALLER_LINE_EV \<equiv> 80000000"
abbreviation (input) ONLINE_EV :: int where "ONLINE_EV \<equiv> 50000"
abbreviation (input) CLUSTER_ID_EV :: int where "CLUSTER_ID_EV \<equiv> 90000001"
abbreviation (input) CLUSTER_SUPPORT_EV :: int where "CLUSTER_SUPPORT_EV \<equiv> 92000001"
abbreviation (input) GREMLIN_EV :: int where "GREMLIN_EV \<equiv> 93000001"

text \<open>Values of events.\<close>

abbreviation (input) READ_VAL_EV :: "'a::len word" where "READ_VAL_EV \<equiv> 1"
abbreviation (input) WRITE_VAL_EV :: "'a::len word" where "WRITE_VAL_EV \<equiv> 2"
abbreviation (input) FREAD_VAL_EV :: "'a::len word" where "FREAD_VAL_EV \<equiv> 3"
abbreviation (input) FWRITE_VAL_EV :: "'a::len word" where "FWRITE_VAL_EV \<equiv> 4"
abbreviation (input) PREAD_VAL_EV :: "'a::len word" where "PREAD_VAL_EV \<equiv> 5"
abbreviation (input) PWRITE_VAL_EV :: "'a::len word" where "PWRITE_VAL_EV \<equiv> 6"
abbreviation (input) READV_VAL_EV :: "'a::len word" where "READV_VAL_EV \<equiv> 7"
abbreviation (input) WRITEV_VAL_EV :: "'a::len word" where "WRITEV_VAL_EV \<equiv> 8"
abbreviation (input) PREADV_VAL_EV :: "'a::len word" where "PREADV_VAL_EV \<equiv> 9"
abbreviation (input) PWRITEV_VAL_EV :: "'a::len word" where "PWRITEV_VAL_EV \<equiv> 10"
abbreviation (input) OPEN_VAL_EV :: "'a::len word" where "OPEN_VAL_EV \<equiv> 11"
abbreviation (input) FOPEN_VAL_EV :: "'a::len word" where "FOPEN_VAL_EV \<equiv> 12"
abbreviation (input) JOIN_WAIT_VAL :: "'a::len word" where "JOIN_WAIT_VAL \<equiv> 1"
abbreviation (input) UNLOCKED_VAL :: "'a::len word" where "UNLOCKED_VAL \<equiv> 0"
abbreviation (input) LOCK_VAL :: "'a::len word" where "LOCK_VAL \<equiv> 3"
abbreviation (input) UNLOCK_VAL :: "'a::len word" where "UNLOCK_VAL \<equiv> 5"
abbreviation (input) LOCKED_VAL :: "'a::len word" where "LOCKED_VAL \<equiv> 6"
abbreviation (input) WAITORDERED_VAL :: "'a::len word" where "WAITORDERED_VAL \<equiv> 3"
abbreviation (input) POSTORDERED_VAL :: "'a::len word" where "POSTORDERED_VAL \<equiv> 5"
abbreviation (input) ONLINE_PAUSE_APP :: "'a::len word" where "ONLINE_PAUSE_APP \<equiv> 1"
abbreviation (input) NOT_TRACING :: "'a::len word" where "NOT_TRACING \<equiv> 0"
abbreviation (input) PHASE_PROFILE :: "'a::len word" where "PHASE_PROFILE \<equiv> 1"
abbreviation (input) BURST_MODE :: "'a::len word" where "BURST_MODE \<equiv> 2"
abbreviation (input) DETAIL_MODE :: "'a::len word" where "DETAIL_MODE \<equiv> 3"

text \<open>States.\<close>

abbreviation (input) STATE_BLOCKED :: state_id where "STATE_BLOCKED \<equiv> 9"
abbreviation (input) STATE_SYNC :: state_id where "STATE_SYNC \<equiv> 5"
abbreviation (input) STATE_OVHD :: state_id where "STATE_OVHD \<equiv> 7"
abbreviation (input) STATE_FLUSH :: state_id where "STATE_FLUSH \<equiv> 12"
abbreviation (input) STATE_OTHERS :: state_id where "STATE_OTHERS \<equiv> 15"
abbreviation (input) STATE_ONLINE_ANALYSIS :: state_id where "STATE_ONLINE_ANALYSIS \<equiv> 19"
abbreviation (input) STATE_REMOTE_MEM_ACCESS :: state_id where "STATE_REMOTE_MEM_ACCESS \<equiv> 20"
abbreviation (input) STATE_ATOMIC_MEM_OP :: state_id where "STATE_ATOMIC_MEM_OP \<equiv> 21"
abbreviation (input) STATE_MEM_ORDERING :: state_id where "STATE_MEM_ORDERING \<equiv> 22"
abbreviation (input) STATE_LOCKING :: state_id where "STATE_LOCKING \<equiv> 23"
abbreviation (input) STATE_ALLOCMEM :: state_id where "STATE_ALLOCMEM \<equiv> 30"
abbreviation (input) STATE_FREEMEM :: state_id where "STATE_FREEMEM \<equiv> 31"

text \<open>OpenSHMEM.\<close>

abbreviation (input) OPENSHMEM_BASE_EVENT :: int where "OPENSHMEM_BASE_EVENT \<equiv> 52000000"
abbreviation (input) OPENSHMEM_SENDBYTES_EV :: int where "OPENSHMEM_SENDBYTES_EV \<equiv> 52100000"
abbreviation (input) OPENSHMEM_RECVBYTES_EV :: int where "OPENSHMEM_RECVBYTES_EV \<equiv> 52200000"
abbreviation (input) START_PES_EV :: int where "START_PES_EV \<equiv> 52000000"
abbreviation (input) SHMEM_MY_PE_EV :: int where "SHMEM_MY_PE_EV \<equiv> 52000001"
abbreviation (input) x_MY_PE_EV :: int where "x_MY_PE_EV \<equiv> 52000002"
abbreviation (input) SHMEM_N_PES_EV :: int where "SHMEM_N_PES_EV \<equiv> 52000003"
abbreviation (input) x_NUM_PES_EV :: int where "x_NUM_PES_EV \<equiv> 52000004"
abbreviation (input) SHMEM_PE_ACCESSIBLE_EV :: int where "SHMEM_PE_ACCESSIBLE_EV \<equiv> 52000005"
abbreviation (input) SHMEM_ADDR_ACCESSIBLE_EV :: int where "SHMEM_ADDR_ACCESSIBLE_EV \<equiv> 52000006"
abbreviation (input) SHMEM_PTR_EV :: int where "SHMEM_PTR_EV \<equiv> 52000007"
abbreviation (input) SHMALLOC_EV :: int where "SHMALLOC_EV \<equiv> 52000008"
abbreviation (input) SHFREE_EV :: int where "SHFREE_EV \<equiv> 52000009"
abbreviation (input) SHREALLOC_EV :: int where "SHREALLOC_EV \<equiv> 52000010"
abbreviation (input) SHMEMALIGN_EV :: int where "SHMEMALIGN_EV \<equiv> 52000011"
abbreviation (input) SHMEM_DOUBLE_PUT_EV :: int where "SHMEM_DOUBLE_PUT_EV \<equiv> 52000012"
abbreviation (input) SHMEM_FLOAT_PUT_EV :: int where "SHMEM_FLOAT_PUT_EV \<equiv> 52000013"
abbreviation (input) SHMEM_INT_PUT_EV :: int where "SHMEM_INT_PUT_EV \<equiv> 52000014"
abbreviation (input) SHMEM_LONG_PUT_EV :: int where "SHMEM_LONG_PUT_EV \<equiv> 52000015"
abbreviation (input) SHMEM_LONGDOUBLE_PUT_EV :: int where "SHMEM_LONGDOUBLE_PUT_EV \<equiv> 52000016"
abbreviation (input) SHMEM_LONGLONG_PUT_EV :: int where "SHMEM_LONGLONG_PUT_EV \<equiv> 52000017"
abbreviation (input) SHMEM_PUT32_EV :: int where "SHMEM_PUT32_EV \<equiv> 52000018"
abbreviation (input) SHMEM_PUT64_EV :: int where "SHMEM_PUT64_EV \<equiv> 52000019"
abbreviation (input) SHMEM_PUT128_EV :: int where "SHMEM_PUT128_EV \<equiv> 52000020"
abbreviation (input) SHMEM_PUTMEM_EV :: int where "SHMEM_PUTMEM_EV \<equiv> 52000021"
abbreviation (input) SHMEM_SHORT_PUT_EV :: int where "SHMEM_SHORT_PUT_EV \<equiv> 52000022"
abbreviation (input) SHMEM_CHAR_P_EV :: int where "SHMEM_CHAR_P_EV \<equiv> 52000023"
abbreviation (input) SHMEM_SHORT_P_EV :: int where "SHMEM_SHORT_P_EV \<equiv> 52000024"
abbreviation (input) SHMEM_INT_P_EV :: int where "SHMEM_INT_P_EV \<equiv> 52000025"
abbreviation (input) SHMEM_LONG_P_EV :: int where "SHMEM_LONG_P_EV \<equiv> 52000026"
abbreviation (input) SHMEM_LONGLONG_P_EV :: int where "SHMEM_LONGLONG_P_EV \<equiv> 52000027"
abbreviation (input) SHMEM_FLOAT_P_EV :: int where "SHMEM_FLOAT_P_EV \<equiv> 52000028"
abbreviation (input) SHMEM_DOUBLE_P_EV :: int where "SHMEM_DOUBLE_P_EV \<equiv> 52000029"
abbreviation (input) SHMEM_LONGDOUBLE_P_EV :: int where "SHMEM_LONGDOUBLE_P_EV \<equiv> 52000030"
abbreviation (input) SHMEM_DOUBLE_IPUT_EV :: int where "SHMEM_DOUBLE_IPUT_EV \<equiv> 52000031"
abbreviation (input) SHMEM_FLOAT_IPUT_EV :: int where "SHMEM_FLOAT_IPUT_EV \<equiv> 52000032"
abbreviation (input) SHMEM_INT_IPUT_EV :: int where "SHMEM_INT_IPUT_EV \<equiv> 52000033"
abbreviation (input) SHMEM_IPUT32_EV :: int where "SHMEM_IPUT32_EV \<equiv> 52000034"
abbreviation (input) SHMEM_IPUT64_EV :: int where "SHMEM_IPUT64_EV \<equiv> 52000035"
abbreviation (input) SHMEM_IPUT128_EV :: int where "SHMEM_IPUT128_EV \<equiv> 52000036"
abbreviation (input) SHMEM_LONG_IPUT_EV :: int where "SHMEM_LONG_IPUT_EV \<equiv> 52000037"
abbreviation (input) SHMEM_LONGDOUBLE_IPUT_EV :: int where "SHMEM_LONGDOUBLE_IPUT_EV \<equiv> 52000038"
abbreviation (input) SHMEM_LONGLONG_IPUT_EV :: int where "SHMEM_LONGLONG_IPUT_EV \<equiv> 52000039"
abbreviation (input) SHMEM_SHORT_IPUT_EV :: int where "SHMEM_SHORT_IPUT_EV \<equiv> 52000040"
abbreviation (input) SHMEM_DOUBLE_GET_EV :: int where "SHMEM_DOUBLE_GET_EV \<equiv> 52000041"
abbreviation (input) SHMEM_FLOAT_GET_EV :: int where "SHMEM_FLOAT_GET_EV \<equiv> 52000042"
abbreviation (input) SHMEM_GET32_EV :: int where "SHMEM_GET32_EV \<equiv> 52000043"
abbreviation (input) SHMEM_GET64_EV :: int where "SHMEM_GET64_EV \<equiv> 52000044"
abbreviation (input) SHMEM_GET128_EV :: int where "SHMEM_GET128_EV \<equiv> 52000045"
abbreviation (input) SHMEM_GETMEM_EV :: int where "SHMEM_GETMEM_EV \<equiv> 52000046"
abbreviation (input) SHMEM_INT_GET_EV :: int where "SHMEM_INT_GET_EV \<equiv> 52000047"
abbreviation (input) SHMEM_LONG_GET_EV :: int where "SHMEM_LONG_GET_EV \<equiv> 52000048"
abbreviation (input) SHMEM_LONGDOUBLE_GET_EV :: int where "SHMEM_LONGDOUBLE_GET_EV \<equiv> 52000049"
abbreviation (input) SHMEM_LONGLONG_GET_EV :: int where "SHMEM_LONGLONG_GET_EV \<equiv> 52000050"
abbreviation (input) SHMEM_SHORT_GET_EV :: int where "SHMEM_SHORT_GET_EV \<equiv> 52000051"
abbreviation (input) SHMEM_CHAR_G_EV :: int where "SHMEM_CHAR_G_EV \<equiv> 52000052"
abbreviation (input) SHMEM_SHORT_G_EV :: int where "SHMEM_SHORT_G_EV \<equiv> 52000053"
abbreviation (input) SHMEM_INT_G_EV :: int where "SHMEM_INT_G_EV \<equiv> 52000054"
abbreviation (input) SHMEM_LONG_G_EV :: int where "SHMEM_LONG_G_EV \<equiv> 52000055"
abbreviation (input) SHMEM_LONGLONG_G_EV :: int where "SHMEM_LONGLONG_G_EV \<equiv> 52000056"
abbreviation (input) SHMEM_FLOAT_G_EV :: int where "SHMEM_FLOAT_G_EV \<equiv> 52000057"
abbreviation (input) SHMEM_DOUBLE_G_EV :: int where "SHMEM_DOUBLE_G_EV \<equiv> 52000058"
abbreviation (input) SHMEM_LONGDOUBLE_G_EV :: int where "SHMEM_LONGDOUBLE_G_EV \<equiv> 52000059"
abbreviation (input) SHMEM_DOUBLE_IGET_EV :: int where "SHMEM_DOUBLE_IGET_EV \<equiv> 52000060"
abbreviation (input) SHMEM_FLOAT_IGET_EV :: int where "SHMEM_FLOAT_IGET_EV \<equiv> 52000061"
abbreviation (input) SHMEM_IGET32_EV :: int where "SHMEM_IGET32_EV \<equiv> 52000062"
abbreviation (input) SHMEM_IGET64_EV :: int where "SHMEM_IGET64_EV \<equiv> 52000063"
abbreviation (input) SHMEM_IGET128_EV :: int where "SHMEM_IGET128_EV \<equiv> 52000064"
abbreviation (input) SHMEM_INT_IGET_EV :: int where "SHMEM_INT_IGET_EV \<equiv> 52000065"
abbreviation (input) SHMEM_LONG_IGET_EV :: int where "SHMEM_LONG_IGET_EV \<equiv> 52000066"
abbreviation (input) SHMEM_LONGDOUBLE_IGET_EV :: int where "SHMEM_LONGDOUBLE_IGET_EV \<equiv> 52000067"
abbreviation (input) SHMEM_LONGLONG_IGET_EV :: int where "SHMEM_LONGLONG_IGET_EV \<equiv> 52000068"
abbreviation (input) SHMEM_SHORT_IGET_EV :: int where "SHMEM_SHORT_IGET_EV \<equiv> 52000069"
abbreviation (input) SHMEM_INT_ADD_EV :: int where "SHMEM_INT_ADD_EV \<equiv> 52000070"
abbreviation (input) SHMEM_LONG_ADD_EV :: int where "SHMEM_LONG_ADD_EV \<equiv> 52000071"
abbreviation (input) SHMEM_LONGLONG_ADD_EV :: int where "SHMEM_LONGLONG_ADD_EV \<equiv> 52000072"
abbreviation (input) SHMEM_INT_CSWAP_EV :: int where "SHMEM_INT_CSWAP_EV \<equiv> 52000073"
abbreviation (input) SHMEM_LONG_CSWAP_EV :: int where "SHMEM_LONG_CSWAP_EV \<equiv> 52000074"
abbreviation (input) SHMEM_LONGLONG_CSWAP_EV :: int where "SHMEM_LONGLONG_CSWAP_EV \<equiv> 52000075"
abbreviation (input) SHMEM_DOUBLE_SWAP_EV :: int where "SHMEM_DOUBLE_SWAP_EV \<equiv> 52000076"
abbreviation (input) SHMEM_FLOAT_SWAP_EV :: int where "SHMEM_FLOAT_SWAP_EV \<equiv> 52000077"
abbreviation (input) SHMEM_INT_SWAP_EV :: int where "SHMEM_INT_SWAP_EV \<equiv> 52000078"
abbreviation (input) SHMEM_LONG_SWAP_EV :: int where "SHMEM_LONG_SWAP_EV \<equiv> 52000079"
abbreviation (input) SHMEM_LONGLONG_SWAP_EV :: int where "SHMEM_LONGLONG_SWAP_EV \<equiv> 52000080"
abbreviation (input) SHMEM_SWAP_EV :: int where "SHMEM_SWAP_EV \<equiv> 52000081"
abbreviation (input) SHMEM_INT_FINC_EV :: int where "SHMEM_INT_FINC_EV \<equiv> 52000082"
abbreviation (input) SHMEM_LONG_FINC_EV :: int where "SHMEM_LONG_FINC_EV \<equiv> 52000083"
abbreviation (input) SHMEM_LONGLONG_FINC_EV :: int where "SHMEM_LONGLONG_FINC_EV \<equiv> 52000084"
abbreviation (input) SHMEM_INT_INC_EV :: int where "SHMEM_INT_INC_EV \<equiv> 52000085"
abbreviation (input) SHMEM_LONG_INC_EV :: int where "SHMEM_LONG_INC_EV \<equiv> 52000086"
abbreviation (input) SHMEM_LONGLONG_INC_EV :: int where "SHMEM_LONGLONG_INC_EV \<equiv> 52000087"
abbreviation (input) SHMEM_INT_FADD_EV :: int where "SHMEM_INT_FADD_EV \<equiv> 52000088"
abbreviation (input) SHMEM_LONG_FADD_EV :: int where "SHMEM_LONG_FADD_EV \<equiv> 52000089"
abbreviation (input) SHMEM_LONGLONG_FADD_EV :: int where "SHMEM_LONGLONG_FADD_EV \<equiv> 52000090"
abbreviation (input) SHMEM_BARRIER_ALL_EV :: int where "SHMEM_BARRIER_ALL_EV \<equiv> 52000091"
abbreviation (input) SHMEM_BARRIER_EV :: int where "SHMEM_BARRIER_EV \<equiv> 52000092"
abbreviation (input) SHMEM_BROADCAST32_EV :: int where "SHMEM_BROADCAST32_EV \<equiv> 52000093"
abbreviation (input) SHMEM_BROADCAST64_EV :: int where "SHMEM_BROADCAST64_EV \<equiv> 52000094"
abbreviation (input) SHMEM_COLLECT32_EV :: int where "SHMEM_COLLECT32_EV \<equiv> 52000095"
abbreviation (input) SHMEM_COLLECT64_EV :: int where "SHMEM_COLLECT64_EV \<equiv> 52000096"
abbreviation (input) SHMEM_FCOLLECT32_EV :: int where "SHMEM_FCOLLECT32_EV \<equiv> 52000097"
abbreviation (input) SHMEM_FCOLLECT64_EV :: int where "SHMEM_FCOLLECT64_EV \<equiv> 52000098"
abbreviation (input) SHMEM_INT_AND_TO_ALL_EV :: int where "SHMEM_INT_AND_TO_ALL_EV \<equiv> 52000099"
abbreviation (input) SHMEM_LONG_AND_TO_ALL_EV :: int where "SHMEM_LONG_AND_TO_ALL_EV \<equiv> 52000100"
abbreviation (input) SHMEM_LONGLONG_AND_TO_ALL_EV :: int where "SHMEM_LONGLONG_AND_TO_ALL_EV \<equiv> 52000101"
abbreviation (input) SHMEM_SHORT_AND_TO_ALL_EV :: int where "SHMEM_SHORT_AND_TO_ALL_EV \<equiv> 52000102"
abbreviation (input) SHMEM_DOUBLE_MAX_TO_ALL_EV :: int where "SHMEM_DOUBLE_MAX_TO_ALL_EV \<equiv> 52000103"
abbreviation (input) SHMEM_FLOAT_MAX_TO_ALL_EV :: int where "SHMEM_FLOAT_MAX_TO_ALL_EV \<equiv> 52000104"
abbreviation (input) SHMEM_INT_MAX_TO_ALL_EV :: int where "SHMEM_INT_MAX_TO_ALL_EV \<equiv> 52000105"
abbreviation (input) SHMEM_LONG_MAX_TO_ALL_EV :: int where "SHMEM_LONG_MAX_TO_ALL_EV \<equiv> 52000106"
abbreviation (input) SHMEM_LONGDOUBLE_MAX_TO_ALL_EV :: int where "SHMEM_LONGDOUBLE_MAX_TO_ALL_EV \<equiv> 52000107"
abbreviation (input) SHMEM_LONGLONG_MAX_TO_ALL_EV :: int where "SHMEM_LONGLONG_MAX_TO_ALL_EV \<equiv> 52000108"
abbreviation (input) SHMEM_SHORT_MAX_TO_ALL_EV :: int where "SHMEM_SHORT_MAX_TO_ALL_EV \<equiv> 52000109"
abbreviation (input) SHMEM_DOUBLE_MIN_TO_ALL_EV :: int where "SHMEM_DOUBLE_MIN_TO_ALL_EV \<equiv> 52000110"
abbreviation (input) SHMEM_INT_WAIT_EV :: int where "SHMEM_INT_WAIT_EV \<equiv> 52000111"
abbreviation (input) SHMEM_INT_WAIT_UNTIL_EV :: int where "SHMEM_INT_WAIT_UNTIL_EV \<equiv> 52000112"
abbreviation (input) SHMEM_LONG_WAIT_EV :: int where "SHMEM_LONG_WAIT_EV \<equiv> 52000113"
abbreviation (input) SHMEM_LONG_WAIT_UNTIL_EV :: int where "SHMEM_LONG_WAIT_UNTIL_EV \<equiv> 52000114"
abbreviation (input) SHMEM_LONGLONG_WAIT_EV :: int where "SHMEM_LONGLONG_WAIT_EV \<equiv> 52000115"
abbreviation (input) SHMEM_LONGLONG_WAIT_UNTIL_EV :: int where "SHMEM_LONGLONG_WAIT_UNTIL_EV \<equiv> 52000116"
abbreviation (input) SHMEM_SHORT_WAIT_EV :: int where "SHMEM_SHORT_WAIT_EV \<equiv> 52000117"
abbreviation (input) SHMEM_SHORT_WAIT_UNTIL_EV :: int where "SHMEM_SHORT_WAIT_UNTIL_EV \<equiv> 52000118"
abbreviation (input) SHMEM_WAIT_EV :: int where "SHMEM_WAIT_EV \<equiv> 52000119"
abbreviation (input) SHMEM_WAIT_UNTIL_EV :: int where "SHMEM_WAIT_UNTIL_EV \<equiv> 52000120"
abbreviation (input) SHMEM_FENCE_EV :: int where "SHMEM_FENCE_EV \<equiv> 52000121"
abbreviation (input) SHMEM_QUIET_EV :: int where "SHMEM_QUIET_EV \<equiv> 52000122"
abbreviation (input) SHMEM_CLEAR_LOCK_EV :: int where "SHMEM_CLEAR_LOCK_EV \<equiv> 52000123"
abbreviation (input) SHMEM_SET_LOCK_EV :: int where "SHMEM_SET_LOCK_EV \<equiv> 52000124"
abbreviation (input) SHMEM_TEST_LOCK_EV :: int where "SHMEM_TEST_LOCK_EV \<equiv> 52000125"
abbreviation (input) SHMEM_CLEAR_CACHE_INV_EV :: int where "SHMEM_CLEAR_CACHE_INV_EV \<equiv> 52000126"
abbreviation (input) SHMEM_SET_CACHE_INV_EV :: int where "SHMEM_SET_CACHE_INV_EV \<equiv> 52000127"
abbreviation (input) SHMEM_CLEAR_CACHE_LINE_INV_EV :: int where "SHMEM_CLEAR_CACHE_LINE_INV_EV \<equiv> 52000128"
abbreviation (input) SHMEM_SET_CACHE_LINE_INV_EV :: int where "SHMEM_SET_CACHE_LINE_INV_EV \<equiv> 52000129"
abbreviation (input) SHMEM_UDCFLUSH_EV :: int where "SHMEM_UDCFLUSH_EV \<equiv> 52000130"
abbreviation (input) SHMEM_UDCFLUSH_LINE_EV :: int where "SHMEM_UDCFLUSH_LINE_EV \<equiv> 52000131"

text \<open>On-line analysis.\<close>

abbreviation (input) ONLINE_STATE_EV :: int where "ONLINE_STATE_EV \<equiv> 666000"
abbreviation (input) PERIODICITY_EV :: int where "PERIODICITY_EV \<equiv> 666001"
abbreviation (input) DETAIL_LEVEL_EV :: int where "DETAIL_LEVEL_EV \<equiv> 666002"
abbreviation (input) RAW_PERIODICITY_EV :: int where "RAW_PERIODICITY_EV \<equiv> 666003"
abbreviation (input) RAW_BEST_ITERS_EV :: int where "RAW_BEST_ITERS_EV \<equiv> 666004"

section \<open>Groups\<close>

definition misc_events :: "int list" where
  "misc_events = [
    FLUSH_EV, OPEN_EV, FOPEN_EV, READ_EV, WRITE_EV, FREAD_EV, FWRITE_EV, PREAD_EV, PWRITE_EV, READV_EV, WRITEV_EV,
    PREADV_EV, PWRITEV_EV, APPL_EV, USER_EV, HWC_DEF_EV, HWC_CHANGE_EV, HWC_EV, TRACING_EV, SET_TRACE_EV, CALLER_EV,
    CPU_BURST_EV, RUSAGE_EV, MEMUSAGE_EV, MPI_STATS_EV, USRFUNC_EV, SAMPLING_EV, SAMPLING_ADDRESS_LD_EV,
    SAMPLING_ADDRESS_ST_EV, SAMPLING_ADDRESS_MEM_LEVEL_EV, SAMPLING_ADDRESS_TLB_LEVEL_EV,
    SAMPLING_ADDRESS_REFERENCE_COST_EV, HWC_SET_OVERFLOW_EV, TRACING_MODE_EV, ONLINE_EV, USER_SEND_EV, USER_RECV_EV,
    RESUME_VIRTUAL_THREAD_EV, SUSPEND_VIRTUAL_THREAD_EV, TRACE_INIT_EV, REGISTER_STACKED_TYPE_EV,
    REGISTER_CODELOCATION_TYPE_EV, FORK_EV, WAIT_EV, WAITPID_EV, EXEC_EV, GETCPU_EV, CPU_EVENT_INTERVAL_EV, SYSTEM_EV,
    MALLOC_EV, FREE_EV, CALLOC_EV, REALLOC_EV, POSIX_MEMALIGN_EV, MEMKIND_MALLOC_EV, MEMKIND_CALLOC_EV,
    MEMKIND_REALLOC_EV, MEMKIND_POSIX_MEMALIGN_EV, MEMKIND_FREE_EV, MEMKIND_PARTITION_EV, SYSCALL_EV, KMPC_MALLOC_EV,
    KMPC_FREE_EV, KMPC_CALLOC_EV, KMPC_REALLOC_EV, KMPC_ALIGNED_MALLOC_EV]"

definition omp_events :: "int list" where
  "omp_events = [
    OMPFUNC_EV, PAR_EV, WSH_EV, BARRIEROMP_EV, UNNAMEDCRIT_EV, NAMEDCRIT_EV, WORK_EV, JOIN_EV, OMPSETNUMTHREADS_EV,
    OMPGETNUMTHREADS_EV, TASK_EV, TASKWAIT_EV, TASKFUNC_EV, TASKFUNC_LINE_EV, OMPT_CRITICAL_EV, OMPT_ATOMIC_EV,
    OMPT_LOOP_EV, OMPT_WORKSHARE_EV, OMPT_SECTIONS_EV, OMPT_SINGLE_EV, OMPT_MASTER_EV, TASKGROUP_START_EV,
    TASKGROUP_END_EV, TASKID_EV, TASKLOOPID_EV, OMPT_TASKGROUP_IN_EV, OMPT_DEPENDENCE_EV, OMPT_TASKFUNC_EV,
    OMP_STATS_EV, TASKLOOP_EV, ORDERED_EV]"

definition pthread_events :: "int list" where
  "pthread_events = [
    PTHREAD_CREATE_EV, PTHREAD_JOIN_EV, PTHREAD_DETACH_EV, PTHREAD_FUNC_EV, PTHREAD_RWLOCK_WR_EV,
    PTHREAD_RWLOCK_RD_EV, PTHREAD_RWLOCK_UNLOCK_EV, PTHREAD_MUTEX_LOCK_EV, PTHREAD_MUTEX_UNLOCK_EV,
    PTHREAD_COND_SIGNAL_EV, PTHREAD_COND_BROADCAST_EV, PTHREAD_COND_WAIT_EV, PTHREAD_EXIT_EV,
    PTHREAD_BARRIER_WAIT_EV]"

definition java_events :: "int list" where
  "java_events = [
    JAVA_JVMTI_GARBAGECOLLECTOR_EV, JAVA_JVMTI_EXCEPTION_EV, JAVA_JVMTI_OBJECT_ALLOC_EV, JAVA_JVMTI_OBJECT_FREE_EV]"

definition cuda_events :: "int list" where
  "cuda_events = [
    CUDALAUNCH_EV, CUDACONFIGCALL_EV, CUDAMEMCPY_EV, CUDAMEMCPYASYNC_EV, CUDATHREADBARRIER_EV, CUDASTREAMBARRIER_EV,
    CUDASTREAMCREATE_EV, CUDADEVICERESET_EV, CUDATHREADEXIT_EV, CUDAKERNEL_GPU_EV, CUDACONFIGKERNEL_GPU_EV,
    CUDAMEMCPY_GPU_EV, CUDAMEMCPYASYNC_GPU_EV, CUDATHREADBARRIER_GPU_EV]"

definition opencl_events :: "int list" where
  "opencl_events = [
    OPENCL_CLCREATEBUFFER_EV, OPENCL_CLCREATECOMMANDQUEUE_EV, OPENCL_CLCREATECONTEXT_EV,
    OPENCL_CLCREATECONTEXTFROMTYPE_EV, OPENCL_CLCREATESUBBUFFER_EV, OPENCL_CLCREATEKERNEL_EV,
    OPENCL_CLCREATEKERNELSINPROGRAM_EV, OPENCL_CLSETKERNELARG_EV, OPENCL_CLCREATEPROGRAMWITHSOURCE_EV,
    OPENCL_CLCREATEPROGRAMWITHBINARY_EV, OPENCL_CLCREATEPROGRAMWITHBUILTINKERNELS_EV, OPENCL_CLENQUEUEFILLBUFFER_EV,
    OPENCL_CLENQUEUECOPYBUFFER_EV, OPENCL_CLENQUEUECOPYBUFFERRECT_EV, OPENCL_CLENQUEUENDRANGEKERNEL_EV,
    OPENCL_CLENQUEUETASK_EV, OPENCL_CLENQUEUENATIVEKERNEL_EV, OPENCL_CLENQUEUEREADBUFFER_EV,
    OPENCL_CLENQUEUEREADBUFFERRECT_EV, OPENCL_CLENQUEUEWRITEBUFFER_EV, OPENCL_CLENQUEUEWRITEBUFFERRECT_EV,
    OPENCL_CLBUILDPROGRAM_EV, OPENCL_CLCOMPILEPROGRAM_EV, OPENCL_CLLINKPROGRAM_EV, OPENCL_CLFINISH_EV,
    OPENCL_CLFLUSH_EV, OPENCL_CLWAITFOREVENTS_EV, OPENCL_CLENQUEUEMARKERWITHWAITLIST_EV,
    OPENCL_CLENQUEUEBARRIERWITHWAITLIST_EV, OPENCL_CLENQUEUEMAPBUFFER_EV, OPENCL_CLENQUEUEUNMAPMEMOBJECT_EV,
    OPENCL_CLENQUEUEMIGRATEMEMOBJECTS_EV, OPENCL_CLENQUEUEMARKER_EV, OPENCL_CLENQUEUEBARRIER_EV,
    OPENCL_CLENQUEUEFILLBUFFER_ACC_EV, OPENCL_CLENQUEUECOPYBUFFER_ACC_EV, OPENCL_CLENQUEUECOPYBUFFERRECT_ACC_EV,
    OPENCL_CLENQUEUENDRANGEKERNEL_ACC_EV, OPENCL_CLENQUEUETASK_ACC_EV, OPENCL_CLENQUEUENATIVEKERNEL_ACC_EV,
    OPENCL_CLENQUEUEREADBUFFER_ACC_EV, OPENCL_CLENQUEUEREADBUFFERRECT_ACC_EV, OPENCL_CLENQUEUEWRITEBUFFER_ACC_EV,
    OPENCL_CLENQUEUEWRITEBUFFERRECT_ACC_EV, OPENCL_CLENQUEUEMARKERWITHWAITLIST_ACC_EV,
    OPENCL_CLENQUEUEBARRIERWITHWAITLIST_ACC_EV, OPENCL_CLENQUEUEMAPBUFFER_ACC_EV,
    OPENCL_CLENQUEUEUNMAPMEMOBJECT_ACC_EV, OPENCL_CLENQUEUEMIGRATEMEMOBJECTS_ACC_EV, OPENCL_CLENQUEUEMARKER_ACC_EV,
    OPENCL_CLENQUEUEBARRIER_ACC_EV, OPENCL_CLRETAINCOMMANDQUEUE_EV, OPENCL_CLRELEASECOMMANDQUEUE_EV,
    OPENCL_CLRETAINCONTEXT_EV, OPENCL_CLRELEASECONTEXT_EV, OPENCL_CLRETAINDEVICE_EV, OPENCL_CLRELEASEDEVICE_EV,
    OPENCL_CLRETAINEVENT_EV, OPENCL_CLRELEASEEVENT_EV, OPENCL_CLRETAINKERNEL_EV, OPENCL_CLRELEASEKERNEL_EV,
    OPENCL_CLRETAINMEMOBJECT_EV, OPENCL_CLRELEASEMEMOBJECT_EV, OPENCL_CLRETAINPROGRAM_EV, OPENCL_CLRELEASEPROGRAM_EV,
    OPENCL_CLENQUEUEREADBUFFER_ASYNC_EV, OPENCL_CLENQUEUEREADBUFFERRECT_ASYNC_EV,
    OPENCL_CLENQUEUEWRITEBUFFER_ASYNC_EV, OPENCL_CLENQUEUEWRITEBUFFERRECT_ASYNC_EV,
    OPENCL_CLENQUEUEREADBUFFER_ASYNC_ACC_EV, OPENCL_CLENQUEUEREADBUFFERRECT_ASYNC_ACC_EV,
    OPENCL_CLENQUEUEWRITEBUFFER_ASYNC_ACC_EV, OPENCL_CLENQUEUEWRITEBUFFERRECT_ASYNC_ACC_EV]"

definition openshmem_events :: "int list" where
  "openshmem_events = [
    START_PES_EV, SHMEM_MY_PE_EV, x_MY_PE_EV, SHMEM_N_PES_EV, x_NUM_PES_EV, SHMEM_PE_ACCESSIBLE_EV,
    SHMEM_ADDR_ACCESSIBLE_EV, SHMEM_PTR_EV, SHMALLOC_EV, SHFREE_EV, SHREALLOC_EV, SHMEMALIGN_EV, SHMEM_DOUBLE_PUT_EV,
    SHMEM_FLOAT_PUT_EV, SHMEM_INT_PUT_EV, SHMEM_LONG_PUT_EV, SHMEM_LONGDOUBLE_PUT_EV, SHMEM_LONGLONG_PUT_EV,
    SHMEM_PUT32_EV, SHMEM_PUT64_EV, SHMEM_PUT128_EV, SHMEM_PUTMEM_EV, SHMEM_SHORT_PUT_EV, SHMEM_CHAR_P_EV,
    SHMEM_SHORT_P_EV, SHMEM_INT_P_EV, SHMEM_LONG_P_EV, SHMEM_LONGLONG_P_EV, SHMEM_FLOAT_P_EV, SHMEM_DOUBLE_P_EV,
    SHMEM_LONGDOUBLE_P_EV, SHMEM_DOUBLE_IPUT_EV, SHMEM_FLOAT_IPUT_EV, SHMEM_INT_IPUT_EV, SHMEM_IPUT32_EV,
    SHMEM_IPUT64_EV, SHMEM_IPUT128_EV, SHMEM_LONG_IPUT_EV, SHMEM_LONGDOUBLE_IPUT_EV, SHMEM_LONGLONG_IPUT_EV,
    SHMEM_SHORT_IPUT_EV, SHMEM_DOUBLE_GET_EV, SHMEM_FLOAT_GET_EV, SHMEM_GET32_EV, SHMEM_GET64_EV, SHMEM_GET128_EV,
    SHMEM_GETMEM_EV, SHMEM_INT_GET_EV, SHMEM_LONG_GET_EV, SHMEM_LONGDOUBLE_GET_EV, SHMEM_LONGLONG_GET_EV,
    SHMEM_SHORT_GET_EV, SHMEM_CHAR_G_EV, SHMEM_SHORT_G_EV, SHMEM_INT_G_EV, SHMEM_LONG_G_EV, SHMEM_LONGLONG_G_EV,
    SHMEM_FLOAT_G_EV, SHMEM_DOUBLE_G_EV, SHMEM_LONGDOUBLE_G_EV, SHMEM_DOUBLE_IGET_EV, SHMEM_FLOAT_IGET_EV,
    SHMEM_IGET32_EV, SHMEM_IGET64_EV, SHMEM_IGET128_EV, SHMEM_INT_IGET_EV, SHMEM_LONG_IGET_EV,
    SHMEM_LONGDOUBLE_IGET_EV, SHMEM_LONGLONG_IGET_EV, SHMEM_SHORT_IGET_EV, SHMEM_INT_ADD_EV, SHMEM_LONG_ADD_EV,
    SHMEM_LONGLONG_ADD_EV, SHMEM_INT_CSWAP_EV, SHMEM_LONG_CSWAP_EV, SHMEM_LONGLONG_CSWAP_EV, SHMEM_DOUBLE_SWAP_EV,
    SHMEM_FLOAT_SWAP_EV, SHMEM_INT_SWAP_EV, SHMEM_LONG_SWAP_EV, SHMEM_LONGLONG_SWAP_EV, SHMEM_SWAP_EV,
    SHMEM_INT_FINC_EV, SHMEM_LONG_FINC_EV, SHMEM_LONGLONG_FINC_EV, SHMEM_INT_INC_EV, SHMEM_LONG_INC_EV,
    SHMEM_LONGLONG_INC_EV, SHMEM_INT_FADD_EV, SHMEM_LONG_FADD_EV, SHMEM_LONGLONG_FADD_EV, SHMEM_BARRIER_ALL_EV,
    SHMEM_BARRIER_EV, SHMEM_BROADCAST32_EV, SHMEM_BROADCAST64_EV, SHMEM_COLLECT32_EV, SHMEM_COLLECT64_EV,
    SHMEM_FCOLLECT32_EV, SHMEM_FCOLLECT64_EV, SHMEM_INT_AND_TO_ALL_EV, SHMEM_LONG_AND_TO_ALL_EV,
    SHMEM_LONGLONG_AND_TO_ALL_EV, SHMEM_SHORT_AND_TO_ALL_EV, SHMEM_DOUBLE_MAX_TO_ALL_EV, SHMEM_FLOAT_MAX_TO_ALL_EV,
    SHMEM_INT_MAX_TO_ALL_EV, SHMEM_LONG_MAX_TO_ALL_EV, SHMEM_LONGDOUBLE_MAX_TO_ALL_EV, SHMEM_LONGLONG_MAX_TO_ALL_EV,
    SHMEM_SHORT_MAX_TO_ALL_EV, SHMEM_DOUBLE_MIN_TO_ALL_EV, SHMEM_INT_WAIT_EV, SHMEM_INT_WAIT_UNTIL_EV,
    SHMEM_LONG_WAIT_EV, SHMEM_LONG_WAIT_UNTIL_EV, SHMEM_LONGLONG_WAIT_EV, SHMEM_LONGLONG_WAIT_UNTIL_EV,
    SHMEM_SHORT_WAIT_EV, SHMEM_SHORT_WAIT_UNTIL_EV, SHMEM_WAIT_EV, SHMEM_WAIT_UNTIL_EV, SHMEM_FENCE_EV,
    SHMEM_QUIET_EV, SHMEM_CLEAR_LOCK_EV, SHMEM_SET_LOCK_EV, SHMEM_TEST_LOCK_EV, SHMEM_CLEAR_CACHE_INV_EV,
    SHMEM_SET_CACHE_INV_EV, SHMEM_CLEAR_CACHE_LINE_INV_EV, SHMEM_SET_CACHE_LINE_INV_EV, SHMEM_UDCFLUSH_EV,
    SHMEM_UDCFLUSH_LINE_EV]"

definition IsMISC :: "int \<Rightarrow> bool" where
  "IsMISC EvType \<longleftrightarrow> CALLER_EV \<le> EvType \<and> EvType \<le> CALLER_EV + int MAX_CALLERS \<or>
     SAMPLING_EV \<le> EvType \<and> EvType \<le> SAMPLING_EV + int MAX_CALLERS \<or> EvType \<in> set misc_events"

definition IsOpenMP :: "int \<Rightarrow> bool" where
  "IsOpenMP EvType \<longleftrightarrow> EvType \<in> set omp_events"

definition IsPthread :: "int \<Rightarrow> bool" where
  "IsPthread EvType \<longleftrightarrow> EvType \<in> set pthread_events"

definition IsJava :: "int \<Rightarrow> bool" where
  "IsJava EvType \<longleftrightarrow> EvType \<in> set java_events"

definition IsCUDA :: "int \<Rightarrow> bool" where
  "IsCUDA EvType \<longleftrightarrow> EvType \<in> set cuda_events"

definition IsOpenCL :: "int \<Rightarrow> bool" where
  "IsOpenCL EvType \<longleftrightarrow> EvType \<in> set opencl_events"

definition IsOPENSHMEM :: "int \<Rightarrow> bool" where
  "IsOPENSHMEM EvType \<longleftrightarrow> EvType \<in> set openshmem_events"

definition IsBurst :: "int \<Rightarrow> bool" where
  "IsBurst EvType \<longleftrightarrow> EvType = CPU_BURST_EV"

definition IsHwcChange :: "int \<Rightarrow> bool" where
  "IsHwcChange EvType \<longleftrightarrow> EvType = HWC_CHANGE_EV"

datatype event_class = MPI_TYPE | MPI_COMM_ALIAS_TYPE | MISC_TYPE | OPENMP_TYPE | PTHREAD_TYPE | CUDA_TYPE | OPENCL_TYPE
  | OPENSHMEM_TYPE | JAVA_TYPE

text \<open>\<open>None\<close> is the result \<open>FALSE\<close>.\<close>

definition getEventType :: "int \<Rightarrow> event_class option" where
  "getEventType EvType =
     (if IsMPI EvType then Some MPI_TYPE
      else if IsMISC EvType then Some MISC_TYPE
      else if IsOpenMP EvType then Some OPENMP_TYPE
      else if IsPthread EvType then Some PTHREAD_TYPE
      else if IsCUDA EvType then Some CUDA_TYPE
      else if IsOpenCL EvType then Some OPENCL_TYPE
      else if IsOPENSHMEM EvType then Some OPENSHMEM_TYPE
      else if IsJava EvType then Some JAVA_TYPE
      else if EvType = MPI_ALIAS_COMM_CREATE_EV then Some MPI_COMM_ALIAS_TYPE
      else None)"

lemmas event_groups = misc_events_def omp_events_def pthread_events_def java_events_def cuda_events_def opencl_events_def
  openshmem_events_def

end
