(* ===== verification/Merger_Tables.thy ===== *)
theory Merger_Tables
  imports Event_Record "HOL-Library.Multiset"
begin

text \<open>
  The small tables of the merger: stacks and vectors of values (\<open>merger/common/stack.c\<close>,
  \<open>merger/common/vector.c\<close>), the allocated regions of a task (\<open>merger/common/address_space.c\<close>) and the pending
  dependencies of its threads (\<open>merger/common/thread_dependencies.c\<close>). Arrays have unset or free cells; their
  length is the allocated size.
\<close>

section \<open>Stacks and vectors\<close>

definition ALLOC_SIZE :: nat where "ALLOC_SIZE = 32"

record values_t =
  v_data :: "64 word option list"
  v_count :: nat

definition no_values :: values_t where
  "no_values = \<lparr>v_data = [], v_count = 0\<rparr>"

text \<open>Both grow when the new element would fill the array.\<close>

definition append_value :: "64 word \<Rightarrow> values_t \<Rightarrow> values_t result" where
  "append_value v s =
     (let data = (if length (v_data s) \<le> v_count s + 1 then v_data s @ replicate ALLOC_SIZE None else v_data s) in
      rmap (\<lambda>d. \<lparr>v_data = d, v_count = v_count s + 1\<rparr>) (cell_set data (v_count s) v))"

definition Stack_Init :: values_t where "Stack_Init = no_values"

definition Stack_Push :: "64 word \<Rightarrow> values_t \<Rightarrow> values_t result" where
  "Stack_Push v s = append_value v s"

definition Stack_Pop :: "values_t \<Rightarrow> values_t" where
  "Stack_Pop s = (if 0 < v_count s then if v_count s = 1 then no_values else s\<lparr>v_count := v_count s - 1\<rparr> else s)"

definition Stack_Depth :: "values_t \<Rightarrow> nat" where
  "Stack_Depth s = v_count s"

definition Stack_ValueAt :: "nat \<Rightarrow> values_t \<Rightarrow> 64 word result" where
  "Stack_ValueAt pos s = (if pos < v_count s then cell (v_data s) pos else Inr 0)"

text \<open>Of the empty stack the position is the greatest \<open>unsigned\<close>, which is out of range.\<close>

definition Stack_Top :: "values_t \<Rightarrow> 64 word result" where
  "Stack_Top s = (if v_count s = 0 then Inr 0 else Stack_ValueAt (v_count s - 1) s)"

definition Vector_Init :: values_t where "Vector_Init = no_values"

definition Vector_Search :: "64 word \<Rightarrow> values_t \<Rightarrow> bool" where
  "Vector_Search v s \<longleftrightarrow> Some v \<in> set (take (v_count s) (v_data s))"

definition Vector_Add :: "64 word \<Rightarrow> values_t \<Rightarrow> values_t result" where
  "Vector_Add v s = (if Vector_Search v s then Inr s else append_value v s)"

definition Vector_Count :: "values_t \<Rightarrow> nat" where
  "Vector_Count s = v_count s"

section \<open>Arrays with free cells\<close>

text \<open>The common part of the last two tables: an array of cells, and the number of those in use.\<close>

record 'a slots =
  cells :: "'a option list"
  used :: nat

definition no_slots :: "'a slots" where
  "no_slots = \<lparr>cells = [], used = 0\<rparr>"

definition SLOTS_ALLOC_SIZE :: nat where "SLOTS_ALLOC_SIZE = 256"

definition take_slot :: "'a \<Rightarrow> 'a slots \<Rightarrow> 'a slots" where
  "take_slot x s =
     (let cs = (if used s = length (cells s) then cells s @ replicate SLOTS_ALLOC_SIZE None else cells s) in
      case find_index (\<lambda>c. c = None) cs of None \<Rightarrow> s\<lparr>cells := cs\<rparr>
      | Some u \<Rightarrow> \<lparr>cells = cs[u := Some x], used = used s + 1\<rparr>)"

definition free_slot :: "('a \<Rightarrow> bool) \<Rightarrow> 'a slots \<Rightarrow> 'a slots" where
  "free_slot P s = (case find_index (\<lambda>c. case c of None \<Rightarrow> False | Some x \<Rightarrow> P x) (cells s) of None \<Rightarrow> s
     | Some u \<Rightarrow> \<lparr>cells = (cells s)[u := None], used = used s - 1\<rparr>)"

definition elements :: "'a slots \<Rightarrow> 'a list" where
  "elements s = concat (map (\<lambda>c. case c of None \<Rightarrow> [] | Some x \<Rightarrow> [x]) (cells s))"

section \<open>Regions\<close>

record region =
  AddressBegin :: "64 word"
  AddressEnd :: "64 word"
  CallerAddresses :: "64 word list"
  CallerType :: "32 word"

definition AddressSpace_create :: "region slots" where "AddressSpace_create = no_slots"

definition AddressSpace_add :: "64 word \<Rightarrow> 64 word \<Rightarrow> 64 word list \<Rightarrow> 32 word \<Rightarrow> region slots \<Rightarrow> region slots" where
  "AddressSpace_add from to callers ty s =
     take_slot \<lparr>AddressBegin = from, AddressEnd = to, CallerAddresses = callers, CallerType = ty\<rparr> s"

definition AddressSpace_remove :: "64 word \<Rightarrow> region slots \<Rightarrow> region slots" where
  "AddressSpace_remove from s = free_slot (\<lambda>r. AddressBegin r = from) s"

text \<open>Both bounds belong to a region.\<close>

definition covers :: "64 word \<Rightarrow> region \<Rightarrow> bool" where
  "covers a r \<longleftrightarrow> AddressBegin r \<le> a \<and> a \<le> AddressEnd r"

definition AddressSpace_search :: "64 word \<Rightarrow> region slots \<Rightarrow> (64 word list \<times> 32 word) option" where
  "AddressSpace_search a s = map_option (\<lambda>r. (CallerAddresses r, CallerType r)) (find (covers a) (elements s))"

section \<open>Dependencies\<close>

record ('d, 'p) dependency =
  dependency_data :: 'd
  predecessor_data :: "'p option"

definition ThreadDependency_create :: "('d, 'p) dependency slots" where "ThreadDependency_create = no_slots"

definition ThreadDependency_add :: "'d \<Rightarrow> ('d, 'p) dependency slots \<Rightarrow> ('d, 'p) dependency slots" where
  "ThreadDependency_add d s = take_slot \<lparr>dependency_data = d, predecessor_data = None\<rparr> s"

text \<open>The callbacks: the first may act and says whether the dependency is to be deleted.\<close>

fun delete_loop ::
  "('d \<Rightarrow> 'p \<Rightarrow> 's \<Rightarrow> (bool \<times> 's) result) \<Rightarrow> ('d, 'p) dependency option list \<Rightarrow> nat \<Rightarrow> 's \<Rightarrow>
   (('d, 'p) dependency option list \<times> nat \<times> 's) result" where
  "delete_loop cb [] n st = Inr ([], n, st)"
| "delete_loop cb (c # cs) n st =
     rbind (case c of None \<Rightarrow> Inr (c, n, st)
       | Some d \<Rightarrow> (case predecessor_data d of None \<Rightarrow> Inr (c, n, st)
         | Some p \<Rightarrow> rmap (\<lambda>(del, st1). if del then (None, n - 1, st1) else (c, n, st1)) (cb (dependency_data d) p st)))
     (\<lambda>(c1, n1, st1). rmap (\<lambda>(cs1, n2, st2). (c1 # cs1, n2, st2)) (delete_loop cb cs n1 st1))"

definition ThreadDependency_processAll_ifMatchDelete ::
  "('d \<Rightarrow> 'p \<Rightarrow> 's \<Rightarrow> (bool \<times> 's) result) \<Rightarrow> ('d, 'p) dependency slots \<Rightarrow> 's \<Rightarrow> (('d, 'p) dependency slots \<times> 's) result" where
  "ThreadDependency_processAll_ifMatchDelete cb s st =
     rmap (\<lambda>(cs, n, st1). (\<lparr>cells = cs, used = n\<rparr>, st1)) (delete_loop cb (cells s) (used s) st)"

definition ThreadDependency_processAll_ifMatchSetPredecessor ::
  "('d \<Rightarrow> 'p option option) \<Rightarrow> ('d, 'p) dependency slots \<Rightarrow> ('d, 'p) dependency slots" where
  "ThreadDependency_processAll_ifMatchSetPredecessor cb s =
     s\<lparr>cells := map (map_option (\<lambda>d. case cb (dependency_data d) of None \<Rightarrow> d | Some p \<Rightarrow> d\<lparr>predecessor_data := p\<rparr>)) (cells s)\<rparr>"

section \<open>What the tables stand for\<close>

definition values_ok :: "values_t \<Rightarrow> bool" where
  "values_ok s \<longleftrightarrow> v_count s \<le> length (v_data s) \<and> None \<notin> set (take (v_count s) (v_data s))"

definition values_of :: "values_t \<Rightarrow> 64 word list" where
  "values_of s = map the (take (v_count s) (v_data s))"

definition slots_ok :: "'a slots \<Rightarrow> bool" where
  "slots_ok s \<longleftrightarrow> used s = length (elements s)"

lemma no_values_law [simp]: "values_ok no_values" "values_of no_values = []"
  by (simp_all add: no_values_def values_ok_def values_of_def)

lemma append_value_law:
  assumes "values_ok s"
  shows "\<exists>s1. append_value v s = Inr s1 \<and> values_ok s1 \<and> values_of s1 = values_of s @ [v]"
proof -
  let ?d = "if length (v_data s) \<le> v_count s + 1 then v_data s @ replicate ALLOC_SIZE None else v_data s"
  have n: "v_count s < length ?d" "take (v_count s) ?d = take (v_count s) (v_data s)"
    using assms by (auto simp: values_ok_def ALLOC_SIZE_def)
  have "append_value v s = Inr \<lparr>v_data = ?d[v_count s := Some v], v_count = v_count s + 1\<rparr>"
    using n(1) by (simp add: append_value_def cell_set_def Let_def)
  moreover have "take (v_count s + 1) (?d[v_count s := Some v]) = take (v_count s) (v_data s) @ [Some v]"
    using n by (simp add: take_Suc_conv_app_nth)
  ultimately show ?thesis using assms n(1) by (simp add: values_ok_def values_of_def)
qed

lemma Stack_Pop_law:
  assumes "values_ok s"
  shows "values_ok (Stack_Pop s)" and "values_of (Stack_Pop s) = butlast (values_of s)"
proof -
  have n: "v_count s \<le> length (v_data s)" using assms by (simp add: values_ok_def)
  have b: "take (v_count s - 1) (v_data s) = butlast (take (v_count s) (v_data s))"
    using n by (simp add: butlast_take)
  have one: "butlast (take 1 xs) = []" for xs :: "64 word option list" by (cases xs) simp_all
  show "values_ok (Stack_Pop s)"
    using assms b by (auto simp: Stack_Pop_def values_ok_def no_values_def dest: in_set_butlastD)
  show "values_of (Stack_Pop s) = butlast (values_of s)"
    using b one[of "v_data s"] by (simp add: Stack_Pop_def values_of_def no_values_def map_butlast[symmetric])
qed

lemma Stack_ValueAt_law:
  assumes "values_ok s"
  shows "Stack_ValueAt pos s = Inr (if pos < length (values_of s) then values_of s ! pos else 0)"
proof -
  have "v_data s ! pos \<noteq> None" if "pos < v_count s"
    using assms that by (metis values_ok_def in_set_conv_nth length_take min.absorb2 nth_take)
  then show ?thesis using assms by (auto simp: Stack_ValueAt_def values_ok_def values_of_def cell_def split: option.splits)
qed

lemma set_map_the: "None \<notin> set xs \<Longrightarrow> v \<in> set (map the xs) \<longleftrightarrow> Some v \<in> set xs"
  by (induction xs) auto

lemma Vector_Search_law: "values_ok s \<Longrightarrow> Vector_Search v s \<longleftrightarrow> v \<in> set (values_of s)"
  unfolding Vector_Search_def values_of_def values_ok_def by (metis set_map_the)

text \<open>A vector is a set: adding keeps what was there and adds the value once.\<close>

lemma Vector_Add_law:
  assumes "values_ok s" "distinct (values_of s)"
  shows "\<exists>s1. Vector_Add v s = Inr s1 \<and> values_ok s1 \<and> distinct (values_of s1) \<and> set (values_of s1) = insert v (set (values_of s))"
proof (cases "v \<in> set (values_of s)")
  case True
  then show ?thesis using assms by (auto simp: Vector_Add_def Vector_Search_law)
next
  case False
  obtain s1 where "append_value v s = Inr s1" "values_ok s1" "values_of s1 = values_of s @ [v]"
    using append_value_law[OF assms(1)] by blast
  then show ?thesis using False assms by (auto simp: Vector_Add_def Vector_Search_law)
qed

text \<open>The cells.\<close>

primrec cell_contents :: "'a option list \<Rightarrow> 'a multiset" where
  "cell_contents [] = {#}"
| "cell_contents (c # cs) = (case c of None \<Rightarrow> {#} | Some x \<Rightarrow> {#x#}) + cell_contents cs"

lemma cell_contents_append [simp]: "cell_contents (cs @ ds) = cell_contents cs + cell_contents ds"
  by (induction cs) simp_all

lemma cell_contents_replicate [simp]: "cell_contents (replicate n None) = {#}"
  by (induction n) simp_all

lemma cell_contents_update: "u < length cs \<Longrightarrow> cell_contents (cs[u := c]) + cell_contents [cs ! u] = cell_contents cs + cell_contents [c]"
proof (induction cs arbitrary: u)
  case (Cons a cs)
  then show ?case by (cases u) (auto simp: ac_simps)
qed simp

lemma cell_contents_bound: "size (cell_contents cs) \<le> length cs"
  by (induction cs) (auto split: option.splits)

lemma cell_contents_full: "size (cell_contents cs) = length cs \<longleftrightarrow> None \<notin> set cs"
proof (induction cs)
  case (Cons c cs)
  then show ?case using cell_contents_bound[of cs] by (cases c) auto
qed simp

definition slots_of :: "'a slots \<Rightarrow> 'a multiset" where
  "slots_of s = cell_contents (cells s)"

lemma slots_of_elements: "slots_of s = mset (elements s)"
proof -
  have "cell_contents cs = mset (concat (map (\<lambda>c. case c of None \<Rightarrow> [] | Some x \<Rightarrow> [x]) cs))" for cs :: "'a option list"
    by (induction cs) (auto split: option.splits)
  then show ?thesis by (simp add: slots_of_def elements_def)
qed

lemma slots_ok_size: "slots_ok s \<longleftrightarrow> used s = size (slots_of s)"
  by (simp add: slots_ok_def slots_of_elements)

lemma cell_update:
  "i < length cs \<Longrightarrow> cs ! i = None \<Longrightarrow> cell_contents (cs[i := Some x]) = add_mset x (cell_contents cs)"
  "i < length cs \<Longrightarrow> cs ! i = Some x \<Longrightarrow> cell_contents (cs[i := None]) = cell_contents cs - {#x#} \<and> x \<in># cell_contents cs"
  using cell_contents_update[of i cs "Some x"] cell_contents_update[of i cs None] by auto (metis add_mset_remove_trivial union_single_eq_member)+

lemma free_cell:
  assumes "size (cell_contents cs) \<noteq> length cs"
  obtains i where "find_index (\<lambda>c. c = None) cs = Some i" "i < length cs" "cs ! i = None"
proof -
  have "None \<in> set cs" using assms by (metis cell_contents_full)
  then show ?thesis using that
    by (metis (mono_tags, lifting) find_index_None find_index_Some not_Some_eq)
qed

lemma take_slot_law:
  assumes "slots_ok s"
  shows "slots_ok (take_slot x s) \<and> slots_of (take_slot x s) = add_mset x (slots_of s)"
proof -
  define cs where "cs = (if used s = length (cells s) then cells s @ replicate SLOTS_ALLOC_SIZE None else cells s)"
  have u: "used s = size (slots_of s)" using assms by (simp add: slots_ok_size)
  have c: "cell_contents cs = slots_of s" by (simp add: cs_def slots_of_def)
  have "size (cell_contents cs) \<noteq> length cs"
    using u unfolding c by (simp add: cs_def SLOTS_ALLOC_SIZE_def)
  then obtain i where i: "find_index (\<lambda>c. c = None) cs = Some i" "i < length cs" "cs ! i = None"
    by (rule free_cell)
  have t: "take_slot x s = \<lparr>cells = cs[i := Some x], used = used s + 1\<rparr>"
    using i(1) by (simp add: take_slot_def cs_def[symmetric] Let_def)
  have "slots_of (take_slot x s) = add_mset x (slots_of s)"
    using cell_update(1)[OF i(2,3)] c by (simp add: t slots_of_def)
  then show ?thesis using u by (simp add: slots_ok_size) (simp add: t)
qed

lemma find_cells:
  "case find_index (\<lambda>c. case c of None \<Rightarrow> False | Some x \<Rightarrow> P x) cs of
     None \<Rightarrow> find P (concat (map (\<lambda>c. case c of None \<Rightarrow> [] | Some x \<Rightarrow> [x]) cs)) = None
   | Some i \<Rightarrow> i < length cs \<and> (\<exists>x. cs ! i = Some x \<and> find P (concat (map (\<lambda>c. case c of None \<Rightarrow> [] | Some x \<Rightarrow> [x]) cs)) = Some x)"
  by (induction cs) (auto split: option.splits)

text \<open>Freeing removes the first element that matches.\<close>

lemma free_slot_law:
  assumes "slots_ok s"
  shows "slots_ok (free_slot P s) \<and>
    slots_of (free_slot P s) = (case find P (elements s) of None \<Rightarrow> slots_of s | Some x \<Rightarrow> slots_of s - {#x#})"
proof (cases "find_index (\<lambda>c. case c of None \<Rightarrow> False | Some x \<Rightarrow> P x) (cells s)")
  case None
  then show ?thesis using assms find_cells[of P "cells s"] by (simp add: free_slot_def elements_def)
next
  case (Some i)
  obtain x where x: "i < length (cells s)" "cells s ! i = Some x" "find P (elements s) = Some x"
    using find_cells[of P "cells s"] by (auto simp: Some elements_def)
  have f: "free_slot P s = \<lparr>cells = (cells s)[i := None], used = used s - 1\<rparr>"
    by (simp add: free_slot_def Some)
  have "slots_of (free_slot P s) = slots_of s - {#x#}" "x \<in># slots_of s"
    using cell_update(2)[OF x(1,2)] by (simp_all add: slots_of_def f)
  then show ?thesis using assms x(3) by (simp add: slots_ok_size size_Diff_singleton) (simp add: f)
qed

end
