(* ===== verification/Merger_State.thy ===== *)
theory Merger_State
  imports Prv_Timeline Time_Sync Intercommunicators Event_Types Merger_Tables
begin

text \<open>
  The state of the merger while it translates events: the threads and tasks of the object table
  (\<open>merger/common/object_tree.h\<close>), the flags of the enabled tasks, the used operations; the options and tables
  that stay the same; and the operations on them (\<open>merger/paraver/file_set.c\<close>,
  \<open>merger/paraver/trace_communication.c\<close>). Numbers of applications, tasks and threads start at one; a lookup
  outside the table is undefined. The sequential merger is modelled (without \<open>PARALLEL_MERGE\<close>).
\<close>

text \<open>Where and when the predecessor of a dependent task ended.\<close>

record predecessor =
  pred_time :: "64 word"
  pred_cpu :: "32 word"
  pred_ptask :: "32 word"
  pred_task :: "32 word"
  pred_thread :: "32 word"

text \<open>
  The stacks of values of an active task thread, one per registered type; the number of stacks, and the number
  of active task threads, is the length of the list.
\<close>

type_synonym active_task_thread_t = "(32 word \<times> values_t) list"

record task_t =
  nthreads :: "32 word"
  tracing_disabled :: bool
  MatchingComms :: bool
  match_zone :: int
  recv_queue :: "recv_data new_queue"
  send_queue :: "send_data new_queue"
  thread_dependencies :: "(event_t, predecessor) dependency slots"
  AddressSpace :: "region slots"
  num_virtual_threads :: "32 word"
  active_task_threads :: "active_task_thread_t list"

text \<open>The tables of flags of the operations, one per group of events (\<open>inuse\<close>, \<open>present\<close>, \<open>used\<close>).\<close>

datatype flag_table = In_misc | In_misc_io | In_omp | In_pthread | In_cuda | In_opencl_host | In_opencl_acc
  | In_openshmem | In_java

text \<open>
  What the labels file is made of: the flags of the operations that are set and the values that were seen. An array of flags that has
  not been allocated or cleared yet is \<open>None\<close>.
\<close>

record seen =
  MPI_Caller_Multiple_Levels_Traced :: bool
  MPI_Caller_Labels_Used :: "bool list option"
  Sample_Caller_Labels_Used :: "bool list option"
  GetRusage_Labels_Used :: "bool list option"
  Memusage_Labels_Used :: "bool list option"
  MPI_Stats_Labels_Used :: "bool list option"
  Syscall_Labels_Used :: "bool list option"
  MaxClusterId :: "32 word"
  MaxRepresentativePeriod :: "32 word"
  HaveSpectralEvents :: bool
  inuse :: "(flag_table \<times> nat) set"

definition nothing_seen :: seen where
  "nothing_seen = \<lparr>MPI_Caller_Multiple_Levels_Traced = False, MPI_Caller_Labels_Used = None,
     Sample_Caller_Labels_Used = None, GetRusage_Labels_Used = None, Memusage_Labels_Used = None,
     MPI_Stats_Labels_Used = None, Syscall_Labels_Used = None, MaxClusterId = 0, MaxRepresentativePeriod = 0,
     HaveSpectralEvents = False, inuse = {}\<rparr>"

record merger =
  app_threads :: "32 word \<Rightarrow> 32 word \<Rightarrow> 32 word \<Rightarrow> thread_t option"
  app_tasks :: "32 word \<Rightarrow> 32 word \<Rightarrow> task_t option"
  EnabledTasks :: "32 word \<Rightarrow> 32 word \<Rightarrow> bool"
  EnabledTasks_time :: "32 word \<Rightarrow> 32 word \<Rightarrow> 64 word"
  RegisteredStackValues :: values_t
  RegisteredCodeLocationTypes :: "(32 word \<times> 32 word) list"
  mpi_used :: mpi_usage
  labels_seen :: seen

text \<open>
  \<open>file_tasks\<close> lists the application and task of every file of the set, \<open>unset_record\<close> is what unset
  fields of local records contain.
\<close>

record settings =
  joint_states :: bool
  nanos_task_view :: bool
  skip_sendrecv :: bool
  circular_buffer :: bool
  circular_skip_matches :: bool
  num_tasks :: "32 word \<Rightarrow> 32 word"
  file_tasks :: "(32 word \<times> 32 word) list"
  sync_tables :: ts_state
  spawns :: intercomm
  unset_record :: paraver_rec

section \<open>Access\<close>

definition get_thread :: "32 word \<Rightarrow> 32 word \<Rightarrow> 32 word \<Rightarrow> merger \<Rightarrow> thread_t result" where
  "get_thread ptask task thread m = (case app_threads m ptask task thread of None \<Rightarrow> Inl Undefined | Some t \<Rightarrow> Inr t)"

definition set_thread :: "32 word \<Rightarrow> 32 word \<Rightarrow> 32 word \<Rightarrow> thread_t \<Rightarrow> merger \<Rightarrow> merger" where
  "set_thread ptask task thread t m = m\<lparr>app_threads := (\<lambda>p k h.
     if p = ptask \<and> k = task \<and> h = thread then Some t else app_threads m p k h)\<rparr>"

definition on_thread ::
  "(thread_t \<Rightarrow> thread_t result) \<Rightarrow> 32 word \<Rightarrow> 32 word \<Rightarrow> 32 word \<Rightarrow> merger \<Rightarrow> merger result" where
  "on_thread f ptask task thread m =
     rbind (get_thread ptask task thread m) (\<lambda>t. rmap (\<lambda>t1. set_thread ptask task thread t1 m) (f t))"

definition get_task :: "32 word \<Rightarrow> 32 word \<Rightarrow> merger \<Rightarrow> task_t result" where
  "get_task ptask task m = (case app_tasks m ptask task of None \<Rightarrow> Inl Undefined | Some t \<Rightarrow> Inr t)"

definition set_task :: "32 word \<Rightarrow> 32 word \<Rightarrow> task_t \<Rightarrow> merger \<Rightarrow> merger" where
  "set_task ptask task t m = m\<lparr>app_tasks := (\<lambda>p k. if p = ptask \<and> k = task then Some t else app_tasks m p k)\<rparr>"

definition on_task :: "(task_t \<Rightarrow> task_t result) \<Rightarrow> 32 word \<Rightarrow> 32 word \<Rightarrow> merger \<Rightarrow> merger result" where
  "on_task f ptask task m = rbind (get_task ptask task m) (\<lambda>t. rmap (\<lambda>t1. set_task ptask task t1 m) (f t))"

lemma access_simps [simp]:
  "get_thread p k h (set_thread p k h t m) = Inr t"
  "(p', k', h') \<noteq> (p, k, h) \<Longrightarrow> get_thread p' k' h' (set_thread p k h t m) = get_thread p' k' h' m"
  "get_thread p' k' h' (set_task p k tk m) = get_thread p' k' h' m"
  "get_task p k (set_task p k tk m) = Inr tk"
  "(p', k') \<noteq> (p, k) \<Longrightarrow> get_task p' k' (set_task p k tk m) = get_task p' k' m"
  "get_task p' k' (set_thread p k h t m) = get_task p' k' m"
  "EnabledTasks (set_thread p k h t m) = EnabledTasks m" "EnabledTasks (set_task p k tk m) = EnabledTasks m"
  by (auto simp: get_thread_def set_thread_def get_task_def set_task_def)

section \<open>Matching of communications\<close>

definition MatchComms_ChangeZone :: "32 word \<Rightarrow> 32 word \<Rightarrow> merger \<Rightarrow> merger result" where
  "MatchComms_ChangeZone = on_task (\<lambda>t. Inr (t\<lparr>match_zone := match_zone t + 1\<rparr>))"

definition MatchComms_GetZone :: "32 word \<Rightarrow> 32 word \<Rightarrow> merger \<Rightarrow> int result" where
  "MatchComms_GetZone ptask task m = rmap match_zone (get_task ptask task m)"

definition MatchComms_On :: "32 word \<Rightarrow> 32 word \<Rightarrow> merger \<Rightarrow> merger result" where
  "MatchComms_On ptask task m =
     rbind (MatchComms_ChangeZone ptask task m) (on_task (\<lambda>t. Inr (t\<lparr>MatchingComms := True\<rparr>)) ptask task)"

definition MatchComms_Off :: "32 word \<Rightarrow> 32 word \<Rightarrow> merger \<Rightarrow> merger result" where
  "MatchComms_Off ptask task m =
     rbind (MatchComms_ChangeZone ptask task m) (on_task (\<lambda>t. Inr (t\<lparr>MatchingComms := False,
       send_queue := NewQueue_clear (send_queue t), recv_queue := NewQueue_clear (recv_queue t)\<rparr>)) ptask task)"

definition MatchComms_Enabled :: "32 word \<Rightarrow> 32 word \<Rightarrow> merger \<Rightarrow> bool result" where
  "MatchComms_Enabled ptask task m = rmap MatchingComms (get_task ptask task m)"

definition isTaskInMyGroup :: "settings \<Rightarrow> 32 word \<Rightarrow> 32 word \<Rightarrow> bool" where
  "isTaskInMyGroup S ptask task \<longleftrightarrow> (\<exists>(p, t) \<in> set (file_tasks S). p - 1 = ptask \<and> t - 1 = task)"

text \<open>
  The receive of a non-blocking call: the first event with the request from the current one on in the file
  of the thread, unless it was cancelled.
\<close>

definition Search_MPI_IRECVED :: "event_t \<Rightarrow> event_t list \<Rightarrow> 64 word \<Rightarrow> event_ptr" where
  "Search_MPI_IRECVED cur following request =
     (case find (\<lambda>e. sint (ev_event e) = MPI_IRECVED_EV \<and> Get_EvAux e = request) (cur # cur # following) of
        None \<Rightarrow> None
      | Some e \<Rightarrow> if (ucast (ev_value e) :: 32 word) \<noteq> 0 then None else Some e)"

definition TIMESYNC :: "settings \<Rightarrow> 32 word \<Rightarrow> 32 word \<Rightarrow> 64 word \<Rightarrow> 64 word result" where
  "TIMESYNC S ptask task t = TimeSync (sync_tables S) (unat (ptask - 1)) (unat (task - 1)) t"

definition trace_communicationAt ::
  "settings \<Rightarrow> 32 word \<Rightarrow> 32 word \<Rightarrow> 32 word \<Rightarrow> 32 word \<Rightarrow> 32 word \<Rightarrow> 32 word \<Rightarrow> 32 word \<Rightarrow> 32 word \<Rightarrow>
   event_ptr \<Rightarrow> event_ptr \<Rightarrow> event_ptr \<Rightarrow> event_t \<Rightarrow> int option \<Rightarrow> merger \<Rightarrow> merger result" where
  "trace_communicationAt S ptask_s task_s thread_s vthread_s ptask_r task_r thread_r vthread_r
       s_begin s_end r_begin r_end pos m =
     rbind (get_thread ptask_r task_r thread_r m) (\<lambda>thread_r_info.
     rbind (get_thread ptask_s task_s thread_s m) (\<lambda>thread_s_info.
     rbind (TIMESYNC S ptask_s task_s (Get_EvTime s_begin)) (\<lambda>log_s.
     rbind (TIMESYNC S ptask_s task_s (Get_EvTime s_end)) (\<lambda>phy_s.
     rbind (TIMESYNC S ptask_r task_r (Get_EvTime r_begin)) (\<lambda>log_r.
     rbind (TIMESYNC S ptask_r task_r (ev_time r_end)) (\<lambda>phy_r.
       on_thread (trace_paraver_communication (EnabledTasks m ptask_s task_s) (EnabledTasks m ptask_r task_r)
           (comm_record (t_cpu thread_s_info) ptask_s task_s vthread_s log_s phy_s
             (t_cpu thread_r_info) ptask_r task_r vthread_r log_r phy_r (Get_EvSize r_end) (Get_EvTag r_end)) pos)
         ptask_s task_s thread_s m))))))"

section \<open>One event\<close>

text \<open>The arguments of a handler: the event, the later events of its file, and where and when it happened.\<close>

record occurrence =
  o_event :: event_t
  o_following :: "event_t list"
  o_time :: "64 word"
  o_cpu :: "32 word"
  o_ptask :: "32 word"
  o_task :: "32 word"
  o_thread :: "32 word"

definition EvType :: "occurrence \<Rightarrow> int" where
  "EvType a = sint (ev_event (o_event a))"

definition EvValue :: "occurrence \<Rightarrow> 32 word" where
  "EvValue a = ucast (ev_value (o_event a))"

definition here :: "(thread_t \<Rightarrow> thread_t result) \<Rightarrow> occurrence \<Rightarrow> merger \<Rightarrow> merger result" where
  "here f a = on_thread f (o_ptask a) (o_task a) (o_thread a)"

definition switch_state :: "state_id \<Rightarrow> bool \<Rightarrow> occurrence \<Rightarrow> merger \<Rightarrow> merger result" where
  "switch_state st cond = here (switch_thread st cond)"

definition switch_own_state :: "bool \<Rightarrow> occurrence \<Rightarrow> merger \<Rightarrow> merger result" where
  "switch_own_state cond a m = rbind (Get_State (EvType a)) (\<lambda>st. switch_state st cond a m)"

definition show_state :: "settings \<Rightarrow> occurrence \<Rightarrow> merger \<Rightarrow> merger result" where
  "show_state S a = here (trace_paraver_state (joint_states S) False (unset_record S) (o_cpu a) (o_ptask a) (o_task a)
     (o_thread a) (o_time a)) a"

definition put_event :: "settings \<Rightarrow> int \<Rightarrow> 64 word \<Rightarrow> occurrence \<Rightarrow> merger \<Rightarrow> merger result" where
  "put_event S type v a m = here (trace_paraver_event (EnabledTasks m (o_ptask a) (o_task a)) (unset_record S)
     (o_cpu a) (o_ptask a) (o_task a) (o_time a) (word_of_int type) v) a m"

definition count_soft :: "int \<Rightarrow> merger \<Rightarrow> merger result" where
  "count_soft ev m = Inr (m\<lparr>mpi_used := Enable_MPI_Soft_Counter ev (mpi_used m)\<rparr>)"

end
