(* ===== verification/Mpi_Semantics.thy ===== *)
theory Mpi_Semantics
  imports Merger_State
begin

text \<open>
  The handlers of MPI events (\<open>merger/paraver/mpi_prv_semantics.c\<close>), each as the list of its calls on the
  state of the merger. The parts that match a send or a receive with its partner, which the code
  repeats in every handler, are \<open>match_send\<close> and \<open>match_recv\<close>. \<open>mpi_event\<close> is what the main loop of
  \<open>merger/paraver/trace_to_prv.c\<close> does with an MPI event.
\<close>

section \<open>Matching\<close>

definition MPI_PROC_NULL :: "32 word" where "MPI_PROC_NULL = -1"

definition target_ptask :: "settings \<Rightarrow> occurrence \<Rightarrow> 32 word result" where
  "target_ptask S a = rmap word_of_int (intercommunicators_get_target_ptask (sint (o_ptask a)) (sint (o_task a))
     (sint (Get_EvComm (o_event a))) (spawns S))"

text \<open>
  The end of a send: with a receive that waits for it, the communication is written; otherwise the send is
  queued with the position of the unmatched record that is written for it.
\<close>

definition queue_send :: "settings \<Rightarrow> event_ptr \<Rightarrow> 32 word \<Rightarrow> occurrence \<Rightarrow> merger \<Rightarrow> merger result" where
  "queue_send S begin tp a m =
     (let e = o_event a in
      rbind (get_thread (o_ptask a) (o_task a) (o_thread a) m) (\<lambda>t.
      rbind (on_task (\<lambda>ti. rmap (\<lambda>q. ti\<lparr>send_queue := q\<rparr>)
          (QueueSend begin e (int (WriteFileBuffer_getPosition (t_wfb t))) (o_thread a) (virtual_thread t)
            (Get_EvTarget e) (Get_EvTag e) 0 (send_queue ti))) (o_ptask a) (o_task a) m) (\<lambda>m1.
        here (trace_paraver_unmatched_communication (EnabledTasks m1 (o_ptask a) (o_task a)) (unset_record S)
          1 (o_ptask a) (o_task a) (virtual_thread t) (o_time a) (ev_time e) 1 tp (Get_EvTarget e + 1) 1
          (Get_EvSize e) (Get_EvTag e)) a m1)))"

definition match_send :: "settings \<Rightarrow> (thread_t \<Rightarrow> event_ptr) \<Rightarrow> occurrence \<Rightarrow> merger \<Rightarrow> merger result" where
  "match_send S begin_of a m =
     (let e = o_event a; target = Get_EvTarget e in
      rbind (MatchComms_Enabled (o_ptask a) (o_task a) m) (\<lambda>on.
      if \<not> on \<or> target = MPI_PROC_NULL then Inr m
      else rbind (target_ptask S a) (\<lambda>tp.
        if \<not> isTaskInMyGroup S (tp - 1) target then Inr m
        else rbind (get_thread (o_ptask a) (o_task a) (o_thread a) m) (\<lambda>t.
          rbind (get_task tp (target + 1) m) (\<lambda>partner.
          rbind (ExtractRecv (o_task a - 1) (Get_EvTag e) 0 (recv_queue partner)) (\<lambda>(found, q).
            let m1 = set_task tp (target + 1) (partner\<lparr>recv_queue := q\<rparr>) m in
            case found of
              Some r \<Rightarrow>
                if recv_begin r = None then queue_send S (begin_of t) tp a m1
                else trace_communicationAt S (o_ptask a) (o_task a) (o_thread a) (virtual_thread t)
                  tp (target + 1) (recv_thread r) (recv_vthread r) (begin_of t) (Some e) (recv_begin r) (recv_end r) None m1
            | None \<Rightarrow> queue_send S (begin_of t) tp a m1))))))"

text \<open>
  The end of a receive: \<open>r\<close> is its event, \<open>partner_ptask\<close> the application whose sends are searched, \<open>key_event\<close>
  the event whose source and tag are queued. A send that was found is written at its position.
\<close>

definition match_recv ::
  "settings \<Rightarrow> (thread_t \<Rightarrow> event_ptr) \<Rightarrow> event_ptr \<Rightarrow> (32 word \<Rightarrow> 32 word) \<Rightarrow> (event_t \<Rightarrow> event_t) \<Rightarrow> bool \<Rightarrow>
   occurrence \<Rightarrow> merger \<Rightarrow> merger result" where
  "match_recv S begin_of receive partner_ptask key_event queue_null_begin a m =
     rbind (MatchComms_Enabled (o_ptask a) (o_task a) m) (\<lambda>on.
     case receive of None \<Rightarrow> Inr m
     | Some r \<Rightarrow>
       if \<not> on \<or> Get_EvTarget r = MPI_PROC_NULL then Inr m
       else rbind (target_ptask S a) (\<lambda>tp.
         if \<not> isTaskInMyGroup S (tp - 1) (Get_EvTarget r) then Inr m
         else rbind (get_thread (o_ptask a) (o_task a) (o_thread a) m) (\<lambda>t.
           rbind (get_task (partner_ptask tp) (Get_EvTarget r + 1) m) (\<lambda>partner.
           rbind (ExtractSend (o_task a - 1) (Get_EvTag r) 0 (send_queue partner)) (\<lambda>(found, q).
             let m1 = set_task (partner_ptask tp) (Get_EvTarget r + 1) (partner\<lparr>send_queue := q\<rparr>) m;
                 wait = on_task (\<lambda>ti. rmap (\<lambda>q. ti\<lparr>recv_queue := q\<rparr>)
                   (QueueRecv (begin_of t) r (o_thread a) (virtual_thread t) (Get_EvTarget (key_event r))
                     (Get_EvTag (key_event r)) 0 (recv_queue ti))) (o_ptask a) (o_task a) m1 in
             case found of
               Some s \<Rightarrow>
                 if send_begin s = None then (if queue_null_begin then wait else Inr m1)
                 else trace_communicationAt S tp (Get_EvTarget r + 1) (send_thread s) (send_vthread s)
                   (o_ptask a) (o_task a) (o_thread a) (virtual_thread t) (send_begin s) (Some (send_end s))
                   (begin_of t) r (Some (send_position s)) m1
             | None \<Rightarrow> wait)))))"

section \<open>Point-to-point handlers\<close>

definition store_send :: "occurrence \<Rightarrow> merger \<Rightarrow> merger result" where
  "store_send a = here (\<lambda>t. Inr (t\<lparr>Send_Rec := Some (o_event a)\<rparr>)) a"

definition store_recv :: "occurrence \<Rightarrow> merger \<Rightarrow> merger result" where
  "store_recv a = here (\<lambda>t. Inr (t\<lparr>Recv_Rec := Some (o_event a)\<rparr>)) a"

definition Any_Send_Event :: "settings \<Rightarrow> occurrence \<Rightarrow> merger \<Rightarrow> merger result" where
  "Any_Send_Event S a = in_order
     [switch_own_state (EvValue a = EVT_BEGIN) a, show_state S a, put_event S (EvType a) (ucast (EvValue a)) a,
      if EvValue a = EVT_BEGIN then store_send a
      else if EvValue a = EVT_END then match_send S Send_Rec a else Inr]"

definition SendRecv_Event :: "settings \<Rightarrow> occurrence \<Rightarrow> merger \<Rightarrow> merger result" where
  "SendRecv_Event S a =
     (let v = ev_value (o_event a) in in_order
     [switch_state STATE_SENDRECVOP (v = EVT_BEGIN) a, show_state S a, put_event S (EvType a) v a,
      if skip_sendrecv S then Inr
      else if v = EVT_BEGIN then in_order [store_send a, match_send S (\<lambda>_. Some (o_event a)) a]
      else if v = EVT_END then in_order [store_recv a,
        match_recv S Send_Rec (Some (o_event a)) (\<lambda>p. p) (\<lambda>r. r) False a]
      else Inr])"

definition Recv_Event :: "settings \<Rightarrow> occurrence \<Rightarrow> merger \<Rightarrow> merger result" where
  "Recv_Event S a = in_order
     [switch_state STATE_WAITMESS (EvValue a = EVT_BEGIN) a,
      if EvValue a = EVT_BEGIN then store_recv a
      else match_recv S Recv_Rec (Some (o_event a)) (\<lambda>p. p) (\<lambda>r. r) True a,
      show_state S a, put_event S (EvType a) (ucast (EvValue a)) a]"

definition IRecv_Event :: "settings \<Rightarrow> occurrence \<Rightarrow> merger \<Rightarrow> merger result" where
  "IRecv_Event S a =
     (let e = o_event a in in_order
     [switch_state STATE_IWAITMESS (EvValue a = EVT_BEGIN) a,
      if EvValue a = EVT_END
      then match_recv S (\<lambda>_. Some e) (Search_MPI_IRECVED e (o_following a) (Get_EvAux e)) (\<lambda>p. p) (\<lambda>r. r) True a
      else Inr,
      show_state S a, put_event S (EvType a) (ucast (EvValue a)) a])"

definition MPI_PersistentRequest_Init_Event :: "settings \<Rightarrow> occurrence \<Rightarrow> merger \<Rightarrow> merger result" where
  "MPI_PersistentRequest_Init_Event S a = in_order
     [switch_state (if EvType a = MPI_RECV_INIT_EV then STATE_IRECV else STATE_ISEND) (EvValue a = EVT_BEGIN) a,
      show_state S a, put_event S (EvType a) (ucast (EvValue a)) a]"

text \<open>The partner of a persistent receive is looked up in the own application, and its event is the current one.\<close>

definition MPI_PersistentRequest_Event :: "settings \<Rightarrow> occurrence \<Rightarrow> merger \<Rightarrow> merger result" where
  "MPI_PersistentRequest_Event S a =
     (let e = o_event a; kind = uint (ev_value e) in in_order
     [show_state S a,
      if kind = MPI_ISEND_EV then in_order [store_send a, match_send S (\<lambda>_. Some e) a] else Inr,
      if kind = MPI_IRECV_EV
      then in_order [store_recv a, match_recv S (\<lambda>_. Some e) (Search_MPI_IRECVED e (o_following a) (Get_EvAux e))
        (\<lambda>p. o_ptask a) (\<lambda>r. e) True a]
      else Inr])"

definition MPI_PersistentRequest_Free_Event :: "settings \<Rightarrow> occurrence \<Rightarrow> merger \<Rightarrow> merger result" where
  "MPI_PersistentRequest_Free_Event S a = in_order
     [switch_state STATE_TWRECV (EvValue a = EVT_BEGIN) a, show_state S a, put_event S (EvType a) (ucast (EvValue a)) a]"

definition MPI_Start_Event :: "settings \<Rightarrow> occurrence \<Rightarrow> merger \<Rightarrow> merger result" where
  "MPI_Start_Event S a = in_order
     [switch_state STATE_MIXED (EvValue a = EVT_BEGIN) a, show_state S a, put_event S (EvType a) (ucast (EvValue a)) a,
      if EvValue a = EVT_BEGIN then in_order [store_send a, store_recv a] else Inr]"

section \<open>Global operations\<close>

definition Get_GlobalOP_CommID :: "event_t \<Rightarrow> 32 word" where
  "Get_GlobalOP_CommID = Get_EvComm"

definition Get_GlobalOP_isRoot :: "event_t \<Rightarrow> 32 word \<Rightarrow> bool" where
  "Get_GlobalOP_isRoot e task =
     (let ev = sint (ev_event e) in
      if ev \<in> {MPI_REDUCE_EV, MPI_IREDUCE_EV} then Get_EvAux e = scast (Get_EvTag e)
      else if ev \<in> {MPI_BCAST_EV, MPI_IBCAST_EV} then Get_EvTarget e = Get_EvTag e
      else if ev \<in> {MPI_GATHER_EV, MPI_IGATHER_EV, MPI_GATHERV_EV, MPI_IGATHERV_EV, MPI_SCATTER_EV, MPI_ISCATTER_EV,
          MPI_SCATTERV_EV, MPI_ISCATTERV_EV} then Get_EvTarget e = task - 1
      else if ev \<in> {MPI_REDUCESCAT_EV, MPI_IREDUCESCAT_EV, MPI_REDUCE_SCATTER_BLOCK_EV, MPI_IREDUCE_SCATTER_BLOCK_EV}
        then Get_EvTarget e = 0
      else False)"

definition Get_GlobalOP_SendSize :: "event_t \<Rightarrow> bool \<Rightarrow> 32 word" where
  "Get_GlobalOP_SendSize e is_root =
     (let ev = sint (ev_event e) in
      if ev \<in> {MPI_BARRIER_EV, MPI_IBARRIER_EV} then 0
      else if ev \<in> {MPI_REDUCE_EV, MPI_IREDUCE_EV} then (if is_root then 0 else Get_EvSize e)
      else if ev \<in> {MPI_BCAST_EV, MPI_IBCAST_EV} then (if \<not> is_root then 0 else Get_EvSize e)
      else Get_EvSize e)"

definition Get_GlobalOP_RecvSize :: "event_t \<Rightarrow> bool \<Rightarrow> 32 word" where
  "Get_GlobalOP_RecvSize e is_root =
     (let ev = sint (ev_event e) in
      if ev \<in> {MPI_BARRIER_EV, MPI_IBARRIER_EV} then 0
      else if ev \<in> {MPI_REDUCE_EV, MPI_IREDUCE_EV} then (if \<not> is_root then 0 else Get_EvSize e)
      else if ev \<in> {MPI_BCAST_EV, MPI_IBCAST_EV} then (if is_root then 0 else Get_EvSize e)
      else if ev \<in> {MPI_REDUCESCAT_EV, MPI_IREDUCESCAT_EV, MPI_REDUCE_SCATTER_BLOCK_EV, MPI_IREDUCE_SCATTER_BLOCK_EV}
        then (if is_root then Get_EvSize e else ucast (Get_EvAux e))
      else if ev \<in> {MPI_SCAN_EV, MPI_ISCAN_EV, MPI_ALLREDUCE_EV, MPI_IALLREDUCE_EV} then Get_EvSize e
      else ucast (Get_EvAux e))"

definition trace_enter_global_op ::
  "settings \<Rightarrow> 32 word \<Rightarrow> 32 word \<Rightarrow> 32 word \<Rightarrow> bool \<Rightarrow> occurrence \<Rightarrow> merger \<Rightarrow> merger result" where
  "trace_enter_global_op S com_id send_size recv_size is_root a = in_order
     [put_event S MPI_GLOBAL_OP_SENDSIZE (ucast send_size) a, put_event S MPI_GLOBAL_OP_RECVSIZE (ucast recv_size) a,
      put_event S MPI_GLOBAL_OP_COMM (ucast com_id) a,
      if is_root then put_event S MPI_GLOBAL_OP_ROOT 1 a else Inr]"

text \<open>The first collective of the world after the start of a circular buffer turns the matching on.\<close>

definition start_matching :: "settings \<Rightarrow> occurrence \<Rightarrow> merger \<Rightarrow> merger result" where
  "start_matching S a m =
     (if circular_buffer S \<and> circular_skip_matches S
      then rbind (MatchComms_Enabled (o_ptask a) (o_task a) m) (\<lambda>on.
        if \<not> on \<and> EvValue a = EVT_END \<and> Get_EvSize (o_event a) = num_tasks S (o_ptask a)
        then MatchComms_On (o_ptask a) (o_task a) m else Inr m)
      else Inr m)"

definition GlobalOP_event :: "settings \<Rightarrow> occurrence \<Rightarrow> merger \<Rightarrow> merger result" where
  "GlobalOP_event S a =
     (let e = o_event a; is_root = Get_GlobalOP_isRoot e (o_task a) in in_order
     [start_matching S a, switch_own_state (EvValue a = EVT_BEGIN) a, show_state S a,
      put_event S (EvType a) (ucast (EvValue a)) a,
      if EvValue a = EVT_BEGIN then in_order
        [trace_enter_global_op S (Get_GlobalOP_CommID e) (Get_GlobalOP_SendSize e is_root)
           (Get_GlobalOP_RecvSize e is_root) is_root a,
         count_soft (EvType a)]
      else Inr])"

section \<open>Other handlers\<close>

definition Other_MPI_Event :: "settings \<Rightarrow> occurrence \<Rightarrow> merger \<Rightarrow> merger result" where
  "Other_MPI_Event S a =
     (let e = o_event a; init = (EvType a = MPI_INIT_EV) in in_order
     [switch_own_state (EvValue a = EVT_BEGIN) a,
      if init \<and> EvValue a = EVT_END \<and> circular_buffer S \<and> circular_skip_matches S
      then switch_state STATE_NOT_TRACING True a else Inr,
      show_state S a, put_event S (EvType a) (ucast (EvValue a)) a,
      if init \<and> EvValue a = EVT_BEGIN then in_order
        [put_event S PID_EV (ucast (Get_EvTarget e)) a, put_event S PPID_EV (ucast (Get_EvSize e)) a,
         put_event S FORK_DEPTH_EV (ucast (Get_EvTag e)) a]
      else Inr])"

text \<open>A signed field passed as a 64-bit value is extended with its sign.\<close>

definition MPIIO_Event :: "settings \<Rightarrow> occurrence \<Rightarrow> merger \<Rightarrow> merger result" where
  "MPIIO_Event S a = in_order
     [switch_own_state (EvValue a = EVT_BEGIN) a, show_state S a, put_event S (EvType a) (ucast (EvValue a)) a,
      put_event S MPI_IO_SIZE_EV (scast (Get_EvSize (o_event a))) a, count_soft (EvType a)]"

definition soft_counter_event :: "settings \<Rightarrow> 64 word \<Rightarrow> occurrence \<Rightarrow> merger \<Rightarrow> merger result" where
  "soft_counter_event S v a = in_order [show_state S a, put_event S (EvType a) v a, count_soft (EvType a)]"

definition MPI_Request_get_status_SoftwareCounter_Event :: "settings \<Rightarrow> occurrence \<Rightarrow> merger \<Rightarrow> merger result" where
  "MPI_Request_get_status_SoftwareCounter_Event S a = soft_counter_event S (ucast (EvValue a)) a"

definition MPI_ElapsedTimeOutsideRequest_get_status_Event :: "settings \<Rightarrow> occurrence \<Rightarrow> merger \<Rightarrow> merger result" where
  "MPI_ElapsedTimeOutsideRequest_get_status_Event S a = soft_counter_event S (ev_value (o_event a)) a"

definition MPI_IProbeSoftwareCounter_Event :: "settings \<Rightarrow> occurrence \<Rightarrow> merger \<Rightarrow> merger result" where
  "MPI_IProbeSoftwareCounter_Event S a = soft_counter_event S (ucast (EvValue a)) a"

definition MPI_ElapsedTimeOutsideIProbes_Event :: "settings \<Rightarrow> occurrence \<Rightarrow> merger \<Rightarrow> merger result" where
  "MPI_ElapsedTimeOutsideIProbes_Event S a = soft_counter_event S (ev_value (o_event a)) a"

definition MPI_ElapsedTimeOutsideTests_Event :: "settings \<Rightarrow> occurrence \<Rightarrow> merger \<Rightarrow> merger result" where
  "MPI_ElapsedTimeOutsideTests_Event S a = soft_counter_event S (ev_value (o_event a)) a"

definition MPI_TestSoftwareCounter_Event :: "settings \<Rightarrow> occurrence \<Rightarrow> merger \<Rightarrow> merger result" where
  "MPI_TestSoftwareCounter_Event S a = soft_counter_event S (ucast (EvValue a)) a"

definition MPI_RMA_Event :: "settings \<Rightarrow> occurrence \<Rightarrow> merger \<Rightarrow> merger result" where
  "MPI_RMA_Event S a =
     (let e = o_event a; v = ev_value e in in_order
     [switch_own_state (v = EVT_BEGIN) a, show_state S a, put_event S (EvType a) v a,
      if Get_EvSize e \<noteq> 0 then put_event S MPI_RMA_SIZE (ucast (Get_EvSize e)) a else Inr,
      if EvType a \<in> {MPI_GET_EV, MPI_PUT_EV, MPI_GET_ACCUMULATE_EV} then in_order
        [put_event S MPI_RMA_TARGET_RANK (scast (Get_EvTarget e)) a, put_event S MPI_RMA_ORIGIN_ADDR (Get_EvAux e) a,
         put_event S MPI_RMA_TARGET_DISP (scast (Get_EvComm e)) a]
      else Inr,
      if EvType a \<in> {MPI_WIN_LOCK_EV, MPI_WIN_UNLOCK_EV}
      then put_event S MPI_RMA_TARGET_RANK (scast (Get_EvTarget e)) a else Inr])"

section \<open>The table of handlers\<close>

fun run_handler :: "mpi_handler \<Rightarrow> settings \<Rightarrow> occurrence \<Rightarrow> merger \<Rightarrow> merger result" where
  "run_handler H_Any_Send_Event = Any_Send_Event"
| "run_handler H_SendRecv_Event = SendRecv_Event"
| "run_handler H_Recv_Event = Recv_Event"
| "run_handler H_IRecv_Event = IRecv_Event"
| "run_handler H_GlobalOP_event = GlobalOP_event"
| "run_handler H_Other_MPI_Event = Other_MPI_Event"
| "run_handler H_SkipHandler = (\<lambda>S a. Inr)"
| "run_handler H_MPI_PersistentRequest_Init_Event = MPI_PersistentRequest_Init_Event"
| "run_handler H_MPI_PersistentRequest_Event = MPI_PersistentRequest_Event"
| "run_handler H_MPI_Start_Event = MPI_Start_Event"
| "run_handler H_MPI_PersistentRequest_Free_Event = MPI_PersistentRequest_Free_Event"
| "run_handler H_MPI_Request_get_status_SoftwareCounter_Event = MPI_Request_get_status_SoftwareCounter_Event"
| "run_handler H_MPI_ElapsedTimeOutsideRequest_get_status_Event = MPI_ElapsedTimeOutsideRequest_get_status_Event"
| "run_handler H_MPI_IProbeSoftwareCounter_Event = MPI_IProbeSoftwareCounter_Event"
| "run_handler H_MPI_ElapsedTimeOutsideIProbes_Event = MPI_ElapsedTimeOutsideIProbes_Event"
| "run_handler H_MPI_TestSoftwareCounter_Event = MPI_TestSoftwareCounter_Event"
| "run_handler H_MPIIO_Event = MPIIO_Event"
| "run_handler H_MPI_RMA_Event = MPI_RMA_Event"
| "run_handler H_MPI_ElapsedTimeOutsideTests_Event = MPI_ElapsedTimeOutsideTests_Event"

text \<open>An event without a handler is reported and skipped.\<close>

definition mpi_event :: "settings \<Rightarrow> occurrence \<Rightarrow> merger \<Rightarrow> merger result" where
  "mpi_event S a m =
     (case find_index (\<lambda>(e, h). e = EvType a) PRV_MPI_Event_Handlers of
        None \<Rightarrow> Inr m
      | Some i \<Rightarrow> rmap (\<lambda>m1. m1\<lparr>mpi_used := Enable_MPI_Operation (EvType a) (mpi_used m1)\<rparr>)
          (run_handler (snd (PRV_MPI_Event_Handlers ! i)) S a m))"

end
