(* ===== verification/Comm_Match.thy ===== *)
theory Comm_Match
  imports Mpi_Semantics
begin

text \<open>
  The matching of sends and receives: no send and receive that belong together are both left waiting, in
  any order of the MPI events in which every call begins before it ends. The invariant is kept by every handler, given
  which threads have begun a send or a receive.
\<close>

section \<open>Taking an entry out\<close>

lemma take_entry_cases:
  assumes "queue_ok q" and "take_entry match q = Inr (found, q1)"
  obtains (none) "found = None" "q1 = q" "\<forall>x \<in> set (queue_contents q). \<not> match x"
  | (first) xs x ys where "found = Some x" "match x" "\<forall>y \<in> set xs. \<not> match y" "queue_contents q = xs @ x # ys"
      "queue_ok q1" "queue_contents q1 = xs @ ys"
proof (cases "\<forall>x \<in> set (queue_contents q). \<not> match x")
  case True
  then show thesis using take_entry_none [OF assms(1) True] assms(2) none by simp
next
  case False
  then obtain xs x ys where q: "queue_contents q = xs @ x # ys" "match x" "\<forall>y \<in> set xs. \<not> match y"
    using split_list_first_prop [of "queue_contents q" match] by auto
  show thesis
  proof (cases "room_to_delete (length xs) q")
    case True
    from take_entry_first [OF assms(1) q(1,2,3) True] show thesis using assms(2) q first by auto
  next
    case room: False
    have len: "nat (NumOfElements q) = length xs + 1 + length ys" using queue_length [OF assms(1)] q(1) by simp
    obtain y zs where ys: "ys = y # zs" using len room assms(1) by (cases ys) (auto simp: room_to_delete_def queue_ok_def)
    have "NumOfElements q = int (ElementsAllocated q)" using room assms(1) by (auto simp: room_to_delete_def queue_ok_def)
    from take_entry_full [OF assms(1) q(1) [unfolded ys] q(2,3) this] show thesis using assms(2) by simp
  qed
qed

section \<open>What the thread operations leave alone\<close>

definition same_marks :: "thread_t \<Rightarrow> thread_t \<Rightarrow> bool" where
  "same_marks t t1 \<longleftrightarrow> Send_Rec t1 = Send_Rec t \<and> Recv_Rec t1 = Recv_Rec t \<and> t_cpu t1 = t_cpu t \<and>
     virtual_thread t1 = virtual_thread t"

lemma same_marks_refl [simp]: "same_marks t t"
  and same_marks_trans: "same_marks t t1 \<Longrightarrow> same_marks t1 t2 \<Longrightarrow> same_marks t t2"
  by (simp_all add: same_marks_def)

lemma record_marks: "trace_paraver_record r t = Inr t1 \<Longrightarrow> same_marks t t1"
  and recordAt_marks: "trace_paraver_recordAt r pos t = Inr t1 \<Longrightarrow> same_marks t t1"
  by (auto simp: trace_paraver_record_def trace_paraver_recordAt_def same_marks_def result_simps)

lemma event_marks: "trace_paraver_event en junk cpu ptask task now type v t = Inr t1 \<Longrightarrow> same_marks t t1"
  by (auto simp: trace_paraver_event_def record_marks split: if_splits)

lemma comm_marks: "trace_paraver_communication es er r pos t = Inr t1 \<Longrightarrow> same_marks t t1"
  by (auto simp: trace_paraver_communication_def record_marks recordAt_marks split: if_splits option.splits)

lemma unmatched_marks:
  "trace_paraver_unmatched_communication en junk a b c d e f g h i j k l t = Inr t1 \<Longrightarrow> same_marks t t1"
  by (auto simp: trace_paraver_unmatched_communication_def record_marks split: if_splits)

lemma switch_marks: "switch_thread st cond t = Inr t1 \<Longrightarrow> same_marks t t1"
  by (auto simp: switch_thread_def same_marks_def result_simps)

lemma complete_marks: "complete_state jt lst cur now t = Inr (Some t1) \<Longrightarrow> same_marks t t1"
  by (auto simp: complete_state_def Let_def result_simps trace_paraver_recordAt_def same_marks_def split: if_splits)

lemma start_marks: "start_state junk cpu ptask task thread now st t = Inr t1 \<Longrightarrow> same_marks t t1"
  by (auto simp: start_state_def Let_def result_simps trace_paraver_record_def same_marks_def split: if_splits)

lemma state_marks: "trace_paraver_state jt lst junk cpu ptask task thread now t = Inr t1 \<Longrightarrow> same_marks t t1"
  by (auto simp: trace_paraver_state_def result_simps split: option.splits dest!: complete_marks start_marks
      intro: same_marks_trans)

section \<open>Queues of the tasks\<close>

definition sends :: "task_t \<Rightarrow> send_data list" where "sends t = queue_contents (send_queue t)"
definition recvs :: "task_t \<Rightarrow> recv_data list" where "recvs t = queue_contents (recv_queue t)"

text \<open>A send queued by task \<open>k\<close> and a receive queued by task \<open>h\<close> that belong together.\<close>

definition belong :: "32 word \<Rightarrow> 32 word \<Rightarrow> send_data \<Rightarrow> recv_data \<Rightarrow> bool" where
  "belong k h s r \<longleftrightarrow> send_partner s = h - 1 \<and> recv_partner r = k - 1 \<and>
     (recv_tag r = send_tag s \<or> recv_tag r = MPI_ANY_TAG)"

definition send_entry_ok :: "send_data \<Rightarrow> bool" where
  "send_entry_ok s \<longleftrightarrow> send_begin s \<noteq> None \<and> send_key s = 0"

definition recv_entry_ok :: "recv_data \<Rightarrow> bool" where
  "recv_entry_ok r \<longleftrightarrow> recv_begin r \<noteq> None \<and> recv_key r = 0 \<and> recv_tag r = Get_EvTag (recv_end r)"

definition task_ok :: "task_t \<Rightarrow> bool" where
  "task_ok t \<longleftrightarrow> queue_ok (send_queue t) \<and> queue_ok (recv_queue t) \<and>
     (\<forall>s \<in> set (sends t). send_entry_ok s) \<and> (\<forall>r \<in> set (recvs t). recv_entry_ok r)"

definition tasks_ok :: "merger \<Rightarrow> bool" where
  "tasks_ok m \<longleftrightarrow> (\<forall>p k t. app_tasks m p k = Some t \<longrightarrow> task_ok t) \<and>
     (\<forall>p k h tk th. app_tasks m p k = Some tk \<and> app_tasks m p h = Some th \<longrightarrow>
        (\<forall>s \<in> set (sends tk). \<forall>r \<in> set (recvs th). \<not> belong k h s r))"

text \<open>
  The threads that have begun a send, and those that have begun a receive: in these the merger has
  the event of the beginning.
\<close>

type_synonym place = "32 word \<times> 32 word \<times> 32 word"

definition marks_ok :: "place set \<times> place set \<Rightarrow> merger \<Rightarrow> bool" where
  "marks_ok B m \<longleftrightarrow> (\<forall>p k h t. app_threads m p k h = Some t \<longrightarrow>
     ((p, k, h) \<in> fst B \<longrightarrow> Send_Rec t \<noteq> None) \<and> ((p, k, h) \<in> snd B \<longrightarrow> Recv_Rec t \<noteq> None))"

definition matching_ok :: "place set \<times> place set \<Rightarrow> merger \<Rightarrow> bool" where
  "matching_ok B m \<longleftrightarrow> tasks_ok m \<and> marks_ok B m"

definition place_of :: "occurrence \<Rightarrow> place" where
  "place_of a = (o_ptask a, o_task a, o_thread a)"

text \<open>Replacing the queues of a task by shorter ones, and adding an entry that belongs to no other.\<close>

lemma tasks_ok_send:
  assumes "tasks_ok m" and "app_tasks m p k = Some t0" and "task_ok t"
    and recvs: "set (recvs t) \<subseteq> set (recvs t0)"
    and new: "\<And>s h th r. s \<in> set (sends t) - set (sends t0) \<Longrightarrow> app_tasks m p h = Some th \<Longrightarrow> r \<in> set (recvs th) \<Longrightarrow> \<not> belong k h s r"
  shows "tasks_ok (set_task p k t m)"
proof -
  have old: "\<not> belong a b s1 r" if "app_tasks m p a = Some ta" "app_tasks m p b = Some tb" "s1 \<in> set (sends ta)"
      "r \<in> set (recvs tb)" for a b ta tb s1 r p
    using that assms(1) unfolding tasks_ok_def by blast
  show ?thesis unfolding tasks_ok_def
  proof (intro conjI allI impI ballI)
    fix p' k' t' assume "app_tasks (set_task p k t m) p' k' = Some t'"
    then show "task_ok t'" using assms(1,3) by (auto simp: set_task_def tasks_ok_def split: if_splits)
  next
    fix p' a b ta tb s1 r
    assume *: "app_tasks (set_task p k t m) p' a = Some ta \<and> app_tasks (set_task p k t m) p' b = Some tb"
      and s1: "s1 \<in> set (sends ta)" and r: "r \<in> set (recvs tb)"
    obtain tb0 where tb0: "app_tasks m p' b = Some tb0" "r \<in> set (recvs tb0)"
      using * r assms(2) recvs by (auto simp: set_task_def split: if_splits)
    show "\<not> belong a b s1 r"
    proof (cases "p' = p \<and> a = k")
      case True
      then have "s1 \<in> set (sends t)" using * s1 by (simp add: set_task_def)
      then show ?thesis
        using new [of s1 b tb0 r] tb0 True old [OF _ tb0(1) _ tb0(2), of a t0] assms(2) by (cases "s1 \<in> set (sends t0)") auto
    next
      case False
      then have "app_tasks m p' a = Some ta" using * by (auto simp: set_task_def split: if_splits)
      then show ?thesis using old [OF _ tb0(1) s1 tb0(2)] by blast
    qed
  qed
qed

lemma tasks_ok_recv:
  assumes "tasks_ok m" and "app_tasks m p h = Some t0" and "task_ok t"
    and sends: "set (sends t) \<subseteq> set (sends t0)"
    and new: "\<And>r k tk s. r \<in> set (recvs t) - set (recvs t0) \<Longrightarrow> app_tasks m p k = Some tk \<Longrightarrow> s \<in> set (sends tk) \<Longrightarrow> \<not> belong k h s r"
  shows "tasks_ok (set_task p h t m)"
proof -
  have old: "\<not> belong a b s r1" if "app_tasks m p a = Some ta" "app_tasks m p b = Some tb" "s \<in> set (sends ta)"
      "r1 \<in> set (recvs tb)" for a b ta tb s r1 p
    using that assms(1) unfolding tasks_ok_def by blast
  show ?thesis unfolding tasks_ok_def
  proof (intro conjI allI impI ballI)
    fix p' k' t' assume "app_tasks (set_task p h t m) p' k' = Some t'"
    then show "task_ok t'" using assms(1,3) by (auto simp: set_task_def tasks_ok_def split: if_splits)
  next
    fix p' a b ta tb s r1
    assume *: "app_tasks (set_task p h t m) p' a = Some ta \<and> app_tasks (set_task p h t m) p' b = Some tb"
      and s: "s \<in> set (sends ta)" and r1: "r1 \<in> set (recvs tb)"
    obtain ta0 where ta0: "app_tasks m p' a = Some ta0" "s \<in> set (sends ta0)"
      using * s assms(2) sends by (auto simp: set_task_def split: if_splits)
    show "\<not> belong a b s r1"
    proof (cases "p' = p \<and> b = h")
      case True
      then have "r1 \<in> set (recvs t)" using * r1 by (simp add: set_task_def)
      then show ?thesis
        using new [of r1 a ta0 s] ta0 True old [OF ta0(1) _ ta0(2), of b t0] assms(2) by (cases "r1 \<in> set (recvs t0)") auto
    next
      case False
      then have "app_tasks m p' b = Some tb" using * by (auto simp: set_task_def split: if_splits)
      then show ?thesis using old [OF ta0(1) _ ta0(2) r1] by blast
    qed
  qed
qed

section \<open>The invariant is kept\<close>

lemma on_thread_ok:
  assumes "matching_ok B m" and "on_thread f p k h m = Inr m1" and f: "\<And>t t1. f t = Inr t1 \<Longrightarrow> same_marks t t1"
  shows "matching_ok B m1"
proof -
  from assms(2) obtain t t1 where t: "get_thread p k h m = Inr t" "f t = Inr t1" "m1 = set_thread p k h t1 m"
    by (auto simp: on_thread_def result_simps)
  have "app_threads m p k h = Some t" using t(1) by (auto simp: get_thread_def split: option.splits)
  then show ?thesis
    using assms(1) f [OF t(2)] by (simp add: t(3) set_thread_def matching_ok_def marks_ok_def tasks_ok_def same_marks_def)
qed

lemma here_ok: "matching_ok B m \<Longrightarrow> here f a m = Inr m1 \<Longrightarrow> (\<And>t t1. f t = Inr t1 \<Longrightarrow> same_marks t t1) \<Longrightarrow> matching_ok B m1"
  unfolding here_def by (rule on_thread_ok)

lemma switch_state_ok: "matching_ok B m \<Longrightarrow> switch_state st cond a m = Inr m1 \<Longrightarrow> matching_ok B m1"
  unfolding switch_state_def by (erule (1) here_ok) (rule switch_marks)

lemma switch_own_state_ok: "matching_ok B m \<Longrightarrow> switch_own_state cond a m = Inr m1 \<Longrightarrow> matching_ok B m1"
  unfolding switch_own_state_def by (auto simp: result_simps intro: switch_state_ok)

lemma show_state_ok: "matching_ok B m \<Longrightarrow> show_state S a m = Inr m1 \<Longrightarrow> matching_ok B m1"
  unfolding show_state_def by (erule (1) here_ok) (rule state_marks)

lemma put_event_ok: "matching_ok B m \<Longrightarrow> put_event S ty v a m = Inr m1 \<Longrightarrow> matching_ok B m1"
  unfolding put_event_def by (erule (1) here_ok) (rule event_marks)

lemma count_soft_ok: "matching_ok B m \<Longrightarrow> count_soft ev m = Inr m1 \<Longrightarrow> matching_ok B m1"
  by (auto simp: count_soft_def matching_ok_def tasks_ok_def marks_ok_def)

text \<open>Storing the event of a beginning adds the thread.\<close>

lemma store_begins:
  "matching_ok B m \<Longrightarrow> store_send a m = Inr m1 \<Longrightarrow> matching_ok (insert (place_of a) (fst B), snd B) m1"
  "matching_ok B m \<Longrightarrow> store_recv a m = Inr m1 \<Longrightarrow> matching_ok (fst B, insert (place_of a) (snd B)) m1"
  by (auto simp: store_send_def store_recv_def here_def on_thread_def get_thread_def set_thread_def place_of_def
      matching_ok_def marks_ok_def tasks_ok_def result_simps split: option.splits if_splits)

lemma matching_ok_fewer: "matching_ok C m \<Longrightarrow> fst B \<subseteq> fst C \<Longrightarrow> snd B \<subseteq> snd C \<Longrightarrow> matching_ok B m"
  by (fastforce simp: matching_ok_def marks_ok_def)

lemma store_ok: "matching_ok B m \<Longrightarrow> store_send a m = Inr m1 \<Longrightarrow> matching_ok B m1"
    "matching_ok B m \<Longrightarrow> store_recv a m = Inr m1 \<Longrightarrow> matching_ok B m1"
  by (rule matching_ok_fewer [OF store_begins(1)]; auto) (rule matching_ok_fewer [OF store_begins(2)]; auto)

lemma communicationAt_ok:
  assumes "matching_ok B m" and "trace_communicationAt S a b c d e f g h i j k l pos m = Inr m1"
  shows "matching_ok B m1"
proof -
  from assms(2) obtain es er r where "on_thread (trace_paraver_communication es er r pos) a b c m = Inr m1"
    by (auto simp: trace_communicationAt_def result_simps)
  with assms(1) show ?thesis by (rule on_thread_ok) (rule comm_marks)
qed

text \<open>Changing only the queues of a task.\<close>

lemma set_task_ok: "matching_ok B m \<Longrightarrow> tasks_ok (set_task p k t m) \<Longrightarrow> matching_ok B (set_task p k t m)"
  by (simp add: matching_ok_def marks_ok_def set_task_def)

lemma get_task_SomeD: "get_task p k m = Inr t \<Longrightarrow> app_tasks m p k = Some t"
  by (auto simp: get_task_def split: option.splits)

lemma queue_send_ok:
  assumes m: "matching_ok B m" and res: "queue_send S begin tp a m = Inr m1" and b: "begin \<noteq> None"
    and new: "\<And>h th r s. app_tasks m (o_ptask a) h = Some th \<Longrightarrow> r \<in> set (recvs th) \<Longrightarrow>
      send_partner s = Get_EvTarget (o_event a) \<Longrightarrow> send_tag s = Get_EvTag (o_event a) \<Longrightarrow> \<not> belong (o_task a) h s r"
  shows "matching_ok B m1"
proof -
  let ?e = "o_event a"
  let ?put = "\<lambda>(t :: thread_t) (ti :: task_t). QueueSend begin ?e (int (WriteFileBuffer_getPosition (t_wfb t))) (o_thread a) (virtual_thread t)
       (Get_EvTarget ?e) (Get_EvTag ?e) 0 (send_queue ti)"
  let ?unmatched = "\<lambda>(t :: thread_t) (m2 :: merger). trace_paraver_unmatched_communication (EnabledTasks m2 (o_ptask a) (o_task a)) (unset_record S)
          1 (o_ptask a) (o_task a) (virtual_thread t) (o_time a) (ev_time ?e) 1 tp (Get_EvTarget ?e + 1) 1
          (Get_EvSize ?e) (Get_EvTag ?e)"
  from res obtain t m2 where
    on: "on_task (\<lambda>ti. rmap (\<lambda>q. ti\<lparr>send_queue := q\<rparr>) (?put t ti)) (o_ptask a) (o_task a) m = Inr m2"
    and w: "here (?unmatched t m2) a m2 = Inr m1"
    unfolding queue_send_def Let_def by (elim rbind_InrE) (rule that; assumption)
  from on obtain ti :: task_t and q where q: "get_task (o_ptask a) (o_task a) m = Inr ti" "?put t ti = Inr q"
    "m2 = set_task (o_ptask a) (o_task a) (ti\<lparr>send_queue := q\<rparr>) m"
    unfolding on_task_def by (auto simp: result_simps)
  note ti = get_task_SomeD [OF q(1)]
  then have ok: "task_ok ti" using m by (auto simp: matching_ok_def tasks_ok_def)
  then have "queue_ok (send_queue ti)" by (simp add: task_ok_def)
  from QueueSend_law [OF this] q(2) obtain s where s: "queue_ok q" "queue_contents q = sends ti @ [s]"
    "send_begin s \<noteq> None" "send_key s = 0" "send_partner s = Get_EvTarget ?e" "send_tag s = Get_EvTag ?e"
    using b unfolding sends_def by (smt (verit, ccfv_threshold) Inr_inject send_data.select_convs)
  have tok: "task_ok (ti\<lparr>send_queue := q\<rparr>)"
    using ok s by (auto simp: task_ok_def sends_def recvs_def send_entry_ok_def)
  have "tasks_ok m2" unfolding q(3)
  proof (rule tasks_ok_send [OF _ ti tok])
    show "tasks_ok m" using m by (simp add: matching_ok_def)
  next
    fix s' h th r
    assume "s' \<in> set (sends (ti\<lparr>send_queue := q\<rparr>)) - set (sends ti)" "app_tasks m (o_ptask a) h = Some th" "r \<in> set (recvs th)"
    then show "\<not> belong (o_task a) h s' r" using s new [of h th r s] by (auto simp: sends_def)
  qed (simp add: recvs_def)
  then have "matching_ok B m2" unfolding q(3) by (rule set_task_ok [OF m])
  then show ?thesis using w by (rule here_ok) (rule unmatched_marks)
qed

lemma no_spawns_target: "spawns S = no_spawns \<Longrightarrow> target_ptask S a = Inr (o_ptask a)"
  by (simp add: target_ptask_def intercommunicators_get_target_ptask_def get_spawn_group_def no_spawns_def)

text \<open>What a match does: nothing, or it takes an entry out of the queue of the partner and acts on what it found.\<close>

lemma match_send_cases:
  assumes res: "match_send S begin_of a m = Inr m1" and S: "spawns S = no_spawns"
  obtains (same) "m1 = m" | (tried) t partner found q where
    "get_thread (o_ptask a) (o_task a) (o_thread a) m = Inr t" "get_task (o_ptask a) (Get_EvTarget (o_event a) + 1) m = Inr partner"
    "take_entry (CompareRecv_cbk \<lparr>ref_key = 0, ref_tag = Get_EvTag (o_event a), ref_target = o_task a - 1\<rparr>) (recv_queue partner) = Inr (found, q)"
    "(case found of Some r \<Rightarrow> if recv_begin r = None then queue_send S (begin_of t) (o_ptask a) a
           (set_task (o_ptask a) (Get_EvTarget (o_event a) + 1) (partner\<lparr>recv_queue := q\<rparr>) m)
       else trace_communicationAt S (o_ptask a) (o_task a) (o_thread a) (virtual_thread t) (o_ptask a) (Get_EvTarget (o_event a) + 1)
         (recv_thread r) (recv_vthread r) (begin_of t) (Some (o_event a)) (recv_begin r) (recv_end r) None
         (set_task (o_ptask a) (Get_EvTarget (o_event a) + 1) (partner\<lparr>recv_queue := q\<rparr>) m)
     | None \<Rightarrow> queue_send S (begin_of t) (o_ptask a) a
         (set_task (o_ptask a) (Get_EvTarget (o_event a) + 1) (partner\<lparr>recv_queue := q\<rparr>) m)) = Inr m1"
  using res by (auto simp: match_send_def Let_def no_spawns_target [OF S] ExtractRecv_def result_simps split: if_splits)

abbreviation wait_recv :: "event_ptr \<Rightarrow> event_t \<Rightarrow> event_t \<Rightarrow> occurrence \<Rightarrow> thread_t \<Rightarrow> merger \<Rightarrow> merger result" where
  "wait_recv begin e key a t \<equiv> on_task (\<lambda>ti. rmap (\<lambda>q. ti\<lparr>recv_queue := q\<rparr>)
     (QueueRecv begin e (o_thread a) (virtual_thread t) (Get_EvTarget key) (Get_EvTag key) 0 (recv_queue ti))) (o_ptask a) (o_task a)"

lemma match_recv_cases:
  assumes res: "match_recv S begin_of receive pp ke lax a m = Inr m1" and S: "spawns S = no_spawns"
    and pp: "pp (o_ptask a) = o_ptask a"
  obtains (same) "m1 = m" | (tried) e t partner found q where "receive = Some e"
    "get_thread (o_ptask a) (o_task a) (o_thread a) m = Inr t" "get_task (o_ptask a) (Get_EvTarget e + 1) m = Inr partner"
    "take_entry (CompareSend_cbk \<lparr>ref_key = 0, ref_tag = Get_EvTag e, ref_target = o_task a - 1\<rparr>) (send_queue partner) = Inr (found, q)"
    "(case found of Some s \<Rightarrow> if send_begin s = None then
         (if lax then wait_recv (begin_of t) e (ke e) a t (set_task (o_ptask a) (Get_EvTarget e + 1) (partner\<lparr>send_queue := q\<rparr>) m)
          else Inr (set_task (o_ptask a) (Get_EvTarget e + 1) (partner\<lparr>send_queue := q\<rparr>) m))
       else trace_communicationAt S (o_ptask a) (Get_EvTarget e + 1) (send_thread s) (send_vthread s) (o_ptask a) (o_task a) (o_thread a)
         (virtual_thread t) (send_begin s) (Some (send_end s)) (begin_of t) e (Some (send_position s))
         (set_task (o_ptask a) (Get_EvTarget e + 1) (partner\<lparr>send_queue := q\<rparr>) m)
     | None \<Rightarrow> wait_recv (begin_of t) e (ke e) a t (set_task (o_ptask a) (Get_EvTarget e + 1) (partner\<lparr>send_queue := q\<rparr>) m)) = Inr m1"
proof (cases receive)
  case None
  then show ?thesis using res same by (auto simp: match_recv_def result_simps)
next
  case (Some e)
  show ?thesis
    using res by (auto simp: match_recv_def Let_def no_spawns_target [OF S] ExtractSend_def result_simps pp Some split: if_splits
        intro: same tried [OF Some])
qed

lemma match_send_ok:
  assumes m: "matching_ok B m" and res: "match_send S begin_of a m = Inr m1" and S: "spawns S = no_spawns"
    and b: "\<And>t. (place_of a \<in> fst B \<longrightarrow> Send_Rec t \<noteq> None) \<Longrightarrow> (place_of a \<in> snd B \<longrightarrow> Recv_Rec t \<noteq> None) \<Longrightarrow> begin_of t \<noteq> None"
  shows "matching_ok B m1"
proof -
  let ?e = "o_event a" and ?p = "o_ptask a" and ?h = "Get_EvTarget (o_event a) + 1"
  from res S show ?thesis
  proof (cases rule: match_send_cases)
    case same
    then show ?thesis using m by simp
  next
    case (tried t partner found q)
    note pa = get_task_SomeD [OF tried(2)]
    then have ok: "task_ok partner" using m by (auto simp: matching_ok_def tasks_ok_def)
    have bt: "begin_of t \<noteq> None"
      using tried(1) m by (intro b) (auto simp: get_thread_def matching_ok_def marks_ok_def place_of_def split: option.splits)
    from ok have qok: "queue_ok (recv_queue partner)" by (simp add: task_ok_def)
    show ?thesis
    proof (rule take_entry_cases [OF qok tried(3)], goal_cases none first)
      case none
      have "set_task ?p ?h (partner\<lparr>recv_queue := q\<rparr>) m = m"
        using pa none(2) by (simp add: set_task_def) (cases m; force)
      then have "queue_send S (begin_of t) ?p a m = Inr m1" using tried(4) none(1) by simp
      then show ?thesis
      proof (rule queue_send_ok [OF m _ bt])
        fix h th r and s :: send_data
        assume *: "app_tasks m ?p h = Some th" "r \<in> set (recvs th)" "send_partner s = Get_EvTarget ?e" "send_tag s = Get_EvTag ?e"
        show "\<not> belong (o_task a) h s r"
        proof
          assume bel: "belong (o_task a) h s r"
          then have "h = ?h" using *(3) by (simp add: belong_def)
          then have r: "r \<in> set (queue_contents (recv_queue partner))" "recv_entry_ok r"
            using * pa ok by (auto simp: recvs_def task_ok_def)
          with none(3) bel *(4) show False by (auto simp: CompareRecv_cbk_def belong_def recv_entry_ok_def)
        qed
      qed
    next
      case (first xs r ys)
      let ?m = "set_task ?p ?h (partner\<lparr>recv_queue := q\<rparr>) m"
      have "recv_entry_ok r" using ok first(4) by (auto simp: task_ok_def recvs_def)
      then have comm: "trace_communicationAt S ?p (o_task a) (o_thread a) (virtual_thread t) ?p ?h (recv_thread r) (recv_vthread r)
         (begin_of t) (Some ?e) (recv_begin r) (recv_end r) None ?m = Inr m1"
        using tried(4) first(1) by (auto simp: recv_entry_ok_def)
      have "task_ok (partner\<lparr>recv_queue := q\<rparr>)" using ok first(4-6) by (auto simp: task_ok_def recvs_def sends_def)
      then have "tasks_ok ?m"
        using m first(4,6) by (intro tasks_ok_recv [OF _ pa]) (auto simp: matching_ok_def recvs_def sends_def)
      then have "matching_ok B ?m" by (rule set_task_ok [OF m])
      then show ?thesis using comm by (rule communicationAt_ok)
    qed
  qed
qed

lemma queue_recv_ok:
  assumes m: "matching_ok B m" and b: "begin \<noteq> None"
    and res: "on_task (\<lambda>ti. rmap (\<lambda>q. ti\<lparr>recv_queue := q\<rparr>)
      (QueueRecv begin e thread vthread (Get_EvTarget e) (Get_EvTag e) 0 (recv_queue ti))) p h m = Inr m1"
    and new: "\<And>k tk s r. app_tasks m p k = Some tk \<Longrightarrow> s \<in> set (sends tk) \<Longrightarrow>
      recv_partner r = Get_EvTarget e \<Longrightarrow> recv_tag r = Get_EvTag e \<Longrightarrow> \<not> belong k h s r"
  shows "matching_ok B m1"
proof -
  from res obtain ti q where q: "get_task p h m = Inr ti" "m1 = set_task p h (ti\<lparr>recv_queue := q\<rparr>) m"
    "QueueRecv begin e thread vthread (Get_EvTarget e) (Get_EvTag e) 0 (recv_queue ti) = Inr q"
    unfolding on_task_def by (auto simp: result_simps)
  note ti = get_task_SomeD [OF q(1)]
  then have ok: "task_ok ti" using m by (auto simp: matching_ok_def tasks_ok_def)
  then have "queue_ok (recv_queue ti)" by (simp add: task_ok_def)
  from QueueRecv_law [OF this] q(3) obtain r where r: "queue_ok q" "queue_contents q = recvs ti @ [r]"
    "recv_begin r \<noteq> None" "recv_key r = 0" "recv_partner r = Get_EvTarget e" "recv_tag r = Get_EvTag e" "recv_end r = e"
    using b unfolding recvs_def by (smt (verit, ccfv_threshold) Inr_inject recv_data.select_convs)
  have tok: "task_ok (ti\<lparr>recv_queue := q\<rparr>)"
    using ok r by (auto simp: task_ok_def sends_def recvs_def recv_entry_ok_def)
  have "tasks_ok m1" unfolding q(2)
  proof (rule tasks_ok_recv [OF _ ti tok])
    show "tasks_ok m" using m by (simp add: matching_ok_def)
  next
    fix r' k tk s
    assume "r' \<in> set (recvs (ti\<lparr>recv_queue := q\<rparr>)) - set (recvs ti)" "app_tasks m p k = Some tk" "s \<in> set (sends tk)"
    then show "\<not> belong k h s r'" using r new [of k tk s r] by (auto simp: recvs_def)
  qed (simp add: sends_def)
  then show ?thesis unfolding q(2) by (rule set_task_ok [OF m])
qed

lemma match_recv_ok:
  assumes m: "matching_ok B m" and res: "match_recv S begin_of receive (\<lambda>p. p) (\<lambda>r. r) lax a m = Inr m1"
    and S: "spawns S = no_spawns" and b: "\<And>t. (place_of a \<in> fst B \<longrightarrow> Send_Rec t \<noteq> None) \<Longrightarrow> (place_of a \<in> snd B \<longrightarrow> Recv_Rec t \<noteq> None) \<Longrightarrow> begin_of t \<noteq> None"
  shows "matching_ok B m1"
proof -
  from res S refl show ?thesis
  proof (cases rule: match_recv_cases)
    case same
    then show ?thesis using m by simp
  next
    case (tried e t partner found q)
    let ?p = "o_ptask a" and ?k = "Get_EvTarget e + 1"
    let ?wait = "wait_recv (begin_of t) e e a"
    note pa = get_task_SomeD [OF tried(3)]
    then have ok: "task_ok partner" using m by (auto simp: matching_ok_def tasks_ok_def)
    have bt: "begin_of t \<noteq> None"
      using tried(2) m by (intro b) (auto simp: get_thread_def matching_ok_def marks_ok_def place_of_def split: option.splits)
    from ok have qok: "queue_ok (send_queue partner)" by (simp add: task_ok_def)
    show ?thesis
    proof (rule take_entry_cases [OF qok tried(4)], goal_cases none first)
      case none
      have "set_task ?p ?k (partner\<lparr>send_queue := q\<rparr>) m = m"
        using pa none(2) by (simp add: set_task_def) (cases m; force)
      then have wait: "?wait t m = Inr m1" using tried(5) none(1) by simp
      show ?thesis
      proof (rule queue_recv_ok [OF m bt wait])
        fix k tk and s :: send_data and r :: recv_data
        assume *: "app_tasks m ?p k = Some tk" "s \<in> set (sends tk)" "recv_partner r = Get_EvTarget e" "recv_tag r = Get_EvTag e"
        show "\<not> belong k (o_task a) s r"
        proof
          assume bel: "belong k (o_task a) s r"
          then have "k = ?k" using *(3) by (simp add: belong_def)
          then have s: "s \<in> set (queue_contents (send_queue partner))" "send_entry_ok s"
            using * pa ok by (auto simp: sends_def task_ok_def)
          with none(3) bel *(4) show False by (auto simp: CompareSend_cbk_def belong_def send_entry_ok_def)
        qed
      qed
    next
      case (first xs s ys)
      let ?m = "set_task ?p ?k (partner\<lparr>send_queue := q\<rparr>) m"
      have "send_entry_ok s" using ok first(4) by (auto simp: task_ok_def sends_def)
      then have comm: "trace_communicationAt S ?p ?k (send_thread s) (send_vthread s) ?p (o_task a) (o_thread a) (virtual_thread t)
         (send_begin s) (Some (send_end s)) (begin_of t) e (Some (send_position s)) ?m = Inr m1"
        using tried(5) first(1) by (auto simp: send_entry_ok_def)
      have "task_ok (partner\<lparr>send_queue := q\<rparr>)" using ok first(4-6) by (auto simp: task_ok_def recvs_def sends_def)
      then have "tasks_ok ?m"
        using m first(4,6) by (intro tasks_ok_send [OF _ pa]) (auto simp: matching_ok_def recvs_def sends_def)
      then have "matching_ok B ?m" by (rule set_task_ok [OF m])
      then show ?thesis using comm by (rule communicationAt_ok)
    qed
  qed
qed

section \<open>Every handler\<close>

definition keeps :: "place set \<times> place set \<Rightarrow> (merger \<Rightarrow> merger result) \<Rightarrow> bool" where
  "keeps B f \<longleftrightarrow> (\<forall>m m1. matching_ok B m \<longrightarrow> f m = Inr m1 \<longrightarrow> matching_ok B m1)"

lemma keepsI: "(\<And>m m1. matching_ok B m \<Longrightarrow> f m = Inr m1 \<Longrightarrow> matching_ok B m1) \<Longrightarrow> keeps B f"
  and keepsD: "keeps B f \<Longrightarrow> matching_ok B m \<Longrightarrow> f m = Inr m1 \<Longrightarrow> matching_ok B m1"
  by (simp_all add: keeps_def)

lemma keeps_nil: "keeps B (in_order [])"
  by (simp add: keeps_def)

lemma keeps_cons: "keeps B f \<Longrightarrow> keeps B (in_order fs) \<Longrightarrow> keeps B (in_order (f # fs))"
  unfolding keeps_def in_order_simps by (blast elim: rbind_InrE)

lemma keeps_Inr: "keeps B Inr"
  by (simp add: keeps_def)

lemma keeps_if: "(P \<Longrightarrow> keeps B f) \<Longrightarrow> (\<not> P \<Longrightarrow> keeps B g) \<Longrightarrow> keeps B (if P then f else g)"
  by simp

lemma keeps_basic:
  "keeps B (switch_state st c a)" "keeps B (switch_own_state c a)" "keeps B (show_state S a)" "keeps B (put_event S ty v a)"
  "keeps B (count_soft ev)" "keeps B (store_send a)" "keeps B (store_recv a)"
  by (rule keepsI; erule (1) switch_state_ok switch_own_state_ok show_state_ok put_event_ok count_soft_ok store_ok)+

lemma keeps_match_send:
  assumes "spawns S = no_spawns" and "\<And>t. (place_of a \<in> fst B \<longrightarrow> Send_Rec t \<noteq> None) \<Longrightarrow> (place_of a \<in> snd B \<longrightarrow> Recv_Rec t \<noteq> None) \<Longrightarrow> begin_of t \<noteq> None"
  shows "keeps B (match_send S begin_of a)"
proof (rule keepsI)
  fix m m1 assume "matching_ok B m" "match_send S begin_of a m = Inr m1"
  then show "matching_ok B m1" using assms by (rule match_send_ok)
qed

lemma keeps_match_recv:
  assumes "spawns S = no_spawns" and "\<And>t. (place_of a \<in> fst B \<longrightarrow> Send_Rec t \<noteq> None) \<Longrightarrow> (place_of a \<in> snd B \<longrightarrow> Recv_Rec t \<noteq> None) \<Longrightarrow> begin_of t \<noteq> None"
  shows "keeps B (match_recv S begin_of receive (\<lambda>p. p) (\<lambda>r. r) lax a)"
proof (rule keepsI)
  fix m m1 assume "matching_ok B m" "match_recv S begin_of receive (\<lambda>p. p) (\<lambda>r. r) lax a m = Inr m1"
  then show "matching_ok B m1" using assms by (rule match_recv_ok)
qed

lemma MatchComms_On_ok: "matching_ok B m \<Longrightarrow> MatchComms_On p k m = Inr m1 \<Longrightarrow> matching_ok B m1"
proof -
  assume m: "matching_ok B m" and on: "MatchComms_On p k m = Inr m1"
  then obtain t where t: "get_task p k m = Inr t"
    "m1 = set_task p k (t\<lparr>match_zone := match_zone t + 1, MatchingComms := True\<rparr>) (set_task p k (t\<lparr>match_zone := match_zone t + 1\<rparr>) m)"
    by (auto simp: MatchComms_On_def MatchComms_ChangeZone_def on_task_def result_simps)
  note st = get_task_SomeD [OF t(1)]
  let ?t = "t\<lparr>match_zone := match_zone t + 1, MatchingComms := True\<rparr>"
  have "task_ok ?t" using m st by (auto simp: matching_ok_def tasks_ok_def task_ok_def sends_def recvs_def)
  then have "tasks_ok (set_task p k ?t m)"
    using m by (intro tasks_ok_send [OF _ st]) (auto simp: matching_ok_def sends_def recvs_def)
  moreover have "m1 = set_task p k ?t m" unfolding t(2) by (simp add: set_task_def cong: if_cong)
  ultimately show ?thesis using set_task_ok [OF m] by simp
qed

lemma keeps_start: "keeps B (start_matching S a)"
  using MatchComms_On_ok [of B] by (auto simp: keeps_def start_matching_def result_simps split: if_splits)

lemmas keeps_all = keeps_nil keeps_cons keeps_Inr keeps_if keeps_basic keeps_start

text \<open>The event is not the completion of a persistent receive.\<close>

definition no_persistent_recv :: "occurrence \<Rightarrow> bool" where
  "no_persistent_recv a \<longleftrightarrow> \<not> (EvType a = MPI_PERSIST_REQ_EV \<and> uint (ev_value (o_event a)) = MPI_IRECV_EV)"

text \<open>
  Blocking calls and sends have an event where they begin and one where they end, in this order in the
  trace of a thread: \<open>bracketed S B as\<close>, where the threads \<open>B\<close> have begun a send or a receive before. (The
  combined send and receive takes part only if the merger matches its communications.)
\<close>

definition mpi_handler_of :: "occurrence \<Rightarrow> mpi_handler option" where
  "mpi_handler_of a = map_option (\<lambda>i. snd (PRV_MPI_Event_Handlers ! i)) (find_index (\<lambda>(e, h). e = EvType a) PRV_MPI_Event_Handlers)"

definition send_event :: "settings \<Rightarrow> nat \<Rightarrow> occurrence \<Rightarrow> bool" where
  "send_event S v a \<longleftrightarrow> mpi_handler_of a = Some H_Any_Send_Event \<and> EvValue a = of_nat v \<or>
     mpi_handler_of a = Some H_SendRecv_Event \<and> ev_value (o_event a) = of_nat v \<and> \<not> skip_sendrecv S"

definition recv_event :: "bool \<Rightarrow> occurrence \<Rightarrow> bool" where
  "recv_event begins a \<longleftrightarrow> mpi_handler_of a = Some H_Recv_Event \<and> (EvValue a = EVT_BEGIN) = begins"

definition begun :: "settings \<Rightarrow> occurrence \<Rightarrow> place set \<times> place set \<Rightarrow> place set \<times> place set" where
  "begun S a B = (if send_event S 1 a then insert (place_of a) (fst B) else fst B,
     if recv_event True a then insert (place_of a) (snd B) else snd B)"

fun bracketed :: "settings \<Rightarrow> place set \<times> place set \<Rightarrow> occurrence list \<Rightarrow> bool" where
  "bracketed S B [] = True"
| "bracketed S B (a # as) = ((send_event S 0 a \<longrightarrow> place_of a \<in> fst B) \<and> (recv_event False a \<longrightarrow> place_of a \<in> snd B) \<and>
     bracketed S (begun S a B) as)"

definition takes :: "place set \<times> place set \<Rightarrow> (merger \<Rightarrow> merger result) \<Rightarrow> place set \<times> place set \<Rightarrow> bool" where
  "takes B f C \<longleftrightarrow> (\<forall>m m1. matching_ok B m \<longrightarrow> f m = Inr m1 \<longrightarrow> matching_ok C m1)"

lemma keeps_takes: "keeps B f \<Longrightarrow> takes B f B"
  by (simp add: keeps_def takes_def)

lemma takes_cons: "takes B f D \<Longrightarrow> takes D (in_order fs) C \<Longrightarrow> takes B (in_order (f # fs)) C"
  unfolding takes_def in_order_simps by (blast elim: rbind_InrE)

lemma takes_store: "takes B (store_send a) (insert (place_of a) (fst B), snd B)"
    "takes B (store_recv a) (fst B, insert (place_of a) (snd B))"
  using store_begins by (auto simp: takes_def)

lemma run_handler_keeps:
  assumes S: "spawns S = no_spawns" and h: "mpi_handler_of a = Some h" and "no_persistent_recv a"
    and B: "send_event S 0 a \<longrightarrow> place_of a \<in> fst B" "recv_event False a \<longrightarrow> place_of a \<in> snd B"
  shows "keeps B (run_handler h S a)"
proof -
  note defs = Any_Send_Event_def SendRecv_Event_def Recv_Event_def IRecv_Event_def MPI_PersistentRequest_Init_Event_def
    MPI_PersistentRequest_Free_Event_def MPI_Start_Event_def GlobalOP_event_def trace_enter_global_op_def
    Other_MPI_Event_def MPIIO_Event_def MPI_RMA_Event_def soft_counter_event_def Let_def
    MPI_Request_get_status_SoftwareCounter_Event_def MPI_ElapsedTimeOutsideRequest_get_status_Event_def
    MPI_IProbeSoftwareCounter_Event_def MPI_ElapsedTimeOutsideIProbes_Event_def
    MPI_ElapsedTimeOutsideTests_Event_def MPI_TestSoftwareCounter_Event_def
  have "(EvType a, h) \<in> set PRV_MPI_Event_Handlers"
    using h by (auto simp: mpi_handler_of_def find_index_Some case_prod_beta') (metis nth_mem prod.collapse)
  then have pers: "EvType a = MPI_PERSIST_REQ_EV" if "h = H_MPI_PersistentRequest_Event"
    using that by (simp add: PRV_MPI_Event_Handlers_def)
  show ?thesis
  proof (cases "h = H_MPI_PersistentRequest_Event")
    case True
    then have "uint (ev_value (o_event a)) \<noteq> MPI_IRECV_EV" using pers assms(3) by (simp add: no_persistent_recv_def)
    then show ?thesis using True S
      unfolding MPI_PersistentRequest_Event_def Let_def True run_handler.simps
      by (intro keeps_all keeps_match_send; simp)
  next
    case False
    then show ?thesis
      using S B h by (cases h; simp only: run_handler.simps defs;
        (intro keeps_all keeps_match_send keeps_match_recv; simp add: send_event_def recv_event_def EVT_END_def)?)
  qed
qed

lemma run_handler_begins:
  assumes S: "spawns S = no_spawns" and h: "mpi_handler_of a = Some h" and begins: "send_event S 1 a \<or> recv_event True a"
  shows "takes B (run_handler h S a) (begun S a B)"
proof -
  have one: "v = 1 \<Longrightarrow> v \<noteq> (0 :: 32 word)" "u = 1 \<Longrightarrow> u \<noteq> (0 :: 64 word)" for v u by simp_all
  consider (snd) "h = H_Any_Send_Event" "EvValue a = EVT_BEGIN"
    | (sendrecv) "h = H_SendRecv_Event" "ev_value (o_event a) = EVT_BEGIN" "\<not> skip_sendrecv S"
    | (recv) "h = H_Recv_Event" "EvValue a = EVT_BEGIN"
    using begins h by (auto simp: send_event_def recv_event_def EVT_BEGIN_def)
  then show ?thesis
  proof cases
    case snd
    then have "begun S a B = (insert (place_of a) (fst B), snd B)"
      using h by (simp add: begun_def send_event_def recv_event_def EVT_BEGIN_def)
    then show ?thesis
      using snd by (auto simp: Any_Send_Event_def intro!: takes_cons [OF keeps_takes] takes_cons [OF takes_store(1)] keeps_takes keeps_all)
  next
    case sendrecv
    then have "begun S a B = (insert (place_of a) (fst B), snd B)"
      using h by (simp add: begun_def send_event_def recv_event_def EVT_BEGIN_def)
    then show ?thesis
      using sendrecv S by (auto simp: SendRecv_Event_def Let_def
          intro!: takes_cons [OF keeps_takes] takes_cons takes_store keeps_takes keeps_all keeps_match_send)
  next
    case recv
    then have "begun S a B = (fst B, insert (place_of a) (snd B))"
      using h by (simp add: begun_def send_event_def recv_event_def EVT_BEGIN_def)
    then show ?thesis
      using recv by (auto simp: Recv_Event_def intro!: takes_cons takes_store keeps_takes keeps_all)
  qed
qed

lemma mpi_event_takes:
  assumes "spawns S = no_spawns" and "no_persistent_recv a" and "matching_ok B m" and "mpi_event S a m = Inr m1"
    and "send_event S 0 a \<longrightarrow> place_of a \<in> fst B" "recv_event False a \<longrightarrow> place_of a \<in> snd B"
  shows "matching_ok (begun S a B) m1"
proof (cases "mpi_handler_of a")
  case None
  then show ?thesis using assms(3,4) by (simp add: mpi_event_def mpi_handler_of_def begun_def send_event_def recv_event_def)
next
  case (Some h)
  from assms(4) Some obtain m2 where m2: "run_handler h S a m = Inr m2"
    "m1 = m2\<lparr>mpi_used := Enable_MPI_Operation (EvType a) (mpi_used m2)\<rparr>"
    by (auto simp: mpi_event_def mpi_handler_of_def result_simps)
  have "matching_ok (begun S a B) m2"
  proof (cases "send_event S 1 a \<or> recv_event True a")
    case True
    then show ?thesis using run_handler_begins [OF assms(1) Some True, of B] assms(3) m2(1) by (auto simp: takes_def)
  next
    case False
    then show ?thesis
      using keepsD [OF run_handler_keeps [OF assms(1) Some assms(2,5,6)] assms(3) m2(1)] by (simp add: begun_def)
  qed
  then show ?thesis by (simp add: m2(2) matching_ok_def tasks_ok_def marks_ok_def)
qed

lemma mpi_events_take:
  assumes "spawns S = no_spawns" and "\<forall>a \<in> set as. no_persistent_recv a" and "bracketed S B as" and "matching_ok B m"
    and "rfold (mpi_event S) as m = Inr m1"
  shows "\<exists>C. matching_ok C m1"
  using assms(2-5)
proof (induction as arbitrary: B m)
  case (Cons a as)
  then obtain m2 where m2: "mpi_event S a m = Inr m2" "rfold (mpi_event S) as m2 = Inr m1" by (auto simp: result_simps)
  with mpi_event_takes [OF assms(1) _ Cons.prems(3) m2(1)] Cons.prems Cons.IH [of "begun S a B" m2] show ?case by simp
qed auto

text \<open>
  C8. From empty queues, whatever MPI events of one application the merger translates, in whatever order of the tasks,
  it never leaves a send and a receive waiting that belong together: each finds the other when the later of the two is
  translated. No application is spawned, every end of a send or receive comes after a beginning in its thread, and no
  completion of a persistent receive is among the events (it is queued under the source and tag of the wrong event).
\<close>

theorem no_pair_waits:
  assumes "\<forall>p k t. app_tasks m p k = Some t \<longrightarrow> (send_queue t, recv_queue t) = CommunicationQueues_Init"
    and "spawns S = no_spawns" and "bracketed S ({}, {}) as" and "\<forall>a \<in> set as. no_persistent_recv a"
    and "rfold (mpi_event S) as m = Inr m1"
    and "app_tasks m1 p k = Some tk" and "app_tasks m1 p h = Some th"
    and "s \<in> set (sends tk)" and "r \<in> set (recvs th)"
  shows "\<not> belong k h s r"
proof -
  have "queue_ok (NewQueue_create 1024 :: send_data new_queue)" "queue_ok (NewQueue_create 1024 :: recv_data new_queue)"
    "queue_contents (NewQueue_create 1024) = ([] :: send_data list)" "queue_contents (NewQueue_create 1024) = ([] :: recv_data list)"
    by (simp_all add: create_ok)
  then have "matching_ok ({}, {}) m"
    using assms(1) by (fastforce simp: matching_ok_def tasks_ok_def marks_ok_def task_ok_def sends_def recvs_def CommunicationQueues_Init_def)
  from mpi_events_take [OF assms(2,4,3) this assms(5)] have "tasks_ok m1" by (auto simp: matching_ok_def)
  then show ?thesis using assms(6-9) unfolding tasks_ok_def by blast
qed

end
