(* ===== verification/Comm_Order.thy ===== *)
theory Comm_Order
  imports Comm_Match
begin

text \<open>
  What the matching writes: the communication of a send and its receive is the same record at the same place of
  the file of the sender, whichever of the two the merger translates first; and what happens to it when
  the task of the sender was disabled.
\<close>

section \<open>The operations on known threads and queues\<close>

lemma queue_send_fun:
  assumes t: "get_thread (o_ptask a) (o_task a) (o_thread a) m = Inr t" "get_task (o_ptask a) (o_task a) m = Inr ti"
    and q: "queue_ok (send_queue ti)" and w: "holds_recs (t_wfb t) rs" "disk_room (t_wfb t) n" "length rs < n"
  shows "\<exists>q1 s w1. queue_send S b tp a m = Inr (set_thread (o_ptask a) (o_task a) (o_thread a) (t\<lparr>t_wfb := w1\<rparr>)
      (set_task (o_ptask a) (o_task a) (ti\<lparr>send_queue := q1\<rparr>) m)) \<and> queue_ok q1 \<and>
    queue_contents q1 = sends ti @ [s] \<and> send_begin s = b \<and> send_end s = o_event a \<and>
    send_position s = int (length rs * REC_SIZE) \<and> send_key s = 0 \<and> send_partner s = Get_EvTarget (o_event a) \<and>
    send_tag s = Get_EvTag (o_event a) \<and> send_thread s = o_thread a \<and> send_vthread s = virtual_thread t \<and>
    disk_room w1 n \<and>
    (if EnabledTasks m (o_ptask a) (o_task a) then \<exists>x. holds_recs w1 (rs @ [x]) else w1 = t_wfb t)"
proof -
  let ?e = "o_event a"
  have pos: "WriteFileBuffer_getPosition (t_wfb t) = length rs * REC_SIZE" by (rule prv.next_at [OF w(1)])
  from QueueSend_law [OF q] obtain q1 s where q1:
    "QueueSend b ?e (int (WriteFileBuffer_getPosition (t_wfb t))) (o_thread a) (virtual_thread t)
      (Get_EvTarget ?e) (Get_EvTag ?e) 0 (send_queue ti) = Inr q1" "queue_ok q1" "queue_contents q1 = sends ti @ [s]"
    "s = \<lparr>send_begin = b, send_end = ?e, send_position = int (WriteFileBuffer_getPosition (t_wfb t)), send_key = 0,
       send_partner = Get_EvTarget ?e, send_thread = o_thread a, send_vthread = virtual_thread t, send_tag = Get_EvTag ?e\<rparr>"
    unfolding sends_def by blast
  let ?m = "set_task (o_ptask a) (o_task a) (ti\<lparr>send_queue := q1\<rparr>) m"
  let ?en = "EnabledTasks m (o_ptask a) (o_task a)"
  have "\<exists>w1. trace_paraver_unmatched_communication ?en (unset_record S) 1 (o_ptask a) (o_task a) (virtual_thread t)
      (o_time a) (ev_time ?e) 1 tp (Get_EvTarget ?e + 1) 1 (Get_EvSize ?e) (Get_EvTag ?e) t = Inr (t\<lparr>t_wfb := w1\<rparr>) \<and>
    disk_room w1 n \<and> (if ?en then \<exists>x. holds_recs w1 (rs @ [x]) else w1 = t_wfb t)"
  proof (cases ?en)
    case True
    then show ?thesis using record_law [OF w] by (auto simp: trace_paraver_unmatched_communication_def) blast
  next
    case False
    then show ?thesis using w(2) by (auto simp: trace_paraver_unmatched_communication_def)
  qed
  then obtain w1 where w1: "trace_paraver_unmatched_communication ?en (unset_record S) 1 (o_ptask a) (o_task a) (virtual_thread t)
      (o_time a) (ev_time ?e) 1 tp (Get_EvTarget ?e + 1) 1 (Get_EvSize ?e) (Get_EvTag ?e) t = Inr (t\<lparr>t_wfb := w1\<rparr>)"
    "disk_room w1 n" "if ?en then \<exists>x. holds_recs w1 (rs @ [x]) else w1 = t_wfb t" by blast
  have "queue_send S b tp a m = Inr (set_thread (o_ptask a) (o_task a) (o_thread a) (t\<lparr>t_wfb := w1\<rparr>) ?m)"
    using t q1(1) w1(1) by (simp add: queue_send_def Let_def on_task_def here_def on_thread_def)
  then show ?thesis using q1(2,3) w1(2,3) by (intro exI [of _ q1] exI [of _ s] exI [of _ w1]) (simp add: q1(4) pos)
qed

lemma communicationAt_fun:
  assumes t: "get_thread p_s k_s h_s m = Inr ts" "get_thread p_r k_r h_r m = Inr tr"
    and sync: "TIMESYNC S p_s k_s (Get_EvTime sb) = Inr l_s" "TIMESYNC S p_s k_s (ev_time se) = Inr f_s"
      "TIMESYNC S p_r k_r (Get_EvTime rb) = Inr l_r" "TIMESYNC S p_r k_r (ev_time re) = Inr f_r"
    and w: "disk_room (t_wfb ts) n" "EnabledTasks m p_s k_s \<or> EnabledTasks m p_r k_r"
    and c: "c = comm_record (t_cpu ts) p_s k_s v_s l_s f_s (t_cpu tr) p_r k_r v_r l_r f_r (Get_EvSize re) (Get_EvTag re)"
  shows "holds_recs (t_wfb ts) rs \<Longrightarrow> length rs < n \<Longrightarrow>
      \<exists>w1. trace_communicationAt S p_s k_s h_s v_s p_r k_r h_r v_r sb (Some se) rb re None m =
        Inr (set_thread p_s k_s h_s (ts\<lparr>t_wfb := w1\<rparr>) m) \<and> holds_recs w1 (rs @ [c])"
    "holds_recs (t_wfb ts) (pre @ x # post) \<Longrightarrow> length pre + 1 + length post \<le> n \<Longrightarrow>
      \<exists>w1. trace_communicationAt S p_s k_s h_s v_s p_r k_r h_r v_r sb (Some se) rb re (Some (int (length pre * REC_SIZE))) m =
        Inr (set_thread p_s k_s h_s (ts\<lparr>t_wfb := w1\<rparr>) m) \<and> holds_recs w1 (pre @ c # post)"
proof -
  have sync': "TIMESYNC S p_s k_s (Get_EvTime (Some se)) = Inr f_s" using sync(2) by (simp add: Get_EvTime_def)
  have eq: "trace_communicationAt S p_s k_s h_s v_s p_r k_r h_r v_r sb (Some se) rb re pos m =
      rmap (\<lambda>t1. set_thread p_s k_s h_s t1 m)
        (case pos of None \<Rightarrow> trace_paraver_record c ts | Some q \<Rightarrow> trace_paraver_recordAt c q ts)" for pos
    using w(2) by (cases pos) (auto simp: trace_communicationAt_def t sync sync' on_thread_def trace_paraver_communication_def c)
  show "holds_recs (t_wfb ts) rs \<Longrightarrow> length rs < n \<Longrightarrow>
      \<exists>w1. trace_communicationAt S p_s k_s h_s v_s p_r k_r h_r v_r sb (Some se) rb re None m =
        Inr (set_thread p_s k_s h_s (ts\<lparr>t_wfb := w1\<rparr>) m) \<and> holds_recs w1 (rs @ [c])"
    using record_law [OF _ w(1), of rs c] by (auto simp: eq)
  show "holds_recs (t_wfb ts) (pre @ x # post) \<Longrightarrow> length pre + 1 + length post \<le> n \<Longrightarrow>
      \<exists>w1. trace_communicationAt S p_s k_s h_s v_s p_r k_r h_r v_r sb (Some se) rb re (Some (int (length pre * REC_SIZE))) m =
        Inr (set_thread p_s k_s h_s (ts\<lparr>t_wfb := w1\<rparr>) m) \<and> holds_recs w1 (pre @ c # post)"
    using recordAt_law [OF _ w(1), of pre x post c] by (auto simp: eq simp del: of_nat_mult)
qed

section \<open>A send and its receive\<close>

text \<open>
  Two events of different tasks of one application: the completed send \<open>a\<close> and the completed receive \<open>b\<close>, ready to
  be matched with each other and with no earlier entry. The file of the sender holds \<open>rs\<close>.
\<close>

record exchange =
  x_set :: settings
  x_send :: occurrence
  x_recv :: occurrence
  x_ts :: thread_t
  x_tr :: thread_t
  x_tk :: task_t
  x_th :: task_t
  x_rs :: "paraver_rec list"
  x_times :: "64 word \<times> 64 word \<times> 64 word \<times> 64 word"

definition ready :: "exchange \<Rightarrow> nat \<Rightarrow> merger \<Rightarrow> bool" where
  "ready X n m \<longleftrightarrow>
     (let S = x_set X; a = x_send X; b = x_recv X; e = o_event a; r = o_event b;
          p = o_ptask a; k = o_task a; h = o_task b; (l_s, f_s, l_r, f_r) = x_times X in
      o_ptask b = p \<and> k \<noteq> h \<and> spawns S = no_spawns \<and>
      Get_EvTarget e = h - 1 \<and> Get_EvTarget r = k - 1 \<and> Get_EvTag r = Get_EvTag e \<and>
      h - 1 \<noteq> MPI_PROC_NULL \<and> k - 1 \<noteq> MPI_PROC_NULL \<and>
      isTaskInMyGroup S (p - 1) (h - 1) \<and> isTaskInMyGroup S (p - 1) (k - 1) \<and>
      get_thread p k (o_thread a) m = Inr (x_ts X) \<and> get_thread p h (o_thread b) m = Inr (x_tr X) \<and>
      get_task p k m = Inr (x_tk X) \<and> get_task p h m = Inr (x_th X) \<and>
      MatchingComms (x_tk X) \<and> MatchingComms (x_th X) \<and> task_ok (x_tk X) \<and> task_ok (x_th X) \<and>
      Send_Rec (x_ts X) \<noteq> None \<and> Recv_Rec (x_tr X) \<noteq> None \<and>
      (\<forall>s \<in> set (sends (x_tk X)). \<not> CompareSend_cbk \<lparr>ref_key = 0, ref_tag = Get_EvTag r, ref_target = h - 1\<rparr> s) \<and>
      (\<forall>d \<in> set (recvs (x_th X)). \<not> CompareRecv_cbk \<lparr>ref_key = 0, ref_tag = Get_EvTag e, ref_target = k - 1\<rparr> d) \<and>
      holds_recs (t_wfb (x_ts X)) (x_rs X) \<and> disk_room (t_wfb (x_ts X)) n \<and>
      TIMESYNC S p k (Get_EvTime (Send_Rec (x_ts X))) = Inr l_s \<and> TIMESYNC S p k (ev_time e) = Inr f_s \<and>
      TIMESYNC S p h (Get_EvTime (Recv_Rec (x_tr X))) = Inr l_r \<and> TIMESYNC S p h (ev_time r) = Inr f_r)"

definition x_comm :: "exchange \<Rightarrow> paraver_rec" where
  "x_comm X = (let (l_s, f_s, l_r, f_r) = x_times X; a = x_send X; b = x_recv X in
     comm_record (t_cpu (x_ts X)) (o_ptask a) (o_task a) (virtual_thread (x_ts X)) l_s f_s
       (t_cpu (x_tr X)) (o_ptask b) (o_task b) (virtual_thread (x_tr X)) l_r f_r
       (Get_EvSize (o_event b)) (Get_EvTag (o_event b)))"

definition x_match_send :: "exchange \<Rightarrow> merger \<Rightarrow> merger result" where
  "x_match_send X = match_send (x_set X) Send_Rec (x_send X)"

definition x_match_recv :: "exchange \<Rightarrow> merger \<Rightarrow> merger result" where
  "x_match_recv X = match_recv (x_set X) Recv_Rec (Some (o_event (x_recv X))) (\<lambda>p. p) (\<lambda>r. r) True (x_recv X)"

definition exchanged :: "exchange \<Rightarrow> merger \<Rightarrow> bool" where
  "exchanged X m \<longleftrightarrow> (\<exists>w tk th.
     get_thread (o_ptask (x_send X)) (o_task (x_send X)) (o_thread (x_send X)) m = Inr ((x_ts X)\<lparr>t_wfb := w\<rparr>) \<and>
     holds_recs w (x_rs X @ [x_comm X]) \<and>
     get_task (o_ptask (x_send X)) (o_task (x_send X)) m = Inr tk \<and> sends tk = sends (x_tk X) \<and>
     get_task (o_ptask (x_recv X)) (o_task (x_recv X)) m = Inr th \<and> recvs th = recvs (x_th X))"

lemma take_last:
  assumes "queue_ok q" and "queue_contents q = xs @ [x]" and "P x" and "\<forall>y \<in> set xs. \<not> P y"
  shows "\<exists>q1. take_entry P q = Inr (Some x, q1) \<and> queue_ok q1 \<and> queue_contents q1 = xs"
proof -
  have "nat (NumOfElements q) = Suc (length xs)" using queue_length [OF assms(1)] assms(2) by simp
  then have "room_to_delete (length xs) q" using assms(1) by (auto simp: room_to_delete_def queue_ok_def)
  from take_entry_first [OF assms(1,2,3,4) this] show ?thesis by auto
qed

lemma readyD:
  assumes "ready X n m"
  shows "o_ptask (x_recv X) = o_ptask (x_send X)" "o_task (x_send X) \<noteq> o_task (x_recv X)" "spawns (x_set X) = no_spawns"
    "Get_EvTarget (o_event (x_send X)) = o_task (x_recv X) - 1" "Get_EvTarget (o_event (x_recv X)) = o_task (x_send X) - 1"
    "Get_EvTag (o_event (x_recv X)) = Get_EvTag (o_event (x_send X))"
    "o_task (x_recv X) - 1 \<noteq> MPI_PROC_NULL" "o_task (x_send X) - 1 \<noteq> MPI_PROC_NULL"
    "isTaskInMyGroup (x_set X) (o_ptask (x_send X) - 1) (o_task (x_recv X) - 1)"
    "isTaskInMyGroup (x_set X) (o_ptask (x_send X) - 1) (o_task (x_send X) - 1)"
    "get_thread (o_ptask (x_send X)) (o_task (x_send X)) (o_thread (x_send X)) m = Inr (x_ts X)"
    "get_thread (o_ptask (x_send X)) (o_task (x_recv X)) (o_thread (x_recv X)) m = Inr (x_tr X)"
    "get_task (o_ptask (x_send X)) (o_task (x_send X)) m = Inr (x_tk X)"
    "get_task (o_ptask (x_send X)) (o_task (x_recv X)) m = Inr (x_th X)"
    "MatchingComms (x_tk X)" "MatchingComms (x_th X)" "task_ok (x_tk X)" "task_ok (x_th X)"
    "Send_Rec (x_ts X) \<noteq> None" "Recv_Rec (x_tr X) \<noteq> None"
    "\<forall>s \<in> set (sends (x_tk X)). \<not> CompareSend_cbk \<lparr>ref_key = 0, ref_tag = Get_EvTag (o_event (x_send X)), ref_target = o_task (x_recv X) - 1\<rparr> s"
    "\<forall>d \<in> set (recvs (x_th X)). \<not> CompareRecv_cbk \<lparr>ref_key = 0, ref_tag = Get_EvTag (o_event (x_send X)), ref_target = o_task (x_send X) - 1\<rparr> d"
    "holds_recs (t_wfb (x_ts X)) (x_rs X)" "disk_room (t_wfb (x_ts X)) n"
  using assms unfolding ready_def Let_def by (cases "x_times X"; simp)+

lemma ready_times:
  assumes "ready X n m"
  obtains l_s f_s l_r f_r where "x_times X = (l_s, f_s, l_r, f_r)"
    "TIMESYNC (x_set X) (o_ptask (x_send X)) (o_task (x_send X)) (Get_EvTime (Send_Rec (x_ts X))) = Inr l_s"
    "TIMESYNC (x_set X) (o_ptask (x_send X)) (o_task (x_send X)) (ev_time (o_event (x_send X))) = Inr f_s"
    "TIMESYNC (x_set X) (o_ptask (x_send X)) (o_task (x_recv X)) (Get_EvTime (Recv_Rec (x_tr X))) = Inr l_r"
    "TIMESYNC (x_set X) (o_ptask (x_send X)) (o_task (x_recv X)) (ev_time (o_event (x_recv X))) = Inr f_r"
  using assms unfolding ready_def Let_def by (cases "x_times X") auto

text \<open>The send finds nothing and is queued.\<close>

lemma send_waits:
  assumes r: "ready X n m" and len: "length (x_rs X) < n"
  defines "a \<equiv> x_send X" and "b \<equiv> x_recv X"
  shows "\<exists>q s w. x_match_send X m = Inr (set_thread (o_ptask a) (o_task a) (o_thread a) ((x_ts X)\<lparr>t_wfb := w\<rparr>)
      (set_task (o_ptask a) (o_task a) ((x_tk X)\<lparr>send_queue := q\<rparr>) (set_task (o_ptask a) (o_task b) (x_th X) m))) \<and>
    queue_ok q \<and> queue_contents q = sends (x_tk X) @ [s] \<and> send_begin s = Send_Rec (x_ts X) \<and> send_end s = o_event a \<and>
    send_position s = int (length (x_rs X) * REC_SIZE) \<and> send_thread s = o_thread a \<and> send_vthread s = virtual_thread (x_ts X) \<and>
    CompareSend_cbk \<lparr>ref_key = 0, ref_tag = Get_EvTag (o_event a), ref_target = o_task b - 1\<rparr> s \<and> disk_room w n \<and>
    (if EnabledTasks m (o_ptask a) (o_task a) then \<exists>x. holds_recs w (x_rs X @ [x]) else w = t_wfb (x_ts X))"
proof -
  note R = readyD [OF r, folded a_def b_def]
  have ok: "queue_ok (recv_queue (x_th X))" "queue_ok (send_queue (x_tk X))" using R(17,18) by (auto simp: task_ok_def)
  have none: "ExtractRecv (o_task a - 1) (Get_EvTag (o_event a)) 0 (recv_queue (x_th X)) = Inr (None, recv_queue (x_th X))"
    unfolding ExtractRecv_def by (rule take_entry_none [OF ok(1)]) (use R(22) in \<open>simp add: recvs_def\<close>)
  let ?m = "set_task (o_ptask a) (o_task b) (x_th X) m"
  have "x_match_send X m = queue_send (x_set X) (Send_Rec (x_ts X)) (o_ptask a) a ?m"
    using R(4,7,9,11,13-15) none no_spawns_target [OF R(3)]
    by (simp add: x_match_send_def match_send_def Let_def MatchComms_Enabled_def flip: a_def)
  moreover have "get_thread (o_ptask a) (o_task a) (o_thread a) ?m = Inr (x_ts X)" using R(11) by simp
  moreover have "get_task (o_ptask a) (o_task a) ?m = Inr (x_tk X)" using R(2,13) by simp
  moreover from queue_send_fun [OF calculation(2,3) ok(2) R(23,24) len, of "x_set X" "Send_Rec (x_ts X)" "o_ptask a"]
  obtain q s w where
    "queue_send (x_set X) (Send_Rec (x_ts X)) (o_ptask a) a ?m =
      Inr (set_thread (o_ptask a) (o_task a) (o_thread a) ((x_ts X)\<lparr>t_wfb := w\<rparr>)
        (set_task (o_ptask a) (o_task a) ((x_tk X)\<lparr>send_queue := q\<rparr>) ?m))"
    "queue_ok q" "queue_contents q = sends (x_tk X) @ [s]" "send_begin s = Send_Rec (x_ts X)" "send_end s = o_event a"
    "send_position s = int (length (x_rs X) * REC_SIZE)" "send_thread s = o_thread a" "send_vthread s = virtual_thread (x_ts X)"
    "send_key s = 0" "send_partner s = o_task b - 1" "send_tag s = Get_EvTag (o_event a)" "disk_room w n"
    "if EnabledTasks m (o_ptask a) (o_task a) then \<exists>x. holds_recs w (x_rs X @ [x]) else w = t_wfb (x_ts X)"
    using R(4) by auto
  ultimately show ?thesis
    by (intro exI [of _ q] exI [of _ s] exI [of _ w]) (simp add: CompareSend_cbk_def)
qed

text \<open>The receive that comes after it takes the send out and writes at its position.\<close>

definition after_send :: "exchange \<Rightarrow> send_data new_queue \<Rightarrow> wfb \<Rightarrow> merger \<Rightarrow> merger" where
  "after_send X q w m = set_thread (o_ptask (x_send X)) (o_task (x_send X)) (o_thread (x_send X)) ((x_ts X)\<lparr>t_wfb := w\<rparr>)
     (set_task (o_ptask (x_send X)) (o_task (x_send X)) ((x_tk X)\<lparr>send_queue := q\<rparr>)
       (set_task (o_ptask (x_send X)) (o_task (x_recv X)) (x_th X) m))"

definition waiting :: "exchange \<Rightarrow> send_data new_queue \<Rightarrow> bool" where
  "waiting X q \<longleftrightarrow> queue_ok q \<and> (\<exists>s. queue_contents q = sends (x_tk X) @ [s] \<and> send_begin s = Send_Rec (x_ts X) \<and>
     send_end s = o_event (x_send X) \<and> send_position s = int (length (x_rs X) * REC_SIZE) \<and>
     send_thread s = o_thread (x_send X) \<and> send_vthread s = virtual_thread (x_ts X) \<and>
     CompareSend_cbk \<lparr>ref_key = 0, ref_tag = Get_EvTag (o_event (x_send X)), ref_target = o_task (x_recv X) - 1\<rparr> s)"

lemma recv_after_send:
  assumes r: "ready X n m" and q: "waiting X q" and w: "disk_room w n"
    and en: "EnabledTasks m (o_ptask (x_send X)) (o_task (x_send X)) \<or> EnabledTasks m (o_ptask (x_recv X)) (o_task (x_recv X))"
  shows "holds_recs w (x_rs X @ [x]) \<Longrightarrow> length (x_rs X) < n \<Longrightarrow>
      \<exists>m1. x_match_recv X (after_send X q w m) = Inr m1 \<and> exchanged X m1"
    "holds_recs w (x_rs X) \<Longrightarrow> x_match_recv X (after_send X q w m) = Inl (Exit (-1))"
proof -
  define a b where ab: "a = x_send X" "b = x_recv X"
  note R = readyD [OF r, folded ab]
  let ?m1 = "after_send X q w m"
  from q obtain s where q1: "queue_ok q" "queue_contents q = sends (x_tk X) @ [s]" "send_begin s = Send_Rec (x_ts X)"
      "send_end s = o_event a" "send_position s = int (length (x_rs X) * REC_SIZE)" "send_thread s = o_thread a"
      "send_vthread s = virtual_thread (x_ts X)"
      "CompareSend_cbk \<lparr>ref_key = 0, ref_tag = Get_EvTag (o_event a), ref_target = o_task b - 1\<rparr> s"
    unfolding waiting_def ab by blast
  from take_last [OF q1(1,2,8) R(21)] obtain q2 where q2: "queue_ok q2" "queue_contents q2 = sends (x_tk X)"
    "ExtractSend (o_task b - 1) (Get_EvTag (o_event b)) 0 q = Inr (Some s, q2)"
    unfolding ExtractSend_def R(6) by blast
  let ?m2 = "set_task (o_ptask a) (o_task a) ((x_tk X)\<lparr>send_queue := q2\<rparr>) ?m1"
  have get: "get_thread (o_ptask a) (o_task b) (o_thread b) ?m1 = Inr (x_tr X)"
    "get_task (o_ptask a) (o_task a) ?m1 = Inr ((x_tk X)\<lparr>send_queue := q\<rparr>)"
    "get_task (o_ptask a) (o_task b) ?m1 = Inr (x_th X)" using R(2,12) by (simp_all add: after_send_def flip: ab)
  have res: "x_match_recv X ?m1 = trace_communicationAt (x_set X) (o_ptask a) (o_task a) (o_thread a) (virtual_thread (x_ts X))
      (o_ptask b) (o_task b) (o_thread b) (virtual_thread (x_tr X)) (Send_Rec (x_ts X)) (Some (o_event a))
      (Recv_Rec (x_tr X)) (o_event b) (Some (int (length (x_rs X) * REC_SIZE))) ?m2"
    using R(1,5,8,10,16,19) get q2(3) q1(3-7) no_spawns_target [OF R(3)]
    by (auto simp: x_match_recv_def match_recv_def Let_def MatchComms_Enabled_def simp flip: ab)
  from ready_times [OF r] obtain l_s f_s l_r f_r where T: "x_times X = (l_s, f_s, l_r, f_r)"
    "TIMESYNC (x_set X) (o_ptask a) (o_task a) (Get_EvTime (Send_Rec (x_ts X))) = Inr l_s"
    "TIMESYNC (x_set X) (o_ptask a) (o_task a) (ev_time (o_event a)) = Inr f_s"
    "TIMESYNC (x_set X) (o_ptask b) (o_task b) (Get_EvTime (Recv_Rec (x_tr X))) = Inr l_r"
    "TIMESYNC (x_set X) (o_ptask b) (o_task b) (ev_time (o_event b)) = Inr f_r" unfolding ab R(1) [unfolded ab] by blast
  have G: "get_thread (o_ptask a) (o_task a) (o_thread a) ?m2 = Inr ((x_ts X)\<lparr>t_wfb := w\<rparr>)"
    "get_thread (o_ptask b) (o_task b) (o_thread b) ?m2 = Inr (x_tr X)"
    "EnabledTasks ?m2 (o_ptask a) (o_task a) \<or> EnabledTasks ?m2 (o_ptask b) (o_task b)"
    using R(1,2,12) en by (simp_all add: ab after_send_def)
  have comm: "x_comm X = comm_record (t_cpu ((x_ts X)\<lparr>t_wfb := w\<rparr>)) (o_ptask a) (o_task a) (virtual_thread (x_ts X)) l_s f_s
      (t_cpu (x_tr X)) (o_ptask b) (o_task b) (virtual_thread (x_tr X)) l_r f_r (Get_EvSize (o_event b)) (Get_EvTag (o_event b))"
    by (simp add: x_comm_def T(1) Let_def ab)
  show "\<exists>m1. x_match_recv X ?m1 = Inr m1 \<and> exchanged X m1" if "holds_recs w (x_rs X @ [x])" "length (x_rs X) < n"
  proof -
    have "disk_room (t_wfb ((x_ts X)\<lparr>t_wfb := w\<rparr>)) n" "holds_recs (t_wfb ((x_ts X)\<lparr>t_wfb := w\<rparr>)) (x_rs X @ x # [])"
      "length (x_rs X) + 1 + length ([] :: paraver_rec list) \<le> n" using w that by simp_all
    from communicationAt_fun(2) [OF G(1,2) T(2-5) this(1) G(3) comm this(2,3)]
    obtain w1 where
      "x_match_recv X ?m1 = Inr (set_thread (o_ptask a) (o_task a) (o_thread a) ((x_ts X)\<lparr>t_wfb := w1\<rparr>) ?m2)"
      "holds_recs w1 (x_rs X @ [x_comm X])"
      unfolding res by auto
    then show ?thesis using q2(2) R(1,2) by (auto simp: exchanged_def sends_def after_send_def simp flip: ab)
  qed
  show "x_match_recv X ?m1 = Inl (Exit (-1))" if "holds_recs w (x_rs X)"
  proof -
    have "WriteFileBuffer_writeAt (rec_bytes c) (int (length (x_rs X) * REC_SIZE)) w = Inl (Exit (-1))" for c
      using writeAt_beyond [of w "map rec_bytes (x_rs X)" "rec_bytes c" "length (x_rs X)"] that by (simp add: holds_recs_def)
    moreover have "Get_EvTime (Some (o_event a)) = ev_time (o_event a)" by (simp add: Get_EvTime_def)
    ultimately show ?thesis unfolding res trace_communicationAt_def G(1,2) T(2-5) rbind_simps
      using G(3) T(3) G(1) by (auto simp: on_thread_def trace_paraver_communication_def trace_paraver_recordAt_def)
  qed
qed

lemma send_queues:
  assumes r: "ready X n m" and len: "length (x_rs X) < n"
  shows "\<exists>q w. x_match_send X m = Inr (after_send X q w m) \<and> waiting X q \<and> disk_room w n \<and>
    (if EnabledTasks m (o_ptask (x_send X)) (o_task (x_send X)) then \<exists>x. holds_recs w (x_rs X @ [x]) else w = t_wfb (x_ts X))"
  using send_waits [OF assms] unfolding after_send_def waiting_def by blast

lemma send_first:
  assumes r: "ready X n m" and len: "length (x_rs X) < n" and en: "EnabledTasks m (o_ptask (x_send X)) (o_task (x_send X))"
  shows "\<exists>m1. rbind (x_match_send X m) (x_match_recv X) = Inr m1 \<and> exchanged X m1"
proof -
  from send_queues [OF r len] en obtain q w x where m1: "x_match_send X m = Inr (after_send X q w m)" "waiting X q"
    "disk_room w n" "holds_recs w (x_rs X @ [x])" by auto
  from recv_after_send(1) [OF r m1(2,3) disjI1 [OF en] m1(4) len] m1(1) show ?thesis by auto
qed

text \<open>The receive finds nothing and is queued.\<close>

lemma recv_waits:
  assumes r: "ready X n m"
  defines "a \<equiv> x_send X" and "b \<equiv> x_recv X"
  shows "\<exists>q d. x_match_recv X m =
      Inr (set_task (o_ptask a) (o_task b) ((x_th X)\<lparr>recv_queue := q\<rparr>) (set_task (o_ptask a) (o_task a) (x_tk X) m)) \<and>
    queue_ok q \<and> queue_contents q = recvs (x_th X) @ [d] \<and> recv_begin d = Recv_Rec (x_tr X) \<and> recv_end d = o_event b \<and>
    recv_thread d = o_thread b \<and> recv_vthread d = virtual_thread (x_tr X) \<and>
    CompareRecv_cbk \<lparr>ref_key = 0, ref_tag = Get_EvTag (o_event a), ref_target = o_task a - 1\<rparr> d"
proof -
  note R = readyD [OF r, folded a_def b_def]
  have ok: "queue_ok (recv_queue (x_th X))" "queue_ok (send_queue (x_tk X))" using R(17,18) by (auto simp: task_ok_def)
  have none: "ExtractSend (o_task b - 1) (Get_EvTag (o_event a)) 0 (send_queue (x_tk X)) = Inr (None, send_queue (x_tk X))"
    unfolding ExtractSend_def by (rule take_entry_none [OF ok(2)]) (use R(21) in \<open>simp add: sends_def\<close>)
  from QueueRecv_law [OF ok(1)] obtain q d where q:
    "QueueRecv (Recv_Rec (x_tr X)) (o_event b) (o_thread b) (virtual_thread (x_tr X)) (o_task a - 1) (Get_EvTag (o_event a)) 0
      (recv_queue (x_th X)) = Inr q" "queue_ok q" "queue_contents q = recvs (x_th X) @ [d]"
    "d = \<lparr>recv_begin = Recv_Rec (x_tr X), recv_end = o_event b, recv_key = 0, recv_partner = o_task a - 1,
       recv_thread = o_thread b, recv_vthread = virtual_thread (x_tr X), recv_tag = Get_EvTag (o_event a)\<rparr>"
    unfolding recvs_def by blast
  let ?m = "set_task (o_ptask a) (o_task a) (x_tk X) m"
  have "get_task (o_ptask a) (o_task b) ?m = Inr (x_th X)" using R(2,14) by simp
  then have "x_match_recv X m = Inr (set_task (o_ptask a) (o_task b) ((x_th X)\<lparr>recv_queue := q\<rparr>) ?m)"
    using R(1,5,6,8,10,12,13,14,16) none q(1) no_spawns_target [OF R(3)]
    by (simp add: x_match_recv_def match_recv_def Let_def MatchComms_Enabled_def on_task_def flip: a_def b_def)
  then show ?thesis using q(2-4) by (intro exI [of _ q] exI [of _ d]) (simp add: CompareRecv_cbk_def)
qed

lemma recv_first:
  assumes r: "ready X n m" and len: "length (x_rs X) < n"
    and en: "EnabledTasks m (o_ptask (x_send X)) (o_task (x_send X)) \<or> EnabledTasks m (o_ptask (x_recv X)) (o_task (x_recv X))"
  shows "\<exists>m1. rbind (x_match_recv X m) (x_match_send X) = Inr m1 \<and> exchanged X m1"
proof -
  define a b where ab: "a = x_send X" "b = x_recv X"
  note R = readyD [OF r, folded ab]
  from recv_waits [OF r, folded ab] obtain q d where
    m1: "x_match_recv X m =
      Inr (set_task (o_ptask a) (o_task b) ((x_th X)\<lparr>recv_queue := q\<rparr>) (set_task (o_ptask a) (o_task a) (x_tk X) m))"
      (is "_ = Inr ?m1")
    and q: "queue_ok q" "queue_contents q = recvs (x_th X) @ [d]" "recv_begin d = Recv_Rec (x_tr X)" "recv_end d = o_event b"
      "recv_thread d = o_thread b" "recv_vthread d = virtual_thread (x_tr X)"
      "CompareRecv_cbk \<lparr>ref_key = 0, ref_tag = Get_EvTag (o_event a), ref_target = o_task a - 1\<rparr> d" by blast
  from take_last [OF q(1,2,7) R(22)] obtain q2 where q2: "queue_ok q2" "queue_contents q2 = recvs (x_th X)"
    "ExtractRecv (o_task a - 1) (Get_EvTag (o_event a)) 0 q = Inr (Some d, q2)"
    unfolding ExtractRecv_def by blast
  let ?m2 = "set_task (o_ptask a) (o_task b) ((x_th X)\<lparr>recv_queue := q2\<rparr>) ?m1"
  have get: "get_thread (o_ptask a) (o_task a) (o_thread a) ?m1 = Inr (x_ts X)"
    "get_task (o_ptask a) (o_task a) ?m1 = Inr (x_tk X)"
    "get_task (o_ptask a) (o_task b) ?m1 = Inr ((x_th X)\<lparr>recv_queue := q\<rparr>)" using R(2,11) by simp_all
  have res: "x_match_send X ?m1 = trace_communicationAt (x_set X) (o_ptask a) (o_task a) (o_thread a) (virtual_thread (x_ts X))
      (o_ptask b) (o_task b) (o_thread b) (virtual_thread (x_tr X)) (Send_Rec (x_ts X)) (Some (o_event a))
      (Recv_Rec (x_tr X)) (o_event b) None ?m2"
    using R(1,4,7,9,15,20) get q2(3) q(3-6) no_spawns_target [OF R(3)]
    by (auto simp: x_match_send_def match_send_def Let_def MatchComms_Enabled_def simp flip: ab)
  from ready_times [OF r] obtain l_s f_s l_r f_r where T: "x_times X = (l_s, f_s, l_r, f_r)"
    "TIMESYNC (x_set X) (o_ptask a) (o_task a) (Get_EvTime (Send_Rec (x_ts X))) = Inr l_s"
    "TIMESYNC (x_set X) (o_ptask a) (o_task a) (ev_time (o_event a)) = Inr f_s"
    "TIMESYNC (x_set X) (o_ptask b) (o_task b) (Get_EvTime (Recv_Rec (x_tr X))) = Inr l_r"
    "TIMESYNC (x_set X) (o_ptask b) (o_task b) (ev_time (o_event b)) = Inr f_r" unfolding ab R(1) [unfolded ab] by blast
  have G: "get_thread (o_ptask a) (o_task a) (o_thread a) ?m2 = Inr (x_ts X)"
    "get_thread (o_ptask b) (o_task b) (o_thread b) ?m2 = Inr (x_tr X)"
    "EnabledTasks ?m2 (o_ptask a) (o_task a) \<or> EnabledTasks ?m2 (o_ptask b) (o_task b)"
    using R(1,2,11,12) en by (simp_all add: ab)
  have comm: "x_comm X = comm_record (t_cpu (x_ts X)) (o_ptask a) (o_task a) (virtual_thread (x_ts X)) l_s f_s
      (t_cpu (x_tr X)) (o_ptask b) (o_task b) (virtual_thread (x_tr X)) l_r f_r (Get_EvSize (o_event b)) (Get_EvTag (o_event b))"
    by (simp add: x_comm_def T(1) Let_def ab)
  from communicationAt_fun(1) [OF G(1,2) T(2-5) R(24) G(3) comm R(23) len]
  obtain w1 where
    "x_match_send X ?m1 = Inr (set_thread (o_ptask a) (o_task a) (o_thread a) ((x_ts X)\<lparr>t_wfb := w1\<rparr>) ?m2)"
    "holds_recs w1 (x_rs X @ [x_comm X])"
    unfolding res by auto
  then show ?thesis using m1 q2(2) R(1,2) by (auto simp: exchanged_def recvs_def simp flip: ab)
qed

section \<open>Properties\<close>

text \<open>
  C11. It does not matter which of a blocking send and its receive is translated first, for two tasks of an application without
  spawns that match their communications, when the receive names its source and tag, the task of the sender is enabled,
  both calls have begun and no other call waits that matches: in both orders the file of
  the sender ends with one communication record with the same contents, its four synchronised times and the
  size and tag of the receive, in the place of the send, and nothing is left in the queues.
\<close>

theorem send_recv_either_order:
  assumes "ready X n m" and "length (x_rs X) < n" and "EnabledTasks m (o_ptask (x_send X)) (o_task (x_send X))"
  shows "(\<exists>m1. rbind (x_match_send X m) (x_match_recv X) = Inr m1 \<and> exchanged X m1) \<and>
    (\<exists>m2. rbind (x_match_recv X m) (x_match_send X) = Inr m2 \<and> exchanged X m2)"
  using send_first [OF assms] recv_first [OF assms(1,2)] assms(3) by blast

text \<open>
  C39. A send of a disabled task is queued with the position of the next record although no record is
  written for it. If the receiver is enabled, the communication then replaces whatever record the sender
  wrote next, which is lost; if there is none, the merger stops with an error.
\<close>

theorem disabled_send_overwrites:
  assumes r: "ready X n m" and len: "length (x_rs X) < n"
    and en: "\<not> EnabledTasks m (o_ptask (x_send X)) (o_task (x_send X))" "EnabledTasks m (o_ptask (x_recv X)) (o_task (x_recv X))"
  shows "rbind (x_match_send X m) (x_match_recv X) = Inl (Exit (-1)) \<and>
    (\<exists>m1. rbind (x_match_send X m) (\<lambda>m1. rbind (here (trace_paraver_record lost) (x_send X) m1) (x_match_recv X)) = Inr m1 \<and>
      exchanged X m1)"
proof -
  have hold: "holds_recs (t_wfb (x_ts X)) (x_rs X)" using readyD [OF r] by blast
  from send_queues [OF r len] en obtain q where m1: "x_match_send X m = Inr (after_send X q (t_wfb (x_ts X)) m)" "waiting X q"
    "disk_room (t_wfb (x_ts X)) n" by auto
  from recv_after_send(2) [OF r m1(2,3) disjI2 [OF en(2)] hold] m1(1)
  have stop: "rbind (x_match_send X m) (x_match_recv X) = Inl (Exit (-1))" by simp
  from record_law [OF hold m1(3) len, of lost] obtain w where
    w: "trace_paraver_record lost (x_ts X) = Inr ((x_ts X)\<lparr>t_wfb := w\<rparr>)" "holds_recs w (x_rs X @ [lost])" "disk_room w n" by blast
  have "here (trace_paraver_record lost) (x_send X) (after_send X q (t_wfb (x_ts X)) m) =
      Inr (set_thread (o_ptask (x_send X)) (o_task (x_send X)) (o_thread (x_send X)) ((x_ts X)\<lparr>t_wfb := w\<rparr>)
        (after_send X q (t_wfb (x_ts X)) m))"
    using w(1) by (simp add: here_def on_thread_def after_send_def)
  moreover have "set_thread (o_ptask (x_send X)) (o_task (x_send X)) (o_thread (x_send X)) ((x_ts X)\<lparr>t_wfb := w\<rparr>)
      (after_send X q (t_wfb (x_ts X)) m) = after_send X q w m"
    by (simp add: after_send_def set_thread_def cong: if_cong)
  ultimately show ?thesis
    using stop recv_after_send(1) [OF r m1(2) w(3) disjI2 [OF en(2)] w(2) len] m1(1) by simp
qed

section \<open>Examples\<close>

definition ex_settings :: settings where
  "ex_settings = \<lparr>joint_states = True, nanos_task_view = False, skip_sendrecv = False, circular_buffer = False, circular_skip_matches = False,
     num_tasks = (\<lambda>p. 2), file_tasks = [(1, 1), (1, 2)], sync_tables = ts_start\<lparr>LatencyTable := [[0, 5]]\<rparr>,
     spawns = no_spawns, unset_record = ex_record\<rparr>"

definition ex_mpi :: "32 word \<Rightarrow> 64 word \<Rightarrow> 64 word \<Rightarrow> 32 word \<Rightarrow> event_t" where
  "ex_mpi ty v time target = \<lparr>ev_param = mpi_params target 64 7 1 0, ev_value = v, ev_time = time, ev_hwc = [],
     ev_event = ty, ev_hwcset = 0\<rparr>"

definition ex_at :: "event_t \<Rightarrow> 32 word \<Rightarrow> occurrence" where
  "ex_at e task = \<lparr>o_event = e, o_following = [], o_time = ev_time e, o_cpu = 1, o_ptask = 1, o_task = task, o_thread = 1\<rparr>"

definition ex_idle :: thread_t where
  "ex_idle = ex_thread\<lparr>Send_Rec := Some (ex_mpi 50000018 1 10 1), Recv_Rec := Some (ex_mpi 50000019 1 15 0)\<rparr>"

text \<open>A task, the second one with a receive that waits for another tag.\<close>

definition ex_other :: recv_data where
  "ex_other = \<lparr>recv_begin = Some (ex_mpi 50000019 1 1 0), recv_end = (ex_mpi 50000019 0 2 0)\<lparr>ev_param := mpi_params 0 64 9 1 0\<rparr>,
     recv_key = 0, recv_partner = 0, recv_thread = 1, recv_vthread = 1, recv_tag = 9\<rparr>"

definition ex_task1 :: task_t where
  "ex_task1 = \<lparr>nthreads = 1, tracing_disabled = False, MatchingComms = True, match_zone = 0,
     recv_queue = NewQueue_create 4, send_queue = NewQueue_create 4, thread_dependencies = ThreadDependency_create,
     AddressSpace = AddressSpace_create, num_virtual_threads = 1, active_task_threads = []\<rparr>"

definition ex_task2 :: task_t where
  "ex_task2 = ex_task1\<lparr>recv_queue := \<lparr>q_data = [Some ex_other, None], NumOfElements = 1, ElementsPerAllocation = 2\<rparr>\<rparr>"

definition ex_merger :: "bool \<Rightarrow> merger" where
  "ex_merger sender = \<lparr>app_threads = (\<lambda>p k h. if p = 1 \<and> h = 1 \<and> (k = 1 \<or> k = 2) then Some ex_idle else None),
     app_tasks = (\<lambda>p k. if p = 1 \<and> k = 1 then Some ex_task1 else if p = 1 \<and> k = 2 then Some ex_task2 else None),
     EnabledTasks = (\<lambda>p k. k = 2 \<or> sender), EnabledTasks_time = (\<lambda>p k. 0), RegisteredStackValues = Vector_Init,
     RegisteredCodeLocationTypes = [], mpi_used = no_usage, labels_seen = nothing_seen\<rparr>"

definition ex_exchange :: exchange where
  "ex_exchange = \<lparr>x_set = ex_settings, x_send = ex_at (ex_mpi 50000018 0 20 1) 1, x_recv = ex_at (ex_mpi 50000019 0 40 0) 2,
     x_ts = ex_idle, x_tr = ex_idle, x_tk = ex_task1, x_th = ex_task2, x_rs = [], x_times = (10, 20, 20, 45)\<rparr>"

lemma ex_mpi_fields:
  "Get_EvTarget (ex_mpi ty v t x) = x" "Get_EvTag (ex_mpi ty v t x) = 7" "Get_EvSize (ex_mpi ty v t x) = 64"
  "ev_time (ex_mpi ty v t x) = t" "ev_value (ex_mpi ty v t x) = v" "ev_event (ex_mpi ty v t x) = ty"
  using mpi_params_fields [of "ex_mpi ty v t x" x 64 7 1 0] by (simp_all add: ex_mpi_def)

lemma ex_tag: "Get_EvTag (recv_end ex_other) = 9"
  using mpi_params_fields [of "recv_end ex_other" 0 64 9 1 0] by (simp add: ex_other_def ex_mpi_def)

lemma ex_queues: "sends ex_task1 = []" "recvs ex_task1 = []" "sends ex_task2 = []" "recvs ex_task2 = [ex_other]"
    "task_ok ex_task1" "task_ok ex_task2"
proof -
  show q: "sends ex_task1 = []" "recvs ex_task1 = []" "sends ex_task2 = []" "recvs ex_task2 = [ex_other]"
    by (simp_all add: sends_def recvs_def ex_task1_def ex_task2_def NewQueue_create_def queue_contents_def)
  have "recv_entry_ok ex_other" using ex_tag by (simp add: recv_entry_ok_def) (simp add: ex_other_def)
  then show "task_ok ex_task1" "task_ok ex_task2" using q
    by (simp_all add: task_ok_def) (simp_all add: ex_task1_def ex_task2_def NewQueue_create_def queue_ok_def)
qed

lemma ex_ready: "ready ex_exchange 40 (ex_merger sender)"
proof -
  have w: "holds_recs (t_wfb ex_idle) []" "disk_room (t_wfb ex_idle) 40"
  proof -
    have "holds (t_wfb ex_thread) []" unfolding ex_thread_def by (simp, rule new_law) (simp_all add: REC_SIZE_def)
    then show "holds_recs (t_wfb ex_idle) []" "disk_room (t_wfb ex_idle) 40"
      by (simp_all add: holds_recs_def ex_idle_def ex_thread_def WriteFileBuffer_new_def disk_room_def REC_SIZE_def)
  qed
  have t: "get_thread 1 k 1 (ex_merger sender) = Inr ex_idle" if "k = 1 \<or> k = 2" for k
    using that by (simp add: get_thread_def ex_merger_def)
  have tk: "get_task 1 1 (ex_merger sender) = Inr ex_task1" "get_task 1 2 (ex_merger sender) = Inr ex_task2"
    by (simp_all add: get_task_def ex_merger_def)
  have m: "MatchingComms ex_task1" "MatchingComms ex_task2" by (simp_all add: ex_task1_def ex_task2_def)
  have s: "Send_Rec ex_idle = Some (ex_mpi 50000018 1 10 1)" "Recv_Rec ex_idle = Some (ex_mpi 50000019 1 15 0)"
    by (simp_all add: ex_idle_def)
  have g: "isTaskInMyGroup ex_settings 0 0" "isTaskInMyGroup ex_settings 0 1" "spawns ex_settings = no_spawns"
    by (simp_all add: isTaskInMyGroup_def ex_settings_def)
  have sync: "TIMESYNC ex_settings 1 1 x = Inr x" "TIMESYNC ex_settings 1 2 x = Inr (x + 5)" for x
    by (simp_all add: TIMESYNC_def ex_settings_def TimeSync_def latency_def ts_start_def)
  have other: "\<not> CompareRecv_cbk \<lparr>ref_key = 0, ref_tag = 7, ref_target = 0\<rparr> ex_other"
    using ex_tag by (simp add: CompareRecv_cbk_def MPI_ANY_TAG_def) (simp add: ex_other_def)
  show ?thesis
    using w t tk m s g sync other ex_queues
    by (simp add: ready_def ex_exchange_def ex_at_def ex_mpi_fields MPI_PROC_NULL_def Get_EvTime_def)
qed

lemma ex_enabled:
  "length (x_rs ex_exchange) < 40"
  "EnabledTasks (ex_merger sender) (o_ptask (x_send ex_exchange)) (o_task (x_send ex_exchange)) = sender"
  "EnabledTasks (ex_merger sender) (o_ptask (x_recv ex_exchange)) (o_task (x_recv ex_exchange))"
  by (simp_all add: ex_exchange_def ex_merger_def ex_at_def)

theorem send_recv_either_order_witness:
  "\<exists>m1. rbind (x_match_send ex_exchange (ex_merger True)) (x_match_recv ex_exchange) = Inr m1 \<and> exchanged ex_exchange m1"
  using send_recv_either_order [OF ex_ready ex_enabled(1), of True] ex_enabled(2) by blast

theorem disabled_send_overwrites_witness:
  "rbind (x_match_send ex_exchange (ex_merger False)) (x_match_recv ex_exchange) = Inl (Exit (-1))"
  using disabled_send_overwrites [OF ex_ready ex_enabled(1), of False] ex_enabled(2,3) by blast

text \<open>
  A trace of two tasks from empty queues: the first one sends to the second one with tag 7, the second one receives from
  the first one with tag 9. (The tasks are not enabled and stay in the state of the call, so that nothing is written.)
\<close>

definition ex_in :: "state_id \<Rightarrow> bool \<Rightarrow> event_ptr \<Rightarrow> event_ptr \<Rightarrow> thread_t" where
  "ex_in st inner snd_rec rcv_rec = ex_thread\<lparr>t_states := \<lparr>State_Stack = [Some st, Some st], nStates = (if inner then 2 else 1)\<rparr>,
     incomplete_state_record := ex_record\<lparr>p_value := ucast st\<rparr>, Send_Rec := snd_rec, Recv_Rec := rcv_rec\<rparr>"

definition ex_task :: "send_data new_queue \<Rightarrow> recv_data new_queue \<Rightarrow> task_t" where
  "ex_task q r = ex_task1\<lparr>send_queue := q, recv_queue := r\<rparr>"

lemma ex_task_updates [simp]: "send_queue (ex_task q r) = q" "recv_queue (ex_task q r) = r" "MatchingComms (ex_task q r)"
    "(ex_task q r)\<lparr>send_queue := q'\<rparr> = ex_task q' r" "(ex_task q r)\<lparr>recv_queue := r'\<rparr> = ex_task q r'"
  by (simp_all add: ex_task_def ex_task1_def)

abbreviation "no_queue \<equiv> NewQueue_create 1024"

definition ex_tasks :: "thread_t \<Rightarrow> thread_t \<Rightarrow> send_data new_queue \<Rightarrow> recv_data new_queue \<Rightarrow> mpi_usage \<Rightarrow> merger" where
  "ex_tasks t1 t2 q1 q2 ops = \<lparr>app_threads = (\<lambda>p k h. if p = 1 \<and> k = 1 \<and> h = 1 then Some t1 else if p = 1 \<and> k = 2 \<and> h = 1 then Some t2 else None),
     app_tasks = (\<lambda>p k. if p = 1 \<and> k = 1 then Some (ex_task q1 no_queue)
       else if p = 1 \<and> k = 2 then Some (ex_task no_queue q2) else None),
     EnabledTasks = (\<lambda>p k. False), EnabledTasks_time = (\<lambda>p k. 0), RegisteredStackValues = Vector_Init,
     RegisteredCodeLocationTypes = [], mpi_used = ops, labels_seen = nothing_seen\<rparr>"

definition ex_receive :: "64 word \<Rightarrow> 64 word \<Rightarrow> event_t" where
  "ex_receive v time = (ex_mpi 50000019 v time 0)\<lparr>ev_param := mpi_params 0 64 9 1 0\<rparr>"

definition ex_calls :: "occurrence list" where
  "ex_calls = [ex_at (ex_mpi 50000018 1 10 1) 1, ex_at (ex_receive 1 15) 2,
     ex_at (ex_mpi 50000018 0 20 1) 1, ex_at (ex_receive 0 40) 2]"

lemma ex_at_fields [simp]: "o_event (ex_at e k) = e" "o_ptask (ex_at e k) = 1" "o_task (ex_at e k) = k" "o_thread (ex_at e k) = 1"
    "o_cpu (ex_at e k) = 1" "o_time (ex_at e k) = ev_time e"
  by (simp_all add: ex_at_def)

lemma ex_receive_fields [simp]: "Get_EvTarget (ex_receive v x) = 0" "Get_EvTag (ex_receive v x) = 9" "ev_value (ex_receive v x) = v"
    "ev_time (ex_receive v x) = x" "ev_event (ex_receive v x) = 50000019"
  using mpi_params_fields [of "ex_receive v x" 0 64 9 1 0] by (simp_all add: ex_receive_def ex_mpi_def)

lemma ex_types: "EvType (ex_at (ex_mpi ty v t x) k) = sint ty" "EvValue (ex_at (ex_mpi ty v t x) k) = ucast v"
    "EvType (ex_at (ex_receive v t) k) = 50000019" "EvValue (ex_at (ex_receive v t) k) = ucast v"
  by (simp_all add: EvType_def EvValue_def ex_mpi_fields)

lemma ex_tasks_get [simp]:
  "get_thread 1 1 1 (ex_tasks t1 t2 q1 q2 u) = Inr t1" "get_thread 1 2 1 (ex_tasks t1 t2 q1 q2 u) = Inr t2"
  "get_task 1 1 (ex_tasks t1 t2 q1 q2 u) = Inr (ex_task q1 no_queue)"
  "get_task 1 2 (ex_tasks t1 t2 q1 q2 u) = Inr (ex_task no_queue q2)"
  "EnabledTasks (ex_tasks t1 t2 q1 q2 u) p k = False" "mpi_used (ex_tasks t1 t2 q1 q2 u) = u"
  by (simp_all add: ex_tasks_def get_thread_def get_task_def)

lemma ex_tasks_set [simp]:
  "set_thread 1 1 1 t (ex_tasks t1 t2 q1 q2 u) = ex_tasks t t2 q1 q2 u"
  "set_thread 1 2 1 t (ex_tasks t1 t2 q1 q2 u) = ex_tasks t1 t q1 q2 u"
  "set_task 1 1 (ex_task q no_queue) (ex_tasks t1 t2 q1 q2 u) = ex_tasks t1 t2 q q2 u"
  "set_task 1 2 (ex_task no_queue r) (ex_tasks t1 t2 q1 q2 u) = ex_tasks t1 t2 q1 r u"
  "ex_tasks t1 t2 q1 q2 u\<lparr>mpi_used := v\<rparr> = ex_tasks t1 t2 q1 q2 v"
  by (auto simp: ex_tasks_def set_thread_def set_task_def fun_eq_iff)

lemma ex_switch:
  assumes "st \<noteq> STATE_NOT_TRACING" "st \<noteq> STATE_ANY"
  shows "switch_thread st True (ex_in st False s r) = Inr (ex_in st True s r)" "switch_thread st False (ex_in st True s r) = Inr (ex_in st False s r)"
  using assms by (simp_all add: switch_thread_def Switch_State_def Push_State_def Pop_State_def leave_not_tracing_def Top_State_def
      ex_in_def cell_def cell_set_def Let_def)

lemma ex_show:
  "trace_paraver_state True False junk cpu p k h now (ex_in st n s r) = Inr (ex_in st n s r)"
  by (cases n) (auto simp: trace_paraver_state_def complete_state_def Top_State_def ex_in_def ex_thread_def cell_def)

lemma ex_steps_run [simp]:
  assumes "st \<noteq> STATE_NOT_TRACING" "st \<noteq> STATE_ANY"
  shows "switch_state st True (ex_at e 1) (ex_tasks (ex_in st False s r) t2 q1 q2 u) = Inr (ex_tasks (ex_in st True s r) t2 q1 q2 u)"
    "switch_state st False (ex_at e 1) (ex_tasks (ex_in st True s r) t2 q1 q2 u) = Inr (ex_tasks (ex_in st False s r) t2 q1 q2 u)"
    "switch_state st True (ex_at e 2) (ex_tasks t1 (ex_in st False s r) q1 q2 u) = Inr (ex_tasks t1 (ex_in st True s r) q1 q2 u)"
    "switch_state st False (ex_at e 2) (ex_tasks t1 (ex_in st True s r) q1 q2 u) = Inr (ex_tasks t1 (ex_in st False s r) q1 q2 u)"
  using ex_switch [OF assms] by (simp_all add: switch_state_def here_def on_thread_def)

lemma ex_shown [simp]:
  "show_state ex_settings (ex_at e 1) (ex_tasks (ex_in st n s r) t2 q1 q2 u) = Inr (ex_tasks (ex_in st n s r) t2 q1 q2 u)"
  "show_state ex_settings (ex_at e 2) (ex_tasks t1 (ex_in st n s r) q1 q2 u) = Inr (ex_tasks t1 (ex_in st n s r) q1 q2 u)"
  by (simp_all add: ex_show show_state_def here_def on_thread_def ex_settings_def)

lemma ex_put [simp]:
  "put_event S ty v (ex_at e 1) (ex_tasks t1 t2 q1 q2 u) = Inr (ex_tasks t1 t2 q1 q2 u)"
  "put_event S ty v (ex_at e 2) (ex_tasks t1 t2 q1 q2 u) = Inr (ex_tasks t1 t2 q1 q2 u)"
  by (simp_all add: put_event_def here_def on_thread_def trace_paraver_event_def)

lemma ex_store [simp]:
  "store_send (ex_at e 1) (ex_tasks (ex_in st n s r) t2 q1 q2 u) = Inr (ex_tasks (ex_in st n (Some e) r) t2 q1 q2 u)"
  "store_recv (ex_at e 2) (ex_tasks t1 (ex_in st n s r) q1 q2 u) = Inr (ex_tasks t1 (ex_in st n s (Some e)) q1 q2 u)"
  by (simp_all add: store_send_def store_recv_def here_def on_thread_def ex_in_def ex_thread_def)

lemma ex_handlers:
  "find_index (\<lambda>(e, h). e = 50000018) PRV_MPI_Event_Handlers = Some 0" "snd (PRV_MPI_Event_Handlers ! 0) = H_Any_Send_Event"
  "\<exists>i. find_index (\<lambda>(e, h). e = 50000019) PRV_MPI_Event_Handlers = Some i \<and> snd (PRV_MPI_Event_Handlers ! i) = H_Recv_Event"
  "Get_State 50000018 = Inr STATE_SEND"
proof -
  have "(case find_index (\<lambda>(e, h). e = 50000019) PRV_MPI_Event_Handlers of Some i \<Rightarrow> snd (PRV_MPI_Event_Handlers ! i) = H_Recv_Event
    | None \<Rightarrow> False)" by code_simp
  then show "\<exists>i. find_index (\<lambda>(e, h). e = 50000019) PRV_MPI_Event_Handlers = Some i \<and> snd (PRV_MPI_Event_Handlers ! i) = H_Recv_Event"
    by (auto split: option.splits)
qed code_simp+

lemma ex_ids: "STATE_SEND \<noteq> STATE_NOT_TRACING" "STATE_SEND \<noteq> STATE_ANY" "STATE_WAITMESS \<noteq> STATE_NOT_TRACING" "STATE_WAITMESS \<noteq> STATE_ANY"
  by (simp_all add: state_ids)

lemma ex_own_state [simp]: "switch_own_state c (ex_at (ex_mpi 50000018 v t x) k) = switch_state STATE_SEND c (ex_at (ex_mpi 50000018 v t x) k)"
  by (simp add: switch_own_state_def ex_types ex_handlers(4) fun_eq_iff)

lemma ex_send_begins:
  "mpi_event ex_settings (ex_at (ex_mpi 50000018 1 10 1) 1) (ex_tasks (ex_in STATE_SEND False s r) t2 q1 q2 u) =
     Inr (ex_tasks (ex_in STATE_SEND True (Some (ex_mpi 50000018 1 10 1)) r) t2 q1 q2 (Enable_MPI_Operation MPI_SEND_EV u))"
  using ex_ids by (simp add: mpi_event_def ex_types ex_handlers Any_Send_Event_def EVT_BEGIN_def EVT_END_def)

lemma ex_recv_begins:
  "mpi_event ex_settings (ex_at (ex_receive 1 15) 2) (ex_tasks t1 (ex_in STATE_WAITMESS False s r) q1 q2 u) =
     Inr (ex_tasks t1 (ex_in STATE_WAITMESS True s (Some (ex_receive 1 15))) q1 q2 (Enable_MPI_Operation MPI_RECV_EV u))"
proof -
  from ex_handlers(3) obtain i where "find_index (\<lambda>(e, h). e = 50000019) PRV_MPI_Event_Handlers = Some i"
    "snd (PRV_MPI_Event_Handlers ! i) = H_Recv_Event" by blast
  then show ?thesis using ex_ids by (simp add: mpi_event_def ex_types Recv_Event_def EVT_BEGIN_def)
qed

lemma ex_group: "isTaskInMyGroup ex_settings 0 0" "isTaskInMyGroup ex_settings 0 1" "target_ptask ex_settings (ex_at e k) = Inr 1"
  by (simp_all add: isTaskInMyGroup_def no_spawns_target) (simp_all add: ex_settings_def no_spawns_target)

lemma no_queue_ok:
  "queue_ok (no_queue :: recv_data new_queue)" "queue_ok (no_queue :: send_data new_queue)"
  "queue_contents (no_queue :: recv_data new_queue) = []" "queue_contents (no_queue :: send_data new_queue) = []"
  by (simp_all add: create_ok)

lemma ex_send_ends:
  "\<exists>q d. mpi_event ex_settings (ex_at (ex_mpi 50000018 0 20 1) 1) (ex_tasks (ex_in STATE_SEND True s r) t2 no_queue no_queue u) =
     Inr (ex_tasks (ex_in STATE_SEND False s r) t2 q no_queue (Enable_MPI_Operation MPI_SEND_EV u)) \<and>
     queue_contents q = [d] \<and> queue_ok q \<and> send_tag d = 7"
proof -
  let ?a = "ex_at (ex_mpi 50000018 0 20 1) 1" and ?t = "ex_in STATE_SEND False s r"
  have none: "ExtractRecv 0 7 0 no_queue = Inr (None, no_queue)"
    unfolding ExtractRecv_def by (rule take_entry_none [OF no_queue_ok(1)]) (simp add: no_queue_ok)
  from QueueSend_law [OF no_queue_ok(2)] obtain q where q:
    "QueueSend s (ex_mpi 50000018 0 20 1) (int (WriteFileBuffer_getPosition (t_wfb ?t))) 1 (virtual_thread ?t) 1 7 0 no_queue = Inr q"
    "\<exists>d. queue_contents q = [d] \<and> queue_ok q \<and> send_tag d = 7" using no_queue_ok(4) by fastforce
  have sr: "Send_Rec ?t = s" by (simp add: ex_in_def)
  have "match_send ex_settings Send_Rec ?a (ex_tasks ?t t2 no_queue no_queue u) = Inr (ex_tasks ?t t2 q no_queue u)"
    using none q(1) ex_group
    by (simp add: match_send_def MatchComms_Enabled_def ex_mpi_fields MPI_PROC_NULL_def Let_def queue_send_def on_task_def sr
        here_def on_thread_def trace_paraver_unmatched_communication_def)
  then show ?thesis
    using q(2) ex_ids by (simp add: mpi_event_def ex_types ex_handlers Any_Send_Event_def EVT_BEGIN_def EVT_END_def) blast
qed

lemma ex_recv_ends:
  assumes "queue_ok q1" and "\<forall>d \<in> set (queue_contents q1). send_tag d = 7"
  shows "\<exists>q d. mpi_event ex_settings (ex_at (ex_receive 0 40) 2) (ex_tasks t1 (ex_in STATE_WAITMESS True s r) q1 no_queue u) =
     Inr (ex_tasks t1 (ex_in STATE_WAITMESS False s r) q1 q (Enable_MPI_Operation MPI_RECV_EV u)) \<and> queue_contents q = [d]"
proof -
  let ?a = "ex_at (ex_receive 0 40) 2" and ?t = "ex_in STATE_WAITMESS False s r"
  have none: "ExtractSend 1 9 0 q1 = Inr (None, q1)"
    unfolding ExtractSend_def by (rule take_entry_none [OF assms(1)]) (use assms(2) in \<open>auto simp: CompareSend_cbk_def MPI_ANY_TAG_def\<close>)
  from QueueRecv_law [OF no_queue_ok(1)] obtain q where q:
    "QueueRecv r (ex_receive 0 40) 1 (virtual_thread ?t) 0 9 0 no_queue = Inr q"
    "\<exists>d. queue_contents q = [d]" using no_queue_ok(3) by fastforce
  have rr: "Recv_Rec ?t = r" by (simp add: ex_in_def)
  from ex_handlers(3) obtain i where i: "find_index (\<lambda>(e, h). e = 50000019) PRV_MPI_Event_Handlers = Some i"
    "snd (PRV_MPI_Event_Handlers ! i) = H_Recv_Event" by blast
  have "match_recv ex_settings Recv_Rec (Some (o_event ?a)) (\<lambda>p. p) (\<lambda>r. r) True ?a (ex_tasks t1 ?t q1 no_queue u) =
      Inr (ex_tasks t1 ?t q1 q u)"
    using none q(1) ex_group
    by (simp add: match_recv_def MatchComms_Enabled_def MPI_PROC_NULL_def Let_def on_task_def rr)
  then show ?thesis
    using q(2) ex_ids i by (simp add: mpi_event_def ex_types Recv_Event_def EVT_BEGIN_def EVT_END_def) blast
qed

definition ex_begin :: merger where
  "ex_begin = ex_tasks (ex_in STATE_SEND False None None) (ex_in STATE_WAITMESS False None None) no_queue no_queue no_usage"

lemma ex_bracketed: "bracketed ex_settings ({}, {}) ex_calls" "\<forall>a \<in> set ex_calls. no_persistent_recv a"
proof -
  have "mpi_handler_of (ex_at (ex_mpi 50000018 v t x) k) = Some H_Any_Send_Event" "mpi_handler_of (ex_at (ex_receive v t) k) = Some H_Recv_Event" for v t x k
    using ex_handlers by (auto simp: mpi_handler_of_def ex_types)
  then show "bracketed ex_settings ({}, {}) ex_calls"
    by (simp add: ex_calls_def begun_def send_event_def recv_event_def ex_types place_of_def EVT_BEGIN_def)
  show "\<forall>a \<in> set ex_calls. no_persistent_recv a" by (simp add: ex_calls_def no_persistent_recv_def ex_types)
qed

theorem no_pair_waits_witness:
  "\<exists>m1 tk th s r. rfold (mpi_event ex_settings) ex_calls ex_begin = Inr m1 \<and> app_tasks m1 1 1 = Some tk \<and> app_tasks m1 1 2 = Some th \<and>
     s \<in> set (sends tk) \<and> r \<in> set (recvs th) \<and> \<not> belong 1 2 s r"
proof -
  let ?b = "ex_mpi 50000018 1 10 1" and ?r = "ex_receive 1 15" and ?S = "Enable_MPI_Operation MPI_SEND_EV" and ?R = "Enable_MPI_Operation MPI_RECV_EV"
  from ex_send_ends [of "Some ?b" None "ex_in STATE_WAITMESS True None (Some ?r)" "?R (?S no_usage)"] obtain q1 s where
    q1: "mpi_event ex_settings (ex_at (ex_mpi 50000018 0 20 1) 1) (ex_tasks (ex_in STATE_SEND True (Some ?b) None)
       (ex_in STATE_WAITMESS True None (Some ?r)) no_queue no_queue (?R (?S no_usage))) =
     Inr (ex_tasks (ex_in STATE_SEND False (Some ?b) None) (ex_in STATE_WAITMESS True None (Some ?r)) q1 no_queue (?S (?R (?S no_usage))))"
    "queue_contents q1 = [s]" "queue_ok q1" "send_tag s = 7" by blast
  from ex_recv_ends [OF q1(3), of "ex_in STATE_SEND False (Some ?b) None" None "Some ?r" "?S (?R (?S no_usage))"] q1(2,4) obtain q2 r where
    q2: "mpi_event ex_settings (ex_at (ex_receive 0 40) 2) (ex_tasks (ex_in STATE_SEND False (Some ?b) None)
       (ex_in STATE_WAITMESS True None (Some ?r)) q1 no_queue (?S (?R (?S no_usage)))) =
     Inr (ex_tasks (ex_in STATE_SEND False (Some ?b) None) (ex_in STATE_WAITMESS False None (Some ?r)) q1 q2 (?R (?S (?R (?S no_usage)))))"
    "queue_contents q2 = [r]" by auto
  let ?m1 = "ex_tasks (ex_in STATE_SEND False (Some ?b) None) (ex_in STATE_WAITMESS False None (Some ?r)) q1 q2 (?R (?S (?R (?S no_usage))))"
  have run: "rfold (mpi_event ex_settings) ex_calls ex_begin = Inr ?m1"
    by (simp add: ex_calls_def ex_begin_def ex_send_begins ex_recv_begins q1(1) q2(1))
  have tk: "app_tasks ?m1 1 1 = Some (ex_task q1 no_queue)" "app_tasks ?m1 1 2 = Some (ex_task no_queue q2)" by (simp_all add: ex_tasks_def)
  have mem: "s \<in> set (sends (ex_task q1 no_queue))" "r \<in> set (recvs (ex_task no_queue q2))" by (simp_all add: sends_def recvs_def q1(2) q2(2))
  have start: "\<forall>p k t. app_tasks ex_begin p k = Some t \<longrightarrow> (send_queue t, recv_queue t) = CommunicationQueues_Init"
    by (auto simp: ex_begin_def ex_tasks_def CommunicationQueues_Init_def split: if_splits)
  have "\<not> belong 1 2 s r"
    using no_pair_waits [OF start _ ex_bracketed run tk mem] by (simp add: ex_settings_def)
  with run tk mem show ?thesis by blast
qed

end
