(* ===== verification/File_Merge.thy ===== *)
theory File_Merge
  imports Prelude "HOL-Library.Multiset" "HOL-Library.Sublist"
begin

text \<open>
  Merging several files by the smallest next element, the way the merger does it three times: for the
  events, for the bursts and for the records it wrote (\<open>GetNextEvent_FS_prv\<close>, \<open>Search_CPU_Burst\<close> and
  \<open>GetNextParaver_Rec\<close> of \<open>merger/paraver/file_set.c\<close>). The common loop is \<open>scan_loop\<close>; the locale
  \<open>merged_files\<close> says what is needed of a file so that taking the elements one after the other merges
  them: nothing is lost, the order within a file is kept, and sorted files give a sorted sequence.
\<close>

section \<open>The common loop\<close>

text \<open>
  The loop over the files: every file skips to its next candidate; the index and candidate found so far is
  replaced by one that the test prefers.
\<close>

fun scan_loop ::
  "('f \<Rightarrow> 'f) \<Rightarrow> ('f \<Rightarrow> 'c option) \<Rightarrow> ('c \<Rightarrow> 'c \<Rightarrow> bool result) \<Rightarrow> 'f list \<Rightarrow> nat \<Rightarrow> (nat \<times> 'c) option \<Rightarrow>
   ('f list \<times> (nat \<times> 'c) option) result" where
  "scan_loop skip cand worse [] i best = Inr ([], best)"
| "scan_loop skip cand worse (f # fs) i best =
     (let f1 = skip f in
      rbind (case (cand f1, best) of
          (None, _) \<Rightarrow> Inr best
        | (Some c, None) \<Rightarrow> Inr (Some (i, c))
        | (Some c, Some (j, b)) \<Rightarrow> rmap (\<lambda>w. if w then Some (i, c) else best) (worse b c))
      (\<lambda>best1. rmap (\<lambda>(fs1, r). (f1 # fs1, r)) (scan_loop skip cand worse fs (Suc i) best1)))"

text \<open>
  One call: files are reloaded, the smallest candidate is found, and its file moves on. Without a candidate
  the first file is taken, which then stays where it is or moves further behind its end.
\<close>

definition merge_next ::
  "('f \<Rightarrow> 'f result) \<Rightarrow> ('f \<Rightarrow> 'f) \<Rightarrow> ('f \<Rightarrow> 'c option) \<Rightarrow> ('f \<Rightarrow> 'f) \<Rightarrow> ('c \<Rightarrow> 'c \<Rightarrow> bool result) \<Rightarrow>
   'f list \<Rightarrow> ((nat \<times> 'c) option \<times> 'f list) result" where
  "merge_next reload skip cand step worse fs =
     rbind (rcollect reload fs) (\<lambda>fs1.
     rbind (scan_loop skip cand worse fs1 0 None) (\<lambda>(fs2, best).
       let i = (case best of None \<Rightarrow> 0 | Some (i, c) \<Rightarrow> i) in
       if length fs2 \<le> i then Inl Undefined else Inr (best, fs2[i := step (fs2 ! i)])))"

text \<open>Calling until there is no more; the fuel bounds the number of calls.\<close>

fun drain :: "('s \<Rightarrow> ('c option \<times> 's) result) \<Rightarrow> nat \<Rightarrow> 's \<Rightarrow> ('c list \<times> 's) result" where
  "drain call 0 s = Inl Blocked"
| "drain call (Suc n) s = rbind (call s) (\<lambda>(r, s1). case r of
      None \<Rightarrow> Inr ([], s1)
    | Some x \<Rightarrow> rmap (\<lambda>(xs, s2). (x # xs, s2)) (drain call n s1))"

text \<open>The files left by a call keep what skipping, reloading and moving on keep.\<close>

lemma scan_loop_files: "scan_loop skip cand worse fs i best = Inr (fs1, r) \<Longrightarrow> fs1 = map skip fs"
proof (induction fs arbitrary: i best fs1)
  case (Cons f fs)
  then show ?case by (auto simp: Let_def rmap_Inr_iff rbind_Inr_iff)
qed simp

lemma rcollect_map:
  assumes "rcollect f xs = Inr ys" and "\<And>x y. x \<in> set xs \<Longrightarrow> f x = Inr y \<Longrightarrow> g y = g x"
  shows "map g ys = map g xs"
  using assms
proof (induction xs arbitrary: ys)
  case (Cons x xs)
  then show ?case by (auto simp: rmap_Inr_iff rbind_Inr_iff)
qed simp

lemma merge_next_keeps:
  assumes "merge_next reload skip cand step worse fs = Inr (r, fs1)"
    and "\<And>f f1. reload f = Inr f1 \<Longrightarrow> g f1 = g f" and "\<And>f. g (skip f) = g f" and "\<And>f. g (step f) = g f"
  shows "map g fs1 = map g fs"
proof -
  from assms(1) obtain fa fb b where a: "rcollect reload fs = Inr fa" "scan_loop skip cand worse fa 0 None = Inr (fb, b)"
    and f1: "\<exists>i < length fb. fs1 = fb[i := step (fb ! i)]"
    by (auto simp: merge_next_def Let_def rbind_Inr_iff not_le split: if_splits)
  have "map g fb = map g fa" using scan_loop_files [OF a(2)] by (simp add: assms(3))
  also have "\<dots> = map g fs" using a(1) assms(2) by (rule rcollect_map)
  finally show ?thesis using f1 by (auto simp: map_update assms(4) list_eq_iff_nth_eq nth_list_update)
qed

section \<open>The specification\<close>

text \<open>
  \<open>taken key xss i c yss\<close>: \<open>c\<close> is the head of list \<open>i\<close>, a smallest head and of several the one of the first list,
  and \<open>yss\<close> is what is left. \<open>merged key xss outs\<close>: \<open>outs\<close> takes all elements out of the lists in this way.
\<close>

definition taken :: "('c \<Rightarrow> 'k::linorder) \<Rightarrow> 'c list list \<Rightarrow> nat \<Rightarrow> 'c \<Rightarrow> 'c list list \<Rightarrow> bool" where
  "taken key xss i c yss \<longleftrightarrow> i < length xss \<and> (\<exists>cs. xss ! i = c # cs \<and> yss = xss[i := cs]) \<and>
     (\<forall>j < length xss. xss ! j \<noteq> [] \<longrightarrow> key c \<le> key (hd (xss ! j)) \<and> (j < i \<longrightarrow> key c < key (hd (xss ! j))))"

inductive merged :: "('c \<Rightarrow> 'k::linorder) \<Rightarrow> 'c list list \<Rightarrow> (nat \<times> 'c) list \<Rightarrow> bool" for key where
  stop: "\<forall>xs \<in> set xss. xs = [] \<Longrightarrow> merged key xss []"
| take: "taken key xss i c yss \<Longrightarrow> merged key yss outs \<Longrightarrow> merged key xss ((i, c) # outs)"

lemma takenE:
  assumes "taken key xss i c yss"
  obtains cs where "i < length xss" and "xss ! i = c # cs" and "yss = xss[i := cs]"
  using assms by (auto simp: taken_def)

lemma taken_split:
  assumes "taken key xss i c yss"
  shows "mset (concat xss) = add_mset c (mset (concat yss))"
proof -
  obtain cs where t: "i < length xss" "xss ! i = c # cs" "yss = xss[i := cs]" by (rule takenE [OF assms])
  have "xss = take i xss @ xss ! i # drop (Suc i) xss" using t(1) by (rule id_take_nth_drop)
  then have "mset (concat xss) = mset (concat (take i xss)) + mset (c # cs) + mset (concat (drop (Suc i) xss))"
    using t(2) by (metis concat.simps(2) concat_append mset_append union_assoc)
  then show ?thesis using t by (simp add: upd_conv_take_nth_drop)
qed

lemma merged_keeps_order: "merged key xss outs \<Longrightarrow> i < length xss \<Longrightarrow> map snd (filter (\<lambda>(j, c). j = i) outs) = xss ! i"
proof (induction rule: merged.induct)
  case (stop xss)
  then have "xss ! i = []" using nth_mem [of i xss] by blast
  then show ?case by simp
next
  case (take xss k c yss outs)
  from take.hyps(1) show ?case by (rule takenE) (use take in \<open>auto simp: nth_list_update split: if_splits\<close>)
qed

lemma merged_subseq: "merged key xss os \<Longrightarrow> xs \<in> set xss \<Longrightarrow> subseq xs (map snd os)"
  using merged_keeps_order [of key xss os] by (metis in_set_conv_nth subseq_filter_left subseq_map)

lemma merged_elements: "merged key xss outs \<Longrightarrow> mset (map snd outs) = mset (concat xss)"
proof (induction rule: merged.induct)
  case (stop xss)
  then have "concat xss = []" by simp
  then show ?case by simp
next
  case (take xss i c yss outs)
  then show ?case using taken_split [OF take.hyps(1)] by simp
qed

lemma merged_length: "merged key xss outs \<Longrightarrow> length outs = sum_list (map length xss)"
  using merged_elements [THEN mset_eq_length] by (simp add: length_concat)

lemma taken_least:
  assumes t: "taken key xss i c yss" and s: "\<forall>xs \<in> set xss. sorted (map key xs)" and x: "x \<in> set (concat xss)"
  shows "key c \<le> key x"
proof -
  from x obtain xs where "xs \<in> set xss" "x \<in> set xs" by auto
  then obtain j where j: "j < length xss" "x \<in> set (xss ! j)" by (auto simp: in_set_conv_nth [of _ xss])
  then obtain y ys where y: "xss ! j = y # ys" by (cases "xss ! j") auto
  have "key c \<le> key (hd (xss ! j))" using t j(1) y by (auto simp: taken_def)
  also have "\<dots> \<le> key x" using s [THEN bspec, OF nth_mem, OF j(1)] j(2) y by auto
  finally show ?thesis .
qed

lemma merged_sorted:
  assumes "merged key xss outs" and "\<forall>xs \<in> set xss. sorted (map key xs)"
  shows "sorted (map (\<lambda>(i, c). key c) outs)"
  using assms
proof (induction rule: merged.induct)
  case (take xss i c yss outs)
  obtain cs where t: "i < length xss" "xss ! i = c # cs" "yss = xss[i := cs]" by (rule takenE [OF take.hyps(1)])
  have "sorted (map key cs)" using take.prems [THEN bspec, OF nth_mem, OF t(1)] t(2) by simp
  then have s: "\<forall>xs \<in> set yss. sorted (map key xs)"
    using take.prems t(3) by (auto dest!: set_update_subset_insert [THEN subsetD])
  have "key c \<le> key x" if "(j, x) \<in> set outs" for j x
  proof -
    have "x \<in> set (map snd outs)" using that by force
    then have "x \<in> set (concat yss)" using merged_elements [OF take.hyps(2)] by (metis set_mset_mset)
    then have "x \<in> set (concat xss)" using taken_split [OF take.hyps(1)] by (metis insertCI set_mset_add_mset_insert set_mset_mset)
    then show ?thesis by (rule taken_least [OF take.hyps(1) take.prems])
  qed
  then show ?case using take.IH [OF s] by auto
qed simp

text \<open>
  Consecutive elements of one list with the same key stay together: once the first is taken, every other
  head is later, or is as late and belongs to a later list.
\<close>

definition heads_from :: "('c \<Rightarrow> 'k::linorder) \<Rightarrow> 'k \<Rightarrow> nat \<Rightarrow> 'c list list \<Rightarrow> bool" where
  "heads_from key t i xss \<longleftrightarrow>
     (\<forall>j < length xss. xss ! j \<noteq> [] \<longrightarrow> t \<le> key (hd (xss ! j)) \<and> (j < i \<longrightarrow> t < key (hd (xss ! j))))"

lemma heads_from_update:
  assumes "heads_from key t i xss" and "run \<noteq> []" and "\<forall>x \<in> set run. key x = t"
  shows "heads_from key t i (xss[i := run @ bs])"
proof -
  have "t \<le> key (hd (xss[i := run @ bs] ! j)) \<and> (j < i \<longrightarrow> t < key (hd (xss[i := run @ bs] ! j)))"
    if "j < length xss" "xss[i := run @ bs] ! j \<noteq> []" for j
    using assms that by (cases "j = i") (auto simp: heads_from_def)
  then show ?thesis unfolding heads_from_def length_list_update by blast
qed

lemma taken_which:
  assumes "taken key xss k c yss" and "i < length xss" and "xss ! i \<noteq> []" and "key (hd (xss ! i)) = t"
    and "heads_from key t i xss"
  shows "k = i"
proof -
  obtain cs where k: "k < length xss" "xss ! k = c # cs" by (rule takenE [OF assms(1)])
  have "key c \<le> t \<and> (i < k \<longrightarrow> key c < t)" using assms(1-4) unfolding taken_def by blast
  moreover have "t \<le> key c \<and> (k < i \<longrightarrow> t < key c)" using assms(5) k unfolding heads_from_def by (metis list.discI list.sel(1))
  ultimately show ?thesis by (meson linorder_neqE_nat not_less)
qed

lemma merged_run_prefix:
  assumes "merged key xss outs" and "i < length xss" and "xss ! i = run @ bs" and "\<forall>x \<in> set run. key x = t"
    and "heads_from key t i xss"
  shows "\<exists>os. outs = map (Pair i) run @ os"
  using assms
proof (induction run arbitrary: xss outs)
  case (Cons x run)
  from Cons.prems(1) show ?case
  proof cases
    case stop
    then have "xss ! i = []" using Cons.prems(2) by (metis nth_mem)
    then show ?thesis using Cons.prems(3) by simp
  next
    case (take k c yss os)
    have "k = i" by (rule taken_which [OF take(2) Cons.prems(2) _ _ Cons.prems(5)]) (use Cons.prems(3,4) in simp_all)
    then have y: "c = x" "yss = xss[i := run @ bs]" using take(2) Cons.prems(3) by (auto elim!: takenE)
    show ?thesis
    proof (cases "run = []")
      case False
      have "\<exists>os1. os = map (Pair i) run @ os1"
        by (rule Cons.IH [OF take(3)])
          (use Cons.prems(2,4) y(2) heads_from_update [OF Cons.prems(5) False] in simp_all)
      then show ?thesis using take(1) y(1) \<open>k = i\<close> by auto
    qed (use take(1) y(1) \<open>k = i\<close> in simp)
  qed
qed simp

lemma merged_run:
  assumes "merged key xss outs" and "i < length xss" and "xss ! i = as @ run @ bs" and "\<forall>x \<in> set run. key x = t"
  shows "\<exists>us os. outs = us @ map (Pair i) run @ os"
  using assms
proof (induction arbitrary: as rule: merged.induct)
  case (stop xss)
  then have "xss ! i = []" by (metis nth_mem)
  then show ?case using stop by simp
next
  case (take xss k c yss outs)
  obtain cs where k: "k < length xss" "xss ! k = c # cs" "yss = xss[k := cs]" by (rule takenE [OF take.hyps(1)])
  have i: "i < length yss" using take.prems(1) k(3) by simp
  show ?case
  proof (cases "k = i \<and> as = []")
    case True
    show ?thesis
    proof (cases run)
      case (Cons x run1)
      then have c: "c = x" "yss = xss[i := run1 @ bs]" "key c = t" using True k take.prems(2,3) by auto
      show ?thesis
      proof (cases "run1 = []")
        case False
        have "heads_from key t i xss" using take.hyps(1) True c(3) unfolding taken_def heads_from_def by blast
        then have "heads_from key t i yss" unfolding c(2)
          by (rule heads_from_update [OF _ False]) (use take.prems(3) Cons in simp)
        then have "\<exists>os. outs = map (Pair i) run1 @ os"
          by (intro merged_run_prefix [OF take.hyps(2) i, of run1 bs t]) (use c(2) take.prems Cons in simp_all)
        then obtain os where "(k, c) # outs = [] @ map (Pair i) run @ os" using True c(1) Cons by auto
        then show ?thesis by blast
      qed (use True c(1) Cons in \<open>auto intro: exI [of _ "[]"]\<close>)
    qed (rule exI [of _ "[]"], simp)
  next
    case False
    then obtain as1 where "yss ! i = as1 @ run @ bs"
      using k take.prems(1,2) by (cases "k = i"; cases as) auto
    then obtain us os where "outs = us @ map (Pair i) run @ os" using take.IH [OF i _ take.prems(3)] by blast
    then have "(k, c) # outs = ((k, c) # us) @ map (Pair i) run @ os" by simp
    then show ?thesis by blast
  qed
qed

section \<open>The interface\<close>

text \<open>
  A file holds the elements \<open>rest\<close>; reloading and skipping keep them, the candidate is then the first one, and
  moving on takes it away. Two elements are compared by their keys.
\<close>

locale merged_files =
  fixes ok :: "'f \<Rightarrow> bool" and rest :: "'f \<Rightarrow> 'c list" and key :: "'c \<Rightarrow> 'k::linorder"
    and reload :: "'f \<Rightarrow> 'f result" and skip :: "'f \<Rightarrow> 'f" and cand :: "'f \<Rightarrow> 'c option" and step :: "'f \<Rightarrow> 'f"
    and worse :: "'c \<Rightarrow> 'c \<Rightarrow> bool result" and comparable :: "'c \<Rightarrow> bool"
  assumes reloaded: "ok f \<Longrightarrow> \<exists>f1. reload f = Inr f1 \<and> ok (skip f1) \<and> rest (skip f1) = rest f \<and>
      cand (skip f1) = (case rest f of [] \<Rightarrow> None | c # cs \<Rightarrow> Some c) \<and> (\<forall>c \<in> set (rest f). comparable c) \<and>
      ok (step (skip f1)) \<and> rest (step (skip f1)) = tl (rest f)"
    and compared: "comparable c \<Longrightarrow> comparable d \<Longrightarrow> worse c d = Inr (key d < key c)"
begin

text \<open>What the loop finds: the first smallest candidate.\<close>

definition first_least :: "'c option list \<Rightarrow> nat \<Rightarrow> (nat \<times> 'c) option \<Rightarrow> bool" where
  "first_least cs n best \<longleftrightarrow> (case best of
      None \<Rightarrow> \<forall>i < n. cs ! i = None
    | Some (k, c) \<Rightarrow> k < n \<and> cs ! k = Some c \<and>
        (\<forall>i < n. \<forall>d. cs ! i = Some d \<longrightarrow> key c \<le> key d \<and> (i < k \<longrightarrow> key c < key d)))"

lemma scan_law:
  assumes "\<forall>f \<in> set all. \<forall>c. cand (skip f) = Some c \<longrightarrow> comparable c" and "drop n all = fs" and "n \<le> length all"
    and "first_least (map (\<lambda>f. cand (skip f)) all) n best"
  shows "\<exists>best1. scan_loop skip cand worse fs n best = Inr (map skip fs, best1) \<and>
    first_least (map (\<lambda>f. cand (skip f)) all) (length all) best1"
  using assms(2-4)
proof (induction fs arbitrary: n best)
  case Nil
  then show ?case by auto
next
  case (Cons f fs)
  let ?cs = "map (\<lambda>f. cand (skip f)) all"
  have n: "n < length all" "all ! n = f" "drop (Suc n) all = fs"
    using Cons.prems(1) by (metis drop_eq_Nil linorder_not_less list.distinct(1), metis nth_via_drop,
      metis drop_Suc list.sel(3) tl_drop)
  have IH: "\<exists>best1. scan_loop skip cand worse fs (Suc n) b = Inr (map skip fs, best1) \<and> first_least ?cs (length all) best1"
    if "first_least ?cs (Suc n) b" for b using Cons.IH [of "Suc n" b] n that by simp
  show ?case
  proof (cases "cand (skip f)")
    case None
    then have "first_least ?cs (Suc n) best"
      using Cons.prems(3) n(1,2) by (auto simp: first_least_def less_Suc_eq split: option.splits)
    then obtain b1 where "scan_loop skip cand worse fs (Suc n) best = Inr (map skip fs, b1)"
      "first_least ?cs (length all) b1" using IH by blast
    then show ?thesis using None by simp
  next
    case c: (Some c)
    have cc: "comparable c" using assms(1) n(1,2) c by (metis nth_mem)
    show ?thesis
    proof (cases best)
      case None
      then have "first_least ?cs (Suc n) (Some (n, c))"
        using Cons.prems(3) n(1,2) c by (auto simp: first_least_def less_Suc_eq)
      then obtain b1 where "scan_loop skip cand worse fs (Suc n) (Some (n, c)) = Inr (map skip fs, b1)"
        "first_least ?cs (length all) b1" using IH by blast
      then show ?thesis using None c by simp
    next
      case best: (Some kb)
      obtain k b where kb: "kb = (k, b)" by (cases kb)
      then have k: "k < n" "?cs ! k = Some b" "\<And>i d. i < n \<Longrightarrow> ?cs ! i = Some d \<Longrightarrow> key b \<le> key d \<and> (i < k \<longrightarrow> key b < key d)"
        using Cons.prems(3) best by (auto simp: first_least_def)
      have "comparable b" using assms(1) n(1) k(1,2) by (metis less_trans nth_map nth_mem)
      then have w: "worse b c = Inr (key c < key b)" using cc by (rule compared)
      let ?b = "if key c < key b then Some (n, c) else Some (k, b)"
      have "first_least ?cs (Suc n) ?b"
      proof (cases "key c < key b")
        case True
        then have "key c < key d" if "i < n" "?cs ! i = Some d" for i d using k(3) [OF that] True by (meson order_less_le_trans)
        then show ?thesis using True n(1,2) c by (auto simp: first_least_def less_Suc_eq intro: less_imp_le)
      next
        case False
        then show ?thesis using k n(1,2) c by (auto simp: first_least_def less_Suc_eq)
      qed
      then obtain b1 where "scan_loop skip cand worse fs (Suc n) ?b = Inr (map skip fs, b1)"
        "first_least ?cs (length all) b1" using IH by blast
      then show ?thesis using c best kb w by simp
    qed
  qed
qed

abbreviation call :: "'f list \<Rightarrow> ((nat \<times> 'c) option \<times> 'f list) result" where
  "call \<equiv> merge_next reload skip cand step worse"

lemma next_law:
  assumes fs: "\<forall>f \<in> set fs. ok f" "fs \<noteq> []"
  shows "\<exists>r fs1. call fs = Inr (r, fs1) \<and> (\<forall>f \<in> set fs1. ok f) \<and> length fs1 = length fs \<and>
    (case r of None \<Rightarrow> (\<forall>f \<in> set fs. rest f = []) \<and> map rest fs1 = map rest fs
     | Some (i, c) \<Rightarrow> taken key (map rest fs) i c (map rest fs1))"
proof -
  let ?g = "\<lambda>f. case reload f of Inr f1 \<Rightarrow> f1"
  have g: "reload f = Inr (?g f)" "ok (skip (?g f))" "rest (skip (?g f)) = rest f"
    "cand (skip (?g f)) = (case rest f of [] \<Rightarrow> None | c # cs \<Rightarrow> Some c)" "\<forall>c \<in> set (rest f). comparable c"
    "ok (step (skip (?g f)))" "rest (step (skip (?g f))) = tl (rest f)" if "f \<in> set fs" for f
    using reloaded [of f] that fs(1) by auto
  have a: "rcollect reload fs = Inr (map ?g fs)" by (rule rcollect_Inr) (rule g(1))
  have "\<exists>b. scan_loop skip cand worse (map ?g fs) 0 None = Inr (map skip (map ?g fs), b) \<and>
      first_least (map (\<lambda>f. cand (skip f)) (map ?g fs)) (length (map ?g fs)) b"
    by (rule scan_law) (use g(4,5) in \<open>auto simp: first_least_def split: list.splits\<close>)
  then obtain b where b: "scan_loop skip cand worse (map ?g fs) 0 None = Inr (map (skip \<circ> ?g) fs, b)"
    "first_least (map (\<lambda>f. cand (skip (?g f))) fs) (length fs) b" by (auto simp: comp_def)
  have cn: "map (\<lambda>f. cand (skip (?g f))) fs = map (\<lambda>f. case rest f of [] \<Rightarrow> None | c # cs \<Rightarrow> Some c) fs" using g(4) by simp
  let ?i = "case b of None \<Rightarrow> 0 | Some (i, c) \<Rightarrow> i"
  let ?fs = "(map (skip \<circ> ?g) fs)[?i := step (skip (?g (fs ! ?i)))]"
  have i: "?i < length fs" using b(2) fs(2) by (auto simp: first_least_def split: option.splits)
  then have call: "call fs = Inr (b, ?fs)" by (simp add: merge_next_def a b(1) Let_def)
  have rest: "map rest ?fs = (map rest fs)[?i := tl (rest (fs ! ?i))]"
    using i g(3,7) nth_mem [OF i] by (simp add: map_update comp_def cong: map_cong)
  have ok: "\<forall>f \<in> set ?fs. ok f"
    using i g(2,6) nth_mem [OF i] by (auto dest!: set_update_subset_insert [THEN subsetD])
  have "case b of None \<Rightarrow> (\<forall>f \<in> set fs. rest f = []) \<and> map rest ?fs = map rest fs
     | Some (i, c) \<Rightarrow> taken key (map rest fs) i c (map rest ?fs)"
  proof (cases b)
    case None
    then have "\<forall>f \<in> set fs. rest f = []"
      using b(2) unfolding cn by (auto simp: first_least_def in_set_conv_nth split: list.splits) (metis list.exhaust)
    moreover from this have "(map rest fs)[0 := tl (rest (fs ! 0))] = map rest fs"
      using fs(2) by (simp add: list_update_same_conv)
    ultimately show ?thesis using None rest by (simp del: list_update_code)
  next
    case (Some kc)
    obtain k c where kc: "kc = (k, c)" by (cases kc)
    have "taken key (map rest fs) k c (map rest ?fs)"
      unfolding taken_def rest using b(2) unfolding cn
      by (auto simp: first_least_def Some kc neq_Nil_conv split: list.splits)
    then show ?thesis using Some kc by simp
  qed
  then show ?thesis using call ok by (intro exI [of _ b] exI [of _ ?fs]) simp
qed

text \<open>Calling more often than there are elements delivers all of them.\<close>

lemma drain_law:
  assumes "\<forall>f \<in> set fs. ok f" and "fs \<noteq> []" and "length (concat (map rest fs)) < n"
  shows "\<exists>outs fs1. drain call n fs = Inr (outs, fs1) \<and> merged key (map rest fs) outs"
  using assms
proof (induction n arbitrary: fs)
  case (Suc n)
  obtain r fs1 where r: "call fs = Inr (r, fs1)" "\<forall>f \<in> set fs1. ok f" "length fs1 = length fs"
    "case r of None \<Rightarrow> (\<forall>f \<in> set fs. rest f = []) \<and> map rest fs1 = map rest fs
     | Some (i, c) \<Rightarrow> taken key (map rest fs) i c (map rest fs1)"
    using next_law [OF Suc.prems(1,2)] by blast
  show ?case
  proof (cases r)
    case None
    then show ?thesis using r by (auto intro: merged.stop)
  next
    case (Some ic)
    obtain i c where ic: "ic = (i, c)" by (cases ic)
    then have t: "taken key (map rest fs) i c (map rest fs1)" using r(4) Some by simp
    have "length (concat (map rest fs1)) < n"
      using taken_split [OF t, THEN arg_cong, of size] Suc.prems(3) by simp
    then obtain outs fs2 where "drain call n fs1 = Inr (outs, fs2)" "merged key (map rest fs1) outs"
      using Suc.IH [OF r(2)] r(3) Suc.prems(2) by (metis length_0_conv)
    then show ?thesis using r(1) Some ic t by (auto intro: merged.take)
  qed
qed simp

end

end
