(* ===== verification/File_Set.thy ===== *)
theory File_Set
  imports Mpi_Semantics File_Merge
begin

text \<open>
  The set of intermediate files the merger reads (\<open>merger/paraver/file_set.c\<close>): the events of every file with the
  positions of its readers, the next event of all files in the order of synchronised time, rewinding, the
  synchronisation points, and the search for the first global operation of a circular buffer. A pointer
  to an event of a file is its index; the file ends at \<open>length (fi_events f)\<close>, which is \<open>last\<close>. The static
  variables of \<open>GetNextEvent_FS\<close> are fields of the set.
\<close>

abbreviation TRACEOPTION_CIRCULAR_BUFFER :: "64 word" where "TRACEOPTION_CIRCULAR_BUFFER \<equiv> 2"

record file_item =
  fi_cpu :: "32 word"
  fi_ptask :: "32 word"
  fi_task :: "32 word"
  fi_thread :: "32 word"
  num_of_events :: nat
  mpit_id :: nat
  fi_events :: "event_t list"
  fi_current :: nat
  next_cpu_burst :: nat
  first_glop :: "nat option"
  last_recv :: nat

text \<open>What the readers return: an event with the identifiers of its file and the events behind it.\<close>

record located =
  l_cpu :: "32 word"
  l_ptask :: "32 word"
  l_task :: "32 word"
  l_thread :: "32 word"
  l_event :: event_t
  l_following :: "event_t list"

datatype trace_format = PRV_SEMANTICS | TRF_SEMANTICS

text \<open>An input file of the command line: its identifiers and the process that reads it.\<close>

record input_t =
  in_ptask :: int
  in_task :: int
  InputForWorker :: int

record file_set =
  fs_files :: "file_item list"
  traceformat :: trace_format
  active_file :: nat
  input_files :: "input_t list"
  Is_FS_Rewound :: bool
  min_event :: "located option"
  min_burst :: "located option"

section \<open>Reading one file\<close>

definition locate :: "file_item \<Rightarrow> nat \<Rightarrow> located" where
  "locate f i = \<lparr>l_cpu = fi_cpu f, l_ptask = fi_ptask f, l_task = fi_task f, l_thread = fi_thread f,
     l_event = fi_events f ! i, l_following = drop (Suc i) (fi_events f)\<rparr>"

definition Current_FS :: "file_item \<Rightarrow> event_t option" where
  "Current_FS f = (if length (fi_events f) \<le> fi_current f then None else Some (fi_events f ! fi_current f))"

definition StepOne_FS :: "file_item \<Rightarrow> file_item" where
  "StepOne_FS f = f\<lparr>fi_current := Suc (fi_current f)\<rparr>"

definition is_burst :: "event_t \<Rightarrow> bool" where
  "is_burst e \<longleftrightarrow> sint (ev_event e) = CPU_BURST_EV \<or> sint (ev_event e) = MPI_STATS_EV"

text \<open>The loops that move a position over events.\<close>

function skip_while :: "(event_t \<Rightarrow> bool) \<Rightarrow> event_t list \<Rightarrow> nat \<Rightarrow> nat" where
  "skip_while P es i = (if i < length es \<and> P (es ! i) then skip_while P es (Suc i) else i)"
  by pat_completeness auto
termination by (relation "measure (\<lambda>(P, es, i). length es - i)") auto

declare skip_while.simps [simp del]

definition skip_bursts :: "file_item \<Rightarrow> file_item" where
  "skip_bursts f = f\<lparr>fi_current := skip_while is_burst (fi_events f) (fi_current f)\<rparr>"

definition skip_to_burst :: "file_item \<Rightarrow> file_item" where
  "skip_to_burst f = f\<lparr>next_cpu_burst := skip_while (\<lambda>e. \<not> is_burst e) (fi_events f) (next_cpu_burst f)\<rparr>"

definition current_event :: "file_item \<Rightarrow> located option" where
  "current_event f = (case Current_FS f of None \<Rightarrow> None | Some e \<Rightarrow> Some (locate f (fi_current f)))"

definition current_burst :: "file_item \<Rightarrow> located option" where
  "current_burst f = (if next_cpu_burst f < length (fi_events f) then Some (locate f (next_cpu_burst f)) else None)"

definition step_burst :: "file_item \<Rightarrow> file_item" where
  "step_burst f = f\<lparr>next_cpu_burst := Suc (next_cpu_burst f)\<rparr>"

section \<open>The next event\<close>

definition located_time :: "settings \<Rightarrow> located \<Rightarrow> 64 word result" where
  "located_time S c = TIMESYNC S (l_ptask c) (l_task c) (ev_time (l_event c))"

definition later :: "settings \<Rightarrow> located \<Rightarrow> located \<Rightarrow> bool result" where
  "later S b c = rbind (located_time S b) (\<lambda>tb. rmap (\<lambda>tc. tb > tc) (located_time S c))"

definition GetNextEvent_FS_prv :: "settings \<Rightarrow> file_item list \<Rightarrow> ((nat \<times> located) option \<times> file_item list) result" where
  "GetNextEvent_FS_prv S = merge_next Inr skip_bursts current_event StepOne_FS (later S)"

definition Search_CPU_Burst :: "settings \<Rightarrow> file_item list \<Rightarrow> ((nat \<times> located) option \<times> file_item list) result" where
  "Search_CPU_Burst S = merge_next Inr skip_to_burst current_burst step_burst (later S)"

text \<open>Filling the two static variables.\<close>

definition next_event :: "settings \<Rightarrow> file_set \<Rightarrow> file_set result" where
  "next_event S fs = rmap (\<lambda>(r, files). fs\<lparr>fs_files := files, min_event := map_option snd r\<rparr>)
     (GetNextEvent_FS_prv S (fs_files fs))"

definition next_burst :: "settings \<Rightarrow> file_set \<Rightarrow> file_set result" where
  "next_burst S fs = rmap (\<lambda>(r, files). fs\<lparr>fs_files := files, min_burst := map_option snd r\<rparr>)
     (Search_CPU_Burst S (fs_files fs))"

definition GetNextEvent_FS_trf :: "file_set \<Rightarrow> (located option \<times> file_set) result" where
  "GetNextEvent_FS_trf fs =
     (if length (fs_files fs) \<le> active_file fs then Inl Undefined
      else
        let a = (if Current_FS (fs_files fs ! active_file fs) = None \<and> active_file fs < length (fs_files fs) - 1
                 then Suc (active_file fs) else active_file fs);
            f = fs_files fs ! a
        in Inr (current_event f, fs\<lparr>active_file := a, fs_files := (fs_files fs)[a := StepOne_FS f]\<rparr>))"

definition GetNextEvent_FS :: "settings \<Rightarrow> file_set \<Rightarrow> (located option \<times> file_set) result" where
  "GetNextEvent_FS S fs0 =
     (case traceformat fs0 of
        TRF_SEMANTICS \<Rightarrow> GetNextEvent_FS_trf fs0
      | PRV_SEMANTICS \<Rightarrow>
          rbind (if Is_FS_Rewound fs0
                 then rbind (next_event S fs0) (\<lambda>fs1. rmap (\<lambda>fs2. fs2\<lparr>Is_FS_Rewound := False\<rparr>) (next_burst S fs1))
                 else Inr fs0) (\<lambda>fs.
            case (min_event fs, min_burst fs) of
              (None, None) \<Rightarrow> Inr (None, fs)
            | (None, Some b) \<Rightarrow> rmap (\<lambda>fs1. (Some b, fs1)) (next_burst S fs)
            | (Some e, None) \<Rightarrow> rmap (\<lambda>fs1. (Some e, fs1)) (next_event S fs)
            | (Some e, Some b) \<Rightarrow>
                rbind (later S e b) (\<lambda>burst_first.
                  if burst_first then rmap (\<lambda>fs1. (Some b, fs1)) (next_burst S fs)
                  else rmap (\<lambda>fs1. (Some e, fs1)) (next_event S fs))))"

section \<open>The whole set\<close>

definition num_Files_FS :: "file_set \<Rightarrow> nat" where
  "num_Files_FS fs = length (fs_files fs)"

definition EventsInFS :: "file_set \<Rightarrow> nat" where
  "EventsInFS fs = sum_list (map num_of_events (fs_files fs))"

definition GetActiveFile :: "file_set \<Rightarrow> nat" where
  "GetActiveFile fs = active_file fs"

definition inWhichGroup :: "int \<Rightarrow> int \<Rightarrow> file_set \<Rightarrow> int" where
  "inWhichGroup ptask task fs =
     (case find_index (\<lambda>i. in_ptask i - 1 = ptask \<and> in_task i - 1 = task) (input_files fs) of
        None \<Rightarrow> -1 | Some k \<Rightarrow> InputForWorker (input_files fs ! k))"

text \<open>
  The three cases of a rewind. With \<open>CIRCULAR_SKIP_EVENTS\<close> every position takes \<open>first_glop\<close> and
  increments it; incrementing the null pointer is undefined.
\<close>

definition rewind_item :: "settings \<Rightarrow> file_item \<Rightarrow> file_item result" where
  "rewind_item S f =
     (if circular_buffer S \<and> \<not> circular_skip_matches S
      then case first_glop f of None \<Rightarrow> Inl Undefined
        | Some g \<Rightarrow> Inr (f\<lparr>fi_current := g, next_cpu_burst := g + 1, last_recv := g + 2, first_glop := Some (g + 3)\<rparr>)
      else if circular_buffer S
      then case first_glop f of None \<Rightarrow> Inl Undefined
        | Some g \<Rightarrow> Inr (f\<lparr>fi_current := 0, next_cpu_burst := 0, last_recv := g, first_glop := Some (g + 1)\<rparr>)
      else Inr (f\<lparr>fi_current := 0, next_cpu_burst := 0, last_recv := 0\<rparr>))"

definition Rewind_FS :: "settings \<Rightarrow> file_set \<Rightarrow> file_set result" where
  "Rewind_FS S fs = rmap (\<lambda>files. fs\<lparr>Is_FS_Rewound := True, fs_files := files, active_file := 0\<rparr>)
     (rcollect (rewind_item S) (fs_files fs))"

section \<open>Searches at the start of the translation\<close>

text \<open>
  The end of the initialisation of a file: of \<open>MPI_Init\<close> the first, of the tracing and of \<open>start_pes\<close> the last
  before it. The loop reads the events one by one; its state are the times found so far.
\<close>

record init_times =
  mpi_init :: "64 word option"
  trace_init :: "64 word option"
  shmem_init :: "64 word option"

definition note_init :: "event_t \<Rightarrow> init_times \<Rightarrow> init_times" where
  "note_init e a =
     (if ev_value e \<noteq> EVT_END then a
      else if sint (ev_event e) = MPI_INIT_EV then a\<lparr>mpi_init := Some (ev_time e)\<rparr>
      else if sint (ev_event e) = TRACE_INIT_EV then a\<lparr>trace_init := Some (ev_time e)\<rparr>
      else if sint (ev_event e) = START_PES_EV then a\<lparr>shmem_init := Some (ev_time e)\<rparr>
      else a)"

function find_init :: "event_t list \<Rightarrow> nat \<Rightarrow> init_times \<Rightarrow> init_times \<times> nat" where
  "find_init es i a = (if i < length es \<and> mpi_init a = None then find_init es (Suc i) (note_init (es ! i) a) else (a, i))"
  by pat_completeness auto
termination by (relation "measure (\<lambda>(es, i, a). length es - i)") auto

declare find_init.simps [simp del]

definition chosen_sync :: "init_times \<Rightarrow> 64 word option" where
  "chosen_sync a = (case mpi_init a of Some t \<Rightarrow> Some t | None \<Rightarrow>
     (case trace_init a of Some t \<Rightarrow> Some t | None \<Rightarrow> shmem_init a))"

text \<open>One file; the two arrays are indexed by the number of the file among the input files.\<close>

definition sync_file ::
  "file_item \<Rightarrow> 64 word list \<times> 64 word list \<Rightarrow> (file_item \<times> 64 word list \<times> 64 word list) result" where
  "sync_file f tabs = (case tabs of (starts, syncs) \<Rightarrow>
     if fi_thread f - 1 \<noteq> 0 then Inr (f, starts, syncs)
     else case Current_FS f of None \<Rightarrow> Inr (f, starts, syncs)
     | Some e \<Rightarrow>
         if length starts \<le> mpit_id f \<or> length syncs \<le> mpit_id f then Inl Undefined
         else case find_init (fi_events f) (fi_current f) \<lparr>mpi_init = None, trace_init = None, shmem_init = None\<rparr> of (a, i) \<Rightarrow>
           Inr (f\<lparr>fi_current := i\<rparr>, starts[mpit_id f := ev_time e],
             case chosen_sync a of None \<Rightarrow> syncs | Some t \<Rightarrow> syncs[mpit_id f := t]))"

fun sync_files ::
  "file_item list \<Rightarrow> 64 word list \<times> 64 word list \<Rightarrow> (file_item list \<times> 64 word list \<times> 64 word list) result" where
  "sync_files [] tabs = Inr ([], tabs)"
| "sync_files (f # fs) tabs = rbind (sync_file f tabs) (\<lambda>(f1, tabs1).
     rmap (\<lambda>(fs1, tabs2). (f1 # fs1, tabs2)) (sync_files fs tabs1))"

definition Search_Synchronization_Times ::
  "settings \<Rightarrow> file_set \<Rightarrow> (file_set \<times> 64 word list \<times> 64 word list) result" where
  "Search_Synchronization_Times S fs =
     rbind (Rewind_FS S fs) (\<lambda>fs1.
     rbind (let zeros = replicate (length (fs_files fs1)) 0 in sync_files (fs_files fs1) (zeros, zeros)) (\<lambda>(files, starts, syncs).
       rmap (\<lambda>fs2. (fs2, starts, syncs)) (Rewind_FS S (fs1\<lparr>fs_files := files\<rparr>))))"

definition init_end :: "event_t \<Rightarrow> bool" where
  "init_end e \<longleftrightarrow> (sint (ev_event e) = MPI_INIT_EV \<or> sint (ev_event e) = TRACE_INIT_EV) \<and> ev_value e = EVT_END"

text \<open>The options of the trace, in the first file; without the event there are none.\<close>

definition GetTraceOptions :: "settings \<Rightarrow> file_set \<Rightarrow> (64 word \<times> file_set) result" where
  "GetTraceOptions S fs =
     (case fs_files fs of [] \<Rightarrow> Inl Undefined
      | f # files \<Rightarrow>
          let f1 = f\<lparr>fi_current := skip_while (\<lambda>e. \<not> init_end e) (fi_events f) (fi_current f)\<rparr>;
              options = (case Current_FS f1 of None \<Rightarrow> 0 | Some e \<Rightarrow> Get_EvAux e)
          in rmap (\<lambda>fs1. (options, fs1)) (Rewind_FS S (fs\<lparr>fs_files := f1 # files\<rparr>)))"

section \<open>The circular buffer\<close>

definition EVENTS_FOR_NUM_GLOBAL_OPS :: "int \<Rightarrow> bool" where
  "EVENTS_FOR_NUM_GLOBAL_OPS x \<longleftrightarrow> x \<in> {MPI_BARRIER_EV, MPI_BCAST_EV, MPI_ALLREDUCE_EV, MPI_ALLTOALL_EV,
     MPI_ALLTOALLV_EV, MPI_SCAN_EV, MPI_REDUCE_EV, MPI_ALLGATHER_EV, MPI_ALLGATHERV_EV, MPI_GATHER_EV, MPI_GATHERV_EV,
     MPI_SCATTER_EV, MPI_SCATTERV_EV, MPI_REDUCESCAT_EV, MPI_REDUCE_SCATTER_BLOCK_EV, MPI_IREDUCE_SCATTER_BLOCK_EV,
     MPI_ALLTOALLW_EV, MPI_IALLTOALLW_EV}"

definition glop_end :: "event_t \<Rightarrow> bool" where
  "glop_end e \<longleftrightarrow> EVENTS_FOR_NUM_GLOBAL_OPS (sint (ev_event e)) \<and> ev_value e = EVT_END"

text \<open>
  The first pass: the greatest number of a first global operation. \<open>MAX\<close> compares at 64 bits and the result is
  cut to an \<open>int\<close>.
\<close>

definition MAX_tag :: "32 word \<Rightarrow> 64 word \<Rightarrow> 32 word" where
  "MAX_tag tag ax = (if sint tag > sint ax then tag else ucast ax)"

definition first_tag :: "settings \<Rightarrow> file_item \<Rightarrow> 32 word \<Rightarrow> (file_item \<times> 32 word) result" where
  "first_tag S f tag =
     (let f1 = f\<lparr>fi_current := skip_while (\<lambda>e. \<not> (glop_end e \<and> Get_EvAux e \<noteq> 0)) (fi_events f) (fi_current f)\<rparr> in
      case Current_FS f1 of
        Some e \<Rightarrow> Inr (f1, MAX_tag tag (Get_EvAux e))
      | None \<Rightarrow> if circular_skip_matches S then Inr (f1, tag) else Inl (Exit 0))"

fun first_tags :: "settings \<Rightarrow> file_item list \<Rightarrow> 32 word \<Rightarrow> (file_item list \<times> 32 word) result" where
  "first_tags S [] tag = Inr ([], tag)"
| "first_tags S (f # fs) tag = rbind (first_tag S f tag) (\<lambda>(f1, tag1).
     rmap (\<lambda>(fs1, tag2). (f1 # fs1, tag2)) (first_tags S fs tag1))"

text \<open>The second pass: every file is searched from its start for the operation with that number.\<close>

definition forward_file :: "settings \<Rightarrow> 32 word \<Rightarrow> file_item \<Rightarrow> merger \<Rightarrow> (file_item \<times> merger) result" where
  "forward_file S tag f m =
     (let k = skip_while (\<lambda>e. \<not> (glop_end e \<and> Get_EvAux e = scast tag)) (fi_events f) 0;
          f1 = f\<lparr>fi_current := k\<rparr> in
      if Current_FS f1 = None \<and> \<not> circular_skip_matches S then Inl (Exit 0)
      else
        let f2 = f1\<lparr>first_glop := (if Current_FS f1 = None then None else Some k)\<rparr> in
        if circular_skip_matches S
        then rmap (\<lambda>m1. (f2, m1)) (MatchComms_Off (fi_ptask f) (fi_task f) m)
        else Inr (f2\<lparr>num_of_events := num_of_events f - k\<rparr>, m))"

fun forward_files :: "settings \<Rightarrow> 32 word \<Rightarrow> file_item list \<Rightarrow> merger \<Rightarrow> (file_item list \<times> merger) result" where
  "forward_files S tag [] m = Inr ([], m)"
| "forward_files S tag (f # fs) m = rbind (forward_file S tag f m) (\<lambda>(f1, m1).
     rmap (\<lambda>(fs1, m2). (f1 # fs1, m2)) (forward_files S tag fs m1))"

text \<open>\<open>max_tag_circular_buffer\<close> starts at -1.\<close>

definition FSet_Forward_To_First_GlobalOp :: "settings \<Rightarrow> file_set \<Rightarrow> merger \<Rightarrow> (file_set \<times> merger) result" where
  "FSet_Forward_To_First_GlobalOp S fs m =
     rbind (first_tags S (fs_files fs) (-1)) (\<lambda>(files, tag).
     rbind (forward_files S tag files m) (\<lambda>(files1, m1).
       rmap (\<lambda>fs1. (fs1, m1)) (Rewind_FS S (fs\<lparr>fs_files := files1\<rparr>))))"

text \<open>For the process 0: whether the buffer was circular is in the options of the first file.\<close>

definition CheckCircularBufferWhenTracing :: "settings \<Rightarrow> file_set \<Rightarrow> merger \<Rightarrow> (settings \<times> file_set \<times> merger) result" where
  "CheckCircularBufferWhenTracing S fs m =
     (case fs_files fs of [] \<Rightarrow> Inl Undefined
      | f # files \<Rightarrow>
          let f1 = f\<lparr>fi_current := skip_while (\<lambda>e. \<not> (sint (ev_event e) = MPI_INIT_EV \<and> ev_value e = EVT_END))
                 (fi_events f) (fi_current f)\<rparr>;
              circular = (case Current_FS f1 of None \<Rightarrow> False
                 | Some e \<Rightarrow> Get_EvAux e AND TRACEOPTION_CIRCULAR_BUFFER \<noteq> 0)
          in rbind (Rewind_FS S (fs\<lparr>fs_files := f1 # files\<rparr>)) (\<lambda>fs1.
            if \<not> circular then Inr (S, fs1, m)
            else let S1 = S\<lparr>circular_buffer := True\<rparr> in
              rmap (\<lambda>(fs2, m1). (S1, fs2, m1)) (FSet_Forward_To_First_GlobalOp S1 fs1 m)))"

end
