(* ===== verification/File_Set_Correct.thy ===== *)
theory File_Set_Correct
  imports File_Set "HOL-Library.Sublist"
begin

text \<open>
  What the readers of a file set deliver: every event of every file once, the ordinary events and the bursts of a
  file in their order, and everything in the order of synchronised time when the files are. The two readers are
  two interpretations of the locale of \<open>File_Merge\<close>.
\<close>

section \<open>Skipping\<close>

lemma skip_while_bound: "i \<le> length es \<Longrightarrow> skip_while P es i \<le> length es"
  by (induction P es i rule: skip_while.induct) (subst skip_while.simps, auto)

lemma skip_while_ge: "i \<le> skip_while P es i"
  by (induction P es i rule: skip_while.induct) (subst skip_while.simps, auto)

lemma skip_while_stop: "skip_while P es i < length es \<Longrightarrow> \<not> P (es ! skip_while P es i)"
  by (induction P es i rule: skip_while.induct) (subst (asm) skip_while.simps, subst skip_while.simps, auto split: if_splits)

lemma skip_while_between: "i \<le> j \<Longrightarrow> j < skip_while P es i \<Longrightarrow> P (es ! j)"
proof (induction P es i rule: skip_while.induct)
  case (1 P es i)
  show ?case
  proof (cases "i < length es \<and> P (es ! i)")
    case True
    then show ?thesis using 1 by (cases "i = j") (simp_all add: skip_while.simps [of P es i])
  next
    case False
    then show ?thesis using 1(2,3) by (simp add: skip_while.simps [of P es i] split: if_splits)
  qed
qed

text \<open>The positions that are left, before and after skipping.\<close>

definition left :: "(event_t \<Rightarrow> bool) \<Rightarrow> event_t list \<Rightarrow> nat \<Rightarrow> nat list" where
  "left P es i = filter (\<lambda>j. P (es ! j)) [i..<length es]"

lemma left_skip: "left P es (skip_while (\<lambda>e. \<not> P e) es i) = left P es i"
proof -
  let ?k = "skip_while (\<lambda>e. \<not> P e) es i"
  show ?thesis
  proof (cases "i < length es")
    case True
    then have "[i..<length es] = [i..<?k] @ [?k..<length es]"
      using skip_while_ge [of i "\<lambda>e. \<not> P e" es] skip_while_bound [of i es "\<lambda>e. \<not> P e"]
      by (metis less_imp_le_nat le_add_diff_inverse upt_add_eq_append)
    moreover have "filter (\<lambda>j. P (es ! j)) [i..<?k] = []"
      by (auto simp: filter_empty_conv dest: skip_while_between [rotated])
    ultimately show ?thesis by (simp add: left_def)
  qed (simp add: skip_while.simps)
qed

lemma left_stopped:
  assumes "i < length es \<Longrightarrow> P (es ! i)"
  shows "left P es i = (if i < length es then i # left P es (Suc i) else [])"
  using assms by (simp add: left_def upt_conv_Cons)

section \<open>The two readers\<close>

definition in_tables :: "settings \<Rightarrow> located \<Rightarrow> bool" where
  "in_tables S c \<longleftrightarrow> (\<exists>t. located_time S c = Inr t)"

definition time_key :: "settings \<Rightarrow> located \<Rightarrow> 64 word" where
  "time_key S c = (case located_time S c of Inr t \<Rightarrow> t | Inl x \<Rightarrow> 0)"

definition file_ok :: "settings \<Rightarrow> file_item \<Rightarrow> bool" where
  "file_ok S f \<longleftrightarrow> (\<exists>l. latency (sync_tables S) (unat (fi_ptask f - 1)) (unat (fi_task f - 1)) = Inr l)"

lemma located_time_locate:
  "located_time S (locate f i) = rmap (\<lambda>l. ev_time (fi_events f ! i) + l)
     (latency (sync_tables S) (unat (fi_ptask f - 1)) (unat (fi_task f - 1)))"
  by (simp add: located_time_def TIMESYNC_def TimeSync_def locate_def)

definition events_left :: "file_item \<Rightarrow> located list" where
  "events_left f = map (locate f) (left (\<lambda>e. \<not> is_burst e) (fi_events f) (fi_current f))"

definition bursts_left :: "file_item \<Rightarrow> located list" where
  "bursts_left f = map (locate f) (left is_burst (fi_events f) (next_cpu_burst f))"

lemma file_ok_update [simp]:
  "file_ok S (f\<lparr>fi_current := i\<rparr>) = file_ok S f" "file_ok S (f\<lparr>next_cpu_burst := i\<rparr>) = file_ok S f"
  by (simp_all add: file_ok_def)

lemma locate_update [simp]:
  "locate (f\<lparr>fi_current := i\<rparr>) = locate f" "locate (f\<lparr>next_cpu_burst := i\<rparr>) = locate f"
  "locate (f\<lparr>last_recv := i\<rparr>) = locate f"
  by (simp_all add: locate_def fun_eq_iff)

lemma file_ok_tables: "file_ok S f \<Longrightarrow> in_tables S (locate f i)"
  by (auto simp: file_ok_def in_tables_def located_time_locate)

lemma later_key: "in_tables S c \<Longrightarrow> in_tables S d \<Longrightarrow> later S c d = Inr (time_key S d < time_key S c)"
  by (auto simp: in_tables_def later_def time_key_def)

lemma reader_law:
  assumes "k = skip_while (\<lambda>e. \<not> P e) es i"
  shows "left P es k = left P es i" and "left P es i = (if k < length es then k # left P es (Suc k) else [])"
    and "left P es (Suc k) = tl (left P es i)"
proof -
  show l: "left P es k = left P es i" unfolding assms by (rule left_skip)
  have "P (es ! k)" if "k < length es" using skip_while_stop [of "\<lambda>e. \<not> P e" es i] that assms by simp
  then show s: "left P es i = (if k < length es then k # left P es (Suc k) else [])"
    unfolding l [symmetric] by (rule left_stopped)
  show "left P es (Suc k) = tl (left P es i)" unfolding s by (simp add: left_def)
qed

interpretation ev: merged_files "file_ok S" events_left "time_key S" Inr skip_bursts current_event StepOne_FS "later S" "in_tables S"
  for S
proof (unfold_locales, goal_cases)
  case (1 f)
  note r = reader_law [of _ "\<lambda>e. \<not> is_burst e" "fi_events f" "fi_current f", simplified, OF refl]
  have "events_left (skip_bursts f) = events_left f" by (simp add: events_left_def skip_bursts_def r(1))
  moreover have "events_left (StepOne_FS (skip_bursts f)) = tl (events_left f)"
    by (simp add: events_left_def skip_bursts_def StepOne_FS_def r(3) map_tl)
  moreover have "current_event (skip_bursts f) = (case events_left f of [] \<Rightarrow> None | c # cs \<Rightarrow> Some c)"
    unfolding events_left_def by (subst r(2)) (simp add: current_event_def Current_FS_def skip_bursts_def)
  moreover have "\<forall>c \<in> set (events_left f). in_tables S c" using 1 by (auto simp: events_left_def file_ok_tables)
  ultimately show ?case using 1 by (simp add: skip_bursts_def StepOne_FS_def)
qed (rule later_key)

interpretation bu: merged_files "file_ok S" bursts_left "time_key S" Inr skip_to_burst current_burst step_burst "later S" "in_tables S"
  for S
proof (unfold_locales, goal_cases)
  case (1 f)
  note r = reader_law [of _ is_burst "fi_events f" "next_cpu_burst f", OF refl]
  have "bursts_left (skip_to_burst f) = bursts_left f" by (simp add: bursts_left_def skip_to_burst_def r(1))
  moreover have "bursts_left (step_burst (skip_to_burst f)) = tl (bursts_left f)"
    by (simp add: bursts_left_def skip_to_burst_def step_burst_def r(3) map_tl)
  moreover have "current_burst (skip_to_burst f) = (case bursts_left f of [] \<Rightarrow> None | c # cs \<Rightarrow> Some c)"
    unfolding bursts_left_def by (subst r(2)) (simp add: current_burst_def skip_to_burst_def)
  moreover have "\<forall>c \<in> set (bursts_left f). in_tables S c" using 1 by (auto simp: bursts_left_def file_ok_tables)
  ultimately show ?case using 1 by (simp add: skip_to_burst_def step_burst_def)
qed (rule later_key)

section \<open>Two streams\<close>

text \<open>What \<open>GetNextEvent_FS\<close> makes of the events and the bursts: the burst only when it is earlier.\<close>

fun two_streams :: "('c \<Rightarrow> 'k::linorder) \<Rightarrow> 'c list \<Rightarrow> 'c list \<Rightarrow> 'c list" where
  "two_streams key [] bs = bs"
| "two_streams key es [] = es"
| "two_streams key (e # es) (b # bs) =
     (if key b < key e then b # two_streams key (e # es) bs else e # two_streams key es (b # bs))"

lemma two_streams_Nil [simp]: "two_streams key es [] = es"
  by (cases es) simp_all

lemma two_streams_elements: "mset (two_streams key es bs) = mset es + mset bs"
  by (induction key es bs rule: two_streams.induct) auto

lemma two_streams_set [simp]: "set (two_streams key es bs) = set es \<union> set bs"
  using two_streams_elements [of key es bs, THEN arg_cong, of set_mset] by simp

lemma two_streams_sorted: "sorted (map key es) \<Longrightarrow> sorted (map key bs) \<Longrightarrow> sorted (map key (two_streams key es bs))"
proof (induction key es bs rule: two_streams.induct)
  case (3 key e es b bs)
  then show ?case by (auto intro: order_trans less_imp_le order_less_le_trans)
qed simp_all

lemma two_streams_subseq: "subseq es (two_streams key es bs) \<and> subseq bs (two_streams key es bs)"
  by (induction key es bs rule: two_streams.induct) (auto intro: subseq_Cons')

text \<open>Consecutive elements with the same key are not torn apart by the other stream.\<close>

lemma two_streams_run:
  assumes "\<forall>x \<in> set run. key x = t" and "run \<noteq> []"
  shows "\<exists>us vs. two_streams key (as @ run @ bs) cs = us @ run @ vs"
  using assms
proof (induction key "as @ run @ bs" cs arbitrary: as run rule: two_streams.induct)
  case (2 key e es)
  then show ?case by auto
next
  case (3 key e es b cs)
  show ?case
  proof (cases "key b < key e")
    case True
    obtain us vs where "two_streams key (as @ run @ bs) cs = us @ run @ vs" using 3(1) [OF True 3(3)] 3(4,5) by blast
    then have "two_streams key (as @ run @ bs) (b # cs) = (b # us) @ run @ vs" using True 3(3) [symmetric] by simp
    then show ?thesis by blast
  next
    case False
    show ?thesis
    proof (cases as)
      case (Cons a as1)
      then have "es = as1 @ run @ bs" using 3(3) by simp
      then obtain us vs where "two_streams key es (b # cs) = us @ run @ vs" using 3(2) [OF False _ 3(4,5)] by blast
      then have "two_streams key (as @ run @ bs) (b # cs) = (e # us) @ run @ vs" using False 3(3) [symmetric] by simp
      then show ?thesis by blast
    next
      case Nil
      have "\<exists>vs. two_streams key (run @ bs) (b # cs) = run @ vs" if "\<forall>x \<in> set run. \<not> key b < key x" for run
        using that by (induction run) auto
      moreover have "\<forall>x \<in> set run. \<not> key b < key x" using False 3(3-5) Nil by (cases run) auto
      ultimately show ?thesis using Nil by (metis append_Nil)
    qed
  qed
qed auto

definition opt :: "'a option \<Rightarrow> 'a list" where
  "opt x = (case x of None \<Rightarrow> [] | Some y \<Rightarrow> [y])"

lemma opt_simps [simp]: "opt None = []" "opt (Some y) = [y]"
  by (simp_all add: opt_def)

text \<open>The invariant of the set between two calls.\<close>

definition reading :: "settings \<Rightarrow> file_set \<Rightarrow> bool" where
  "reading S fs \<longleftrightarrow> traceformat fs = PRV_SEMANTICS \<and> fs_files fs \<noteq> [] \<and> (\<forall>f \<in> set (fs_files fs). file_ok S f)"

definition looked_ahead :: "settings \<Rightarrow> (file_item \<Rightarrow> located list) \<Rightarrow> file_set \<Rightarrow> located option \<Rightarrow> bool" where
  "looked_ahead S rest fs x \<longleftrightarrow> (case x of
      None \<Rightarrow> \<forall>f \<in> set (fs_files fs). rest f = [] | Some c \<Rightarrow> in_tables S c)"

text \<open>Filling one of the variables takes the next element of its stream and leaves the other stream.\<close>

lemma bursts_left_event [simp]: "bursts_left (skip_bursts f) = bursts_left f" "bursts_left (StepOne_FS f) = bursts_left f"
  by (simp_all add: skip_bursts_def StepOne_FS_def bursts_left_def)

lemma events_left_burst [simp]: "events_left (skip_to_burst f) = events_left f" "events_left (step_burst f) = events_left f"
  by (simp_all add: skip_to_burst_def step_burst_def events_left_def)

lemma taken_in:
  assumes "taken key (map rest fs) i c yss" and "\<And>f. f \<in> set fs \<Longrightarrow> \<forall>c \<in> set (rest f). P c"
  shows "P c"
proof -
  obtain cs where "i < length (map rest fs)" "map rest fs ! i = c # cs" by (rule takenE [OF assms(1)])
  then have "fs ! i \<in> set fs" "c \<in> set (rest (fs ! i))" by auto
  then show ?thesis using assms(2) by blast
qed

definition fetched :: "settings \<Rightarrow> (file_item \<Rightarrow> located list) \<Rightarrow> file_set \<Rightarrow> file_set \<Rightarrow> located option \<Rightarrow> bool" where
  "fetched S rest fs fs1 x \<longleftrightarrow> looked_ahead S rest fs1 x \<and>
     length (concat (map rest (fs_files fs))) = length (opt x) + length (concat (map rest (fs_files fs1))) \<and>
     (\<forall>os. merged (time_key S) (map rest (fs_files fs1)) os \<longrightarrow>
        (\<exists>os1. merged (time_key S) (map rest (fs_files fs)) os1 \<and> map snd os1 = opt x @ map snd os))"

definition fetch_step ::
  "settings \<Rightarrow> (file_item \<Rightarrow> located list) \<Rightarrow> file_item list \<Rightarrow> (nat \<times> located) option \<Rightarrow> file_item list \<Rightarrow> bool" where
  "fetch_step S rest files r files1 \<longleftrightarrow> length files1 = length files \<and> (case r of
      None \<Rightarrow> (\<forall>f \<in> set files. rest f = []) \<and> map rest files1 = map rest files
    | Some (i, c) \<Rightarrow> taken (time_key S) (map rest files) i c (map rest files1))"

lemma fetch_law:
  assumes s: "fetch_step S rest (fs_files fs) r (fs_files fs1)"
    and t: "\<And>f c. f \<in> set (fs_files fs) \<Longrightarrow> c \<in> set (rest f) \<Longrightarrow> in_tables S c"
  shows "fetched S rest fs fs1 (map_option snd r)"
proof (cases r)
  case None
  then have e: "\<forall>f \<in> set (fs_files fs). rest f = []" "map rest (fs_files fs1) = map rest (fs_files fs)"
    using s by (simp_all add: fetch_step_def)
  then have "\<forall>xs \<in> set (map rest (fs_files fs1)). xs = []" by simp
  then have "looked_ahead S rest fs1 None" unfolding looked_ahead_def set_map by simp
  then show ?thesis using None e(2) by (auto simp: fetched_def)
next
  case (Some ic)
  obtain i c where ic: "ic = (i, c)" by (cases ic)
  then have k: "taken (time_key S) (map rest (fs_files fs)) i c (map rest (fs_files fs1))"
    using s Some by (simp add: fetch_step_def)
  have c: "in_tables S c" by (rule taken_in [OF k]) (use t in blast)
  have "merged (time_key S) (map rest (fs_files fs)) ((i, c) # os)"
    if "merged (time_key S) (map rest (fs_files fs1)) os" for os using k that by (rule merged.take)
  moreover have "map snd ((i, c) # os) = opt (Some c) @ map snd os" for os by simp
  moreover have "length (concat (map rest (fs_files fs))) = length (opt (Some c)) + length (concat (map rest (fs_files fs1)))"
    using taken_split [OF k, THEN arg_cong, of size] by simp
  ultimately show ?thesis using c Some ic unfolding fetched_def looked_ahead_def by (simp only: option.simps snd_conv) blast
qed

lemma next_event_law:
  assumes "reading S fs"
  shows "\<exists>fs1. next_event S fs = Inr fs1 \<and> reading S fs1 \<and> fetched S events_left fs fs1 (min_event fs1) \<and>
    map bursts_left (fs_files fs1) = map bursts_left (fs_files fs) \<and> min_burst fs1 = min_burst fs \<and>
    Is_FS_Rewound fs1 = Is_FS_Rewound fs"
proof -
  have ok: "\<forall>f \<in> set (fs_files fs). file_ok S f" "fs_files fs \<noteq> []" using assms by (auto simp: reading_def)
  obtain r files where r: "GetNextEvent_FS_prv S (fs_files fs) = Inr (r, files)" "\<forall>f \<in> set files. file_ok S f"
    "length files = length (fs_files fs)" and s: "fetch_step S events_left (fs_files fs) r files"
    using ev.next_law [OF ok] by (auto simp: fetch_step_def GetNextEvent_FS_prv_def)
  have b: "map bursts_left files = map bursts_left (fs_files fs)"
    using r(1) unfolding GetNextEvent_FS_prv_def by (rule merge_next_keeps) simp_all
  let ?fs = "fs\<lparr>fs_files := files, min_event := map_option snd r\<rparr>"
  have "fetched S events_left fs ?fs (map_option snd r)"
    by (rule fetch_law) (use s ok in \<open>auto simp: events_left_def file_ok_tables\<close>)
  then have "next_event S fs = Inr ?fs \<and> reading S ?fs \<and> fetched S events_left fs ?fs (min_event ?fs) \<and>
    map bursts_left (fs_files ?fs) = map bursts_left (fs_files fs) \<and> min_burst ?fs = min_burst fs \<and>
    Is_FS_Rewound ?fs = Is_FS_Rewound fs"
    using r b assms by (auto simp: next_event_def reading_def)
  then show ?thesis by (rule exI)
qed

lemma next_burst_law:
  assumes "reading S fs"
  shows "\<exists>fs1. next_burst S fs = Inr fs1 \<and> reading S fs1 \<and> fetched S bursts_left fs fs1 (min_burst fs1) \<and>
    map events_left (fs_files fs1) = map events_left (fs_files fs) \<and> min_event fs1 = min_event fs \<and>
    Is_FS_Rewound fs1 = Is_FS_Rewound fs"
proof -
  have ok: "\<forall>f \<in> set (fs_files fs). file_ok S f" "fs_files fs \<noteq> []" using assms by (auto simp: reading_def)
  obtain r files where r: "Search_CPU_Burst S (fs_files fs) = Inr (r, files)" "\<forall>f \<in> set files. file_ok S f"
    "length files = length (fs_files fs)" and s: "fetch_step S bursts_left (fs_files fs) r files"
    using bu.next_law [OF ok] by (auto simp: fetch_step_def Search_CPU_Burst_def)
  have b: "map events_left files = map events_left (fs_files fs)"
    using r(1) unfolding Search_CPU_Burst_def by (rule merge_next_keeps) simp_all
  let ?fs = "fs\<lparr>fs_files := files, min_burst := map_option snd r\<rparr>"
  have "fetched S bursts_left fs ?fs (map_option snd r)"
    by (rule fetch_law) (use s ok in \<open>auto simp: bursts_left_def file_ok_tables\<close>)
  then have "next_burst S fs = Inr ?fs \<and> reading S ?fs \<and> fetched S bursts_left fs ?fs (min_burst ?fs) \<and>
    map events_left (fs_files ?fs) = map events_left (fs_files fs) \<and> min_event ?fs = min_event fs \<and>
    Is_FS_Rewound ?fs = Is_FS_Rewound fs"
    using r b assms by (auto simp: next_burst_def reading_def)
  then show ?thesis by (rule exI)
qed

lemma looked_ahead_map: "map rest (fs_files fs1) = map rest (fs_files fs) \<Longrightarrow> looked_ahead S rest fs1 x = looked_ahead S rest fs x"
proof -
  assume "map rest (fs_files fs1) = map rest (fs_files fs)"
  then have "rest ` set (fs_files fs1) = rest ` set (fs_files fs)" by (metis set_map)
  then show ?thesis by (auto simp: looked_ahead_def split: option.splits)
qed

lemma merged_nothing: "merged key xss os \<Longrightarrow> \<forall>xs \<in> set xss. xs = [] \<Longrightarrow> os = []"
  by (erule merged.cases) (auto simp: taken_def dest!: nth_mem)

definition to_read :: "file_set \<Rightarrow> nat" where
  "to_read fs = length (opt (min_event fs)) + length (opt (min_burst fs)) +
     length (concat (map events_left (fs_files fs))) + length (concat (map bursts_left (fs_files fs)))"

text \<open>What a set that has looked ahead delivers.\<close>

definition delivers :: "settings \<Rightarrow> nat \<Rightarrow> file_set \<Rightarrow> bool" where
  "delivers S n fs \<longleftrightarrow> (\<exists>os bs fs1. merged (time_key S) (map events_left (fs_files fs)) os \<and>
     merged (time_key S) (map bursts_left (fs_files fs)) bs \<and>
     drain (GetNextEvent_FS S) n fs =
       Inr (two_streams (time_key S) (opt (min_event fs) @ map snd os) (opt (min_burst fs) @ map snd bs), fs1))"

lemma deliver_event:
  assumes "fetched S events_left fs fs1 (min_event fs1)" and "map bursts_left (fs_files fs1) = map bursts_left (fs_files fs)"
    and "min_burst fs1 = min_burst fs" and "delivers S n fs1" and "min_event fs = Some e"
    and "GetNextEvent_FS S fs = Inr (Some e, fs1)" and "looked_ahead S bursts_left fs (min_burst fs)"
    and "\<And>b. min_burst fs = Some b \<Longrightarrow> \<not> time_key S b < time_key S e"
  shows "delivers S (Suc n) fs"
proof -
  obtain os bs fs2 where d: "merged (time_key S) (map events_left (fs_files fs1)) os"
    "merged (time_key S) (map bursts_left (fs_files fs)) bs"
    "drain (GetNextEvent_FS S) n fs1 =
       Inr (two_streams (time_key S) (opt (min_event fs1) @ map snd os) (opt (min_burst fs) @ map snd bs), fs2)"
    using assms(2-4) unfolding delivers_def by auto
  obtain os1 where os1: "merged (time_key S) (map events_left (fs_files fs)) os1"
    "map snd os1 = opt (min_event fs1) @ map snd os" using assms(1) d(1) unfolding fetched_def by blast
  let ?b = "opt (min_burst fs) @ map snd bs"
  have "e # two_streams (time_key S) (map snd os1) ?b = two_streams (time_key S) (opt (min_event fs) @ map snd os1) ?b"
  proof (cases "min_burst fs")
    case None
    then have "\<forall>xs \<in> set (map bursts_left (fs_files fs)). xs = []" using assms(7) by (simp add: looked_ahead_def)
    then have "bs = []" by (rule merged_nothing [OF d(2)])
    then show ?thesis using None assms(5) by simp
  next
    case (Some b)
    then show ?thesis using assms(5,8) by simp
  qed
  then have "drain (GetNextEvent_FS S) (Suc n) fs =
    Inr (two_streams (time_key S) (opt (min_event fs) @ map snd os1) ?b, fs2)"
    using assms(6) d(3) os1(2) by simp
  then show ?thesis using os1(1) d(2) unfolding delivers_def by blast
qed

lemma deliver_burst:
  assumes "fetched S bursts_left fs fs1 (min_burst fs1)" and "map events_left (fs_files fs1) = map events_left (fs_files fs)"
    and "min_event fs1 = min_event fs" and "delivers S n fs1" and "min_burst fs = Some b"
    and "GetNextEvent_FS S fs = Inr (Some b, fs1)" and "looked_ahead S events_left fs (min_event fs)"
    and "\<And>e. min_event fs = Some e \<Longrightarrow> time_key S b < time_key S e"
  shows "delivers S (Suc n) fs"
proof -
  obtain os bs fs2 where d: "merged (time_key S) (map events_left (fs_files fs)) os"
    "merged (time_key S) (map bursts_left (fs_files fs1)) bs"
    "drain (GetNextEvent_FS S) n fs1 =
       Inr (two_streams (time_key S) (opt (min_event fs) @ map snd os) (opt (min_burst fs1) @ map snd bs), fs2)"
    using assms(2-4) unfolding delivers_def by auto
  obtain bs1 where bs1: "merged (time_key S) (map bursts_left (fs_files fs)) bs1"
    "map snd bs1 = opt (min_burst fs1) @ map snd bs" using assms(1) d(2) unfolding fetched_def by blast
  let ?e = "opt (min_event fs) @ map snd os"
  have "b # two_streams (time_key S) ?e (map snd bs1) = two_streams (time_key S) ?e (opt (min_burst fs) @ map snd bs1)"
  proof (cases "min_event fs")
    case None
    then have "\<forall>xs \<in> set (map events_left (fs_files fs)). xs = []" using assms(7) by (simp add: looked_ahead_def)
    then have "os = []" by (rule merged_nothing [OF d(1)])
    then show ?thesis using None assms(5) by simp
  next
    case (Some e)
    then show ?thesis using assms(5,8) by simp
  qed
  then have "drain (GetNextEvent_FS S) (Suc n) fs =
    Inr (two_streams (time_key S) ?e (opt (min_burst fs) @ map snd bs1), fs2)"
    using assms(6) d(3) bs1(2) by simp
  then show ?thesis using bs1(1) d(1) unfolding delivers_def by blast
qed

lemma read_on:
  assumes "reading S fs" and "\<not> Is_FS_Rewound fs" and "looked_ahead S events_left fs (min_event fs)"
    and "looked_ahead S bursts_left fs (min_burst fs)" and "to_read fs < n"
  shows "delivers S n fs"
  using assms
proof (induction n arbitrary: fs)
  case (Suc n)
  have prv: "traceformat fs = PRV_SEMANTICS" using Suc.prems(1) by (simp add: reading_def)
  obtain fe where fe: "next_event S fs = Inr fe" "reading S fe" "fetched S events_left fs fe (min_event fe)"
    "map bursts_left (fs_files fe) = map bursts_left (fs_files fs)" "min_burst fe = min_burst fs" "\<not> Is_FS_Rewound fe"
    using next_event_law [OF Suc.prems(1)] Suc.prems(2) by auto
  obtain fb where fb: "next_burst S fs = Inr fb" "reading S fb" "fetched S bursts_left fs fb (min_burst fb)"
    "map events_left (fs_files fb) = map events_left (fs_files fs)" "min_event fb = min_event fs" "\<not> Is_FS_Rewound fb"
    using next_burst_law [OF Suc.prems(1)] Suc.prems(2) by auto
  have de: "delivers S n fe" if "min_event fs = Some e" for e
  proof (rule Suc.IH [OF fe(2,6)])
    show "looked_ahead S events_left fe (min_event fe)" using fe(3) by (simp add: fetched_def)
    show "looked_ahead S bursts_left fe (min_burst fe)"
      using Suc.prems(4) looked_ahead_map [OF fe(4)] by (simp add: fe(5))
    show "to_read fe < n" using Suc.prems(5) fe(3) that unfolding to_read_def fe(4,5) by (simp add: fetched_def)
  qed
  have db: "delivers S n fb" if "min_burst fs = Some b" for b
  proof (rule Suc.IH [OF fb(2,6)])
    show "looked_ahead S bursts_left fb (min_burst fb)" using fb(3) by (simp add: fetched_def)
    show "looked_ahead S events_left fb (min_event fb)"
      using Suc.prems(3) looked_ahead_map [OF fb(4)] by (simp add: fb(5))
    show "to_read fb < n" using Suc.prems(5) fb(3) that unfolding to_read_def fb(4,5) by (simp add: fetched_def)
  qed
  show ?case
  proof (cases "min_event fs")
    case e: None
    show ?thesis
    proof (cases "min_burst fs")
      case None
      then have "merged (time_key S) (map events_left (fs_files fs)) []" "merged (time_key S) (map bursts_left (fs_files fs)) []"
        using Suc.prems(3,4) e by (auto simp: looked_ahead_def intro!: merged.stop)
      moreover have "GetNextEvent_FS S fs = Inr (None, fs)" using prv Suc.prems(2) e None by (simp add: GetNextEvent_FS_def)
      ultimately show ?thesis using e None unfolding delivers_def by (intro exI [of _ "[]"]) simp
    next
      case (Some b)
      then have "GetNextEvent_FS S fs = Inr (Some b, fb)" using prv Suc.prems(2) e fb(1) by (simp add: GetNextEvent_FS_def)
      then show ?thesis using deliver_burst [OF fb(3,4,5) db [OF Some] Some _ Suc.prems(3)] e by simp
    qed
  next
    case e: (Some e)
    show ?thesis
    proof (cases "min_burst fs")
      case None
      then have "GetNextEvent_FS S fs = Inr (Some e, fe)" using prv Suc.prems(2) e fe(1) by (simp add: GetNextEvent_FS_def)
      then show ?thesis using deliver_event [OF fe(3,4,5) de [OF e] e _ Suc.prems(4)] None by simp
    next
      case b: (Some b)
      have l: "later S e b = Inr (time_key S b < time_key S e)"
        using Suc.prems(3,4) e b by (simp add: looked_ahead_def later_key)
      show ?thesis
      proof (cases "time_key S b < time_key S e")
        case True
        then have "GetNextEvent_FS S fs = Inr (Some b, fb)" using prv Suc.prems(2) e b l fb(1) by (simp add: GetNextEvent_FS_def)
        then show ?thesis using deliver_burst [OF fb(3,4,5) db [OF b] b _ Suc.prems(3)] e True by simp
      next
        case False
        then have "GetNextEvent_FS S fs = Inr (Some e, fe)" using prv Suc.prems(2) e b l fe(1) by (simp add: GetNextEvent_FS_def)
        then show ?thesis using deliver_event [OF fe(3,4,5) de [OF e] e _ Suc.prems(4)] b False by simp
      qed
    qed
  qed
qed simp

section \<open>A whole reading\<close>

definition all_located :: "file_item \<Rightarrow> located list" where
  "all_located f = map (locate f) [0..<length (fi_events f)]"

definition ordinary_events :: "file_item \<Rightarrow> located list" where
  "ordinary_events f = filter (\<lambda>c. \<not> is_burst (l_event c)) (all_located f)"

definition burst_events :: "file_item \<Rightarrow> located list" where
  "burst_events f = filter (\<lambda>c. is_burst (l_event c)) (all_located f)"

lemma left_from_start:
  "fi_current f = 0 \<Longrightarrow> events_left f = ordinary_events f" "next_cpu_burst f = 0 \<Longrightarrow> bursts_left f = burst_events f"
  by (simp_all add: events_left_def bursts_left_def left_def ordinary_events_def burst_events_def all_located_def
      filter_map comp_def locate_def)

lemma all_located_split: "mset (ordinary_events f) + mset (burst_events f) = mset (all_located f)"
  unfolding ordinary_events_def burst_events_def by (induction "all_located f") auto

lemma rewound_item:
  "\<not> circular_buffer S \<Longrightarrow> \<exists>f1. rewind_item S f = Inr f1 \<and> all_located f1 = all_located f \<and>
     events_left f1 = ordinary_events f \<and> bursts_left f1 = burst_events f \<and> file_ok S f1 = file_ok S f"
  by (simp add: rewind_item_def all_located_def file_ok_def left_from_start ordinary_events_def burst_events_def)

lemma rewound_set:
  assumes "\<not> circular_buffer S"
  shows "\<exists>fs1. Rewind_FS S fs = Inr fs1 \<and> Is_FS_Rewound fs1 \<and> traceformat fs1 = traceformat fs \<and>
    length (fs_files fs1) = length (fs_files fs) \<and> map events_left (fs_files fs1) = map ordinary_events (fs_files fs) \<and>
    map bursts_left (fs_files fs1) = map burst_events (fs_files fs) \<and>
    ((\<forall>f \<in> set (fs_files fs1). file_ok S f) \<longleftrightarrow> (\<forall>f \<in> set (fs_files fs). file_ok S f))"
proof -
  let ?g = "\<lambda>f. case rewind_item S f of Inr f1 \<Rightarrow> f1"
  have g: "rewind_item S f = Inr (?g f)" "events_left (?g f) = ordinary_events f" "bursts_left (?g f) = burst_events f"
    "file_ok S (?g f) = file_ok S f" for f using rewound_item [OF assms, of f] by auto
  have "rcollect (rewind_item S) (fs_files fs) = Inr (map ?g (fs_files fs))" by (rule rcollect_Inr) (rule g(1))
  then show ?thesis by (simp add: Rewind_FS_def comp_def g(2-4))
qed

text \<open>The first call fills both variables and then goes on as every other.\<close>

lemma first_call:
  assumes "reading S fs" and "Is_FS_Rewound fs"
  shows "\<exists>fs1. reading S fs1 \<and> \<not> Is_FS_Rewound fs1 \<and> GetNextEvent_FS S fs = GetNextEvent_FS S fs1 \<and>
    fetched S events_left fs fs1 (min_event fs1) \<and> fetched S bursts_left fs fs1 (min_burst fs1)"
proof -
  obtain fe where fe: "next_event S fs = Inr fe" "reading S fe" "fetched S events_left fs fe (min_event fe)"
    "map bursts_left (fs_files fe) = map bursts_left (fs_files fs)"
    using next_event_law [OF assms(1)] by auto
  obtain fb where fb: "next_burst S fe = Inr fb" "reading S fb" "fetched S bursts_left fe fb (min_burst fb)"
    "map events_left (fs_files fb) = map events_left (fs_files fe)" "min_event fb = min_event fe"
    using next_burst_law [OF fe(2)] by auto
  let ?fs = "fb\<lparr>Is_FS_Rewound := False\<rparr>"
  have "reading S ?fs" using fb(2) by (simp add: reading_def)
  moreover have "GetNextEvent_FS S fs = GetNextEvent_FS S ?fs"
    using assms fe(1) fb(1,2) by (simp add: GetNextEvent_FS_def reading_def)
  moreover have "fetched S events_left fs ?fs (min_event ?fs)"
    using fe(3) looked_ahead_map [of events_left ?fs fe] fb(4,5) by (simp add: fetched_def)
  moreover have "fetched S bursts_left fs ?fs (min_burst ?fs)"
    using fb(3) looked_ahead_map [of bursts_left ?fs fb] fe(4) by (simp add: fetched_def)
  ultimately show ?thesis by (intro exI [of _ ?fs]) simp
qed

lemma whole_reading:
  assumes "reading S fs" and "Is_FS_Rewound fs"
    and "length (concat (map events_left (fs_files fs))) + length (concat (map bursts_left (fs_files fs))) = n"
  shows "\<exists>os bs fs1. merged (time_key S) (map events_left (fs_files fs)) os \<and>
    merged (time_key S) (map bursts_left (fs_files fs)) bs \<and>
    drain (GetNextEvent_FS S) (Suc n) fs = Inr (two_streams (time_key S) (map snd os) (map snd bs), fs1)"
proof -
  obtain fs1 where fs1: "reading S fs1" "\<not> Is_FS_Rewound fs1" "GetNextEvent_FS S fs = GetNextEvent_FS S fs1"
    "fetched S events_left fs fs1 (min_event fs1)" "fetched S bursts_left fs fs1 (min_burst fs1)"
    using first_call [OF assms(1,2)] by blast
  have "delivers S (Suc n) fs1"
    by (rule read_on [OF fs1(1,2)]) (use fs1(4,5) assms(3) in \<open>auto simp: fetched_def to_read_def\<close>)
  then obtain os bs fs2 where d: "merged (time_key S) (map events_left (fs_files fs1)) os"
    "merged (time_key S) (map bursts_left (fs_files fs1)) bs"
    "drain (GetNextEvent_FS S) (Suc n) fs1 =
       Inr (two_streams (time_key S) (opt (min_event fs1) @ map snd os) (opt (min_burst fs1) @ map snd bs), fs2)"
    unfolding delivers_def by blast
  obtain os1 where "merged (time_key S) (map events_left (fs_files fs)) os1" "map snd os1 = opt (min_event fs1) @ map snd os"
    using fs1(4) d(1) unfolding fetched_def by blast
  moreover obtain bs1 where "merged (time_key S) (map bursts_left (fs_files fs)) bs1"
    "map snd bs1 = opt (min_burst fs1) @ map snd bs" using fs1(5) d(2) unfolding fetched_def by blast
  moreover have "drain (GetNextEvent_FS S) (Suc n) fs = drain (GetNextEvent_FS S) (Suc n) fs1" using fs1(3) by simp
  ultimately show ?thesis using d(3) by metis
qed

definition all_events :: "file_set \<Rightarrow> nat" where
  "all_events fs = sum_list (map (\<lambda>f. length (fi_events f)) (fs_files fs))"

lemma located_split:
  "mset (concat (map ordinary_events fs)) + mset (concat (map burst_events fs)) = mset (concat (map all_located fs))"
  by (induction fs) (auto simp: ac_simps all_located_split [symmetric])

lemma read_all:
  assumes "fs_files fs \<noteq> []" and "traceformat fs = PRV_SEMANTICS" and "\<not> circular_buffer S"
    and "\<forall>f \<in> set (fs_files fs). file_ok S f"
  shows "\<exists>fs1 os bs fs2. Rewind_FS S fs = Inr fs1 \<and> merged (time_key S) (map ordinary_events (fs_files fs)) os \<and>
    merged (time_key S) (map burst_events (fs_files fs)) bs \<and>
    drain (GetNextEvent_FS S) (Suc (all_events fs)) fs1 = Inr (two_streams (time_key S) (map snd os) (map snd bs), fs2)"
proof -
  let ?F = "fs_files fs"
  obtain fs1 where r: "Rewind_FS S fs = Inr fs1" "Is_FS_Rewound fs1" "traceformat fs1 = PRV_SEMANTICS" "fs_files fs1 \<noteq> []"
    "map events_left (fs_files fs1) = map ordinary_events ?F" "map bursts_left (fs_files fs1) = map burst_events ?F"
    "\<forall>f \<in> set (fs_files fs1). file_ok S f"
    using rewound_set [OF assms(3), of fs] assms by (metis length_0_conv)
  have "length (concat (map all_located ?F)) = all_events fs" by (simp add: length_concat comp_def all_located_def all_events_def)
  then have n: "length (concat (map ordinary_events ?F)) + length (concat (map burst_events ?F)) = all_events fs"
    using located_split [of ?F, THEN arg_cong, of size] by simp
  have "reading S fs1" using r by (simp add: reading_def)
  then show ?thesis using whole_reading [OF _ r(2), of S] n r(1) unfolding r(5,6) by blast
qed

text \<open>
  C9. The merger reads everything, in order: after a rewind (without a circular buffer) of files whose tasks
  have a synchronisation entry, calling \<open>GetNextEvent_FS\<close> once more often than there are events succeeds and
  returns every event of every file exactly once, with the identifiers of its file; the ordinary events and
  the bursts of a file come in the order of the file; and when every file is ordered by synchronised time, so
  is the whole sequence.
\<close>

theorem all_events_delivered:
  assumes "fs_files fs \<noteq> []" and "traceformat fs = PRV_SEMANTICS" and "\<not> circular_buffer S"
    and "\<forall>f \<in> set (fs_files fs). file_ok S f"
  shows "\<exists>fs1 outs fs2. Rewind_FS S fs = Inr fs1 \<and>
    drain (GetNextEvent_FS S) (Suc (all_events fs)) fs1 = Inr (outs, fs2) \<and>
    mset outs = mset (concat (map all_located (fs_files fs))) \<and>
    (\<forall>f \<in> set (fs_files fs). subseq (ordinary_events f) outs \<and> subseq (burst_events f) outs) \<and>
    ((\<forall>f \<in> set (fs_files fs). sorted (map (time_key S) (all_located f))) \<longrightarrow> sorted (map (time_key S) outs))"
proof -
  let ?F = "fs_files fs"
  obtain fs1 os bs fs2 where r: "Rewind_FS S fs = Inr fs1"
    and d: "merged (time_key S) (map ordinary_events ?F) os" "merged (time_key S) (map burst_events ?F) bs"
    "drain (GetNextEvent_FS S) (Suc (all_events fs)) fs1 = Inr (two_streams (time_key S) (map snd os) (map snd bs), fs2)"
    using read_all [OF assms] by blast
  let ?outs = "two_streams (time_key S) (map snd os) (map snd bs)"
  have "mset ?outs = mset (concat (map all_located ?F))"
    by (simp only: two_streams_elements merged_elements [OF d(1)] merged_elements [OF d(2)] located_split)
  moreover have "subseq (ordinary_events f) ?outs \<and> subseq (burst_events f) ?outs" if "f \<in> set ?F" for f
    using two_streams_subseq [of "map snd os" "time_key S" "map snd bs"] merged_subseq [OF d(1), of "ordinary_events f"]
      merged_subseq [OF d(2), of "burst_events f"] that by (auto intro: subseq_order.order_trans)
  moreover have "sorted (map (time_key S) ?outs)" if files_sorted: "\<forall>f \<in> set ?F. sorted (map (time_key S) (all_located f))"
  proof (rule two_streams_sorted)
    have s: "sorted (map (time_key S) (ordinary_events f)) \<and> sorted (map (time_key S) (burst_events f))" if "f \<in> set ?F" for f
      using files_sorted that by (simp add: ordinary_events_def burst_events_def sorted_filter)
    show "sorted (map (time_key S) (map snd os))" using merged_sorted [OF d(1)] s by (simp add: comp_def case_prod_unfold)
    show "sorted (map (time_key S) (map snd bs))" using merged_sorted [OF d(2)] s by (simp add: comp_def case_prod_unfold)
  qed
  ultimately show ?thesis using r d(3) by blast
qed

text \<open>A concrete set: two tasks, the second five units behind, with a burst in the first file.\<close>

definition ex_read_settings :: settings where
  "ex_read_settings = \<lparr>joint_states = True, nanos_task_view = False, skip_sendrecv = False, circular_buffer = False, circular_skip_matches = True,
     num_tasks = (\<lambda>p. 2), file_tasks = [(1, 1), (1, 2)], sync_tables = ts_start\<lparr>LatencyTable := [[0, 5]]\<rparr>,
     spawns = no_spawns, unset_record = ex_record\<rparr>"

definition ex_event :: "32 word \<Rightarrow> 64 word \<Rightarrow> 64 word \<Rightarrow> event_t" where
  "ex_event ty v time = \<lparr>ev_param = (0, 0, 0), ev_value = v, ev_time = time, ev_hwc = [], ev_event = ty, ev_hwcset = 0\<rparr>"

definition ex_file :: "nat \<Rightarrow> event_t list \<Rightarrow> file_item" where
  "ex_file k es = \<lparr>fi_cpu = 1, fi_ptask = 1, fi_task = 1 + word_of_nat k, fi_thread = 1, num_of_events = length es,
     mpit_id = k, fi_events = es, fi_current = 3, next_cpu_burst = 1, first_glop = None, last_recv = 0\<rparr>"

definition ex_set :: file_set where
  "ex_set = \<lparr>fs_files = [ex_file 0 [ex_event 40000002 1 10, ex_event 40000002 0 12, ex_event 40000015 1 16, ex_event 50000001 0 20],
       ex_file 1 [ex_event 40000002 1 6, ex_event 40000002 0 8, ex_event 50000001 0 15, ex_event 50000004 1 16]],
     traceformat = PRV_SEMANTICS, active_file = 0, input_files = [], Is_FS_Rewound = False,
     min_event = None, min_burst = None\<rparr>"

theorem all_events_delivered_witness:
  "\<exists>fs1 outs fs2. Rewind_FS ex_read_settings ex_set = Inr fs1 \<and>
    drain (GetNextEvent_FS ex_read_settings) 9 fs1 = Inr (outs, fs2) \<and>
    length outs = 8 \<and> sorted (map (time_key ex_read_settings) outs) \<and>
    subseq (burst_events (hd (fs_files ex_set))) outs"
proof -
  have l: "latency (sync_tables ex_read_settings) 0 0 = Inr 0" "latency (sync_tables ex_read_settings) 0 1 = Inr 5"
    by (simp_all add: latency_def ex_read_settings_def)
  have "fs_files ex_set \<noteq> []" "traceformat ex_set = PRV_SEMANTICS" "\<not> circular_buffer ex_read_settings"
    "\<forall>f \<in> set (fs_files ex_set). file_ok ex_read_settings f"
    using l by (simp_all add: ex_set_def ex_read_settings_def file_ok_def ex_file_def)
  note d = all_events_delivered [OF this]
  have n: "Suc (all_events ex_set) = 9" by (simp add: all_events_def ex_set_def ex_file_def)
  have s: "\<forall>f \<in> set (fs_files ex_set). sorted (map (time_key ex_read_settings) (all_located f))"
    using l by (simp add: ex_set_def ex_file_def ex_event_def all_located_def time_key_def located_time_locate upt_rec)
  have c: "size (mset (concat (map all_located (fs_files ex_set)))) = 8"
    by (simp add: ex_set_def ex_file_def all_located_def)
  have h: "hd (fs_files ex_set) \<in> set (fs_files ex_set)" by (simp add: ex_set_def)
  from d n s c h show ?thesis by (metis size_mset)
qed

text \<open>
  Ordinary events of a file that follow each other at the same time are returned one directly after the other,
  whatever the other files hold.
\<close>

lemma run_delivered:
  assumes "fs_files fs \<noteq> []" and "traceformat fs = PRV_SEMANTICS" and "\<not> circular_buffer S"
    and "\<forall>f \<in> set (fs_files fs). file_ok S f"
    and "f \<in> set (fs_files fs)" and "all_located f = as @ run @ bs" and "run \<noteq> []"
    and "\<forall>c \<in> set run. \<not> is_burst (l_event c) \<and> time_key S c = t"
  shows "\<exists>fs1 us vs fs2. Rewind_FS S fs = Inr fs1 \<and>
    drain (GetNextEvent_FS S) (Suc (all_events fs)) fs1 = Inr (us @ run @ vs, fs2)"
proof -
  let ?F = "fs_files fs" and ?P = "\<lambda>c. \<not> is_burst (l_event c)"
  obtain fs1 os cs fs2 where r: "Rewind_FS S fs = Inr fs1" "merged (time_key S) (map ordinary_events ?F) os"
    "merged (time_key S) (map burst_events ?F) cs"
    "drain (GetNextEvent_FS S) (Suc (all_events fs)) fs1 = Inr (two_streams (time_key S) (map snd os) (map snd cs), fs2)"
    using read_all [OF assms(1-4)] by blast
  obtain i where i: "i < length ?F" "?F ! i = f" using assms(5) by (auto simp: in_set_conv_nth)
  have "filter ?P run = run" using assms(8) by (simp add: filter_id_conv)
  then have "map ordinary_events ?F ! i = filter ?P as @ run @ filter ?P bs"
    using i assms(6) by (simp add: ordinary_events_def)
  then obtain us vs where "os = us @ map (Pair i) run @ vs"
    using merged_run [OF r(2), of i "filter ?P as" run "filter ?P bs" t] i(1) assms(8) by auto
  then have "map snd os = map snd us @ run @ map snd vs" by (simp add: comp_def)
  then obtain xs ys where "two_streams (time_key S) (map snd os) (map snd cs) = xs @ run @ ys"
    using two_streams_run [of run "time_key S" t "map snd us" "map snd vs" "map snd cs"] assms(7,8) by auto
  then show ?thesis using r(1,4) by auto
qed

section \<open>The synchronisation points\<close>

text \<open>
  The end of \<open>MPI_Init\<close> if there is one; otherwise the last end of the start of the tracing, and without it
  the last end of \<open>start_pes\<close>.
\<close>

definition ends_of :: "int \<Rightarrow> event_t list \<Rightarrow> event_t list" where
  "ends_of ty es = filter (\<lambda>e. sint (ev_event e) = ty \<and> ev_value e = EVT_END) es"

definition sync_point :: "event_t list \<Rightarrow> 64 word" where
  "sync_point es =
     (if ends_of MPI_INIT_EV es \<noteq> [] then ev_time (hd (ends_of MPI_INIT_EV es))
      else if ends_of TRACE_INIT_EV es \<noteq> [] then ev_time (last (ends_of TRACE_INIT_EV es))
      else if ends_of START_PES_EV es \<noteq> [] then ev_time (last (ends_of START_PES_EV es))
      else 0)"

definition last_time :: "64 word option \<Rightarrow> event_t list \<Rightarrow> 64 word option" where
  "last_time t es = (if es = [] then t else Some (ev_time (last es)))"

lemma find_init_law:
  "mpi_init a = None \<Longrightarrow> i \<le> length es \<Longrightarrow> find_init es i a = (b, k) \<Longrightarrow>
    k \<le> length es \<and>
    mpi_init b = (case ends_of MPI_INIT_EV (drop i es) of [] \<Rightarrow> None | e # _ \<Rightarrow> Some (ev_time e)) \<and>
    (mpi_init b = None \<longrightarrow> trace_init b = last_time (trace_init a) (ends_of TRACE_INIT_EV (drop i es)) \<and>
       shmem_init b = last_time (shmem_init a) (ends_of START_PES_EV (drop i es)))"
proof (induction es i a rule: find_init.induct)
  case (1 es i a)
  show ?case
  proof (cases "i < length es")
    case True
    let ?e = "es ! i" and ?a = "note_init (es ! i) a"
    have d: "drop i es = ?e # drop (Suc i) es" using True by (simp add: Cons_nth_drop_Suc)
    have f: "find_init es (Suc i) ?a = (b, k)" using 1(2,4) True by (simp add: find_init.simps [of es i a])
    show ?thesis
    proof (cases "mpi_init ?a")
      case None
      then have "ends_of MPI_INIT_EV (drop i es) = ends_of MPI_INIT_EV (drop (Suc i) es)"
        unfolding d by (auto simp: ends_of_def note_init_def 1(2) split: if_splits)
      moreover have "last_time (trace_init ?a) (ends_of TRACE_INIT_EV (drop (Suc i) es)) =
          last_time (trace_init a) (ends_of TRACE_INIT_EV (drop i es))"
        "last_time (shmem_init ?a) (ends_of START_PES_EV (drop (Suc i) es)) =
          last_time (shmem_init a) (ends_of START_PES_EV (drop i es))"
        using None unfolding d by (auto simp: ends_of_def note_init_def last_time_def)
      ultimately show ?thesis using 1(1) [OF _ None _ f] True 1(2) by simp
    next
      case (Some t)
      then have "ends_of MPI_INIT_EV (drop i es) = ?e # ends_of MPI_INIT_EV (drop (Suc i) es) \<and> t = ev_time ?e"
        unfolding d using 1(2) by (auto simp: ends_of_def note_init_def split: if_splits)
      moreover have "b = ?a" "k = Suc i" using f Some by (simp_all add: find_init.simps [of es "Suc i" ?a])
      ultimately show ?thesis using True Some by simp
    qed
  next
    case False
    then show ?thesis using 1 by (simp add: find_init.simps [of es "length es" a] ends_of_def last_time_def)
  qed
qed

lemma sync_time_point:
  assumes "find_init es 0 \<lparr>mpi_init = None, trace_init = None, shmem_init = None\<rparr> = (b, k)"
  shows "(case chosen_sync b of None \<Rightarrow> 0 | Some t \<Rightarrow> t) = sync_point es"
proof -
  have "mpi_init b = (case ends_of MPI_INIT_EV es of [] \<Rightarrow> None | e # _ \<Rightarrow> Some (ev_time e))"
    "mpi_init b = None \<longrightarrow> trace_init b = last_time None (ends_of TRACE_INIT_EV es) \<and>
       shmem_init b = last_time None (ends_of START_PES_EV es)"
    using find_init_law [OF _ _ assms] by simp_all
  then show ?thesis
    by (cases "ends_of MPI_INIT_EV es"; cases "ends_of TRACE_INIT_EV es"; cases "ends_of START_PES_EV es")
       (simp_all add: chosen_sync_def sync_point_def last_time_def)
qed

text \<open>What the two arrays hold for a file.\<close>

definition first_thread :: "file_item \<Rightarrow> bool" where
  "first_thread f \<longleftrightarrow> fi_thread f = 1 \<and> fi_events f \<noteq> []"

lemma sync_file_law:
  assumes "fi_current f = 0" and "mpit_id f < length starts" and "length syncs = length starts" and "syncs ! mpit_id f = 0"
  shows "\<exists>k. sync_file f (starts, syncs) = Inr (f\<lparr>fi_current := k\<rparr>,
    (if first_thread f then starts[mpit_id f := ev_time (hd (fi_events f))] else starts),
    (if first_thread f then syncs[mpit_id f := sync_point (fi_events f)] else syncs))"
proof (cases "first_thread f")
  case True
  obtain b k where b: "find_init (fi_events f) 0 \<lparr>mpi_init = None, trace_init = None, shmem_init = None\<rparr> = (b, k)"
    by (metis surj_pair)
  have "(case chosen_sync b of None \<Rightarrow> syncs | Some t \<Rightarrow> syncs[mpit_id f := t]) = syncs[mpit_id f := sync_point (fi_events f)]"
    using sync_time_point [OF b] list_update_id [of syncs "mpit_id f"] assms(4) by (cases "chosen_sync b") auto
  then show ?thesis using True assms b
    by (intro exI [of _ k]) (simp add: sync_file_def first_thread_def Current_FS_def hd_conv_nth)
next
  case False
  then have "fi_thread f - 1 \<noteq> 0 \<or> fi_events f = []" by (auto simp: first_thread_def)
  then show ?thesis using False assms(1)
    by (intro exI [of _ 0]) (auto simp: sync_file_def Current_FS_def)
qed

lemma sync_files_law:
  assumes "\<forall>f \<in> set fs. fi_current f = 0 \<and> mpit_id f < length starts \<and> syncs ! mpit_id f = 0"
    and "length syncs = length starts" and "distinct (map mpit_id fs)"
  shows "\<exists>fs1 starts1 syncs1. sync_files fs (starts, syncs) = Inr (fs1, starts1, syncs1) \<and>
    length starts1 = length starts \<and> length syncs1 = length starts \<and>
    map (\<lambda>f. f\<lparr>fi_current := 0\<rparr>) fs1 = map (\<lambda>f. f\<lparr>fi_current := 0\<rparr>) fs \<and>
    (\<forall>j. j \<notin> mpit_id ` set fs \<longrightarrow> starts1 ! j = starts ! j \<and> syncs1 ! j = syncs ! j) \<and>
    (\<forall>f \<in> set fs. starts1 ! mpit_id f = (if first_thread f then ev_time (hd (fi_events f)) else starts ! mpit_id f) \<and>
       syncs1 ! mpit_id f = (if first_thread f then sync_point (fi_events f) else 0))"
  using assms
proof (induction fs arbitrary: starts syncs)
  case (Cons f fs)
  let ?starts = "if first_thread f then starts[mpit_id f := ev_time (hd (fi_events f))] else starts"
  let ?syncs = "if first_thread f then syncs[mpit_id f := sync_point (fi_events f)] else syncs"
  obtain k where k: "sync_file f (starts, syncs) = Inr (f\<lparr>fi_current := k\<rparr>, ?starts, ?syncs)"
    using sync_file_law [of f starts syncs] Cons.prems by auto
  have new: "mpit_id f \<notin> mpit_id ` set fs" using Cons.prems(3) by simp
  have ne: "mpit_id g \<noteq> mpit_id f" if "g \<in> set fs" for g using new that by (metis imageI)
  have p: "\<forall>g \<in> set fs. fi_current g = 0 \<and> mpit_id g < length ?starts \<and> ?syncs ! mpit_id g = 0"
    using Cons.prems(1) ne by (simp add: nth_list_update_neq [OF ne [THEN not_sym]])
  have l: "length ?syncs = length ?starts" and d: "distinct (map mpit_id fs)" using Cons.prems(2,3) by simp_all
  obtain fs1 starts1 syncs1 where r: "sync_files fs (?starts, ?syncs) = Inr (fs1, starts1, syncs1)"
    "length starts1 = length ?starts" "length syncs1 = length ?starts"
    "map (\<lambda>f. f\<lparr>fi_current := 0\<rparr>) fs1 = map (\<lambda>f. f\<lparr>fi_current := 0\<rparr>) fs"
    "\<forall>j. j \<notin> mpit_id ` set fs \<longrightarrow> starts1 ! j = ?starts ! j \<and> syncs1 ! j = ?syncs ! j"
    "\<forall>g \<in> set fs. starts1 ! mpit_id g = (if first_thread g then ev_time (hd (fi_events g)) else ?starts ! mpit_id g) \<and>
       syncs1 ! mpit_id g = (if first_thread g then sync_point (fi_events g) else 0)"
    using Cons.IH [OF p l d] by blast
  have f: "starts1 ! mpit_id f = (if first_thread f then ev_time (hd (fi_events f)) else starts ! mpit_id f)"
    "syncs1 ! mpit_id f = (if first_thread f then sync_point (fi_events f) else 0)"
    using r(5) new Cons.prems(1,2) by auto
  have g: "?starts ! mpit_id g = starts ! mpit_id g" if "g \<in> set fs" for g using ne [OF that] by simp
  have "\<forall>j. j \<notin> mpit_id ` set (f # fs) \<longrightarrow> starts1 ! j = starts ! j \<and> syncs1 ! j = syncs ! j" using r(5) by auto
  moreover have "\<forall>g \<in> set (f # fs). starts1 ! mpit_id g = (if first_thread g then ev_time (hd (fi_events g)) else starts ! mpit_id g) \<and>
       syncs1 ! mpit_id g = (if first_thread g then sync_point (fi_events g) else 0)"
  proof
    fix h assume "h \<in> set (f # fs)"
    then consider "h = f" | "h \<in> set fs" by auto
    then show "starts1 ! mpit_id h = (if first_thread h then ev_time (hd (fi_events h)) else starts ! mpit_id h) \<and>
       syncs1 ! mpit_id h = (if first_thread h then sync_point (fi_events h) else 0)"
      using f r(6) g by cases simp_all
  qed
  moreover have "sync_files (f # fs) (starts, syncs) = Inr (f\<lparr>fi_current := k\<rparr> # fs1, starts1, syncs1)" using k r(1) by simp
  ultimately show ?case using r(2-4) by (intro exI) (rule conjI, assumption, simp)
qed simp

lemma rewind_forgets: "rewind_item S (f\<lparr>fi_current := i\<rparr>) = rewind_item S f"
  by (simp add: rewind_item_def split: option.splits)

text \<open>
  C25. The synchronisation points: without a circular buffer, and for files with different numbers, the search
  succeeds and gives for the first thread of every task the time of its first event and the time of the
  end of \<open>MPI_Init\<close>, of the last start of the tracing or of \<open>start_pes\<close>, in this order of preference, and zero
  for every other file; afterwards the set is as after a rewind.
\<close>

theorem sync_times_found:
  assumes "\<not> circular_buffer S" and "distinct (map mpit_id (fs_files fs))"
    and "\<forall>f \<in> set (fs_files fs). mpit_id f < length (fs_files fs)"
  shows "\<exists>fs1 starts syncs. Search_Synchronization_Times S fs = Inr (fs1, starts, syncs) \<and> Rewind_FS S fs = Inr fs1 \<and>
    (\<forall>f \<in> set (fs_files fs).
       starts ! mpit_id f = (if first_thread f then ev_time (hd (fi_events f)) else 0) \<and>
       syncs ! mpit_id f = (if first_thread f then sync_point (fi_events f) else 0))"
proof -
  let ?z = "\<lambda>f. f\<lparr>fi_current := 0, next_cpu_burst := 0, last_recv := 0\<rparr>" and ?n = "length (fs_files fs)"
  have z: "rewind_item S f = Inr (?z f)" for f using assms(1) by (simp add: rewind_item_def)
  let ?F = "map ?z (fs_files fs)"
  have rew: "Rewind_FS S g = Inr (g\<lparr>Is_FS_Rewound := True, fs_files := map ?z (fs_files g), active_file := 0\<rparr>)" for g
    by (simp add: Rewind_FS_def rcollect_Inr [of _ "rewind_item S" ?z, OF z])
  have d: "distinct (map mpit_id ?F)" using assms(2) by (simp add: comp_def)
  have n: "\<forall>f \<in> set ?F. fi_current f = 0 \<and> mpit_id f < length (replicate ?n (0 :: 64 word)) \<and>
      replicate ?n (0 :: 64 word) ! mpit_id f = 0" using assms(3) by auto
  obtain fs1 starts syncs where s: "sync_files ?F (replicate ?n 0, replicate ?n 0) = Inr (fs1, starts, syncs)"
    "map (\<lambda>f. f\<lparr>fi_current := 0\<rparr>) fs1 = map (\<lambda>f. f\<lparr>fi_current := 0\<rparr>) ?F"
    "\<forall>f \<in> set ?F. starts ! mpit_id f = (if first_thread f then ev_time (hd (fi_events f)) else replicate ?n 0 ! mpit_id f) \<and>
       syncs ! mpit_id f = (if first_thread f then sync_point (fi_events f) else 0)"
    using sync_files_law [OF n refl d] by blast
  have "map ?z fs1 = map ?z (map (\<lambda>f. f\<lparr>fi_current := 0\<rparr>) fs1)" by simp
  also have "\<dots> = ?F" unfolding s(2) by simp
  finally have "Search_Synchronization_Times S fs =
      Inr (fs\<lparr>Is_FS_Rewound := True, fs_files := ?F, active_file := 0\<rparr>, starts, syncs)"
    using s(1) by (simp add: Search_Synchronization_Times_def rew)
  moreover have "\<forall>f \<in> set (fs_files fs).
       starts ! mpit_id f = (if first_thread f then ev_time (hd (fi_events f)) else 0) \<and>
       syncs ! mpit_id f = (if first_thread f then sync_point (fi_events f) else 0)"
    using s(3) assms(3) by (simp add: first_thread_def)
  ultimately show ?thesis using rew [of fs] by blast
qed

theorem sync_times_found_witness:
  "\<exists>fs1 starts syncs. Search_Synchronization_Times ex_read_settings ex_set = Inr (fs1, starts, syncs) \<and>
    starts ! 0 = 10 \<and> starts ! 1 = 6 \<and> syncs ! 0 = 20 \<and> syncs ! 1 = 15"
proof -
  have a: "\<not> circular_buffer ex_read_settings" by (simp add: ex_read_settings_def)
  have b: "distinct (map mpit_id (fs_files ex_set))" "\<forall>f \<in> set (fs_files ex_set). mpit_id f < length (fs_files ex_set)"
    by (simp_all add: ex_set_def ex_file_def)
  let ?f = "fs_files ex_set ! 0" and ?g = "fs_files ex_set ! 1"
  have f: "?f \<in> set (fs_files ex_set)" "?g \<in> set (fs_files ex_set)" by (simp_all add: ex_set_def)
  have v: "mpit_id ?f = 0" "mpit_id ?g = 1" "first_thread ?f" "first_thread ?g" "ev_time (hd (fi_events ?f)) = 10"
    "ev_time (hd (fi_events ?g)) = 6"
    by (simp_all add: ex_set_def ex_file_def first_thread_def ex_event_def)
  have w: "sync_point (fi_events ?f) = 20" "sync_point (fi_events ?g) = 15"
    by (simp_all add: ex_set_def ex_file_def sync_point_def ends_of_def ex_event_def EVT_END_def)
  obtain fs1 starts syncs where "Search_Synchronization_Times ex_read_settings ex_set = Inr (fs1, starts, syncs)"
    "\<forall>f \<in> set (fs_files ex_set). starts ! mpit_id f = (if first_thread f then ev_time (hd (fi_events f)) else 0) \<and>
       syncs ! mpit_id f = (if first_thread f then sync_point (fi_events f) else 0)"
    using sync_times_found [OF a b] by blast
  then show ?thesis using f v w by (metis (full_types))
qed

end
