(* ===== verification/Communicators.thy ===== *)
theory Communicators
  imports File_Set
begin

text \<open>
  The communicators of the merger: the numbers they get in the trace and the handles each task uses for them
  (\<open>merger/paraver/mpi_comunicadors.c\<close>), and their definitions as sequences of events
  (\<open>merger/common/communicators.c\<close>). A queue of items is a list; the tables per application and task are lists of
  lists, read outside of them is undefined.
\<close>

section \<open>The tables\<close>

record TipusComunicador =
  comm_id :: "64 word"
  comm_tasks :: "32 word list"

record InterCommInfo =
  inter_comms :: "64 word \<times> 64 word"
  inter_leaders :: "32 word \<times> 32 word"
  inter_commid :: "64 word"
  inter_alias :: "64 word"

text \<open>
  \<open>alies_comunicadors\<close> maps the handles of a task to numbers of type \<open>int\<close>, \<open>Intercomm_ptask_task\<close> those of
  intercommunicators; \<open>comm_actual\<close> is the position of the iterator over the list.
\<close>

record comm_tables =
  comunicadors :: "TipusComunicador list"
  alies_comunicadors :: "(64 word \<times> 32 word) list list list"
  InterComm_global :: "InterCommInfo list"
  Intercomm_ptask_task :: "(64 word \<times> 64 word) list list list"
  num_comunicadors :: "32 word"
  comm_actual :: nat

abbreviation (input) ID_MINIM :: "32 word" where "ID_MINIM \<equiv> 1"

definition at_task :: "'a list list \<Rightarrow> 32 word \<Rightarrow> 32 word \<Rightarrow> 'a result" where
  "at_task tab ptask task = (if unat ptask < length tab \<and> unat task < length (tab ! unat ptask)
     then Inr (tab ! unat ptask ! unat task) else Inl Undefined)"

definition set_task_entry :: "'a list list \<Rightarrow> 32 word \<Rightarrow> 32 word \<Rightarrow> 'a \<Rightarrow> 'a list list" where
  "set_task_entry tab ptask task x = tab[unat ptask := (tab ! unat ptask)[unat task := x]]"

text \<open>The argument lists the number of tasks of every application.\<close>

definition initialize_comunicadors :: "nat list \<Rightarrow> comm_tables" where
  "initialize_comunicadors ntasks = \<lparr>comunicadors = [], alies_comunicadors = map (\<lambda>n. replicate n []) ntasks,
     InterComm_global = [], Intercomm_ptask_task = map (\<lambda>n. replicate n []) ntasks, num_comunicadors = 0, comm_actual = 0\<rparr>"

text \<open>The number of a handle; an unknown one is reported and gets 0.\<close>

definition alies_comunicador :: "comm_tables \<Rightarrow> 64 word \<Rightarrow> 32 word \<Rightarrow> 32 word \<Rightarrow> 64 word result" where
  "alies_comunicador c comid ptask task =
     rbind (at_task (alies_comunicadors c) (ptask - 1) (task - 1)) (\<lambda>infos.
       case find (\<lambda>(i, a). i = comid) infos of
         Some (i, a) \<Rightarrow> Inr (scast a)
       | None \<Rightarrow> rmap (\<lambda>inters. case find (\<lambda>(i, a). i = comid) inters of Some (i, a) \<Rightarrow> a | None \<Rightarrow> 0)
           (at_task (Intercomm_ptask_task c) (ptask - 1) (task - 1)))"

definition compara_comunicadors :: "TipusComunicador \<Rightarrow> TipusComunicador \<Rightarrow> bool" where
  "compara_comunicadors c1 c2 \<longleftrightarrow> length (comm_tasks c1) = length (comm_tasks c2) \<and>
     (\<forall>i < length (comm_tasks c1). comm_tasks c1 ! i = comm_tasks c2 ! i)"

text \<open>Adding or changing the number of a handle; applications and tasks count from zero.\<close>

definition afegir_alies :: "64 word \<Rightarrow> 64 word \<Rightarrow> 32 word \<Rightarrow> 32 word \<Rightarrow> comm_tables \<Rightarrow> comm_tables result" where
  "afegir_alies handle number ptask task c =
     rmap (\<lambda>infos. c\<lparr>alies_comunicadors := set_task_entry (alies_comunicadors c) ptask task
         (case find_index (\<lambda>(i, a). i = handle) infos of
            Some k \<Rightarrow> infos[k := (handle, ucast number)]
          | None \<Rightarrow> infos @ [(handle, ucast number)])\<rparr>)
       (at_task (alies_comunicadors c) ptask task)"

definition afegir_comunicador :: "TipusComunicador \<Rightarrow> 32 word \<Rightarrow> 32 word \<Rightarrow> comm_tables \<Rightarrow> comm_tables result" where
  "afegir_comunicador comm ptask task c =
     (case find (\<lambda>info. compara_comunicadors info comm) (comunicadors c) of
        Some info \<Rightarrow> afegir_alies (comm_id comm) (comm_id info) (ptask - 1) (task - 1) c
      | None \<Rightarrow>
          let number = ucast (num_comunicadors c + ID_MINIM) in
          afegir_alies (comm_id comm) number (ptask - 1) (task - 1)
            (c\<lparr>comunicadors := comunicadors c @ [\<lparr>comm_id = number, comm_tasks = comm_tasks comm\<rparr>],
               num_comunicadors := num_comunicadors c + 1\<rparr>))"

section \<open>Intercommunicators\<close>

text \<open>
  The search for the handle assigns instead of comparing: the first entry whose handle it visits is
  overwritten; the value tested is the handle as an \<open>int\<close>.
\<close>

fun alias_loop :: "64 word \<Rightarrow> (64 word \<times> 64 word) list \<Rightarrow> (64 word \<times> 64 word) list \<times> nat option" where
  "alias_loop handle [] = ([], None)"
| "alias_loop handle ((i, a) # es) =
     (if (ucast handle :: 32 word) \<noteq> 0 then ((handle, a) # es, Some 0)
      else (case alias_loop handle es of (es1, r) \<Rightarrow> ((handle, a) # es1, map_option Suc r)))"

definition addInterCommunicatorAlias :: "64 word \<Rightarrow> 64 word \<Rightarrow> 32 word \<Rightarrow> 32 word \<Rightarrow> comm_tables \<Rightarrow> comm_tables result" where
  "addInterCommunicatorAlias handle number ptask task c =
     rmap (\<lambda>es. c\<lparr>Intercomm_ptask_task := set_task_entry (Intercomm_ptask_task c) ptask task
         (case alias_loop handle es of
            (es1, Some k) \<Rightarrow> es1[k := (fst (es1 ! k), number)]
          | (es1, None) \<Rightarrow> es1 @ [(handle, number)])\<rparr>)
       (at_task (Intercomm_ptask_task c) ptask task)"

definition addInterCommunicator ::
  "64 word \<Rightarrow> 64 word \<Rightarrow> 32 word \<Rightarrow> 64 word \<Rightarrow> 32 word \<Rightarrow> 32 word \<Rightarrow> 32 word \<Rightarrow> comm_tables \<Rightarrow> comm_tables result" where
  "addInterCommunicator InterCommID CommID1 leader1 CommID2 leader2 ptask task c =
     rbind (alies_comunicador c CommID1 ptask task) (\<lambda>a1.
     rbind (alies_comunicador c CommID2 ptask task) (\<lambda>a2.
       case find (\<lambda>g. inter_comms g = (a1, a2) \<or> inter_comms g = (a2, a1)) (InterComm_global c) of
         Some g \<Rightarrow> addInterCommunicatorAlias InterCommID (inter_alias g) (ptask - 1) (task - 1) c
       | None \<Rightarrow>
           let number = ucast (num_comunicadors c + ID_MINIM) in
           addInterCommunicatorAlias InterCommID number (ptask - 1) (task - 1)
             (c\<lparr>InterComm_global := InterComm_global c @ [\<lparr>inter_comms = (a1, a2), inter_leaders = (leader1, leader2),
                  inter_commid = InterCommID, inter_alias = number\<rparr>],
                num_comunicadors := num_comunicadors c + 1\<rparr>)))"

section \<open>Enumeration\<close>

text \<open>Going over the communicators; without a next one the functions return -1.\<close>

definition primer_comunicador :: "comm_tables \<Rightarrow> TipusComunicador option \<times> comm_tables" where
  "primer_comunicador c = ((case comunicadors c of [] \<Rightarrow> None | x # xs \<Rightarrow> Some x), c\<lparr>comm_actual := 0\<rparr>)"

definition seguent_comunicador :: "comm_tables \<Rightarrow> TipusComunicador option \<times> comm_tables" where
  "seguent_comunicador c =
     (let k = Suc (comm_actual c) in
      (if k < length (comunicadors c) then Some (comunicadors c ! k) else None, c\<lparr>comm_actual := k\<rparr>))"

definition getInterCommunicatorInfo :: "nat \<Rightarrow> comm_tables \<Rightarrow> (64 word \<times> 64 word \<times> 32 word \<times> 64 word \<times> 32 word) option" where
  "getInterCommunicatorInfo pos c =
     (if length (InterComm_global c) \<le> pos then None
      else let g = InterComm_global c ! pos in
        Some (inter_alias g, fst (inter_comms g), 1 + fst (inter_leaders g), snd (inter_comms g), 1 + snd (inter_leaders g)))"

definition numero_comunicadors :: "comm_tables \<Rightarrow> 32 word" where
  "numero_comunicadors c = num_comunicadors c"

section \<open>Definitions in the files\<close>

abbreviation (input) MPI_COMM_WORLD_ALIAS :: "32 word" where "MPI_COMM_WORLD_ALIAS \<equiv> 1"
abbreviation (input) MPI_COMM_SELF_ALIAS :: "32 word" where "MPI_COMM_SELF_ALIAS \<equiv> 2"
abbreviation (input) MPI_NEW_INTERCOMM_ALIAS :: "32 word" where "MPI_NEW_INTERCOMM_ALIAS \<equiv> 3"

text \<open>
  An intercommunicator is three events, its communicators and leaders in the first two. The identifiers used
  in the end are those of the file of the last event read.
\<close>

definition BuildInterCommunicatorFromFile ::
  "settings \<Rightarrow> event_t \<Rightarrow> file_set \<Rightarrow> comm_tables \<Rightarrow> (nat \<times> file_set \<times> comm_tables) result" where
  "BuildInterCommunicatorFromFile S e fs c =
     rbind (GetNextEvent_FS S fs) (\<lambda>(r1, fs1). case r1 of
       None \<Rightarrow> Inr (1, fs1, c)
     | Some l1 \<Rightarrow> rbind (GetNextEvent_FS S fs1) (\<lambda>(r2, fs2). case r2 of
         None \<Rightarrow> Inr (2, fs2, c)
       | Some l2 \<Rightarrow> rmap (\<lambda>c1. (3, fs2, c1))
           (addInterCommunicator (scast (Get_EvComm (l_event l2))) (scast (Get_EvComm e)) (Get_EvTag e)
             (scast (Get_EvComm (l_event l1))) (Get_EvTag (l_event l1)) (l_ptask l2) (l_task l2) c)))"

text \<open>
  The members of a communicator: \<open>r\<close> is the event read last, \<open>ty\<close> the type of the last event there was. An
  event of another type ends the loop. The fuel bounds the number of events read.
\<close>

fun members_loop ::
  "nat \<Rightarrow> settings \<Rightarrow> nat \<Rightarrow> located option \<Rightarrow> 32 word list \<Rightarrow> 32 word \<Rightarrow> 32 word \<Rightarrow> file_set \<Rightarrow>
   (32 word list \<times> 32 word \<times> 32 word \<times> file_set) result" where
  "members_loop 0 S sz r ts ptask task fs = Inl Blocked"
| "members_loop (Suc n) S sz r ts ptask task fs =
     (case r of None \<Rightarrow> Inr (ts, ptask, task, fs)
      | Some l \<Rightarrow>
          let ty = sint (ev_event (l_event l)) in
          if length ts < sz \<and> (ty = MPI_RANK_CREACIO_COMM_EV \<or> ty = FLUSH_EV)
          then let ts1 = (if ty = MPI_RANK_CREACIO_COMM_EV then ts @ [ucast (ev_value (l_event l))] else ts) in
            if length ts1 < sz
            then rbind (GetNextEvent_FS S fs) (\<lambda>(r1, fs1). case r1 of
                None \<Rightarrow> members_loop n S sz None ts1 ptask task fs1
              | Some l1 \<Rightarrow> members_loop n S sz r1 ts1 (l_ptask l1) (l_task l1) fs1)
            else Inr (ts1, ptask, task, fs)
          else Inr (ts, ptask, task, fs))"

text \<open>
  A missing member ends the program with status 0. When there is no next event \<open>GetNextEvent_FS\<close> leaves the identifiers as
  they are (in the Paraver format), which only matters for a communicator without members.
\<close>

definition BuildCommunicatorFromFile ::
  "nat \<Rightarrow> settings \<Rightarrow> event_t \<Rightarrow> 32 word \<Rightarrow> 32 word \<Rightarrow> file_set \<Rightarrow> comm_tables \<Rightarrow> (nat \<times> file_set \<times> comm_tables) result" where
  "BuildCommunicatorFromFile n S e ptask task fs c =
     (let size = unat (Get_EvSize e) in
      rbind (GetNextEvent_FS S fs) (\<lambda>(r, fs1).
      rbind (case r of
          None \<Rightarrow> members_loop n S size None [] ptask task fs1
        | Some l \<Rightarrow> members_loop n S size r [] (l_ptask l) (l_task l) fs1) (\<lambda>(ts, p, k, fs2).
        if length ts \<noteq> size then Inl (Exit 0)
        else rmap (\<lambda>c1. (size, fs2, c1))
          (afegir_comunicador \<lparr>comm_id = scast (Get_EvComm e), comm_tasks = ts\<rparr> p k c))))"

text \<open>Whether the definition appears in the trace is in the auxiliary field.\<close>

definition emit_alias :: "settings \<Rightarrow> 64 word \<Rightarrow> occurrence \<Rightarrow> merger \<Rightarrow> merger result" where
  "emit_alias S v a m =
     (if Get_EvAux (o_event a) = 0 then Inr m
      else if v = EVT_BEGIN then in_order [show_state S a, put_event S (EvType a) EVT_BEGIN a] m
      else put_event S (EvType a) EVT_END a m)"

definition GenerateAliesComunicator ::
  "nat \<Rightarrow> settings \<Rightarrow> occurrence \<Rightarrow> file_set \<Rightarrow> comm_tables \<Rightarrow> merger \<Rightarrow> (nat \<times> file_set \<times> comm_tables \<times> merger) result" where
  "GenerateAliesComunicator n S a fs c m =
     (let e = o_event a in
      if EvValue a = EVT_BEGIN then
        rbind (if traceformat fs = PRV_SEMANTICS then emit_alias S EVT_BEGIN a m else Inr m) (\<lambda>m1.
          if Get_EvTarget e = MPI_COMM_WORLD_ALIAS then
            rmap (\<lambda>c1. (1, fs, c1, m1)) (afegir_comunicador \<lparr>comm_id = scast (Get_EvComm e),
              comm_tasks = map word_of_nat [0..<unat (Get_EvSize e)]\<rparr> (o_ptask a) (o_task a) c)
          else if Get_EvTarget e = MPI_COMM_SELF_ALIAS then
            rmap (\<lambda>c1. (1, fs, c1, m1)) (afegir_comunicador \<lparr>comm_id = scast (Get_EvComm e),
              comm_tasks = [o_task a - 1]\<rparr> (o_ptask a) (o_task a) c)
          else if Get_EvTarget e = MPI_NEW_INTERCOMM_ALIAS then
            rmap (\<lambda>(i, fs1, c1). (i + 1, fs1, c1, m1)) (BuildInterCommunicatorFromFile S e fs c)
          else rmap (\<lambda>(i, fs1, c1). (i + 1, fs1, c1, m1))
            (BuildCommunicatorFromFile n S e (o_ptask a) (o_task a) fs c))
      else if EvValue a = EVT_END then
        rmap (\<lambda>m1. (1, fs, c, m1)) (if traceformat fs = PRV_SEMANTICS then emit_alias S EVT_END a m else Inr m)
      else Inr (1, fs, c, m))"

end
