(* ===== verification/Communicators_Correct.thy ===== *)
theory Communicators_Correct
  imports Communicators File_Set_Correct
begin

text \<open>
  Communicators get the same number in the trace exactly when they have the same members, whatever handles
  the tasks use; a definition is read as one piece although the files are read interleaved; and a second
  intercommunicator of a task takes the place of the first.
\<close>

section \<open>Numbers\<close>

text \<open>The specification: the different member lists in the order of their first definition.\<close>

record comm_def =
  d_ptask :: "32 word"
  d_task :: "32 word"
  d_handle :: "64 word"
  d_members :: "32 word list"

definition define_comm :: "comm_def \<Rightarrow> comm_tables \<Rightarrow> comm_tables result" where
  "define_comm d = afegir_comunicador \<lparr>comm_id = d_handle d, comm_tasks = d_members d\<rparr> (d_ptask d) (d_task d)"

fun groups :: "comm_def list \<Rightarrow> 32 word list list" where
  "groups [] = []"
| "groups (d # ds) = (if d_members d \<in> set (groups ds) then groups ds else groups ds @ [d_members d])"

text \<open>The number of a handle, the latest definition being the first of the list: one more than the position of its group.\<close>

definition latest :: "comm_def list \<Rightarrow> 64 word \<Rightarrow> 32 word \<Rightarrow> 32 word \<Rightarrow> comm_def option" where
  "latest ds handle ptask task = find (\<lambda>d. d_handle d = handle \<and> d_ptask d = ptask \<and> d_task d = task) ds"

definition number_of :: "comm_def list \<Rightarrow> 64 word \<Rightarrow> 32 word \<Rightarrow> 32 word \<Rightarrow> 64 word" where
  "number_of ds handle ptask task = (case latest ds handle ptask task of None \<Rightarrow> 0
     | Some d \<Rightarrow> (case first_index (d_members d) (groups ds) of None \<Rightarrow> 0 | Some k \<Rightarrow> word_of_nat (Suc k)))"

lemma groups_distinct: "distinct (groups ds)"
  by (induction ds) auto

lemma groups_set: "set (groups ds) = d_members ` set ds"
  by (induction ds) auto

lemma groups_length: "length (groups ds) \<le> length ds"
  by (induction ds) (auto intro: le_SucI)

text \<open>The invariant that ties the tables to the definitions made so far.\<close>

definition in_range :: "nat list \<Rightarrow> 32 word \<Rightarrow> 32 word \<Rightarrow> bool" where
  "in_range ns ptask task \<longleftrightarrow> unat (ptask - 1) < length ns \<and> unat (task - 1) < ns ! unat (ptask - 1)"

definition group_number :: "comm_def list \<Rightarrow> comm_def \<Rightarrow> 32 word" where
  "group_number ds d = (case first_index (d_members d) (groups ds) of None \<Rightarrow> 0 | Some k \<Rightarrow> word_of_nat (Suc k))"

definition represents :: "nat list \<Rightarrow> comm_def list \<Rightarrow> comm_tables \<Rightarrow> bool" where
  "represents ns ds c \<longleftrightarrow>
     comunicadors c = map (\<lambda>k. \<lparr>comm_id = word_of_nat (Suc k), comm_tasks = groups ds ! k\<rparr>) [0..<length (groups ds)] \<and>
     num_comunicadors c = word_of_nat (length (groups ds)) \<and>
     Intercomm_ptask_task c = map (\<lambda>n. replicate n []) ns \<and>
     map length (alies_comunicadors c) = ns \<and>
     (\<forall>ptask task. in_range ns ptask task \<longrightarrow> (\<forall>handle.
        map_of (alies_comunicadors c ! unat (ptask - 1) ! unat (task - 1)) handle =
          map_option (group_number ds) (latest ds handle ptask task)))"

lemma represents_start: "represents ns [] (initialize_comunicadors ns)"
  by (auto simp: represents_def initialize_comunicadors_def in_range_def latest_def comp_def)

lemma find_map_of: "(case find (\<lambda>(i, a). i = k) xs of Some (i, a) \<Rightarrow> f a | None \<Rightarrow> z) = (case map_of xs k of Some a \<Rightarrow> f a | None \<Rightarrow> z)"
  by (induction xs) auto

lemma map_of_set:
  "map_of (case find_index (\<lambda>(i, a). i = k) xs of Some j \<Rightarrow> xs[j := (k, v)] | None \<Rightarrow> xs @ [(k, v)]) = (map_of xs)(k \<mapsto> v)"
proof (induction xs)
  case (Cons x xs)
  then show ?case by (cases x) (auto split: option.splits simp: fun_eq_iff)
qed (simp add: fun_eq_iff)

lemma compara_iff [simp]: "compara_comunicadors c1 c2 \<longleftrightarrow> comm_tasks c1 = comm_tasks c2"
  by (auto simp: compara_comunicadors_def list_eq_iff_nth_eq)

lemma range_tables:
  assumes "map length tab = ns"
  shows "in_range ns p k \<longleftrightarrow> unat (p - 1) < length tab \<and> unat (k - 1) < length (tab ! unat (p - 1))"
  using assms by (auto simp: in_range_def)

lemma lookup_law:
  assumes "represents ns ds c" and "in_range ns ptask task"
  shows "alies_comunicador c handle ptask task =
    Inr (case latest ds handle ptask task of None \<Rightarrow> 0 | Some d \<Rightarrow> scast (group_number ds d))"
proof -
  have i: "unat (ptask - 1) < length ns" "unat (task - 1) < ns ! unat (ptask - 1)" using assms(2) by (simp_all add: in_range_def)
  let ?infos = "alies_comunicadors c ! unat (ptask - 1) ! unat (task - 1)"
  have a: "at_task (alies_comunicadors c) (ptask - 1) (task - 1) = Inr ?infos"
    using assms range_tables [of "alies_comunicadors c" ns ptask task] by (simp add: at_task_def represents_def)
  have b: "at_task (Intercomm_ptask_task c) (ptask - 1) (task - 1) = Inr []"
    using assms(1) i by (simp add: at_task_def represents_def)
  have "alies_comunicador c handle ptask task = Inr (case map_of ?infos handle of Some v \<Rightarrow> scast v | None \<Rightarrow> 0)"
    unfolding alies_comunicador_def a b by (auto split: option.splits simp: find_map_of [symmetric])
  then show ?thesis using assms by (auto simp: represents_def split: option.splits)
qed

lemma ucast_of_nat_down [simp]: "ucast (word_of_nat n :: 64 word) = (word_of_nat n :: 32 word)"
  by (rule bit_word_eqI) (auto simp: bit_simps)

lemma ucast_of_nat_up: "n < 2 ^ 32 \<Longrightarrow> ucast (word_of_nat n :: 32 word) = (word_of_nat n :: 64 word)"
  by (simp add: unsigned_of_nat take_bit_nat_eq_self)

lemma find_numbered:
  "find (\<lambda>i. comm_tasks i = m) (map (\<lambda>k. \<lparr>comm_id = word_of_nat (Suc k), comm_tasks = gs ! k\<rparr>) [0..<length gs]) =
     map_option (\<lambda>k. \<lparr>comm_id = word_of_nat (Suc k), comm_tasks = m\<rparr>) (first_index m gs)"
proof (cases "first_index m gs")
  case None
  then have "m \<notin> set gs" by (simp add: first_index_None_iff)
  then show ?thesis using None by (auto simp: find_None_iff in_set_conv_nth)
next
  case (Some k)
  then have "k < length gs \<and> gs ! k = m \<and> m \<notin> set (take k gs)" by (rule first_index_SomeD)
  then show ?thesis using Some by (auto simp: find_Some_iff in_set_conv_nth intro!: exI [of _ k])
qed

lemma group_number_Cons:
  assumes "e \<in> set ds"
  shows "group_number (d # ds) e = group_number ds e"
proof -
  have "d_members e \<in> set (groups ds)" using assms by (simp add: groups_set)
  then show ?thesis by (simp add: group_number_def first_index_append_in)
qed

lemma latest_in: "latest ds handle p k = Some d \<Longrightarrow> d \<in> set ds"
  unfolding latest_def find_Some_iff using nth_mem by blast

lemma task_index_inject: "unat (p - 1) = unat (q - 1) \<longleftrightarrow> p = (q :: 32 word)"
  by (metis diff_add_cancel word_unat_eq_iff)

text \<open>Setting the number of a handle.\<close>

lemma afegir_alies_law:
  assumes "represents ns ds c" and r: "in_range ns (d_ptask d) (d_task d)"
    and "comunicadors c1 = map (\<lambda>k. \<lparr>comm_id = word_of_nat (Suc k), comm_tasks = groups (d # ds) ! k\<rparr>) [0..<length (groups (d # ds))]"
    and "num_comunicadors c1 = word_of_nat (length (groups (d # ds)))"
    and "alies_comunicadors c1 = alies_comunicadors c" and "Intercomm_ptask_task c1 = Intercomm_ptask_task c"
    and n: "(ucast number :: 32 word) = group_number (d # ds) d"
  shows "\<exists>c2. afegir_alies (d_handle d) number (d_ptask d - 1) (d_task d - 1) c1 = Inr c2 \<and> represents ns (d # ds) c2"
proof -
  let ?tab = "alies_comunicadors c" and ?p = "unat (d_ptask d - 1)" and ?k = "unat (d_task d - 1)"
  let ?new = "case find_index (\<lambda>(i, a). i = d_handle d) (?tab ! ?p ! ?k) of
      Some j \<Rightarrow> (?tab ! ?p ! ?k)[j := (d_handle d, ucast number)] | None \<Rightarrow> (?tab ! ?p ! ?k) @ [(d_handle d, ucast number)]"
  have tab: "map length ?tab = ns" using assms(1) by (simp add: represents_def)
  have i: "?p < length ?tab" "?k < length (?tab ! ?p)" using range_tables [OF tab] r by simp_all
  let ?c2 = "c1\<lparr>alies_comunicadors := set_task_entry ?tab (d_ptask d - 1) (d_task d - 1) ?new\<rparr>"
  have "afegir_alies (d_handle d) number (d_ptask d - 1) (d_task d - 1) c1 = Inr ?c2"
    using i by (simp add: afegir_alies_def at_task_def assms(5))
  moreover have "map length (alies_comunicadors ?c2) = ns"
    using i unfolding tab [symmetric] by (simp add: set_task_entry_def map_update list_update_same_conv)
  moreover have "map_of (alies_comunicadors ?c2 ! unat (p - 1) ! unat (k - 1)) handle =
      map_option (group_number (d # ds)) (latest (d # ds) handle p k)" if pk: "in_range ns p k" for p k handle
  proof -
    have old: "map_of (?tab ! unat (p - 1) ! unat (k - 1)) handle = map_option (group_number ds) (latest ds handle p k)"
      using assms(1) pk by (simp add: represents_def)
    have same: "map_option (group_number ds) (latest ds handle p k) = map_option (group_number (d # ds)) (latest ds handle p k)"
      by (cases "latest ds handle p k") (simp_all add: group_number_Cons latest_in)
    show ?thesis
    proof (cases "p = d_ptask d \<and> k = d_task d")
      case True
      then have "alies_comunicadors ?c2 ! unat (p - 1) ! unat (k - 1) = ?new" using i by (simp add: set_task_entry_def)
      then show ?thesis using old same True n map_of_set [where k = "d_handle d" and xs = "?tab ! ?p ! ?k" and v = "ucast number"]
        by (auto simp: latest_def)
    next
      case False
      then have "unat (p - 1) \<noteq> ?p \<or> unat (k - 1) \<noteq> ?k" unfolding task_index_inject by simp
      then have "alies_comunicadors ?c2 ! unat (p - 1) ! unat (k - 1) = ?tab ! unat (p - 1) ! unat (k - 1)"
        using i by (cases "unat (p - 1) = ?p") (simp_all add: set_task_entry_def)
      then show ?thesis using old same False by (auto simp: latest_def)
    qed
  qed
  ultimately show ?thesis using assms by (intro exI [of _ ?c2]) (simp add: represents_def)
qed

lemma define_comm_law:
  assumes "represents ns ds c" and "in_range ns (d_ptask d) (d_task d)" and "length ds < 2 ^ 31"
  shows "\<exists>c1. define_comm d c = Inr c1 \<and> represents ns (d # ds) c1"
proof (cases "first_index (d_members d) (groups ds)")
  case (Some k)
  then have g: "groups (d # ds) = groups ds" using first_index_None_iff [of "d_members d" "groups ds"] by auto
  have "find (\<lambda>info. comm_tasks info = d_members d) (comunicadors c) =
      Some \<lparr>comm_id = word_of_nat (Suc k), comm_tasks = d_members d\<rparr>"
    using assms(1) Some find_numbered by (simp add: represents_def)
  then have "define_comm d c = afegir_alies (d_handle d) (word_of_nat (Suc k)) (d_ptask d - 1) (d_task d - 1) c"
    by (simp add: define_comm_def afegir_comunicador_def)
  moreover have "\<exists>c2. afegir_alies (d_handle d) (word_of_nat (Suc k)) (d_ptask d - 1) (d_task d - 1) c = Inr c2 \<and>
      represents ns (d # ds) c2"
    by (rule afegir_alies_law [OF assms(1,2)])
      (use assms(1) Some in \<open>simp_all add: represents_def group_number_def g del: of_nat_Suc groups.simps\<close>)
  ultimately show ?thesis by (simp only:)
next
  case None
  then have g: "groups (d # ds) = groups ds @ [d_members d]" by (simp add: first_index_None_iff)
  have "length (groups ds) < 2 ^ 31" using groups_length [of ds] assms(3) by simp
  then have num: "ucast (num_comunicadors c + 1) = (word_of_nat (Suc (length (groups ds))) :: 64 word)"
    using assms(1) ucast_of_nat_up [of "Suc (length (groups ds))"] by (simp add: represents_def add.commute)
  let ?c = "c\<lparr>comunicadors := comunicadors c @ [\<lparr>comm_id = word_of_nat (Suc (length (groups ds))), comm_tasks = d_members d\<rparr>],
      num_comunicadors := num_comunicadors c + 1\<rparr>"
  have "find (\<lambda>info. comm_tasks info = d_members d) (comunicadors c) = None"
    using assms(1) None find_numbered by (simp add: represents_def)
  then have "define_comm d c = afegir_alies (d_handle d) (word_of_nat (Suc (length (groups ds)))) (d_ptask d - 1) (d_task d - 1) ?c"
    by (simp add: define_comm_def afegir_comunicador_def num Let_def del: of_nat_Suc)
  moreover have "\<exists>c2. afegir_alies (d_handle d) (word_of_nat (Suc (length (groups ds)))) (d_ptask d - 1) (d_task d - 1) ?c = Inr c2 \<and>
      represents ns (d # ds) c2"
  proof (rule afegir_alies_law [OF assms(1,2)])
    show "comunicadors ?c = map (\<lambda>k. \<lparr>comm_id = word_of_nat (Suc k), comm_tasks = groups (d # ds) ! k\<rparr>) [0..<length (groups (d # ds))]"
      using assms(1) by (simp add: represents_def g nth_append del: groups.simps of_nat_Suc)
    show "num_comunicadors ?c = word_of_nat (length (groups (d # ds)))" using assms(1) by (simp add: represents_def g del: groups.simps)
    have "first_index (d_members d) (groups ds @ [d_members d]) = Some (length (groups ds))"
      using first_index_nth [of "groups ds @ [d_members d]" "length (groups ds)"] groups_distinct [of "d # ds"] g by simp
    then show "(ucast (word_of_nat (Suc (length (groups ds))) :: 64 word) :: 32 word) = group_number (d # ds) d"
      unfolding group_number_def g by (simp del: of_nat_Suc)
  qed simp_all
  ultimately show ?thesis by (simp only:)
qed

lemma define_all_law:
  assumes "represents ns ds c" and "\<forall>d \<in> set new. in_range ns (d_ptask d) (d_task d)" and "length ds + length new < 2 ^ 31"
  shows "\<exists>c1. rfold define_comm new c = Inr c1 \<and> represents ns (rev new @ ds) c1"
  using assms
proof (induction new arbitrary: ds c)
  case (Cons d new)
  then obtain c1 where "define_comm d c = Inr c1" "represents ns (d # ds) c1"
    using define_comm_law [of ns ds c d] by auto
  then show ?case using Cons.IH [of "d # ds" c1] Cons.prems by auto
qed simp

text \<open>
  C19. Communicators are identified by their members: after any sequence of definitions by tasks of the
  table, the number of a handle of a task is one more than the position of the members of its latest definition
  among the different groups in the order of their first definition, and 0 for an unknown handle. In
  particular the handles of two tasks get the same number exactly when their members are the same, and the
  list written to the header of the trace has every group once, with its number.
\<close>

theorem communicator_numbers:
  assumes "\<forall>d \<in> set ds. in_range ns (d_ptask d) (d_task d)" and "length ds < 2 ^ 31"
  shows "\<exists>c. rfold define_comm ds (initialize_comunicadors ns) = Inr c \<and>
    comunicadors c = map (\<lambda>k. \<lparr>comm_id = word_of_nat (Suc k), comm_tasks = groups (rev ds) ! k\<rparr>) [0..<length (groups (rev ds))] \<and>
    unat (numero_comunicadors c) = length (groups (rev ds)) \<and>
    (\<forall>handle ptask task. in_range ns ptask task \<longrightarrow>
       alies_comunicador c handle ptask task = Inr (number_of (rev ds) handle ptask task)) \<and>
    (\<forall>d \<in> set ds. \<forall>e \<in> set ds.
       latest (rev ds) (d_handle d) (d_ptask d) (d_task d) = Some d \<longrightarrow>
       latest (rev ds) (d_handle e) (d_ptask e) (d_task e) = Some e \<longrightarrow>
       (alies_comunicador c (d_handle d) (d_ptask d) (d_task d) = alies_comunicador c (d_handle e) (d_ptask e) (d_task e)
        \<longleftrightarrow> d_members d = d_members e))"
proof -
  obtain c where c: "rfold define_comm ds (initialize_comunicadors ns) = Inr c" "represents ns (rev ds) c"
    using define_all_law [OF represents_start assms(1)] assms(2) by auto
  have len: "length (groups (rev ds)) < 2 ^ 31" using groups_length [of "rev ds"] assms(2) by simp
  have num: "scast (group_number (rev ds) d) = (word_of_nat (Suc k) :: 64 word)"
    if "first_index (d_members d) (groups (rev ds)) = Some k" for d k
  proof -
    have "Suc k < 2 ^ 31 \<or> Suc k = 2 ^ 31" using first_index_SomeD [OF that] len by linarith
    moreover have "k < length (groups (rev ds))" using first_index_SomeD [OF that] by simp
    ultimately have "Suc k < 2 ^ 31" using len by simp
    then have "sint (word_of_nat (Suc k) :: 32 word) = int (Suc k)"
      by (simp add: sint_uint unsigned_of_nat signed_take_bit_int_eq_self take_bit_nat_eq_self del: of_nat_Suc)
    then show ?thesis by (simp add: group_number_def that scast_eq del: of_nat_Suc)
  qed
  have look: "alies_comunicador c handle ptask task = Inr (number_of (rev ds) handle ptask task)"
    if "in_range ns ptask task" for handle ptask task
  proof (cases "latest (rev ds) handle ptask task")
    case (Some d)
    then have "d \<in> set (rev ds)" by (rule latest_in)
    then obtain k where "first_index (d_members d) (groups (rev ds)) = Some k"
      using first_index_in_set groups_set by (metis imageI)
    then show ?thesis using lookup_law [OF c(2) that] Some num by (simp add: number_of_def)
  qed (use lookup_law [OF c(2) that] in \<open>simp add: number_of_def\<close>)
  have inj: "number_of (rev ds) (d_handle d) (d_ptask d) (d_task d) = number_of (rev ds) (d_handle e) (d_ptask e) (d_task e)
      \<longleftrightarrow> d_members d = d_members e"
    if "latest (rev ds) (d_handle d) (d_ptask d) (d_task d) = Some d" "latest (rev ds) (d_handle e) (d_ptask e) (d_task e) = Some e"
      and de: "d \<in> set ds" "e \<in> set ds" for d e
  proof -
    obtain i j where ij: "first_index (d_members d) (groups (rev ds)) = Some i" "first_index (d_members e) (groups (rev ds)) = Some j"
      using de first_index_in_set groups_set by (metis imageI set_rev)
    then have "(word_of_nat (Suc i) :: 64 word) = word_of_nat (Suc j) \<longleftrightarrow> i = j"
      using first_index_SomeD [OF ij(1)] first_index_SomeD [OF ij(2)] len
      by (simp add: word_of_nat_eq_iff take_bit_nat_eq_self del: of_nat_Suc)
    then show ?thesis using that(1,2) ij first_index_SomeD [OF ij(1)] first_index_SomeD [OF ij(2)]
      by (auto simp: number_of_def)
  qed
  have "unat (numero_comunicadors c) = length (groups (rev ds))"
    using c(2) len by (simp add: represents_def numero_comunicadors_def unsigned_of_nat take_bit_nat_eq_self)
  moreover have "comunicadors c = map (\<lambda>k. \<lparr>comm_id = word_of_nat (Suc k), comm_tasks = groups (rev ds) ! k\<rparr>) [0..<length (groups (rev ds))]"
    using c(2) by (simp add: represents_def)
  moreover have "in_range ns (d_ptask d) (d_task d)" if "d \<in> set ds" for d using assms(1) that by simp
  ultimately show ?thesis using c(1) look inj by (intro exI [of _ c]) simp
qed

definition ex_defs :: "comm_def list" where
  "ex_defs = [\<lparr>d_ptask = 1, d_task = 1, d_handle = 10, d_members = [0, 1]\<rparr>, \<lparr>d_ptask = 1, d_task = 1, d_handle = 11, d_members = [0]\<rparr>,
     \<lparr>d_ptask = 1, d_task = 2, d_handle = 20, d_members = [0, 1]\<rparr>]"

theorem communicator_numbers_witness:
  "\<exists>c. rfold define_comm ex_defs (initialize_comunicadors [2]) = Inr c \<and> unat (numero_comunicadors c) = 2 \<and>
    alies_comunicador c 10 1 1 = Inr 1 \<and> alies_comunicador c 11 1 1 = Inr 2 \<and> alies_comunicador c 20 1 2 = Inr 1 \<and>
    alies_comunicador c 10 1 2 = Inr 0"
proof -
  have "\<forall>d \<in> set ex_defs. in_range [2] (d_ptask d) (d_task d)" "length ex_defs < 2 ^ 31"
    by (simp_all add: ex_defs_def in_range_def)
  from communicator_numbers [OF this] obtain c where
    "rfold define_comm ex_defs (initialize_comunicadors [2]) = Inr c" "unat (numero_comunicadors c) = length (groups (rev ex_defs))"
    "\<forall>handle ptask task. in_range [2] ptask task \<longrightarrow>
       alies_comunicador c handle ptask task = Inr (number_of (rev ex_defs) handle ptask task)"
    by blast
  moreover have "in_range [2] 1 1" "in_range [2] 1 2" by (simp_all add: in_range_def)
  moreover have "length (groups (rev ex_defs)) = 2" by (simp add: ex_defs_def)
  moreover have "number_of (rev ex_defs) 10 1 1 = 1" "number_of (rev ex_defs) 11 1 1 = 2" "number_of (rev ex_defs) 20 1 2 = 1"
    "number_of (rev ex_defs) 10 1 2 = 0"
    by (simp_all add: number_of_def latest_def ex_defs_def)
  ultimately show ?thesis by auto
qed

section \<open>Intercommunicators\<close>

lemma addInterCommunicatorAlias_law:
  assumes "addInterCommunicatorAlias handle number ptask task c = Inr c1"
    and "at_task (Intercomm_ptask_task c) ptask task = Inr es"
  shows "alies_comunicadors c1 = alies_comunicadors c \<and>
    at_task (Intercomm_ptask_task c1) ptask task = Inr (case alias_loop handle es of
        (es1, Some k) \<Rightarrow> es1[k := (fst (es1 ! k), number)] | (es1, None) \<Rightarrow> es1 @ [(handle, number)])"
proof -
  have i: "unat ptask < length (Intercomm_ptask_task c)" "unat task < length (Intercomm_ptask_task c ! unat ptask)"
    using assms(2) by (auto simp: at_task_def split: if_splits)
  then show ?thesis using assms by (auto simp: addInterCommunicatorAlias_def at_task_def set_task_entry_def rmap_Inr_iff)
qed

lemma addInterCommunicator_law:
  assumes "addInterCommunicator handle a l b m ptask task c = Inr c1"
    and "at_task (Intercomm_ptask_task c) (ptask - 1) (task - 1) = Inr es"
  shows "\<exists>number. alies_comunicadors c1 = alies_comunicadors c \<and>
    at_task (Intercomm_ptask_task c1) (ptask - 1) (task - 1) = Inr (case alias_loop handle es of
        (es1, Some k) \<Rightarrow> es1[k := (fst (es1 ! k), number)] | (es1, None) \<Rightarrow> es1 @ [(handle, number)])"
  using assms(1) addInterCommunicatorAlias_law [of handle _ "ptask - 1" "task - 1" _ c1 es] assms(2)
  by (auto simp: addInterCommunicator_def Let_def rbind_Inr_iff split: option.splits)

text \<open>
  A task knows one intercommunicator at a time: when a task adds two with different handles (the lower half
  of the second not zero), the handle of the first is afterwards unknown to it, and its lookup reports an
  error and gives 0; the search for the handle assigns instead of comparing.
\<close>

theorem second_intercomm_replaces:
  assumes "at_task (Intercomm_ptask_task c) (ptask - 1) (task - 1) = Inr []"
    and "at_task (alies_comunicadors c) (ptask - 1) (task - 1) = Inr infos" and "\<forall>(i, a) \<in> set infos. i \<noteq> h1"
    and "addInterCommunicator h1 a1 l1 b1 m1 ptask task c = Inr c1"
    and "addInterCommunicator h2 a2 l2 b2 m2 ptask task c1 = Inr c2"
    and "h1 \<noteq> h2" and "(ucast h2 :: 32 word) \<noteq> 0"
  shows "alies_comunicador c2 h1 ptask task = Inr 0 \<and>
    (\<exists>n. at_task (Intercomm_ptask_task c1) (ptask - 1) (task - 1) = Inr [(h1, n)] \<and> alies_comunicador c1 h1 ptask task = Inr n)"
proof -
  have f: "find (\<lambda>(i, a). i = h1) infos = None" using assms(3) by (auto simp: find_None_iff)
  obtain n1 where c1: "alies_comunicadors c1 = alies_comunicadors c"
    "at_task (Intercomm_ptask_task c1) (ptask - 1) (task - 1) = Inr [(h1, n1)]"
    using addInterCommunicator_law [OF assms(4,1)] by auto
  obtain n2 where c2: "alies_comunicadors c2 = alies_comunicadors c1"
    "at_task (Intercomm_ptask_task c2) (ptask - 1) (task - 1) = Inr [(h2, n2)]"
    using addInterCommunicator_law [OF assms(5) c1(2)] assms(7) by auto
  have "alies_comunicador c2 h1 ptask task = Inr 0"
    using assms(2,6) f c1(1) c2 by (simp add: alies_comunicador_def)
  moreover have "\<exists>n. at_task (Intercomm_ptask_task c1) (ptask - 1) (task - 1) = Inr [(h1, n)] \<and> alies_comunicador c1 h1 ptask task = Inr n"
    using assms(2) f c1 by (simp add: alies_comunicador_def)
  ultimately show ?thesis by blast
qed

theorem second_intercomm_replaces_witness:
  "\<exists>c c1 c2. rfold define_comm ex_defs (initialize_comunicadors [2]) = Inr c \<and>
    addInterCommunicator 30 10 0 11 0 1 1 c = Inr c1 \<and> addInterCommunicator 31 11 0 11 0 1 1 c1 = Inr c2 \<and>
    alies_comunicador c1 30 1 1 = Inr 3 \<and> alies_comunicador c2 30 1 1 = Inr 0"
proof -
  obtain c where c: "rfold define_comm ex_defs (initialize_comunicadors [2]) = Inr c"
    "c = \<lparr>comunicadors = [\<lparr>comm_id = 1, comm_tasks = [0, 1]\<rparr>, \<lparr>comm_id = 2, comm_tasks = [0]\<rparr>],
       alies_comunicadors = [[[(10, 1), (11, 2)], [(20, 1)]]], InterComm_global = [],
       Intercomm_ptask_task = [[[], []]], num_comunicadors = 2, comm_actual = 0\<rparr>"
    by (simp add: ex_defs_def define_comm_def afegir_comunicador_def afegir_alies_def at_task_def set_task_entry_def
        initialize_comunicadors_def numeral_2_eq_2)
  let ?c1 = "c\<lparr>InterComm_global := [\<lparr>inter_comms = (1, 2), inter_leaders = (0, 0), inter_commid = 30, inter_alias = 3\<rparr>],
      Intercomm_ptask_task := [[[(30, 3)], []]], num_comunicadors := 3\<rparr>"
  have a1: "addInterCommunicator 30 10 0 11 0 1 1 c = Inr ?c1"
    by (simp add: c(2) addInterCommunicator_def alies_comunicador_def at_task_def addInterCommunicatorAlias_def set_task_entry_def)
  obtain c2 where a2: "addInterCommunicator 31 11 0 11 0 1 1 ?c1 = Inr c2"
    by (simp add: c(2) addInterCommunicator_def alies_comunicador_def at_task_def addInterCommunicatorAlias_def set_task_entry_def)
  have e: "at_task (Intercomm_ptask_task c) (1 - 1) (1 - 1) = Inr []" "at_task (alies_comunicadors c) (1 - 1) (1 - 1) = Inr [(10, 1), (11, 2)]"
    "\<forall>(i, a) \<in> set [(10, 1 :: 32 word), (11, 2)]. i \<noteq> (30 :: 64 word)" "(30 :: 64 word) \<noteq> 31" "(ucast (31 :: 64 word) :: 32 word) \<noteq> 0"
    by (simp_all add: c(2) at_task_def)
  have "alies_comunicador ?c1 30 1 1 = Inr 3" by (simp add: c(2) alies_comunicador_def at_task_def)
  then show ?thesis using c(1) a1 a2 second_intercomm_replaces [OF e(1-3) a1 a2 e(4,5)] by blast
qed

section \<open>Definitions read from the files\<close>

text \<open>The calls return these elements, one after the other.\<close>

fun reads :: "('s \<Rightarrow> ('c option \<times> 's) result) \<Rightarrow> 'c list \<Rightarrow> 's \<Rightarrow> 's \<Rightarrow> bool" where
  "reads call [] s t \<longleftrightarrow> s = t"
| "reads call (x # xs) s t \<longleftrightarrow> (\<exists>s1. call s = Inr (Some x, s1) \<and> reads call xs s1 t)"

lemma reads_append: "reads call (xs @ ys) s t \<longleftrightarrow> (\<exists>u. reads call xs s u \<and> reads call ys u t)"
  by (induction xs arbitrary: s) auto

lemma drain_reads:
  "drain call n s = Inr (xs @ ys, t) \<Longrightarrow> \<exists>u. reads call xs s u"
proof (induction xs arbitrary: n s)
  case (Cons x xs)
  then show ?case by (cases n) (auto simp: rbind_Inr_iff rmap_Inr_iff split: option.splits)
qed auto

definition is_member :: "located \<Rightarrow> bool" where
  "is_member l \<longleftrightarrow> sint (ev_event (l_event l)) = MPI_RANK_CREACIO_COMM_EV"

definition member_of :: "located \<Rightarrow> 32 word" where
  "member_of l = ucast (ev_value (l_event l))"

lemma members_loop_law:
  assumes "reads (GetNextEvent_FS S) ls fs fs1" and "\<forall>x \<in> set (l # ls). is_member x \<and> l_ptask x = p \<and> l_task x = k"
    and "length ts + length (l # ls) = sz" and "length ls < n"
  shows "members_loop n S sz (Some l) ts p k fs = Inr (ts @ map member_of (l # ls), p, k, fs1)"
  using assms
proof (induction ls arbitrary: n l ts fs)
  case Nil
  then show ?case by (cases n) (simp_all add: is_member_def member_of_def)
next
  case (Cons x ls)
  obtain n1 where n: "n = Suc n1" using Cons.prems(4) by (cases n) auto
  from Cons.prems(1) obtain fs2 where x: "GetNextEvent_FS S fs = Inr (Some x, fs2)" "reads (GetNextEvent_FS S) ls fs2 fs1" by auto
  have "members_loop n1 S sz (Some x) (ts @ [member_of l]) p k fs2 = Inr ((ts @ [member_of l]) @ map member_of (x # ls), p, k, fs1)"
    by (rule Cons.IH [OF x(2)]) (use Cons.prems n in simp_all)
  then show ?case using Cons.prems(2,3) x(1) n by (simp add: is_member_def member_of_def)
qed

text \<open>
  C20. The definition of a communicator is read as one piece: in any set of files, when the events of the members follow
  the event that starts the definition in its file at the same time, the merger, once it has returned the
  start, reads exactly these members, although it takes the next event of all files, and adds the communicator with
  them for the task of that file.
\<close>

theorem definition_read_whole:
  assumes "fs_files fs \<noteq> []" and "traceformat fs = PRV_SEMANTICS" and "\<not> circular_buffer S"
    and "\<forall>f \<in> set (fs_files fs). file_ok S f"
    and "f \<in> set (fs_files fs)" and "all_located f = as @ (d # ranks) @ bs"
    and "\<not> is_burst (l_event d)" and "\<forall>l \<in> set ranks. is_member l" and "\<forall>l \<in> set ranks. time_key S l = time_key S d"
    and "ranks \<noteq> []" and "unat (Get_EvSize (l_event d)) = length ranks" and "length ranks \<le> n"
  shows "\<exists>fs1 us fs2 fs3. Rewind_FS S fs = Inr fs1 \<and> reads (GetNextEvent_FS S) (us @ [d]) fs1 fs2 \<and>
    (\<forall>c. BuildCommunicatorFromFile n S (l_event d) (l_ptask d) (l_task d) fs2 c =
       rmap (\<lambda>c1. (length ranks, fs3, c1)) (afegir_comunicador
         \<lparr>comm_id = scast (Get_EvComm (l_event d)), comm_tasks = map member_of ranks\<rparr> (l_ptask d) (l_task d) c))"
proof -
  have "\<forall>c \<in> set (d # ranks). \<not> is_burst (l_event c) \<and> time_key S c = time_key S d"
    using assms(7-9) by (auto simp: is_burst_def is_member_def)
  then obtain fs1 us vs fs9 where r: "Rewind_FS S fs = Inr fs1"
    "drain (GetNextEvent_FS S) (Suc (all_events fs)) fs1 = Inr (us @ (d # ranks) @ vs, fs9)"
    using run_delivered [OF assms(1-6)] by blast
  then have "drain (GetNextEvent_FS S) (Suc (all_events fs)) fs1 = Inr (((us @ [d]) @ ranks) @ vs, fs9)" by simp
  then obtain fs2 fs3 where rd: "reads (GetNextEvent_FS S) (us @ [d]) fs1 fs2" "reads (GetNextEvent_FS S) ranks fs2 fs3"
    using drain_reads reads_append by metis
  have "set (d # ranks) \<subseteq> set (all_located f)" using assms(6) by auto
  then have ids: "l_ptask l = l_ptask d \<and> l_task l = l_task d" if "l \<in> set ranks" for l
    using that by (auto simp: all_located_def locate_def)
  obtain l ls where l: "ranks = l # ls" using assms(10) by (cases ranks) auto
  from rd(2) l obtain fs4 where fs4: "GetNextEvent_FS S fs2 = Inr (Some l, fs4)" "reads (GetNextEvent_FS S) ls fs4 fs3" by auto
  have "members_loop n S (length ranks) (Some l) [] (l_ptask d) (l_task d) fs4 =
      Inr ([] @ map member_of (l # ls), l_ptask d, l_task d, fs3)"
    by (rule members_loop_law [OF fs4(2)]) (use ids assms(8,12) l in auto)
  then have "BuildCommunicatorFromFile n S (l_event d) (l_ptask d) (l_task d) fs2 c =
       rmap (\<lambda>c1. (length ranks, fs3, c1)) (afegir_comunicador
         \<lparr>comm_id = scast (Get_EvComm (l_event d)), comm_tasks = map member_of ranks\<rparr> (l_ptask d) (l_task d) c)" for c
    using fs4(1) ids l assms(11) by (simp add: BuildCommunicatorFromFile_def)
  then show ?thesis using r(1) rd(1) by blast
qed

text \<open>Two files whose definitions overlap in time.\<close>

definition ex_member :: "32 word \<Rightarrow> 64 word \<Rightarrow> 64 word \<Rightarrow> event_t" where
  "ex_member ty v time = (ex_event ty v time)\<lparr>ev_param := mpi_params 0 2 0 7 0\<rparr>"

definition ex_comm_set :: file_set where
  "ex_comm_set = ex_set\<lparr>fs_files := [
     ex_file 0 [ex_event 40000002 1 10, ex_member 50000061 1 21, ex_member 50000051 0 21, ex_member 50000051 1 21],
     ex_file 1 [ex_event 40000002 1 6, ex_member 50000061 1 16, ex_member 50000051 0 16, ex_member 50000051 1 16]]\<rparr>"

theorem definition_read_whole_witness:
  "\<exists>fs1 us fs2 fs3. Rewind_FS ex_read_settings ex_comm_set = Inr fs1 \<and>
    reads (GetNextEvent_FS ex_read_settings) (us @ [locate (fs_files ex_comm_set ! 1) 1]) fs1 fs2 \<and>
    BuildCommunicatorFromFile 2 ex_read_settings (ex_member 50000061 1 16) 1 2 fs2 (initialize_comunicadors [2]) =
      rmap (\<lambda>c1. (2, fs3, c1)) (afegir_comunicador \<lparr>comm_id = 7, comm_tasks = [0, 1]\<rparr> 1 2 (initialize_comunicadors [2]))"
proof -
  let ?S = ex_read_settings and ?f = "fs_files ex_comm_set ! 1"
  have l: "latency (sync_tables ?S) 0 0 = Inr 0" "latency (sync_tables ?S) 0 1 = Inr 5"
    by (simp_all add: latency_def ex_read_settings_def)
  have a: "fs_files ex_comm_set \<noteq> []" "traceformat ex_comm_set = PRV_SEMANTICS" "\<not> circular_buffer ?S"
    "\<forall>f \<in> set (fs_files ex_comm_set). file_ok ?S f" "?f \<in> set (fs_files ex_comm_set)"
    using l by (simp_all add: ex_comm_set_def ex_set_def ex_read_settings_def file_ok_def ex_file_def)
  have b: "all_located ?f = [locate ?f 0] @ (locate ?f 1 # [locate ?f 2, locate ?f 3]) @ []"
  proof -
    have "length (fi_events ?f) = 4" by (simp add: ex_comm_set_def ex_file_def)
    moreover have "[0..<4] = [0, 1, 2, 3 :: nat]" by (simp add: upt_rec)
    ultimately show ?thesis by (simp add: all_located_def)
  qed
  have e: "l_event (locate ?f 1) = ex_member 50000061 1 16" "l_event (locate ?f 2) = ex_member 50000051 0 16"
    "l_event (locate ?f 3) = ex_member 50000051 1 16" "l_ptask (locate ?f 1) = 1" "l_task (locate ?f 1) = 2"
    by (simp_all add: locate_def ex_comm_set_def ex_file_def)
  have c: "\<not> is_burst (l_event (locate ?f 1))" "\<forall>l \<in> set [locate ?f 2, locate ?f 3]. is_member l"
    "\<forall>l \<in> set [locate ?f 2, locate ?f 3]. time_key ?S l = time_key ?S (locate ?f 1)"
    using e by (simp_all add: is_burst_def is_member_def ex_member_def ex_event_def time_key_def located_time_def locate_def)
  have m: "Get_EvSize (ex_member 50000061 1 16) = 2" "Get_EvComm (ex_member 50000061 1 16) = 7"
    using mpi_params_fields [of "ex_member 50000061 1 16" 0 2 0 7 0] by (simp_all add: ex_member_def)
  have d: "[locate ?f 2, locate ?f 3] \<noteq> []" "unat (Get_EvSize (l_event (locate ?f 1))) = length [locate ?f 2, locate ?f 3]"
    "length [locate ?f 2, locate ?f 3] \<le> 2" using e(1) m by simp_all
  have v: "map member_of [locate ?f 2, locate ?f 3] = [0, 1]"
    using e(2,3) by (simp add: member_of_def ex_member_def ex_event_def)
  have n: "length [locate ?f 2, locate ?f 3] = 2" "scast (7 :: 32 word) = (7 :: 64 word)" by simp_all
  show ?thesis using definition_read_whole [OF a b c d] unfolding e(1,4,5) v m(2) n by blast
qed

end
