(* ===== verification/Prv_Join.thy ===== *)
theory Prv_Join
  imports Communicators Prv_Printf
begin

text \<open>
  The last phase of the merger: the record files of all threads are read in blocks
  (\<open>merger/paraver/file_set.c\<close>: \<open>Map_Paraver_files\<close>, \<open>Read_PRV_LocalFile\<close>, \<open>GetNextParaver_Rec\<close>), merged by
  time, and printed as the lines of the trace (\<open>merger/paraver/paraver_generator.c\<close>: \<open>Paraver_JoinFiles_Master\<close>
  and what it calls). The output file accepts a number of characters; a write that does not fit fails
  and writes nothing. Sequential merger, without \<open>HAVE_BFD\<close>.
\<close>

section \<open>The files of records\<close>

text \<open>
  \<open>unread\<close> are the bytes behind the offset of the file, \<open>mapped\<close> the block in memory; \<open>current_p\<close> is an index
  into it, and \<open>last_mapped_p\<close> its length.
\<close>

record prv_item =
  unread :: "byte list"
  mapped :: "paraver_rec list"
  current_p :: nat
  remaining_records :: nat

record prv_set =
  prv_files :: "prv_item list"
  records_per_block :: "64 word"

definition Map_Paraver_files :: "byte list list \<Rightarrow> 64 word \<Rightarrow> (prv_set \<times> nat) result" where
  "Map_Paraver_files contents per_block =
     (if contents = [] then Inl Undefined
      else Inr (\<lparr>prv_files = map (\<lambda>bs. \<lparr>unread = bs, mapped = [], current_p = 0,
             remaining_records = length bs div REC_SIZE\<rparr>) contents,
           records_per_block = per_block div word_of_nat (length contents)\<rparr>,
         sum_list (map (\<lambda>bs. length bs div REC_SIZE) contents)))"

fun split_records :: "nat \<Rightarrow> byte list \<Rightarrow> paraver_rec list" where
  "split_records 0 bs = []"
| "split_records (Suc n) bs = rec_of (take REC_SIZE bs) # split_records n (drop REC_SIZE bs)"

text \<open>The parameter is an \<open>unsigned\<close>: the size of a block is cut to 32 bits. A short read leaves unset records.\<close>

definition Read_PRV_LocalFile :: "32 word \<Rightarrow> prv_item \<Rightarrow> prv_item result" where
  "Read_PRV_LocalFile per_block f =
     (let nrecords = min (unat per_block) (remaining_records f); want = nrecords * REC_SIZE in
      if length (unread f) < want then Inl Undefined
      else Inr \<lparr>unread = drop want (unread f), mapped = split_records nrecords (unread f), current_p = 0,
        remaining_records = remaining_records f - nrecords\<rparr>)"

definition reload :: "64 word \<Rightarrow> prv_item \<Rightarrow> prv_item result" where
  "reload per_block f = (if current_p f = length (mapped f) \<and> 0 < remaining_records f
     then Read_PRV_LocalFile (ucast per_block) f else Inr f)"

definition current_rec :: "prv_item \<Rightarrow> paraver_rec option" where
  "current_rec f = (if current_p f = length (mapped f) then None else Some (mapped f ! current_p f))"

definition step_rec :: "prv_item \<Rightarrow> prv_item" where
  "step_rec f = (if current_p f \<noteq> length (mapped f) then f\<lparr>current_p := Suc (current_p f)\<rparr> else f)"

text \<open>At equal times the greater type goes first.\<close>

definition less_urgent :: "paraver_rec \<Rightarrow> paraver_rec \<Rightarrow> bool result" where
  "less_urgent b c = Inr (p_time b > p_time c \<or> p_time b = p_time c \<and> sint (p_type b) < sint (p_type c))"

definition GetNextParaver_Rec :: "prv_set \<Rightarrow> (paraver_rec option \<times> prv_set) result" where
  "GetNextParaver_Rec s = rmap (\<lambda>(r, files). (map_option snd r, s\<lparr>prv_files := files\<rparr>))
     (merge_next (reload (records_per_block s)) (\<lambda>f. f) current_rec step_rec less_urgent (prv_files s))"

section \<open>Printing\<close>

record fdz =
  f_text :: string
  f_room :: nat

text \<open>What the macro returns is negative when it fails.\<close>

definition FDZ_WRITE :: "string \<Rightarrow> fdz \<Rightarrow> bool \<times> fdz" where
  "FDZ_WRITE s f = (if length s \<le> f_room f then (False, f\<lparr>f_text := f_text f @ s, f_room := f_room f - length s\<rparr>) else (True, f))"

text \<open>The state of the phase; \<open>TimeIn_MicroSecs\<close> is static, the counters are local.\<close>

record joiner =
  j_set :: prv_set
  j_out :: fdz
  TimeIn_MicroSecs :: bool
  num_incomplete_state :: nat
  num_unmatched_comm :: nat
  num_pending_comm :: nat
  current_count :: nat

definition CHECK_TIME_US :: "64 word \<Rightarrow> joiner \<Rightarrow> joiner" where
  "CHECK_TIME_US t j = j\<lparr>TimeIn_MicroSecs := TimeIn_MicroSecs j \<and> t mod 1000 = 0\<rparr>"

definition put_line :: "string \<Rightarrow> joiner \<Rightarrow> bool \<times> joiner" where
  "put_line s j = (case FDZ_WRITE s (j_out j) of (failed, out) \<Rightarrow> (failed, j\<lparr>j_out := out\<rparr>))"

definition state_line :: "paraver_rec \<Rightarrow> string" where
  "state_line r = nprintf_paraver_state (ucast (p_cpu r)) (ucast (p_ptask r)) (ucast (p_task r)) (ucast (p_thread r))
     (p_time r) (p_end_time r) (ucast (ucast (p_value r) :: 32 word))"

text \<open>States of no duration are left out. The result is whether the function failed.\<close>

definition paraver_state :: "paraver_rec \<Rightarrow> joiner \<Rightarrow> bool \<times> joiner" where
  "paraver_state r j =
     (let j1 = CHECK_TIME_US (p_end_time r) (CHECK_TIME_US (p_time r) j) in
      if p_time r < p_end_time r then put_line (state_line r) j1 else (False, j1))"

text \<open>The pairs of a line; only the write of the line end decides the result.\<close>

fun write_pairs :: "(32 word \<times> 64 word) list \<Rightarrow> joiner \<Rightarrow> joiner" where
  "write_pairs [] j = j"
| "write_pairs ((ty, v) # ps) j = write_pairs ps (snd (put_line (nprintf_paraver_event_type_value (ucast ty) v) j))"

definition paraver_multi_event ::
  "32 word \<Rightarrow> 32 word \<Rightarrow> 32 word \<Rightarrow> 32 word \<Rightarrow> 64 word \<Rightarrow> (32 word \<times> 64 word) list \<Rightarrow> joiner \<Rightarrow> bool \<times> joiner" where
  "paraver_multi_event cpu ptask task thread time ps j =
     (if ps = [] then (False, j)
      else
        let j1 = CHECK_TIME_US time j;
            j2 = snd (put_line (nprintf_paraver_event_head (ucast cpu) (ucast ptask) (ucast task) (ucast thread) time) j1)
        in put_line [CHR 0x0A] (write_pairs ps j2))"

definition comm_line :: "paraver_rec \<Rightarrow> string" where
  "comm_line r = nprintf_paraver_comm (ucast (p_cpu r)) (ucast (p_ptask r)) (ucast (p_task r)) (ucast (p_thread r))
     (p_time r) (p_end_time r) (ucast (p_cpu_r r)) (ucast (p_ptask_r r)) (ucast (p_task_r r)) (ucast (p_thread_r r))
     (p_receive_log r) (p_receive_phy r) (ucast (p_event r)) (ucast (ucast (p_value r) :: 32 word))"

definition paraver_communication :: "paraver_rec \<Rightarrow> joiner \<Rightarrow> bool \<times> joiner" where
  "paraver_communication r j = put_line (comm_line r)
     (CHECK_TIME_US (p_receive_phy r) (CHECK_TIME_US (p_receive_log r) (CHECK_TIME_US (p_end_time r) (CHECK_TIME_US (p_time r) j))))"

section \<open>Events at the same time\<close>

abbreviation MAX_EVENT_COUNT_IN_MULTI_EVENT :: nat where "MAX_EVENT_COUNT_IN_MULTI_EVENT \<equiv> 1024"

definition same_moment :: "paraver_rec \<Rightarrow> paraver_rec \<Rightarrow> bool" where
  "same_moment first cur \<longleftrightarrow> p_cpu first = p_cpu cur \<and> p_ptask first = p_ptask cur \<and> p_task first = p_task cur \<and>
     p_thread first = p_thread cur \<and> p_time first = p_time cur \<and> p_type cur = 2"

text \<open>The callers of an allocation are not printed.\<close>

definition hidden_event :: "paraver_rec \<Rightarrow> bool" where
  "hidden_event r \<longleftrightarrow> SAMPLING_ADDRESS_ALLOCATED_OBJECT_CALLER_EV \<le> sint (p_event r) \<and>
     sint (p_event r) < SAMPLING_ADDRESS_ALLOCATED_OBJECT_CALLER_EV + 100"

text \<open>The handle of a communicator is replaced by its number.\<close>

definition event_value :: "comm_tables \<Rightarrow> paraver_rec \<Rightarrow> 64 word result" where
  "event_value c r = (if sint (p_event r) = MPI_GLOBAL_OP_COMM
     then alies_comunicador c (scast (ucast (p_value r) :: 32 word)) (p_ptask r) (p_task r) else Inr (p_value r))"

definition next_rec :: "joiner \<Rightarrow> (paraver_rec option \<times> joiner) result" where
  "next_rec j = rmap (\<lambda>(r, s). (r, j\<lparr>j_set := s\<rparr>)) (GetNextParaver_Rec (j_set j))"

text \<open>The loop that collects the pairs of a line; the fuel bounds the records read.\<close>

fun group_loop ::
  "nat \<Rightarrow> comm_tables \<Rightarrow> paraver_rec \<Rightarrow> paraver_rec option \<Rightarrow> (32 word \<times> 64 word) list \<Rightarrow> joiner \<Rightarrow>
   (paraver_rec option \<times> (32 word \<times> 64 word) list \<times> joiner) result" where
  "group_loop 0 c first cur ps j = Inl Blocked"
| "group_loop (Suc n) c first cur ps j =
     (case cur of None \<Rightarrow> Inr (None, ps, j)
      | Some r \<Rightarrow>
          if same_moment first r \<and> length ps < MAX_EVENT_COUNT_IN_MULTI_EVENT
          then rbind (event_value c r) (\<lambda>v.
            rbind (next_rec j) (\<lambda>(cur1, j1).
              group_loop n c first cur1 (if hidden_event r then ps else ps @ [(p_event r, v)]) j1))
          else Inr (Some r, ps, j))"

definition paraver_build_multi_event ::
  "nat \<Rightarrow> comm_tables \<Rightarrow> paraver_rec \<Rightarrow> joiner \<Rightarrow> (bool \<times> paraver_rec option \<times> nat \<times> joiner) result" where
  "paraver_build_multi_event n c first j =
     rmap (\<lambda>(cur, ps, j1). case paraver_multi_event (p_cpu first) (p_ptask first) (p_task first) (p_thread first) (p_time first) ps j1 of
         (failed, j2) \<Rightarrow> (failed, cur, length ps, j2))
       (group_loop n c first (Some first) [] j)"

section \<open>All records\<close>

definition one_read :: "bool \<times> joiner \<Rightarrow> (bool \<times> paraver_rec option \<times> joiner) result" where
  "one_read x = (case x of (failed, j) \<Rightarrow>
     rmap (\<lambda>(cur, j1). (failed, cur, j1\<lparr>current_count := Suc (current_count j1)\<rparr>)) (next_rec j))"

definition join_step :: "nat \<Rightarrow> comm_tables \<Rightarrow> paraver_rec \<Rightarrow> joiner \<Rightarrow> (bool \<times> paraver_rec option \<times> joiner) result" where
  "join_step n c r j =
     (if p_type r = UNFINISHED_STATE then one_read (False, j\<lparr>num_incomplete_state := Suc (num_incomplete_state j)\<rparr>)
      else if p_type r = STATE then one_read (paraver_state r j)
      else if p_type r = EVENT then
        rmap (\<lambda>(failed, cur, k, j1). (failed, cur, j1\<lparr>current_count := current_count j1 + k\<rparr>)) (paraver_build_multi_event n c r j)
      else if p_type r = UNMATCHED_COMMUNICATION then one_read (False, j\<lparr>num_unmatched_comm := Suc (num_unmatched_comm j)\<rparr>)
      else if p_type r = PENDING_COMMUNICATION then one_read (False, j\<lparr>num_pending_comm := Suc (num_pending_comm j)\<rparr>)
      else if p_type r = COMMUNICATION then one_read (paraver_communication r j)
      else Inl (Exit (-1)))"

text \<open>The body runs before the first test: without any record the null pointer is read.\<close>

fun join_loop :: "nat \<Rightarrow> comm_tables \<Rightarrow> paraver_rec option \<Rightarrow> joiner \<Rightarrow> (bool \<times> joiner) result" where
  "join_loop 0 c cur j = Inl Blocked"
| "join_loop (Suc n) c cur j =
     (case cur of None \<Rightarrow> Inl Undefined
      | Some r \<Rightarrow> rbind (join_step n c r j) (\<lambda>(failed, cur1, j1).
          if cur1 \<noteq> None \<and> \<not> failed then join_loop n c cur1 j1 else Inr (failed, j1)))"

definition Paraver_JoinFiles_Master :: "nat \<Rightarrow> comm_tables \<Rightarrow> prv_set \<Rightarrow> bool \<Rightarrow> fdz \<Rightarrow> (bool \<times> joiner) result" where
  "Paraver_JoinFiles_Master n c s micro out =
     rbind (next_rec \<lparr>j_set = s, j_out = out, TimeIn_MicroSecs = micro, num_incomplete_state = 0, num_unmatched_comm = 0,
         num_pending_comm = 0, current_count = 0\<rparr>) (\<lambda>(cur, j). join_loop n c cur j)"

end
