(* ===== verification/Prv_Join_Correct.thy ===== *)
theory Prv_Join_Correct
  imports Prv_Join File_Set_Correct "HOL-Library.Product_Lexorder"
begin

text \<open>
  The trace file is the print of the merged records: every record file is read completely, whatever the size of
  the blocks, the records of all files are taken in the order of time, and the text is a function of this
  sequence. A third interpretation of the locale of \<open>File_Merge\<close> is about the record files.
\<close>

section \<open>Reading blocks\<close>

definition item_ok :: "64 word \<Rightarrow> prv_item \<Rightarrow> bool" where
  "item_ok per_block f \<longleftrightarrow> (ucast per_block :: 32 word) \<noteq> 0 \<and> current_p f \<le> length (mapped f) \<and>
     remaining_records f * REC_SIZE \<le> length (unread f)"

definition item_left :: "prv_item \<Rightarrow> paraver_rec list" where
  "item_left f = drop (current_p f) (mapped f) @ split_records (remaining_records f) (unread f)"

definition rec_key :: "paraver_rec \<Rightarrow> 64 word \<times> int" where
  "rec_key r = (p_time r, - sint (p_type r))"

lemma split_records_length [simp]: "length (split_records n bs) = n"
  by (induction n arbitrary: bs) simp_all

lemma split_records_add: "split_records (m + n) bs = split_records m bs @ split_records n (drop (m * REC_SIZE) bs)"
  by (induction m arbitrary: bs) (simp_all add: add.commute)

lemma split_records_bytes: "split_records (length rs) (concat (map rec_bytes rs) @ bs) = rs"
  by (induction rs) simp_all

lemma reload_law:
  assumes "item_ok per_block f"
  shows "\<exists>f1. reload per_block f = Inr f1 \<and> item_ok per_block f1 \<and> item_left f1 = item_left f \<and>
    (current_p f1 = length (mapped f1) \<longrightarrow> item_left f1 = [])"
proof (cases "current_p f = length (mapped f) \<and> 0 < remaining_records f")
  case True
  let ?b = "unat (ucast per_block :: 32 word)"
  define k where "k = min ?b (remaining_records f)"
  have "?b \<noteq> 0" using assms by (simp add: item_ok_def unat_eq_zero)
  then have k: "0 < k" "k \<le> remaining_records f" using True by (simp_all add: k_def)
  have rem: "remaining_records f * REC_SIZE \<le> length (unread f)" using assms by (simp add: item_ok_def)
  with k(2) have len: "k * REC_SIZE \<le> length (unread f)" using mult_le_mono1 order_trans by blast
  let ?f = "\<lparr>unread = drop (k * REC_SIZE) (unread f), mapped = split_records k (unread f), current_p = 0,
    remaining_records = remaining_records f - k\<rparr>"
  have "reload per_block f = Inr ?f"
    using True len by (simp add: reload_def Read_PRV_LocalFile_def Let_def flip: k_def)
  moreover have "item_ok per_block ?f"
    using \<open>?b \<noteq> 0\<close> rem by (auto simp: item_ok_def diff_mult_distrib unat_eq_zero)
  moreover have "item_left ?f = item_left f"
    using True split_records_add [of k "remaining_records f - k" "unread f"] k(2) by (simp add: item_left_def)
  ultimately show ?thesis using k(1) by (intro exI [of _ ?f]) simp
next
  case False
  then show ?thesis using assms by (auto simp: reload_def item_left_def item_ok_def)
qed

lemma item_candidate:
  assumes "item_ok per_block f" and "current_p f = length (mapped f) \<longrightarrow> item_left f = []"
  shows "current_rec f = (case item_left f of [] \<Rightarrow> None | r # rs \<Rightarrow> Some r)"
    and "item_ok per_block (step_rec f)" and "item_left (step_rec f) = tl (item_left f)"
proof -
  have c: "current_p f < length (mapped f) \<longrightarrow> drop (current_p f) (mapped f) = mapped f ! current_p f # drop (Suc (current_p f)) (mapped f)"
    by (simp add: Cons_nth_drop_Suc)
  show "current_rec f = (case item_left f of [] \<Rightarrow> None | r # rs \<Rightarrow> Some r)"
    using assms c by (cases "current_p f < length (mapped f)") (auto simp: current_rec_def item_left_def item_ok_def)
  show "item_ok per_block (step_rec f)" using assms(1) by (simp add: item_ok_def step_rec_def)
  show "item_left (step_rec f) = tl (item_left f)"
    using assms c by (cases "current_p f < length (mapped f)") (auto simp: step_rec_def item_left_def item_ok_def)
qed

interpretation prv_file: merged_files "item_ok per_block" item_left rec_key "reload per_block" "\<lambda>f. f" current_rec step_rec
    less_urgent "\<lambda>r. True" for per_block
proof (unfold_locales, goal_cases)
  case (1 f)
  then obtain f1 where f1: "reload per_block f = Inr f1" "item_ok per_block f1" "item_left f1 = item_left f"
    "current_p f1 = length (mapped f1) \<longrightarrow> item_left f1 = []" using reload_law by blast
  then show ?case using item_candidate [OF f1(2,4)] by simp
next
  case (2 c d)
  then show ?case by (auto simp: less_urgent_def rec_key_def less_prod_def)
qed

section \<open>The sequence of records\<close>

text \<open>The records the set will return.\<close>

definition will_return :: "prv_set \<Rightarrow> paraver_rec list \<Rightarrow> bool" where
  "will_return s rs \<longleftrightarrow> (\<exists>n outs fs1. drain (merge_next (reload (records_per_block s)) (\<lambda>f. f) current_rec step_rec less_urgent) n
     (prv_files s) = Inr (outs, fs1) \<and> map snd outs = rs)"

lemma returns_Cons:
  assumes "will_return s (r # rs)"
  shows "\<exists>s1. GetNextParaver_Rec s = Inr (Some r, s1) \<and> will_return s1 rs"
proof -
  let ?call = "merge_next (reload (records_per_block s)) (\<lambda>f. f) current_rec step_rec less_urgent"
  obtain n i outs fs1 where d: "drain ?call n (prv_files s) = Inr ((i, r) # outs, fs1)" "map snd outs = rs"
    using assms by (auto simp: will_return_def)
  then obtain m fs2 where "?call (prv_files s) = Inr (Some (i, r), fs2)" "drain ?call m fs2 = Inr (outs, fs1)"
    by (cases n) (auto simp: rbind_Inr_iff rmap_Inr_iff split: option.splits)
  then show ?thesis using d(2)
    by (intro exI [of _ "s\<lparr>prv_files := fs2\<rparr>"]) (auto simp: GetNextParaver_Rec_def will_return_def)
qed

lemma returns_Nil:
  assumes "will_return s []"
  shows "\<exists>s1. GetNextParaver_Rec s = Inr (None, s1)"
proof -
  let ?call = "merge_next (reload (records_per_block s)) (\<lambda>f. f) current_rec step_rec less_urgent"
  obtain n fs1 where d: "drain ?call n (prv_files s) = Inr ([], fs1)" using assms by (auto simp: will_return_def)
  then obtain r fs2 where r: "?call (prv_files s) = Inr (r, fs2)"
    by (cases n) (auto simp: rbind_Inr_iff)
  then have "r = None" using d by (cases n; cases r) (auto simp: rmap_Inr_iff)
  then show ?thesis using r by (simp add: GetNextParaver_Rec_def)
qed

section \<open>The text of a sequence\<close>

text \<open>
  The specification. A line of events takes the events at the same moment as its first one, up to 1024 that are
  printed; \<open>k\<close> counts these.
\<close>

fun split_group :: "paraver_rec \<Rightarrow> nat \<Rightarrow> paraver_rec list \<Rightarrow> paraver_rec list \<times> paraver_rec list" where
  "split_group first k [] = ([], [])"
| "split_group first k (r # rs) =
     (if same_moment first r \<and> k < MAX_EVENT_COUNT_IN_MULTI_EVENT
      then (case split_group first (if hidden_event r then k else Suc k) rs of (g, rest) \<Rightarrow> (r # g, rest))
      else ([], r # rs))"

lemma split_group_append: "split_group first k rs = (g, rest) \<Longrightarrow> rs = g @ rest"
  by (induction first k rs arbitrary: g rule: split_group.induct) (auto split: if_splits prod.splits)

definition event_line :: "(paraver_rec \<Rightarrow> 64 word) \<Rightarrow> paraver_rec \<Rightarrow> paraver_rec list \<Rightarrow> string" where
  "event_line value_of first g =
     (let shown = filter (\<lambda>r. \<not> hidden_event r) g in
      if shown = [] then []
      else nprintf_paraver_event_head (ucast (p_cpu first)) (ucast (p_ptask first)) (ucast (p_task first)) (ucast (p_thread first))
          (p_time first) @ concat (map (\<lambda>r. nprintf_paraver_event_type_value (ucast (p_event r)) (value_of r)) shown) @ [CHR 0x0A])"

function trace_text :: "(paraver_rec \<Rightarrow> 64 word) \<Rightarrow> paraver_rec list \<Rightarrow> string" where
  "trace_text value_of [] = []"
| "trace_text value_of (r # rs) =
     (if p_type r = EVENT then
        (case split_group r (if hidden_event r then 0 else 1) rs of (g, rest) \<Rightarrow> event_line value_of r (r # g) @ trace_text value_of rest)
      else if p_type r = STATE then (if p_time r < p_end_time r then state_line r else []) @ trace_text value_of rs
      else if p_type r = COMMUNICATION then comm_line r @ trace_text value_of rs
      else trace_text value_of rs)"
  by pat_completeness auto
termination
  by (relation "measure (\<lambda>(v, rs). length rs)") (auto dest!: split_group_append [OF sym])

lemma event_line_length: "length (event_line value_of r g) \<le> 107 + 42 * length g"
proof -
  have "length (concat (map (\<lambda>x. nprintf_paraver_event_type_value (ucast (p_event x)) (value_of x)) xs)) \<le> 42 * length xs" for xs
    by (induction xs) (use line_lengths(3) in \<open>auto intro: add_mono\<close>)
  from this [of "filter (\<lambda>r. \<not> hidden_event r) g"]
  have "length (concat (map (\<lambda>x. nprintf_paraver_event_type_value (ucast (p_event x)) (value_of x))
      (filter (\<lambda>r. \<not> hidden_event r) g))) \<le> 42 * length g"
    using length_filter_le [of "\<lambda>r. \<not> hidden_event r" g] by linarith
  then show ?thesis using line_lengths(2) [of "ucast (p_cpu r)" "ucast (p_ptask r)" "ucast (p_task r)" "ucast (p_thread r)" "p_time r"]
    by (simp add: event_line_def Let_def)
qed

lemma trace_text_length: "length (trace_text value_of rs) \<le> 300 * length rs"
proof (induction value_of rs rule: trace_text.induct)
  case (2 value_of r rs)
  show ?case
  proof (cases "p_type r = EVENT")
    case True
    obtain g rest where g: "split_group r (if hidden_event r then 0 else 1) rs = (g, rest)" by fastforce
    then have "length (trace_text value_of rest) \<le> 300 * length rest" using 2(1) True by simp
    moreover have "rs = g @ rest" using split_group_append [OF g] .
    ultimately show ?thesis using True g event_line_length [of value_of r "r # g"] by simp
  next
    case False
    have "length (state_line r) \<le> 300" "length (comm_line r) \<le> 300"
      unfolding state_line_def comm_line_def by (rule line_lengths [THEN order_trans], simp)+
    moreover have "length (trace_text value_of rs) \<le> 300 * length rs" using 2(2-) False by blast
    ultimately show ?thesis using False by simp
  qed
qed simp

definition known_type :: "paraver_rec \<Rightarrow> bool" where
  "known_type r \<longleftrightarrow> p_type r \<in> {UNFINISHED_STATE, STATE, EVENT, UNMATCHED_COMMUNICATION, PENDING_COMMUNICATION, COMMUNICATION}"

definition how_many :: "32 word \<Rightarrow> paraver_rec list \<Rightarrow> nat" where
  "how_many ty rs = length (filter (\<lambda>r. p_type r = ty) rs)"


section \<open>Printing a sequence\<close>

definition wrote :: "string \<Rightarrow> joiner \<Rightarrow> joiner" where
  "wrote s j = j\<lparr>j_out := \<lparr>f_text = f_text (j_out j) @ s, f_room = f_room (j_out j) - length s\<rparr>\<rparr>"

lemma wrote_simps [simp]:
  "wrote s2 (wrote s1 j) = wrote (s1 @ s2) j" "j_set (wrote s j) = j_set j" "f_text (j_out (wrote s j)) = f_text (j_out j) @ s"
  "f_room (j_out (wrote s j)) = f_room (j_out j) - length s" "num_incomplete_state (wrote s j) = num_incomplete_state j"
  "num_unmatched_comm (wrote s j) = num_unmatched_comm j" "num_pending_comm (wrote s j) = num_pending_comm j" "wrote [] j = j"
  by (simp_all add: wrote_def)

lemma put_line_fits: "length s \<le> f_room (j_out j) \<Longrightarrow> put_line s j = (False, wrote s j)"
  by (simp add: put_line_def FDZ_WRITE_def wrote_def)

lemma write_pairs_fits:
  "length (concat (map (\<lambda>(ty, v). nprintf_paraver_event_type_value (ucast ty) v) ps)) \<le> f_room (j_out j) \<Longrightarrow>
   write_pairs ps j = wrote (concat (map (\<lambda>(ty, v). nprintf_paraver_event_type_value (ucast ty) v) ps)) j"
  by (induction ps arbitrary: j) (auto simp: put_line_fits)

lemma CHECK_TIME_US_simps [simp]:
  "j_set (CHECK_TIME_US t j) = j_set j" "j_out (CHECK_TIME_US t j) = j_out j"
  "num_incomplete_state (CHECK_TIME_US t j) = num_incomplete_state j"
  "num_unmatched_comm (CHECK_TIME_US t j) = num_unmatched_comm j" "num_pending_comm (CHECK_TIME_US t j) = num_pending_comm j"
  by (simp_all add: CHECK_TIME_US_def)

text \<open>The record at hand and the records behind it.\<close>

definition at_head :: "prv_set \<Rightarrow> paraver_rec option \<Rightarrow> paraver_rec list \<Rightarrow> bool" where
  "at_head s cur rs \<longleftrightarrow> (case rs of [] \<Rightarrow> cur = None | r # rest \<Rightarrow> cur = Some r \<and> will_return s rest)"

lemma next_rec_law:
  assumes "will_return (j_set j) rs"
  shows "\<exists>cur s. next_rec j = Inr (cur, j\<lparr>j_set := s\<rparr>) \<and> at_head s cur rs"
  using assms returns_Cons [of "j_set j"] returns_Nil [of "j_set j"]
  by (cases rs) (fastforce simp: next_rec_def at_head_def)+

lemma group_law:
  assumes "at_head (j_set j) cur rs" and "length rs < n" and "split_group first (length ps) rs = (g, rest)"
    and "\<forall>r \<in> set rs. p_type r = EVENT \<longrightarrow> event_value c r = Inr (value_of r)"
  shows "\<exists>cur1 s. group_loop n c first cur ps j =
      Inr (cur1, ps @ map (\<lambda>r. (p_event r, value_of r)) (filter (\<lambda>r. \<not> hidden_event r) g), j\<lparr>j_set := s\<rparr>) \<and> at_head s cur1 rest"
  using assms
proof (induction rs arbitrary: n cur ps j g)
  case Nil
  then obtain m where "n = Suc m" by (cases n) auto
  then show ?case using Nil by (auto simp: at_head_def intro: exI [of _ "j_set j"])
next
  case (Cons r rs)
  obtain m where n: "n = Suc m" "length rs < m" using Cons.prems(2) by (cases n) auto
  have cur: "cur = Some r" "will_return (j_set j) rs" using Cons.prems(1) by (auto simp: at_head_def)
  show ?case
  proof (cases "same_moment first r \<and> length ps < MAX_EVENT_COUNT_IN_MULTI_EVENT")
    case True
    let ?ps = "if hidden_event r then ps else ps @ [(p_event r, value_of r)]"
    obtain g1 where g: "split_group first (length ?ps) rs = (g1, rest)" "g = r # g1"
      using Cons.prems(3) True by (cases "hidden_event r") (auto split: prod.splits)
    have v: "event_value c r = Inr (value_of r)" using Cons.prems(4) True by (simp add: same_moment_def EVENT_def)
    obtain cur1 s where s: "next_rec j = Inr (cur1, j\<lparr>j_set := s\<rparr>)" "at_head s cur1 rs" using next_rec_law [OF cur(2)] by blast
    obtain cur2 s2 where "group_loop m c first cur1 ?ps (j\<lparr>j_set := s\<rparr>) =
        Inr (cur2, ?ps @ map (\<lambda>r. (p_event r, value_of r)) (filter (\<lambda>r. \<not> hidden_event r) g1), j\<lparr>j_set := s\<rparr>\<lparr>j_set := s2\<rparr>)"
      "at_head s2 cur2 rest"
      using Cons.IH [of "j\<lparr>j_set := s\<rparr>" cur1 m ?ps g1] s(2) n(2) g(1) Cons.prems(4) by auto
    then show ?thesis using n(1) cur(1) True v s(1) g(2) by auto
  next
    case False
    then show ?thesis using Cons.prems(1,3) n(1) cur(1) by (auto intro: exI [of _ "j_set j"])
  qed
qed


abbreviation text_of :: "joiner \<Rightarrow> string" where "text_of j \<equiv> f_text (j_out j)"
abbreviation room_of :: "joiner \<Rightarrow> nat" where "room_of j \<equiv> f_room (j_out j)"

text \<open>What handling one record, or one group of events, leaves.\<close>

definition handled :: "string \<Rightarrow> paraver_rec list \<Rightarrow> joiner \<Rightarrow> joiner \<Rightarrow> bool" where
  "handled s rs j j1 \<longleftrightarrow> text_of j1 = text_of j @ s \<and> room_of j1 = room_of j - length s \<and>
     num_incomplete_state j1 = num_incomplete_state j + how_many UNFINISHED_STATE rs \<and>
     num_unmatched_comm j1 = num_unmatched_comm j + how_many UNMATCHED_COMMUNICATION rs \<and>
     num_pending_comm j1 = num_pending_comm j + how_many PENDING_COMMUNICATION rs"

lemma handled_count [simp]: "handled s rs j (j1\<lparr>current_count := k\<rparr>) = handled s rs j j1"
  by (simp add: handled_def)

lemma handled_trans: "handled s1 rs1 j j1 \<Longrightarrow> handled s2 rs2 j1 j2 \<Longrightarrow> handled (s1 @ s2) (rs1 @ rs2) j j2"
  by (simp add: handled_def how_many_def)

lemma one_read_law:
  assumes "will_return (j_set j) rs"
  shows "\<exists>cur j1. one_read (False, j) = Inr (False, cur, j1) \<and> at_head (j_set j1) cur rs \<and> text_of j1 = text_of j \<and>
    room_of j1 = room_of j \<and> num_incomplete_state j1 = num_incomplete_state j \<and>
    num_unmatched_comm j1 = num_unmatched_comm j \<and> num_pending_comm j1 = num_pending_comm j"
  using next_rec_law [OF assms] by (auto simp: one_read_def)

lemma group_types:
  assumes "split_group first k rs = (g, rest)" and "r \<in> set g"
  shows "p_type r = EVENT"
  using assms
  by (induction first k rs arbitrary: g rule: split_group.induct) (auto simp: same_moment_def EVENT_def split: if_splits prod.splits)

lemma event_step:
  assumes "at_head (j_set j) (Some r) (r # rs)" and "p_type r = EVENT" and "length (r # rs) < n"
    and "split_group r (if hidden_event r then 0 else 1) rs = (g, rest)" and "length (event_line value_of r (r # g)) \<le> room_of j"
    and "\<forall>x \<in> set (r # rs). p_type x = EVENT \<longrightarrow> event_value c x = Inr (value_of x)"
  shows "\<exists>cur j1. join_step n c r j = Inr (False, cur, j1) \<and> at_head (j_set j1) cur rest \<and>
    handled (event_line value_of r (r # g)) (r # g) j j1"
proof -
  have g: "split_group r (length []) (r # rs) = (r # g, rest)"
    using assms(2,4) by (cases "hidden_event r") (simp_all add: same_moment_def EVENT_def)
  obtain cur s where s: "group_loop n c r (Some r) [] j =
      Inr (cur, [] @ map (\<lambda>r. (p_event r, value_of r)) (filter (\<lambda>r. \<not> hidden_event r) (r # g)), j\<lparr>j_set := s\<rparr>)" "at_head s cur rest"
    using group_law [OF assms(1,3) g assms(6)] by blast
  let ?ps = "map (\<lambda>r. (p_event r, value_of r)) (filter (\<lambda>r. \<not> hidden_event r) (r # g))"
  have none: "how_many ty (r # g) = 0" if "ty \<noteq> EVENT" for ty
    using group_types [OF assms(4)] assms(2) that by (auto simp: how_many_def filter_empty_conv)
  obtain j1 where j1: "paraver_multi_event (p_cpu r) (p_ptask r) (p_task r) (p_thread r) (p_time r) ?ps (j\<lparr>j_set := s\<rparr>) = (False, j1)"
    "j_set j1 = s" "handled (event_line value_of r (r # g)) (r # g) j j1"
  proof (cases "?ps = []")
    case True
    then have "event_line value_of r (r # g) = []" by (simp only: event_line_def Let_def map_is_Nil_conv if_True simp_thms)
    then show ?thesis using True that [of "j\<lparr>j_set := s\<rparr>"] none
      by (simp add: paraver_multi_event_def handled_def record_types)
  next
    case False
    let ?h = "nprintf_paraver_event_head (ucast (p_cpu r)) (ucast (p_ptask r)) (ucast (p_task r)) (ucast (p_thread r)) (p_time r)"
    let ?b = "concat (map (\<lambda>(ty, v). nprintf_paraver_event_type_value (ucast ty) v) ?ps)"
    have e: "event_line value_of r (r # g) = ?h @ ?b @ [CHR 0x0A]"
      using False by (simp only: event_line_def Let_def map_is_Nil_conv if_False simp_thms) (simp add: comp_def split_beta)
    let ?j = "CHECK_TIME_US (p_time r) (j\<lparr>j_set := s\<rparr>)"
    have "paraver_multi_event (p_cpu r) (p_ptask r) (p_task r) (p_thread r) (p_time r) ?ps (j\<lparr>j_set := s\<rparr>) =
        put_line [CHR 0x0A] (write_pairs ?ps (snd (put_line ?h ?j)))"
      using False by (simp only: paraver_multi_event_def Let_def if_False)
    also have "\<dots> = (False, wrote (?h @ ?b @ [CHR 0x0A]) ?j)"
      using assms(5) unfolding e by (simp add: put_line_fits write_pairs_fits del: filter.simps list.map)
    finally show ?thesis using that none by (simp add: handled_def e record_types del: filter.simps list.map)
  qed
  then show ?thesis using assms(2) s
    by (simp add: join_step_def paraver_build_multi_event_def record_types del: filter.simps list.map)
qed


lemma other_step:
  assumes "at_head (j_set j) (Some r) (r # rs)" and "known_type r" and "p_type r \<noteq> EVENT"
    and "p_type r = STATE \<and> s = (if p_time r < p_end_time r then state_line r else []) \<or>
      p_type r = COMMUNICATION \<and> s = comm_line r \<or> p_type r \<noteq> STATE \<and> p_type r \<noteq> COMMUNICATION \<and> s = []"
    and "length s \<le> room_of j"
  shows "\<exists>cur j1. join_step n c r j = Inr (False, cur, j1) \<and> at_head (j_set j1) cur rs \<and> handled s [r] j j1"
proof -
  have "\<exists>jx. join_step n c r j = one_read (False, jx) \<and> j_set jx = j_set j \<and> handled s [r] j jx"
    using assms(2-5)
    by (auto simp: known_type_def join_step_def record_types handled_def how_many_def paraver_state_def paraver_communication_def
        put_line_fits Let_def)
  then obtain jx where jx: "join_step n c r j = one_read (False, jx)" "j_set jx = j_set j" "handled s [r] j jx" by blast
  have "will_return (j_set jx) rs" using assms(1) jx(2) by (simp add: at_head_def)
  from one_read_law [OF this] show ?thesis using jx(1,3) by (fastforce simp: handled_def)
qed

lemma join_loop_law:
  assumes "at_head (j_set j) cur rs" and "rs \<noteq> []" and "Suc (length rs) < m" and "length (trace_text value_of rs) \<le> room_of j"
    and "\<forall>r \<in> set rs. known_type r" and "\<forall>r \<in> set rs. p_type r = EVENT \<longrightarrow> event_value c r = Inr (value_of r)"
  shows "\<exists>j1. join_loop m c cur j = Inr (False, j1) \<and> handled (trace_text value_of rs) rs j j1"
  using assms
proof (induction "length rs" arbitrary: rs m cur j rule: less_induct)
  case less
  obtain r rest where rs: "rs = r # rest" using less.prems(2) by (cases rs) auto
  obtain n where m: "m = Suc n" "length rs < n" using less.prems(3) by (cases m) auto
  have cur: "cur = Some r" using less.prems(1) rs by (simp add: at_head_def)
  obtain g rest1 s where step: "rs = g @ rest1" "g \<noteq> []" "trace_text value_of rs = s @ trace_text value_of rest1"
      "\<exists>cur j1. join_step n c r j = Inr (False, cur, j1) \<and> at_head (j_set j1) cur rest1 \<and> handled s g j j1"
  proof (cases "p_type r = EVENT")
    case True
    obtain g rest1 where g: "split_group r (if hidden_event r then 0 else 1) rest = (g, rest1)" by fastforce
    then have t: "trace_text value_of rs = event_line value_of r (r # g) @ trace_text value_of rest1" using True rs by simp
    show ?thesis
    proof (rule that [OF _ _ t])
      show "rs = (r # g) @ rest1" using split_group_append [OF g] rs by simp
      show "\<exists>cur j1. join_step n c r j = Inr (False, cur, j1) \<and> at_head (j_set j1) cur rest1 \<and>
          handled (event_line value_of r (r # g)) (r # g) j j1"
        by (rule event_step [OF _ True _ g]) (use less.prems m(2) t rs cur in auto)
    qed simp
  next
    case False
    let ?s = "if p_type r = STATE then if p_time r < p_end_time r then state_line r else []
      else if p_type r = COMMUNICATION then comm_line r else []"
    have t: "trace_text value_of rs = ?s @ trace_text value_of rest" using False rs by simp
    show ?thesis
    proof (rule that [OF _ _ t])
      show "rs = [r] @ rest" using rs by simp
      show "\<exists>cur j1. join_step n c r j = Inr (False, cur, j1) \<and> at_head (j_set j1) cur rest \<and> handled ?s [r] j j1"
        by (rule other_step) (use less.prems False t rs cur in \<open>auto simp: record_types\<close>)
    qed simp
  qed
  then obtain cur1 j1 where j1: "join_step n c r j = Inr (False, cur1, j1)" "at_head (j_set j1) cur1 rest1" "handled s g j j1"
    by blast
  show ?case
  proof (cases "rest1 = []")
    case True
    then show ?thesis using m(1) cur j1 step(1,3) by (simp add: at_head_def)
  next
    case False
    have "\<exists>j2. join_loop n c cur1 j1 = Inr (False, j2) \<and> handled (trace_text value_of rest1) rest1 j1 j2"
      by (rule less.hyps) (use less.prems False step(1-3) j1 m(2) in \<open>auto simp: handled_def neq_Nil_conv\<close>)
    then obtain j2 where "join_loop n c cur1 j1 = Inr (False, j2)" "handled (trace_text value_of rs) rs j j2"
      using handled_trans [OF j1(3)] step(1,3) by auto
    then show ?thesis using m(1) cur j1 False by (cases rest1) (auto simp: at_head_def)
  qed
qed


section \<open>The whole phase\<close>

text \<open>The records of a file as they are when the set of files has just been made.\<close>

lemma mapped_files:
  assumes "Map_Paraver_files (map (\<lambda>rs. concat (map rec_bytes rs)) rss) per_block = Inr (s, n_all)"
    and "(ucast (records_per_block s) :: 32 word) \<noteq> 0"
  shows "\<forall>f \<in> set (prv_files s). item_ok (records_per_block s) f" and "map item_left (prv_files s) = rss"
    and "n_all = length (concat rss)"
proof -
  have len: "length (concat (map rec_bytes rs)) = length rs * REC_SIZE" for rs
    by (induction rs) simp_all
  have div: "length rs * REC_SIZE div REC_SIZE = length rs" for rs :: "paraver_rec list" by (simp add: REC_SIZE_def)
  have s: "prv_files s = map (\<lambda>rs. \<lparr>unread = concat (map rec_bytes rs), mapped = [], current_p = 0, remaining_records = length rs\<rparr>) rss"
    "n_all = sum_list (map length rss)"
    using assms(1) by (auto simp: Map_Paraver_files_def len div comp_def split: if_splits)
  show "\<forall>f \<in> set (prv_files s). item_ok (records_per_block s) f" using assms(2) by (simp add: s item_ok_def len)
  show "map item_left (prv_files s) = rss"
    using split_records_bytes [of _ "[]"] by (simp add: s item_left_def comp_def map_idI)
  show "n_all = length (concat rss)" by (simp add: s length_concat)
qed

text \<open>
  C10. The trace file is the print of all records in the order of time. The record files, written one record
  after the other, are read in blocks of at least one record; then the joining phase succeeds when the output has
  room, and writes the lines of a sequence of records which has every record of every file once, keeps the order
  in each file, and is ordered by time (greater type first) when every file is; events at one moment share a
  line, at most 1024 of them. Unfinished states, unmatched and pending communications are not printed but counted.
\<close>

theorem join_writes_merged:
  assumes "Map_Paraver_files (map (\<lambda>rs. concat (map rec_bytes rs)) rss) per_block = Inr (s, n_all)"
    and "(ucast (records_per_block s) :: 32 word) \<noteq> 0" and "0 < n_all" and "Suc n_all < n"
    and "300 * n_all \<le> f_room out"
    and "\<forall>r \<in> set (concat rss). known_type r \<and> (p_type r = EVENT \<longrightarrow> event_value c r = Inr (value_of r))"
  shows "\<exists>outs. mset outs = mset (concat rss) \<and> (\<forall>rs \<in> set rss. subseq rs outs) \<and>
    ((\<forall>rs \<in> set rss. sorted (map rec_key rs)) \<longrightarrow> sorted (map rec_key outs)) \<and>
    (\<exists>j. Paraver_JoinFiles_Master n c s micro out = Inr (False, j) \<and> f_text (j_out j) = f_text out @ trace_text value_of outs \<and>
      num_incomplete_state j = how_many UNFINISHED_STATE outs \<and>
      num_unmatched_comm j = how_many UNMATCHED_COMMUNICATION outs \<and>
      num_pending_comm j = how_many PENDING_COMMUNICATION outs)"
proof -
  note files = mapped_files [OF assms(1,2)]
  have ne: "prv_files s \<noteq> []" using files(2,3) assms(3) by auto
  obtain os fs1 where os: "drain (merge_next (reload (records_per_block s)) (\<lambda>f. f) current_rec step_rec less_urgent)
      (Suc n_all) (prv_files s) = Inr (os, fs1)" "merged rec_key rss os"
    using prv_file.drain_law [OF files(1) ne, of "Suc n_all"] files(2,3) by auto
  let ?outs = "map snd os"
  have m: "mset ?outs = mset (concat rss)" using merged_elements [OF os(2)] .
  then have st: "set ?outs = set (concat rss)" and len: "length ?outs = n_all"
    using files(3) mset_eq_setD mset_eq_length by blast+
  have sub: "\<forall>rs \<in> set rss. subseq rs ?outs" using merged_subseq [OF os(2)] by blast
  have sorted: "sorted (map rec_key ?outs)" if "\<forall>rs \<in> set rss. sorted (map rec_key rs)"
    using merged_sorted [OF os(2) that] by (simp add: comp_def case_prod_unfold)
  have "\<exists>j. Paraver_JoinFiles_Master n c s micro out = Inr (False, j) \<and> f_text (j_out j) = f_text out @ trace_text value_of ?outs \<and>
        num_incomplete_state j = how_many UNFINISHED_STATE ?outs \<and>
        num_unmatched_comm j = how_many UNMATCHED_COMMUNICATION ?outs \<and>
        num_pending_comm j = how_many PENDING_COMMUNICATION ?outs"
  proof -
    let ?j = "\<lparr>j_set = s, j_out = out, TimeIn_MicroSecs = micro, num_incomplete_state = 0, num_unmatched_comm = 0,
         num_pending_comm = 0, current_count = 0\<rparr>"
    have "will_return s ?outs" unfolding will_return_def using os(1) by blast
    then have "will_return (j_set ?j) ?outs" by simp
    then obtain cur s1 where h: "next_rec ?j = Inr (cur, ?j\<lparr>j_set := s1\<rparr>)" "at_head s1 cur ?outs"
      using next_rec_law by blast
    have "\<exists>j1. join_loop n c cur (?j\<lparr>j_set := s1\<rparr>) = Inr (False, j1) \<and>
        handled (trace_text value_of ?outs) ?outs (?j\<lparr>j_set := s1\<rparr>) j1"
    proof (rule join_loop_law)
      show "?outs \<noteq> []" using len assms(3) by auto
      show "length (trace_text value_of ?outs) \<le> room_of (?j\<lparr>j_set := s1\<rparr>)"
        using trace_text_length [of value_of ?outs] len assms(5) by simp
      show "\<forall>r \<in> set ?outs. known_type r" "\<forall>r \<in> set ?outs. p_type r = EVENT \<longrightarrow> event_value c r = Inr (value_of r)"
        unfolding st using assms(6) by blast+
    qed (use h len assms(4) in simp_all)
    then show ?thesis using h(1) by (auto simp: Paraver_JoinFiles_Master_def handled_def)
  qed
  with m sub sorted show ?thesis by blast
qed

text \<open>Two record files, read in blocks of one record: a state and two events of the first, an event and an unfinished state.\<close>

definition ex_rec :: "32 word \<Rightarrow> 32 word \<Rightarrow> 64 word \<Rightarrow> 64 word \<Rightarrow> 32 word \<Rightarrow> 64 word \<Rightarrow> paraver_rec" where
  "ex_rec ty task t1 t2 ev v = \<lparr>p_receive_log = 0, p_receive_phy = 0, p_value = v, p_time = t1, p_end_time = t2, p_type = ty,
     p_event = ev, p_cpu = 1, p_ptask = 1, p_task = task, p_thread = 1, p_cpu_r = 0, p_ptask_r = 0, p_task_r = 0, p_thread_r = 0\<rparr>"

definition ex_recs :: "paraver_rec list list" where
  "ex_recs = [[ex_rec STATE 1 0 10 0 1, ex_rec EVENT 1 10 0 7 1, ex_rec EVENT 1 10 0 8 2],
     [ex_rec EVENT 2 5 0 7 1, ex_rec UNFINISHED_STATE 2 6 0 0 1]]"

definition ex_tables :: comm_tables where
  "ex_tables = \<lparr>comunicadors = [], alies_comunicadors = [], InterComm_global = [], Intercomm_ptask_task = [],
     num_comunicadors = 1, comm_actual = 0\<rparr>"

theorem join_writes_merged_witness:
  "\<exists>s outs j. Map_Paraver_files (map (\<lambda>rs. concat (map rec_bytes rs)) ex_recs) 2 = Inr (s, 5) \<and>
    Paraver_JoinFiles_Master 7 ex_tables s True \<lparr>f_text = ''#'', f_room = 1500\<rparr> = Inr (False, j) \<and>
    sorted (map rec_key outs) \<and> length outs = 5 \<and> f_text (j_out j) = ''#'' @ trace_text p_value outs \<and>
    num_incomplete_state j = how_many UNFINISHED_STATE outs"
proof -
  have len: "length (concat (map rec_bytes rs)) div REC_SIZE = length rs" for rs
    by (induction rs) (simp_all add: REC_SIZE_def)
  then have "sum_list (map (\<lambda>bs. length bs div REC_SIZE) (map (\<lambda>rs. concat (map rec_bytes rs)) ex_recs)) = sum_list (map length ex_recs)"
    by (simp add: comp_def)
  also have "\<dots> = 5" by (simp add: ex_recs_def)
  finally obtain s where s: "Map_Paraver_files (map (\<lambda>rs. concat (map rec_bytes rs)) ex_recs) 2 = Inr (s, 5)"
    "records_per_block s = 1"
    by (simp add: Map_Paraver_files_def ex_recs_def)
  have r: "(ucast (records_per_block s) :: 32 word) \<noteq> 0" using s(2) by simp
  have k: "\<forall>r \<in> set (concat ex_recs). known_type r \<and> (p_type r = EVENT \<longrightarrow> event_value ex_tables r = Inr (p_value r))"
    by (simp add: ex_recs_def ex_rec_def known_type_def record_types event_value_def)
  obtain outs j where o1: "mset outs = mset (concat ex_recs)"
    "(\<forall>rs \<in> set ex_recs. sorted (map rec_key rs)) \<longrightarrow> sorted (map rec_key outs)"
    "Paraver_JoinFiles_Master 7 ex_tables s True \<lparr>f_text = ''#'', f_room = 1500\<rparr> = Inr (False, j)"
    "f_text (j_out j) = ''#'' @ trace_text p_value outs" "num_incomplete_state j = how_many UNFINISHED_STATE outs"
    using join_writes_merged [OF s(1) r _ _ _ k, of 7 "\<lparr>f_text = ''#'', f_room = 1500\<rparr>" True] by auto
  moreover have "\<forall>rs \<in> set ex_recs. sorted (map rec_key rs)"
    by (simp add: ex_recs_def ex_rec_def rec_key_def record_types less_eq_prod_def)
  moreover have "length outs = 5" using arg_cong [OF o1(1), of size] by (simp add: ex_recs_def)
  ultimately show ?thesis using s(1) by blast
qed

end
