(* ===== verification/Thread_File.thy ===== *)
theory Thread_File
  imports Prv_Timeline
begin

text \<open>
  What the file of a thread looks like while events are translated, whatever they are: one record type per
  line, at most one unfinished state, and the finished ones a chain of intervals. Unlike in \<open>Prv_Timeline\<close> the
  room on the disk is not known beforehand; the lemmas say what holds when an operation has returned.
\<close>

section \<open>Chains of states\<close>

text \<open>The states shown: the processor, the state and the time since when.\<close>

type_synonym mark = "32 word \<times> state_id \<times> 64 word"

fun closed :: "thread_run \<Rightarrow> mark list \<Rightarrow> paraver_rec list" where
  "closed R ((cpu, st, t0) # (cpu1, st1, t1) # ms) = interval R cpu st t0 t1 @ closed R ((cpu1, st1, t1) # ms)"
| "closed R ms = []"

text \<open>Every state lasts until the next one, the last one until \<open>fin\<close>.\<close>

definition spans :: "thread_run \<Rightarrow> 64 word \<Rightarrow> mark list \<Rightarrow> paraver_rec list" where
  "spans R fin ms = closed R (ms @ [(0, 0, fin)])"

lemma closed_snoc: "closed R (ms @ [(cpu, st, t0)] @ [m]) = closed R (ms @ [(cpu, st, t0)]) @ interval R cpu st t0 (snd (snd m))"
proof (induction ms)
  case Nil
  then show ?case by (cases m) simp
next
  case (Cons x ms)
  then show ?case by (cases x; cases ms) (simp_all, (cases "hd ms", simp)+)
qed

lemma spans_snoc: "spans R fin (ms @ [(cpu, st, t0)]) = spans R t0 ms @ interval R cpu st t0 fin"
proof -
  have "closed R (ms @ [(cpu, st, t0)]) = closed R (ms @ [(0, 0, t0)])"
  proof (induction ms)
    case (Cons x ms)
    then show ?case by (cases x; cases ms) (simp_all, (cases "hd ms", simp)+)
  qed simp
  then show ?thesis by (simp add: spans_def closed_snoc [simplified])
qed

lemma spans_Nil [simp]: "spans R fin [] = []"
  by (simp add: spans_def)

abbreviation states_of :: "paraver_rec list \<Rightarrow> paraver_rec list" where
  "states_of rs \<equiv> filter (\<lambda>r. p_type r = STATE) rs"

definition finished_types :: "32 word set" where
  "finished_types = {STATE, EVENT, UNMATCHED_COMMUNICATION, COMMUNICATION}"

definition finished :: "paraver_rec list \<Rightarrow> bool" where
  "finished rs \<longleftrightarrow> (\<forall>r \<in> set rs. p_type r \<in> finished_types)"

lemma finished_simps [simp]:
  "finished []" "finished (r # rs) \<longleftrightarrow> p_type r \<in> finished_types \<and> finished rs"
  "finished (rs @ rs1) \<longleftrightarrow> finished rs \<and> finished rs1"
  by (auto simp: finished_def)

lemma finished_type_simps [simp]:
  "STATE \<in> finished_types" "EVENT \<in> finished_types" "UNMATCHED_COMMUNICATION \<in> finished_types"
  "COMMUNICATION \<in> finished_types" "UNFINISHED_STATE \<notin> finished_types"
  by (simp_all add: finished_types_def record_types)

lemma record_types_differ [simp]:
  "UNFINISHED_STATE \<noteq> STATE" "EVENT \<noteq> STATE" "UNMATCHED_COMMUNICATION \<noteq> STATE" "COMMUNICATION \<noteq> STATE"
  "STATE \<noteq> UNMATCHED_COMMUNICATION" "UNFINISHED_STATE \<noteq> UNMATCHED_COMMUNICATION"
  by (simp_all add: record_types)

text \<open>What was reserved for a communication is still there.\<close>

definition kept :: "paraver_rec list \<Rightarrow> paraver_rec list \<Rightarrow> bool" where
  "kept rs rs1 \<longleftrightarrow> length rs \<le> length rs1 \<and>
     (\<forall>i < length rs. p_type (rs ! i) = UNMATCHED_COMMUNICATION \<longrightarrow> p_type (rs1 ! i) = UNMATCHED_COMMUNICATION)"

lemma kept_refl [simp]: "kept rs rs"
  and kept_trans: "kept rs rs1 \<Longrightarrow> kept rs1 rs2 \<Longrightarrow> kept rs rs2"
  and kept_append [simp]: "kept rs (rs @ rs1)"
  and kept_slot: "p_type x \<noteq> UNMATCHED_COMMUNICATION \<Longrightarrow> kept (pre @ x # post) (pre @ y # post)"
  by (auto simp: kept_def nth_append nth_Cons split: nat.splits)

lemma filter_update: "\<not> P (xs ! i) \<Longrightarrow> \<not> P y \<Longrightarrow> filter P (xs[i := y]) = filter P xs"
proof (induction xs arbitrary: i)
  case (Cons x xs)
  then show ?case by (cases i) auto
qed simp

section \<open>The file of a thread\<close>

definition record_file :: "wfb \<Rightarrow> paraver_rec list \<Rightarrow> bool" where
  "record_file w rs \<longleftrightarrow> holds_recs w rs \<and> on_disk w"

lemma record_back:
  assumes "record_file (t_wfb t) rs" and "trace_paraver_record r t = Inr t1"
  obtains w where "t1 = t\<lparr>t_wfb := w\<rparr>" "record_file w (rs @ [r])"
  using assms write_back [of "t_wfb t" "map rec_bytes rs" "rec_bytes r"]
  by (auto simp: trace_paraver_record_def record_file_def holds_recs_def rmap_Inr_iff)

lemma recordAt_back:
  assumes "record_file (t_wfb t) rs" and "i < length rs" and "trace_paraver_recordAt r (int (i * REC_SIZE)) t = Inr t1"
  obtains w where "t1 = t\<lparr>t_wfb := w\<rparr>" "record_file w (rs[i := r])"
  using assms writeAt_back [of "t_wfb t" "map rec_bytes rs" "rec_bytes r" i]
  by (auto simp: trace_paraver_recordAt_def record_file_def holds_recs_def rmap_Inr_iff map_update)

text \<open>A record that the fields of a state can be written into.\<close>

definition state_base :: "thread_run \<Rightarrow> paraver_rec \<Rightarrow> bool" where
  "state_base R r \<longleftrightarrow> (\<forall>cpu st now. r\<lparr>p_type := STATE, p_cpu := cpu, p_ptask := id_ptask R, p_task := id_task R,
     p_thread := id_vthread R, p_time := now, p_value := ucast st\<rparr> = state_record R cpu st now (p_end_time r))"

lemma state_base_simps [simp]: "state_base R (state_record R cpu st t0 e)" "state_base R (unset_state R)"
  by (simp_all add: state_base_def state_record_def)

text \<open>Between two states all are finished; otherwise the last one has its slot, unless it is idle.\<close>

definition steady :: "thread_run \<Rightarrow> paraver_rec list \<Rightarrow> thread_t \<Rightarrow> bool" where
  "steady R rs t \<longleftrightarrow> record_file (t_wfb t) rs \<and> stack_ok (t_states t) \<and> virtual_thread t = id_vthread R \<and>
     state_base R (incomplete_state_record t)"

definition shut :: "thread_run \<Rightarrow> 64 word \<Rightarrow> mark list \<Rightarrow> paraver_rec list \<Rightarrow> thread_t \<Rightarrow> bool" where
  "shut R now ms rs t \<longleftrightarrow> steady R rs t \<and> finished rs \<and> states_of rs = spans R now ms"

definition states_change :: "thread_run \<Rightarrow> mark list \<Rightarrow> bool" where
  "states_change R ms \<longleftrightarrow> (joint R \<longrightarrow> distinct_adj (map (\<lambda>(cpu, st, t0). st) ms))"

definition slot_ok :: "thread_run \<Rightarrow> mark list \<Rightarrow> state_id \<Rightarrow> 64 word \<Rightarrow> int \<Rightarrow> paraver_rec list \<Rightarrow> bool" where
  "slot_ok R ms0 st t0 off rs \<longleftrightarrow>
     (if st = STATE_IDLE then finished rs \<and> states_of rs = spans R t0 ms0
      else \<exists>pre x post. rs = pre @ x # post \<and> off = int (length pre * REC_SIZE) \<and> p_type x = UNFINISHED_STATE \<and>
        finished (pre @ post) \<and> states_of pre = spans R t0 ms0 \<and> states_of post = [])"

lemma slot_okI:
  assumes "st \<noteq> STATE_IDLE" and "rs = pre @ x # post" and "off = int (length pre * REC_SIZE)" and "p_type x = UNFINISHED_STATE"
    and "finished pre" and "finished post" and "states_of pre = spans R t0 ms0" and "states_of post = []"
  shows "slot_ok R ms0 st t0 off rs"
  unfolding slot_ok_def using assms by (simp only: if_False finished_simps) blast

lemma slot_okE:
  assumes "slot_ok R ms0 st t0 off rs" and "st \<noteq> STATE_IDLE"
  obtains pre x post where "rs = pre @ x # post" "off = int (length pre * REC_SIZE)" "p_type x = UNFINISHED_STATE"
    "finished pre" "finished post" "states_of pre = spans R t0 ms0" "states_of post = []"
  using assms unfolding slot_ok_def by (simp only: if_False finished_simps) blast

definition running :: "thread_run \<Rightarrow> mark list \<Rightarrow> paraver_rec list \<Rightarrow> thread_t \<Rightarrow> bool" where
  "running R ms rs t \<longleftrightarrow> steady R rs t \<and> states_change R ms \<and> incomplete_state_offset t \<noteq> -1 \<and>
     (\<exists>ms0 cpu st t0 e. ms = ms0 @ [(cpu, st, t0)] \<and> incomplete_state_record t = state_record R cpu st t0 e \<and>
       slot_ok R ms0 st t0 (incomplete_state_offset t) rs)"

lemma running_file: "running R ms rs t \<Longrightarrow> record_file (t_wfb t) rs"
  by (simp add: running_def steady_def)

lemma running_cong:
  assumes "running R ms rs t" and "record_file (t_wfb t1) rs1" and "stack_ok (t_states t1)"
    and "virtual_thread t1 = virtual_thread t" and "incomplete_state_record t1 = incomplete_state_record t"
    and "incomplete_state_offset t1 = incomplete_state_offset t"
    and "\<And>ms0 st t0 off. slot_ok R ms0 st t0 off rs \<Longrightarrow> slot_ok R ms0 st t0 off rs1"
  shows "running R ms rs1 t1"
  using assms unfolding running_def steady_def by metis

lemma slot_ok_append:
  assumes "slot_ok R ms0 st t0 off rs" and "p_type r \<in> finished_types" and "p_type r \<noteq> STATE"
  shows "slot_ok R ms0 st t0 off (rs @ [r])"
proof (cases "st = STATE_IDLE")
  case False
  obtain pre x post where *: "rs = pre @ x # post" "off = int (length pre * REC_SIZE)" "p_type x = UNFINISHED_STATE"
    "finished pre" "finished post" "states_of pre = spans R t0 ms0" "states_of post = []"
    by (rule slot_okE [OF assms(1) False])
  then have "rs @ [r] = pre @ x # (post @ [r])" "finished (post @ [r])" "states_of (post @ [r]) = []"
    using assms(2,3) *(1,5,7) by simp_all
  from slot_okI [OF False this(1) *(2,3,4) this(2) *(6) this(3)] show ?thesis .
qed (use assms in \<open>simp add: slot_ok_def\<close>)

lemma slot_ok_fill:
  assumes "slot_ok R ms0 st t0 off rs" and "i < length rs" and "p_type (rs ! i) = UNMATCHED_COMMUNICATION"
    and "p_type r \<in> finished_types" and "p_type r \<noteq> STATE"
  shows "slot_ok R ms0 st t0 off (rs[i := r])"
proof -
  have fin: "finished (xs[j := r])" if "finished xs" for xs j
    using that assms(4) set_update_subset_insert [of xs j r] by (auto simp: finished_def)
  have st: "states_of (xs[j := r]) = states_of xs" if "j < length xs" "xs ! j = rs ! i" for xs j
    using that assms(3,5) by (intro filter_update) auto
  show ?thesis
  proof (cases "st = STATE_IDLE")
    case True
    then show ?thesis using assms(1) fin [of rs i] st [of i rs] assms(2) by (simp add: slot_ok_def)
  next
    case False
    obtain pre x post where *: "rs = pre @ x # post" "off = int (length pre * REC_SIZE)" "p_type x = UNFINISHED_STATE"
      "finished pre" "finished post" "states_of pre = spans R t0 ms0" "states_of post = []"
      by (rule slot_okE [OF assms(1) False])
    have "i \<noteq> length pre" using *(1,3) assms(3) by (auto simp: record_types)
    then consider "i < length pre" | j where "i = length pre + Suc j"
      by (metis less_imp_Suc_add linorder_neqE_nat add_Suc_right)
    then show ?thesis
    proof cases
      case 1
      then have "rs[i := r] = pre[i := r] @ x # post" "rs ! i = pre ! i" using *(1) by (simp_all add: list_update_append nth_append)
      with 1 * fin [of pre i] st [of i pre] show ?thesis by (intro slot_okI [OF False, of _ "pre[i := r]" x post]) auto
    next
      case (2 j)
      then have "rs[i := r] = pre @ x # post[j := r]" "rs ! i = post ! j" "j < length post"
        using *(1) assms(2) by (simp_all add: list_update_append nth_append)
      with * fin [of post j] st [of j post] show ?thesis by (intro slot_okI [OF False, of _ pre x "post[j := r]"]) auto
    qed
  qed
qed

lemma running_states: "running R ms rs t \<Longrightarrow> stack_ok s \<Longrightarrow> running R ms rs (t\<lparr>t_states := s\<rparr>)"
  using running_cong [of R ms rs t "t\<lparr>t_states := s\<rparr>" rs] running_file [of R ms rs t] by simp

lemma running_put:
  assumes t: "running R ms rs t" and r: "trace_paraver_record r t = Inr t1"
    and ty: "p_type r \<in> finished_types" "p_type r \<noteq> STATE"
  shows "running R ms (rs @ [r]) t1"
proof -
  obtain w where "t1 = t\<lparr>t_wfb := w\<rparr>" "record_file w (rs @ [r])" by (rule record_back [OF running_file [OF t] r])
  then show ?thesis using t ty slot_ok_append by (intro running_cong [OF t]) (auto simp: running_def steady_def)
qed

lemma running_fill:
  assumes t: "running R ms rs t" and i: "i < length rs" "p_type (rs ! i) = UNMATCHED_COMMUNICATION"
    and r: "trace_paraver_recordAt r (int (i * REC_SIZE)) t = Inr t1" and ty: "p_type r \<in> finished_types" "p_type r \<noteq> STATE"
  shows "running R ms (rs[i := r]) t1"
proof -
  obtain w where "t1 = t\<lparr>t_wfb := w\<rparr>" "record_file w (rs[i := r])"
    by (rule recordAt_back [OF running_file [OF t] i(1) r])
  then show ?thesis using t ty i slot_ok_fill by (intro running_cong [OF t]) (auto simp: running_def steady_def)
qed

text \<open>Closing a state, and opening the next one.\<close>

lemma complete_back:
  assumes t: "running R (ms @ [(cpu, st, t0)]) rs t" and res: "complete_state (joint R) lst cur now t = Inr (Some t1)"
  shows "\<exists>rs1. shut R now (ms @ [(cpu, st, t0)]) rs1 t1 \<and> kept rs rs1 \<and> t_states t1 = t_states t \<and>
    incomplete_state_offset t1 \<noteq> -1 \<and> \<not> (joint R \<and> \<not> lst \<and> cur = st)"
proof -
  obtain e where rec: "incomplete_state_record t = state_record R cpu st t0 e" and off: "incomplete_state_offset t \<noteq> -1"
    and slot: "slot_ok R ms st t0 (incomplete_state_offset t) rs" and st: "steady R rs t"
    using t by (auto simp: running_def)
  have go: "\<not> (joint R \<and> \<not> lst \<and> cur = st)" using res off by (auto simp: complete_state_def rec)
  show ?thesis
  proof (cases "st = STATE_IDLE")
    case True
    then have "t1 = t" using res off go by (auto simp: complete_state_def rec split: if_splits)
    moreover have "shut R now (ms @ [(cpu, st, t0)]) rs t"
      using True slot st by (simp add: shut_def slot_ok_def spans_snoc interval_def)
    ultimately show ?thesis using off go by auto
  next
    case False
    obtain pre x post where *: "rs = pre @ x # post" "incomplete_state_offset t = int (length pre * REC_SIZE)"
      "p_type x = UNFINISHED_STATE" "finished pre" "finished post" "states_of pre = spans R t0 ms" "states_of post = []"
      by (rule slot_okE [OF slot False])
    let ?r = "state_record R cpu st t0 now"
    let ?t = "t\<lparr>incomplete_state_record := ?r\<rparr>"
    have "(incomplete_state_record t)\<lparr>p_end_time := now\<rparr> = ?r" by (simp add: rec state_record_def)
    then have "trace_paraver_recordAt ?r (int (length pre * REC_SIZE)) ?t = Inr t1"
      using res off go False unfolding complete_state_def Let_def
      by (auto simp: rec *(2) rmap_Inr_iff split: if_splits)
    moreover have "record_file (t_wfb ?t) rs" "length pre < length rs" using running_file [OF t] *(1) by simp_all
    ultimately obtain w where w: "t1 = ?t\<lparr>t_wfb := w\<rparr>" "record_file w (rs[length pre := ?r])"
      by (metis recordAt_back)
    let ?rs = "pre @ ?r # post"
    have "p_type ?r = STATE" by (simp add: state_record_def)
    then have "shut R now (ms @ [(cpu, st, t0)]) ?rs t1"
      using w * st False by (simp add: shut_def steady_def spans_snoc interval_def)
    moreover have "kept rs ?rs" unfolding *(1) using *(3) by (intro kept_slot) (simp add: record_types)
    ultimately show ?thesis using w(1) off go by (intro exI [of _ ?rs]) simp
  qed
qed

lemma start_back:
  assumes t: "shut R now ms rs t" and ch: "states_change R (ms @ [(cpu, cur, now)])"
    and cur: "cur \<noteq> STATE_IDLE \<or> incomplete_state_offset t \<noteq> -1"
    and res: "start_state (unset R) cpu (id_ptask R) (id_task R) th now cur t = Inr t1"
  shows "\<exists>rs1. running R (ms @ [(cpu, cur, now)]) rs1 t1 \<and> kept rs rs1"
proof -
  let ?rec = "state_record R cpu cur now (p_end_time (incomplete_state_record t))"
  have st: "steady R rs t" "finished rs" "states_of rs = spans R now ms" using t by (simp_all add: shut_def)
  then have rec: "(incomplete_state_record t)\<lparr>p_type := STATE, p_cpu := cpu, p_ptask := id_ptask R, p_task := id_task R,
      p_thread := virtual_thread t, p_time := now, p_value := ucast cur\<rparr> = ?rec"
    by (simp add: steady_def state_base_def)
  show ?thesis
  proof (cases "cur = STATE_IDLE")
    case True
    then have "t1 = t\<lparr>incomplete_state_record := ?rec\<rparr>" using res unfolding start_state_def rec Let_def by simp
    then have "running R (ms @ [(cpu, cur, now)]) rs t1"
      using True ch cur st by (auto simp: running_def steady_def slot_ok_def)
    then show ?thesis by auto
  next
    case False
    let ?t = "t\<lparr>incomplete_state_record := ?rec, incomplete_state_offset := int (WriteFileBuffer_getPosition (t_wfb t))\<rparr>"
    let ?x = "(unset R)\<lparr>p_type := UNFINISHED_STATE, p_ptask := id_ptask R, p_task := id_task R, p_thread := th, p_time := now\<rparr>"
    have rf: "record_file (t_wfb t) rs" using st(1) by (simp add: steady_def)
    then have pos: "WriteFileBuffer_getPosition (t_wfb t) = length rs * REC_SIZE" by (simp add: record_file_def prv.next_at)
    have "trace_paraver_record ?x ?t = Inr t1" using res False unfolding start_state_def Let_def rec by simp
    moreover have "record_file (t_wfb ?t) rs" using rf by simp
    ultimately obtain w where w: "t1 = ?t\<lparr>t_wfb := w\<rparr>" "record_file w (rs @ [?x])" by (metis record_back)
    have "slot_ok R ms cur now (int (length rs * REC_SIZE)) (rs @ [?x])"
      using st(2,3) by (intro slot_okI [OF False, of _ rs ?x "[]"]) simp_all
    then have "running R (ms @ [(cpu, cur, now)]) (rs @ [?x]) t1"
      using w st(1) ch slot_position [of rs] unfolding running_def steady_def by (auto simp: pos simp del: of_nat_mult)
    then show ?thesis by auto
  qed
qed

section \<open>What the handlers do to a thread\<close>

text \<open>A step of a thread adds records, and states, and leaves alone what is reserved.\<close>

definition goes_on :: "thread_run \<Rightarrow> mark list \<Rightarrow> paraver_rec list \<Rightarrow> thread_t \<Rightarrow> bool" where
  "goes_on R ms rs t1 \<longleftrightarrow> (\<exists>ms1 rs1. running R ms1 rs1 t1 \<and> hd ms1 = hd ms \<and> kept rs rs1)"

definition advances :: "thread_run \<Rightarrow> thread_t \<Rightarrow> thread_t \<Rightarrow> bool" where
  "advances R t t1 \<longleftrightarrow> (\<forall>ms rs. running R ms rs t \<longrightarrow> goes_on R ms rs t1)"

lemma goes_onI: "running R ms1 rs1 t1 \<Longrightarrow> hd ms1 = hd ms \<Longrightarrow> kept rs rs1 \<Longrightarrow> goes_on R ms rs t1"
  unfolding goes_on_def by blast

lemma goes_on_same: "running R ms rs t1 \<Longrightarrow> goes_on R ms rs t1"
  using kept_refl by (blast intro: goes_onI)

lemma advancesI: "(\<And>ms rs. running R ms rs t \<Longrightarrow> goes_on R ms rs t1) \<Longrightarrow> advances R t t1"
  by (simp add: advances_def)

lemma advances_refl [simp]: "advances R t t"
  by (simp add: advances_def goes_on_same)

lemma advances_same:
  assumes "record_file (t_wfb t1) = record_file (t_wfb t)" and "stack_ok (t_states t) \<Longrightarrow> stack_ok (t_states t1)"
    and "virtual_thread t1 = virtual_thread t" and "incomplete_state_record t1 = incomplete_state_record t"
    and "incomplete_state_offset t1 = incomplete_state_offset t"
  shows "advances R t t1"
proof (rule advancesI)
  fix ms rs assume t: "running R ms rs t"
  have "running R ms rs t1" using running_file [OF t] t assms by (intro running_cong [OF t]) (simp_all add: running_def steady_def)
  then show "goes_on R ms rs t1" by (rule goes_on_same)
qed

lemma switch_advances: "switch_thread st cond t = Inr t1 \<Longrightarrow> advances R t t1"
proof (rule advancesI)
  fix ms rs assume t: "running R ms rs t" and "switch_thread st cond t = Inr t1"
  then obtain s where "t1 = t\<lparr>t_states := s\<rparr>" "stack_ok s"
    using switch_law [of t st cond] by (auto simp: running_def steady_def)
  then show "goes_on R ms rs t1" using running_states [OF t] by (auto intro: goes_on_same)
qed

lemma mode_advances: "Initialize_Trace_Mode_States h mode (t_states t) = Inr s \<Longrightarrow> advances R t (t\<lparr>t_states := s\<rparr>)"
proof (rule advancesI)
  fix ms rs assume t: "running R ms rs t" and s: "Initialize_Trace_Mode_States h mode (t_states t) = Inr s"
  then have "stack_ok (t_states t)" by (simp add: running_def steady_def)
  from stack_law [OF this, of "Wipe mode" _ _ mode "R\<lparr>id_thread := h\<rparr>"] s have "stack_ok s"
    by (auto dest: arg_cong [where f = t_states])
  then show "goes_on R ms rs (t\<lparr>t_states := s\<rparr>)" using running_states [OF t] by (auto intro: goes_on_same)
qed

lemma push_advances: "Push_State st (t_states t) = Inr (x, s) \<Longrightarrow> advances R t (t\<lparr>t_states := s\<rparr>)"
  and pop_advances: "Pop_State st (t_states t) = Inr (x, s) \<Longrightarrow> advances R t (t\<lparr>t_states := s\<rparr>)"
  using switch_advances [of st True t "t\<lparr>t_states := s\<rparr>" R] switch_advances [of st False t "t\<lparr>t_states := s\<rparr>" R]
  by (simp_all add: switch_thread_def Switch_State_def)

lemma show_advances:
  assumes "trace_paraver_state (joint R) False (unset R) cpu (id_ptask R) (id_task R) th now t = Inr t1"
  shows "advances R t t1"
proof (rule advancesI)
  fix ms rs assume t: "running R ms rs t"
  then obtain ms0 cpu0 st t0 e where ms: "ms = ms0 @ [(cpu0, st, t0)]" "states_change R ms"
    "incomplete_state_record t = state_record R cpu0 st t0 e" by (auto simp: running_def)
  obtain cur r where r: "complete_state (joint R) False cur now t = Inr r"
    "(case r of None \<Rightarrow> Inr t | Some t2 \<Rightarrow> start_state (unset R) cpu (id_ptask R) (id_task R) th now cur t2) = Inr t1"
    using assms by (auto simp: trace_paraver_state_def rbind_Inr_iff)
  show "goes_on R ms rs t1"
  proof (cases r)
    case None
    then show ?thesis using r(2) t by (auto intro: goes_on_same)
  next
    case (Some t2)
    from complete_back [OF t [unfolded ms(1)] r(1) [unfolded Some]] obtain rs1 where
      rs1: "shut R now ms rs1 t2" "kept rs rs1" "incomplete_state_offset t2 \<noteq> -1" "\<not> (joint R \<and> cur = st)"
      by (auto simp: ms(1))
    have "states_change R (ms @ [(cpu, cur, now)])"
      using ms(2) rs1(4) by (auto simp: states_change_def ms(1) distinct_adj_append_iff)
    from start_back [OF rs1(1) this] rs1(3) r(2) Some obtain rs2 where
      rs2: "running R (ms @ [(cpu, cur, now)]) rs2 t1" "kept rs1 rs2" by auto
    show ?thesis by (rule goes_onI [OF rs2(1) _ kept_trans [OF rs1(2) rs2(2)]]) (simp add: ms(1) hd_append)
  qed
qed

lemma put_advances:
  assumes "trace_paraver_record r t = Inr t1" and "p_type r \<in> finished_types" and "p_type r \<noteq> STATE"
  shows "advances R t t1"
  using running_put [OF _ assms] by (intro advancesI) (auto intro!: goes_onI)

lemma event_record_type [simp]: "p_type (event_record junk cpu ptask task vthread now type v) = EVENT"
  by (simp add: event_record_def Let_def split: prod.splits)

lemma event_advances: "trace_paraver_event en junk cpu ptask task now type v t = Inr t1 \<Longrightarrow> advances R t t1"
  by (auto simp: trace_paraver_event_def split: if_splits intro: put_advances)

lemma comm_record_type [simp]: "p_type (comm_record a b c d e f g h i j k l m n) = COMMUNICATION"
  by (simp add: comm_record_def)

lemma comm_advances:
  assumes "trace_paraver_communication es er r None t = Inr t1" and "p_type r = COMMUNICATION"
  shows "advances R t t1"
proof (cases "es \<or> er")
  case True
  then show ?thesis using assms put_advances [of r t t1 R] by (auto simp: trace_paraver_communication_def)
next
  case False
  then show ?thesis using assms(1) by (auto simp: trace_paraver_communication_def)
qed

text \<open>The first and the last step of a thread, and the flush.\<close>

lemma initialize_back:
  assumes "record_file (t_wfb t) []" and "t_states t = no_states" and "incomplete_state_record t = unset_state R"
    and "virtual_thread t = id_vthread R"
    and "initialize_thread (joint R) skip_events (unset R) cpu (id_ptask R) (id_task R) th t = Inr t1"
  shows "\<exists>rs. running R [(cpu, top_of (first_states skip_events), 0)] rs t1"
proof -
  obtain s where s: "initial_states skip_events no_states = Inr s" "stack_ok s" "states s = first_states skip_events"
    using initial_states_law by blast
  let ?t = "t\<lparr>incomplete_state_offset := -1, t_states := s\<rparr>" and ?top = "top_of (first_states skip_events)"
  have "Top_State s = Inr ?top" using Top_State_law [OF s(2)] s(3) by simp
  then have start: "start_state (unset R) cpu (id_ptask R) (id_task R) th 0 ?top ?t = Inr t1"
    using assms(2,5) s(1) by (simp add: initialize_thread_def trace_paraver_state_def complete_state_def)
  have "shut R 0 [] [] ?t" using assms s(2) by (simp add: shut_def steady_def)
  from start_back [OF this _ _ start] show ?thesis
    using first_not_idle by (auto simp: states_change_def)
qed

lemma finalize_back:
  assumes t: "running R ms rs t" and "finalize_thread (joint R) fin t = Inr t1"
  shows "\<exists>rs1. record_file (t_wfb t1) rs1 \<and> finished rs1 \<and> states_of rs1 = spans R fin ms \<and> states_change R ms"
proof -
  obtain ms0 cpu0 st t0 e where ms: "ms = ms0 @ [(cpu0, st, t0)]" "states_change R ms"
    using t by (auto simp: running_def)
  obtain cur r where r: "complete_state (joint R) True cur fin t = Inr r" "t1 = (case r of None \<Rightarrow> t | Some t2 \<Rightarrow> t2)"
    using assms(2) by (auto simp: finalize_thread_def trace_paraver_state_noahead_def rbind_Inr_iff rmap_Inr_iff)
  have "r \<noteq> None" using r(1) by (auto simp: complete_state_def rmap_Inr_iff split: if_splits)
  then obtain t2 where t2: "r = Some t2" "t1 = t2" using r(2) by auto
  from complete_back [OF t [unfolded ms(1)] r(1) [unfolded t2(1)]] obtain rs1 where "shut R fin ms rs1 t1"
    by (auto simp: ms(1) t2(2))
  then show ?thesis using ms(2) by (auto simp: shut_def steady_def)
qed

lemma flush_records:
  assumes "record_file w rs" and "Flush_one False w = Inr w1"
  shows "f_bytes (FD w1) = concat (map rec_bytes rs)"
  using assms flush_back [of w "map rec_bytes rs" w1] by (simp add: record_file_def holds_recs_def Flush_one_def)

end
