(* ===== verification/Used_Operations.thy ===== *)
theory Used_Operations
  imports Merger_State
begin

text \<open>
  Which operations were seen, and their numbers in the trace: \<open>misc_prv_events.c\<close>, \<open>omp_prv_events.c\<close>,
  \<open>pthread_prv_events.c\<close>, \<open>cuda_prv_events.c\<close>, \<open>opencl_prv_events.c\<close>, \<open>openshmem_prv_events.c\<close> and
  \<open>java_prv_events.c\<close> of \<open>merger/paraver\<close>. A flag is a pair of its table and its index.
\<close>

definition flag_if :: "flag_table \<Rightarrow> nat option \<Rightarrow> seen \<Rightarrow> seen" where
  "flag_if tab i s = (case i of None \<Rightarrow> s | Some k \<Rightarrow> s\<lparr>inuse := insert (tab, k) (inuse s)\<rparr>)"

definition is_flagged :: "flag_table \<Rightarrow> seen \<Rightarrow> nat \<Rightarrow> bool" where
  "is_flagged tab s k \<longleftrightarrow> (tab, k) \<in> inuse s"

text \<open>The first entry of a type.\<close>

definition entry_of :: "int \<Rightarrow> (int \<times> 'a) list \<Rightarrow> nat option" where
  "entry_of type tab = find_index (\<lambda>(e, x). e = type) tab"

section \<open>pthread\<close>

definition pthread_event_presency_label :: "(int \<times> string \<times> 64 word) list" where
  "pthread_event_presency_label = [
    (PTHREAD_EXIT_EV, ''pthread_exit'', 1), (PTHREAD_CREATE_EV, ''pthread_create'', 2),
    (PTHREAD_JOIN_EV, ''pthread_join'', 3), (PTHREAD_DETACH_EV, ''pthread_detach'', 4),
    (PTHREAD_RWLOCK_WR_EV, ''pthread_rwlock_*wrlock'', 5), (PTHREAD_RWLOCK_RD_EV, ''pthread_rwlock_*rdlock'', 6),
    (PTHREAD_RWLOCK_UNLOCK_EV, ''pthread_rwlock_unlock'', 7), (PTHREAD_MUTEX_LOCK_EV, ''pthread_mutex_*lock'', 8),
    (PTHREAD_MUTEX_UNLOCK_EV, ''pthread_mutex_unlock'', 9), (PTHREAD_COND_SIGNAL_EV, ''pthread_cond_signal'', 10),
    (PTHREAD_COND_BROADCAST_EV, ''pthread_cond_broadcast'', 11), (PTHREAD_COND_WAIT_EV, ''pthread_cond_*wait'', 12),
    (PTHREAD_BARRIER_WAIT_EV, ''pthread_barrier_wait'', 13)]"

definition Enable_pthread_Operation :: "int \<Rightarrow> seen \<Rightarrow> seen" where
  "Enable_pthread_Operation type = flag_if In_pthread (entry_of type pthread_event_presency_label)"

text \<open>\<open>None\<close> is the result \<open>FALSE\<close>, which leaves the results unset.\<close>

definition Translate_pthread_Operation :: "int \<Rightarrow> 64 word \<Rightarrow> (int \<times> 64 word) option" where
  "Translate_pthread_Operation type v = map_option (\<lambda>u.
     (PTHREAD_BASE_EV, if v \<noteq> 0 then snd (snd (pthread_event_presency_label ! u)) else 0))
     (entry_of type pthread_event_presency_label)"

definition value_line :: "64 word \<Rightarrow> string \<Rightarrow> string" where
  "value_line v d = print_d (uint v) @ '' '' @ d @ newline"

definition call_type_line :: "int \<Rightarrow> string \<Rightarrow> string" where
  "call_type_line t d = ''0    '' @ print_d t @ ''    '' @ d @ newline"

text \<open>Without the labels of \<open>addr2info.c\<close>, which need \<open>HAVE_BFD\<close>.\<close>

definition WriteEnabled_pthread_Operations :: "seen \<Rightarrow> string" where
  "WriteEnabled_pthread_Operations s =
     (let present = filter (\<lambda>(u, x). is_flagged In_pthread s u) (enumerate 0 pthread_event_presency_label) in
      if present = [] then []
      else ''EVENT_TYPE'' @ newline @ call_type_line PTHREAD_BASE_EV ''pthread call'' @ ''VALUES'' @ newline @
        ''0 Outside pthread call'' @ newline @
        concat (map (\<lambda>(u, e, d, v). value_line v d) present) @ newline @ newline)"

section \<open>OpenCL\<close>

definition OpenCL_event_presency_label_host :: "(int \<times> string \<times> 64 word) list" where
  "OpenCL_event_presency_label_host = [
    (OPENCL_CLCREATEBUFFER_EV, ''clCreateBuffer'', 1), (OPENCL_CLCREATECOMMANDQUEUE_EV, ''clCreateCommandQueue'', 2),
    (OPENCL_CLCREATECONTEXT_EV, ''clCreateContext'', 3),
    (OPENCL_CLCREATECONTEXTFROMTYPE_EV, ''clCreateContextFromType'', 4),
    (OPENCL_CLCREATESUBBUFFER_EV, ''clCreateSubBuffer'', 5), (OPENCL_CLCREATEKERNEL_EV, ''clCreateKernel'', 6),
    (OPENCL_CLCREATEKERNELSINPROGRAM_EV, ''clCreateKernelsInProgram'', 7),
    (OPENCL_CLSETKERNELARG_EV, ''clSetKernelArg'', 8),
    (OPENCL_CLCREATEPROGRAMWITHSOURCE_EV, ''clCreateProgramWithSource'', 9),
    (OPENCL_CLCREATEPROGRAMWITHBINARY_EV, ''clCreateProgramWithBinary'', 10),
    (OPENCL_CLCREATEPROGRAMWITHBUILTINKERNELS_EV, ''clCreateProgramWithBuiltInKernels'', 11),
    (OPENCL_CLENQUEUEFILLBUFFER_EV, ''clEnqueueFillBuffer'', 12),
    (OPENCL_CLENQUEUECOPYBUFFER_EV, ''clEnqueueCopyBuffer'', 13),
    (OPENCL_CLENQUEUECOPYBUFFERRECT_EV, ''clEnqueueCopyBufferRect'', 14),
    (OPENCL_CLENQUEUENDRANGEKERNEL_EV, ''clEnqueueNDRangeKernel'', 15),
    (OPENCL_CLENQUEUETASK_EV, ''clEnqueueTask'', 16),
    (OPENCL_CLENQUEUENATIVEKERNEL_EV, ''clEnqueueNativeKernel'', 17),
    (OPENCL_CLENQUEUEREADBUFFER_EV, ''clEnqueueReadBuffer'', 18),
    (OPENCL_CLENQUEUEREADBUFFERRECT_EV, ''clEnqueueReadBufferRect'', 19),
    (OPENCL_CLENQUEUEWRITEBUFFER_EV, ''clEnqueueWriteBuffer'', 20),
    (OPENCL_CLENQUEUEWRITEBUFFERRECT_EV, ''clEnqueueWriteBufferRect'', 21),
    (OPENCL_CLBUILDPROGRAM_EV, ''clBuildProgram'', 22), (OPENCL_CLCOMPILEPROGRAM_EV, ''clCompileProgram'', 23),
    (OPENCL_CLLINKPROGRAM_EV, ''clLinkProgram'', 24), (OPENCL_CLFINISH_EV, ''clFinish'', 25),
    (OPENCL_CLFLUSH_EV, ''clFlush'', 26), (OPENCL_CLWAITFOREVENTS_EV, ''clWaitForEvents'', 27),
    (OPENCL_CLENQUEUEMARKERWITHWAITLIST_EV, ''clEnqueueMarkerWithWaitList'', 28),
    (OPENCL_CLENQUEUEBARRIERWITHWAITLIST_EV, ''clEnqueueBarrierWithWaitList'', 29),
    (OPENCL_CLENQUEUEMAPBUFFER_EV, ''clEnqueueMapBuffer'', 30),
    (OPENCL_CLENQUEUEUNMAPMEMOBJECT_EV, ''clEnqueueUnmapMemObject'', 31),
    (OPENCL_CLENQUEUEMIGRATEMEMOBJECTS_EV, ''clEnqueueMigrateMemObjects'', 32),
    (OPENCL_CLENQUEUEMARKER_EV, ''clEnqueueMarker'', 33), (OPENCL_CLENQUEUEBARRIER_EV, ''clEnqueueBarrier'', 34),
    (OPENCL_CLRETAINCOMMANDQUEUE_EV, ''clRetainCommandQueue'', 35),
    (OPENCL_CLRELEASECOMMANDQUEUE_EV, ''clReleaseCommandQueue'', 36),
    (OPENCL_CLRETAINCONTEXT_EV, ''clRetainContext'', 37), (OPENCL_CLRELEASECONTEXT_EV, ''clReleaseContext'', 38),
    (OPENCL_CLRETAINDEVICE_EV, ''clRetainDevice'', 39), (OPENCL_CLRELEASEDEVICE_EV, ''clReleaseDevice'', 40),
    (OPENCL_CLRETAINEVENT_EV, ''clRetainEvent'', 41), (OPENCL_CLRELEASEEVENT_EV, ''clReleaseEvent'', 42),
    (OPENCL_CLRETAINKERNEL_EV, ''clRetainKernel'', 43), (OPENCL_CLRELEASEKERNEL_EV, ''clReleaseKernel'', 44),
    (OPENCL_CLRETAINMEMOBJECT_EV, ''clRetainMemObject'', 45),
    (OPENCL_CLRELEASEMEMOBJECT_EV, ''clReleaseMemObject'', 46), (OPENCL_CLRETAINPROGRAM_EV, ''clRetainProgram'', 47),
    (OPENCL_CLRELEASEPROGRAM_EV, ''clReleaseProgram'', 48),
    (OPENCL_CLENQUEUEREADBUFFER_ASYNC_EV, ''clEnqueueReadBuffer (async)'', 49),
    (OPENCL_CLENQUEUEREADBUFFERRECT_ASYNC_EV, ''clEnqueueReadBufferRect (async)'', 50),
    (OPENCL_CLENQUEUEWRITEBUFFER_ASYNC_EV, ''clEnqueueWriteBuffer (async)'', 51),
    (OPENCL_CLENQUEUEWRITEBUFFERRECT_ASYNC_EV, ''clEnqueueWriteBufferRect (async)'', 52)]"

definition OpenCL_event_presency_label_acc :: "(int \<times> string \<times> 64 word) list" where
  "OpenCL_event_presency_label_acc = [
    (0, ''clCreateBuffer'', 1), (0, ''clCreateCommandQueue'', 2), (0, ''clCreateContext'', 3),
    (0, ''clCreateContextFromType'', 4), (0, ''clCreateSubBuffer'', 5), (0, ''clCreateKernel'', 6),
    (0, ''clCreateKernelsInProgram'', 7), (0, ''clSetKernelArg'', 8), (0, ''clCreateProgramWithSource'', 9),
    (0, ''clCreateProgramWithBinary'', 10), (0, ''clCreateProgramWithBuiltInKernels'', 11),
    (OPENCL_CLENQUEUEFILLBUFFER_ACC_EV, ''clEnqueueFillBuffer'', 12),
    (OPENCL_CLENQUEUECOPYBUFFER_ACC_EV, ''clEnqueueCopyBuffer'', 13),
    (OPENCL_CLENQUEUECOPYBUFFERRECT_ACC_EV, ''clEnqueueCopyBufferRect'', 14),
    (OPENCL_CLENQUEUENDRANGEKERNEL_ACC_EV, ''clEnqueueNDRangeKernel'', 15),
    (OPENCL_CLENQUEUETASK_ACC_EV, ''clEnqueueTask'', 16),
    (OPENCL_CLENQUEUENATIVEKERNEL_ACC_EV, ''clEnqueueNativeKernel'', 17),
    (OPENCL_CLENQUEUEREADBUFFER_ACC_EV, ''clEnqueueReadBuffer'', 18),
    (OPENCL_CLENQUEUEREADBUFFERRECT_ACC_EV, ''clEnqueueReadBufferRect'', 19),
    (OPENCL_CLENQUEUEWRITEBUFFER_ACC_EV, ''clEnqueueWriteBuffer'', 20),
    (OPENCL_CLENQUEUEWRITEBUFFERRECT_ACC_EV, ''clEnqueueWriteBufferRect'', 21), (0, ''clBuildProgram'', 22),
    (0, ''clCompileProgram'', 23), (0, ''clLinkProgram'', 24), (0, ''clFinish'', 25), (0, ''clFlush'', 26),
    (0, ''clWaitForEvents'', 27), (OPENCL_CLENQUEUEMARKERWITHWAITLIST_ACC_EV, ''clEnqueueMarkerWithWaitList'', 28),
    (OPENCL_CLENQUEUEBARRIERWITHWAITLIST_ACC_EV, ''clEnqueueBarrierWithWaitList'', 29),
    (OPENCL_CLENQUEUEMAPBUFFER_ACC_EV, ''clEnqueueMapBuffer'', 30),
    (OPENCL_CLENQUEUEUNMAPMEMOBJECT_ACC_EV, ''clEnqueueUnmapMemObject'', 31),
    (OPENCL_CLENQUEUEMIGRATEMEMOBJECTS_ACC_EV, ''clEnqueueMigrateMemObjects'', 32),
    (OPENCL_CLENQUEUEMARKER_ACC_EV, ''clEnqueueMarker'', 33),
    (OPENCL_CLENQUEUEBARRIER_ACC_EV, ''clEnqueueBarrier'', 34), (0, ''clRetainCommandQueue'', 35),
    (0, ''clReleaseCommandQueue'', 36), (0, ''clRetainContext'', 37), (0, ''clReleaseContext'', 38),
    (0, ''clRetainDevice'', 39), (0, ''clReleaseDevice'', 40), (0, ''clRetainEvent'', 41),
    (0, ''clReleaseEvent'', 42), (0, ''clRetainKernel'', 43), (0, ''clReleaseKernel'', 44),
    (0, ''clRetainMemObject'', 45), (0, ''clReleaseMemObject'', 46), (0, ''clRetainProgram'', 47),
    (0, ''clReleaseProgram'', 48), (OPENCL_CLENQUEUEREADBUFFER_ASYNC_ACC_EV, ''clEnqueueReadBuffer (async)'', 49),
    (OPENCL_CLENQUEUEREADBUFFERRECT_ASYNC_ACC_EV, ''clEnqueueReadBufferRect (async)'', 50),
    (OPENCL_CLENQUEUEWRITEBUFFER_ASYNC_ACC_EV, ''clEnqueueWriteBuffer (async)'', 51),
    (OPENCL_CLENQUEUEWRITEBUFFERRECT_ASYNC_ACC_EV, ''clEnqueueWriteBufferRect (async)'', 52)]"

definition is_host_type :: "int \<Rightarrow> bool" where
  "is_host_type type \<longleftrightarrow> OPENCL_BASE_TYPE_EV \<le> type \<and> type < OPENCL_BASE_TYPE_ACC_EV"

definition Enable_OpenCL_Operation :: "int \<Rightarrow> seen \<Rightarrow> seen" where
  "Enable_OpenCL_Operation type =
     (if is_host_type type then flag_if In_opencl_host (entry_of type OpenCL_event_presency_label_host)
      else flag_if In_opencl_acc (entry_of type OpenCL_event_presency_label_acc))"

definition Translate_OpenCL_Operation :: "int \<Rightarrow> 64 word \<Rightarrow> (int \<times> 64 word) option" where
  "Translate_OpenCL_Operation type v =
     (let (tab, out_type) = (if is_host_type type then (OpenCL_event_presency_label_host, OPENCL_BASE_TYPE_EV)
         else (OpenCL_event_presency_label_acc, OPENCL_BASE_TYPE_ACC_EV)) in
      map_option (\<lambda>u. (out_type, if v \<noteq> 0 then snd (snd (tab ! u)) else 0)) (entry_of type tab))"

definition WriteEnabled_OpenCL_Operations :: "seen \<Rightarrow> string" where
  "WriteEnabled_OpenCL_Operations s =
     (let host = filter (\<lambda>(u, x). is_flagged In_opencl_host s u) (enumerate 0 OpenCL_event_presency_label_host);
          acc = filter (\<lambda>(u, x). is_flagged In_opencl_acc s u) (enumerate 0 OpenCL_event_presency_label_acc);
          transfers = (\<exists>(u, e, x) \<in> set host. e \<in> {OPENCL_CLENQUEUEREADBUFFER_EV, OPENCL_CLENQUEUEREADBUFFERRECT_EV,
            OPENCL_CLENQUEUEWRITEBUFFER_EV, OPENCL_CLENQUEUEWRITEBUFFERRECT_EV}) in
      (if host = [] then []
       else ''EVENT_TYPE'' @ newline @ call_type_line OPENCL_BASE_TYPE_EV ''Host OpenCL call'' @ ''VALUES'' @ newline @
         ''0 Outside OpenCL'' @ newline @ concat (map (\<lambda>(u, e, d, v). value_line v d) host) @ newline @ newline @
         (if transfers then ''EVENT_TYPE'' @ newline @ ''0   '' @ print_d OPENCL_CLMEMOP_SIZE_EV @
            ''    OpenCL transfer size'' @ newline @ newline else [])) @
      (if acc = [] then []
       else ''EVENT_TYPE'' @ newline @ call_type_line OPENCL_BASE_TYPE_ACC_EV ''Accelerator OpenCL call'' @
         ''VALUES'' @ newline @ ''0 Outside OpenCL'' @ newline @
         concat (map (\<lambda>(u, e, d, v). value_line v d) (filter (\<lambda>(u, e, d, v). e \<noteq> 0) acc)) @ newline @ newline) @
      (if \<exists>(u, e, x) \<in> set host. e = OPENCL_CLFINISH_EV
       then ''EVENT_TYPE'' @ newline @ call_type_line OPENCL_CLFINISH_THID_EV ''Synchronized command queue (on thread)'' @
         newline else []))"

section \<open>CUDA, Java, OpenSHMEM and OpenMP\<close>

definition Enable_CUDA_Operation :: "int \<Rightarrow> seen \<Rightarrow> seen" where
  "Enable_CUDA_Operation type = flag_if In_cuda (find_index (\<lambda>e. e = type)
     [CUDALAUNCH_EV, CUDACONFIGCALL_EV, CUDAMEMCPY_EV, CUDATHREADBARRIER_EV, CUDASTREAMBARRIER_EV, CUDAMEMCPYASYNC_EV,
      CUDATHREADEXIT_EV, CUDADEVICERESET_EV])"

definition Enable_Java_Operation :: "int \<Rightarrow> seen \<Rightarrow> seen" where
  "Enable_Java_Operation type = flag_if In_java (find_index (\<lambda>e. e = type)
     [JAVA_JVMTI_GARBAGECOLLECTOR_EV, JAVA_JVMTI_EXCEPTION_EV, JAVA_JVMTI_OBJECT_ALLOC_EV, JAVA_JVMTI_OBJECT_FREE_EV])"

definition Enable_OPENSHMEM_Operation :: "int \<Rightarrow> seen \<Rightarrow> seen" where
  "Enable_OPENSHMEM_Operation type = flag_if In_openshmem (Some 0)"

definition Enable_OMP_Operation :: "int \<Rightarrow> seen \<Rightarrow> seen" where
  "Enable_OMP_Operation type = flag_if In_omp
     (if type = PAR_EV then Some 0
      else if type = WSH_EV then Some 1
      else if type \<in> {OMPFUNC_EV, TASKFUNC_EV, OMPT_TASKFUNC_EV} then Some 2
      else if type = UNNAMEDCRIT_EV then Some 3
      else if type = NAMEDCRIT_EV then Some 4
      else if type = WORK_EV then Some 5
      else if type = JOIN_EV then Some 6
      else if type = BARRIEROMP_EV then Some 7
      else if type \<in> {OMPGETNUMTHREADS_EV, OMPSETNUMTHREADS_EV} then Some 8
      else if type = TASK_EV then Some 9
      else if type = TASKWAIT_EV then Some 10
      else if type = TASKLOOP_EV then Some 20
      else if type = ORDERED_EV then Some 21
      else if type = OMPT_CRITICAL_EV then Some 11
      else if type = OMPT_ATOMIC_EV then Some 12
      else if type = OMPT_LOOP_EV then Some 13
      else if type = OMPT_WORKSHARE_EV then Some 14
      else if type = OMPT_SECTIONS_EV then Some 15
      else if type = OMPT_SINGLE_EV then Some 16
      else if type = OMPT_MASTER_EV then Some 17
      else if type \<in> {TASKGROUP_START_EV, OMPT_TASKGROUP_IN_EV} then Some 18
      else if type = OMP_STATS_EV then Some 19
      else None)"

section \<open>Other events\<close>

definition event_misc2prv :: "(int \<times> 64 word) list" where
  "event_misc2prv = [
    (READ_EV, READ_VAL_EV), (WRITE_EV, WRITE_VAL_EV), (FREAD_EV, FREAD_VAL_EV), (FWRITE_EV, FWRITE_VAL_EV),
    (PREAD_EV, PREAD_VAL_EV), (PWRITE_EV, PWRITE_VAL_EV), (READV_EV, READV_VAL_EV), (WRITEV_EV, WRITEV_VAL_EV),
    (PREADV_EV, PREADV_VAL_EV), (PWRITEV_EV, PWRITE_VAL_EV), (OPEN_EV, OPEN_VAL_EV), (FOPEN_EV, FOPEN_VAL_EV)]"

definition misc_prv_val_label :: "(64 word \<times> string) list" where
  "misc_prv_val_label = [
    (READ_VAL_EV, ''read()''), (WRITE_VAL_EV, ''write()''), (FREAD_VAL_EV, ''fread()''), (FWRITE_VAL_EV, ''fwrite()''),
    (PREAD_VAL_EV, ''pread()''), (PWRITE_VAL_EV, ''pwrite()''), (READV_VAL_EV, ''readv()''),
    (WRITEV_VAL_EV, ''writev()''), (PREADV_VAL_EV, ''preadv()''), (PWRITEV_VAL_EV, ''pwritev()''),
    (OPEN_VAL_EV, ''open()''), (FOPEN_VAL_EV, ''fopen()'')]"

definition search_misc_event :: "int \<Rightarrow> nat option" where
  "search_misc_event type = entry_of type event_misc2prv"

definition Used_MISC_Operation :: "int \<Rightarrow> seen \<Rightarrow> seen" where
  "Used_MISC_Operation type = flag_if In_misc_io (search_misc_event type)"

definition get_misc_prv_val_label :: "64 word \<Rightarrow> string option" where
  "get_misc_prv_val_label v = map_option snd (find (\<lambda>(w, l). w = v) misc_prv_val_label)"

definition io_events :: "int set" where
  "io_events = {READ_EV, WRITE_EV, FREAD_EV, FWRITE_EV, PREAD_EV, PWRITE_EV, READV_EV, WRITEV_EV, PREADV_EV, PWRITEV_EV,
     OPEN_EV, FOPEN_EV}"

definition memory_events :: "int set" where
  "memory_events = {MALLOC_EV, REALLOC_EV, FREE_EV, CALLOC_EV, POSIX_MEMALIGN_EV, MEMKIND_MALLOC_EV, MEMKIND_CALLOC_EV,
     MEMKIND_REALLOC_EV, MEMKIND_POSIX_MEMALIGN_EV, MEMKIND_FREE_EV, KMPC_MALLOC_EV, KMPC_CALLOC_EV, KMPC_REALLOC_EV,
     KMPC_FREE_EV, KMPC_ALIGNED_MALLOC_EV}"

definition Enable_MISC_Operation :: "int \<Rightarrow> seen \<Rightarrow> seen" where
  "Enable_MISC_Operation type s =
     (if type = APPL_EV then flag_if In_misc (Some 0) s
      else if type = FLUSH_EV then flag_if In_misc (Some 1) s
      else if type = TRACING_EV then flag_if In_misc (Some 2) s
      else if type \<in> io_events then Used_MISC_Operation type (flag_if In_misc (Some 3) s)
      else if type \<in> {FORK_EV, WAIT_EV, WAITPID_EV, EXEC_EV, SYSTEM_EV} then flag_if In_misc (Some 4) s
      else if type = GETCPU_EV then flag_if In_misc (Some 5) s
      else if type = TRACE_INIT_EV then flag_if In_misc (Some 6) s
      else if type \<in> memory_events then flag_if In_misc (Some 7) s
      else if type \<in> {SAMPLING_ADDRESS_MEM_LEVEL_EV, SAMPLING_ADDRESS_TLB_LEVEL_EV, SAMPLING_ADDRESS_LD_EV,
          SAMPLING_ADDRESS_ST_EV, SAMPLING_ADDRESS_REFERENCE_COST_EV} then flag_if In_misc (Some 8) s
      else s)"

text \<open>The values of I/O calls in the labels file, each with its label.\<close>

definition io_labels :: "seen \<Rightarrow> (64 word \<times> string option) list" where
  "io_labels s = map (\<lambda>(u, e, v). (v, get_misc_prv_val_label v))
     (filter (\<lambda>(u, x). is_flagged In_misc_io s u) (enumerate 0 event_misc2prv))"

definition MISC_event_GetValueForForkRelated :: "int \<Rightarrow> 32 word" where
  "MISC_event_GetValueForForkRelated type =
     (if type = FORK_EV then 1 else if type = WAIT_EV then 2 else if type = WAITPID_EV then 3
      else if type = EXEC_EV then 4 else if type = SYSTEM_EV then 5 else 0)"

definition MISC_event_GetValueForDynamicMemory :: "int \<Rightarrow> 32 word" where
  "MISC_event_GetValueForDynamicMemory type =
     (if type = MALLOC_EV then 1 else if type = FREE_EV then 2 else if type = REALLOC_EV then 3
      else if type = CALLOC_EV then 4 else if type = POSIX_MEMALIGN_EV then 5 else if type = MEMKIND_MALLOC_EV then 6
      else if type = MEMKIND_CALLOC_EV then 7 else if type = MEMKIND_REALLOC_EV then 8
      else if type = MEMKIND_POSIX_MEMALIGN_EV then 9 else if type = MEMKIND_FREE_EV then 10
      else if type = KMPC_MALLOC_EV then 11 else if type = KMPC_FREE_EV then 12 else if type = KMPC_REALLOC_EV then 13
      else if type = KMPC_CALLOC_EV then 14 else if type = KMPC_ALIGNED_MALLOC_EV then 15 else 0)"

text \<open>What the main loop marks after a handler has run.\<close>

definition Enable_Operation :: "event_class \<Rightarrow> int \<Rightarrow> merger \<Rightarrow> merger" where
  "Enable_Operation c type m = (case c of
       MISC_TYPE \<Rightarrow> m\<lparr>labels_seen := Enable_MISC_Operation type (labels_seen m)\<rparr>
     | PTHREAD_TYPE \<Rightarrow> m\<lparr>labels_seen := Enable_pthread_Operation type (labels_seen m)\<rparr>
     | OPENMP_TYPE \<Rightarrow> m\<lparr>labels_seen := Enable_OMP_Operation type (labels_seen m)\<rparr>
     | MPI_TYPE \<Rightarrow> m\<lparr>mpi_used := Enable_MPI_Operation type (mpi_used m)\<rparr>
     | CUDA_TYPE \<Rightarrow> m\<lparr>labels_seen := Enable_CUDA_Operation type (labels_seen m)\<rparr>
     | OPENCL_TYPE \<Rightarrow> m\<lparr>labels_seen := Enable_OpenCL_Operation type (labels_seen m)\<rparr>
     | OPENSHMEM_TYPE \<Rightarrow> m\<lparr>labels_seen := Enable_OPENSHMEM_Operation type (labels_seen m)\<rparr>
     | JAVA_TYPE \<Rightarrow> m\<lparr>labels_seen := Enable_Java_Operation type (labels_seen m)\<rparr>
     | MPI_COMM_ALIAS_TYPE \<Rightarrow> m\<lparr>mpi_used := Enable_MPI_Operation type (mpi_used m)\<rparr>)"

end
