(* ===== verification/Accel_Semantics.thy ===== *)
theory Accel_Semantics
  imports Used_Operations
begin

text \<open>
  The handlers of the events of threads, accelerators, OpenSHMEM and Java (\<open>pthread_prv_semantics.c\<close>,
  \<open>cuda_prv_semantics.c\<close>, \<open>opencl_prv_semantics.c\<close>, \<open>openshmem_prv_semantics.c\<close> and
  \<open>java_prv_semantics.c\<close> of \<open>merger/paraver\<close>). The addresses of functions are collected only with
  \<open>HAVE_BFD\<close>, which is left out.
\<close>

definition EvValue64 :: "occurrence \<Rightarrow> 64 word" where
  "EvValue64 a = ev_value (o_event a)"

definition EvParam :: "occurrence \<Rightarrow> 64 word" where
  "EvParam a = Get_EvParam (o_event a)"

definition note_seen :: "(seen \<Rightarrow> seen) \<Rightarrow> merger \<Rightarrow> merger result" where
  "note_seen f m = Inr (m\<lparr>labels_seen := f (labels_seen m)\<rparr>)"

text \<open>A translated event; without a translation the type and the value are unset.\<close>

definition put_translated :: "settings \<Rightarrow> (int \<times> 64 word) option \<Rightarrow> occurrence \<Rightarrow> merger \<Rightarrow> merger result" where
  "put_translated S tr a m = (case tr of None \<Rightarrow> Inl Undefined | Some (type, v) \<Rightarrow> put_event S type v a m)"

section \<open>pthread\<close>

definition pthread_state :: "occurrence \<Rightarrow> merger \<Rightarrow> merger result" where
  "pthread_state a =
     (if EvType a \<in> {PTHREAD_RWLOCK_WR_EV, PTHREAD_RWLOCK_RD_EV, PTHREAD_RWLOCK_UNLOCK_EV, PTHREAD_MUTEX_LOCK_EV,
         PTHREAD_MUTEX_UNLOCK_EV, PTHREAD_COND_SIGNAL_EV, PTHREAD_COND_BROADCAST_EV, PTHREAD_COND_WAIT_EV,
         PTHREAD_BARRIER_WAIT_EV}
      then switch_state STATE_SYNC (EvValue64 a \<noteq> EVT_END) a
      else if EvType a = PTHREAD_EXIT_EV then switch_state STATE_RUNNING (EvValue64 a \<noteq> EVT_BEGIN) a
      else switch_state STATE_OVHD (EvValue64 a \<noteq> EVT_END) a)"

definition pthread_Call :: "settings \<Rightarrow> occurrence \<Rightarrow> merger \<Rightarrow> merger result" where
  "pthread_Call S a = in_order
     [pthread_state a, show_state S a,
      if EvType a = PTHREAD_CREATE_EV then in_order
        [put_event S PTHREAD_FUNC_EV (EvValue64 a) a, put_event S PTHREAD_FUNC_LINE_EV (EvValue64 a) a]
      else Inr,
      note_seen (Enable_pthread_Operation (EvType a)),
      put_translated S (Translate_pthread_Operation (EvType a)
        (if EvType a = PTHREAD_CREATE_EV then (if EvValue64 a \<noteq> 0 then 1 else 0) else EvValue64 a)) a]"

text \<open>The address is cut to 32 bits.\<close>

definition pthread_Function_Event :: "settings \<Rightarrow> occurrence \<Rightarrow> merger \<Rightarrow> merger result" where
  "pthread_Function_Event S a = in_order
     [switch_state STATE_RUNNING (EvValue a \<noteq> EVT_END) a, show_state S a,
      put_event S PTHREAD_FUNC_EV (ucast (EvValue a)) a, put_event S PTHREAD_FUNC_LINE_EV (ucast (EvValue a)) a]"

section \<open>Java\<close>

definition JAVA_JVMTI_call :: "settings \<Rightarrow> occurrence \<Rightarrow> merger \<Rightarrow> merger result" where
  "JAVA_JVMTI_call S a = in_order
     [if EvType a \<in> {JAVA_JVMTI_GARBAGECOLLECTOR_EV, JAVA_JVMTI_EXCEPTION_EV}
      then switch_state STATE_OTHERS (EvValue64 a \<noteq> EVT_END) a else Inr,
      show_state S a, put_event S (EvType a) (EvValue64 a) a]"

section \<open>CUDA\<close>

definition cuda_state :: "int \<Rightarrow> state_id option" where
  "cuda_state type =
     (if type = CUDACONFIGCALL_EV then Some STATE_OTHERS
      else if type \<in> {CUDATHREADEXIT_EV, CUDADEVICERESET_EV, CUDALAUNCH_EV} then Some STATE_OVHD
      else if type \<in> {CUDASTREAMBARRIER_EV, CUDATHREADBARRIER_EV} then Some STATE_BARRIER
      else if type \<in> {CUDAMEMCPY_EV, CUDAMEMCPYASYNC_EV} then Some STATE_MEMORY_XFER
      else None)"

definition cuda_gpu_state :: "int \<Rightarrow> state_id option" where
  "cuda_gpu_state type =
     (if type = CUDAKERNEL_GPU_EV then Some STATE_RUNNING
      else if type = CUDATHREADBARRIER_GPU_EV then Some STATE_BARRIER
      else if type \<in> {CUDAMEMCPYASYNC_GPU_EV, CUDAMEMCPY_GPU_EV} then Some STATE_MEMORY_XFER
      else if type = CUDACONFIGKERNEL_GPU_EV then Some STATE_OTHERS
      else None)"

definition switch_if :: "state_id option \<Rightarrow> bool \<Rightarrow> occurrence \<Rightarrow> merger \<Rightarrow> merger result" where
  "switch_if st cond a = (case st of None \<Rightarrow> Inr | Some s \<Rightarrow> switch_state s cond a)"

text \<open>The difference of the types is unsigned.\<close>

definition CUDA_Call :: "settings \<Rightarrow> occurrence \<Rightarrow> merger \<Rightarrow> merger result" where
  "CUDA_Call S a = in_order
     [switch_if (cuda_state (EvType a)) (EvValue a \<noteq> EVT_END) a, show_state S a,
      put_event S CUDACALL_EV
        (if EvValue a \<noteq> EVT_END then ucast (word_of_int (EvType a - CUDABASE_EV) :: 32 word) else EVT_END) a,
      if EvType a \<in> {CUDAMEMCPY_EV, CUDAMEMCPYASYNC_EV}
      then put_event S CUDAMEMCPY_SIZE_EV (Get_EvMiscParam (o_event a)) a else Inr,
      if EvType a = CUDALAUNCH_EV then in_order
        [put_event S CUDAFUNC_EV (ucast (EvValue a)) a, put_event S CUDAFUNC_LINE_EV (ucast (EvValue a)) a]
      else Inr,
      if EvType a = CUDASTREAMBARRIER_EV
      then put_event S CUDASTREAMBARRIER_THID_EV (1 + Get_EvMiscParam (o_event a)) a else Inr]"

text \<open>The size is written for a type that never gets here.\<close>

definition CUDA_GPU_Call :: "settings \<Rightarrow> occurrence \<Rightarrow> merger \<Rightarrow> merger result" where
  "CUDA_GPU_Call S a = in_order
     [switch_if (cuda_gpu_state (EvType a)) (EvValue a \<noteq> EVT_END) a, show_state S a,
      put_event S CUDACALL_EV
        (if EvValue a \<noteq> EVT_END then ucast (word_of_int (EvType a - CUDABASE_GPU_EV) :: 32 word) else EVT_END) a,
      if EvType a \<in> {CUDAMEMCPY_GPU_EV, CUDAMEMCPYASYNC_EV}
      then put_event S CUDAMEMCPY_SIZE_EV (Get_EvMiscParam (o_event a)) a else Inr,
      if EvType a = CUDAKERNEL_GPU_EV then in_order
        [put_event S CUDAFUNC_EV (ucast (EvValue a)) a, put_event S CUDAFUNC_LINE_EV (ucast (EvValue a)) a]
      else Inr]"

section \<open>OpenCL\<close>

definition opencl_acc_state :: "int \<Rightarrow> state_id" where
  "opencl_acc_state type =
     (if type \<in> {OPENCL_CLENQUEUEFILLBUFFER_ACC_EV, OPENCL_CLENQUEUECOPYBUFFER_ACC_EV,
         OPENCL_CLENQUEUECOPYBUFFERRECT_ACC_EV, OPENCL_CLENQUEUEREADBUFFER_ACC_EV, OPENCL_CLENQUEUEWRITEBUFFER_ACC_EV,
         OPENCL_CLENQUEUEREADBUFFERRECT_ACC_EV, OPENCL_CLENQUEUEWRITEBUFFERRECT_ACC_EV,
         OPENCL_CLENQUEUEMAPBUFFER_ACC_EV, OPENCL_CLENQUEUEMIGRATEMEMOBJECTS_ACC_EV}
      then STATE_MEMORY_XFER
      else if type \<in> {OPENCL_CLENQUEUEBARRIERWITHWAITLIST_ACC_EV, OPENCL_CLENQUEUEBARRIER_ACC_EV} then STATE_BARRIER
      else if type \<in> {OPENCL_CLENQUEUENDRANGEKERNEL_ACC_EV, OPENCL_CLENQUEUETASK_ACC_EV,
         OPENCL_CLENQUEUENATIVEKERNEL_ACC_EV}
      then STATE_RUNNING
      else STATE_OVHD)"

definition opencl_host_state :: "int \<Rightarrow> state_id" where
  "opencl_host_state type =
     (if type \<in> {OPENCL_CLENQUEUEFILLBUFFER_EV, OPENCL_CLENQUEUECOPYBUFFER_EV, OPENCL_CLENQUEUECOPYBUFFERRECT_EV,
         OPENCL_CLENQUEUEREADBUFFER_EV, OPENCL_CLENQUEUEWRITEBUFFER_EV, OPENCL_CLENQUEUEREADBUFFERRECT_EV,
         OPENCL_CLENQUEUEWRITEBUFFERRECT_EV, OPENCL_CLENQUEUEMAPBUFFER_EV, OPENCL_CLENQUEUEMIGRATEMEMOBJECTS_EV}
      then STATE_MEMORY_XFER
      else if type \<in> {OPENCL_CLWAITFOREVENTS_EV, OPENCL_CLENQUEUEBARRIERWITHWAITLIST_EV, OPENCL_CLENQUEUEBARRIER_EV,
         OPENCL_CLFINISH_EV}
      then STATE_BARRIER
      else STATE_OVHD)"

definition OpenCL_Acc_Call :: "settings \<Rightarrow> occurrence \<Rightarrow> merger \<Rightarrow> merger result" where
  "OpenCL_Acc_Call S a = in_order
     [switch_state (opencl_acc_state (EvType a)) (EvValue64 a \<noteq> EVT_END) a, show_state S a,
      put_translated S (Translate_OpenCL_Operation (EvType a) (EvValue64 a)) a,
      if EvType a \<in> {OPENCL_CLENQUEUENDRANGEKERNEL_ACC_EV, OPENCL_CLENQUEUETASK_ACC_EV}
      then put_event S OPENCL_KERNEL_NAME_EV (EvParam a) a else Inr,
      if EvType a \<in> {OPENCL_CLENQUEUEREADBUFFER_ACC_EV, OPENCL_CLENQUEUEWRITEBUFFER_ACC_EV,
        OPENCL_CLENQUEUEREADBUFFERRECT_ACC_EV, OPENCL_CLENQUEUEWRITEBUFFERRECT_ACC_EV,
        OPENCL_CLENQUEUEREADBUFFER_ASYNC_ACC_EV, OPENCL_CLENQUEUEWRITEBUFFER_ASYNC_ACC_EV,
        OPENCL_CLENQUEUEREADBUFFERRECT_ASYNC_ACC_EV, OPENCL_CLENQUEUEWRITEBUFFERRECT_ASYNC_ACC_EV}
      then put_event S OPENCL_CLMEMOP_SIZE_EV (EvParam a) a else Inr]"

definition OpenCL_Host_Call :: "settings \<Rightarrow> occurrence \<Rightarrow> merger \<Rightarrow> merger result" where
  "OpenCL_Host_Call S a = in_order
     [switch_state (opencl_host_state (EvType a)) (EvValue64 a \<noteq> EVT_END) a, show_state S a,
      put_translated S (Translate_OpenCL_Operation (EvType a) (EvValue64 a)) a,
      if EvType a \<in> {OPENCL_CLENQUEUENDRANGEKERNEL_EV, OPENCL_CLENQUEUETASK_EV}
      then put_event S OPENCL_KERNEL_NAME_EV (EvParam a) a else Inr,
      if EvType a \<in> {OPENCL_CLENQUEUEREADBUFFER_EV, OPENCL_CLENQUEUEWRITEBUFFER_EV,
        OPENCL_CLENQUEUEREADBUFFERRECT_EV, OPENCL_CLENQUEUEWRITEBUFFERRECT_EV,
        OPENCL_CLENQUEUEREADBUFFER_ASYNC_EV, OPENCL_CLENQUEUEWRITEBUFFER_ASYNC_EV,
        OPENCL_CLENQUEUEREADBUFFERRECT_ASYNC_EV, OPENCL_CLENQUEUEWRITEBUFFERRECT_ASYNC_EV}
      then put_event S OPENCL_CLMEMOP_SIZE_EV (EvParam a) a else Inr,
      if EvType a = OPENCL_CLFINISH_EV \<and> EvValue64 a \<noteq> EVT_END
      then put_event S OPENCL_CLFINISH_THID_EV (1 + Get_EvMiscParam (o_event a)) a else Inr]"

section \<open>OpenSHMEM\<close>

definition shmem_Get_State :: "int \<Rightarrow> state_id" where
  "shmem_Get_State type =
     (if type \<in> set [
         SHMEM_DOUBLE_PUT_EV, SHMEM_FLOAT_PUT_EV, SHMEM_INT_PUT_EV, SHMEM_LONG_PUT_EV, SHMEM_LONGDOUBLE_PUT_EV,
         SHMEM_LONGLONG_PUT_EV, SHMEM_PUT32_EV, SHMEM_PUT64_EV, SHMEM_PUT128_EV, SHMEM_PUTMEM_EV, SHMEM_SHORT_PUT_EV,
         SHMEM_CHAR_P_EV, SHMEM_SHORT_P_EV, SHMEM_INT_P_EV, SHMEM_LONG_P_EV, SHMEM_LONGLONG_P_EV, SHMEM_FLOAT_P_EV,
         SHMEM_DOUBLE_P_EV, SHMEM_LONGDOUBLE_P_EV, SHMEM_DOUBLE_IPUT_EV, SHMEM_FLOAT_IPUT_EV, SHMEM_INT_IPUT_EV,
         SHMEM_IPUT32_EV, SHMEM_IPUT64_EV, SHMEM_IPUT128_EV, SHMEM_LONG_IPUT_EV, SHMEM_LONGDOUBLE_IPUT_EV,
         SHMEM_LONGLONG_IPUT_EV, SHMEM_SHORT_IPUT_EV, SHMEM_DOUBLE_GET_EV, SHMEM_FLOAT_GET_EV, SHMEM_GET32_EV,
         SHMEM_GET64_EV, SHMEM_GET128_EV, SHMEM_GETMEM_EV, SHMEM_INT_GET_EV, SHMEM_LONG_GET_EV,
         SHMEM_LONGDOUBLE_GET_EV, SHMEM_LONGLONG_GET_EV, SHMEM_SHORT_GET_EV, SHMEM_CHAR_G_EV, SHMEM_SHORT_G_EV,
         SHMEM_INT_G_EV, SHMEM_LONG_G_EV, SHMEM_LONGLONG_G_EV, SHMEM_FLOAT_G_EV, SHMEM_DOUBLE_G_EV,
         SHMEM_LONGDOUBLE_G_EV, SHMEM_DOUBLE_IGET_EV, SHMEM_FLOAT_IGET_EV, SHMEM_IGET32_EV, SHMEM_IGET64_EV,
         SHMEM_IGET128_EV, SHMEM_INT_IGET_EV, SHMEM_LONG_IGET_EV, SHMEM_LONGDOUBLE_IGET_EV, SHMEM_LONGLONG_IGET_EV,
         SHMEM_SHORT_IGET_EV]
      then STATE_REMOTE_MEM_ACCESS
      else if type \<in> set [
         SHMEM_INT_ADD_EV, SHMEM_LONG_ADD_EV, SHMEM_LONGLONG_ADD_EV, SHMEM_INT_CSWAP_EV, SHMEM_LONG_CSWAP_EV,
         SHMEM_LONGLONG_CSWAP_EV, SHMEM_DOUBLE_SWAP_EV, SHMEM_FLOAT_SWAP_EV, SHMEM_INT_SWAP_EV, SHMEM_LONG_SWAP_EV,
         SHMEM_LONGLONG_SWAP_EV, SHMEM_SWAP_EV, SHMEM_INT_FINC_EV, SHMEM_LONG_FINC_EV, SHMEM_LONGLONG_FINC_EV,
         SHMEM_INT_INC_EV, SHMEM_LONG_INC_EV, SHMEM_LONGLONG_INC_EV, SHMEM_INT_FADD_EV, SHMEM_LONG_FADD_EV,
         SHMEM_LONGLONG_FADD_EV]
      then STATE_ATOMIC_MEM_OP
      else if type \<in> set [
         SHMEM_BARRIER_ALL_EV, SHMEM_BARRIER_EV]
      then STATE_BARRIER
      else if type \<in> set [
         SHMEM_BROADCAST32_EV, SHMEM_BROADCAST64_EV, SHMEM_COLLECT32_EV, SHMEM_COLLECT64_EV, SHMEM_FCOLLECT32_EV,
         SHMEM_FCOLLECT64_EV, SHMEM_INT_AND_TO_ALL_EV, SHMEM_LONG_AND_TO_ALL_EV, SHMEM_LONGLONG_AND_TO_ALL_EV,
         SHMEM_SHORT_AND_TO_ALL_EV, SHMEM_DOUBLE_MAX_TO_ALL_EV, SHMEM_FLOAT_MAX_TO_ALL_EV, SHMEM_INT_MAX_TO_ALL_EV,
         SHMEM_LONG_MAX_TO_ALL_EV, SHMEM_LONGDOUBLE_MAX_TO_ALL_EV, SHMEM_LONGLONG_MAX_TO_ALL_EV,
         SHMEM_SHORT_MAX_TO_ALL_EV, SHMEM_DOUBLE_MIN_TO_ALL_EV]
      then STATE_SYNC
      else if type \<in> set [
         SHMEM_INT_WAIT_EV, SHMEM_INT_WAIT_UNTIL_EV, SHMEM_LONG_WAIT_EV, SHMEM_LONG_WAIT_UNTIL_EV,
         SHMEM_LONGLONG_WAIT_EV, SHMEM_LONGLONG_WAIT_UNTIL_EV, SHMEM_SHORT_WAIT_EV, SHMEM_SHORT_WAIT_UNTIL_EV,
         SHMEM_WAIT_EV, SHMEM_WAIT_UNTIL_EV]
      then STATE_WAITMESS
      else if type \<in> set [
         SHMEM_FENCE_EV, SHMEM_QUIET_EV]
      then STATE_MEM_ORDERING
      else if type \<in> set [
         SHMEM_CLEAR_LOCK_EV, SHMEM_SET_LOCK_EV, SHMEM_TEST_LOCK_EV]
      then STATE_LOCKING
      else STATE_OTHERS)"

definition shmem_value :: "occurrence \<Rightarrow> 64 word" where
  "shmem_value a = (if EvValue64 a \<noteq> 0 then ucast (word_of_int (EvType a - OPENSHMEM_BASE_EVENT + 1) :: 32 word) else 0)"

definition shmem_call :: "settings \<Rightarrow> occurrence \<Rightarrow> merger \<Rightarrow> merger result" where
  "shmem_call S a = in_order
     [switch_state (shmem_Get_State (EvType a)) (shmem_value a \<noteq> EVT_END) a, show_state S a,
      put_event S OPENSHMEM_BASE_EVENT (shmem_value a) a]"

definition Other_OPENSHMEM_Event :: "settings \<Rightarrow> occurrence \<Rightarrow> merger \<Rightarrow> merger result" where
  "Other_OPENSHMEM_Event S a = shmem_call S a"

definition Any_Outgoing_OPENSHMEM_Event :: "settings \<Rightarrow> occurrence \<Rightarrow> merger \<Rightarrow> merger result" where
  "Any_Outgoing_OPENSHMEM_Event S a =
     in_order [shmem_call S a, put_event S OPENSHMEM_SENDBYTES_EV (ucast (Get_EvSize (o_event a))) a]"

definition Any_Incoming_OPENSHMEM_Event :: "settings \<Rightarrow> occurrence \<Rightarrow> merger \<Rightarrow> merger result" where
  "Any_Incoming_OPENSHMEM_Event S a =
     in_order [shmem_call S a, put_event S OPENSHMEM_RECVBYTES_EV (ucast (Get_EvSize (o_event a))) a]"

section \<open>The tables of handlers\<close>

datatype accel_handler = H_pthread_Call | H_pthread_Function_Event | H_JAVA_JVMTI_call | H_CUDA_Call | H_CUDA_GPU_Call
  | H_OpenCL_Acc_Call | H_OpenCL_Host_Call | H_Other_OPENSHMEM_Event | H_Any_Outgoing_OPENSHMEM_Event
  | H_Any_Incoming_OPENSHMEM_Event

fun run_accel :: "accel_handler \<Rightarrow> settings \<Rightarrow> occurrence \<Rightarrow> merger \<Rightarrow> merger result" where
  "run_accel H_pthread_Call = pthread_Call"
| "run_accel H_pthread_Function_Event = pthread_Function_Event"
| "run_accel H_JAVA_JVMTI_call = JAVA_JVMTI_call"
| "run_accel H_CUDA_Call = CUDA_Call"
| "run_accel H_CUDA_GPU_Call = CUDA_GPU_Call"
| "run_accel H_OpenCL_Acc_Call = OpenCL_Acc_Call"
| "run_accel H_OpenCL_Host_Call = OpenCL_Host_Call"
| "run_accel H_Other_OPENSHMEM_Event = Other_OPENSHMEM_Event"
| "run_accel H_Any_Outgoing_OPENSHMEM_Event = Any_Outgoing_OPENSHMEM_Event"
| "run_accel H_Any_Incoming_OPENSHMEM_Event = Any_Incoming_OPENSHMEM_Event"

definition PRV_pthread_Event_Handlers :: "(int \<times> accel_handler) list" where
  "PRV_pthread_Event_Handlers = [
    (PTHREAD_CREATE_EV, H_pthread_Call), (PTHREAD_EXIT_EV, H_pthread_Call), (PTHREAD_JOIN_EV, H_pthread_Call),
    (PTHREAD_DETACH_EV, H_pthread_Call), (PTHREAD_FUNC_EV, H_pthread_Function_Event),
    (PTHREAD_RWLOCK_WR_EV, H_pthread_Call), (PTHREAD_RWLOCK_RD_EV, H_pthread_Call),
    (PTHREAD_RWLOCK_UNLOCK_EV, H_pthread_Call), (PTHREAD_MUTEX_LOCK_EV, H_pthread_Call),
    (PTHREAD_MUTEX_UNLOCK_EV, H_pthread_Call), (PTHREAD_COND_SIGNAL_EV, H_pthread_Call),
    (PTHREAD_COND_BROADCAST_EV, H_pthread_Call), (PTHREAD_COND_WAIT_EV, H_pthread_Call),
    (PTHREAD_BARRIER_WAIT_EV, H_pthread_Call)]"

definition PRV_CUDA_Event_Handlers :: "(int \<times> accel_handler) list" where
  "PRV_CUDA_Event_Handlers = [
    (CUDACONFIGCALL_EV, H_CUDA_Call), (CUDALAUNCH_EV, H_CUDA_Call), (CUDAMEMCPY_EV, H_CUDA_Call),
    (CUDAMEMCPYASYNC_EV, H_CUDA_Call), (CUDATHREADBARRIER_EV, H_CUDA_Call), (CUDASTREAMBARRIER_EV, H_CUDA_Call),
    (CUDADEVICERESET_EV, H_CUDA_Call), (CUDATHREADEXIT_EV, H_CUDA_Call), (CUDAKERNEL_GPU_EV, H_CUDA_GPU_Call),
    (CUDACONFIGKERNEL_GPU_EV, H_CUDA_GPU_Call), (CUDAMEMCPY_GPU_EV, H_CUDA_GPU_Call),
    (CUDAMEMCPYASYNC_GPU_EV, H_CUDA_GPU_Call), (CUDATHREADBARRIER_GPU_EV, H_CUDA_GPU_Call)]"

definition PRV_OpenCL_Event_Handlers :: "(int \<times> int \<times> accel_handler) list" where
  "PRV_OpenCL_Event_Handlers = [
    (OPENCL_CLCREATEBUFFER_EV, OPENCL_CLRELEASEPROGRAM_EV, H_OpenCL_Host_Call),
    (OPENCL_CLENQUEUEREADBUFFER_ASYNC_EV, OPENCL_CLENQUEUEWRITEBUFFERRECT_ASYNC_EV, H_OpenCL_Host_Call),
    (OPENCL_CLENQUEUEFILLBUFFER_ACC_EV, OPENCL_CLENQUEUEWRITEBUFFERRECT_ACC_EV, H_OpenCL_Acc_Call),
    (OPENCL_CLENQUEUEMARKERWITHWAITLIST_ACC_EV, OPENCL_CLENQUEUEBARRIER_ACC_EV, H_OpenCL_Acc_Call),
    (OPENCL_CLENQUEUEREADBUFFER_ASYNC_ACC_EV, OPENCL_CLENQUEUEWRITEBUFFERRECT_ASYNC_ACC_EV, H_OpenCL_Acc_Call)]"

definition PRV_OPENSHMEM_Event_Handlers :: "(int \<times> accel_handler) list" where
  "PRV_OPENSHMEM_Event_Handlers = [
    (START_PES_EV, H_Other_OPENSHMEM_Event), (SHMEM_MY_PE_EV, H_Other_OPENSHMEM_Event),
    (x_MY_PE_EV, H_Other_OPENSHMEM_Event), (SHMEM_N_PES_EV, H_Other_OPENSHMEM_Event),
    (x_NUM_PES_EV, H_Other_OPENSHMEM_Event), (SHMEM_PE_ACCESSIBLE_EV, H_Other_OPENSHMEM_Event),
    (SHMEM_ADDR_ACCESSIBLE_EV, H_Other_OPENSHMEM_Event), (SHMEM_PTR_EV, H_Other_OPENSHMEM_Event),
    (SHMALLOC_EV, H_Other_OPENSHMEM_Event), (SHFREE_EV, H_Other_OPENSHMEM_Event),
    (SHREALLOC_EV, H_Other_OPENSHMEM_Event), (SHMEMALIGN_EV, H_Other_OPENSHMEM_Event),
    (SHMEM_DOUBLE_PUT_EV, H_Any_Outgoing_OPENSHMEM_Event), (SHMEM_FLOAT_PUT_EV, H_Any_Outgoing_OPENSHMEM_Event),
    (SHMEM_INT_PUT_EV, H_Any_Outgoing_OPENSHMEM_Event), (SHMEM_LONG_PUT_EV, H_Any_Outgoing_OPENSHMEM_Event),
    (SHMEM_LONGDOUBLE_PUT_EV, H_Any_Outgoing_OPENSHMEM_Event),
    (SHMEM_LONGLONG_PUT_EV, H_Any_Outgoing_OPENSHMEM_Event), (SHMEM_PUT32_EV, H_Any_Outgoing_OPENSHMEM_Event),
    (SHMEM_PUT64_EV, H_Any_Outgoing_OPENSHMEM_Event), (SHMEM_PUT128_EV, H_Any_Outgoing_OPENSHMEM_Event),
    (SHMEM_PUTMEM_EV, H_Any_Outgoing_OPENSHMEM_Event), (SHMEM_SHORT_PUT_EV, H_Any_Outgoing_OPENSHMEM_Event),
    (SHMEM_CHAR_P_EV, H_Any_Outgoing_OPENSHMEM_Event), (SHMEM_SHORT_P_EV, H_Any_Outgoing_OPENSHMEM_Event),
    (SHMEM_INT_P_EV, H_Any_Outgoing_OPENSHMEM_Event), (SHMEM_LONG_P_EV, H_Any_Outgoing_OPENSHMEM_Event),
    (SHMEM_LONGLONG_P_EV, H_Any_Outgoing_OPENSHMEM_Event), (SHMEM_FLOAT_P_EV, H_Any_Outgoing_OPENSHMEM_Event),
    (SHMEM_DOUBLE_P_EV, H_Any_Outgoing_OPENSHMEM_Event), (SHMEM_LONGDOUBLE_P_EV, H_Any_Outgoing_OPENSHMEM_Event),
    (SHMEM_DOUBLE_IPUT_EV, H_Any_Outgoing_OPENSHMEM_Event), (SHMEM_FLOAT_IPUT_EV, H_Any_Outgoing_OPENSHMEM_Event),
    (SHMEM_INT_IPUT_EV, H_Any_Outgoing_OPENSHMEM_Event), (SHMEM_IPUT32_EV, H_Any_Outgoing_OPENSHMEM_Event),
    (SHMEM_IPUT64_EV, H_Any_Outgoing_OPENSHMEM_Event), (SHMEM_IPUT128_EV, H_Any_Outgoing_OPENSHMEM_Event),
    (SHMEM_LONG_IPUT_EV, H_Any_Outgoing_OPENSHMEM_Event), (SHMEM_LONGDOUBLE_IPUT_EV, H_Any_Outgoing_OPENSHMEM_Event),
    (SHMEM_LONGLONG_IPUT_EV, H_Any_Outgoing_OPENSHMEM_Event), (SHMEM_SHORT_IPUT_EV, H_Any_Outgoing_OPENSHMEM_Event),
    (SHMEM_DOUBLE_GET_EV, H_Any_Incoming_OPENSHMEM_Event), (SHMEM_FLOAT_GET_EV, H_Any_Incoming_OPENSHMEM_Event),
    (SHMEM_GET32_EV, H_Any_Incoming_OPENSHMEM_Event), (SHMEM_GET64_EV, H_Any_Incoming_OPENSHMEM_Event),
    (SHMEM_GET128_EV, H_Any_Incoming_OPENSHMEM_Event), (SHMEM_GETMEM_EV, H_Any_Incoming_OPENSHMEM_Event),
    (SHMEM_INT_GET_EV, H_Any_Incoming_OPENSHMEM_Event), (SHMEM_LONG_GET_EV, H_Any_Incoming_OPENSHMEM_Event),
    (SHMEM_LONGDOUBLE_GET_EV, H_Any_Incoming_OPENSHMEM_Event),
    (SHMEM_LONGLONG_GET_EV, H_Any_Incoming_OPENSHMEM_Event), (SHMEM_SHORT_GET_EV, H_Any_Incoming_OPENSHMEM_Event),
    (SHMEM_CHAR_G_EV, H_Any_Incoming_OPENSHMEM_Event), (SHMEM_SHORT_G_EV, H_Any_Incoming_OPENSHMEM_Event),
    (SHMEM_INT_G_EV, H_Any_Incoming_OPENSHMEM_Event), (SHMEM_LONG_G_EV, H_Any_Incoming_OPENSHMEM_Event),
    (SHMEM_LONGLONG_G_EV, H_Any_Incoming_OPENSHMEM_Event), (SHMEM_FLOAT_G_EV, H_Any_Incoming_OPENSHMEM_Event),
    (SHMEM_DOUBLE_G_EV, H_Any_Incoming_OPENSHMEM_Event), (SHMEM_LONGDOUBLE_G_EV, H_Any_Incoming_OPENSHMEM_Event),
    (SHMEM_DOUBLE_IGET_EV, H_Any_Incoming_OPENSHMEM_Event), (SHMEM_FLOAT_IGET_EV, H_Any_Incoming_OPENSHMEM_Event),
    (SHMEM_IGET32_EV, H_Any_Incoming_OPENSHMEM_Event), (SHMEM_IGET64_EV, H_Any_Incoming_OPENSHMEM_Event),
    (SHMEM_IGET128_EV, H_Any_Incoming_OPENSHMEM_Event), (SHMEM_INT_IGET_EV, H_Any_Incoming_OPENSHMEM_Event),
    (SHMEM_LONG_IGET_EV, H_Any_Incoming_OPENSHMEM_Event), (SHMEM_LONGDOUBLE_IGET_EV, H_Any_Incoming_OPENSHMEM_Event),
    (SHMEM_LONGLONG_IGET_EV, H_Any_Incoming_OPENSHMEM_Event), (SHMEM_SHORT_IGET_EV, H_Any_Incoming_OPENSHMEM_Event),
    (SHMEM_INT_ADD_EV, H_Other_OPENSHMEM_Event), (SHMEM_LONG_ADD_EV, H_Other_OPENSHMEM_Event),
    (SHMEM_LONGLONG_ADD_EV, H_Other_OPENSHMEM_Event), (SHMEM_INT_CSWAP_EV, H_Other_OPENSHMEM_Event),
    (SHMEM_LONG_CSWAP_EV, H_Other_OPENSHMEM_Event), (SHMEM_LONGLONG_CSWAP_EV, H_Other_OPENSHMEM_Event),
    (SHMEM_DOUBLE_SWAP_EV, H_Other_OPENSHMEM_Event), (SHMEM_FLOAT_SWAP_EV, H_Other_OPENSHMEM_Event),
    (SHMEM_INT_SWAP_EV, H_Other_OPENSHMEM_Event), (SHMEM_LONG_SWAP_EV, H_Other_OPENSHMEM_Event),
    (SHMEM_LONGLONG_SWAP_EV, H_Other_OPENSHMEM_Event), (SHMEM_SWAP_EV, H_Other_OPENSHMEM_Event),
    (SHMEM_INT_FINC_EV, H_Other_OPENSHMEM_Event), (SHMEM_LONG_FINC_EV, H_Other_OPENSHMEM_Event),
    (SHMEM_LONGLONG_FINC_EV, H_Other_OPENSHMEM_Event), (SHMEM_INT_INC_EV, H_Other_OPENSHMEM_Event),
    (SHMEM_LONG_INC_EV, H_Other_OPENSHMEM_Event), (SHMEM_LONGLONG_INC_EV, H_Other_OPENSHMEM_Event),
    (SHMEM_INT_FADD_EV, H_Other_OPENSHMEM_Event), (SHMEM_LONG_FADD_EV, H_Other_OPENSHMEM_Event),
    (SHMEM_LONGLONG_FADD_EV, H_Other_OPENSHMEM_Event), (SHMEM_BARRIER_ALL_EV, H_Other_OPENSHMEM_Event),
    (SHMEM_BARRIER_EV, H_Other_OPENSHMEM_Event), (SHMEM_BROADCAST32_EV, H_Any_Outgoing_OPENSHMEM_Event),
    (SHMEM_BROADCAST64_EV, H_Any_Outgoing_OPENSHMEM_Event), (SHMEM_COLLECT32_EV, H_Any_Incoming_OPENSHMEM_Event),
    (SHMEM_COLLECT64_EV, H_Any_Incoming_OPENSHMEM_Event), (SHMEM_FCOLLECT32_EV, H_Any_Incoming_OPENSHMEM_Event),
    (SHMEM_FCOLLECT64_EV, H_Any_Incoming_OPENSHMEM_Event), (SHMEM_INT_AND_TO_ALL_EV, H_Any_Incoming_OPENSHMEM_Event),
    (SHMEM_LONG_AND_TO_ALL_EV, H_Any_Incoming_OPENSHMEM_Event),
    (SHMEM_LONGLONG_AND_TO_ALL_EV, H_Any_Incoming_OPENSHMEM_Event),
    (SHMEM_SHORT_AND_TO_ALL_EV, H_Any_Incoming_OPENSHMEM_Event),
    (SHMEM_DOUBLE_MAX_TO_ALL_EV, H_Any_Incoming_OPENSHMEM_Event),
    (SHMEM_FLOAT_MAX_TO_ALL_EV, H_Any_Incoming_OPENSHMEM_Event),
    (SHMEM_INT_MAX_TO_ALL_EV, H_Any_Incoming_OPENSHMEM_Event),
    (SHMEM_LONG_MAX_TO_ALL_EV, H_Any_Incoming_OPENSHMEM_Event),
    (SHMEM_LONGDOUBLE_MAX_TO_ALL_EV, H_Any_Incoming_OPENSHMEM_Event),
    (SHMEM_LONGLONG_MAX_TO_ALL_EV, H_Any_Incoming_OPENSHMEM_Event),
    (SHMEM_SHORT_MAX_TO_ALL_EV, H_Any_Incoming_OPENSHMEM_Event),
    (SHMEM_DOUBLE_MIN_TO_ALL_EV, H_Any_Incoming_OPENSHMEM_Event), (SHMEM_INT_WAIT_EV, H_Other_OPENSHMEM_Event),
    (SHMEM_INT_WAIT_UNTIL_EV, H_Other_OPENSHMEM_Event), (SHMEM_LONG_WAIT_EV, H_Other_OPENSHMEM_Event),
    (SHMEM_LONG_WAIT_UNTIL_EV, H_Other_OPENSHMEM_Event), (SHMEM_LONGLONG_WAIT_EV, H_Other_OPENSHMEM_Event),
    (SHMEM_LONGLONG_WAIT_UNTIL_EV, H_Other_OPENSHMEM_Event), (SHMEM_SHORT_WAIT_EV, H_Other_OPENSHMEM_Event),
    (SHMEM_SHORT_WAIT_UNTIL_EV, H_Other_OPENSHMEM_Event), (SHMEM_WAIT_EV, H_Other_OPENSHMEM_Event),
    (SHMEM_WAIT_UNTIL_EV, H_Other_OPENSHMEM_Event), (SHMEM_FENCE_EV, H_Other_OPENSHMEM_Event),
    (SHMEM_QUIET_EV, H_Other_OPENSHMEM_Event), (SHMEM_CLEAR_LOCK_EV, H_Other_OPENSHMEM_Event),
    (SHMEM_SET_LOCK_EV, H_Other_OPENSHMEM_Event), (SHMEM_TEST_LOCK_EV, H_Other_OPENSHMEM_Event),
    (SHMEM_CLEAR_CACHE_INV_EV, H_Other_OPENSHMEM_Event), (SHMEM_SET_CACHE_INV_EV, H_Other_OPENSHMEM_Event),
    (SHMEM_CLEAR_CACHE_LINE_INV_EV, H_Other_OPENSHMEM_Event), (SHMEM_SET_CACHE_LINE_INV_EV, H_Other_OPENSHMEM_Event),
    (SHMEM_UDCFLUSH_EV, H_Other_OPENSHMEM_Event), (SHMEM_UDCFLUSH_LINE_EV, H_Other_OPENSHMEM_Event)]"

definition PRV_Java_Event_Handlers :: "(int \<times> accel_handler) list" where
  "PRV_Java_Event_Handlers = [
    (JAVA_JVMTI_GARBAGECOLLECTOR_EV, H_JAVA_JVMTI_call), (JAVA_JVMTI_EXCEPTION_EV, H_JAVA_JVMTI_call),
    (JAVA_JVMTI_OBJECT_ALLOC_EV, H_JAVA_JVMTI_call), (JAVA_JVMTI_OBJECT_FREE_EV, H_JAVA_JVMTI_call)]"

end
