(* ===== verification/Omp_Semantics.thy ===== *)
theory Omp_Semantics
  imports Accel_Semantics
begin

text \<open>
  The handlers of OpenMP events (\<open>merger/paraver/omp_prv_semantics.c\<close>), each as the list of its calls. Those
  that the code repeats word by word are one definition here, with the state as its argument.
\<close>

definition change_and_put :: "settings \<Rightarrow> state_id \<Rightarrow> bool \<Rightarrow> occurrence \<Rightarrow> merger \<Rightarrow> merger result" where
  "change_and_put S st cond a =
     in_order [switch_state st cond a, show_state S a, put_event S (EvType a) (ucast (EvValue a)) a]"

definition WorkSharing_Event :: "settings \<Rightarrow> occurrence \<Rightarrow> merger \<Rightarrow> merger result" where
  "WorkSharing_Event S a = change_and_put S STATE_OVHD (EvValue a \<noteq> EVT_END) a"

definition Parallel_Event :: "settings \<Rightarrow> occurrence \<Rightarrow> merger \<Rightarrow> merger result" where
  "Parallel_Event S a = change_and_put S STATE_OVHD (EvValue a \<noteq> EVT_END) a"

definition Join_Event :: "settings \<Rightarrow> occurrence \<Rightarrow> merger \<Rightarrow> merger result" where
  "Join_Event S a = change_and_put S
     (if (ucast (EvParam a) :: 32 word) = JOIN_WAIT_VAL then STATE_BARRIER else STATE_OVHD) (EvValue a \<noteq> EVT_END) a"

definition Work_Event :: "settings \<Rightarrow> occurrence \<Rightarrow> merger \<Rightarrow> merger result" where
  "Work_Event S a = change_and_put S STATE_OVHD (EvValue a \<noteq> EVT_END) a"

definition OpenMP_Function_Event :: "settings \<Rightarrow> occurrence \<Rightarrow> merger \<Rightarrow> merger result" where
  "OpenMP_Function_Event S a = in_order
     [switch_state STATE_RUNNING (EvValue64 a \<noteq> EVT_END) a, show_state S a,
      if EvType a = OMPFUNC_EV then in_order
        [put_event S OMPFUNC_EV (EvValue64 a) a, put_event S OMPFUNC_LINE_EV (EvValue64 a) a]
      else if EvType a = TASKFUNC_EV then in_order
        [put_event S TASKFUNC_EV (EvValue64 a) a, put_event S TASKFUNC_LINE_EV (EvValue64 a) a]
      else Inr]"

definition BarrierOMP_Event :: "settings \<Rightarrow> occurrence \<Rightarrow> merger \<Rightarrow> merger result" where
  "BarrierOMP_Event S a = change_and_put S STATE_BARRIER (EvValue a \<noteq> EVT_END) a"

text \<open>Waiting for a lock is a state, holding it is not.\<close>

definition Critical_Event :: "settings \<Rightarrow> occurrence \<Rightarrow> merger \<Rightarrow> merger result" where
  "Critical_Event S a = in_order
     [change_and_put S STATE_SYNC (EvValue a = LOCK_VAL \<or> EvValue a = UNLOCK_VAL) a,
      if EvType a = NAMEDCRIT_EV \<and> (EvValue a = LOCKED_VAL \<or> EvValue a = UNLOCKED_VAL)
      then put_event S NAMEDCRIT_NAME_EV (EvParam a) a else Inr]"

definition SetGetNumThreads_Event :: "settings \<Rightarrow> occurrence \<Rightarrow> merger \<Rightarrow> merger result" where
  "SetGetNumThreads_Event S a = change_and_put S STATE_OVHD (EvValue a \<noteq> EVT_END) a"

definition Task_Event :: "settings \<Rightarrow> occurrence \<Rightarrow> merger \<Rightarrow> merger result" where
  "Task_Event S a = in_order
     [switch_state STATE_OVHD (EvValue64 a \<noteq> EVT_END) a, show_state S a,
      put_event S TASKFUNC_INST_EV (EvValue64 a) a, put_event S TASKFUNC_INST_LINE_EV (EvValue64 a) a]"

definition Taskwait_Event :: "settings \<Rightarrow> occurrence \<Rightarrow> merger \<Rightarrow> merger result" where
  "Taskwait_Event S a = change_and_put S STATE_SYNC (EvValue a \<noteq> EVT_END) a"

definition TaskGroup_Event :: "settings \<Rightarrow> occurrence \<Rightarrow> merger \<Rightarrow> merger result" where
  "TaskGroup_Event S a = in_order
     [if EvType a = TASKGROUP_START_EV then switch_state STATE_OVHD (EvValue a \<noteq> EVT_END) a
      else if EvType a = TASKGROUP_END_EV then switch_state STATE_SYNC (EvValue a \<noteq> EVT_END) a
      else Inr,
      show_state S a,
      if EvType a = TASKGROUP_START_EV then in_order
        [put_event S TASKGROUP_START_EV (if EvValue a \<noteq> 0 then 1 else 0) a,
         if EvValue a \<noteq> 0 then put_event S TASKGROUP_INGROUP_DEEP_EV EVT_BEGIN a else Inr]
      else if EvType a = TASKGROUP_END_EV then in_order
        [put_event S TASKGROUP_START_EV (if EvValue a \<noteq> 0 then 2 else 0) a,
         if EvValue a = 0 then put_event S TASKGROUP_INGROUP_DEEP_EV EVT_END a else Inr]
      else Inr]"

definition OMPT_event :: "settings \<Rightarrow> occurrence \<Rightarrow> merger \<Rightarrow> merger result" where
  "OMPT_event S a = in_order
     [if EvType a \<in> {OMPT_CRITICAL_EV, OMPT_ATOMIC_EV, OMPT_SINGLE_EV, OMPT_MASTER_EV}
      then in_order [switch_state STATE_BARRIER (EvValue a \<noteq> EVT_END) a, show_state S a] else Inr,
      put_event S (EvType a) (ucast (EvValue a)) a]"

definition TaskID_Event :: "settings \<Rightarrow> occurrence \<Rightarrow> merger \<Rightarrow> merger result" where
  "TaskID_Event S a = put_event S TASKID_EV (EvParam a) a"

definition TaskLoopID_Event :: "settings \<Rightarrow> occurrence \<Rightarrow> merger \<Rightarrow> merger result" where
  "TaskLoopID_Event S a = put_event S TASKLOOPID_EV (EvParam a) a"

definition OMPT_TaskGroup_Event :: "settings \<Rightarrow> occurrence \<Rightarrow> merger \<Rightarrow> merger result" where
  "OMPT_TaskGroup_Event S a = put_event S TASKGROUP_INGROUP_DEEP_EV (EvValue64 a) a"

section \<open>Dependencies of tasks\<close>

definition OMPT_dependence_Event :: "settings \<Rightarrow> occurrence \<Rightarrow> merger \<Rightarrow> merger result" where
  "OMPT_dependence_Event S a = on_task (\<lambda>ti. Inr (ti\<lparr>thread_dependencies :=
     ThreadDependency_add (o_event a) (thread_dependencies ti)\<rparr>)) (o_ptask a) (o_task a)"

definition own_predecessor :: "occurrence \<Rightarrow> predecessor" where
  "own_predecessor a = \<lparr>pred_time = o_time a, pred_cpu = o_cpu a, pred_ptask = o_ptask a, pred_task = o_task a,
     pred_thread = o_thread a\<rparr>"

definition TaskEvent_IfSetPredecessor :: "occurrence \<Rightarrow> event_t \<Rightarrow> predecessor option option" where
  "TaskEvent_IfSetPredecessor a depevent =
     (if Get_EvParam (o_event a) = Get_EvParam depevent then Some (Some (own_predecessor a)) else None)"

text \<open>The callback never asks for the dependency to be deleted.\<close>

definition TaskEvent_IfEmitDependencies :: "occurrence \<Rightarrow> event_t \<Rightarrow> predecessor \<Rightarrow> merger \<Rightarrow> (bool \<times> merger) result" where
  "TaskEvent_IfEmitDependencies a depevent p m =
     (if Get_EvNParam depevent True = Get_EvNParam (o_event a) False
      then rmap (Pair False) (on_thread
        (trace_paraver_communication (EnabledTasks m (pred_ptask p) (pred_task p)) (EnabledTasks m (o_ptask a) (o_task a))
          (comm_record (pred_cpu p) (pred_ptask p) (pred_task p) (pred_thread p) (pred_time p) (pred_time p)
            (o_cpu a) (o_ptask a) (o_task a) (o_thread a) (o_time a) (o_time a) 0 (ucast (ev_value depevent))) None)
        (pred_ptask p) (pred_task p) (pred_thread p) m)
      else Inr (False, m))"

definition set_dependencies :: "occurrence \<Rightarrow> (event_t, predecessor) dependency slots \<Rightarrow> merger \<Rightarrow> merger result" where
  "set_dependencies a d = on_task (\<lambda>ti. Inr (ti\<lparr>thread_dependencies := d\<rparr>)) (o_ptask a) (o_task a)"

definition OMPT_TaskFunction_Event :: "settings \<Rightarrow> occurrence \<Rightarrow> merger \<Rightarrow> merger result" where
  "OMPT_TaskFunction_Event S a = in_order
     [switch_state STATE_RUNNING (EvValue64 a \<noteq> EVT_END) a, show_state S a,
      put_event S TASKFUNC_EV (EvValue64 a) a, put_event S TASKFUNC_LINE_EV (EvValue64 a) a,
      \<lambda>m. rbind (get_task (o_ptask a) (o_task a) m) (\<lambda>ti.
        if EvValue64 a = EVT_END
        then set_dependencies a (ThreadDependency_processAll_ifMatchSetPredecessor (TaskEvent_IfSetPredecessor a)
          (thread_dependencies ti)) m
        else rbind (ThreadDependency_processAll_ifMatchDelete (TaskEvent_IfEmitDependencies a) (thread_dependencies ti) m)
          (\<lambda>(d, m1). set_dependencies a d m1))]"

section \<open>The rest\<close>

text \<open>The sum is an \<open>unsigned int\<close> when it is used as a type.\<close>

definition OMP_Stats_Event :: "settings \<Rightarrow> occurrence \<Rightarrow> merger \<Rightarrow> merger result" where
  "OMP_Stats_Event S a = put_event S (OMP_STATS_BASE + uint (EvValue64 a)) (EvParam a) a"

definition TaskLoop_Event :: "settings \<Rightarrow> occurrence \<Rightarrow> merger \<Rightarrow> merger result" where
  "TaskLoop_Event S a = put_event S TASKLOOP_EV (EvValue64 a) a"

definition Ordered_Event :: "settings \<Rightarrow> occurrence \<Rightarrow> merger \<Rightarrow> merger result" where
  "Ordered_Event S a = change_and_put S STATE_SYNC (EvValue a = WAITORDERED_VAL \<or> EvValue a = POSTORDERED_VAL) a"

datatype omp_handler = H_WorkSharing_Event | H_Parallel_Event | H_OpenMP_Function_Event | H_BarrierOMP_Event
  | H_Critical_Event | H_Work_Event | H_Join_Event | H_SetGetNumThreads_Event | H_Task_Event | H_Taskwait_Event
  | H_OMPT_event | H_TaskGroup_Event | H_TaskID_Event | H_TaskLoopID_Event | H_OMPT_TaskGroup_Event
  | H_OMPT_dependence_Event | H_OMPT_TaskFunction_Event | H_OMP_Stats_Event | H_TaskLoop_Event | H_Ordered_Event

fun run_omp :: "omp_handler \<Rightarrow> settings \<Rightarrow> occurrence \<Rightarrow> merger \<Rightarrow> merger result" where
  "run_omp H_WorkSharing_Event = WorkSharing_Event"
| "run_omp H_Parallel_Event = Parallel_Event"
| "run_omp H_OpenMP_Function_Event = OpenMP_Function_Event"
| "run_omp H_BarrierOMP_Event = BarrierOMP_Event"
| "run_omp H_Critical_Event = Critical_Event"
| "run_omp H_Work_Event = Work_Event"
| "run_omp H_Join_Event = Join_Event"
| "run_omp H_SetGetNumThreads_Event = SetGetNumThreads_Event"
| "run_omp H_Task_Event = Task_Event"
| "run_omp H_Taskwait_Event = Taskwait_Event"
| "run_omp H_OMPT_event = OMPT_event"
| "run_omp H_TaskGroup_Event = TaskGroup_Event"
| "run_omp H_TaskID_Event = TaskID_Event"
| "run_omp H_TaskLoopID_Event = TaskLoopID_Event"
| "run_omp H_OMPT_TaskGroup_Event = OMPT_TaskGroup_Event"
| "run_omp H_OMPT_dependence_Event = OMPT_dependence_Event"
| "run_omp H_OMPT_TaskFunction_Event = OMPT_TaskFunction_Event"
| "run_omp H_OMP_Stats_Event = OMP_Stats_Event"
| "run_omp H_TaskLoop_Event = TaskLoop_Event"
| "run_omp H_Ordered_Event = Ordered_Event"

definition PRV_OMP_Event_Handlers :: "(int \<times> omp_handler) list" where
  "PRV_OMP_Event_Handlers = [
    (WSH_EV, H_WorkSharing_Event), (PAR_EV, H_Parallel_Event), (OMPFUNC_EV, H_OpenMP_Function_Event),
    (BARRIEROMP_EV, H_BarrierOMP_Event), (UNNAMEDCRIT_EV, H_Critical_Event), (NAMEDCRIT_EV, H_Critical_Event),
    (WORK_EV, H_Work_Event), (JOIN_EV, H_Join_Event), (OMPSETNUMTHREADS_EV, H_SetGetNumThreads_Event),
    (OMPGETNUMTHREADS_EV, H_SetGetNumThreads_Event), (TASK_EV, H_Task_Event), (TASKWAIT_EV, H_Taskwait_Event),
    (TASKFUNC_EV, H_OpenMP_Function_Event), (OMPT_CRITICAL_EV, H_OMPT_event), (OMPT_ATOMIC_EV, H_OMPT_event),
    (OMPT_LOOP_EV, H_OMPT_event), (OMPT_WORKSHARE_EV, H_OMPT_event), (OMPT_SECTIONS_EV, H_OMPT_event),
    (OMPT_SINGLE_EV, H_OMPT_event), (OMPT_MASTER_EV, H_OMPT_event), (TASKGROUP_START_EV, H_TaskGroup_Event),
    (TASKGROUP_END_EV, H_TaskGroup_Event), (TASKID_EV, H_TaskID_Event), (TASKLOOPID_EV, H_TaskLoopID_Event),
    (OMPT_TASKGROUP_IN_EV, H_OMPT_TaskGroup_Event), (OMPT_DEPENDENCE_EV, H_OMPT_dependence_Event),
    (OMPT_TASKFUNC_EV, H_OMPT_TaskFunction_Event), (OMP_STATS_EV, H_OMP_Stats_Event), (TASKLOOP_EV, H_TaskLoop_Event),
    (ORDERED_EV, H_Ordered_Event)]"

end
