(* ===== verification/Misc_Semantics.thy ===== *)
theory Misc_Semantics
  imports Omp_Semantics
begin

text \<open>
  The handlers of the other events (\<open>merger/paraver/misc_prv_semantics.c\<close>), without hardware counters. The local
  \<open>Get_State\<close> is \<open>misc_Get_State\<close>. The arrays of labels are written at unchecked positions: outside of them the
  model is undefined.
\<close>

section \<open>Helpers\<close>

definition misc_Get_State :: "int \<Rightarrow> state_id result" where
  "misc_Get_State type =
     (if type \<in> {MALLOC_EV, MEMKIND_MALLOC_EV, MEMKIND_POSIX_MEMALIGN_EV, POSIX_MEMALIGN_EV, REALLOC_EV,
         MEMKIND_REALLOC_EV, CALLOC_EV, MEMKIND_CALLOC_EV, KMPC_MALLOC_EV, KMPC_CALLOC_EV, KMPC_REALLOC_EV,
         KMPC_ALIGNED_MALLOC_EV} then Inr STATE_ALLOCMEM
      else if type \<in> {FREE_EV, MEMKIND_FREE_EV, KMPC_FREE_EV} then Inr STATE_FREEMEM
      else Inl (Exit (-1)))"

text \<open>The flags of the labels: all of them cleared before the first is set.\<close>

definition set_label :: "nat \<Rightarrow> nat \<Rightarrow> bool list option \<Rightarrow> bool list option result" where
  "set_label len k labels =
     (let ls = (case labels of None \<Rightarrow> replicate len False | Some ls \<Rightarrow> ls) in
      if k < length ls then Inr (Some (ls[k := True])) else Inl Undefined)"

definition note_label ::
  "nat \<Rightarrow> nat \<Rightarrow> (seen \<Rightarrow> bool list option) \<Rightarrow> (bool list option \<Rightarrow> seen \<Rightarrow> seen) \<Rightarrow> merger \<Rightarrow> merger result" where
  "note_label len k get put m =
     rmap (\<lambda>ls. m\<lparr>labels_seen := put ls (labels_seen m)\<rparr>) (set_label len k (get (labels_seen m)))"

definition push_or_pop :: "(state_stack \<Rightarrow> (state_id \<times> state_stack) result) \<Rightarrow> occurrence \<Rightarrow> merger \<Rightarrow> merger result" where
  "push_or_pop f = here (\<lambda>t. rmap (\<lambda>(_, s). t\<lparr>t_states := s\<rparr>) (f (t_states t)))"

definition wipe_states :: "trace_mode \<Rightarrow> occurrence \<Rightarrow> merger \<Rightarrow> merger result" where
  "wipe_states mode a =
     here (\<lambda>t. rmap (\<lambda>s. t\<lparr>t_states := s\<rparr>) (Initialize_Trace_Mode_States (o_thread a) mode (t_states t))) a"

section \<open>Simple handlers\<close>

definition Flush_Event :: "settings \<Rightarrow> occurrence \<Rightarrow> merger \<Rightarrow> merger result" where
  "Flush_Event S a = change_and_put S STATE_FLUSH (EvValue a = EVT_BEGIN) a"

definition io_value :: "int \<Rightarrow> 64 word" where
  "io_value type =
     (if type = OPEN_EV then OPEN_VAL_EV else if type = FOPEN_EV then FOPEN_VAL_EV
      else if type = READ_EV then READ_VAL_EV else if type = WRITE_EV then WRITE_VAL_EV
      else if type = FREAD_EV then FREAD_VAL_EV else if type = FWRITE_EV then FWRITE_VAL_EV
      else if type = PREAD_EV then PREAD_VAL_EV else if type = PWRITE_EV then PWRITE_VAL_EV
      else if type = READV_EV then READV_VAL_EV else if type = WRITEV_EV then WRITEV_VAL_EV
      else if type = PREADV_EV then PREADV_VAL_EV else if type = PWRITEV_EV then PWRITEV_VAL_EV
      else 0)"

definition ReadWrite_Event :: "settings \<Rightarrow> occurrence \<Rightarrow> merger \<Rightarrow> merger result" where
  "ReadWrite_Event S a = in_order
     [if EvValue64 a = EVT_BEGIN \<or> EvValue64 a = EVT_END
      then in_order [switch_state STATE_IO (EvValue64 a = EVT_BEGIN) a, show_state S a] else Inr,
      if EvValue64 a = EVT_END then put_event S IO_EV 0 a
      else if EvValue64 a = EVT_BEGIN then in_order
        [put_event S IO_EV (io_value (EvType a)) a, put_event S IO_DESCRIPTOR_EV (EvParam a) a]
      else if EvValue64 a = EVT_BEGIN + 1 then put_event S IO_SIZE_EV (EvParam a) a
      else if EvValue64 a = EVT_BEGIN + 2 then put_event S IO_DESCRIPTOR_TYPE_EV (EvParam a) a
      else if EvValue64 a = EVT_BEGIN + 3 then put_event S FILE_NAME_EV (EvParam a) a
      else Inr]"

text \<open>All threads of the task change their state.\<close>

definition Tracing_Event :: "settings \<Rightarrow> occurrence \<Rightarrow> merger \<Rightarrow> merger result" where
  "Tracing_Event S a m =
     rbind (on_task (\<lambda>ti. Inr (ti\<lparr>tracing_disabled := True\<rparr>)) (o_ptask a) (o_task a) m) (\<lambda>m0.
     rbind (get_task (o_ptask a) (o_task a) m0) (\<lambda>ti.
     rbind (rfold (\<lambda>i. let b = a\<lparr>o_thread := word_of_nat i + 1\<rparr> in
         in_order [switch_state STATE_NOT_TRACING (EvValue a = EVT_END) b, show_state S b])
       [0..<unat (nthreads ti)] m0)
     (put_event S (EvType a) (ucast (EvValue a)) a)))"

definition Appl_Event :: "settings \<Rightarrow> occurrence \<Rightarrow> merger \<Rightarrow> merger result" where
  "Appl_Event S a = in_order
     [if EvValue a = EVT_END then push_or_pop (Pop_State STATE_ANY) a else Inr,
      show_state S a, put_event S (EvType a) (ucast (EvValue a)) a,
      put_event S CLOCK_FROM_SYSTEM_EV (ev_time (o_event a)) a]"

definition CPUEventInterval_Event :: "settings \<Rightarrow> occurrence \<Rightarrow> merger \<Rightarrow> merger result" where
  "CPUEventInterval_Event S a = put_event S (EvType a) (ucast (EvValue a)) a"

definition param :: "occurrence \<Rightarrow> 64 word" where
  "param a = Get_EvMiscParam (o_event a)"

text \<open>The type is the value of the event. A type registered as a line of code gives two events.\<close>

definition User_Event :: "settings \<Rightarrow> occurrence \<Rightarrow> merger \<Rightarrow> merger result" where
  "User_Event S a m = in_order
     [show_state S a,
      case find (\<lambda>(f, l). l = EvValue a) (RegisteredCodeLocationTypes m) of
        Some (f, l) \<Rightarrow> in_order [put_event S (uint f) (param a) a, put_event S (uint l) (param a) a]
      | None \<Rightarrow> put_event S (uint (EvValue a)) (param a) a] m"

definition MPI_Caller_Event :: "settings \<Rightarrow> occurrence \<Rightarrow> merger \<Rightarrow> merger result" where
  "MPI_Caller_Event S a =
     (let deepness = unat (word_of_int (EvType a - CALLER_EV) :: 32 word); deep = 0 < deepness \<and> deepness < MAX_CALLERS in
      in_order
     [show_state S a,
      if deep then in_order
        [note_seen (\<lambda>s. s\<lparr>MPI_Caller_Multiple_Levels_Traced := True\<rparr>),
         note_label MAX_CALLERS (deepness - 1) MPI_Caller_Labels_Used (\<lambda>ls s. s\<lparr>MPI_Caller_Labels_Used := ls\<rparr>)]
      else Inr,
      put_event S (CALLER_EV + int deepness) (EvValue64 a) a,
      put_event S (CALLER_LINE_EV + int deepness) (EvValue64 a) a,
      if deep then here (\<lambda>t. if deepness < length (AddressSpace_calleraddresses t)
          then Inr (t\<lparr>AddressSpace_calleraddresses := (AddressSpace_calleraddresses t)[deepness := EvValue64 a]\<rparr>)
          else Inl Undefined) a
      else Inr])"

definition GetRusage_Event :: "settings \<Rightarrow> occurrence \<Rightarrow> merger \<Rightarrow> merger result" where
  "GetRusage_Event S a = in_order
     [show_state S a, put_event S (RUSAGE_BASE + uint (EvValue a)) (param a) a,
      note_label RUSAGE_EVENTS_COUNT (unat (EvValue a)) GetRusage_Labels_Used (\<lambda>ls s. s\<lparr>GetRusage_Labels_Used := ls\<rparr>)]"

definition Memusage_Event :: "settings \<Rightarrow> occurrence \<Rightarrow> merger \<Rightarrow> merger result" where
  "Memusage_Event S a = in_order
     [show_state S a, put_event S (MEMUSAGE_BASE + uint (EvValue a)) (param a) a,
      note_label MEMUSAGE_EVENTS_COUNT (unat (EvValue a)) Memusage_Labels_Used (\<lambda>ls s. s\<lparr>Memusage_Labels_Used := ls\<rparr>)]"

definition MPI_Stats_Event :: "settings \<Rightarrow> occurrence \<Rightarrow> merger \<Rightarrow> merger result" where
  "MPI_Stats_Event S a = in_order
     [show_state S a, put_event S (MPI_STATS_BASE + uint (EvValue a)) (param a) a,
      note_label MPI_STATS_EVENTS_COUNT (unat (EvValue a)) MPI_Stats_Labels_Used (\<lambda>ls s. s\<lparr>MPI_Stats_Labels_Used := ls\<rparr>)]"

definition InitTracing_Event :: "settings \<Rightarrow> occurrence \<Rightarrow> merger \<Rightarrow> merger result" where
  "InitTracing_Event S a = in_order
     [switch_state STATE_INITFINI (EvValue64 a = EVT_BEGIN) a, show_state S a, put_event S TRACE_INIT_EV (EvValue64 a) a,
      if EvValue64 a = EVT_BEGIN then in_order
        [put_event S PID_EV (ucast (Get_EvTarget (o_event a))) a, put_event S PPID_EV (ucast (Get_EvSize (o_event a))) a,
         put_event S FORK_DEPTH_EV (ucast (Get_EvTag (o_event a))) a]
      else Inr]"

definition USRFunction_Event :: "settings \<Rightarrow> occurrence \<Rightarrow> merger \<Rightarrow> merger result" where
  "USRFunction_Event S a =
     in_order [show_state S a, put_event S USRFUNC_EV (EvValue64 a) a, put_event S USRFUNC_LINE_EV (EvValue64 a) a]"

section \<open>Samples\<close>

definition put_callers :: "settings \<Rightarrow> 64 word list \<Rightarrow> occurrence \<Rightarrow> merger \<Rightarrow> merger result" where
  "put_callers S callers a = rfold (\<lambda>(u, c). if c \<noteq> 0
     then put_event S (SAMPLING_ADDRESS_ALLOCATED_OBJECT_CALLER_EV + int u) c a else Inr) (enumerate 0 callers)"

definition Sampling_Address_Event :: "settings \<Rightarrow> occurrence \<Rightarrow> merger \<Rightarrow> merger result" where
  "Sampling_Address_Event S a = in_order
     [note_label MAX_CALLERS 0 Sample_Caller_Labels_Used (\<lambda>ls s. s\<lparr>Sample_Caller_Labels_Used := ls\<rparr>),
      if EvValue64 a \<noteq> 0 then in_order
        [put_event S SAMPLING_EV (EvValue64 a) a, put_event S SAMPLING_LINE_EV (EvValue64 a) a]
      else Inr,
      if param a \<noteq> 0 then put_event S (EvType a) (param a) a else Inr,
      \<lambda>m. rbind (get_task (o_ptask a) (o_task a) m) (\<lambda>ti. case AddressSpace_search (param a) (AddressSpace ti) of
          Some (callers, ty) \<Rightarrow> in_order [put_callers S callers a, put_event S SAMPLING_ADDRESS_ALLOCATED_OBJECT_EV 0 a] m
        | None \<Rightarrow> put_event S SAMPLING_ADDRESS_STATIC_OBJECT_EV (param a) a m)]"

definition Sampling_Address_MEM_TLB_Event :: "settings \<Rightarrow> occurrence \<Rightarrow> merger \<Rightarrow> merger result" where
  "Sampling_Address_MEM_TLB_Event S a =
     (if EvType a = SAMPLING_ADDRESS_MEM_LEVEL_EV then in_order
        [put_event S SAMPLING_ADDRESS_MEM_LEVEL_EV (param a) a,
         put_event S SAMPLING_ADDRESS_MEM_HITORMISS_EV (EvValue64 a) a]
      else if EvType a = SAMPLING_ADDRESS_TLB_LEVEL_EV then in_order
        [put_event S SAMPLING_ADDRESS_TLB_LEVEL_EV (param a) a,
         put_event S SAMPLING_ADDRESS_TLB_HITORMISS_EV (EvValue64 a) a]
      else if EvType a = SAMPLING_ADDRESS_REFERENCE_COST_EV
      then put_event S SAMPLING_ADDRESS_REFERENCE_COST_EV (EvValue64 a) a
      else Inr)"

definition Sampling_Caller_Event :: "settings \<Rightarrow> occurrence \<Rightarrow> merger \<Rightarrow> merger result" where
  "Sampling_Caller_Event S a =
     (let delta = unat (word_of_int (EvType a - SAMPLING_EV) :: 32 word);
          v = (if delta = 0 then EvValue64 a else EvValue64 a - 1) in in_order
     [note_label MAX_CALLERS delta Sample_Caller_Labels_Used (\<lambda>ls s. s\<lparr>Sample_Caller_Labels_Used := ls\<rparr>),
      if EvValue64 a \<noteq> 0 then in_order
        [put_event S (EvType a) v a, put_event S (EvType a + (SAMPLING_LINE_EV - SAMPLING_EV)) v a]
      else Inr])"

section \<open>Modes\<close>

definition trace_mode_of :: "32 word \<Rightarrow> trace_mode" where
  "trace_mode_of v = (if v = 2 then TRACE_MODE_BURSTS else if v = 3 then TRACE_MODE_PHASE_PROFILE
     else if v = 4 then TRACE_MODE_DISABLED else TRACE_MODE_DETAIL)"

definition Tracing_Mode_Event :: "settings \<Rightarrow> occurrence \<Rightarrow> merger \<Rightarrow> merger result" where
  "Tracing_Mode_Event S a = in_order
     [wipe_states (trace_mode_of (EvValue a)) a, show_state S a, put_event S (EvType a) (ucast (EvValue a)) a]"

definition CPU_Burst_Event :: "settings \<Rightarrow> occurrence \<Rightarrow> merger \<Rightarrow> merger result" where
  "CPU_Burst_Event S a =
     (let v = (if EvType a = ONLINE_EV then param a else EvValue64 a) in
      in_order [switch_state STATE_RUNNING (v = EVT_BEGIN) a, show_state S a])"

definition at_task_of :: "occurrence \<Rightarrow> 'a \<Rightarrow> (32 word \<Rightarrow> 32 word \<Rightarrow> 'a) \<Rightarrow> 32 word \<Rightarrow> 32 word \<Rightarrow> 'a" where
  "at_task_of a x f = (\<lambda>p k. if p = o_ptask a \<and> k = o_task a then x else f p k)"

text \<open>The flag is an \<open>int\<close>.\<close>

definition SetTracing_Event :: "settings \<Rightarrow> occurrence \<Rightarrow> merger \<Rightarrow> merger result" where
  "SetTracing_Event S a = in_order
     [if EvValue64 a = 0 then in_order
        [push_or_pop (Push_State STATE_NOT_TRACING) a, show_state S a,
         \<lambda>m. Inr (m\<lparr>EnabledTasks_time := at_task_of a (o_time a) (EnabledTasks_time m)\<rparr>)]
      else push_or_pop (Pop_State STATE_NOT_TRACING) a,
      \<lambda>m. Inr (m\<lparr>EnabledTasks := at_task_of a (EvValue a \<noteq> 0) (EnabledTasks m)\<rparr>)]"

definition online_mode :: "32 word \<Rightarrow> occurrence \<Rightarrow> merger \<Rightarrow> merger result" where
  "online_mode v a = in_order
     [if v \<noteq> DETAIL_MODE then MatchComms_Off (o_ptask a) (o_task a) else Inr,
      if v = DETAIL_MODE then wipe_states TRACE_MODE_DETAIL a
      else if v = BURST_MODE then wipe_states TRACE_MODE_BURSTS a
      else if v = PHASE_PROFILE then wipe_states TRACE_MODE_PHASE_PROFILE a
      else if v = NOT_TRACING then wipe_states TRACE_MODE_DISABLED a
      else Inr]"

definition Online_Event :: "settings \<Rightarrow> occurrence \<Rightarrow> merger \<Rightarrow> merger result" where
  "Online_Event S a =
     (let type = uint (EvValue a); v = (ucast (param a) :: 32 word); put = put_event S type (ucast v) a;
          spectral = note_seen (\<lambda>s. s\<lparr>HaveSpectralEvents := True\<rparr>) in
      if type \<in> {RAW_PERIODICITY_EV, RAW_BEST_ITERS_EV, PERIODICITY_EV} then in_order
        [spectral, note_seen (\<lambda>s. s\<lparr>MaxRepresentativePeriod := max (MaxRepresentativePeriod s) v\<rparr>), put]
      else if type = DETAIL_LEVEL_EV then in_order [spectral, online_mode v a, show_state S a, put]
      else if type = CLUSTER_ID_EV then in_order [note_seen (\<lambda>s. s\<lparr>MaxClusterId := max (MaxClusterId s) v\<rparr>), put]
      else if type = CLUSTER_SUPPORT_EV then put
      else if type = ONLINE_STATE_EV then in_order
        [switch_state STATE_ONLINE_ANALYSIS (v = ONLINE_PAUSE_APP) a, show_state S a, put]
      else if type \<in> {MPI_STATS_P2P_COUNT_EV, MPI_STATS_P2P_BYTES_SENT_EV, MPI_STATS_P2P_BYTES_RECV_EV,
        MPI_STATS_GLOBAL_COUNT_EV, MPI_STATS_GLOBAL_BYTES_SENT_EV, MPI_STATS_GLOBAL_BYTES_RECV_EV,
        MPI_STATS_TIME_IN_MPI_EV, MPI_STATS_P2P_INCOMING_COUNT_EV, MPI_STATS_P2P_OUTGOING_COUNT_EV,
        MPI_STATS_P2P_INCOMING_PARTNERS_COUNT_EV, MPI_STATS_P2P_OUTGOING_PARTNERS_COUNT_EV,
        MPI_STATS_TIME_IN_OTHER_EV, MPI_STATS_TIME_IN_P2P_EV, MPI_STATS_TIME_IN_GLOBAL_EV, MPI_STATS_OTHER_COUNT_EV}
      then MPI_Stats_Event S a
      else if type = CPU_BURST_EV then CPU_Burst_Event S a
      else if type = GREMLIN_EV then put
      else Inr)"

section \<open>Communications of the user\<close>

definition user_partner :: "occurrence \<Rightarrow> 32 word" where
  "user_partner a = (if Get_EvTarget (o_event a) = -1 then o_task a - 1 else Get_EvTarget (o_event a))"

text \<open>
  Without a receiver the send is queued and an unmatched record is written, in which the thread of the receiver
  is a variable that was not set.
\<close>

definition User_Send_Event :: "settings \<Rightarrow> occurrence \<Rightarrow> merger \<Rightarrow> merger result" where
  "User_Send_Event S a m =
     (let e = o_event a; partner = user_partner a; p = o_ptask a in
      rbind (MatchComms_Enabled p (o_task a) m) (\<lambda>on.
      if \<not> on \<or> \<not> isTaskInMyGroup S (p - 1) partner then Inr m
      else rbind (get_thread p (o_task a) (o_thread a) m) (\<lambda>t.
        rbind (get_task p (partner + 1) m) (\<lambda>ti.
        rbind (ExtractRecv (o_task a - 1) (Get_EvTag e) (Get_EvAux e) (recv_queue ti)) (\<lambda>(found, q).
          let m1 = set_task p (partner + 1) (ti\<lparr>recv_queue := q\<rparr>) m;
              wait = rbind (on_task (\<lambda>own. rmap (\<lambda>q. own\<lparr>send_queue := q\<rparr>)
                  (QueueSend (Some e) e (int (WriteFileBuffer_getPosition (t_wfb t))) (o_thread a) (virtual_thread t)
                    partner (Get_EvTag e) (Get_EvAux e) (send_queue own))) p (o_task a) m1) (\<lambda>m2.
                here (trace_paraver_unmatched_communication (EnabledTasks m2 p (o_task a)) (unset_record S)
                  1 p (o_task a) (virtual_thread t) (o_time a) (ev_time e) 1 p (partner + 1) (p_thread_r (unset_record S))
                  (Get_EvSize e) (Get_EvTag e)) a m2) in
          case found of
            Some r \<Rightarrow> if recv_begin r = None then wait
              else trace_communicationAt S p (o_task a) (o_thread a) (virtual_thread t) p (partner + 1) (recv_thread r)
                (recv_vthread r) (Some e) (Some e) (recv_begin r) (recv_end r) None m1
          | None \<Rightarrow> wait)))))"

definition User_Recv_Event :: "settings \<Rightarrow> occurrence \<Rightarrow> merger \<Rightarrow> merger result" where
  "User_Recv_Event S a m =
     (let e = o_event a; partner = user_partner a; p = o_ptask a in
      rbind (MatchComms_Enabled p (o_task a) m) (\<lambda>on.
      if \<not> on \<or> \<not> isTaskInMyGroup S (p - 1) partner then Inr m
      else rbind (get_thread p (o_task a) (o_thread a) m) (\<lambda>t.
        rbind (get_task p (partner + 1) m) (\<lambda>ti.
        rbind (ExtractSend (o_task a - 1) (Get_EvTag e) (Get_EvAux e) (send_queue ti)) (\<lambda>(found, q).
          let m1 = set_task p (partner + 1) (ti\<lparr>send_queue := q\<rparr>) m;
              wait = on_task (\<lambda>own. rmap (\<lambda>q. own\<lparr>recv_queue := q\<rparr>)
                  (QueueRecv (Some e) e (o_thread a) (virtual_thread t) partner (Get_EvTag e) (Get_EvAux e)
                    (recv_queue own))) p (o_task a) m1 in
          case found of
            Some s \<Rightarrow> if send_begin s = None then wait
              else trace_communicationAt S p (partner + 1) (send_thread s) (send_vthread s) p (o_task a) (o_thread a)
                (virtual_thread t) (send_begin s) (Some (send_end s)) (Some e) e (Some (send_position s)) m1
          | None \<Rightarrow> wait)))))"

section \<open>Virtual threads\<close>

text \<open>The positions of the stacks of an active task thread, each with its type.\<close>

definition stacked_positions :: "active_task_thread_t \<Rightarrow> (32 word \<times> values_t \<times> nat) list" where
  "stacked_positions att = concat (map (\<lambda>(type, st). map (\<lambda>i. (type, st, i)) [0..<Stack_Depth st]) att)"

definition active_thread :: "32 word \<Rightarrow> task_t \<Rightarrow> active_task_thread_t result" where
  "active_thread n ti = (if n \<noteq> 0 \<and> unat n \<le> length (active_task_threads ti)
     then Inr (active_task_threads ti ! (unat n - 1)) else Inl Undefined)"

definition set_active :: "32 word \<Rightarrow> occurrence \<Rightarrow> merger \<Rightarrow> merger result" where
  "set_active n a = here (\<lambda>t. Inr (t\<lparr>active_task_thread := n\<rparr>)) a"

text \<open>A thread that runs for the first time gets empty stacks; otherwise its values are written again.\<close>

definition Resume_Virtual_Thread_Event :: "settings \<Rightarrow> occurrence \<Rightarrow> merger \<Rightarrow> merger result" where
  "Resume_Virtual_Thread_Event S a m =
     (let n = EvValue a in
      rbind (get_task (o_ptask a) (o_task a) m) (\<lambda>ti.
      if \<not> nanos_task_view S then
        if length (active_task_threads ti) < unat n then
          in_order [on_task (\<lambda>ti. Inr (ti\<lparr>active_task_threads := active_task_threads ti @
              replicate (unat n - length (active_task_threads ti)) []\<rparr>)) (o_ptask a) (o_task a), set_active n a] m
        else rbind (active_thread n ti) (\<lambda>att. in_order
          [rfold (\<lambda>(type, st, i) m. rbind (Stack_ValueAt i st) (\<lambda>v. put_event S (uint type) v a m)) (stacked_positions att),
           set_active n a] m)
      else in_order
        [here (\<lambda>t. Inr (t\<lparr>virtual_thread := n\<rparr>)) a,
         on_task (\<lambda>ti. Inr (ti\<lparr>num_virtual_threads := max n (num_virtual_threads ti)\<rparr>)) (o_ptask a) (o_task a)] m))"

definition Suspend_Virtual_Thread_Event :: "settings \<Rightarrow> occurrence \<Rightarrow> merger \<Rightarrow> merger result" where
  "Suspend_Virtual_Thread_Event S a m =
     (if \<not> nanos_task_view S then
        rbind (get_thread (o_ptask a) (o_task a) (o_thread a) m) (\<lambda>t.
        rbind (get_task (o_ptask a) (o_task a) m) (\<lambda>ti.
        rbind (active_thread (active_task_thread t) ti) (\<lambda>att.
          rfold (\<lambda>(type, st, i). put_event S (uint type) 0 a) (stacked_positions att) m)))
      else Inr m)"

definition Register_Stacked_Type_Event :: "settings \<Rightarrow> occurrence \<Rightarrow> merger \<Rightarrow> merger result" where
  "Register_Stacked_Type_Event S a m =
     (if Vector_Search (EvValue64 a) (RegisteredStackValues m) then Inr m
      else rmap (\<lambda>v. m\<lparr>RegisteredStackValues := v\<rparr>) (Vector_Add (EvValue64 a) (RegisteredStackValues m)))"

definition Register_CodeLocation_Type_Event :: "settings \<Rightarrow> occurrence \<Rightarrow> merger \<Rightarrow> merger result" where
  "Register_CodeLocation_Type_Event S a m =
     (let cl = (EvValue a, ucast (param a)) in
      if cl \<in> set (RegisteredCodeLocationTypes m) then Inr m
      else Inr (m\<lparr>RegisteredCodeLocationTypes := RegisteredCodeLocationTypes m @ [cl]\<rparr>))"

section \<open>System calls and memory\<close>

definition ForkWaitSystem_Event :: "settings \<Rightarrow> occurrence \<Rightarrow> merger \<Rightarrow> merger result" where
  "ForkWaitSystem_Event S a = in_order
     [switch_state (if EvType a \<in> {SYSTEM_EV, FORK_EV} then STATE_OVHD
        else if EvType a \<in> {WAIT_EV, WAITPID_EV} then STATE_BLOCKED else STATE_IDLE) (EvValue64 a = EVT_BEGIN) a,
      show_state S a,
      put_event S FORK_SYSCALL_EV
        (if EvValue64 a = EVT_BEGIN then ucast (MISC_event_GetValueForForkRelated (EvType a)) else 0) a]"

definition Exec_Event :: "settings \<Rightarrow> occurrence \<Rightarrow> merger \<Rightarrow> merger result" where
  "Exec_Event S a = Inr"

definition GetCPU_Event :: "settings \<Rightarrow> occurrence \<Rightarrow> merger \<Rightarrow> merger result" where
  "GetCPU_Event S a = put_event S (EvType a) (EvValue64 a) a"

definition on_regions :: "(region slots \<Rightarrow> region slots) \<Rightarrow> occurrence \<Rightarrow> merger \<Rightarrow> merger result" where
  "on_regions f a = on_task (\<lambda>ti. Inr (ti\<lparr>AddressSpace := f (AddressSpace ti)\<rparr>)) (o_ptask a) (o_task a)"

text \<open>The region from the pointer up to the size that was kept.\<close>

definition add_region :: "occurrence \<Rightarrow> merger \<Rightarrow> merger result" where
  "add_region a m = rbind (get_thread (o_ptask a) (o_task a) (o_thread a) m) (\<lambda>t.
     on_regions (AddressSpace_add (EvParam a) (EvParam a + AddressSpace_size t) (AddressSpace_calleraddresses t)
       (AddressSpace_callertype t)) a m)"

definition keep_size :: "occurrence \<Rightarrow> merger \<Rightarrow> merger result" where
  "keep_size a = here (\<lambda>t. Inr (t\<lparr>AddressSpace_size := EvParam a\<rparr>)) a"

definition keep_time :: "occurrence \<Rightarrow> merger \<Rightarrow> merger result" where
  "keep_time a = here (\<lambda>t. Inr (t\<lparr>AddressSpace_timeCreation := o_time a\<rparr>)) a"

definition put_call_site :: "settings \<Rightarrow> occurrence \<Rightarrow> merger \<Rightarrow> merger result" where
  "put_call_site S a m = rbind (get_thread (o_ptask a) (o_task a) (o_thread a) m) (\<lambda>t.
     let b = a\<lparr>o_time := AddressSpace_timeCreation t\<rparr> in
     in_order [put_callers S (AddressSpace_calleraddresses t) b,
       put_event S SAMPLING_ADDRESS_ALLOCATED_OBJECT_ALLOC_EV 0 b] m)"

definition malloc_call :: "settings \<Rightarrow> occurrence \<Rightarrow> merger \<Rightarrow> merger result" where
  "malloc_call S a =
     (if EvValue64 a = EVT_BEGIN
      then in_order [put_event S DYNAMIC_MEM_REQUESTED_SIZE_EV (EvParam a) a, keep_size a, keep_time a]
      else in_order [put_call_site S a, put_event S DYNAMIC_MEM_POINTER_OUT_EV (EvParam a) a, add_region a])"

definition free_call :: "settings \<Rightarrow> occurrence \<Rightarrow> merger \<Rightarrow> merger result" where
  "free_call S a =
     (if EvValue64 a = EVT_BEGIN
      then in_order [put_event S DYNAMIC_MEM_POINTER_IN_EV (EvParam a) a, on_regions (AddressSpace_remove (EvParam a)) a]
      else Inr)"

text \<open>The parameter of the begin is kept as the size and written as the pointer, that of the second event the other way.\<close>

definition realloc_call :: "settings \<Rightarrow> occurrence \<Rightarrow> merger \<Rightarrow> merger result" where
  "realloc_call S a =
     (if EvValue64 a = EVT_BEGIN then in_order [put_event S DYNAMIC_MEM_POINTER_IN_EV (EvParam a) a, keep_size a]
      else if EvValue64 a = EVT_BEGIN + 1
      then in_order [put_event S DYNAMIC_MEM_REQUESTED_SIZE_EV (EvParam a) a,
        on_regions (AddressSpace_remove (EvParam a)) a]
      else in_order [put_event S DYNAMIC_MEM_POINTER_OUT_EV (EvParam a) a, add_region a])"

definition calloc_call :: "settings \<Rightarrow> occurrence \<Rightarrow> merger \<Rightarrow> merger result" where
  "calloc_call S a =
     (if EvValue64 a = EVT_BEGIN
      then in_order [put_event S DYNAMIC_MEM_REQUESTED_SIZE_EV (EvParam a) a, keep_size a]
      else in_order [put_event S DYNAMIC_MEM_POINTER_OUT_EV (EvParam a) a, add_region a])"

definition DynamicMemory_Event :: "settings \<Rightarrow> occurrence \<Rightarrow> merger \<Rightarrow> merger result" where
  "DynamicMemory_Event S a = in_order
     [if EvType a \<in> {MALLOC_EV, MEMKIND_MALLOC_EV, MEMKIND_POSIX_MEMALIGN_EV, POSIX_MEMALIGN_EV, KMPC_MALLOC_EV,
        KMPC_ALIGNED_MALLOC_EV} then malloc_call S a
      else if EvType a \<in> {FREE_EV, MEMKIND_FREE_EV, KMPC_FREE_EV} then free_call S a
      else if EvType a \<in> {REALLOC_EV, MEMKIND_REALLOC_EV, KMPC_REALLOC_EV} then realloc_call S a
      else if EvType a \<in> {CALLOC_EV, MEMKIND_CALLOC_EV, KMPC_CALLOC_EV} then calloc_call S a
      else Inr,
      if EvValue64 a = EVT_BEGIN \<or> EvValue64 a = EVT_END then in_order
        [\<lambda>m. rbind (misc_Get_State (EvType a)) (\<lambda>st. switch_state st (EvValue64 a = EVT_BEGIN) a m),
         show_state S a,
         put_event S DYNAMIC_MEM_EV (if EvValue64 a = EVT_BEGIN
           then ucast (MISC_event_GetValueForDynamicMemory (EvType a)) else 0) a]
      else Inr,
      if EvValue64 a \<noteq> EVT_BEGIN
      then here (\<lambda>t. Inr (t\<lparr>AddressSpace_calleraddresses := replicate MAX_CALLERS 0\<rparr>)) a else Inr]"

definition DynamicMemory_Partition_Event :: "settings \<Rightarrow> occurrence \<Rightarrow> merger \<Rightarrow> merger result" where
  "DynamicMemory_Partition_Event S a = put_event S MEMKIND_PARTITION_EV (EvValue64 a) a"

definition SystemCall_Event :: "settings \<Rightarrow> occurrence \<Rightarrow> merger \<Rightarrow> merger result" where
  "SystemCall_Event S a = in_order
     [note_label SYSCALL_EVENTS_COUNT (unat (param a)) Syscall_Labels_Used (\<lambda>ls s. s\<lparr>Syscall_Labels_Used := ls\<rparr>),
      put_event S SYSCALL_EV (if EvValue64 a = EVT_BEGIN then param a + 1 else 0) a]"

section \<open>The tables of handlers\<close>

datatype misc_handler = H_Flush_Event | H_ReadWrite_Event | H_Appl_Event | H_InitTracing_Event | H_User_Event
  | H_Skip | H_Tracing_Event | H_SetTracing_Event | H_CPU_Burst_Event | H_GetRusage_Event | H_Memusage_Event
  | H_MPI_Stats_Event | H_USRFunction_Event | H_Tracing_Mode_Event | H_Online_Event | H_User_Send_Event
  | H_User_Recv_Event | H_Resume_Virtual_Thread_Event | H_Suspend_Virtual_Thread_Event
  | H_Register_Stacked_Type_Event | H_Register_CodeLocation_Type_Event | H_ForkWaitSystem_Event | H_Exec_Event
  | H_GetCPU_Event | H_CPUEventInterval_Event | H_Sampling_Address_Event | H_Sampling_Address_MEM_TLB_Event
  | H_DynamicMemory_Event | H_DynamicMemory_Partition_Event | H_SystemCall_Event | H_MPI_Caller_Event
  | H_Sampling_Caller_Event

fun run_misc :: "misc_handler \<Rightarrow> settings \<Rightarrow> occurrence \<Rightarrow> merger \<Rightarrow> merger result" where
  "run_misc H_Flush_Event = Flush_Event"
| "run_misc H_ReadWrite_Event = ReadWrite_Event"
| "run_misc H_Appl_Event = Appl_Event"
| "run_misc H_InitTracing_Event = InitTracing_Event"
| "run_misc H_User_Event = User_Event"
| "run_misc H_Skip = (\<lambda>S a. Inr)"
| "run_misc H_Tracing_Event = Tracing_Event"
| "run_misc H_SetTracing_Event = SetTracing_Event"
| "run_misc H_CPU_Burst_Event = CPU_Burst_Event"
| "run_misc H_GetRusage_Event = GetRusage_Event"
| "run_misc H_Memusage_Event = Memusage_Event"
| "run_misc H_MPI_Stats_Event = MPI_Stats_Event"
| "run_misc H_USRFunction_Event = USRFunction_Event"
| "run_misc H_Tracing_Mode_Event = Tracing_Mode_Event"
| "run_misc H_Online_Event = Online_Event"
| "run_misc H_User_Send_Event = User_Send_Event"
| "run_misc H_User_Recv_Event = User_Recv_Event"
| "run_misc H_Resume_Virtual_Thread_Event = Resume_Virtual_Thread_Event"
| "run_misc H_Suspend_Virtual_Thread_Event = Suspend_Virtual_Thread_Event"
| "run_misc H_Register_Stacked_Type_Event = Register_Stacked_Type_Event"
| "run_misc H_Register_CodeLocation_Type_Event = Register_CodeLocation_Type_Event"
| "run_misc H_ForkWaitSystem_Event = ForkWaitSystem_Event"
| "run_misc H_Exec_Event = Exec_Event"
| "run_misc H_GetCPU_Event = GetCPU_Event"
| "run_misc H_CPUEventInterval_Event = CPUEventInterval_Event"
| "run_misc H_Sampling_Address_Event = Sampling_Address_Event"
| "run_misc H_Sampling_Address_MEM_TLB_Event = Sampling_Address_MEM_TLB_Event"
| "run_misc H_DynamicMemory_Event = DynamicMemory_Event"
| "run_misc H_DynamicMemory_Partition_Event = DynamicMemory_Partition_Event"
| "run_misc H_SystemCall_Event = SystemCall_Event"
| "run_misc H_MPI_Caller_Event = MPI_Caller_Event"
| "run_misc H_Sampling_Caller_Event = Sampling_Caller_Event"

definition PRV_MISC_Event_Handlers :: "(int \<times> misc_handler) list" where
  "PRV_MISC_Event_Handlers = [
    (FLUSH_EV, H_Flush_Event), (OPEN_EV, H_ReadWrite_Event), (FOPEN_EV, H_ReadWrite_Event),
    (READ_EV, H_ReadWrite_Event), (WRITE_EV, H_ReadWrite_Event), (FREAD_EV, H_ReadWrite_Event),
    (FWRITE_EV, H_ReadWrite_Event), (PREAD_EV, H_ReadWrite_Event), (PWRITE_EV, H_ReadWrite_Event),
    (READV_EV, H_ReadWrite_Event), (PREADV_EV, H_ReadWrite_Event), (WRITEV_EV, H_ReadWrite_Event),
    (PWRITEV_EV, H_ReadWrite_Event), (APPL_EV, H_Appl_Event), (TRACE_INIT_EV, H_InitTracing_Event),
    (USER_EV, H_User_Event), (HWC_EV, H_Skip), (HWC_DEF_EV, H_Skip), (HWC_CHANGE_EV, H_Skip),
    (HWC_SET_OVERFLOW_EV, H_Skip), (TRACING_EV, H_Tracing_Event), (SET_TRACE_EV, H_SetTracing_Event),
    (CPU_BURST_EV, H_CPU_Burst_Event), (RUSAGE_EV, H_GetRusage_Event), (MEMUSAGE_EV, H_Memusage_Event),
    (MPI_STATS_EV, H_MPI_Stats_Event), (USRFUNC_EV, H_USRFunction_Event), (TRACING_MODE_EV, H_Tracing_Mode_Event),
    (ONLINE_EV, H_Online_Event), (USER_SEND_EV, H_User_Send_Event), (USER_RECV_EV, H_User_Recv_Event),
    (RESUME_VIRTUAL_THREAD_EV, H_Resume_Virtual_Thread_Event),
    (SUSPEND_VIRTUAL_THREAD_EV, H_Suspend_Virtual_Thread_Event),
    (REGISTER_STACKED_TYPE_EV, H_Register_Stacked_Type_Event),
    (REGISTER_CODELOCATION_TYPE_EV, H_Register_CodeLocation_Type_Event), (FORK_EV, H_ForkWaitSystem_Event),
    (WAIT_EV, H_ForkWaitSystem_Event), (SYSTEM_EV, H_ForkWaitSystem_Event), (WAITPID_EV, H_ForkWaitSystem_Event),
    (EXEC_EV, H_Exec_Event), (GETCPU_EV, H_GetCPU_Event), (CPU_EVENT_INTERVAL_EV, H_CPUEventInterval_Event),
    (SAMPLING_ADDRESS_LD_EV, H_Sampling_Address_Event), (SAMPLING_ADDRESS_ST_EV, H_Sampling_Address_Event),
    (SAMPLING_ADDRESS_MEM_LEVEL_EV, H_Sampling_Address_MEM_TLB_Event),
    (SAMPLING_ADDRESS_TLB_LEVEL_EV, H_Sampling_Address_MEM_TLB_Event),
    (SAMPLING_ADDRESS_REFERENCE_COST_EV, H_Sampling_Address_MEM_TLB_Event), (MALLOC_EV, H_DynamicMemory_Event),
    (CALLOC_EV, H_DynamicMemory_Event), (FREE_EV, H_DynamicMemory_Event), (REALLOC_EV, H_DynamicMemory_Event),
    (POSIX_MEMALIGN_EV, H_DynamicMemory_Event), (MEMKIND_MALLOC_EV, H_DynamicMemory_Event),
    (MEMKIND_CALLOC_EV, H_DynamicMemory_Event), (MEMKIND_REALLOC_EV, H_DynamicMemory_Event),
    (MEMKIND_POSIX_MEMALIGN_EV, H_DynamicMemory_Event), (MEMKIND_FREE_EV, H_DynamicMemory_Event),
    (MEMKIND_PARTITION_EV, H_DynamicMemory_Partition_Event), (SYSCALL_EV, H_SystemCall_Event),
    (KMPC_MALLOC_EV, H_DynamicMemory_Event), (KMPC_CALLOC_EV, H_DynamicMemory_Event),
    (KMPC_FREE_EV, H_DynamicMemory_Event), (KMPC_REALLOC_EV, H_DynamicMemory_Event),
    (KMPC_ALIGNED_MALLOC_EV, H_DynamicMemory_Event)]"

definition PRV_MISC_Range_Handlers :: "(int \<times> int \<times> misc_handler) list" where
  "PRV_MISC_Range_Handlers = [(CALLER_EV, CALLER_EV + int MAX_CALLERS, H_MPI_Caller_Event),
    (SAMPLING_EV, SAMPLING_EV + int MAX_CALLERS, H_Sampling_Caller_Event)]"

end
