(* ===== verification/Event_Handlers.thy ===== *)
theory Event_Handlers
  imports Misc_Semantics Communicators
begin

text \<open>
  The dispatch of events to their handlers (\<open>merger/common/semantics.c\<close>) and the main loop of the merger
  (\<open>Paraver_ProcessTraceFiles\<close> of \<open>merger/paraver/trace_to_prv.c\<close>), from the first state to the flushed files. The
  progress it prints is left out.
\<close>

section \<open>Registered handlers\<close>

datatype event_handler = Misc_handler misc_handler | Mpi_handler mpi_handler | Omp_handler omp_handler
  | Accel_handler accel_handler

fun run_event_handler :: "event_handler \<Rightarrow> settings \<Rightarrow> occurrence \<Rightarrow> merger \<Rightarrow> merger result" where
  "run_event_handler (Misc_handler h) = run_misc h"
| "run_event_handler (Mpi_handler h) = run_handler h"
| "run_event_handler (Omp_handler h) = run_omp h"
| "run_event_handler (Accel_handler h) = run_accel h"

definition Register_Event_Handlers :: "('h \<Rightarrow> event_handler) \<Rightarrow> (int \<times> 'h) list \<Rightarrow> (int \<times> int \<times> event_handler) list" where
  "Register_Event_Handlers k = map (\<lambda>(e, h). (e, e, k h))"

definition Register_Range_Handlers ::
  "('h \<Rightarrow> event_handler) \<Rightarrow> (int \<times> int \<times> 'h) list \<Rightarrow> (int \<times> int \<times> event_handler) list" where
  "Register_Range_Handlers k = map (\<lambda>(lo, hi, h). (lo, hi, k h))"

text \<open>\<open>Semantics_Initialize\<close> with \<open>PRV_SEMANTICS\<close>.\<close>

definition registered_handlers :: "(int \<times> int \<times> event_handler) list" where
  "registered_handlers =
     Register_Event_Handlers Misc_handler PRV_MISC_Event_Handlers @
     Register_Range_Handlers Misc_handler PRV_MISC_Range_Handlers @
     Register_Event_Handlers Mpi_handler PRV_MPI_Event_Handlers @
     Register_Event_Handlers Omp_handler PRV_OMP_Event_Handlers @
     Register_Event_Handlers Accel_handler PRV_pthread_Event_Handlers @
     Register_Event_Handlers Accel_handler PRV_CUDA_Event_Handlers @
     Register_Range_Handlers Accel_handler PRV_OpenCL_Event_Handlers @
     Register_Event_Handlers Accel_handler PRV_OPENSHMEM_Event_Handlers @
     Register_Event_Handlers Accel_handler PRV_Java_Event_Handlers"

definition Semantics_getEventHandler :: "int \<Rightarrow> event_handler option" where
  "Semantics_getEventHandler event =
     map_option (\<lambda>(lo, hi, h). h) (find (\<lambda>(lo, hi, h). lo \<le> event \<and> event \<le> hi) registered_handlers)"

section \<open>Stacked types\<close>

text \<open>The entry of a type in the stacks of a thread, which is added when there is none.\<close>

definition stacked_entry :: "32 word \<Rightarrow> active_task_thread_t \<Rightarrow> active_task_thread_t \<times> nat" where
  "stacked_entry type att = (case find_index (\<lambda>(ty, st). ty = type) att of
       Some pos \<Rightarrow> (att, pos)
     | None \<Rightarrow> (att @ [(type, Stack_Init)], length att))"

definition push_value :: "32 word \<Rightarrow> 64 word \<Rightarrow> active_task_thread_t \<Rightarrow> active_task_thread_t result" where
  "push_value type v att =
     (let (att1, pos) = stacked_entry type att in
      rmap (\<lambda>st. att1[pos := (fst (att1 ! pos), st)])
        (if v \<noteq> 0 then Stack_Push v (snd (att1 ! pos)) else Inr (Stack_Pop (snd (att1 ! pos)))))"

definition HandleStackedType :: "32 word \<Rightarrow> occurrence \<Rightarrow> merger \<Rightarrow> merger result" where
  "HandleStackedType type a m =
     (if EvType a = USER_EV \<and> Vector_Search (ucast type) (RegisteredStackValues m)
      then rbind (get_thread (o_ptask a) (o_task a) (o_thread a) m) (\<lambda>t.
        on_task (\<lambda>ti. rbind (active_thread (active_task_thread t) ti) (\<lambda>att.
            rmap (\<lambda>att1. ti\<lparr>active_task_threads := (active_task_threads ti)[unat (active_task_thread t) - 1 := att1]\<rparr>)
              (push_value type (param a) att))) (o_ptask a) (o_task a) m)
      else Inr m)"

definition handle_stacked_types :: "settings \<Rightarrow> occurrence \<Rightarrow> merger \<Rightarrow> merger result" where
  "handle_stacked_types S a m =
     rbind (get_task (o_ptask a) (o_task a) m) (\<lambda>ti.
       if \<not> nanos_task_view S \<and> 0 < Vector_Count (RegisteredStackValues m) \<and> active_task_threads ti \<noteq> []
       then rbind (HandleStackedType (EvValue a) a m) (\<lambda>m1.
         case find (\<lambda>(f, l). scast l = EvValue64 a) (RegisteredCodeLocationTypes m1) of
           Some (f, l) \<Rightarrow> HandleStackedType f a m1
         | None \<Rightarrow> Inr m1)
       else Inr m)"

section \<open>One event\<close>

text \<open>An event without a handler is reported and only looked at for stacked types.\<close>

definition handle_event :: "settings \<Rightarrow> event_class \<Rightarrow> occurrence \<Rightarrow> merger \<Rightarrow> merger result" where
  "handle_event S c a = in_order
     [case Semantics_getEventHandler (EvType a) of
        Some h \<Rightarrow> (\<lambda>m. rmap (Enable_Operation c (EvType a)) (run_event_handler h S a m))
      | None \<Rightarrow> Inr,
      handle_stacked_types S a]"

record translation =
  tr_files :: file_set
  tr_comms :: comm_tables
  tr_merger :: merger
  current_time :: "64 word"

definition occurrence_of :: "located \<Rightarrow> 64 word \<Rightarrow> occurrence" where
  "occurrence_of l now = \<lparr>o_event = l_event l, o_following = l_following l, o_time = now, o_cpu = l_cpu l,
     o_ptask = l_ptask l, o_task = l_task l, o_thread = l_thread l\<rparr>"

text \<open>The fuel is for the events that define a communicator.\<close>

definition translate_event :: "nat \<Rightarrow> settings \<Rightarrow> located \<Rightarrow> translation \<Rightarrow> translation result" where
  "translate_event n S l tr =
     (case getEventType (sint (ev_event (l_event l))) of
        None \<Rightarrow> Inr tr
      | Some c \<Rightarrow> rbind (located_time S l) (\<lambda>now.
          let a = occurrence_of l now in
          if c = MPI_COMM_ALIAS_TYPE
          then rmap (\<lambda>(i, fs, cs, m). tr\<lparr>tr_files := fs, tr_comms := cs, tr_merger := Enable_Operation c (EvType a) m,
              current_time := now\<rparr>)
            (GenerateAliesComunicator n S a (tr_files tr) (tr_comms tr) (tr_merger tr))
          else rmap (\<lambda>m. tr\<lparr>tr_merger := m, current_time := now\<rparr>) (handle_event S c a (tr_merger tr))))"

definition mark_event :: "located \<Rightarrow> translation \<Rightarrow> translation result" where
  "mark_event l tr = rmap (\<lambda>m. tr\<lparr>tr_merger := m\<rparr>)
     (on_thread (\<lambda>t. Inr (t\<lparr>First_Event := False, Previous_Event_Time := current_time tr\<rparr>))
       (l_ptask l) (l_task l) (l_thread l) (tr_merger tr))"

section \<open>The main loop\<close>

text \<open>The fuel bounds the number of events; \<open>Blocked\<close> stands for a loop that goes on.\<close>

fun translate_loop :: "nat \<Rightarrow> settings \<Rightarrow> located \<Rightarrow> translation \<Rightarrow> translation result" where
  "translate_loop 0 S l tr = Inl Blocked"
| "translate_loop (Suc n) S l tr =
     rbind (translate_event n S l tr) (\<lambda>tr1.
     rbind (mark_event l tr1) (\<lambda>tr2.
     rbind (GetNextEvent_FS S (tr_files tr2)) (\<lambda>(r, fs).
       case r of None \<Rightarrow> Inr (tr2\<lparr>tr_files := fs\<rparr>)
       | Some l1 \<Rightarrow> translate_loop n S l1 (tr2\<lparr>tr_files := fs\<rparr>))))"

definition on_every_file :: "(file_item \<Rightarrow> merger \<Rightarrow> merger result) \<Rightarrow> file_set \<Rightarrow> merger \<Rightarrow> merger result" where
  "on_every_file f fs = rfold f (fs_files fs)"

definition on_thread_of :: "(thread_t \<Rightarrow> thread_t result) \<Rightarrow> file_item \<Rightarrow> merger \<Rightarrow> merger result" where
  "on_thread_of f i = on_thread f (fi_ptask i) (fi_task i) (fi_thread i)"

definition Initialize_States :: "settings \<Rightarrow> file_set \<Rightarrow> merger \<Rightarrow> merger result" where
  "Initialize_States S = on_every_file (\<lambda>i. on_thread_of (initialize_thread (joint_states S)
     (circular_buffer S \<and> \<not> circular_skip_matches S) (unset_record S) (fi_cpu i) (fi_ptask i) (fi_task i) (fi_thread i)) i)"

definition Finalize_States :: "settings \<Rightarrow> file_set \<Rightarrow> 64 word \<Rightarrow> merger \<Rightarrow> merger result" where
  "Finalize_States S fs now = on_every_file (on_thread_of (finalize_thread (joint_states S) now)) fs"

definition Flush_FS :: "file_set \<Rightarrow> bool \<Rightarrow> merger \<Rightarrow> merger result" where
  "Flush_FS fs remove_last = on_every_file (on_thread_of (\<lambda>t. rmap (\<lambda>w. t\<lparr>t_wfb := w\<rparr>) (Flush_one remove_last (t_wfb t)))) fs"

text \<open>
  From the initial states to the flushed buffers. The code reads the type of the first event without a test for
  the null pointer.
\<close>

definition Paraver_ProcessTraceFiles :: "nat \<Rightarrow> settings \<Rightarrow> file_set \<Rightarrow> comm_tables \<Rightarrow> merger \<Rightarrow> translation result" where
  "Paraver_ProcessTraceFiles n S fs cs m =
     rbind (Initialize_States S fs m) (\<lambda>m1.
     rbind (Rewind_FS S fs) (\<lambda>fs1.
     rbind (GetNextEvent_FS S fs1) (\<lambda>(r, fs2). case r of
         None \<Rightarrow> Inl Undefined
       | Some l \<Rightarrow> rbind (translate_loop n S l \<lparr>tr_files = fs2, tr_comms = cs, tr_merger = m1, current_time = 0\<rparr>) (\<lambda>tr.
         rbind (Finalize_States S (tr_files tr) (current_time tr) (tr_merger tr)) (\<lambda>m2.
         rmap (\<lambda>m3. tr\<lparr>tr_merger := m3\<rparr>) (Flush_FS (tr_files tr) False m2))))))"

end
