(* ===== verification/Event_Handlers_Correct.thy ===== *)
theory Event_Handlers_Correct
  imports Event_Handlers Mpi_Events_Correct
begin

text \<open>
  What the dispatch and the handlers guarantee: every event gets a handler of its group, and a handler acts on
  its thread by the steps of \<open>Prv_Timeline\<close>.
\<close>

section \<open>Dispatch\<close>

definition handler_class :: "event_handler \<Rightarrow> event_class" where
  "handler_class h = (case h of Misc_handler _ \<Rightarrow> MISC_TYPE | Mpi_handler _ \<Rightarrow> MPI_TYPE | Omp_handler _ \<Rightarrow> OPENMP_TYPE
     | Accel_handler k \<Rightarrow>
         if k \<in> {H_pthread_Call, H_pthread_Function_Event} then PTHREAD_TYPE
         else if k = H_JAVA_JVMTI_call then JAVA_TYPE
         else if k \<in> {H_CUDA_Call, H_CUDA_GPU_Call} then CUDA_TYPE
         else if k \<in> {H_OpenCL_Acc_Call, H_OpenCL_Host_Call} then OPENCL_TYPE
         else OPENSHMEM_TYPE)"

text \<open>The group of a type by its number; the numbers of OpenMP, pthread and user functions are mixed.\<close>

definition band :: "int \<Rightarrow> event_class" where
  "band e =
     (if 50000001 \<le> e \<and> e \<le> 50001000 then MPI_TYPE
      else if 52000000 \<le> e \<and> e < 53000000 then OPENSHMEM_TYPE
      else if 48000000 \<le> e \<and> e < 49000000 then JAVA_TYPE
      else if 63100000 \<le> e \<and> e < 63300000 then CUDA_TYPE
      else if 64000000 \<le> e \<and> e < 64200000 then OPENCL_TYPE
      else if 60000000 \<le> e \<and> e < 62000000
        then (if e = USRFUNC_EV then MISC_TYPE else if e \<in> set pthread_events then PTHREAD_TYPE else OPENMP_TYPE)
      else MISC_TYPE)"

lemma bands:
  "list_all (\<lambda>e. band e = MPI_TYPE) mpi_events"
  "list_all (\<lambda>e. band e = MISC_TYPE) misc_events"
  "list_all (\<lambda>e. band e = OPENMP_TYPE) omp_events"
  "list_all (\<lambda>e. band e = PTHREAD_TYPE) pthread_events"
  "list_all (\<lambda>e. band e = JAVA_TYPE) java_events"
  "list_all (\<lambda>e. band e = CUDA_TYPE) cuda_events"
  "list_all (\<lambda>e. band e = OPENCL_TYPE) opencl_events"
  "list_all (\<lambda>e. band e = OPENSHMEM_TYPE) openshmem_events"
  by (code_simp)+

lemma table_bands:
  "list_all (\<lambda>(e, h). band e = MISC_TYPE) PRV_MISC_Event_Handlers"
  "list_all (\<lambda>(e, h). band e = MPI_TYPE) PRV_MPI_Event_Handlers"
  "list_all (\<lambda>(e, h). band e = OPENMP_TYPE) PRV_OMP_Event_Handlers"
  "list_all (\<lambda>(e, h). band e = PTHREAD_TYPE \<and> h \<in> {H_pthread_Call, H_pthread_Function_Event}) PRV_pthread_Event_Handlers"
  "list_all (\<lambda>(e, h). band e = CUDA_TYPE \<and> h \<in> {H_CUDA_Call, H_CUDA_GPU_Call}) PRV_CUDA_Event_Handlers"
  "list_all (\<lambda>(e, h). band e = OPENSHMEM_TYPE \<and> handler_class (Accel_handler h) = OPENSHMEM_TYPE) PRV_OPENSHMEM_Event_Handlers"
  "list_all (\<lambda>(e, h). band e = JAVA_TYPE \<and> h = H_JAVA_JVMTI_call) PRV_Java_Event_Handlers"
  by (code_simp)+

lemma table_keys:
  "list_all (\<lambda>e. e \<in> set (map fst PRV_MISC_Event_Handlers) \<or> e = SAMPLING_EV \<or> e = CALLER_EV) misc_events"
  "list_all (\<lambda>e. e \<in> set (map fst PRV_OMP_Event_Handlers) \<or> e = TASKFUNC_LINE_EV) omp_events"
  "list_all (\<lambda>e. e \<in> set (map fst PRV_pthread_Event_Handlers)) pthread_events"
  "list_all (\<lambda>e. e \<in> set (map fst PRV_CUDA_Event_Handlers) \<or> e = CUDASTREAMCREATE_EV) cuda_events"
  "list_all (\<lambda>e. e \<in> set (map fst PRV_Java_Event_Handlers)) java_events"
  "map fst PRV_OPENSHMEM_Event_Handlers = openshmem_events"
  "list_all (\<lambda>e. list_ex (\<lambda>(lo, hi, h). lo \<le> e \<and> e \<le> hi) PRV_OpenCL_Event_Handlers) opencl_events"
  by (code_simp)+

text \<open>Whatever type an entry of the table takes, it belongs to the group of its handler.\<close>

lemma registered_band:
  assumes "(lo, hi, h) \<in> set registered_handlers" and "lo \<le> e" and "e \<le> hi"
  shows "band e = handler_class h"
proof -
  note single = Register_Event_Handlers_def
  have misc: "band e = MISC_TYPE" if "lo = CALLER_EV \<and> hi = CALLER_EV + int MAX_CALLERS \<or> lo = SAMPLING_EV \<and> hi = SAMPLING_EV + int MAX_CALLERS"
    using that assms(2,3) by (auto simp: band_def)
  have range: "band e = OPENCL_TYPE" if "64000000 \<le> lo" "hi < 64200000"
    using that assms(2,3) by (simp add: band_def)
  have cl: "64000000 \<le> lo \<and> hi < 64200000" if "(lo, hi, k) \<in> set PRV_OpenCL_Event_Handlers" for k
    using that by (auto simp: PRV_OpenCL_Event_Handlers_def)
  have k: "k \<in> {H_OpenCL_Acc_Call, H_OpenCL_Host_Call}" if "(lo, hi, k) \<in> set PRV_OpenCL_Event_Handlers" for k
    using that by (auto simp: PRV_OpenCL_Event_Handlers_def)
  from assms(1) consider
      (s1) k where "lo = hi" "h = Misc_handler k" "(lo, k) \<in> set PRV_MISC_Event_Handlers"
    | (s2) k where "h = Misc_handler k" "(lo, hi, k) \<in> set PRV_MISC_Range_Handlers"
    | (s3) k where "lo = hi" "h = Mpi_handler k" "(lo, k) \<in> set PRV_MPI_Event_Handlers"
    | (s4) k where "lo = hi" "h = Omp_handler k" "(lo, k) \<in> set PRV_OMP_Event_Handlers"
    | (s5) k where "lo = hi" "h = Accel_handler k" "(lo, k) \<in> set PRV_pthread_Event_Handlers"
    | (s6) k where "lo = hi" "h = Accel_handler k" "(lo, k) \<in> set PRV_CUDA_Event_Handlers"
    | (s7) k where "h = Accel_handler k" "(lo, hi, k) \<in> set PRV_OpenCL_Event_Handlers"
    | (s8) k where "lo = hi" "h = Accel_handler k" "(lo, k) \<in> set PRV_OPENSHMEM_Event_Handlers"
    | (s9) k where "lo = hi" "h = Accel_handler k" "(lo, k) \<in> set PRV_Java_Event_Handlers"
    unfolding registered_handlers_def Register_Event_Handlers_def Register_Range_Handlers_def
    by (auto)
  then show ?thesis
  proof cases
    case s2
    then show ?thesis using misc by (auto simp: PRV_MISC_Range_Handlers_def handler_class_def)
  next
    case s7
    then show ?thesis using cl[OF s7(2)] k[OF s7(2)] range by (auto simp: handler_class_def)
  qed (use assms(2,3) table_bands in \<open>force simp: list_all_iff handler_class_def\<close>)+
qed

lemma handled: "e \<in> set (map fst L) \<Longrightarrow> \<exists>h. (e, e, k h) \<in> set (Register_Event_Handlers k L)"
  by (force simp: Register_Event_Handlers_def)

lemma registered_parts:
  "set (Register_Event_Handlers Misc_handler PRV_MISC_Event_Handlers) \<subseteq> set registered_handlers"
  "set (Register_Range_Handlers Misc_handler PRV_MISC_Range_Handlers) \<subseteq> set registered_handlers"
  "set (Register_Event_Handlers Mpi_handler PRV_MPI_Event_Handlers) \<subseteq> set registered_handlers"
  "set (Register_Event_Handlers Omp_handler PRV_OMP_Event_Handlers) \<subseteq> set registered_handlers"
  "set (Register_Event_Handlers Accel_handler PRV_pthread_Event_Handlers) \<subseteq> set registered_handlers"
  "set (Register_Event_Handlers Accel_handler PRV_CUDA_Event_Handlers) \<subseteq> set registered_handlers"
  "set (Register_Range_Handlers Accel_handler PRV_OpenCL_Event_Handlers) \<subseteq> set registered_handlers"
  "set (Register_Event_Handlers Accel_handler PRV_OPENSHMEM_Event_Handlers) \<subseteq> set registered_handlers"
  "set (Register_Event_Handlers Accel_handler PRV_Java_Event_Handlers) \<subseteq> set registered_handlers"
  unfolding registered_handlers_def by auto

definition registered :: "int \<Rightarrow> bool" where
  "registered e \<longleftrightarrow> (\<exists>(lo, hi, h) \<in> set registered_handlers. lo \<le> e \<and> e \<le> hi)"

lemma registeredI: "(lo, hi, h) \<in> set registered_handlers \<Longrightarrow> lo \<le> e \<Longrightarrow> e \<le> hi \<Longrightarrow> registered e"
  by (force simp: registered_def)

lemma registered_single:
  "e \<in> set (map fst L) \<Longrightarrow> set (Register_Event_Handlers k L) \<subseteq> set registered_handlers \<Longrightarrow> registered e"
  by (drule handled [of e L k]) (auto intro: registeredI)

lemma misc_ranges:
  assumes "CALLER_EV \<le> e \<and> e \<le> CALLER_EV + int MAX_CALLERS \<or> SAMPLING_EV \<le> e \<and> e \<le> SAMPLING_EV + int MAX_CALLERS"
  shows "registered e" and "band e = MISC_TYPE"
proof -
  show "band e = MISC_TYPE" using assms by (auto simp: band_def)
  have "(CALLER_EV, CALLER_EV + int MAX_CALLERS, Misc_handler H_MPI_Caller_Event) \<in> set registered_handlers"
    "(SAMPLING_EV, SAMPLING_EV + int MAX_CALLERS, Misc_handler H_Sampling_Caller_Event) \<in> set registered_handlers"
    using registered_parts(2) by (auto simp: PRV_MISC_Range_Handlers_def Register_Range_Handlers_def)
  then show "registered e" using assms by (blast intro: registeredI)
qed

text \<open>Every event of a group is in the table, but two.\<close>

lemma every_event_registered:
  assumes "getEventType e = Some c" and "c \<noteq> MPI_COMM_ALIAS_TYPE"
    and "e \<noteq> TASKFUNC_LINE_EV" and "e \<noteq> CUDASTREAMCREATE_EV"
  shows "band e = c \<and> registered e"
proof -
  note keys = table_keys [unfolded list_all_iff]
  note b = bands [unfolded list_all_iff]
  from assms(1,2) consider "c = MPI_TYPE" "IsMPI e" | "c = MISC_TYPE" "IsMISC e" | "c = OPENMP_TYPE" "IsOpenMP e"
    | "c = PTHREAD_TYPE" "IsPthread e" | "c = CUDA_TYPE" "IsCUDA e" | "c = OPENCL_TYPE" "IsOpenCL e"
    | "c = OPENSHMEM_TYPE" "IsOPENSHMEM e" | "c = JAVA_TYPE" "IsJava e"
    by (auto simp: getEventType_def split: if_splits)
  then show ?thesis
  proof cases
    case 1
    then have "e \<in> set (map fst PRV_MPI_Event_Handlers)" "band e = MPI_TYPE"
      using handled_events b(1) by (simp_all add: IsMPI_def del: set_map)
    then show ?thesis using 1(1) registered_parts(3) by (blast intro: registered_single)
  next
    case 2
    show ?thesis
    proof (cases "e \<in> set (map fst PRV_MISC_Event_Handlers) \<and> e \<in> set misc_events")
      case True
      then show ?thesis using 2(1) b(2) registered_parts(1) by (auto intro: registered_single simp del: set_map)
    next
      case False
      then have "CALLER_EV \<le> e \<and> e \<le> CALLER_EV + int MAX_CALLERS \<or> SAMPLING_EV \<le> e \<and> e \<le> SAMPLING_EV + int MAX_CALLERS"
        using 2(2) keys(1) by (auto simp: IsMISC_def simp del: set_map)
      then show ?thesis using misc_ranges 2(1) by blast
    qed
  next
    case 3
    then have "e \<in> set (map fst PRV_OMP_Event_Handlers)" "band e = OPENMP_TYPE"
      using keys(2) b(3) assms(3) by (auto simp: IsOpenMP_def simp del: set_map)
    then show ?thesis using 3(1) registered_parts(4) by (blast intro: registered_single)
  next
    case 4
    then have "e \<in> set (map fst PRV_pthread_Event_Handlers)" "band e = PTHREAD_TYPE"
      using keys(3) b(4) by (auto simp: IsPthread_def simp del: set_map)
    then show ?thesis using 4(1) registered_parts(5) by (blast intro: registered_single)
  next
    case 5
    then have "e \<in> set (map fst PRV_CUDA_Event_Handlers)" "band e = CUDA_TYPE"
      using keys(4) b(6) assms(4) by (auto simp: IsCUDA_def simp del: set_map)
    then show ?thesis using 5(1) registered_parts(6) by (blast intro: registered_single)
  next
    case 6
    then have "band e = OPENCL_TYPE" "list_ex (\<lambda>(lo, hi, h). lo \<le> e \<and> e \<le> hi) PRV_OpenCL_Event_Handlers"
      using keys(7) b(7) by (auto simp: IsOpenCL_def)
    then obtain lo hi h where "(lo, hi, h) \<in> set PRV_OpenCL_Event_Handlers" "lo \<le> e" "e \<le> hi"
      by (auto simp: list_ex_iff)
    moreover from this(1) have "(lo, hi, Accel_handler h) \<in> set registered_handlers"
      using registered_parts(7) by (force simp: Register_Range_Handlers_def)
    ultimately show ?thesis using 6(1) \<open>band e = OPENCL_TYPE\<close> by (blast intro: registeredI)
  next
    case 7
    then have "e \<in> set (map fst PRV_OPENSHMEM_Event_Handlers)" "band e = OPENSHMEM_TYPE"
      using table_keys(6) b(8) by (auto simp: IsOPENSHMEM_def simp del: set_map)
    then show ?thesis using 7(1) registered_parts(8) by (blast intro: registered_single)
  next
    case 8
    then have "e \<in> set (map fst PRV_Java_Event_Handlers)" "band e = JAVA_TYPE"
      using keys(5) b(5) by (auto simp: IsJava_def simp del: set_map)
    then show ?thesis using 8(1) registered_parts(9) by (blast intro: registered_single)
  qed
qed

lemma getEventHandler_Some:
  assumes "registered e"
  shows "\<exists>h. Semantics_getEventHandler e = Some h \<and> handler_class h = band e"
proof -
  have "find (\<lambda>(lo, hi, h). lo \<le> e \<and> e \<le> hi) registered_handlers \<noteq> None"
    using assms unfolding registered_def find_None_iff by auto
  then obtain lo hi h where f: "find (\<lambda>(lo, hi, h). lo \<le> e \<and> e \<le> hi) registered_handlers = Some (lo, hi, h)" by auto
  then have "(lo, hi, h) \<in> set registered_handlers" "lo \<le> e" "e \<le> hi"
    by (auto simp: find_Some_iff) (metis nth_mem)
  then have "handler_class h = band e" using registered_band by metis
  then show ?thesis using f by (simp add: Semantics_getEventHandler_def)
qed

text \<open>
  C12. Every event the merger translates has a handler, and it is one of the group that the classification of
  events gives, whatever the other tables hold; only the creation of a CUDA stream and the line of an
  OpenMP task function, which are in their groups, are reported as unregistered.
\<close>

theorem dispatch_by_class:
  assumes "getEventType e = Some c" and "c \<noteq> MPI_COMM_ALIAS_TYPE"
  shows "case Semantics_getEventHandler e of
      Some h \<Rightarrow> handler_class h = c
    | None \<Rightarrow> e = TASKFUNC_LINE_EV \<or> e = CUDASTREAMCREATE_EV"
proof -
  have "Semantics_getEventHandler TASKFUNC_LINE_EV = None" "Semantics_getEventHandler CUDASTREAMCREATE_EV = None"
    by code_simp+
  then show ?thesis
    using every_event_registered [OF assms] getEventHandler_Some [of e]
    by (cases "e = TASKFUNC_LINE_EV \<or> e = CUDASTREAMCREATE_EV") (auto split: option.splits)
qed

theorem dispatch_by_class_witness:
  "case Semantics_getEventHandler KMPC_FREE_EV of Some h \<Rightarrow> handler_class h = MISC_TYPE
   | None \<Rightarrow> KMPC_FREE_EV = TASKFUNC_LINE_EV \<or> KMPC_FREE_EV = CUDASTREAMCREATE_EV"
proof -
  have "getEventType KMPC_FREE_EV = Some MISC_TYPE" by code_simp
  from dispatch_by_class [OF this] show ?thesis by simp
qed

end
