(* ===== verification/Translated_Files.thy ===== *)
theory Translated_Files
  imports Thread_File Comm_Match Event_Handlers_Correct
begin

text \<open>
  The record files of all threads while the merger translates: whatever handlers run, in whatever order, every file
  stays a chain of states with at most the last one open, and every send that waits has its reserved
  record. Every handler is shown to keep this.
\<close>

section \<open>The invariant\<close>

text \<open>The position of a record that was reserved for the communication of a send.\<close>

definition reserved :: "thread_t \<Rightarrow> int \<Rightarrow> bool" where
  "reserved t pos \<longleftrightarrow> (\<exists>rs i. record_file (t_wfb t) rs \<and> i < length rs \<and> pos = int (i * REC_SIZE) \<and>
     p_type (rs ! i) = UNMATCHED_COMMUNICATION)"

definition place :: "send_data \<Rightarrow> 32 word \<times> int" where
  "place s = (send_thread s, send_position s)"

definition sends_placed :: "merger \<Rightarrow> 32 word \<Rightarrow> 32 word \<Rightarrow> send_data list \<Rightarrow> bool" where
  "sends_placed m p k ss \<longleftrightarrow> distinct (map place ss) \<and>
     (\<forall>s \<in> set ss. \<exists>t. app_threads m p k (send_thread s) = Some t \<and> reserved t (send_position s))"

definition queues_ok :: "merger \<Rightarrow> bool" where
  "queues_ok m \<longleftrightarrow> (\<forall>p k tk. app_tasks m p k = Some tk \<longrightarrow>
     queue_ok (send_queue tk) \<and> queue_ok (recv_queue tk) \<and> sends_placed m p k (sends tk))"

text \<open>\<open>R\<close> says what stays the same for every thread, \<open>F\<close> is the first state shown of it.\<close>

type_synonym runs = "32 word \<Rightarrow> 32 word \<Rightarrow> 32 word \<Rightarrow> thread_run"
type_synonym firsts = "32 word \<Rightarrow> 32 word \<Rightarrow> 32 word \<Rightarrow> mark"

definition threads_run :: "runs \<Rightarrow> firsts \<Rightarrow> merger \<Rightarrow> bool" where
  "threads_run R F m \<longleftrightarrow> (\<forall>p k h t. app_threads m p k h = Some t \<longrightarrow>
     (\<exists>ms rs. running (R p k h) ms rs t \<and> hd ms = F p k h))"

definition files_ok :: "runs \<Rightarrow> firsts \<Rightarrow> merger \<Rightarrow> bool" where
  "files_ok R F m \<longleftrightarrow> threads_run R F m \<and> queues_ok m \<and> (\<forall>p k. EnabledTasks m p k)"

definition runs_with :: "settings \<Rightarrow> runs \<Rightarrow> bool" where
  "runs_with S R \<longleftrightarrow> (\<forall>p k h. joint (R p k h) = joint_states S \<and> unset (R p k h) = unset_record S \<and>
     id_ptask (R p k h) = p \<and> id_task (R p k h) = k \<and> id_thread (R p k h) = h)"

lemma record_file_unique: "record_file w rs \<Longrightarrow> record_file w rs1 \<Longrightarrow> rs1 = rs"
proof -
  assume "record_file w rs" "record_file w rs1"
  then have "concat (map rec_bytes rs1) = concat (map rec_bytes rs)" by (simp add: record_file_def holds_recs_def holds_def)
  then have "map rec_bytes rs1 = map rec_bytes rs" by (rule concat_inject [where n = REC_SIZE]) (auto simp: REC_SIZE_def)
  then show ?thesis by (rule map_inj_on) (simp add: inj_on_def)
qed

lemma reserved_kept:
  assumes "record_file (t_wfb t) rs" and "record_file (t_wfb t1) rs1" and "kept rs rs1" and "reserved t pos"
  shows "reserved t1 pos"
proof -
  from assms(4) obtain rs0 i where i: "record_file (t_wfb t) rs0" "i < length rs0" "pos = int (i * REC_SIZE)"
    "p_type (rs0 ! i) = UNMATCHED_COMMUNICATION" by (auto simp: reserved_def)
  with record_file_unique [OF assms(1) i(1)] assms(2,3) show ?thesis
    unfolding reserved_def kept_def by (auto intro!: exI [of _ rs1] exI [of _ i])
qed

lemma get_thread_SomeD: "get_thread p k h m = Inr t \<Longrightarrow> app_threads m p k h = Some t"
  by (auto simp: get_thread_def split: option.splits)

lemma files_okD:
  assumes "files_ok R F m" and "app_threads m p k h = Some t"
  obtains ms rs where "running (R p k h) ms rs t" "hd ms = F p k h"
  using assms unfolding files_ok_def threads_run_def by blast

lemma sends_placed_thread:
  assumes "sends_placed m p k ss"
    and "\<And>h t. app_threads m p k h = Some t \<Longrightarrow> \<exists>t1. app_threads m1 p k h = Some t1 \<and>
      (\<forall>s \<in> set ss. send_thread s = h \<longrightarrow> reserved t (send_position s) \<longrightarrow> reserved t1 (send_position s))"
  shows "sends_placed m1 p k ss"
  using assms unfolding sends_placed_def by metis

lemma on_thread_files:
  assumes m: "files_ok R F m" and res: "on_thread f p k h m = Inr m1"
    and f: "\<And>t t1. app_threads m p k h = Some t \<Longrightarrow> f t = Inr t1 \<Longrightarrow> advances (R p k h) t t1"
  shows "files_ok R F m1"
proof -
  from res obtain t t1 where t: "get_thread p k h m = Inr t" "f t = Inr t1" "m1 = set_thread p k h t1 m"
    by (auto simp: on_thread_def result_simps)
  note th = get_thread_SomeD [OF t(1)]
  obtain ms rs where r: "running (R p k h) ms rs t" "hd ms = F p k h" by (rule files_okD [OF m th])
  have "goes_on (R p k h) ms rs t1" using f [OF th t(2)] r(1) unfolding advances_def by blast
  then obtain ms1 rs1 where r1: "running (R p k h) ms1 rs1 t1" "hd ms1 = F p k h" "kept rs rs1"
    unfolding goes_on_def r(2) by blast
  have "threads_run R F m1" using m r1 by (auto simp: files_ok_def threads_run_def t(3) set_thread_def)
  moreover have "queues_ok m1" unfolding queues_ok_def
  proof (intro allI impI)
    fix p' k' tk assume "app_tasks m1 p' k' = Some tk"
    then have tk: "queue_ok (send_queue tk)" "queue_ok (recv_queue tk)" "sends_placed m p' k' (sends tk)"
      using m by (auto simp: t(3) set_thread_def files_ok_def queues_ok_def)
    have "sends_placed m1 p' k' (sends tk)"
      by (rule sends_placed_thread [OF tk(3)])
        (use reserved_kept [OF running_file [OF r(1)] running_file [OF r1(1)] r1(3)] th in \<open>auto simp: t(3) set_thread_def\<close>)
    with tk show "queue_ok (send_queue tk) \<and> queue_ok (recv_queue tk) \<and> sends_placed m1 p' k' (sends tk)" by simp
  qed
  ultimately show ?thesis using m by (simp add: files_ok_def t(3) set_thread_def)
qed

text \<open>A task whose queue of sends has become shorter.\<close>

lemma sends_placed_shorter: "sends_placed m p k ss \<Longrightarrow> set ss1 \<subseteq> set ss \<Longrightarrow> distinct (map place ss1) \<Longrightarrow> sends_placed m p k ss1"
  by (auto simp: sends_placed_def)

lemma set_task_files:
  assumes m: "files_ok R F m" and tk: "app_tasks m p k = Some tk"
    and q: "queue_ok (send_queue tk1)" "queue_ok (recv_queue tk1)" "set (sends tk1) \<subseteq> set (sends tk)" "distinct (map place (sends tk1))"
  shows "files_ok R F (set_task p k tk1 m)"
proof -
  have "sends_placed m p k (sends tk)" using m tk by (auto simp: files_ok_def queues_ok_def)
  then have "sends_placed m p k (sends tk1)" using q(3,4) by (rule sends_placed_shorter)
  then show ?thesis using m q(1,2)
    by (auto simp: files_ok_def threads_run_def queues_ok_def set_task_def sends_placed_def)
qed

lemma task_queues:
  assumes "files_ok R F m" and "app_tasks m p k = Some tk"
  shows "queue_ok (send_queue tk)" and "queue_ok (recv_queue tk)" and "sends_placed m p k (sends tk)"
    and "distinct (map place (sends tk))"
  using assms by (auto simp: files_ok_def queues_ok_def sends_placed_def)

lemma on_task_files:
  assumes m: "files_ok R F m" and res: "on_task f p k m = Inr m1"
    and f: "\<And>tk tk1. app_tasks m p k = Some tk \<Longrightarrow> f tk = Inr tk1 \<Longrightarrow>
      send_queue tk1 = send_queue tk \<and> (queue_ok (recv_queue tk) \<longrightarrow> queue_ok (recv_queue tk1))"
  shows "files_ok R F m1"
proof -
  from res obtain tk tk1 where t: "get_task p k m = Inr tk" "f tk = Inr tk1" "m1 = set_task p k tk1 m"
    by (auto simp: on_task_def result_simps)
  note tk = get_task_SomeD [OF t(1)]
  show ?thesis unfolding t(3)
    using f [OF tk t(2)] task_queues [OF m tk] by (intro set_task_files [OF m tk]) (auto simp: sends_def)
qed

section \<open>Steps that keep it\<close>

definition safe :: "runs \<Rightarrow> firsts \<Rightarrow> (merger \<Rightarrow> merger result) \<Rightarrow> bool" where
  "safe R F f \<longleftrightarrow> (\<forall>m m1. files_ok R F m \<longrightarrow> f m = Inr m1 \<longrightarrow> files_ok R F m1)"

lemma safeI: "(\<And>m m1. files_ok R F m \<Longrightarrow> f m = Inr m1 \<Longrightarrow> files_ok R F m1) \<Longrightarrow> safe R F f"
  and safeD: "safe R F f \<Longrightarrow> files_ok R F m \<Longrightarrow> f m = Inr m1 \<Longrightarrow> files_ok R F m1"
  by (simp_all add: safe_def)

lemma safe_Inr: "safe R F Inr" and safe_Inl: "safe R F (\<lambda>m. Inl x)"
  by (simp_all add: safe_def)

lemma safe_nil: "safe R F (in_order [])"
  by (simp add: safe_def)

lemma safe_cons: "safe R F f \<Longrightarrow> safe R F (in_order fs) \<Longrightarrow> safe R F (in_order (f # fs))"
  unfolding safe_def in_order_simps by (blast elim: rbind_InrE)

lemma safe_if: "(P \<Longrightarrow> safe R F f) \<Longrightarrow> (\<not> P \<Longrightarrow> safe R F g) \<Longrightarrow> safe R F (if P then f else g)"
  by simp

lemma safe_if_fun: "(P \<Longrightarrow> safe R F f) \<Longrightarrow> (\<not> P \<Longrightarrow> safe R F g) \<Longrightarrow> safe R F (\<lambda>m. if P then f m else g m)"
  by (cases P) simp_all

lemma safe_if_here: "safe R F f \<Longrightarrow> safe R F g \<Longrightarrow> safe R F (\<lambda>m. if P m then f m else g m)"
  by (rule safeI) (simp split: if_splits, (erule (2) safeD)+)

lemma safe_bind: "(\<And>m x. g m = Inr x \<Longrightarrow> safe R F (f x)) \<Longrightarrow> safe R F (\<lambda>m. rbind (g m) (\<lambda>x. f x m))"
  unfolding safe_def by (blast elim: rbind_InrE)

lemma safe_rfold: "(\<And>x. x \<in> set xs \<Longrightarrow> safe R F (f x)) \<Longrightarrow> safe R F (rfold f xs)"
  unfolding safe_def using rfold_invariant [where P = "files_ok R F" and f = f and xs = xs] by blast

lemma safe_here: "(\<And>t t1. f t = Inr t1 \<Longrightarrow> advances (R (o_ptask a) (o_task a) (o_thread a)) t t1) \<Longrightarrow> safe R F (here f a)"
  unfolding here_def by (rule safeI) (erule (1) on_thread_files, blast)

lemma safe_on_task:
  assumes "\<And>tk tk1. f tk = Inr tk1 \<Longrightarrow> send_queue tk1 = send_queue tk \<and> recv_queue tk1 = recv_queue tk"
  shows "safe R F (on_task f p k)"
  by (rule safeI, erule (1) on_task_files) (use assms in auto)

lemma safe_fields:
  assumes "\<And>m. app_threads (f m) = app_threads m \<and> app_tasks (f m) = app_tasks m \<and> EnabledTasks (f m) = EnabledTasks m"
  shows "safe R F (\<lambda>m. Inr (f m))"
  using assms by (auto simp: safe_def files_ok_def threads_run_def queues_ok_def sends_placed_def)

lemma safe_switch: "safe R F (switch_state st c a)"
  unfolding switch_state_def by (rule safe_here) (rule switch_advances)

lemma safe_switch_own: "safe R F (switch_own_state c a)"
  unfolding switch_own_state_def by (rule safe_bind [where g = "\<lambda>_. Get_State (EvType a)"]) (rule safe_switch)

lemma safe_show: "runs_with S R \<Longrightarrow> safe R F (show_state S a)"
  unfolding show_state_def by (rule safe_here, rule show_advances) (simp add: runs_with_def)

lemma safe_put: "safe R F (put_event S ty v a)"
proof (rule safeI)
  fix m m1 assume m: "files_ok R F m" and res: "put_event S ty v a m = Inr m1"
  show "files_ok R F m1"
    using res unfolding put_event_def here_def by (rule on_thread_files [OF m]) (rule event_advances)
qed

lemma safe_field:
  assumes "\<And>t. t_wfb (f t) = t_wfb t \<and> t_states (f t) = t_states t \<and> virtual_thread (f t) = virtual_thread t \<and>
    incomplete_state_record (f t) = incomplete_state_record t \<and> incomplete_state_offset (f t) = incomplete_state_offset t"
  shows "safe R F (here (\<lambda>t. Inr (f t)) a)"
  using assms by (intro safe_here advances_same) auto

lemma safe_store: "safe R F (store_send a)" "safe R F (store_recv a)"
  unfolding store_send_def store_recv_def by (rule safe_field; simp)+

lemma safe_push_pop: "safe R F (push_or_pop (Push_State st) a)" "safe R F (push_or_pop (Pop_State st) a)"
  unfolding push_or_pop_def by (rule safe_here; auto simp: result_simps intro: push_advances pop_advances)+

lemma safe_wipe: "safe R F (wipe_states mode a)"
  unfolding wipe_states_def by (rule safe_here) (auto simp: result_simps intro: mode_advances)

lemma safe_count: "safe R F (count_soft ev)"
  unfolding count_soft_def [abs_def] by (rule safe_fields) simp

lemma safe_note: "safe R F (note_seen f)"
  unfolding note_seen_def [abs_def] by (rule safe_fields) simp

lemma safe_label: "safe R F (note_label len k get put)"
  by (auto simp: safe_def note_label_def result_simps files_ok_def threads_run_def queues_ok_def sends_placed_def)

section \<open>Communications\<close>

lemma reservedI: "record_file (t_wfb t) rs \<Longrightarrow> i < length rs \<Longrightarrow> p_type (rs ! i) = UNMATCHED_COMMUNICATION \<Longrightarrow>
    reserved t (int (i * REC_SIZE))"
  unfolding reserved_def by blast

lemma communicationAt_new:
  assumes m: "files_ok R F m" and res: "trace_communicationAt S ps ks hs vs pr kr hr vr sb se rb re None m = Inr m1"
  shows "files_ok R F m1"
proof -
  from res obtain es er r where on: "on_thread (trace_paraver_communication es er r None) ps ks hs m = Inr m1" "p_type r = COMMUNICATION"
    by (auto simp: trace_communicationAt_def result_simps)
  show ?thesis by (rule on_thread_files [OF m on(1)]) (rule comm_advances [OF _ on(2)])
qed

text \<open>The communication takes the place that was reserved for it, which is no one else's.\<close>

lemma communicationAt_reserved:
  assumes m: "files_ok R F m" and res: "trace_communicationAt S ps ks hs vs pr kr hr vr sb se rb re (Some pos) m = Inr m1"
    and t: "app_threads m ps ks hs = Some t" and pos: "reserved t pos"
    and own: "\<And>tk s. app_tasks m ps ks = Some tk \<Longrightarrow> s \<in> set (sends tk) \<Longrightarrow> place s \<noteq> (hs, pos)"
  shows "files_ok R F m1"
proof -
  from res obtain es er r where on: "on_thread (trace_paraver_communication es er r (Some pos)) ps ks hs m = Inr m1"
    "p_type r = COMMUNICATION" and "es = EnabledTasks m ps ks"
    by (auto simp: trace_communicationAt_def result_simps)
  then have es: "es" using m by (simp add: files_ok_def)
  obtain ms rs where r: "running (R ps ks hs) ms rs t" "hd ms = F ps ks hs" by (rule files_okD [OF m t])
  from pos obtain i where i: "i < length rs" "pos = int (i * REC_SIZE)" "p_type (rs ! i) = UNMATCHED_COMMUNICATION"
    unfolding reserved_def using record_file_unique [OF running_file [OF r(1)]] by blast
  from on(1) obtain t1 where t1: "trace_paraver_recordAt r pos t = Inr t1" "m1 = set_thread ps ks hs t1 m"
    using t es by (auto simp: on_thread_def get_thread_def trace_paraver_communication_def result_simps)
  from running_fill [OF r(1) i(1,3) t1(1) [unfolded i(2)]] on(2) have r1: "running (R ps ks hs) ms (rs[i := r]) t1" by simp
  have others: "reserved t1 pos1" if "reserved t pos1" "pos1 \<noteq> pos" for pos1
  proof -
    from that(1) obtain j where j: "j < length rs" "pos1 = int (j * REC_SIZE)" "p_type (rs ! j) = UNMATCHED_COMMUNICATION"
      unfolding reserved_def using record_file_unique [OF running_file [OF r(1)]] by blast
    then have "j \<noteq> i" using that(2) i(2) by blast
    then show ?thesis using j reservedI [OF running_file [OF r1], of j] by simp
  qed
  have "threads_run R F m1" using m r1 r(2) by (auto simp: files_ok_def threads_run_def t1(2) set_thread_def)
  moreover have "queues_ok m1" unfolding queues_ok_def
  proof (intro allI impI)
    fix p' k' tk assume "app_tasks m1 p' k' = Some tk"
    then have tk0: "app_tasks m p' k' = Some tk" by (simp add: t1(2) set_thread_def)
    note tk = task_queues [OF m this]
    have "sends_placed m1 p' k' (sends tk)"
    proof (rule sends_placed_thread [OF tk(3)])
      fix h t' assume h: "app_threads m p' k' h = Some t'"
      show "\<exists>t2. app_threads m1 p' k' h = Some t2 \<and>
          (\<forall>s \<in> set (sends tk). send_thread s = h \<longrightarrow> reserved t' (send_position s) \<longrightarrow> reserved t2 (send_position s))"
      proof (cases "(p', k', h) = (ps, ks, hs)")
        case True
        then have "send_position s \<noteq> pos" if "s \<in> set (sends tk)" "send_thread s = h" for s
          using own [of tk s] tk0 that by (auto simp: place_def)
        then show ?thesis using True h t others by (auto simp: t1(2) set_thread_def)
      qed (use h in \<open>auto simp: t1(2) set_thread_def\<close>)
    qed
    with tk show "queue_ok (send_queue tk) \<and> queue_ok (recv_queue tk) \<and> sends_placed m1 p' k' (sends tk)" by simp
  qed
  ultimately show ?thesis using m by (simp add: files_ok_def t1(2) set_thread_def)
qed

text \<open>A send that waits reserves the place behind the last record.\<close>

lemma queue_unmatched:
  assumes m: "files_ok R F m" and t: "get_thread p k h m = Inr t"
    and q: "on_task (\<lambda>ti. rmap (\<lambda>q. ti\<lparr>send_queue := q\<rparr>)
      (QueueSend b e (int (WriteFileBuffer_getPosition (t_wfb t))) h vth partner tag key (send_queue ti))) p k m = Inr m2"
    and w: "on_thread (trace_paraver_unmatched_communication (EnabledTasks m2 p k) junk c1 a1 a2 a3 a4 a5 a6 a7 a8 a9 a10 a11) p k h m2 = Inr m1"
  shows "files_ok R F m1"
proof -
  note th = get_thread_SomeD [OF t]
  obtain ms rs where r: "running (R p k h) ms rs t" "hd ms = F p k h" by (rule files_okD [OF m th])
  have pos: "WriteFileBuffer_getPosition (t_wfb t) = length rs * REC_SIZE"
    using running_file [OF r(1)] by (simp add: record_file_def prv.next_at)
  from q obtain ti q1 where q1: "app_tasks m p k = Some ti" "m2 = set_task p k (ti\<lparr>send_queue := q1\<rparr>) m"
    "QueueSend b e (int (length rs * REC_SIZE)) h vth partner tag key (send_queue ti) = Inr q1"
    by (auto simp: on_task_def result_simps pos dest: get_task_SomeD)
  note ti = task_queues [OF m q1(1)]
  from QueueSend_law [OF ti(1), of b e "int (length rs * REC_SIZE)" h vth partner tag key] q1(3) obtain s where
    s: "queue_ok q1" "queue_contents q1 = sends ti @ [s]" "place s = (h, int (length rs * REC_SIZE))"
    by (auto simp: sends_def place_def)
  have "EnabledTasks m2 p k" using m by (simp add: q1(2) files_ok_def)
  then obtain x t1 where t1: "trace_paraver_record x t = Inr t1" "p_type x = UNMATCHED_COMMUNICATION" "m1 = set_thread p k h t1 m2"
    using w t by (auto simp: on_thread_def trace_paraver_unmatched_communication_def result_simps q1(2))
  from running_put [OF r(1) t1(1)] t1(2) have r1: "running (R p k h) ms (rs @ [x]) t1" by simp
  have new: "reserved t1 (int (length rs * REC_SIZE))"
    using reservedI [OF running_file [OF r1], of "length rs"] t1(2) by simp
  have old: "reserved t1 pos" if "reserved t pos" for pos
    by (rule reserved_kept [OF running_file [OF r(1)] running_file [OF r1] _ that]) simp
  have fresh: "pos \<noteq> int (length rs * REC_SIZE)" if "reserved t pos" for pos
    using that record_file_unique [OF running_file [OF r(1)]] by (auto simp: reserved_def REC_SIZE_def)
  have thr: "app_threads m1 = (\<lambda>p' k' h'. if p' = p \<and> k' = k \<and> h' = h then Some t1 else app_threads m p' k' h')"
    by (simp add: t1(3) q1(2) set_thread_def set_task_def cong: if_cong)
  have tsk: "app_tasks m1 = (\<lambda>p' k'. if p' = p \<and> k' = k then Some (ti\<lparr>send_queue := q1\<rparr>) else app_tasks m p' k')"
    by (simp add: t1(3) q1(2) set_thread_def set_task_def)
  have placed: "sends_placed m1 p' k' ss" if "sends_placed m p' k' ss" for p' k' ss
    by (rule sends_placed_thread [OF that]) (use th old in \<open>auto simp: thr\<close>)
  have "sends_placed m1 p k (sends ti @ [s])"
  proof -
    have "place s \<notin> place ` set (sends ti)"
      using ti(3) fresh th s(3) by (fastforce simp: sends_placed_def place_def)
    with placed [OF ti(3)] new s(3) show ?thesis by (auto simp: sends_placed_def thr place_def)
  qed
  then have "queues_ok m1" unfolding queues_ok_def
    using placed m s(1,2) ti(2) by (auto simp: tsk files_ok_def queues_ok_def sends_def)
  moreover have "threads_run R F m1" using m r1 r(2) by (auto simp: files_ok_def threads_run_def thr)
  ultimately show ?thesis using m by (simp add: files_ok_def t1(3) q1(2))
qed

lemma queue_send_files:
  assumes m: "files_ok R F m" and t: "get_thread (o_ptask a) (o_task a) (o_thread a) m = Inr t"
    and res: "queue_send S begin tp a m = Inr m1"
  shows "files_ok R F m1"
  using res unfolding queue_send_def Let_def t rbind_simps here_def
  by (elim rbind_InrE) (rule queue_unmatched [OF m t])

lemma taken_smaller:
  assumes q: "queue_ok q" and res: "take_entry match q = Inr (found, q1)"
  shows "queue_ok q1" and "set (queue_contents q1) \<subseteq> set (queue_contents q)"
    and "distinct (map f (queue_contents q)) \<Longrightarrow> distinct (map f (queue_contents q1))"
  by (rule take_entry_cases [OF q res], use q in auto)+

lemma take_recv_files:
  assumes m: "files_ok R F m" and tk: "get_task p k m = Inr tk" and q: "take_entry match (recv_queue tk) = Inr (found, q)"
  shows "files_ok R F (set_task p k (tk\<lparr>recv_queue := q\<rparr>) m)"
proof -
  note t = get_task_SomeD [OF tk]
  show ?thesis using task_queues [OF m t] taken_smaller [OF _ q]
    by (intro set_task_files [OF m t]) (auto simp: sends_def)
qed

lemma take_send_files:
  assumes m: "files_ok R F m" and tk: "get_task p k m = Inr tk" and q: "take_entry match (send_queue tk) = Inr (found, q)"
  shows "files_ok R F (set_task p k (tk\<lparr>send_queue := q\<rparr>) m)"
    and "found = Some s \<Longrightarrow> \<exists>t. app_threads m p k (send_thread s) = Some t \<and> reserved t (send_position s)"
    and "found = Some s \<Longrightarrow> s1 \<in> set (sends (tk\<lparr>send_queue := q\<rparr>)) \<Longrightarrow> place s1 \<noteq> (send_thread s, send_position s)"
proof -
  note t = get_task_SomeD [OF tk]
  note old = task_queues [OF m t]
  show "files_ok R F (set_task p k (tk\<lparr>send_queue := q\<rparr>) m)"
    using old taken_smaller(1,2) [OF old(1) q] taken_smaller(3) [OF old(1) q, of place] by (intro set_task_files [OF m t]) (auto simp: sends_def)
  assume found: "found = Some s"
  have "\<exists>xs ys. sends tk = xs @ s # ys \<and> sends (tk\<lparr>send_queue := q\<rparr>) = xs @ ys"
    by (rule take_entry_cases [OF old(1) q]) (use found in \<open>auto simp: sends_def\<close>)
  then obtain xs ys where *: "sends tk = xs @ s # ys" "sends (tk\<lparr>send_queue := q\<rparr>) = xs @ ys" by blast
  then show "\<exists>t. app_threads m p k (send_thread s) = Some t \<and> reserved t (send_position s)"
    using old(3) by (auto simp: sends_placed_def)
  show "s1 \<in> set (sends (tk\<lparr>send_queue := q\<rparr>)) \<Longrightarrow> place s1 \<noteq> (send_thread s, send_position s)"
    using old(4) * by (auto simp: place_def image_iff)
qed

lemma found_send_files:
  assumes m: "files_ok R F m" and tk: "get_task p k m = Inr tk" and q: "take_entry match (send_queue tk) = Inr (Some s, q)"
    and res: "trace_communicationAt S p k (send_thread s) vs pr kr hr vr sb se rb re (Some (send_position s))
      (set_task p k (tk\<lparr>send_queue := q\<rparr>) m) = Inr m1"
  shows "files_ok R F m1"
proof -
  let ?m = "set_task p k (tk\<lparr>send_queue := q\<rparr>) m"
  note s = take_send_files [OF m tk q]
  from s(2) obtain t where t: "app_threads ?m p k (send_thread s) = Some t" "reserved t (send_position s)"
    by (auto simp: set_task_def)
  show ?thesis by (rule communicationAt_reserved [OF s(1) res t]) (use s(3) in \<open>auto simp: set_task_def\<close>)
qed

lemma wait_files:
  assumes m: "files_ok R F m" and "on_task (\<lambda>ti. rmap (\<lambda>q. ti\<lparr>recv_queue := q\<rparr>)
      (QueueRecv b e h vth partner tag key (recv_queue ti))) p k m = Inr m1"
  shows "files_ok R F m1"
  using assms(2)
proof (rule on_task_files [OF m])
  fix tk tk1 assume "rmap (\<lambda>q. tk\<lparr>recv_queue := q\<rparr>) (QueueRecv b e h vth partner tag key (recv_queue tk)) = Inr tk1"
  then show "send_queue tk1 = send_queue tk \<and> (queue_ok (recv_queue tk) \<longrightarrow> queue_ok (recv_queue tk1))"
    using QueueRecv_law [of "recv_queue tk" b e h vth partner tag key] by (auto simp: result_simps)
qed

lemma safe_match_send:
  assumes "spawns S = no_spawns"
  shows "safe R F (match_send S begin_of a)"
proof (rule safeI)
  fix m m1 assume m: "files_ok R F m" and res: "match_send S begin_of a m = Inr m1"
  from res assms show "files_ok R F m1"
  proof (cases rule: match_send_cases)
    case (tried t partner found q)
    let ?m = "set_task (o_ptask a) (Get_EvTarget (o_event a) + 1) (partner\<lparr>recv_queue := q\<rparr>) m"
    have m0: "files_ok R F ?m" by (rule take_recv_files [OF m tried(2,3)])
    have t: "get_thread (o_ptask a) (o_task a) (o_thread a) ?m = Inr t" using tried(1) by simp
    show ?thesis using tried(4)
      by (auto split: option.splits if_splits intro: queue_send_files [OF m0 t] communicationAt_new [OF m0])
  qed (use m in simp)
qed

lemma safe_match_recv:
  assumes "spawns S = no_spawns" and "pp (o_ptask a) = o_ptask a"
  shows "safe R F (match_recv S begin_of receive pp ke lax a)"
proof (rule safeI)
  fix m m1 assume m: "files_ok R F m" and res: "match_recv S begin_of receive pp ke lax a m = Inr m1"
  from res assms show "files_ok R F m1"
  proof (cases rule: match_recv_cases)
    case (tried e t partner found q)
    have m0: "files_ok R F (set_task (o_ptask a) (Get_EvTarget e + 1) (partner\<lparr>send_queue := q\<rparr>) m)"
      by (rule take_send_files(1) [OF m tried(3,4)])
    show ?thesis
    proof (cases found)
      case None
      then show ?thesis using tried(5) by (auto intro: wait_files [OF m0])
    next
      case (Some s)
      then show ?thesis using tried(4,5) m0
        by (auto split: if_splits intro: wait_files [OF m0] found_send_files [OF m tried(3)])
    qed
  qed (use m in simp)
qed

lemma safe_user_send: "safe R F (User_Send_Event S a)"
proof (rule safeI)
  fix m m1 assume m: "files_ok R F m" and res: "User_Send_Event S a m = Inr m1"
  let ?p = "o_ptask a" and ?k = "user_partner a + 1" and ?e = "o_event a"
  let ?unmatched = "\<lambda>(t :: thread_t) (m2 :: merger). trace_paraver_unmatched_communication (EnabledTasks m2 ?p (o_task a)) (unset_record S)
    1 ?p (o_task a) (virtual_thread t) (o_time a) (ev_time ?e) 1 ?p ?k (p_thread_r (unset_record S)) (Get_EvSize ?e) (Get_EvTag ?e)"
  let ?queue = "\<lambda>t. on_task (\<lambda>own. rmap (\<lambda>q. own\<lparr>send_queue := q\<rparr>)
    (QueueSend (Some ?e) ?e (int (WriteFileBuffer_getPosition (t_wfb t))) (o_thread a) (virtual_thread t)
      (user_partner a) (Get_EvTag ?e) (Get_EvAux ?e) (send_queue own))) ?p (o_task a)"
  consider (same) "m1 = m" | (tried) t ti found q where
    "get_thread ?p (o_task a) (o_thread a) m = Inr t" "get_task ?p ?k m = Inr ti"
    "ExtractRecv (o_task a - 1) (Get_EvTag ?e) (Get_EvAux ?e) (recv_queue ti) = Inr (found, q)"
    "(case found of Some r \<Rightarrow> if recv_begin r = None then rbind (?queue t (set_task ?p ?k (ti\<lparr>recv_queue := q\<rparr>) m)) (\<lambda>m2. here (?unmatched t m2) a m2)
        else trace_communicationAt S ?p (o_task a) (o_thread a) (virtual_thread t) ?p ?k (recv_thread r)
          (recv_vthread r) (Some ?e) (Some ?e) (recv_begin r) (recv_end r) None (set_task ?p ?k (ti\<lparr>recv_queue := q\<rparr>) m)
      | None \<Rightarrow> rbind (?queue t (set_task ?p ?k (ti\<lparr>recv_queue := q\<rparr>) m)) (\<lambda>m2. here (?unmatched t m2) a m2)) = Inr m1"
    using res unfolding User_Send_Event_def Let_def
    by (elim rbind_InrE) (auto split: if_splits elim!: rbind_InrE)
  then show "files_ok R F m1"
  proof cases
    case (tried t ti found q)
    let ?m = "set_task ?p ?k (ti\<lparr>recv_queue := q\<rparr>) m"
    have m0: "files_ok R F ?m" using tried(3) unfolding ExtractRecv_def by (rule take_recv_files [OF m tried(2)])
    have t: "get_thread ?p (o_task a) (o_thread a) ?m = Inr t" using tried(1) by simp
    have wait: "files_ok R F m1" if "rbind (?queue t ?m) (\<lambda>m2. here (?unmatched t m2) a m2) = Inr m1"
      using that unfolding here_def by (elim rbind_InrE) (rule queue_unmatched [OF m0 t])
    show ?thesis using tried(4) by (cases found) (auto split: if_splits intro: wait communicationAt_new [OF m0])
  qed (use m in simp)
qed

lemma safe_user_recv: "safe R F (User_Recv_Event S a)"
proof (rule safeI)
  fix m m1 assume m: "files_ok R F m" and res: "User_Recv_Event S a m = Inr m1"
  let ?p = "o_ptask a" and ?k = "user_partner a + 1" and ?e = "o_event a"
  let ?wait = "\<lambda>(t :: thread_t). on_task (\<lambda>own. rmap (\<lambda>q. own\<lparr>recv_queue := q\<rparr>)
    (QueueRecv (Some ?e) ?e (o_thread a) (virtual_thread t) (user_partner a) (Get_EvTag ?e) (Get_EvAux ?e)
      (recv_queue own))) ?p (o_task a)"
  consider (same) "m1 = m" | (tried) t ti found q where
    "get_thread ?p (o_task a) (o_thread a) m = Inr t" "get_task ?p ?k m = Inr ti"
    "ExtractSend (o_task a - 1) (Get_EvTag ?e) (Get_EvAux ?e) (send_queue ti) = Inr (found, q)"
    "(case found of Some s \<Rightarrow> if send_begin s = None then ?wait t (set_task ?p ?k (ti\<lparr>send_queue := q\<rparr>) m)
        else trace_communicationAt S ?p ?k (send_thread s) (send_vthread s) ?p (o_task a) (o_thread a)
          (virtual_thread t) (send_begin s) (Some (send_end s)) (Some ?e) ?e (Some (send_position s)) (set_task ?p ?k (ti\<lparr>send_queue := q\<rparr>) m)
      | None \<Rightarrow> ?wait t (set_task ?p ?k (ti\<lparr>send_queue := q\<rparr>) m)) = Inr m1"
    using res unfolding User_Recv_Event_def Let_def
    by (elim rbind_InrE) (auto split: if_splits elim!: rbind_InrE)
  then show "files_ok R F m1"
  proof cases
    case (tried t ti found q)
    note q = tried(3) [unfolded ExtractSend_def]
    have m0: "files_ok R F (set_task ?p ?k (ti\<lparr>send_queue := q\<rparr>) m)" by (rule take_send_files(1) [OF m tried(2) q])
    show ?thesis
    proof (cases found)
      case None
      then show ?thesis using tried(4) by (auto intro: wait_files [OF m0])
    next
      case (Some s)
      then show ?thesis using tried(4) m0 q
        by (auto split: if_splits intro: wait_files [OF m0] found_send_files [OF m tried(2)])
    qed
  qed (use m in simp)
qed

section \<open>Every handler\<close>

lemma safe_seq: "safe R F f \<Longrightarrow> safe R F g \<Longrightarrow> safe R F (\<lambda>m. rbind (f m) g)"
  unfolding safe_def by (blast elim: rbind_InrE)

lemma safe_of: "(\<And>x. safe R F (f x)) \<Longrightarrow> safe R F (\<lambda>m. f m m)"
  by (auto simp: safe_def)

lemma safe_translated: "safe R F (put_translated S tr a)"
  unfolding put_translated_def [abs_def] by (cases tr) (auto simp: safe_Inl intro: safe_put)

lemma safe_switch_if: "safe R F (switch_if st c a)"
  by (simp add: switch_if_def safe_switch safe_Inr split: option.splits)

lemmas safe_basic = safe_nil safe_cons safe_Inr safe_if safe_switch safe_switch_own safe_put safe_store safe_push_pop
  safe_wipe safe_count safe_note safe_label safe_translated safe_switch_if

lemma safe_mpi:
  assumes "runs_with S R" and "spawns S = no_spawns"
  shows "safe R F (run_handler h S a)"
proof -
  note defs = Any_Send_Event_def SendRecv_Event_def Recv_Event_def IRecv_Event_def MPI_PersistentRequest_Init_Event_def
    MPI_PersistentRequest_Event_def
    MPI_PersistentRequest_Free_Event_def MPI_Start_Event_def GlobalOP_event_def trace_enter_global_op_def
    Other_MPI_Event_def MPIIO_Event_def MPI_RMA_Event_def soft_counter_event_def Let_def
    MPI_Request_get_status_SoftwareCounter_Event_def MPI_ElapsedTimeOutsideRequest_get_status_Event_def
    MPI_IProbeSoftwareCounter_Event_def MPI_ElapsedTimeOutsideIProbes_Event_def
    MPI_ElapsedTimeOutsideTests_Event_def MPI_TestSoftwareCounter_Event_def
  have start: "safe R F (start_matching S a)"
  proof (rule safeI)
    fix m m1 assume m: "files_ok R F m" and "start_matching S a m = Inr m1"
    then have "m1 = m \<or> MatchComms_On (o_ptask a) (o_task a) m = Inr m1"
      by (auto simp: start_matching_def result_simps split: if_splits)
    moreover have "safe R F (MatchComms_On (o_ptask a) (o_task a))"
      unfolding MatchComms_On_def [abs_def] MatchComms_ChangeZone_def by (intro safe_seq safe_on_task) auto
    ultimately show "files_ok R F m1" using m by (auto dest: safeD)
  qed
  note pp = refl [of "o_ptask a"]
  show ?thesis
    by (cases h; simp only: run_handler.simps defs;
      (intro safe_basic safe_show [OF assms(1)] start safe_match_send [OF assms(2)] safe_match_recv [OF assms(2)] refl)?)
qed

lemma safe_accel:
  assumes "runs_with S R"
  shows "safe R F (run_accel h S a)"
proof -
  note defs = pthread_Call_def pthread_state_def pthread_Function_Event_def JAVA_JVMTI_call_def CUDA_Call_def CUDA_GPU_Call_def
    OpenCL_Acc_Call_def OpenCL_Host_Call_def Other_OPENSHMEM_Event_def Any_Outgoing_OPENSHMEM_Event_def
    Any_Incoming_OPENSHMEM_Event_def shmem_call_def
  show ?thesis by (cases h; simp only: run_accel.simps defs; intro safe_basic safe_show [OF assms])
qed

lemma safe_dependencies: "safe R F (on_task (\<lambda>ti. Inr (ti\<lparr>thread_dependencies := g ti\<rparr>)) p k)"
  by (rule safe_on_task) auto

lemma delete_loop_safe:
  assumes "\<And>d p m r. files_ok R F m \<Longrightarrow> cb d p m = Inr r \<Longrightarrow> files_ok R F (snd r)"
    and "files_ok R F m" and "delete_loop cb cs n m = Inr (cs1, n1, m1)"
  shows "files_ok R F m1"
  using assms(2,3)
proof (induction cs arbitrary: n m cs1 n1)
  case (Cons c cs)
  from Cons.prems(2) obtain c2 n2 m2 cs3 where step: "(case c of None \<Rightarrow> Inr (c, n, m)
       | Some d \<Rightarrow> (case predecessor_data d of None \<Rightarrow> Inr (c, n, m)
         | Some p \<Rightarrow> rmap (\<lambda>(del, st1). if del then (None, n - 1, st1) else (c, n, st1)) (cb (dependency_data d) p m))) = Inr (c2, n2, m2)"
    and rest: "delete_loop cb cs n2 m2 = Inr (cs3, n1, m1)"
    by (auto simp: rbind_Inr_iff rmap_Inr_iff)
  have "files_ok R F m2" using step Cons.prems(1) assms(1)
    by (force split: option.splits if_splits simp: rmap_Inr_iff)
  then show ?case using rest by (rule Cons.IH)
qed simp

lemma safe_omp:
  assumes "runs_with S R"
  shows "safe R F (run_omp h S a)"
proof -
  note defs = WorkSharing_Event_def Parallel_Event_def OpenMP_Function_Event_def BarrierOMP_Event_def Critical_Event_def
    Work_Event_def Join_Event_def SetGetNumThreads_Event_def Task_Event_def Taskwait_Event_def TaskGroup_Event_def OMPT_event_def
    TaskID_Event_def TaskLoopID_Event_def OMPT_TaskGroup_Event_def OMP_Stats_Event_def TaskLoop_Event_def Ordered_Event_def
    OMPT_dependence_Event_def OMPT_TaskFunction_Event_def change_and_put_def
  have emit: "files_ok R F (snd r)" if "files_ok R F m" "TaskEvent_IfEmitDependencies a d p m = Inr r" for m d p r
    using that on_thread_files [OF that(1)] comm_advances
    by (fastforce simp: TaskEvent_IfEmitDependencies_def result_simps split: if_splits)
  have set_dep: "safe R F (set_dependencies a d)" for d
    unfolding set_dependencies_def by (rule safe_dependencies)
  have process: "safe R F (\<lambda>m. rbind (ThreadDependency_processAll_ifMatchDelete (TaskEvent_IfEmitDependencies a) ds m)
      (\<lambda>(d, m1). set_dependencies a d m1))" for ds
  proof (rule safeI)
    fix m m1 assume m: "files_ok R F m" and res: "rbind (ThreadDependency_processAll_ifMatchDelete (TaskEvent_IfEmitDependencies a) ds m)
      (\<lambda>(d, m1). set_dependencies a d m1) = Inr m1"
    then obtain cs n m2 d where "delete_loop (TaskEvent_IfEmitDependencies a) (cells ds) (used ds) m = Inr (cs, n, m2)"
      "set_dependencies a d m2 = Inr m1"
      by (auto simp: ThreadDependency_processAll_ifMatchDelete_def rbind_Inr_iff rmap_Inr_iff)
    have "files_ok R F m2" by (rule delete_loop_safe [OF _ m \<open>delete_loop _ _ _ _ = _\<close>]) (rule emit)
    then show "files_ok R F m1" using \<open>set_dependencies a d m2 = Inr m1\<close> by (rule safeD [OF set_dep])
  qed
  show ?thesis
    by (cases h; simp only: run_omp.simps defs;
      (intro safe_basic safe_if_fun safe_show [OF assms] safe_dependencies safe_bind set_dep process)?)
qed

lemma safe_callers: "safe R F (put_callers S callers a)"
  unfolding put_callers_def by (rule safe_rfold) (auto intro: safe_basic)

lemma safe_call_site: "safe R F (put_call_site S a)"
  unfolding put_call_site_def [abs_def] Let_def
  by (rule safe_bind [where g = "get_thread (o_ptask a) (o_task a) (o_thread a)"]) (intro safe_basic safe_callers)

lemma safe_regions: "safe R F (on_regions f a)"
  unfolding on_regions_def by (rule safe_on_task) auto

lemma safe_memory: "safe R F (keep_size a)" "safe R F (keep_time a)" "safe R F (add_region a)"
  unfolding keep_size_def keep_time_def add_region_def [abs_def]
  by (rule safe_field, simp)+ (rule safe_bind, rule safe_regions)

lemma safe_active: "safe R F (set_active n a)"
  unfolding set_active_def by (rule safe_field) simp

lemma safe_match_off: "safe R F (MatchComms_Off p k)"
  unfolding MatchComms_Off_def [abs_def] MatchComms_ChangeZone_def
proof (rule safe_seq)
  show "safe R F (on_task (\<lambda>t. Inr (t\<lparr>match_zone := match_zone t + 1\<rparr>)) p k)" by (rule safe_on_task) auto
next
  show "safe R F (on_task (\<lambda>t. Inr (t\<lparr>MatchingComms := False,
       send_queue := NewQueue_clear (send_queue t), recv_queue := NewQueue_clear (recv_queue t)\<rparr>)) p k)"
  proof (rule safeI)
  fix m m1 assume m: "files_ok R F m" and res: "on_task (\<lambda>t. Inr (t\<lparr>MatchingComms := False,
       send_queue := NewQueue_clear (send_queue t), recv_queue := NewQueue_clear (recv_queue t)\<rparr>)) p k m = Inr m1"
  from res obtain tk where tk: "app_tasks m p k = Some tk" and m1: "m1 = set_task p k (tk\<lparr>MatchingComms := False,
       send_queue := NewQueue_clear (send_queue tk), recv_queue := NewQueue_clear (recv_queue tk)\<rparr>) m"
    by (auto simp: on_task_def result_simps dest: get_task_SomeD)
  show "files_ok R F m1" unfolding m1
    using task_queues [OF m tk] clear_ok [of "send_queue tk"] clear_ok [of "recv_queue tk"] by (intro set_task_files [OF m tk]) (auto simp: sends_def)
  qed
qed

lemma safe_online_mode: "safe R F (online_mode v a)"
  unfolding online_mode_def by (intro safe_basic safe_match_off)

lemma safe_tracing:
  assumes "runs_with S R"
  shows "safe R F (Tracing_Event S a)"
  unfolding Tracing_Event_def [abs_def] Let_def
proof (intro safe_seq safe_bind)
  show "safe R F (on_task (\<lambda>ti. Inr (ti\<lparr>tracing_disabled := True\<rparr>)) (o_ptask a) (o_task a))" by (rule safe_on_task) auto
qed (intro safe_rfold safe_basic safe_show [OF assms])+

lemma safe_set_tracing:
  assumes "runs_with S R" and "EvValue a \<noteq> 0"
  shows "safe R F (SetTracing_Event S a)"
proof -
  have flag: "safe R F (\<lambda>m. Inr (m\<lparr>EnabledTasks := at_task_of a (EvValue a \<noteq> 0) (EnabledTasks m)\<rparr>))"
    using assms(2) by (auto simp: safe_def files_ok_def threads_run_def queues_ok_def sends_placed_def at_task_of_def)
  have time: "safe R F (\<lambda>m. Inr (m\<lparr>EnabledTasks_time := f m\<rparr>))" for f by (rule safe_fields) simp
  show ?thesis unfolding SetTracing_Event_def by (intro safe_basic flag time safe_show [OF assms(1)])
qed

lemma safe_grow: "safe R F (on_task (\<lambda>ti. Inr (ti\<lparr>active_task_threads := g ti\<rparr>)) p k)"
  by (rule safe_on_task) auto

lemma safe_resume:
  assumes "\<not> nanos_task_view S"
  shows "safe R F (Resume_Virtual_Thread_Event S a)"
proof -
  have vals: "safe R F (rfold (\<lambda>(type, st, i) m. rbind (Stack_ValueAt i st) (\<lambda>v. put_event S (uint type) v a m)) xs)" for xs
    by (rule safe_rfold) (auto simp: case_prod_beta' intro!: safe_bind safe_put)
  have "safe R F (\<lambda>m. rbind (get_task (o_ptask a) (o_task a) m) (\<lambda>ti.
      if length (active_task_threads ti) < unat (EvValue a) then
        in_order [on_task (\<lambda>ti. Inr (ti\<lparr>active_task_threads := active_task_threads ti @
            replicate (unat (EvValue a) - length (active_task_threads ti)) []\<rparr>)) (o_ptask a) (o_task a), set_active (EvValue a) a] m
      else rbind (active_thread (EvValue a) ti) (\<lambda>att. in_order
        [rfold (\<lambda>(type, st, i) m. rbind (Stack_ValueAt i st) (\<lambda>v. put_event S (uint type) v a m)) (stacked_positions att),
         set_active (EvValue a) a] m)))"
    by (intro safe_bind safe_if_fun safe_basic safe_active safe_grow vals)
  then show ?thesis using assms by (simp add: Resume_Virtual_Thread_Event_def [abs_def] Let_def)
qed

lemma safe_suspend: "safe R F (Suspend_Virtual_Thread_Event S a)"
proof -
  have vals: "safe R F (rfold (\<lambda>(type, st, i). put_event S (uint type) 0 a) xs)" for xs
    by (rule safe_rfold) (auto intro!: safe_put)
  show ?thesis unfolding Suspend_Virtual_Thread_Event_def [abs_def]
    by (intro safe_if_fun safe_bind safe_Inr vals)
qed

lemma safe_user_event:
  assumes "runs_with S R"
  shows "safe R F (User_Event S a)"
proof -
  have one: "safe R F (case r of Some (f, l) \<Rightarrow> in_order [put_event S (uint f) (param a) a, put_event S (uint l) (param a) a]
      | None \<Rightarrow> put_event S (uint (EvValue a)) (param a) a)" for r :: "(32 word \<times> 32 word) option"
    by (cases r) (auto intro!: safe_basic)
  show ?thesis unfolding User_Event_def [abs_def]
    by (rule safe_of) (intro safe_basic safe_show [OF assms] one)
qed

lemma safe_address:
  assumes "runs_with S R"
  shows "safe R F (Sampling_Address_Event S a)"
proof -
  have one: "safe R F (\<lambda>m. case r of
          Some (callers, ty) \<Rightarrow> in_order [put_callers S callers a, put_event S SAMPLING_ADDRESS_ALLOCATED_OBJECT_EV 0 a] m
        | None \<Rightarrow> put_event S SAMPLING_ADDRESS_STATIC_OBJECT_EV (param a) a m)" for r :: "(64 word list \<times> 32 word) option"
    by (cases r) (auto intro!: safe_basic safe_seq safe_callers simp del: in_order_simps)
  show ?thesis unfolding Sampling_Address_Event_def
    by (intro safe_basic safe_bind [where g = "get_task (o_ptask a) (o_task a)"] one)
qed

lemma safe_registers: "safe R F (Register_Stacked_Type_Event S a)" "safe R F (Register_CodeLocation_Type_Event S a)"
  by (auto simp: safe_def Register_Stacked_Type_Event_def Register_CodeLocation_Type_Event_def Let_def result_simps
      files_ok_def threads_run_def queues_ok_def sends_placed_def split: if_splits)

lemma safe_caller_event:
  assumes "runs_with S R"
  shows "safe R F (MPI_Caller_Event S a)"
proof -
  have "safe R F (here (\<lambda>t. if n < length (AddressSpace_calleraddresses t)
      then Inr (t\<lparr>AddressSpace_calleraddresses := (AddressSpace_calleraddresses t)[n := v]\<rparr>) else Inl Undefined) a)" for n v
    by (rule safe_here, rule advances_same) (auto split: if_splits)
  then show ?thesis unfolding MPI_Caller_Event_def Let_def by (intro safe_basic safe_show [OF assms])
qed

lemma safe_memory_event:
  assumes "runs_with S R"
  shows "safe R F (DynamicMemory_Event S a)"
proof -
  have "safe R F (here (\<lambda>t. Inr (t\<lparr>AddressSpace_calleraddresses := x\<rparr>)) a)" for x by (rule safe_field) simp
  then show ?thesis unfolding DynamicMemory_Event_def malloc_call_def free_call_def realloc_call_def calloc_call_def
    by (intro safe_basic safe_call_site safe_regions safe_memory safe_show [OF assms]
        safe_bind [where g = "\<lambda>_. misc_Get_State (EvType a)"])
qed

lemma safe_misc:
  assumes "runs_with S R" and "\<not> nanos_task_view S" and "h = H_SetTracing_Event \<Longrightarrow> EvValue a \<noteq> 0"
  shows "safe R F (run_misc h S a)"
proof (cases "h = H_SetTracing_Event")
  case True
  then show ?thesis using safe_set_tracing assms by simp
next
  case False
  note defs = Flush_Event_def ReadWrite_Event_def Appl_Event_def InitTracing_Event_def CPU_Burst_Event_def GetRusage_Event_def
    Memusage_Event_def MPI_Stats_Event_def USRFunction_Event_def Tracing_Mode_Event_def Online_Event_def ForkWaitSystem_Event_def
    Exec_Event_def GetCPU_Event_def CPUEventInterval_Event_def Sampling_Address_MEM_TLB_Event_def
    DynamicMemory_Partition_Event_def SystemCall_Event_def Sampling_Caller_Event_def change_and_put_def Let_def
  note whole = safe_user_event [OF assms(1)] safe_tracing [OF assms(1)] safe_user_send safe_user_recv safe_resume [OF assms(2)]
    safe_suspend safe_registers safe_address [OF assms(1)] safe_caller_event [OF assms(1)] safe_memory_event [OF assms(1)]
  show ?thesis using False
    by (cases h; simp only: run_misc.simps simp_thms misc_handler.distinct; (simp only: defs)?;
      (intro whole safe_basic safe_online_mode safe_show [OF assms(1)])?)
qed

end
