(* ===== verification/Translated_Trace.thy ===== *)
theory Translated_Trace
  imports Translated_Files Comm_Order File_Set_Correct
begin

text \<open>
  The translation as a whole: reading the files keeps their identifiers and gives their own events, the main loop
  keeps the invariant of \<open>Translated_Files\<close>, and what is left in the record files after the last flush.
\<close>

section \<open>One event\<close>

text \<open>Tracing is never turned off: with a task disabled, the place of a send is not written, and may be taken.\<close>

definition stays_enabled :: "event_t \<Rightarrow> bool" where
  "stays_enabled e \<longleftrightarrow> (sint (ev_event e) = SET_TRACE_EV \<longrightarrow> (ucast (ev_value e) :: 32 word) \<noteq> 0)"

lemma handler_entry:
  assumes "Semantics_getEventHandler e = Some h"
  obtains lo hi where "(lo, hi, h) \<in> set registered_handlers" "lo \<le> e" "e \<le> hi"
proof -
  from assms obtain lo hi where "find (\<lambda>(lo, hi, h). lo \<le> e \<and> e \<le> hi) registered_handlers = Some (lo, hi, h)"
    by (auto simp: Semantics_getEventHandler_def)
  then show ?thesis using that nth_mem by (fastforce simp: find_Some_iff)
qed

lemma set_tracing_type:
  assumes "Semantics_getEventHandler e = Some (Misc_handler H_SetTracing_Event)"
  shows "e = SET_TRACE_EV"
proof -
  have "list_all (\<lambda>(lo, hi, h). h = Misc_handler H_SetTracing_Event \<longrightarrow> lo = SET_TRACE_EV \<and> hi = SET_TRACE_EV) registered_handlers"
    by code_simp
  then show ?thesis using assms by (force elim!: handler_entry simp: list_all_iff)
qed

lemma safe_event:
  assumes "runs_with S R" and "spawns S = no_spawns" and "\<not> nanos_task_view S" and "stays_enabled (o_event a)"
    and "Semantics_getEventHandler (EvType a) = Some h"
  shows "safe R F (run_event_handler h S a)"
proof (cases h)
  case (Misc_handler x)
  have "EvValue a \<noteq> 0" if "x = H_SetTracing_Event"
    using set_tracing_type [of "EvType a"] assms(4,5) that Misc_handler by (simp add: stays_enabled_def EvType_def EvValue_def)
  then show ?thesis using safe_misc [OF assms(1,3)] by (simp add: Misc_handler)
qed (use assms in \<open>simp_all add: safe_mpi safe_omp safe_accel\<close>)

lemma safe_used: "files_ok R F m \<Longrightarrow> files_ok R F (Enable_Operation c ty m)"
  by (auto simp: Enable_Operation_def files_ok_def threads_run_def queues_ok_def sends_placed_def Let_def
      split: event_class.splits)

lemma safe_stacked_type: "safe R F (HandleStackedType type a)"
  unfolding HandleStackedType_def [abs_def]
  by (intro safe_if_here safe_bind safe_Inr safe_on_task) (auto simp: result_simps)

lemma safe_stacked: "safe R F (handle_stacked_types S a)"
proof -
  have "safe R F (\<lambda>m1. case find (\<lambda>(f, l). scast l = EvValue64 a) (RegisteredCodeLocationTypes m1) of
      Some (f, l) \<Rightarrow> HandleStackedType f a m1 | None \<Rightarrow> Inr m1)"
    by (auto simp: safe_def split: option.splits dest: safeD [OF safe_stacked_type])
  then show ?thesis unfolding handle_stacked_types_def [abs_def]
    by (intro safe_bind safe_if_here safe_seq safe_Inr safe_stacked_type)
qed

lemma safe_handle_event:
  assumes "runs_with S R" and "spawns S = no_spawns" and "\<not> nanos_task_view S" and "stays_enabled (o_event a)"
  shows "safe R F (handle_event S c a)"
proof -
  have one: "safe R F (case Semantics_getEventHandler (EvType a) of
        Some h \<Rightarrow> (\<lambda>m. rmap (Enable_Operation c (EvType a)) (run_event_handler h S a m))
      | None \<Rightarrow> Inr)"
    by (cases "Semantics_getEventHandler (EvType a)")
      (auto simp: safe_def rmap_Inr_iff intro!: safe_used dest: safeD [OF safe_event [OF assms]])
  show ?thesis unfolding handle_event_def by (intro safe_basic one safe_stacked)
qed

section \<open>Reading the files\<close>

text \<open>While the files are read their identifiers stay, and what is read comes from them.\<close>

definition ident :: "file_item \<Rightarrow> 32 word \<times> 32 word \<times> 32 word \<times> 32 word" where
  "ident f = (fi_cpu f, fi_ptask f, fi_task f, fi_thread f)"

definition in_files :: "(32 word \<times> 32 word \<times> 32 word \<times> 32 word) list \<Rightarrow> event_t set \<Rightarrow> file_set \<Rightarrow> bool" where
  "in_files ids E fs \<longleftrightarrow> traceformat fs = PRV_SEMANTICS \<and> map ident (fs_files fs) = ids \<and>
     (\<forall>es \<in> set (map fi_events (fs_files fs)). set es \<subseteq> E)"

definition ahead_in :: "event_t set \<Rightarrow> file_set \<Rightarrow> bool" where
  "ahead_in E fs \<longleftrightarrow> (\<forall>l. min_event fs = Some l \<or> min_burst fs = Some l \<longrightarrow> l_event l \<in> E)"

definition reads_from :: "(32 word \<times> 32 word \<times> 32 word \<times> 32 word) list \<Rightarrow> event_t set \<Rightarrow> file_set \<Rightarrow> bool" where
  "reads_from ids E fs \<longleftrightarrow> in_files ids E fs \<and> (Is_FS_Rewound fs \<or> ahead_in E fs)"

lemma scan_loop_from:
  "scan_loop skip cand worse fs i best = Inr (fs1, Some (j, c)) \<Longrightarrow>
     best = Some (j, c) \<or> (\<exists>f \<in> set fs. cand (skip f) = Some c)"
proof (induction fs arbitrary: i best fs1)
  case (Cons f fs)
  then obtain best1 fs2 where step: "scan_loop skip cand worse fs (Suc i) best1 = Inr (fs2, Some (j, c))"
    "(case (cand (skip f), best) of (None, _) \<Rightarrow> Inr best | (Some c, None) \<Rightarrow> Inr (Some (i, c))
      | (Some c, Some (j, b)) \<Rightarrow> rmap (\<lambda>w. if w then Some (i, c) else best) (worse b c)) = Inr best1"
    by (auto simp: Let_def rmap_Inr_iff rbind_Inr_iff)
  from Cons.IH [OF step(1)] step(2) show ?case
    by (auto simp: rmap_Inr_iff split: option.splits prod.splits if_splits)
qed simp

lemma merge_next_from:
  assumes "merge_next Inr skip cand step worse fs = Inr (r, fs1)" and "map_option snd r = Some c"
  shows "\<exists>f \<in> set fs. cand (skip f) = Some c"
proof -
  from assms obtain j fb fa where "rcollect Inr fs = Inr fa" "scan_loop skip cand worse fa 0 None = Inr (fb, Some (j, c))"
    by (auto simp: merge_next_def Let_def rbind_Inr_iff split: if_splits)
  moreover have "rcollect Inr fs = Inr fs" using rcollect_Inr [of fs Inr "\<lambda>x. x"] by simp
  ultimately show ?thesis using scan_loop_from by fastforce
qed

lemma candidate_in: "current_event f = Some l \<Longrightarrow> l_event l \<in> set (fi_events f)"
  "current_burst f = Some l \<Longrightarrow> l_event l \<in> set (fi_events f)"
  by (auto simp: current_event_def Current_FS_def current_burst_def locate_def split: if_splits)

lemma next_reads:
  assumes "in_files ids E fs"
  shows "next_event S fs = Inr fs1 \<Longrightarrow> in_files ids E fs1 \<and> (\<forall>l. min_event fs1 = Some l \<longrightarrow> l_event l \<in> E) \<and>
      min_burst fs1 = min_burst fs \<and> Is_FS_Rewound fs1 = Is_FS_Rewound fs"
    and "next_burst S fs = Inr fs1 \<Longrightarrow> in_files ids E fs1 \<and> (\<forall>l. min_burst fs1 = Some l \<longrightarrow> l_event l \<in> E) \<and>
      min_event fs1 = min_event fs \<and> Is_FS_Rewound fs1 = Is_FS_Rewound fs"
proof -
  note E = assms [unfolded in_files_def]
  { assume "next_event S fs = Inr fs1"
    then obtain r files where r: "merge_next Inr skip_bursts current_event StepOne_FS (later S) (fs_files fs) = Inr (r, files)"
      "fs1 = fs\<lparr>fs_files := files, min_event := map_option snd r\<rparr>"
      by (auto simp: next_event_def GetNextEvent_FS_prv_def rmap_Inr_iff)
    have "map ident files = map ident (fs_files fs)" "map fi_events files = map fi_events (fs_files fs)"
      by (rule merge_next_keeps [OF r(1)]; simp add: ident_def skip_bursts_def StepOne_FS_def)+
    moreover have "l_event l \<in> E" if "map_option snd r = Some l" for l
      using merge_next_from [OF r(1) that] E candidate_in(1) by (fastforce simp: skip_bursts_def)
    ultimately show "in_files ids E fs1 \<and> (\<forall>l. min_event fs1 = Some l \<longrightarrow> l_event l \<in> E) \<and>
      min_burst fs1 = min_burst fs \<and> Is_FS_Rewound fs1 = Is_FS_Rewound fs"
      using E by (simp add: r(2) in_files_def) }
  { assume "next_burst S fs = Inr fs1"
    then obtain r files where r: "merge_next Inr skip_to_burst current_burst step_burst (later S) (fs_files fs) = Inr (r, files)"
      "fs1 = fs\<lparr>fs_files := files, min_burst := map_option snd r\<rparr>"
      by (auto simp: next_burst_def Search_CPU_Burst_def rmap_Inr_iff)
    have "map ident files = map ident (fs_files fs)" "map fi_events files = map fi_events (fs_files fs)"
      by (rule merge_next_keeps [OF r(1)]; simp add: ident_def skip_to_burst_def step_burst_def)+
    moreover have "l_event l \<in> E" if "map_option snd r = Some l" for l
      using merge_next_from [OF r(1) that] E candidate_in(2) by (fastforce simp: skip_to_burst_def)
    ultimately show "in_files ids E fs1 \<and> (\<forall>l. min_burst fs1 = Some l \<longrightarrow> l_event l \<in> E) \<and>
      min_event fs1 = min_event fs \<and> Is_FS_Rewound fs1 = Is_FS_Rewound fs"
      using E by (simp add: r(2) in_files_def) }
qed

text \<open>The choice between the next event and the next burst.\<close>

abbreviation chosen_next :: "settings \<Rightarrow> file_set \<Rightarrow> (located option \<times> file_set) result" where
  "chosen_next S fs \<equiv> (case (min_event fs, min_burst fs) of
              (None, None) \<Rightarrow> Inr (None, fs)
            | (None, Some b) \<Rightarrow> rmap (\<lambda>fs1. (Some b, fs1)) (next_burst S fs)
            | (Some e, None) \<Rightarrow> rmap (\<lambda>fs1. (Some e, fs1)) (next_event S fs)
            | (Some e, Some b) \<Rightarrow>
                rbind (later S e b) (\<lambda>burst_first.
                  if burst_first then rmap (\<lambda>fs1. (Some b, fs1)) (next_burst S fs)
                  else rmap (\<lambda>fs1. (Some e, fs1)) (next_event S fs)))"

lemma GetNextEvent_reads:
  assumes fs: "reads_from ids E fs" and res: "GetNextEvent_FS S fs = Inr (r, fs1)"
  shows "reads_from ids E fs1 \<and> (\<forall>l. r = Some l \<longrightarrow> l_event l \<in> E)"
proof -
  have "rbind (if Is_FS_Rewound fs
      then rbind (next_event S fs) (\<lambda>fs1. rmap (\<lambda>fs2. fs2\<lparr>Is_FS_Rewound := False\<rparr>) (next_burst S fs1)) else Inr fs)
    (\<lambda>fs. chosen_next S fs) = Inr (r, fs1)"
    using res fs by (simp add: GetNextEvent_FS_def reads_from_def in_files_def)
  then obtain fs0 where start: "(if Is_FS_Rewound fs
      then rbind (next_event S fs) (\<lambda>fs1. rmap (\<lambda>fs2. fs2\<lparr>Is_FS_Rewound := False\<rparr>) (next_burst S fs1)) else Inr fs) = Inr fs0"
    and r: "chosen_next S fs0 = Inr (r, fs1)" by (rule rbind_InrE)
  have fs0: "in_files ids E fs0 \<and> ahead_in E fs0"
  proof (cases "Is_FS_Rewound fs")
    case False
    then show ?thesis using fs start by (simp add: reads_from_def)
  next
    case True
    then obtain fa fb where *: "next_event S fs = Inr fa" "next_burst S fa = Inr fb" "fs0 = fb\<lparr>Is_FS_Rewound := False\<rparr>"
      using start by (auto simp: rbind_Inr_iff rmap_Inr_iff)
    have "in_files ids E fs" using fs by (simp add: reads_from_def)
    note a = next_reads(1) [OF this *(1)]
    note b = next_reads(2) [OF conjunct1 [OF a] *(2)]
    show ?thesis using a b by (auto simp: *(3) in_files_def ahead_in_def)
  qed
  have taken: "reads_from ids E fs1 \<and> (\<forall>l. r = Some l \<longrightarrow> l_event l \<in> E)"
    if "r = Some x" "l_event x \<in> E" "next_event S fs0 = Inr fs1 \<or> next_burst S fs0 = Inr fs1" for x
    using that fs0 next_reads [OF conjunct1 [OF fs0], of S fs1] by (auto simp: reads_from_def ahead_in_def)
  have E: "l_event l \<in> E" if "min_event fs0 = Some l \<or> min_burst fs0 = Some l" for l
    using that fs0 by (auto simp: ahead_in_def)
  show ?thesis
  proof (cases "min_event fs0")
    case None
    then show ?thesis using r fs0 E taken
      by (cases "min_burst fs0") (auto simp: rmap_Inr_iff reads_from_def)
  next
    case (Some e)
    show ?thesis
    proof (cases "min_burst fs0")
      case None
      with r Some have "r = Some e" "next_event S fs0 = Inr fs1" by (auto simp: rmap_Inr_iff)
      then show ?thesis using E Some taken by blast
    next
      case (Some b)
      with r \<open>min_event fs0 = Some e\<close> obtain q where q: "later S e b = Inr q"
        "(if q then rmap (\<lambda>fs1. (Some b, fs1)) (next_burst S fs0) else rmap (\<lambda>fs1. (Some e, fs1)) (next_event S fs0)) = Inr (r, fs1)"
        by (auto elim: rbind_InrE)
      then have "r = Some b \<and> next_burst S fs0 = Inr fs1 \<or> r = Some e \<and> next_event S fs0 = Inr fs1"
        by (simp add: rmap_Inr_iff split: if_splits)
      then show ?thesis using E [of b] E [of e] Some \<open>min_event fs0 = Some e\<close> taken by fast
    qed
  qed
qed

lemma read_more:
  assumes "reads_from ids E fs" and "GetNextEvent_FS S fs = Inr (r, fs1)"
  shows "reads_from ids E fs1"
  using GetNextEvent_reads [OF assms] by simp

lemma members_read:
  "reads_from ids E fs \<Longrightarrow> members_loop n S sz r ts p k fs = Inr (ts1, p1, k1, fs1) \<Longrightarrow> reads_from ids E fs1"
proof (induction n S sz r ts p k fs rule: members_loop.induct)
  case (2 n S sz r ts p k fs)
  show ?case
  proof (cases r)
    case None
    then show ?thesis using 2 by simp
  next
    case (Some l)
    let ?ty = "sint (ev_event (l_event l))"
    let ?ts = "if ?ty = MPI_RANK_CREACIO_COMM_EV then ts @ [ucast (ev_value (l_event l))] else ts"
    show ?thesis
    proof (cases "length ts < sz \<and> (?ty = MPI_RANK_CREACIO_COMM_EV \<or> ?ty = FLUSH_EV) \<and> length ?ts < sz")
      case False
      then show ?thesis using 2(3,4) Some by (auto simp: Let_def split: if_splits)
    next
      case True
      then obtain r1 fs2 where "GetNextEvent_FS S fs = Inr (r1, fs2)"
        "(case r1 of None \<Rightarrow> members_loop n S sz None ?ts p k fs2
          | Some l1 \<Rightarrow> members_loop n S sz r1 ?ts (l_ptask l1) (l_task l1) fs2) = Inr (ts1, p1, k1, fs1)"
        using 2(4) Some by (auto simp: Let_def rbind_Inr_iff split: if_splits)
      then show ?thesis using True Some 2(1,2) read_more [OF 2(3)] by (cases r1) auto
    qed
  qed
qed simp

lemma alies_files:
  assumes S: "runs_with S R" and fs: "reads_from ids E fs" and m: "files_ok R F m"
    and res: "GenerateAliesComunicator n S a fs c m = Inr (i, fs1, c1, m1)"
  shows "reads_from ids E fs1" and "files_ok R F m1"
proof -
  have emit: "safe R F (emit_alias S v a)" for v
    unfolding emit_alias_def [abs_def] by (intro safe_if_fun safe_basic safe_show [OF S])
  have em: "files_ok R F m2" if "(if traceformat fs = PRV_SEMANTICS then emit_alias S v a m else Inr m) = Inr m2" for v m2
    using that m safeD [OF emit m] by (auto split: if_splits)
  have inter: "reads_from ids E fs2" if "BuildInterCommunicatorFromFile S e fs c = Inr (k, fs2, c2)" for e k fs2 c2
  proof -
    from that consider "GetNextEvent_FS S fs = Inr (None, fs2)"
      | l fs3 r where "GetNextEvent_FS S fs = Inr (Some l, fs3)" "GetNextEvent_FS S fs3 = Inr (r, fs2)"
      unfolding BuildInterCommunicatorFromFile_def by (auto simp: rbind_Inr_iff rmap_Inr_iff split: option.splits)
    then show ?thesis
    proof cases
      case 1
      then show ?thesis by (rule read_more [OF fs])
    next
      case (2 l fs3 r)
      from read_more [OF fs 2(1)] 2(2) show ?thesis by (rule read_more)
    qed
  qed
  have intra: "reads_from ids E fs2" if build: "BuildCommunicatorFromFile n S e p k fs c = Inr (j, fs2, c2)" for e p k j fs2 c2
  proof -
    from build obtain r fs3 ts q h where "GetNextEvent_FS S fs = Inr (r, fs3)"
      "(case r of None \<Rightarrow> members_loop n S (unat (Get_EvSize e)) None [] p k fs3
        | Some l \<Rightarrow> members_loop n S (unat (Get_EvSize e)) r [] (l_ptask l) (l_task l) fs3) = Inr (ts, q, h, fs2)"
      unfolding BuildCommunicatorFromFile_def by (auto simp: Let_def rbind_Inr_iff rmap_Inr_iff split: if_splits)
    moreover from read_more [OF fs this(1)] have "reads_from ids E fs3" .
    ultimately show ?thesis by (cases r) (auto dest: members_read)
  qed
  show "reads_from ids E fs1" using res fs inter intra unfolding GenerateAliesComunicator_def Let_def
    by (auto simp: rbind_Inr_iff rmap_Inr_iff split: if_splits)
  show "files_ok R F m1" using res m em unfolding GenerateAliesComunicator_def Let_def
    by (simp add: rbind_Inr_iff rmap_Inr_iff split: if_splits) blast+
qed

section \<open>The main loop\<close>

definition translating :: "runs \<Rightarrow> firsts \<Rightarrow> (32 word \<times> 32 word \<times> 32 word \<times> 32 word) list \<Rightarrow> event_t set \<Rightarrow> translation \<Rightarrow> bool" where
  "translating R F ids E tr \<longleftrightarrow> files_ok R F (tr_merger tr) \<and> reads_from ids E (tr_files tr)"

lemma translate_event_files:
  assumes S: "runs_with S R" "spawns S = no_spawns" "\<not> nanos_task_view S" and l: "stays_enabled (l_event l)"
    and tr: "translating R F ids E tr" and res: "translate_event n S l tr = Inr tr1"
  shows "translating R F ids E tr1"
proof (cases "getEventType (sint (ev_event (l_event l)))")
  case None
  then show ?thesis using res tr by (simp add: translate_event_def)
next
  case (Some c)
  then obtain now where now: "(let a = occurrence_of l now in
          if c = MPI_COMM_ALIAS_TYPE
          then rmap (\<lambda>(i, fs, cs, m). tr\<lparr>tr_files := fs, tr_comms := cs, tr_merger := Enable_Operation c (EvType a) m,
              current_time := now\<rparr>)
            (GenerateAliesComunicator n S a (tr_files tr) (tr_comms tr) (tr_merger tr))
          else rmap (\<lambda>m. tr\<lparr>tr_merger := m, current_time := now\<rparr>) (handle_event S c a (tr_merger tr))) = Inr tr1"
    using res by (auto simp: translate_event_def elim: rbind_InrE)
  let ?a = "occurrence_of l now"
  have tr0: "files_ok R F (tr_merger tr)" "reads_from ids E (tr_files tr)" using tr by (simp_all add: translating_def)
  show ?thesis
  proof (cases "c = MPI_COMM_ALIAS_TYPE")
    case True
    then obtain i fs cs m where *: "GenerateAliesComunicator n S ?a (tr_files tr) (tr_comms tr) (tr_merger tr) = Inr (i, fs, cs, m)"
      "tr1 = tr\<lparr>tr_files := fs, tr_comms := cs, tr_merger := Enable_Operation c (EvType ?a) m, current_time := now\<rparr>"
      using now by (auto simp: Let_def rmap_Inr_iff)
    from alies_files [OF S(1) tr0(2,1) *(1)] show ?thesis by (simp add: translating_def *(2) safe_used)
  next
    case False
    then obtain m where *: "handle_event S c ?a (tr_merger tr) = Inr m" "tr1 = tr\<lparr>tr_merger := m, current_time := now\<rparr>"
      using now by (auto simp: Let_def rmap_Inr_iff)
    have "stays_enabled (o_event ?a)" using l by (simp add: occurrence_of_def)
    from safeD [OF safe_handle_event [OF S this] tr0(1) *(1)] tr0(2) show ?thesis by (simp add: translating_def *(2))
  qed
qed

lemma mark_event_files:
  assumes "translating R F ids E tr" and "mark_event l tr = Inr tr1"
  shows "translating R F ids E tr1"
proof -
  from assms obtain m where m: "on_thread (\<lambda>t. Inr (t\<lparr>First_Event := False, Previous_Event_Time := current_time tr\<rparr>))
      (l_ptask l) (l_task l) (l_thread l) (tr_merger tr) = Inr m" "tr1 = tr\<lparr>tr_merger := m\<rparr>"
    "files_ok R F (tr_merger tr)" "reads_from ids E (tr_files tr)"
    by (auto simp: mark_event_def rmap_Inr_iff translating_def)
  have "files_ok R F m" by (rule on_thread_files [OF m(3,1)]) (auto intro: advances_same)
  then show ?thesis using m by (simp add: translating_def)
qed

lemma translate_loop_files:
  assumes S: "runs_with S R" "spawns S = no_spawns" "\<not> nanos_task_view S" and E: "\<And>e. e \<in> E \<Longrightarrow> stays_enabled e"
  shows "translating R F ids E tr \<Longrightarrow> l_event l \<in> E \<Longrightarrow> translate_loop n S l tr = Inr tr1 \<Longrightarrow> translating R F ids E tr1"
proof (induction n arbitrary: l tr)
  case (Suc n)
  from Suc.prems(3) obtain ta tb r fs where *: "translate_event n S l tr = Inr ta" "mark_event l ta = Inr tb"
    "GetNextEvent_FS S (tr_files tb) = Inr (r, fs)"
    "(case r of None \<Rightarrow> Inr (tb\<lparr>tr_files := fs\<rparr>) | Some l1 \<Rightarrow> translate_loop n S l1 (tb\<lparr>tr_files := fs\<rparr>)) = Inr tr1"
    by (auto simp: rbind_Inr_iff)
  have tb: "translating R F ids E tb"
    by (rule mark_event_files [OF translate_event_files [OF S E [OF Suc.prems(2)] Suc.prems(1) *(1)] *(2)])
  then have "reads_from ids E (tr_files tb)" by (simp add: translating_def)
  note nxt = GetNextEvent_reads [OF this *(3)]
  have "translating R F ids E (tb\<lparr>tr_files := fs\<rparr>)" using tb nxt by (simp add: translating_def)
  then show ?case using *(4) nxt Suc.IH by (cases r) auto
qed simp

section \<open>The first and the last steps\<close>

definition seat :: "file_item \<Rightarrow> 32 word \<times> 32 word \<times> 32 word" where
  "seat f = (fi_ptask f, fi_task f, fi_thread f)"

definition thread_at :: "merger \<Rightarrow> 32 word \<times> 32 word \<times> 32 word \<Rightarrow> thread_t option" where
  "thread_at m = (\<lambda>(p, k, h). app_threads m p k h)"

text \<open>A pass over the files changes the thread of each once.\<close>

lemma every_file_once:
  assumes "rfold (\<lambda>f. on_thread_of (g f) f) fs m = Inr m1" and "distinct (map seat fs)"
  shows "app_tasks m1 = app_tasks m \<and> EnabledTasks m1 = EnabledTasks m \<and>
    (\<forall>s. s \<notin> seat ` set fs \<longrightarrow> thread_at m1 s = thread_at m s) \<and>
    (\<forall>f \<in> set fs. \<exists>t t1. thread_at m (seat f) = Some t \<and> g f t = Inr t1 \<and> thread_at m1 (seat f) = Some t1)"
  using assms
proof (induction fs arbitrary: m)
  case (Cons f fs)
  then obtain m0 where m0: "on_thread_of (g f) f m = Inr m0" "rfold (\<lambda>f. on_thread_of (g f) f) fs m0 = Inr m1"
    by (auto elim: rbind_InrE)
  then obtain t t1 where t: "thread_at m (seat f) = Some t" "g f t = Inr t1"
      "m0 = set_thread (fi_ptask f) (fi_task f) (fi_thread f) t1 m"
    by (auto simp: on_thread_of_def on_thread_def result_simps seat_def thread_at_def dest: get_thread_SomeD)
  have at: "thread_at m0 s = (if s = seat f then Some t1 else thread_at m s)" for s
    by (auto simp: t(3) thread_at_def seat_def set_thread_def split: prod.splits)
  have other: "seat f \<notin> seat ` set fs" using Cons.prems(2) by simp
  note IH = Cons.IH [OF m0(2)]
  have "\<exists>t t1. thread_at m (seat x) = Some t \<and> g x t = Inr t1 \<and> thread_at m1 (seat x) = Some t1" if "x \<in> set (f # fs)" for x
    using that
  proof (cases "x = f")
    case True
    then show ?thesis using IH other Cons.prems(2) t at by (simp del: split_paired_All)
  next
    case False
    then have x: "x \<in> set fs" using that by simp
    then have "seat x \<in> seat ` set fs" by (rule imageI)
    with x have "x \<in> set fs" "seat x \<noteq> seat f" using other by metis+
    moreover have "\<exists>t t1. thread_at m0 (seat x) = Some t \<and> g x t = Inr t1 \<and> thread_at m1 (seat x) = Some t1"
      using IH Cons.prems(2) x by auto
    ultimately show ?thesis by (simp add: at)
  qed
  then show ?case using IH Cons.prems(2) at t(3) by (simp add: set_thread_def del: split_paired_All)
qed simp

text \<open>
  Before the translation: every thread of the table has its file, nothing was written and no communication waits. What
  stays the same for a thread is read off the table.
\<close>

definition before_start :: "file_set \<Rightarrow> merger \<Rightarrow> bool" where
  "before_start fs m \<longleftrightarrow> distinct (map seat (fs_files fs)) \<and>
     (\<forall>s t. thread_at m s = Some t \<longrightarrow> s \<in> seat ` set (fs_files fs) \<and> t_states t = no_states \<and> record_file (t_wfb t) []) \<and>
     (\<forall>p k tk. app_tasks m p k = Some tk \<longrightarrow> queue_ok (send_queue tk) \<and> queue_ok (recv_queue tk) \<and> sends tk = []) \<and>
     (\<forall>p k. EnabledTasks m p k)"

definition run_at :: "settings \<Rightarrow> merger \<Rightarrow> runs" where
  "run_at S m p k h = (let t = the (app_threads m p k h) in
     \<lparr>joint = joint_states S, task_enabled = True, unset = unset_record S, unset_state = incomplete_state_record t,
      id_ptask = p, id_task = k, id_thread = h, id_vthread = virtual_thread t\<rparr>)"

definition first_mark :: "settings \<Rightarrow> file_item \<Rightarrow> mark" where
  "first_mark S f = (fi_cpu f, top_of (first_states (circular_buffer S \<and> \<not> circular_skip_matches S)), 0)"

definition first_at :: "settings \<Rightarrow> file_set \<Rightarrow> firsts" where
  "first_at S fs p k h = the (map_of (map (\<lambda>f. (seat f, first_mark S f)) (fs_files fs)) (p, k, h))"

lemma first_at_file:
  assumes "distinct (map seat (fs_files fs))" and "f \<in> set (fs_files fs)"
  shows "first_at S fs (fi_ptask f) (fi_task f) (fi_thread f) = first_mark S f"
proof -
  have "map_of (map (\<lambda>f. (seat f, first_mark S f)) (fs_files fs)) (seat f) = Some (first_mark S f)"
    using assms by (intro map_of_is_SomeI) (auto simp: comp_def)
  then show ?thesis by (simp add: first_at_def seat_def)
qed

lemma initialize_files:
  assumes start: "before_start fs m" and res: "Initialize_States S fs m = Inr m1"
  shows "files_ok (run_at S m) (first_at S fs) m1"
proof -
  let ?g = "\<lambda>i. initialize_thread (joint_states S) (circular_buffer S \<and> \<not> circular_skip_matches S) (unset_record S)
    (fi_cpu i) (fi_ptask i) (fi_task i) (fi_thread i)"
  have dist: "distinct (map seat (fs_files fs))" using start by (simp add: before_start_def)
  from every_file_once [OF res [unfolded Initialize_States_def on_every_file_def] dist] have
    tasks: "app_tasks m1 = app_tasks m" "EnabledTasks m1 = EnabledTasks m" and
    off: "s \<notin> seat ` set (fs_files fs) \<Longrightarrow> thread_at m1 s = thread_at m s" and
    on: "f \<in> set (fs_files fs) \<Longrightarrow> \<exists>t t1. thread_at m (seat f) = Some t \<and> ?g f t = Inr t1 \<and> thread_at m1 (seat f) = Some t1" for s f
    by (simp_all del: split_paired_All)
  have "threads_run (run_at S m) (first_at S fs) m1" unfolding threads_run_def
  proof (intro allI impI)
    fix p k h t1 assume t1: "app_threads m1 p k h = Some t1"
    have "(p, k, h) \<in> seat ` set (fs_files fs)"
    proof (rule ccontr)
      assume *: "(p, k, h) \<notin> seat ` set (fs_files fs)"
      then have "thread_at m (p, k, h) = Some t1" using off t1 by (metis thread_at_def case_prod_conv)
      then show False using start * unfolding before_start_def by blast
    qed
    then obtain f where f: "f \<in> set (fs_files fs)" "p = fi_ptask f" "k = fi_task f" "h = fi_thread f" by (auto simp: seat_def)
    from on [OF f(1)] t1 obtain t where t: "app_threads m p k h = Some t" "?g f t = Inr t1"
      by (auto simp: thread_at_def seat_def f)
    let ?R = "run_at S m p k h"
    have R: "joint ?R = joint_states S" "unset ?R = unset_record S" "unset_state ?R = incomplete_state_record t" "id_ptask ?R = p"
      "id_task ?R = k" "id_vthread ?R = virtual_thread t" using t(1) by (simp_all add: run_at_def)
    have "record_file (t_wfb t) []" "t_states t = no_states"
      using start t(1) by (auto simp: before_start_def thread_at_def)
    note new = this
    have "initialize_thread (joint ?R) (circular_buffer S \<and> \<not> circular_skip_matches S) (unset ?R) (fi_cpu f)
      (id_ptask ?R) (id_task ?R) h t = Inr t1" using t(2) by (simp only: R) (simp add: f)
    from initialize_back [OF new(1,2) _ _ this] obtain rs where "running ?R [first_mark S f] rs t1"
      using R(3,6) by (auto simp: first_mark_def)
    then show "\<exists>ms rs. running ?R ms rs t1 \<and> hd ms = first_at S fs p k h"
      using first_at_file [OF dist f(1), of S] by (auto simp: f)
  qed
  then show ?thesis using start tasks by (auto simp: files_ok_def before_start_def queues_ok_def sends_placed_def)
qed

lemma finalized_files:
  assumes m: "files_ok R F m" and R: "runs_with S R" and dist: "distinct (map seat (fs_files fs))" and f: "f \<in> set (fs_files fs)"
    and fin: "Finalize_States S fs now m = Inr m1" and flush: "Flush_FS fs False m1 = Inr m2"
  shows "\<exists>t rs ms. app_threads m2 (fi_ptask f) (fi_task f) (fi_thread f) = Some t \<and> f_bytes (FD (t_wfb t)) = concat (map rec_bytes rs) \<and>
    finished rs \<and> states_of rs = spans (R (fi_ptask f) (fi_task f) (fi_thread f)) now ms \<and>
    hd ms = F (fi_ptask f) (fi_task f) (fi_thread f) \<and> states_change (R (fi_ptask f) (fi_task f) (fi_thread f)) ms"
proof -
  let ?R = "R (fi_ptask f) (fi_task f) (fi_thread f)"
  from every_file_once [OF fin [unfolded Finalize_States_def on_every_file_def] dist] f obtain t t1 where
    t: "app_threads m (fi_ptask f) (fi_task f) (fi_thread f) = Some t" "finalize_thread (joint_states S) now t = Inr t1"
    "thread_at m1 (seat f) = Some t1" by (auto simp: thread_at_def seat_def)
  from every_file_once [OF flush [unfolded Flush_FS_def on_every_file_def] dist] f t(3) obtain w where
    w: "Flush_one False (t_wfb t1) = Inr w" "app_threads m2 (fi_ptask f) (fi_task f) (fi_thread f) = Some (t1\<lparr>t_wfb := w\<rparr>)"
    by (fastforce simp: thread_at_def seat_def rmap_Inr_iff)
  obtain ms rs where r: "running ?R ms rs t" "hd ms = F (fi_ptask f) (fi_task f) (fi_thread f)" by (rule files_okD [OF m t(1)])
  have "finalize_thread (joint ?R) now t = Inr t1" using t(2) R by (simp add: runs_with_def)
  from finalize_back [OF r(1) this] obtain rs1 where
    "record_file (t_wfb t1) rs1" "finished rs1" "states_of rs1 = spans ?R now ms" "states_change ?R ms" by blast
  moreover from flush_records [OF this(1) w(1)] have "f_bytes (FD (t_wfb (t1\<lparr>t_wfb := w\<rparr>))) = concat (map rec_bytes rs1)" by simp
  ultimately show ?thesis using w(2) r(2) by blast
qed

lemma rewound_files:
  assumes "traceformat fs = PRV_SEMANTICS" and "Rewind_FS S fs = Inr fs1"
  shows "reads_from (map ident (fs_files fs)) (\<Union>f \<in> set (fs_files fs). set (fi_events f)) fs1"
proof -
  from assms(2) obtain files where files: "rcollect (rewind_item S) (fs_files fs) = Inr files"
    "fs1 = fs\<lparr>Is_FS_Rewound := True, fs_files := files, active_file := 0\<rparr>"
    by (auto simp: Rewind_FS_def rmap_Inr_iff)
  have "map ident files = map ident (fs_files fs)" "map fi_events files = map fi_events (fs_files fs)"
    by (rule rcollect_map [OF files(1)]; auto simp: rewind_item_def ident_def split: if_splits option.splits)+
  then show ?thesis using assms(1) unfolding reads_from_def in_files_def files(2) by auto
qed

text \<open>
  C5. For the Paraver format, without spawned applications and without the view of Nanos tasks, and from threads and queues that
  are empty: whatever the files of the tracer hold, but for an event that turns the tracing of a task off, the record file of
  every thread is, when the translation returns and was flushed, a sequence of whole records without an unfinished state. Its states are the intervals between
  the times at which a state was shown, the first one from time zero, the last one until the time of the last
  event; and no two in a row are the same if they are to be joined. The events, the communications (also those
  written later into the place that was reserved for them) do not disturb the states.
\<close>

theorem translated_files:
  assumes res: "Paraver_ProcessTraceFiles n S fs cs m = Inr tr"
    and start: "before_start fs m" and "traceformat fs = PRV_SEMANTICS" and "spawns S = no_spawns" and "\<not> nanos_task_view S"
    and E: "\<forall>f \<in> set (fs_files fs). \<forall>e \<in> set (fi_events f). stays_enabled e" and f: "f \<in> set (fs_files fs)"
  shows "\<exists>t rs ms. app_threads (tr_merger tr) (fi_ptask f) (fi_task f) (fi_thread f) = Some t \<and>
    f_bytes (FD (t_wfb t)) = concat (map rec_bytes rs) \<and> finished rs \<and>
    states_of rs = spans (run_at S m (fi_ptask f) (fi_task f) (fi_thread f)) (current_time tr) ms \<and>
    hd ms = first_mark S f \<and> states_change (run_at S m (fi_ptask f) (fi_task f) (fi_thread f)) ms"
proof -
  let ?R = "run_at S m" and ?F = "first_at S fs" and ?ids = "map ident (fs_files fs)"
    and ?E = "\<Union>f \<in> set (fs_files fs). set (fi_events f)"
  obtain m1 fs1 fs2 l tr0 m2 m3 where steps: "Initialize_States S fs m = Inr m1" "Rewind_FS S fs = Inr fs1"
    "GetNextEvent_FS S fs1 = Inr (Some l, fs2)"
    "translate_loop n S l \<lparr>tr_files = fs2, tr_comms = cs, tr_merger = m1, current_time = 0\<rparr> = Inr tr0"
    "Finalize_States S (tr_files tr0) (current_time tr0) (tr_merger tr0) = Inr m2"
    "Flush_FS (tr_files tr0) False m2 = Inr m3" "tr = tr0\<lparr>tr_merger := m3\<rparr>"
    using res by (auto simp: Paraver_ProcessTraceFiles_def rbind_Inr_iff rmap_Inr_iff split: option.splits)
  have R: "runs_with S ?R" by (simp add: runs_with_def run_at_def Let_def)
  note read = GetNextEvent_reads [OF rewound_files [OF assms(3) steps(2)] steps(3)]
  have "translating ?R ?F ?ids ?E \<lparr>tr_files = fs2, tr_comms = cs, tr_merger = m1, current_time = 0\<rparr>"
    using initialize_files [OF start steps(1)] read by (simp add: translating_def)
  from translate_loop_files [OF R assms(4,5) _ this _ steps(4)] read E have tr0: "translating ?R ?F ?ids ?E tr0" by blast
  have ids: "map ident (fs_files (tr_files tr0)) = ?ids" using tr0 by (simp add: translating_def reads_from_def in_files_def)
  then have seats: "map seat (fs_files (tr_files tr0)) = map seat (fs_files fs)"
  proof -
    have "map seat xs = map snd (map ident xs)" for xs by (simp add: seat_def ident_def)
    then show ?thesis using ids by metis
  qed
  have dist: "distinct (map seat (fs_files fs))" using start by (simp add: before_start_def)
  have "seat f \<in> set (map seat (fs_files fs))" using f by simp
  then have "seat f \<in> set (map seat (fs_files (tr_files tr0)))" by (simp only: seats)
  then obtain f1 where f1: "f1 \<in> set (fs_files (tr_files tr0))" "seat f1 = seat f" by auto
  have "files_ok ?R ?F (tr_merger tr0)" using tr0 by (simp add: translating_def)
  from finalized_files [OF this R _ f1(1) steps(5,6)] dist f1(2) show ?thesis
    by (simp add: seats steps(7) seat_def first_at_file [OF dist f])
qed

section \<open>A concrete trace\<close>

text \<open>A trace of one thread, which empties its buffer at time ten.\<close>

definition ex_trace :: file_set where
  "ex_trace = \<lparr>fs_files = [ex_file 0 [ex_event 40000003 1 10]],
     traceformat = PRV_SEMANTICS, active_file = 0, input_files = [], Is_FS_Rewound = False,
     min_event = None, min_burst = None\<rparr>"

definition ex_table :: merger where
  "ex_table = \<lparr>app_threads = (\<lambda>p k h. if p = 1 \<and> k = 1 \<and> h = 1 then Some ex_thread else None),
     app_tasks = (\<lambda>p k. if p = 1 \<and> k = 1 then Some ex_task1 else None),
     EnabledTasks = (\<lambda>p k. True), EnabledTasks_time = (\<lambda>p k. 0), RegisteredStackValues = Vector_Init,
     RegisteredCodeLocationTypes = [], mpi_used = no_usage, labels_seen = nothing_seen\<rparr>"

text \<open>A result that is there and satisfies a predicate.\<close>

definition returns :: "'a result \<Rightarrow> ('a \<Rightarrow> bool) \<Rightarrow> bool" where
  "returns r P = (case r of Inl _ \<Rightarrow> False | Inr x \<Rightarrow> P x)"

lemma returnsE: "returns r P \<Longrightarrow> (\<And>x. r = Inr x \<Longrightarrow> P x \<Longrightarrow> thesis) \<Longrightarrow> thesis"
  by (auto simp: returns_def split: sum.splits)

text \<open>What happens to the thread.\<close>

lemma ex_thread_steps:
  obtains t1 t2 t3 t4 t5 w where "initialize_thread True False ex_record 1 1 1 1 ex_thread = Inr t1"
    "switch_thread STATE_FLUSH True t1 = Inr t2" "trace_paraver_state True False ex_record 1 1 1 1 10 t2 = Inr t3"
    "trace_paraver_event True ex_record 1 1 1 10 40000003 1 t3 = Inr t4"
    "finalize_thread True 10 (t4\<lparr>First_Event := False, Previous_Event_Time := 10\<rparr>) = Inr t5"
    "Flush_one False (t_wfb t5) = Inr w"
proof -
  define R where "R = ex_run\<lparr>id_task := 1\<rparr>"
  have R: "joint R" "task_enabled R" "unset R = ex_record" "id_ptask R = 1" "id_task R = 1" "id_thread R = 1"
    by (simp_all add: R_def ex_run_def)
  have "holds (t_wfb ex_thread) []" unfolding ex_thread_def by (simp, rule new_law) (simp_all add: REC_SIZE_def)
  then have "fresh_thread R 8 ex_thread"
    by (simp add: fresh_thread_def holds_recs_def R_def ex_run_def ex_thread_def disk_room_def WriteFileBuffer_new_def REC_SIZE_def)
  from initialize_law [OF this, of False 1] obtain t1 where t1: "initialize_thread True False ex_record 1 1 1 1 ex_thread = Inr t1"
    "open_at R 1 STATE_STOPPED 0 [] [] t1" "disk_room (t_wfb t1) 9" "states (t_states t1) = [STATE_STOPPED]"
    by (auto simp: R first_states_def top_of_def)
  have "stack_ok (t_states t1)" using t1(2) by (simp add: open_at_def)
  from switch_law [OF this, of STATE_FLUSH True] obtain s where s: "switch_thread STATE_FLUSH True t1 = Inr (t1\<lparr>t_states := s\<rparr>)"
    "stack_ok s" "states s = [STATE_STOPPED, STATE_FLUSH]"
    by (auto simp: t1(4) switched_def without_not_tracing_def top_of_def state_ids)
  let ?t2 = "t1\<lparr>t_states := s\<rparr>"
  have t2: "open_at R 1 STATE_STOPPED 0 [] [] ?t2" "disk_room (t_wfb ?t2) 9" "[STATE_STOPPED, STATE_FLUSH] = states (t_states ?t2)"
    using open_at_states [OF t1(2) s(2)] t1(3) s(3) by simp_all
  from show_law [OF t2(1,2) _ t2(3), of 1 10] obtain t3 where
    t3: "trace_paraver_state True False ex_record 1 1 1 1 10 ?t2 = Inr t3" "disk_room (t_wfb t3) 9"
      "open_at R 1 STATE_FLUSH 10 (interval R 1 STATE_STOPPED 0 10) [] t3"
    by (auto simp: R top_of_def state_ids)
  have len: "length (interval R 1 st a b) \<le> 1" for st a b by (simp add: interval_def)
  let ?e = "event_record ex_record 1 1 1 (virtual_thread t3) 10 40000003 1"
  from put_law [OF t3(3,2), of ?e] obtain t4 where t4: "trace_paraver_event True ex_record 1 1 1 10 40000003 1 t3 = Inr t4"
    "open_at R 1 STATE_FLUSH 10 (interval R 1 STATE_STOPPED 0 10) [?e] t4" "disk_room (t_wfb t4) 9"
    using len [of STATE_STOPPED 0 10] by (auto simp: trace_paraver_event_def)
  let ?t4 = "t4\<lparr>First_Event := False, Previous_Event_Time := 10\<rparr>"
  have "open_at R 1 STATE_FLUSH 10 (interval R 1 STATE_STOPPED 0 10) [?e] ?t4" "disk_room (t_wfb ?t4) 9"
    using t4(2,3) by (auto simp: open_at_def)
  from steps_law [OF this, of "[]" _ 10] obtain t5 rs where t5: "finalize_thread True 10 ?t4 = Inr t5" "holds_recs (t_wfb t5) rs"
    "disk_room (t_wfb t5) 9" "length rs \<le> 9"
    using len [of STATE_STOPPED 0 10] len [of STATE_FLUSH 10 10] by (auto simp: R)
  from flush_holds [of "t_wfb t5" "map rec_bytes rs"] t5(2-4) disk_room_mono [OF _ t5(3), of "length rs"]
  obtain w where "Flush_one False (t_wfb t5) = Inr w" by (auto simp: holds_recs_def Flush_one_def)
  with t1(1) s(1) t3(1) t4(1) t5(1) show ?thesis by (rule that)
qed

text \<open>What is read.\<close>

lemma ex_reading:
  obtains fs1 l fs2 fs3 f where "Rewind_FS ex_read_settings ex_trace = Inr fs1"
    "GetNextEvent_FS ex_read_settings fs1 = Inr (Some l, fs2)" "l_event l = ex_event 40000003 1 10"
    "l_cpu l = 1" "l_ptask l = 1" "l_task l = 1" "l_thread l = 1" "located_time ex_read_settings l = Inr 10"
    "GetNextEvent_FS ex_read_settings fs2 = Inr (None, fs3)" "fs_files fs3 = [f]" "seat f = (1, 1, 1)"
proof -
  have "returns (Rewind_FS ex_read_settings ex_trace) (\<lambda>fs1. returns (GetNextEvent_FS ex_read_settings fs1) (\<lambda>x.
      fst x \<noteq> None \<and> (let l = the (fst x) in l_event l = ex_event 40000003 1 10 \<and>
          l_cpu l = 1 \<and> l_ptask l = 1 \<and> l_task l = 1 \<and> l_thread l = 1 \<and> located_time ex_read_settings l = Inr 10) \<and>
      returns (GetNextEvent_FS ex_read_settings (snd x)) (\<lambda>y. fst y = None \<and> map seat (fs_files (snd y)) = [(1, 1, 1)])))"
    by code_simp
  then obtain fs1 x y where *: "Rewind_FS ex_read_settings ex_trace = Inr fs1" "GetNextEvent_FS ex_read_settings fs1 = Inr x"
    "fst x \<noteq> None" "let l = the (fst x) in l_event l = ex_event 40000003 1 10 \<and>
          l_cpu l = 1 \<and> l_ptask l = 1 \<and> l_task l = 1 \<and> l_thread l = 1 \<and> located_time ex_read_settings l = Inr 10"
    "GetNextEvent_FS ex_read_settings (snd x) = Inr y" "fst y = None" "map seat (fs_files (snd y)) = [(1, 1, 1)]"
    by (elim returnsE conjE)
  obtain l where l: "fst x = Some l" using *(3) by blast
  obtain f where f: "fs_files (snd y) = [f]" "seat f = (1, 1, 1)" using *(7) by auto
  have "x = (Some l, snd x)" "y = (None, snd y)" using l *(6) by (simp_all add: prod_eq_iff)
  with * l f show ?thesis by (intro that [of fs1 l "snd x" "snd y" f]) (simp_all add: Let_def)
qed

lemma here_step:
  assumes "get_thread p k h m = Inr t" and "f t = Inr t1"
  shows "on_thread f p k h m = Inr (set_thread p k h t1 m)"
  using assms by (simp add: on_thread_def)

lemma ex_flush:
  assumes m: "get_thread 1 1 1 m = Inr t1" "get_task 1 1 m = Inr ex_task1" "EnabledTasks m 1 1" "RegisteredStackValues m = Vector_Init"
    and a: "a = occurrence_of l 10" "l_event l = ex_event 40000003 1 10" "l_cpu l = 1" "l_ptask l = 1" "l_task l = 1" "l_thread l = 1"
    and t: "switch_thread STATE_FLUSH True t1 = Inr t2" "trace_paraver_state True False ex_record 1 1 1 1 10 t2 = Inr t3"
    "trace_paraver_event True ex_record 1 1 1 10 40000003 1 t3 = Inr t4"
  shows "\<exists>m1. handle_event ex_read_settings MISC_TYPE a m = Inr m1 \<and> get_thread 1 1 1 m1 = Inr t4"
proof -
  let ?m = "set_thread 1 1 1 t4 (set_thread 1 1 1 t3 (set_thread 1 1 1 t2 m))"
  have S: "joint_states ex_read_settings" "unset_record ex_read_settings = ex_record" "\<not> nanos_task_view ex_read_settings"
    by (simp_all add: ex_read_settings_def)
  have o: "o_ptask a = 1" "o_task a = 1" "o_thread a = 1" "o_cpu a = 1" "o_time a = 10" "EvType a = 40000003" "EvValue a = 1"
    using a by (simp_all add: occurrence_of_def EvType_def EvValue_def ex_event_def)
  have h: "Semantics_getEventHandler 40000003 = Some (Misc_handler H_Flush_Event)" by code_simp
  have "run_misc H_Flush_Event ex_read_settings a m = Inr ?m"
    using m t
    by (simp add: Flush_Event_def change_and_put_def switch_state_def show_state_def put_event_def here_def o S
        EVT_BEGIN_def here_step)
  moreover have "handle_stacked_types ex_read_settings a (Enable_Operation MISC_TYPE 40000003 ?m) = Inr (Enable_Operation MISC_TYPE 40000003 ?m)"
    using m by (simp add: handle_stacked_types_def o Enable_Operation_def get_task_def set_thread_def ex_task1_def
      split: option.splits)
  ultimately have "handle_event ex_read_settings MISC_TYPE a m = Inr (Enable_Operation MISC_TYPE 40000003 ?m)"
    by (simp add: handle_event_def o h)
  then show ?thesis by (simp add: Enable_Operation_def get_thread_def set_thread_def)
qed

theorem translated_files_witness:
  "\<exists>tr t rs ms. Paraver_ProcessTraceFiles 5 ex_read_settings ex_trace (initialize_comunicadors [1]) ex_table = Inr tr \<and>
    app_threads (tr_merger tr) 1 1 1 = Some t \<and> f_bytes (FD (t_wfb t)) = concat (map rec_bytes rs) \<and> finished rs \<and>
    states_of rs = spans (ex_run\<lparr>id_task := 1\<rparr>) 10 ms \<and> hd ms = (1, STATE_STOPPED, 0)"
proof -
  obtain t1 t2 t3 t4 t5 w where t: "initialize_thread True False ex_record 1 1 1 1 ex_thread = Inr t1"
    "switch_thread STATE_FLUSH True t1 = Inr t2" "trace_paraver_state True False ex_record 1 1 1 1 10 t2 = Inr t3"
    "trace_paraver_event True ex_record 1 1 1 10 40000003 1 t3 = Inr t4"
    "finalize_thread True 10 (t4\<lparr>First_Event := False, Previous_Event_Time := 10\<rparr>) = Inr t5"
    "Flush_one False (t_wfb t5) = Inr w" by (rule ex_thread_steps)
  obtain fs1 l fs2 fs3 f where r: "Rewind_FS ex_read_settings ex_trace = Inr fs1"
    "GetNextEvent_FS ex_read_settings fs1 = Inr (Some l, fs2)" "l_event l = ex_event 40000003 1 10"
    "l_cpu l = 1" "l_ptask l = 1" "l_task l = 1" "l_thread l = 1" "located_time ex_read_settings l = Inr 10"
    "GetNextEvent_FS ex_read_settings fs2 = Inr (None, fs3)" "fs_files fs3 = [f]" "seat f = (1, 1, 1)" by (rule ex_reading)
  let ?S = ex_read_settings and ?m1 = "set_thread 1 1 1 t1 ex_table"
  have S: "joint_states ?S" "unset_record ?S = ex_record" "\<not> nanos_task_view ?S" "\<not> circular_buffer ?S" "spawns ?S = no_spawns"
    by (simp_all add: ex_read_settings_def)
  have m: "get_thread 1 1 1 ex_table = Inr ex_thread" "get_task 1 1 ex_table = Inr ex_task1" "EnabledTasks ex_table 1 1"
    "RegisteredStackValues ex_table = Vector_Init" by (simp_all add: ex_table_def get_thread_def get_task_def)
  have files: "fs_files ex_trace = [ex_file 0 [ex_event 40000003 1 10]]" "traceformat ex_trace = PRV_SEMANTICS" by (simp_all add: ex_trace_def)
  have init: "Initialize_States ?S ex_trace ex_table = Inr ?m1"
    using t(1) m(1) by (simp add: Initialize_States_def on_every_file_def files on_thread_of_def ex_file_def S here_step)
  have "get_thread 1 1 1 ?m1 = Inr t1" "get_task 1 1 ?m1 = Inr ex_task1" "EnabledTasks ?m1 1 1" "RegisteredStackValues ?m1 = Vector_Init"
    using m by simp_all (simp add: set_thread_def)
  from ex_flush [OF this refl r(3-7) t(2-4)] obtain m2 where m2: "handle_event ?S MISC_TYPE (occurrence_of l 10) ?m1 = Inr m2"
    "get_thread 1 1 1 m2 = Inr t4" by blast
  let ?tr1 = "\<lparr>tr_files = fs2, tr_comms = initialize_comunicadors [1], tr_merger = ?m1, current_time = 0\<rparr>"
  have ty: "getEventType 40000003 = Some MISC_TYPE" by code_simp
  have one: "translate_event 4 ?S l ?tr1 = Inr (?tr1\<lparr>tr_merger := m2, current_time := 10\<rparr>)"
    using m2(1) r(3,8) by (simp add: translate_event_def ex_event_def ty)
  let ?t4 = "t4\<lparr>First_Event := False, Previous_Event_Time := 10\<rparr>"
  let ?m3 = "set_thread 1 1 1 ?t4 m2"
  have "translate_loop 5 ?S l ?tr1 = Inr (?tr1\<lparr>tr_files := fs3, tr_merger := ?m3, current_time := 10\<rparr>)"
    using one m2(2) r(5-9) by (simp add: eval_nat_numeral mark_event_def here_step)
  moreover have "Finalize_States ?S fs3 10 ?m3 = Inr (set_thread 1 1 1 t5 ?m3)"
    using t(5) r(10,11) by (simp add: Finalize_States_def on_every_file_def on_thread_of_def seat_def S here_step)
  moreover have "Flush_FS fs3 False (set_thread 1 1 1 t5 ?m3) = Inr (set_thread 1 1 1 (t5\<lparr>t_wfb := w\<rparr>) (set_thread 1 1 1 t5 ?m3))"
    using t(6) r(10,11) by (simp add: Flush_FS_def on_every_file_def on_thread_of_def seat_def here_step)
  ultimately obtain tr where tr: "Paraver_ProcessTraceFiles 5 ?S ex_trace (initialize_comunicadors [1]) ex_table = Inr tr" "current_time tr = 10"
    using init r(1,2) by (simp add: Paraver_ProcessTraceFiles_def)
  have "holds (t_wfb ex_thread) []" unfolding ex_thread_def by (simp, rule new_law) (simp_all add: REC_SIZE_def)
  moreover have "on_disk (t_wfb ex_thread)" by (simp add: ex_thread_def on_disk_def WriteFileBuffer_new_def)
  ultimately have "record_file (t_wfb ex_thread) []" by (simp add: record_file_def holds_recs_def ex_thread_def WriteFileBuffer_new_def)
  then have "before_start ex_trace ex_table"
    using ex_queues by (auto simp: before_start_def files seat_def ex_file_def thread_at_def ex_table_def task_ok_def split: if_splits)
      (simp add: ex_thread_def)
  from translated_files [OF tr(1) this files(2) S(5,3), of "hd (fs_files ex_trace)"]
  have "\<exists>t rs ms. app_threads (tr_merger tr) 1 1 1 = Some t \<and> f_bytes (FD (t_wfb t)) = concat (map rec_bytes rs) \<and> finished rs \<and>
    states_of rs = spans (run_at ?S ex_table 1 1 1) 10 ms \<and> hd ms = (1, STATE_STOPPED, 0)"
    by (simp add: files tr(2) ex_file_def ex_event_def stays_enabled_def first_mark_def S first_states_def top_of_def) blast
  moreover have "run_at ?S ex_table 1 1 1 = ex_run\<lparr>id_task := 1\<rparr>"
    by (simp add: run_at_def ex_table_def S ex_run_def ex_thread_def)
  ultimately show ?thesis using tr(1) by metis
qed

end
