(* ===== verification/Tracer_State.thy ===== *)
theory Tracer_State
  imports Event_Buffer Event_Types
begin

text \<open>
  The state of the tracer as a thread of the application sees it, and the macros that record an event: the
  flags and the instrumentation of \<open>tracer/wrappers/API/wrapper.c\<close>, the clock (\<open>tracer/clocks/clock.c\<close>), the
  modes (\<open>tracer/mode.c\<close>), the macros of \<open>tracer/trace_macros.h\<close> and \<open>tracer/wrappers/API/trace_buffers.h\<close>, and the
  call stack (\<open>tracer/calltrace.c\<close> without \<open>UNWIND_SUPPORT\<close>). Arrays indexed by the thread are their entry of
  the calling thread. No hardware counters are configured, sampling and the on-line analysis are off. What the
  operating system answers (the times, the processor, the return addresses) is part of the state. The last field
  is the state of the application and of the libraries the tracer calls.
\<close>

section \<open>State\<close>

datatype caller_type = CALLER_MPI | CALLER_SAMPLING | CALLER_DYNAMIC_MEMORY | CALLER_IO | CALLER_SYSCALL

abbreviation (input) FOUR_CALLS_AGO :: nat where "FOUR_CALLS_AGO \<equiv> 4"
abbreviation (input) FIVE_CALLS_AGO :: nat where "FIVE_CALLS_AGO \<equiv> 5"

abbreviation (input) TRACE_MODE_DETAIL_NO :: "32 word" where "TRACE_MODE_DETAIL_NO \<equiv> 1"
abbreviation (input) TRACE_MODE_BURSTS_NO :: "32 word" where "TRACE_MODE_BURSTS_NO \<equiv> 2"

text \<open>\<open>unset_event\<close> is what the fields of a local event contain that are not set.\<close>

record 'w tracer =
  mpitrace_on :: bool
  tracejant :: bool
  TracingBitmap :: "bool list"
  TASKID :: nat
  Extrae_inInstrumentation :: "bool option"
  Extrae_inSampling :: "bool option"
  TracingBuffer :: buffer
  circular_buffering :: bool
  Deferred_Signal_FlushAndTerminate :: bool
  clock :: "nat \<Rightarrow> 64 word"
  clock_reads :: nat
  last_read_clock :: "64 word"
  MPI_Deepness :: "32 word"
  Current_Trace_Mode :: "32 word"
  Future_Trace_Mode :: "32 word"
  Pending_Trace_Mode_Change :: bool
  First_Trace_Mode :: bool
  LastCPUEmissionTime :: "64 word"
  LastCPUEvent :: "32 word"
  MinimumCPUEventTime :: "64 word"
  AlwaysEmitCPUEvent :: bool
  processor :: "nat \<Rightarrow> 32 word"
  Trace_Caller_Enabled :: "caller_type \<Rightarrow> bool"
  Trace_Caller :: "caller_type \<Rightarrow> bool list option"
  Caller_Deepness :: "caller_type \<Rightarrow> nat"
  Caller_Count :: "caller_type \<Rightarrow> nat"
  call_stack :: "64 word list"
  file_size :: "32 word"
  hasMinimumTracingTime :: bool
  MinimumTracingTime :: "64 word"
  initTracingTime :: "64 word"
  unset_event :: event_t
  world :: 'w

definition EXTRAE_ON :: "'w tracer \<Rightarrow> bool" where
  "EXTRAE_ON s = mpitrace_on s"

section \<open>Clock\<close>

definition TIME :: "'w tracer \<Rightarrow> 64 word \<times> 'w tracer" where
  "TIME s = (let t = clock s (clock_reads s) in (t, s\<lparr>clock_reads := Suc (clock_reads s), last_read_clock := t\<rparr>))"

definition LAST_READ_TIME :: "'w tracer \<Rightarrow> 64 word" where
  "LAST_READ_TIME s = last_read_clock s"

section \<open>Recording an event\<close>

text \<open>An event on the stack of a macro, with the fields every macro sets.\<close>

definition local_event :: "'w tracer \<Rightarrow> 64 word \<Rightarrow> int \<Rightarrow> 64 word \<Rightarrow> event_t" where
  "local_event s evttime evttype evtvalue =
     (unset_event s)\<lparr>ev_time := evttime, ev_event := word_of_int evttype, ev_value := evtvalue, ev_hwcset := 0\<rparr>"

definition own_bit :: "'w tracer \<Rightarrow> bool result" where
  "own_bit s = (if TASKID s < length (TracingBitmap s) then Inr (TracingBitmap s ! TASKID s) else Inl Undefined)"

text \<open>The lines of \<open>TRACE_EVENT\<close> and its variants, with the way to insert as a parameter.\<close>

definition if_traced :: "('w tracer \<Rightarrow> 'w tracer result) \<Rightarrow> 'w tracer \<Rightarrow> 'w tracer result" where
  "if_traced f s = (if tracejant s then rbind (own_bit s) (\<lambda>b. if b then f s else Inr s) else Inr s)"

definition AnnotateCPU_with :: "(event_t \<Rightarrow> 'w tracer \<Rightarrow> 'w tracer result) \<Rightarrow> 64 word \<Rightarrow> 'w tracer \<Rightarrow> 'w tracer result" where
  "AnnotateCPU_with ins timestamp s =
     (let cpu = processor s (clock_reads s) in
      if cpu \<noteq> LastCPUEvent s \<or> AlwaysEmitCPUEvent s
      then if_traced (\<lambda>s1. ins (local_event s1 timestamp GETCPU_EV (scast cpu)) s1) (s\<lparr>LastCPUEvent := cpu\<rparr>)
      else Inr s)"

text \<open>
  The end of \<open>Extrae_Flush_Wrapper\<close>: the file is closed, and the tracing ends, when it has become too large. The
  limit in bytes is computed at 32 bits.
\<close>

definition check_file_size :: "'w tracer \<Rightarrow> 'w tracer result" where
  "check_file_size s =
     (let (check, s1) = (if hasMinimumTracingTime s
            then let (t, s2) = TIME s in (t > MinimumTracingTime s + initTracingTime s, s2) else (True, s)) in
      if file_size s1 > 0 \<and> check \<and>
         unat (file_size s1 * 1024 * 1024) \<le> Buffer_GetFileSize (TracingBuffer s1)
      then rmap (\<lambda>b. s1\<lparr>TracingBuffer := b, mpitrace_on := False\<rparr>) (Buffer_Close False (TracingBuffer s1))
      else Inr s1)"

definition flush_with :: "(event_t \<Rightarrow> 'w tracer \<Rightarrow> 'w tracer result) \<Rightarrow> 'w tracer \<Rightarrow> 'w tracer result" where
  "flush_with ins s =
     (if Buffer_IsClosed (main (TracingBuffer s)) then Inr s
      else let (t1, s1) = TIME s in
        rbind (Buffer_Flush False (TracingBuffer s1)) (\<lambda>(b, rc).
        let (t2, s2) = TIME (s1\<lparr>TracingBuffer := b\<rparr>) in
        in_order [ins (local_event s2 t1 FLUSH_EV EVT_BEGIN), AnnotateCPU_with ins t1,
          ins (local_event s2 t2 FLUSH_EV EVT_END), AnnotateCPU_with ins t2, check_file_size] s2))"

text \<open>
  The buffer's callback is \<open>Buffer_DiscardOldest\<close> when it is circular and \<open>Extrae_Flush_Wrapper\<close> otherwise, which inserts
  events itself. The fuel bounds how deep flushes are nested; one is enough for a buffer of at least five
  events, and the code recurses for ever in a buffer of one.
\<close>

definition store_event :: "event_t \<Rightarrow> 'w tracer \<Rightarrow> 'w tracer result" where
  "store_event e s = rmap (\<lambda>r. s\<lparr>TracingBuffer := (TracingBuffer s)\<lparr>main := r\<rparr>\<rparr>) (put_event e (main (TracingBuffer s)))"

definition discard_oldest :: "'w tracer \<Rightarrow> 'w tracer result" where
  "discard_oldest s = rmap (\<lambda>(b, rc). s\<lparr>TracingBuffer := b\<rparr>) (Buffer_DiscardOldest False (TracingBuffer s))"

definition execute_deferred :: "'w tracer \<Rightarrow> 'w tracer result" where
  "execute_deferred s = (if Deferred_Signal_FlushAndTerminate s then Inl (Exit 0) else Inr s)"

definition make_room :: "(event_t \<Rightarrow> 'w tracer \<Rightarrow> 'w tracer result) \<Rightarrow> 'w tracer \<Rightarrow> 'w tracer result" where
  "make_room ins s = (if Buffer_IsFull (main (TracingBuffer s))
     then (if circular_buffering s then discard_oldest s else flush_with ins s) else Inr s)"

fun insert_at :: "nat \<Rightarrow> event_t \<Rightarrow> 'w tracer \<Rightarrow> 'w tracer result" where
  "insert_at 0 e s = Inl Blocked"
| "insert_at (Suc n) e s = in_order [make_room (insert_at n), store_event e, execute_deferred] s"

abbreviation (input) FLUSH_DEPTH :: nat where "FLUSH_DEPTH \<equiv> 4"

definition BUFFER_INSERT :: "event_t \<Rightarrow> 'w tracer \<Rightarrow> 'w tracer result" where
  "BUFFER_INSERT = insert_at FLUSH_DEPTH"

definition Extrae_Flush_Wrapper :: "'w tracer \<Rightarrow> 'w tracer result" where
  "Extrae_Flush_Wrapper = flush_with (insert_at FLUSH_DEPTH)"

definition ExecuteFlushCallback :: "'w tracer \<Rightarrow> 'w tracer result" where
  "ExecuteFlushCallback s = (if circular_buffering s then discard_oldest s else Extrae_Flush_Wrapper s)"

text \<open>\<open>Buffer_InsertMultiple\<close> between the two lines about signals; both callbacks report success.\<close>

definition enough_space :: "int \<Rightarrow> 'w tracer \<Rightarrow> bool" where
  "enough_space n s = Buffer_EnoughSpace (main (TracingBuffer s)) n"

fun retry_room :: "nat \<Rightarrow> int \<Rightarrow> 'w tracer \<Rightarrow> 'w tracer result" where
  "retry_room 0 n s = Inr s"
| "retry_room (Suc r) n s = (if enough_space n s then Inr s else rbind (ExecuteFlushCallback s) (retry_room r n))"

definition BUFFER_INSERT_N :: "event_t list \<Rightarrow> 'w tracer \<Rightarrow> 'w tracer result" where
  "BUFFER_INSERT_N es s =
     (if es = [] then Inr s
      else in_order [retry_room (length es) (int (length es)),
        \<lambda>s. if enough_space (int (length es)) s then Inr s else Inl (Exit 1),
        rfold (\<lambda>e. in_order [make_room (insert_at FLUSH_DEPTH), store_event e]) es,
        execute_deferred] s)"

definition Extrae_AnnotateCPU :: "64 word \<Rightarrow> 'w tracer \<Rightarrow> 'w tracer result" where
  "Extrae_AnnotateCPU = AnnotateCPU_with BUFFER_INSERT"

definition TRACE_EVENT :: "64 word \<Rightarrow> int \<Rightarrow> 64 word \<Rightarrow> 'w tracer \<Rightarrow> 'w tracer result" where
  "TRACE_EVENT evttime evttype evtvalue =
     if_traced (\<lambda>s. BUFFER_INSERT (local_event s evttime evttype evtvalue) s)"

definition misc_event :: "'w tracer \<Rightarrow> 64 word \<Rightarrow> int \<Rightarrow> 64 word \<Rightarrow> 64 word \<Rightarrow> event_t" where
  "misc_event s evttime evttype evtvalue evtparam =
     (let e = local_event s evttime evttype evtvalue in e\<lparr>ev_param := (evtparam, snd (ev_param e))\<rparr>)"

definition TRACE_MISCEVENT :: "64 word \<Rightarrow> int \<Rightarrow> 64 word \<Rightarrow> 64 word \<Rightarrow> 'w tracer \<Rightarrow> 'w tracer result" where
  "TRACE_MISCEVENT evttime evttype evtvalue evtparam =
     if_traced (\<lambda>s. BUFFER_INSERT (misc_event s evttime evttype evtvalue evtparam) s)"

definition TRACE_N_MISCEVENT :: "64 word \<Rightarrow> (int \<times> 64 word \<times> 64 word) list \<Rightarrow> 'w tracer \<Rightarrow> 'w tracer result" where
  "TRACE_N_MISCEVENT evttime evts =
     if_traced (\<lambda>s. BUFFER_INSERT_N (map (\<lambda>(ty, v, p). misc_event s evttime ty v p) evts) s)"

section \<open>Call stack\<close>

definition CALLER_EVENT_TYPE :: "'w tracer \<Rightarrow> caller_type \<Rightarrow> nat \<Rightarrow> int" where
  "CALLER_EVENT_TYPE s type depth = (if Caller_Count s type \<ge> 1 then CALLER_EV + int depth else CALLER_EV)"

text \<open>One frame; only the callers that are asked for are recorded.\<close>

definition trace_frame :: "64 word \<Rightarrow> nat \<Rightarrow> caller_type \<Rightarrow> nat \<times> 64 word \<Rightarrow> 'w tracer \<Rightarrow> 'w tracer result" where
  "trace_frame time offset type = (\<lambda>(frame, address) s.
     (let current_caller = int frame - int offset + 2 in
      if current_caller > 0 \<and> type \<noteq> CALLER_SAMPLING
      then case Trace_Caller s type of None \<Rightarrow> Inl Undefined
        | Some asked \<Rightarrow> if nat current_caller - 1 < length asked
            then (if asked ! (nat current_caller - 1)
              then TRACE_EVENT time (CALLER_EVENT_TYPE s type (nat current_caller)) address s else Inr s)
            else Inl Undefined
      else Inr s))"

definition Extrae_trace_callers :: "64 word \<Rightarrow> nat \<Rightarrow> caller_type \<Rightarrow> 'w tracer \<Rightarrow> 'w tracer result" where
  "Extrae_trace_callers time offset type s =
     (if Trace_Caller s type = None then Inr s
      else rfold (trace_frame time offset type)
        (take (Caller_Deepness s type + offset - 1) (enumerate 0 (take (Caller_Deepness s type + offset) (call_stack s)))) s)"

section \<open>Modes\<close>

definition Trace_Mode_FirstMode :: "'w tracer \<Rightarrow> bool" where
  "Trace_Mode_FirstMode s = First_Trace_Mode s"

definition Trace_Mode_Change :: "64 word \<Rightarrow> 'w tracer \<Rightarrow> 'w tracer result" where
  "Trace_Mode_Change time s =
     (if Pending_Trace_Mode_Change s \<or> First_Trace_Mode s
      then rmap (\<lambda>s2. s2\<lparr>Pending_Trace_Mode_Change := False, First_Trace_Mode := False\<rparr>)
        (if Future_Trace_Mode s \<noteq> Current_Trace_Mode s \<or> First_Trace_Mode s
         then let s1 = s\<lparr>Current_Trace_Mode := Future_Trace_Mode s\<rparr> in
           TRACE_EVENT time TRACING_MODE_EV (scast (Current_Trace_Mode s1)) s1
         else Inr s)
      else Inr s)"

text \<open>The switch asked for by the application, for the calling thread.\<close>

definition Trace_mode_switch :: "'w tracer \<Rightarrow> 'w tracer" where
  "Trace_mode_switch s = s\<lparr>Pending_Trace_Mode_Change := True,
     Future_Trace_Mode := (if Current_Trace_Mode s = TRACE_MODE_DETAIL_NO then TRACE_MODE_BURSTS_NO else TRACE_MODE_DETAIL_NO)\<rparr>"

section \<open>Entering and leaving the instrumentation\<close>

definition Backend_inInstrumentation :: "'w tracer \<Rightarrow> bool" where
  "Backend_inInstrumentation s = (case (Extrae_inInstrumentation s, Extrae_inSampling s) of
     (Some i, Some p) \<Rightarrow> i \<or> p | _ \<Rightarrow> False)"

definition Backend_setInInstrumentation :: "bool \<Rightarrow> 'w tracer \<Rightarrow> 'w tracer" where
  "Backend_setInInstrumentation b s = (if Extrae_inInstrumentation s \<noteq> None then s\<lparr>Extrae_inInstrumentation := Some b\<rparr> else s)"

definition Backend_setInSampling :: "bool \<Rightarrow> 'w tracer \<Rightarrow> 'w tracer" where
  "Backend_setInSampling b s = (if Extrae_inSampling s \<noteq> None then s\<lparr>Extrae_inSampling := Some b\<rparr> else s)"

definition Backend_Enter_Instrumentation :: "int \<Rightarrow> 'w tracer \<Rightarrow> 'w tracer result" where
  "Backend_Enter_Instrumentation Nevents s =
     (if \<not> mpitrace_on s then Inr s
      else in_order
        [\<lambda>s. Inr (Backend_setInInstrumentation True s),
         \<lambda>s. if Buffer_RemainingEvents (main (TracingBuffer s)) \<le> Nevents then ExecuteFlushCallback s else Inr s,
         \<lambda>s. let (current_time, s1) = TIME s in
           if Trace_Mode_FirstMode s1 then Trace_Mode_Change current_time s1 else Inr s1] s)"

definition PENDING_TRACE_CPU_EVENT :: "64 word \<Rightarrow> 'w tracer \<Rightarrow> bool \<times> 'w tracer" where
  "PENDING_TRACE_CPU_EVENT current_time s =
     (if LastCPUEmissionTime s = 0 \<or>
         current_time - LastCPUEmissionTime s > MinimumCPUEventTime s \<and> MinimumCPUEventTime s > 0
      then (True, s\<lparr>LastCPUEmissionTime := current_time\<rparr>) else (False, s))"

definition Backend_Leave_Instrumentation :: "'w tracer \<Rightarrow> 'w tracer result" where
  "Backend_Leave_Instrumentation s =
     (if \<not> mpitrace_on s then Inr s
      else in_order
        [\<lambda>s. case PENDING_TRACE_CPU_EVENT (LAST_READ_TIME s) s of
           (pending, s1) \<Rightarrow> if pending then Extrae_AnnotateCPU (LAST_READ_TIME s1) s1 else Inr s1,
         \<lambda>s. if Pending_Trace_Mode_Change s \<and> MPI_Deepness s = 0 then Trace_Mode_Change (LAST_READ_TIME s) s else Inr s,
         \<lambda>s. Inr (Backend_setInInstrumentation False s)] s)"

end
