(* ===== verification/Openshmem_Probes.thy ===== *)
theory Openshmem_Probes
  imports Tracer_State "HOL-Library.Signed_Division"
begin

text \<open>
  The probes of OpenSHMEM (\<open>tracer/wrappers/openshmem/openshmem_probes.c\<close>) and the macros that record
  their events (\<open>openshmem_trace_macros.h\<close>). A pointer is its address, a floating-point argument its bits, a
  \<open>size_t\<close>, a \<open>ptrdiff_t\<close> and a \<open>long\<close> 64 bits.
\<close>

unbundle bit_operations_syntax

type_synonym addr = "64 word"

section \<open>The macros\<close>

text \<open>
  The macro for the callers is defined in the branch with hardware counters only, though both branches use it; without
  it the other branch does not link. It is taken as defined in both, with no counters read.
\<close>

abbreviation (input) EMPTY :: "32 word" where "EMPTY \<equiv> 0"

text \<open>
  The time is an expression of the source, evaluated where the macros name it: once for the event and once more for
  the callers.
\<close>

definition READ_LAST :: "'w tracer \<Rightarrow> 64 word \<times> 'w tracer" where
  "READ_LAST s = (LAST_READ_TIME s, s)"

definition TRACE_OPENSHMEM_CALLERS :: "('w tracer \<Rightarrow> 64 word \<times> 'w tracer) \<Rightarrow> 64 word \<Rightarrow> 'w tracer \<Rightarrow> 'w tracer result" where
  "TRACE_OPENSHMEM_CALLERS evttime evtvalue s =
     (if evtvalue = EVT_BEGIN then let (t, s1) = evttime s in Extrae_trace_callers t FOUR_CALLS_AGO CALLER_MPI s1 else Inr s)"

definition openshmem_event :: "'w tracer \<Rightarrow> 64 word \<Rightarrow> int \<Rightarrow> 64 word \<Rightarrow> 32 word \<Rightarrow> event_t" where
  "openshmem_event s evttime evttype evtvalue evtsize =
     (let e = local_event s evttime evttype evtvalue in
      e\<lparr>ev_param := (take_bit 32 (fst (ev_param e)) OR push_bit 32 (ucast evtsize), snd (ev_param e))\<rparr>)"

definition TRACE_OPENSHMEM_EVENT ::
  "('w tracer \<Rightarrow> 64 word \<times> 'w tracer) \<Rightarrow> int \<Rightarrow> 64 word \<Rightarrow> 32 word \<Rightarrow> 'w tracer \<Rightarrow> 'w tracer result" where
  "TRACE_OPENSHMEM_EVENT evttime evttype evtvalue evtsize s =
     (if tracejant s
      then let (t, s1) = evttime s in
        in_order [BUFFER_INSERT (openshmem_event s1 t evttype evtvalue evtsize), TRACE_OPENSHMEM_CALLERS evttime evtvalue] s1
      else Inr s)"

definition TRACE_OPENSHMEM_EVENT_AND_COUNTERS ::
  "('w tracer \<Rightarrow> 64 word \<times> 'w tracer) \<Rightarrow> int \<Rightarrow> 64 word \<Rightarrow> 32 word \<Rightarrow> 'w tracer \<Rightarrow> 'w tracer result" where
  "TRACE_OPENSHMEM_EVENT_AND_COUNTERS evttime evttype evtvalue evtsize =
     TRACE_OPENSHMEM_EVENT evttime evttype evtvalue evtsize"

text \<open>
  The bytes of a collective: those of one processing element, times the elements divided by the stride. The product
  is a \<open>size_t\<close>, kept in 32 bits; shifting by a negative count or by 31 and more is not defined.
\<close>

definition strided_bytes :: "64 word \<Rightarrow> 32 word \<Rightarrow> 32 word \<Rightarrow> 32 word result" where
  "strided_bytes bytes PE_size logPE_stride =
     (if 0 \<le> sint logPE_stride \<and> sint logPE_stride < 31
      then Inr (ucast (bytes * word_of_int (sint PE_size sdiv 2 ^ unat logPE_stride)))
      else Inl Undefined)"

text \<open>An argument of the macro, computed only when there is something to record.\<close>

definition macro_argument :: "32 word result \<Rightarrow> (32 word \<Rightarrow> 'w tracer \<Rightarrow> 'w tracer result) \<Rightarrow> 'w tracer \<Rightarrow> 'w tracer result" where
  "macro_argument bytes f s = (if tracejant s then rbind bytes (\<lambda>n. f n s) else Inr s)"

section \<open>The probes\<close>

definition PROBE_start_pes_ENTRY :: "32 word \<Rightarrow> 'w tracer \<Rightarrow> 'w tracer result" where
  "PROBE_start_pes_ENTRY npes s =
     (if EXTRAE_ON s then TRACE_OPENSHMEM_EVENT_AND_COUNTERS READ_LAST START_PES_EV EVT_BEGIN EMPTY s else Inr s)"

definition PROBE_start_pes_EXIT :: "'w tracer \<Rightarrow> 'w tracer result" where
  "PROBE_start_pes_EXIT s = (if EXTRAE_ON s then TRACE_OPENSHMEM_EVENT_AND_COUNTERS TIME START_PES_EV EVT_END EMPTY s else Inr s)"

definition PROBE_shmem_my_pe_ENTRY :: "'w tracer \<Rightarrow> 'w tracer result" where
  "PROBE_shmem_my_pe_ENTRY s =
     (if EXTRAE_ON s then TRACE_OPENSHMEM_EVENT_AND_COUNTERS READ_LAST SHMEM_MY_PE_EV EVT_BEGIN EMPTY s else Inr s)"

definition PROBE_shmem_my_pe_EXIT :: "'w tracer \<Rightarrow> 'w tracer result" where
  "PROBE_shmem_my_pe_EXIT s = (if EXTRAE_ON s then TRACE_OPENSHMEM_EVENT_AND_COUNTERS TIME SHMEM_MY_PE_EV EVT_END EMPTY s else Inr s)"

definition PROBE_x_my_pe_ENTRY :: "'w tracer \<Rightarrow> 'w tracer result" where
  "PROBE_x_my_pe_ENTRY s =
     (if EXTRAE_ON s then TRACE_OPENSHMEM_EVENT_AND_COUNTERS READ_LAST x_MY_PE_EV EVT_BEGIN EMPTY s else Inr s)"

definition PROBE_x_my_pe_EXIT :: "'w tracer \<Rightarrow> 'w tracer result" where
  "PROBE_x_my_pe_EXIT s = (if EXTRAE_ON s then TRACE_OPENSHMEM_EVENT_AND_COUNTERS TIME x_MY_PE_EV EVT_END EMPTY s else Inr s)"

definition PROBE_shmem_n_pes_ENTRY :: "'w tracer \<Rightarrow> 'w tracer result" where
  "PROBE_shmem_n_pes_ENTRY s =
     (if EXTRAE_ON s then TRACE_OPENSHMEM_EVENT_AND_COUNTERS READ_LAST SHMEM_N_PES_EV EVT_BEGIN EMPTY s else Inr s)"

definition PROBE_shmem_n_pes_EXIT :: "'w tracer \<Rightarrow> 'w tracer result" where
  "PROBE_shmem_n_pes_EXIT s = (if EXTRAE_ON s then TRACE_OPENSHMEM_EVENT_AND_COUNTERS TIME SHMEM_N_PES_EV EVT_END EMPTY s else Inr s)"

definition PROBE_x_num_pes_ENTRY :: "'w tracer \<Rightarrow> 'w tracer result" where
  "PROBE_x_num_pes_ENTRY s =
     (if EXTRAE_ON s then TRACE_OPENSHMEM_EVENT_AND_COUNTERS READ_LAST x_NUM_PES_EV EVT_BEGIN EMPTY s else Inr s)"

definition PROBE_x_num_pes_EXIT :: "'w tracer \<Rightarrow> 'w tracer result" where
  "PROBE_x_num_pes_EXIT s = (if EXTRAE_ON s then TRACE_OPENSHMEM_EVENT_AND_COUNTERS TIME x_NUM_PES_EV EVT_END EMPTY s else Inr s)"

definition PROBE_shmem_pe_accessible_ENTRY :: "32 word \<Rightarrow> 'w tracer \<Rightarrow> 'w tracer result" where
  "PROBE_shmem_pe_accessible_ENTRY pe s =
     (if EXTRAE_ON s then TRACE_OPENSHMEM_EVENT_AND_COUNTERS READ_LAST SHMEM_PE_ACCESSIBLE_EV EVT_BEGIN EMPTY s else Inr s)"

definition PROBE_shmem_pe_accessible_EXIT :: "'w tracer \<Rightarrow> 'w tracer result" where
  "PROBE_shmem_pe_accessible_EXIT s = (if EXTRAE_ON s then TRACE_OPENSHMEM_EVENT_AND_COUNTERS TIME SHMEM_PE_ACCESSIBLE_EV EVT_END EMPTY s else Inr s)"

definition PROBE_shmem_addr_accessible_ENTRY :: "addr \<Rightarrow> 32 word \<Rightarrow> 'w tracer \<Rightarrow> 'w tracer result" where
  "PROBE_shmem_addr_accessible_ENTRY addr pe s =
     (if EXTRAE_ON s then TRACE_OPENSHMEM_EVENT_AND_COUNTERS READ_LAST SHMEM_ADDR_ACCESSIBLE_EV EVT_BEGIN EMPTY s else Inr s)"

definition PROBE_shmem_addr_accessible_EXIT :: "'w tracer \<Rightarrow> 'w tracer result" where
  "PROBE_shmem_addr_accessible_EXIT s = (if EXTRAE_ON s then TRACE_OPENSHMEM_EVENT_AND_COUNTERS TIME SHMEM_ADDR_ACCESSIBLE_EV EVT_END EMPTY s else Inr s)"

definition PROBE_shmem_ptr_ENTRY :: "addr \<Rightarrow> 32 word \<Rightarrow> 'w tracer \<Rightarrow> 'w tracer result" where
  "PROBE_shmem_ptr_ENTRY target pe s =
     (if EXTRAE_ON s then TRACE_OPENSHMEM_EVENT_AND_COUNTERS READ_LAST SHMEM_PTR_EV EVT_BEGIN EMPTY s else Inr s)"

definition PROBE_shmem_ptr_EXIT :: "'w tracer \<Rightarrow> 'w tracer result" where
  "PROBE_shmem_ptr_EXIT s = (if EXTRAE_ON s then TRACE_OPENSHMEM_EVENT_AND_COUNTERS TIME SHMEM_PTR_EV EVT_END EMPTY s else Inr s)"

definition PROBE_shmalloc_ENTRY :: "64 word \<Rightarrow> 'w tracer \<Rightarrow> 'w tracer result" where
  "PROBE_shmalloc_ENTRY nbytes s =
     (if EXTRAE_ON s then TRACE_OPENSHMEM_EVENT_AND_COUNTERS READ_LAST SHMALLOC_EV EVT_BEGIN EMPTY s else Inr s)"

definition PROBE_shmalloc_EXIT :: "'w tracer \<Rightarrow> 'w tracer result" where
  "PROBE_shmalloc_EXIT s = (if EXTRAE_ON s then TRACE_OPENSHMEM_EVENT_AND_COUNTERS TIME SHMALLOC_EV EVT_END EMPTY s else Inr s)"

definition PROBE_shfree_ENTRY :: "addr \<Rightarrow> 'w tracer \<Rightarrow> 'w tracer result" where
  "PROBE_shfree_ENTRY ptr s =
     (if EXTRAE_ON s then TRACE_OPENSHMEM_EVENT_AND_COUNTERS READ_LAST SHFREE_EV EVT_BEGIN EMPTY s else Inr s)"

definition PROBE_shfree_EXIT :: "'w tracer \<Rightarrow> 'w tracer result" where
  "PROBE_shfree_EXIT s = (if EXTRAE_ON s then TRACE_OPENSHMEM_EVENT_AND_COUNTERS TIME SHFREE_EV EVT_END EMPTY s else Inr s)"

definition PROBE_shrealloc_ENTRY :: "addr \<Rightarrow> 64 word \<Rightarrow> 'w tracer \<Rightarrow> 'w tracer result" where
  "PROBE_shrealloc_ENTRY ptr nbytes s =
     (if EXTRAE_ON s then TRACE_OPENSHMEM_EVENT_AND_COUNTERS READ_LAST SHREALLOC_EV EVT_BEGIN EMPTY s else Inr s)"

definition PROBE_shrealloc_EXIT :: "'w tracer \<Rightarrow> 'w tracer result" where
  "PROBE_shrealloc_EXIT s = (if EXTRAE_ON s then TRACE_OPENSHMEM_EVENT_AND_COUNTERS TIME SHREALLOC_EV EVT_END EMPTY s else Inr s)"

definition PROBE_shmemalign_ENTRY :: "64 word \<Rightarrow> 64 word \<Rightarrow> 'w tracer \<Rightarrow> 'w tracer result" where
  "PROBE_shmemalign_ENTRY alignment nbytes s =
     (if EXTRAE_ON s then TRACE_OPENSHMEM_EVENT_AND_COUNTERS READ_LAST SHMEMALIGN_EV EVT_BEGIN EMPTY s else Inr s)"

definition PROBE_shmemalign_EXIT :: "'w tracer \<Rightarrow> 'w tracer result" where
  "PROBE_shmemalign_EXIT s = (if EXTRAE_ON s then TRACE_OPENSHMEM_EVENT_AND_COUNTERS TIME SHMEMALIGN_EV EVT_END EMPTY s else Inr s)"

definition PROBE_shmem_double_put_ENTRY :: "addr \<Rightarrow> addr \<Rightarrow> 64 word \<Rightarrow> 32 word \<Rightarrow> 'w tracer \<Rightarrow> 'w tracer result" where
  "PROBE_shmem_double_put_ENTRY target source len pe s =
     (if EXTRAE_ON s then TRACE_OPENSHMEM_EVENT_AND_COUNTERS READ_LAST SHMEM_DOUBLE_PUT_EV EVT_BEGIN (ucast (len * 8)) s else Inr s)"

definition PROBE_shmem_double_put_EXIT :: "'w tracer \<Rightarrow> 'w tracer result" where
  "PROBE_shmem_double_put_EXIT s = (if EXTRAE_ON s then TRACE_OPENSHMEM_EVENT_AND_COUNTERS TIME SHMEM_DOUBLE_PUT_EV EVT_END EMPTY s else Inr s)"

definition PROBE_shmem_float_put_ENTRY :: "addr \<Rightarrow> addr \<Rightarrow> 64 word \<Rightarrow> 32 word \<Rightarrow> 'w tracer \<Rightarrow> 'w tracer result" where
  "PROBE_shmem_float_put_ENTRY target source len pe s =
     (if EXTRAE_ON s then TRACE_OPENSHMEM_EVENT_AND_COUNTERS READ_LAST SHMEM_FLOAT_PUT_EV EVT_BEGIN (ucast (len * 4)) s else Inr s)"

definition PROBE_shmem_float_put_EXIT :: "'w tracer \<Rightarrow> 'w tracer result" where
  "PROBE_shmem_float_put_EXIT s = (if EXTRAE_ON s then TRACE_OPENSHMEM_EVENT_AND_COUNTERS TIME SHMEM_FLOAT_PUT_EV EVT_END EMPTY s else Inr s)"

definition PROBE_shmem_int_put_ENTRY :: "addr \<Rightarrow> addr \<Rightarrow> 64 word \<Rightarrow> 32 word \<Rightarrow> 'w tracer \<Rightarrow> 'w tracer result" where
  "PROBE_shmem_int_put_ENTRY target source len pe s =
     (if EXTRAE_ON s then TRACE_OPENSHMEM_EVENT_AND_COUNTERS READ_LAST SHMEM_INT_PUT_EV EVT_BEGIN (ucast (len * 4)) s else Inr s)"

definition PROBE_shmem_int_put_EXIT :: "'w tracer \<Rightarrow> 'w tracer result" where
  "PROBE_shmem_int_put_EXIT s = (if EXTRAE_ON s then TRACE_OPENSHMEM_EVENT_AND_COUNTERS TIME SHMEM_INT_PUT_EV EVT_END EMPTY s else Inr s)"

definition PROBE_shmem_long_put_ENTRY :: "addr \<Rightarrow> addr \<Rightarrow> 64 word \<Rightarrow> 32 word \<Rightarrow> 'w tracer \<Rightarrow> 'w tracer result" where
  "PROBE_shmem_long_put_ENTRY target source len pe s =
     (if EXTRAE_ON s then TRACE_OPENSHMEM_EVENT_AND_COUNTERS READ_LAST SHMEM_LONG_PUT_EV EVT_BEGIN (ucast (len * 8)) s else Inr s)"

definition PROBE_shmem_long_put_EXIT :: "'w tracer \<Rightarrow> 'w tracer result" where
  "PROBE_shmem_long_put_EXIT s = (if EXTRAE_ON s then TRACE_OPENSHMEM_EVENT_AND_COUNTERS TIME SHMEM_LONG_PUT_EV EVT_END EMPTY s else Inr s)"

definition PROBE_shmem_longdouble_put_ENTRY :: "addr \<Rightarrow> addr \<Rightarrow> 64 word \<Rightarrow> 32 word \<Rightarrow> 'w tracer \<Rightarrow> 'w tracer result" where
  "PROBE_shmem_longdouble_put_ENTRY target source len pe s =
     (if EXTRAE_ON s then TRACE_OPENSHMEM_EVENT_AND_COUNTERS READ_LAST SHMEM_LONGDOUBLE_PUT_EV EVT_BEGIN (ucast (len * 16)) s else Inr s)"

definition PROBE_shmem_longdouble_put_EXIT :: "'w tracer \<Rightarrow> 'w tracer result" where
  "PROBE_shmem_longdouble_put_EXIT s = (if EXTRAE_ON s then TRACE_OPENSHMEM_EVENT_AND_COUNTERS TIME SHMEM_LONGDOUBLE_PUT_EV EVT_END EMPTY s else Inr s)"

definition PROBE_shmem_longlong_put_ENTRY :: "addr \<Rightarrow> addr \<Rightarrow> 64 word \<Rightarrow> 32 word \<Rightarrow> 'w tracer \<Rightarrow> 'w tracer result" where
  "PROBE_shmem_longlong_put_ENTRY target source len pe s =
     (if EXTRAE_ON s then TRACE_OPENSHMEM_EVENT_AND_COUNTERS READ_LAST SHMEM_LONGLONG_PUT_EV EVT_BEGIN (ucast (len * 8)) s else Inr s)"

definition PROBE_shmem_longlong_put_EXIT :: "'w tracer \<Rightarrow> 'w tracer result" where
  "PROBE_shmem_longlong_put_EXIT s = (if EXTRAE_ON s then TRACE_OPENSHMEM_EVENT_AND_COUNTERS TIME SHMEM_LONGLONG_PUT_EV EVT_END EMPTY s else Inr s)"

definition PROBE_shmem_put32_ENTRY :: "addr \<Rightarrow> addr \<Rightarrow> 64 word \<Rightarrow> 32 word \<Rightarrow> 'w tracer \<Rightarrow> 'w tracer result" where
  "PROBE_shmem_put32_ENTRY target source len pe s =
     (if EXTRAE_ON s then TRACE_OPENSHMEM_EVENT_AND_COUNTERS READ_LAST SHMEM_PUT32_EV EVT_BEGIN (ucast (len * 4)) s else Inr s)"

definition PROBE_shmem_put32_EXIT :: "'w tracer \<Rightarrow> 'w tracer result" where
  "PROBE_shmem_put32_EXIT s = (if EXTRAE_ON s then TRACE_OPENSHMEM_EVENT_AND_COUNTERS TIME SHMEM_PUT32_EV EVT_END EMPTY s else Inr s)"

definition PROBE_shmem_put64_ENTRY :: "addr \<Rightarrow> addr \<Rightarrow> 64 word \<Rightarrow> 32 word \<Rightarrow> 'w tracer \<Rightarrow> 'w tracer result" where
  "PROBE_shmem_put64_ENTRY target source len pe s =
     (if EXTRAE_ON s then TRACE_OPENSHMEM_EVENT_AND_COUNTERS READ_LAST SHMEM_PUT64_EV EVT_BEGIN (ucast (len * 8)) s else Inr s)"

definition PROBE_shmem_put64_EXIT :: "'w tracer \<Rightarrow> 'w tracer result" where
  "PROBE_shmem_put64_EXIT s = (if EXTRAE_ON s then TRACE_OPENSHMEM_EVENT_AND_COUNTERS TIME SHMEM_PUT64_EV EVT_END EMPTY s else Inr s)"

definition PROBE_shmem_put128_ENTRY :: "addr \<Rightarrow> addr \<Rightarrow> 64 word \<Rightarrow> 32 word \<Rightarrow> 'w tracer \<Rightarrow> 'w tracer result" where
  "PROBE_shmem_put128_ENTRY target source len pe s =
     (if EXTRAE_ON s then TRACE_OPENSHMEM_EVENT_AND_COUNTERS READ_LAST SHMEM_PUT128_EV EVT_BEGIN (ucast (len * 16)) s else Inr s)"

definition PROBE_shmem_put128_EXIT :: "'w tracer \<Rightarrow> 'w tracer result" where
  "PROBE_shmem_put128_EXIT s = (if EXTRAE_ON s then TRACE_OPENSHMEM_EVENT_AND_COUNTERS TIME SHMEM_PUT128_EV EVT_END EMPTY s else Inr s)"

definition PROBE_shmem_putmem_ENTRY :: "addr \<Rightarrow> addr \<Rightarrow> 64 word \<Rightarrow> 32 word \<Rightarrow> 'w tracer \<Rightarrow> 'w tracer result" where
  "PROBE_shmem_putmem_ENTRY target source len pe s =
     (if EXTRAE_ON s then TRACE_OPENSHMEM_EVENT_AND_COUNTERS READ_LAST SHMEM_PUTMEM_EV EVT_BEGIN (ucast len) s else Inr s)"

definition PROBE_shmem_putmem_EXIT :: "'w tracer \<Rightarrow> 'w tracer result" where
  "PROBE_shmem_putmem_EXIT s = (if EXTRAE_ON s then TRACE_OPENSHMEM_EVENT_AND_COUNTERS TIME SHMEM_PUTMEM_EV EVT_END EMPTY s else Inr s)"

definition PROBE_shmem_short_put_ENTRY :: "addr \<Rightarrow> addr \<Rightarrow> 64 word \<Rightarrow> 32 word \<Rightarrow> 'w tracer \<Rightarrow> 'w tracer result" where
  "PROBE_shmem_short_put_ENTRY target source len pe s =
     (if EXTRAE_ON s then TRACE_OPENSHMEM_EVENT_AND_COUNTERS READ_LAST SHMEM_SHORT_PUT_EV EVT_BEGIN (ucast (len * 2)) s else Inr s)"

definition PROBE_shmem_short_put_EXIT :: "'w tracer \<Rightarrow> 'w tracer result" where
  "PROBE_shmem_short_put_EXIT s = (if EXTRAE_ON s then TRACE_OPENSHMEM_EVENT_AND_COUNTERS TIME SHMEM_SHORT_PUT_EV EVT_END EMPTY s else Inr s)"

definition PROBE_shmem_char_p_ENTRY :: "addr \<Rightarrow> 8 word \<Rightarrow> 32 word \<Rightarrow> 'w tracer \<Rightarrow> 'w tracer result" where
  "PROBE_shmem_char_p_ENTRY addr value pe s =
     (if EXTRAE_ON s then TRACE_OPENSHMEM_EVENT_AND_COUNTERS READ_LAST SHMEM_CHAR_P_EV EVT_BEGIN 1 s else Inr s)"

definition PROBE_shmem_char_p_EXIT :: "'w tracer \<Rightarrow> 'w tracer result" where
  "PROBE_shmem_char_p_EXIT s = (if EXTRAE_ON s then TRACE_OPENSHMEM_EVENT_AND_COUNTERS TIME SHMEM_CHAR_P_EV EVT_END EMPTY s else Inr s)"

definition PROBE_shmem_short_p_ENTRY :: "addr \<Rightarrow> 16 word \<Rightarrow> 32 word \<Rightarrow> 'w tracer \<Rightarrow> 'w tracer result" where
  "PROBE_shmem_short_p_ENTRY addr value pe s =
     (if EXTRAE_ON s then TRACE_OPENSHMEM_EVENT_AND_COUNTERS READ_LAST SHMEM_SHORT_P_EV EVT_BEGIN 2 s else Inr s)"

definition PROBE_shmem_short_p_EXIT :: "'w tracer \<Rightarrow> 'w tracer result" where
  "PROBE_shmem_short_p_EXIT s = (if EXTRAE_ON s then TRACE_OPENSHMEM_EVENT_AND_COUNTERS TIME SHMEM_SHORT_P_EV EVT_END EMPTY s else Inr s)"

definition PROBE_shmem_int_p_ENTRY :: "addr \<Rightarrow> 32 word \<Rightarrow> 32 word \<Rightarrow> 'w tracer \<Rightarrow> 'w tracer result" where
  "PROBE_shmem_int_p_ENTRY addr value pe s =
     (if EXTRAE_ON s then TRACE_OPENSHMEM_EVENT_AND_COUNTERS READ_LAST SHMEM_INT_P_EV EVT_BEGIN 4 s else Inr s)"

definition PROBE_shmem_int_p_EXIT :: "'w tracer \<Rightarrow> 'w tracer result" where
  "PROBE_shmem_int_p_EXIT s = (if EXTRAE_ON s then TRACE_OPENSHMEM_EVENT_AND_COUNTERS TIME SHMEM_INT_P_EV EVT_END EMPTY s else Inr s)"

definition PROBE_shmem_long_p_ENTRY :: "addr \<Rightarrow> 64 word \<Rightarrow> 32 word \<Rightarrow> 'w tracer \<Rightarrow> 'w tracer result" where
  "PROBE_shmem_long_p_ENTRY addr value pe s =
     (if EXTRAE_ON s then TRACE_OPENSHMEM_EVENT_AND_COUNTERS READ_LAST SHMEM_LONG_P_EV EVT_BEGIN 8 s else Inr s)"

definition PROBE_shmem_long_p_EXIT :: "'w tracer \<Rightarrow> 'w tracer result" where
  "PROBE_shmem_long_p_EXIT s = (if EXTRAE_ON s then TRACE_OPENSHMEM_EVENT_AND_COUNTERS TIME SHMEM_LONG_P_EV EVT_END EMPTY s else Inr s)"

definition PROBE_shmem_longlong_p_ENTRY :: "addr \<Rightarrow> 64 word \<Rightarrow> 32 word \<Rightarrow> 'w tracer \<Rightarrow> 'w tracer result" where
  "PROBE_shmem_longlong_p_ENTRY addr value pe s =
     (if EXTRAE_ON s then TRACE_OPENSHMEM_EVENT_AND_COUNTERS READ_LAST SHMEM_LONGLONG_P_EV EVT_BEGIN 8 s else Inr s)"

definition PROBE_shmem_longlong_p_EXIT :: "'w tracer \<Rightarrow> 'w tracer result" where
  "PROBE_shmem_longlong_p_EXIT s = (if EXTRAE_ON s then TRACE_OPENSHMEM_EVENT_AND_COUNTERS TIME SHMEM_LONGLONG_P_EV EVT_END EMPTY s else Inr s)"

definition PROBE_shmem_float_p_ENTRY :: "addr \<Rightarrow> 32 word \<Rightarrow> 32 word \<Rightarrow> 'w tracer \<Rightarrow> 'w tracer result" where
  "PROBE_shmem_float_p_ENTRY addr value pe s =
     (if EXTRAE_ON s then TRACE_OPENSHMEM_EVENT_AND_COUNTERS READ_LAST SHMEM_FLOAT_P_EV EVT_BEGIN 4 s else Inr s)"

definition PROBE_shmem_float_p_EXIT :: "'w tracer \<Rightarrow> 'w tracer result" where
  "PROBE_shmem_float_p_EXIT s = (if EXTRAE_ON s then TRACE_OPENSHMEM_EVENT_AND_COUNTERS TIME SHMEM_FLOAT_P_EV EVT_END EMPTY s else Inr s)"

definition PROBE_shmem_double_p_ENTRY :: "addr \<Rightarrow> 64 word \<Rightarrow> 32 word \<Rightarrow> 'w tracer \<Rightarrow> 'w tracer result" where
  "PROBE_shmem_double_p_ENTRY addr value pe s =
     (if EXTRAE_ON s then TRACE_OPENSHMEM_EVENT_AND_COUNTERS READ_LAST SHMEM_DOUBLE_P_EV EVT_BEGIN 8 s else Inr s)"

definition PROBE_shmem_double_p_EXIT :: "'w tracer \<Rightarrow> 'w tracer result" where
  "PROBE_shmem_double_p_EXIT s = (if EXTRAE_ON s then TRACE_OPENSHMEM_EVENT_AND_COUNTERS TIME SHMEM_DOUBLE_P_EV EVT_END EMPTY s else Inr s)"

definition PROBE_shmem_longdouble_p_ENTRY :: "addr \<Rightarrow> 128 word \<Rightarrow> 32 word \<Rightarrow> 'w tracer \<Rightarrow> 'w tracer result" where
  "PROBE_shmem_longdouble_p_ENTRY addr value pe s =
     (if EXTRAE_ON s then TRACE_OPENSHMEM_EVENT_AND_COUNTERS READ_LAST SHMEM_LONGDOUBLE_P_EV EVT_BEGIN 16 s else Inr s)"

definition PROBE_shmem_longdouble_p_EXIT :: "'w tracer \<Rightarrow> 'w tracer result" where
  "PROBE_shmem_longdouble_p_EXIT s = (if EXTRAE_ON s then TRACE_OPENSHMEM_EVENT_AND_COUNTERS TIME SHMEM_LONGDOUBLE_P_EV EVT_END EMPTY s else Inr s)"

definition PROBE_shmem_double_iput_ENTRY :: "addr \<Rightarrow> addr \<Rightarrow> 64 word \<Rightarrow> 64 word \<Rightarrow> 64 word \<Rightarrow> 32 word \<Rightarrow> 'w tracer \<Rightarrow> 'w tracer result" where
  "PROBE_shmem_double_iput_ENTRY target source tst sst nelems pe s =
     (if EXTRAE_ON s then TRACE_OPENSHMEM_EVENT_AND_COUNTERS READ_LAST SHMEM_DOUBLE_IPUT_EV EVT_BEGIN (ucast (nelems * 8)) s else Inr s)"

definition PROBE_shmem_double_iput_EXIT :: "'w tracer \<Rightarrow> 'w tracer result" where
  "PROBE_shmem_double_iput_EXIT s = (if EXTRAE_ON s then TRACE_OPENSHMEM_EVENT_AND_COUNTERS TIME SHMEM_DOUBLE_IPUT_EV EVT_END EMPTY s else Inr s)"

definition PROBE_shmem_float_iput_ENTRY :: "addr \<Rightarrow> addr \<Rightarrow> 64 word \<Rightarrow> 64 word \<Rightarrow> 64 word \<Rightarrow> 32 word \<Rightarrow> 'w tracer \<Rightarrow> 'w tracer result" where
  "PROBE_shmem_float_iput_ENTRY target source tst sst nelems pe s =
     (if EXTRAE_ON s then TRACE_OPENSHMEM_EVENT_AND_COUNTERS READ_LAST SHMEM_FLOAT_IPUT_EV EVT_BEGIN (ucast (nelems * 4)) s else Inr s)"

definition PROBE_shmem_float_iput_EXIT :: "'w tracer \<Rightarrow> 'w tracer result" where
  "PROBE_shmem_float_iput_EXIT s = (if EXTRAE_ON s then TRACE_OPENSHMEM_EVENT_AND_COUNTERS TIME SHMEM_FLOAT_IPUT_EV EVT_END EMPTY s else Inr s)"

definition PROBE_shmem_int_iput_ENTRY :: "addr \<Rightarrow> addr \<Rightarrow> 64 word \<Rightarrow> 64 word \<Rightarrow> 64 word \<Rightarrow> 32 word \<Rightarrow> 'w tracer \<Rightarrow> 'w tracer result" where
  "PROBE_shmem_int_iput_ENTRY target source tst sst nelems pe s =
     (if EXTRAE_ON s then TRACE_OPENSHMEM_EVENT_AND_COUNTERS READ_LAST SHMEM_INT_IPUT_EV EVT_BEGIN (ucast (nelems * 4)) s else Inr s)"

definition PROBE_shmem_int_iput_EXIT :: "'w tracer \<Rightarrow> 'w tracer result" where
  "PROBE_shmem_int_iput_EXIT s = (if EXTRAE_ON s then TRACE_OPENSHMEM_EVENT_AND_COUNTERS TIME SHMEM_INT_IPUT_EV EVT_END EMPTY s else Inr s)"

definition PROBE_shmem_iput32_ENTRY :: "addr \<Rightarrow> addr \<Rightarrow> 64 word \<Rightarrow> 64 word \<Rightarrow> 64 word \<Rightarrow> 32 word \<Rightarrow> 'w tracer \<Rightarrow> 'w tracer result" where
  "PROBE_shmem_iput32_ENTRY target source tst sst nelems pe s =
     (if EXTRAE_ON s then TRACE_OPENSHMEM_EVENT_AND_COUNTERS READ_LAST SHMEM_IPUT32_EV EVT_BEGIN (ucast (nelems * 4)) s else Inr s)"

definition PROBE_shmem_iput32_EXIT :: "'w tracer \<Rightarrow> 'w tracer result" where
  "PROBE_shmem_iput32_EXIT s = (if EXTRAE_ON s then TRACE_OPENSHMEM_EVENT_AND_COUNTERS TIME SHMEM_IPUT32_EV EVT_END EMPTY s else Inr s)"

definition PROBE_shmem_iput64_ENTRY :: "addr \<Rightarrow> addr \<Rightarrow> 64 word \<Rightarrow> 64 word \<Rightarrow> 64 word \<Rightarrow> 32 word \<Rightarrow> 'w tracer \<Rightarrow> 'w tracer result" where
  "PROBE_shmem_iput64_ENTRY target source tst sst nelems pe s =
     (if EXTRAE_ON s then TRACE_OPENSHMEM_EVENT_AND_COUNTERS READ_LAST SHMEM_IPUT64_EV EVT_BEGIN (ucast (nelems * 8)) s else Inr s)"

definition PROBE_shmem_iput64_EXIT :: "'w tracer \<Rightarrow> 'w tracer result" where
  "PROBE_shmem_iput64_EXIT s = (if EXTRAE_ON s then TRACE_OPENSHMEM_EVENT_AND_COUNTERS TIME SHMEM_IPUT64_EV EVT_END EMPTY s else Inr s)"

definition PROBE_shmem_iput128_ENTRY :: "addr \<Rightarrow> addr \<Rightarrow> 64 word \<Rightarrow> 64 word \<Rightarrow> 64 word \<Rightarrow> 32 word \<Rightarrow> 'w tracer \<Rightarrow> 'w tracer result" where
  "PROBE_shmem_iput128_ENTRY target source tst sst nelems pe s =
     (if EXTRAE_ON s then TRACE_OPENSHMEM_EVENT_AND_COUNTERS READ_LAST SHMEM_IPUT128_EV EVT_BEGIN (ucast (nelems * 16)) s else Inr s)"

definition PROBE_shmem_iput128_EXIT :: "'w tracer \<Rightarrow> 'w tracer result" where
  "PROBE_shmem_iput128_EXIT s = (if EXTRAE_ON s then TRACE_OPENSHMEM_EVENT_AND_COUNTERS TIME SHMEM_IPUT128_EV EVT_END EMPTY s else Inr s)"

definition PROBE_shmem_long_iput_ENTRY :: "addr \<Rightarrow> addr \<Rightarrow> 64 word \<Rightarrow> 64 word \<Rightarrow> 64 word \<Rightarrow> 32 word \<Rightarrow> 'w tracer \<Rightarrow> 'w tracer result" where
  "PROBE_shmem_long_iput_ENTRY target source tst sst nelems pe s =
     (if EXTRAE_ON s then TRACE_OPENSHMEM_EVENT_AND_COUNTERS READ_LAST SHMEM_LONG_IPUT_EV EVT_BEGIN (ucast (nelems * 8)) s else Inr s)"

definition PROBE_shmem_long_iput_EXIT :: "'w tracer \<Rightarrow> 'w tracer result" where
  "PROBE_shmem_long_iput_EXIT s = (if EXTRAE_ON s then TRACE_OPENSHMEM_EVENT_AND_COUNTERS TIME SHMEM_LONG_IPUT_EV EVT_END EMPTY s else Inr s)"

definition PROBE_shmem_longdouble_iput_ENTRY :: "addr \<Rightarrow> addr \<Rightarrow> 64 word \<Rightarrow> 64 word \<Rightarrow> 64 word \<Rightarrow> 32 word \<Rightarrow> 'w tracer \<Rightarrow> 'w tracer result" where
  "PROBE_shmem_longdouble_iput_ENTRY target source tst sst nelems pe s =
     (if EXTRAE_ON s then TRACE_OPENSHMEM_EVENT_AND_COUNTERS READ_LAST SHMEM_LONGDOUBLE_IPUT_EV EVT_BEGIN (ucast (nelems * 16)) s else Inr s)"

definition PROBE_shmem_longdouble_iput_EXIT :: "'w tracer \<Rightarrow> 'w tracer result" where
  "PROBE_shmem_longdouble_iput_EXIT s = (if EXTRAE_ON s then TRACE_OPENSHMEM_EVENT_AND_COUNTERS TIME SHMEM_LONGDOUBLE_IPUT_EV EVT_END EMPTY s else Inr s)"

definition PROBE_shmem_longlong_iput_ENTRY :: "addr \<Rightarrow> addr \<Rightarrow> 64 word \<Rightarrow> 64 word \<Rightarrow> 64 word \<Rightarrow> 32 word \<Rightarrow> 'w tracer \<Rightarrow> 'w tracer result" where
  "PROBE_shmem_longlong_iput_ENTRY target source tst sst nelems pe s =
     (if EXTRAE_ON s then TRACE_OPENSHMEM_EVENT_AND_COUNTERS READ_LAST SHMEM_LONGLONG_IPUT_EV EVT_BEGIN (ucast (nelems * 8)) s else Inr s)"

definition PROBE_shmem_longlong_iput_EXIT :: "'w tracer \<Rightarrow> 'w tracer result" where
  "PROBE_shmem_longlong_iput_EXIT s = (if EXTRAE_ON s then TRACE_OPENSHMEM_EVENT_AND_COUNTERS TIME SHMEM_LONGLONG_IPUT_EV EVT_END EMPTY s else Inr s)"

definition PROBE_shmem_short_iput_ENTRY :: "addr \<Rightarrow> addr \<Rightarrow> 64 word \<Rightarrow> 64 word \<Rightarrow> 64 word \<Rightarrow> 32 word \<Rightarrow> 'w tracer \<Rightarrow> 'w tracer result" where
  "PROBE_shmem_short_iput_ENTRY target source tst sst nelems pe s =
     (if EXTRAE_ON s then TRACE_OPENSHMEM_EVENT_AND_COUNTERS READ_LAST SHMEM_SHORT_IPUT_EV EVT_BEGIN (ucast (nelems * 2)) s else Inr s)"

definition PROBE_shmem_short_iput_EXIT :: "'w tracer \<Rightarrow> 'w tracer result" where
  "PROBE_shmem_short_iput_EXIT s = (if EXTRAE_ON s then TRACE_OPENSHMEM_EVENT_AND_COUNTERS TIME SHMEM_SHORT_IPUT_EV EVT_END EMPTY s else Inr s)"

definition PROBE_shmem_double_get_ENTRY :: "addr \<Rightarrow> addr \<Rightarrow> 64 word \<Rightarrow> 32 word \<Rightarrow> 'w tracer \<Rightarrow> 'w tracer result" where
  "PROBE_shmem_double_get_ENTRY target source nelems pe s =
     (if EXTRAE_ON s then TRACE_OPENSHMEM_EVENT_AND_COUNTERS READ_LAST SHMEM_DOUBLE_GET_EV EVT_BEGIN (ucast (nelems * 8)) s else Inr s)"

definition PROBE_shmem_double_get_EXIT :: "'w tracer \<Rightarrow> 'w tracer result" where
  "PROBE_shmem_double_get_EXIT s = (if EXTRAE_ON s then TRACE_OPENSHMEM_EVENT_AND_COUNTERS TIME SHMEM_DOUBLE_GET_EV EVT_END EMPTY s else Inr s)"

definition PROBE_shmem_float_get_ENTRY :: "addr \<Rightarrow> addr \<Rightarrow> 64 word \<Rightarrow> 32 word \<Rightarrow> 'w tracer \<Rightarrow> 'w tracer result" where
  "PROBE_shmem_float_get_ENTRY target source nelems pe s =
     (if EXTRAE_ON s then TRACE_OPENSHMEM_EVENT_AND_COUNTERS READ_LAST SHMEM_FLOAT_GET_EV EVT_BEGIN (ucast (nelems * 4)) s else Inr s)"

definition PROBE_shmem_float_get_EXIT :: "'w tracer \<Rightarrow> 'w tracer result" where
  "PROBE_shmem_float_get_EXIT s = (if EXTRAE_ON s then TRACE_OPENSHMEM_EVENT_AND_COUNTERS TIME SHMEM_FLOAT_GET_EV EVT_END EMPTY s else Inr s)"

definition PROBE_shmem_get32_ENTRY :: "addr \<Rightarrow> addr \<Rightarrow> 64 word \<Rightarrow> 32 word \<Rightarrow> 'w tracer \<Rightarrow> 'w tracer result" where
  "PROBE_shmem_get32_ENTRY target source nelems pe s =
     (if EXTRAE_ON s then TRACE_OPENSHMEM_EVENT_AND_COUNTERS READ_LAST SHMEM_GET32_EV EVT_BEGIN (ucast (nelems * 4)) s else Inr s)"

definition PROBE_shmem_get32_EXIT :: "'w tracer \<Rightarrow> 'w tracer result" where
  "PROBE_shmem_get32_EXIT s = (if EXTRAE_ON s then TRACE_OPENSHMEM_EVENT_AND_COUNTERS TIME SHMEM_GET32_EV EVT_END EMPTY s else Inr s)"

definition PROBE_shmem_get64_ENTRY :: "addr \<Rightarrow> addr \<Rightarrow> 64 word \<Rightarrow> 32 word \<Rightarrow> 'w tracer \<Rightarrow> 'w tracer result" where
  "PROBE_shmem_get64_ENTRY target source nelems pe s =
     (if EXTRAE_ON s then TRACE_OPENSHMEM_EVENT_AND_COUNTERS READ_LAST SHMEM_GET64_EV EVT_BEGIN (ucast (nelems * 8)) s else Inr s)"

definition PROBE_shmem_get64_EXIT :: "'w tracer \<Rightarrow> 'w tracer result" where
  "PROBE_shmem_get64_EXIT s = (if EXTRAE_ON s then TRACE_OPENSHMEM_EVENT_AND_COUNTERS TIME SHMEM_GET64_EV EVT_END EMPTY s else Inr s)"

definition PROBE_shmem_get128_ENTRY :: "addr \<Rightarrow> addr \<Rightarrow> 64 word \<Rightarrow> 32 word \<Rightarrow> 'w tracer \<Rightarrow> 'w tracer result" where
  "PROBE_shmem_get128_ENTRY target source nelems pe s =
     (if EXTRAE_ON s then TRACE_OPENSHMEM_EVENT_AND_COUNTERS READ_LAST SHMEM_GET128_EV EVT_BEGIN (ucast (nelems * 16)) s else Inr s)"

definition PROBE_shmem_get128_EXIT :: "'w tracer \<Rightarrow> 'w tracer result" where
  "PROBE_shmem_get128_EXIT s = (if EXTRAE_ON s then TRACE_OPENSHMEM_EVENT_AND_COUNTERS TIME SHMEM_GET128_EV EVT_END EMPTY s else Inr s)"

definition PROBE_shmem_getmem_ENTRY :: "addr \<Rightarrow> addr \<Rightarrow> 64 word \<Rightarrow> 32 word \<Rightarrow> 'w tracer \<Rightarrow> 'w tracer result" where
  "PROBE_shmem_getmem_ENTRY target source nelems pe s =
     (if EXTRAE_ON s then TRACE_OPENSHMEM_EVENT_AND_COUNTERS READ_LAST SHMEM_GETMEM_EV EVT_BEGIN (ucast nelems) s else Inr s)"

definition PROBE_shmem_getmem_EXIT :: "'w tracer \<Rightarrow> 'w tracer result" where
  "PROBE_shmem_getmem_EXIT s = (if EXTRAE_ON s then TRACE_OPENSHMEM_EVENT_AND_COUNTERS TIME SHMEM_GETMEM_EV EVT_END EMPTY s else Inr s)"

definition PROBE_shmem_int_get_ENTRY :: "addr \<Rightarrow> addr \<Rightarrow> 64 word \<Rightarrow> 32 word \<Rightarrow> 'w tracer \<Rightarrow> 'w tracer result" where
  "PROBE_shmem_int_get_ENTRY target source nelems pe s =
     (if EXTRAE_ON s then TRACE_OPENSHMEM_EVENT_AND_COUNTERS READ_LAST SHMEM_INT_GET_EV EVT_BEGIN (ucast (nelems * 4)) s else Inr s)"

definition PROBE_shmem_int_get_EXIT :: "'w tracer \<Rightarrow> 'w tracer result" where
  "PROBE_shmem_int_get_EXIT s = (if EXTRAE_ON s then TRACE_OPENSHMEM_EVENT_AND_COUNTERS TIME SHMEM_INT_GET_EV EVT_END EMPTY s else Inr s)"

definition PROBE_shmem_long_get_ENTRY :: "addr \<Rightarrow> addr \<Rightarrow> 64 word \<Rightarrow> 32 word \<Rightarrow> 'w tracer \<Rightarrow> 'w tracer result" where
  "PROBE_shmem_long_get_ENTRY target source nelems pe s =
     (if EXTRAE_ON s then TRACE_OPENSHMEM_EVENT_AND_COUNTERS READ_LAST SHMEM_LONG_GET_EV EVT_BEGIN (ucast (nelems * 8)) s else Inr s)"

definition PROBE_shmem_long_get_EXIT :: "'w tracer \<Rightarrow> 'w tracer result" where
  "PROBE_shmem_long_get_EXIT s = (if EXTRAE_ON s then TRACE_OPENSHMEM_EVENT_AND_COUNTERS TIME SHMEM_LONG_GET_EV EVT_END EMPTY s else Inr s)"

definition PROBE_shmem_longdouble_get_ENTRY :: "addr \<Rightarrow> addr \<Rightarrow> 64 word \<Rightarrow> 32 word \<Rightarrow> 'w tracer \<Rightarrow> 'w tracer result" where
  "PROBE_shmem_longdouble_get_ENTRY target source nelems pe s =
     (if EXTRAE_ON s then TRACE_OPENSHMEM_EVENT_AND_COUNTERS READ_LAST SHMEM_LONGDOUBLE_GET_EV EVT_BEGIN (ucast (nelems * 16)) s else Inr s)"

definition PROBE_shmem_longdouble_get_EXIT :: "'w tracer \<Rightarrow> 'w tracer result" where
  "PROBE_shmem_longdouble_get_EXIT s = (if EXTRAE_ON s then TRACE_OPENSHMEM_EVENT_AND_COUNTERS TIME SHMEM_LONGDOUBLE_GET_EV EVT_END EMPTY s else Inr s)"

definition PROBE_shmem_longlong_get_ENTRY :: "addr \<Rightarrow> addr \<Rightarrow> 64 word \<Rightarrow> 32 word \<Rightarrow> 'w tracer \<Rightarrow> 'w tracer result" where
  "PROBE_shmem_longlong_get_ENTRY target source nelems pe s =
     (if EXTRAE_ON s then TRACE_OPENSHMEM_EVENT_AND_COUNTERS READ_LAST SHMEM_LONGLONG_GET_EV EVT_BEGIN (ucast (nelems * 8)) s else Inr s)"

definition PROBE_shmem_longlong_get_EXIT :: "'w tracer \<Rightarrow> 'w tracer result" where
  "PROBE_shmem_longlong_get_EXIT s = (if EXTRAE_ON s then TRACE_OPENSHMEM_EVENT_AND_COUNTERS TIME SHMEM_LONGLONG_GET_EV EVT_END EMPTY s else Inr s)"

definition PROBE_shmem_short_get_ENTRY :: "addr \<Rightarrow> addr \<Rightarrow> 64 word \<Rightarrow> 32 word \<Rightarrow> 'w tracer \<Rightarrow> 'w tracer result" where
  "PROBE_shmem_short_get_ENTRY target source nelems pe s =
     (if EXTRAE_ON s then TRACE_OPENSHMEM_EVENT_AND_COUNTERS READ_LAST SHMEM_SHORT_GET_EV EVT_BEGIN (ucast (nelems * 2)) s else Inr s)"

definition PROBE_shmem_short_get_EXIT :: "'w tracer \<Rightarrow> 'w tracer result" where
  "PROBE_shmem_short_get_EXIT s = (if EXTRAE_ON s then TRACE_OPENSHMEM_EVENT_AND_COUNTERS TIME SHMEM_SHORT_GET_EV EVT_END EMPTY s else Inr s)"

definition PROBE_shmem_char_g_ENTRY :: "addr \<Rightarrow> 32 word \<Rightarrow> 'w tracer \<Rightarrow> 'w tracer result" where
  "PROBE_shmem_char_g_ENTRY addr pe s =
     (if EXTRAE_ON s then TRACE_OPENSHMEM_EVENT_AND_COUNTERS READ_LAST SHMEM_CHAR_G_EV EVT_BEGIN 1 s else Inr s)"

definition PROBE_shmem_char_g_EXIT :: "'w tracer \<Rightarrow> 'w tracer result" where
  "PROBE_shmem_char_g_EXIT s = (if EXTRAE_ON s then TRACE_OPENSHMEM_EVENT_AND_COUNTERS TIME SHMEM_CHAR_G_EV EVT_END EMPTY s else Inr s)"

definition PROBE_shmem_short_g_ENTRY :: "addr \<Rightarrow> 32 word \<Rightarrow> 'w tracer \<Rightarrow> 'w tracer result" where
  "PROBE_shmem_short_g_ENTRY addr pe s =
     (if EXTRAE_ON s then TRACE_OPENSHMEM_EVENT_AND_COUNTERS READ_LAST SHMEM_SHORT_G_EV EVT_BEGIN 2 s else Inr s)"

definition PROBE_shmem_short_g_EXIT :: "'w tracer \<Rightarrow> 'w tracer result" where
  "PROBE_shmem_short_g_EXIT s = (if EXTRAE_ON s then TRACE_OPENSHMEM_EVENT_AND_COUNTERS TIME SHMEM_SHORT_G_EV EVT_END EMPTY s else Inr s)"

definition PROBE_shmem_int_g_ENTRY :: "addr \<Rightarrow> 32 word \<Rightarrow> 'w tracer \<Rightarrow> 'w tracer result" where
  "PROBE_shmem_int_g_ENTRY addr pe s =
     (if EXTRAE_ON s then TRACE_OPENSHMEM_EVENT_AND_COUNTERS READ_LAST SHMEM_INT_G_EV EVT_BEGIN 4 s else Inr s)"

definition PROBE_shmem_int_g_EXIT :: "'w tracer \<Rightarrow> 'w tracer result" where
  "PROBE_shmem_int_g_EXIT s = (if EXTRAE_ON s then TRACE_OPENSHMEM_EVENT_AND_COUNTERS TIME SHMEM_INT_G_EV EVT_END EMPTY s else Inr s)"

definition PROBE_shmem_long_g_ENTRY :: "addr \<Rightarrow> 32 word \<Rightarrow> 'w tracer \<Rightarrow> 'w tracer result" where
  "PROBE_shmem_long_g_ENTRY addr pe s =
     (if EXTRAE_ON s then TRACE_OPENSHMEM_EVENT_AND_COUNTERS READ_LAST SHMEM_LONG_G_EV EVT_BEGIN 8 s else Inr s)"

definition PROBE_shmem_long_g_EXIT :: "'w tracer \<Rightarrow> 'w tracer result" where
  "PROBE_shmem_long_g_EXIT s = (if EXTRAE_ON s then TRACE_OPENSHMEM_EVENT_AND_COUNTERS TIME SHMEM_LONG_G_EV EVT_END EMPTY s else Inr s)"

definition PROBE_shmem_longlong_g_ENTRY :: "addr \<Rightarrow> 32 word \<Rightarrow> 'w tracer \<Rightarrow> 'w tracer result" where
  "PROBE_shmem_longlong_g_ENTRY addr pe s =
     (if EXTRAE_ON s then TRACE_OPENSHMEM_EVENT_AND_COUNTERS READ_LAST SHMEM_LONGLONG_G_EV EVT_BEGIN 8 s else Inr s)"

definition PROBE_shmem_longlong_g_EXIT :: "'w tracer \<Rightarrow> 'w tracer result" where
  "PROBE_shmem_longlong_g_EXIT s = (if EXTRAE_ON s then TRACE_OPENSHMEM_EVENT_AND_COUNTERS TIME SHMEM_LONGLONG_G_EV EVT_END EMPTY s else Inr s)"

definition PROBE_shmem_float_g_ENTRY :: "addr \<Rightarrow> 32 word \<Rightarrow> 'w tracer \<Rightarrow> 'w tracer result" where
  "PROBE_shmem_float_g_ENTRY addr pe s =
     (if EXTRAE_ON s then TRACE_OPENSHMEM_EVENT_AND_COUNTERS READ_LAST SHMEM_FLOAT_G_EV EVT_BEGIN 4 s else Inr s)"

definition PROBE_shmem_float_g_EXIT :: "'w tracer \<Rightarrow> 'w tracer result" where
  "PROBE_shmem_float_g_EXIT s = (if EXTRAE_ON s then TRACE_OPENSHMEM_EVENT_AND_COUNTERS TIME SHMEM_FLOAT_G_EV EVT_END EMPTY s else Inr s)"

definition PROBE_shmem_double_g_ENTRY :: "addr \<Rightarrow> 32 word \<Rightarrow> 'w tracer \<Rightarrow> 'w tracer result" where
  "PROBE_shmem_double_g_ENTRY addr pe s =
     (if EXTRAE_ON s then TRACE_OPENSHMEM_EVENT_AND_COUNTERS READ_LAST SHMEM_DOUBLE_G_EV EVT_BEGIN 8 s else Inr s)"

definition PROBE_shmem_double_g_EXIT :: "'w tracer \<Rightarrow> 'w tracer result" where
  "PROBE_shmem_double_g_EXIT s = (if EXTRAE_ON s then TRACE_OPENSHMEM_EVENT_AND_COUNTERS TIME SHMEM_DOUBLE_G_EV EVT_END EMPTY s else Inr s)"

definition PROBE_shmem_longdouble_g_ENTRY :: "addr \<Rightarrow> 32 word \<Rightarrow> 'w tracer \<Rightarrow> 'w tracer result" where
  "PROBE_shmem_longdouble_g_ENTRY addr pe s =
     (if EXTRAE_ON s then TRACE_OPENSHMEM_EVENT_AND_COUNTERS READ_LAST SHMEM_LONGDOUBLE_G_EV EVT_BEGIN 16 s else Inr s)"

definition PROBE_shmem_longdouble_g_EXIT :: "'w tracer \<Rightarrow> 'w tracer result" where
  "PROBE_shmem_longdouble_g_EXIT s = (if EXTRAE_ON s then TRACE_OPENSHMEM_EVENT_AND_COUNTERS TIME SHMEM_LONGDOUBLE_G_EV EVT_END EMPTY s else Inr s)"

definition PROBE_shmem_double_iget_ENTRY :: "addr \<Rightarrow> addr \<Rightarrow> 64 word \<Rightarrow> 64 word \<Rightarrow> 64 word \<Rightarrow> 32 word \<Rightarrow> 'w tracer \<Rightarrow> 'w tracer result" where
  "PROBE_shmem_double_iget_ENTRY target source tst sst nelems pe s =
     (if EXTRAE_ON s then TRACE_OPENSHMEM_EVENT_AND_COUNTERS READ_LAST SHMEM_DOUBLE_IGET_EV EVT_BEGIN (ucast (nelems * 8)) s else Inr s)"

definition PROBE_shmem_double_iget_EXIT :: "'w tracer \<Rightarrow> 'w tracer result" where
  "PROBE_shmem_double_iget_EXIT s = (if EXTRAE_ON s then TRACE_OPENSHMEM_EVENT_AND_COUNTERS TIME SHMEM_DOUBLE_IGET_EV EVT_END EMPTY s else Inr s)"

definition PROBE_shmem_float_iget_ENTRY :: "addr \<Rightarrow> addr \<Rightarrow> 64 word \<Rightarrow> 64 word \<Rightarrow> 64 word \<Rightarrow> 32 word \<Rightarrow> 'w tracer \<Rightarrow> 'w tracer result" where
  "PROBE_shmem_float_iget_ENTRY target source tst sst nelems pe s =
     (if EXTRAE_ON s then TRACE_OPENSHMEM_EVENT_AND_COUNTERS READ_LAST SHMEM_FLOAT_IGET_EV EVT_BEGIN (ucast (nelems * 4)) s else Inr s)"

definition PROBE_shmem_float_iget_EXIT :: "'w tracer \<Rightarrow> 'w tracer result" where
  "PROBE_shmem_float_iget_EXIT s = (if EXTRAE_ON s then TRACE_OPENSHMEM_EVENT_AND_COUNTERS TIME SHMEM_FLOAT_IGET_EV EVT_END EMPTY s else Inr s)"

definition PROBE_shmem_iget32_ENTRY :: "addr \<Rightarrow> addr \<Rightarrow> 64 word \<Rightarrow> 64 word \<Rightarrow> 64 word \<Rightarrow> 32 word \<Rightarrow> 'w tracer \<Rightarrow> 'w tracer result" where
  "PROBE_shmem_iget32_ENTRY target source tst sst nelems pe s =
     (if EXTRAE_ON s then TRACE_OPENSHMEM_EVENT_AND_COUNTERS READ_LAST SHMEM_IGET32_EV EVT_BEGIN (ucast (nelems * 4)) s else Inr s)"

definition PROBE_shmem_iget32_EXIT :: "'w tracer \<Rightarrow> 'w tracer result" where
  "PROBE_shmem_iget32_EXIT s = (if EXTRAE_ON s then TRACE_OPENSHMEM_EVENT_AND_COUNTERS TIME SHMEM_IGET32_EV EVT_END EMPTY s else Inr s)"

definition PROBE_shmem_iget64_ENTRY :: "addr \<Rightarrow> addr \<Rightarrow> 64 word \<Rightarrow> 64 word \<Rightarrow> 64 word \<Rightarrow> 32 word \<Rightarrow> 'w tracer \<Rightarrow> 'w tracer result" where
  "PROBE_shmem_iget64_ENTRY target source tst sst nelems pe s =
     (if EXTRAE_ON s then TRACE_OPENSHMEM_EVENT_AND_COUNTERS READ_LAST SHMEM_IGET64_EV EVT_BEGIN (ucast (nelems * 8)) s else Inr s)"

definition PROBE_shmem_iget64_EXIT :: "'w tracer \<Rightarrow> 'w tracer result" where
  "PROBE_shmem_iget64_EXIT s = (if EXTRAE_ON s then TRACE_OPENSHMEM_EVENT_AND_COUNTERS TIME SHMEM_IGET64_EV EVT_END EMPTY s else Inr s)"

definition PROBE_shmem_iget128_ENTRY :: "addr \<Rightarrow> addr \<Rightarrow> 64 word \<Rightarrow> 64 word \<Rightarrow> 64 word \<Rightarrow> 32 word \<Rightarrow> 'w tracer \<Rightarrow> 'w tracer result" where
  "PROBE_shmem_iget128_ENTRY target source tst sst nelems pe s =
     (if EXTRAE_ON s then TRACE_OPENSHMEM_EVENT_AND_COUNTERS READ_LAST SHMEM_IGET128_EV EVT_BEGIN (ucast (nelems * 16)) s else Inr s)"

definition PROBE_shmem_iget128_EXIT :: "'w tracer \<Rightarrow> 'w tracer result" where
  "PROBE_shmem_iget128_EXIT s = (if EXTRAE_ON s then TRACE_OPENSHMEM_EVENT_AND_COUNTERS TIME SHMEM_IGET128_EV EVT_END EMPTY s else Inr s)"

definition PROBE_shmem_int_iget_ENTRY :: "addr \<Rightarrow> addr \<Rightarrow> 64 word \<Rightarrow> 64 word \<Rightarrow> 64 word \<Rightarrow> 32 word \<Rightarrow> 'w tracer \<Rightarrow> 'w tracer result" where
  "PROBE_shmem_int_iget_ENTRY target source tst sst nelems pe s =
     (if EXTRAE_ON s then TRACE_OPENSHMEM_EVENT_AND_COUNTERS READ_LAST SHMEM_INT_IGET_EV EVT_BEGIN (ucast (nelems * 4)) s else Inr s)"

definition PROBE_shmem_int_iget_EXIT :: "'w tracer \<Rightarrow> 'w tracer result" where
  "PROBE_shmem_int_iget_EXIT s = (if EXTRAE_ON s then TRACE_OPENSHMEM_EVENT_AND_COUNTERS TIME SHMEM_INT_IGET_EV EVT_END EMPTY s else Inr s)"

definition PROBE_shmem_long_iget_ENTRY :: "addr \<Rightarrow> addr \<Rightarrow> 64 word \<Rightarrow> 64 word \<Rightarrow> 64 word \<Rightarrow> 32 word \<Rightarrow> 'w tracer \<Rightarrow> 'w tracer result" where
  "PROBE_shmem_long_iget_ENTRY target source tst sst nelems pe s =
     (if EXTRAE_ON s then TRACE_OPENSHMEM_EVENT_AND_COUNTERS READ_LAST SHMEM_LONG_IGET_EV EVT_BEGIN (ucast (nelems * 8)) s else Inr s)"

definition PROBE_shmem_long_iget_EXIT :: "'w tracer \<Rightarrow> 'w tracer result" where
  "PROBE_shmem_long_iget_EXIT s = (if EXTRAE_ON s then TRACE_OPENSHMEM_EVENT_AND_COUNTERS TIME SHMEM_LONG_IGET_EV EVT_END EMPTY s else Inr s)"

definition PROBE_shmem_longdouble_iget_ENTRY :: "addr \<Rightarrow> addr \<Rightarrow> 64 word \<Rightarrow> 64 word \<Rightarrow> 64 word \<Rightarrow> 32 word \<Rightarrow> 'w tracer \<Rightarrow> 'w tracer result" where
  "PROBE_shmem_longdouble_iget_ENTRY target source tst sst nelems pe s =
     (if EXTRAE_ON s then TRACE_OPENSHMEM_EVENT_AND_COUNTERS READ_LAST SHMEM_LONGDOUBLE_IGET_EV EVT_BEGIN (ucast (nelems * 16)) s else Inr s)"

definition PROBE_shmem_longdouble_iget_EXIT :: "'w tracer \<Rightarrow> 'w tracer result" where
  "PROBE_shmem_longdouble_iget_EXIT s = (if EXTRAE_ON s then TRACE_OPENSHMEM_EVENT_AND_COUNTERS TIME SHMEM_LONGDOUBLE_IGET_EV EVT_END EMPTY s else Inr s)"

definition PROBE_shmem_longlong_iget_ENTRY :: "addr \<Rightarrow> addr \<Rightarrow> 64 word \<Rightarrow> 64 word \<Rightarrow> 64 word \<Rightarrow> 32 word \<Rightarrow> 'w tracer \<Rightarrow> 'w tracer result" where
  "PROBE_shmem_longlong_iget_ENTRY target source tst sst nelems pe s =
     (if EXTRAE_ON s then TRACE_OPENSHMEM_EVENT_AND_COUNTERS READ_LAST SHMEM_LONGLONG_IGET_EV EVT_BEGIN (ucast (nelems * 8)) s else Inr s)"

definition PROBE_shmem_longlong_iget_EXIT :: "'w tracer \<Rightarrow> 'w tracer result" where
  "PROBE_shmem_longlong_iget_EXIT s = (if EXTRAE_ON s then TRACE_OPENSHMEM_EVENT_AND_COUNTERS TIME SHMEM_LONGLONG_IGET_EV EVT_END EMPTY s else Inr s)"

definition PROBE_shmem_short_iget_ENTRY :: "addr \<Rightarrow> addr \<Rightarrow> 64 word \<Rightarrow> 64 word \<Rightarrow> 64 word \<Rightarrow> 32 word \<Rightarrow> 'w tracer \<Rightarrow> 'w tracer result" where
  "PROBE_shmem_short_iget_ENTRY target source tst sst nelems pe s =
     (if EXTRAE_ON s then TRACE_OPENSHMEM_EVENT_AND_COUNTERS READ_LAST SHMEM_SHORT_IGET_EV EVT_BEGIN (ucast (nelems * 2)) s else Inr s)"

definition PROBE_shmem_short_iget_EXIT :: "'w tracer \<Rightarrow> 'w tracer result" where
  "PROBE_shmem_short_iget_EXIT s = (if EXTRAE_ON s then TRACE_OPENSHMEM_EVENT_AND_COUNTERS TIME SHMEM_SHORT_IGET_EV EVT_END EMPTY s else Inr s)"

definition PROBE_shmem_int_add_ENTRY :: "addr \<Rightarrow> 32 word \<Rightarrow> 32 word \<Rightarrow> 'w tracer \<Rightarrow> 'w tracer result" where
  "PROBE_shmem_int_add_ENTRY target value pe s =
     (if EXTRAE_ON s then TRACE_OPENSHMEM_EVENT_AND_COUNTERS READ_LAST SHMEM_INT_ADD_EV EVT_BEGIN EMPTY s else Inr s)"

definition PROBE_shmem_int_add_EXIT :: "'w tracer \<Rightarrow> 'w tracer result" where
  "PROBE_shmem_int_add_EXIT s = (if EXTRAE_ON s then TRACE_OPENSHMEM_EVENT_AND_COUNTERS TIME SHMEM_INT_ADD_EV EVT_END EMPTY s else Inr s)"

definition PROBE_shmem_long_add_ENTRY :: "addr \<Rightarrow> 64 word \<Rightarrow> 32 word \<Rightarrow> 'w tracer \<Rightarrow> 'w tracer result" where
  "PROBE_shmem_long_add_ENTRY target value pe s =
     (if EXTRAE_ON s then TRACE_OPENSHMEM_EVENT_AND_COUNTERS READ_LAST SHMEM_LONG_ADD_EV EVT_BEGIN EMPTY s else Inr s)"

definition PROBE_shmem_long_add_EXIT :: "'w tracer \<Rightarrow> 'w tracer result" where
  "PROBE_shmem_long_add_EXIT s = (if EXTRAE_ON s then TRACE_OPENSHMEM_EVENT_AND_COUNTERS TIME SHMEM_LONG_ADD_EV EVT_END EMPTY s else Inr s)"

definition PROBE_shmem_longlong_add_ENTRY :: "addr \<Rightarrow> 64 word \<Rightarrow> 32 word \<Rightarrow> 'w tracer \<Rightarrow> 'w tracer result" where
  "PROBE_shmem_longlong_add_ENTRY target value pe s =
     (if EXTRAE_ON s then TRACE_OPENSHMEM_EVENT_AND_COUNTERS READ_LAST SHMEM_LONGLONG_ADD_EV EVT_BEGIN EMPTY s else Inr s)"

definition PROBE_shmem_longlong_add_EXIT :: "'w tracer \<Rightarrow> 'w tracer result" where
  "PROBE_shmem_longlong_add_EXIT s = (if EXTRAE_ON s then TRACE_OPENSHMEM_EVENT_AND_COUNTERS TIME SHMEM_LONGLONG_ADD_EV EVT_END EMPTY s else Inr s)"

definition PROBE_shmem_int_cswap_ENTRY :: "addr \<Rightarrow> 32 word \<Rightarrow> 32 word \<Rightarrow> 32 word \<Rightarrow> 'w tracer \<Rightarrow> 'w tracer result" where
  "PROBE_shmem_int_cswap_ENTRY target cond value pe s =
     (if EXTRAE_ON s then TRACE_OPENSHMEM_EVENT_AND_COUNTERS READ_LAST SHMEM_INT_CSWAP_EV EVT_BEGIN EMPTY s else Inr s)"

definition PROBE_shmem_int_cswap_EXIT :: "'w tracer \<Rightarrow> 'w tracer result" where
  "PROBE_shmem_int_cswap_EXIT s = (if EXTRAE_ON s then TRACE_OPENSHMEM_EVENT_AND_COUNTERS TIME SHMEM_INT_CSWAP_EV EVT_END EMPTY s else Inr s)"

definition PROBE_shmem_long_cswap_ENTRY :: "addr \<Rightarrow> 64 word \<Rightarrow> 64 word \<Rightarrow> 32 word \<Rightarrow> 'w tracer \<Rightarrow> 'w tracer result" where
  "PROBE_shmem_long_cswap_ENTRY target cond value pe s =
     (if EXTRAE_ON s then TRACE_OPENSHMEM_EVENT_AND_COUNTERS READ_LAST SHMEM_LONG_CSWAP_EV EVT_BEGIN EMPTY s else Inr s)"

definition PROBE_shmem_long_cswap_EXIT :: "'w tracer \<Rightarrow> 'w tracer result" where
  "PROBE_shmem_long_cswap_EXIT s = (if EXTRAE_ON s then TRACE_OPENSHMEM_EVENT_AND_COUNTERS TIME SHMEM_LONG_CSWAP_EV EVT_END EMPTY s else Inr s)"

definition PROBE_shmem_longlong_cswap_ENTRY :: "addr \<Rightarrow> 64 word \<Rightarrow> 64 word \<Rightarrow> 32 word \<Rightarrow> 'w tracer \<Rightarrow> 'w tracer result" where
  "PROBE_shmem_longlong_cswap_ENTRY target cond value pe s =
     (if EXTRAE_ON s then TRACE_OPENSHMEM_EVENT_AND_COUNTERS READ_LAST SHMEM_LONGLONG_CSWAP_EV EVT_BEGIN EMPTY s else Inr s)"

definition PROBE_shmem_longlong_cswap_EXIT :: "'w tracer \<Rightarrow> 'w tracer result" where
  "PROBE_shmem_longlong_cswap_EXIT s = (if EXTRAE_ON s then TRACE_OPENSHMEM_EVENT_AND_COUNTERS TIME SHMEM_LONGLONG_CSWAP_EV EVT_END EMPTY s else Inr s)"

definition PROBE_shmem_double_swap_ENTRY :: "addr \<Rightarrow> 64 word \<Rightarrow> 32 word \<Rightarrow> 'w tracer \<Rightarrow> 'w tracer result" where
  "PROBE_shmem_double_swap_ENTRY target value pe s =
     (if EXTRAE_ON s then TRACE_OPENSHMEM_EVENT_AND_COUNTERS READ_LAST SHMEM_DOUBLE_SWAP_EV EVT_BEGIN EMPTY s else Inr s)"

definition PROBE_shmem_double_swap_EXIT :: "'w tracer \<Rightarrow> 'w tracer result" where
  "PROBE_shmem_double_swap_EXIT s = (if EXTRAE_ON s then TRACE_OPENSHMEM_EVENT_AND_COUNTERS TIME SHMEM_DOUBLE_SWAP_EV EVT_END EMPTY s else Inr s)"

definition PROBE_shmem_float_swap_ENTRY :: "addr \<Rightarrow> 32 word \<Rightarrow> 32 word \<Rightarrow> 'w tracer \<Rightarrow> 'w tracer result" where
  "PROBE_shmem_float_swap_ENTRY target value pe s =
     (if EXTRAE_ON s then TRACE_OPENSHMEM_EVENT_AND_COUNTERS READ_LAST SHMEM_FLOAT_SWAP_EV EVT_BEGIN EMPTY s else Inr s)"

definition PROBE_shmem_float_swap_EXIT :: "'w tracer \<Rightarrow> 'w tracer result" where
  "PROBE_shmem_float_swap_EXIT s = (if EXTRAE_ON s then TRACE_OPENSHMEM_EVENT_AND_COUNTERS TIME SHMEM_FLOAT_SWAP_EV EVT_END EMPTY s else Inr s)"

definition PROBE_shmem_int_swap_ENTRY :: "addr \<Rightarrow> 32 word \<Rightarrow> 32 word \<Rightarrow> 'w tracer \<Rightarrow> 'w tracer result" where
  "PROBE_shmem_int_swap_ENTRY target value pe s =
     (if EXTRAE_ON s then TRACE_OPENSHMEM_EVENT_AND_COUNTERS READ_LAST SHMEM_INT_SWAP_EV EVT_BEGIN EMPTY s else Inr s)"

definition PROBE_shmem_int_swap_EXIT :: "'w tracer \<Rightarrow> 'w tracer result" where
  "PROBE_shmem_int_swap_EXIT s = (if EXTRAE_ON s then TRACE_OPENSHMEM_EVENT_AND_COUNTERS TIME SHMEM_INT_SWAP_EV EVT_END EMPTY s else Inr s)"

definition PROBE_shmem_long_swap_ENTRY :: "addr \<Rightarrow> 64 word \<Rightarrow> 32 word \<Rightarrow> 'w tracer \<Rightarrow> 'w tracer result" where
  "PROBE_shmem_long_swap_ENTRY target value pe s =
     (if EXTRAE_ON s then TRACE_OPENSHMEM_EVENT_AND_COUNTERS READ_LAST SHMEM_LONG_SWAP_EV EVT_BEGIN EMPTY s else Inr s)"

definition PROBE_shmem_long_swap_EXIT :: "'w tracer \<Rightarrow> 'w tracer result" where
  "PROBE_shmem_long_swap_EXIT s = (if EXTRAE_ON s then TRACE_OPENSHMEM_EVENT_AND_COUNTERS TIME SHMEM_LONG_SWAP_EV EVT_END EMPTY s else Inr s)"

definition PROBE_shmem_longlong_swap_ENTRY :: "addr \<Rightarrow> 64 word \<Rightarrow> 32 word \<Rightarrow> 'w tracer \<Rightarrow> 'w tracer result" where
  "PROBE_shmem_longlong_swap_ENTRY target value pe s =
     (if EXTRAE_ON s then TRACE_OPENSHMEM_EVENT_AND_COUNTERS READ_LAST SHMEM_LONGLONG_SWAP_EV EVT_BEGIN EMPTY s else Inr s)"

definition PROBE_shmem_longlong_swap_EXIT :: "'w tracer \<Rightarrow> 'w tracer result" where
  "PROBE_shmem_longlong_swap_EXIT s = (if EXTRAE_ON s then TRACE_OPENSHMEM_EVENT_AND_COUNTERS TIME SHMEM_LONGLONG_SWAP_EV EVT_END EMPTY s else Inr s)"

definition PROBE_shmem_swap_ENTRY :: "addr \<Rightarrow> 64 word \<Rightarrow> 32 word \<Rightarrow> 'w tracer \<Rightarrow> 'w tracer result" where
  "PROBE_shmem_swap_ENTRY target value pe s =
     (if EXTRAE_ON s then TRACE_OPENSHMEM_EVENT_AND_COUNTERS READ_LAST SHMEM_SWAP_EV EVT_BEGIN EMPTY s else Inr s)"

definition PROBE_shmem_swap_EXIT :: "'w tracer \<Rightarrow> 'w tracer result" where
  "PROBE_shmem_swap_EXIT s = (if EXTRAE_ON s then TRACE_OPENSHMEM_EVENT_AND_COUNTERS TIME SHMEM_SWAP_EV EVT_END EMPTY s else Inr s)"

definition PROBE_shmem_int_finc_ENTRY :: "addr \<Rightarrow> 32 word \<Rightarrow> 'w tracer \<Rightarrow> 'w tracer result" where
  "PROBE_shmem_int_finc_ENTRY target pe s =
     (if EXTRAE_ON s then TRACE_OPENSHMEM_EVENT_AND_COUNTERS READ_LAST SHMEM_INT_FINC_EV EVT_BEGIN EMPTY s else Inr s)"

definition PROBE_shmem_int_finc_EXIT :: "'w tracer \<Rightarrow> 'w tracer result" where
  "PROBE_shmem_int_finc_EXIT s = (if EXTRAE_ON s then TRACE_OPENSHMEM_EVENT_AND_COUNTERS TIME SHMEM_INT_FINC_EV EVT_END EMPTY s else Inr s)"

definition PROBE_shmem_long_finc_ENTRY :: "addr \<Rightarrow> 32 word \<Rightarrow> 'w tracer \<Rightarrow> 'w tracer result" where
  "PROBE_shmem_long_finc_ENTRY target pe s =
     (if EXTRAE_ON s then TRACE_OPENSHMEM_EVENT_AND_COUNTERS READ_LAST SHMEM_LONG_FINC_EV EVT_BEGIN EMPTY s else Inr s)"

definition PROBE_shmem_long_finc_EXIT :: "'w tracer \<Rightarrow> 'w tracer result" where
  "PROBE_shmem_long_finc_EXIT s = (if EXTRAE_ON s then TRACE_OPENSHMEM_EVENT_AND_COUNTERS TIME SHMEM_LONG_FINC_EV EVT_END EMPTY s else Inr s)"

definition PROBE_shmem_longlong_finc_ENTRY :: "addr \<Rightarrow> 32 word \<Rightarrow> 'w tracer \<Rightarrow> 'w tracer result" where
  "PROBE_shmem_longlong_finc_ENTRY target pe s =
     (if EXTRAE_ON s then TRACE_OPENSHMEM_EVENT_AND_COUNTERS READ_LAST SHMEM_LONGLONG_FINC_EV EVT_BEGIN EMPTY s else Inr s)"

definition PROBE_shmem_longlong_finc_EXIT :: "'w tracer \<Rightarrow> 'w tracer result" where
  "PROBE_shmem_longlong_finc_EXIT s = (if EXTRAE_ON s then TRACE_OPENSHMEM_EVENT_AND_COUNTERS TIME SHMEM_LONGLONG_FINC_EV EVT_END EMPTY s else Inr s)"

definition PROBE_shmem_int_inc_ENTRY :: "addr \<Rightarrow> 32 word \<Rightarrow> 'w tracer \<Rightarrow> 'w tracer result" where
  "PROBE_shmem_int_inc_ENTRY target pe s =
     (if EXTRAE_ON s then TRACE_OPENSHMEM_EVENT_AND_COUNTERS READ_LAST SHMEM_INT_INC_EV EVT_BEGIN EMPTY s else Inr s)"

definition PROBE_shmem_int_inc_EXIT :: "'w tracer \<Rightarrow> 'w tracer result" where
  "PROBE_shmem_int_inc_EXIT s = (if EXTRAE_ON s then TRACE_OPENSHMEM_EVENT_AND_COUNTERS TIME SHMEM_INT_INC_EV EVT_END EMPTY s else Inr s)"

definition PROBE_shmem_long_inc_ENTRY :: "addr \<Rightarrow> 32 word \<Rightarrow> 'w tracer \<Rightarrow> 'w tracer result" where
  "PROBE_shmem_long_inc_ENTRY target pe s =
     (if EXTRAE_ON s then TRACE_OPENSHMEM_EVENT_AND_COUNTERS READ_LAST SHMEM_LONG_INC_EV EVT_BEGIN EMPTY s else Inr s)"

definition PROBE_shmem_long_inc_EXIT :: "'w tracer \<Rightarrow> 'w tracer result" where
  "PROBE_shmem_long_inc_EXIT s = (if EXTRAE_ON s then TRACE_OPENSHMEM_EVENT_AND_COUNTERS TIME SHMEM_LONG_INC_EV EVT_END EMPTY s else Inr s)"

definition PROBE_shmem_longlong_inc_ENTRY :: "addr \<Rightarrow> 32 word \<Rightarrow> 'w tracer \<Rightarrow> 'w tracer result" where
  "PROBE_shmem_longlong_inc_ENTRY target pe s =
     (if EXTRAE_ON s then TRACE_OPENSHMEM_EVENT_AND_COUNTERS READ_LAST SHMEM_LONGLONG_INC_EV EVT_BEGIN EMPTY s else Inr s)"

definition PROBE_shmem_longlong_inc_EXIT :: "'w tracer \<Rightarrow> 'w tracer result" where
  "PROBE_shmem_longlong_inc_EXIT s = (if EXTRAE_ON s then TRACE_OPENSHMEM_EVENT_AND_COUNTERS TIME SHMEM_LONGLONG_INC_EV EVT_END EMPTY s else Inr s)"

definition PROBE_shmem_int_fadd_ENTRY :: "addr \<Rightarrow> 32 word \<Rightarrow> 32 word \<Rightarrow> 'w tracer \<Rightarrow> 'w tracer result" where
  "PROBE_shmem_int_fadd_ENTRY target value pe s =
     (if EXTRAE_ON s then TRACE_OPENSHMEM_EVENT_AND_COUNTERS READ_LAST SHMEM_INT_FADD_EV EVT_BEGIN EMPTY s else Inr s)"

definition PROBE_shmem_int_fadd_EXIT :: "'w tracer \<Rightarrow> 'w tracer result" where
  "PROBE_shmem_int_fadd_EXIT s = (if EXTRAE_ON s then TRACE_OPENSHMEM_EVENT_AND_COUNTERS TIME SHMEM_INT_FADD_EV EVT_END EMPTY s else Inr s)"

definition PROBE_shmem_long_fadd_ENTRY :: "addr \<Rightarrow> 64 word \<Rightarrow> 32 word \<Rightarrow> 'w tracer \<Rightarrow> 'w tracer result" where
  "PROBE_shmem_long_fadd_ENTRY target value pe s =
     (if EXTRAE_ON s then TRACE_OPENSHMEM_EVENT_AND_COUNTERS READ_LAST SHMEM_LONG_FADD_EV EVT_BEGIN EMPTY s else Inr s)"

definition PROBE_shmem_long_fadd_EXIT :: "'w tracer \<Rightarrow> 'w tracer result" where
  "PROBE_shmem_long_fadd_EXIT s = (if EXTRAE_ON s then TRACE_OPENSHMEM_EVENT_AND_COUNTERS TIME SHMEM_LONG_FADD_EV EVT_END EMPTY s else Inr s)"

definition PROBE_shmem_longlong_fadd_ENTRY :: "addr \<Rightarrow> 64 word \<Rightarrow> 32 word \<Rightarrow> 'w tracer \<Rightarrow> 'w tracer result" where
  "PROBE_shmem_longlong_fadd_ENTRY target value pe s =
     (if EXTRAE_ON s then TRACE_OPENSHMEM_EVENT_AND_COUNTERS READ_LAST SHMEM_LONGLONG_FADD_EV EVT_BEGIN EMPTY s else Inr s)"

definition PROBE_shmem_longlong_fadd_EXIT :: "'w tracer \<Rightarrow> 'w tracer result" where
  "PROBE_shmem_longlong_fadd_EXIT s = (if EXTRAE_ON s then TRACE_OPENSHMEM_EVENT_AND_COUNTERS TIME SHMEM_LONGLONG_FADD_EV EVT_END EMPTY s else Inr s)"

definition PROBE_shmem_barrier_all_ENTRY :: "'w tracer \<Rightarrow> 'w tracer result" where
  "PROBE_shmem_barrier_all_ENTRY s =
     (if EXTRAE_ON s then TRACE_OPENSHMEM_EVENT_AND_COUNTERS READ_LAST SHMEM_BARRIER_ALL_EV EVT_BEGIN EMPTY s else Inr s)"

definition PROBE_shmem_barrier_all_EXIT :: "'w tracer \<Rightarrow> 'w tracer result" where
  "PROBE_shmem_barrier_all_EXIT s = (if EXTRAE_ON s then TRACE_OPENSHMEM_EVENT_AND_COUNTERS TIME SHMEM_BARRIER_ALL_EV EVT_END EMPTY s else Inr s)"

definition PROBE_shmem_barrier_ENTRY :: "32 word \<Rightarrow> 32 word \<Rightarrow> 32 word \<Rightarrow> addr \<Rightarrow> 'w tracer \<Rightarrow> 'w tracer result" where
  "PROBE_shmem_barrier_ENTRY PE_start logPE_stride PE_size pSync s =
     (if EXTRAE_ON s then TRACE_OPENSHMEM_EVENT_AND_COUNTERS READ_LAST SHMEM_BARRIER_EV EVT_BEGIN EMPTY s else Inr s)"

definition PROBE_shmem_barrier_EXIT :: "'w tracer \<Rightarrow> 'w tracer result" where
  "PROBE_shmem_barrier_EXIT s = (if EXTRAE_ON s then TRACE_OPENSHMEM_EVENT_AND_COUNTERS TIME SHMEM_BARRIER_EV EVT_END EMPTY s else Inr s)"

definition PROBE_shmem_broadcast32_ENTRY :: "addr \<Rightarrow> addr \<Rightarrow> 64 word \<Rightarrow> 32 word \<Rightarrow> 32 word \<Rightarrow> 32 word \<Rightarrow> 32 word \<Rightarrow> addr \<Rightarrow> 'w tracer \<Rightarrow> 'w tracer result" where
  "PROBE_shmem_broadcast32_ENTRY target source nlong PE_root PE_start logPE_stride PE_size pSync s =
     (if EXTRAE_ON s then rbind (if TASKID s = unat PE_root then strided_bytes (nlong * 4) PE_size logPE_stride else Inr 0)
        (\<lambda>bytes. TRACE_OPENSHMEM_EVENT_AND_COUNTERS READ_LAST SHMEM_BROADCAST32_EV EVT_BEGIN bytes s)
      else Inr s)"

definition PROBE_shmem_broadcast32_EXIT :: "'w tracer \<Rightarrow> 'w tracer result" where
  "PROBE_shmem_broadcast32_EXIT s = (if EXTRAE_ON s then TRACE_OPENSHMEM_EVENT_AND_COUNTERS TIME SHMEM_BROADCAST32_EV EVT_END EMPTY s else Inr s)"

definition PROBE_shmem_broadcast64_ENTRY :: "addr \<Rightarrow> addr \<Rightarrow> 64 word \<Rightarrow> 32 word \<Rightarrow> 32 word \<Rightarrow> 32 word \<Rightarrow> 32 word \<Rightarrow> addr \<Rightarrow> 'w tracer \<Rightarrow> 'w tracer result" where
  "PROBE_shmem_broadcast64_ENTRY target source nlong PE_root PE_start logPE_stride PE_size pSync s =
     (if EXTRAE_ON s then rbind (if TASKID s = unat PE_root then strided_bytes (nlong * 8) PE_size logPE_stride else Inr 0)
        (\<lambda>bytes. TRACE_OPENSHMEM_EVENT_AND_COUNTERS READ_LAST SHMEM_BROADCAST64_EV EVT_BEGIN bytes s)
      else Inr s)"

definition PROBE_shmem_broadcast64_EXIT :: "'w tracer \<Rightarrow> 'w tracer result" where
  "PROBE_shmem_broadcast64_EXIT s = (if EXTRAE_ON s then TRACE_OPENSHMEM_EVENT_AND_COUNTERS TIME SHMEM_BROADCAST64_EV EVT_END EMPTY s else Inr s)"

definition PROBE_shmem_collect32_ENTRY :: "addr \<Rightarrow> addr \<Rightarrow> 64 word \<Rightarrow> 32 word \<Rightarrow> 32 word \<Rightarrow> 32 word \<Rightarrow> addr \<Rightarrow> 'w tracer \<Rightarrow> 'w tracer result" where
  "PROBE_shmem_collect32_ENTRY target source nelems PE_start logPE_stride PE_size pSync s =
     (if EXTRAE_ON s then macro_argument (strided_bytes (nelems * 4) PE_size logPE_stride)
        (\<lambda>bytes. TRACE_OPENSHMEM_EVENT_AND_COUNTERS READ_LAST SHMEM_COLLECT32_EV EVT_BEGIN bytes) s
      else Inr s)"

definition PROBE_shmem_collect32_EXIT :: "'w tracer \<Rightarrow> 'w tracer result" where
  "PROBE_shmem_collect32_EXIT s = (if EXTRAE_ON s then TRACE_OPENSHMEM_EVENT_AND_COUNTERS TIME SHMEM_COLLECT32_EV EVT_END EMPTY s else Inr s)"

definition PROBE_shmem_collect64_ENTRY :: "addr \<Rightarrow> addr \<Rightarrow> 64 word \<Rightarrow> 32 word \<Rightarrow> 32 word \<Rightarrow> 32 word \<Rightarrow> addr \<Rightarrow> 'w tracer \<Rightarrow> 'w tracer result" where
  "PROBE_shmem_collect64_ENTRY target source nelems PE_start logPE_stride PE_size pSync s =
     (if EXTRAE_ON s then macro_argument (strided_bytes (nelems * 8) PE_size logPE_stride)
        (\<lambda>bytes. TRACE_OPENSHMEM_EVENT_AND_COUNTERS READ_LAST SHMEM_COLLECT64_EV EVT_BEGIN bytes) s
      else Inr s)"

definition PROBE_shmem_collect64_EXIT :: "'w tracer \<Rightarrow> 'w tracer result" where
  "PROBE_shmem_collect64_EXIT s = (if EXTRAE_ON s then TRACE_OPENSHMEM_EVENT_AND_COUNTERS TIME SHMEM_COLLECT64_EV EVT_END EMPTY s else Inr s)"

definition PROBE_shmem_fcollect32_ENTRY :: "addr \<Rightarrow> addr \<Rightarrow> 64 word \<Rightarrow> 32 word \<Rightarrow> 32 word \<Rightarrow> 32 word \<Rightarrow> addr \<Rightarrow> 'w tracer \<Rightarrow> 'w tracer result" where
  "PROBE_shmem_fcollect32_ENTRY target source nelems PE_start logPE_stride PE_size pSync s =
     (if EXTRAE_ON s then macro_argument (strided_bytes (nelems * 4) PE_size logPE_stride)
        (\<lambda>bytes. TRACE_OPENSHMEM_EVENT_AND_COUNTERS READ_LAST SHMEM_FCOLLECT32_EV EVT_BEGIN bytes) s
      else Inr s)"

definition PROBE_shmem_fcollect32_EXIT :: "'w tracer \<Rightarrow> 'w tracer result" where
  "PROBE_shmem_fcollect32_EXIT s = (if EXTRAE_ON s then TRACE_OPENSHMEM_EVENT_AND_COUNTERS TIME SHMEM_FCOLLECT32_EV EVT_END EMPTY s else Inr s)"

definition PROBE_shmem_fcollect64_ENTRY :: "addr \<Rightarrow> addr \<Rightarrow> 64 word \<Rightarrow> 32 word \<Rightarrow> 32 word \<Rightarrow> 32 word \<Rightarrow> addr \<Rightarrow> 'w tracer \<Rightarrow> 'w tracer result" where
  "PROBE_shmem_fcollect64_ENTRY target source nelems PE_start logPE_stride PE_size pSync s =
     (if EXTRAE_ON s then macro_argument (strided_bytes (nelems * 8) PE_size logPE_stride)
        (\<lambda>bytes. TRACE_OPENSHMEM_EVENT_AND_COUNTERS READ_LAST SHMEM_FCOLLECT64_EV EVT_BEGIN bytes) s
      else Inr s)"

definition PROBE_shmem_fcollect64_EXIT :: "'w tracer \<Rightarrow> 'w tracer result" where
  "PROBE_shmem_fcollect64_EXIT s = (if EXTRAE_ON s then TRACE_OPENSHMEM_EVENT_AND_COUNTERS TIME SHMEM_FCOLLECT64_EV EVT_END EMPTY s else Inr s)"

definition PROBE_shmem_int_and_to_all_ENTRY :: "addr \<Rightarrow> addr \<Rightarrow> 32 word \<Rightarrow> 32 word \<Rightarrow> 32 word \<Rightarrow> 32 word \<Rightarrow> addr \<Rightarrow> addr \<Rightarrow> 'w tracer \<Rightarrow> 'w tracer result" where
  "PROBE_shmem_int_and_to_all_ENTRY target source nreduce PE_start logPE_stride PE_size pWrk pSync s =
     (if EXTRAE_ON s then macro_argument (strided_bytes (scast nreduce * 4) PE_size logPE_stride)
        (\<lambda>bytes. TRACE_OPENSHMEM_EVENT_AND_COUNTERS READ_LAST SHMEM_INT_AND_TO_ALL_EV EVT_BEGIN bytes) s
      else Inr s)"

definition PROBE_shmem_int_and_to_all_EXIT :: "'w tracer \<Rightarrow> 'w tracer result" where
  "PROBE_shmem_int_and_to_all_EXIT s = (if EXTRAE_ON s then TRACE_OPENSHMEM_EVENT_AND_COUNTERS TIME SHMEM_INT_AND_TO_ALL_EV EVT_END EMPTY s else Inr s)"

definition PROBE_shmem_long_and_to_all_ENTRY :: "addr \<Rightarrow> addr \<Rightarrow> 32 word \<Rightarrow> 32 word \<Rightarrow> 32 word \<Rightarrow> 32 word \<Rightarrow> addr \<Rightarrow> addr \<Rightarrow> 'w tracer \<Rightarrow> 'w tracer result" where
  "PROBE_shmem_long_and_to_all_ENTRY target source nreduce PE_start logPE_stride PE_size pWrk pSync s =
     (if EXTRAE_ON s then macro_argument (strided_bytes (scast nreduce * 8) PE_size logPE_stride)
        (\<lambda>bytes. TRACE_OPENSHMEM_EVENT_AND_COUNTERS READ_LAST SHMEM_LONG_AND_TO_ALL_EV EVT_BEGIN bytes) s
      else Inr s)"

definition PROBE_shmem_long_and_to_all_EXIT :: "'w tracer \<Rightarrow> 'w tracer result" where
  "PROBE_shmem_long_and_to_all_EXIT s = (if EXTRAE_ON s then TRACE_OPENSHMEM_EVENT_AND_COUNTERS TIME SHMEM_LONG_AND_TO_ALL_EV EVT_END EMPTY s else Inr s)"

definition PROBE_shmem_longlong_and_to_all_ENTRY :: "addr \<Rightarrow> addr \<Rightarrow> 32 word \<Rightarrow> 32 word \<Rightarrow> 32 word \<Rightarrow> 32 word \<Rightarrow> addr \<Rightarrow> addr \<Rightarrow> 'w tracer \<Rightarrow> 'w tracer result" where
  "PROBE_shmem_longlong_and_to_all_ENTRY target source nreduce PE_start logPE_stride PE_size pWrk pSync s =
     (if EXTRAE_ON s then macro_argument (strided_bytes (scast nreduce * 8) PE_size logPE_stride)
        (\<lambda>bytes. TRACE_OPENSHMEM_EVENT_AND_COUNTERS READ_LAST SHMEM_LONGLONG_AND_TO_ALL_EV EVT_BEGIN bytes) s
      else Inr s)"

definition PROBE_shmem_longlong_and_to_all_EXIT :: "'w tracer \<Rightarrow> 'w tracer result" where
  "PROBE_shmem_longlong_and_to_all_EXIT s = (if EXTRAE_ON s then TRACE_OPENSHMEM_EVENT_AND_COUNTERS TIME SHMEM_LONGLONG_AND_TO_ALL_EV EVT_END EMPTY s else Inr s)"

definition PROBE_shmem_short_and_to_all_ENTRY :: "addr \<Rightarrow> addr \<Rightarrow> 32 word \<Rightarrow> 32 word \<Rightarrow> 32 word \<Rightarrow> 32 word \<Rightarrow> addr \<Rightarrow> addr \<Rightarrow> 'w tracer \<Rightarrow> 'w tracer result" where
  "PROBE_shmem_short_and_to_all_ENTRY target source nreduce PE_start logPE_stride PE_size pWrk pSync s =
     (if EXTRAE_ON s then macro_argument (strided_bytes (scast nreduce * 2) PE_size logPE_stride)
        (\<lambda>bytes. TRACE_OPENSHMEM_EVENT_AND_COUNTERS READ_LAST SHMEM_SHORT_AND_TO_ALL_EV EVT_BEGIN bytes) s
      else Inr s)"

definition PROBE_shmem_short_and_to_all_EXIT :: "'w tracer \<Rightarrow> 'w tracer result" where
  "PROBE_shmem_short_and_to_all_EXIT s = (if EXTRAE_ON s then TRACE_OPENSHMEM_EVENT_AND_COUNTERS TIME SHMEM_SHORT_AND_TO_ALL_EV EVT_END EMPTY s else Inr s)"

definition PROBE_shmem_double_max_to_all_ENTRY :: "addr \<Rightarrow> addr \<Rightarrow> 32 word \<Rightarrow> 32 word \<Rightarrow> 32 word \<Rightarrow> 32 word \<Rightarrow> addr \<Rightarrow> addr \<Rightarrow> 'w tracer \<Rightarrow> 'w tracer result" where
  "PROBE_shmem_double_max_to_all_ENTRY target source nreduce PE_start logPE_stride PE_size pWrk pSync s =
     (if EXTRAE_ON s then macro_argument (strided_bytes (scast nreduce * 8) PE_size logPE_stride)
        (\<lambda>bytes. TRACE_OPENSHMEM_EVENT_AND_COUNTERS READ_LAST SHMEM_DOUBLE_MAX_TO_ALL_EV EVT_BEGIN bytes) s
      else Inr s)"

definition PROBE_shmem_double_max_to_all_EXIT :: "'w tracer \<Rightarrow> 'w tracer result" where
  "PROBE_shmem_double_max_to_all_EXIT s = (if EXTRAE_ON s then TRACE_OPENSHMEM_EVENT_AND_COUNTERS TIME SHMEM_DOUBLE_MAX_TO_ALL_EV EVT_END EMPTY s else Inr s)"

definition PROBE_shmem_float_max_to_all_ENTRY :: "addr \<Rightarrow> addr \<Rightarrow> 32 word \<Rightarrow> 32 word \<Rightarrow> 32 word \<Rightarrow> 32 word \<Rightarrow> addr \<Rightarrow> addr \<Rightarrow> 'w tracer \<Rightarrow> 'w tracer result" where
  "PROBE_shmem_float_max_to_all_ENTRY target source nreduce PE_start logPE_stride PE_size pWrk pSync s =
     (if EXTRAE_ON s then macro_argument (strided_bytes (scast nreduce * 4) PE_size logPE_stride)
        (\<lambda>bytes. TRACE_OPENSHMEM_EVENT_AND_COUNTERS READ_LAST SHMEM_FLOAT_MAX_TO_ALL_EV EVT_BEGIN bytes) s
      else Inr s)"

definition PROBE_shmem_float_max_to_all_EXIT :: "'w tracer \<Rightarrow> 'w tracer result" where
  "PROBE_shmem_float_max_to_all_EXIT s = (if EXTRAE_ON s then TRACE_OPENSHMEM_EVENT_AND_COUNTERS TIME SHMEM_FLOAT_MAX_TO_ALL_EV EVT_END EMPTY s else Inr s)"

definition PROBE_shmem_int_max_to_all_ENTRY :: "addr \<Rightarrow> addr \<Rightarrow> 32 word \<Rightarrow> 32 word \<Rightarrow> 32 word \<Rightarrow> 32 word \<Rightarrow> addr \<Rightarrow> addr \<Rightarrow> 'w tracer \<Rightarrow> 'w tracer result" where
  "PROBE_shmem_int_max_to_all_ENTRY target source nreduce PE_start logPE_stride PE_size pWrk pSync s =
     (if EXTRAE_ON s then macro_argument (strided_bytes (scast nreduce * 4) PE_size logPE_stride)
        (\<lambda>bytes. TRACE_OPENSHMEM_EVENT_AND_COUNTERS READ_LAST SHMEM_INT_MAX_TO_ALL_EV EVT_BEGIN bytes) s
      else Inr s)"

definition PROBE_shmem_int_max_to_all_EXIT :: "'w tracer \<Rightarrow> 'w tracer result" where
  "PROBE_shmem_int_max_to_all_EXIT s = (if EXTRAE_ON s then TRACE_OPENSHMEM_EVENT_AND_COUNTERS TIME SHMEM_INT_MAX_TO_ALL_EV EVT_END EMPTY s else Inr s)"

definition PROBE_shmem_long_max_to_all_ENTRY :: "addr \<Rightarrow> addr \<Rightarrow> 32 word \<Rightarrow> 32 word \<Rightarrow> 32 word \<Rightarrow> 32 word \<Rightarrow> addr \<Rightarrow> addr \<Rightarrow> 'w tracer \<Rightarrow> 'w tracer result" where
  "PROBE_shmem_long_max_to_all_ENTRY target source nreduce PE_start logPE_stride PE_size pWrk pSync s =
     (if EXTRAE_ON s then macro_argument (strided_bytes (scast nreduce * 8) PE_size logPE_stride)
        (\<lambda>bytes. TRACE_OPENSHMEM_EVENT_AND_COUNTERS READ_LAST SHMEM_LONG_MAX_TO_ALL_EV EVT_BEGIN bytes) s
      else Inr s)"

definition PROBE_shmem_long_max_to_all_EXIT :: "'w tracer \<Rightarrow> 'w tracer result" where
  "PROBE_shmem_long_max_to_all_EXIT s = (if EXTRAE_ON s then TRACE_OPENSHMEM_EVENT_AND_COUNTERS TIME SHMEM_LONG_MAX_TO_ALL_EV EVT_END EMPTY s else Inr s)"

definition PROBE_shmem_longdouble_max_to_all_ENTRY :: "addr \<Rightarrow> addr \<Rightarrow> 32 word \<Rightarrow> 32 word \<Rightarrow> 32 word \<Rightarrow> 32 word \<Rightarrow> addr \<Rightarrow> addr \<Rightarrow> 'w tracer \<Rightarrow> 'w tracer result" where
  "PROBE_shmem_longdouble_max_to_all_ENTRY target source nreduce PE_start logPE_stride PE_size pWrk pSync s =
     (if EXTRAE_ON s then macro_argument (strided_bytes (scast nreduce * 16) PE_size logPE_stride)
        (\<lambda>bytes. TRACE_OPENSHMEM_EVENT_AND_COUNTERS READ_LAST SHMEM_LONGDOUBLE_MAX_TO_ALL_EV EVT_BEGIN bytes) s
      else Inr s)"

definition PROBE_shmem_longdouble_max_to_all_EXIT :: "'w tracer \<Rightarrow> 'w tracer result" where
  "PROBE_shmem_longdouble_max_to_all_EXIT s = (if EXTRAE_ON s then TRACE_OPENSHMEM_EVENT_AND_COUNTERS TIME SHMEM_LONGDOUBLE_MAX_TO_ALL_EV EVT_END EMPTY s else Inr s)"

definition PROBE_shmem_longlong_max_to_all_ENTRY :: "addr \<Rightarrow> addr \<Rightarrow> 32 word \<Rightarrow> 32 word \<Rightarrow> 32 word \<Rightarrow> 32 word \<Rightarrow> addr \<Rightarrow> addr \<Rightarrow> 'w tracer \<Rightarrow> 'w tracer result" where
  "PROBE_shmem_longlong_max_to_all_ENTRY target source nreduce PE_start logPE_stride PE_size pWrk pSync s =
     (if EXTRAE_ON s then macro_argument (strided_bytes (scast nreduce * 8) PE_size logPE_stride)
        (\<lambda>bytes. TRACE_OPENSHMEM_EVENT_AND_COUNTERS READ_LAST SHMEM_LONGLONG_MAX_TO_ALL_EV EVT_BEGIN bytes) s
      else Inr s)"

definition PROBE_shmem_longlong_max_to_all_EXIT :: "'w tracer \<Rightarrow> 'w tracer result" where
  "PROBE_shmem_longlong_max_to_all_EXIT s = (if EXTRAE_ON s then TRACE_OPENSHMEM_EVENT_AND_COUNTERS TIME SHMEM_LONGLONG_MAX_TO_ALL_EV EVT_END EMPTY s else Inr s)"

definition PROBE_shmem_short_max_to_all_ENTRY :: "addr \<Rightarrow> addr \<Rightarrow> 32 word \<Rightarrow> 32 word \<Rightarrow> 32 word \<Rightarrow> 32 word \<Rightarrow> addr \<Rightarrow> addr \<Rightarrow> 'w tracer \<Rightarrow> 'w tracer result" where
  "PROBE_shmem_short_max_to_all_ENTRY target source nreduce PE_start logPE_stride PE_size pWrk pSync s =
     (if EXTRAE_ON s then macro_argument (strided_bytes (scast nreduce * 2) PE_size logPE_stride)
        (\<lambda>bytes. TRACE_OPENSHMEM_EVENT_AND_COUNTERS READ_LAST SHMEM_SHORT_MAX_TO_ALL_EV EVT_BEGIN bytes) s
      else Inr s)"

definition PROBE_shmem_short_max_to_all_EXIT :: "'w tracer \<Rightarrow> 'w tracer result" where
  "PROBE_shmem_short_max_to_all_EXIT s = (if EXTRAE_ON s then TRACE_OPENSHMEM_EVENT_AND_COUNTERS TIME SHMEM_SHORT_MAX_TO_ALL_EV EVT_END EMPTY s else Inr s)"

definition PROBE_shmem_double_min_to_all_ENTRY :: "addr \<Rightarrow> addr \<Rightarrow> 32 word \<Rightarrow> 32 word \<Rightarrow> 32 word \<Rightarrow> 32 word \<Rightarrow> addr \<Rightarrow> addr \<Rightarrow> 'w tracer \<Rightarrow> 'w tracer result" where
  "PROBE_shmem_double_min_to_all_ENTRY target source nreduce PE_start logPE_stride PE_size pWrk pSync s =
     (if EXTRAE_ON s then macro_argument (strided_bytes (scast nreduce * 8) PE_size logPE_stride)
        (\<lambda>bytes. TRACE_OPENSHMEM_EVENT_AND_COUNTERS READ_LAST SHMEM_DOUBLE_MIN_TO_ALL_EV EVT_BEGIN bytes) s
      else Inr s)"

definition PROBE_shmem_double_min_to_all_EXIT :: "'w tracer \<Rightarrow> 'w tracer result" where
  "PROBE_shmem_double_min_to_all_EXIT s = (if EXTRAE_ON s then TRACE_OPENSHMEM_EVENT_AND_COUNTERS TIME SHMEM_DOUBLE_MIN_TO_ALL_EV EVT_END EMPTY s else Inr s)"

definition PROBE_shmem_int_wait_ENTRY :: "addr \<Rightarrow> 32 word \<Rightarrow> 'w tracer \<Rightarrow> 'w tracer result" where
  "PROBE_shmem_int_wait_ENTRY ivar cmp_value s =
     (if EXTRAE_ON s then TRACE_OPENSHMEM_EVENT_AND_COUNTERS READ_LAST SHMEM_INT_WAIT_EV EVT_BEGIN EMPTY s else Inr s)"

definition PROBE_shmem_int_wait_EXIT :: "'w tracer \<Rightarrow> 'w tracer result" where
  "PROBE_shmem_int_wait_EXIT s = (if EXTRAE_ON s then TRACE_OPENSHMEM_EVENT_AND_COUNTERS TIME SHMEM_INT_WAIT_EV EVT_END EMPTY s else Inr s)"

definition PROBE_shmem_int_wait_until_ENTRY :: "addr \<Rightarrow> 32 word \<Rightarrow> 32 word \<Rightarrow> 'w tracer \<Rightarrow> 'w tracer result" where
  "PROBE_shmem_int_wait_until_ENTRY ivar cmp cmp_value s =
     (if EXTRAE_ON s then TRACE_OPENSHMEM_EVENT_AND_COUNTERS READ_LAST SHMEM_INT_WAIT_UNTIL_EV EVT_BEGIN EMPTY s else Inr s)"

definition PROBE_shmem_int_wait_until_EXIT :: "'w tracer \<Rightarrow> 'w tracer result" where
  "PROBE_shmem_int_wait_until_EXIT s = (if EXTRAE_ON s then TRACE_OPENSHMEM_EVENT_AND_COUNTERS TIME SHMEM_INT_WAIT_UNTIL_EV EVT_END EMPTY s else Inr s)"

definition PROBE_shmem_long_wait_ENTRY :: "addr \<Rightarrow> 64 word \<Rightarrow> 'w tracer \<Rightarrow> 'w tracer result" where
  "PROBE_shmem_long_wait_ENTRY ivar cmp_value s =
     (if EXTRAE_ON s then TRACE_OPENSHMEM_EVENT_AND_COUNTERS READ_LAST SHMEM_LONG_WAIT_EV EVT_BEGIN EMPTY s else Inr s)"

definition PROBE_shmem_long_wait_EXIT :: "'w tracer \<Rightarrow> 'w tracer result" where
  "PROBE_shmem_long_wait_EXIT s = (if EXTRAE_ON s then TRACE_OPENSHMEM_EVENT_AND_COUNTERS TIME SHMEM_LONG_WAIT_EV EVT_END EMPTY s else Inr s)"

definition PROBE_shmem_long_wait_until_ENTRY :: "addr \<Rightarrow> 32 word \<Rightarrow> 64 word \<Rightarrow> 'w tracer \<Rightarrow> 'w tracer result" where
  "PROBE_shmem_long_wait_until_ENTRY ivar cmp cmp_value s =
     (if EXTRAE_ON s then TRACE_OPENSHMEM_EVENT_AND_COUNTERS READ_LAST SHMEM_LONG_WAIT_UNTIL_EV EVT_BEGIN EMPTY s else Inr s)"

definition PROBE_shmem_long_wait_until_EXIT :: "'w tracer \<Rightarrow> 'w tracer result" where
  "PROBE_shmem_long_wait_until_EXIT s = (if EXTRAE_ON s then TRACE_OPENSHMEM_EVENT_AND_COUNTERS TIME SHMEM_LONG_WAIT_UNTIL_EV EVT_END EMPTY s else Inr s)"

definition PROBE_shmem_longlong_wait_ENTRY :: "addr \<Rightarrow> 64 word \<Rightarrow> 'w tracer \<Rightarrow> 'w tracer result" where
  "PROBE_shmem_longlong_wait_ENTRY ivar cmp_value s =
     (if EXTRAE_ON s then TRACE_OPENSHMEM_EVENT_AND_COUNTERS READ_LAST SHMEM_LONGLONG_WAIT_EV EVT_BEGIN EMPTY s else Inr s)"

definition PROBE_shmem_longlong_wait_EXIT :: "'w tracer \<Rightarrow> 'w tracer result" where
  "PROBE_shmem_longlong_wait_EXIT s = (if EXTRAE_ON s then TRACE_OPENSHMEM_EVENT_AND_COUNTERS TIME SHMEM_LONGLONG_WAIT_EV EVT_END EMPTY s else Inr s)"

definition PROBE_shmem_longlong_wait_until_ENTRY :: "addr \<Rightarrow> 32 word \<Rightarrow> 64 word \<Rightarrow> 'w tracer \<Rightarrow> 'w tracer result" where
  "PROBE_shmem_longlong_wait_until_ENTRY ivar cmp cmp_value s =
     (if EXTRAE_ON s then TRACE_OPENSHMEM_EVENT_AND_COUNTERS READ_LAST SHMEM_LONGLONG_WAIT_UNTIL_EV EVT_BEGIN EMPTY s else Inr s)"

definition PROBE_shmem_longlong_wait_until_EXIT :: "'w tracer \<Rightarrow> 'w tracer result" where
  "PROBE_shmem_longlong_wait_until_EXIT s = (if EXTRAE_ON s then TRACE_OPENSHMEM_EVENT_AND_COUNTERS TIME SHMEM_LONGLONG_WAIT_UNTIL_EV EVT_END EMPTY s else Inr s)"

definition PROBE_shmem_short_wait_ENTRY :: "addr \<Rightarrow> 16 word \<Rightarrow> 'w tracer \<Rightarrow> 'w tracer result" where
  "PROBE_shmem_short_wait_ENTRY ivar cmp_value s =
     (if EXTRAE_ON s then TRACE_OPENSHMEM_EVENT_AND_COUNTERS READ_LAST SHMEM_SHORT_WAIT_EV EVT_BEGIN EMPTY s else Inr s)"

definition PROBE_shmem_short_wait_EXIT :: "'w tracer \<Rightarrow> 'w tracer result" where
  "PROBE_shmem_short_wait_EXIT s = (if EXTRAE_ON s then TRACE_OPENSHMEM_EVENT_AND_COUNTERS TIME SHMEM_SHORT_WAIT_EV EVT_END EMPTY s else Inr s)"

definition PROBE_shmem_short_wait_until_ENTRY :: "addr \<Rightarrow> 32 word \<Rightarrow> 16 word \<Rightarrow> 'w tracer \<Rightarrow> 'w tracer result" where
  "PROBE_shmem_short_wait_until_ENTRY ivar cmp cmp_value s =
     (if EXTRAE_ON s then TRACE_OPENSHMEM_EVENT_AND_COUNTERS READ_LAST SHMEM_SHORT_WAIT_UNTIL_EV EVT_BEGIN EMPTY s else Inr s)"

definition PROBE_shmem_short_wait_until_EXIT :: "'w tracer \<Rightarrow> 'w tracer result" where
  "PROBE_shmem_short_wait_until_EXIT s = (if EXTRAE_ON s then TRACE_OPENSHMEM_EVENT_AND_COUNTERS TIME SHMEM_SHORT_WAIT_UNTIL_EV EVT_END EMPTY s else Inr s)"

definition PROBE_shmem_wait_ENTRY :: "addr \<Rightarrow> 64 word \<Rightarrow> 'w tracer \<Rightarrow> 'w tracer result" where
  "PROBE_shmem_wait_ENTRY ivar cmp_value s =
     (if EXTRAE_ON s then TRACE_OPENSHMEM_EVENT_AND_COUNTERS READ_LAST SHMEM_WAIT_EV EVT_BEGIN EMPTY s else Inr s)"

definition PROBE_shmem_wait_EXIT :: "'w tracer \<Rightarrow> 'w tracer result" where
  "PROBE_shmem_wait_EXIT s = (if EXTRAE_ON s then TRACE_OPENSHMEM_EVENT_AND_COUNTERS TIME SHMEM_WAIT_EV EVT_END EMPTY s else Inr s)"

definition PROBE_shmem_wait_until_ENTRY :: "addr \<Rightarrow> 32 word \<Rightarrow> 64 word \<Rightarrow> 'w tracer \<Rightarrow> 'w tracer result" where
  "PROBE_shmem_wait_until_ENTRY ivar cmp cmp_value s =
     (if EXTRAE_ON s then TRACE_OPENSHMEM_EVENT_AND_COUNTERS READ_LAST SHMEM_WAIT_UNTIL_EV EVT_BEGIN EMPTY s else Inr s)"

definition PROBE_shmem_wait_until_EXIT :: "'w tracer \<Rightarrow> 'w tracer result" where
  "PROBE_shmem_wait_until_EXIT s = (if EXTRAE_ON s then TRACE_OPENSHMEM_EVENT_AND_COUNTERS TIME SHMEM_WAIT_UNTIL_EV EVT_END EMPTY s else Inr s)"

definition PROBE_shmem_fence_ENTRY :: "'w tracer \<Rightarrow> 'w tracer result" where
  "PROBE_shmem_fence_ENTRY s =
     (if EXTRAE_ON s then TRACE_OPENSHMEM_EVENT_AND_COUNTERS READ_LAST SHMEM_FENCE_EV EVT_BEGIN EMPTY s else Inr s)"

definition PROBE_shmem_fence_EXIT :: "'w tracer \<Rightarrow> 'w tracer result" where
  "PROBE_shmem_fence_EXIT s = (if EXTRAE_ON s then TRACE_OPENSHMEM_EVENT_AND_COUNTERS TIME SHMEM_FENCE_EV EVT_END EMPTY s else Inr s)"

definition PROBE_shmem_quiet_ENTRY :: "'w tracer \<Rightarrow> 'w tracer result" where
  "PROBE_shmem_quiet_ENTRY s =
     (if EXTRAE_ON s then TRACE_OPENSHMEM_EVENT_AND_COUNTERS READ_LAST SHMEM_QUIET_EV EVT_BEGIN EMPTY s else Inr s)"

definition PROBE_shmem_quiet_EXIT :: "'w tracer \<Rightarrow> 'w tracer result" where
  "PROBE_shmem_quiet_EXIT s = (if EXTRAE_ON s then TRACE_OPENSHMEM_EVENT_AND_COUNTERS TIME SHMEM_QUIET_EV EVT_END EMPTY s else Inr s)"

definition PROBE_shmem_clear_lock_ENTRY :: "addr \<Rightarrow> 'w tracer \<Rightarrow> 'w tracer result" where
  "PROBE_shmem_clear_lock_ENTRY lock s =
     (if EXTRAE_ON s then TRACE_OPENSHMEM_EVENT_AND_COUNTERS READ_LAST SHMEM_CLEAR_LOCK_EV EVT_BEGIN EMPTY s else Inr s)"

definition PROBE_shmem_clear_lock_EXIT :: "'w tracer \<Rightarrow> 'w tracer result" where
  "PROBE_shmem_clear_lock_EXIT s = (if EXTRAE_ON s then TRACE_OPENSHMEM_EVENT_AND_COUNTERS TIME SHMEM_CLEAR_LOCK_EV EVT_END EMPTY s else Inr s)"

definition PROBE_shmem_set_lock_ENTRY :: "addr \<Rightarrow> 'w tracer \<Rightarrow> 'w tracer result" where
  "PROBE_shmem_set_lock_ENTRY lock s =
     (if EXTRAE_ON s then TRACE_OPENSHMEM_EVENT_AND_COUNTERS READ_LAST SHMEM_SET_LOCK_EV EVT_BEGIN EMPTY s else Inr s)"

definition PROBE_shmem_set_lock_EXIT :: "'w tracer \<Rightarrow> 'w tracer result" where
  "PROBE_shmem_set_lock_EXIT s = (if EXTRAE_ON s then TRACE_OPENSHMEM_EVENT_AND_COUNTERS TIME SHMEM_SET_LOCK_EV EVT_END EMPTY s else Inr s)"

definition PROBE_shmem_test_lock_ENTRY :: "addr \<Rightarrow> 'w tracer \<Rightarrow> 'w tracer result" where
  "PROBE_shmem_test_lock_ENTRY lock s =
     (if EXTRAE_ON s then TRACE_OPENSHMEM_EVENT_AND_COUNTERS READ_LAST SHMEM_TEST_LOCK_EV EVT_BEGIN EMPTY s else Inr s)"

definition PROBE_shmem_test_lock_EXIT :: "'w tracer \<Rightarrow> 'w tracer result" where
  "PROBE_shmem_test_lock_EXIT s = (if EXTRAE_ON s then TRACE_OPENSHMEM_EVENT_AND_COUNTERS TIME SHMEM_TEST_LOCK_EV EVT_END EMPTY s else Inr s)"

definition PROBE_shmem_clear_cache_inv_ENTRY :: "'w tracer \<Rightarrow> 'w tracer result" where
  "PROBE_shmem_clear_cache_inv_ENTRY s =
     (if EXTRAE_ON s then TRACE_OPENSHMEM_EVENT_AND_COUNTERS READ_LAST SHMEM_CLEAR_CACHE_INV_EV EVT_BEGIN EMPTY s else Inr s)"

definition PROBE_shmem_clear_cache_inv_EXIT :: "'w tracer \<Rightarrow> 'w tracer result" where
  "PROBE_shmem_clear_cache_inv_EXIT s = (if EXTRAE_ON s then TRACE_OPENSHMEM_EVENT_AND_COUNTERS TIME SHMEM_CLEAR_CACHE_INV_EV EVT_END EMPTY s else Inr s)"

definition PROBE_shmem_set_cache_inv_ENTRY :: "'w tracer \<Rightarrow> 'w tracer result" where
  "PROBE_shmem_set_cache_inv_ENTRY s =
     (if EXTRAE_ON s then TRACE_OPENSHMEM_EVENT_AND_COUNTERS READ_LAST SHMEM_SET_CACHE_INV_EV EVT_BEGIN EMPTY s else Inr s)"

definition PROBE_shmem_set_cache_inv_EXIT :: "'w tracer \<Rightarrow> 'w tracer result" where
  "PROBE_shmem_set_cache_inv_EXIT s = (if EXTRAE_ON s then TRACE_OPENSHMEM_EVENT_AND_COUNTERS TIME SHMEM_SET_CACHE_INV_EV EVT_END EMPTY s else Inr s)"

definition PROBE_shmem_clear_cache_line_inv_ENTRY :: "addr \<Rightarrow> 'w tracer \<Rightarrow> 'w tracer result" where
  "PROBE_shmem_clear_cache_line_inv_ENTRY target s =
     (if EXTRAE_ON s then TRACE_OPENSHMEM_EVENT_AND_COUNTERS READ_LAST SHMEM_CLEAR_CACHE_LINE_INV_EV EVT_BEGIN EMPTY s else Inr s)"

definition PROBE_shmem_clear_cache_line_inv_EXIT :: "'w tracer \<Rightarrow> 'w tracer result" where
  "PROBE_shmem_clear_cache_line_inv_EXIT s = (if EXTRAE_ON s then TRACE_OPENSHMEM_EVENT_AND_COUNTERS TIME SHMEM_CLEAR_CACHE_LINE_INV_EV EVT_END EMPTY s else Inr s)"

definition PROBE_shmem_set_cache_line_inv_ENTRY :: "addr \<Rightarrow> 'w tracer \<Rightarrow> 'w tracer result" where
  "PROBE_shmem_set_cache_line_inv_ENTRY target s =
     (if EXTRAE_ON s then TRACE_OPENSHMEM_EVENT_AND_COUNTERS READ_LAST SHMEM_SET_CACHE_LINE_INV_EV EVT_BEGIN EMPTY s else Inr s)"

definition PROBE_shmem_set_cache_line_inv_EXIT :: "'w tracer \<Rightarrow> 'w tracer result" where
  "PROBE_shmem_set_cache_line_inv_EXIT s = (if EXTRAE_ON s then TRACE_OPENSHMEM_EVENT_AND_COUNTERS TIME SHMEM_SET_CACHE_LINE_INV_EV EVT_END EMPTY s else Inr s)"

definition PROBE_shmem_udcflush_ENTRY :: "'w tracer \<Rightarrow> 'w tracer result" where
  "PROBE_shmem_udcflush_ENTRY s =
     (if EXTRAE_ON s then TRACE_OPENSHMEM_EVENT_AND_COUNTERS READ_LAST SHMEM_UDCFLUSH_EV EVT_BEGIN EMPTY s else Inr s)"

definition PROBE_shmem_udcflush_EXIT :: "'w tracer \<Rightarrow> 'w tracer result" where
  "PROBE_shmem_udcflush_EXIT s = (if EXTRAE_ON s then TRACE_OPENSHMEM_EVENT_AND_COUNTERS TIME SHMEM_UDCFLUSH_EV EVT_END EMPTY s else Inr s)"

definition PROBE_shmem_udcflush_line_ENTRY :: "addr \<Rightarrow> 'w tracer \<Rightarrow> 'w tracer result" where
  "PROBE_shmem_udcflush_line_ENTRY target s =
     (if EXTRAE_ON s then TRACE_OPENSHMEM_EVENT_AND_COUNTERS READ_LAST SHMEM_UDCFLUSH_LINE_EV EVT_BEGIN EMPTY s else Inr s)"

definition PROBE_shmem_udcflush_line_EXIT :: "'w tracer \<Rightarrow> 'w tracer result" where
  "PROBE_shmem_udcflush_line_EXIT s = (if EXTRAE_ON s then TRACE_OPENSHMEM_EVENT_AND_COUNTERS TIME SHMEM_UDCFLUSH_LINE_EV EVT_END EMPTY s else Inr s)"

end
