(* ===== verification/Openshmem_Wrappers.thy ===== *)
theory Openshmem_Wrappers
  imports Openshmem_Probes
begin

text \<open>
  The wrappers of OpenSHMEM (\<open>tracer/wrappers/openshmem/openshmem_wrappers.c\<close>): the functions a program calls in place
  of those of the library, which the linker finds by name. The library is a parameter: a function it has takes its
  arguments and changes the state of the program. The wrapper of \<open>start_pes\<close>, which starts the tracer, is left out.
\<close>

section \<open>The library\<close>

datatype c_value = C_void | C_char "8 word" | C_short "16 word" | C_int "32 word" | C_long "64 word" | C_float "32 word"
  | C_double "64 word" | C_longdouble "128 word" | C_ptr addr

type_synonym 'w shmem_real = "c_value list \<Rightarrow> 'w \<Rightarrow> (c_value \<times> 'w) result"
type_synonym 'w shmem_wrapper = "'w tracer \<Rightarrow> (c_value \<times> 'w tracer) result"
type_synonym 'w shmem_hooks = "string \<Rightarrow> 'w shmem_real option"

definition call_real :: "'w shmem_real \<Rightarrow> c_value list \<Rightarrow> 'w tracer \<Rightarrow> (c_value \<times> 'w tracer) result" where
  "call_real f args s = rmap (\<lambda>(res, w). (res, s\<lparr>world := w\<rparr>)) (f args (world s))"

text \<open>
  The body of a wrapper: between the two probes when the tracer is on and not already at work, as if it were not there
  otherwise; a function the library does not have ends the program.
\<close>

definition instrumented :: "int \<Rightarrow> ('w tracer \<Rightarrow> 'w tracer result) \<Rightarrow> 'w shmem_real option \<Rightarrow> c_value list \<Rightarrow>
    ('w tracer \<Rightarrow> 'w tracer result) \<Rightarrow> 'w tracer \<Rightarrow> (c_value \<times> 'w tracer) result" where
  "instrumented n entry_probe real args exit_probe s =
     (case real of None \<Rightarrow> Inl (Exit (-1))
      | Some f \<Rightarrow> if EXTRAE_ON s \<and> \<not> Backend_inInstrumentation s
          then rbind (in_order [Backend_Enter_Instrumentation n, entry_probe] s) (\<lambda>s.
            rbind (call_real f args s) (\<lambda>(res, s).
            rmap (Pair res) (in_order [exit_probe, Backend_Leave_Instrumentation] s)))
          else call_real f args s)"

section \<open>The symbols of the library\<close>

definition hook_points_setup :: "string list" where
  "hook_points_setup = [
     ''start_pes'', ''shmem_my_pe'', ''_my_pe'', ''shmem_n_pes'', ''_num_pes'', ''shmem_pe_accessible'',
     ''shmem_addr_accessible'', ''shmem_ptr'', ''shmalloc'', ''shfree'', ''shrealloc'', ''shmemalign'']"

definition hook_points_put :: "string list" where
  "hook_points_put = [
     ''shmem_double_put'', ''shmem_float_put'', ''shmem_int_put'', ''shmem_long_put'', ''shmem_longdouble_put'',
     ''shmem_longlong_put'', ''shmem_put32'', ''shmem_put64'', ''shmem_put128'', ''shmem_putmem'',
     ''shmem_short_put'', ''shmem_char_p'', ''shmem_short_p'', ''shmem_int_p'', ''shmem_long_p'',
     ''shmem_longlong_p'', ''shmem_float_p'', ''shmem_double_p'', ''shmem_longdouble_p'']"

definition hook_points_iput :: "string list" where
  "hook_points_iput = [
     ''shmem_double_iput'', ''shmem_float_iput'', ''shmem_int_iput'', ''shmem_iput32'', ''shmem_iput64'',
     ''shmem_iput128'', ''shmem_long_iput'', ''shmem_longdouble_iput'', ''shmem_longlong_iput'',
     ''shmem_short_iput'']"

definition hook_points_get :: "string list" where
  "hook_points_get = [
     ''shmem_double_get'', ''shmem_float_get'', ''shmem_get32'', ''shmem_get64'', ''shmem_get128'',
     ''shmem_getmem'', ''shmem_int_get'', ''shmem_long_get'', ''shmem_longdouble_get'', ''shmem_longlong_get'',
     ''shmem_short_get'', ''shmem_char_g'', ''shmem_short_g'', ''shmem_int_g'', ''shmem_long_g'',
     ''shmem_longlong_g'', ''shmem_float_g'', ''shmem_double_g'', ''shmem_longdouble_g'']"

definition hook_points_iget :: "string list" where
  "hook_points_iget = [
     ''shmem_double_iget'', ''shmem_float_iget'', ''shmem_iget32'', ''shmem_iget64'', ''shmem_iget128'',
     ''shmem_int_iget'', ''shmem_long_iget'', ''shmem_longdouble_iget'', ''shmem_longlong_iget'',
     ''shmem_short_iget'']"

definition hook_points_atomic :: "string list" where
  "hook_points_atomic = [
     ''shmem_int_add'', ''shmem_long_add'', ''shmem_longlong_add'', ''shmem_int_cswap'', ''shmem_long_cswap'',
     ''shmem_longlong_cswap'', ''shmem_double_swap'', ''shmem_float_swap'', ''shmem_int_swap'', ''shmem_long_swap'',
     ''shmem_longlong_swap'', ''shmem_swap'', ''shmem_int_finc'', ''shmem_long_finc'', ''shmem_longlong_finc'',
     ''shmem_int_inc'', ''shmem_long_inc'', ''shmem_longlong_inc'', ''shmem_int_fadd'', ''shmem_long_fadd'',
     ''shmem_longlong_fadd'']"

definition hook_points_collective :: "string list" where
  "hook_points_collective = [
     ''shmem_barrier_all'', ''shmem_barrier'', ''shmem_broadcast32'', ''shmem_broadcast64'', ''shmem_collect32'',
     ''shmem_collect64'', ''shmem_fcollect32'', ''shmem_fcollect64'', ''shmem_int_and_to_all'',
     ''shmem_long_and_to_all'', ''shmem_longlong_and_to_all'', ''shmem_short_and_to_all'',
     ''shmem_double_max_to_all'', ''shmem_float_max_to_all'', ''shmem_int_max_to_all'', ''shmem_long_max_to_all'',
     ''shmem_longdouble_max_to_all'', ''shmem_longlong_max_to_all'', ''shmem_short_max_to_all'',
     ''shmem_double_min_to_all'']"

definition hook_points_sync :: "string list" where
  "hook_points_sync = [
     ''shmem_int_wait'', ''shmem_int_wait_until'', ''shmem_long_wait'', ''shmem_long_wait_until'',
     ''shmem_longlong_wait'', ''shmem_longlong_wait_until'', ''shmem_short_wait'', ''shmem_short_wait_until'',
     ''shmem_wait'', ''shmem_wait_until'', ''shmem_fence'', ''shmem_quiet'', ''shmem_clear_lock'',
     ''shmem_set_lock'', ''shmem_test_lock'', ''shmem_clear_cache_inv'', ''shmem_set_cache_inv'',
     ''shmem_clear_cache_line_inv'', ''shmem_set_cache_line_inv'', ''shmem_udcflush'', ''shmem_udcflush_line'']"

text \<open>Each pointer is what the linker finds under the name of its function.\<close>

definition Get_OPENSHMEM_Hook_Points :: "(string \<Rightarrow> 'w shmem_real option) \<Rightarrow> 'w shmem_hooks" where
  "Get_OPENSHMEM_Hook_Points dlsym = (\<lambda>name. if name \<in> set (hook_points_setup @ hook_points_put @ hook_points_iput @ hook_points_get @ hook_points_iget @ hook_points_atomic @ hook_points_collective @ hook_points_sync)
     then dlsym name else None)"

section \<open>The wrappers\<close>

definition shmem_my_pe :: "'w shmem_hooks \<Rightarrow> 'w shmem_wrapper" where
  "shmem_my_pe hooks =
     instrumented 2 PROBE_shmem_my_pe_ENTRY
       (hooks ''shmem_my_pe'') [] PROBE_shmem_my_pe_EXIT"

definition x_my_pe :: "'w shmem_hooks \<Rightarrow> 'w shmem_wrapper" where
  "x_my_pe hooks =
     instrumented 2 PROBE_x_my_pe_ENTRY
       (hooks ''_my_pe'') [] PROBE_x_my_pe_EXIT"

definition shmem_n_pes :: "'w shmem_hooks \<Rightarrow> 'w shmem_wrapper" where
  "shmem_n_pes hooks =
     instrumented 2 PROBE_shmem_n_pes_ENTRY
       (hooks ''shmem_n_pes'') [] PROBE_shmem_n_pes_EXIT"

definition x_num_pes :: "'w shmem_hooks \<Rightarrow> 'w shmem_wrapper" where
  "x_num_pes hooks =
     instrumented 2 PROBE_x_num_pes_ENTRY
       (hooks ''_num_pes'') [] PROBE_x_num_pes_EXIT"

definition shmem_pe_accessible :: "'w shmem_hooks \<Rightarrow> 32 word \<Rightarrow> 'w shmem_wrapper" where
  "shmem_pe_accessible hooks pe =
     instrumented 2 (PROBE_shmem_pe_accessible_ENTRY pe)
       (hooks ''shmem_pe_accessible'') [C_int pe] PROBE_shmem_pe_accessible_EXIT"

definition shmem_addr_accessible :: "'w shmem_hooks \<Rightarrow> addr \<Rightarrow> 32 word \<Rightarrow> 'w shmem_wrapper" where
  "shmem_addr_accessible hooks addr pe =
     instrumented 2 (PROBE_shmem_addr_accessible_ENTRY addr pe)
       (hooks ''shmem_addr_accessible'') [C_ptr addr, C_int pe] PROBE_shmem_addr_accessible_EXIT"

definition shmem_ptr :: "'w shmem_hooks \<Rightarrow> addr \<Rightarrow> 32 word \<Rightarrow> 'w shmem_wrapper" where
  "shmem_ptr hooks target pe =
     instrumented 2 (PROBE_shmem_ptr_ENTRY target pe)
       (hooks ''shmem_ptr'') [C_ptr target, C_int pe] PROBE_shmem_ptr_EXIT"

definition shmalloc :: "'w shmem_hooks \<Rightarrow> 64 word \<Rightarrow> 'w shmem_wrapper" where
  "shmalloc hooks nbytes =
     instrumented 2 (PROBE_shmalloc_ENTRY nbytes)
       (hooks ''shmalloc'') [C_long nbytes] PROBE_shmalloc_EXIT"

definition shfree :: "'w shmem_hooks \<Rightarrow> addr \<Rightarrow> 'w shmem_wrapper" where
  "shfree hooks ptr =
     instrumented 2 (PROBE_shfree_ENTRY ptr)
       (hooks ''shfree'') [C_ptr ptr] PROBE_shfree_EXIT"

definition shrealloc :: "'w shmem_hooks \<Rightarrow> addr \<Rightarrow> 64 word \<Rightarrow> 'w shmem_wrapper" where
  "shrealloc hooks ptr nbytes =
     instrumented 2 (PROBE_shrealloc_ENTRY ptr nbytes)
       (hooks ''shrealloc'') [C_ptr ptr, C_long nbytes] PROBE_shrealloc_EXIT"

definition shmemalign :: "'w shmem_hooks \<Rightarrow> 64 word \<Rightarrow> 64 word \<Rightarrow> 'w shmem_wrapper" where
  "shmemalign hooks alignment nbytes =
     instrumented 2 (PROBE_shmemalign_ENTRY alignment nbytes)
       (hooks ''shmemalign'') [C_long alignment, C_long nbytes] PROBE_shmemalign_EXIT"

definition shmem_double_put :: "'w shmem_hooks \<Rightarrow> addr \<Rightarrow> addr \<Rightarrow> 64 word \<Rightarrow> 32 word \<Rightarrow> 'w shmem_wrapper" where
  "shmem_double_put hooks target source len pe =
     instrumented 2 (PROBE_shmem_double_put_ENTRY target source len pe)
       (hooks ''shmem_double_put'') [C_ptr target, C_ptr source, C_long len, C_int pe] PROBE_shmem_double_put_EXIT"

definition shmem_float_put :: "'w shmem_hooks \<Rightarrow> addr \<Rightarrow> addr \<Rightarrow> 64 word \<Rightarrow> 32 word \<Rightarrow> 'w shmem_wrapper" where
  "shmem_float_put hooks target source len pe =
     instrumented 2 (PROBE_shmem_float_put_ENTRY target source len pe)
       (hooks ''shmem_float_put'') [C_ptr target, C_ptr source, C_long len, C_int pe] PROBE_shmem_float_put_EXIT"

definition shmem_int_put :: "'w shmem_hooks \<Rightarrow> addr \<Rightarrow> addr \<Rightarrow> 64 word \<Rightarrow> 32 word \<Rightarrow> 'w shmem_wrapper" where
  "shmem_int_put hooks target source len pe =
     instrumented 2 (PROBE_shmem_int_put_ENTRY target source len pe)
       (hooks ''shmem_int_put'') [C_ptr target, C_ptr source, C_long len, C_int pe] PROBE_shmem_int_put_EXIT"

definition shmem_long_put :: "'w shmem_hooks \<Rightarrow> addr \<Rightarrow> addr \<Rightarrow> 64 word \<Rightarrow> 32 word \<Rightarrow> 'w shmem_wrapper" where
  "shmem_long_put hooks target source len pe =
     instrumented 2 (PROBE_shmem_long_put_ENTRY target source len pe)
       (hooks ''shmem_long_put'') [C_ptr target, C_ptr source, C_long len, C_int pe] PROBE_shmem_long_put_EXIT"

definition shmem_longdouble_put :: "'w shmem_hooks \<Rightarrow> addr \<Rightarrow> addr \<Rightarrow> 64 word \<Rightarrow> 32 word \<Rightarrow> 'w shmem_wrapper" where
  "shmem_longdouble_put hooks target source len pe =
     instrumented 2 (PROBE_shmem_longdouble_put_ENTRY target source len pe)
       (hooks ''shmem_longdouble_put'') [C_ptr target, C_ptr source, C_long len, C_int pe] PROBE_shmem_longdouble_put_EXIT"

definition shmem_longlong_put :: "'w shmem_hooks \<Rightarrow> addr \<Rightarrow> addr \<Rightarrow> 64 word \<Rightarrow> 32 word \<Rightarrow> 'w shmem_wrapper" where
  "shmem_longlong_put hooks target source len pe =
     instrumented 2 (PROBE_shmem_longlong_put_ENTRY target source len pe)
       (hooks ''shmem_longlong_put'') [C_ptr target, C_ptr source, C_long len, C_int pe] PROBE_shmem_longlong_put_EXIT"

definition shmem_put32 :: "'w shmem_hooks \<Rightarrow> addr \<Rightarrow> addr \<Rightarrow> 64 word \<Rightarrow> 32 word \<Rightarrow> 'w shmem_wrapper" where
  "shmem_put32 hooks target source len pe =
     instrumented 2 (PROBE_shmem_put32_ENTRY target source len pe)
       (hooks ''shmem_put32'') [C_ptr target, C_ptr source, C_long len, C_int pe] PROBE_shmem_put32_EXIT"

definition shmem_put64 :: "'w shmem_hooks \<Rightarrow> addr \<Rightarrow> addr \<Rightarrow> 64 word \<Rightarrow> 32 word \<Rightarrow> 'w shmem_wrapper" where
  "shmem_put64 hooks target source len pe =
     instrumented 2 (PROBE_shmem_put64_ENTRY target source len pe)
       (hooks ''shmem_put64'') [C_ptr target, C_ptr source, C_long len, C_int pe] PROBE_shmem_put64_EXIT"

definition shmem_put128 :: "'w shmem_hooks \<Rightarrow> addr \<Rightarrow> addr \<Rightarrow> 64 word \<Rightarrow> 32 word \<Rightarrow> 'w shmem_wrapper" where
  "shmem_put128 hooks target source len pe =
     instrumented 2 (PROBE_shmem_put128_ENTRY target source len pe)
       (hooks ''shmem_put128'') [C_ptr target, C_ptr source, C_long len, C_int pe] PROBE_shmem_put128_EXIT"

definition shmem_putmem :: "'w shmem_hooks \<Rightarrow> addr \<Rightarrow> addr \<Rightarrow> 64 word \<Rightarrow> 32 word \<Rightarrow> 'w shmem_wrapper" where
  "shmem_putmem hooks target source len pe =
     instrumented 2 (PROBE_shmem_putmem_ENTRY target source len pe)
       (hooks ''shmem_putmem'') [C_ptr target, C_ptr source, C_long len, C_int pe] PROBE_shmem_putmem_EXIT"

definition shmem_short_put :: "'w shmem_hooks \<Rightarrow> addr \<Rightarrow> addr \<Rightarrow> 64 word \<Rightarrow> 32 word \<Rightarrow> 'w shmem_wrapper" where
  "shmem_short_put hooks target source len pe =
     instrumented 2 (PROBE_shmem_short_put_ENTRY target source len pe)
       (hooks ''shmem_short_put'') [C_ptr target, C_ptr source, C_long len, C_int pe] PROBE_shmem_short_put_EXIT"

definition shmem_char_p :: "'w shmem_hooks \<Rightarrow> addr \<Rightarrow> 8 word \<Rightarrow> 32 word \<Rightarrow> 'w shmem_wrapper" where
  "shmem_char_p hooks addr value pe =
     instrumented 2 (PROBE_shmem_char_p_ENTRY addr value pe)
       (hooks ''shmem_char_p'') [C_ptr addr, C_char value, C_int pe] PROBE_shmem_char_p_EXIT"

definition shmem_short_p :: "'w shmem_hooks \<Rightarrow> addr \<Rightarrow> 16 word \<Rightarrow> 32 word \<Rightarrow> 'w shmem_wrapper" where
  "shmem_short_p hooks addr value pe =
     instrumented 2 (PROBE_shmem_short_p_ENTRY addr value pe)
       (hooks ''shmem_short_p'') [C_ptr addr, C_short value, C_int pe] PROBE_shmem_short_p_EXIT"

definition shmem_int_p :: "'w shmem_hooks \<Rightarrow> addr \<Rightarrow> 32 word \<Rightarrow> 32 word \<Rightarrow> 'w shmem_wrapper" where
  "shmem_int_p hooks addr value pe =
     instrumented 2 (PROBE_shmem_int_p_ENTRY addr value pe)
       (hooks ''shmem_int_p'') [C_ptr addr, C_int value, C_int pe] PROBE_shmem_int_p_EXIT"

definition shmem_long_p :: "'w shmem_hooks \<Rightarrow> addr \<Rightarrow> 64 word \<Rightarrow> 32 word \<Rightarrow> 'w shmem_wrapper" where
  "shmem_long_p hooks addr value pe =
     instrumented 2 (PROBE_shmem_long_p_ENTRY addr value pe)
       (hooks ''shmem_long_p'') [C_ptr addr, C_long value, C_int pe] PROBE_shmem_long_p_EXIT"

definition shmem_longlong_p :: "'w shmem_hooks \<Rightarrow> addr \<Rightarrow> 64 word \<Rightarrow> 32 word \<Rightarrow> 'w shmem_wrapper" where
  "shmem_longlong_p hooks addr value pe =
     instrumented 2 (PROBE_shmem_longlong_p_ENTRY addr value pe)
       (hooks ''shmem_longlong_p'') [C_ptr addr, C_long value, C_int pe] PROBE_shmem_longlong_p_EXIT"

definition shmem_float_p :: "'w shmem_hooks \<Rightarrow> addr \<Rightarrow> 32 word \<Rightarrow> 32 word \<Rightarrow> 'w shmem_wrapper" where
  "shmem_float_p hooks addr value pe =
     instrumented 2 (PROBE_shmem_float_p_ENTRY addr value pe)
       (hooks ''shmem_float_p'') [C_ptr addr, C_float value, C_int pe] PROBE_shmem_float_p_EXIT"

definition shmem_double_p :: "'w shmem_hooks \<Rightarrow> addr \<Rightarrow> 64 word \<Rightarrow> 32 word \<Rightarrow> 'w shmem_wrapper" where
  "shmem_double_p hooks addr value pe =
     instrumented 2 (PROBE_shmem_double_p_ENTRY addr value pe)
       (hooks ''shmem_double_p'') [C_ptr addr, C_double value, C_int pe] PROBE_shmem_double_p_EXIT"

definition shmem_longdouble_p :: "'w shmem_hooks \<Rightarrow> addr \<Rightarrow> 128 word \<Rightarrow> 32 word \<Rightarrow> 'w shmem_wrapper" where
  "shmem_longdouble_p hooks addr value pe =
     instrumented 2 (PROBE_shmem_longdouble_p_ENTRY addr value pe)
       (hooks ''shmem_longdouble_p'') [C_ptr addr, C_longdouble value, C_int pe] PROBE_shmem_longdouble_p_EXIT"

definition shmem_double_iput :: "'w shmem_hooks \<Rightarrow> addr \<Rightarrow> addr \<Rightarrow> 64 word \<Rightarrow> 64 word \<Rightarrow> 64 word \<Rightarrow> 32 word \<Rightarrow> 'w shmem_wrapper" where
  "shmem_double_iput hooks target source tst sst nelems pe =
     instrumented 2 (PROBE_shmem_double_iput_ENTRY target source tst sst nelems pe)
       (hooks ''shmem_double_iput'') [C_ptr target, C_ptr source, C_long tst, C_long sst, C_long nelems, C_int pe] PROBE_shmem_double_iput_EXIT"

definition shmem_float_iput :: "'w shmem_hooks \<Rightarrow> addr \<Rightarrow> addr \<Rightarrow> 64 word \<Rightarrow> 64 word \<Rightarrow> 64 word \<Rightarrow> 32 word \<Rightarrow> 'w shmem_wrapper" where
  "shmem_float_iput hooks target source tst sst nelems pe =
     instrumented 2 (PROBE_shmem_float_iput_ENTRY target source tst sst nelems pe)
       (hooks ''shmem_float_iput'') [C_ptr target, C_ptr source, C_long tst, C_long sst, C_long nelems, C_int pe] PROBE_shmem_float_iput_EXIT"

definition shmem_int_iput :: "'w shmem_hooks \<Rightarrow> addr \<Rightarrow> addr \<Rightarrow> 64 word \<Rightarrow> 64 word \<Rightarrow> 64 word \<Rightarrow> 32 word \<Rightarrow> 'w shmem_wrapper" where
  "shmem_int_iput hooks target source tst sst nelems pe =
     instrumented 2 (PROBE_shmem_int_iput_ENTRY target source tst sst nelems pe)
       (hooks ''shmem_int_iput'') [C_ptr target, C_ptr source, C_long tst, C_long sst, C_long nelems, C_int pe] PROBE_shmem_int_iput_EXIT"

definition shmem_iput32 :: "'w shmem_hooks \<Rightarrow> addr \<Rightarrow> addr \<Rightarrow> 64 word \<Rightarrow> 64 word \<Rightarrow> 64 word \<Rightarrow> 32 word \<Rightarrow> 'w shmem_wrapper" where
  "shmem_iput32 hooks target source tst sst nelems pe =
     instrumented 2 (PROBE_shmem_iput32_ENTRY target source tst sst nelems pe)
       (hooks ''shmem_iput32'') [C_ptr target, C_ptr source, C_long tst, C_long sst, C_long nelems, C_int pe] PROBE_shmem_iput32_EXIT"

definition shmem_iput64 :: "'w shmem_hooks \<Rightarrow> addr \<Rightarrow> addr \<Rightarrow> 64 word \<Rightarrow> 64 word \<Rightarrow> 64 word \<Rightarrow> 32 word \<Rightarrow> 'w shmem_wrapper" where
  "shmem_iput64 hooks target source tst sst nelems pe =
     instrumented 2 (PROBE_shmem_iput64_ENTRY target source tst sst nelems pe)
       (hooks ''shmem_iput64'') [C_ptr target, C_ptr source, C_long tst, C_long sst, C_long nelems, C_int pe] PROBE_shmem_iput64_EXIT"

definition shmem_iput128 :: "'w shmem_hooks \<Rightarrow> addr \<Rightarrow> addr \<Rightarrow> 64 word \<Rightarrow> 64 word \<Rightarrow> 64 word \<Rightarrow> 32 word \<Rightarrow> 'w shmem_wrapper" where
  "shmem_iput128 hooks target source tst sst nelems pe =
     instrumented 2 (PROBE_shmem_iput128_ENTRY target source tst sst nelems pe)
       (hooks ''shmem_iput128'') [C_ptr target, C_ptr source, C_long tst, C_long sst, C_long nelems, C_int pe] PROBE_shmem_iput128_EXIT"

definition shmem_long_iput :: "'w shmem_hooks \<Rightarrow> addr \<Rightarrow> addr \<Rightarrow> 64 word \<Rightarrow> 64 word \<Rightarrow> 64 word \<Rightarrow> 32 word \<Rightarrow> 'w shmem_wrapper" where
  "shmem_long_iput hooks target source tst sst nelems pe =
     instrumented 2 (PROBE_shmem_long_iput_ENTRY target source tst sst nelems pe)
       (hooks ''shmem_long_iput'') [C_ptr target, C_ptr source, C_long tst, C_long sst, C_long nelems, C_int pe] PROBE_shmem_long_iput_EXIT"

definition shmem_longdouble_iput :: "'w shmem_hooks \<Rightarrow> addr \<Rightarrow> addr \<Rightarrow> 64 word \<Rightarrow> 64 word \<Rightarrow> 64 word \<Rightarrow> 32 word \<Rightarrow> 'w shmem_wrapper" where
  "shmem_longdouble_iput hooks target source tst sst nelems pe =
     instrumented 2 (PROBE_shmem_longdouble_iput_ENTRY target source tst sst nelems pe)
       (hooks ''shmem_longdouble_iput'') [C_ptr target, C_ptr source, C_long tst, C_long sst, C_long nelems, C_int pe] PROBE_shmem_longdouble_iput_EXIT"

definition shmem_longlong_iput :: "'w shmem_hooks \<Rightarrow> addr \<Rightarrow> addr \<Rightarrow> 64 word \<Rightarrow> 64 word \<Rightarrow> 64 word \<Rightarrow> 32 word \<Rightarrow> 'w shmem_wrapper" where
  "shmem_longlong_iput hooks target source tst sst nelems pe =
     instrumented 2 (PROBE_shmem_longlong_iput_ENTRY target source tst sst nelems pe)
       (hooks ''shmem_longlong_iput'') [C_ptr target, C_ptr source, C_long tst, C_long sst, C_long nelems, C_int pe] PROBE_shmem_longlong_iput_EXIT"

definition shmem_short_iput :: "'w shmem_hooks \<Rightarrow> addr \<Rightarrow> addr \<Rightarrow> 64 word \<Rightarrow> 64 word \<Rightarrow> 64 word \<Rightarrow> 32 word \<Rightarrow> 'w shmem_wrapper" where
  "shmem_short_iput hooks target source tst sst nelems pe =
     instrumented 2 (PROBE_shmem_short_iput_ENTRY target source tst sst nelems pe)
       (hooks ''shmem_short_iput'') [C_ptr target, C_ptr source, C_long tst, C_long sst, C_long nelems, C_int pe] PROBE_shmem_short_iput_EXIT"

definition shmem_double_get :: "'w shmem_hooks \<Rightarrow> addr \<Rightarrow> addr \<Rightarrow> 64 word \<Rightarrow> 32 word \<Rightarrow> 'w shmem_wrapper" where
  "shmem_double_get hooks target source nelems pe =
     instrumented 2 (PROBE_shmem_double_get_ENTRY target source nelems pe)
       (hooks ''shmem_double_get'') [C_ptr target, C_ptr source, C_long nelems, C_int pe] PROBE_shmem_double_get_EXIT"

definition shmem_float_get :: "'w shmem_hooks \<Rightarrow> addr \<Rightarrow> addr \<Rightarrow> 64 word \<Rightarrow> 32 word \<Rightarrow> 'w shmem_wrapper" where
  "shmem_float_get hooks target source nelems pe =
     instrumented 2 (PROBE_shmem_float_get_ENTRY target source nelems pe)
       (hooks ''shmem_float_get'') [C_ptr target, C_ptr source, C_long nelems, C_int pe] PROBE_shmem_float_get_EXIT"

definition shmem_get32 :: "'w shmem_hooks \<Rightarrow> addr \<Rightarrow> addr \<Rightarrow> 64 word \<Rightarrow> 32 word \<Rightarrow> 'w shmem_wrapper" where
  "shmem_get32 hooks target source nelems pe =
     instrumented 2 (PROBE_shmem_get32_ENTRY target source nelems pe)
       (hooks ''shmem_get32'') [C_ptr target, C_ptr source, C_long nelems, C_int pe] PROBE_shmem_get32_EXIT"

definition shmem_get64 :: "'w shmem_hooks \<Rightarrow> addr \<Rightarrow> addr \<Rightarrow> 64 word \<Rightarrow> 32 word \<Rightarrow> 'w shmem_wrapper" where
  "shmem_get64 hooks target source nelems pe =
     instrumented 2 (PROBE_shmem_get64_ENTRY target source nelems pe)
       (hooks ''shmem_get64'') [C_ptr target, C_ptr source, C_long nelems, C_int pe] PROBE_shmem_get64_EXIT"

definition shmem_get128 :: "'w shmem_hooks \<Rightarrow> addr \<Rightarrow> addr \<Rightarrow> 64 word \<Rightarrow> 32 word \<Rightarrow> 'w shmem_wrapper" where
  "shmem_get128 hooks target source nelems pe =
     instrumented 2 (PROBE_shmem_get128_ENTRY target source nelems pe)
       (hooks ''shmem_get128'') [C_ptr target, C_ptr source, C_long nelems, C_int pe] PROBE_shmem_get128_EXIT"

definition shmem_getmem :: "'w shmem_hooks \<Rightarrow> addr \<Rightarrow> addr \<Rightarrow> 64 word \<Rightarrow> 32 word \<Rightarrow> 'w shmem_wrapper" where
  "shmem_getmem hooks target source nelems pe =
     instrumented 2 (PROBE_shmem_getmem_ENTRY target source nelems pe)
       (hooks ''shmem_getmem'') [C_ptr target, C_ptr source, C_long nelems, C_int pe] PROBE_shmem_getmem_EXIT"

definition shmem_int_get :: "'w shmem_hooks \<Rightarrow> addr \<Rightarrow> addr \<Rightarrow> 64 word \<Rightarrow> 32 word \<Rightarrow> 'w shmem_wrapper" where
  "shmem_int_get hooks target source nelems pe =
     instrumented 2 (PROBE_shmem_int_get_ENTRY target source nelems pe)
       (hooks ''shmem_int_get'') [C_ptr target, C_ptr source, C_long nelems, C_int pe] PROBE_shmem_int_get_EXIT"

definition shmem_long_get :: "'w shmem_hooks \<Rightarrow> addr \<Rightarrow> addr \<Rightarrow> 64 word \<Rightarrow> 32 word \<Rightarrow> 'w shmem_wrapper" where
  "shmem_long_get hooks target source nelems pe =
     instrumented 2 (PROBE_shmem_long_get_ENTRY target source nelems pe)
       (hooks ''shmem_long_get'') [C_ptr target, C_ptr source, C_long nelems, C_int pe] PROBE_shmem_long_get_EXIT"

definition shmem_longdouble_get :: "'w shmem_hooks \<Rightarrow> addr \<Rightarrow> addr \<Rightarrow> 64 word \<Rightarrow> 32 word \<Rightarrow> 'w shmem_wrapper" where
  "shmem_longdouble_get hooks target source nelems pe =
     instrumented 2 (PROBE_shmem_longdouble_get_ENTRY target source nelems pe)
       (hooks ''shmem_longdouble_get'') [C_ptr target, C_ptr source, C_long nelems, C_int pe] PROBE_shmem_longdouble_get_EXIT"

definition shmem_longlong_get :: "'w shmem_hooks \<Rightarrow> addr \<Rightarrow> addr \<Rightarrow> 64 word \<Rightarrow> 32 word \<Rightarrow> 'w shmem_wrapper" where
  "shmem_longlong_get hooks target source nelems pe =
     instrumented 2 (PROBE_shmem_longlong_get_ENTRY target source nelems pe)
       (hooks ''shmem_longlong_get'') [C_ptr target, C_ptr source, C_long nelems, C_int pe] PROBE_shmem_longlong_get_EXIT"

definition shmem_short_get :: "'w shmem_hooks \<Rightarrow> addr \<Rightarrow> addr \<Rightarrow> 64 word \<Rightarrow> 32 word \<Rightarrow> 'w shmem_wrapper" where
  "shmem_short_get hooks target source nelems pe =
     instrumented 2 (PROBE_shmem_short_get_ENTRY target source nelems pe)
       (hooks ''shmem_short_get'') [C_ptr target, C_ptr source, C_long nelems, C_int pe] PROBE_shmem_short_get_EXIT"

definition shmem_char_g :: "'w shmem_hooks \<Rightarrow> addr \<Rightarrow> 32 word \<Rightarrow> 'w shmem_wrapper" where
  "shmem_char_g hooks addr pe =
     instrumented 2 (PROBE_shmem_char_g_ENTRY addr pe)
       (hooks ''shmem_char_g'') [C_ptr addr, C_int pe] PROBE_shmem_char_g_EXIT"

definition shmem_short_g :: "'w shmem_hooks \<Rightarrow> addr \<Rightarrow> 32 word \<Rightarrow> 'w shmem_wrapper" where
  "shmem_short_g hooks addr pe =
     instrumented 2 (PROBE_shmem_short_g_ENTRY addr pe)
       (hooks ''shmem_short_g'') [C_ptr addr, C_int pe] PROBE_shmem_short_g_EXIT"

definition shmem_int_g :: "'w shmem_hooks \<Rightarrow> addr \<Rightarrow> 32 word \<Rightarrow> 'w shmem_wrapper" where
  "shmem_int_g hooks addr pe =
     instrumented 2 (PROBE_shmem_int_g_ENTRY addr pe)
       (hooks ''shmem_int_g'') [C_ptr addr, C_int pe] PROBE_shmem_int_g_EXIT"

definition shmem_long_g :: "'w shmem_hooks \<Rightarrow> addr \<Rightarrow> 32 word \<Rightarrow> 'w shmem_wrapper" where
  "shmem_long_g hooks addr pe =
     instrumented 2 (PROBE_shmem_long_g_ENTRY addr pe)
       (hooks ''shmem_long_g'') [C_ptr addr, C_int pe] PROBE_shmem_long_g_EXIT"

definition shmem_longlong_g :: "'w shmem_hooks \<Rightarrow> addr \<Rightarrow> 32 word \<Rightarrow> 'w shmem_wrapper" where
  "shmem_longlong_g hooks addr pe =
     instrumented 2 (PROBE_shmem_longlong_g_ENTRY addr pe)
       (hooks ''shmem_longlong_g'') [C_ptr addr, C_int pe] PROBE_shmem_longlong_g_EXIT"

definition shmem_float_g :: "'w shmem_hooks \<Rightarrow> addr \<Rightarrow> 32 word \<Rightarrow> 'w shmem_wrapper" where
  "shmem_float_g hooks addr pe =
     instrumented 2 (PROBE_shmem_float_g_ENTRY addr pe)
       (hooks ''shmem_float_g'') [C_ptr addr, C_int pe] PROBE_shmem_float_g_EXIT"

definition shmem_double_g :: "'w shmem_hooks \<Rightarrow> addr \<Rightarrow> 32 word \<Rightarrow> 'w shmem_wrapper" where
  "shmem_double_g hooks addr pe =
     instrumented 2 (PROBE_shmem_double_g_ENTRY addr pe)
       (hooks ''shmem_double_g'') [C_ptr addr, C_int pe] PROBE_shmem_double_g_EXIT"

definition shmem_longdouble_g :: "'w shmem_hooks \<Rightarrow> addr \<Rightarrow> 32 word \<Rightarrow> 'w shmem_wrapper" where
  "shmem_longdouble_g hooks addr pe =
     instrumented 2 (PROBE_shmem_longdouble_g_ENTRY addr pe)
       (hooks ''shmem_longdouble_g'') [C_ptr addr, C_int pe] PROBE_shmem_longdouble_g_EXIT"

definition shmem_double_iget :: "'w shmem_hooks \<Rightarrow> addr \<Rightarrow> addr \<Rightarrow> 64 word \<Rightarrow> 64 word \<Rightarrow> 64 word \<Rightarrow> 32 word \<Rightarrow> 'w shmem_wrapper" where
  "shmem_double_iget hooks target source tst sst nelems pe =
     instrumented 2 (PROBE_shmem_double_iget_ENTRY target source tst sst nelems pe)
       (hooks ''shmem_double_iget'') [C_ptr target, C_ptr source, C_long tst, C_long sst, C_long nelems, C_int pe] PROBE_shmem_double_iget_EXIT"

definition shmem_float_iget :: "'w shmem_hooks \<Rightarrow> addr \<Rightarrow> addr \<Rightarrow> 64 word \<Rightarrow> 64 word \<Rightarrow> 64 word \<Rightarrow> 32 word \<Rightarrow> 'w shmem_wrapper" where
  "shmem_float_iget hooks target source tst sst nelems pe =
     instrumented 2 (PROBE_shmem_float_iget_ENTRY target source tst sst nelems pe)
       (hooks ''shmem_float_iget'') [C_ptr target, C_ptr source, C_long tst, C_long sst, C_long nelems, C_int pe] PROBE_shmem_float_iget_EXIT"

definition shmem_iget32 :: "'w shmem_hooks \<Rightarrow> addr \<Rightarrow> addr \<Rightarrow> 64 word \<Rightarrow> 64 word \<Rightarrow> 64 word \<Rightarrow> 32 word \<Rightarrow> 'w shmem_wrapper" where
  "shmem_iget32 hooks target source tst sst nelems pe =
     instrumented 2 (PROBE_shmem_iget32_ENTRY target source tst sst nelems pe)
       (hooks ''shmem_iget32'') [C_ptr target, C_ptr source, C_long tst, C_long sst, C_long nelems, C_int pe] PROBE_shmem_iget32_EXIT"

definition shmem_iget64 :: "'w shmem_hooks \<Rightarrow> addr \<Rightarrow> addr \<Rightarrow> 64 word \<Rightarrow> 64 word \<Rightarrow> 64 word \<Rightarrow> 32 word \<Rightarrow> 'w shmem_wrapper" where
  "shmem_iget64 hooks target source tst sst nelems pe =
     instrumented 2 (PROBE_shmem_iget64_ENTRY target source tst sst nelems pe)
       (hooks ''shmem_iget64'') [C_ptr target, C_ptr source, C_long tst, C_long sst, C_long nelems, C_int pe] PROBE_shmem_iget64_EXIT"

definition shmem_iget128 :: "'w shmem_hooks \<Rightarrow> addr \<Rightarrow> addr \<Rightarrow> 64 word \<Rightarrow> 64 word \<Rightarrow> 64 word \<Rightarrow> 32 word \<Rightarrow> 'w shmem_wrapper" where
  "shmem_iget128 hooks target source tst sst nelems pe =
     instrumented 2 (PROBE_shmem_iget128_ENTRY target source tst sst nelems pe)
       (hooks ''shmem_iget128'') [C_ptr target, C_ptr source, C_long tst, C_long sst, C_long nelems, C_int pe] PROBE_shmem_iget128_EXIT"

definition shmem_int_iget :: "'w shmem_hooks \<Rightarrow> addr \<Rightarrow> addr \<Rightarrow> 64 word \<Rightarrow> 64 word \<Rightarrow> 64 word \<Rightarrow> 32 word \<Rightarrow> 'w shmem_wrapper" where
  "shmem_int_iget hooks target source tst sst nelems pe =
     instrumented 2 (PROBE_shmem_int_iget_ENTRY target source tst sst nelems pe)
       (hooks ''shmem_int_iget'') [C_ptr target, C_ptr source, C_long tst, C_long sst, C_long nelems, C_int pe] PROBE_shmem_int_iget_EXIT"

definition shmem_long_iget :: "'w shmem_hooks \<Rightarrow> addr \<Rightarrow> addr \<Rightarrow> 64 word \<Rightarrow> 64 word \<Rightarrow> 64 word \<Rightarrow> 32 word \<Rightarrow> 'w shmem_wrapper" where
  "shmem_long_iget hooks target source tst sst nelems pe =
     instrumented 2 (PROBE_shmem_long_iget_ENTRY target source tst sst nelems pe)
       (hooks ''shmem_long_iget'') [C_ptr target, C_ptr source, C_long tst, C_long sst, C_long nelems, C_int pe] PROBE_shmem_long_iget_EXIT"

definition shmem_longdouble_iget :: "'w shmem_hooks \<Rightarrow> addr \<Rightarrow> addr \<Rightarrow> 64 word \<Rightarrow> 64 word \<Rightarrow> 64 word \<Rightarrow> 32 word \<Rightarrow> 'w shmem_wrapper" where
  "shmem_longdouble_iget hooks target source tst sst nelems pe =
     instrumented 2 (PROBE_shmem_longdouble_iget_ENTRY target source tst sst nelems pe)
       (hooks ''shmem_longdouble_iget'') [C_ptr target, C_ptr source, C_long tst, C_long sst, C_long nelems, C_int pe] PROBE_shmem_longdouble_iget_EXIT"

definition shmem_longlong_iget :: "'w shmem_hooks \<Rightarrow> addr \<Rightarrow> addr \<Rightarrow> 64 word \<Rightarrow> 64 word \<Rightarrow> 64 word \<Rightarrow> 32 word \<Rightarrow> 'w shmem_wrapper" where
  "shmem_longlong_iget hooks target source tst sst nelems pe =
     instrumented 2 (PROBE_shmem_longlong_iget_ENTRY target source tst sst nelems pe)
       (hooks ''shmem_longlong_iget'') [C_ptr target, C_ptr source, C_long tst, C_long sst, C_long nelems, C_int pe] PROBE_shmem_longlong_iget_EXIT"

definition shmem_short_iget :: "'w shmem_hooks \<Rightarrow> addr \<Rightarrow> addr \<Rightarrow> 64 word \<Rightarrow> 64 word \<Rightarrow> 64 word \<Rightarrow> 32 word \<Rightarrow> 'w shmem_wrapper" where
  "shmem_short_iget hooks target source tst sst nelems pe =
     instrumented 2 (PROBE_shmem_short_iget_ENTRY target source tst sst nelems pe)
       (hooks ''shmem_short_iget'') [C_ptr target, C_ptr source, C_long tst, C_long sst, C_long nelems, C_int pe] PROBE_shmem_short_iget_EXIT"

definition shmem_int_add :: "'w shmem_hooks \<Rightarrow> addr \<Rightarrow> 32 word \<Rightarrow> 32 word \<Rightarrow> 'w shmem_wrapper" where
  "shmem_int_add hooks target value pe =
     instrumented 2 (PROBE_shmem_int_add_ENTRY target value pe)
       (hooks ''shmem_int_add'') [C_ptr target, C_int value, C_int pe] PROBE_shmem_int_add_EXIT"

definition shmem_long_add :: "'w shmem_hooks \<Rightarrow> addr \<Rightarrow> 64 word \<Rightarrow> 32 word \<Rightarrow> 'w shmem_wrapper" where
  "shmem_long_add hooks target value pe =
     instrumented 2 (PROBE_shmem_long_add_ENTRY target value pe)
       (hooks ''shmem_long_add'') [C_ptr target, C_long value, C_int pe] PROBE_shmem_long_add_EXIT"

definition shmem_longlong_add :: "'w shmem_hooks \<Rightarrow> addr \<Rightarrow> 64 word \<Rightarrow> 32 word \<Rightarrow> 'w shmem_wrapper" where
  "shmem_longlong_add hooks target value pe =
     instrumented 2 (PROBE_shmem_longlong_add_ENTRY target value pe)
       (hooks ''shmem_longlong_add'') [C_ptr target, C_long value, C_int pe] PROBE_shmem_longlong_add_EXIT"

definition shmem_int_cswap :: "'w shmem_hooks \<Rightarrow> addr \<Rightarrow> 32 word \<Rightarrow> 32 word \<Rightarrow> 32 word \<Rightarrow> 'w shmem_wrapper" where
  "shmem_int_cswap hooks target cond value pe =
     instrumented 2 (PROBE_shmem_int_cswap_ENTRY target cond value pe)
       (hooks ''shmem_int_cswap'') [C_ptr target, C_int cond, C_int value, C_int pe] PROBE_shmem_int_cswap_EXIT"

definition shmem_long_cswap :: "'w shmem_hooks \<Rightarrow> addr \<Rightarrow> 64 word \<Rightarrow> 64 word \<Rightarrow> 32 word \<Rightarrow> 'w shmem_wrapper" where
  "shmem_long_cswap hooks target cond value pe =
     instrumented 2 (PROBE_shmem_long_cswap_ENTRY target cond value pe)
       (hooks ''shmem_long_cswap'') [C_ptr target, C_long cond, C_long value, C_int pe] PROBE_shmem_long_cswap_EXIT"

definition shmem_longlong_cswap :: "'w shmem_hooks \<Rightarrow> addr \<Rightarrow> 64 word \<Rightarrow> 64 word \<Rightarrow> 32 word \<Rightarrow> 'w shmem_wrapper" where
  "shmem_longlong_cswap hooks target cond value pe =
     instrumented 2 (PROBE_shmem_longlong_cswap_ENTRY target cond value pe)
       (hooks ''shmem_longlong_cswap'') [C_ptr target, C_long cond, C_long value, C_int pe] PROBE_shmem_longlong_cswap_EXIT"

definition shmem_double_swap :: "'w shmem_hooks \<Rightarrow> addr \<Rightarrow> 64 word \<Rightarrow> 32 word \<Rightarrow> 'w shmem_wrapper" where
  "shmem_double_swap hooks target value pe =
     instrumented 2 (PROBE_shmem_double_swap_ENTRY target value pe)
       (hooks ''shmem_double_swap'') [C_ptr target, C_double value, C_int pe] PROBE_shmem_double_swap_EXIT"

definition shmem_float_swap :: "'w shmem_hooks \<Rightarrow> addr \<Rightarrow> 32 word \<Rightarrow> 32 word \<Rightarrow> 'w shmem_wrapper" where
  "shmem_float_swap hooks target value pe =
     instrumented 2 (PROBE_shmem_float_swap_ENTRY target value pe)
       (hooks ''shmem_float_swap'') [C_ptr target, C_float value, C_int pe] PROBE_shmem_float_swap_EXIT"

definition shmem_int_swap :: "'w shmem_hooks \<Rightarrow> addr \<Rightarrow> 32 word \<Rightarrow> 32 word \<Rightarrow> 'w shmem_wrapper" where
  "shmem_int_swap hooks target value pe =
     instrumented 2 (PROBE_shmem_int_swap_ENTRY target value pe)
       (hooks ''shmem_int_swap'') [C_ptr target, C_int value, C_int pe] PROBE_shmem_int_swap_EXIT"

definition shmem_long_swap :: "'w shmem_hooks \<Rightarrow> addr \<Rightarrow> 64 word \<Rightarrow> 32 word \<Rightarrow> 'w shmem_wrapper" where
  "shmem_long_swap hooks target value pe =
     instrumented 2 (PROBE_shmem_long_swap_ENTRY target value pe)
       (hooks ''shmem_long_swap'') [C_ptr target, C_long value, C_int pe] PROBE_shmem_long_swap_EXIT"

definition shmem_longlong_swap :: "'w shmem_hooks \<Rightarrow> addr \<Rightarrow> 64 word \<Rightarrow> 32 word \<Rightarrow> 'w shmem_wrapper" where
  "shmem_longlong_swap hooks target value pe =
     instrumented 2 (PROBE_shmem_longlong_swap_ENTRY target value pe)
       (hooks ''shmem_longlong_swap'') [C_ptr target, C_long value, C_int pe] PROBE_shmem_longlong_swap_EXIT"

definition shmem_swap :: "'w shmem_hooks \<Rightarrow> addr \<Rightarrow> 64 word \<Rightarrow> 32 word \<Rightarrow> 'w shmem_wrapper" where
  "shmem_swap hooks target value pe =
     instrumented 2 (PROBE_shmem_swap_ENTRY target value pe)
       (hooks ''shmem_swap'') [C_ptr target, C_long value, C_int pe] PROBE_shmem_swap_EXIT"

definition shmem_int_finc :: "'w shmem_hooks \<Rightarrow> addr \<Rightarrow> 32 word \<Rightarrow> 'w shmem_wrapper" where
  "shmem_int_finc hooks target pe =
     instrumented 2 (PROBE_shmem_int_finc_ENTRY target pe)
       (hooks ''shmem_int_finc'') [C_ptr target, C_int pe] PROBE_shmem_int_finc_EXIT"

definition shmem_long_finc :: "'w shmem_hooks \<Rightarrow> addr \<Rightarrow> 32 word \<Rightarrow> 'w shmem_wrapper" where
  "shmem_long_finc hooks target pe =
     instrumented 2 (PROBE_shmem_long_finc_ENTRY target pe)
       (hooks ''shmem_long_finc'') [C_ptr target, C_int pe] PROBE_shmem_long_finc_EXIT"

definition shmem_longlong_finc :: "'w shmem_hooks \<Rightarrow> addr \<Rightarrow> 32 word \<Rightarrow> 'w shmem_wrapper" where
  "shmem_longlong_finc hooks target pe =
     instrumented 2 (PROBE_shmem_longlong_finc_ENTRY target pe)
       (hooks ''shmem_longlong_finc'') [C_ptr target, C_int pe] PROBE_shmem_longlong_finc_EXIT"

definition shmem_int_inc :: "'w shmem_hooks \<Rightarrow> addr \<Rightarrow> 32 word \<Rightarrow> 'w shmem_wrapper" where
  "shmem_int_inc hooks target pe =
     instrumented 2 (PROBE_shmem_int_inc_ENTRY target pe)
       (hooks ''shmem_int_inc'') [C_ptr target, C_int pe] PROBE_shmem_int_inc_EXIT"

definition shmem_long_inc :: "'w shmem_hooks \<Rightarrow> addr \<Rightarrow> 32 word \<Rightarrow> 'w shmem_wrapper" where
  "shmem_long_inc hooks target pe =
     instrumented 2 (PROBE_shmem_long_inc_ENTRY target pe)
       (hooks ''shmem_long_inc'') [C_ptr target, C_int pe] PROBE_shmem_long_inc_EXIT"

definition shmem_longlong_inc :: "'w shmem_hooks \<Rightarrow> addr \<Rightarrow> 32 word \<Rightarrow> 'w shmem_wrapper" where
  "shmem_longlong_inc hooks target pe =
     instrumented 2 (PROBE_shmem_longlong_inc_ENTRY target pe)
       (hooks ''shmem_longlong_inc'') [C_ptr target, C_int pe] PROBE_shmem_longlong_inc_EXIT"

definition shmem_int_fadd :: "'w shmem_hooks \<Rightarrow> addr \<Rightarrow> 32 word \<Rightarrow> 32 word \<Rightarrow> 'w shmem_wrapper" where
  "shmem_int_fadd hooks target value pe =
     instrumented 2 (PROBE_shmem_int_fadd_ENTRY target value pe)
       (hooks ''shmem_int_fadd'') [C_ptr target, C_int value, C_int pe] PROBE_shmem_int_fadd_EXIT"

definition shmem_long_fadd :: "'w shmem_hooks \<Rightarrow> addr \<Rightarrow> 64 word \<Rightarrow> 32 word \<Rightarrow> 'w shmem_wrapper" where
  "shmem_long_fadd hooks target value pe =
     instrumented 2 (PROBE_shmem_long_fadd_ENTRY target value pe)
       (hooks ''shmem_long_fadd'') [C_ptr target, C_long value, C_int pe] PROBE_shmem_long_fadd_EXIT"

definition shmem_longlong_fadd :: "'w shmem_hooks \<Rightarrow> addr \<Rightarrow> 64 word \<Rightarrow> 32 word \<Rightarrow> 'w shmem_wrapper" where
  "shmem_longlong_fadd hooks target value pe =
     instrumented 2 (PROBE_shmem_longlong_fadd_ENTRY target value pe)
       (hooks ''shmem_longlong_fadd'') [C_ptr target, C_long value, C_int pe] PROBE_shmem_longlong_fadd_EXIT"

definition shmem_barrier_all :: "'w shmem_hooks \<Rightarrow> 'w shmem_wrapper" where
  "shmem_barrier_all hooks =
     instrumented 2 PROBE_shmem_barrier_all_ENTRY
       (hooks ''shmem_barrier_all'') [] PROBE_shmem_barrier_all_EXIT"

definition shmem_barrier :: "'w shmem_hooks \<Rightarrow> 32 word \<Rightarrow> 32 word \<Rightarrow> 32 word \<Rightarrow> addr \<Rightarrow> 'w shmem_wrapper" where
  "shmem_barrier hooks PE_start logPE_stride PE_size pSync =
     instrumented 2 (PROBE_shmem_barrier_ENTRY PE_start logPE_stride PE_size pSync)
       (hooks ''shmem_barrier'') [C_int PE_start, C_int logPE_stride, C_int PE_size, C_ptr pSync] PROBE_shmem_barrier_EXIT"

definition shmem_broadcast32 :: "'w shmem_hooks \<Rightarrow> addr \<Rightarrow> addr \<Rightarrow> 64 word \<Rightarrow> 32 word \<Rightarrow> 32 word \<Rightarrow> 32 word \<Rightarrow> 32 word \<Rightarrow> addr \<Rightarrow> 'w shmem_wrapper" where
  "shmem_broadcast32 hooks target source nlong PE_root PE_start logPE_stride PE_size pSync =
     instrumented 2 (PROBE_shmem_broadcast32_ENTRY target source nlong PE_root PE_start logPE_stride PE_size pSync)
       (hooks ''shmem_broadcast32'') [C_ptr target, C_ptr source, C_long nlong, C_int PE_root, C_int PE_start, C_int logPE_stride, C_int PE_size, C_ptr pSync] PROBE_shmem_broadcast32_EXIT"

definition shmem_broadcast64 :: "'w shmem_hooks \<Rightarrow> addr \<Rightarrow> addr \<Rightarrow> 64 word \<Rightarrow> 32 word \<Rightarrow> 32 word \<Rightarrow> 32 word \<Rightarrow> 32 word \<Rightarrow> addr \<Rightarrow> 'w shmem_wrapper" where
  "shmem_broadcast64 hooks target source nlong PE_root PE_start logPE_stride PE_size pSync =
     instrumented 2 (PROBE_shmem_broadcast64_ENTRY target source nlong PE_root PE_start logPE_stride PE_size pSync)
       (hooks ''shmem_broadcast64'') [C_ptr target, C_ptr source, C_long nlong, C_int PE_root, C_int PE_start, C_int logPE_stride, C_int PE_size, C_ptr pSync] PROBE_shmem_broadcast64_EXIT"

definition shmem_collect32 :: "'w shmem_hooks \<Rightarrow> addr \<Rightarrow> addr \<Rightarrow> 64 word \<Rightarrow> 32 word \<Rightarrow> 32 word \<Rightarrow> 32 word \<Rightarrow> addr \<Rightarrow> 'w shmem_wrapper" where
  "shmem_collect32 hooks target source nelems PE_start logPE_stride PE_size pSync =
     instrumented 2 (PROBE_shmem_collect32_ENTRY target source nelems PE_start logPE_stride PE_size pSync)
       (hooks ''shmem_collect32'') [C_ptr target, C_ptr source, C_long nelems, C_int PE_start, C_int logPE_stride, C_int PE_size, C_ptr pSync] PROBE_shmem_collect32_EXIT"

definition shmem_collect64 :: "'w shmem_hooks \<Rightarrow> addr \<Rightarrow> addr \<Rightarrow> 64 word \<Rightarrow> 32 word \<Rightarrow> 32 word \<Rightarrow> 32 word \<Rightarrow> addr \<Rightarrow> 'w shmem_wrapper" where
  "shmem_collect64 hooks target source nelems PE_start logPE_stride PE_size pSync =
     instrumented 2 (PROBE_shmem_collect64_ENTRY target source nelems PE_start logPE_stride PE_size pSync)
       (hooks ''shmem_collect64'') [C_ptr target, C_ptr source, C_long nelems, C_int PE_start, C_int logPE_stride, C_int PE_size, C_ptr pSync] PROBE_shmem_collect64_EXIT"

definition shmem_fcollect32 :: "'w shmem_hooks \<Rightarrow> addr \<Rightarrow> addr \<Rightarrow> 64 word \<Rightarrow> 32 word \<Rightarrow> 32 word \<Rightarrow> 32 word \<Rightarrow> addr \<Rightarrow> 'w shmem_wrapper" where
  "shmem_fcollect32 hooks target source nelems PE_start logPE_stride PE_size pSync =
     instrumented 2 (PROBE_shmem_fcollect32_ENTRY target source nelems PE_start logPE_stride PE_size pSync)
       (hooks ''shmem_fcollect32'') [C_ptr target, C_ptr source, C_long nelems, C_int PE_start, C_int logPE_stride, C_int PE_size, C_ptr pSync] PROBE_shmem_fcollect32_EXIT"

definition shmem_fcollect64 :: "'w shmem_hooks \<Rightarrow> addr \<Rightarrow> addr \<Rightarrow> 64 word \<Rightarrow> 32 word \<Rightarrow> 32 word \<Rightarrow> 32 word \<Rightarrow> addr \<Rightarrow> 'w shmem_wrapper" where
  "shmem_fcollect64 hooks target source nelems PE_start logPE_stride PE_size pSync =
     instrumented 2 (PROBE_shmem_fcollect64_ENTRY target source nelems PE_start logPE_stride PE_size pSync)
       (hooks ''shmem_fcollect64'') [C_ptr target, C_ptr source, C_long nelems, C_int PE_start, C_int logPE_stride, C_int PE_size, C_ptr pSync] PROBE_shmem_fcollect64_EXIT"

definition shmem_int_and_to_all :: "'w shmem_hooks \<Rightarrow> addr \<Rightarrow> addr \<Rightarrow> 32 word \<Rightarrow> 32 word \<Rightarrow> 32 word \<Rightarrow> 32 word \<Rightarrow> addr \<Rightarrow> addr \<Rightarrow> 'w shmem_wrapper" where
  "shmem_int_and_to_all hooks target source nreduce PE_start logPE_stride PE_size pWrk pSync =
     instrumented 2 (PROBE_shmem_int_and_to_all_ENTRY target source nreduce PE_start logPE_stride PE_size pWrk pSync)
       (hooks ''shmem_int_and_to_all'') [C_ptr target, C_ptr source, C_int nreduce, C_int PE_start, C_int logPE_stride, C_int PE_size, C_ptr pWrk, C_ptr pSync] PROBE_shmem_int_and_to_all_EXIT"

definition shmem_long_and_to_all :: "'w shmem_hooks \<Rightarrow> addr \<Rightarrow> addr \<Rightarrow> 32 word \<Rightarrow> 32 word \<Rightarrow> 32 word \<Rightarrow> 32 word \<Rightarrow> addr \<Rightarrow> addr \<Rightarrow> 'w shmem_wrapper" where
  "shmem_long_and_to_all hooks target source nreduce PE_start logPE_stride PE_size pWrk pSync =
     instrumented 2 (PROBE_shmem_long_and_to_all_ENTRY target source nreduce PE_start logPE_stride PE_size pWrk pSync)
       (hooks ''shmem_long_and_to_all'') [C_ptr target, C_ptr source, C_int nreduce, C_int PE_start, C_int logPE_stride, C_int PE_size, C_ptr pWrk, C_ptr pSync] PROBE_shmem_long_and_to_all_EXIT"

definition shmem_longlong_and_to_all :: "'w shmem_hooks \<Rightarrow> addr \<Rightarrow> addr \<Rightarrow> 32 word \<Rightarrow> 32 word \<Rightarrow> 32 word \<Rightarrow> 32 word \<Rightarrow> addr \<Rightarrow> addr \<Rightarrow> 'w shmem_wrapper" where
  "shmem_longlong_and_to_all hooks target source nreduce PE_start logPE_stride PE_size pWrk pSync =
     instrumented 2 (PROBE_shmem_longlong_and_to_all_ENTRY target source nreduce PE_start logPE_stride PE_size pWrk pSync)
       (hooks ''shmem_longlong_and_to_all'') [C_ptr target, C_ptr source, C_int nreduce, C_int PE_start, C_int logPE_stride, C_int PE_size, C_ptr pWrk, C_ptr pSync] PROBE_shmem_longlong_and_to_all_EXIT"

definition shmem_short_and_to_all :: "'w shmem_hooks \<Rightarrow> addr \<Rightarrow> addr \<Rightarrow> 32 word \<Rightarrow> 32 word \<Rightarrow> 32 word \<Rightarrow> 32 word \<Rightarrow> addr \<Rightarrow> addr \<Rightarrow> 'w shmem_wrapper" where
  "shmem_short_and_to_all hooks target source nreduce PE_start logPE_stride PE_size pWrk pSync =
     instrumented 2 (PROBE_shmem_short_and_to_all_ENTRY target source nreduce PE_start logPE_stride PE_size pWrk pSync)
       (hooks ''shmem_short_and_to_all'') [C_ptr target, C_ptr source, C_int nreduce, C_int PE_start, C_int logPE_stride, C_int PE_size, C_ptr pWrk, C_ptr pSync] PROBE_shmem_short_and_to_all_EXIT"

definition shmem_double_max_to_all :: "'w shmem_hooks \<Rightarrow> addr \<Rightarrow> addr \<Rightarrow> 32 word \<Rightarrow> 32 word \<Rightarrow> 32 word \<Rightarrow> 32 word \<Rightarrow> addr \<Rightarrow> addr \<Rightarrow> 'w shmem_wrapper" where
  "shmem_double_max_to_all hooks target source nreduce PE_start logPE_stride PE_size pWrk pSync =
     instrumented 2 (PROBE_shmem_double_max_to_all_ENTRY target source nreduce PE_start logPE_stride PE_size pWrk pSync)
       (hooks ''shmem_double_max_to_all'') [C_ptr target, C_ptr source, C_int nreduce, C_int PE_start, C_int logPE_stride, C_int PE_size, C_ptr pWrk, C_ptr pSync] PROBE_shmem_double_max_to_all_EXIT"

definition shmem_float_max_to_all :: "'w shmem_hooks \<Rightarrow> addr \<Rightarrow> addr \<Rightarrow> 32 word \<Rightarrow> 32 word \<Rightarrow> 32 word \<Rightarrow> 32 word \<Rightarrow> addr \<Rightarrow> addr \<Rightarrow> 'w shmem_wrapper" where
  "shmem_float_max_to_all hooks target source nreduce PE_start logPE_stride PE_size pWrk pSync =
     instrumented 2 (PROBE_shmem_float_max_to_all_ENTRY target source nreduce PE_start logPE_stride PE_size pWrk pSync)
       (hooks ''shmem_float_max_to_all'') [C_ptr target, C_ptr source, C_int nreduce, C_int PE_start, C_int logPE_stride, C_int PE_size, C_ptr pWrk, C_ptr pSync] PROBE_shmem_float_max_to_all_EXIT"

definition shmem_int_max_to_all :: "'w shmem_hooks \<Rightarrow> addr \<Rightarrow> addr \<Rightarrow> 32 word \<Rightarrow> 32 word \<Rightarrow> 32 word \<Rightarrow> 32 word \<Rightarrow> addr \<Rightarrow> addr \<Rightarrow> 'w shmem_wrapper" where
  "shmem_int_max_to_all hooks target source nreduce PE_start logPE_stride PE_size pWrk pSync =
     instrumented 2 (PROBE_shmem_int_max_to_all_ENTRY target source nreduce PE_start logPE_stride PE_size pWrk pSync)
       (hooks ''shmem_int_max_to_all'') [C_ptr target, C_ptr source, C_int nreduce, C_int PE_start, C_int logPE_stride, C_int PE_size, C_ptr pWrk, C_ptr pSync] PROBE_shmem_int_max_to_all_EXIT"

definition shmem_long_max_to_all :: "'w shmem_hooks \<Rightarrow> addr \<Rightarrow> addr \<Rightarrow> 32 word \<Rightarrow> 32 word \<Rightarrow> 32 word \<Rightarrow> 32 word \<Rightarrow> addr \<Rightarrow> addr \<Rightarrow> 'w shmem_wrapper" where
  "shmem_long_max_to_all hooks target source nreduce PE_start logPE_stride PE_size pWrk pSync =
     instrumented 2 (PROBE_shmem_long_max_to_all_ENTRY target source nreduce PE_start logPE_stride PE_size pWrk pSync)
       (hooks ''shmem_long_max_to_all'') [C_ptr target, C_ptr source, C_int nreduce, C_int PE_start, C_int logPE_stride, C_int PE_size, C_ptr pWrk, C_ptr pSync] PROBE_shmem_long_max_to_all_EXIT"

definition shmem_longdouble_max_to_all :: "'w shmem_hooks \<Rightarrow> addr \<Rightarrow> addr \<Rightarrow> 32 word \<Rightarrow> 32 word \<Rightarrow> 32 word \<Rightarrow> 32 word \<Rightarrow> addr \<Rightarrow> addr \<Rightarrow> 'w shmem_wrapper" where
  "shmem_longdouble_max_to_all hooks target source nreduce PE_start logPE_stride PE_size pWrk pSync =
     instrumented 2 (PROBE_shmem_longdouble_max_to_all_ENTRY target source nreduce PE_start logPE_stride PE_size pWrk pSync)
       (hooks ''shmem_longdouble_max_to_all'') [C_ptr target, C_ptr source, C_int nreduce, C_int PE_start, C_int logPE_stride, C_int PE_size, C_ptr pWrk, C_ptr pSync] PROBE_shmem_longdouble_max_to_all_EXIT"

definition shmem_longlong_max_to_all :: "'w shmem_hooks \<Rightarrow> addr \<Rightarrow> addr \<Rightarrow> 32 word \<Rightarrow> 32 word \<Rightarrow> 32 word \<Rightarrow> 32 word \<Rightarrow> addr \<Rightarrow> addr \<Rightarrow> 'w shmem_wrapper" where
  "shmem_longlong_max_to_all hooks target source nreduce PE_start logPE_stride PE_size pWrk pSync =
     instrumented 2 (PROBE_shmem_longlong_max_to_all_ENTRY target source nreduce PE_start logPE_stride PE_size pWrk pSync)
       (hooks ''shmem_longlong_max_to_all'') [C_ptr target, C_ptr source, C_int nreduce, C_int PE_start, C_int logPE_stride, C_int PE_size, C_ptr pWrk, C_ptr pSync] PROBE_shmem_longlong_max_to_all_EXIT"

definition shmem_short_max_to_all :: "'w shmem_hooks \<Rightarrow> addr \<Rightarrow> addr \<Rightarrow> 32 word \<Rightarrow> 32 word \<Rightarrow> 32 word \<Rightarrow> 32 word \<Rightarrow> addr \<Rightarrow> addr \<Rightarrow> 'w shmem_wrapper" where
  "shmem_short_max_to_all hooks target source nreduce PE_start logPE_stride PE_size pWrk pSync =
     instrumented 2 (PROBE_shmem_short_max_to_all_ENTRY target source nreduce PE_start logPE_stride PE_size pWrk pSync)
       (hooks ''shmem_short_max_to_all'') [C_ptr target, C_ptr source, C_int nreduce, C_int PE_start, C_int logPE_stride, C_int PE_size, C_ptr pWrk, C_ptr pSync] PROBE_shmem_short_max_to_all_EXIT"

definition shmem_double_min_to_all :: "'w shmem_hooks \<Rightarrow> addr \<Rightarrow> addr \<Rightarrow> 32 word \<Rightarrow> 32 word \<Rightarrow> 32 word \<Rightarrow> 32 word \<Rightarrow> addr \<Rightarrow> addr \<Rightarrow> 'w shmem_wrapper" where
  "shmem_double_min_to_all hooks target source nreduce PE_start logPE_stride PE_size pWrk pSync =
     instrumented 2 (PROBE_shmem_double_min_to_all_ENTRY target source nreduce PE_start logPE_stride PE_size pWrk pSync)
       (hooks ''shmem_double_min_to_all'') [C_ptr target, C_ptr source, C_int nreduce, C_int PE_start, C_int logPE_stride, C_int PE_size, C_ptr pWrk, C_ptr pSync] PROBE_shmem_double_min_to_all_EXIT"

definition shmem_int_wait :: "'w shmem_hooks \<Rightarrow> addr \<Rightarrow> 32 word \<Rightarrow> 'w shmem_wrapper" where
  "shmem_int_wait hooks ivar cmp_value =
     instrumented 2 (PROBE_shmem_int_wait_ENTRY ivar cmp_value)
       (hooks ''shmem_int_wait'') [C_ptr ivar, C_int cmp_value] PROBE_shmem_int_wait_EXIT"

definition shmem_int_wait_until :: "'w shmem_hooks \<Rightarrow> addr \<Rightarrow> 32 word \<Rightarrow> 32 word \<Rightarrow> 'w shmem_wrapper" where
  "shmem_int_wait_until hooks ivar cmp cmp_value =
     instrumented 2 (PROBE_shmem_int_wait_until_ENTRY ivar cmp cmp_value)
       (hooks ''shmem_int_wait_until'') [C_ptr ivar, C_int cmp, C_int cmp_value] PROBE_shmem_int_wait_until_EXIT"

definition shmem_long_wait :: "'w shmem_hooks \<Rightarrow> addr \<Rightarrow> 64 word \<Rightarrow> 'w shmem_wrapper" where
  "shmem_long_wait hooks ivar cmp_value =
     instrumented 2 (PROBE_shmem_long_wait_ENTRY ivar cmp_value)
       (hooks ''shmem_long_wait'') [C_ptr ivar, C_long cmp_value] PROBE_shmem_long_wait_EXIT"

definition shmem_long_wait_until :: "'w shmem_hooks \<Rightarrow> addr \<Rightarrow> 32 word \<Rightarrow> 64 word \<Rightarrow> 'w shmem_wrapper" where
  "shmem_long_wait_until hooks ivar cmp cmp_value =
     instrumented 2 (PROBE_shmem_long_wait_until_ENTRY ivar cmp cmp_value)
       (hooks ''shmem_long_wait_until'') [C_ptr ivar, C_int cmp, C_long cmp_value] PROBE_shmem_long_wait_until_EXIT"

definition shmem_longlong_wait :: "'w shmem_hooks \<Rightarrow> addr \<Rightarrow> 64 word \<Rightarrow> 'w shmem_wrapper" where
  "shmem_longlong_wait hooks ivar cmp_value =
     instrumented 2 (PROBE_shmem_longlong_wait_ENTRY ivar cmp_value)
       (hooks ''shmem_longlong_wait'') [C_ptr ivar, C_long cmp_value] PROBE_shmem_longlong_wait_EXIT"

definition shmem_longlong_wait_until :: "'w shmem_hooks \<Rightarrow> addr \<Rightarrow> 32 word \<Rightarrow> 64 word \<Rightarrow> 'w shmem_wrapper" where
  "shmem_longlong_wait_until hooks ivar cmp cmp_value =
     instrumented 2 (PROBE_shmem_longlong_wait_until_ENTRY ivar cmp cmp_value)
       (hooks ''shmem_longlong_wait_until'') [C_ptr ivar, C_int cmp, C_long cmp_value] PROBE_shmem_longlong_wait_until_EXIT"

definition shmem_short_wait :: "'w shmem_hooks \<Rightarrow> addr \<Rightarrow> 16 word \<Rightarrow> 'w shmem_wrapper" where
  "shmem_short_wait hooks ivar cmp_value =
     instrumented 2 (PROBE_shmem_short_wait_ENTRY ivar cmp_value)
       (hooks ''shmem_short_wait'') [C_ptr ivar, C_short cmp_value] PROBE_shmem_short_wait_EXIT"

definition shmem_short_wait_until :: "'w shmem_hooks \<Rightarrow> addr \<Rightarrow> 32 word \<Rightarrow> 16 word \<Rightarrow> 'w shmem_wrapper" where
  "shmem_short_wait_until hooks ivar cmp cmp_value =
     instrumented 2 (PROBE_shmem_short_wait_until_ENTRY ivar cmp cmp_value)
       (hooks ''shmem_short_wait_until'') [C_ptr ivar, C_int cmp, C_short cmp_value] PROBE_shmem_short_wait_until_EXIT"

definition shmem_wait :: "'w shmem_hooks \<Rightarrow> addr \<Rightarrow> 64 word \<Rightarrow> 'w shmem_wrapper" where
  "shmem_wait hooks ivar cmp_value =
     instrumented 2 (PROBE_shmem_wait_ENTRY ivar cmp_value)
       (hooks ''shmem_wait'') [C_ptr ivar, C_long cmp_value] PROBE_shmem_wait_EXIT"

definition shmem_wait_until :: "'w shmem_hooks \<Rightarrow> addr \<Rightarrow> 32 word \<Rightarrow> 64 word \<Rightarrow> 'w shmem_wrapper" where
  "shmem_wait_until hooks ivar cmp cmp_value =
     instrumented 2 (PROBE_shmem_wait_until_ENTRY ivar cmp cmp_value)
       (hooks ''shmem_wait_until'') [C_ptr ivar, C_int cmp, C_long cmp_value] PROBE_shmem_wait_until_EXIT"

definition shmem_fence :: "'w shmem_hooks \<Rightarrow> 'w shmem_wrapper" where
  "shmem_fence hooks =
     instrumented 2 PROBE_shmem_fence_ENTRY
       (hooks ''shmem_fence'') [] PROBE_shmem_fence_EXIT"

definition shmem_quiet :: "'w shmem_hooks \<Rightarrow> 'w shmem_wrapper" where
  "shmem_quiet hooks =
     instrumented 2 PROBE_shmem_quiet_ENTRY
       (hooks ''shmem_quiet'') [] PROBE_shmem_quiet_EXIT"

definition shmem_clear_lock :: "'w shmem_hooks \<Rightarrow> addr \<Rightarrow> 'w shmem_wrapper" where
  "shmem_clear_lock hooks lock =
     instrumented 2 (PROBE_shmem_clear_lock_ENTRY lock)
       (hooks ''shmem_clear_lock'') [C_ptr lock] PROBE_shmem_clear_lock_EXIT"

definition shmem_set_lock :: "'w shmem_hooks \<Rightarrow> addr \<Rightarrow> 'w shmem_wrapper" where
  "shmem_set_lock hooks lock =
     instrumented 2 (PROBE_shmem_set_lock_ENTRY lock)
       (hooks ''shmem_set_lock'') [C_ptr lock] PROBE_shmem_set_lock_EXIT"

definition shmem_test_lock :: "'w shmem_hooks \<Rightarrow> addr \<Rightarrow> 'w shmem_wrapper" where
  "shmem_test_lock hooks lock =
     instrumented 2 (PROBE_shmem_test_lock_ENTRY lock)
       (hooks ''shmem_test_lock'') [C_ptr lock] PROBE_shmem_test_lock_EXIT"

definition shmem_clear_cache_inv :: "'w shmem_hooks \<Rightarrow> 'w shmem_wrapper" where
  "shmem_clear_cache_inv hooks =
     instrumented 2 PROBE_shmem_clear_cache_inv_ENTRY
       (hooks ''shmem_clear_cache_inv'') [] PROBE_shmem_clear_cache_inv_EXIT"

definition shmem_set_cache_inv :: "'w shmem_hooks \<Rightarrow> 'w shmem_wrapper" where
  "shmem_set_cache_inv hooks =
     instrumented 2 PROBE_shmem_set_cache_inv_ENTRY
       (hooks ''shmem_set_cache_inv'') [] PROBE_shmem_set_cache_inv_EXIT"

definition shmem_clear_cache_line_inv :: "'w shmem_hooks \<Rightarrow> addr \<Rightarrow> 'w shmem_wrapper" where
  "shmem_clear_cache_line_inv hooks target =
     instrumented 2 (PROBE_shmem_clear_cache_line_inv_ENTRY target)
       (hooks ''shmem_clear_cache_line_inv'') [C_ptr target] PROBE_shmem_clear_cache_line_inv_EXIT"

definition shmem_set_cache_line_inv :: "'w shmem_hooks \<Rightarrow> addr \<Rightarrow> 'w shmem_wrapper" where
  "shmem_set_cache_line_inv hooks target =
     instrumented 2 (PROBE_shmem_set_cache_line_inv_ENTRY target)
       (hooks ''shmem_set_cache_line_inv'') [C_ptr target] PROBE_shmem_set_cache_line_inv_EXIT"

definition shmem_udcflush :: "'w shmem_hooks \<Rightarrow> 'w shmem_wrapper" where
  "shmem_udcflush hooks =
     instrumented 2 PROBE_shmem_udcflush_ENTRY
       (hooks ''shmem_udcflush'') [] PROBE_shmem_udcflush_EXIT"

definition shmem_udcflush_line :: "'w shmem_hooks \<Rightarrow> addr \<Rightarrow> 'w shmem_wrapper" where
  "shmem_udcflush_line hooks target =
     instrumented 2 (PROBE_shmem_udcflush_line_ENTRY target)
       (hooks ''shmem_udcflush_line'') [C_ptr target] PROBE_shmem_udcflush_line_EXIT"

section \<open>Calls\<close>

datatype (plugins only: code size) setup_call =
    Shmem_my_pe
  | X_my_pe
  | Shmem_n_pes
  | X_num_pes
  | Shmem_pe_accessible "32 word"
  | Shmem_addr_accessible addr "32 word"
  | Shmem_ptr addr "32 word"
  | Shmalloc "64 word"
  | Shfree addr
  | Shrealloc addr "64 word"
  | Shmemalign "64 word" "64 word"

datatype (plugins only: code size) put_call =
    Shmem_double_put addr addr "64 word" "32 word"
  | Shmem_float_put addr addr "64 word" "32 word"
  | Shmem_int_put addr addr "64 word" "32 word"
  | Shmem_long_put addr addr "64 word" "32 word"
  | Shmem_longdouble_put addr addr "64 word" "32 word"
  | Shmem_longlong_put addr addr "64 word" "32 word"
  | Shmem_put32 addr addr "64 word" "32 word"
  | Shmem_put64 addr addr "64 word" "32 word"
  | Shmem_put128 addr addr "64 word" "32 word"
  | Shmem_putmem addr addr "64 word" "32 word"
  | Shmem_short_put addr addr "64 word" "32 word"
  | Shmem_char_p addr "8 word" "32 word"
  | Shmem_short_p addr "16 word" "32 word"
  | Shmem_int_p addr "32 word" "32 word"
  | Shmem_long_p addr "64 word" "32 word"
  | Shmem_longlong_p addr "64 word" "32 word"
  | Shmem_float_p addr "32 word" "32 word"
  | Shmem_double_p addr "64 word" "32 word"
  | Shmem_longdouble_p addr "128 word" "32 word"

datatype (plugins only: code size) iput_call =
    Shmem_double_iput addr addr "64 word" "64 word" "64 word" "32 word"
  | Shmem_float_iput addr addr "64 word" "64 word" "64 word" "32 word"
  | Shmem_int_iput addr addr "64 word" "64 word" "64 word" "32 word"
  | Shmem_iput32 addr addr "64 word" "64 word" "64 word" "32 word"
  | Shmem_iput64 addr addr "64 word" "64 word" "64 word" "32 word"
  | Shmem_iput128 addr addr "64 word" "64 word" "64 word" "32 word"
  | Shmem_long_iput addr addr "64 word" "64 word" "64 word" "32 word"
  | Shmem_longdouble_iput addr addr "64 word" "64 word" "64 word" "32 word"
  | Shmem_longlong_iput addr addr "64 word" "64 word" "64 word" "32 word"
  | Shmem_short_iput addr addr "64 word" "64 word" "64 word" "32 word"

datatype (plugins only: code size) get_call =
    Shmem_double_get addr addr "64 word" "32 word"
  | Shmem_float_get addr addr "64 word" "32 word"
  | Shmem_get32 addr addr "64 word" "32 word"
  | Shmem_get64 addr addr "64 word" "32 word"
  | Shmem_get128 addr addr "64 word" "32 word"
  | Shmem_getmem addr addr "64 word" "32 word"
  | Shmem_int_get addr addr "64 word" "32 word"
  | Shmem_long_get addr addr "64 word" "32 word"
  | Shmem_longdouble_get addr addr "64 word" "32 word"
  | Shmem_longlong_get addr addr "64 word" "32 word"
  | Shmem_short_get addr addr "64 word" "32 word"
  | Shmem_char_g addr "32 word"
  | Shmem_short_g addr "32 word"
  | Shmem_int_g addr "32 word"
  | Shmem_long_g addr "32 word"
  | Shmem_longlong_g addr "32 word"
  | Shmem_float_g addr "32 word"
  | Shmem_double_g addr "32 word"
  | Shmem_longdouble_g addr "32 word"

datatype (plugins only: code size) iget_call =
    Shmem_double_iget addr addr "64 word" "64 word" "64 word" "32 word"
  | Shmem_float_iget addr addr "64 word" "64 word" "64 word" "32 word"
  | Shmem_iget32 addr addr "64 word" "64 word" "64 word" "32 word"
  | Shmem_iget64 addr addr "64 word" "64 word" "64 word" "32 word"
  | Shmem_iget128 addr addr "64 word" "64 word" "64 word" "32 word"
  | Shmem_int_iget addr addr "64 word" "64 word" "64 word" "32 word"
  | Shmem_long_iget addr addr "64 word" "64 word" "64 word" "32 word"
  | Shmem_longdouble_iget addr addr "64 word" "64 word" "64 word" "32 word"
  | Shmem_longlong_iget addr addr "64 word" "64 word" "64 word" "32 word"
  | Shmem_short_iget addr addr "64 word" "64 word" "64 word" "32 word"

datatype (plugins only: code size) atomic_call =
    Shmem_int_add addr "32 word" "32 word"
  | Shmem_long_add addr "64 word" "32 word"
  | Shmem_longlong_add addr "64 word" "32 word"
  | Shmem_int_cswap addr "32 word" "32 word" "32 word"
  | Shmem_long_cswap addr "64 word" "64 word" "32 word"
  | Shmem_longlong_cswap addr "64 word" "64 word" "32 word"
  | Shmem_double_swap addr "64 word" "32 word"
  | Shmem_float_swap addr "32 word" "32 word"
  | Shmem_int_swap addr "32 word" "32 word"
  | Shmem_long_swap addr "64 word" "32 word"
  | Shmem_longlong_swap addr "64 word" "32 word"
  | Shmem_swap addr "64 word" "32 word"
  | Shmem_int_finc addr "32 word"
  | Shmem_long_finc addr "32 word"
  | Shmem_longlong_finc addr "32 word"
  | Shmem_int_inc addr "32 word"
  | Shmem_long_inc addr "32 word"
  | Shmem_longlong_inc addr "32 word"
  | Shmem_int_fadd addr "32 word" "32 word"
  | Shmem_long_fadd addr "64 word" "32 word"
  | Shmem_longlong_fadd addr "64 word" "32 word"

datatype (plugins only: code size) collective_call =
    Shmem_barrier_all
  | Shmem_barrier "32 word" "32 word" "32 word" addr
  | Shmem_broadcast32 addr addr "64 word" "32 word" "32 word" "32 word" "32 word" addr
  | Shmem_broadcast64 addr addr "64 word" "32 word" "32 word" "32 word" "32 word" addr
  | Shmem_collect32 addr addr "64 word" "32 word" "32 word" "32 word" addr
  | Shmem_collect64 addr addr "64 word" "32 word" "32 word" "32 word" addr
  | Shmem_fcollect32 addr addr "64 word" "32 word" "32 word" "32 word" addr
  | Shmem_fcollect64 addr addr "64 word" "32 word" "32 word" "32 word" addr
  | Shmem_int_and_to_all addr addr "32 word" "32 word" "32 word" "32 word" addr addr
  | Shmem_long_and_to_all addr addr "32 word" "32 word" "32 word" "32 word" addr addr
  | Shmem_longlong_and_to_all addr addr "32 word" "32 word" "32 word" "32 word" addr addr
  | Shmem_short_and_to_all addr addr "32 word" "32 word" "32 word" "32 word" addr addr
  | Shmem_double_max_to_all addr addr "32 word" "32 word" "32 word" "32 word" addr addr
  | Shmem_float_max_to_all addr addr "32 word" "32 word" "32 word" "32 word" addr addr
  | Shmem_int_max_to_all addr addr "32 word" "32 word" "32 word" "32 word" addr addr
  | Shmem_long_max_to_all addr addr "32 word" "32 word" "32 word" "32 word" addr addr
  | Shmem_longdouble_max_to_all addr addr "32 word" "32 word" "32 word" "32 word" addr addr
  | Shmem_longlong_max_to_all addr addr "32 word" "32 word" "32 word" "32 word" addr addr
  | Shmem_short_max_to_all addr addr "32 word" "32 word" "32 word" "32 word" addr addr
  | Shmem_double_min_to_all addr addr "32 word" "32 word" "32 word" "32 word" addr addr

datatype (plugins only: code size) sync_call =
    Shmem_int_wait addr "32 word"
  | Shmem_int_wait_until addr "32 word" "32 word"
  | Shmem_long_wait addr "64 word"
  | Shmem_long_wait_until addr "32 word" "64 word"
  | Shmem_longlong_wait addr "64 word"
  | Shmem_longlong_wait_until addr "32 word" "64 word"
  | Shmem_short_wait addr "16 word"
  | Shmem_short_wait_until addr "32 word" "16 word"
  | Shmem_wait addr "64 word"
  | Shmem_wait_until addr "32 word" "64 word"
  | Shmem_fence
  | Shmem_quiet
  | Shmem_clear_lock addr
  | Shmem_set_lock addr
  | Shmem_test_lock addr
  | Shmem_clear_cache_inv
  | Shmem_set_cache_inv
  | Shmem_clear_cache_line_inv addr
  | Shmem_set_cache_line_inv addr
  | Shmem_udcflush
  | Shmem_udcflush_line addr

text \<open>
  Every function with a wrapper but \<open>start_pes\<close>, which starts the tracer (\<open>Initialize_Extrae_Stuff\<close>) and is not modelled.
\<close>

datatype shmem_call = Call_setup setup_call | Call_put put_call | Call_iput iput_call | Call_get get_call | Call_iget iget_call | Call_atomic atomic_call | Call_collective collective_call | Call_sync sync_call

fun run_setup :: "'w shmem_hooks \<Rightarrow> setup_call \<Rightarrow> 'w tracer \<Rightarrow> (c_value \<times> 'w tracer) result" where
  "run_setup hooks Shmem_my_pe = shmem_my_pe hooks"
| "run_setup hooks X_my_pe = x_my_pe hooks"
| "run_setup hooks Shmem_n_pes = shmem_n_pes hooks"
| "run_setup hooks X_num_pes = x_num_pes hooks"
| "run_setup hooks (Shmem_pe_accessible pe) = shmem_pe_accessible hooks pe"
| "run_setup hooks (Shmem_addr_accessible addr pe) = shmem_addr_accessible hooks addr pe"
| "run_setup hooks (Shmem_ptr target pe) = shmem_ptr hooks target pe"
| "run_setup hooks (Shmalloc nbytes) = shmalloc hooks nbytes"
| "run_setup hooks (Shfree ptr) = shfree hooks ptr"
| "run_setup hooks (Shrealloc ptr nbytes) = shrealloc hooks ptr nbytes"
| "run_setup hooks (Shmemalign alignment nbytes) = shmemalign hooks alignment nbytes"

fun run_put :: "'w shmem_hooks \<Rightarrow> put_call \<Rightarrow> 'w tracer \<Rightarrow> (c_value \<times> 'w tracer) result" where
  "run_put hooks (Shmem_double_put target source len pe) = shmem_double_put hooks target source len pe"
| "run_put hooks (Shmem_float_put target source len pe) = shmem_float_put hooks target source len pe"
| "run_put hooks (Shmem_int_put target source len pe) = shmem_int_put hooks target source len pe"
| "run_put hooks (Shmem_long_put target source len pe) = shmem_long_put hooks target source len pe"
| "run_put hooks (Shmem_longdouble_put target source len pe) = shmem_longdouble_put hooks target source len pe"
| "run_put hooks (Shmem_longlong_put target source len pe) = shmem_longlong_put hooks target source len pe"
| "run_put hooks (Shmem_put32 target source len pe) = shmem_put32 hooks target source len pe"
| "run_put hooks (Shmem_put64 target source len pe) = shmem_put64 hooks target source len pe"
| "run_put hooks (Shmem_put128 target source len pe) = shmem_put128 hooks target source len pe"
| "run_put hooks (Shmem_putmem target source len pe) = shmem_putmem hooks target source len pe"
| "run_put hooks (Shmem_short_put target source len pe) = shmem_short_put hooks target source len pe"
| "run_put hooks (Shmem_char_p addr value pe) = shmem_char_p hooks addr value pe"
| "run_put hooks (Shmem_short_p addr value pe) = shmem_short_p hooks addr value pe"
| "run_put hooks (Shmem_int_p addr value pe) = shmem_int_p hooks addr value pe"
| "run_put hooks (Shmem_long_p addr value pe) = shmem_long_p hooks addr value pe"
| "run_put hooks (Shmem_longlong_p addr value pe) = shmem_longlong_p hooks addr value pe"
| "run_put hooks (Shmem_float_p addr value pe) = shmem_float_p hooks addr value pe"
| "run_put hooks (Shmem_double_p addr value pe) = shmem_double_p hooks addr value pe"
| "run_put hooks (Shmem_longdouble_p addr value pe) = shmem_longdouble_p hooks addr value pe"

fun run_iput :: "'w shmem_hooks \<Rightarrow> iput_call \<Rightarrow> 'w tracer \<Rightarrow> (c_value \<times> 'w tracer) result" where
  "run_iput hooks (Shmem_double_iput target source tst sst nelems pe) = shmem_double_iput hooks target source tst sst nelems pe"
| "run_iput hooks (Shmem_float_iput target source tst sst nelems pe) = shmem_float_iput hooks target source tst sst nelems pe"
| "run_iput hooks (Shmem_int_iput target source tst sst nelems pe) = shmem_int_iput hooks target source tst sst nelems pe"
| "run_iput hooks (Shmem_iput32 target source tst sst nelems pe) = shmem_iput32 hooks target source tst sst nelems pe"
| "run_iput hooks (Shmem_iput64 target source tst sst nelems pe) = shmem_iput64 hooks target source tst sst nelems pe"
| "run_iput hooks (Shmem_iput128 target source tst sst nelems pe) = shmem_iput128 hooks target source tst sst nelems pe"
| "run_iput hooks (Shmem_long_iput target source tst sst nelems pe) = shmem_long_iput hooks target source tst sst nelems pe"
| "run_iput hooks (Shmem_longdouble_iput target source tst sst nelems pe) = shmem_longdouble_iput hooks target source tst sst nelems pe"
| "run_iput hooks (Shmem_longlong_iput target source tst sst nelems pe) = shmem_longlong_iput hooks target source tst sst nelems pe"
| "run_iput hooks (Shmem_short_iput target source tst sst nelems pe) = shmem_short_iput hooks target source tst sst nelems pe"

fun run_get :: "'w shmem_hooks \<Rightarrow> get_call \<Rightarrow> 'w tracer \<Rightarrow> (c_value \<times> 'w tracer) result" where
  "run_get hooks (Shmem_double_get target source nelems pe) = shmem_double_get hooks target source nelems pe"
| "run_get hooks (Shmem_float_get target source nelems pe) = shmem_float_get hooks target source nelems pe"
| "run_get hooks (Shmem_get32 target source nelems pe) = shmem_get32 hooks target source nelems pe"
| "run_get hooks (Shmem_get64 target source nelems pe) = shmem_get64 hooks target source nelems pe"
| "run_get hooks (Shmem_get128 target source nelems pe) = shmem_get128 hooks target source nelems pe"
| "run_get hooks (Shmem_getmem target source nelems pe) = shmem_getmem hooks target source nelems pe"
| "run_get hooks (Shmem_int_get target source nelems pe) = shmem_int_get hooks target source nelems pe"
| "run_get hooks (Shmem_long_get target source nelems pe) = shmem_long_get hooks target source nelems pe"
| "run_get hooks (Shmem_longdouble_get target source nelems pe) = shmem_longdouble_get hooks target source nelems pe"
| "run_get hooks (Shmem_longlong_get target source nelems pe) = shmem_longlong_get hooks target source nelems pe"
| "run_get hooks (Shmem_short_get target source nelems pe) = shmem_short_get hooks target source nelems pe"
| "run_get hooks (Shmem_char_g addr pe) = shmem_char_g hooks addr pe"
| "run_get hooks (Shmem_short_g addr pe) = shmem_short_g hooks addr pe"
| "run_get hooks (Shmem_int_g addr pe) = shmem_int_g hooks addr pe"
| "run_get hooks (Shmem_long_g addr pe) = shmem_long_g hooks addr pe"
| "run_get hooks (Shmem_longlong_g addr pe) = shmem_longlong_g hooks addr pe"
| "run_get hooks (Shmem_float_g addr pe) = shmem_float_g hooks addr pe"
| "run_get hooks (Shmem_double_g addr pe) = shmem_double_g hooks addr pe"
| "run_get hooks (Shmem_longdouble_g addr pe) = shmem_longdouble_g hooks addr pe"

fun run_iget :: "'w shmem_hooks \<Rightarrow> iget_call \<Rightarrow> 'w tracer \<Rightarrow> (c_value \<times> 'w tracer) result" where
  "run_iget hooks (Shmem_double_iget target source tst sst nelems pe) = shmem_double_iget hooks target source tst sst nelems pe"
| "run_iget hooks (Shmem_float_iget target source tst sst nelems pe) = shmem_float_iget hooks target source tst sst nelems pe"
| "run_iget hooks (Shmem_iget32 target source tst sst nelems pe) = shmem_iget32 hooks target source tst sst nelems pe"
| "run_iget hooks (Shmem_iget64 target source tst sst nelems pe) = shmem_iget64 hooks target source tst sst nelems pe"
| "run_iget hooks (Shmem_iget128 target source tst sst nelems pe) = shmem_iget128 hooks target source tst sst nelems pe"
| "run_iget hooks (Shmem_int_iget target source tst sst nelems pe) = shmem_int_iget hooks target source tst sst nelems pe"
| "run_iget hooks (Shmem_long_iget target source tst sst nelems pe) = shmem_long_iget hooks target source tst sst nelems pe"
| "run_iget hooks (Shmem_longdouble_iget target source tst sst nelems pe) = shmem_longdouble_iget hooks target source tst sst nelems pe"
| "run_iget hooks (Shmem_longlong_iget target source tst sst nelems pe) = shmem_longlong_iget hooks target source tst sst nelems pe"
| "run_iget hooks (Shmem_short_iget target source tst sst nelems pe) = shmem_short_iget hooks target source tst sst nelems pe"

fun run_atomic :: "'w shmem_hooks \<Rightarrow> atomic_call \<Rightarrow> 'w tracer \<Rightarrow> (c_value \<times> 'w tracer) result" where
  "run_atomic hooks (Shmem_int_add target value pe) = shmem_int_add hooks target value pe"
| "run_atomic hooks (Shmem_long_add target value pe) = shmem_long_add hooks target value pe"
| "run_atomic hooks (Shmem_longlong_add target value pe) = shmem_longlong_add hooks target value pe"
| "run_atomic hooks (Shmem_int_cswap target cond value pe) = shmem_int_cswap hooks target cond value pe"
| "run_atomic hooks (Shmem_long_cswap target cond value pe) = shmem_long_cswap hooks target cond value pe"
| "run_atomic hooks (Shmem_longlong_cswap target cond value pe) = shmem_longlong_cswap hooks target cond value pe"
| "run_atomic hooks (Shmem_double_swap target value pe) = shmem_double_swap hooks target value pe"
| "run_atomic hooks (Shmem_float_swap target value pe) = shmem_float_swap hooks target value pe"
| "run_atomic hooks (Shmem_int_swap target value pe) = shmem_int_swap hooks target value pe"
| "run_atomic hooks (Shmem_long_swap target value pe) = shmem_long_swap hooks target value pe"
| "run_atomic hooks (Shmem_longlong_swap target value pe) = shmem_longlong_swap hooks target value pe"
| "run_atomic hooks (Shmem_swap target value pe) = shmem_swap hooks target value pe"
| "run_atomic hooks (Shmem_int_finc target pe) = shmem_int_finc hooks target pe"
| "run_atomic hooks (Shmem_long_finc target pe) = shmem_long_finc hooks target pe"
| "run_atomic hooks (Shmem_longlong_finc target pe) = shmem_longlong_finc hooks target pe"
| "run_atomic hooks (Shmem_int_inc target pe) = shmem_int_inc hooks target pe"
| "run_atomic hooks (Shmem_long_inc target pe) = shmem_long_inc hooks target pe"
| "run_atomic hooks (Shmem_longlong_inc target pe) = shmem_longlong_inc hooks target pe"
| "run_atomic hooks (Shmem_int_fadd target value pe) = shmem_int_fadd hooks target value pe"
| "run_atomic hooks (Shmem_long_fadd target value pe) = shmem_long_fadd hooks target value pe"
| "run_atomic hooks (Shmem_longlong_fadd target value pe) = shmem_longlong_fadd hooks target value pe"

fun run_collective :: "'w shmem_hooks \<Rightarrow> collective_call \<Rightarrow> 'w tracer \<Rightarrow> (c_value \<times> 'w tracer) result" where
  "run_collective hooks Shmem_barrier_all = shmem_barrier_all hooks"
| "run_collective hooks (Shmem_barrier PE_start logPE_stride PE_size pSync) = shmem_barrier hooks PE_start logPE_stride PE_size pSync"
| "run_collective hooks (Shmem_broadcast32 target source nlong PE_root PE_start logPE_stride PE_size pSync) = shmem_broadcast32 hooks target source nlong PE_root PE_start logPE_stride PE_size pSync"
| "run_collective hooks (Shmem_broadcast64 target source nlong PE_root PE_start logPE_stride PE_size pSync) = shmem_broadcast64 hooks target source nlong PE_root PE_start logPE_stride PE_size pSync"
| "run_collective hooks (Shmem_collect32 target source nelems PE_start logPE_stride PE_size pSync) = shmem_collect32 hooks target source nelems PE_start logPE_stride PE_size pSync"
| "run_collective hooks (Shmem_collect64 target source nelems PE_start logPE_stride PE_size pSync) = shmem_collect64 hooks target source nelems PE_start logPE_stride PE_size pSync"
| "run_collective hooks (Shmem_fcollect32 target source nelems PE_start logPE_stride PE_size pSync) = shmem_fcollect32 hooks target source nelems PE_start logPE_stride PE_size pSync"
| "run_collective hooks (Shmem_fcollect64 target source nelems PE_start logPE_stride PE_size pSync) = shmem_fcollect64 hooks target source nelems PE_start logPE_stride PE_size pSync"
| "run_collective hooks (Shmem_int_and_to_all target source nreduce PE_start logPE_stride PE_size pWrk pSync) = shmem_int_and_to_all hooks target source nreduce PE_start logPE_stride PE_size pWrk pSync"
| "run_collective hooks (Shmem_long_and_to_all target source nreduce PE_start logPE_stride PE_size pWrk pSync) = shmem_long_and_to_all hooks target source nreduce PE_start logPE_stride PE_size pWrk pSync"
| "run_collective hooks (Shmem_longlong_and_to_all target source nreduce PE_start logPE_stride PE_size pWrk pSync) = shmem_longlong_and_to_all hooks target source nreduce PE_start logPE_stride PE_size pWrk pSync"
| "run_collective hooks (Shmem_short_and_to_all target source nreduce PE_start logPE_stride PE_size pWrk pSync) = shmem_short_and_to_all hooks target source nreduce PE_start logPE_stride PE_size pWrk pSync"
| "run_collective hooks (Shmem_double_max_to_all target source nreduce PE_start logPE_stride PE_size pWrk pSync) = shmem_double_max_to_all hooks target source nreduce PE_start logPE_stride PE_size pWrk pSync"
| "run_collective hooks (Shmem_float_max_to_all target source nreduce PE_start logPE_stride PE_size pWrk pSync) = shmem_float_max_to_all hooks target source nreduce PE_start logPE_stride PE_size pWrk pSync"
| "run_collective hooks (Shmem_int_max_to_all target source nreduce PE_start logPE_stride PE_size pWrk pSync) = shmem_int_max_to_all hooks target source nreduce PE_start logPE_stride PE_size pWrk pSync"
| "run_collective hooks (Shmem_long_max_to_all target source nreduce PE_start logPE_stride PE_size pWrk pSync) = shmem_long_max_to_all hooks target source nreduce PE_start logPE_stride PE_size pWrk pSync"
| "run_collective hooks (Shmem_longdouble_max_to_all target source nreduce PE_start logPE_stride PE_size pWrk pSync) = shmem_longdouble_max_to_all hooks target source nreduce PE_start logPE_stride PE_size pWrk pSync"
| "run_collective hooks (Shmem_longlong_max_to_all target source nreduce PE_start logPE_stride PE_size pWrk pSync) = shmem_longlong_max_to_all hooks target source nreduce PE_start logPE_stride PE_size pWrk pSync"
| "run_collective hooks (Shmem_short_max_to_all target source nreduce PE_start logPE_stride PE_size pWrk pSync) = shmem_short_max_to_all hooks target source nreduce PE_start logPE_stride PE_size pWrk pSync"
| "run_collective hooks (Shmem_double_min_to_all target source nreduce PE_start logPE_stride PE_size pWrk pSync) = shmem_double_min_to_all hooks target source nreduce PE_start logPE_stride PE_size pWrk pSync"

fun run_sync :: "'w shmem_hooks \<Rightarrow> sync_call \<Rightarrow> 'w tracer \<Rightarrow> (c_value \<times> 'w tracer) result" where
  "run_sync hooks (Shmem_int_wait ivar cmp_value) = shmem_int_wait hooks ivar cmp_value"
| "run_sync hooks (Shmem_int_wait_until ivar cmp cmp_value) = shmem_int_wait_until hooks ivar cmp cmp_value"
| "run_sync hooks (Shmem_long_wait ivar cmp_value) = shmem_long_wait hooks ivar cmp_value"
| "run_sync hooks (Shmem_long_wait_until ivar cmp cmp_value) = shmem_long_wait_until hooks ivar cmp cmp_value"
| "run_sync hooks (Shmem_longlong_wait ivar cmp_value) = shmem_longlong_wait hooks ivar cmp_value"
| "run_sync hooks (Shmem_longlong_wait_until ivar cmp cmp_value) = shmem_longlong_wait_until hooks ivar cmp cmp_value"
| "run_sync hooks (Shmem_short_wait ivar cmp_value) = shmem_short_wait hooks ivar cmp_value"
| "run_sync hooks (Shmem_short_wait_until ivar cmp cmp_value) = shmem_short_wait_until hooks ivar cmp cmp_value"
| "run_sync hooks (Shmem_wait ivar cmp_value) = shmem_wait hooks ivar cmp_value"
| "run_sync hooks (Shmem_wait_until ivar cmp cmp_value) = shmem_wait_until hooks ivar cmp cmp_value"
| "run_sync hooks Shmem_fence = shmem_fence hooks"
| "run_sync hooks Shmem_quiet = shmem_quiet hooks"
| "run_sync hooks (Shmem_clear_lock lock) = shmem_clear_lock hooks lock"
| "run_sync hooks (Shmem_set_lock lock) = shmem_set_lock hooks lock"
| "run_sync hooks (Shmem_test_lock lock) = shmem_test_lock hooks lock"
| "run_sync hooks Shmem_clear_cache_inv = shmem_clear_cache_inv hooks"
| "run_sync hooks Shmem_set_cache_inv = shmem_set_cache_inv hooks"
| "run_sync hooks (Shmem_clear_cache_line_inv target) = shmem_clear_cache_line_inv hooks target"
| "run_sync hooks (Shmem_set_cache_line_inv target) = shmem_set_cache_line_inv hooks target"
| "run_sync hooks Shmem_udcflush = shmem_udcflush hooks"
| "run_sync hooks (Shmem_udcflush_line target) = shmem_udcflush_line hooks target"

fun run_shmem :: "'w shmem_hooks \<Rightarrow> shmem_call \<Rightarrow> 'w tracer \<Rightarrow> (c_value \<times> 'w tracer) result" where
  "run_shmem hooks (Call_setup c) = run_setup hooks c"
| "run_shmem hooks (Call_put c) = run_put hooks c"
| "run_shmem hooks (Call_iput c) = run_iput hooks c"
| "run_shmem hooks (Call_get c) = run_get hooks c"
| "run_shmem hooks (Call_iget c) = run_iget hooks c"
| "run_shmem hooks (Call_atomic c) = run_atomic hooks c"
| "run_shmem hooks (Call_collective c) = run_collective hooks c"
| "run_shmem hooks (Call_sync c) = run_sync hooks c"

text \<open>The definitions of each group.\<close>

lemmas wrappers_setup =
  shmem_my_pe_def x_my_pe_def shmem_n_pes_def x_num_pes_def shmem_pe_accessible_def shmem_addr_accessible_def
  shmem_ptr_def shmalloc_def shfree_def shrealloc_def shmemalign_def

lemmas probes_setup =
  PROBE_shmem_my_pe_ENTRY_def PROBE_shmem_my_pe_EXIT_def PROBE_x_my_pe_ENTRY_def PROBE_x_my_pe_EXIT_def
  PROBE_shmem_n_pes_ENTRY_def PROBE_shmem_n_pes_EXIT_def PROBE_x_num_pes_ENTRY_def PROBE_x_num_pes_EXIT_def
  PROBE_shmem_pe_accessible_ENTRY_def PROBE_shmem_pe_accessible_EXIT_def PROBE_shmem_addr_accessible_ENTRY_def
  PROBE_shmem_addr_accessible_EXIT_def PROBE_shmem_ptr_ENTRY_def PROBE_shmem_ptr_EXIT_def
  PROBE_shmalloc_ENTRY_def PROBE_shmalloc_EXIT_def PROBE_shfree_ENTRY_def PROBE_shfree_EXIT_def
  PROBE_shrealloc_ENTRY_def PROBE_shrealloc_EXIT_def PROBE_shmemalign_ENTRY_def PROBE_shmemalign_EXIT_def

lemmas wrappers_put =
  shmem_double_put_def shmem_float_put_def shmem_int_put_def shmem_long_put_def shmem_longdouble_put_def
  shmem_longlong_put_def shmem_put32_def shmem_put64_def shmem_put128_def shmem_putmem_def shmem_short_put_def
  shmem_char_p_def shmem_short_p_def shmem_int_p_def shmem_long_p_def shmem_longlong_p_def shmem_float_p_def
  shmem_double_p_def shmem_longdouble_p_def

lemmas probes_put =
  PROBE_shmem_double_put_ENTRY_def PROBE_shmem_double_put_EXIT_def PROBE_shmem_float_put_ENTRY_def
  PROBE_shmem_float_put_EXIT_def PROBE_shmem_int_put_ENTRY_def PROBE_shmem_int_put_EXIT_def
  PROBE_shmem_long_put_ENTRY_def PROBE_shmem_long_put_EXIT_def PROBE_shmem_longdouble_put_ENTRY_def
  PROBE_shmem_longdouble_put_EXIT_def PROBE_shmem_longlong_put_ENTRY_def PROBE_shmem_longlong_put_EXIT_def
  PROBE_shmem_put32_ENTRY_def PROBE_shmem_put32_EXIT_def PROBE_shmem_put64_ENTRY_def PROBE_shmem_put64_EXIT_def
  PROBE_shmem_put128_ENTRY_def PROBE_shmem_put128_EXIT_def PROBE_shmem_putmem_ENTRY_def
  PROBE_shmem_putmem_EXIT_def PROBE_shmem_short_put_ENTRY_def PROBE_shmem_short_put_EXIT_def
  PROBE_shmem_char_p_ENTRY_def PROBE_shmem_char_p_EXIT_def PROBE_shmem_short_p_ENTRY_def
  PROBE_shmem_short_p_EXIT_def PROBE_shmem_int_p_ENTRY_def PROBE_shmem_int_p_EXIT_def
  PROBE_shmem_long_p_ENTRY_def PROBE_shmem_long_p_EXIT_def PROBE_shmem_longlong_p_ENTRY_def
  PROBE_shmem_longlong_p_EXIT_def PROBE_shmem_float_p_ENTRY_def PROBE_shmem_float_p_EXIT_def
  PROBE_shmem_double_p_ENTRY_def PROBE_shmem_double_p_EXIT_def PROBE_shmem_longdouble_p_ENTRY_def
  PROBE_shmem_longdouble_p_EXIT_def

lemmas wrappers_iput =
  shmem_double_iput_def shmem_float_iput_def shmem_int_iput_def shmem_iput32_def shmem_iput64_def
  shmem_iput128_def shmem_long_iput_def shmem_longdouble_iput_def shmem_longlong_iput_def shmem_short_iput_def

lemmas probes_iput =
  PROBE_shmem_double_iput_ENTRY_def PROBE_shmem_double_iput_EXIT_def PROBE_shmem_float_iput_ENTRY_def
  PROBE_shmem_float_iput_EXIT_def PROBE_shmem_int_iput_ENTRY_def PROBE_shmem_int_iput_EXIT_def
  PROBE_shmem_iput32_ENTRY_def PROBE_shmem_iput32_EXIT_def PROBE_shmem_iput64_ENTRY_def
  PROBE_shmem_iput64_EXIT_def PROBE_shmem_iput128_ENTRY_def PROBE_shmem_iput128_EXIT_def
  PROBE_shmem_long_iput_ENTRY_def PROBE_shmem_long_iput_EXIT_def PROBE_shmem_longdouble_iput_ENTRY_def
  PROBE_shmem_longdouble_iput_EXIT_def PROBE_shmem_longlong_iput_ENTRY_def PROBE_shmem_longlong_iput_EXIT_def
  PROBE_shmem_short_iput_ENTRY_def PROBE_shmem_short_iput_EXIT_def

lemmas wrappers_get =
  shmem_double_get_def shmem_float_get_def shmem_get32_def shmem_get64_def shmem_get128_def shmem_getmem_def
  shmem_int_get_def shmem_long_get_def shmem_longdouble_get_def shmem_longlong_get_def shmem_short_get_def
  shmem_char_g_def shmem_short_g_def shmem_int_g_def shmem_long_g_def shmem_longlong_g_def shmem_float_g_def
  shmem_double_g_def shmem_longdouble_g_def

lemmas probes_get =
  PROBE_shmem_double_get_ENTRY_def PROBE_shmem_double_get_EXIT_def PROBE_shmem_float_get_ENTRY_def
  PROBE_shmem_float_get_EXIT_def PROBE_shmem_get32_ENTRY_def PROBE_shmem_get32_EXIT_def
  PROBE_shmem_get64_ENTRY_def PROBE_shmem_get64_EXIT_def PROBE_shmem_get128_ENTRY_def
  PROBE_shmem_get128_EXIT_def PROBE_shmem_getmem_ENTRY_def PROBE_shmem_getmem_EXIT_def
  PROBE_shmem_int_get_ENTRY_def PROBE_shmem_int_get_EXIT_def PROBE_shmem_long_get_ENTRY_def
  PROBE_shmem_long_get_EXIT_def PROBE_shmem_longdouble_get_ENTRY_def PROBE_shmem_longdouble_get_EXIT_def
  PROBE_shmem_longlong_get_ENTRY_def PROBE_shmem_longlong_get_EXIT_def PROBE_shmem_short_get_ENTRY_def
  PROBE_shmem_short_get_EXIT_def PROBE_shmem_char_g_ENTRY_def PROBE_shmem_char_g_EXIT_def
  PROBE_shmem_short_g_ENTRY_def PROBE_shmem_short_g_EXIT_def PROBE_shmem_int_g_ENTRY_def
  PROBE_shmem_int_g_EXIT_def PROBE_shmem_long_g_ENTRY_def PROBE_shmem_long_g_EXIT_def
  PROBE_shmem_longlong_g_ENTRY_def PROBE_shmem_longlong_g_EXIT_def PROBE_shmem_float_g_ENTRY_def
  PROBE_shmem_float_g_EXIT_def PROBE_shmem_double_g_ENTRY_def PROBE_shmem_double_g_EXIT_def
  PROBE_shmem_longdouble_g_ENTRY_def PROBE_shmem_longdouble_g_EXIT_def

lemmas wrappers_iget =
  shmem_double_iget_def shmem_float_iget_def shmem_iget32_def shmem_iget64_def shmem_iget128_def
  shmem_int_iget_def shmem_long_iget_def shmem_longdouble_iget_def shmem_longlong_iget_def shmem_short_iget_def

lemmas probes_iget =
  PROBE_shmem_double_iget_ENTRY_def PROBE_shmem_double_iget_EXIT_def PROBE_shmem_float_iget_ENTRY_def
  PROBE_shmem_float_iget_EXIT_def PROBE_shmem_iget32_ENTRY_def PROBE_shmem_iget32_EXIT_def
  PROBE_shmem_iget64_ENTRY_def PROBE_shmem_iget64_EXIT_def PROBE_shmem_iget128_ENTRY_def
  PROBE_shmem_iget128_EXIT_def PROBE_shmem_int_iget_ENTRY_def PROBE_shmem_int_iget_EXIT_def
  PROBE_shmem_long_iget_ENTRY_def PROBE_shmem_long_iget_EXIT_def PROBE_shmem_longdouble_iget_ENTRY_def
  PROBE_shmem_longdouble_iget_EXIT_def PROBE_shmem_longlong_iget_ENTRY_def PROBE_shmem_longlong_iget_EXIT_def
  PROBE_shmem_short_iget_ENTRY_def PROBE_shmem_short_iget_EXIT_def

lemmas wrappers_atomic =
  shmem_int_add_def shmem_long_add_def shmem_longlong_add_def shmem_int_cswap_def shmem_long_cswap_def
  shmem_longlong_cswap_def shmem_double_swap_def shmem_float_swap_def shmem_int_swap_def shmem_long_swap_def
  shmem_longlong_swap_def shmem_swap_def shmem_int_finc_def shmem_long_finc_def shmem_longlong_finc_def
  shmem_int_inc_def shmem_long_inc_def shmem_longlong_inc_def shmem_int_fadd_def shmem_long_fadd_def
  shmem_longlong_fadd_def

lemmas probes_atomic =
  PROBE_shmem_int_add_ENTRY_def PROBE_shmem_int_add_EXIT_def PROBE_shmem_long_add_ENTRY_def
  PROBE_shmem_long_add_EXIT_def PROBE_shmem_longlong_add_ENTRY_def PROBE_shmem_longlong_add_EXIT_def
  PROBE_shmem_int_cswap_ENTRY_def PROBE_shmem_int_cswap_EXIT_def PROBE_shmem_long_cswap_ENTRY_def
  PROBE_shmem_long_cswap_EXIT_def PROBE_shmem_longlong_cswap_ENTRY_def PROBE_shmem_longlong_cswap_EXIT_def
  PROBE_shmem_double_swap_ENTRY_def PROBE_shmem_double_swap_EXIT_def PROBE_shmem_float_swap_ENTRY_def
  PROBE_shmem_float_swap_EXIT_def PROBE_shmem_int_swap_ENTRY_def PROBE_shmem_int_swap_EXIT_def
  PROBE_shmem_long_swap_ENTRY_def PROBE_shmem_long_swap_EXIT_def PROBE_shmem_longlong_swap_ENTRY_def
  PROBE_shmem_longlong_swap_EXIT_def PROBE_shmem_swap_ENTRY_def PROBE_shmem_swap_EXIT_def
  PROBE_shmem_int_finc_ENTRY_def PROBE_shmem_int_finc_EXIT_def PROBE_shmem_long_finc_ENTRY_def
  PROBE_shmem_long_finc_EXIT_def PROBE_shmem_longlong_finc_ENTRY_def PROBE_shmem_longlong_finc_EXIT_def
  PROBE_shmem_int_inc_ENTRY_def PROBE_shmem_int_inc_EXIT_def PROBE_shmem_long_inc_ENTRY_def
  PROBE_shmem_long_inc_EXIT_def PROBE_shmem_longlong_inc_ENTRY_def PROBE_shmem_longlong_inc_EXIT_def
  PROBE_shmem_int_fadd_ENTRY_def PROBE_shmem_int_fadd_EXIT_def PROBE_shmem_long_fadd_ENTRY_def
  PROBE_shmem_long_fadd_EXIT_def PROBE_shmem_longlong_fadd_ENTRY_def PROBE_shmem_longlong_fadd_EXIT_def

lemmas wrappers_collective =
  shmem_barrier_all_def shmem_barrier_def shmem_broadcast32_def shmem_broadcast64_def shmem_collect32_def
  shmem_collect64_def shmem_fcollect32_def shmem_fcollect64_def shmem_int_and_to_all_def
  shmem_long_and_to_all_def shmem_longlong_and_to_all_def shmem_short_and_to_all_def shmem_double_max_to_all_def
  shmem_float_max_to_all_def shmem_int_max_to_all_def shmem_long_max_to_all_def shmem_longdouble_max_to_all_def
  shmem_longlong_max_to_all_def shmem_short_max_to_all_def shmem_double_min_to_all_def

lemmas probes_collective =
  PROBE_shmem_barrier_all_ENTRY_def PROBE_shmem_barrier_all_EXIT_def PROBE_shmem_barrier_ENTRY_def
  PROBE_shmem_barrier_EXIT_def PROBE_shmem_broadcast32_ENTRY_def PROBE_shmem_broadcast32_EXIT_def
  PROBE_shmem_broadcast64_ENTRY_def PROBE_shmem_broadcast64_EXIT_def PROBE_shmem_collect32_ENTRY_def
  PROBE_shmem_collect32_EXIT_def PROBE_shmem_collect64_ENTRY_def PROBE_shmem_collect64_EXIT_def
  PROBE_shmem_fcollect32_ENTRY_def PROBE_shmem_fcollect32_EXIT_def PROBE_shmem_fcollect64_ENTRY_def
  PROBE_shmem_fcollect64_EXIT_def PROBE_shmem_int_and_to_all_ENTRY_def PROBE_shmem_int_and_to_all_EXIT_def
  PROBE_shmem_long_and_to_all_ENTRY_def PROBE_shmem_long_and_to_all_EXIT_def
  PROBE_shmem_longlong_and_to_all_ENTRY_def PROBE_shmem_longlong_and_to_all_EXIT_def
  PROBE_shmem_short_and_to_all_ENTRY_def PROBE_shmem_short_and_to_all_EXIT_def
  PROBE_shmem_double_max_to_all_ENTRY_def PROBE_shmem_double_max_to_all_EXIT_def
  PROBE_shmem_float_max_to_all_ENTRY_def PROBE_shmem_float_max_to_all_EXIT_def
  PROBE_shmem_int_max_to_all_ENTRY_def PROBE_shmem_int_max_to_all_EXIT_def PROBE_shmem_long_max_to_all_ENTRY_def
  PROBE_shmem_long_max_to_all_EXIT_def PROBE_shmem_longdouble_max_to_all_ENTRY_def
  PROBE_shmem_longdouble_max_to_all_EXIT_def PROBE_shmem_longlong_max_to_all_ENTRY_def
  PROBE_shmem_longlong_max_to_all_EXIT_def PROBE_shmem_short_max_to_all_ENTRY_def
  PROBE_shmem_short_max_to_all_EXIT_def PROBE_shmem_double_min_to_all_ENTRY_def
  PROBE_shmem_double_min_to_all_EXIT_def

lemmas wrappers_sync =
  shmem_int_wait_def shmem_int_wait_until_def shmem_long_wait_def shmem_long_wait_until_def
  shmem_longlong_wait_def shmem_longlong_wait_until_def shmem_short_wait_def shmem_short_wait_until_def
  shmem_wait_def shmem_wait_until_def shmem_fence_def shmem_quiet_def shmem_clear_lock_def shmem_set_lock_def
  shmem_test_lock_def shmem_clear_cache_inv_def shmem_set_cache_inv_def shmem_clear_cache_line_inv_def
  shmem_set_cache_line_inv_def shmem_udcflush_def shmem_udcflush_line_def

lemmas probes_sync =
  PROBE_shmem_int_wait_ENTRY_def PROBE_shmem_int_wait_EXIT_def PROBE_shmem_int_wait_until_ENTRY_def
  PROBE_shmem_int_wait_until_EXIT_def PROBE_shmem_long_wait_ENTRY_def PROBE_shmem_long_wait_EXIT_def
  PROBE_shmem_long_wait_until_ENTRY_def PROBE_shmem_long_wait_until_EXIT_def PROBE_shmem_longlong_wait_ENTRY_def
  PROBE_shmem_longlong_wait_EXIT_def PROBE_shmem_longlong_wait_until_ENTRY_def
  PROBE_shmem_longlong_wait_until_EXIT_def PROBE_shmem_short_wait_ENTRY_def PROBE_shmem_short_wait_EXIT_def
  PROBE_shmem_short_wait_until_ENTRY_def PROBE_shmem_short_wait_until_EXIT_def PROBE_shmem_wait_ENTRY_def
  PROBE_shmem_wait_EXIT_def PROBE_shmem_wait_until_ENTRY_def PROBE_shmem_wait_until_EXIT_def
  PROBE_shmem_fence_ENTRY_def PROBE_shmem_fence_EXIT_def PROBE_shmem_quiet_ENTRY_def PROBE_shmem_quiet_EXIT_def
  PROBE_shmem_clear_lock_ENTRY_def PROBE_shmem_clear_lock_EXIT_def PROBE_shmem_set_lock_ENTRY_def
  PROBE_shmem_set_lock_EXIT_def PROBE_shmem_test_lock_ENTRY_def PROBE_shmem_test_lock_EXIT_def
  PROBE_shmem_clear_cache_inv_ENTRY_def PROBE_shmem_clear_cache_inv_EXIT_def PROBE_shmem_set_cache_inv_ENTRY_def
  PROBE_shmem_set_cache_inv_EXIT_def PROBE_shmem_clear_cache_line_inv_ENTRY_def
  PROBE_shmem_clear_cache_line_inv_EXIT_def PROBE_shmem_set_cache_line_inv_ENTRY_def
  PROBE_shmem_set_cache_line_inv_EXIT_def PROBE_shmem_udcflush_ENTRY_def PROBE_shmem_udcflush_EXIT_def
  PROBE_shmem_udcflush_line_ENTRY_def PROBE_shmem_udcflush_line_EXIT_def

section \<open>What a call asks for\<close>

text \<open>The name of the function, its arguments, its event, and the size its probe computes in the task that calls it.\<close>

fun name_setup :: "setup_call \<Rightarrow> string" where
  "name_setup Shmem_my_pe = ''shmem_my_pe''"
| "name_setup X_my_pe = ''_my_pe''"
| "name_setup Shmem_n_pes = ''shmem_n_pes''"
| "name_setup X_num_pes = ''_num_pes''"
| "name_setup (Shmem_pe_accessible _) = ''shmem_pe_accessible''"
| "name_setup (Shmem_addr_accessible _ _) = ''shmem_addr_accessible''"
| "name_setup (Shmem_ptr _ _) = ''shmem_ptr''"
| "name_setup (Shmalloc _) = ''shmalloc''"
| "name_setup (Shfree _) = ''shfree''"
| "name_setup (Shrealloc _ _) = ''shrealloc''"
| "name_setup (Shmemalign _ _) = ''shmemalign''"

fun name_put :: "put_call \<Rightarrow> string" where
  "name_put (Shmem_double_put _ _ _ _) = ''shmem_double_put''"
| "name_put (Shmem_float_put _ _ _ _) = ''shmem_float_put''"
| "name_put (Shmem_int_put _ _ _ _) = ''shmem_int_put''"
| "name_put (Shmem_long_put _ _ _ _) = ''shmem_long_put''"
| "name_put (Shmem_longdouble_put _ _ _ _) = ''shmem_longdouble_put''"
| "name_put (Shmem_longlong_put _ _ _ _) = ''shmem_longlong_put''"
| "name_put (Shmem_put32 _ _ _ _) = ''shmem_put32''"
| "name_put (Shmem_put64 _ _ _ _) = ''shmem_put64''"
| "name_put (Shmem_put128 _ _ _ _) = ''shmem_put128''"
| "name_put (Shmem_putmem _ _ _ _) = ''shmem_putmem''"
| "name_put (Shmem_short_put _ _ _ _) = ''shmem_short_put''"
| "name_put (Shmem_char_p _ _ _) = ''shmem_char_p''"
| "name_put (Shmem_short_p _ _ _) = ''shmem_short_p''"
| "name_put (Shmem_int_p _ _ _) = ''shmem_int_p''"
| "name_put (Shmem_long_p _ _ _) = ''shmem_long_p''"
| "name_put (Shmem_longlong_p _ _ _) = ''shmem_longlong_p''"
| "name_put (Shmem_float_p _ _ _) = ''shmem_float_p''"
| "name_put (Shmem_double_p _ _ _) = ''shmem_double_p''"
| "name_put (Shmem_longdouble_p _ _ _) = ''shmem_longdouble_p''"

fun name_iput :: "iput_call \<Rightarrow> string" where
  "name_iput (Shmem_double_iput _ _ _ _ _ _) = ''shmem_double_iput''"
| "name_iput (Shmem_float_iput _ _ _ _ _ _) = ''shmem_float_iput''"
| "name_iput (Shmem_int_iput _ _ _ _ _ _) = ''shmem_int_iput''"
| "name_iput (Shmem_iput32 _ _ _ _ _ _) = ''shmem_iput32''"
| "name_iput (Shmem_iput64 _ _ _ _ _ _) = ''shmem_iput64''"
| "name_iput (Shmem_iput128 _ _ _ _ _ _) = ''shmem_iput128''"
| "name_iput (Shmem_long_iput _ _ _ _ _ _) = ''shmem_long_iput''"
| "name_iput (Shmem_longdouble_iput _ _ _ _ _ _) = ''shmem_longdouble_iput''"
| "name_iput (Shmem_longlong_iput _ _ _ _ _ _) = ''shmem_longlong_iput''"
| "name_iput (Shmem_short_iput _ _ _ _ _ _) = ''shmem_short_iput''"

fun name_get :: "get_call \<Rightarrow> string" where
  "name_get (Shmem_double_get _ _ _ _) = ''shmem_double_get''"
| "name_get (Shmem_float_get _ _ _ _) = ''shmem_float_get''"
| "name_get (Shmem_get32 _ _ _ _) = ''shmem_get32''"
| "name_get (Shmem_get64 _ _ _ _) = ''shmem_get64''"
| "name_get (Shmem_get128 _ _ _ _) = ''shmem_get128''"
| "name_get (Shmem_getmem _ _ _ _) = ''shmem_getmem''"
| "name_get (Shmem_int_get _ _ _ _) = ''shmem_int_get''"
| "name_get (Shmem_long_get _ _ _ _) = ''shmem_long_get''"
| "name_get (Shmem_longdouble_get _ _ _ _) = ''shmem_longdouble_get''"
| "name_get (Shmem_longlong_get _ _ _ _) = ''shmem_longlong_get''"
| "name_get (Shmem_short_get _ _ _ _) = ''shmem_short_get''"
| "name_get (Shmem_char_g _ _) = ''shmem_char_g''"
| "name_get (Shmem_short_g _ _) = ''shmem_short_g''"
| "name_get (Shmem_int_g _ _) = ''shmem_int_g''"
| "name_get (Shmem_long_g _ _) = ''shmem_long_g''"
| "name_get (Shmem_longlong_g _ _) = ''shmem_longlong_g''"
| "name_get (Shmem_float_g _ _) = ''shmem_float_g''"
| "name_get (Shmem_double_g _ _) = ''shmem_double_g''"
| "name_get (Shmem_longdouble_g _ _) = ''shmem_longdouble_g''"

fun name_iget :: "iget_call \<Rightarrow> string" where
  "name_iget (Shmem_double_iget _ _ _ _ _ _) = ''shmem_double_iget''"
| "name_iget (Shmem_float_iget _ _ _ _ _ _) = ''shmem_float_iget''"
| "name_iget (Shmem_iget32 _ _ _ _ _ _) = ''shmem_iget32''"
| "name_iget (Shmem_iget64 _ _ _ _ _ _) = ''shmem_iget64''"
| "name_iget (Shmem_iget128 _ _ _ _ _ _) = ''shmem_iget128''"
| "name_iget (Shmem_int_iget _ _ _ _ _ _) = ''shmem_int_iget''"
| "name_iget (Shmem_long_iget _ _ _ _ _ _) = ''shmem_long_iget''"
| "name_iget (Shmem_longdouble_iget _ _ _ _ _ _) = ''shmem_longdouble_iget''"
| "name_iget (Shmem_longlong_iget _ _ _ _ _ _) = ''shmem_longlong_iget''"
| "name_iget (Shmem_short_iget _ _ _ _ _ _) = ''shmem_short_iget''"

fun name_atomic :: "atomic_call \<Rightarrow> string" where
  "name_atomic (Shmem_int_add _ _ _) = ''shmem_int_add''"
| "name_atomic (Shmem_long_add _ _ _) = ''shmem_long_add''"
| "name_atomic (Shmem_longlong_add _ _ _) = ''shmem_longlong_add''"
| "name_atomic (Shmem_int_cswap _ _ _ _) = ''shmem_int_cswap''"
| "name_atomic (Shmem_long_cswap _ _ _ _) = ''shmem_long_cswap''"
| "name_atomic (Shmem_longlong_cswap _ _ _ _) = ''shmem_longlong_cswap''"
| "name_atomic (Shmem_double_swap _ _ _) = ''shmem_double_swap''"
| "name_atomic (Shmem_float_swap _ _ _) = ''shmem_float_swap''"
| "name_atomic (Shmem_int_swap _ _ _) = ''shmem_int_swap''"
| "name_atomic (Shmem_long_swap _ _ _) = ''shmem_long_swap''"
| "name_atomic (Shmem_longlong_swap _ _ _) = ''shmem_longlong_swap''"
| "name_atomic (Shmem_swap _ _ _) = ''shmem_swap''"
| "name_atomic (Shmem_int_finc _ _) = ''shmem_int_finc''"
| "name_atomic (Shmem_long_finc _ _) = ''shmem_long_finc''"
| "name_atomic (Shmem_longlong_finc _ _) = ''shmem_longlong_finc''"
| "name_atomic (Shmem_int_inc _ _) = ''shmem_int_inc''"
| "name_atomic (Shmem_long_inc _ _) = ''shmem_long_inc''"
| "name_atomic (Shmem_longlong_inc _ _) = ''shmem_longlong_inc''"
| "name_atomic (Shmem_int_fadd _ _ _) = ''shmem_int_fadd''"
| "name_atomic (Shmem_long_fadd _ _ _) = ''shmem_long_fadd''"
| "name_atomic (Shmem_longlong_fadd _ _ _) = ''shmem_longlong_fadd''"

fun name_collective :: "collective_call \<Rightarrow> string" where
  "name_collective Shmem_barrier_all = ''shmem_barrier_all''"
| "name_collective (Shmem_barrier _ _ _ _) = ''shmem_barrier''"
| "name_collective (Shmem_broadcast32 _ _ _ _ _ _ _ _) = ''shmem_broadcast32''"
| "name_collective (Shmem_broadcast64 _ _ _ _ _ _ _ _) = ''shmem_broadcast64''"
| "name_collective (Shmem_collect32 _ _ _ _ _ _ _) = ''shmem_collect32''"
| "name_collective (Shmem_collect64 _ _ _ _ _ _ _) = ''shmem_collect64''"
| "name_collective (Shmem_fcollect32 _ _ _ _ _ _ _) = ''shmem_fcollect32''"
| "name_collective (Shmem_fcollect64 _ _ _ _ _ _ _) = ''shmem_fcollect64''"
| "name_collective (Shmem_int_and_to_all _ _ _ _ _ _ _ _) = ''shmem_int_and_to_all''"
| "name_collective (Shmem_long_and_to_all _ _ _ _ _ _ _ _) = ''shmem_long_and_to_all''"
| "name_collective (Shmem_longlong_and_to_all _ _ _ _ _ _ _ _) = ''shmem_longlong_and_to_all''"
| "name_collective (Shmem_short_and_to_all _ _ _ _ _ _ _ _) = ''shmem_short_and_to_all''"
| "name_collective (Shmem_double_max_to_all _ _ _ _ _ _ _ _) = ''shmem_double_max_to_all''"
| "name_collective (Shmem_float_max_to_all _ _ _ _ _ _ _ _) = ''shmem_float_max_to_all''"
| "name_collective (Shmem_int_max_to_all _ _ _ _ _ _ _ _) = ''shmem_int_max_to_all''"
| "name_collective (Shmem_long_max_to_all _ _ _ _ _ _ _ _) = ''shmem_long_max_to_all''"
| "name_collective (Shmem_longdouble_max_to_all _ _ _ _ _ _ _ _) = ''shmem_longdouble_max_to_all''"
| "name_collective (Shmem_longlong_max_to_all _ _ _ _ _ _ _ _) = ''shmem_longlong_max_to_all''"
| "name_collective (Shmem_short_max_to_all _ _ _ _ _ _ _ _) = ''shmem_short_max_to_all''"
| "name_collective (Shmem_double_min_to_all _ _ _ _ _ _ _ _) = ''shmem_double_min_to_all''"

fun name_sync :: "sync_call \<Rightarrow> string" where
  "name_sync (Shmem_int_wait _ _) = ''shmem_int_wait''"
| "name_sync (Shmem_int_wait_until _ _ _) = ''shmem_int_wait_until''"
| "name_sync (Shmem_long_wait _ _) = ''shmem_long_wait''"
| "name_sync (Shmem_long_wait_until _ _ _) = ''shmem_long_wait_until''"
| "name_sync (Shmem_longlong_wait _ _) = ''shmem_longlong_wait''"
| "name_sync (Shmem_longlong_wait_until _ _ _) = ''shmem_longlong_wait_until''"
| "name_sync (Shmem_short_wait _ _) = ''shmem_short_wait''"
| "name_sync (Shmem_short_wait_until _ _ _) = ''shmem_short_wait_until''"
| "name_sync (Shmem_wait _ _) = ''shmem_wait''"
| "name_sync (Shmem_wait_until _ _ _) = ''shmem_wait_until''"
| "name_sync Shmem_fence = ''shmem_fence''"
| "name_sync Shmem_quiet = ''shmem_quiet''"
| "name_sync (Shmem_clear_lock _) = ''shmem_clear_lock''"
| "name_sync (Shmem_set_lock _) = ''shmem_set_lock''"
| "name_sync (Shmem_test_lock _) = ''shmem_test_lock''"
| "name_sync Shmem_clear_cache_inv = ''shmem_clear_cache_inv''"
| "name_sync Shmem_set_cache_inv = ''shmem_set_cache_inv''"
| "name_sync (Shmem_clear_cache_line_inv _) = ''shmem_clear_cache_line_inv''"
| "name_sync (Shmem_set_cache_line_inv _) = ''shmem_set_cache_line_inv''"
| "name_sync Shmem_udcflush = ''shmem_udcflush''"
| "name_sync (Shmem_udcflush_line _) = ''shmem_udcflush_line''"

fun name_of :: "shmem_call \<Rightarrow> string" where
  "name_of (Call_setup c) = name_setup c"
| "name_of (Call_put c) = name_put c"
| "name_of (Call_iput c) = name_iput c"
| "name_of (Call_get c) = name_get c"
| "name_of (Call_iget c) = name_iget c"
| "name_of (Call_atomic c) = name_atomic c"
| "name_of (Call_collective c) = name_collective c"
| "name_of (Call_sync c) = name_sync c"

fun args_setup :: "setup_call \<Rightarrow> c_value list" where
  "args_setup Shmem_my_pe = []"
| "args_setup X_my_pe = []"
| "args_setup Shmem_n_pes = []"
| "args_setup X_num_pes = []"
| "args_setup (Shmem_pe_accessible pe) = [C_int pe]"
| "args_setup (Shmem_addr_accessible addr pe) = [C_ptr addr, C_int pe]"
| "args_setup (Shmem_ptr target pe) = [C_ptr target, C_int pe]"
| "args_setup (Shmalloc nbytes) = [C_long nbytes]"
| "args_setup (Shfree ptr) = [C_ptr ptr]"
| "args_setup (Shrealloc ptr nbytes) = [C_ptr ptr, C_long nbytes]"
| "args_setup (Shmemalign alignment nbytes) = [C_long alignment, C_long nbytes]"

fun args_put :: "put_call \<Rightarrow> c_value list" where
  "args_put (Shmem_double_put target source len pe) = [C_ptr target, C_ptr source, C_long len, C_int pe]"
| "args_put (Shmem_float_put target source len pe) = [C_ptr target, C_ptr source, C_long len, C_int pe]"
| "args_put (Shmem_int_put target source len pe) = [C_ptr target, C_ptr source, C_long len, C_int pe]"
| "args_put (Shmem_long_put target source len pe) = [C_ptr target, C_ptr source, C_long len, C_int pe]"
| "args_put (Shmem_longdouble_put target source len pe) = [C_ptr target, C_ptr source, C_long len, C_int pe]"
| "args_put (Shmem_longlong_put target source len pe) = [C_ptr target, C_ptr source, C_long len, C_int pe]"
| "args_put (Shmem_put32 target source len pe) = [C_ptr target, C_ptr source, C_long len, C_int pe]"
| "args_put (Shmem_put64 target source len pe) = [C_ptr target, C_ptr source, C_long len, C_int pe]"
| "args_put (Shmem_put128 target source len pe) = [C_ptr target, C_ptr source, C_long len, C_int pe]"
| "args_put (Shmem_putmem target source len pe) = [C_ptr target, C_ptr source, C_long len, C_int pe]"
| "args_put (Shmem_short_put target source len pe) = [C_ptr target, C_ptr source, C_long len, C_int pe]"
| "args_put (Shmem_char_p addr value pe) = [C_ptr addr, C_char value, C_int pe]"
| "args_put (Shmem_short_p addr value pe) = [C_ptr addr, C_short value, C_int pe]"
| "args_put (Shmem_int_p addr value pe) = [C_ptr addr, C_int value, C_int pe]"
| "args_put (Shmem_long_p addr value pe) = [C_ptr addr, C_long value, C_int pe]"
| "args_put (Shmem_longlong_p addr value pe) = [C_ptr addr, C_long value, C_int pe]"
| "args_put (Shmem_float_p addr value pe) = [C_ptr addr, C_float value, C_int pe]"
| "args_put (Shmem_double_p addr value pe) = [C_ptr addr, C_double value, C_int pe]"
| "args_put (Shmem_longdouble_p addr value pe) = [C_ptr addr, C_longdouble value, C_int pe]"

fun args_iput :: "iput_call \<Rightarrow> c_value list" where
  "args_iput (Shmem_double_iput target source tst sst nelems pe) = [C_ptr target, C_ptr source, C_long tst, C_long sst, C_long nelems, C_int pe]"
| "args_iput (Shmem_float_iput target source tst sst nelems pe) = [C_ptr target, C_ptr source, C_long tst, C_long sst, C_long nelems, C_int pe]"
| "args_iput (Shmem_int_iput target source tst sst nelems pe) = [C_ptr target, C_ptr source, C_long tst, C_long sst, C_long nelems, C_int pe]"
| "args_iput (Shmem_iput32 target source tst sst nelems pe) = [C_ptr target, C_ptr source, C_long tst, C_long sst, C_long nelems, C_int pe]"
| "args_iput (Shmem_iput64 target source tst sst nelems pe) = [C_ptr target, C_ptr source, C_long tst, C_long sst, C_long nelems, C_int pe]"
| "args_iput (Shmem_iput128 target source tst sst nelems pe) = [C_ptr target, C_ptr source, C_long tst, C_long sst, C_long nelems, C_int pe]"
| "args_iput (Shmem_long_iput target source tst sst nelems pe) = [C_ptr target, C_ptr source, C_long tst, C_long sst, C_long nelems, C_int pe]"
| "args_iput (Shmem_longdouble_iput target source tst sst nelems pe) = [C_ptr target, C_ptr source, C_long tst, C_long sst, C_long nelems, C_int pe]"
| "args_iput (Shmem_longlong_iput target source tst sst nelems pe) = [C_ptr target, C_ptr source, C_long tst, C_long sst, C_long nelems, C_int pe]"
| "args_iput (Shmem_short_iput target source tst sst nelems pe) = [C_ptr target, C_ptr source, C_long tst, C_long sst, C_long nelems, C_int pe]"

fun args_get :: "get_call \<Rightarrow> c_value list" where
  "args_get (Shmem_double_get target source nelems pe) = [C_ptr target, C_ptr source, C_long nelems, C_int pe]"
| "args_get (Shmem_float_get target source nelems pe) = [C_ptr target, C_ptr source, C_long nelems, C_int pe]"
| "args_get (Shmem_get32 target source nelems pe) = [C_ptr target, C_ptr source, C_long nelems, C_int pe]"
| "args_get (Shmem_get64 target source nelems pe) = [C_ptr target, C_ptr source, C_long nelems, C_int pe]"
| "args_get (Shmem_get128 target source nelems pe) = [C_ptr target, C_ptr source, C_long nelems, C_int pe]"
| "args_get (Shmem_getmem target source nelems pe) = [C_ptr target, C_ptr source, C_long nelems, C_int pe]"
| "args_get (Shmem_int_get target source nelems pe) = [C_ptr target, C_ptr source, C_long nelems, C_int pe]"
| "args_get (Shmem_long_get target source nelems pe) = [C_ptr target, C_ptr source, C_long nelems, C_int pe]"
| "args_get (Shmem_longdouble_get target source nelems pe) = [C_ptr target, C_ptr source, C_long nelems, C_int pe]"
| "args_get (Shmem_longlong_get target source nelems pe) = [C_ptr target, C_ptr source, C_long nelems, C_int pe]"
| "args_get (Shmem_short_get target source nelems pe) = [C_ptr target, C_ptr source, C_long nelems, C_int pe]"
| "args_get (Shmem_char_g addr pe) = [C_ptr addr, C_int pe]"
| "args_get (Shmem_short_g addr pe) = [C_ptr addr, C_int pe]"
| "args_get (Shmem_int_g addr pe) = [C_ptr addr, C_int pe]"
| "args_get (Shmem_long_g addr pe) = [C_ptr addr, C_int pe]"
| "args_get (Shmem_longlong_g addr pe) = [C_ptr addr, C_int pe]"
| "args_get (Shmem_float_g addr pe) = [C_ptr addr, C_int pe]"
| "args_get (Shmem_double_g addr pe) = [C_ptr addr, C_int pe]"
| "args_get (Shmem_longdouble_g addr pe) = [C_ptr addr, C_int pe]"

fun args_iget :: "iget_call \<Rightarrow> c_value list" where
  "args_iget (Shmem_double_iget target source tst sst nelems pe) = [C_ptr target, C_ptr source, C_long tst, C_long sst, C_long nelems, C_int pe]"
| "args_iget (Shmem_float_iget target source tst sst nelems pe) = [C_ptr target, C_ptr source, C_long tst, C_long sst, C_long nelems, C_int pe]"
| "args_iget (Shmem_iget32 target source tst sst nelems pe) = [C_ptr target, C_ptr source, C_long tst, C_long sst, C_long nelems, C_int pe]"
| "args_iget (Shmem_iget64 target source tst sst nelems pe) = [C_ptr target, C_ptr source, C_long tst, C_long sst, C_long nelems, C_int pe]"
| "args_iget (Shmem_iget128 target source tst sst nelems pe) = [C_ptr target, C_ptr source, C_long tst, C_long sst, C_long nelems, C_int pe]"
| "args_iget (Shmem_int_iget target source tst sst nelems pe) = [C_ptr target, C_ptr source, C_long tst, C_long sst, C_long nelems, C_int pe]"
| "args_iget (Shmem_long_iget target source tst sst nelems pe) = [C_ptr target, C_ptr source, C_long tst, C_long sst, C_long nelems, C_int pe]"
| "args_iget (Shmem_longdouble_iget target source tst sst nelems pe) = [C_ptr target, C_ptr source, C_long tst, C_long sst, C_long nelems, C_int pe]"
| "args_iget (Shmem_longlong_iget target source tst sst nelems pe) = [C_ptr target, C_ptr source, C_long tst, C_long sst, C_long nelems, C_int pe]"
| "args_iget (Shmem_short_iget target source tst sst nelems pe) = [C_ptr target, C_ptr source, C_long tst, C_long sst, C_long nelems, C_int pe]"

fun args_atomic :: "atomic_call \<Rightarrow> c_value list" where
  "args_atomic (Shmem_int_add target value pe) = [C_ptr target, C_int value, C_int pe]"
| "args_atomic (Shmem_long_add target value pe) = [C_ptr target, C_long value, C_int pe]"
| "args_atomic (Shmem_longlong_add target value pe) = [C_ptr target, C_long value, C_int pe]"
| "args_atomic (Shmem_int_cswap target cond value pe) = [C_ptr target, C_int cond, C_int value, C_int pe]"
| "args_atomic (Shmem_long_cswap target cond value pe) = [C_ptr target, C_long cond, C_long value, C_int pe]"
| "args_atomic (Shmem_longlong_cswap target cond value pe) = [C_ptr target, C_long cond, C_long value, C_int pe]"
| "args_atomic (Shmem_double_swap target value pe) = [C_ptr target, C_double value, C_int pe]"
| "args_atomic (Shmem_float_swap target value pe) = [C_ptr target, C_float value, C_int pe]"
| "args_atomic (Shmem_int_swap target value pe) = [C_ptr target, C_int value, C_int pe]"
| "args_atomic (Shmem_long_swap target value pe) = [C_ptr target, C_long value, C_int pe]"
| "args_atomic (Shmem_longlong_swap target value pe) = [C_ptr target, C_long value, C_int pe]"
| "args_atomic (Shmem_swap target value pe) = [C_ptr target, C_long value, C_int pe]"
| "args_atomic (Shmem_int_finc target pe) = [C_ptr target, C_int pe]"
| "args_atomic (Shmem_long_finc target pe) = [C_ptr target, C_int pe]"
| "args_atomic (Shmem_longlong_finc target pe) = [C_ptr target, C_int pe]"
| "args_atomic (Shmem_int_inc target pe) = [C_ptr target, C_int pe]"
| "args_atomic (Shmem_long_inc target pe) = [C_ptr target, C_int pe]"
| "args_atomic (Shmem_longlong_inc target pe) = [C_ptr target, C_int pe]"
| "args_atomic (Shmem_int_fadd target value pe) = [C_ptr target, C_int value, C_int pe]"
| "args_atomic (Shmem_long_fadd target value pe) = [C_ptr target, C_long value, C_int pe]"
| "args_atomic (Shmem_longlong_fadd target value pe) = [C_ptr target, C_long value, C_int pe]"

fun args_collective :: "collective_call \<Rightarrow> c_value list" where
  "args_collective Shmem_barrier_all = []"
| "args_collective (Shmem_barrier PE_start logPE_stride PE_size pSync) = [C_int PE_start, C_int logPE_stride, C_int PE_size, C_ptr pSync]"
| "args_collective (Shmem_broadcast32 target source nlong PE_root PE_start logPE_stride PE_size pSync) = [C_ptr target, C_ptr source, C_long nlong, C_int PE_root, C_int PE_start, C_int logPE_stride, C_int PE_size, C_ptr pSync]"
| "args_collective (Shmem_broadcast64 target source nlong PE_root PE_start logPE_stride PE_size pSync) = [C_ptr target, C_ptr source, C_long nlong, C_int PE_root, C_int PE_start, C_int logPE_stride, C_int PE_size, C_ptr pSync]"
| "args_collective (Shmem_collect32 target source nelems PE_start logPE_stride PE_size pSync) = [C_ptr target, C_ptr source, C_long nelems, C_int PE_start, C_int logPE_stride, C_int PE_size, C_ptr pSync]"
| "args_collective (Shmem_collect64 target source nelems PE_start logPE_stride PE_size pSync) = [C_ptr target, C_ptr source, C_long nelems, C_int PE_start, C_int logPE_stride, C_int PE_size, C_ptr pSync]"
| "args_collective (Shmem_fcollect32 target source nelems PE_start logPE_stride PE_size pSync) = [C_ptr target, C_ptr source, C_long nelems, C_int PE_start, C_int logPE_stride, C_int PE_size, C_ptr pSync]"
| "args_collective (Shmem_fcollect64 target source nelems PE_start logPE_stride PE_size pSync) = [C_ptr target, C_ptr source, C_long nelems, C_int PE_start, C_int logPE_stride, C_int PE_size, C_ptr pSync]"
| "args_collective (Shmem_int_and_to_all target source nreduce PE_start logPE_stride PE_size pWrk pSync) = [C_ptr target, C_ptr source, C_int nreduce, C_int PE_start, C_int logPE_stride, C_int PE_size, C_ptr pWrk, C_ptr pSync]"
| "args_collective (Shmem_long_and_to_all target source nreduce PE_start logPE_stride PE_size pWrk pSync) = [C_ptr target, C_ptr source, C_int nreduce, C_int PE_start, C_int logPE_stride, C_int PE_size, C_ptr pWrk, C_ptr pSync]"
| "args_collective (Shmem_longlong_and_to_all target source nreduce PE_start logPE_stride PE_size pWrk pSync) = [C_ptr target, C_ptr source, C_int nreduce, C_int PE_start, C_int logPE_stride, C_int PE_size, C_ptr pWrk, C_ptr pSync]"
| "args_collective (Shmem_short_and_to_all target source nreduce PE_start logPE_stride PE_size pWrk pSync) = [C_ptr target, C_ptr source, C_int nreduce, C_int PE_start, C_int logPE_stride, C_int PE_size, C_ptr pWrk, C_ptr pSync]"
| "args_collective (Shmem_double_max_to_all target source nreduce PE_start logPE_stride PE_size pWrk pSync) = [C_ptr target, C_ptr source, C_int nreduce, C_int PE_start, C_int logPE_stride, C_int PE_size, C_ptr pWrk, C_ptr pSync]"
| "args_collective (Shmem_float_max_to_all target source nreduce PE_start logPE_stride PE_size pWrk pSync) = [C_ptr target, C_ptr source, C_int nreduce, C_int PE_start, C_int logPE_stride, C_int PE_size, C_ptr pWrk, C_ptr pSync]"
| "args_collective (Shmem_int_max_to_all target source nreduce PE_start logPE_stride PE_size pWrk pSync) = [C_ptr target, C_ptr source, C_int nreduce, C_int PE_start, C_int logPE_stride, C_int PE_size, C_ptr pWrk, C_ptr pSync]"
| "args_collective (Shmem_long_max_to_all target source nreduce PE_start logPE_stride PE_size pWrk pSync) = [C_ptr target, C_ptr source, C_int nreduce, C_int PE_start, C_int logPE_stride, C_int PE_size, C_ptr pWrk, C_ptr pSync]"
| "args_collective (Shmem_longdouble_max_to_all target source nreduce PE_start logPE_stride PE_size pWrk pSync) = [C_ptr target, C_ptr source, C_int nreduce, C_int PE_start, C_int logPE_stride, C_int PE_size, C_ptr pWrk, C_ptr pSync]"
| "args_collective (Shmem_longlong_max_to_all target source nreduce PE_start logPE_stride PE_size pWrk pSync) = [C_ptr target, C_ptr source, C_int nreduce, C_int PE_start, C_int logPE_stride, C_int PE_size, C_ptr pWrk, C_ptr pSync]"
| "args_collective (Shmem_short_max_to_all target source nreduce PE_start logPE_stride PE_size pWrk pSync) = [C_ptr target, C_ptr source, C_int nreduce, C_int PE_start, C_int logPE_stride, C_int PE_size, C_ptr pWrk, C_ptr pSync]"
| "args_collective (Shmem_double_min_to_all target source nreduce PE_start logPE_stride PE_size pWrk pSync) = [C_ptr target, C_ptr source, C_int nreduce, C_int PE_start, C_int logPE_stride, C_int PE_size, C_ptr pWrk, C_ptr pSync]"

fun args_sync :: "sync_call \<Rightarrow> c_value list" where
  "args_sync (Shmem_int_wait ivar cmp_value) = [C_ptr ivar, C_int cmp_value]"
| "args_sync (Shmem_int_wait_until ivar cmp cmp_value) = [C_ptr ivar, C_int cmp, C_int cmp_value]"
| "args_sync (Shmem_long_wait ivar cmp_value) = [C_ptr ivar, C_long cmp_value]"
| "args_sync (Shmem_long_wait_until ivar cmp cmp_value) = [C_ptr ivar, C_int cmp, C_long cmp_value]"
| "args_sync (Shmem_longlong_wait ivar cmp_value) = [C_ptr ivar, C_long cmp_value]"
| "args_sync (Shmem_longlong_wait_until ivar cmp cmp_value) = [C_ptr ivar, C_int cmp, C_long cmp_value]"
| "args_sync (Shmem_short_wait ivar cmp_value) = [C_ptr ivar, C_short cmp_value]"
| "args_sync (Shmem_short_wait_until ivar cmp cmp_value) = [C_ptr ivar, C_int cmp, C_short cmp_value]"
| "args_sync (Shmem_wait ivar cmp_value) = [C_ptr ivar, C_long cmp_value]"
| "args_sync (Shmem_wait_until ivar cmp cmp_value) = [C_ptr ivar, C_int cmp, C_long cmp_value]"
| "args_sync Shmem_fence = []"
| "args_sync Shmem_quiet = []"
| "args_sync (Shmem_clear_lock lock) = [C_ptr lock]"
| "args_sync (Shmem_set_lock lock) = [C_ptr lock]"
| "args_sync (Shmem_test_lock lock) = [C_ptr lock]"
| "args_sync Shmem_clear_cache_inv = []"
| "args_sync Shmem_set_cache_inv = []"
| "args_sync (Shmem_clear_cache_line_inv target) = [C_ptr target]"
| "args_sync (Shmem_set_cache_line_inv target) = [C_ptr target]"
| "args_sync Shmem_udcflush = []"
| "args_sync (Shmem_udcflush_line target) = [C_ptr target]"

fun args_of :: "shmem_call \<Rightarrow> c_value list" where
  "args_of (Call_setup c) = args_setup c"
| "args_of (Call_put c) = args_put c"
| "args_of (Call_iput c) = args_iput c"
| "args_of (Call_get c) = args_get c"
| "args_of (Call_iget c) = args_iget c"
| "args_of (Call_atomic c) = args_atomic c"
| "args_of (Call_collective c) = args_collective c"
| "args_of (Call_sync c) = args_sync c"

fun event_setup :: "setup_call \<Rightarrow> int" where
  "event_setup Shmem_my_pe = SHMEM_MY_PE_EV"
| "event_setup X_my_pe = x_MY_PE_EV"
| "event_setup Shmem_n_pes = SHMEM_N_PES_EV"
| "event_setup X_num_pes = x_NUM_PES_EV"
| "event_setup (Shmem_pe_accessible _) = SHMEM_PE_ACCESSIBLE_EV"
| "event_setup (Shmem_addr_accessible _ _) = SHMEM_ADDR_ACCESSIBLE_EV"
| "event_setup (Shmem_ptr _ _) = SHMEM_PTR_EV"
| "event_setup (Shmalloc _) = SHMALLOC_EV"
| "event_setup (Shfree _) = SHFREE_EV"
| "event_setup (Shrealloc _ _) = SHREALLOC_EV"
| "event_setup (Shmemalign _ _) = SHMEMALIGN_EV"

fun event_put :: "put_call \<Rightarrow> int" where
  "event_put (Shmem_double_put _ _ _ _) = SHMEM_DOUBLE_PUT_EV"
| "event_put (Shmem_float_put _ _ _ _) = SHMEM_FLOAT_PUT_EV"
| "event_put (Shmem_int_put _ _ _ _) = SHMEM_INT_PUT_EV"
| "event_put (Shmem_long_put _ _ _ _) = SHMEM_LONG_PUT_EV"
| "event_put (Shmem_longdouble_put _ _ _ _) = SHMEM_LONGDOUBLE_PUT_EV"
| "event_put (Shmem_longlong_put _ _ _ _) = SHMEM_LONGLONG_PUT_EV"
| "event_put (Shmem_put32 _ _ _ _) = SHMEM_PUT32_EV"
| "event_put (Shmem_put64 _ _ _ _) = SHMEM_PUT64_EV"
| "event_put (Shmem_put128 _ _ _ _) = SHMEM_PUT128_EV"
| "event_put (Shmem_putmem _ _ _ _) = SHMEM_PUTMEM_EV"
| "event_put (Shmem_short_put _ _ _ _) = SHMEM_SHORT_PUT_EV"
| "event_put (Shmem_char_p _ _ _) = SHMEM_CHAR_P_EV"
| "event_put (Shmem_short_p _ _ _) = SHMEM_SHORT_P_EV"
| "event_put (Shmem_int_p _ _ _) = SHMEM_INT_P_EV"
| "event_put (Shmem_long_p _ _ _) = SHMEM_LONG_P_EV"
| "event_put (Shmem_longlong_p _ _ _) = SHMEM_LONGLONG_P_EV"
| "event_put (Shmem_float_p _ _ _) = SHMEM_FLOAT_P_EV"
| "event_put (Shmem_double_p _ _ _) = SHMEM_DOUBLE_P_EV"
| "event_put (Shmem_longdouble_p _ _ _) = SHMEM_LONGDOUBLE_P_EV"

fun event_iput :: "iput_call \<Rightarrow> int" where
  "event_iput (Shmem_double_iput _ _ _ _ _ _) = SHMEM_DOUBLE_IPUT_EV"
| "event_iput (Shmem_float_iput _ _ _ _ _ _) = SHMEM_FLOAT_IPUT_EV"
| "event_iput (Shmem_int_iput _ _ _ _ _ _) = SHMEM_INT_IPUT_EV"
| "event_iput (Shmem_iput32 _ _ _ _ _ _) = SHMEM_IPUT32_EV"
| "event_iput (Shmem_iput64 _ _ _ _ _ _) = SHMEM_IPUT64_EV"
| "event_iput (Shmem_iput128 _ _ _ _ _ _) = SHMEM_IPUT128_EV"
| "event_iput (Shmem_long_iput _ _ _ _ _ _) = SHMEM_LONG_IPUT_EV"
| "event_iput (Shmem_longdouble_iput _ _ _ _ _ _) = SHMEM_LONGDOUBLE_IPUT_EV"
| "event_iput (Shmem_longlong_iput _ _ _ _ _ _) = SHMEM_LONGLONG_IPUT_EV"
| "event_iput (Shmem_short_iput _ _ _ _ _ _) = SHMEM_SHORT_IPUT_EV"

fun event_get :: "get_call \<Rightarrow> int" where
  "event_get (Shmem_double_get _ _ _ _) = SHMEM_DOUBLE_GET_EV"
| "event_get (Shmem_float_get _ _ _ _) = SHMEM_FLOAT_GET_EV"
| "event_get (Shmem_get32 _ _ _ _) = SHMEM_GET32_EV"
| "event_get (Shmem_get64 _ _ _ _) = SHMEM_GET64_EV"
| "event_get (Shmem_get128 _ _ _ _) = SHMEM_GET128_EV"
| "event_get (Shmem_getmem _ _ _ _) = SHMEM_GETMEM_EV"
| "event_get (Shmem_int_get _ _ _ _) = SHMEM_INT_GET_EV"
| "event_get (Shmem_long_get _ _ _ _) = SHMEM_LONG_GET_EV"
| "event_get (Shmem_longdouble_get _ _ _ _) = SHMEM_LONGDOUBLE_GET_EV"
| "event_get (Shmem_longlong_get _ _ _ _) = SHMEM_LONGLONG_GET_EV"
| "event_get (Shmem_short_get _ _ _ _) = SHMEM_SHORT_GET_EV"
| "event_get (Shmem_char_g _ _) = SHMEM_CHAR_G_EV"
| "event_get (Shmem_short_g _ _) = SHMEM_SHORT_G_EV"
| "event_get (Shmem_int_g _ _) = SHMEM_INT_G_EV"
| "event_get (Shmem_long_g _ _) = SHMEM_LONG_G_EV"
| "event_get (Shmem_longlong_g _ _) = SHMEM_LONGLONG_G_EV"
| "event_get (Shmem_float_g _ _) = SHMEM_FLOAT_G_EV"
| "event_get (Shmem_double_g _ _) = SHMEM_DOUBLE_G_EV"
| "event_get (Shmem_longdouble_g _ _) = SHMEM_LONGDOUBLE_G_EV"

fun event_iget :: "iget_call \<Rightarrow> int" where
  "event_iget (Shmem_double_iget _ _ _ _ _ _) = SHMEM_DOUBLE_IGET_EV"
| "event_iget (Shmem_float_iget _ _ _ _ _ _) = SHMEM_FLOAT_IGET_EV"
| "event_iget (Shmem_iget32 _ _ _ _ _ _) = SHMEM_IGET32_EV"
| "event_iget (Shmem_iget64 _ _ _ _ _ _) = SHMEM_IGET64_EV"
| "event_iget (Shmem_iget128 _ _ _ _ _ _) = SHMEM_IGET128_EV"
| "event_iget (Shmem_int_iget _ _ _ _ _ _) = SHMEM_INT_IGET_EV"
| "event_iget (Shmem_long_iget _ _ _ _ _ _) = SHMEM_LONG_IGET_EV"
| "event_iget (Shmem_longdouble_iget _ _ _ _ _ _) = SHMEM_LONGDOUBLE_IGET_EV"
| "event_iget (Shmem_longlong_iget _ _ _ _ _ _) = SHMEM_LONGLONG_IGET_EV"
| "event_iget (Shmem_short_iget _ _ _ _ _ _) = SHMEM_SHORT_IGET_EV"

fun event_atomic :: "atomic_call \<Rightarrow> int" where
  "event_atomic (Shmem_int_add _ _ _) = SHMEM_INT_ADD_EV"
| "event_atomic (Shmem_long_add _ _ _) = SHMEM_LONG_ADD_EV"
| "event_atomic (Shmem_longlong_add _ _ _) = SHMEM_LONGLONG_ADD_EV"
| "event_atomic (Shmem_int_cswap _ _ _ _) = SHMEM_INT_CSWAP_EV"
| "event_atomic (Shmem_long_cswap _ _ _ _) = SHMEM_LONG_CSWAP_EV"
| "event_atomic (Shmem_longlong_cswap _ _ _ _) = SHMEM_LONGLONG_CSWAP_EV"
| "event_atomic (Shmem_double_swap _ _ _) = SHMEM_DOUBLE_SWAP_EV"
| "event_atomic (Shmem_float_swap _ _ _) = SHMEM_FLOAT_SWAP_EV"
| "event_atomic (Shmem_int_swap _ _ _) = SHMEM_INT_SWAP_EV"
| "event_atomic (Shmem_long_swap _ _ _) = SHMEM_LONG_SWAP_EV"
| "event_atomic (Shmem_longlong_swap _ _ _) = SHMEM_LONGLONG_SWAP_EV"
| "event_atomic (Shmem_swap _ _ _) = SHMEM_SWAP_EV"
| "event_atomic (Shmem_int_finc _ _) = SHMEM_INT_FINC_EV"
| "event_atomic (Shmem_long_finc _ _) = SHMEM_LONG_FINC_EV"
| "event_atomic (Shmem_longlong_finc _ _) = SHMEM_LONGLONG_FINC_EV"
| "event_atomic (Shmem_int_inc _ _) = SHMEM_INT_INC_EV"
| "event_atomic (Shmem_long_inc _ _) = SHMEM_LONG_INC_EV"
| "event_atomic (Shmem_longlong_inc _ _) = SHMEM_LONGLONG_INC_EV"
| "event_atomic (Shmem_int_fadd _ _ _) = SHMEM_INT_FADD_EV"
| "event_atomic (Shmem_long_fadd _ _ _) = SHMEM_LONG_FADD_EV"
| "event_atomic (Shmem_longlong_fadd _ _ _) = SHMEM_LONGLONG_FADD_EV"

fun event_collective :: "collective_call \<Rightarrow> int" where
  "event_collective Shmem_barrier_all = SHMEM_BARRIER_ALL_EV"
| "event_collective (Shmem_barrier _ _ _ _) = SHMEM_BARRIER_EV"
| "event_collective (Shmem_broadcast32 _ _ _ _ _ _ _ _) = SHMEM_BROADCAST32_EV"
| "event_collective (Shmem_broadcast64 _ _ _ _ _ _ _ _) = SHMEM_BROADCAST64_EV"
| "event_collective (Shmem_collect32 _ _ _ _ _ _ _) = SHMEM_COLLECT32_EV"
| "event_collective (Shmem_collect64 _ _ _ _ _ _ _) = SHMEM_COLLECT64_EV"
| "event_collective (Shmem_fcollect32 _ _ _ _ _ _ _) = SHMEM_FCOLLECT32_EV"
| "event_collective (Shmem_fcollect64 _ _ _ _ _ _ _) = SHMEM_FCOLLECT64_EV"
| "event_collective (Shmem_int_and_to_all _ _ _ _ _ _ _ _) = SHMEM_INT_AND_TO_ALL_EV"
| "event_collective (Shmem_long_and_to_all _ _ _ _ _ _ _ _) = SHMEM_LONG_AND_TO_ALL_EV"
| "event_collective (Shmem_longlong_and_to_all _ _ _ _ _ _ _ _) = SHMEM_LONGLONG_AND_TO_ALL_EV"
| "event_collective (Shmem_short_and_to_all _ _ _ _ _ _ _ _) = SHMEM_SHORT_AND_TO_ALL_EV"
| "event_collective (Shmem_double_max_to_all _ _ _ _ _ _ _ _) = SHMEM_DOUBLE_MAX_TO_ALL_EV"
| "event_collective (Shmem_float_max_to_all _ _ _ _ _ _ _ _) = SHMEM_FLOAT_MAX_TO_ALL_EV"
| "event_collective (Shmem_int_max_to_all _ _ _ _ _ _ _ _) = SHMEM_INT_MAX_TO_ALL_EV"
| "event_collective (Shmem_long_max_to_all _ _ _ _ _ _ _ _) = SHMEM_LONG_MAX_TO_ALL_EV"
| "event_collective (Shmem_longdouble_max_to_all _ _ _ _ _ _ _ _) = SHMEM_LONGDOUBLE_MAX_TO_ALL_EV"
| "event_collective (Shmem_longlong_max_to_all _ _ _ _ _ _ _ _) = SHMEM_LONGLONG_MAX_TO_ALL_EV"
| "event_collective (Shmem_short_max_to_all _ _ _ _ _ _ _ _) = SHMEM_SHORT_MAX_TO_ALL_EV"
| "event_collective (Shmem_double_min_to_all _ _ _ _ _ _ _ _) = SHMEM_DOUBLE_MIN_TO_ALL_EV"

fun event_sync :: "sync_call \<Rightarrow> int" where
  "event_sync (Shmem_int_wait _ _) = SHMEM_INT_WAIT_EV"
| "event_sync (Shmem_int_wait_until _ _ _) = SHMEM_INT_WAIT_UNTIL_EV"
| "event_sync (Shmem_long_wait _ _) = SHMEM_LONG_WAIT_EV"
| "event_sync (Shmem_long_wait_until _ _ _) = SHMEM_LONG_WAIT_UNTIL_EV"
| "event_sync (Shmem_longlong_wait _ _) = SHMEM_LONGLONG_WAIT_EV"
| "event_sync (Shmem_longlong_wait_until _ _ _) = SHMEM_LONGLONG_WAIT_UNTIL_EV"
| "event_sync (Shmem_short_wait _ _) = SHMEM_SHORT_WAIT_EV"
| "event_sync (Shmem_short_wait_until _ _ _) = SHMEM_SHORT_WAIT_UNTIL_EV"
| "event_sync (Shmem_wait _ _) = SHMEM_WAIT_EV"
| "event_sync (Shmem_wait_until _ _ _) = SHMEM_WAIT_UNTIL_EV"
| "event_sync Shmem_fence = SHMEM_FENCE_EV"
| "event_sync Shmem_quiet = SHMEM_QUIET_EV"
| "event_sync (Shmem_clear_lock _) = SHMEM_CLEAR_LOCK_EV"
| "event_sync (Shmem_set_lock _) = SHMEM_SET_LOCK_EV"
| "event_sync (Shmem_test_lock _) = SHMEM_TEST_LOCK_EV"
| "event_sync Shmem_clear_cache_inv = SHMEM_CLEAR_CACHE_INV_EV"
| "event_sync Shmem_set_cache_inv = SHMEM_SET_CACHE_INV_EV"
| "event_sync (Shmem_clear_cache_line_inv _) = SHMEM_CLEAR_CACHE_LINE_INV_EV"
| "event_sync (Shmem_set_cache_line_inv _) = SHMEM_SET_CACHE_LINE_INV_EV"
| "event_sync Shmem_udcflush = SHMEM_UDCFLUSH_EV"
| "event_sync (Shmem_udcflush_line _) = SHMEM_UDCFLUSH_LINE_EV"

fun event_of :: "shmem_call \<Rightarrow> int" where
  "event_of (Call_setup c) = event_setup c"
| "event_of (Call_put c) = event_put c"
| "event_of (Call_iput c) = event_iput c"
| "event_of (Call_get c) = event_get c"
| "event_of (Call_iget c) = event_iget c"
| "event_of (Call_atomic c) = event_atomic c"
| "event_of (Call_collective c) = event_collective c"
| "event_of (Call_sync c) = event_sync c"

fun bytes_setup :: "setup_call \<Rightarrow> nat \<Rightarrow> 32 word result" where
  "bytes_setup Shmem_my_pe task = Inr 0"
| "bytes_setup X_my_pe task = Inr 0"
| "bytes_setup Shmem_n_pes task = Inr 0"
| "bytes_setup X_num_pes task = Inr 0"
| "bytes_setup (Shmem_pe_accessible _) task = Inr 0"
| "bytes_setup (Shmem_addr_accessible _ _) task = Inr 0"
| "bytes_setup (Shmem_ptr _ _) task = Inr 0"
| "bytes_setup (Shmalloc _) task = Inr 0"
| "bytes_setup (Shfree _) task = Inr 0"
| "bytes_setup (Shrealloc _ _) task = Inr 0"
| "bytes_setup (Shmemalign _ _) task = Inr 0"

fun bytes_put :: "put_call \<Rightarrow> nat \<Rightarrow> 32 word result" where
  "bytes_put (Shmem_double_put _ _ len _) task = Inr (ucast (len * 8))"
| "bytes_put (Shmem_float_put _ _ len _) task = Inr (ucast (len * 4))"
| "bytes_put (Shmem_int_put _ _ len _) task = Inr (ucast (len * 4))"
| "bytes_put (Shmem_long_put _ _ len _) task = Inr (ucast (len * 8))"
| "bytes_put (Shmem_longdouble_put _ _ len _) task = Inr (ucast (len * 16))"
| "bytes_put (Shmem_longlong_put _ _ len _) task = Inr (ucast (len * 8))"
| "bytes_put (Shmem_put32 _ _ len _) task = Inr (ucast (len * 4))"
| "bytes_put (Shmem_put64 _ _ len _) task = Inr (ucast (len * 8))"
| "bytes_put (Shmem_put128 _ _ len _) task = Inr (ucast (len * 16))"
| "bytes_put (Shmem_putmem _ _ len _) task = Inr (ucast len)"
| "bytes_put (Shmem_short_put _ _ len _) task = Inr (ucast (len * 2))"
| "bytes_put (Shmem_char_p _ _ _) task = Inr 1"
| "bytes_put (Shmem_short_p _ _ _) task = Inr 2"
| "bytes_put (Shmem_int_p _ _ _) task = Inr 4"
| "bytes_put (Shmem_long_p _ _ _) task = Inr 8"
| "bytes_put (Shmem_longlong_p _ _ _) task = Inr 8"
| "bytes_put (Shmem_float_p _ _ _) task = Inr 4"
| "bytes_put (Shmem_double_p _ _ _) task = Inr 8"
| "bytes_put (Shmem_longdouble_p _ _ _) task = Inr 16"

fun bytes_iput :: "iput_call \<Rightarrow> nat \<Rightarrow> 32 word result" where
  "bytes_iput (Shmem_double_iput _ _ _ _ nelems _) task = Inr (ucast (nelems * 8))"
| "bytes_iput (Shmem_float_iput _ _ _ _ nelems _) task = Inr (ucast (nelems * 4))"
| "bytes_iput (Shmem_int_iput _ _ _ _ nelems _) task = Inr (ucast (nelems * 4))"
| "bytes_iput (Shmem_iput32 _ _ _ _ nelems _) task = Inr (ucast (nelems * 4))"
| "bytes_iput (Shmem_iput64 _ _ _ _ nelems _) task = Inr (ucast (nelems * 8))"
| "bytes_iput (Shmem_iput128 _ _ _ _ nelems _) task = Inr (ucast (nelems * 16))"
| "bytes_iput (Shmem_long_iput _ _ _ _ nelems _) task = Inr (ucast (nelems * 8))"
| "bytes_iput (Shmem_longdouble_iput _ _ _ _ nelems _) task = Inr (ucast (nelems * 16))"
| "bytes_iput (Shmem_longlong_iput _ _ _ _ nelems _) task = Inr (ucast (nelems * 8))"
| "bytes_iput (Shmem_short_iput _ _ _ _ nelems _) task = Inr (ucast (nelems * 2))"

fun bytes_get :: "get_call \<Rightarrow> nat \<Rightarrow> 32 word result" where
  "bytes_get (Shmem_double_get _ _ nelems _) task = Inr (ucast (nelems * 8))"
| "bytes_get (Shmem_float_get _ _ nelems _) task = Inr (ucast (nelems * 4))"
| "bytes_get (Shmem_get32 _ _ nelems _) task = Inr (ucast (nelems * 4))"
| "bytes_get (Shmem_get64 _ _ nelems _) task = Inr (ucast (nelems * 8))"
| "bytes_get (Shmem_get128 _ _ nelems _) task = Inr (ucast (nelems * 16))"
| "bytes_get (Shmem_getmem _ _ nelems _) task = Inr (ucast nelems)"
| "bytes_get (Shmem_int_get _ _ nelems _) task = Inr (ucast (nelems * 4))"
| "bytes_get (Shmem_long_get _ _ nelems _) task = Inr (ucast (nelems * 8))"
| "bytes_get (Shmem_longdouble_get _ _ nelems _) task = Inr (ucast (nelems * 16))"
| "bytes_get (Shmem_longlong_get _ _ nelems _) task = Inr (ucast (nelems * 8))"
| "bytes_get (Shmem_short_get _ _ nelems _) task = Inr (ucast (nelems * 2))"
| "bytes_get (Shmem_char_g _ _) task = Inr 1"
| "bytes_get (Shmem_short_g _ _) task = Inr 2"
| "bytes_get (Shmem_int_g _ _) task = Inr 4"
| "bytes_get (Shmem_long_g _ _) task = Inr 8"
| "bytes_get (Shmem_longlong_g _ _) task = Inr 8"
| "bytes_get (Shmem_float_g _ _) task = Inr 4"
| "bytes_get (Shmem_double_g _ _) task = Inr 8"
| "bytes_get (Shmem_longdouble_g _ _) task = Inr 16"

fun bytes_iget :: "iget_call \<Rightarrow> nat \<Rightarrow> 32 word result" where
  "bytes_iget (Shmem_double_iget _ _ _ _ nelems _) task = Inr (ucast (nelems * 8))"
| "bytes_iget (Shmem_float_iget _ _ _ _ nelems _) task = Inr (ucast (nelems * 4))"
| "bytes_iget (Shmem_iget32 _ _ _ _ nelems _) task = Inr (ucast (nelems * 4))"
| "bytes_iget (Shmem_iget64 _ _ _ _ nelems _) task = Inr (ucast (nelems * 8))"
| "bytes_iget (Shmem_iget128 _ _ _ _ nelems _) task = Inr (ucast (nelems * 16))"
| "bytes_iget (Shmem_int_iget _ _ _ _ nelems _) task = Inr (ucast (nelems * 4))"
| "bytes_iget (Shmem_long_iget _ _ _ _ nelems _) task = Inr (ucast (nelems * 8))"
| "bytes_iget (Shmem_longdouble_iget _ _ _ _ nelems _) task = Inr (ucast (nelems * 16))"
| "bytes_iget (Shmem_longlong_iget _ _ _ _ nelems _) task = Inr (ucast (nelems * 8))"
| "bytes_iget (Shmem_short_iget _ _ _ _ nelems _) task = Inr (ucast (nelems * 2))"

fun bytes_atomic :: "atomic_call \<Rightarrow> nat \<Rightarrow> 32 word result" where
  "bytes_atomic (Shmem_int_add _ _ _) task = Inr 0"
| "bytes_atomic (Shmem_long_add _ _ _) task = Inr 0"
| "bytes_atomic (Shmem_longlong_add _ _ _) task = Inr 0"
| "bytes_atomic (Shmem_int_cswap _ _ _ _) task = Inr 0"
| "bytes_atomic (Shmem_long_cswap _ _ _ _) task = Inr 0"
| "bytes_atomic (Shmem_longlong_cswap _ _ _ _) task = Inr 0"
| "bytes_atomic (Shmem_double_swap _ _ _) task = Inr 0"
| "bytes_atomic (Shmem_float_swap _ _ _) task = Inr 0"
| "bytes_atomic (Shmem_int_swap _ _ _) task = Inr 0"
| "bytes_atomic (Shmem_long_swap _ _ _) task = Inr 0"
| "bytes_atomic (Shmem_longlong_swap _ _ _) task = Inr 0"
| "bytes_atomic (Shmem_swap _ _ _) task = Inr 0"
| "bytes_atomic (Shmem_int_finc _ _) task = Inr 0"
| "bytes_atomic (Shmem_long_finc _ _) task = Inr 0"
| "bytes_atomic (Shmem_longlong_finc _ _) task = Inr 0"
| "bytes_atomic (Shmem_int_inc _ _) task = Inr 0"
| "bytes_atomic (Shmem_long_inc _ _) task = Inr 0"
| "bytes_atomic (Shmem_longlong_inc _ _) task = Inr 0"
| "bytes_atomic (Shmem_int_fadd _ _ _) task = Inr 0"
| "bytes_atomic (Shmem_long_fadd _ _ _) task = Inr 0"
| "bytes_atomic (Shmem_longlong_fadd _ _ _) task = Inr 0"

fun bytes_collective :: "collective_call \<Rightarrow> nat \<Rightarrow> 32 word result" where
  "bytes_collective Shmem_barrier_all task = Inr 0"
| "bytes_collective (Shmem_barrier _ _ _ _) task = Inr 0"
| "bytes_collective (Shmem_broadcast32 _ _ nlong PE_root _ logPE_stride PE_size _) task = (if task = unat PE_root then strided_bytes (nlong * 4) PE_size logPE_stride else Inr 0)"
| "bytes_collective (Shmem_broadcast64 _ _ nlong PE_root _ logPE_stride PE_size _) task = (if task = unat PE_root then strided_bytes (nlong * 8) PE_size logPE_stride else Inr 0)"
| "bytes_collective (Shmem_collect32 _ _ nelems _ logPE_stride PE_size _) task = (strided_bytes (nelems * 4) PE_size logPE_stride)"
| "bytes_collective (Shmem_collect64 _ _ nelems _ logPE_stride PE_size _) task = (strided_bytes (nelems * 8) PE_size logPE_stride)"
| "bytes_collective (Shmem_fcollect32 _ _ nelems _ logPE_stride PE_size _) task = (strided_bytes (nelems * 4) PE_size logPE_stride)"
| "bytes_collective (Shmem_fcollect64 _ _ nelems _ logPE_stride PE_size _) task = (strided_bytes (nelems * 8) PE_size logPE_stride)"
| "bytes_collective (Shmem_int_and_to_all _ _ nreduce _ logPE_stride PE_size _ _) task = (strided_bytes (scast nreduce * 4) PE_size logPE_stride)"
| "bytes_collective (Shmem_long_and_to_all _ _ nreduce _ logPE_stride PE_size _ _) task = (strided_bytes (scast nreduce * 8) PE_size logPE_stride)"
| "bytes_collective (Shmem_longlong_and_to_all _ _ nreduce _ logPE_stride PE_size _ _) task = (strided_bytes (scast nreduce * 8) PE_size logPE_stride)"
| "bytes_collective (Shmem_short_and_to_all _ _ nreduce _ logPE_stride PE_size _ _) task = (strided_bytes (scast nreduce * 2) PE_size logPE_stride)"
| "bytes_collective (Shmem_double_max_to_all _ _ nreduce _ logPE_stride PE_size _ _) task = (strided_bytes (scast nreduce * 8) PE_size logPE_stride)"
| "bytes_collective (Shmem_float_max_to_all _ _ nreduce _ logPE_stride PE_size _ _) task = (strided_bytes (scast nreduce * 4) PE_size logPE_stride)"
| "bytes_collective (Shmem_int_max_to_all _ _ nreduce _ logPE_stride PE_size _ _) task = (strided_bytes (scast nreduce * 4) PE_size logPE_stride)"
| "bytes_collective (Shmem_long_max_to_all _ _ nreduce _ logPE_stride PE_size _ _) task = (strided_bytes (scast nreduce * 8) PE_size logPE_stride)"
| "bytes_collective (Shmem_longdouble_max_to_all _ _ nreduce _ logPE_stride PE_size _ _) task = (strided_bytes (scast nreduce * 16) PE_size logPE_stride)"
| "bytes_collective (Shmem_longlong_max_to_all _ _ nreduce _ logPE_stride PE_size _ _) task = (strided_bytes (scast nreduce * 8) PE_size logPE_stride)"
| "bytes_collective (Shmem_short_max_to_all _ _ nreduce _ logPE_stride PE_size _ _) task = (strided_bytes (scast nreduce * 2) PE_size logPE_stride)"
| "bytes_collective (Shmem_double_min_to_all _ _ nreduce _ logPE_stride PE_size _ _) task = (strided_bytes (scast nreduce * 8) PE_size logPE_stride)"

fun bytes_sync :: "sync_call \<Rightarrow> nat \<Rightarrow> 32 word result" where
  "bytes_sync (Shmem_int_wait _ _) task = Inr 0"
| "bytes_sync (Shmem_int_wait_until _ _ _) task = Inr 0"
| "bytes_sync (Shmem_long_wait _ _) task = Inr 0"
| "bytes_sync (Shmem_long_wait_until _ _ _) task = Inr 0"
| "bytes_sync (Shmem_longlong_wait _ _) task = Inr 0"
| "bytes_sync (Shmem_longlong_wait_until _ _ _) task = Inr 0"
| "bytes_sync (Shmem_short_wait _ _) task = Inr 0"
| "bytes_sync (Shmem_short_wait_until _ _ _) task = Inr 0"
| "bytes_sync (Shmem_wait _ _) task = Inr 0"
| "bytes_sync (Shmem_wait_until _ _ _) task = Inr 0"
| "bytes_sync Shmem_fence task = Inr 0"
| "bytes_sync Shmem_quiet task = Inr 0"
| "bytes_sync (Shmem_clear_lock _) task = Inr 0"
| "bytes_sync (Shmem_set_lock _) task = Inr 0"
| "bytes_sync (Shmem_test_lock _) task = Inr 0"
| "bytes_sync Shmem_clear_cache_inv task = Inr 0"
| "bytes_sync Shmem_set_cache_inv task = Inr 0"
| "bytes_sync (Shmem_clear_cache_line_inv _) task = Inr 0"
| "bytes_sync (Shmem_set_cache_line_inv _) task = Inr 0"
| "bytes_sync Shmem_udcflush task = Inr 0"
| "bytes_sync (Shmem_udcflush_line _) task = Inr 0"

fun bytes_of :: "shmem_call \<Rightarrow> nat \<Rightarrow> 32 word result" where
  "bytes_of (Call_setup c) task = bytes_setup c task"
| "bytes_of (Call_put c) task = bytes_put c task"
| "bytes_of (Call_iput c) task = bytes_iput c task"
| "bytes_of (Call_get c) task = bytes_get c task"
| "bytes_of (Call_iget c) task = bytes_iget c task"
| "bytes_of (Call_atomic c) task = bytes_atomic c task"
| "bytes_of (Call_collective c) task = bytes_collective c task"
| "bytes_of (Call_sync c) task = bytes_sync c task"

end
