(* ===== verification/Tracer_Correct.thy ===== *)
theory Tracer_Correct
  imports Tracer_State Event_Buffer_Correct
begin

text \<open>
  What recording an event does when the tracer is on: the event is added at the end of what was recorded, after the
  events of the tracer itself (a flush, the processor, a mode, the callers). The abstract state is the list of all
  events, in the file and in the buffer.
\<close>

section \<open>The recorded events\<close>

definition logged :: "'w tracer \<Rightarrow> event_t list" where
  "logged s = file_events (trace_file (TracingBuffer s)) @ contents (main (TracingBuffer s))"

definition fill_of :: "'w tracer \<Rightarrow> nat" where
  "fill_of s = fill (main (TracingBuffer s))"

text \<open>
  The tracer is on, its file is open, has no limit and takes every write completely, the buffer is not circular,
  no signal is pending, and a flush has room for its own events.
\<close>

definition callers_ok :: "'w tracer \<Rightarrow> bool" where
  "callers_ok s \<longleftrightarrow> (\<forall>ty asked. Trace_Caller s ty = Some asked \<longrightarrow> Caller_Deepness s ty = length asked \<and> length asked \<le> MAX_CALLERS)"

definition tracing :: "'w tracer \<Rightarrow> bool" where
  "tracing s \<longleftrightarrow> mpitrace_on s \<and> tracejant s \<and> own_bit s = Inr True \<and> \<not> circular_buffering s \<and>
     \<not> Deferred_Signal_FlushAndTerminate s \<and> file_size s = 0 \<and> callers_ok s \<and>
     ring_inv (main (TracingBuffer s)) \<and> fd_open (main (TracingBuffer s)) \<and> 5 \<le> MaxEvents (main (TracingBuffer s)) \<and>
     steady (trace_file (TracingBuffer s))"

definition extends :: "'w tracer \<Rightarrow> event_t list \<Rightarrow> 'w tracer \<Rightarrow> bool" where
  "extends s es s1 \<longleftrightarrow> tracing s1 \<and> logged s1 = logged s @ es \<and> world s1 = world s \<and>
     Extrae_inInstrumentation s1 = Extrae_inInstrumentation s \<and> Extrae_inSampling s1 = Extrae_inSampling s \<and>
     unset_event s1 = unset_event s \<and> TASKID s1 = TASKID s \<and>
     Trace_Caller s1 = Trace_Caller s \<and> Caller_Deepness s1 = Caller_Deepness s"

lemma extends_refl [simp]: "extends s [] s \<longleftrightarrow> tracing s"
  by (auto simp: extends_def)

lemma extends_trans: "extends s es s1 \<Longrightarrow> extends s1 fs s2 \<Longrightarrow> extends s (es @ fs) s2"
  by (simp add: extends_def)

lemma extends_tracing: "extends s es s1 \<Longrightarrow> tracing s1"
  by (simp add: extends_def)

text \<open>The fields that do not matter for this.\<close>

lemma tracing_update [simp]:
  "tracing (s\<lparr>clock_reads := n\<rparr>) = tracing s" "tracing (s\<lparr>last_read_clock := t\<rparr>) = tracing s"
  "tracing (s\<lparr>LastCPUEvent := c\<rparr>) = tracing s" "tracing (s\<lparr>LastCPUEmissionTime := t\<rparr>) = tracing s"
  "tracing (s\<lparr>Current_Trace_Mode := m\<rparr>) = tracing s" "tracing (s\<lparr>Pending_Trace_Mode_Change := b\<rparr>) = tracing s"
  "tracing (s\<lparr>First_Trace_Mode := b\<rparr>) = tracing s" "tracing (s\<lparr>Extrae_inInstrumentation := i\<rparr>) = tracing s"
  "tracing (s\<lparr>world := w\<rparr>) = tracing s"
  by (simp_all add: tracing_def own_bit_def callers_ok_def)

lemma extends_update [simp]:
  "extends s es (s1\<lparr>clock_reads := n\<rparr>) = extends s es s1" "extends s es (s1\<lparr>last_read_clock := t\<rparr>) = extends s es s1"
  "extends s es (s1\<lparr>LastCPUEvent := c\<rparr>) = extends s es s1" "extends s es (s1\<lparr>LastCPUEmissionTime := t\<rparr>) = extends s es s1"
  "extends s es (s1\<lparr>Current_Trace_Mode := m\<rparr>) = extends s es s1"
  "extends s es (s1\<lparr>Pending_Trace_Mode_Change := b\<rparr>) = extends s es s1"
  "extends s es (s1\<lparr>First_Trace_Mode := b\<rparr>) = extends s es s1"
  "extends (s\<lparr>clock_reads := n\<rparr>) es s1 = extends s es s1" "extends (s\<lparr>last_read_clock := t\<rparr>) es s1 = extends s es s1"
  "extends (s\<lparr>LastCPUEvent := c\<rparr>) es s1 = extends s es s1"
  "extends (s\<lparr>Current_Trace_Mode := m\<rparr>) es s1 = extends s es s1"
  "extends (s\<lparr>LastCPUEmissionTime := t\<rparr>) es s1 = extends s es s1"
  by (simp_all add: extends_def logged_def)

lemma fill_of_update [simp]:
  "fill_of (s\<lparr>clock_reads := n\<rparr>) = fill_of s" "fill_of (s\<lparr>last_read_clock := t\<rparr>) = fill_of s"
  "fill_of (s\<lparr>LastCPUEvent := c\<rparr>) = fill_of s"
  by (simp_all add: fill_of_def)

lemma tracing_buffer: "tracing s \<Longrightarrow> ring_inv (main (TracingBuffer s))"
  and tracing_on: "tracing s \<Longrightarrow> tracejant s \<and> own_bit s = Inr True \<and> mpitrace_on s"
  by (simp_all add: tracing_def)

section \<open>Inserting\<close>

lemma buffer_update [simp]:
  "own_bit (s\<lparr>TracingBuffer := b\<rparr>) = own_bit s" "callers_ok (s\<lparr>TracingBuffer := b\<rparr>) = callers_ok s"
  by (simp_all add: own_bit_def callers_ok_def)

lemma fill_stored: "ring_inv r \<Longrightarrow> fill r < MaxEvents r \<Longrightarrow> fill (stored e r) = Suc (fill r)"
  using put_event_law(3) [of r e] length_contents [of "stored e r"] by (simp del: length_contents) (simp)

lemma store_law:
  assumes "tracing s" and "fill_of s < MaxEvents (main (TracingBuffer s))"
  shows "\<exists>s1. store_event e s = Inr s1 \<and> extends s [e] s1 \<and> fill_of s1 = Suc (fill_of s) \<and>
    MaxEvents (main (TracingBuffer s1)) = MaxEvents (main (TracingBuffer s))"
proof -
  let ?r = "main (TracingBuffer s)"
  have r: "ring_inv ?r" "fill ?r < MaxEvents ?r" using assms by (simp_all add: tracing_def fill_of_def)
  note p = put_event_law [OF r]
  show ?thesis
    using p(1-3) fill_stored [OF r] assms(1)
    by (simp add: store_event_def extends_def tracing_def logged_def fill_of_def ring_simps)
qed

lemma insert_room:
  assumes "tracing s" and "fill_of s < MaxEvents (main (TracingBuffer s))"
  shows "\<exists>s1. insert_at (Suc n) e s = Inr s1 \<and> extends s [e] s1 \<and> fill_of s1 = Suc (fill_of s) \<and>
    MaxEvents (main (TracingBuffer s1)) = MaxEvents (main (TracingBuffer s))"
proof -
  from store_law [OF assms, of e] obtain s1 where s1: "store_event e s = Inr s1" "extends s [e] s1"
    "fill_of s1 = Suc (fill_of s)" "MaxEvents (main (TracingBuffer s1)) = MaxEvents (main (TracingBuffer s))" by blast
  have "\<not> Buffer_IsFull (main (TracingBuffer s))" using assms by (simp add: full_iff tracing_buffer fill_of_def)
  moreover have "execute_deferred s1 = Inr s1" using extends_tracing [OF s1(2)] by (simp add: tracing_def execute_deferred_def)
  ultimately show ?thesis using s1 by (simp add: make_room_def)
qed

text \<open>The events the tracer adds on its own.\<close>

definition own_types :: "32 word set" where
  "own_types = {word_of_int FLUSH_EV, word_of_int GETCPU_EV, word_of_int TRACING_MODE_EV} \<union>
     (\<lambda>k. word_of_int (CALLER_EV + int k)) ` {0..MAX_CALLERS}"

definition own :: "event_t list \<Rightarrow> bool" where
  "own es \<longleftrightarrow> (\<forall>e \<in> set es. ev_event e \<in> own_types)"

lemma own_simps [simp]: "own []" "own (e # es) \<longleftrightarrow> ev_event e \<in> own_types \<and> own es" "own (es @ fs) \<longleftrightarrow> own es \<and> own fs"
  by (auto simp: own_def)

lemma local_event_fields [simp]:
  "ev_event (local_event s t ty v) = word_of_int ty" "ev_value (local_event s t ty v) = v" "ev_time (local_event s t ty v) = t"
  by (simp_all add: local_event_def)

lemma own_types_in [simp]: "40000003 \<in> own_types" "40000033 \<in> own_types" "40000018 \<in> own_types"
  by (simp_all add: own_types_def)

lemma if_traced_on: "tracing s \<Longrightarrow> if_traced f s = f s"
  by (simp add: if_traced_def tracing_def)

lemma annotate_room:
  assumes "tracing s" and "fill_of s < MaxEvents (main (TracingBuffer s))"
  shows "\<exists>s1 es. AnnotateCPU_with (insert_at (Suc n)) t s = Inr s1 \<and> extends s es s1 \<and> own es \<and>
    fill_of s1 \<le> Suc (fill_of s) \<and> MaxEvents (main (TracingBuffer s1)) = MaxEvents (main (TracingBuffer s))"
proof -
  let ?cpu = "processor s (clock_reads s)"
  let ?s = "s\<lparr>LastCPUEvent := ?cpu\<rparr>"
  show ?thesis
  proof (cases "?cpu \<noteq> LastCPUEvent s \<or> AlwaysEmitCPUEvent s")
    case False
    then show ?thesis using assms(1) by (intro exI [of _ s] exI [of _ "[]"]) (auto simp: AnnotateCPU_with_def)
  next
    case True
    from insert_room [of ?s n "local_event ?s t GETCPU_EV (scast ?cpu)"] assms obtain s1 where
      "insert_at (Suc n) (local_event ?s t GETCPU_EV (scast ?cpu)) ?s = Inr s1"
      "extends s [local_event ?s t GETCPU_EV (scast ?cpu)] s1" "fill_of s1 = Suc (fill_of s)"
      "MaxEvents (main (TracingBuffer s1)) = MaxEvents (main (TracingBuffer s))"
      by auto
    moreover have "AnnotateCPU_with (insert_at (Suc n)) t s = insert_at (Suc n) (local_event ?s t GETCPU_EV (scast ?cpu)) ?s"
      using True assms(1) by (simp add: AnnotateCPU_with_def Let_def if_traced_on)
    ultimately show ?thesis
      by (intro exI [of _ s1] exI [of _ "[local_event ?s t GETCPU_EV (scast ?cpu)]"]) simp
  qed
qed

text \<open>A flush empties the buffer into the file, and adds at most four events.\<close>

lemma flushed_state:
  assumes "tracing s"
  shows "\<exists>b rc. Buffer_Flush False (TracingBuffer s) = Inr (b, rc) \<and>
    extends s [] (s\<lparr>TracingBuffer := b\<rparr>) \<and> fill (main b) = 0 \<and> MaxEvents (main b) = MaxEvents (main (TracingBuffer s))"
proof (cases "fill_of s = 0")
  case True
  then have "Buffer_Flush False (TracingBuffer s) = Inr (TracingBuffer s, 0)"
    using tracing_buffer [OF assms] by (simp add: Buffer_Flush_def flush_ring_def empty_iff fill_of_def)
  then show ?thesis using True assms by (simp add: fill_of_def)
next
  case False
  let ?r = "main (TracingBuffer s)"
  have r: "ring_inv ?r" "fd_open ?r" "steady (trace_file (TracingBuffer s))" using assms by (simp_all add: tracing_def)
  have "Buffer_Flush False (TracingBuffer s) =
      Inr ((TracingBuffer s)\<lparr>main := emptied ?r, trace_file := appended (trace_file (TracingBuffer s)) (contents ?r)\<rparr>, 1)"
    using flush_ring_writes [OF r(1) _ r(2,3), of False] False
    by (simp add: Buffer_Flush_def fill_of_def emptied_def flushed_offline)
  then show ?thesis using assms emptied_inv [OF r(1)]
    by (simp add: extends_def tracing_def logged_def)
qed

lemma TIME_extends:
  assumes "extends s es s1"
  obtains t s2 where "TIME s1 = (t, s2)" "extends s es s2" "fill_of s2 = fill_of s1"
    "TracingBuffer s2 = TracingBuffer s1" "last_read_clock s2 = t"
  using assms that by (simp add: TIME_def Let_def fill_of_def)

lemma check_file_size_none: "tracing s \<Longrightarrow> \<exists>s1. check_file_size s = Inr s1 \<and> extends s [] s1 \<and> TracingBuffer s1 = TracingBuffer s"
  by (auto simp: check_file_size_def TIME_def Let_def tracing_def own_bit_def callers_ok_def extends_def logged_def)

text \<open>Steps in a row, each of which has a room of its own.\<close>

definition fits :: "nat \<Rightarrow> ('w tracer \<Rightarrow> 'w tracer result) \<Rightarrow> (event_t list \<Rightarrow> bool) \<Rightarrow> bool" where
  "fits k f P \<longleftrightarrow> (\<forall>s. tracing s \<longrightarrow> fill_of s + k \<le> MaxEvents (main (TracingBuffer s)) \<longrightarrow>
     (\<exists>s1 es. f s = Inr s1 \<and> extends s es s1 \<and> P es \<and> fill_of s1 \<le> fill_of s + k \<and>
       MaxEvents (main (TracingBuffer s1)) = MaxEvents (main (TracingBuffer s))))"

lemma fitsE:
  assumes "fits k f P" and "tracing s" and "fill_of s + k \<le> MaxEvents (main (TracingBuffer s))"
  obtains s1 es where "f s = Inr s1" "extends s es s1" "P es" "fill_of s1 \<le> fill_of s + k"
    "MaxEvents (main (TracingBuffer s1)) = MaxEvents (main (TracingBuffer s))"
  using assms unfolding fits_def by blast

lemma fits_insert: "fits 1 (insert_at (Suc n) e) (\<lambda>es. es = [e])"
  unfolding fits_def using insert_room [of _ n e] by fastforce

lemma fits_annotate: "fits 1 (AnnotateCPU_with (insert_at (Suc n)) t) own"
  unfolding fits_def using annotate_room [of _ n t] by fastforce

lemma fits_weaken: "fits k f P \<Longrightarrow> (\<And>es. P es \<Longrightarrow> Q es) \<Longrightarrow> fits k f Q"
  unfolding fits_def by blast

lemma fits_nil: "fits 0 (in_order []) own"
  unfolding fits_def by (auto intro: exI [of _ "[]"])

lemma fits_cons:
  assumes "fits j f own" and "fits k (in_order fs) own"
  shows "fits (j + k) (in_order (f # fs)) own"
  unfolding fits_def
proof (intro allI impI)
  fix s :: "'a tracer" assume s: "tracing s" "fill_of s + (j + k) \<le> MaxEvents (main (TracingBuffer s))"
  with assms(1) obtain s1 es where s1: "f s = Inr s1" "extends s es s1" "own es" "fill_of s1 \<le> fill_of s + j"
    "MaxEvents (main (TracingBuffer s1)) = MaxEvents (main (TracingBuffer s))"
    unfolding fits_def by (meson add_leD1 add.assoc le_trans nat_add_left_cancel_le le_add1)
  with assms(2) s obtain s2 es2 where s2: "in_order fs s1 = Inr s2" "extends s1 es2 s2" "own es2" "fill_of s2 \<le> fill_of s1 + k"
    "MaxEvents (main (TracingBuffer s2)) = MaxEvents (main (TracingBuffer s1))"
    using extends_tracing [OF s1(2)] unfolding fits_def by fastforce
  show "\<exists>s2 es. in_order (f # fs) s = Inr s2 \<and> extends s es s2 \<and> own es \<and> fill_of s2 \<le> fill_of s + (j + k) \<and>
      MaxEvents (main (TracingBuffer s2)) = MaxEvents (main (TracingBuffer s))"
    using s1 s2 extends_trans [OF s1(2) s2(2)] by (intro exI [of _ s2] exI [of _ "es @ es2"]) simp
qed

lemma flush_wrapper_law:
  assumes "tracing s"
  shows "\<exists>s1 es. flush_with (insert_at (Suc n)) s = Inr s1 \<and> extends s es s1 \<and> own es \<and> fill_of s1 \<le> 4 \<and>
    MaxEvents (main (TracingBuffer s1)) = MaxEvents (main (TracingBuffer s))"
proof -
  have "extends s [] s" using assms by simp
  then obtain t1 s1 where s1: "TIME s = (t1, s1)" "extends s [] s1" "TracingBuffer s1 = TracingBuffer s" by (rule TIME_extends)
  from flushed_state [OF extends_tracing [OF s1(2)]] obtain b rc where b: "Buffer_Flush False (TracingBuffer s1) = Inr (b, rc)"
    "extends s1 [] (s1\<lparr>TracingBuffer := b\<rparr>)" "fill (main b) = 0" "MaxEvents (main b) = MaxEvents (main (TracingBuffer s))"
    by (auto simp: s1(3))
  from extends_trans [OF s1(2) b(2)] have "extends s [] (s1\<lparr>TracingBuffer := b\<rparr>)" by simp
  then obtain t2 s2 where s2: "TIME (s1\<lparr>TracingBuffer := b\<rparr>) = (t2, s2)" "extends s [] s2" "TracingBuffer s2 = b"
    by (rule TIME_extends) simp
  have own_flush: "own [local_event s2 t FLUSH_EV v]" for t v by simp
  let ?own = "[insert_at (Suc n) (local_event s2 t1 FLUSH_EV EVT_BEGIN), AnnotateCPU_with (insert_at (Suc n)) t1,
    insert_at (Suc n) (local_event s2 t2 FLUSH_EV EVT_END), AnnotateCPU_with (insert_at (Suc n)) t2]"
  have fits: "fits (1 + (1 + (1 + (1 + 0)))) (in_order ?own) own"
    by (intro fits_cons fits_nil fits_annotate fits_weaken [OF fits_insert]) (use own_flush in auto)
  have t2: "tracing s2" "fill_of s2 = 0" "5 \<le> MaxEvents (main (TracingBuffer s2))"
    using extends_tracing [OF s2(2)] b(3) by (simp_all add: fill_of_def s2(3) tracing_def)
  then have "fill_of s2 + (1 + (1 + (1 + (1 + 0)))) \<le> MaxEvents (main (TracingBuffer s2))" by simp
  then obtain s3 es where s3: "in_order ?own s2 = Inr s3" "extends s2 es s3" "own es" "fill_of s3 \<le> fill_of s2 + (1 + (1 + (1 + (1 + 0))))"
    "MaxEvents (main (TracingBuffer s3)) = MaxEvents (main (TracingBuffer s2))"
    by (rule fitsE [OF fits t2(1)])
  from check_file_size_none [OF extends_tracing [OF s3(2)]] obtain s4 where s4: "check_file_size s3 = Inr s4" "extends s3 [] s4"
    "TracingBuffer s4 = TracingBuffer s3" by blast
  have "flush_with (insert_at (Suc n)) s = Inr s4"
  proof -
    have "\<not> Buffer_IsClosed (main (TracingBuffer s))" using assms by (simp add: Buffer_IsClosed_def tracing_def)
    moreover have "in_order (?own @ [check_file_size]) s2 = Inr s4"
      unfolding in_order_append s3(1) using s4(1) by simp
    ultimately show ?thesis
      using s1(1) b(1) s2(1) unfolding flush_with_def append_Cons append_Nil by (simp del: in_order_simps)
  qed
  moreover from extends_trans [OF extends_trans [OF s2(2) s3(2)] s4(2)] have "extends s es s4" by simp
  ultimately show ?thesis using s3(3-5) t2(2) s4(3) b(4) s2(3) by (auto simp: fill_of_def)
qed

lemma insert_law:
  assumes "tracing s"
  shows "\<exists>s1 es. insert_at (Suc (Suc n)) e s = Inr s1 \<and> extends s (es @ [e]) s1 \<and> own es"
proof (cases "Buffer_IsFull (main (TracingBuffer s))")
  case False
  then have "fill_of s < MaxEvents (main (TracingBuffer s))"
    using ring_invD(10) [OF tracing_buffer [OF assms]] by (simp add: full_iff tracing_buffer [OF assms] fill_of_def)
  from insert_room [OF assms this, of "Suc n" e] show ?thesis by (metis append_Nil own_simps(1))
next
  case True
  from flush_wrapper_law [OF assms, of n] obtain s1 es where s1: "flush_with (insert_at (Suc n)) s = Inr s1" "extends s es s1" "own es"
    "fill_of s1 \<le> 4" by blast
  note t = extends_tracing [OF s1(2)]
  have "fill_of s1 < MaxEvents (main (TracingBuffer s1))" using s1(4) t by (simp add: tracing_def)
  from store_law [OF t this, of e] obtain s2 where s2: "store_event e s1 = Inr s2" "extends s1 [e] s2" by blast
  have "execute_deferred s2 = Inr s2" using extends_tracing [OF s2(2)] by (simp add: tracing_def execute_deferred_def)
  moreover have "make_room (insert_at (Suc n)) s = Inr s1" using True s1(1) assms by (simp add: make_room_def tracing_def)
  ultimately have "insert_at (Suc (Suc n)) e s = Inr s2" using s2(1) by (simp add: insert_at.simps(2) [of "Suc n"])
  with extends_trans [OF s1(2) s2(2)] s1(3) show ?thesis by blast
qed

lemma BUFFER_INSERT_law: "tracing s \<Longrightarrow> \<exists>s1 es. BUFFER_INSERT e s = Inr s1 \<and> extends s (es @ [e]) s1 \<and> own es"
  unfolding BUFFER_INSERT_def using insert_law [of s 2 e] by (simp add: eval_nat_numeral)

section \<open>What a step shows\<close>

text \<open>A step that returns, and what it adds besides the events of the tracer itself.\<close>

definition calls :: "event_t list \<Rightarrow> event_t list" where
  "calls es = filter (\<lambda>e. ev_event e \<notin> own_types) es"

lemma calls_simps [simp]: "calls [] = []" "calls (es @ fs) = calls es @ calls fs"
  "ev_event e \<in> own_types \<Longrightarrow> calls (e # es) = calls es" "ev_event e \<notin> own_types \<Longrightarrow> calls (e # es) = e # calls es"
  by (simp_all add: calls_def)

lemma own_calls: "own es \<longleftrightarrow> calls es = []"
  by (simp add: own_def calls_def filter_empty_conv)

definition adds :: "('w tracer \<Rightarrow> 'w tracer result) \<Rightarrow> (event_t list \<Rightarrow> bool) \<Rightarrow> bool" where
  "adds f P \<longleftrightarrow> (\<forall>s. tracing s \<longrightarrow> (\<exists>s1 es. f s = Inr s1 \<and> extends s es s1 \<and> P (calls es)))"

abbreviation silent :: "('w tracer \<Rightarrow> 'w tracer result) \<Rightarrow> bool" where
  "silent f \<equiv> adds f (\<lambda>es. es = [])"

lemma addsI: "(\<And>s. tracing s \<Longrightarrow> \<exists>s1 es. f s = Inr s1 \<and> extends s es s1 \<and> P (calls es)) \<Longrightarrow> adds f P"
  by (simp add: adds_def)

lemma addsE:
  assumes "adds f P" and "tracing s"
  obtains s1 es where "f s = Inr s1" "extends s es s1" "P (calls es)"
  using assms by (auto simp: adds_def)

lemma adds_Inr: "P [] \<Longrightarrow> adds Inr P"
  by (rule addsI) (auto intro: exI [of _ "[]"])

lemma adds_weaken: "adds f P \<Longrightarrow> (\<And>es. P es \<Longrightarrow> Q es) \<Longrightarrow> adds f Q"
  unfolding adds_def by blast

lemma adds_bind:
  assumes "adds f P" and "adds g Q" and "\<And>es fs. P es \<Longrightarrow> Q fs \<Longrightarrow> R (es @ fs)"
  shows "adds (\<lambda>s. rbind (f s) g) R"
proof (rule addsI)
  fix s :: "'a tracer" assume "tracing s"
  with assms(1) obtain s1 es where s1: "f s = Inr s1" "extends s es s1" "P (calls es)" by (rule addsE)
  from addsE [OF assms(2) extends_tracing [OF s1(2)]] obtain s2 fs where s2: "g s1 = Inr s2" "extends s1 fs s2" "Q (calls fs)" .
  have "R (calls (es @ fs))" using assms(3) [OF s1(3) s2(3)] by simp
  then show "\<exists>s2 es. rbind (f s) g = Inr s2 \<and> extends s es s2 \<and> R (calls es)"
    using s1 s2 extends_trans [OF s1(2) s2(2)] by fastforce
qed

lemma silent_nil: "silent (in_order [])"
  by (rule addsI) (auto intro: exI [of _ "[]"])

lemma silent_bind: "silent f \<Longrightarrow> silent g \<Longrightarrow> silent (\<lambda>s. rbind (f s) g)"
  by (rule adds_bind [where P = "\<lambda>es. es = []" and Q = "\<lambda>es. es = []"]) auto

lemma silent_cons: "silent f \<Longrightarrow> silent (in_order fs) \<Longrightarrow> silent (in_order (f # fs))"
  using silent_bind [of f "in_order fs"] by (simp add: adds_def)

lemma adds_traced: "adds f P \<Longrightarrow> adds (if_traced f) P"
  by (simp add: adds_def if_traced_on)

lemma adds_choice: "(\<And>s. P s \<Longrightarrow> tracing s \<Longrightarrow> \<exists>s1 es. f s = Inr s1 \<and> extends s es s1 \<and> Q (calls es)) \<Longrightarrow>
    (\<And>s. \<not> P s \<Longrightarrow> tracing s \<Longrightarrow> \<exists>s1 es. g s = Inr s1 \<and> extends s es s1 \<and> Q (calls es)) \<Longrightarrow>
    adds (\<lambda>s. if P s then f s else g s) Q"
  by (simp add: adds_def)

lemma adds_if: "adds f Q \<Longrightarrow> adds g Q \<Longrightarrow> adds (\<lambda>s. if P s then f s else g s) Q"
  by (simp add: adds_def)

lemma adds_point: "(\<And>t. adds (f t) P) \<Longrightarrow> adds (\<lambda>s. f (g s) s) P"
  by (simp add: adds_def)

lemma adds_insert: "(\<And>s. ev_event (e s) = ty) \<Longrightarrow> (\<And>s. tracing s \<Longrightarrow> P (if ty \<in> own_types then [] else [e s])) \<Longrightarrow>
    adds (\<lambda>s. BUFFER_INSERT (e s) s) P"
proof (rule addsI)
  fix s :: "'a tracer" assume ty: "\<And>s :: 'a tracer. ev_event (e s) = ty" and P: "\<And>s. tracing s \<Longrightarrow> P (if ty \<in> own_types then [] else [e s])"
    and s: "tracing s"
  from BUFFER_INSERT_law [OF s, of "e s"] obtain s1 es where "BUFFER_INSERT (e s) s = Inr s1" "extends s (es @ [e s]) s1" "own es" by blast
  moreover have "calls (es @ [e s]) = (if ty \<in> own_types then [] else [e s])"
    using \<open>own es\<close> by (simp add: own_calls ty)
  ultimately show "\<exists>s1 es. BUFFER_INSERT (e s) s = Inr s1 \<and> extends s es s1 \<and> P (calls es)" using P [OF s] by metis
qed

lemma silent_event: "word_of_int ty \<in> own_types \<Longrightarrow> silent (TRACE_EVENT t ty v)"
  unfolding TRACE_EVENT_def by (intro adds_traced adds_insert) auto

lemma silent_annotate: "silent (Extrae_AnnotateCPU t)"
proof (rule addsI)
  fix s :: "'a tracer" assume s: "tracing s"
  let ?cpu = "processor s (clock_reads s)" and ?f = "if_traced (\<lambda>s1. BUFFER_INSERT (local_event s1 t GETCPU_EV (scast (processor s (clock_reads s)))) s1)"
  have "silent ?f" by (intro adds_traced adds_insert) auto
  moreover have "tracing (s\<lparr>LastCPUEvent := ?cpu\<rparr>)" using s by simp
  ultimately obtain s1 es where "?f (s\<lparr>LastCPUEvent := ?cpu\<rparr>) = Inr s1" "extends (s\<lparr>LastCPUEvent := ?cpu\<rparr>) es s1" "calls es = []"
    by (rule addsE)
  then show "\<exists>s1 es. Extrae_AnnotateCPU t s = Inr s1 \<and> extends s es s1 \<and> calls es = []"
    using s by (cases "?cpu \<noteq> LastCPUEvent s \<or> AlwaysEmitCPUEvent s")
      (auto simp: Extrae_AnnotateCPU_def AnnotateCPU_with_def Let_def intro: exI [of _ "[]"])
qed

lemma own_caller: "k \<le> MAX_CALLERS \<Longrightarrow> word_of_int (CALLER_EV + int k) \<in> own_types"
  by (auto simp: own_types_def)

lemma silent_frame:
  assumes "tracing s" and "fst x + 2 \<le> Caller_Deepness s ty + offset" and that: "Trace_Caller s ty = Some asked"
  shows "\<exists>s1 es. trace_frame t offset ty x s = Inr s1 \<and> extends s es s1 \<and> calls es = []"
proof -
  obtain frame address where x: "x = (frame, address)" by fastforce
  let ?c = "int frame - int offset + 2"
  have len: "Caller_Deepness s ty = length asked" "length asked \<le> MAX_CALLERS"
    using assms(1) that by (auto simp: tracing_def callers_ok_def)
  show ?thesis
  proof (cases "?c > 0 \<and> ty \<noteq> CALLER_SAMPLING \<and> asked ! (nat ?c - 1)")
    case False
    then show ?thesis using assms x that len
      by (intro exI [of _ s] exI [of _ "[]"]) (auto simp: trace_frame_def Let_def)
  next
    case True
    have "?c \<le> int (length asked)" using assms(2) x len(1) by simp
    then have "nat ?c \<le> length asked" "0 < nat ?c" using True by simp_all
    then have c: "nat ?c - 1 < length asked" "nat ?c \<le> MAX_CALLERS" using len(2) by linarith+
    have "CALLER_EVENT_TYPE s ty (nat ?c) = CALLER_EV + int (nat ?c) \<or> CALLER_EVENT_TYPE s ty (nat ?c) = CALLER_EV + int 0"
      by (simp add: CALLER_EVENT_TYPE_def)
    then have "word_of_int (CALLER_EVENT_TYPE s ty (nat ?c)) \<in> own_types"
      using own_caller [OF c(2)] own_caller [of 0] by auto
    from addsE [OF silent_event [OF this] assms(1)] obtain s1 es where
      "TRACE_EVENT t (CALLER_EVENT_TYPE s ty (nat ?c)) address s = Inr s1" "extends s es s1" "calls es = []" .
    then show ?thesis using True that c x by (intro exI [of _ s1] exI [of _ es]) (simp add: trace_frame_def Let_def)
  qed
qed

lemma silent_frames:
  assumes "tracing s" and "Trace_Caller s ty = Some asked"
    and "\<forall>x \<in> set xs. fst x + 2 \<le> Caller_Deepness s ty + offset"
  shows "\<exists>s1 es. rfold (trace_frame t offset ty) xs s = Inr s1 \<and> extends s es s1 \<and> calls es = []"
  using assms
proof (induction xs arbitrary: s)
  case Nil
  then show ?case by (intro exI [of _ s] exI [of _ "[]"]) simp
next
  case (Cons x xs)
  from silent_frame [OF Cons.prems(1) _ Cons.prems(2), of x offset t] Cons.prems(3)
  obtain s1 es where s1: "trace_frame t offset ty x s = Inr s1" "extends s es s1" "calls es = []" by auto
  moreover from s1(2) have "tracing s1" "Trace_Caller s1 ty = Some asked" "Caller_Deepness s1 ty = Caller_Deepness s ty"
    using Cons.prems(2) by (auto simp: extends_def)
  with Cons.IH [of s1] Cons.prems(3) obtain s2 fs where "rfold (trace_frame t offset ty) xs s1 = Inr s2" "extends s1 fs s2" "calls fs = []"
    by auto
  ultimately show ?case using extends_trans by fastforce
qed

lemma silent_callers:
  assumes "0 < offset"
  shows "silent (Extrae_trace_callers t offset ty)"
proof (rule addsI)
  fix s :: "'a tracer" assume s: "tracing s"
  show "\<exists>s1 es. Extrae_trace_callers t offset ty s = Inr s1 \<and> extends s es s1 \<and> calls es = []"
  proof (cases "Trace_Caller s ty")
    case None
    then show ?thesis using s by (intro exI [of _ s] exI [of _ "[]"]) (simp add: Extrae_trace_callers_def)
  next
    case (Some asked)
    let ?n = "Caller_Deepness s ty + offset - 1"
    let ?stack = "take (Caller_Deepness s ty + offset) (call_stack s)"
    have "\<forall>x \<in> set (take ?n (enumerate 0 ?stack)). fst x + 2 \<le> Caller_Deepness s ty + offset"
    proof
      fix x assume "x \<in> set (take ?n (enumerate 0 ?stack))"
      then obtain k where "k < ?n" "k < length ?stack" "x = enumerate 0 ?stack ! k"
        by (auto simp: in_set_conv_nth)
      then show "fst x + 2 \<le> Caller_Deepness s ty + offset" by (simp add: nth_enumerate_eq)
    qed
    from silent_frames [OF s Some this] Some show ?thesis by (simp add: Extrae_trace_callers_def)
  qed
qed

section \<open>Entering and leaving the instrumentation\<close>

lemma silent_update: "(\<And>s. tracing s \<Longrightarrow> extends s [] (f s)) \<Longrightarrow> silent (\<lambda>s. Inr (f s))"
  by (rule addsI) (auto intro: exI [of _ "[]"])

lemma silent_clock: "silent (f t) \<Longrightarrow> tracing s \<Longrightarrow> TIME s = (t, s1) \<Longrightarrow>
    \<exists>s2 es. f t s1 = Inr s2 \<and> extends s es s2 \<and> calls es = []"
  by (erule addsE [of _ _ s1]) (auto simp: TIME_def Let_def)

lemma silent_mode: "silent (Trace_Mode_Change t)"
proof (rule addsI)
  fix s :: "'a tracer" assume s: "tracing s"
  let ?s = "s\<lparr>Current_Trace_Mode := Future_Trace_Mode s\<rparr>"
  have "tracing ?s" using s by simp
  moreover have "silent (TRACE_EVENT t TRACING_MODE_EV (scast (Future_Trace_Mode s)) :: 'a tracer \<Rightarrow> _)"
    by (rule silent_event) simp
  ultimately obtain s1 es where s1: "TRACE_EVENT t TRACING_MODE_EV (scast (Future_Trace_Mode s)) ?s = Inr s1" "extends ?s es s1" "calls es = []"
    by - (erule (1) addsE)
  show "\<exists>s1 es. Trace_Mode_Change t s = Inr s1 \<and> extends s es s1 \<and> calls es = []"
  proof (cases "(Pending_Trace_Mode_Change s \<or> First_Trace_Mode s) \<and> (Future_Trace_Mode s \<noteq> Current_Trace_Mode s \<or> First_Trace_Mode s)")
    case True
    then show ?thesis using s1
      by (intro exI [of _ "s1\<lparr>Pending_Trace_Mode_Change := False, First_Trace_Mode := False\<rparr>"] exI [of _ es])
        (simp add: Trace_Mode_Change_def Let_def)
  next
    case False
    then show ?thesis using s by (auto simp: Trace_Mode_Change_def intro: exI [of _ "[]"])
  qed
qed

lemma silent_callback: "silent ExecuteFlushCallback"
proof (rule addsI)
  fix s :: "'a tracer" assume s: "tracing s"
  from flush_wrapper_law [OF s, of 3] obtain s1 es where "Extrae_Flush_Wrapper s = Inr s1" "extends s es s1" "own es"
    unfolding Extrae_Flush_Wrapper_def by (auto simp: eval_nat_numeral)
  then show "\<exists>s1 es. ExecuteFlushCallback s = Inr s1 \<and> extends s es s1 \<and> calls es = []"
    using s by (simp add: ExecuteFlushCallback_def tracing_def own_calls) blast
qed

text \<open>A thread outside the instrumentation, and inside.\<close>

definition idle :: "'w tracer \<Rightarrow> bool" where
  "idle s \<longleftrightarrow> tracing s \<and> Extrae_inInstrumentation s = Some False \<and> Extrae_inSampling s = Some False"

definition busy :: "'w tracer \<Rightarrow> 'w tracer" where
  "busy s = s\<lparr>Extrae_inInstrumentation := Some True\<rparr>"

lemma busy_tracing: "idle s \<Longrightarrow> tracing (busy s)"
  by (simp add: idle_def busy_def)

lemma setInInstrumentation_Some:
  "Extrae_inInstrumentation s = Some b \<Longrightarrow> Backend_setInInstrumentation c s = s\<lparr>Extrae_inInstrumentation := Some c\<rparr>"
  by (simp add: Backend_setInInstrumentation_def del: not_None_eq)

lemma Enter_law:
  assumes "idle s"
  shows "\<exists>s1 es. Backend_Enter_Instrumentation n s = Inr s1 \<and> extends (busy s) es s1 \<and> calls es = []"
proof -
  let ?room = "\<lambda>s :: 'a tracer. if Buffer_RemainingEvents (main (TracingBuffer s)) \<le> n then ExecuteFlushCallback s else Inr s"
  let ?mode = "\<lambda>s :: 'a tracer. let (current_time, s1) = TIME s in
    if Trace_Mode_FirstMode s1 then Trace_Mode_Change current_time s1 else Inr s1"
  have "silent ?room" by (intro adds_if silent_callback adds_Inr refl)
  moreover have "silent ?mode"
  proof (rule addsI)
    fix s :: "'a tracer" assume s: "tracing s"
    obtain t s1 where t: "TIME s = (t, s1)" by (cases "TIME s")
    have "silent (\<lambda>s :: 'a tracer. if Trace_Mode_FirstMode s then Trace_Mode_Change t s else Inr s)"
      by (intro adds_if silent_mode adds_Inr refl)
    from silent_clock [of "\<lambda>t s. if Trace_Mode_FirstMode s then Trace_Mode_Change t s else Inr s", OF this s t] t
    show "\<exists>s2 es. ?mode s = Inr s2 \<and> extends s es s2 \<and> calls es = []" by simp
  qed
  ultimately have "silent (in_order [?room, ?mode])" by (intro silent_cons silent_nil)
  from addsE [OF this busy_tracing [OF assms]] obtain s1 es where
    "in_order [?room, ?mode] (busy s) = Inr s1" "extends (busy s) es s1" "calls es = []" .
  moreover have "Backend_Enter_Instrumentation n s = in_order [?room, ?mode] (busy s)"
  proof -
    have on: "mpitrace_on s" and set: "Backend_setInInstrumentation True s = busy s"
      using assms by (simp_all add: idle_def tracing_def setInInstrumentation_Some [of s False] busy_def)
    show ?thesis by (simp only: Backend_Enter_Instrumentation_def on set in_order_simps rbind_simps not_True_eq_False if_False)
  qed
  ultimately show ?thesis by metis
qed

lemma Leave_law:
  assumes "tracing s" and "Extrae_inInstrumentation s = Some b" and "Extrae_inSampling s = Some False"
  shows "\<exists>s1 es. Backend_Leave_Instrumentation s = Inr s1 \<and> idle s1 \<and> logged s1 = logged s @ es \<and> calls es = [] \<and>
    world s1 = world s \<and> TASKID s1 = TASKID s"
proof -
  let ?cpu = "\<lambda>s :: 'a tracer. case PENDING_TRACE_CPU_EVENT (LAST_READ_TIME s) s of
    (pending, s1) \<Rightarrow> if pending then Extrae_AnnotateCPU (LAST_READ_TIME s1) s1 else Inr s1"
  let ?mode = "\<lambda>s :: 'a tracer. if Pending_Trace_Mode_Change s \<and> MPI_Deepness s = 0 then Trace_Mode_Change (LAST_READ_TIME s) s else Inr s"
  have "silent ?cpu"
  proof (rule addsI)
    fix s :: "'a tracer" assume s: "tracing s"
    let ?s = "s\<lparr>LastCPUEmissionTime := LAST_READ_TIME s\<rparr>"
    have "tracing ?s" using s by simp
    with silent_annotate [of "LAST_READ_TIME ?s"] obtain s1 es where
      "Extrae_AnnotateCPU (LAST_READ_TIME ?s) ?s = Inr s1" "extends ?s es s1" "calls es = []" by (rule addsE)
    then show "\<exists>s2 es. ?cpu s = Inr s2 \<and> extends s es s2 \<and> calls es = []"
      using s by (auto simp: PENDING_TRACE_CPU_EVENT_def intro: exI [of _ "[]"])
  qed
  moreover have "silent ?mode" 
    by (rule adds_if [OF adds_point [where f = Trace_Mode_Change, OF silent_mode] adds_Inr [OF refl]])
  ultimately have "silent (in_order [?cpu, ?mode])" by (intro silent_cons silent_nil)
  from addsE [OF this assms(1)] obtain s1 es where s1:
    "in_order [?cpu, ?mode] s = Inr s1" "extends s es s1" "calls es = []" .
  have "Backend_Leave_Instrumentation s = in_order ([?cpu, ?mode] @ [\<lambda>s. Inr (Backend_setInInstrumentation False s)]) s"
    using assms(1) by (simp add: Backend_Leave_Instrumentation_def tracing_def)
  also have "\<dots> = Inr (s1\<lparr>Extrae_inInstrumentation := Some False\<rparr>)"
    unfolding in_order_append s1(1) using s1(2) assms(2) by (simp add: extends_def setInInstrumentation_Some [of s1 b])
  finally show ?thesis using s1 assms
    by (intro exI [of _ "s1\<lparr>Extrae_inInstrumentation := Some False\<rparr>"] exI [of _ es]) (simp add: idle_def extends_def logged_def)
qed

end
