(* ===== verification/Openshmem_Correct.thy ===== *)
theory Openshmem_Correct
  imports Openshmem_Wrappers Tracer_Correct
begin

text \<open>
  What a program that calls OpenSHMEM shows in its trace, and that the wrappers do not change what it computes.
\<close>

section \<open>What an event shows\<close>

definition shown :: "event_t \<Rightarrow> 32 word \<times> 64 word \<times> 32 word" where
  "shown e = (ev_event e, ev_value e, Get_EvSize e)"

lemma openshmem_event_shown [simp]: "shown (openshmem_event s t ty v n) = (word_of_int ty, v, n)"
  "ev_event (openshmem_event s t ty v n) = word_of_int ty"
proof -
  have "ucast (drop_bit 32 (take_bit 32 x OR push_bit 32 (ucast n :: 64 word))) = n" for x :: "64 word"
    by (rule bit_eqI) (auto simp: bit_simps)
  then show "shown (openshmem_event s t ty v n) = (word_of_int ty, v, n)"
    by (simp add: shown_def openshmem_event_def Let_def local_event_def Get_EvSize_def)
qed (simp add: openshmem_event_def Let_def)

section \<open>Probes\<close>

definition shmem_ENTRY :: "int \<Rightarrow> (nat \<Rightarrow> 32 word result) \<Rightarrow> 'w tracer \<Rightarrow> 'w tracer result" where
  "shmem_ENTRY ev bytes s = (if EXTRAE_ON s
     then rbind (bytes (TASKID s)) (\<lambda>n. TRACE_OPENSHMEM_EVENT_AND_COUNTERS READ_LAST ev EVT_BEGIN n s) else Inr s)"

definition shmem_EXIT :: "int \<Rightarrow> 'w tracer \<Rightarrow> 'w tracer result" where
  "shmem_EXIT ev s = (if EXTRAE_ON s then TRACE_OPENSHMEM_EVENT_AND_COUNTERS TIME ev EVT_END EMPTY s else Inr s)"

definition foreign :: "int \<Rightarrow> bool" where
  "foreign ev \<longleftrightarrow> (word_of_int ev :: 32 word) \<notin> own_types"

lemma foreign_shmem: "52000000 \<le> ev \<Longrightarrow> ev < 52000132 \<Longrightarrow> foreign ev"
proof -
  assume ev: "52000000 \<le> ev" "ev < 52000132"
  have small: "uint (word_of_int k :: 32 word) = k" if "0 \<le> k" "k < 2 ^ 32" for k
    using that by (simp add: uint_word_of_int)
  have other: "(word_of_int ev :: 32 word) \<noteq> word_of_int k" if "0 \<le> k" "k < 2 ^ 32" "k \<noteq> ev" for k
  proof
    assume "(word_of_int ev :: 32 word) = word_of_int k"
    from arg_cong [OF this, of uint] show False using small [of k] small [of ev] that ev by simp
  qed
  have "\<forall>k \<in> {0..MAX_CALLERS}. (word_of_int ev :: 32 word) \<noteq> word_of_int (CALLER_EV + int k)"
    using ev by (intro ballI other) simp_all
  moreover have "(word_of_int ev :: 32 word) \<noteq> word_of_int k" if "k \<in> {FLUSH_EV, GETCPU_EV, TRACING_MODE_EV}" for k
    using that ev by (intro other) auto
  ultimately show "foreign ev" unfolding foreign_def own_types_def by blast
qed

lemma silent_shmem_callers: "(\<And>s. tracing s \<Longrightarrow> extends s [] (snd (time s))) \<Longrightarrow> silent (TRACE_OPENSHMEM_CALLERS time v)"
proof (rule addsI)
  fix s :: "'a tracer" assume time: "\<And>s :: 'a tracer. tracing s \<Longrightarrow> extends s [] (snd (time s))" and s: "tracing s"
  obtain t s1 where t: "time s = (t, s1)" by fastforce
  have s1: "extends s [] s1" using time [OF s] by (simp add: t)
  from addsE [OF silent_callers extends_tracing [OF s1], of FOUR_CALLS_AGO t CALLER_MPI] obtain s2 es where s2:
    "Extrae_trace_callers t FOUR_CALLS_AGO CALLER_MPI s1 = Inr s2" "extends s1 es s2" "calls es = []" by auto
  have "extends s es s2" using extends_trans [OF s1 s2(2)] by simp
  then show "\<exists>s1 es. TRACE_OPENSHMEM_CALLERS time v s = Inr s1 \<and> extends s es s1 \<and> calls es = []"
    using s2 s by (cases "v = EVT_BEGIN")
      (auto simp: TRACE_OPENSHMEM_CALLERS_def t intro: exI [of _ "[]"])
qed

lemma event_law:
  assumes "foreign ev" and time: "\<And>s :: 'w tracer. tracing s \<Longrightarrow> extends s [] (snd (time s))"
  shows "adds (TRACE_OPENSHMEM_EVENT_AND_COUNTERS time ev v n) (\<lambda>es. map shown es = [(word_of_int ev, v, n)])"
proof (rule addsI)
  fix s :: "'w tracer" assume s: "tracing s"
  obtain t s1 where t: "time s = (t, s1)" by fastforce
  have s1: "extends s [] s1" using time [OF s] by (simp add: t)
  let ?e = "openshmem_event s1 t ev v n"
  from BUFFER_INSERT_law [OF extends_tracing [OF s1], of ?e] obtain s2 es where s2:
    "BUFFER_INSERT ?e s1 = Inr s2" "extends s1 (es @ [?e]) s2" "own es" by blast
  from addsE [OF silent_shmem_callers [of time v, OF time] extends_tracing [OF s2(2)]] obtain s3 fs where s3:
    "TRACE_OPENSHMEM_CALLERS time v s2 = Inr s3" "extends s2 fs s3" "calls fs = []" .
  have "calls ((es @ [?e]) @ fs) = [?e]"
    using s2(3) s3(3) assms(1) by (simp add: own_calls foreign_def)
  moreover have "extends s ((es @ [?e]) @ fs) s3"
    using extends_trans [OF extends_trans [OF s1 s2(2)] s3(2)] by simp
  moreover have "TRACE_OPENSHMEM_EVENT_AND_COUNTERS time ev v n s = Inr s3"
    using s t s2(1) s3(1) by (simp add: TRACE_OPENSHMEM_EVENT_AND_COUNTERS_def TRACE_OPENSHMEM_EVENT_def tracing_def)
  ultimately show "\<exists>s1 es. TRACE_OPENSHMEM_EVENT_AND_COUNTERS time ev v n s = Inr s1 \<and> extends s es s1 \<and>
      map shown (calls es) = [(word_of_int ev, v, n)]"
    by (intro exI [of _ s3] exI [of _ "(es @ [?e]) @ fs"]) simp
qed

lemma time_extends: "tracing s \<Longrightarrow> extends s [] (snd (TIME s))" "tracing s \<Longrightarrow> extends s [] (snd (READ_LAST s))"
  by (simp_all add: TIME_def READ_LAST_def Let_def)

lemma exit_law: "foreign ev \<Longrightarrow> adds (shmem_EXIT ev) (\<lambda>es. map shown es = [(word_of_int ev, EVT_END, 0)])"
proof (rule addsI)
  fix s :: "'a tracer" assume "foreign ev" and s: "tracing s"
  from addsE [OF event_law [OF \<open>foreign ev\<close> time_extends(1)] s] obtain s1 es where
    "TRACE_OPENSHMEM_EVENT_AND_COUNTERS TIME ev EVT_END EMPTY s = Inr s1" "extends s es s1"
    "map shown (calls es) = [(word_of_int ev, EVT_END, EMPTY)]" .
  then show "\<exists>s1 es. shmem_EXIT ev s = Inr s1 \<and> extends s es s1 \<and> map shown (calls es) = [(word_of_int ev, EVT_END, 0)]"
    using s by (auto simp: shmem_EXIT_def EXTRAE_ON_def tracing_def)
qed

lemma entry_law:
  assumes "foreign ev" and "tracing s" and "bytes (TASKID s) = Inr n"
  shows "\<exists>s1 es. shmem_ENTRY ev bytes s = Inr s1 \<and> extends s es s1 \<and> map shown (calls es) = [(word_of_int ev, EVT_BEGIN, n)]"
proof -
  from addsE [OF event_law [OF assms(1) time_extends(2)] assms(2)] obtain s1 es where
    "TRACE_OPENSHMEM_EVENT_AND_COUNTERS READ_LAST ev EVT_BEGIN n s = Inr s1" "extends s es s1"
    "map shown (calls es) = [(word_of_int ev, EVT_BEGIN, n)]" .
  then show ?thesis using assms(2,3) by (auto simp: shmem_ENTRY_def EXTRAE_ON_def tracing_def)
qed

section \<open>A wrapper\<close>

definition wraps :: "'w shmem_wrapper \<Rightarrow> 'w shmem_real option \<Rightarrow> c_value list \<Rightarrow> int \<Rightarrow> (nat \<Rightarrow> 32 word result) \<Rightarrow> bool" where
  "wraps g real args ev bytes \<longleftrightarrow> (\<exists>entry. g = instrumented 2 entry real args (shmem_EXIT ev) \<and>
     (\<forall>s. tracejant s \<longrightarrow> entry s = shmem_ENTRY ev bytes s))"

lemma wrapsI:
  assumes "\<And>s. tracejant s \<Longrightarrow> entry s = shmem_ENTRY ev bytes s" and "\<And>s. leave s = shmem_EXIT ev s"
  shows "wraps (instrumented 2 entry real args leave) real args ev bytes"
proof -
  have "leave = shmem_EXIT ev" using assms(2) by (rule ext)
  then show ?thesis using assms(1) unfolding wraps_def by blast
qed

lemmas probe_forms = shmem_ENTRY_def shmem_EXIT_def macro_argument_def rbind_simps

lemma call_real_law:
  assumes "tracing s" and "f args (world s) = Inr (v, w)"
  shows "call_real f args s = Inr (v, s\<lparr>world := w\<rparr>)" and "tracing (s\<lparr>world := w\<rparr>)"
  using assms by (simp_all add: call_real_def)

text \<open>A wrapper that is called outside the instrumentation calls the function between its two events.\<close>

lemma wraps_law:
  assumes g: "wraps g (Some f) args ev bytes" and "foreign ev" and s: "idle s"
    and f: "f args (world s) = Inr (v, w)" and n: "bytes (TASKID s) = Inr n"
  shows "\<exists>s1 es. g s = Inr (v, s1) \<and> idle s1 \<and> logged s1 = logged s @ es \<and> world s1 = w \<and> TASKID s1 = TASKID s \<and>
    map shown (calls es) = [(word_of_int ev, EVT_BEGIN, n), (word_of_int ev, EVT_END, 0)]"
proof -
  from g obtain entry where g: "g = instrumented 2 entry (Some f) args (shmem_EXIT ev)"
    and entry: "\<And>s. tracejant s \<Longrightarrow> entry s = shmem_ENTRY ev bytes s" by (auto simp: wraps_def)
  from Enter_law [OF s, of 2] obtain s1 es1 where s1: "Backend_Enter_Instrumentation 2 s = Inr s1"
    "extends (busy s) es1 s1" "calls es1 = []" by blast
  note t1 = extends_tracing [OF s1(2)]
  have "bytes (TASKID s1) = Inr n" using n s1(2) by (simp add: extends_def busy_def)
  from entry_law [OF assms(2) t1, of bytes, OF this] obtain s2 es2 where s2: "shmem_ENTRY ev bytes s1 = Inr s2"
    "extends s1 es2 s2" "map shown (calls es2) = [(word_of_int ev, EVT_BEGIN, n)]" by metis
  have e2: "entry s1 = Inr s2" using entry [of s1] s2(1) t1 by (simp add: tracing_def)
  have "f args (world s2) = Inr (v, w)" using f s1(2) s2(2) by (simp add: extends_def busy_def)
  note real = call_real_law [OF extends_tracing [OF s2(2)], of f args v w, OF this]
  from addsE [OF exit_law [OF assms(2)] real(2)] obtain s4 es4 where s4: "shmem_EXIT ev (s2\<lparr>world := w\<rparr>) = Inr s4"
    "extends (s2\<lparr>world := w\<rparr>) es4 s4" "map shown (calls es4) = [(word_of_int ev, EVT_END, 0)]" .
  have flags: "Extrae_inInstrumentation s4 = Some True" "Extrae_inSampling s4 = Some False"
    using s1(2) s2(2) s4(2) s by (simp_all add: extends_def busy_def idle_def)
  from Leave_law [OF extends_tracing [OF s4(2)] flags] obtain s5 es5 where s5: "Backend_Leave_Instrumentation s4 = Inr s5"
    "idle s5" "logged s5 = logged s4 @ es5" "calls es5 = []" "world s5 = world s4" "TASKID s5 = TASKID s4" by blast
  have on: "EXTRAE_ON s" "\<not> Backend_inInstrumentation s"
    using s by (simp_all add: idle_def tracing_def EXTRAE_ON_def Backend_inInstrumentation_def)
  have "g s = Inr (v, s5)"
    by (simp add: g instrumented_def on s1(1) e2 real(1) s4(1) s5(1))
  moreover have "logged s5 = logged s @ (es1 @ es2 @ es4 @ es5)"
    using s1(2) s2(2) s4(2) s5(3) by (simp add: extends_def busy_def logged_def)
  moreover have "world s5 = w" "TASKID s5 = TASKID s" using s1(2) s2(2) s4(2) s5(5,6) by (simp_all add: extends_def busy_def)
  ultimately show ?thesis using s1(3) s2(3) s4(3) s5(2,4)
    by (intro exI [of _ s5] exI [of _ "es1 @ es2 @ es4 @ es5"]) simp
qed

section \<open>The calls\<close>

lemma wraps_setup: "wraps (run_setup hooks c) (hooks (name_setup c)) (args_setup c) (event_setup c) (bytes_setup c)"
  by (cases c) (simp_all only: run_setup.simps name_setup.simps args_setup.simps event_setup.simps wrappers_setup,
      (rule wrapsI; simp add: probes_setup probe_forms)+)

lemma range_setup: "52000000 \<le> event_setup c \<and> event_setup c < 52000132"
  by (cases c) simp_all

lemma wraps_put: "wraps (run_put hooks c) (hooks (name_put c)) (args_put c) (event_put c) (bytes_put c)"
  by (cases c) (simp_all only: run_put.simps name_put.simps args_put.simps event_put.simps wrappers_put,
      (rule wrapsI; simp add: probes_put probe_forms)+)

lemma range_put: "52000000 \<le> event_put c \<and> event_put c < 52000132"
  by (cases c) simp_all

lemma wraps_iput: "wraps (run_iput hooks c) (hooks (name_iput c)) (args_iput c) (event_iput c) (bytes_iput c)"
  by (cases c) (simp_all only: run_iput.simps name_iput.simps args_iput.simps event_iput.simps wrappers_iput,
      (rule wrapsI; simp add: probes_iput probe_forms)+)

lemma range_iput: "52000000 \<le> event_iput c \<and> event_iput c < 52000132"
  by (cases c) simp_all

lemma wraps_get: "wraps (run_get hooks c) (hooks (name_get c)) (args_get c) (event_get c) (bytes_get c)"
  by (cases c) (simp_all only: run_get.simps name_get.simps args_get.simps event_get.simps wrappers_get,
      (rule wrapsI; simp add: probes_get probe_forms)+)

lemma range_get: "52000000 \<le> event_get c \<and> event_get c < 52000132"
  by (cases c) simp_all

lemma wraps_iget: "wraps (run_iget hooks c) (hooks (name_iget c)) (args_iget c) (event_iget c) (bytes_iget c)"
  by (cases c) (simp_all only: run_iget.simps name_iget.simps args_iget.simps event_iget.simps wrappers_iget,
      (rule wrapsI; simp add: probes_iget probe_forms)+)

lemma range_iget: "52000000 \<le> event_iget c \<and> event_iget c < 52000132"
  by (cases c) simp_all

lemma wraps_atomic: "wraps (run_atomic hooks c) (hooks (name_atomic c)) (args_atomic c) (event_atomic c) (bytes_atomic c)"
  by (cases c) (simp_all only: run_atomic.simps name_atomic.simps args_atomic.simps event_atomic.simps wrappers_atomic,
      (rule wrapsI; simp add: probes_atomic probe_forms)+)

lemma range_atomic: "52000000 \<le> event_atomic c \<and> event_atomic c < 52000132"
  by (cases c) simp_all

lemma wraps_collective: "wraps (run_collective hooks c) (hooks (name_collective c)) (args_collective c) (event_collective c) (bytes_collective c)"
  by (cases c) (simp_all only: run_collective.simps name_collective.simps args_collective.simps event_collective.simps wrappers_collective,
      (rule wrapsI; simp add: probes_collective probe_forms)+)

lemma range_collective: "52000000 \<le> event_collective c \<and> event_collective c < 52000132"
  by (cases c) simp_all

lemma wraps_sync: "wraps (run_sync hooks c) (hooks (name_sync c)) (args_sync c) (event_sync c) (bytes_sync c)"
  by (cases c) (simp_all only: run_sync.simps name_sync.simps args_sync.simps event_sync.simps wrappers_sync,
      (rule wrapsI; simp add: probes_sync probe_forms)+)

lemma range_sync: "52000000 \<le> event_sync c \<and> event_sync c < 52000132"
  by (cases c) simp_all

lemma wraps_call: "wraps (run_shmem hooks c) (hooks (name_of c)) (args_of c) (event_of c) (bytes_of c)"
  by (cases c) (simp_all only: run_shmem.simps name_of.simps args_of.simps event_of.simps bytes_of.simps [abs_def]
    wraps_setup wraps_put wraps_iput wraps_get wraps_iget wraps_atomic wraps_collective wraps_sync)

lemma event_range: "52000000 \<le> event_of c" "event_of c < 52000132"
  by (cases c; simp add: range_setup range_put range_iput range_get range_iget range_atomic range_collective range_sync)+

lemma foreign_call: "foreign (event_of c)"
  by (rule foreign_shmem [OF event_range])

section \<open>A program\<close>

text \<open>The calls of a program in order, through the wrappers and without them, and the events of a call.\<close>

fun run_program :: "'w shmem_hooks \<Rightarrow> shmem_call list \<Rightarrow> 'w tracer \<Rightarrow> (c_value list \<times> 'w tracer) result" where
  "run_program hooks [] s = Inr ([], s)"
| "run_program hooks (c # cs) s = rbind (run_shmem hooks c s) (\<lambda>(v, s). rmap (\<lambda>(vs, s). (v # vs, s)) (run_program hooks cs s))"

fun plain_program :: "'w shmem_hooks \<Rightarrow> shmem_call list \<Rightarrow> 'w \<Rightarrow> (c_value list \<times> 'w) result" where
  "plain_program hooks [] w = Inr ([], w)"
| "plain_program hooks (c # cs) w = (case hooks (name_of c) of None \<Rightarrow> Inl (Exit (-1))
     | Some f \<Rightarrow> rbind (f (args_of c) w) (\<lambda>(v, w). rmap (\<lambda>(vs, w). (v # vs, w)) (plain_program hooks cs w)))"

definition call_events :: "nat \<Rightarrow> shmem_call \<Rightarrow> (32 word \<times> 64 word \<times> 32 word) list" where
  "call_events task c = (case bytes_of c task of Inl e \<Rightarrow> []
     | Inr n \<Rightarrow> [(word_of_int (event_of c), EVT_BEGIN, n), (word_of_int (event_of c), EVT_END, 0)])"

lemma calls_law:
  assumes "idle s" and "plain_program hooks cs (world s) = Inr (vs, w)"
    and "\<forall>c \<in> set cs. \<exists>n. bytes_of c (TASKID s) = Inr n"
  shows "\<exists>s1 es. run_program hooks cs s = Inr (vs, s1) \<and> world s1 = w \<and> idle s1 \<and> logged s1 = logged s @ es \<and>
    map shown (calls es) = concat (map (call_events (TASKID s)) cs)"
  using assms
proof (induction cs arbitrary: s vs)
  case Nil
  then show ?case by (intro exI [of _ s] exI [of _ "[]"]) simp
next
  case (Cons c cs)
  from Cons.prems(2) obtain f v w1 vs1 where f: "hooks (name_of c) = Some f" "f (args_of c) (world s) = Inr (v, w1)"
    "plain_program hooks cs w1 = Inr (vs1, w)" "vs = v # vs1"
    by (auto split: option.splits simp: result_simps)
  from Cons.prems(3) obtain n where n: "bytes_of c (TASKID s) = Inr n" by auto
  from wraps_call [of hooks c] have "wraps (run_shmem hooks c) (Some f) (args_of c) (event_of c) (bytes_of c)" by (simp add: f(1))
  from wraps_law [OF this foreign_call Cons.prems(1) f(2) n] obtain s1 es1 where s1: "run_shmem hooks c s = Inr (v, s1)"
    "idle s1" "logged s1 = logged s @ es1" "world s1 = w1" "TASKID s1 = TASKID s"
    "map shown (calls es1) = [(word_of_int (event_of c), EVT_BEGIN, n), (word_of_int (event_of c), EVT_END, 0)]" by metis
  from Cons.IH [of s1 vs1] s1 f(3) Cons.prems(3) obtain s2 es2 where s2: "run_program hooks cs s1 = Inr (vs1, s2)"
    "world s2 = w" "idle s2" "logged s2 = logged s1 @ es2"
    "map shown (calls es2) = concat (map (call_events (TASKID s)) cs)" by auto
  moreover have "call_events (TASKID s) c = map shown (calls es1)" using n s1(6) by (simp add: call_events_def)
  ultimately show ?case using s1(1-5) f(4)
    by (intro exI [of _ s2] exI [of _ "es1 @ es2"]) simp
qed

section \<open>The size of a transfer\<close>

text \<open>
  What a one-sided call moves by the conventions of OpenSHMEM, read from the name of the function and its arguments
  alone: \<open>shmem_\<close>, the type, then \<open>p\<close> or \<open>g\<close> (one element), \<open>put\<close> or \<open>get\<close> (their third argument counts the elements),
  \<open>iput\<close> or \<open>iget\<close> (the fifth one does, after the strides); without a type the number at the end is the bits of an
  element, which is a byte for \<open>mem\<close>.
\<close>

definition type_sizes :: "(string \<times> nat) list" where
  "type_sizes = [(''char'', 1), (''short'', 2), (''int'', 4), (''float'', 4), (''long'', 8), (''longlong'', 8), (''double'', 8),
     (''longdouble'', 16), (''32'', 4), (''64'', 8), (''128'', 16), ('''', 1)]"

definition name_parts :: "string \<Rightarrow> string \<times> string" where
  "name_parts name =
     (let rest = drop (length ''shmem_'') name; word = takeWhile (\<lambda>c. c \<noteq> CHR ''_'') rest in
      if word = rest then (dropWhile (\<lambda>c. c \<notin> set ''0123456789'') rest, rest) else (word, drop (Suc (length word)) rest))"

fun elements :: "string \<Rightarrow> c_value list \<Rightarrow> nat" where
  "elements op args = (if op \<in> {''p'', ''g''} then 1
     else case args ! (if take 1 op = ''i'' then 4 else 2) of C_long n \<Rightarrow> unat n | _ \<Rightarrow> 0)"

definition moved :: "string \<Rightarrow> c_value list \<Rightarrow> nat" where
  "moved name args = (case name_parts name of (ty, op) \<Rightarrow> the (map_of type_sizes ty) * elements op args)"

fun one_sided :: "shmem_call \<Rightarrow> bool" where
  "one_sided (Call_put c) = True"
| "one_sided (Call_iput c) = True"
| "one_sided (Call_get c) = True"
| "one_sided (Call_iget c) = True"
| "one_sided c = False"

lemma narrow_of_nat: "(ucast (n * of_nat k :: 64 word) :: 32 word) = of_nat (k * unat n)"
proof -
  have "(of_nat (m mod 2 ^ 64) :: 32 word) = of_nat m" for m
    by (rule word_unat_eq_iff [THEN iffD2]) (simp add: unat_of_nat mod_mod_cancel)
  moreover have "unat (n * of_nat k :: 64 word) = (k * unat n) mod 2 ^ 64"
    by (simp add: unat_word_ariths unat_of_nat mod_mult_right_eq mult.commute)
  moreover have "(ucast (n * of_nat k :: 64 word) :: 32 word) = of_nat (unat (n * of_nat k :: 64 word))" by simp
  ultimately show ?thesis by metis
qed

lemma narrow_times:
  "(ucast (n * 2 :: 64 word) :: 32 word) = of_nat (2 * unat n)" "(ucast (n * 4 :: 64 word) :: 32 word) = of_nat (4 * unat n)"
  "(ucast (n * 8 :: 64 word) :: 32 word) = of_nat (8 * unat n)" "(ucast (n * 16 :: 64 word) :: 32 word) = of_nat (16 * unat n)"
  using narrow_of_nat [of n 2] narrow_of_nat [of n 4] narrow_of_nat [of n 8] narrow_of_nat [of n 16]
  by (simp_all only: of_nat_numeral)

lemma sizes_of_types:
  "map_of type_sizes ''char'' = Some 1"
  "map_of type_sizes ''short'' = Some 2"
  "map_of type_sizes ''int'' = Some 4"
  "map_of type_sizes ''float'' = Some 4"
  "map_of type_sizes ''long'' = Some 8"
  "map_of type_sizes ''longlong'' = Some 8"
  "map_of type_sizes ''double'' = Some 8"
  "map_of type_sizes ''longdouble'' = Some 16"
  "map_of type_sizes ''32'' = Some 4"
  "map_of type_sizes ''64'' = Some 8"
  "map_of type_sizes ''128'' = Some 16"
  "map_of type_sizes '''' = Some 1"
  by code_simp+

lemma parts_put:
  "name_parts ''shmem_double_put'' = (''double'', ''put'')"
  "name_parts ''shmem_float_put'' = (''float'', ''put'')"
  "name_parts ''shmem_int_put'' = (''int'', ''put'')"
  "name_parts ''shmem_long_put'' = (''long'', ''put'')"
  "name_parts ''shmem_longdouble_put'' = (''longdouble'', ''put'')"
  "name_parts ''shmem_longlong_put'' = (''longlong'', ''put'')"
  "name_parts ''shmem_put32'' = (''32'', ''put32'')"
  "name_parts ''shmem_put64'' = (''64'', ''put64'')"
  "name_parts ''shmem_put128'' = (''128'', ''put128'')"
  "name_parts ''shmem_putmem'' = ('''', ''putmem'')"
  "name_parts ''shmem_short_put'' = (''short'', ''put'')"
  "name_parts ''shmem_char_p'' = (''char'', ''p'')"
  "name_parts ''shmem_short_p'' = (''short'', ''p'')"
  "name_parts ''shmem_int_p'' = (''int'', ''p'')"
  "name_parts ''shmem_long_p'' = (''long'', ''p'')"
  "name_parts ''shmem_longlong_p'' = (''longlong'', ''p'')"
  "name_parts ''shmem_float_p'' = (''float'', ''p'')"
  "name_parts ''shmem_double_p'' = (''double'', ''p'')"
  "name_parts ''shmem_longdouble_p'' = (''longdouble'', ''p'')"
  by code_simp+

lemma parts_iput:
  "name_parts ''shmem_double_iput'' = (''double'', ''iput'')"
  "name_parts ''shmem_float_iput'' = (''float'', ''iput'')"
  "name_parts ''shmem_int_iput'' = (''int'', ''iput'')"
  "name_parts ''shmem_iput32'' = (''32'', ''iput32'')"
  "name_parts ''shmem_iput64'' = (''64'', ''iput64'')"
  "name_parts ''shmem_iput128'' = (''128'', ''iput128'')"
  "name_parts ''shmem_long_iput'' = (''long'', ''iput'')"
  "name_parts ''shmem_longdouble_iput'' = (''longdouble'', ''iput'')"
  "name_parts ''shmem_longlong_iput'' = (''longlong'', ''iput'')"
  "name_parts ''shmem_short_iput'' = (''short'', ''iput'')"
  by code_simp+

lemma parts_get:
  "name_parts ''shmem_double_get'' = (''double'', ''get'')"
  "name_parts ''shmem_float_get'' = (''float'', ''get'')"
  "name_parts ''shmem_get32'' = (''32'', ''get32'')"
  "name_parts ''shmem_get64'' = (''64'', ''get64'')"
  "name_parts ''shmem_get128'' = (''128'', ''get128'')"
  "name_parts ''shmem_getmem'' = ('''', ''getmem'')"
  "name_parts ''shmem_int_get'' = (''int'', ''get'')"
  "name_parts ''shmem_long_get'' = (''long'', ''get'')"
  "name_parts ''shmem_longdouble_get'' = (''longdouble'', ''get'')"
  "name_parts ''shmem_longlong_get'' = (''longlong'', ''get'')"
  "name_parts ''shmem_short_get'' = (''short'', ''get'')"
  "name_parts ''shmem_char_g'' = (''char'', ''g'')"
  "name_parts ''shmem_short_g'' = (''short'', ''g'')"
  "name_parts ''shmem_int_g'' = (''int'', ''g'')"
  "name_parts ''shmem_long_g'' = (''long'', ''g'')"
  "name_parts ''shmem_longlong_g'' = (''longlong'', ''g'')"
  "name_parts ''shmem_float_g'' = (''float'', ''g'')"
  "name_parts ''shmem_double_g'' = (''double'', ''g'')"
  "name_parts ''shmem_longdouble_g'' = (''longdouble'', ''g'')"
  by code_simp+

lemma parts_iget:
  "name_parts ''shmem_double_iget'' = (''double'', ''iget'')"
  "name_parts ''shmem_float_iget'' = (''float'', ''iget'')"
  "name_parts ''shmem_iget32'' = (''32'', ''iget32'')"
  "name_parts ''shmem_iget64'' = (''64'', ''iget64'')"
  "name_parts ''shmem_iget128'' = (''128'', ''iget128'')"
  "name_parts ''shmem_int_iget'' = (''int'', ''iget'')"
  "name_parts ''shmem_long_iget'' = (''long'', ''iget'')"
  "name_parts ''shmem_longdouble_iget'' = (''longdouble'', ''iget'')"
  "name_parts ''shmem_longlong_iget'' = (''longlong'', ''iget'')"
  "name_parts ''shmem_short_iget'' = (''short'', ''iget'')"
  by code_simp+

lemma elements_of:
  "elements ''g'' args = 1"
  "elements ''get'' args = (case args ! 2 of C_long n \<Rightarrow> unat n | _ \<Rightarrow> 0)"
  "elements ''get128'' args = (case args ! 2 of C_long n \<Rightarrow> unat n | _ \<Rightarrow> 0)"
  "elements ''get32'' args = (case args ! 2 of C_long n \<Rightarrow> unat n | _ \<Rightarrow> 0)"
  "elements ''get64'' args = (case args ! 2 of C_long n \<Rightarrow> unat n | _ \<Rightarrow> 0)"
  "elements ''getmem'' args = (case args ! 2 of C_long n \<Rightarrow> unat n | _ \<Rightarrow> 0)"
  "elements ''iget'' args = (case args ! 4 of C_long n \<Rightarrow> unat n | _ \<Rightarrow> 0)"
  "elements ''iget128'' args = (case args ! 4 of C_long n \<Rightarrow> unat n | _ \<Rightarrow> 0)"
  "elements ''iget32'' args = (case args ! 4 of C_long n \<Rightarrow> unat n | _ \<Rightarrow> 0)"
  "elements ''iget64'' args = (case args ! 4 of C_long n \<Rightarrow> unat n | _ \<Rightarrow> 0)"
  "elements ''iput'' args = (case args ! 4 of C_long n \<Rightarrow> unat n | _ \<Rightarrow> 0)"
  "elements ''iput128'' args = (case args ! 4 of C_long n \<Rightarrow> unat n | _ \<Rightarrow> 0)"
  "elements ''iput32'' args = (case args ! 4 of C_long n \<Rightarrow> unat n | _ \<Rightarrow> 0)"
  "elements ''iput64'' args = (case args ! 4 of C_long n \<Rightarrow> unat n | _ \<Rightarrow> 0)"
  "elements ''p'' args = 1"
  "elements ''put'' args = (case args ! 2 of C_long n \<Rightarrow> unat n | _ \<Rightarrow> 0)"
  "elements ''put128'' args = (case args ! 2 of C_long n \<Rightarrow> unat n | _ \<Rightarrow> 0)"
  "elements ''put32'' args = (case args ! 2 of C_long n \<Rightarrow> unat n | _ \<Rightarrow> 0)"
  "elements ''put64'' args = (case args ! 2 of C_long n \<Rightarrow> unat n | _ \<Rightarrow> 0)"
  "elements ''putmem'' args = (case args ! 2 of C_long n \<Rightarrow> unat n | _ \<Rightarrow> 0)"
  by simp_all

declare elements.simps [simp del]

lemmas moved_simps = moved_def prod.case option.sel sizes_of_types elements_of narrow_times

lemma moved_put: "bytes_put c task = Inr (of_nat (moved (name_put c) (args_put c)))"
  by (cases c) (simp_all only: bytes_put.simps name_put.simps args_put.simps moved_simps parts_put,
    simp_all)

lemma moved_iput: "bytes_iput c task = Inr (of_nat (moved (name_iput c) (args_iput c)))"
  by (cases c) (simp_all only: bytes_iput.simps name_iput.simps args_iput.simps moved_simps parts_iput,
    simp_all)

lemma moved_get: "bytes_get c task = Inr (of_nat (moved (name_get c) (args_get c)))"
  by (cases c) (simp_all only: bytes_get.simps name_get.simps args_get.simps moved_simps parts_get,
    simp_all)

lemma moved_iget: "bytes_iget c task = Inr (of_nat (moved (name_iget c) (args_iget c)))"
  by (cases c) (simp_all only: bytes_iget.simps name_iget.simps args_iget.simps moved_simps parts_iget,
    simp_all)

lemma moved_bytes: "one_sided c \<Longrightarrow> bytes_of c task = Inr (of_nat (moved (name_of c) (args_of c)))"
  by (cases c) (simp_all add: moved_put moved_iput moved_get moved_iget)

text \<open>The events of a call, with the size its probe gives.\<close>

definition event_pair :: "shmem_call \<Rightarrow> 32 word \<Rightarrow> (32 word \<times> 64 word \<times> 32 word) list" where
  "event_pair c n = [(word_of_int (event_of c), EVT_BEGIN, n), (word_of_int (event_of c), EVT_END, 0)]"

lemma call_events_pairs:
  assumes "\<forall>c \<in> set cs. \<exists>n. bytes_of c task = Inr n"
  shows "\<exists>ns. concat (map (call_events task) cs) = concat (map2 event_pair cs ns) \<and>
    list_all2 (\<lambda>c n. one_sided c \<longrightarrow> n = of_nat (moved (name_of c) (args_of c))) cs ns"
  using assms
proof (induction cs)
  case (Cons c cs)
  then obtain n ns where "bytes_of c task = Inr n" "concat (map (call_events task) cs) = concat (map2 event_pair cs ns)"
    "list_all2 (\<lambda>c n. one_sided c \<longrightarrow> n = of_nat (moved (name_of c) (args_of c))) cs ns" by auto
  moreover from this(1) have "call_events task c = event_pair c n" by (simp add: call_events_def event_pair_def)
  ultimately show ?case using moved_bytes [of c task] by (intro exI [of _ "n # ns"]) auto
qed simp

lemma calls_off:
  assumes "\<not> EXTRAE_ON s \<or> Backend_inInstrumentation s"
  shows "run_program hooks cs s = rmap (\<lambda>(vs, w). (vs, s\<lparr>world := w\<rparr>)) (plain_program hooks cs (world s))"
  using assms
proof (induction cs arbitrary: s)
  case (Cons c cs)
  from wraps_call [of hooks c] obtain entry where "run_shmem hooks c = instrumented 2 entry (hooks (name_of c)) (args_of c) (shmem_EXIT (event_of c))"
    by (auto simp: wraps_def)
  moreover have "\<not> (EXTRAE_ON s \<and> \<not> Backend_inInstrumentation s)" using Cons.prems by blast
  ultimately have step: "run_shmem hooks c s = (case hooks (name_of c) of None \<Rightarrow> Inl (Exit (-1)) | Some f \<Rightarrow> call_real f (args_of c) s)"
    by (cases "hooks (name_of c)") (auto simp add: instrumented_def)
  have IH: "run_program hooks cs (s\<lparr>world := w\<rparr>) = rmap (\<lambda>(vs, w). (vs, s\<lparr>world := w\<rparr>)) (plain_program hooks cs w)" for w
    using Cons.IH [of "s\<lparr>world := w\<rparr>"] Cons.prems by (simp add: EXTRAE_ON_def Backend_inInstrumentation_def)
  show ?case
  proof (cases "hooks (name_of c)")
    case (Some f)
    show ?thesis
    proof (cases "f (args_of c) (world s)")
      case (Inr r)
      then show ?thesis using Some
        by (cases r, cases "plain_program hooks cs (snd r)") (auto simp: step call_real_def IH)
    qed (simp add: step Some call_real_def)
  qed (simp add: step)
qed simp

end
