(* ===== verification/Call_Labels.thy ===== *)
theory Call_Labels
  imports Used_Operations
begin

text \<open>
  What the labels file of the trace (the \<open>.pcf\<close> file) says of each group of operations: the functions
  \<open>WriteEnabled\<close> of \<open>omp_prv_events.c\<close>, \<open>java_prv_events.c\<close>, \<open>cuda_prv_events.c\<close>, \<open>misc_prv_events.c\<close>,
  \<open>mpi_prv_events.c\<close> and \<open>openshmem_prv_events.c\<close>, and the names of the OpenSHMEM calls
  (\<open>common/openshmem_events.c\<close>). The result is the text that is written.
\<close>

unbundle bit_operations_syntax

text \<open>Lines of text.\<close>

definition lns :: "string list \<Rightarrow> string" where
  "lns ls = concat (map (\<lambda>l. l @ newline) ls)"

section \<open>OpenMP\<close>

text \<open>Without the labels of \<open>addr2info.c\<close>, which need \<open>HAVE_BFD\<close>.\<close>

definition OMPEvent_WriteEnabledOperations :: "seen \<Rightarrow> string" where
  "OMPEvent_WriteEnabledOperations s = concat [
     if is_flagged In_omp s 6 then lns [
         ''EVENT_TYPE'', ''0 '' @ print_d JOIN_EV @ ''  OpenMP Worksharing join'', ''VALUES'', ''0 End'',
         ''1 Join (w wait)'', ''2 Join (w/o wait)'', []] else [],
     if is_flagged In_omp s 5 then lns [
         ''EVENT_TYPE'', ''0 '' @ print_d WORK_EV @ ''  OpenMP Worksharing work dispatcher'', ''VALUES'', ''0 End'',
         ''1 Begin'', []] else [],
     if is_flagged In_omp s 0 then lns [
         ''EVENT_TYPE'', ''0 '' @ print_d PAR_EV @ ''  Parallel (OMP)'', ''VALUES'', ''0 close'', ''1 DO (open)'',
         ''2 SECTIONS (open)'', ''3 REGION (open)'', []] else [],
     if is_flagged In_omp s 1 then lns [
         ''EVENT_TYPE'', ''0 '' @ print_d WSH_EV @ '' Worksharing (OMP)'', ''VALUES'', ''0 End'', ''4 DO '',
         ''5 SECTIONS'', ''6 SINGLE'', []] else [],
     if is_flagged In_omp s 4 then lns [
         ''EVENT_TYPE'', ''0 '' @ print_d NAMEDCRIT_EV @ '' OpenMP named-Lock'', ''VALUES'', ''0 Unlocked status'',
         ''3 Lock'', ''5 Unlock'', ''6 Locked status'', [], ''EVENT_TYPE'',
         ''0 '' @ print_d NAMEDCRIT_NAME_EV @ '' OpenMP named-Lock address name''] else [],
     if is_flagged In_omp s 3 then lns [
         ''EVENT_TYPE'', ''0 '' @ print_d UNNAMEDCRIT_EV @ '' OpenMP unnamed-Lock'', ''VALUES'',
         ''0 Unlocked status'', ''3 Lock'', ''5 Unlock'', ''6 Locked status'', []] else [],
     if is_flagged In_omp s 7 then lns [
         ''EVENT_TYPE'', ''0 '' @ print_d BARRIEROMP_EV @ '' OpenMP barrier'', ''VALUES'', ''0 End'', ''1 Begin''] else [],
     if is_flagged In_omp s 8 then lns [
         ''EVENT_TYPE'', ''0 '' @ print_d OMPSETNUMTHREADS_EV @ '' OpenMP set num threads'',
         ''0 '' @ print_d OMPGETNUMTHREADS_EV @ '' OpenMP get num threads'', ''VALUES'', ''0 End'', ''1 Begin''] else [],
     if is_flagged In_omp s 10 then lns [
         ''EVENT_TYPE'', ''0 '' @ print_d TASKWAIT_EV @ '' OMP taskwait'', ''VALUES'', ''0 End'', ''1 Begin'', []] else [],
     if is_flagged In_omp s 20 then lns [
         ''EVENT_TYPE'', ''0 '' @ print_d TASKLOOPID_EV @ '' Taskloop Identifier'', [], ''EVENT_TYPE'',
         ''0 '' @ print_d TASKLOOP_EV @ '' OMP taskloop'', ''VALUES'', ''0 End'', ''1 Begin'', []] else [],
     if is_flagged In_omp s 21 then lns [
         ''EVENT_TYPE'', ''0 '' @ print_d ORDERED_EV @ '' OpenMP ordered section'', ''VALUES'', ''0 Outside ordered'',
         ''3 Waiting to enter'', ''5 Signaling the exit'', ''6 Inside ordered'', []] else [],
     if is_flagged In_omp s 11 then lns [
         ''EVENT_TYPE'', ''0 '' @ print_d OMPT_CRITICAL_EV @ '' OMP critical'', ''VALUES'', ''0 End'', ''1 Begin'', []] else [],
     if is_flagged In_omp s 12 then lns [
         ''EVENT_TYPE'', ''0 '' @ print_d OMPT_ATOMIC_EV @ '' OMP atomic'', ''VALUES'', ''0 End'', ''1 Begin'', []] else [],
     if is_flagged In_omp s 13 then lns [
         ''EVENT_TYPE'', ''0 '' @ print_d OMPT_LOOP_EV @ '' OMP loop'', ''VALUES'', ''0 End'', ''1 Begin'', []] else [],
     if is_flagged In_omp s 14 then lns [
         ''EVENT_TYPE'', ''0 '' @ print_d OMPT_WORKSHARE_EV @ '' OMP workshare'', ''VALUES'', ''0 End'', ''1 Begin'',
         []] else [],
     if is_flagged In_omp s 15 then lns [
         ''EVENT_TYPE'', ''0 '' @ print_d OMPT_SECTIONS_EV @ '' OMP sections'', ''VALUES'', ''0 End'', ''1 Begin'', []] else [],
     if is_flagged In_omp s 16 then lns [
         ''EVENT_TYPE'', ''0 '' @ print_d OMPT_SINGLE_EV @ '' OMP single'', ''VALUES'', ''0 End'', ''1 Begin'', []] else [],
     if is_flagged In_omp s 17 then lns [
         ''EVENT_TYPE'', ''0 '' @ print_d OMPT_MASTER_EV @ '' OMP master'', ''VALUES'', ''0 End'', ''1 Begin'', []] else [],
     if is_flagged In_omp s 18 then lns [
         ''EVENT_TYPE'', ''0 '' @ print_d TASKGROUP_START_EV @ '' Taskgroup calls'', ''VALUES'', ''0 Outside'',
         ''1 Start'', ''2 End'', ''EVENT_TYPE'',
         ''0 '' @ print_d TASKGROUP_INGROUP_DEEP_EV @ '' Within Taskgroup region'', ''VALUES'', ''0 End'',
         ''1 Begin'', []] else [],
     if is_flagged In_omp s 9 then lns [
         ''EVENT_TYPE'', ''0 '' @ print_d TASKID_EV @ '' Task Identifier'', []] else [],
     if is_flagged In_omp s 19 then lns [
         ''EVENT_TYPE'', ''0 65000000 Number of OpenMP instantiated tasks'',
         ''0 65000001 Number of OpenMP executed tasks'', []] else []]"

section \<open>Java\<close>

definition JavaEvent_WriteEnabledOperations :: "seen \<Rightarrow> string" where
  "JavaEvent_WriteEnabledOperations s = concat [
     if is_flagged In_java s 0 then lns [
         ''EVENT_TYPE'', ''0 '' @ print_d JAVA_JVMTI_GARBAGECOLLECTOR_EV @ '' Java Garbage collector'', ''VALUES'',
         ''0 Garbage collector disabled'', ''1 Garbage collector enabled'', []] else [],
     if is_flagged In_java s 1 then lns [
         ''EVENT_TYPE'', ''0 '' @ print_d JAVA_JVMTI_EXCEPTION_EV @ '' Java exception'', ''VALUES'',
         ''0 No exeception or last exception caught'', ''1 In-flight exception'', []] else [],
     if is_flagged In_java s 2 then lns [
         ''EVENT_TYPE'', ''0 '' @ print_d JAVA_JVMTI_OBJECT_ALLOC_EV @ '' Java object allocation'', []] else [],
     if is_flagged In_java s 3 then lns [
         ''EVENT_TYPE'', ''0 '' @ print_d JAVA_JVMTI_OBJECT_FREE_EV @ '' Java object free'', []] else []]"

section \<open>CUDA\<close>

definition CUDAEvent_WriteEnabledOperations :: "seen \<Rightarrow> string" where
  "CUDAEvent_WriteEnabledOperations s =
     (if \<exists>i \<in> {0..<8}. is_flagged In_cuda s i then concat [
     lns [
         ''EVENT_TYPE'', ''0   '' @ print_d CUDACALL_EV @ ''    CUDA library call''],
     lns [
         ''VALUES'', ''0 End''],
     if is_flagged In_cuda s 0 then lns [
         print_d (CUDALAUNCH_EV - CUDABASE_EV) @ '' cudaLaunch''] else [],
     if is_flagged In_cuda s 1 then lns [
         print_d (CUDACONFIGCALL_EV - CUDABASE_EV) @ '' cudaConfigureCall''] else [],
     if is_flagged In_cuda s 2 then lns [
         print_d (CUDAMEMCPY_EV - CUDABASE_EV) @ '' cudaMemcpy''] else [],
     if is_flagged In_cuda s 3 then lns [
         print_d (CUDATHREADBARRIER_EV - CUDABASE_EV) @ '' cudaThreadSynchronize/cudaDeviceSynchronize''] else [],
     if is_flagged In_cuda s 4 then lns [
         print_d (CUDASTREAMBARRIER_EV - CUDABASE_EV) @ '' cudaStreamSynchronize''] else [],
     if is_flagged In_cuda s 5 then lns [
         print_d (CUDAMEMCPYASYNC_EV - CUDABASE_EV) @ '' cudaMemcpyAsync''] else [],
     if is_flagged In_cuda s 7 then lns [
         print_d (CUDADEVICERESET_EV - CUDABASE_EV) @ '' cudaDeviceReset''] else [],
     if is_flagged In_cuda s 6 then lns [
         print_d (CUDATHREADEXIT_EV - CUDABASE_EV) @ '' cudaThreadExit''] else [],
     lns [
         []],
     if is_flagged In_cuda s 2 \<or> is_flagged In_cuda s 5 then lns [
         ''EVENT_TYPE'', ''0   '' @ print_d CUDAMEMCPY_SIZE_EV @ ''    cudaMemcpy size'', []] else [],
     if is_flagged In_cuda s 4 then lns [
         ''EVENT_TYPE'', ''0    '' @ print_d CUDASTREAMBARRIER_THID_EV @ ''    Synchronized stream (on thread)'', []] else []]
      else [])"

section \<open>Other events\<close>

text \<open>\<open>mem_labels\<close> is what \<open>Address2Info_Write_MemReferenceCaller_Labels\<close> writes.\<close>

definition MISCEvent_WriteEnabledOperations :: "64 word \<Rightarrow> string \<Rightarrow> seen \<Rightarrow> string result" where
  "MISCEvent_WriteEnabledOperations options mem_labels s = rmap (\<lambda>ios. concat [
     if options AND 0x1000 \<noteq> 0 then lns [
         ''EVENT_TYPE'', ''6    6000    BG Processor ID'', ''6    6001    BG A Coordinate in Torus'',
         ''6    6002    BG B Coordinate in Torus'', ''6    6003    BG C Coordinate in Torus'',
         ''6    6004    BG D Coordinate in Torus'', ''6    6005    BG E Coordinate in Torus'', [], []] else [],
     if is_flagged In_misc s 5 then lns [
         ''EVENT_TYPE'', ''6    '' @ print_d GETCPU_EV @ ''    Executing CPU'',
         ''6    '' @ print_d CPU_EVENT_INTERVAL_EV @ ''    CPU-Event sampling interval'', [], []] else [],
     if is_flagged In_misc s 0 then lns [
         ''EVENT_TYPE'', ''6    '' @ print_d APPL_EV @ ''    Application'', ''VALUES'', ''0      End'',
         ''1      Begin'', [], [], ''EVENT_TYPE'',
         ''6    '' @ print_d CLOCK_FROM_SYSTEM_EV @ ''    RAW clock() value from system'', [], []] else [],
     if is_flagged In_misc s 1 then lns [
         ''EVENT_TYPE'', ''6    '' @ print_d FLUSH_EV @ ''    Flushing Traces'', ''VALUES'', ''0      End'',
         ''1      Begin'', [], []] else [],
     if is_flagged In_misc s 2 then lns [
         ''EVENT_TYPE'', ''6    '' @ print_d TRACING_EV @ ''    Tracing'', ''VALUES'', ''0      Disabled'',
         ''1      Enabled'', [], []] else [],
     if is_flagged In_misc s 6 then lns [
         ''EVENT_TYPE'', ''6    '' @ print_d TRACE_INIT_EV @ ''    Trace initialization'', ''VALUES'', ''0      End'',
         ''1      Begin'', [], []] else [],
     if is_flagged In_misc s 3 then lns [
         ''EVENT_TYPE'', ''6    '' @ print_d IO_EV @ ''    I/O calls'', ''VALUES''] @
       concat ios @ lns [
         [], [], ''EVENT_TYPE'', ''6    '' @ print_d IO_SIZE_EV @ ''    I/O size'', [], [], ''EVENT_TYPE'',
         ''6    '' @ print_d IO_DESCRIPTOR_EV @ ''    I/O descriptor'', [], [], ''EVENT_TYPE'',
         ''6    '' @ print_d IO_DESCRIPTOR_TYPE_EV @ ''    I/O descriptor type'', ''VALUES'', ''0    Unknown type'',
         ''1    Regular file'', ''2    Socket'', ''3    FIFO or PIPE'', ''4    Terminal'', [], []] else [],
     if is_flagged In_misc s 4 then lns [
         ''EVENT_TYPE'', ''6    '' @ print_d FORK_SYSCALL_EV @ ''    Process-related syscalls'', ''VALUES'',
         ''0      End'', ''1      fork()'', ''2      wait()'', ''3      waitpid()'', ''4      exec() or similar'',
         ''5      system()'', [], []] else [],
     if is_flagged In_misc s 7 then lns [
         ''EVENT_TYPE'', ''6    '' @ print_d DYNAMIC_MEM_EV @ ''    Dynamic memory calls'', ''VALUES'',
         ''0      End'', ''1      malloc()'', ''2      free()'', ''3      realloc()'', ''4      calloc()'',
         ''5      posix_memalign()'', ''6      memkind_malloc()'', ''7      memkind_calloc()'',
         ''8      memkind_realloc()'', ''9      memkind_posix_memalign()'', ''10      memkind_free()'',
         ''11      kmpc_malloc()'', ''12      kmpc_free()'', ''13      kmpc_realloc()'', ''14      kmpc_calloc()'',
         ''15      kmpc_aligned_malloc()'', [], [], ''EVENT_TYPE'',
         ''6    '' @ print_d DYNAMIC_MEM_REQUESTED_SIZE_EV @ ''    Requested size in dynamic memory call'',
         ''6    '' @ print_d DYNAMIC_MEM_POINTER_IN_EV @ ''    In pointer (free, realloc)'',
         ''6    '' @ print_d DYNAMIC_MEM_POINTER_OUT_EV @ ''    Out pointer (malloc, calloc, realloc)'', [], [],
         ''EVENT_TYPE'', ''6    '' @ print_d MEMKIND_PARTITION_EV @ ''    Memkind partition'', ''VALUES'',
         ''0      End'', ''1      Default'', ''2      HBW'', ''3      HBW Huge TLB'', ''4      HBW Preferred'',
         ''5      HBW Preferred Huge TLB'', ''6      Huge TLB'', ''7      HBW GBTLB'', ''8      HBW Preferred GBTLB'',
         ''9      GBTLB'', ''10      HBW Interleave'', ''11      Interleave'', ''12      Other'', [], []] else [],
     if is_flagged In_misc s 8 then lns [
         ''EVENT_TYPE'', ''6    '' @ print_d SAMPLING_ADDRESS_LD_EV @ ''    Sampled address (load)'',
         ''6    '' @ print_d SAMPLING_ADDRESS_ST_EV @ ''    Sampled address (store)'', [], [], ''EVENT_TYPE'',
         ''6    '' @ print_d SAMPLING_ADDRESS_MEM_LEVEL_EV @ ''    Memory hierarchy location for sampled address'',
         ''VALUES'', ''0 other (uncacheable or I/O)'', ''1 L1 cache'', ''2 Line Fill Buffer (LFB)'', ''3 L2 cache'',
         ''4 L3 cache'', ''5 Remote cache (1 hop)'', ''6 Remote cache (2 hops)'', ''7 DRAM (local)'',
         ''8 DRAM (remote, 1 hop)'', ''9 DRAM (remote, 2 hops)'', [], [], ''EVENT_TYPE'',
         ''6    '' @ print_d SAMPLING_ADDRESS_MEM_HITORMISS_EV @ ''    Memory hierarchy location for sampled address hit?'',
         ''VALUES'', ''0 N/A'', ''1 hit'', ''2 miss'', [], [], ''EVENT_TYPE'',
         ''6    '' @ print_d SAMPLING_ADDRESS_TLB_LEVEL_EV @ ''    TLB hierarchy location for sampled address'',
         ''VALUES'', ''0 other (hw walker or OS fault handler)'', ''1 L1 TLB'', ''2 L2 TLB'', [], [], ''EVENT_TYPE'',
         ''6    '' @ print_d SAMPLING_ADDRESS_TLB_HITORMISS_EV @ ''    TLB hierarchy location for sampled address hit?'',
         ''VALUES'', ''0 N/A'', ''1 hit'', ''2 miss'', [], [], ''EVENT_TYPE'',
         ''6    '' @ print_d SAMPLING_ADDRESS_REFERENCE_COST_EV @ ''    Memory reference cost in core cycles'', [], []] else [],
     if is_flagged In_misc s 7 \<or> is_flagged In_misc s 8 then mem_labels else [],
     lns [
         ''EVENT_TYPE'', ''6    '' @ print_d PID_EV @ ''    Process IDentifier'',
         ''6    '' @ print_d PPID_EV @ ''    Parent Process IDentifier'',
         ''6    '' @ print_d FORK_DEPTH_EV @ ''    fork() depth'', [], []]])
     (if is_flagged In_misc s 3
      then rcollect (\<lambda>(v, label). rmap (\<lambda>l. print_d (uint v) @ ''   '' @ l @ newline) (print_s label)) (io_labels s) else Inr [])"

section \<open>Software counters of MPI\<close>

definition SoftCountersEvent_WriteEnabled_MPI_Operations :: "mpi_usage \<Rightarrow> string" where
  "SoftCountersEvent_WriteEnabled_MPI_Operations u = concat [
     if MPI_SoftCounters_used u ! 0 then lns [
         ''EVENT_TYPE'', ''0    '' @ print_d MPI_IPROBE_COUNTER_EV @ ''    MPI_Iprobe misses'', [], [], []] else [],
     if MPI_SoftCounters_used u ! 1 then lns [
         ''EVENT_TYPE'', ''0    '' @ print_d MPI_TIME_OUTSIDE_IPROBES_EV @ ''    Elapsed time outside MPI_Iprobe'',
         [], [], []] else [],
     if MPI_SoftCounters_used u ! 7 then lns [
         ''EVENT_TYPE'', ''0    '' @ print_d MPI_TIME_OUTSIDE_TESTS_EV @ ''    Elapsed time outside MPI_Test'', [],
         [], []] else [],
     if MPI_SoftCounters_used u ! 2 then lns [
         ''EVENT_TYPE'', ''0    '' @ print_d MPI_TEST_COUNTER_EV @ ''    MPI_Test misses'', [], [], []] else [],
     if MPI_SoftCounters_used u ! 3 then lns [
         ''EVENT_TYPE'', ''1    50100001    Send Size in MPI Global OP'',
         ''1    50100002    Recv Size in MPI Global OP'', ''1    50100003    Root in MPI Global OP'',
         ''1    50100004    Communicator in MPI Global OP'', [], []] else [],
     if MPI_SoftCounters_used u ! 4 then lns [
         ''EVENT_TYPE'',
         ''0    '' @ print_d MPI_REQUEST_GET_STATUS_COUNTER_EV @ ''    MPI_Request_get_status counter'', [], [], []] else [],
     if MPI_SoftCounters_used u ! 5 then lns [
         ''EVENT_TYPE'',
         ''0    '' @ print_d MPI_TIME_OUTSIDE_MPI_REQUEST_GET_STATUS_EV @ ''    Elapsed time outside MPI_Request_get_status'',
         [], [], []] else [],
     if MPI_SoftCounters_used u ! 6 then lns [
         ''EVENT_TYPE'', ''0    '' @ print_d MPI_IO_SIZE_EV @ ''    I/O size'', [], [], []] else []]"

section \<open>The names of the calls\<close>

definition openshmem_events_labels :: "string list" where
  "openshmem_events_labels = [
     ''start_pes'', ''shmem_my_pe'', ''_my_pe'', ''shmem_n_pes'', ''_num_pes'', ''shmem_pe_accessible'',
     ''shmem_addr_accessible'', ''shmem_ptr'', ''shmalloc'', ''shfree'', ''shrealloc'', ''shmemalign'',
     ''shmem_double_put'', ''shmem_float_put'', ''shmem_int_put'', ''shmem_long_put'', ''shmem_longdouble_put'',
     ''shmem_longlong_put'', ''shmem_put32'', ''shmem_put64'', ''shmem_put128'', ''shmem_putmem'',
     ''shmem_short_put'', ''shmem_char_p'', ''shmem_short_p'', ''shmem_int_p'', ''shmem_long_p'',
     ''shmem_longlong_p'', ''shmem_float_p'', ''shmem_double_p'', ''shmem_longdouble_p'', ''shmem_double_iput'',
     ''shmem_float_iput'', ''shmem_int_iput'', ''shmem_iput32'', ''shmem_iput64'', ''shmem_iput128'',
     ''shmem_long_iput'', ''shmem_longdouble_iput'', ''shmem_longlong_iput'', ''shmem_short_iput'',
     ''shmem_double_get'', ''shmem_float_get'', ''shmem_get32'', ''shmem_get64'', ''shmem_get128'',
     ''shmem_getmem'', ''shmem_int_get'', ''shmem_long_get'', ''shmem_longdouble_get'', ''shmem_longlong_get'',
     ''shmem_short_get'', ''shmem_char_g'', ''shmem_short_g'', ''shmem_int_g'', ''shmem_long_g'',
     ''shmem_longlong_g'', ''shmem_float_g'', ''shmem_double_g'', ''shmem_longdouble_g'', ''shmem_double_iget'',
     ''shmem_float_iget'', ''shmem_iget32'', ''shmem_iget64'', ''shmem_iget128'', ''shmem_int_iget'',
     ''shmem_long_iget'', ''shmem_longdouble_iget'', ''shmem_longlong_iget'', ''shmem_short_iget'',
     ''shmem_int_add'', ''shmem_long_add'', ''shmem_longlong_add'', ''shmem_int_cswap'', ''shmem_long_cswap'',
     ''shmem_longlong_cswap'', ''shmem_double_swap'', ''shmem_float_swap'', ''shmem_int_swap'', ''shmem_long_swap'',
     ''shmem_longlong_swap'', ''shmem_swap'', ''shmem_int_finc'', ''shmem_long_finc'', ''shmem_longlong_finc'',
     ''shmem_int_inc'', ''shmem_long_inc'', ''shmem_longlong_inc'', ''shmem_int_fadd'', ''shmem_long_fadd'',
     ''shmem_longlong_fadd'', ''shmem_barrier_all'', ''shmem_barrier'', ''shmem_broadcast32'',
     ''shmem_broadcast64'', ''shmem_collect32'', ''shmem_collect64'', ''shmem_fcollect32'', ''shmem_fcollect64'',
     ''shmem_int_and_to_all'', ''shmem_long_and_to_all'', ''shmem_longlong_and_to_all'', ''shmem_short_and_to_all'',
     ''shmem_double_max_to_all'', ''shmem_float_max_to_all'', ''shmem_int_max_to_all'', ''shmem_long_max_to_all'',
     ''shmem_longdouble_max_to_all'', ''shmem_longlong_max_to_all'', ''shmem_short_max_to_all'',
     ''shmem_double_min_to_all'', ''shmem_int_wait'', ''shmem_int_wait_until'', ''shmem_long_wait'',
     ''shmem_long_wait_until'', ''shmem_longlong_wait'', ''shmem_longlong_wait_until'', ''shmem_short_wait'',
     ''shmem_short_wait_until'', ''shmem_wait'', ''shmem_wait_until'', ''shmem_fence'', ''shmem_quiet'',
     ''shmem_clear_lock'', ''shmem_set_lock'', ''shmem_test_lock'', ''shmem_clear_cache_inv'',
     ''shmem_set_cache_inv'', ''shmem_clear_cache_line_inv'', ''shmem_set_cache_line_inv'', ''shmem_udcflush'',
     ''shmem_udcflush_line'']"

definition GetOPENSHMEMLabel :: "nat \<Rightarrow> string result" where
  "GetOPENSHMEMLabel call =
     (if call < length openshmem_events_labels then Inr (openshmem_events_labels ! call) else Inl Undefined)"

definition WriteEnabled_OPENSHMEM_Operations :: "seen \<Rightarrow> string result" where
  "WriteEnabled_OPENSHMEM_Operations s =
     (if is_flagged In_openshmem s 0
      then rmap (\<lambda>ls. lns [
          ''EVENT_TYPE'', ''0    '' @ print_d OPENSHMEM_BASE_EVENT @ ''    OpenSHMEM calls'', ''VALUES'',
          ''0 Outside OpenSHMEM''] @
          concat ls @ lns [
          [], [], ''EVENT_TYPE'', ''0    '' @ print_d OPENSHMEM_SENDBYTES_EV @ ''    OpenSHMEM outgoing bytes'', [],
          [], ''EVENT_TYPE'', ''0    '' @ print_d OPENSHMEM_RECVBYTES_EV @ ''    OpenSHMEM incoming bytes'', [], []])
        (rcollect (\<lambda>u. rmap (\<lambda>l. print_d (int (u + 1)) @ '' '' @ l @ newline) (GetOPENSHMEMLabel u)) [0..<132])
      else Inr [])"

end
