(* ===== verification/Openshmem_Trace.thy ===== *)
theory Openshmem_Trace
  imports Openshmem_Correct Call_Labels Event_Handlers_Correct
begin

text \<open>
  The calls of OpenSHMEM from the program to the trace: the merger has a handler for every event of a call, and the
  labels file gives the value it writes the name of the function.
\<close>

section \<open>Labels\<close>

lemma labels_length [simp]: "length openshmem_events_labels = 132"
  by (simp add: openshmem_events_labels_def)

lemma label_setup: "openshmem_events_labels ! nat (event_setup c - OPENSHMEM_BASE_EVENT) = name_setup c"
  by (cases c) (simp_all add: openshmem_events_labels_def)

lemma label_put: "openshmem_events_labels ! nat (event_put c - OPENSHMEM_BASE_EVENT) = name_put c"
  by (cases c) (simp_all add: openshmem_events_labels_def)

lemma label_iput: "openshmem_events_labels ! nat (event_iput c - OPENSHMEM_BASE_EVENT) = name_iput c"
  by (cases c) (simp_all add: openshmem_events_labels_def)

lemma label_get: "openshmem_events_labels ! nat (event_get c - OPENSHMEM_BASE_EVENT) = name_get c"
  by (cases c) (simp_all add: openshmem_events_labels_def)

lemma label_iget: "openshmem_events_labels ! nat (event_iget c - OPENSHMEM_BASE_EVENT) = name_iget c"
  by (cases c) (simp_all add: openshmem_events_labels_def)

lemma label_atomic: "openshmem_events_labels ! nat (event_atomic c - OPENSHMEM_BASE_EVENT) = name_atomic c"
  by (cases c) (simp_all add: openshmem_events_labels_def)

lemma label_collective: "openshmem_events_labels ! nat (event_collective c - OPENSHMEM_BASE_EVENT) = name_collective c"
  by (cases c) (simp_all add: openshmem_events_labels_def)

lemma label_sync: "openshmem_events_labels ! nat (event_sync c - OPENSHMEM_BASE_EVENT) = name_sync c"
  by (cases c) (simp_all add: openshmem_events_labels_def)

lemma label_call: "openshmem_events_labels ! nat (event_of c - OPENSHMEM_BASE_EVENT) = name_of c"
  by (cases c) (simp_all only: event_of.simps name_of.simps label_setup label_put label_iput label_get label_iget
    label_atomic label_collective label_sync)

text \<open>All functions that are traced: \<open>start_pes\<close> and the others.\<close>

fun event_called :: "shmem_call option \<Rightarrow> int" where
  "event_called None = START_PES_EV"
| "event_called (Some c) = event_of c"

fun function_called :: "shmem_call option \<Rightarrow> string" where
  "function_called None = ''start_pes''"
| "function_called (Some c) = name_of c"

lemma called_range: "52000000 \<le> event_called c" "event_called c < 52000132"
  using event_range by (cases c; simp)+

lemma label_of: "GetOPENSHMEMLabel (nat (event_called c - OPENSHMEM_BASE_EVENT)) = Inr (function_called c)"
proof -
  have "openshmem_events_labels ! nat (event_called c - OPENSHMEM_BASE_EVENT) = function_called c"
  proof (cases c)
    case None
    then show ?thesis by (simp add: openshmem_events_labels_def)
  qed (simp only: event_called.simps function_called.simps label_call)
  then show ?thesis using called_range [of c] by (simp add: GetOPENSHMEMLabel_def)
qed

text \<open>The value the merger writes for an event of a call.\<close>

lemma small_word: "0 \<le> k \<Longrightarrow> k < 2 ^ 31 \<Longrightarrow> sint (word_of_int k :: 32 word) = k"
    "0 \<le> k \<Longrightarrow> k < 2 ^ 32 \<Longrightarrow> uint (word_of_int k :: 32 word) = k"
  by (simp_all add: sint_sbintrunc' signed_take_bit_int_eq_self uint_word_of_int)

lemma wide_uint: "uint (ucast (w :: 32 word) :: 64 word) = uint w"
  by (rule uint_up_ucast) (simp add: is_up)

lemma call_value:
  assumes "ev_event (o_event a) = word_of_int (event_called c)" and "ev_value (o_event a) = EVT_BEGIN"
  shows "uint (shmem_value a) = event_called c - OPENSHMEM_BASE_EVENT + 1" and "EvType a = event_called c"
proof -
  show ty: "EvType a = event_called c"
    using assms(1) called_range [of c] by (simp add: EvType_def small_word(1))
  have "shmem_value a = ucast (word_of_int (event_called c - OPENSHMEM_BASE_EVENT + 1) :: 32 word)"
    using assms(2) by (simp only: shmem_value_def ty EvValue64_def EVT_BEGIN_def) simp
  moreover have "0 \<le> event_called c - OPENSHMEM_BASE_EVENT + 1" "event_called c - OPENSHMEM_BASE_EVENT + 1 < 2 ^ 32"
    using called_range [of c] by simp_all
  ultimately show "uint (shmem_value a) = event_called c - OPENSHMEM_BASE_EVENT + 1"
    by (simp only: wide_uint small_word(2))
qed

text \<open>Every label is a line of the labels file.\<close>

lemma line_within: "c = A @ M @ B \<Longrightarrow> \<exists>pre post. (Inr (X @ c @ Y) :: 'a list result) = Inr (pre @ M @ post)"
  by (intro exI [of _ "X @ A"] exI [of _ "B @ Y"]) simp

lemma label_line:
  assumes "is_flagged In_openshmem s 0" and "u < 132"
  shows "\<exists>pre post. WriteEnabled_OPENSHMEM_Operations s =
    Inr (pre @ (print_d (int (u + 1)) @ '' '' @ openshmem_events_labels ! u @ newline) @ post)"
proof -
  let ?line = "\<lambda>u. print_d (int (u + 1)) @ '' '' @ openshmem_events_labels ! u @ newline"
  have r: "rcollect (\<lambda>u. rmap (\<lambda>l. print_d (int (u + 1)) @ '' '' @ l @ newline) (GetOPENSHMEMLabel u)) [0..<132] =
      Inr (map ?line [0..<132])"
    by (rule rcollect_Inr) (simp add: GetOPENSHMEMLabel_def)
  have "[0..<132] = [0..<u] @ u # [Suc u..<132]"
    using upt_add_eq_append [of 0 u "132 - u"] upt_conv_Cons [of u 132] assms(2) by simp
  then have "concat (map ?line [0..<132]) = concat (map ?line [0..<u]) @ ?line u @ concat (map ?line [Suc u..<132])"
    by (simp only: map_append list.map concat_append concat.simps)
  from line_within [OF this] show ?thesis
    unfolding WriteEnabled_OPENSHMEM_Operations_def r rmap_simps by (simp only: assms(1) if_True)
qed

section \<open>Handlers\<close>

lemma call_handler: "\<exists>h. Semantics_getEventHandler (event_called c) = Some h \<and> handler_class h = OPENSHMEM_TYPE"
proof -
  have keys: "openshmem_events = [52000000..52000131]" by code_simp
  have "event_called c \<in> set (map fst PRV_OPENSHMEM_Event_Handlers)"
    using called_range [of c] unfolding table_keys(6) keys set_upto atLeastAtMost_iff by linarith
  then have "registered (event_called c)" using registered_parts(8) by (rule registered_single)
  moreover have "band (event_called c) = OPENSHMEM_TYPE" using called_range [of c] by (simp add: band_def)
  ultimately show ?thesis using getEventHandler_Some by metis
qed

text \<open>What the handlers of OpenSHMEM do with an event that begins a call.\<close>

lemma handler_writes:
  assumes "handler_class h = OPENSHMEM_TYPE" and "shmem_value a \<noteq> EVT_END"
  shows "\<exists>sizes. run_event_handler h S a = in_order ([switch_state (shmem_Get_State (EvType a)) True a, show_state S a,
      Merger_State.put_event S OPENSHMEM_BASE_EVENT (shmem_value a) a] @ sizes) \<and>
    sizes \<in> {[], [Merger_State.put_event S OPENSHMEM_SENDBYTES_EV (ucast (Get_EvSize (o_event a))) a],
      [Merger_State.put_event S OPENSHMEM_RECVBYTES_EV (ucast (Get_EvSize (o_event a))) a]}"
proof -
  obtain k where h: "h = Accel_handler k" using assms(1) by (cases h) (auto simp: handler_class_def)
  have call: "shmem_call S a = in_order [switch_state (shmem_Get_State (EvType a)) True a, show_state S a,
      Merger_State.put_event S OPENSHMEM_BASE_EVENT (shmem_value a) a]"
    using assms(2) by (simp add: shmem_call_def)
  have one: "in_order [in_order fs, g] = in_order (fs @ [g])" for fs :: "(merger \<Rightarrow> merger result) list" and g
    by (simp add: fun_eq_iff in_order_append)
  have run: "run_accel H_Other_OPENSHMEM_Event S a = in_order ([switch_state (shmem_Get_State (EvType a)) True a, show_state S a,
      Merger_State.put_event S OPENSHMEM_BASE_EVENT (shmem_value a) a] @ [])"
    "run_accel H_Any_Outgoing_OPENSHMEM_Event S a = in_order ([switch_state (shmem_Get_State (EvType a)) True a, show_state S a,
      Merger_State.put_event S OPENSHMEM_BASE_EVENT (shmem_value a) a] @ [Merger_State.put_event S OPENSHMEM_SENDBYTES_EV (ucast (Get_EvSize (o_event a))) a])"
    "run_accel H_Any_Incoming_OPENSHMEM_Event S a = in_order ([switch_state (shmem_Get_State (EvType a)) True a, show_state S a,
      Merger_State.put_event S OPENSHMEM_BASE_EVENT (shmem_value a) a] @ [Merger_State.put_event S OPENSHMEM_RECVBYTES_EV (ucast (Get_EvSize (o_event a))) a])"
    by (simp_all only: run_accel.simps Other_OPENSHMEM_Event_def Any_Outgoing_OPENSHMEM_Event_def
      Any_Incoming_OPENSHMEM_Event_def call one append_Nil2)
  from assms(1) h have "k = H_Other_OPENSHMEM_Event \<or> k = H_Any_Outgoing_OPENSHMEM_Event \<or> k = H_Any_Incoming_OPENSHMEM_Event"
    by (cases k) (simp_all add: handler_class_def)
  then show ?thesis unfolding h run_event_handler.simps by (elim disjE) (use run in blast)+
qed

section \<open>Properties\<close>

text \<open>The tracer of task 2 with a buffer of six events, and a library that keeps the arguments of its calls.\<close>

definition ex_tracer :: "c_value list list tracer" where
  "ex_tracer = \<lparr>mpitrace_on = True, tracejant = True, TracingBitmap = [False, False, True], TASKID = 2,
     Extrae_inInstrumentation = Some False, Extrae_inSampling = Some False,
     TracingBuffer = \<lparr>main = new_ring 6 True, FlushCallback = Some Cb_Flush, CachedEvents = [], VictimCache = None,
       trace_file = \<lparr>file_data = [], answers = []\<rparr>\<rparr>,
     circular_buffering = False, Deferred_Signal_FlushAndTerminate = False, clock = of_nat, clock_reads = 0, last_read_clock = 0,
     MPI_Deepness = 0, Current_Trace_Mode = TRACE_MODE_DETAIL_NO, Future_Trace_Mode = TRACE_MODE_DETAIL_NO,
     Pending_Trace_Mode_Change = False, First_Trace_Mode = True, LastCPUEmissionTime = 0, LastCPUEvent = 0, MinimumCPUEventTime = 0,
     AlwaysEmitCPUEvent = False, processor = (\<lambda>n. 3), Trace_Caller_Enabled = (\<lambda>ty. True),
     Trace_Caller = (\<lambda>ty. if ty = CALLER_MPI then Some [True, True] else None),
     Caller_Deepness = (\<lambda>ty. if ty = CALLER_MPI then 2 else 0), Caller_Count = (\<lambda>ty. if ty = CALLER_MPI then 2 else 0),
     call_stack = map of_nat [0..<8], file_size = 0, hasMinimumTracingTime = False, MinimumTracingTime = 0,
     initTracingTime = 0,
     unset_event = \<lparr>ev_param = (0, 0, 0), ev_value = 0, ev_time = 0, ev_hwc = [], ev_event = 0, ev_hwcset = 0\<rparr>, world = []\<rparr>"

definition ex_hooks :: "c_value list list shmem_hooks" where
  "ex_hooks = Get_OPENSHMEM_Hook_Points (\<lambda>name. Some (\<lambda>args w. Inr (C_void, w @ [args])))"

definition ex_calls :: "shmem_call list" where
  "ex_calls = [Call_put (Shmem_int_put 64 128 3 1), Call_collective (Shmem_int_and_to_all 64 128 3 0 1 4 256 512)]"

lemma ex_hooks_all: "ex_hooks (name_of c) = Some (\<lambda>args w. Inr (C_void, w @ [args]))" if "c \<in> set ex_calls"
  using that by (auto simp: ex_hooks_def ex_calls_def Get_OPENSHMEM_Hook_Points_def hook_points_put_def hook_points_collective_def)

lemma ex_tracer_idle: "idle ex_tracer" "logged ex_tracer = []"
  using new_ring_inv [of 6 True]
  by (simp_all add: idle_def tracing_def own_bit_def callers_ok_def ex_tracer_def logged_def new_ring_def fill_def contents_def
      steady_def file_events_def)

lemma ex_calls_plain:
  "plain_program ex_hooks ex_calls (world ex_tracer) = Inr ([C_void, C_void],
     [[C_ptr 64, C_ptr 128, C_long 3, C_int 1], [C_ptr 64, C_ptr 128, C_int 3, C_int 0, C_int 1, C_int 4, C_ptr 256, C_ptr 512]])"
  using ex_hooks_all [of "Call_put (Shmem_int_put 64 128 3 1)"]
    ex_hooks_all [of "Call_collective (Shmem_int_and_to_all 64 128 3 0 1 4 256 512)"]
  by (simp add: ex_calls_def ex_tracer_def)

lemma ex_calls_sizes: "\<forall>c \<in> set ex_calls. \<exists>n. bytes_of c (TASKID ex_tracer) = Inr n"
  by (simp add: ex_calls_def strided_bytes_def)

text \<open>
  C13. Recording an event ends and loses nothing when the tracer is on, its buffer is not circular and has room for at
  least five events, the trace file is open, has no limit of size and takes every write, and no signal to end is pending:
  though a full buffer is flushed by a function that itself inserts events, the insertion returns, with the event after
  all that was recorded before, and between them only events of the tracer itself (the flush and the processor).
\<close>

theorem event_recorded:
  assumes "tracing s"
  shows "\<exists>s1 es. BUFFER_INSERT e s = Inr s1 \<and> tracing s1 \<and> logged s1 = logged s @ es @ [e] \<and> calls es = []"
proof -
  from BUFFER_INSERT_law [OF assms, of e] obtain s1 es where
    "BUFFER_INSERT e s = Inr s1" "extends s (es @ [e]) s1" "own es" by metis
  then show ?thesis by (intro exI [of _ s1] exI [of _ es]) (simp add: extends_def own_calls)
qed

theorem event_recorded_witness:
  "\<exists>s1 es. BUFFER_INSERT (local_event ex_tracer 5 MPI_INIT_EV 1) ex_tracer = Inr s1 \<and> tracing s1 \<and>
    logged s1 = es @ [local_event ex_tracer 5 MPI_INIT_EV 1] \<and> calls es = []"
  using event_recorded [of ex_tracer "local_event ex_tracer 5 MPI_INIT_EV 1"] ex_tracer_idle
  by (simp add: idle_def)

text \<open>
  C6. A program that calls OpenSHMEM (any function with a wrapper but \<open>start_pes\<close>) while the tracer is on as in C13 gets from
  the wrappers what it gets from the library, the results and the state; the trace gets, in order and for every call,
  an event that begins it and one that ends it, besides the events of the tracer itself (flushes, processors, modes,
  callers), and the thread is left outside the instrumentation. The event that begins a put or a get, with or
  without strides, has the number of bytes it moves, modulo 2^32. (Nothing is said of the size another call is given; the shift in
  the formula of a collective has to be defined.)
\<close>

theorem shmem_calls_traced:
  assumes "idle s" and "plain_program hooks cs (world s) = Inr (vs, w)"
    and "\<forall>c \<in> set cs. \<exists>n. bytes_of c (TASKID s) = Inr n"
  shows "\<exists>s1 es ns. run_program hooks cs s = Inr (vs, s1) \<and> world s1 = w \<and> idle s1 \<and> logged s1 = logged s @ es \<and>
    map shown (calls es) = concat (map2 event_pair cs ns) \<and>
    list_all2 (\<lambda>c n. one_sided c \<longrightarrow> n = of_nat (moved (name_of c) (args_of c))) cs ns"
proof -
  from calls_law [OF assms] obtain s1 es where "run_program hooks cs s = Inr (vs, s1)" "world s1 = w" "idle s1"
    "logged s1 = logged s @ es" "map shown (calls es) = concat (map (call_events (TASKID s)) cs)" by blast
  moreover from call_events_pairs [OF assms(3)] obtain ns where
    "concat (map (call_events (TASKID s)) cs) = concat (map2 event_pair cs ns)"
    "list_all2 (\<lambda>c n. one_sided c \<longrightarrow> n = of_nat (moved (name_of c) (args_of c))) cs ns" by blast
  ultimately show ?thesis by (intro exI [of _ s1] exI [of _ es] exI [of _ ns]) simp
qed

theorem shmem_calls_traced_witness:
  "\<exists>s1 n. run_program ex_hooks ex_calls ex_tracer = Inr ([C_void, C_void], s1) \<and> idle s1 \<and>
    world s1 = [[C_ptr 64, C_ptr 128, C_long 3, C_int 1], [C_ptr 64, C_ptr 128, C_int 3, C_int 0, C_int 1, C_int 4, C_ptr 256, C_ptr 512]] \<and>
    map shown (calls (logged s1)) = [(52000014, 1, 12), (52000014, 0, 0), (52000099, 1, n), (52000099, 0, 0)]"
proof -
  from shmem_calls_traced [OF ex_tracer_idle(1) ex_calls_plain ex_calls_sizes] obtain s1 es ns where
    r: "run_program ex_hooks ex_calls ex_tracer = Inr ([C_void, C_void], s1)" "idle s1" "logged s1 = es"
    "world s1 = [[C_ptr 64, C_ptr 128, C_long 3, C_int 1], [C_ptr 64, C_ptr 128, C_int 3, C_int 0, C_int 1, C_int 4, C_ptr 256, C_ptr 512]]"
    "map shown (calls es) = concat (map2 event_pair ex_calls ns)"
    "list_all2 (\<lambda>c n. one_sided c \<longrightarrow> n = of_nat (moved (name_of c) (args_of c))) ex_calls ns"
    unfolding ex_tracer_idle(2) append_Nil by blast
  from r(6) obtain m n where n: "ns = [m, n]" "m = of_nat (moved ''shmem_int_put'' [C_ptr 64, C_ptr 128, C_long 3, C_int 1])"
    unfolding ex_calls_def list_all2_Cons1 list_all2_Nil by auto
  have "moved ''shmem_int_put'' [C_ptr 64, C_ptr 128, C_long 3, C_int 1] = 12"
    by (simp only: moved_simps parts_put) simp
  with n have "ns = [12, n]" by simp
  then show ?thesis using r by (intro exI [of _ s1] exI [of _ n]) (simp add: ex_calls_def event_pair_def EVT_BEGIN_def EVT_END_def)
qed

text \<open>
  C22. With the tracer off, or while it is at work itself, the wrappers of OpenSHMEM, but that of \<open>start_pes\<close>, which starts
  the tracer, are the functions of the library: the same results, the same end of the program where one fails, and nothing of the tracer changes.
\<close>

theorem shmem_calls_untouched:
  assumes "\<not> EXTRAE_ON s \<or> Backend_inInstrumentation s"
  shows "run_program hooks cs s = rmap (\<lambda>(vs, w). (vs, s\<lparr>world := w\<rparr>)) (plain_program hooks cs (world s))"
  using calls_off [OF assms] .

theorem shmem_calls_untouched_witness:
  "run_program ex_hooks ex_calls (ex_tracer\<lparr>mpitrace_on := False\<rparr>) = Inr ([C_void, C_void], ex_tracer\<lparr>mpitrace_on := False, world :=
     [[C_ptr 64, C_ptr 128, C_long 3, C_int 1], [C_ptr 64, C_ptr 128, C_int 3, C_int 0, C_int 1, C_int 4, C_ptr 256, C_ptr 512]]\<rparr>)"
  using shmem_calls_untouched [of "ex_tracer\<lparr>mpitrace_on := False\<rparr>" ex_hooks ex_calls] ex_calls_plain
  by (simp add: EXTRAE_ON_def)

text \<open>
  C14. The names in the trace are those of the functions that were called: for each event the tracer records where a call of
  OpenSHMEM begins, \<open>start_pes\<close> included, the merger has a handler of OpenSHMEM, which enters the state of the function,
  shows it, and writes one event of the type of the calls, after which come at most the bytes sent or received; and the value of
  that event is, in the labels file, the number of the line with the name of the function.
\<close>

theorem shmem_call_named:
  assumes "ev_event (o_event a) = word_of_int (event_called c)" and "ev_value (o_event a) = EVT_BEGIN"
    and "is_flagged In_openshmem seen 0"
  shows "\<exists>h v sizes pre post. Semantics_getEventHandler (EvType a) = Some h \<and> handler_class h = OPENSHMEM_TYPE \<and>
    run_event_handler h S a = in_order ([switch_state (shmem_Get_State (EvType a)) True a, show_state S a,
      Merger_State.put_event S OPENSHMEM_BASE_EVENT v a] @ sizes) \<and>
    sizes \<in> {[], [Merger_State.put_event S OPENSHMEM_SENDBYTES_EV (ucast (Get_EvSize (o_event a))) a],
      [Merger_State.put_event S OPENSHMEM_RECVBYTES_EV (ucast (Get_EvSize (o_event a))) a]} \<and>
    WriteEnabled_OPENSHMEM_Operations seen = Inr (pre @ (print_d (uint v) @ '' '' @ function_called c @ newline) @ post)"
proof -
  note cv = call_value [OF assms(1,2)]
  let ?u = "nat (event_called c - OPENSHMEM_BASE_EVENT)"
  have u: "?u < 132" "int (?u + 1) = uint (shmem_value a)"
    using called_range [of c] cv(1) by simp_all
  have l: "openshmem_events_labels ! ?u = function_called c" using label_of [of c] u(1) by (simp add: GetOPENSHMEMLabel_def)
  from call_handler [of c] obtain h where h: "Semantics_getEventHandler (EvType a) = Some h" "handler_class h = OPENSHMEM_TYPE"
    unfolding cv(2) by blast
  have "shmem_value a \<noteq> EVT_END" using cv(1) called_range [of c] by (auto simp: EVT_END_def)
  from handler_writes [OF h(2) this, of S] obtain sizes where
    "run_event_handler h S a = in_order ([switch_state (shmem_Get_State (EvType a)) True a, show_state S a,
       Merger_State.put_event S OPENSHMEM_BASE_EVENT (shmem_value a) a] @ sizes)"
    "sizes \<in> {[], [Merger_State.put_event S OPENSHMEM_SENDBYTES_EV (ucast (Get_EvSize (o_event a))) a],
      [Merger_State.put_event S OPENSHMEM_RECVBYTES_EV (ucast (Get_EvSize (o_event a))) a]}" by blast
  moreover from label_line [OF assms(3) u(1)] obtain pre post where
    "WriteEnabled_OPENSHMEM_Operations seen = Inr (pre @ (print_d (uint (shmem_value a)) @ '' '' @ function_called c @ newline) @ post)"
    unfolding u(2) l by blast
  ultimately show ?thesis using h by blast
qed

definition ex_begin :: occurrence where
  "ex_begin = \<lparr>o_event = \<lparr>ev_param = (0, 0, 0), ev_value = 1, ev_time = 5, ev_hwc = [], ev_event = 52000000, ev_hwcset = 0\<rparr>,
     o_following = [], o_time = 5, o_cpu = 1, o_ptask = 1, o_task = 1, o_thread = 1\<rparr>"

theorem shmem_call_named_witness:
  "\<forall>S. \<exists>h v sizes pre post. Semantics_getEventHandler (EvType ex_begin) = Some h \<and> handler_class h = OPENSHMEM_TYPE \<and>
    run_event_handler h S ex_begin = in_order ([switch_state (shmem_Get_State (EvType ex_begin)) True ex_begin, show_state S ex_begin,
      Merger_State.put_event S OPENSHMEM_BASE_EVENT v ex_begin] @ sizes) \<and>
    WriteEnabled_OPENSHMEM_Operations (Enable_OPENSHMEM_Operation 52000000 nothing_seen) =
      Inr (pre @ (print_d (uint v) @ '' '' @ ''start_pes'' @ newline) @ post)"
proof
  fix S
  have "ev_event (o_event ex_begin) = word_of_int (event_called None)" "ev_value (o_event ex_begin) = EVT_BEGIN"
    "is_flagged In_openshmem (Enable_OPENSHMEM_Operation 52000000 nothing_seen) 0"
    by (simp_all add: ex_begin_def EVT_BEGIN_def Enable_OPENSHMEM_Operation_def flag_if_def is_flagged_def)
  from shmem_call_named [OF this, of S]
  show "\<exists>h v sizes pre post. Semantics_getEventHandler (EvType ex_begin) = Some h \<and> handler_class h = OPENSHMEM_TYPE \<and>
    run_event_handler h S ex_begin = in_order ([switch_state (shmem_Get_State (EvType ex_begin)) True ex_begin, show_state S ex_begin,
      Merger_State.put_event S OPENSHMEM_BASE_EVENT v ex_begin] @ sizes) \<and>
    WriteEnabled_OPENSHMEM_Operations (Enable_OPENSHMEM_Operation 52000000 nothing_seen) =
      Inr (pre @ (print_d (uint v) @ '' '' @ ''start_pes'' @ newline) @ post)"
    by (metis function_called.simps(1))
qed

end
