(* ===== verification/Spec2Isabelle.thy ===== *)
theory Spec2Isabelle
  imports C_Backend_Correct Base64 Event_Properties Request_Map Time_Sync_Correct Comm_Queues State_Stack_Correct
    Write_File_Buffer_Correct Prv_Printf Mpi_Events_Correct Comm_Order
    File_Set_Correct Communicators_Correct Prv_Join_Correct Translated_Trace Openshmem_Trace
begin

text \<open>
  Verification library for the C code of COMPSs.

  Two programs of the repository carry logic of their own in C and are modelled here.

  \<^bold>\<open>The interface compiler\<close> \<open>compssgen\<close> (under
  \<open>src/compss/programming_model/bindings/c/src/compssgen\<close>) reads an interface in an IDL and writes three
  files: the stubs an application calls, the workers that execute its tasks, and a header. Parsing calls
  the semantic actions of \<open>semantic.c\<close>, which build a table of functions and of class names; after a
  successful parse \<open>c-backend.c\<close> prints the code of each function. What it prints is run by the
  binding (\<open>bindings-common/src/GS_compss.cc\<close> submits a task) and by the worker process.

    \<^item> \<open>Param_Metadata\<close>, \<open>Type_Registry\<close>, \<open>Semantic\<close>, \<open>Idl_Grammar\<close>: \<open>param_metadata.h\<close>, \<open>types.c\<close>,
      \<open>semantic.c\<close>, \<open>corba-gram.y\<close> (the actions in the order of the LALR parser, whose tables are generated, so the
      input is a syntax tree). A well-formed interface is accepted, all others are rejected with a
      message, and no action fails an assertion; only a file without any interface passes the check and fails later.
    \<^item> \<open>Emit\<close>, \<open>Stub_Gen\<close>, \<open>Worker_Gen\<close>, \<open>Backend_Lib\<close>, \<open>C_Backend\<close>: \<open>backendlib.c\<close>, \<open>c-backend.c\<close>, \<open>main.c\<close>.
      The statements are a datatype; \<open>Emit\<close> is the \<open>fprintf\<close> that turns them into the text.
    \<^item> \<open>Stub_Exec\<close>, \<open>Worker_Exec\<close>: the meaning of the generated statements that pass parameters, with the loop
      of \<open>GS_ExecuteTask\<close>. \<open>Stub_Correct\<close> and \<open>Worker_Correct\<close> show that a stub submits the task its prototype
      describes and that a worker reads back every parameter, with the conversions of C to the declared type, and which prototypes
      neither can handle; \<open>C_Backend_Correct\<close> is about the files as a whole.
    \<^item> \<open>Base64\<close>: \<open>bindinglib/base64.c\<close>, with its agreement with the usual definition and the round trip on bytes below 128 (the
      encoder reads outside its table for others).

  \<^bold>\<open>The Extrae tracer and its merger\<close> (under \<open>src/dependencies/extrae/src\<close>). The tracer
  records events (\<open>event_t\<close>) in a ring per thread and writes the ring to a file; the merger reads the
  files of all threads, translates every event with a handler, and writes the lines of a Paraver
  trace. The theories follow an event through both.

    \<^item> \<open>Event_Record\<close>: \<open>common/record.h\<close>. \<open>Event_Buffer\<close> with \<open>Event_Buffer_Correct\<close>, \<open>Event_Iterators\<close> and
      \<open>Event_Properties\<close>: \<open>tracer/wrappers/API/buffers.c\<close>. The ring with its pointers is an array with
      indices; \<open>contents\<close> is the list it stands for. A file is the bytes written to it, with the answers that the calls of \<open>write\<close>
      still have to give (the number of bytes taken, or an error; all bytes when none is left). Shown: what each policy for a full buffer keeps, what a flush
      writes, what the iterators visit, and where the code loses events or blocks.
    \<^item> \<open>Tracer_State\<close>, \<open>Tracer_Correct\<close>: the state of a thread that is traced and the macros that record an event
      (\<open>tracer/wrappers/API/wrapper.c\<close>, \<open>trace_buffers.h\<close>, \<open>trace_macros.h\<close>, \<open>mode.c\<close>, \<open>calltrace.c\<close>). A full buffer is flushed by
      a function that inserts events itself; the fuel of \<open>insert_at\<close> bounds how deep that nests, and for a ring of at
      least five events two are enough. Every step is shown to add what it should and events of the tracer's own.
    \<^item> \<open>Openshmem_Probes\<close>, \<open>Openshmem_Wrappers\<close>, \<open>Openshmem_Correct\<close>, \<open>Openshmem_Trace\<close>: the probes and wrappers of
      \<open>tracer/wrappers/openshmem\<close>, one definition per function. A program is a list of calls (\<open>shmem_call\<close>, all functions with a
      wrapper but \<open>start_pes\<close>, whose wrapper starts the tracer); the wrappers do not change what it computes, and its trace names the functions
      it called, in the labels of the merger. The bytes of a put or get are stated from the element types, not from the probes.
    \<^item> \<open>Hash_Table\<close>, \<open>Hash_Table_Correct\<close>, \<open>Request_Map\<close>: the table of pending requests
      (\<open>tracer/wrappers/MPI/hash_table.c\<close>). The locale of \<open>Request_Map\<close> is the map the wrappers expect.
    \<^item> \<open>Time_Sync\<close>, \<open>Time_Sync_Correct\<close>: \<open>common/timesync.c\<close>.
    \<^item> \<open>New_Queue\<close>, \<open>Comm_Queues\<close>: \<open>common/new-queue.c\<close>, \<open>merger/paraver/communication_queues.c\<close>; the locale of
      \<open>Comm_Queues\<close> is the queue searched by a predicate, interpreted for sends and receives.
    \<^item> \<open>State_Stack\<close>, \<open>State_Stack_Correct\<close>: \<open>merger/paraver/paraver_state.c\<close> as a list of states.
    \<^item> \<open>Write_File_Buffer\<close>, \<open>Write_File_Buffer_Correct\<close>: \<open>merger/paraver/write_file_buffer.c\<close> as a list of
      elements; its locale is interpreted on bytes, and on records in \<open>Prv_Timeline\<close>.
    \<^item> \<open>Prv_Records\<close>, \<open>Prv_Timeline\<close>: the record functions of \<open>merger/paraver/paraver_generator.c\<close>; the file of a thread
      is the timeline of its states.
    \<^item> \<open>Mpi_Events\<close>, \<open>Mpi_Events_Correct\<close>: the tables of MPI events (\<open>merger/paraver/mpi_prv_events.c\<close>,
      \<open>common/events.c\<close>).
    \<^item> \<open>Intercommunicators\<close>, \<open>Merger_State\<close>, \<open>Mpi_Semantics\<close>, \<open>Comm_Match\<close>, \<open>Comm_Order\<close>: every handler of
      \<open>merger/paraver/mpi_prv_semantics.c\<close> on the state of the merger. A send and a receive that belong
      together never both wait, and the communication written does not depend on which came first. The group of a spawn file is
      read from its name.
    \<^item> \<open>Prv_Printf\<close>: \<open>merger/paraver/paraver_nprintf.c\<close>, the lines of the trace.
    \<^item> \<open>File_Merge\<close>: taking the smallest next element of several files, with the locale \<open>merged_files\<close>, interpreted
      three times below. \<open>File_Set\<close>, \<open>File_Set_Correct\<close>: the readers of the intermediate files in
      \<open>merger/paraver/file_set.c\<close>, the synchronisation points and the circular buffer; every event is delivered once
      and in order.
    \<^item> \<open>Communicators\<close>, \<open>Communicators_Correct\<close>: \<open>merger/paraver/mpi_comunicadors.c\<close> and the handler of
      \<open>merger/common/communicators.c\<close>, which reads the members of a definition from the file set.
    \<^item> \<open>Prv_Join\<close>, \<open>Prv_Join_Correct\<close>: the record files are read in blocks, merged, and printed
      (\<open>Paraver_JoinFiles_Master\<close>): the trace is the text of all records in the order of time.

    \<^item> \<open>Event_Types\<close>: the codes and groups of \<open>common/events.h\<close>, \<open>common/events.c\<close>. \<open>Merger_Tables\<close>: the stacks, vectors,
      address spaces and dependencies of \<open>merger/common\<close>. \<open>Used_Operations\<close>, \<open>Call_Labels\<close>: the flags and
      the texts of the labels file for each group of operations.
    \<^item> \<open>Accel_Semantics\<close> (pthread, Java, CUDA, OpenCL, OpenSHMEM), \<open>Omp_Semantics\<close>, \<open>Misc_Semantics\<close>: the handlers of the
      other groups of events and their tables, from the files \<open>*_prv_semantics.c\<close>.
    \<^item> \<open>Event_Handlers\<close>, \<open>Event_Handlers_Correct\<close>: the choice of the handler (\<open>merger/common/semantics.c\<close>) and the main
      loop of \<open>merger/paraver/trace_to_prv.c\<close>, from the initial states to the flushed record files.
    \<^item> \<open>Thread_File\<close>, \<open>Translated_Files\<close>, \<open>Translated_Trace\<close>: the record files under all of this. \<open>Thread_File\<close> states the
      invariant of one thread (whole records, one open state at most, the closed ones a chain of intervals),
      \<open>Translated_Files\<close> shows that every handler keeps it for all threads, also when a communication is written
      into the place reserved for it, and \<open>Translated_Trace\<close> concludes that no translation that
      returns leaves an unfinished state, if no event turns the tracing of a task off (a send of a disabled task may overwrite a record).

  \<^bold>\<open>Conventions.\<close> A C function that may not return normally gives a \<open>result\<close> of \<open>Prelude\<close>: \<open>Inl\<close> with the reason
  (a failed assertion, an exit, undefined behaviour, or a wait that never ends), or \<open>Inr\<close> with its value. Reading
  outside an array, through a null pointer or of an unset variable is \<open>Inl Undefined\<close>, so a theorem that a
  function gives \<open>Inr\<close> also says that its memory accesses are defined. Integers have their width. Static
  variables are fields of a state that is passed on. Loops over lists are recursive, and no theorem bounds
  its fuel away: where fuel is used (\<open>drain\<close> of \<open>File_Merge\<close>, the search loops of \<open>Hash_Table\<close>) the theorems
  state that the bound given suffices.

  \<^bold>\<open>Configuration.\<close> Little-endian, 64-bit; the sequential merger (without \<open>PARALLEL_MERGE\<close>); hardware counters
  and \<open>HAVE_BFD\<close> off; the variant of the printers without \<open>sprintf\<close>, and output files without \<open>zlib\<close>.

  \<^bold>\<open>Not modelled.\<close> The generated scanner and parser tables; the JNI and pipe parts of the bindings and
  the Python extension, which only pass values on to the Java runtime; the Java runtime itself; in Extrae the
  wrappers that only intercept calls (MPI, OpenMP, pthread, CUDA, OpenCL), the configuration and the
  start-up of the tracer (and with it the wrapper of \<open>start_pes\<close>), sampling, the Dimemas output, the parallel merge, the symbol files and their translation with BFD,
  the general part of the labels file and the on-line analysis; vendored libraries and examples.
\<close>

end
